(* ===== verification/Rv_Prelude.thy ===== *)
theory Rv_Prelude
  imports Main "HOL-Library.Word"
begin

unbundle bit_operations_syntax

text \<open>
  Shared vocabulary of the development: the names of the C++ integer types of
  \<^verbatim>\<open>src/src/asm/types.h\<close> as word types, the collections the component proofs feed to
  the simplifier, and the generic facts on bits, masks and lists that several components use.

  A C++ signed integer type is modelled by the word type of its width, read with \<open>sint\<close>;
  \<open>ucast\<close> is a conversion that truncates or zero-extends, \<open>scast\<close> one that sign-extends.
\<close>

section \<open>Integer types\<close>

type_synonym u8 = "8 word"
type_synonym u16 = "16 word"
type_synonym u32 = "32 word"
type_synonym u64 = "64 word"
type_synonym s32 = "32 word"
type_synonym s64 = "64 word"
type_synonym inst_t = "64 word"

section \<open>Collections\<close>

named_theorems rv_codec_simps \<open>decoding and encoding of instruction operands\<close>
named_theorems rv_switch_defs \<open>the nested switches of the opcode decoder\<close>
named_theorems rv_table_simps \<open>generated opcode tables\<close>

section \<open>Fields and masks\<close>

lemma bit_word_less_64 [dest]: "bit (x :: u64) n \<Longrightarrow> n < 64"
  using bit_imp_le_length [of x n] by simp

lemma bit_word_less_32 [dest]: "bit (x :: u32) n \<Longrightarrow> n < 32"
  using bit_imp_le_length [of x n] by simp

text \<open>A selector \<open>(x >> k) & m\<close> that has value \<open>c\<close> fixes the bits of \<open>x\<close> under \<open>m << k\<close>.\<close>

lemma field_eq_and:
  fixes x :: "'a::len word"
  assumes "drop_bit k x AND m = c"
  shows "x AND push_bit k m = push_bit k c"
proof (rule bit_word_eqI)
  fix n assume n: "n < LENGTH('a)"
  have "bit c (n - k) \<longleftrightarrow> bit x (k + (n - k)) \<and> bit m (n - k)"
    using assms by (auto simp: bit_simps)
  then show "bit (x AND push_bit k m) n \<longleftrightarrow> bit (push_bit k c) n"
    using n by (auto simp: bit_simps)
qed

text \<open>Two selectors that are or-ed together under disjoint masks.\<close>

lemma or_field_split:
  fixes a b m1 m2 c :: "'a::len word"
  assumes "(a AND m1) OR (b AND m2) = c" and "m1 AND m2 = 0"
  shows "a AND m1 = c AND m1" and "b AND m2 = c AND m2"
proof -
  have dj: "\<not> (bit m1 n \<and> bit m2 n)" for n
    using assms(2) by (metis bit_and_iff bit_0_eq bot_apply bot_bool_def)
  show "a AND m1 = c AND m1"
    by (rule bit_word_eqI) (use dj assms(1) in \<open>auto simp: bit_simps\<close>)
  show "b AND m2 = c AND m2"
    by (rule bit_word_eqI) (use dj assms(1) in \<open>auto simp: bit_simps\<close>)
qed

lemma and_subset:
  fixes x :: "'a::len word"
  assumes "x AND M = C" and "N AND M = N"
  shows "x AND N = C AND N"
proof -
  have "x AND N = x AND (N AND M)" using assms(2) by simp
  also have "\<dots> = (x AND M) AND N" by (simp add: ac_simps)
  finally show ?thesis using assms(1) by simp
qed

lemma and_join:
  fixes x :: "'a::len word"
  assumes "x AND M = C" and "x AND N = D"
  shows "x AND (M OR N) = C OR D"
  using assms by (metis bit.conj_disj_distrib)

text \<open>Conversely, what is known of \<open>x\<close> under a mask decides every selector inside the mask.\<close>

lemma and_eq_field:
  fixes x :: "'a::len word"
  assumes "x AND M = C" and "push_bit k m AND M = push_bit k m" and "drop_bit k (push_bit k m) = m"
  shows "drop_bit k x AND m = drop_bit k C AND m"
proof -
  have "x AND push_bit k m = C AND push_bit k m"
    using assms(1,2) by (rule and_subset)
  then have "drop_bit k (x AND push_bit k m) = drop_bit k (C AND push_bit k m)"
    by simp
  then show ?thesis using assms(3) by simp
qed

lemma and_foldr_or_member:
  fixes N :: "'a::len word"
  shows "N \<in> set Ms \<Longrightarrow> N AND foldr (OR) Ms 0 = N"
proof (induction Ms)
  case (Cons M Ms)
  then show ?case by (auto simp: bit.conj_disj_distrib)
qed simp

lemma and_mask_parts:
  fixes x :: "'a::len word"
  assumes "foldr (OR) Ms 0 = M" and "C AND M = C"
  shows "x AND M = C \<longleftrightarrow> list_all (\<lambda>N. x AND N = C AND N) Ms"
proof
  assume x: "x AND M = C"
  show "list_all (\<lambda>N. x AND N = C AND N) Ms"
    unfolding list_all_iff
    using and_subset [OF x] and_foldr_or_member [of _ Ms] assms(1) by auto
next
  assume "list_all (\<lambda>N. x AND N = C AND N) Ms"
  then have "x AND foldr (OR) Ms 0 = C AND foldr (OR) Ms 0"
    by (induction Ms) (auto simp: bit.conj_disj_distrib)
  then show "x AND M = C" using assms by simp
qed

lemma sel_norm:
  fixes x :: "'a::len word"
  assumes "c AND m = c" and "drop_bit k (push_bit k m) = m"
  shows "drop_bit k x AND m = c \<longleftrightarrow> x AND push_bit k m = push_bit k c"
proof
  assume "x AND push_bit k m = push_bit k c"
  then have "drop_bit k x AND m = drop_bit k (push_bit k c) AND m"
    by (rule and_eq_field) (simp_all add: assms(2))
  also have "\<dots> = drop_bit k (push_bit k c) AND drop_bit k (push_bit k m)"
    by (simp add: assms(2))
  also have "\<dots> = c"
  proof (rule bit_word_eqI)
    fix i assume "i < LENGTH('a)"
    moreover have "bit (drop_bit k (push_bit k m)) i \<longleftrightarrow> bit m i" by (simp add: assms(2))
    moreover have "bit c i \<longleftrightarrow> bit c i \<and> bit m i" using assms(1) by (metis bit_and_iff)
    ultimately show "bit (drop_bit k (push_bit k c) AND drop_bit k (push_bit k m)) i = bit c i"
      by (auto simp: bit_simps)
  qed
  finally show "drop_bit k x AND m = c" .
qed (rule field_eq_and)

lemma or_sel:
  fixes a b c m1 m2 :: "'a::len word"
  assumes "m1 AND m2 = 0" and "c AND (m1 OR m2) = c"
  shows "(a AND m1) OR (b AND m2) = c \<longleftrightarrow> a AND m1 = c AND m1 \<and> b AND m2 = c AND m2"
proof
  assume "a AND m1 = c AND m1 \<and> b AND m2 = c AND m2"
  then have "(a AND m1) OR (b AND m2) = (c AND m1) OR (c AND m2)" by simp
  also have "\<dots> = c AND (m1 OR m2)" by (simp add: bit.conj_disj_distrib)
  finally show "(a AND m1) OR (b AND m2) = c" using assms(2) by simp
qed (use or_field_split [OF _ assms(1)] in blast)

lemma and_or_absorb_zero:
  fixes x y m :: "'a::len word"
  assumes "y AND m = 0"
  shows "(x OR y) AND m = x AND m"
  using assms by (simp add: bit.conj_disj_distrib2)

lemma uint_less_bit:
  fixes x :: "'a::len word"
  assumes "uint x < 2 ^ k" and "bit x i"
  shows "i < k"
proof (rule ccontr)
  assume "\<not> i < k"
  moreover have "take_bit k (uint x) = uint x"
    using assms(1) by (simp add: take_bit_int_eq_self)
  ultimately have "\<not> bit (uint x) i"
    by (metis bit_take_bit_iff)
  then show False
    using assms(2) bit_imp_le_length by (auto simp: bit_uint_iff)
qed

lemma less_numeral_bit:
  fixes x :: "'a::len word"
  assumes "x < n" and "uint n \<le> 2 ^ k" and "bit x i"
  shows "i < k"
  using assms by (intro uint_less_bit [of x k i]) (auto simp: word_less_def)

section \<open>Signed ranges\<close>

lemma signed_take_bit_word_eq:
  fixes x :: "'a::len word"
  assumes "- (2 ^ k) \<le> sint x" and "sint x < 2 ^ k"
  shows "signed_take_bit k x = x"
proof -
  have "signed_take_bit k (sint x) = sint x"
    using assms by (simp add: signed_take_bit_int_eq_self_iff)
  then have "word_of_int (signed_take_bit k (sint x)) = (word_of_int (sint x) :: 'a word)"
    by simp
  moreover have "word_of_int (signed_take_bit k (sint x)) = signed_take_bit k x"
  proof (rule bit_word_eqI)
    fix n assume n: "n < LENGTH('a)"
    have top: "i = LENGTH('a) - Suc 0" if "LENGTH('a) - Suc 0 \<le> i" "i < LENGTH('a)" for i
      using that by simp
    show "bit (word_of_int (signed_take_bit k (sint x)) :: 'a word) n \<longleftrightarrow> bit (signed_take_bit k x) n"
      using n by (auto simp: bit_simps min_def dest: top)
  qed
  ultimately show ?thesis by simp
qed

section \<open>Tables\<close>

text \<open>Every element of an array satisfies a property of its index and itself.\<close>

primrec all_from :: "nat \<Rightarrow> (nat \<Rightarrow> 'a \<Rightarrow> bool) \<Rightarrow> 'a list \<Rightarrow> bool" where
  "all_from n P [] \<longleftrightarrow> True"
| "all_from n P (x # xs) \<longleftrightarrow> P n x \<and> all_from (n + 1) P xs"

lemma all_from_nth: "all_from n P xs \<Longrightarrow> i < length xs \<Longrightarrow> P (n + i) (xs ! i)"
proof (induction xs arbitrary: n i)
  case (Cons x xs)
  then show ?case using Cons.IH [of "n + 1" "i - 1"] by (cases i) auto
qed simp

end
