(* ===== verification/Rv_Imm.thy ===== *)
theory Rv_Imm
  imports Rv_Prelude
begin

text \<open>
  The bit-range templates of \<^verbatim>\<open>src/src/asm/types.h\<close>: \<^verbatim>\<open>B<N,M>\<close> is a range of immediate bits,
  \<^verbatim>\<open>S<K,L,B...>\<close> places a sequence of ranges in the instruction bits \<open>K..L\<close>, most significant
  range first, and \<^verbatim>\<open>simm_operand_t\<close> / \<^verbatim>\<open>uimm_operand_t\<close> combine several such segments.
  The template parameters become arguments, the recursion over a parameter pack becomes
  recursion over a list.

  The second half proves, once for all well-formed layouts, that decoding inverts encoding, that
  encoding writes only the bits of its own field, and that decoding reads only those.  The laws
  are the interface \<open>operand_codec\<close>; every operand of the ISA is an interpretation of it.
\<close>

section \<open>The templates\<close>

type_synonym brange = "nat \<times> nat"

definition B_width :: "brange \<Rightarrow> nat" where
  "B_width b = fst b - snd b + 1"

datatype segment = S (seg_K: nat) (seg_L: nat) (seg_ranges: "brange list")

primrec S_offset :: "brange list \<Rightarrow> nat" where
  "S_offset [] = 0"
| "S_offset (b # bs) = S_offset bs + B_width b"

definition S_shift :: "nat \<Rightarrow> brange \<Rightarrow> brange list \<Rightarrow> int" where
  "S_shift L b bs = int (S_offset (b # bs)) + int L - int (B_width b) - int (snd b)"

definition B_mask :: "brange \<Rightarrow> u64" where
  "B_mask b = (push_bit (fst b + 1) 1 - 1) XOR (push_bit (snd b) 1 - 1)"

primrec S_decode :: "nat \<Rightarrow> brange list \<Rightarrow> u64 \<Rightarrow> u64" where
  "S_decode L [] inst = 0"
| "S_decode L (b # bs) inst =
     ((if S_shift L b bs < 0 then push_bit (nat (- S_shift L b bs)) inst
       else drop_bit (nat (S_shift L b bs)) inst) AND B_mask b) OR S_decode L bs inst"

primrec S_encode :: "nat \<Rightarrow> brange list \<Rightarrow> u64 \<Rightarrow> u64" where
  "S_encode L [] imm = 0"
| "S_encode L (b # bs) imm =
     (if S_shift L b bs < 0 then drop_bit (nat (- S_shift L b bs)) (imm AND B_mask b)
      else push_bit (nat (S_shift L b bs)) (imm AND B_mask b)) OR S_encode L bs imm"

primrec imm_operand_decode :: "segment list \<Rightarrow> u64 \<Rightarrow> u64" where
  "imm_operand_decode [] inst = 0"
| "imm_operand_decode (H # T) inst =
     imm_operand_decode T inst OR S_decode (seg_L H) (seg_ranges H) inst"

primrec imm_operand_encode :: "segment list \<Rightarrow> u64 \<Rightarrow> u64" where
  "imm_operand_encode [] imm = 0"
| "imm_operand_encode (H # T) imm =
     imm_operand_encode T imm OR S_encode (seg_L H) (seg_ranges H) imm"

text \<open>
  \<open>sign_extend<s64,W>\<close> assigns to a \<open>W\<close>-bit signed bit-field and reads it back.
\<close>

definition sign_extend :: "nat \<Rightarrow> u64 \<Rightarrow> u64" where
  "sign_extend W x = signed_take_bit (W - 1) x"

definition simm_operand_decode :: "nat \<Rightarrow> segment list \<Rightarrow> u64 \<Rightarrow> u64" where
  "simm_operand_decode W segs inst = sign_extend W (imm_operand_decode segs inst)"

definition simm_operand_encode :: "segment list \<Rightarrow> u64 \<Rightarrow> u64" where
  "simm_operand_encode segs imm = imm_operand_encode segs imm"

definition uimm_operand_decode :: "segment list \<Rightarrow> u64 \<Rightarrow> u64" where
  "uimm_operand_decode segs inst = imm_operand_decode segs inst"

definition uimm_operand_encode :: "segment list \<Rightarrow> u64 \<Rightarrow> u64" where
  "uimm_operand_encode segs imm = imm_operand_encode segs imm"

section \<open>Layouts: where each immediate bit lives\<close>

text \<open>
  A move \<open>(n, m, p)\<close> says that the immediate bits \<open>m..n\<close> sit at the instruction bits
  \<open>p..p + (n - m)\<close>.
\<close>

type_synonym move = "nat \<times> nat \<times> nat"

primrec S_moves :: "nat \<Rightarrow> brange list \<Rightarrow> move list" where
  "S_moves L [] = []"
| "S_moves L (b # bs) = (fst b, snd b, L + S_offset bs) # S_moves L bs"

primrec operand_moves :: "segment list \<Rightarrow> move list" where
  "operand_moves [] = []"
| "operand_moves (H # T) = S_moves (seg_L H) (seg_ranges H) @ operand_moves T"

fun move_ok :: "move \<Rightarrow> bool" where
  "move_ok (n, m, p) \<longleftrightarrow> m \<le> n \<and> n < 63 \<and> p + (n - m) < 64"

fun move_disjoint :: "move \<Rightarrow> move \<Rightarrow> bool" where
  "move_disjoint (n, m, p) (n', m', p') \<longleftrightarrow>
     (n < m' \<or> n' < m) \<and> (p + (n - m) < p' \<or> p' + (n' - m') < p)"

primrec wf_moves :: "move list \<Rightarrow> bool" where
  "wf_moves [] \<longleftrightarrow> True"
| "wf_moves (mv # ms) \<longleftrightarrow> move_ok mv \<and> list_all (move_disjoint mv) ms \<and> wf_moves ms"

definition wf_operand :: "segment list \<Rightarrow> bool" where
  "wf_operand segs \<longleftrightarrow> wf_moves (operand_moves segs)"

fun move_value_mask :: "move \<Rightarrow> u64" where
  "move_value_mask (n, m, p) = push_bit m (mask (n - m + 1))"

fun move_field_mask :: "move \<Rightarrow> u64" where
  "move_field_mask (n, m, p) = push_bit p (mask (n - m + 1))"

definition value_mask :: "segment list \<Rightarrow> u64" where
  "value_mask segs = foldr (\<lambda>mv acc. move_value_mask mv OR acc) (operand_moves segs) 0"

definition field_mask :: "segment list \<Rightarrow> u64" where
  "field_mask segs = foldr (\<lambda>mv acc. move_field_mask mv OR acc) (operand_moves segs) 0"

text \<open>The bits of a move, on the immediate and on the instruction side.\<close>

fun in_value :: "nat \<Rightarrow> move \<Rightarrow> bool" where
  "in_value i (n, m, p) \<longleftrightarrow> m \<le> i \<and> i \<le> n"

fun in_field :: "nat \<Rightarrow> move \<Rightarrow> bool" where
  "in_field j (n, m, p) \<longleftrightarrow> p \<le> j \<and> j \<le> p + (n - m)"

fun field_pos :: "nat \<Rightarrow> move \<Rightarrow> nat" where
  "field_pos i (n, m, p) = p + (i - m)"

fun value_pos :: "nat \<Rightarrow> move \<Rightarrow> nat" where
  "value_pos j (n, m, p) = m + (j - p)"

lemma bit_B_mask:
  assumes "fst b < 63" "snd b \<le> fst b"
  shows "bit (B_mask b) i \<longleftrightarrow> snd b \<le> i \<and> i \<le> fst b"
proof -
  have "B_mask b = mask (Suc (fst b)) XOR mask (snd b)"
    unfolding B_mask_def mask_eq_exp_minus_1 by simp
  then show ?thesis
    using assms by (auto simp: bit_simps less_Suc_eq_le)
qed

lemma bit_S_decode:
  assumes "\<forall>mv \<in> set (S_moves L bs). move_ok mv"
  shows "bit (S_decode L bs inst) i \<longleftrightarrow>
    (\<exists>mv \<in> set (S_moves L bs). in_value i mv \<and> bit inst (field_pos i mv))"
  using assms
proof (induction bs)
  case Nil
  then show ?case by simp
next
  case (Cons b bs)
  let ?s = "S_shift L b bs"
  obtain n m where b: "b = (n, m)" by (cases b)
  have s: "?s = int L + int (S_offset bs) - int m"
    by (simp add: S_shift_def b)
  have ok: "m \<le> n" "n < 63" "L + S_offset bs + (n - m) < 64"
    using Cons.prems by (auto simp: b)
  have "bit ((if ?s < 0 then push_bit (nat (- ?s)) inst else drop_bit (nat ?s) inst) AND B_mask b) i
    \<longleftrightarrow> m \<le> i \<and> i \<le> n \<and> bit inst (L + S_offset bs + (i - m))" (is "?l \<longleftrightarrow> ?r")
  proof (cases "?s < 0")
    case True
    then have "nat (- ?s) \<le> i \<and> i - nat (- ?s) = L + S_offset bs + (i - m)" if "m \<le> i"
      using that s by linarith
    then show ?thesis
      using True ok by (auto simp: b bit_simps bit_B_mask)
  next
    case False
    then have "nat ?s + i = L + S_offset bs + (i - m)" if "m \<le> i"
      using that s by linarith
    then show ?thesis
      using False ok by (auto simp: b bit_simps bit_B_mask)
  qed
  then show ?case
    using Cons by (auto simp: b bit_or_iff)
qed

lemma bit_S_encode:
  assumes "\<forall>mv \<in> set (S_moves L bs). move_ok mv"
  shows "bit (S_encode L bs imm) j \<longleftrightarrow>
    (\<exists>mv \<in> set (S_moves L bs). in_field j mv \<and> bit imm (value_pos j mv))"
  using assms
proof (induction bs)
  case Nil
  then show ?case by simp
next
  case (Cons b bs)
  let ?s = "S_shift L b bs"
  obtain n m where b: "b = (n, m)" by (cases b)
  let ?p = "L + S_offset bs"
  have s: "?s = int ?p - int m"
    by (simp add: S_shift_def b)
  have ok: "m \<le> n" "n < 63" "?p + (n - m) < 64"
    using Cons.prems by (auto simp: b)
  have "bit (if ?s < 0 then drop_bit (nat (- ?s)) (imm AND B_mask b)
      else push_bit (nat ?s) (imm AND B_mask b)) j
    \<longleftrightarrow> ?p \<le> j \<and> j \<le> ?p + (n - m) \<and> bit imm (m + (j - ?p))" (is "?l \<longleftrightarrow> ?r")
  proof (cases "?s < 0")
    case True
    have *: "nat (- ?s) + j = m + (j - ?p)" if "?p \<le> j"
      using that True s by linarith
    have "(m \<le> nat (- ?s) + j \<and> nat (- ?s) + j \<le> n) \<longleftrightarrow> ?p \<le> j \<and> j \<le> ?p + (n - m)"
      using True s ok by linarith
    then show ?thesis
      using True ok * by (auto simp: b bit_simps bit_B_mask)
  next
    case False
    have *: "j - nat ?s = m + (j - ?p)" if "?p \<le> j"
      using that False s by linarith
    have "(nat ?s \<le> j \<and> j < 64 \<and> m \<le> j - nat ?s \<and> j - nat ?s \<le> n) \<longleftrightarrow> ?p \<le> j \<and> j \<le> ?p + (n - m)"
      using False s ok by linarith
    then show ?thesis
      using False ok * by (auto simp: b bit_simps bit_B_mask)
  qed
  then show ?case
    using Cons by (auto simp: b bit_or_iff)
qed

section \<open>The operand interface\<close>

text \<open>
  What the instruction formats rely on: decoding inverts encoding on the bits the operand can
  hold, and the two only touch the operand's own field of the instruction word.
\<close>

locale operand_codec =
  fixes dec :: "u64 \<Rightarrow> u64" and enc :: "u64 \<Rightarrow> u64" and fmask :: u64 and vmask :: u64
  assumes dec_enc: "dec (enc x) = x AND vmask"
    and enc_dec: "enc (dec y) = y AND fmask"
    and enc_field: "enc x AND fmask = enc x"
    and dec_field: "dec (y AND fmask) = dec y"
    and dec_or: "dec (y OR z) = dec y OR dec z"
begin

lemma dec_zero: "dec 0 = 0"
proof -
  have "dec (0 OR enc 0) = dec 0 OR dec (enc 0)" by (rule dec_or)
  then show ?thesis by (simp add: dec_enc)
qed

lemma dec_outside: "y AND fmask = 0 \<Longrightarrow> dec y = 0"
  using dec_field [of y] dec_zero by simp

lemma dec_enc_or: "y AND fmask = 0 \<Longrightarrow> dec (enc x OR y) = x AND vmask"
  by (simp add: dec_or dec_outside dec_enc)

lemma dec_agree: "y AND fmask = z AND fmask \<Longrightarrow> dec y = dec z"
  using dec_field [of y] dec_field [of z] by simp

lemma enc_outside:
  assumes "m AND fmask = 0"
  shows "enc x AND m = 0"
proof -
  have "enc x AND m = enc x AND (m AND fmask)"
    using enc_field [of x] by (metis and.assoc and.commute)
  then show ?thesis using assms by simp
qed

lemma enc_inject:
  assumes "x AND vmask = x" and "y AND vmask = y" and "enc x = enc y"
  shows "x = y"
  using assms dec_enc by metis

end

section \<open>Every well-formed layout provides the interface\<close>

lemma wf_moves_ok: "wf_moves ms \<Longrightarrow> mv \<in> set ms \<Longrightarrow> move_ok mv"
  by (induction ms) auto

lemma move_disjoint_sym: "move_disjoint mv mv' \<longleftrightarrow> move_disjoint mv' mv"
  by (cases mv; cases mv') auto

lemma wf_moves_disjoint:
  "wf_moves ms \<Longrightarrow> mv \<in> set ms \<Longrightarrow> mv' \<in> set ms \<Longrightarrow> mv \<noteq> mv' \<Longrightarrow> move_disjoint mv mv'"
  by (induction ms) (auto simp: list_all_iff move_disjoint_sym)

lemma move_disjoint_field: "move_disjoint mv mv' \<Longrightarrow> in_field j mv \<Longrightarrow> \<not> in_field j mv'"
  by (cases mv; cases mv') auto

lemma move_disjoint_value: "move_disjoint mv mv' \<Longrightarrow> in_value i mv \<Longrightarrow> \<not> in_value i mv'"
  by (cases mv; cases mv') auto

lemma in_field_pos: "move_ok mv \<Longrightarrow> in_value i mv \<Longrightarrow>
    in_field (field_pos i mv) mv \<and> value_pos (field_pos i mv) mv = i"
  by (cases mv) auto

lemma in_value_pos: "move_ok mv \<Longrightarrow> in_field j mv \<Longrightarrow>
    in_value (value_pos j mv) mv \<and> field_pos (value_pos j mv) mv = j"
  by (cases mv) auto

lemma bit_operand_decode:
  assumes "wf_operand segs"
  shows "bit (imm_operand_decode segs inst) i \<longleftrightarrow>
    (\<exists>mv \<in> set (operand_moves segs). in_value i mv \<and> bit inst (field_pos i mv))"
proof -
  have "\<forall>mv \<in> set (operand_moves segs). move_ok mv"
    using assms wf_moves_ok by (auto simp: wf_operand_def)
  then show ?thesis
    by (induction segs) (auto simp: bit_or_iff bit_S_decode ball_Un bex_Un)
qed

lemma bit_operand_encode:
  assumes "wf_operand segs"
  shows "bit (imm_operand_encode segs imm) j \<longleftrightarrow>
    (\<exists>mv \<in> set (operand_moves segs). in_field j mv \<and> bit imm (value_pos j mv))"
proof -
  have "\<forall>mv \<in> set (operand_moves segs). move_ok mv"
    using assms wf_moves_ok by (auto simp: wf_operand_def)
  then show ?thesis
    by (induction segs) (auto simp: bit_or_iff bit_S_encode ball_Un bex_Un)
qed

lemma bit_foldr_or:
  "bit (foldr (\<lambda>x acc. f x OR acc) xs (0 :: u64)) i \<longleftrightarrow> (\<exists>x \<in> set xs. bit (f x) i)"
  by (induction xs) (auto simp: bit_or_iff)

lemma bit_move_value_mask: "move_ok mv \<Longrightarrow> bit (move_value_mask mv) i \<longleftrightarrow> in_value i mv"
  by (cases mv) (simp add: bit_simps, arith)

lemma bit_move_field_mask: "move_ok mv \<Longrightarrow> bit (move_field_mask mv) j \<longleftrightarrow> in_field j mv"
  by (cases mv) (simp add: bit_simps, arith)

lemma bit_value_mask:
  assumes "wf_operand segs"
  shows "bit (value_mask segs) i \<longleftrightarrow> (\<exists>mv \<in> set (operand_moves segs). in_value i mv)"
  unfolding value_mask_def bit_foldr_or
  using assms wf_moves_ok bit_move_value_mask by (metis wf_operand_def)

lemma bit_field_mask:
  assumes "wf_operand segs"
  shows "bit (field_mask segs) j \<longleftrightarrow> (\<exists>mv \<in> set (operand_moves segs). in_field j mv)"
  unfolding field_mask_def bit_foldr_or
  using assms wf_moves_ok bit_move_field_mask by (metis wf_operand_def)

text \<open>The precondition of the interface as a locale of its own: a layout that is well formed.\<close>

locale operand_layout =
  fixes segs :: "segment list"
  assumes wf: "wf_operand segs"
begin

lemma moves_ok: "mv \<in> set (operand_moves segs) \<Longrightarrow> move_ok mv"
  using wf wf_moves_ok by (auto simp: wf_operand_def)

lemma field_unique:
  "mv \<in> set (operand_moves segs) \<Longrightarrow> mv' \<in> set (operand_moves segs) \<Longrightarrow>
    in_field j mv \<Longrightarrow> in_field j mv' \<Longrightarrow> mv = mv'"
  using wf wf_moves_disjoint move_disjoint_field by (metis wf_operand_def)

lemma value_unique:
  "mv \<in> set (operand_moves segs) \<Longrightarrow> mv' \<in> set (operand_moves segs) \<Longrightarrow>
    in_value i mv \<Longrightarrow> in_value i mv' \<Longrightarrow> mv = mv'"
  using wf wf_moves_disjoint move_disjoint_value by (metis wf_operand_def)

lemma decode_encode: "imm_operand_decode segs (imm_operand_encode segs x) = x AND value_mask segs"
proof (rule bit_word_eqI)
  fix i :: nat
  have "(\<exists>mv' \<in> set (operand_moves segs). in_field (field_pos i mv) mv' \<and> bit x (value_pos (field_pos i mv) mv'))
      \<longleftrightarrow> bit x i" if "mv \<in> set (operand_moves segs)" "in_value i mv" for mv
    using that moves_ok field_unique in_field_pos by metis
  then show "bit (imm_operand_decode segs (imm_operand_encode segs x)) i = bit (x AND value_mask segs) i"
    by (auto simp: bit_operand_decode [OF wf] bit_operand_encode [OF wf] bit_and_iff
        bit_value_mask [OF wf])
qed

lemma encode_decode: "imm_operand_encode segs (imm_operand_decode segs y) = y AND field_mask segs"
proof (rule bit_word_eqI)
  fix j :: nat
  have "(\<exists>mv' \<in> set (operand_moves segs). in_value (value_pos j mv) mv' \<and> bit y (field_pos (value_pos j mv) mv'))
      \<longleftrightarrow> bit y j" if "mv \<in> set (operand_moves segs)" "in_field j mv" for mv
    using that moves_ok value_unique in_value_pos by metis
  then show "bit (imm_operand_encode segs (imm_operand_decode segs y)) j = bit (y AND field_mask segs) j"
    by (auto simp: bit_operand_decode [OF wf] bit_operand_encode [OF wf] bit_and_iff
        bit_field_mask [OF wf])
qed

lemma encode_field: "imm_operand_encode segs x AND field_mask segs = imm_operand_encode segs x"
  by (rule bit_word_eqI)
    (auto simp: bit_operand_encode [OF wf] bit_and_iff bit_field_mask [OF wf])

lemma decode_field: "imm_operand_decode segs (y AND field_mask segs) = imm_operand_decode segs y"
proof (rule bit_word_eqI)
  fix i :: nat
  show "bit (imm_operand_decode segs (y AND field_mask segs)) i = bit (imm_operand_decode segs y) i"
    unfolding bit_operand_decode [OF wf] bit_and_iff bit_field_mask [OF wf]
    using moves_ok in_field_pos by metis
qed

lemma decode_or: "imm_operand_decode segs (y OR z) = imm_operand_decode segs y OR imm_operand_decode segs z"
  by (rule bit_word_eqI) (auto simp: bit_operand_decode [OF wf] bit_or_iff)

end

sublocale operand_layout \<subseteq>
  operand_codec "imm_operand_decode segs" "imm_operand_encode segs" "field_mask segs" "value_mask segs"
  by unfold_locales (simp_all add: decode_encode encode_decode encode_field decode_field decode_or)

text \<open>Two layouts with disjoint fields, and words that are zero on the field.\<close>

context operand_layout
begin

lemma decode_outside:
  assumes "y AND M = 0" and "field_mask segs AND M = field_mask segs"
  shows "imm_operand_decode segs y = 0"
proof -
  have "y AND field_mask segs = 0" using and_subset [OF assms] by simp
  then show ?thesis by (rule dec_outside)
qed

lemma decode_other:
  assumes "wf_operand segs'" and "field_mask segs AND field_mask segs' = 0"
  shows "imm_operand_decode segs (imm_operand_encode segs' x) = 0"
proof (rule dec_outside, rule bit_word_eqI)
  fix n :: nat
  have "\<not> (bit (field_mask segs) n \<and> bit (field_mask segs') n)"
    using assms(2) by (metis bit_and_iff bit_0_eq bot_apply bot_bool_def)
  then show "bit (imm_operand_encode segs' x AND field_mask segs) n = bit 0 n"
    using bit_field_mask [OF assms(1)] bit_operand_encode [OF assms(1)] by (auto simp: bit_and_iff)
qed

lemma encode_mask:
  assumes "field_mask segs AND M = field_mask segs"
  shows "imm_operand_encode segs x AND M = imm_operand_encode segs x"
  using encode_field assms by (metis and.assoc and.commute)

end

end
