(* ===== verification/Rv_Operands.thy ===== *)
theory Rv_Operands
  imports Rv_Imm
begin

text \<open>
  The operand layouts of \<^verbatim>\<open>src/src/asm/operands.h\<close>, one constant per C++ typedef, and the two
  member functions \<open>decode\<close> and \<open>encode\<close> the typedefs share.  The masks of every operand (the
  instruction bits it occupies, the immediate bits it holds) are computed once here; the
  instruction formats use them to see that their operands do not overlap.
\<close>

datatype operand =
    uimm_operand (operand_W: nat) (operand_segs: "segment list")
  | simm_operand (operand_W: nat) (operand_segs: "segment list")

fun operand_decode :: "operand \<Rightarrow> u64 \<Rightarrow> u64" where
  "operand_decode (uimm_operand W segs) inst = uimm_operand_decode segs inst"
| "operand_decode (simm_operand W segs) inst = simm_operand_decode W segs inst"

fun operand_encode :: "operand \<Rightarrow> u64 \<Rightarrow> u64" where
  "operand_encode (uimm_operand W segs) imm = uimm_operand_encode segs imm"
| "operand_encode (simm_operand W segs) imm = simm_operand_encode segs imm"

definition operand_rd :: operand where
  "operand_rd = uimm_operand 5 [S 11 7 [(4, 0)]]"

definition operand_rs1 :: operand where
  "operand_rs1 = uimm_operand 5 [S 19 15 [(4, 0)]]"

definition operand_rs2 :: operand where
  "operand_rs2 = uimm_operand 5 [S 24 20 [(4, 0)]]"

definition operand_rs3 :: operand where
  "operand_rs3 = uimm_operand 5 [S 31 27 [(4, 0)]]"

definition operand_frd :: operand where
  "operand_frd = uimm_operand 5 [S 11 7 [(4, 0)]]"

definition operand_frs1 :: operand where
  "operand_frs1 = uimm_operand 5 [S 19 15 [(4, 0)]]"

definition operand_frs2 :: operand where
  "operand_frs2 = uimm_operand 5 [S 24 20 [(4, 0)]]"

definition operand_frs3 :: operand where
  "operand_frs3 = uimm_operand 5 [S 31 27 [(4, 0)]]"

definition operand_aq :: operand where
  "operand_aq = uimm_operand 1 [S 26 26 [(0, 0)]]"

definition operand_rl :: operand where
  "operand_rl = uimm_operand 1 [S 25 25 [(0, 0)]]"

definition operand_pred :: operand where
  "operand_pred = uimm_operand 4 [S 27 24 [(3, 0)]]"

definition operand_succ :: operand where
  "operand_succ = uimm_operand 4 [S 23 20 [(3, 0)]]"

definition operand_rm :: operand where
  "operand_rm = uimm_operand 3 [S 14 12 [(2, 0)]]"

definition operand_imm20 :: operand where
  "operand_imm20 = simm_operand 32 [S 31 12 [(31, 12)]]"

definition operand_oimm20 :: operand where
  "operand_oimm20 = simm_operand 32 [S 31 12 [(31, 12)]]"

definition operand_jimm20 :: operand where
  "operand_jimm20 = simm_operand 21 [S 31 12 [(20, 20), (10, 1), (11, 11), (19, 12)]]"

definition operand_imm12 :: operand where
  "operand_imm12 = simm_operand 12 [S 31 20 [(11, 0)]]"

definition operand_oimm12 :: operand where
  "operand_oimm12 = simm_operand 12 [S 31 20 [(11, 0)]]"

definition operand_csr12 :: operand where
  "operand_csr12 = uimm_operand 12 [S 31 20 [(11, 0)]]"

definition operand_simm12 :: operand where
  "operand_simm12 = simm_operand 12 [S 31 25 [(11, 5)], S 11 7 [(4, 0)]]"

definition operand_sbimm12 :: operand where
  "operand_sbimm12 = simm_operand 13 [S 31 25 [(12, 12), (10, 5)], S 11 7 [(4, 1), (11, 11)]]"

definition operand_zimm :: operand where
  "operand_zimm = uimm_operand 5 [S 19 15 [(4, 0)]]"

definition operand_shamt5 :: operand where
  "operand_shamt5 = uimm_operand 5 [S 24 20 [(4, 0)]]"

definition operand_shamt6 :: operand where
  "operand_shamt6 = uimm_operand 6 [S 25 20 [(5, 0)]]"

definition operand_shamt7 :: operand where
  "operand_shamt7 = uimm_operand 7 [S 26 20 [(6, 0)]]"

definition operand_crd0 :: operand where
  "operand_crd0 = uimm_operand 1 [S 12 12 [(0, 0)]]"

definition operand_crdq :: operand where
  "operand_crdq = uimm_operand 3 [S 4 2 [(2, 0)]]"

definition operand_crs1q :: operand where
  "operand_crs1q = uimm_operand 3 [S 9 7 [(2, 0)]]"

definition operand_crs1rdq :: operand where
  "operand_crs1rdq = uimm_operand 3 [S 9 7 [(2, 0)]]"

definition operand_crs2q :: operand where
  "operand_crs2q = uimm_operand 3 [S 4 2 [(2, 0)]]"

definition operand_crd :: operand where
  "operand_crd = uimm_operand 5 [S 11 7 [(4, 0)]]"

definition operand_crs1 :: operand where
  "operand_crs1 = uimm_operand 5 [S 11 7 [(4, 0)]]"

definition operand_crs1rd :: operand where
  "operand_crs1rd = uimm_operand 5 [S 11 7 [(4, 0)]]"

definition operand_crs2 :: operand where
  "operand_crs2 = uimm_operand 5 [S 6 2 [(4, 0)]]"

definition operand_cfrdq :: operand where
  "operand_cfrdq = uimm_operand 3 [S 4 2 [(2, 0)]]"

definition operand_cfrs2q :: operand where
  "operand_cfrs2q = uimm_operand 3 [S 4 2 [(2, 0)]]"

definition operand_cfrs2 :: operand where
  "operand_cfrs2 = uimm_operand 5 [S 6 2 [(4, 0)]]"

definition operand_cfrd :: operand where
  "operand_cfrd = uimm_operand 5 [S 11 7 [(4, 0)]]"

definition operand_cimmsh5 :: operand where
  "operand_cimmsh5 = uimm_operand 5 [S 6 2 [(4, 0)]]"

definition operand_cimmsh6 :: operand where
  "operand_cimmsh6 = uimm_operand 6 [S 12 12 [(5, 5)], S 6 2 [(4, 0)]]"

definition operand_cimmi :: operand where
  "operand_cimmi = simm_operand 6 [S 12 12 [(5, 5)], S 6 2 [(4, 0)]]"

definition operand_cnzimmi :: operand where
  "operand_cnzimmi = simm_operand 6 [S 12 12 [(5, 5)], S 6 2 [(4, 0)]]"

definition operand_cimmui :: operand where
  "operand_cimmui = simm_operand 18 [S 12 12 [(17, 17)], S 6 2 [(16, 12)]]"

definition operand_cimmlwsp :: operand where
  "operand_cimmlwsp = uimm_operand 8 [S 12 12 [(5, 5)], S 6 2 [(4, 2), (7, 6)]]"

definition operand_cimmldsp :: operand where
  "operand_cimmldsp = uimm_operand 9 [S 12 12 [(5, 5)], S 6 2 [(4, 3), (8, 6)]]"

definition operand_cimmlqsp :: operand where
  "operand_cimmlqsp = uimm_operand 10 [S 12 12 [(5, 5)], S 6 2 [(4, 4), (9, 6)]]"

definition operand_cimm16sp :: operand where
  "operand_cimm16sp = simm_operand 10 [S 12 12 [(9, 9)], S 6 2 [(4, 4), (6, 6), (8, 7), (5, 5)]]"

definition operand_cimmj :: operand where
  "operand_cimmj = simm_operand 12 [S 12 2 [(11, 11), (4, 4), (9, 8), (10, 10), (6, 6), (7, 7), (3, 1), (5, 5)]]"

definition operand_cimmb :: operand where
  "operand_cimmb = simm_operand 9 [S 12 10 [(8, 8), (4, 3)], S 6 2 [(7, 6), (2, 1), (5, 5)]]"

definition operand_cimmswsp :: operand where
  "operand_cimmswsp = uimm_operand 8 [S 12 7 [(5, 2), (7, 6)]]"

definition operand_cimmsdsp :: operand where
  "operand_cimmsdsp = uimm_operand 9 [S 12 7 [(5, 3), (8, 6)]]"

definition operand_cimmsqsp :: operand where
  "operand_cimmsqsp = uimm_operand 10 [S 12 7 [(5, 4), (9, 6)]]"

definition operand_cimm4spn :: operand where
  "operand_cimm4spn = uimm_operand 10 [S 12 5 [(5, 4), (9, 6), (2, 2), (3, 3)]]"

definition operand_cimmw :: operand where
  "operand_cimmw = uimm_operand 7 [S 12 10 [(5, 3)], S 6 5 [(2, 2), (6, 6)]]"

definition operand_cimmd :: operand where
  "operand_cimmd = uimm_operand 8 [S 12 10 [(5, 3)], S 6 5 [(7, 6)]]"

definition operand_cimmq :: operand where
  "operand_cimmq = uimm_operand 9 [S 12 10 [(5, 4), (8, 8)], S 6 5 [(7, 6)]]"

lemmas operand_defs =
  operand_rd_def operand_rs1_def operand_rs2_def operand_rs3_def
  operand_frd_def operand_frs1_def operand_frs2_def operand_frs3_def
  operand_aq_def operand_rl_def operand_pred_def operand_succ_def
  operand_rm_def operand_imm20_def operand_oimm20_def operand_jimm20_def
  operand_imm12_def operand_oimm12_def operand_csr12_def operand_simm12_def
  operand_sbimm12_def operand_zimm_def operand_shamt5_def operand_shamt6_def
  operand_shamt7_def operand_crd0_def operand_crdq_def operand_crs1q_def
  operand_crs1rdq_def operand_crs2q_def operand_crd_def operand_crs1_def
  operand_crs1rd_def operand_crs2_def operand_cfrdq_def operand_cfrs2q_def
  operand_cfrs2_def operand_cfrd_def operand_cimmsh5_def operand_cimmsh6_def
  operand_cimmi_def operand_cnzimmi_def operand_cimmui_def operand_cimmlwsp_def
  operand_cimmldsp_def operand_cimmlqsp_def operand_cimm16sp_def operand_cimmj_def
  operand_cimmb_def operand_cimmswsp_def operand_cimmsdsp_def operand_cimmsqsp_def
  operand_cimm4spn_def operand_cimmw_def operand_cimmd_def operand_cimmq_def

section \<open>Facts of the operand table\<close>

text \<open>
  The ranges of a segment fill exactly the instruction bits \<open>K..L\<close>, and the width of the operand
  is the number of the topmost immediate bit plus one.
\<close>

definition segment_exact :: "segment \<Rightarrow> bool" where
  "segment_exact s \<longleftrightarrow> 0 < seg_L s \<and> seg_K s < 64 \<and> S_offset (seg_ranges s) = seg_K s - seg_L s + 1"

definition operand_exact :: "operand \<Rightarrow> bool" where
  "operand_exact opr \<longleftrightarrow> list_all segment_exact (operand_segs opr) \<and>
     fold max (map (\<lambda>mv. fst mv + 1) (operand_moves (operand_segs opr))) 0 = operand_W opr"

lemma operand_decode_raw [rv_codec_simps]:
  "operand_decode operand_rd inst = (imm_operand_decode (operand_segs operand_rd) inst)"
  "operand_decode operand_rs1 inst = (imm_operand_decode (operand_segs operand_rs1) inst)"
  "operand_decode operand_rs2 inst = (imm_operand_decode (operand_segs operand_rs2) inst)"
  "operand_decode operand_rs3 inst = (imm_operand_decode (operand_segs operand_rs3) inst)"
  "operand_decode operand_frd inst = (imm_operand_decode (operand_segs operand_frd) inst)"
  "operand_decode operand_frs1 inst = (imm_operand_decode (operand_segs operand_frs1) inst)"
  "operand_decode operand_frs2 inst = (imm_operand_decode (operand_segs operand_frs2) inst)"
  "operand_decode operand_frs3 inst = (imm_operand_decode (operand_segs operand_frs3) inst)"
  "operand_decode operand_aq inst = (imm_operand_decode (operand_segs operand_aq) inst)"
  "operand_decode operand_rl inst = (imm_operand_decode (operand_segs operand_rl) inst)"
  "operand_decode operand_pred inst = (imm_operand_decode (operand_segs operand_pred) inst)"
  "operand_decode operand_succ inst = (imm_operand_decode (operand_segs operand_succ) inst)"
  "operand_decode operand_rm inst = (imm_operand_decode (operand_segs operand_rm) inst)"
  "operand_decode operand_imm20 inst = sign_extend 32 (imm_operand_decode (operand_segs operand_imm20) inst)"
  "operand_decode operand_oimm20 inst = sign_extend 32 (imm_operand_decode (operand_segs operand_oimm20) inst)"
  "operand_decode operand_jimm20 inst = sign_extend 21 (imm_operand_decode (operand_segs operand_jimm20) inst)"
  "operand_decode operand_imm12 inst = sign_extend 12 (imm_operand_decode (operand_segs operand_imm12) inst)"
  "operand_decode operand_oimm12 inst = sign_extend 12 (imm_operand_decode (operand_segs operand_oimm12) inst)"
  "operand_decode operand_csr12 inst = (imm_operand_decode (operand_segs operand_csr12) inst)"
  "operand_decode operand_simm12 inst = sign_extend 12 (imm_operand_decode (operand_segs operand_simm12) inst)"
  "operand_decode operand_sbimm12 inst = sign_extend 13 (imm_operand_decode (operand_segs operand_sbimm12) inst)"
  "operand_decode operand_zimm inst = (imm_operand_decode (operand_segs operand_zimm) inst)"
  "operand_decode operand_shamt5 inst = (imm_operand_decode (operand_segs operand_shamt5) inst)"
  "operand_decode operand_shamt6 inst = (imm_operand_decode (operand_segs operand_shamt6) inst)"
  "operand_decode operand_shamt7 inst = (imm_operand_decode (operand_segs operand_shamt7) inst)"
  "operand_decode operand_crd0 inst = (imm_operand_decode (operand_segs operand_crd0) inst)"
  "operand_decode operand_crdq inst = (imm_operand_decode (operand_segs operand_crdq) inst)"
  "operand_decode operand_crs1q inst = (imm_operand_decode (operand_segs operand_crs1q) inst)"
  "operand_decode operand_crs1rdq inst = (imm_operand_decode (operand_segs operand_crs1rdq) inst)"
  "operand_decode operand_crs2q inst = (imm_operand_decode (operand_segs operand_crs2q) inst)"
  "operand_decode operand_crd inst = (imm_operand_decode (operand_segs operand_crd) inst)"
  "operand_decode operand_crs1 inst = (imm_operand_decode (operand_segs operand_crs1) inst)"
  "operand_decode operand_crs1rd inst = (imm_operand_decode (operand_segs operand_crs1rd) inst)"
  "operand_decode operand_crs2 inst = (imm_operand_decode (operand_segs operand_crs2) inst)"
  "operand_decode operand_cfrdq inst = (imm_operand_decode (operand_segs operand_cfrdq) inst)"
  "operand_decode operand_cfrs2q inst = (imm_operand_decode (operand_segs operand_cfrs2q) inst)"
  "operand_decode operand_cfrs2 inst = (imm_operand_decode (operand_segs operand_cfrs2) inst)"
  "operand_decode operand_cfrd inst = (imm_operand_decode (operand_segs operand_cfrd) inst)"
  "operand_decode operand_cimmsh5 inst = (imm_operand_decode (operand_segs operand_cimmsh5) inst)"
  "operand_decode operand_cimmsh6 inst = (imm_operand_decode (operand_segs operand_cimmsh6) inst)"
  "operand_decode operand_cimmi inst = sign_extend 6 (imm_operand_decode (operand_segs operand_cimmi) inst)"
  "operand_decode operand_cnzimmi inst = sign_extend 6 (imm_operand_decode (operand_segs operand_cnzimmi) inst)"
  "operand_decode operand_cimmui inst = sign_extend 18 (imm_operand_decode (operand_segs operand_cimmui) inst)"
  "operand_decode operand_cimmlwsp inst = (imm_operand_decode (operand_segs operand_cimmlwsp) inst)"
  "operand_decode operand_cimmldsp inst = (imm_operand_decode (operand_segs operand_cimmldsp) inst)"
  "operand_decode operand_cimmlqsp inst = (imm_operand_decode (operand_segs operand_cimmlqsp) inst)"
  "operand_decode operand_cimm16sp inst = sign_extend 10 (imm_operand_decode (operand_segs operand_cimm16sp) inst)"
  "operand_decode operand_cimmj inst = sign_extend 12 (imm_operand_decode (operand_segs operand_cimmj) inst)"
  "operand_decode operand_cimmb inst = sign_extend 9 (imm_operand_decode (operand_segs operand_cimmb) inst)"
  "operand_decode operand_cimmswsp inst = (imm_operand_decode (operand_segs operand_cimmswsp) inst)"
  "operand_decode operand_cimmsdsp inst = (imm_operand_decode (operand_segs operand_cimmsdsp) inst)"
  "operand_decode operand_cimmsqsp inst = (imm_operand_decode (operand_segs operand_cimmsqsp) inst)"
  "operand_decode operand_cimm4spn inst = (imm_operand_decode (operand_segs operand_cimm4spn) inst)"
  "operand_decode operand_cimmw inst = (imm_operand_decode (operand_segs operand_cimmw) inst)"
  "operand_decode operand_cimmd inst = (imm_operand_decode (operand_segs operand_cimmd) inst)"
  "operand_decode operand_cimmq inst = (imm_operand_decode (operand_segs operand_cimmq) inst)"
  by (simp_all add: operand_defs uimm_operand_decode_def simm_operand_decode_def)

lemma operand_encode_raw [rv_codec_simps]:
  "operand_encode opr imm = imm_operand_encode (operand_segs opr) imm"
  by (cases opr) (simp_all add: uimm_operand_encode_def simm_operand_encode_def)

lemma operand_wf [simp]:
  "wf_operand (operand_segs operand_rd)"
  "wf_operand (operand_segs operand_rs1)"
  "wf_operand (operand_segs operand_rs2)"
  "wf_operand (operand_segs operand_rs3)"
  "wf_operand (operand_segs operand_frd)"
  "wf_operand (operand_segs operand_frs1)"
  "wf_operand (operand_segs operand_frs2)"
  "wf_operand (operand_segs operand_frs3)"
  "wf_operand (operand_segs operand_aq)"
  "wf_operand (operand_segs operand_rl)"
  "wf_operand (operand_segs operand_pred)"
  "wf_operand (operand_segs operand_succ)"
  "wf_operand (operand_segs operand_rm)"
  "wf_operand (operand_segs operand_imm20)"
  "wf_operand (operand_segs operand_oimm20)"
  "wf_operand (operand_segs operand_jimm20)"
  "wf_operand (operand_segs operand_imm12)"
  "wf_operand (operand_segs operand_oimm12)"
  "wf_operand (operand_segs operand_csr12)"
  "wf_operand (operand_segs operand_simm12)"
  "wf_operand (operand_segs operand_sbimm12)"
  "wf_operand (operand_segs operand_zimm)"
  "wf_operand (operand_segs operand_shamt5)"
  "wf_operand (operand_segs operand_shamt6)"
  "wf_operand (operand_segs operand_shamt7)"
  "wf_operand (operand_segs operand_crd0)"
  "wf_operand (operand_segs operand_crdq)"
  "wf_operand (operand_segs operand_crs1q)"
  "wf_operand (operand_segs operand_crs1rdq)"
  "wf_operand (operand_segs operand_crs2q)"
  "wf_operand (operand_segs operand_crd)"
  "wf_operand (operand_segs operand_crs1)"
  "wf_operand (operand_segs operand_crs1rd)"
  "wf_operand (operand_segs operand_crs2)"
  "wf_operand (operand_segs operand_cfrdq)"
  "wf_operand (operand_segs operand_cfrs2q)"
  "wf_operand (operand_segs operand_cfrs2)"
  "wf_operand (operand_segs operand_cfrd)"
  "wf_operand (operand_segs operand_cimmsh5)"
  "wf_operand (operand_segs operand_cimmsh6)"
  "wf_operand (operand_segs operand_cimmi)"
  "wf_operand (operand_segs operand_cnzimmi)"
  "wf_operand (operand_segs operand_cimmui)"
  "wf_operand (operand_segs operand_cimmlwsp)"
  "wf_operand (operand_segs operand_cimmldsp)"
  "wf_operand (operand_segs operand_cimmlqsp)"
  "wf_operand (operand_segs operand_cimm16sp)"
  "wf_operand (operand_segs operand_cimmj)"
  "wf_operand (operand_segs operand_cimmb)"
  "wf_operand (operand_segs operand_cimmswsp)"
  "wf_operand (operand_segs operand_cimmsdsp)"
  "wf_operand (operand_segs operand_cimmsqsp)"
  "wf_operand (operand_segs operand_cimm4spn)"
  "wf_operand (operand_segs operand_cimmw)"
  "wf_operand (operand_segs operand_cimmd)"
  "wf_operand (operand_segs operand_cimmq)"
  by (simp_all add: operand_defs wf_operand_def B_width_def)

lemma operand_field_mask [rv_codec_simps]:
  "field_mask (operand_segs operand_rd) = 0xf80"
  "field_mask (operand_segs operand_rs1) = 0xf8000"
  "field_mask (operand_segs operand_rs2) = 0x1f00000"
  "field_mask (operand_segs operand_rs3) = 0xf8000000"
  "field_mask (operand_segs operand_frd) = 0xf80"
  "field_mask (operand_segs operand_frs1) = 0xf8000"
  "field_mask (operand_segs operand_frs2) = 0x1f00000"
  "field_mask (operand_segs operand_frs3) = 0xf8000000"
  "field_mask (operand_segs operand_aq) = 0x4000000"
  "field_mask (operand_segs operand_rl) = 0x2000000"
  "field_mask (operand_segs operand_pred) = 0xf000000"
  "field_mask (operand_segs operand_succ) = 0xf00000"
  "field_mask (operand_segs operand_rm) = 0x7000"
  "field_mask (operand_segs operand_imm20) = 0xfffff000"
  "field_mask (operand_segs operand_oimm20) = 0xfffff000"
  "field_mask (operand_segs operand_jimm20) = 0xfffff000"
  "field_mask (operand_segs operand_imm12) = 0xfff00000"
  "field_mask (operand_segs operand_oimm12) = 0xfff00000"
  "field_mask (operand_segs operand_csr12) = 0xfff00000"
  "field_mask (operand_segs operand_simm12) = 0xfe000f80"
  "field_mask (operand_segs operand_sbimm12) = 0xfe000f80"
  "field_mask (operand_segs operand_zimm) = 0xf8000"
  "field_mask (operand_segs operand_shamt5) = 0x1f00000"
  "field_mask (operand_segs operand_shamt6) = 0x3f00000"
  "field_mask (operand_segs operand_shamt7) = 0x7f00000"
  "field_mask (operand_segs operand_crd0) = 0x1000"
  "field_mask (operand_segs operand_crdq) = 0x1c"
  "field_mask (operand_segs operand_crs1q) = 0x380"
  "field_mask (operand_segs operand_crs1rdq) = 0x380"
  "field_mask (operand_segs operand_crs2q) = 0x1c"
  "field_mask (operand_segs operand_crd) = 0xf80"
  "field_mask (operand_segs operand_crs1) = 0xf80"
  "field_mask (operand_segs operand_crs1rd) = 0xf80"
  "field_mask (operand_segs operand_crs2) = 0x7c"
  "field_mask (operand_segs operand_cfrdq) = 0x1c"
  "field_mask (operand_segs operand_cfrs2q) = 0x1c"
  "field_mask (operand_segs operand_cfrs2) = 0x7c"
  "field_mask (operand_segs operand_cfrd) = 0xf80"
  "field_mask (operand_segs operand_cimmsh5) = 0x7c"
  "field_mask (operand_segs operand_cimmsh6) = 0x107c"
  "field_mask (operand_segs operand_cimmi) = 0x107c"
  "field_mask (operand_segs operand_cnzimmi) = 0x107c"
  "field_mask (operand_segs operand_cimmui) = 0x107c"
  "field_mask (operand_segs operand_cimmlwsp) = 0x107c"
  "field_mask (operand_segs operand_cimmldsp) = 0x107c"
  "field_mask (operand_segs operand_cimmlqsp) = 0x107c"
  "field_mask (operand_segs operand_cimm16sp) = 0x107c"
  "field_mask (operand_segs operand_cimmj) = 0x1ffc"
  "field_mask (operand_segs operand_cimmb) = 0x1c7c"
  "field_mask (operand_segs operand_cimmswsp) = 0x1f80"
  "field_mask (operand_segs operand_cimmsdsp) = 0x1f80"
  "field_mask (operand_segs operand_cimmsqsp) = 0x1f80"
  "field_mask (operand_segs operand_cimm4spn) = 0x1fe0"
  "field_mask (operand_segs operand_cimmw) = 0x1c60"
  "field_mask (operand_segs operand_cimmd) = 0x1c60"
  "field_mask (operand_segs operand_cimmq) = 0x1c60"
  by (simp_all add: operand_defs field_mask_def B_width_def mask_eq_exp_minus_1)

lemma operand_value_mask [rv_codec_simps]:
  "value_mask (operand_segs operand_rd) = 0x1f"
  "value_mask (operand_segs operand_rs1) = 0x1f"
  "value_mask (operand_segs operand_rs2) = 0x1f"
  "value_mask (operand_segs operand_rs3) = 0x1f"
  "value_mask (operand_segs operand_frd) = 0x1f"
  "value_mask (operand_segs operand_frs1) = 0x1f"
  "value_mask (operand_segs operand_frs2) = 0x1f"
  "value_mask (operand_segs operand_frs3) = 0x1f"
  "value_mask (operand_segs operand_aq) = 0x1"
  "value_mask (operand_segs operand_rl) = 0x1"
  "value_mask (operand_segs operand_pred) = 0xf"
  "value_mask (operand_segs operand_succ) = 0xf"
  "value_mask (operand_segs operand_rm) = 0x7"
  "value_mask (operand_segs operand_imm20) = 0xfffff000"
  "value_mask (operand_segs operand_oimm20) = 0xfffff000"
  "value_mask (operand_segs operand_jimm20) = 0x1ffffe"
  "value_mask (operand_segs operand_imm12) = 0xfff"
  "value_mask (operand_segs operand_oimm12) = 0xfff"
  "value_mask (operand_segs operand_csr12) = 0xfff"
  "value_mask (operand_segs operand_simm12) = 0xfff"
  "value_mask (operand_segs operand_sbimm12) = 0x1ffe"
  "value_mask (operand_segs operand_zimm) = 0x1f"
  "value_mask (operand_segs operand_shamt5) = 0x1f"
  "value_mask (operand_segs operand_shamt6) = 0x3f"
  "value_mask (operand_segs operand_shamt7) = 0x7f"
  "value_mask (operand_segs operand_crd0) = 0x1"
  "value_mask (operand_segs operand_crdq) = 0x7"
  "value_mask (operand_segs operand_crs1q) = 0x7"
  "value_mask (operand_segs operand_crs1rdq) = 0x7"
  "value_mask (operand_segs operand_crs2q) = 0x7"
  "value_mask (operand_segs operand_crd) = 0x1f"
  "value_mask (operand_segs operand_crs1) = 0x1f"
  "value_mask (operand_segs operand_crs1rd) = 0x1f"
  "value_mask (operand_segs operand_crs2) = 0x1f"
  "value_mask (operand_segs operand_cfrdq) = 0x7"
  "value_mask (operand_segs operand_cfrs2q) = 0x7"
  "value_mask (operand_segs operand_cfrs2) = 0x1f"
  "value_mask (operand_segs operand_cfrd) = 0x1f"
  "value_mask (operand_segs operand_cimmsh5) = 0x1f"
  "value_mask (operand_segs operand_cimmsh6) = 0x3f"
  "value_mask (operand_segs operand_cimmi) = 0x3f"
  "value_mask (operand_segs operand_cnzimmi) = 0x3f"
  "value_mask (operand_segs operand_cimmui) = 0x3f000"
  "value_mask (operand_segs operand_cimmlwsp) = 0xfc"
  "value_mask (operand_segs operand_cimmldsp) = 0x1f8"
  "value_mask (operand_segs operand_cimmlqsp) = 0x3f0"
  "value_mask (operand_segs operand_cimm16sp) = 0x3f0"
  "value_mask (operand_segs operand_cimmj) = 0xffe"
  "value_mask (operand_segs operand_cimmb) = 0x1fe"
  "value_mask (operand_segs operand_cimmswsp) = 0xfc"
  "value_mask (operand_segs operand_cimmsdsp) = 0x1f8"
  "value_mask (operand_segs operand_cimmsqsp) = 0x3f0"
  "value_mask (operand_segs operand_cimm4spn) = 0x3fc"
  "value_mask (operand_segs operand_cimmw) = 0x7c"
  "value_mask (operand_segs operand_cimmd) = 0xf8"
  "value_mask (operand_segs operand_cimmq) = 0x1f0"
  by (simp_all add: operand_defs value_mask_def B_width_def mask_eq_exp_minus_1)

definition all_operands :: "operand list" where
  "all_operands = [
     operand_rd, operand_rs1, operand_rs2, operand_rs3, operand_frd,
     operand_frs1, operand_frs2, operand_frs3, operand_aq, operand_rl,
     operand_pred, operand_succ, operand_rm, operand_imm20, operand_oimm20,
     operand_jimm20, operand_imm12, operand_oimm12, operand_csr12, operand_simm12,
     operand_sbimm12, operand_zimm, operand_shamt5, operand_shamt6, operand_shamt7,
     operand_crd0, operand_crdq, operand_crs1q, operand_crs1rdq, operand_crs2q,
     operand_crd, operand_crs1, operand_crs1rd, operand_crs2, operand_cfrdq,
     operand_cfrs2q, operand_cfrs2, operand_cfrd, operand_cimmsh5, operand_cimmsh6,
     operand_cimmi, operand_cnzimmi, operand_cimmui, operand_cimmlwsp, operand_cimmldsp,
     operand_cimmlqsp, operand_cimm16sp, operand_cimmj, operand_cimmb, operand_cimmswsp,
     operand_cimmsdsp, operand_cimmsqsp, operand_cimm4spn, operand_cimmw, operand_cimmd,
     operand_cimmq]"

lemma all_operands_wf: "list_all (\<lambda>opr. wf_operand (operand_segs opr)) all_operands"
  by (simp add: all_operands_def)

lemma all_operands_exact: "list_all operand_exact all_operands"
  by (simp add: all_operands_def operand_defs operand_exact_def segment_exact_def B_width_def)

text \<open>
  The layouts provide the operand interface: the register fields, the split immediates of jumps,
  branches and stores, and the scrambled immediates of the compressed formats.
\<close>

interpretation rd_field: operand_layout "operand_segs operand_rd"
  by unfold_locales simp

interpretation rs1_field: operand_layout "operand_segs operand_rs1"
  by unfold_locales simp

interpretation rs2_field: operand_layout "operand_segs operand_rs2"
  by unfold_locales simp

interpretation jimm20_field: operand_layout "operand_segs operand_jimm20"
  by unfold_locales simp

interpretation simm12_field: operand_layout "operand_segs operand_simm12"
  by unfold_locales simp

interpretation sbimm12_field: operand_layout "operand_segs operand_sbimm12"
  by unfold_locales simp

interpretation cimmj_field: operand_layout "operand_segs operand_cimmj"
  by unfold_locales simp

interpretation cimmb_field: operand_layout "operand_segs operand_cimmb"
  by unfold_locales simp

interpretation cimm4spn_field: operand_layout "operand_segs operand_cimm4spn"
  by unfold_locales simp

end
