(* ===== verification/Rv_Meta.thy ===== *)
theory Rv_Meta
  imports Rv_Prelude
begin

text \<open>
  The instruction metadata of \<^verbatim>\<open>src/src/asm/meta.h\<close> and \<^verbatim>\<open>src/src/asm/meta.cc\<close>: the enumeration
  of opcodes (a C enumeration, so the constants are numbers and the tables are arrays indexed by
  them), the enumeration of codecs, and the arrays \<open>rv_inst_codec\<close>, \<open>rv_inst_match\<close>,
  \<open>rv_inst_mask\<close> and \<open>rv_inst_decomp_*\<close>.  An array is a list in the order of the source.
\<close>

section \<open>Codecs\<close>

datatype rv_codec =
    rv_codec_illegal | rv_codec_none | rv_codec_u | rv_codec_uj
  | rv_codec_i | rv_codec_i_sh5 | rv_codec_i_sh6 | rv_codec_i_sh7
  | rv_codec_i_csr | rv_codec_s | rv_codec_sb | rv_codec_r
  | rv_codec_r_m | rv_codec_r4_m | rv_codec_r_a | rv_codec_r_l
  | rv_codec_r_f | rv_codec_cb | rv_codec_cb_imm | rv_codec_cb_sh5
  | rv_codec_cb_sh6 | rv_codec_ci | rv_codec_ci_sh5 | rv_codec_ci_sh6
  | rv_codec_ci_16sp | rv_codec_ci_lwsp | rv_codec_ci_ldsp | rv_codec_ci_lqsp
  | rv_codec_ci_li | rv_codec_ci_lui | rv_codec_ci_none | rv_codec_ciw_4spn
  | rv_codec_cj | rv_codec_cj_jal | rv_codec_cl_lw | rv_codec_cl_ld
  | rv_codec_cl_lq | rv_codec_cr | rv_codec_cr_mv | rv_codec_cr_jalr
  | rv_codec_cr_jr | rv_codec_cs | rv_codec_cs_sw | rv_codec_cs_sd
  | rv_codec_cs_sq | rv_codec_css_swsp | rv_codec_css_sdsp | rv_codec_css_sqsp

section \<open>Opcodes\<close>

type_synonym opcode = nat

abbreviation (input) rv_op_illegal :: opcode where "rv_op_illegal \<equiv> 0"
abbreviation (input) rv_op_lui :: opcode where "rv_op_lui \<equiv> 1"
abbreviation (input) rv_op_auipc :: opcode where "rv_op_auipc \<equiv> 2"
abbreviation (input) rv_op_jal :: opcode where "rv_op_jal \<equiv> 3"
abbreviation (input) rv_op_jalr :: opcode where "rv_op_jalr \<equiv> 4"
abbreviation (input) rv_op_beq :: opcode where "rv_op_beq \<equiv> 5"
abbreviation (input) rv_op_bne :: opcode where "rv_op_bne \<equiv> 6"
abbreviation (input) rv_op_blt :: opcode where "rv_op_blt \<equiv> 7"
abbreviation (input) rv_op_bge :: opcode where "rv_op_bge \<equiv> 8"
abbreviation (input) rv_op_bltu :: opcode where "rv_op_bltu \<equiv> 9"
abbreviation (input) rv_op_bgeu :: opcode where "rv_op_bgeu \<equiv> 10"
abbreviation (input) rv_op_lb :: opcode where "rv_op_lb \<equiv> 11"
abbreviation (input) rv_op_lh :: opcode where "rv_op_lh \<equiv> 12"
abbreviation (input) rv_op_lw :: opcode where "rv_op_lw \<equiv> 13"
abbreviation (input) rv_op_lbu :: opcode where "rv_op_lbu \<equiv> 14"
abbreviation (input) rv_op_lhu :: opcode where "rv_op_lhu \<equiv> 15"
abbreviation (input) rv_op_sb :: opcode where "rv_op_sb \<equiv> 16"
abbreviation (input) rv_op_sh :: opcode where "rv_op_sh \<equiv> 17"
abbreviation (input) rv_op_sw :: opcode where "rv_op_sw \<equiv> 18"
abbreviation (input) rv_op_addi :: opcode where "rv_op_addi \<equiv> 19"
abbreviation (input) rv_op_slti :: opcode where "rv_op_slti \<equiv> 20"
abbreviation (input) rv_op_sltiu :: opcode where "rv_op_sltiu \<equiv> 21"
abbreviation (input) rv_op_xori :: opcode where "rv_op_xori \<equiv> 22"
abbreviation (input) rv_op_ori :: opcode where "rv_op_ori \<equiv> 23"
abbreviation (input) rv_op_andi :: opcode where "rv_op_andi \<equiv> 24"
abbreviation (input) rv_op_slli :: opcode where "rv_op_slli \<equiv> 25"
abbreviation (input) rv_op_srli :: opcode where "rv_op_srli \<equiv> 26"
abbreviation (input) rv_op_srai :: opcode where "rv_op_srai \<equiv> 27"
abbreviation (input) rv_op_add :: opcode where "rv_op_add \<equiv> 28"
abbreviation (input) rv_op_sub :: opcode where "rv_op_sub \<equiv> 29"
abbreviation (input) rv_op_sll :: opcode where "rv_op_sll \<equiv> 30"
abbreviation (input) rv_op_slt :: opcode where "rv_op_slt \<equiv> 31"
abbreviation (input) rv_op_sltu :: opcode where "rv_op_sltu \<equiv> 32"
abbreviation (input) rv_op_xor :: opcode where "rv_op_xor \<equiv> 33"
abbreviation (input) rv_op_srl :: opcode where "rv_op_srl \<equiv> 34"
abbreviation (input) rv_op_sra :: opcode where "rv_op_sra \<equiv> 35"
abbreviation (input) rv_op_or :: opcode where "rv_op_or \<equiv> 36"
abbreviation (input) rv_op_and :: opcode where "rv_op_and \<equiv> 37"
abbreviation (input) rv_op_fence :: opcode where "rv_op_fence \<equiv> 38"
abbreviation (input) rv_op_fence_i :: opcode where "rv_op_fence_i \<equiv> 39"
abbreviation (input) rv_op_lwu :: opcode where "rv_op_lwu \<equiv> 40"
abbreviation (input) rv_op_ld :: opcode where "rv_op_ld \<equiv> 41"
abbreviation (input) rv_op_sd :: opcode where "rv_op_sd \<equiv> 42"
abbreviation (input) rv_op_addiw :: opcode where "rv_op_addiw \<equiv> 43"
abbreviation (input) rv_op_slliw :: opcode where "rv_op_slliw \<equiv> 44"
abbreviation (input) rv_op_srliw :: opcode where "rv_op_srliw \<equiv> 45"
abbreviation (input) rv_op_sraiw :: opcode where "rv_op_sraiw \<equiv> 46"
abbreviation (input) rv_op_addw :: opcode where "rv_op_addw \<equiv> 47"
abbreviation (input) rv_op_subw :: opcode where "rv_op_subw \<equiv> 48"
abbreviation (input) rv_op_sllw :: opcode where "rv_op_sllw \<equiv> 49"
abbreviation (input) rv_op_srlw :: opcode where "rv_op_srlw \<equiv> 50"
abbreviation (input) rv_op_sraw :: opcode where "rv_op_sraw \<equiv> 51"
abbreviation (input) rv_op_ldu :: opcode where "rv_op_ldu \<equiv> 52"
abbreviation (input) rv_op_lq :: opcode where "rv_op_lq \<equiv> 53"
abbreviation (input) rv_op_sq :: opcode where "rv_op_sq \<equiv> 54"
abbreviation (input) rv_op_addid :: opcode where "rv_op_addid \<equiv> 55"
abbreviation (input) rv_op_sllid :: opcode where "rv_op_sllid \<equiv> 56"
abbreviation (input) rv_op_srlid :: opcode where "rv_op_srlid \<equiv> 57"
abbreviation (input) rv_op_sraid :: opcode where "rv_op_sraid \<equiv> 58"
abbreviation (input) rv_op_addd :: opcode where "rv_op_addd \<equiv> 59"
abbreviation (input) rv_op_subd :: opcode where "rv_op_subd \<equiv> 60"
abbreviation (input) rv_op_slld :: opcode where "rv_op_slld \<equiv> 61"
abbreviation (input) rv_op_srld :: opcode where "rv_op_srld \<equiv> 62"
abbreviation (input) rv_op_srad :: opcode where "rv_op_srad \<equiv> 63"
abbreviation (input) rv_op_mul :: opcode where "rv_op_mul \<equiv> 64"
abbreviation (input) rv_op_mulh :: opcode where "rv_op_mulh \<equiv> 65"
abbreviation (input) rv_op_mulhsu :: opcode where "rv_op_mulhsu \<equiv> 66"
abbreviation (input) rv_op_mulhu :: opcode where "rv_op_mulhu \<equiv> 67"
abbreviation (input) rv_op_div :: opcode where "rv_op_div \<equiv> 68"
abbreviation (input) rv_op_divu :: opcode where "rv_op_divu \<equiv> 69"
abbreviation (input) rv_op_rem :: opcode where "rv_op_rem \<equiv> 70"
abbreviation (input) rv_op_remu :: opcode where "rv_op_remu \<equiv> 71"
abbreviation (input) rv_op_mulw :: opcode where "rv_op_mulw \<equiv> 72"
abbreviation (input) rv_op_divw :: opcode where "rv_op_divw \<equiv> 73"
abbreviation (input) rv_op_divuw :: opcode where "rv_op_divuw \<equiv> 74"
abbreviation (input) rv_op_remw :: opcode where "rv_op_remw \<equiv> 75"
abbreviation (input) rv_op_remuw :: opcode where "rv_op_remuw \<equiv> 76"
abbreviation (input) rv_op_muld :: opcode where "rv_op_muld \<equiv> 77"
abbreviation (input) rv_op_divd :: opcode where "rv_op_divd \<equiv> 78"
abbreviation (input) rv_op_divud :: opcode where "rv_op_divud \<equiv> 79"
abbreviation (input) rv_op_remd :: opcode where "rv_op_remd \<equiv> 80"
abbreviation (input) rv_op_remud :: opcode where "rv_op_remud \<equiv> 81"
abbreviation (input) rv_op_lr_w :: opcode where "rv_op_lr_w \<equiv> 82"
abbreviation (input) rv_op_sc_w :: opcode where "rv_op_sc_w \<equiv> 83"
abbreviation (input) rv_op_amoswap_w :: opcode where "rv_op_amoswap_w \<equiv> 84"
abbreviation (input) rv_op_amoadd_w :: opcode where "rv_op_amoadd_w \<equiv> 85"
abbreviation (input) rv_op_amoxor_w :: opcode where "rv_op_amoxor_w \<equiv> 86"
abbreviation (input) rv_op_amoor_w :: opcode where "rv_op_amoor_w \<equiv> 87"
abbreviation (input) rv_op_amoand_w :: opcode where "rv_op_amoand_w \<equiv> 88"
abbreviation (input) rv_op_amomin_w :: opcode where "rv_op_amomin_w \<equiv> 89"
abbreviation (input) rv_op_amomax_w :: opcode where "rv_op_amomax_w \<equiv> 90"
abbreviation (input) rv_op_amominu_w :: opcode where "rv_op_amominu_w \<equiv> 91"
abbreviation (input) rv_op_amomaxu_w :: opcode where "rv_op_amomaxu_w \<equiv> 92"
abbreviation (input) rv_op_lr_d :: opcode where "rv_op_lr_d \<equiv> 93"
abbreviation (input) rv_op_sc_d :: opcode where "rv_op_sc_d \<equiv> 94"
abbreviation (input) rv_op_amoswap_d :: opcode where "rv_op_amoswap_d \<equiv> 95"
abbreviation (input) rv_op_amoadd_d :: opcode where "rv_op_amoadd_d \<equiv> 96"
abbreviation (input) rv_op_amoxor_d :: opcode where "rv_op_amoxor_d \<equiv> 97"
abbreviation (input) rv_op_amoor_d :: opcode where "rv_op_amoor_d \<equiv> 98"
abbreviation (input) rv_op_amoand_d :: opcode where "rv_op_amoand_d \<equiv> 99"
abbreviation (input) rv_op_amomin_d :: opcode where "rv_op_amomin_d \<equiv> 100"
abbreviation (input) rv_op_amomax_d :: opcode where "rv_op_amomax_d \<equiv> 101"
abbreviation (input) rv_op_amominu_d :: opcode where "rv_op_amominu_d \<equiv> 102"
abbreviation (input) rv_op_amomaxu_d :: opcode where "rv_op_amomaxu_d \<equiv> 103"
abbreviation (input) rv_op_lr_q :: opcode where "rv_op_lr_q \<equiv> 104"
abbreviation (input) rv_op_sc_q :: opcode where "rv_op_sc_q \<equiv> 105"
abbreviation (input) rv_op_amoswap_q :: opcode where "rv_op_amoswap_q \<equiv> 106"
abbreviation (input) rv_op_amoadd_q :: opcode where "rv_op_amoadd_q \<equiv> 107"
abbreviation (input) rv_op_amoxor_q :: opcode where "rv_op_amoxor_q \<equiv> 108"
abbreviation (input) rv_op_amoor_q :: opcode where "rv_op_amoor_q \<equiv> 109"
abbreviation (input) rv_op_amoand_q :: opcode where "rv_op_amoand_q \<equiv> 110"
abbreviation (input) rv_op_amomin_q :: opcode where "rv_op_amomin_q \<equiv> 111"
abbreviation (input) rv_op_amomax_q :: opcode where "rv_op_amomax_q \<equiv> 112"
abbreviation (input) rv_op_amominu_q :: opcode where "rv_op_amominu_q \<equiv> 113"
abbreviation (input) rv_op_amomaxu_q :: opcode where "rv_op_amomaxu_q \<equiv> 114"
abbreviation (input) rv_op_ecall :: opcode where "rv_op_ecall \<equiv> 115"
abbreviation (input) rv_op_ebreak :: opcode where "rv_op_ebreak \<equiv> 116"
abbreviation (input) rv_op_uret :: opcode where "rv_op_uret \<equiv> 117"
abbreviation (input) rv_op_sret :: opcode where "rv_op_sret \<equiv> 118"
abbreviation (input) rv_op_hret :: opcode where "rv_op_hret \<equiv> 119"
abbreviation (input) rv_op_mret :: opcode where "rv_op_mret \<equiv> 120"
abbreviation (input) rv_op_dret :: opcode where "rv_op_dret \<equiv> 121"
abbreviation (input) rv_op_sfence_vm :: opcode where "rv_op_sfence_vm \<equiv> 122"
abbreviation (input) rv_op_wfi :: opcode where "rv_op_wfi \<equiv> 123"
abbreviation (input) rv_op_csrrw :: opcode where "rv_op_csrrw \<equiv> 124"
abbreviation (input) rv_op_csrrs :: opcode where "rv_op_csrrs \<equiv> 125"
abbreviation (input) rv_op_csrrc :: opcode where "rv_op_csrrc \<equiv> 126"
abbreviation (input) rv_op_csrrwi :: opcode where "rv_op_csrrwi \<equiv> 127"
abbreviation (input) rv_op_csrrsi :: opcode where "rv_op_csrrsi \<equiv> 128"
abbreviation (input) rv_op_csrrci :: opcode where "rv_op_csrrci \<equiv> 129"
abbreviation (input) rv_op_flw :: opcode where "rv_op_flw \<equiv> 130"
abbreviation (input) rv_op_fsw :: opcode where "rv_op_fsw \<equiv> 131"
abbreviation (input) rv_op_fmadd_s :: opcode where "rv_op_fmadd_s \<equiv> 132"
abbreviation (input) rv_op_fmsub_s :: opcode where "rv_op_fmsub_s \<equiv> 133"
abbreviation (input) rv_op_fnmsub_s :: opcode where "rv_op_fnmsub_s \<equiv> 134"
abbreviation (input) rv_op_fnmadd_s :: opcode where "rv_op_fnmadd_s \<equiv> 135"
abbreviation (input) rv_op_fadd_s :: opcode where "rv_op_fadd_s \<equiv> 136"
abbreviation (input) rv_op_fsub_s :: opcode where "rv_op_fsub_s \<equiv> 137"
abbreviation (input) rv_op_fmul_s :: opcode where "rv_op_fmul_s \<equiv> 138"
abbreviation (input) rv_op_fdiv_s :: opcode where "rv_op_fdiv_s \<equiv> 139"
abbreviation (input) rv_op_fsgnj_s :: opcode where "rv_op_fsgnj_s \<equiv> 140"
abbreviation (input) rv_op_fsgnjn_s :: opcode where "rv_op_fsgnjn_s \<equiv> 141"
abbreviation (input) rv_op_fsgnjx_s :: opcode where "rv_op_fsgnjx_s \<equiv> 142"
abbreviation (input) rv_op_fmin_s :: opcode where "rv_op_fmin_s \<equiv> 143"
abbreviation (input) rv_op_fmax_s :: opcode where "rv_op_fmax_s \<equiv> 144"
abbreviation (input) rv_op_fsqrt_s :: opcode where "rv_op_fsqrt_s \<equiv> 145"
abbreviation (input) rv_op_fle_s :: opcode where "rv_op_fle_s \<equiv> 146"
abbreviation (input) rv_op_flt_s :: opcode where "rv_op_flt_s \<equiv> 147"
abbreviation (input) rv_op_feq_s :: opcode where "rv_op_feq_s \<equiv> 148"
abbreviation (input) rv_op_fcvt_w_s :: opcode where "rv_op_fcvt_w_s \<equiv> 149"
abbreviation (input) rv_op_fcvt_wu_s :: opcode where "rv_op_fcvt_wu_s \<equiv> 150"
abbreviation (input) rv_op_fcvt_s_w :: opcode where "rv_op_fcvt_s_w \<equiv> 151"
abbreviation (input) rv_op_fcvt_s_wu :: opcode where "rv_op_fcvt_s_wu \<equiv> 152"
abbreviation (input) rv_op_fmv_x_s :: opcode where "rv_op_fmv_x_s \<equiv> 153"
abbreviation (input) rv_op_fclass_s :: opcode where "rv_op_fclass_s \<equiv> 154"
abbreviation (input) rv_op_fmv_s_x :: opcode where "rv_op_fmv_s_x \<equiv> 155"
abbreviation (input) rv_op_fcvt_l_s :: opcode where "rv_op_fcvt_l_s \<equiv> 156"
abbreviation (input) rv_op_fcvt_lu_s :: opcode where "rv_op_fcvt_lu_s \<equiv> 157"
abbreviation (input) rv_op_fcvt_s_l :: opcode where "rv_op_fcvt_s_l \<equiv> 158"
abbreviation (input) rv_op_fcvt_s_lu :: opcode where "rv_op_fcvt_s_lu \<equiv> 159"
abbreviation (input) rv_op_fld :: opcode where "rv_op_fld \<equiv> 160"
abbreviation (input) rv_op_fsd :: opcode where "rv_op_fsd \<equiv> 161"
abbreviation (input) rv_op_fmadd_d :: opcode where "rv_op_fmadd_d \<equiv> 162"
abbreviation (input) rv_op_fmsub_d :: opcode where "rv_op_fmsub_d \<equiv> 163"
abbreviation (input) rv_op_fnmsub_d :: opcode where "rv_op_fnmsub_d \<equiv> 164"
abbreviation (input) rv_op_fnmadd_d :: opcode where "rv_op_fnmadd_d \<equiv> 165"
abbreviation (input) rv_op_fadd_d :: opcode where "rv_op_fadd_d \<equiv> 166"
abbreviation (input) rv_op_fsub_d :: opcode where "rv_op_fsub_d \<equiv> 167"
abbreviation (input) rv_op_fmul_d :: opcode where "rv_op_fmul_d \<equiv> 168"
abbreviation (input) rv_op_fdiv_d :: opcode where "rv_op_fdiv_d \<equiv> 169"
abbreviation (input) rv_op_fsgnj_d :: opcode where "rv_op_fsgnj_d \<equiv> 170"
abbreviation (input) rv_op_fsgnjn_d :: opcode where "rv_op_fsgnjn_d \<equiv> 171"
abbreviation (input) rv_op_fsgnjx_d :: opcode where "rv_op_fsgnjx_d \<equiv> 172"
abbreviation (input) rv_op_fmin_d :: opcode where "rv_op_fmin_d \<equiv> 173"
abbreviation (input) rv_op_fmax_d :: opcode where "rv_op_fmax_d \<equiv> 174"
abbreviation (input) rv_op_fcvt_s_d :: opcode where "rv_op_fcvt_s_d \<equiv> 175"
abbreviation (input) rv_op_fcvt_d_s :: opcode where "rv_op_fcvt_d_s \<equiv> 176"
abbreviation (input) rv_op_fsqrt_d :: opcode where "rv_op_fsqrt_d \<equiv> 177"
abbreviation (input) rv_op_fle_d :: opcode where "rv_op_fle_d \<equiv> 178"
abbreviation (input) rv_op_flt_d :: opcode where "rv_op_flt_d \<equiv> 179"
abbreviation (input) rv_op_feq_d :: opcode where "rv_op_feq_d \<equiv> 180"
abbreviation (input) rv_op_fcvt_w_d :: opcode where "rv_op_fcvt_w_d \<equiv> 181"
abbreviation (input) rv_op_fcvt_wu_d :: opcode where "rv_op_fcvt_wu_d \<equiv> 182"
abbreviation (input) rv_op_fcvt_d_w :: opcode where "rv_op_fcvt_d_w \<equiv> 183"
abbreviation (input) rv_op_fcvt_d_wu :: opcode where "rv_op_fcvt_d_wu \<equiv> 184"
abbreviation (input) rv_op_fclass_d :: opcode where "rv_op_fclass_d \<equiv> 185"
abbreviation (input) rv_op_fcvt_l_d :: opcode where "rv_op_fcvt_l_d \<equiv> 186"
abbreviation (input) rv_op_fcvt_lu_d :: opcode where "rv_op_fcvt_lu_d \<equiv> 187"
abbreviation (input) rv_op_fmv_x_d :: opcode where "rv_op_fmv_x_d \<equiv> 188"
abbreviation (input) rv_op_fcvt_d_l :: opcode where "rv_op_fcvt_d_l \<equiv> 189"
abbreviation (input) rv_op_fcvt_d_lu :: opcode where "rv_op_fcvt_d_lu \<equiv> 190"
abbreviation (input) rv_op_fmv_d_x :: opcode where "rv_op_fmv_d_x \<equiv> 191"
abbreviation (input) rv_op_flq :: opcode where "rv_op_flq \<equiv> 192"
abbreviation (input) rv_op_fsq :: opcode where "rv_op_fsq \<equiv> 193"
abbreviation (input) rv_op_fmadd_q :: opcode where "rv_op_fmadd_q \<equiv> 194"
abbreviation (input) rv_op_fmsub_q :: opcode where "rv_op_fmsub_q \<equiv> 195"
abbreviation (input) rv_op_fnmsub_q :: opcode where "rv_op_fnmsub_q \<equiv> 196"
abbreviation (input) rv_op_fnmadd_q :: opcode where "rv_op_fnmadd_q \<equiv> 197"
abbreviation (input) rv_op_fadd_q :: opcode where "rv_op_fadd_q \<equiv> 198"
abbreviation (input) rv_op_fsub_q :: opcode where "rv_op_fsub_q \<equiv> 199"
abbreviation (input) rv_op_fmul_q :: opcode where "rv_op_fmul_q \<equiv> 200"
abbreviation (input) rv_op_fdiv_q :: opcode where "rv_op_fdiv_q \<equiv> 201"
abbreviation (input) rv_op_fsgnj_q :: opcode where "rv_op_fsgnj_q \<equiv> 202"
abbreviation (input) rv_op_fsgnjn_q :: opcode where "rv_op_fsgnjn_q \<equiv> 203"
abbreviation (input) rv_op_fsgnjx_q :: opcode where "rv_op_fsgnjx_q \<equiv> 204"
abbreviation (input) rv_op_fmin_q :: opcode where "rv_op_fmin_q \<equiv> 205"
abbreviation (input) rv_op_fmax_q :: opcode where "rv_op_fmax_q \<equiv> 206"
abbreviation (input) rv_op_fcvt_s_q :: opcode where "rv_op_fcvt_s_q \<equiv> 207"
abbreviation (input) rv_op_fcvt_q_s :: opcode where "rv_op_fcvt_q_s \<equiv> 208"
abbreviation (input) rv_op_fcvt_d_q :: opcode where "rv_op_fcvt_d_q \<equiv> 209"
abbreviation (input) rv_op_fcvt_q_d :: opcode where "rv_op_fcvt_q_d \<equiv> 210"
abbreviation (input) rv_op_fsqrt_q :: opcode where "rv_op_fsqrt_q \<equiv> 211"
abbreviation (input) rv_op_fle_q :: opcode where "rv_op_fle_q \<equiv> 212"
abbreviation (input) rv_op_flt_q :: opcode where "rv_op_flt_q \<equiv> 213"
abbreviation (input) rv_op_feq_q :: opcode where "rv_op_feq_q \<equiv> 214"
abbreviation (input) rv_op_fcvt_w_q :: opcode where "rv_op_fcvt_w_q \<equiv> 215"
abbreviation (input) rv_op_fcvt_wu_q :: opcode where "rv_op_fcvt_wu_q \<equiv> 216"
abbreviation (input) rv_op_fcvt_q_w :: opcode where "rv_op_fcvt_q_w \<equiv> 217"
abbreviation (input) rv_op_fcvt_q_wu :: opcode where "rv_op_fcvt_q_wu \<equiv> 218"
abbreviation (input) rv_op_fclass_q :: opcode where "rv_op_fclass_q \<equiv> 219"
abbreviation (input) rv_op_fcvt_l_q :: opcode where "rv_op_fcvt_l_q \<equiv> 220"
abbreviation (input) rv_op_fcvt_lu_q :: opcode where "rv_op_fcvt_lu_q \<equiv> 221"
abbreviation (input) rv_op_fcvt_q_l :: opcode where "rv_op_fcvt_q_l \<equiv> 222"
abbreviation (input) rv_op_fcvt_q_lu :: opcode where "rv_op_fcvt_q_lu \<equiv> 223"
abbreviation (input) rv_op_fmv_x_q :: opcode where "rv_op_fmv_x_q \<equiv> 224"
abbreviation (input) rv_op_fmv_q_x :: opcode where "rv_op_fmv_q_x \<equiv> 225"
abbreviation (input) rv_op_c_addi4spn :: opcode where "rv_op_c_addi4spn \<equiv> 226"
abbreviation (input) rv_op_c_fld :: opcode where "rv_op_c_fld \<equiv> 227"
abbreviation (input) rv_op_c_lw :: opcode where "rv_op_c_lw \<equiv> 228"
abbreviation (input) rv_op_c_flw :: opcode where "rv_op_c_flw \<equiv> 229"
abbreviation (input) rv_op_c_fsd :: opcode where "rv_op_c_fsd \<equiv> 230"
abbreviation (input) rv_op_c_sw :: opcode where "rv_op_c_sw \<equiv> 231"
abbreviation (input) rv_op_c_fsw :: opcode where "rv_op_c_fsw \<equiv> 232"
abbreviation (input) rv_op_c_nop :: opcode where "rv_op_c_nop \<equiv> 233"
abbreviation (input) rv_op_c_addi :: opcode where "rv_op_c_addi \<equiv> 234"
abbreviation (input) rv_op_c_jal :: opcode where "rv_op_c_jal \<equiv> 235"
abbreviation (input) rv_op_c_li :: opcode where "rv_op_c_li \<equiv> 236"
abbreviation (input) rv_op_c_addi16sp :: opcode where "rv_op_c_addi16sp \<equiv> 237"
abbreviation (input) rv_op_c_lui :: opcode where "rv_op_c_lui \<equiv> 238"
abbreviation (input) rv_op_c_srli :: opcode where "rv_op_c_srli \<equiv> 239"
abbreviation (input) rv_op_c_srai :: opcode where "rv_op_c_srai \<equiv> 240"
abbreviation (input) rv_op_c_andi :: opcode where "rv_op_c_andi \<equiv> 241"
abbreviation (input) rv_op_c_sub :: opcode where "rv_op_c_sub \<equiv> 242"
abbreviation (input) rv_op_c_xor :: opcode where "rv_op_c_xor \<equiv> 243"
abbreviation (input) rv_op_c_or :: opcode where "rv_op_c_or \<equiv> 244"
abbreviation (input) rv_op_c_and :: opcode where "rv_op_c_and \<equiv> 245"
abbreviation (input) rv_op_c_subw :: opcode where "rv_op_c_subw \<equiv> 246"
abbreviation (input) rv_op_c_addw :: opcode where "rv_op_c_addw \<equiv> 247"
abbreviation (input) rv_op_c_j :: opcode where "rv_op_c_j \<equiv> 248"
abbreviation (input) rv_op_c_beqz :: opcode where "rv_op_c_beqz \<equiv> 249"
abbreviation (input) rv_op_c_bnez :: opcode where "rv_op_c_bnez \<equiv> 250"
abbreviation (input) rv_op_c_slli :: opcode where "rv_op_c_slli \<equiv> 251"
abbreviation (input) rv_op_c_fldsp :: opcode where "rv_op_c_fldsp \<equiv> 252"
abbreviation (input) rv_op_c_lwsp :: opcode where "rv_op_c_lwsp \<equiv> 253"
abbreviation (input) rv_op_c_flwsp :: opcode where "rv_op_c_flwsp \<equiv> 254"
abbreviation (input) rv_op_c_jr :: opcode where "rv_op_c_jr \<equiv> 255"
abbreviation (input) rv_op_c_mv :: opcode where "rv_op_c_mv \<equiv> 256"
abbreviation (input) rv_op_c_ebreak :: opcode where "rv_op_c_ebreak \<equiv> 257"
abbreviation (input) rv_op_c_jalr :: opcode where "rv_op_c_jalr \<equiv> 258"
abbreviation (input) rv_op_c_add :: opcode where "rv_op_c_add \<equiv> 259"
abbreviation (input) rv_op_c_fsdsp :: opcode where "rv_op_c_fsdsp \<equiv> 260"
abbreviation (input) rv_op_c_swsp :: opcode where "rv_op_c_swsp \<equiv> 261"
abbreviation (input) rv_op_c_fswsp :: opcode where "rv_op_c_fswsp \<equiv> 262"
abbreviation (input) rv_op_c_ld :: opcode where "rv_op_c_ld \<equiv> 263"
abbreviation (input) rv_op_c_sd :: opcode where "rv_op_c_sd \<equiv> 264"
abbreviation (input) rv_op_c_addiw :: opcode where "rv_op_c_addiw \<equiv> 265"
abbreviation (input) rv_op_c_ldsp :: opcode where "rv_op_c_ldsp \<equiv> 266"
abbreviation (input) rv_op_c_sdsp :: opcode where "rv_op_c_sdsp \<equiv> 267"
abbreviation (input) rv_op_c_lq :: opcode where "rv_op_c_lq \<equiv> 268"
abbreviation (input) rv_op_c_sq :: opcode where "rv_op_c_sq \<equiv> 269"
abbreviation (input) rv_op_c_lqsp :: opcode where "rv_op_c_lqsp \<equiv> 270"
abbreviation (input) rv_op_c_sqsp :: opcode where "rv_op_c_sqsp \<equiv> 271"
abbreviation (input) rv_op_nop :: opcode where "rv_op_nop \<equiv> 272"
abbreviation (input) rv_op_mv :: opcode where "rv_op_mv \<equiv> 273"
abbreviation (input) rv_op_not :: opcode where "rv_op_not \<equiv> 274"
abbreviation (input) rv_op_neg :: opcode where "rv_op_neg \<equiv> 275"
abbreviation (input) rv_op_negw :: opcode where "rv_op_negw \<equiv> 276"
abbreviation (input) rv_op_sext_w :: opcode where "rv_op_sext_w \<equiv> 277"
abbreviation (input) rv_op_seqz :: opcode where "rv_op_seqz \<equiv> 278"
abbreviation (input) rv_op_snez :: opcode where "rv_op_snez \<equiv> 279"
abbreviation (input) rv_op_sltz :: opcode where "rv_op_sltz \<equiv> 280"
abbreviation (input) rv_op_sgtz :: opcode where "rv_op_sgtz \<equiv> 281"
abbreviation (input) rv_op_fmv_s :: opcode where "rv_op_fmv_s \<equiv> 282"
abbreviation (input) rv_op_fabs_s :: opcode where "rv_op_fabs_s \<equiv> 283"
abbreviation (input) rv_op_fneg_s :: opcode where "rv_op_fneg_s \<equiv> 284"
abbreviation (input) rv_op_fmv_d :: opcode where "rv_op_fmv_d \<equiv> 285"
abbreviation (input) rv_op_fabs_d :: opcode where "rv_op_fabs_d \<equiv> 286"
abbreviation (input) rv_op_fneg_d :: opcode where "rv_op_fneg_d \<equiv> 287"
abbreviation (input) rv_op_fmv_q :: opcode where "rv_op_fmv_q \<equiv> 288"
abbreviation (input) rv_op_fabs_q :: opcode where "rv_op_fabs_q \<equiv> 289"
abbreviation (input) rv_op_fneg_q :: opcode where "rv_op_fneg_q \<equiv> 290"
abbreviation (input) rv_op_beqz :: opcode where "rv_op_beqz \<equiv> 291"
abbreviation (input) rv_op_bnez :: opcode where "rv_op_bnez \<equiv> 292"
abbreviation (input) rv_op_blez :: opcode where "rv_op_blez \<equiv> 293"
abbreviation (input) rv_op_bgez :: opcode where "rv_op_bgez \<equiv> 294"
abbreviation (input) rv_op_bltz :: opcode where "rv_op_bltz \<equiv> 295"
abbreviation (input) rv_op_bgtz :: opcode where "rv_op_bgtz \<equiv> 296"
abbreviation (input) rv_op_ble :: opcode where "rv_op_ble \<equiv> 297"
abbreviation (input) rv_op_bleu :: opcode where "rv_op_bleu \<equiv> 298"
abbreviation (input) rv_op_bgt :: opcode where "rv_op_bgt \<equiv> 299"
abbreviation (input) rv_op_bgtu :: opcode where "rv_op_bgtu \<equiv> 300"
abbreviation (input) rv_op_j :: opcode where "rv_op_j \<equiv> 301"
abbreviation (input) rv_op_ret :: opcode where "rv_op_ret \<equiv> 302"
abbreviation (input) rv_op_jr :: opcode where "rv_op_jr \<equiv> 303"
abbreviation (input) rv_op_rdcycle :: opcode where "rv_op_rdcycle \<equiv> 304"
abbreviation (input) rv_op_rdtime :: opcode where "rv_op_rdtime \<equiv> 305"
abbreviation (input) rv_op_rdinstret :: opcode where "rv_op_rdinstret \<equiv> 306"
abbreviation (input) rv_op_rdcycleh :: opcode where "rv_op_rdcycleh \<equiv> 307"
abbreviation (input) rv_op_rdtimeh :: opcode where "rv_op_rdtimeh \<equiv> 308"
abbreviation (input) rv_op_rdinstreth :: opcode where "rv_op_rdinstreth \<equiv> 309"
abbreviation (input) rv_op_frcsr :: opcode where "rv_op_frcsr \<equiv> 310"
abbreviation (input) rv_op_frrm :: opcode where "rv_op_frrm \<equiv> 311"
abbreviation (input) rv_op_frflags :: opcode where "rv_op_frflags \<equiv> 312"
abbreviation (input) rv_op_fscsr :: opcode where "rv_op_fscsr \<equiv> 313"
abbreviation (input) rv_op_fsrm :: opcode where "rv_op_fsrm \<equiv> 314"
abbreviation (input) rv_op_fsflags :: opcode where "rv_op_fsflags \<equiv> 315"
abbreviation (input) rv_op_fsrmi :: opcode where "rv_op_fsrmi \<equiv> 316"
abbreviation (input) rv_op_fsflagsi :: opcode where "rv_op_fsflagsi \<equiv> 317"

abbreviation (input) rv_op_last :: opcode where "rv_op_last \<equiv> 317"

section \<open>Arrays indexed by opcode\<close>

definition rv_inst_codec :: "rv_codec list" where
  "rv_inst_codec = [
    rv_codec_illegal, rv_codec_u, rv_codec_u, rv_codec_uj, rv_codec_i,
    rv_codec_sb, rv_codec_sb, rv_codec_sb, rv_codec_sb, rv_codec_sb,
    rv_codec_sb, rv_codec_i, rv_codec_i, rv_codec_i, rv_codec_i,
    rv_codec_i, rv_codec_s, rv_codec_s, rv_codec_s, rv_codec_i,
    rv_codec_i, rv_codec_i, rv_codec_i, rv_codec_i, rv_codec_i,
    rv_codec_i_sh7, rv_codec_i_sh7, rv_codec_i_sh7, rv_codec_r, rv_codec_r,
    rv_codec_r, rv_codec_r, rv_codec_r, rv_codec_r, rv_codec_r,
    rv_codec_r, rv_codec_r, rv_codec_r, rv_codec_r_f, rv_codec_none,
    rv_codec_i, rv_codec_i, rv_codec_s, rv_codec_i, rv_codec_i_sh5,
    rv_codec_i_sh5, rv_codec_i_sh5, rv_codec_r, rv_codec_r, rv_codec_r,
    rv_codec_r, rv_codec_r, rv_codec_i, rv_codec_i, rv_codec_s,
    rv_codec_i, rv_codec_i_sh6, rv_codec_i_sh6, rv_codec_i_sh6, rv_codec_r,
    rv_codec_r, rv_codec_r, rv_codec_r, rv_codec_r, rv_codec_r,
    rv_codec_r, rv_codec_r, rv_codec_r, rv_codec_r, rv_codec_r,
    rv_codec_r, rv_codec_r, rv_codec_r, rv_codec_r, rv_codec_r,
    rv_codec_r, rv_codec_r, rv_codec_r, rv_codec_r, rv_codec_r,
    rv_codec_r, rv_codec_r, rv_codec_r_l, rv_codec_r_a, rv_codec_r_a,
    rv_codec_r_a, rv_codec_r_a, rv_codec_r_a, rv_codec_r_a, rv_codec_r_a,
    rv_codec_r_a, rv_codec_r_a, rv_codec_r_a, rv_codec_r_l, rv_codec_r_a,
    rv_codec_r_a, rv_codec_r_a, rv_codec_r_a, rv_codec_r_a, rv_codec_r_a,
    rv_codec_r_a, rv_codec_r_a, rv_codec_r_a, rv_codec_r_a, rv_codec_r_l,
    rv_codec_r_a, rv_codec_r_a, rv_codec_r_a, rv_codec_r_a, rv_codec_r_a,
    rv_codec_r_a, rv_codec_r_a, rv_codec_r_a, rv_codec_r_a, rv_codec_r_a,
    rv_codec_none, rv_codec_none, rv_codec_none, rv_codec_none, rv_codec_none,
    rv_codec_none, rv_codec_none, rv_codec_r, rv_codec_none, rv_codec_i_csr,
    rv_codec_i_csr, rv_codec_i_csr, rv_codec_i_csr, rv_codec_i_csr, rv_codec_i_csr,
    rv_codec_i, rv_codec_s, rv_codec_r4_m, rv_codec_r4_m, rv_codec_r4_m,
    rv_codec_r4_m, rv_codec_r_m, rv_codec_r_m, rv_codec_r_m, rv_codec_r_m,
    rv_codec_r, rv_codec_r, rv_codec_r, rv_codec_r, rv_codec_r,
    rv_codec_r_m, rv_codec_r, rv_codec_r, rv_codec_r, rv_codec_r_m,
    rv_codec_r_m, rv_codec_r_m, rv_codec_r_m, rv_codec_r, rv_codec_r,
    rv_codec_r, rv_codec_r_m, rv_codec_r_m, rv_codec_r_m, rv_codec_r_m,
    rv_codec_i, rv_codec_s, rv_codec_r4_m, rv_codec_r4_m, rv_codec_r4_m,
    rv_codec_r4_m, rv_codec_r_m, rv_codec_r_m, rv_codec_r_m, rv_codec_r_m,
    rv_codec_r, rv_codec_r, rv_codec_r, rv_codec_r, rv_codec_r,
    rv_codec_r_m, rv_codec_r_m, rv_codec_r_m, rv_codec_r, rv_codec_r,
    rv_codec_r, rv_codec_r_m, rv_codec_r_m, rv_codec_r_m, rv_codec_r_m,
    rv_codec_r, rv_codec_r_m, rv_codec_r_m, rv_codec_r, rv_codec_r_m,
    rv_codec_r_m, rv_codec_r, rv_codec_i, rv_codec_s, rv_codec_r4_m,
    rv_codec_r4_m, rv_codec_r4_m, rv_codec_r4_m, rv_codec_r_m, rv_codec_r_m,
    rv_codec_r_m, rv_codec_r_m, rv_codec_r, rv_codec_r, rv_codec_r,
    rv_codec_r, rv_codec_r, rv_codec_r_m, rv_codec_r_m, rv_codec_r_m,
    rv_codec_r_m, rv_codec_r_m, rv_codec_r, rv_codec_r, rv_codec_r,
    rv_codec_r_m, rv_codec_r_m, rv_codec_r_m, rv_codec_r_m, rv_codec_r,
    rv_codec_r_m, rv_codec_r_m, rv_codec_r_m, rv_codec_r_m, rv_codec_r,
    rv_codec_r, rv_codec_ciw_4spn, rv_codec_cl_ld, rv_codec_cl_lw, rv_codec_cl_lw,
    rv_codec_cs_sd, rv_codec_cs_sw, rv_codec_cs_sw, rv_codec_ci_none, rv_codec_ci,
    rv_codec_cj_jal, rv_codec_ci_li, rv_codec_ci_16sp, rv_codec_ci_lui, rv_codec_cb_sh6,
    rv_codec_cb_sh6, rv_codec_cb_imm, rv_codec_cs, rv_codec_cs, rv_codec_cs,
    rv_codec_cs, rv_codec_cs, rv_codec_cs, rv_codec_cj, rv_codec_cb,
    rv_codec_cb, rv_codec_ci_sh6, rv_codec_ci_ldsp, rv_codec_ci_lwsp, rv_codec_ci_lwsp,
    rv_codec_cr_jr, rv_codec_cr_mv, rv_codec_ci_none, rv_codec_cr_jalr, rv_codec_cr,
    rv_codec_css_sdsp, rv_codec_css_swsp, rv_codec_css_swsp, rv_codec_cl_ld, rv_codec_cs_sd,
    rv_codec_ci, rv_codec_ci_ldsp, rv_codec_css_sdsp, rv_codec_cl_lq, rv_codec_cs_sq,
    rv_codec_ci_lqsp, rv_codec_css_sqsp, rv_codec_i, rv_codec_i, rv_codec_i,
    rv_codec_r, rv_codec_r, rv_codec_i, rv_codec_i, rv_codec_r,
    rv_codec_r, rv_codec_r, rv_codec_r, rv_codec_r, rv_codec_r,
    rv_codec_r, rv_codec_r, rv_codec_r, rv_codec_r, rv_codec_r,
    rv_codec_r, rv_codec_sb, rv_codec_sb, rv_codec_sb, rv_codec_sb,
    rv_codec_sb, rv_codec_sb, rv_codec_sb, rv_codec_sb, rv_codec_sb,
    rv_codec_sb, rv_codec_uj, rv_codec_i, rv_codec_i, rv_codec_i_csr,
    rv_codec_i_csr, rv_codec_i_csr, rv_codec_i_csr, rv_codec_i_csr, rv_codec_i_csr,
    rv_codec_i_csr, rv_codec_i_csr, rv_codec_i_csr, rv_codec_i_csr, rv_codec_i_csr,
    rv_codec_i_csr, rv_codec_i_csr, rv_codec_i_csr]"

definition rv_inst_match :: "inst_t list" where
  "rv_inst_match = [
    0x0, 0x37, 0x17, 0x6f, 0x67, 0x63, 0x1063, 0x4063,
    0x5063, 0x6063, 0x7063, 0x3, 0x1003, 0x2003, 0x4003, 0x5003,
    0x23, 0x1023, 0x2023, 0x13, 0x2013, 0x3013, 0x4013, 0x6013,
    0x7013, 0x1013, 0x5013, 0x40005013, 0x33, 0x40000033, 0x1033, 0x2033,
    0x3033, 0x4033, 0x5033, 0x40005033, 0x6033, 0x7033, 0xf, 0x100f,
    0x6003, 0x3003, 0x3023, 0x1b, 0x101b, 0x501b, 0x4000501b, 0x3b,
    0x4000003b, 0x103b, 0x503b, 0x4000503b, 0x7003, 0x200f, 0x4023, 0x5b,
    0x105b, 0x505b, 0x4000505b, 0x7b, 0x4000007b, 0x107b, 0x507b, 0x4000507b,
    0x2000033, 0x2001033, 0x2002033, 0x2003033, 0x2004033, 0x2005033, 0x2006033, 0x2007033,
    0x200003b, 0x200403b, 0x200503b, 0x200603b, 0x200703b, 0x200007b, 0x200407b, 0x200507b,
    0x200607b, 0x200707b, 0x1000202f, 0x1800202f, 0x800202f, 0x202f, 0x2000202f, 0x4000202f,
    0x6000202f, 0x8000202f, 0xa000202f, 0xc000202f, 0xe000202f, 0x1000302f, 0x1800302f, 0x800302f,
    0x302f, 0x2000302f, 0x4000302f, 0x6000302f, 0x8000302f, 0xa000302f, 0xc000302f, 0xe000302f,
    0x1000402f, 0x1800402f, 0x800402f, 0x402f, 0x2000402f, 0x4000402f, 0x6000402f, 0x8000402f,
    0xa000402f, 0xc000402f, 0xe000402f, 0x73, 0x100073, 0x200073, 0x10200073, 0x20200073,
    0x30200073, 0x7b200073, 0x10400073, 0x10500073, 0x1073, 0x2073, 0x3073, 0x5073,
    0x6073, 0x7073, 0x2007, 0x2027, 0x43, 0x47, 0x4b, 0x4f,
    0x53, 0x8000053, 0x10000053, 0x18000053, 0x20000053, 0x20001053, 0x20002053, 0x28000053,
    0x28001053, 0x58000053, 0xa0000053, 0xa0001053, 0xa0002053, 0xc0000053, 0xc0100053, 0xd0000053,
    0xd0100053, 0xe0000053, 0xe0001053, 0xf0000053, 0xc0200053, 0xc0300053, 0xd0200053, 0xd0300053,
    0x3007, 0x3027, 0x2000043, 0x2000047, 0x200004b, 0x200004f, 0x2000053, 0xa000053,
    0x12000053, 0x1a000053, 0x22000053, 0x22001053, 0x22002053, 0x2a000053, 0x2a001053, 0x40100053,
    0x42000053, 0x5a000053, 0xa2000053, 0xa2001053, 0xa2002053, 0xc2000053, 0xc2100053, 0xd2000053,
    0xd2100053, 0xe2001053, 0xc2200053, 0xc2300053, 0xe2000053, 0xd2200053, 0xd2300053, 0xf2000053,
    0x4007, 0x4027, 0x6000043, 0x6000047, 0x600004b, 0x600004f, 0x6000053, 0xe000053,
    0x16000053, 0x1e000053, 0x26000053, 0x26001053, 0x26002053, 0x2e000053, 0x2e001053, 0x40300053,
    0x46000053, 0x42300053, 0x46100053, 0x5e000053, 0xa6000053, 0xa6001053, 0xa6002053, 0xc6000053,
    0xc6100053, 0xd6000053, 0xd6100053, 0xe6001053, 0xc6200053, 0xc6300053, 0xd6200053, 0xd6300053,
    0xe6000053, 0xf6000053, 0x0, 0x2000, 0x4000, 0x6000, 0xa000, 0xc000,
    0xe000, 0x1, 0x1, 0x2001, 0x4001, 0x6101, 0x6001, 0x8001,
    0x8401, 0x8801, 0x8c01, 0x8c21, 0x8c41, 0x8c61, 0x9c01, 0x9c21,
    0xa001, 0xc001, 0xe001, 0x2, 0x2002, 0x4002, 0x6002, 0x8002,
    0x8002, 0x9002, 0x9002, 0x9002, 0xa002, 0xc002, 0xe002, 0x6000,
    0xe000, 0x2001, 0x6002, 0xe002, 0x2000, 0xa000, 0x2002, 0xa002,
    0x0, 0x0, 0x0, 0x0, 0x0, 0x0, 0x0, 0x0,
    0x0, 0x0, 0x0, 0x0, 0x0, 0x0, 0x0, 0x0,
    0x0, 0x0, 0x0, 0x0, 0x0, 0x0, 0x0, 0x0,
    0x0, 0x0, 0x0, 0x0, 0x0, 0x0, 0x0, 0x0,
    0x0, 0x0, 0x0, 0x0, 0x0, 0x0, 0x0, 0x0,
    0x0, 0x0, 0x0, 0x0, 0x0, 0x0]"

definition rv_inst_mask :: "inst_t list" where
  "rv_inst_mask = [
    0x0, 0x7f, 0x7f, 0x7f, 0x707f, 0x707f, 0x707f, 0x707f,
    0x707f, 0x707f, 0x707f, 0x707f, 0x707f, 0x707f, 0x707f, 0x707f,
    0x707f, 0x707f, 0x707f, 0x707f, 0x707f, 0x707f, 0x707f, 0x707f,
    0x707f, 0xf800707f, 0xf800707f, 0xf800707f, 0xfe00707f, 0xfe00707f, 0xfe00707f, 0xfe00707f,
    0xfe00707f, 0xfe00707f, 0xfe00707f, 0xfe00707f, 0xfe00707f, 0xfe00707f, 0x707f, 0x707f,
    0x707f, 0x707f, 0x707f, 0x707f, 0xfe00707f, 0xfe00707f, 0xfe00707f, 0xfe00707f,
    0xfe00707f, 0xfe00707f, 0xfe00707f, 0xfe00707f, 0x707f, 0x707f, 0x707f, 0x707f,
    0xfc00707f, 0xfc00707f, 0xfc00707f, 0xfe00707f, 0xfe00707f, 0xfe00707f, 0xfe00707f, 0xfe00707f,
    0xfe00707f, 0xfe00707f, 0xfe00707f, 0xfe00707f, 0xfe00707f, 0xfe00707f, 0xfe00707f, 0xfe00707f,
    0xfe00707f, 0xfe00707f, 0xfe00707f, 0xfe00707f, 0xfe00707f, 0xfe00707f, 0xfe00707f, 0xfe00707f,
    0xfe00707f, 0xfe00707f, 0xf9f0707f, 0xf800707f, 0xf800707f, 0xf800707f, 0xf800707f, 0xf800707f,
    0xf800707f, 0xf800707f, 0xf800707f, 0xf800707f, 0xf800707f, 0xf9f0707f, 0xf800707f, 0xf800707f,
    0xf800707f, 0xf800707f, 0xf800707f, 0xf800707f, 0xf800707f, 0xf800707f, 0xf800707f, 0xf800707f,
    0xf9f0707f, 0xf800707f, 0xf800707f, 0xf800707f, 0xf800707f, 0xf800707f, 0xf800707f, 0xf800707f,
    0xf800707f, 0xf800707f, 0xf800707f, 0xffffffff, 0xffffffff, 0xffffffff, 0xffffffff, 0xffffffff,
    0xffffffff, 0xffffffff, 0xfff07fff, 0xffffffff, 0x707f, 0x707f, 0x707f, 0x707f,
    0x707f, 0x707f, 0x707f, 0x707f, 0x600007f, 0x600007f, 0x600007f, 0x600007f,
    0xfe00007f, 0xfe00007f, 0xfe00007f, 0xfe00007f, 0xfe00707f, 0xfe00707f, 0xfe00707f, 0xfe00707f,
    0xfe00707f, 0xfff0007f, 0xfe00707f, 0xfe00707f, 0xfe00707f, 0xfff0007f, 0xfff0007f, 0xfff0007f,
    0xfff0007f, 0xfff0707f, 0xfff0707f, 0xfff0707f, 0xfff0007f, 0xfff0007f, 0xfff0007f, 0xfff0007f,
    0x707f, 0x707f, 0x600007f, 0x600007f, 0x600007f, 0x600007f, 0xfe00007f, 0xfe00007f,
    0xfe00007f, 0xfe00007f, 0xfe00707f, 0xfe00707f, 0xfe00707f, 0xfe00707f, 0xfe00707f, 0xfff0007f,
    0xfff0007f, 0xfff0007f, 0xfe00707f, 0xfe00707f, 0xfe00707f, 0xfff0007f, 0xfff0007f, 0xfff0007f,
    0xfff0007f, 0xfff0707f, 0xfff0007f, 0xfff0007f, 0xfff0707f, 0xfff0007f, 0xfff0007f, 0xfff0707f,
    0x707f, 0x707f, 0x600007f, 0x600007f, 0x600007f, 0x600007f, 0xfe00007f, 0xfe00007f,
    0xfe00007f, 0xfe00007f, 0xfe00707f, 0xfe00707f, 0xfe00707f, 0xfe00707f, 0xfe00707f, 0xfff0007f,
    0xfff0007f, 0xfff0007f, 0xfff0007f, 0xfff0007f, 0xfe00707f, 0xfe00707f, 0xfe00707f, 0xfff0007f,
    0xfff0007f, 0xfff0007f, 0xfff0007f, 0xfff0707f, 0xfff0007f, 0xfff0007f, 0xfff0007f, 0xfff0007f,
    0xfff0707f, 0xfff0707f, 0xe003, 0xe003, 0xe003, 0xe003, 0xe003, 0xe003,
    0xe003, 0xffff, 0xe003, 0xe003, 0xe003, 0xef83, 0xe003, 0xec03,
    0xec03, 0xec03, 0xfc63, 0xfc63, 0xfc63, 0xfc63, 0xfc63, 0xfc63,
    0xe003, 0xe003, 0xe003, 0xe003, 0xe003, 0xe003, 0xe003, 0xf07f,
    0xf003, 0xffff, 0xf07f, 0xf003, 0xe003, 0xe003, 0xe003, 0xe003,
    0xe003, 0xe003, 0xe003, 0xe003, 0xe003, 0xe003, 0xe003, 0xe003,
    0x0, 0x0, 0x0, 0x0, 0x0, 0x0, 0x0, 0x0,
    0x0, 0x0, 0x0, 0x0, 0x0, 0x0, 0x0, 0x0,
    0x0, 0x0, 0x0, 0x0, 0x0, 0x0, 0x0, 0x0,
    0x0, 0x0, 0x0, 0x0, 0x0, 0x0, 0x0, 0x0,
    0x0, 0x0, 0x0, 0x0, 0x0, 0x0, 0x0, 0x0,
    0x0, 0x0, 0x0, 0x0, 0x0, 0x0]"

definition rv_inst_decomp_rv32 :: "opcode list" where
  "rv_inst_decomp_rv32 = [
    rv_op_illegal, rv_op_illegal, rv_op_illegal, rv_op_illegal, rv_op_illegal, rv_op_illegal,
    rv_op_illegal, rv_op_illegal, rv_op_illegal, rv_op_illegal, rv_op_illegal, rv_op_illegal,
    rv_op_illegal, rv_op_illegal, rv_op_illegal, rv_op_illegal, rv_op_illegal, rv_op_illegal,
    rv_op_illegal, rv_op_illegal, rv_op_illegal, rv_op_illegal, rv_op_illegal, rv_op_illegal,
    rv_op_illegal, rv_op_illegal, rv_op_illegal, rv_op_illegal, rv_op_illegal, rv_op_illegal,
    rv_op_illegal, rv_op_illegal, rv_op_illegal, rv_op_illegal, rv_op_illegal, rv_op_illegal,
    rv_op_illegal, rv_op_illegal, rv_op_illegal, rv_op_illegal, rv_op_illegal, rv_op_illegal,
    rv_op_illegal, rv_op_illegal, rv_op_illegal, rv_op_illegal, rv_op_illegal, rv_op_illegal,
    rv_op_illegal, rv_op_illegal, rv_op_illegal, rv_op_illegal, rv_op_illegal, rv_op_illegal,
    rv_op_illegal, rv_op_illegal, rv_op_illegal, rv_op_illegal, rv_op_illegal, rv_op_illegal,
    rv_op_illegal, rv_op_illegal, rv_op_illegal, rv_op_illegal, rv_op_illegal, rv_op_illegal,
    rv_op_illegal, rv_op_illegal, rv_op_illegal, rv_op_illegal, rv_op_illegal, rv_op_illegal,
    rv_op_illegal, rv_op_illegal, rv_op_illegal, rv_op_illegal, rv_op_illegal, rv_op_illegal,
    rv_op_illegal, rv_op_illegal, rv_op_illegal, rv_op_illegal, rv_op_illegal, rv_op_illegal,
    rv_op_illegal, rv_op_illegal, rv_op_illegal, rv_op_illegal, rv_op_illegal, rv_op_illegal,
    rv_op_illegal, rv_op_illegal, rv_op_illegal, rv_op_illegal, rv_op_illegal, rv_op_illegal,
    rv_op_illegal, rv_op_illegal, rv_op_illegal, rv_op_illegal, rv_op_illegal, rv_op_illegal,
    rv_op_illegal, rv_op_illegal, rv_op_illegal, rv_op_illegal, rv_op_illegal, rv_op_illegal,
    rv_op_illegal, rv_op_illegal, rv_op_illegal, rv_op_illegal, rv_op_illegal, rv_op_illegal,
    rv_op_illegal, rv_op_illegal, rv_op_illegal, rv_op_illegal, rv_op_illegal, rv_op_illegal,
    rv_op_illegal, rv_op_illegal, rv_op_illegal, rv_op_illegal, rv_op_illegal, rv_op_illegal,
    rv_op_illegal, rv_op_illegal, rv_op_illegal, rv_op_illegal, rv_op_illegal, rv_op_illegal,
    rv_op_illegal, rv_op_illegal, rv_op_illegal, rv_op_illegal, rv_op_illegal, rv_op_illegal,
    rv_op_illegal, rv_op_illegal, rv_op_illegal, rv_op_illegal, rv_op_illegal, rv_op_illegal,
    rv_op_illegal, rv_op_illegal, rv_op_illegal, rv_op_illegal, rv_op_illegal, rv_op_illegal,
    rv_op_illegal, rv_op_illegal, rv_op_illegal, rv_op_illegal, rv_op_illegal, rv_op_illegal,
    rv_op_illegal, rv_op_illegal, rv_op_illegal, rv_op_illegal, rv_op_illegal, rv_op_illegal,
    rv_op_illegal, rv_op_illegal, rv_op_illegal, rv_op_illegal, rv_op_illegal, rv_op_illegal,
    rv_op_illegal, rv_op_illegal, rv_op_illegal, rv_op_illegal, rv_op_illegal, rv_op_illegal,
    rv_op_illegal, rv_op_illegal, rv_op_illegal, rv_op_illegal, rv_op_illegal, rv_op_illegal,
    rv_op_illegal, rv_op_illegal, rv_op_illegal, rv_op_illegal, rv_op_illegal, rv_op_illegal,
    rv_op_illegal, rv_op_illegal, rv_op_illegal, rv_op_illegal, rv_op_illegal, rv_op_illegal,
    rv_op_illegal, rv_op_illegal, rv_op_illegal, rv_op_illegal, rv_op_illegal, rv_op_illegal,
    rv_op_illegal, rv_op_illegal, rv_op_illegal, rv_op_illegal, rv_op_illegal, rv_op_illegal,
    rv_op_illegal, rv_op_illegal, rv_op_illegal, rv_op_illegal, rv_op_illegal, rv_op_illegal,
    rv_op_illegal, rv_op_illegal, rv_op_illegal, rv_op_illegal, rv_op_illegal, rv_op_illegal,
    rv_op_illegal, rv_op_illegal, rv_op_illegal, rv_op_illegal, rv_op_illegal, rv_op_illegal,
    rv_op_illegal, rv_op_illegal, rv_op_illegal, rv_op_illegal, rv_op_addi, rv_op_fld,
    rv_op_lw, rv_op_flw, rv_op_fsd, rv_op_sw, rv_op_fsw, rv_op_addi,
    rv_op_addi, rv_op_jal, rv_op_addi, rv_op_addi, rv_op_lui, rv_op_srli,
    rv_op_srai, rv_op_andi, rv_op_sub, rv_op_xor, rv_op_or, rv_op_and,
    rv_op_subw, rv_op_addw, rv_op_jal, rv_op_beq, rv_op_bne, rv_op_slli,
    rv_op_fld, rv_op_lw, rv_op_flw, rv_op_jalr, rv_op_addi, rv_op_ebreak,
    rv_op_jalr, rv_op_add, rv_op_fsd, rv_op_sw, rv_op_fsw, rv_op_illegal,
    rv_op_illegal, rv_op_illegal, rv_op_illegal, rv_op_illegal, rv_op_illegal, rv_op_illegal,
    rv_op_illegal, rv_op_illegal, rv_op_illegal, rv_op_illegal, rv_op_illegal, rv_op_illegal,
    rv_op_illegal, rv_op_illegal, rv_op_illegal, rv_op_illegal, rv_op_illegal, rv_op_illegal,
    rv_op_illegal, rv_op_illegal, rv_op_illegal, rv_op_illegal, rv_op_illegal, rv_op_illegal,
    rv_op_illegal, rv_op_illegal, rv_op_illegal, rv_op_illegal, rv_op_illegal, rv_op_illegal,
    rv_op_illegal, rv_op_illegal, rv_op_illegal, rv_op_illegal, rv_op_illegal, rv_op_illegal,
    rv_op_illegal, rv_op_illegal, rv_op_illegal, rv_op_illegal, rv_op_illegal, rv_op_illegal,
    rv_op_illegal, rv_op_illegal, rv_op_illegal, rv_op_illegal, rv_op_illegal, rv_op_illegal,
    rv_op_illegal, rv_op_illegal, rv_op_illegal, rv_op_illegal, rv_op_illegal, rv_op_illegal]"

definition rv_inst_decomp_rv64 :: "opcode list" where
  "rv_inst_decomp_rv64 = [
    rv_op_illegal, rv_op_illegal, rv_op_illegal, rv_op_illegal, rv_op_illegal, rv_op_illegal,
    rv_op_illegal, rv_op_illegal, rv_op_illegal, rv_op_illegal, rv_op_illegal, rv_op_illegal,
    rv_op_illegal, rv_op_illegal, rv_op_illegal, rv_op_illegal, rv_op_illegal, rv_op_illegal,
    rv_op_illegal, rv_op_illegal, rv_op_illegal, rv_op_illegal, rv_op_illegal, rv_op_illegal,
    rv_op_illegal, rv_op_illegal, rv_op_illegal, rv_op_illegal, rv_op_illegal, rv_op_illegal,
    rv_op_illegal, rv_op_illegal, rv_op_illegal, rv_op_illegal, rv_op_illegal, rv_op_illegal,
    rv_op_illegal, rv_op_illegal, rv_op_illegal, rv_op_illegal, rv_op_illegal, rv_op_illegal,
    rv_op_illegal, rv_op_illegal, rv_op_illegal, rv_op_illegal, rv_op_illegal, rv_op_illegal,
    rv_op_illegal, rv_op_illegal, rv_op_illegal, rv_op_illegal, rv_op_illegal, rv_op_illegal,
    rv_op_illegal, rv_op_illegal, rv_op_illegal, rv_op_illegal, rv_op_illegal, rv_op_illegal,
    rv_op_illegal, rv_op_illegal, rv_op_illegal, rv_op_illegal, rv_op_illegal, rv_op_illegal,
    rv_op_illegal, rv_op_illegal, rv_op_illegal, rv_op_illegal, rv_op_illegal, rv_op_illegal,
    rv_op_illegal, rv_op_illegal, rv_op_illegal, rv_op_illegal, rv_op_illegal, rv_op_illegal,
    rv_op_illegal, rv_op_illegal, rv_op_illegal, rv_op_illegal, rv_op_illegal, rv_op_illegal,
    rv_op_illegal, rv_op_illegal, rv_op_illegal, rv_op_illegal, rv_op_illegal, rv_op_illegal,
    rv_op_illegal, rv_op_illegal, rv_op_illegal, rv_op_illegal, rv_op_illegal, rv_op_illegal,
    rv_op_illegal, rv_op_illegal, rv_op_illegal, rv_op_illegal, rv_op_illegal, rv_op_illegal,
    rv_op_illegal, rv_op_illegal, rv_op_illegal, rv_op_illegal, rv_op_illegal, rv_op_illegal,
    rv_op_illegal, rv_op_illegal, rv_op_illegal, rv_op_illegal, rv_op_illegal, rv_op_illegal,
    rv_op_illegal, rv_op_illegal, rv_op_illegal, rv_op_illegal, rv_op_illegal, rv_op_illegal,
    rv_op_illegal, rv_op_illegal, rv_op_illegal, rv_op_illegal, rv_op_illegal, rv_op_illegal,
    rv_op_illegal, rv_op_illegal, rv_op_illegal, rv_op_illegal, rv_op_illegal, rv_op_illegal,
    rv_op_illegal, rv_op_illegal, rv_op_illegal, rv_op_illegal, rv_op_illegal, rv_op_illegal,
    rv_op_illegal, rv_op_illegal, rv_op_illegal, rv_op_illegal, rv_op_illegal, rv_op_illegal,
    rv_op_illegal, rv_op_illegal, rv_op_illegal, rv_op_illegal, rv_op_illegal, rv_op_illegal,
    rv_op_illegal, rv_op_illegal, rv_op_illegal, rv_op_illegal, rv_op_illegal, rv_op_illegal,
    rv_op_illegal, rv_op_illegal, rv_op_illegal, rv_op_illegal, rv_op_illegal, rv_op_illegal,
    rv_op_illegal, rv_op_illegal, rv_op_illegal, rv_op_illegal, rv_op_illegal, rv_op_illegal,
    rv_op_illegal, rv_op_illegal, rv_op_illegal, rv_op_illegal, rv_op_illegal, rv_op_illegal,
    rv_op_illegal, rv_op_illegal, rv_op_illegal, rv_op_illegal, rv_op_illegal, rv_op_illegal,
    rv_op_illegal, rv_op_illegal, rv_op_illegal, rv_op_illegal, rv_op_illegal, rv_op_illegal,
    rv_op_illegal, rv_op_illegal, rv_op_illegal, rv_op_illegal, rv_op_illegal, rv_op_illegal,
    rv_op_illegal, rv_op_illegal, rv_op_illegal, rv_op_illegal, rv_op_illegal, rv_op_illegal,
    rv_op_illegal, rv_op_illegal, rv_op_illegal, rv_op_illegal, rv_op_illegal, rv_op_illegal,
    rv_op_illegal, rv_op_illegal, rv_op_illegal, rv_op_illegal, rv_op_illegal, rv_op_illegal,
    rv_op_illegal, rv_op_illegal, rv_op_illegal, rv_op_illegal, rv_op_illegal, rv_op_illegal,
    rv_op_illegal, rv_op_illegal, rv_op_illegal, rv_op_illegal, rv_op_illegal, rv_op_illegal,
    rv_op_illegal, rv_op_illegal, rv_op_illegal, rv_op_illegal, rv_op_addi, rv_op_fld,
    rv_op_lw, rv_op_illegal, rv_op_fsd, rv_op_sw, rv_op_illegal, rv_op_addi,
    rv_op_addi, rv_op_illegal, rv_op_addi, rv_op_addi, rv_op_lui, rv_op_srli,
    rv_op_srai, rv_op_andi, rv_op_sub, rv_op_xor, rv_op_or, rv_op_and,
    rv_op_subw, rv_op_addw, rv_op_jal, rv_op_beq, rv_op_bne, rv_op_slli,
    rv_op_fld, rv_op_lw, rv_op_illegal, rv_op_jalr, rv_op_addi, rv_op_ebreak,
    rv_op_jalr, rv_op_add, rv_op_fsd, rv_op_sw, rv_op_illegal, rv_op_ld,
    rv_op_sd, rv_op_addiw, rv_op_ld, rv_op_sd, rv_op_illegal, rv_op_illegal,
    rv_op_illegal, rv_op_illegal, rv_op_illegal, rv_op_illegal, rv_op_illegal, rv_op_illegal,
    rv_op_illegal, rv_op_illegal, rv_op_illegal, rv_op_illegal, rv_op_illegal, rv_op_illegal,
    rv_op_illegal, rv_op_illegal, rv_op_illegal, rv_op_illegal, rv_op_illegal, rv_op_illegal,
    rv_op_illegal, rv_op_illegal, rv_op_illegal, rv_op_illegal, rv_op_illegal, rv_op_illegal,
    rv_op_illegal, rv_op_illegal, rv_op_illegal, rv_op_illegal, rv_op_illegal, rv_op_illegal,
    rv_op_illegal, rv_op_illegal, rv_op_illegal, rv_op_illegal, rv_op_illegal, rv_op_illegal,
    rv_op_illegal, rv_op_illegal, rv_op_illegal, rv_op_illegal, rv_op_illegal, rv_op_illegal,
    rv_op_illegal, rv_op_illegal, rv_op_illegal, rv_op_illegal, rv_op_illegal, rv_op_illegal]"

definition rv_inst_decomp_rv128 :: "opcode list" where
  "rv_inst_decomp_rv128 = [
    rv_op_illegal, rv_op_illegal, rv_op_illegal, rv_op_illegal, rv_op_illegal, rv_op_illegal,
    rv_op_illegal, rv_op_illegal, rv_op_illegal, rv_op_illegal, rv_op_illegal, rv_op_illegal,
    rv_op_illegal, rv_op_illegal, rv_op_illegal, rv_op_illegal, rv_op_illegal, rv_op_illegal,
    rv_op_illegal, rv_op_illegal, rv_op_illegal, rv_op_illegal, rv_op_illegal, rv_op_illegal,
    rv_op_illegal, rv_op_illegal, rv_op_illegal, rv_op_illegal, rv_op_illegal, rv_op_illegal,
    rv_op_illegal, rv_op_illegal, rv_op_illegal, rv_op_illegal, rv_op_illegal, rv_op_illegal,
    rv_op_illegal, rv_op_illegal, rv_op_illegal, rv_op_illegal, rv_op_illegal, rv_op_illegal,
    rv_op_illegal, rv_op_illegal, rv_op_illegal, rv_op_illegal, rv_op_illegal, rv_op_illegal,
    rv_op_illegal, rv_op_illegal, rv_op_illegal, rv_op_illegal, rv_op_illegal, rv_op_illegal,
    rv_op_illegal, rv_op_illegal, rv_op_illegal, rv_op_illegal, rv_op_illegal, rv_op_illegal,
    rv_op_illegal, rv_op_illegal, rv_op_illegal, rv_op_illegal, rv_op_illegal, rv_op_illegal,
    rv_op_illegal, rv_op_illegal, rv_op_illegal, rv_op_illegal, rv_op_illegal, rv_op_illegal,
    rv_op_illegal, rv_op_illegal, rv_op_illegal, rv_op_illegal, rv_op_illegal, rv_op_illegal,
    rv_op_illegal, rv_op_illegal, rv_op_illegal, rv_op_illegal, rv_op_illegal, rv_op_illegal,
    rv_op_illegal, rv_op_illegal, rv_op_illegal, rv_op_illegal, rv_op_illegal, rv_op_illegal,
    rv_op_illegal, rv_op_illegal, rv_op_illegal, rv_op_illegal, rv_op_illegal, rv_op_illegal,
    rv_op_illegal, rv_op_illegal, rv_op_illegal, rv_op_illegal, rv_op_illegal, rv_op_illegal,
    rv_op_illegal, rv_op_illegal, rv_op_illegal, rv_op_illegal, rv_op_illegal, rv_op_illegal,
    rv_op_illegal, rv_op_illegal, rv_op_illegal, rv_op_illegal, rv_op_illegal, rv_op_illegal,
    rv_op_illegal, rv_op_illegal, rv_op_illegal, rv_op_illegal, rv_op_illegal, rv_op_illegal,
    rv_op_illegal, rv_op_illegal, rv_op_illegal, rv_op_illegal, rv_op_illegal, rv_op_illegal,
    rv_op_illegal, rv_op_illegal, rv_op_illegal, rv_op_illegal, rv_op_illegal, rv_op_illegal,
    rv_op_illegal, rv_op_illegal, rv_op_illegal, rv_op_illegal, rv_op_illegal, rv_op_illegal,
    rv_op_illegal, rv_op_illegal, rv_op_illegal, rv_op_illegal, rv_op_illegal, rv_op_illegal,
    rv_op_illegal, rv_op_illegal, rv_op_illegal, rv_op_illegal, rv_op_illegal, rv_op_illegal,
    rv_op_illegal, rv_op_illegal, rv_op_illegal, rv_op_illegal, rv_op_illegal, rv_op_illegal,
    rv_op_illegal, rv_op_illegal, rv_op_illegal, rv_op_illegal, rv_op_illegal, rv_op_illegal,
    rv_op_illegal, rv_op_illegal, rv_op_illegal, rv_op_illegal, rv_op_illegal, rv_op_illegal,
    rv_op_illegal, rv_op_illegal, rv_op_illegal, rv_op_illegal, rv_op_illegal, rv_op_illegal,
    rv_op_illegal, rv_op_illegal, rv_op_illegal, rv_op_illegal, rv_op_illegal, rv_op_illegal,
    rv_op_illegal, rv_op_illegal, rv_op_illegal, rv_op_illegal, rv_op_illegal, rv_op_illegal,
    rv_op_illegal, rv_op_illegal, rv_op_illegal, rv_op_illegal, rv_op_illegal, rv_op_illegal,
    rv_op_illegal, rv_op_illegal, rv_op_illegal, rv_op_illegal, rv_op_illegal, rv_op_illegal,
    rv_op_illegal, rv_op_illegal, rv_op_illegal, rv_op_illegal, rv_op_illegal, rv_op_illegal,
    rv_op_illegal, rv_op_illegal, rv_op_illegal, rv_op_illegal, rv_op_illegal, rv_op_illegal,
    rv_op_illegal, rv_op_illegal, rv_op_illegal, rv_op_illegal, rv_op_illegal, rv_op_illegal,
    rv_op_illegal, rv_op_illegal, rv_op_illegal, rv_op_illegal, rv_op_illegal, rv_op_illegal,
    rv_op_illegal, rv_op_illegal, rv_op_illegal, rv_op_illegal, rv_op_illegal, rv_op_illegal,
    rv_op_illegal, rv_op_illegal, rv_op_illegal, rv_op_illegal, rv_op_illegal, rv_op_illegal,
    rv_op_illegal, rv_op_illegal, rv_op_illegal, rv_op_illegal, rv_op_illegal, rv_op_illegal,
    rv_op_illegal, rv_op_illegal, rv_op_illegal, rv_op_illegal, rv_op_illegal, rv_op_illegal,
    rv_op_illegal, rv_op_illegal, rv_op_illegal, rv_op_illegal, rv_op_illegal, rv_op_illegal,
    rv_op_illegal, rv_op_illegal, rv_op_illegal, rv_op_illegal, rv_op_illegal, rv_op_illegal,
    rv_op_illegal, rv_op_illegal, rv_op_illegal, rv_op_illegal, rv_op_illegal, rv_op_illegal,
    rv_op_illegal, rv_op_illegal, rv_op_illegal, rv_op_illegal, rv_op_lq, rv_op_sq,
    rv_op_lq, rv_op_sq, rv_op_illegal, rv_op_illegal, rv_op_illegal, rv_op_illegal,
    rv_op_illegal, rv_op_illegal, rv_op_illegal, rv_op_illegal, rv_op_illegal, rv_op_illegal,
    rv_op_illegal, rv_op_illegal, rv_op_illegal, rv_op_illegal, rv_op_illegal, rv_op_illegal,
    rv_op_illegal, rv_op_illegal, rv_op_illegal, rv_op_illegal, rv_op_illegal, rv_op_illegal,
    rv_op_illegal, rv_op_illegal, rv_op_illegal, rv_op_illegal, rv_op_illegal, rv_op_illegal,
    rv_op_illegal, rv_op_illegal, rv_op_illegal, rv_op_illegal, rv_op_illegal, rv_op_illegal,
    rv_op_illegal, rv_op_illegal, rv_op_illegal, rv_op_illegal, rv_op_illegal, rv_op_illegal,
    rv_op_illegal, rv_op_illegal, rv_op_illegal, rv_op_illegal, rv_op_illegal, rv_op_illegal]"

lemma table_lengths [simp]:
  "length rv_inst_codec = 318" "length rv_inst_match = 318" "length rv_inst_mask = 318"
  "length rv_inst_decomp_rv32 = 318" "length rv_inst_decomp_rv64 = 318"
  "length rv_inst_decomp_rv128 = 318"
  by (simp_all add: rv_inst_codec_def rv_inst_match_def rv_inst_mask_def
      rv_inst_decomp_rv32_def rv_inst_decomp_rv64_def rv_inst_decomp_rv128_def)

end
