(* ===== verification/Rv_Formats.thy ===== *)
theory Rv_Formats
  imports Rv_Operands Rv_Meta
begin

text \<open>
  The decoded instruction (\<^verbatim>\<open>struct decode\<close> of \<^verbatim>\<open>src/src/asm/codec.h\<close>) and the per-format decoders
  and encoders of \<^verbatim>\<open>src/src/asm/decode.h\<close> and \<^verbatim>\<open>src/src/asm/encode.h\<close>, with the two
  dispatchers of \<^verbatim>\<open>src/src/asm/switch.h\<close>.

  A decoder updates the record it is given: fields the format does not mention keep their old
  value.  Register fields are 8-bit, the immediate is a 32-bit signed number, the other fields
  are bit-fields of their width, so every assignment truncates.  An encoder whose
  \<^verbatim>\<open>assert\<close> fails aborts; this is the result \<open>None\<close>.
\<close>

section \<open>The decoded instruction\<close>

record decode =
  dec_imm :: s32
  dec_rd :: u8
  dec_rs1 :: u8
  dec_rs2 :: u8
  dec_rs3 :: u8
  dec_op :: opcode
  dec_codec :: rv_codec
  dec_rm :: "3 word"
  dec_aq :: "1 word"
  dec_rl :: "1 word"
  dec_pred :: "4 word"
  dec_succ :: "4 word"

definition decode_init :: decode where
  "decode_init = \<lparr>dec_imm = 0, dec_rd = 0, dec_rs1 = 0, dec_rs2 = 0, dec_rs3 = 0, dec_op = 0,
     dec_codec = rv_codec_illegal, dec_rm = 0, dec_aq = 0, dec_rl = 0, dec_pred = 0, dec_succ = 0\<rparr>"

definition assert_then :: "bool \<Rightarrow> 'a \<Rightarrow> 'a option" where
  "assert_then b x = (if b then Some x else None)"

section \<open>Decoders\<close>

definition decode_none :: "decode \<Rightarrow> inst_t \<Rightarrow> decode" where
  "decode_none dec inst = dec
     \<lparr>dec_rd := 0,
       dec_rs1 := 0,
       dec_rs2 := 0,
       dec_imm := 0\<rparr>"

definition decode_ci_none :: "decode \<Rightarrow> inst_t \<Rightarrow> decode" where
  "decode_ci_none dec inst = dec
     \<lparr>dec_rd := 0,
       dec_rs1 := 0,
       dec_rs2 := 0,
       dec_imm := 0\<rparr>"

definition decode_cr :: "decode \<Rightarrow> inst_t \<Rightarrow> decode" where
  "decode_cr dec inst = dec
     \<lparr>dec_rd := ucast (operand_decode operand_crs1rd inst),
       dec_rs1 := ucast (operand_decode operand_crs1rd inst),
       dec_rs2 := ucast (operand_decode operand_crs2 inst),
       dec_imm := 0\<rparr>"

definition decode_cr_mv :: "decode \<Rightarrow> inst_t \<Rightarrow> decode" where
  "decode_cr_mv dec inst = dec
     \<lparr>dec_rd := ucast (operand_decode operand_crd inst),
       dec_rs1 := ucast (operand_decode operand_crs2 inst),
       dec_rs2 := 0,
       dec_imm := 0\<rparr>"

definition decode_cr_jalr :: "decode \<Rightarrow> inst_t \<Rightarrow> decode" where
  "decode_cr_jalr dec inst = dec
     \<lparr>dec_rd := 1,
       dec_rs1 := ucast (operand_decode operand_crs1 inst),
       dec_rs2 := 0,
       dec_imm := 0\<rparr>"

definition decode_cr_jr :: "decode \<Rightarrow> inst_t \<Rightarrow> decode" where
  "decode_cr_jr dec inst = dec
     \<lparr>dec_rd := 0,
       dec_rs1 := ucast (operand_decode operand_crs1 inst),
       dec_rs2 := 0,
       dec_imm := 0\<rparr>"

definition decode_ci :: "decode \<Rightarrow> inst_t \<Rightarrow> decode" where
  "decode_ci dec inst = dec
     \<lparr>dec_rd := ucast (operand_decode operand_crs1rd inst),
       dec_rs1 := ucast (operand_decode operand_crs1rd inst),
       dec_rs2 := 0,
       dec_imm := ucast (operand_decode operand_cimmi inst)\<rparr>"

definition decode_ci_sh5 :: "decode \<Rightarrow> inst_t \<Rightarrow> decode" where
  "decode_ci_sh5 dec inst = dec
     \<lparr>dec_rd := ucast (operand_decode operand_crs1rd inst),
       dec_rs1 := ucast (operand_decode operand_crs1rd inst),
       dec_rs2 := 0,
       dec_imm := ucast (operand_decode operand_cimmsh5 inst)\<rparr>"

definition decode_ci_sh6 :: "decode \<Rightarrow> inst_t \<Rightarrow> decode" where
  "decode_ci_sh6 dec inst = dec
     \<lparr>dec_rd := ucast (operand_decode operand_crs1rd inst),
       dec_rs1 := ucast (operand_decode operand_crs1rd inst),
       dec_rs2 := 0,
       dec_imm := ucast (operand_decode operand_cimmsh6 inst)\<rparr>"

definition decode_ci_li :: "decode \<Rightarrow> inst_t \<Rightarrow> decode" where
  "decode_ci_li dec inst = dec
     \<lparr>dec_rd := ucast (operand_decode operand_crd inst),
       dec_rs1 := 0,
       dec_rs2 := 0,
       dec_imm := ucast (operand_decode operand_cimmi inst)\<rparr>"

definition decode_ci_lui :: "decode \<Rightarrow> inst_t \<Rightarrow> decode" where
  "decode_ci_lui dec inst = dec
     \<lparr>dec_rd := ucast (operand_decode operand_crd inst),
       dec_rs1 := 0,
       dec_rs2 := 0,
       dec_imm := ucast (operand_decode operand_cimmui inst)\<rparr>"

definition decode_ci_lwsp :: "decode \<Rightarrow> inst_t \<Rightarrow> decode" where
  "decode_ci_lwsp dec inst = dec
     \<lparr>dec_rd := ucast (operand_decode operand_crd inst),
       dec_rs1 := 2,
       dec_rs2 := 0,
       dec_imm := ucast (operand_decode operand_cimmlwsp inst)\<rparr>"

definition decode_ci_ldsp :: "decode \<Rightarrow> inst_t \<Rightarrow> decode" where
  "decode_ci_ldsp dec inst = dec
     \<lparr>dec_rd := ucast (operand_decode operand_crd inst),
       dec_rs1 := 2,
       dec_rs2 := 0,
       dec_imm := ucast (operand_decode operand_cimmldsp inst)\<rparr>"

definition decode_ci_lqsp :: "decode \<Rightarrow> inst_t \<Rightarrow> decode" where
  "decode_ci_lqsp dec inst = dec
     \<lparr>dec_rd := ucast (operand_decode operand_crd inst),
       dec_rs1 := 2,
       dec_rs2 := 0,
       dec_imm := ucast (operand_decode operand_cimmlqsp inst)\<rparr>"

definition decode_ci_16sp :: "decode \<Rightarrow> inst_t \<Rightarrow> decode" where
  "decode_ci_16sp dec inst = dec
     \<lparr>dec_rd := 2,
       dec_rs1 := 2,
       dec_rs2 := 0,
       dec_imm := ucast (operand_decode operand_cimm16sp inst)\<rparr>"

definition decode_css_swsp :: "decode \<Rightarrow> inst_t \<Rightarrow> decode" where
  "decode_css_swsp dec inst = dec
     \<lparr>dec_rd := 0,
       dec_rs1 := 2,
       dec_rs2 := ucast (operand_decode operand_crs2 inst),
       dec_imm := ucast (operand_decode operand_cimmswsp inst)\<rparr>"

definition decode_css_sdsp :: "decode \<Rightarrow> inst_t \<Rightarrow> decode" where
  "decode_css_sdsp dec inst = dec
     \<lparr>dec_rd := 0,
       dec_rs1 := 2,
       dec_rs2 := ucast (operand_decode operand_crs2 inst),
       dec_imm := ucast (operand_decode operand_cimmsdsp inst)\<rparr>"

definition decode_css_sqsp :: "decode \<Rightarrow> inst_t \<Rightarrow> decode" where
  "decode_css_sqsp dec inst = dec
     \<lparr>dec_rd := 0,
       dec_rs1 := 2,
       dec_rs2 := ucast (operand_decode operand_crs2 inst),
       dec_imm := ucast (operand_decode operand_cimmsqsp inst)\<rparr>"

definition decode_ciw_4spn :: "decode \<Rightarrow> inst_t \<Rightarrow> decode" where
  "decode_ciw_4spn dec inst = dec
     \<lparr>dec_rd := ucast (operand_decode operand_crdq inst + 8),
       dec_rs1 := 2,
       dec_rs2 := 0,
       dec_imm := ucast (operand_decode operand_cimm4spn inst)\<rparr>"

definition decode_cl_lw :: "decode \<Rightarrow> inst_t \<Rightarrow> decode" where
  "decode_cl_lw dec inst = dec
     \<lparr>dec_rd := ucast (operand_decode operand_crdq inst + 8),
       dec_rs1 := ucast (operand_decode operand_crs1q inst + 8),
       dec_rs2 := 0,
       dec_imm := ucast (operand_decode operand_cimmw inst)\<rparr>"

definition decode_cl_ld :: "decode \<Rightarrow> inst_t \<Rightarrow> decode" where
  "decode_cl_ld dec inst = dec
     \<lparr>dec_rd := ucast (operand_decode operand_crdq inst + 8),
       dec_rs1 := ucast (operand_decode operand_crs1q inst + 8),
       dec_rs2 := 0,
       dec_imm := ucast (operand_decode operand_cimmd inst)\<rparr>"

definition decode_cl_lq :: "decode \<Rightarrow> inst_t \<Rightarrow> decode" where
  "decode_cl_lq dec inst = dec
     \<lparr>dec_rd := ucast (operand_decode operand_crdq inst + 8),
       dec_rs1 := ucast (operand_decode operand_crs1q inst + 8),
       dec_rs2 := 0,
       dec_imm := ucast (operand_decode operand_cimmq inst)\<rparr>"

definition decode_cs :: "decode \<Rightarrow> inst_t \<Rightarrow> decode" where
  "decode_cs dec inst = dec
     \<lparr>dec_rd := ucast (operand_decode operand_crs1rdq inst + 8),
       dec_rs1 := ucast (operand_decode operand_crs1rdq inst + 8),
       dec_rs2 := ucast (operand_decode operand_crs2q inst + 8),
       dec_imm := 0\<rparr>"

definition decode_cs_sw :: "decode \<Rightarrow> inst_t \<Rightarrow> decode" where
  "decode_cs_sw dec inst = dec
     \<lparr>dec_rd := 0,
       dec_rs1 := ucast (operand_decode operand_crs1q inst + 8),
       dec_rs2 := ucast (operand_decode operand_crs2q inst + 8),
       dec_imm := ucast (operand_decode operand_cimmw inst)\<rparr>"

definition decode_cs_sd :: "decode \<Rightarrow> inst_t \<Rightarrow> decode" where
  "decode_cs_sd dec inst = dec
     \<lparr>dec_rd := 0,
       dec_rs1 := ucast (operand_decode operand_crs1q inst + 8),
       dec_rs2 := ucast (operand_decode operand_crs2q inst + 8),
       dec_imm := ucast (operand_decode operand_cimmd inst)\<rparr>"

definition decode_cs_sq :: "decode \<Rightarrow> inst_t \<Rightarrow> decode" where
  "decode_cs_sq dec inst = dec
     \<lparr>dec_rd := 0,
       dec_rs1 := ucast (operand_decode operand_crs1q inst + 8),
       dec_rs2 := ucast (operand_decode operand_crs2q inst + 8),
       dec_imm := ucast (operand_decode operand_cimmq inst)\<rparr>"

definition decode_cb :: "decode \<Rightarrow> inst_t \<Rightarrow> decode" where
  "decode_cb dec inst = dec
     \<lparr>dec_rd := 0,
       dec_rs1 := ucast (operand_decode operand_crs1q inst + 8),
       dec_rs2 := 0,
       dec_imm := ucast (operand_decode operand_cimmb inst)\<rparr>"

definition decode_cb_imm :: "decode \<Rightarrow> inst_t \<Rightarrow> decode" where
  "decode_cb_imm dec inst = dec
     \<lparr>dec_rd := ucast (operand_decode operand_crs1rdq inst + 8),
       dec_rs1 := ucast (operand_decode operand_crs1rdq inst + 8),
       dec_rs2 := 0,
       dec_imm := ucast (operand_decode operand_cimmi inst)\<rparr>"

definition decode_cb_sh5 :: "decode \<Rightarrow> inst_t \<Rightarrow> decode" where
  "decode_cb_sh5 dec inst = dec
     \<lparr>dec_rd := ucast (operand_decode operand_crs1rdq inst + 8),
       dec_rs1 := ucast (operand_decode operand_crs1rdq inst + 8),
       dec_rs2 := 0,
       dec_imm := ucast (operand_decode operand_cimmsh5 inst)\<rparr>"

definition decode_cb_sh6 :: "decode \<Rightarrow> inst_t \<Rightarrow> decode" where
  "decode_cb_sh6 dec inst = dec
     \<lparr>dec_rd := ucast (operand_decode operand_crs1rdq inst + 8),
       dec_rs1 := ucast (operand_decode operand_crs1rdq inst + 8),
       dec_rs2 := 0,
       dec_imm := ucast (operand_decode operand_cimmsh6 inst)\<rparr>"

definition decode_cj :: "decode \<Rightarrow> inst_t \<Rightarrow> decode" where
  "decode_cj dec inst = dec
     \<lparr>dec_rd := 0,
       dec_rs1 := 0,
       dec_rs2 := 0,
       dec_imm := ucast (operand_decode operand_cimmj inst)\<rparr>"

definition decode_cj_jal :: "decode \<Rightarrow> inst_t \<Rightarrow> decode" where
  "decode_cj_jal dec inst = dec
     \<lparr>dec_rd := 1,
       dec_rs1 := 0,
       dec_rs2 := 0,
       dec_imm := ucast (operand_decode operand_cimmj inst)\<rparr>"

definition decode_r :: "decode \<Rightarrow> inst_t \<Rightarrow> decode" where
  "decode_r dec inst = dec
     \<lparr>dec_rd := ucast (operand_decode operand_rd inst),
       dec_rs1 := ucast (operand_decode operand_rs1 inst),
       dec_rs2 := ucast (operand_decode operand_rs2 inst),
       dec_imm := 0\<rparr>"

definition decode_r_m :: "decode \<Rightarrow> inst_t \<Rightarrow> decode" where
  "decode_r_m dec inst = dec
     \<lparr>dec_rd := ucast (operand_decode operand_rd inst),
       dec_rs1 := ucast (operand_decode operand_rs1 inst),
       dec_rs2 := ucast (operand_decode operand_rs2 inst),
       dec_imm := 0,
       dec_rm := ucast (operand_decode operand_rm inst)\<rparr>"

definition decode_r_l :: "decode \<Rightarrow> inst_t \<Rightarrow> decode" where
  "decode_r_l dec inst = dec
     \<lparr>dec_rd := ucast (operand_decode operand_rd inst),
       dec_rs1 := ucast (operand_decode operand_rs1 inst),
       dec_rs2 := 0,
       dec_imm := 0,
       dec_aq := ucast (operand_decode operand_aq inst),
       dec_rl := ucast (operand_decode operand_rl inst)\<rparr>"

definition decode_r_a :: "decode \<Rightarrow> inst_t \<Rightarrow> decode" where
  "decode_r_a dec inst = dec
     \<lparr>dec_rd := ucast (operand_decode operand_rd inst),
       dec_rs1 := ucast (operand_decode operand_rs1 inst),
       dec_rs2 := ucast (operand_decode operand_rs2 inst),
       dec_imm := 0,
       dec_aq := ucast (operand_decode operand_aq inst),
       dec_rl := ucast (operand_decode operand_rl inst)\<rparr>"

definition decode_r4_m :: "decode \<Rightarrow> inst_t \<Rightarrow> decode" where
  "decode_r4_m dec inst = dec
     \<lparr>dec_rd := ucast (operand_decode operand_rd inst),
       dec_rs1 := ucast (operand_decode operand_rs1 inst),
       dec_rs2 := ucast (operand_decode operand_rs2 inst),
       dec_rs3 := ucast (operand_decode operand_rs3 inst),
       dec_imm := 0,
       dec_rm := ucast (operand_decode operand_rm inst)\<rparr>"

definition decode_r_f :: "decode \<Rightarrow> inst_t \<Rightarrow> decode" where
  "decode_r_f dec inst = dec
     \<lparr>dec_rd := 0,
       dec_rs1 := 0,
       dec_rs2 := 0,
       dec_pred := ucast (operand_decode operand_pred inst),
       dec_succ := ucast (operand_decode operand_succ inst),
       dec_imm := 0\<rparr>"

definition decode_i :: "decode \<Rightarrow> inst_t \<Rightarrow> decode" where
  "decode_i dec inst = dec
     \<lparr>dec_rd := ucast (operand_decode operand_rd inst),
       dec_rs1 := ucast (operand_decode operand_rs1 inst),
       dec_rs2 := 0,
       dec_imm := ucast (operand_decode operand_imm12 inst)\<rparr>"

definition decode_i_csr :: "decode \<Rightarrow> inst_t \<Rightarrow> decode" where
  "decode_i_csr dec inst = dec
     \<lparr>dec_rd := ucast (operand_decode operand_rd inst),
       dec_rs1 := ucast (operand_decode operand_rs1 inst),
       dec_rs2 := 0,
       dec_imm := ucast (operand_decode operand_csr12 inst)\<rparr>"

definition decode_i_sh5 :: "decode \<Rightarrow> inst_t \<Rightarrow> decode" where
  "decode_i_sh5 dec inst = dec
     \<lparr>dec_rd := ucast (operand_decode operand_rd inst),
       dec_rs1 := ucast (operand_decode operand_rs1 inst),
       dec_rs2 := 0,
       dec_imm := ucast (operand_decode operand_shamt5 inst)\<rparr>"

definition decode_i_sh6 :: "decode \<Rightarrow> inst_t \<Rightarrow> decode" where
  "decode_i_sh6 dec inst = dec
     \<lparr>dec_rd := ucast (operand_decode operand_rd inst),
       dec_rs1 := ucast (operand_decode operand_rs1 inst),
       dec_rs2 := 0,
       dec_imm := ucast (operand_decode operand_shamt6 inst)\<rparr>"

definition decode_i_sh7 :: "decode \<Rightarrow> inst_t \<Rightarrow> decode" where
  "decode_i_sh7 dec inst = dec
     \<lparr>dec_rd := ucast (operand_decode operand_rd inst),
       dec_rs1 := ucast (operand_decode operand_rs1 inst),
       dec_rs2 := 0,
       dec_imm := ucast (operand_decode operand_shamt7 inst)\<rparr>"

definition decode_s :: "decode \<Rightarrow> inst_t \<Rightarrow> decode" where
  "decode_s dec inst = dec
     \<lparr>dec_rd := 0,
       dec_rs1 := ucast (operand_decode operand_rs1 inst),
       dec_rs2 := ucast (operand_decode operand_rs2 inst),
       dec_imm := ucast (operand_decode operand_simm12 inst)\<rparr>"

definition decode_sb :: "decode \<Rightarrow> inst_t \<Rightarrow> decode" where
  "decode_sb dec inst = dec
     \<lparr>dec_rd := 0,
       dec_rs1 := ucast (operand_decode operand_rs1 inst),
       dec_rs2 := ucast (operand_decode operand_rs2 inst),
       dec_imm := ucast (operand_decode operand_sbimm12 inst)\<rparr>"

definition decode_u :: "decode \<Rightarrow> inst_t \<Rightarrow> decode" where
  "decode_u dec inst = dec
     \<lparr>dec_rd := ucast (operand_decode operand_rd inst),
       dec_rs1 := 0,
       dec_rs2 := 0,
       dec_imm := ucast (operand_decode operand_imm20 inst)\<rparr>"

definition decode_uj :: "decode \<Rightarrow> inst_t \<Rightarrow> decode" where
  "decode_uj dec inst = dec
     \<lparr>dec_rd := ucast (operand_decode operand_rd inst),
       dec_rs1 := 0,
       dec_rs2 := 0,
       dec_imm := ucast (operand_decode operand_jimm20 inst)\<rparr>"

section \<open>Encoders\<close>

definition encode_none :: "decode \<Rightarrow> inst_t option" where
  "encode_none dec = assert_then (True)
      (0)"

definition encode_ci_none :: "decode \<Rightarrow> inst_t option" where
  "encode_ci_none dec = assert_then (dec_rd dec = 0 \<and> dec_rs1 dec = 0 \<and> dec_rs2 dec = 0)
      (0)"

definition encode_cr :: "decode \<Rightarrow> inst_t option" where
  "encode_cr dec = assert_then (dec_rd dec = dec_rs1 dec)
      (operand_encode operand_crs1rd (ucast (dec_rd dec)) OR
       operand_encode operand_crs2 (ucast (dec_rs2 dec)))"

definition encode_cr_mv :: "decode \<Rightarrow> inst_t option" where
  "encode_cr_mv dec = assert_then (dec_imm dec = 0)
      (operand_encode operand_crd (ucast (dec_rd dec)) OR
       operand_encode operand_crs2 (ucast (dec_rs1 dec)))"

definition encode_cr_jalr :: "decode \<Rightarrow> inst_t option" where
  "encode_cr_jalr dec = assert_then (dec_rd dec = 1)
      (operand_encode operand_crs1 (ucast (dec_rs1 dec)))"

definition encode_cr_jr :: "decode \<Rightarrow> inst_t option" where
  "encode_cr_jr dec = assert_then (dec_rd dec = 0)
      (operand_encode operand_crs1 (ucast (dec_rs1 dec)))"

definition encode_ci :: "decode \<Rightarrow> inst_t option" where
  "encode_ci dec = assert_then (dec_rd dec = dec_rs1 dec)
      (operand_encode operand_crs1rd (ucast (dec_rs1 dec)) OR
       operand_encode operand_cimmi (scast (dec_imm dec)))"

definition encode_ci_sh5 :: "decode \<Rightarrow> inst_t option" where
  "encode_ci_sh5 dec = assert_then (dec_rd dec = dec_rs1 dec)
      (operand_encode operand_crs1rd (ucast (dec_rs1 dec)) OR
       operand_encode operand_cimmsh5 (scast (dec_imm dec)))"

definition encode_ci_sh6 :: "decode \<Rightarrow> inst_t option" where
  "encode_ci_sh6 dec = assert_then (dec_rd dec = dec_rs1 dec)
      (operand_encode operand_crs1rd (ucast (dec_rs1 dec)) OR
       operand_encode operand_cimmsh6 (scast (dec_imm dec)))"

definition encode_ci_li :: "decode \<Rightarrow> inst_t option" where
  "encode_ci_li dec = assert_then (dec_rs1 dec = 0)
      (operand_encode operand_crd (ucast (dec_rd dec)) OR
       operand_encode operand_cimmi (scast (dec_imm dec)))"

definition encode_ci_lui :: "decode \<Rightarrow> inst_t option" where
  "encode_ci_lui dec = assert_then (dec_rs1 dec = 0)
      (operand_encode operand_crd (ucast (dec_rd dec)) OR
       operand_encode operand_cimmui (scast (dec_imm dec)))"

definition encode_ci_lwsp :: "decode \<Rightarrow> inst_t option" where
  "encode_ci_lwsp dec = assert_then (dec_rs1 dec = 2)
      (operand_encode operand_crd (ucast (dec_rd dec)) OR
       operand_encode operand_cimmlwsp (scast (dec_imm dec)))"

definition encode_ci_ldsp :: "decode \<Rightarrow> inst_t option" where
  "encode_ci_ldsp dec = assert_then (dec_rs1 dec = 2)
      (operand_encode operand_crd (ucast (dec_rd dec)) OR
       operand_encode operand_cimmldsp (scast (dec_imm dec)))"

definition encode_ci_lqsp :: "decode \<Rightarrow> inst_t option" where
  "encode_ci_lqsp dec = assert_then (dec_rs1 dec = 2)
      (operand_encode operand_crd (ucast (dec_rd dec)) OR
       operand_encode operand_cimmlqsp (scast (dec_imm dec)))"

definition encode_ci_16sp :: "decode \<Rightarrow> inst_t option" where
  "encode_ci_16sp dec = assert_then (dec_rd dec = 2 \<and> dec_rs1 dec = 2)
      (operand_encode operand_cimm16sp (scast (dec_imm dec)))"

definition encode_css_swsp :: "decode \<Rightarrow> inst_t option" where
  "encode_css_swsp dec = assert_then (dec_rs1 dec = 2)
      (operand_encode operand_crs2 (ucast (dec_rs2 dec)) OR
       operand_encode operand_cimmswsp (scast (dec_imm dec)))"

definition encode_css_sdsp :: "decode \<Rightarrow> inst_t option" where
  "encode_css_sdsp dec = assert_then (dec_rs1 dec = 2)
      (operand_encode operand_crs2 (ucast (dec_rs2 dec)) OR
       operand_encode operand_cimmsdsp (scast (dec_imm dec)))"

definition encode_css_sqsp :: "decode \<Rightarrow> inst_t option" where
  "encode_css_sqsp dec = assert_then (dec_rs1 dec = 2)
      (operand_encode operand_crs2 (ucast (dec_rs2 dec)) OR
       operand_encode operand_cimmsqsp (scast (dec_imm dec)))"

definition encode_ciw_4spn :: "decode \<Rightarrow> inst_t option" where
  "encode_ciw_4spn dec = assert_then (dec_rs1 dec = 2)
      (operand_encode operand_crdq (ucast (dec_rd dec) + 8) OR
       operand_encode operand_cimm4spn (scast (dec_imm dec)))"

definition encode_cl_lw :: "decode \<Rightarrow> inst_t option" where
  "encode_cl_lw dec = assert_then (True)
      (operand_encode operand_crdq (ucast (dec_rd dec) + 8) OR
       operand_encode operand_crs1q (ucast (dec_rs1 dec) + 8) OR
       operand_encode operand_cimmw (scast (dec_imm dec)))"

definition encode_cl_ld :: "decode \<Rightarrow> inst_t option" where
  "encode_cl_ld dec = assert_then (True)
      (operand_encode operand_crdq (ucast (dec_rd dec) + 8) OR
       operand_encode operand_crs1q (ucast (dec_rs1 dec) + 8) OR
       operand_encode operand_cimmd (scast (dec_imm dec)))"

definition encode_cl_lq :: "decode \<Rightarrow> inst_t option" where
  "encode_cl_lq dec = assert_then (True)
      (operand_encode operand_crdq (ucast (dec_rd dec) + 8) OR
       operand_encode operand_crs1q (ucast (dec_rs1 dec) + 8) OR
       operand_encode operand_cimmq (scast (dec_imm dec)))"

definition encode_cs :: "decode \<Rightarrow> inst_t option" where
  "encode_cs dec = assert_then (dec_rd dec = dec_rs1 dec)
      (operand_encode operand_crdq (ucast (dec_rd dec) + 8) OR
       operand_encode operand_crs1q (ucast (dec_rs1 dec) + 8))"

definition encode_cs_sw :: "decode \<Rightarrow> inst_t option" where
  "encode_cs_sw dec = assert_then (True)
      (operand_encode operand_crs1q (ucast (dec_rs1 dec) + 8) OR
       operand_encode operand_crs2q (ucast (dec_rs2 dec) + 8) OR
       operand_encode operand_cimmw (scast (dec_imm dec)))"

definition encode_cs_sd :: "decode \<Rightarrow> inst_t option" where
  "encode_cs_sd dec = assert_then (True)
      (operand_encode operand_crs1q (ucast (dec_rs1 dec) + 8) OR
       operand_encode operand_crs2q (ucast (dec_rs2 dec) + 8) OR
       operand_encode operand_cimmd (scast (dec_imm dec)))"

definition encode_cs_sq :: "decode \<Rightarrow> inst_t option" where
  "encode_cs_sq dec = assert_then (True)
      (operand_encode operand_crs1q (ucast (dec_rs1 dec) + 8) OR
       operand_encode operand_crs2q (ucast (dec_rs2 dec) + 8) OR
       operand_encode operand_cimmq (scast (dec_imm dec)))"

definition encode_cb :: "decode \<Rightarrow> inst_t option" where
  "encode_cb dec = assert_then (True)
      (operand_encode operand_crs1q (ucast (dec_rs1 dec) + 8) OR
       operand_encode operand_cimmb (scast (dec_imm dec)))"

definition encode_cb_imm :: "decode \<Rightarrow> inst_t option" where
  "encode_cb_imm dec = assert_then (dec_rd dec = dec_rs1 dec)
      (operand_encode operand_crs1rdq (ucast (dec_rs1 dec) + 8) OR
       operand_encode operand_cimmi (scast (dec_imm dec)))"

definition encode_cb_sh5 :: "decode \<Rightarrow> inst_t option" where
  "encode_cb_sh5 dec = assert_then (dec_rd dec = dec_rs1 dec)
      (operand_encode operand_crs1rdq (ucast (dec_rs1 dec) + 8) OR
       operand_encode operand_cimmsh5 (scast (dec_imm dec)))"

definition encode_cb_sh6 :: "decode \<Rightarrow> inst_t option" where
  "encode_cb_sh6 dec = assert_then (dec_rd dec = dec_rs1 dec)
      (operand_encode operand_crs1rdq (ucast (dec_rs1 dec) + 8) OR
       operand_encode operand_cimmsh6 (scast (dec_imm dec)))"

definition encode_cj :: "decode \<Rightarrow> inst_t option" where
  "encode_cj dec = assert_then (True)
      (operand_encode operand_cimmj (scast (dec_imm dec)))"

definition encode_cj_jal :: "decode \<Rightarrow> inst_t option" where
  "encode_cj_jal dec = assert_then (True)
      (operand_encode operand_cimmj (scast (dec_imm dec)))"

definition encode_r :: "decode \<Rightarrow> inst_t option" where
  "encode_r dec = assert_then (True)
      (operand_encode operand_rd (ucast (dec_rd dec)) OR
       operand_encode operand_rs1 (ucast (dec_rs1 dec)) OR
       operand_encode operand_rs2 (ucast (dec_rs2 dec)))"

definition encode_r_m :: "decode \<Rightarrow> inst_t option" where
  "encode_r_m dec = assert_then (True)
      (operand_encode operand_rd (ucast (dec_rd dec)) OR
       operand_encode operand_rs1 (ucast (dec_rs1 dec)) OR
       operand_encode operand_rs2 (ucast (dec_rs2 dec)) OR
       operand_encode operand_rm (ucast (dec_rm dec)))"

definition encode_r_l :: "decode \<Rightarrow> inst_t option" where
  "encode_r_l dec = assert_then (dec_rs2 dec = 0)
      (operand_encode operand_rd (ucast (dec_rd dec)) OR
       operand_encode operand_rs1 (ucast (dec_rs1 dec)) OR
       operand_encode operand_aq (ucast (dec_aq dec)) OR
       operand_encode operand_rl (ucast (dec_rl dec)))"

definition encode_r_a :: "decode \<Rightarrow> inst_t option" where
  "encode_r_a dec = assert_then (True)
      (operand_encode operand_rd (ucast (dec_rd dec)) OR
       operand_encode operand_rs1 (ucast (dec_rs1 dec)) OR
       operand_encode operand_rs2 (ucast (dec_rs2 dec)) OR
       operand_encode operand_aq (ucast (dec_aq dec)) OR
       operand_encode operand_rl (ucast (dec_rl dec)))"

definition encode_r4_m :: "decode \<Rightarrow> inst_t option" where
  "encode_r4_m dec = assert_then (True)
      (operand_encode operand_rd (ucast (dec_rd dec)) OR
       operand_encode operand_rs1 (ucast (dec_rs1 dec)) OR
       operand_encode operand_rs2 (ucast (dec_rs2 dec)) OR
       operand_encode operand_rs3 (ucast (dec_rs3 dec)) OR
       operand_encode operand_rm (ucast (dec_rm dec)))"

definition encode_r_f :: "decode \<Rightarrow> inst_t option" where
  "encode_r_f dec = assert_then (True)
      (operand_encode operand_pred (ucast (dec_pred dec)) OR
       operand_encode operand_succ (ucast (dec_succ dec)))"

definition encode_i :: "decode \<Rightarrow> inst_t option" where
  "encode_i dec = assert_then (True)
      (operand_encode operand_rd (ucast (dec_rd dec)) OR
       operand_encode operand_rs1 (ucast (dec_rs1 dec)) OR
       operand_encode operand_imm12 (scast (dec_imm dec)))"

definition encode_i_csr :: "decode \<Rightarrow> inst_t option" where
  "encode_i_csr dec = assert_then (True)
      (operand_encode operand_rd (ucast (dec_rd dec)) OR
       operand_encode operand_rs1 (ucast (dec_rs1 dec)) OR
       operand_encode operand_csr12 (scast (dec_imm dec)))"

definition encode_i_sh5 :: "decode \<Rightarrow> inst_t option" where
  "encode_i_sh5 dec = assert_then (True)
      (operand_encode operand_rd (ucast (dec_rd dec)) OR
       operand_encode operand_rs1 (ucast (dec_rs1 dec)) OR
       operand_encode operand_shamt5 (scast (dec_imm dec)))"

definition encode_i_sh6 :: "decode \<Rightarrow> inst_t option" where
  "encode_i_sh6 dec = assert_then (True)
      (operand_encode operand_rd (ucast (dec_rd dec)) OR
       operand_encode operand_rs1 (ucast (dec_rs1 dec)) OR
       operand_encode operand_shamt6 (scast (dec_imm dec)))"

definition encode_i_sh7 :: "decode \<Rightarrow> inst_t option" where
  "encode_i_sh7 dec = assert_then (True)
      (operand_encode operand_rd (ucast (dec_rd dec)) OR
       operand_encode operand_rs1 (ucast (dec_rs1 dec)) OR
       operand_encode operand_shamt7 (scast (dec_imm dec)))"

definition encode_s :: "decode \<Rightarrow> inst_t option" where
  "encode_s dec = assert_then (True)
      (operand_encode operand_rs1 (ucast (dec_rs1 dec)) OR
       operand_encode operand_rs2 (ucast (dec_rs2 dec)) OR
       operand_encode operand_simm12 (scast (dec_imm dec)))"

definition encode_sb :: "decode \<Rightarrow> inst_t option" where
  "encode_sb dec = assert_then (True)
      (operand_encode operand_rs1 (ucast (dec_rs1 dec)) OR
       operand_encode operand_rs2 (ucast (dec_rs2 dec)) OR
       operand_encode operand_sbimm12 (scast (dec_imm dec)))"

definition encode_u :: "decode \<Rightarrow> inst_t option" where
  "encode_u dec = assert_then (True)
      (operand_encode operand_rd (ucast (dec_rd dec)) OR
       operand_encode operand_imm20 (scast (dec_imm dec)))"

definition encode_uj :: "decode \<Rightarrow> inst_t option" where
  "encode_uj dec = assert_then (True)
      (operand_encode operand_rd (ucast (dec_rd dec)) OR
       operand_encode operand_jimm20 (scast (dec_imm dec)))"

section \<open>Dispatch on the codec\<close>

definition decode_inst_codec :: "rv_codec \<Rightarrow> decode \<Rightarrow> inst_t \<Rightarrow> decode" where
  "decode_inst_codec c dec inst =
    (case c of
       rv_codec_none \<Rightarrow> decode_none dec inst
     | rv_codec_u \<Rightarrow> decode_u dec inst
     | rv_codec_uj \<Rightarrow> decode_uj dec inst
     | rv_codec_i \<Rightarrow> decode_i dec inst
     | rv_codec_i_sh5 \<Rightarrow> decode_i_sh5 dec inst
     | rv_codec_i_sh6 \<Rightarrow> decode_i_sh6 dec inst
     | rv_codec_i_sh7 \<Rightarrow> decode_i_sh7 dec inst
     | rv_codec_i_csr \<Rightarrow> decode_i_csr dec inst
     | rv_codec_s \<Rightarrow> decode_s dec inst
     | rv_codec_sb \<Rightarrow> decode_sb dec inst
     | rv_codec_r \<Rightarrow> decode_r dec inst
     | rv_codec_r_m \<Rightarrow> decode_r_m dec inst
     | rv_codec_r4_m \<Rightarrow> decode_r4_m dec inst
     | rv_codec_r_a \<Rightarrow> decode_r_a dec inst
     | rv_codec_r_l \<Rightarrow> decode_r_l dec inst
     | rv_codec_r_f \<Rightarrow> decode_r_f dec inst
     | rv_codec_cb \<Rightarrow> decode_cb dec inst
     | rv_codec_cb_imm \<Rightarrow> decode_cb_imm dec inst
     | rv_codec_cb_sh5 \<Rightarrow> decode_cb_sh5 dec inst
     | rv_codec_cb_sh6 \<Rightarrow> decode_cb_sh6 dec inst
     | rv_codec_ci \<Rightarrow> decode_ci dec inst
     | rv_codec_ci_sh5 \<Rightarrow> decode_ci_sh5 dec inst
     | rv_codec_ci_sh6 \<Rightarrow> decode_ci_sh6 dec inst
     | rv_codec_ci_16sp \<Rightarrow> decode_ci_16sp dec inst
     | rv_codec_ci_lwsp \<Rightarrow> decode_ci_lwsp dec inst
     | rv_codec_ci_ldsp \<Rightarrow> decode_ci_ldsp dec inst
     | rv_codec_ci_lqsp \<Rightarrow> decode_ci_lqsp dec inst
     | rv_codec_ci_li \<Rightarrow> decode_ci_li dec inst
     | rv_codec_ci_lui \<Rightarrow> decode_ci_lui dec inst
     | rv_codec_ci_none \<Rightarrow> decode_ci_none dec inst
     | rv_codec_ciw_4spn \<Rightarrow> decode_ciw_4spn dec inst
     | rv_codec_cj \<Rightarrow> decode_cj dec inst
     | rv_codec_cj_jal \<Rightarrow> decode_cj_jal dec inst
     | rv_codec_cl_lw \<Rightarrow> decode_cl_lw dec inst
     | rv_codec_cl_ld \<Rightarrow> decode_cl_ld dec inst
     | rv_codec_cl_lq \<Rightarrow> decode_cl_lq dec inst
     | rv_codec_cr \<Rightarrow> decode_cr dec inst
     | rv_codec_cr_mv \<Rightarrow> decode_cr_mv dec inst
     | rv_codec_cr_jalr \<Rightarrow> decode_cr_jalr dec inst
     | rv_codec_cr_jr \<Rightarrow> decode_cr_jr dec inst
     | rv_codec_cs \<Rightarrow> decode_cs dec inst
     | rv_codec_cs_sw \<Rightarrow> decode_cs_sw dec inst
     | rv_codec_cs_sd \<Rightarrow> decode_cs_sd dec inst
     | rv_codec_cs_sq \<Rightarrow> decode_cs_sq dec inst
     | rv_codec_css_swsp \<Rightarrow> decode_css_swsp dec inst
     | rv_codec_css_sdsp \<Rightarrow> decode_css_sdsp dec inst
     | rv_codec_css_sqsp \<Rightarrow> decode_css_sqsp dec inst
     | rv_codec_illegal \<Rightarrow> dec)"

definition decode_inst_type :: "decode \<Rightarrow> inst_t \<Rightarrow> decode" where
  "decode_inst_type dec0 inst =
    (let dec = dec0\<lparr>dec_codec := rv_inst_codec ! dec_op dec0\<rparr>
     in decode_inst_codec (dec_codec dec) dec inst)"

text \<open>The bits an encoder contributes, by codec; an opcode without codec contributes none.\<close>

definition encode_inst_type :: "rv_codec \<Rightarrow> decode \<Rightarrow> inst_t option" where
  "encode_inst_type c dec =
    (case c of
       rv_codec_none \<Rightarrow> encode_none dec
     | rv_codec_u \<Rightarrow> encode_u dec
     | rv_codec_uj \<Rightarrow> encode_uj dec
     | rv_codec_i \<Rightarrow> encode_i dec
     | rv_codec_i_sh5 \<Rightarrow> encode_i_sh5 dec
     | rv_codec_i_sh6 \<Rightarrow> encode_i_sh6 dec
     | rv_codec_i_sh7 \<Rightarrow> encode_i_sh7 dec
     | rv_codec_i_csr \<Rightarrow> encode_i_csr dec
     | rv_codec_s \<Rightarrow> encode_s dec
     | rv_codec_sb \<Rightarrow> encode_sb dec
     | rv_codec_r \<Rightarrow> encode_r dec
     | rv_codec_r_m \<Rightarrow> encode_r_m dec
     | rv_codec_r4_m \<Rightarrow> encode_r4_m dec
     | rv_codec_r_a \<Rightarrow> encode_r_a dec
     | rv_codec_r_l \<Rightarrow> encode_r_l dec
     | rv_codec_r_f \<Rightarrow> encode_r_f dec
     | rv_codec_cb \<Rightarrow> encode_cb dec
     | rv_codec_cb_imm \<Rightarrow> encode_cb_imm dec
     | rv_codec_cb_sh5 \<Rightarrow> encode_cb_sh5 dec
     | rv_codec_cb_sh6 \<Rightarrow> encode_cb_sh6 dec
     | rv_codec_ci \<Rightarrow> encode_ci dec
     | rv_codec_ci_sh5 \<Rightarrow> encode_ci_sh5 dec
     | rv_codec_ci_sh6 \<Rightarrow> encode_ci_sh6 dec
     | rv_codec_ci_16sp \<Rightarrow> encode_ci_16sp dec
     | rv_codec_ci_lwsp \<Rightarrow> encode_ci_lwsp dec
     | rv_codec_ci_ldsp \<Rightarrow> encode_ci_ldsp dec
     | rv_codec_ci_lqsp \<Rightarrow> encode_ci_lqsp dec
     | rv_codec_ci_li \<Rightarrow> encode_ci_li dec
     | rv_codec_ci_lui \<Rightarrow> encode_ci_lui dec
     | rv_codec_ci_none \<Rightarrow> encode_ci_none dec
     | rv_codec_ciw_4spn \<Rightarrow> encode_ciw_4spn dec
     | rv_codec_cj \<Rightarrow> encode_cj dec
     | rv_codec_cj_jal \<Rightarrow> encode_cj_jal dec
     | rv_codec_cl_lw \<Rightarrow> encode_cl_lw dec
     | rv_codec_cl_ld \<Rightarrow> encode_cl_ld dec
     | rv_codec_cl_lq \<Rightarrow> encode_cl_lq dec
     | rv_codec_cr \<Rightarrow> encode_cr dec
     | rv_codec_cr_mv \<Rightarrow> encode_cr_mv dec
     | rv_codec_cr_jalr \<Rightarrow> encode_cr_jalr dec
     | rv_codec_cr_jr \<Rightarrow> encode_cr_jr dec
     | rv_codec_cs \<Rightarrow> encode_cs dec
     | rv_codec_cs_sw \<Rightarrow> encode_cs_sw dec
     | rv_codec_cs_sd \<Rightarrow> encode_cs_sd dec
     | rv_codec_cs_sq \<Rightarrow> encode_cs_sq dec
     | rv_codec_css_swsp \<Rightarrow> encode_css_swsp dec
     | rv_codec_css_sdsp \<Rightarrow> encode_css_sdsp dec
     | rv_codec_css_sqsp \<Rightarrow> encode_css_sqsp dec
     | rv_codec_illegal \<Rightarrow> Some 0)"

text \<open>\<open>encode_inst\<close> also stores the codec it looked up in the record it is given.\<close>

definition encode_inst :: "decode \<Rightarrow> (inst_t \<times> decode) option" where
  "encode_inst dec0 =
    (let dec = dec0\<lparr>dec_codec := rv_inst_codec ! dec_op dec0\<rparr>;
         inst = rv_inst_match ! dec_op dec
     in map_option (\<lambda>bits. (inst OR bits, dec)) (encode_inst_type (dec_codec dec) dec))"

lemmas decode_format_defs =
  decode_none_def decode_ci_none_def decode_cr_def decode_cr_mv_def
  decode_cr_jalr_def decode_cr_jr_def decode_ci_def decode_ci_sh5_def
  decode_ci_sh6_def decode_ci_li_def decode_ci_lui_def decode_ci_lwsp_def
  decode_ci_ldsp_def decode_ci_lqsp_def decode_ci_16sp_def decode_css_swsp_def
  decode_css_sdsp_def decode_css_sqsp_def decode_ciw_4spn_def decode_cl_lw_def
  decode_cl_ld_def decode_cl_lq_def decode_cs_def decode_cs_sw_def
  decode_cs_sd_def decode_cs_sq_def decode_cb_def decode_cb_imm_def
  decode_cb_sh5_def decode_cb_sh6_def decode_cj_def decode_cj_jal_def
  decode_r_def decode_r_m_def decode_r_l_def decode_r_a_def
  decode_r4_m_def decode_r_f_def decode_i_def decode_i_csr_def
  decode_i_sh5_def decode_i_sh6_def decode_i_sh7_def decode_s_def
  decode_sb_def decode_u_def decode_uj_def

lemmas encode_format_defs =
  encode_none_def encode_ci_none_def encode_cr_def encode_cr_mv_def
  encode_cr_jalr_def encode_cr_jr_def encode_ci_def encode_ci_sh5_def
  encode_ci_sh6_def encode_ci_li_def encode_ci_lui_def encode_ci_lwsp_def
  encode_ci_ldsp_def encode_ci_lqsp_def encode_ci_16sp_def encode_css_swsp_def
  encode_css_sdsp_def encode_css_sqsp_def encode_ciw_4spn_def encode_cl_lw_def
  encode_cl_ld_def encode_cl_lq_def encode_cs_def encode_cs_sw_def
  encode_cs_sd_def encode_cs_sq_def encode_cb_def encode_cb_imm_def
  encode_cb_sh5_def encode_cb_sh6_def encode_cj_def encode_cj_jal_def
  encode_r_def encode_r_m_def encode_r_l_def encode_r_a_def
  encode_r4_m_def encode_r_f_def encode_i_def encode_i_csr_def
  encode_i_sh5_def encode_i_sh6_def encode_i_sh7_def encode_s_def
  encode_sb_def encode_u_def encode_uj_def

end
