(* ===== verification/Rv_Switch.thy ===== *)
theory Rv_Switch
  imports Rv_Formats
begin

text \<open>
  The opcode decoder \<^verbatim>\<open>decode_inst_op\<close> of \<^verbatim>\<open>src/src/asm/switch.h\<close>: nested switches on bit
  fields of the instruction word, one definition per switch.  The template parameters (base ISA and
  extensions) are the record \<open>isa\<close>.  A selector that no case handles leaves the opcode at
  \<open>rv_op_illegal\<close>.
\<close>

record isa =
  rv32 :: bool
  rv64 :: bool
  rv128 :: bool
  rvi :: bool
  rvm :: bool
  rva :: bool
  rvs :: bool
  rvf :: bool
  rvd :: bool
  rvq :: bool
  rvc :: bool

definition isa_all :: "bool \<Rightarrow> bool \<Rightarrow> bool \<Rightarrow> isa" where
  "isa_all b32 b64 b128 = \<lparr>rv32 = b32, rv64 = b64, rv128 = b128, rvi = True, rvm = True,
     rva = True, rvs = True, rvf = True, rvd = True, rvq = True, rvc = True\<rparr>"

definition decode_op_c0 :: "isa \<Rightarrow> inst_t \<Rightarrow> opcode" where [rv_switch_defs]:
  "decode_op_c0 cfg inst =
    (let sel = (drop_bit 13 inst AND 0b111) in
     if sel = 0 then (if rvc cfg then rv_op_c_addi4spn else rv_op_illegal)
     else if sel = 1 then (if rvc cfg then rv_op_c_fld else rv_op_illegal)
     else if sel = 2 then (if rvc cfg then rv_op_c_lw else rv_op_illegal)
     else if sel = 3 then (if rvc cfg \<and> rv32 cfg then rv_op_c_flw else (if rvc cfg \<and> rv64 cfg then rv_op_c_ld else rv_op_illegal))
     else if sel = 5 then (if rvc cfg then rv_op_c_fsd else rv_op_illegal)
     else if sel = 6 then (if rvc cfg then rv_op_c_sw else rv_op_illegal)
     else if sel = 7 then (if rvc cfg \<and> rv32 cfg then rv_op_c_fsw else (if rvc cfg \<and> rv64 cfg then rv_op_c_sd else rv_op_illegal))
     else rv_op_illegal)"

definition decode_op_c1 :: "isa \<Rightarrow> inst_t \<Rightarrow> opcode" where [rv_switch_defs]:
  "decode_op_c1 cfg inst =
    (let sel = (drop_bit 13 inst AND 0b111) in
     if sel = 0 then (let sel = (drop_bit 2 inst AND 0b11111111111) in
       if sel = 0 then (if rvc cfg then rv_op_c_nop else rv_op_illegal)
       else (if rvc cfg then rv_op_c_addi else rv_op_illegal))
     else if sel = 1 then (if rvc cfg \<and> rv32 cfg then rv_op_c_jal else (if rvc cfg \<and> rv64 cfg then rv_op_c_addiw else rv_op_illegal))
     else if sel = 2 then (if rvc cfg then rv_op_c_li else rv_op_illegal)
     else if sel = 3 then (let sel = (drop_bit 7 inst AND 0b11111) in
       if sel = 2 then (if rvc cfg then rv_op_c_addi16sp else rv_op_illegal)
       else (if rvc cfg then rv_op_c_lui else rv_op_illegal))
     else if sel = 4 then (let sel = (drop_bit 10 inst AND 0b11) in
       if sel = 0 then (if rvc cfg \<and> rv32 cfg then rv_op_c_srli else (if rvc cfg \<and> rv64 cfg then rv_op_c_srli else rv_op_illegal))
       else if sel = 1 then (if rvc cfg \<and> rv32 cfg then rv_op_c_srai else (if rvc cfg \<and> rv64 cfg then rv_op_c_srai else rv_op_illegal))
       else if sel = 2 then (if rvc cfg then rv_op_c_andi else rv_op_illegal)
       else if sel = 3 then (let sel = (drop_bit 10 inst AND 0b100) OR (drop_bit 5 inst AND 0b11) in
         if sel = 0 then (if rvc cfg then rv_op_c_sub else rv_op_illegal)
         else if sel = 1 then (if rvc cfg then rv_op_c_xor else rv_op_illegal)
         else if sel = 2 then (if rvc cfg then rv_op_c_or else rv_op_illegal)
         else if sel = 3 then (if rvc cfg then rv_op_c_and else rv_op_illegal)
         else if sel = 4 then (if rvc cfg then rv_op_c_subw else rv_op_illegal)
         else if sel = 5 then (if rvc cfg then rv_op_c_addw else rv_op_illegal)
         else rv_op_illegal)
       else rv_op_illegal)
     else if sel = 5 then (if rvc cfg then rv_op_c_j else rv_op_illegal)
     else if sel = 6 then (if rvc cfg then rv_op_c_beqz else rv_op_illegal)
     else if sel = 7 then (if rvc cfg then rv_op_c_bnez else rv_op_illegal)
     else rv_op_illegal)"

definition decode_op_c2 :: "isa \<Rightarrow> inst_t \<Rightarrow> opcode" where [rv_switch_defs]:
  "decode_op_c2 cfg inst =
    (let sel = (drop_bit 13 inst AND 0b111) in
     if sel = 0 then (if rvc cfg \<and> rv32 cfg then rv_op_c_slli else (if rvc cfg \<and> rv64 cfg then rv_op_c_slli else rv_op_illegal))
     else if sel = 1 then (if rvc cfg then rv_op_c_fldsp else rv_op_illegal)
     else if sel = 2 then (if rvc cfg then rv_op_c_lwsp else rv_op_illegal)
     else if sel = 3 then (if rvc cfg \<and> rv32 cfg then rv_op_c_flwsp else (if rvc cfg \<and> rv64 cfg then rv_op_c_ldsp else rv_op_illegal))
     else if sel = 4 then (let sel = (drop_bit 12 inst AND 0b1) in
       if sel = 0 then (let sel = (drop_bit 2 inst AND 0b11111) in
         if sel = 0 then (if rvc cfg then rv_op_c_jr else rv_op_illegal)
         else (if rvc cfg then rv_op_c_mv else rv_op_illegal))
       else if sel = 1 then (let sel = (drop_bit 2 inst AND 0b11111) in
         if sel = 0 then (let sel = (drop_bit 7 inst AND 0b11111) in
           if sel = 0 then (if rvc cfg then rv_op_c_ebreak else rv_op_illegal)
           else (if rvc cfg then rv_op_c_jalr else rv_op_illegal))
         else (if rvc cfg then rv_op_c_add else rv_op_illegal))
       else rv_op_illegal)
     else if sel = 5 then (if rvc cfg then rv_op_c_fsdsp else rv_op_illegal)
     else if sel = 6 then (if rvc cfg then rv_op_c_swsp else rv_op_illegal)
     else if sel = 7 then (if rvc cfg \<and> rv32 cfg then rv_op_c_fswsp else (if rvc cfg \<and> rv64 cfg then rv_op_c_sdsp else rv_op_illegal))
     else rv_op_illegal)"

definition decode_major_load :: "isa \<Rightarrow> inst_t \<Rightarrow> opcode" where [rv_switch_defs]:
  "decode_major_load cfg inst =
    (let sel = (drop_bit 12 inst AND 0b111) in
     if sel = 0 then (if rvi cfg then rv_op_lb else rv_op_illegal)
     else if sel = 1 then (if rvi cfg then rv_op_lh else rv_op_illegal)
     else if sel = 2 then (if rvi cfg then rv_op_lw else rv_op_illegal)
     else if sel = 3 then (if rvi cfg then rv_op_ld else rv_op_illegal)
     else if sel = 4 then (if rvi cfg then rv_op_lbu else rv_op_illegal)
     else if sel = 5 then (if rvi cfg then rv_op_lhu else rv_op_illegal)
     else if sel = 6 then (if rvi cfg then rv_op_lwu else rv_op_illegal)
     else if sel = 7 then (if rvi cfg \<and> rv128 cfg then rv_op_ldu else rv_op_illegal)
     else rv_op_illegal)"

definition decode_major_load_fp :: "isa \<Rightarrow> inst_t \<Rightarrow> opcode" where [rv_switch_defs]:
  "decode_major_load_fp cfg inst =
    (let sel = (drop_bit 12 inst AND 0b111) in
     if sel = 2 then (if rvf cfg then rv_op_flw else rv_op_illegal)
     else if sel = 3 then (if rvd cfg then rv_op_fld else rv_op_illegal)
     else if sel = 4 then (if rvq cfg then rv_op_flq else rv_op_illegal)
     else rv_op_illegal)"

definition decode_major_misc_mem :: "isa \<Rightarrow> inst_t \<Rightarrow> opcode" where [rv_switch_defs]:
  "decode_major_misc_mem cfg inst =
    (let sel = (drop_bit 12 inst AND 0b111) in
     if sel = 0 then (if rvi cfg then rv_op_fence else rv_op_illegal)
     else if sel = 1 then (if rvi cfg then rv_op_fence_i else rv_op_illegal)
     else if sel = 2 then (if rvi cfg \<and> rv128 cfg then rv_op_lq else rv_op_illegal)
     else rv_op_illegal)"

definition decode_major_op_imm :: "isa \<Rightarrow> inst_t \<Rightarrow> opcode" where [rv_switch_defs]:
  "decode_major_op_imm cfg inst =
    (let sel = (drop_bit 12 inst AND 0b111) in
     if sel = 0 then (if rvi cfg then rv_op_addi else rv_op_illegal)
     else if sel = 1 then (let sel = (drop_bit 27 inst AND 0b11111) in
       if sel = 0 then (if rvi cfg \<and> rv32 cfg then rv_op_slli else (if rvi cfg \<and> rv64 cfg then rv_op_slli else (if rvi cfg \<and> rv128 cfg then rv_op_slli else rv_op_illegal)))
       else rv_op_illegal)
     else if sel = 2 then (if rvi cfg then rv_op_slti else rv_op_illegal)
     else if sel = 3 then (if rvi cfg then rv_op_sltiu else rv_op_illegal)
     else if sel = 4 then (if rvi cfg then rv_op_xori else rv_op_illegal)
     else if sel = 5 then (let sel = (drop_bit 27 inst AND 0b11111) in
       if sel = 0 then (if rvi cfg \<and> rv32 cfg then rv_op_srli else (if rvi cfg \<and> rv64 cfg then rv_op_srli else (if rvi cfg \<and> rv128 cfg then rv_op_srli else rv_op_illegal)))
       else if sel = 8 then (if rvi cfg \<and> rv32 cfg then rv_op_srai else (if rvi cfg \<and> rv64 cfg then rv_op_srai else (if rvi cfg \<and> rv128 cfg then rv_op_srai else rv_op_illegal)))
       else rv_op_illegal)
     else if sel = 6 then (if rvi cfg then rv_op_ori else rv_op_illegal)
     else if sel = 7 then (if rvi cfg then rv_op_andi else rv_op_illegal)
     else rv_op_illegal)"

definition decode_major_op_imm_32 :: "isa \<Rightarrow> inst_t \<Rightarrow> opcode" where [rv_switch_defs]:
  "decode_major_op_imm_32 cfg inst =
    (let sel = (drop_bit 12 inst AND 0b111) in
     if sel = 0 then (if rvi cfg then rv_op_addiw else rv_op_illegal)
     else if sel = 1 then (let sel = (drop_bit 25 inst AND 0b1111111) in
       if sel = 0 then (if rvi cfg then rv_op_slliw else rv_op_illegal)
       else rv_op_illegal)
     else if sel = 5 then (let sel = (drop_bit 25 inst AND 0b1111111) in
       if sel = 0 then (if rvi cfg then rv_op_srliw else rv_op_illegal)
       else if sel = 32 then (if rvi cfg then rv_op_sraiw else rv_op_illegal)
       else rv_op_illegal)
     else rv_op_illegal)"

definition decode_major_store :: "isa \<Rightarrow> inst_t \<Rightarrow> opcode" where [rv_switch_defs]:
  "decode_major_store cfg inst =
    (let sel = (drop_bit 12 inst AND 0b111) in
     if sel = 0 then (if rvi cfg then rv_op_sb else rv_op_illegal)
     else if sel = 1 then (if rvi cfg then rv_op_sh else rv_op_illegal)
     else if sel = 2 then (if rvi cfg then rv_op_sw else rv_op_illegal)
     else if sel = 3 then (if rvi cfg then rv_op_sd else rv_op_illegal)
     else if sel = 4 then (if rvi cfg \<and> rv128 cfg then rv_op_sq else rv_op_illegal)
     else rv_op_illegal)"

definition decode_major_store_fp :: "isa \<Rightarrow> inst_t \<Rightarrow> opcode" where [rv_switch_defs]:
  "decode_major_store_fp cfg inst =
    (let sel = (drop_bit 12 inst AND 0b111) in
     if sel = 2 then (if rvf cfg then rv_op_fsw else rv_op_illegal)
     else if sel = 3 then (if rvd cfg then rv_op_fsd else rv_op_illegal)
     else if sel = 4 then (if rvq cfg then rv_op_fsq else rv_op_illegal)
     else rv_op_illegal)"

definition decode_major_amo :: "isa \<Rightarrow> inst_t \<Rightarrow> opcode" where [rv_switch_defs]:
  "decode_major_amo cfg inst =
    (let sel = (drop_bit 24 inst AND 0b11111000) OR (drop_bit 12 inst AND 0b111) in
     if sel = 2 then (if rva cfg then rv_op_amoadd_w else rv_op_illegal)
     else if sel = 3 then (if rva cfg then rv_op_amoadd_d else rv_op_illegal)
     else if sel = 4 then (if rva cfg \<and> rv128 cfg then rv_op_amoadd_q else rv_op_illegal)
     else if sel = 10 then (if rva cfg then rv_op_amoswap_w else rv_op_illegal)
     else if sel = 11 then (if rva cfg then rv_op_amoswap_d else rv_op_illegal)
     else if sel = 12 then (if rva cfg \<and> rv128 cfg then rv_op_amoswap_q else rv_op_illegal)
     else if sel = 18 then (let sel = (drop_bit 20 inst AND 0b11111) in
       if sel = 0 then (if rva cfg then rv_op_lr_w else rv_op_illegal)
       else rv_op_illegal)
     else if sel = 19 then (let sel = (drop_bit 20 inst AND 0b11111) in
       if sel = 0 then (if rva cfg then rv_op_lr_d else rv_op_illegal)
       else rv_op_illegal)
     else if sel = 20 then (let sel = (drop_bit 20 inst AND 0b11111) in
       if sel = 0 then (if rva cfg \<and> rv128 cfg then rv_op_lr_q else rv_op_illegal)
       else rv_op_illegal)
     else if sel = 26 then (if rva cfg then rv_op_sc_w else rv_op_illegal)
     else if sel = 27 then (if rva cfg then rv_op_sc_d else rv_op_illegal)
     else if sel = 28 then (if rva cfg \<and> rv128 cfg then rv_op_sc_q else rv_op_illegal)
     else if sel = 34 then (if rva cfg then rv_op_amoxor_w else rv_op_illegal)
     else if sel = 35 then (if rva cfg then rv_op_amoxor_d else rv_op_illegal)
     else if sel = 36 then (if rva cfg \<and> rv128 cfg then rv_op_amoxor_q else rv_op_illegal)
     else if sel = 66 then (if rva cfg then rv_op_amoor_w else rv_op_illegal)
     else if sel = 67 then (if rva cfg then rv_op_amoor_d else rv_op_illegal)
     else if sel = 68 then (if rva cfg \<and> rv128 cfg then rv_op_amoor_q else rv_op_illegal)
     else if sel = 98 then (if rva cfg then rv_op_amoand_w else rv_op_illegal)
     else if sel = 99 then (if rva cfg then rv_op_amoand_d else rv_op_illegal)
     else if sel = 100 then (if rva cfg \<and> rv128 cfg then rv_op_amoand_q else rv_op_illegal)
     else if sel = 130 then (if rva cfg then rv_op_amomin_w else rv_op_illegal)
     else if sel = 131 then (if rva cfg then rv_op_amomin_d else rv_op_illegal)
     else if sel = 132 then (if rva cfg \<and> rv128 cfg then rv_op_amomin_q else rv_op_illegal)
     else if sel = 162 then (if rva cfg then rv_op_amomax_w else rv_op_illegal)
     else if sel = 163 then (if rva cfg then rv_op_amomax_d else rv_op_illegal)
     else if sel = 164 then (if rva cfg \<and> rv128 cfg then rv_op_amomax_q else rv_op_illegal)
     else if sel = 194 then (if rva cfg then rv_op_amominu_w else rv_op_illegal)
     else if sel = 195 then (if rva cfg then rv_op_amominu_d else rv_op_illegal)
     else if sel = 196 then (if rva cfg \<and> rv128 cfg then rv_op_amominu_q else rv_op_illegal)
     else if sel = 226 then (if rva cfg then rv_op_amomaxu_w else rv_op_illegal)
     else if sel = 227 then (if rva cfg then rv_op_amomaxu_d else rv_op_illegal)
     else if sel = 228 then (if rva cfg \<and> rv128 cfg then rv_op_amomaxu_q else rv_op_illegal)
     else rv_op_illegal)"

definition decode_major_op :: "isa \<Rightarrow> inst_t \<Rightarrow> opcode" where [rv_switch_defs]:
  "decode_major_op cfg inst =
    (let sel = (drop_bit 22 inst AND 0b1111111000) OR (drop_bit 12 inst AND 0b111) in
     if sel = 0 then (if rvi cfg then rv_op_add else rv_op_illegal)
     else if sel = 1 then (if rvi cfg then rv_op_sll else rv_op_illegal)
     else if sel = 2 then (if rvi cfg then rv_op_slt else rv_op_illegal)
     else if sel = 3 then (if rvi cfg then rv_op_sltu else rv_op_illegal)
     else if sel = 4 then (if rvi cfg then rv_op_xor else rv_op_illegal)
     else if sel = 5 then (if rvi cfg then rv_op_srl else rv_op_illegal)
     else if sel = 6 then (if rvi cfg then rv_op_or else rv_op_illegal)
     else if sel = 7 then (if rvi cfg then rv_op_and else rv_op_illegal)
     else if sel = 8 then (if rvm cfg then rv_op_mul else rv_op_illegal)
     else if sel = 9 then (if rvm cfg then rv_op_mulh else rv_op_illegal)
     else if sel = 10 then (if rvm cfg then rv_op_mulhsu else rv_op_illegal)
     else if sel = 11 then (if rvm cfg then rv_op_mulhu else rv_op_illegal)
     else if sel = 12 then (if rvm cfg then rv_op_div else rv_op_illegal)
     else if sel = 13 then (if rvm cfg then rv_op_divu else rv_op_illegal)
     else if sel = 14 then (if rvm cfg then rv_op_rem else rv_op_illegal)
     else if sel = 15 then (if rvm cfg then rv_op_remu else rv_op_illegal)
     else if sel = 256 then (if rvi cfg then rv_op_sub else rv_op_illegal)
     else if sel = 261 then (if rvi cfg then rv_op_sra else rv_op_illegal)
     else rv_op_illegal)"

definition decode_major_op_32 :: "isa \<Rightarrow> inst_t \<Rightarrow> opcode" where [rv_switch_defs]:
  "decode_major_op_32 cfg inst =
    (let sel = (drop_bit 22 inst AND 0b1111111000) OR (drop_bit 12 inst AND 0b111) in
     if sel = 0 then (if rvi cfg then rv_op_addw else rv_op_illegal)
     else if sel = 1 then (if rvi cfg then rv_op_sllw else rv_op_illegal)
     else if sel = 5 then (if rvi cfg then rv_op_srlw else rv_op_illegal)
     else if sel = 8 then (if rvm cfg then rv_op_mulw else rv_op_illegal)
     else if sel = 12 then (if rvm cfg then rv_op_divw else rv_op_illegal)
     else if sel = 13 then (if rvm cfg then rv_op_divuw else rv_op_illegal)
     else if sel = 14 then (if rvm cfg then rv_op_remw else rv_op_illegal)
     else if sel = 15 then (if rvm cfg then rv_op_remuw else rv_op_illegal)
     else if sel = 256 then (if rvi cfg then rv_op_subw else rv_op_illegal)
     else if sel = 261 then (if rvi cfg then rv_op_sraw else rv_op_illegal)
     else rv_op_illegal)"

definition decode_major_madd :: "isa \<Rightarrow> inst_t \<Rightarrow> opcode" where [rv_switch_defs]:
  "decode_major_madd cfg inst =
    (let sel = (drop_bit 25 inst AND 0b11) in
     if sel = 0 then (if rvf cfg then rv_op_fmadd_s else rv_op_illegal)
     else if sel = 1 then (if rvd cfg then rv_op_fmadd_d else rv_op_illegal)
     else if sel = 3 then (if rvq cfg then rv_op_fmadd_q else rv_op_illegal)
     else rv_op_illegal)"

definition decode_major_msub :: "isa \<Rightarrow> inst_t \<Rightarrow> opcode" where [rv_switch_defs]:
  "decode_major_msub cfg inst =
    (let sel = (drop_bit 25 inst AND 0b11) in
     if sel = 0 then (if rvf cfg then rv_op_fmsub_s else rv_op_illegal)
     else if sel = 1 then (if rvd cfg then rv_op_fmsub_d else rv_op_illegal)
     else if sel = 3 then (if rvq cfg then rv_op_fmsub_q else rv_op_illegal)
     else rv_op_illegal)"

definition decode_major_nmsub :: "isa \<Rightarrow> inst_t \<Rightarrow> opcode" where [rv_switch_defs]:
  "decode_major_nmsub cfg inst =
    (let sel = (drop_bit 25 inst AND 0b11) in
     if sel = 0 then (if rvf cfg then rv_op_fnmsub_s else rv_op_illegal)
     else if sel = 1 then (if rvd cfg then rv_op_fnmsub_d else rv_op_illegal)
     else if sel = 3 then (if rvq cfg then rv_op_fnmsub_q else rv_op_illegal)
     else rv_op_illegal)"

definition decode_major_nmadd :: "isa \<Rightarrow> inst_t \<Rightarrow> opcode" where [rv_switch_defs]:
  "decode_major_nmadd cfg inst =
    (let sel = (drop_bit 25 inst AND 0b11) in
     if sel = 0 then (if rvf cfg then rv_op_fnmadd_s else rv_op_illegal)
     else if sel = 1 then (if rvd cfg then rv_op_fnmadd_d else rv_op_illegal)
     else if sel = 3 then (if rvq cfg then rv_op_fnmadd_q else rv_op_illegal)
     else rv_op_illegal)"

definition decode_fp_16 :: "isa \<Rightarrow> inst_t \<Rightarrow> opcode" where [rv_switch_defs]:
  "decode_fp_16 cfg inst =
    (let sel = (drop_bit 12 inst AND 0b111) in
     if sel = 0 then (if rvf cfg then rv_op_fsgnj_s else rv_op_illegal)
     else if sel = 1 then (if rvf cfg then rv_op_fsgnjn_s else rv_op_illegal)
     else if sel = 2 then (if rvf cfg then rv_op_fsgnjx_s else rv_op_illegal)
     else rv_op_illegal)"

definition decode_fp_17 :: "isa \<Rightarrow> inst_t \<Rightarrow> opcode" where [rv_switch_defs]:
  "decode_fp_17 cfg inst =
    (let sel = (drop_bit 12 inst AND 0b111) in
     if sel = 0 then (if rvd cfg then rv_op_fsgnj_d else rv_op_illegal)
     else if sel = 1 then (if rvd cfg then rv_op_fsgnjn_d else rv_op_illegal)
     else if sel = 2 then (if rvd cfg then rv_op_fsgnjx_d else rv_op_illegal)
     else rv_op_illegal)"

definition decode_fp_19 :: "isa \<Rightarrow> inst_t \<Rightarrow> opcode" where [rv_switch_defs]:
  "decode_fp_19 cfg inst =
    (let sel = (drop_bit 12 inst AND 0b111) in
     if sel = 0 then (if rvq cfg then rv_op_fsgnj_q else rv_op_illegal)
     else if sel = 1 then (if rvq cfg then rv_op_fsgnjn_q else rv_op_illegal)
     else if sel = 2 then (if rvq cfg then rv_op_fsgnjx_q else rv_op_illegal)
     else rv_op_illegal)"

definition decode_fp_20 :: "isa \<Rightarrow> inst_t \<Rightarrow> opcode" where [rv_switch_defs]:
  "decode_fp_20 cfg inst =
    (let sel = (drop_bit 12 inst AND 0b111) in
     if sel = 0 then (if rvf cfg then rv_op_fmin_s else rv_op_illegal)
     else if sel = 1 then (if rvf cfg then rv_op_fmax_s else rv_op_illegal)
     else rv_op_illegal)"

definition decode_fp_21 :: "isa \<Rightarrow> inst_t \<Rightarrow> opcode" where [rv_switch_defs]:
  "decode_fp_21 cfg inst =
    (let sel = (drop_bit 12 inst AND 0b111) in
     if sel = 0 then (if rvd cfg then rv_op_fmin_d else rv_op_illegal)
     else if sel = 1 then (if rvd cfg then rv_op_fmax_d else rv_op_illegal)
     else rv_op_illegal)"

definition decode_fp_23 :: "isa \<Rightarrow> inst_t \<Rightarrow> opcode" where [rv_switch_defs]:
  "decode_fp_23 cfg inst =
    (let sel = (drop_bit 12 inst AND 0b111) in
     if sel = 0 then (if rvq cfg then rv_op_fmin_q else rv_op_illegal)
     else if sel = 1 then (if rvq cfg then rv_op_fmax_q else rv_op_illegal)
     else rv_op_illegal)"

definition decode_fp_32 :: "isa \<Rightarrow> inst_t \<Rightarrow> opcode" where [rv_switch_defs]:
  "decode_fp_32 cfg inst =
    (let sel = (drop_bit 20 inst AND 0b11111) in
     if sel = 1 then (if rvd cfg then rv_op_fcvt_s_d else rv_op_illegal)
     else if sel = 3 then (if rvq cfg then rv_op_fcvt_s_q else rv_op_illegal)
     else rv_op_illegal)"

definition decode_fp_33 :: "isa \<Rightarrow> inst_t \<Rightarrow> opcode" where [rv_switch_defs]:
  "decode_fp_33 cfg inst =
    (let sel = (drop_bit 20 inst AND 0b11111) in
     if sel = 0 then (if rvd cfg then rv_op_fcvt_d_s else rv_op_illegal)
     else if sel = 3 then (if rvq cfg then rv_op_fcvt_d_q else rv_op_illegal)
     else rv_op_illegal)"

definition decode_fp_35 :: "isa \<Rightarrow> inst_t \<Rightarrow> opcode" where [rv_switch_defs]:
  "decode_fp_35 cfg inst =
    (let sel = (drop_bit 20 inst AND 0b11111) in
     if sel = 0 then (if rvq cfg then rv_op_fcvt_q_s else rv_op_illegal)
     else if sel = 1 then (if rvq cfg then rv_op_fcvt_q_d else rv_op_illegal)
     else rv_op_illegal)"

definition decode_fp_44 :: "isa \<Rightarrow> inst_t \<Rightarrow> opcode" where [rv_switch_defs]:
  "decode_fp_44 cfg inst =
    (let sel = (drop_bit 20 inst AND 0b11111) in
     if sel = 0 then (if rvf cfg then rv_op_fsqrt_s else rv_op_illegal)
     else rv_op_illegal)"

definition decode_fp_45 :: "isa \<Rightarrow> inst_t \<Rightarrow> opcode" where [rv_switch_defs]:
  "decode_fp_45 cfg inst =
    (let sel = (drop_bit 20 inst AND 0b11111) in
     if sel = 0 then (if rvd cfg then rv_op_fsqrt_d else rv_op_illegal)
     else rv_op_illegal)"

definition decode_fp_47 :: "isa \<Rightarrow> inst_t \<Rightarrow> opcode" where [rv_switch_defs]:
  "decode_fp_47 cfg inst =
    (let sel = (drop_bit 20 inst AND 0b11111) in
     if sel = 0 then (if rvq cfg then rv_op_fsqrt_q else rv_op_illegal)
     else rv_op_illegal)"

definition decode_fp_80 :: "isa \<Rightarrow> inst_t \<Rightarrow> opcode" where [rv_switch_defs]:
  "decode_fp_80 cfg inst =
    (let sel = (drop_bit 12 inst AND 0b111) in
     if sel = 0 then (if rvf cfg then rv_op_fle_s else rv_op_illegal)
     else if sel = 1 then (if rvf cfg then rv_op_flt_s else rv_op_illegal)
     else if sel = 2 then (if rvf cfg then rv_op_feq_s else rv_op_illegal)
     else rv_op_illegal)"

definition decode_fp_81 :: "isa \<Rightarrow> inst_t \<Rightarrow> opcode" where [rv_switch_defs]:
  "decode_fp_81 cfg inst =
    (let sel = (drop_bit 12 inst AND 0b111) in
     if sel = 0 then (if rvd cfg then rv_op_fle_d else rv_op_illegal)
     else if sel = 1 then (if rvd cfg then rv_op_flt_d else rv_op_illegal)
     else if sel = 2 then (if rvd cfg then rv_op_feq_d else rv_op_illegal)
     else rv_op_illegal)"

definition decode_fp_83 :: "isa \<Rightarrow> inst_t \<Rightarrow> opcode" where [rv_switch_defs]:
  "decode_fp_83 cfg inst =
    (let sel = (drop_bit 12 inst AND 0b111) in
     if sel = 0 then (if rvq cfg then rv_op_fle_q else rv_op_illegal)
     else if sel = 1 then (if rvq cfg then rv_op_flt_q else rv_op_illegal)
     else if sel = 2 then (if rvq cfg then rv_op_feq_q else rv_op_illegal)
     else rv_op_illegal)"

definition decode_fp_96 :: "isa \<Rightarrow> inst_t \<Rightarrow> opcode" where [rv_switch_defs]:
  "decode_fp_96 cfg inst =
    (let sel = (drop_bit 20 inst AND 0b11111) in
     if sel = 0 then (if rvf cfg then rv_op_fcvt_w_s else rv_op_illegal)
     else if sel = 1 then (if rvf cfg then rv_op_fcvt_wu_s else rv_op_illegal)
     else if sel = 2 then (if rvf cfg then rv_op_fcvt_l_s else rv_op_illegal)
     else if sel = 3 then (if rvf cfg then rv_op_fcvt_lu_s else rv_op_illegal)
     else rv_op_illegal)"

definition decode_fp_97 :: "isa \<Rightarrow> inst_t \<Rightarrow> opcode" where [rv_switch_defs]:
  "decode_fp_97 cfg inst =
    (let sel = (drop_bit 20 inst AND 0b11111) in
     if sel = 0 then (if rvd cfg then rv_op_fcvt_w_d else rv_op_illegal)
     else if sel = 1 then (if rvd cfg then rv_op_fcvt_wu_d else rv_op_illegal)
     else if sel = 2 then (if rvd cfg then rv_op_fcvt_l_d else rv_op_illegal)
     else if sel = 3 then (if rvd cfg then rv_op_fcvt_lu_d else rv_op_illegal)
     else rv_op_illegal)"

definition decode_fp_99 :: "isa \<Rightarrow> inst_t \<Rightarrow> opcode" where [rv_switch_defs]:
  "decode_fp_99 cfg inst =
    (let sel = (drop_bit 20 inst AND 0b11111) in
     if sel = 0 then (if rvq cfg then rv_op_fcvt_w_q else rv_op_illegal)
     else if sel = 1 then (if rvq cfg then rv_op_fcvt_wu_q else rv_op_illegal)
     else if sel = 2 then (if rvq cfg then rv_op_fcvt_l_q else rv_op_illegal)
     else if sel = 3 then (if rvq cfg then rv_op_fcvt_lu_q else rv_op_illegal)
     else rv_op_illegal)"

definition decode_fp_104 :: "isa \<Rightarrow> inst_t \<Rightarrow> opcode" where [rv_switch_defs]:
  "decode_fp_104 cfg inst =
    (let sel = (drop_bit 20 inst AND 0b11111) in
     if sel = 0 then (if rvf cfg then rv_op_fcvt_s_w else rv_op_illegal)
     else if sel = 1 then (if rvf cfg then rv_op_fcvt_s_wu else rv_op_illegal)
     else if sel = 2 then (if rvf cfg then rv_op_fcvt_s_l else rv_op_illegal)
     else if sel = 3 then (if rvf cfg then rv_op_fcvt_s_lu else rv_op_illegal)
     else rv_op_illegal)"

definition decode_fp_105 :: "isa \<Rightarrow> inst_t \<Rightarrow> opcode" where [rv_switch_defs]:
  "decode_fp_105 cfg inst =
    (let sel = (drop_bit 20 inst AND 0b11111) in
     if sel = 0 then (if rvd cfg then rv_op_fcvt_d_w else rv_op_illegal)
     else if sel = 1 then (if rvd cfg then rv_op_fcvt_d_wu else rv_op_illegal)
     else if sel = 2 then (if rvd cfg then rv_op_fcvt_d_l else rv_op_illegal)
     else if sel = 3 then (if rvd cfg then rv_op_fcvt_d_lu else rv_op_illegal)
     else rv_op_illegal)"

definition decode_fp_107 :: "isa \<Rightarrow> inst_t \<Rightarrow> opcode" where [rv_switch_defs]:
  "decode_fp_107 cfg inst =
    (let sel = (drop_bit 20 inst AND 0b11111) in
     if sel = 0 then (if rvq cfg then rv_op_fcvt_q_w else rv_op_illegal)
     else if sel = 1 then (if rvq cfg then rv_op_fcvt_q_wu else rv_op_illegal)
     else if sel = 2 then (if rvq cfg then rv_op_fcvt_q_l else rv_op_illegal)
     else if sel = 3 then (if rvq cfg then rv_op_fcvt_q_lu else rv_op_illegal)
     else rv_op_illegal)"

definition decode_fp_112 :: "isa \<Rightarrow> inst_t \<Rightarrow> opcode" where [rv_switch_defs]:
  "decode_fp_112 cfg inst =
    (let sel = (drop_bit 17 inst AND 0b11111000) OR (drop_bit 12 inst AND 0b111) in
     if sel = 0 then (if rvf cfg then rv_op_fmv_x_s else rv_op_illegal)
     else if sel = 1 then (if rvf cfg then rv_op_fclass_s else rv_op_illegal)
     else rv_op_illegal)"

definition decode_fp_113 :: "isa \<Rightarrow> inst_t \<Rightarrow> opcode" where [rv_switch_defs]:
  "decode_fp_113 cfg inst =
    (let sel = (drop_bit 17 inst AND 0b11111000) OR (drop_bit 12 inst AND 0b111) in
     if sel = 0 then (if rvd cfg then rv_op_fmv_x_d else rv_op_illegal)
     else if sel = 1 then (if rvd cfg then rv_op_fclass_d else rv_op_illegal)
     else rv_op_illegal)"

definition decode_fp_115 :: "isa \<Rightarrow> inst_t \<Rightarrow> opcode" where [rv_switch_defs]:
  "decode_fp_115 cfg inst =
    (let sel = (drop_bit 17 inst AND 0b11111000) OR (drop_bit 12 inst AND 0b111) in
     if sel = 0 then (if rvq cfg then rv_op_fmv_x_q else rv_op_illegal)
     else if sel = 1 then (if rvq cfg then rv_op_fclass_q else rv_op_illegal)
     else rv_op_illegal)"

definition decode_fp_120 :: "isa \<Rightarrow> inst_t \<Rightarrow> opcode" where [rv_switch_defs]:
  "decode_fp_120 cfg inst =
    (let sel = (drop_bit 17 inst AND 0b11111000) OR (drop_bit 12 inst AND 0b111) in
     if sel = 0 then (if rvf cfg then rv_op_fmv_s_x else rv_op_illegal)
     else rv_op_illegal)"

definition decode_fp_121 :: "isa \<Rightarrow> inst_t \<Rightarrow> opcode" where [rv_switch_defs]:
  "decode_fp_121 cfg inst =
    (let sel = (drop_bit 17 inst AND 0b11111000) OR (drop_bit 12 inst AND 0b111) in
     if sel = 0 then (if rvd cfg then rv_op_fmv_d_x else rv_op_illegal)
     else rv_op_illegal)"

definition decode_fp_123 :: "isa \<Rightarrow> inst_t \<Rightarrow> opcode" where [rv_switch_defs]:
  "decode_fp_123 cfg inst =
    (let sel = (drop_bit 17 inst AND 0b11111000) OR (drop_bit 12 inst AND 0b111) in
     if sel = 0 then (if rvq cfg then rv_op_fmv_q_x else rv_op_illegal)
     else rv_op_illegal)"

definition decode_major_op_fp :: "isa \<Rightarrow> inst_t \<Rightarrow> opcode" where [rv_switch_defs]:
  "decode_major_op_fp cfg inst =
    (let sel = (drop_bit 25 inst AND 0b1111111) in
     if sel = 0 then (if rvf cfg then rv_op_fadd_s else rv_op_illegal)
     else if sel = 1 then (if rvd cfg then rv_op_fadd_d else rv_op_illegal)
     else if sel = 3 then (if rvq cfg then rv_op_fadd_q else rv_op_illegal)
     else if sel = 4 then (if rvf cfg then rv_op_fsub_s else rv_op_illegal)
     else if sel = 5 then (if rvd cfg then rv_op_fsub_d else rv_op_illegal)
     else if sel = 7 then (if rvq cfg then rv_op_fsub_q else rv_op_illegal)
     else if sel = 8 then (if rvf cfg then rv_op_fmul_s else rv_op_illegal)
     else if sel = 9 then (if rvd cfg then rv_op_fmul_d else rv_op_illegal)
     else if sel = 11 then (if rvq cfg then rv_op_fmul_q else rv_op_illegal)
     else if sel = 12 then (if rvf cfg then rv_op_fdiv_s else rv_op_illegal)
     else if sel = 13 then (if rvd cfg then rv_op_fdiv_d else rv_op_illegal)
     else if sel = 15 then (if rvq cfg then rv_op_fdiv_q else rv_op_illegal)
     else if sel = 16 then decode_fp_16 cfg inst
     else if sel = 17 then decode_fp_17 cfg inst
     else if sel = 19 then decode_fp_19 cfg inst
     else if sel = 20 then decode_fp_20 cfg inst
     else if sel = 21 then decode_fp_21 cfg inst
     else if sel = 23 then decode_fp_23 cfg inst
     else if sel = 32 then decode_fp_32 cfg inst
     else if sel = 33 then decode_fp_33 cfg inst
     else if sel = 35 then decode_fp_35 cfg inst
     else if sel = 44 then decode_fp_44 cfg inst
     else if sel = 45 then decode_fp_45 cfg inst
     else if sel = 47 then decode_fp_47 cfg inst
     else if sel = 80 then decode_fp_80 cfg inst
     else if sel = 81 then decode_fp_81 cfg inst
     else if sel = 83 then decode_fp_83 cfg inst
     else if sel = 96 then decode_fp_96 cfg inst
     else if sel = 97 then decode_fp_97 cfg inst
     else if sel = 99 then decode_fp_99 cfg inst
     else if sel = 104 then decode_fp_104 cfg inst
     else if sel = 105 then decode_fp_105 cfg inst
     else if sel = 107 then decode_fp_107 cfg inst
     else if sel = 112 then decode_fp_112 cfg inst
     else if sel = 113 then decode_fp_113 cfg inst
     else if sel = 115 then decode_fp_115 cfg inst
     else if sel = 120 then decode_fp_120 cfg inst
     else if sel = 121 then decode_fp_121 cfg inst
     else if sel = 123 then decode_fp_123 cfg inst
     else rv_op_illegal)"

definition decode_major_op_imm_64 :: "isa \<Rightarrow> inst_t \<Rightarrow> opcode" where [rv_switch_defs]:
  "decode_major_op_imm_64 cfg inst =
    (let sel = (drop_bit 12 inst AND 0b111) in
     if sel = 0 then (if rvi cfg \<and> rv128 cfg then rv_op_addid else rv_op_illegal)
     else if sel = 1 then (let sel = (drop_bit 26 inst AND 0b111111) in
       if sel = 0 then (if rvi cfg \<and> rv128 cfg then rv_op_sllid else rv_op_illegal)
       else rv_op_illegal)
     else if sel = 5 then (let sel = (drop_bit 26 inst AND 0b111111) in
       if sel = 0 then (if rvi cfg \<and> rv128 cfg then rv_op_srlid else rv_op_illegal)
       else if sel = 16 then (if rvi cfg \<and> rv128 cfg then rv_op_sraid else rv_op_illegal)
       else rv_op_illegal)
     else rv_op_illegal)"

definition decode_major_branch :: "isa \<Rightarrow> inst_t \<Rightarrow> opcode" where [rv_switch_defs]:
  "decode_major_branch cfg inst =
    (let sel = (drop_bit 12 inst AND 0b111) in
     if sel = 0 then (if rvi cfg then rv_op_beq else rv_op_illegal)
     else if sel = 1 then (if rvi cfg then rv_op_bne else rv_op_illegal)
     else if sel = 4 then (if rvi cfg then rv_op_blt else rv_op_illegal)
     else if sel = 5 then (if rvi cfg then rv_op_bge else rv_op_illegal)
     else if sel = 6 then (if rvi cfg then rv_op_bltu else rv_op_illegal)
     else if sel = 7 then (if rvi cfg then rv_op_bgeu else rv_op_illegal)
     else rv_op_illegal)"

definition decode_major_jalr :: "isa \<Rightarrow> inst_t \<Rightarrow> opcode" where [rv_switch_defs]:
  "decode_major_jalr cfg inst =
    (let sel = (drop_bit 12 inst AND 0b111) in
     if sel = 0 then (if rvi cfg then rv_op_jalr else rv_op_illegal)
     else rv_op_illegal)"

definition decode_system_priv :: "isa \<Rightarrow> inst_t \<Rightarrow> opcode" where [rv_switch_defs]:
  "decode_system_priv cfg inst =
    (let sel = (drop_bit 15 inst AND 0b11111111111100000) OR (drop_bit 7 inst AND 0b11111) in
     if sel = 0 then (let sel = (drop_bit 15 inst AND 0b11111) in
       if sel = 0 then (if rvs cfg then rv_op_ecall else rv_op_illegal)
       else rv_op_illegal)
     else if sel = 32 then (let sel = (drop_bit 15 inst AND 0b11111) in
       if sel = 0 then (if rvs cfg then rv_op_ebreak else rv_op_illegal)
       else rv_op_illegal)
     else if sel = 64 then (let sel = (drop_bit 15 inst AND 0b11111) in
       if sel = 0 then (if rvs cfg then rv_op_uret else rv_op_illegal)
       else rv_op_illegal)
     else if sel = 8256 then (let sel = (drop_bit 15 inst AND 0b11111) in
       if sel = 0 then (if rvs cfg then rv_op_sret else rv_op_illegal)
       else rv_op_illegal)
     else if sel = 8320 then (if rvs cfg then rv_op_sfence_vm else rv_op_illegal)
     else if sel = 8352 then (let sel = (drop_bit 15 inst AND 0b11111) in
       if sel = 0 then (if rvs cfg then rv_op_wfi else rv_op_illegal)
       else rv_op_illegal)
     else if sel = 16448 then (let sel = (drop_bit 15 inst AND 0b11111) in
       if sel = 0 then (if rvs cfg then rv_op_hret else rv_op_illegal)
       else rv_op_illegal)
     else if sel = 24640 then (let sel = (drop_bit 15 inst AND 0b11111) in
       if sel = 0 then (if rvs cfg then rv_op_mret else rv_op_illegal)
       else rv_op_illegal)
     else if sel = 63040 then (let sel = (drop_bit 15 inst AND 0b11111) in
       if sel = 0 then (if rvs cfg then rv_op_dret else rv_op_illegal)
       else rv_op_illegal)
     else rv_op_illegal)"

definition decode_major_system :: "isa \<Rightarrow> inst_t \<Rightarrow> opcode" where [rv_switch_defs]:
  "decode_major_system cfg inst =
    (let sel = (drop_bit 12 inst AND 0b111) in
     if sel = 0 then decode_system_priv cfg inst
     else if sel = 1 then (if rvs cfg then rv_op_csrrw else rv_op_illegal)
     else if sel = 2 then (if rvs cfg then rv_op_csrrs else rv_op_illegal)
     else if sel = 3 then (if rvs cfg then rv_op_csrrc else rv_op_illegal)
     else if sel = 5 then (if rvs cfg then rv_op_csrrwi else rv_op_illegal)
     else if sel = 6 then (if rvs cfg then rv_op_csrrsi else rv_op_illegal)
     else if sel = 7 then (if rvs cfg then rv_op_csrrci else rv_op_illegal)
     else rv_op_illegal)"

definition decode_major_op_64 :: "isa \<Rightarrow> inst_t \<Rightarrow> opcode" where [rv_switch_defs]:
  "decode_major_op_64 cfg inst =
    (let sel = (drop_bit 22 inst AND 0b1111111000) OR (drop_bit 12 inst AND 0b111) in
     if sel = 0 then (if rvi cfg \<and> rv128 cfg then rv_op_addd else rv_op_illegal)
     else if sel = 1 then (if rvi cfg \<and> rv128 cfg then rv_op_slld else rv_op_illegal)
     else if sel = 5 then (if rvi cfg \<and> rv128 cfg then rv_op_srld else rv_op_illegal)
     else if sel = 8 then (if rvm cfg \<and> rv128 cfg then rv_op_muld else rv_op_illegal)
     else if sel = 12 then (if rvm cfg \<and> rv128 cfg then rv_op_divd else rv_op_illegal)
     else if sel = 13 then (if rvm cfg \<and> rv128 cfg then rv_op_divud else rv_op_illegal)
     else if sel = 14 then (if rvm cfg \<and> rv128 cfg then rv_op_remd else rv_op_illegal)
     else if sel = 15 then (if rvm cfg \<and> rv128 cfg then rv_op_remud else rv_op_illegal)
     else if sel = 256 then (if rvi cfg \<and> rv128 cfg then rv_op_subd else rv_op_illegal)
     else if sel = 261 then (if rvi cfg \<and> rv128 cfg then rv_op_srad else rv_op_illegal)
     else rv_op_illegal)"

definition decode_op_32 :: "isa \<Rightarrow> inst_t \<Rightarrow> opcode" where [rv_switch_defs]:
  "decode_op_32 cfg inst =
    (let sel = (drop_bit 2 inst AND 0b11111) in
     if sel = 0 then decode_major_load cfg inst
     else if sel = 1 then decode_major_load_fp cfg inst
     else if sel = 3 then decode_major_misc_mem cfg inst
     else if sel = 4 then decode_major_op_imm cfg inst
     else if sel = 5 then (if rvi cfg then rv_op_auipc else rv_op_illegal)
     else if sel = 6 then decode_major_op_imm_32 cfg inst
     else if sel = 8 then decode_major_store cfg inst
     else if sel = 9 then decode_major_store_fp cfg inst
     else if sel = 11 then decode_major_amo cfg inst
     else if sel = 12 then decode_major_op cfg inst
     else if sel = 13 then (if rvi cfg then rv_op_lui else rv_op_illegal)
     else if sel = 14 then decode_major_op_32 cfg inst
     else if sel = 16 then decode_major_madd cfg inst
     else if sel = 17 then decode_major_msub cfg inst
     else if sel = 18 then decode_major_nmsub cfg inst
     else if sel = 19 then decode_major_nmadd cfg inst
     else if sel = 20 then decode_major_op_fp cfg inst
     else if sel = 22 then decode_major_op_imm_64 cfg inst
     else if sel = 24 then decode_major_branch cfg inst
     else if sel = 25 then decode_major_jalr cfg inst
     else if sel = 27 then (if rvi cfg then rv_op_jal else rv_op_illegal)
     else if sel = 28 then decode_major_system cfg inst
     else if sel = 30 then decode_major_op_64 cfg inst
     else rv_op_illegal)"

definition decode_inst_op :: "isa \<Rightarrow> inst_t \<Rightarrow> opcode" where [rv_switch_defs]:
  "decode_inst_op cfg inst =
    (let sel = (inst AND 0b11) in
     if sel = 0 then decode_op_c0 cfg inst
     else if sel = 1 then decode_op_c1 cfg inst
     else if sel = 2 then decode_op_c2 cfg inst
     else if sel = 3 then decode_op_32 cfg inst
     else rv_op_illegal)"

end
