(* ===== verification/Rv_Switch_Laws.thy ===== *)
theory Rv_Switch_Laws
  imports Rv_Switch
begin

text \<open>
  The opcode decoder against the \<open>match\<close>/\<open>mask\<close> tables.  An instruction word agrees with an opcode
  when it has the table's fixed bits; the decoder returns an opcode exactly when the opcode's
  extension is enabled, the word agrees with it and with no opcode of a larger mask.
\<close>

section \<open>The specification: fixed bits and enabled extensions\<close>

definition agrees :: "opcode \<Rightarrow> inst_t \<Rightarrow> bool" where
  "agrees opc inst \<longleftrightarrow> inst AND rv_inst_mask ! opc = rv_inst_match ! opc"

text \<open>
  Opcodes are numbered by extension, so the guards of the switch are intervals.  The compressed
  loads and stores of RV32 and RV64 share their encodings; RV32 is tested first.
\<close>

definition op_enabled :: "isa \<Rightarrow> opcode \<Rightarrow> bool" where
  "op_enabled cfg opc \<longleftrightarrow>
    (if opc = 0 then False
     else if opc < 25 then rvi cfg
     else if opc < 28 then rvi cfg \<and> (rv32 cfg \<or> rv64 cfg \<or> rv128 cfg)
     else if opc < 52 then rvi cfg
     else if opc < 64 then rvi cfg \<and> rv128 cfg
     else if opc < 77 then rvm cfg
     else if opc < 82 then rvm cfg \<and> rv128 cfg
     else if opc < 104 then rva cfg
     else if opc < 115 then rva cfg \<and> rv128 cfg
     else if opc < 130 then rvs cfg
     else if opc < 160 then rvf cfg
     else if opc < 192 then rvd cfg
     else if opc < 226 then rvq cfg
     else if opc = rv_op_c_flw \<or> opc = rv_op_c_fsw \<or> opc = rv_op_c_jal \<or> opc = rv_op_c_flwsp \<or>
       opc = rv_op_c_fswsp then rvc cfg \<and> rv32 cfg
     else if opc = rv_op_c_srli \<or> opc = rv_op_c_srai \<or> opc = rv_op_c_slli
       then rvc cfg \<and> (rv32 cfg \<or> rv64 cfg)
     else if opc < 263 then rvc cfg
     else if opc < 268 then rvc cfg \<and> rv64 cfg \<and> \<not> rv32 cfg
     else False)"

text \<open>\<open>refines o p\<close>: every word that agrees with \<open>o\<close> agrees with \<open>p\<close>, and \<open>o\<close> fixes more bits.\<close>

definition refines :: "opcode \<Rightarrow> opcode \<Rightarrow> bool" where
  "refines opc opd \<longleftrightarrow>
     rv_inst_mask ! opc \<noteq> rv_inst_mask ! opd \<and>
     rv_inst_mask ! opd AND rv_inst_mask ! opc = rv_inst_mask ! opd \<and>
     rv_inst_match ! opc AND rv_inst_mask ! opd = rv_inst_match ! opd"

text \<open>The decoder's contract for an opcode that no other opcode refines.\<close>

definition decodes_as :: "isa \<Rightarrow> inst_t \<Rightarrow> opcode \<Rightarrow> bool" where
  "decodes_as cfg inst opc \<longleftrightarrow>
     (op_enabled cfg opc \<longrightarrow> agrees opc inst \<longrightarrow> decode_inst_op cfg inst = opc)"

section \<open>Fixed bits, field by field\<close>

lemmas sel_norms =
  sel_norm [of "numeral c" "numeral m" "numeral k"] sel_norm [of 0 "numeral m" "numeral k"]
  sel_norm [of 1 "numeral m" "numeral k"] sel_norm [of 0 1 "numeral k"]
  sel_norm [of 1 1 "numeral k"] for c m k

text \<open>The masks of the table, split along the selectors of the switches.\<close>

lemma mask_parts_7f [rv_table_simps]:
  fixes x :: inst_t
  shows "C AND 0x7f = C \<Longrightarrow> x AND 0x7f = C \<longleftrightarrow>
    x AND 0x3 = C AND 0x3 \<and> x AND 0x7c = C AND 0x7c"
  by (subst and_mask_parts [of "[0x3, 0x7c]"]) simp_all

lemma mask_parts_707f [rv_table_simps]:
  fixes x :: inst_t
  shows "C AND 0x707f = C \<Longrightarrow> x AND 0x707f = C \<longleftrightarrow>
    x AND 0x3 = C AND 0x3 \<and> x AND 0x7c = C AND 0x7c \<and> x AND 0x7000 = C AND 0x7000"
  by (subst and_mask_parts [of "[0x3, 0x7c, 0x7000]"]) simp_all

lemma mask_parts_f800707f [rv_table_simps]:
  fixes x :: inst_t
  shows "C AND 0xf800707f = C \<Longrightarrow> x AND 0xf800707f = C \<longleftrightarrow>
    x AND 0x3 = C AND 0x3 \<and> x AND 0x7c = C AND 0x7c \<and> x AND 0x7000 = C AND 0x7000 \<and> x AND 0xf8000000 = C AND 0xf8000000"
  by (subst and_mask_parts [of "[0x3, 0x7c, 0x7000, 0xf8000000]"]) simp_all

lemma mask_parts_fe00707f [rv_table_simps]:
  fixes x :: inst_t
  shows "C AND 0xfe00707f = C \<Longrightarrow> x AND 0xfe00707f = C \<longleftrightarrow>
    x AND 0x3 = C AND 0x3 \<and> x AND 0x7c = C AND 0x7c \<and> x AND 0x7000 = C AND 0x7000 \<and> x AND 0x6000000 = C AND 0x6000000 \<and> x AND 0xf8000000 = C AND 0xf8000000"
  by (subst and_mask_parts [of "[0x3, 0x7c, 0x7000, 0x6000000, 0xf8000000]"]) simp_all

lemma mask_parts_f9f0707f [rv_table_simps]:
  fixes x :: inst_t
  shows "C AND 0xf9f0707f = C \<Longrightarrow> x AND 0xf9f0707f = C \<longleftrightarrow>
    x AND 0x3 = C AND 0x3 \<and> x AND 0x7c = C AND 0x7c \<and> x AND 0x7000 = C AND 0x7000 \<and> x AND 0xf8000000 = C AND 0xf8000000 \<and> x AND 0x1f00000 = C AND 0x1f00000"
  by (subst and_mask_parts [of "[0x3, 0x7c, 0x7000, 0xf8000000, 0x1f00000]"]) simp_all

lemma mask_parts_fc00707f [rv_table_simps]:
  fixes x :: inst_t
  shows "C AND 0xfc00707f = C \<Longrightarrow> x AND 0xfc00707f = C \<longleftrightarrow>
    x AND 0x3 = C AND 0x3 \<and> x AND 0x7c = C AND 0x7c \<and> x AND 0x7000 = C AND 0x7000 \<and> x AND 0xfc000000 = C AND 0xfc000000"
  by (subst and_mask_parts [of "[0x3, 0x7c, 0x7000, 0xfc000000]"]) simp_all

lemma mask_parts_600007f [rv_table_simps]:
  fixes x :: inst_t
  shows "C AND 0x600007f = C \<Longrightarrow> x AND 0x600007f = C \<longleftrightarrow>
    x AND 0x3 = C AND 0x3 \<and> x AND 0x7c = C AND 0x7c \<and> x AND 0x6000000 = C AND 0x6000000"
  by (subst and_mask_parts [of "[0x3, 0x7c, 0x6000000]"]) simp_all

lemma mask_parts_fe00007f [rv_table_simps]:
  fixes x :: inst_t
  shows "C AND 0xfe00007f = C \<Longrightarrow> x AND 0xfe00007f = C \<longleftrightarrow>
    x AND 0x3 = C AND 0x3 \<and> x AND 0x7c = C AND 0x7c \<and> x AND 0x6000000 = C AND 0x6000000 \<and> x AND 0xf8000000 = C AND 0xf8000000"
  by (subst and_mask_parts [of "[0x3, 0x7c, 0x6000000, 0xf8000000]"]) simp_all

lemma mask_parts_fff0007f [rv_table_simps]:
  fixes x :: inst_t
  shows "C AND 0xfff0007f = C \<Longrightarrow> x AND 0xfff0007f = C \<longleftrightarrow>
    x AND 0x3 = C AND 0x3 \<and> x AND 0x7c = C AND 0x7c \<and> x AND 0x6000000 = C AND 0x6000000 \<and> x AND 0xf8000000 = C AND 0xf8000000 \<and> x AND 0x1f00000 = C AND 0x1f00000"
  by (subst and_mask_parts [of "[0x3, 0x7c, 0x6000000, 0xf8000000, 0x1f00000]"]) simp_all

lemma mask_parts_fff0707f [rv_table_simps]:
  fixes x :: inst_t
  shows "C AND 0xfff0707f = C \<Longrightarrow> x AND 0xfff0707f = C \<longleftrightarrow>
    x AND 0x3 = C AND 0x3 \<and> x AND 0x7c = C AND 0x7c \<and> x AND 0x7000 = C AND 0x7000 \<and> x AND 0x6000000 = C AND 0x6000000 \<and> x AND 0xf8000000 = C AND 0xf8000000 \<and> x AND 0x1f00000 = C AND 0x1f00000"
  by (subst and_mask_parts [of "[0x3, 0x7c, 0x7000, 0x6000000, 0xf8000000, 0x1f00000]"]) simp_all

lemma mask_parts_ffffffff [rv_table_simps]:
  fixes x :: inst_t
  shows "C AND 0xffffffff = C \<Longrightarrow> x AND 0xffffffff = C \<longleftrightarrow>
    x AND 0x3 = C AND 0x3 \<and> x AND 0x7c = C AND 0x7c \<and> x AND 0x7000 = C AND 0x7000 \<and> x AND 0xfff00000 = C AND 0xfff00000 \<and> x AND 0xf80 = C AND 0xf80 \<and> x AND 0xf8000 = C AND 0xf8000"
  by (subst and_mask_parts [of "[0x3, 0x7c, 0x7000, 0xfff00000, 0xf80, 0xf8000]"]) simp_all

lemma mask_parts_fff07fff [rv_table_simps]:
  fixes x :: inst_t
  shows "C AND 0xfff07fff = C \<Longrightarrow> x AND 0xfff07fff = C \<longleftrightarrow>
    x AND 0x3 = C AND 0x3 \<and> x AND 0x7c = C AND 0x7c \<and> x AND 0x7000 = C AND 0x7000 \<and> x AND 0xfff00000 = C AND 0xfff00000 \<and> x AND 0xf80 = C AND 0xf80"
  by (subst and_mask_parts [of "[0x3, 0x7c, 0x7000, 0xfff00000, 0xf80]"]) simp_all

lemma mask_parts_e003 [rv_table_simps]:
  fixes x :: inst_t
  shows "C AND 0xe003 = C \<Longrightarrow> x AND 0xe003 = C \<longleftrightarrow>
    x AND 0x3 = C AND 0x3 \<and> x AND 0xe000 = C AND 0xe000"
  by (subst and_mask_parts [of "[0x3, 0xe000]"]) simp_all

lemma mask_parts_ffff [rv_table_simps]:
  fixes x :: inst_t
  shows "C AND 0xffff = C \<Longrightarrow> x AND 0xffff = C \<longleftrightarrow>
    x AND 0x3 = C AND 0x3 \<and> x AND 0xe000 = C AND 0xe000 \<and> x AND 0x1000 = C AND 0x1000 \<and> x AND 0xf80 = C AND 0xf80 \<and> x AND 0x7c = C AND 0x7c"
  by (subst and_mask_parts [of "[0x3, 0xe000, 0x1000, 0xf80, 0x7c]"]) simp_all

lemma mask_parts_ec03 [rv_table_simps]:
  fixes x :: inst_t
  shows "C AND 0xec03 = C \<Longrightarrow> x AND 0xec03 = C \<longleftrightarrow>
    x AND 0x3 = C AND 0x3 \<and> x AND 0xe000 = C AND 0xe000 \<and> x AND 0xc00 = C AND 0xc00"
  by (subst and_mask_parts [of "[0x3, 0xe000, 0xc00]"]) simp_all

lemma mask_parts_fc63 [rv_table_simps]:
  fixes x :: inst_t
  shows "C AND 0xfc63 = C \<Longrightarrow> x AND 0xfc63 = C \<longleftrightarrow>
    x AND 0x3 = C AND 0x3 \<and> x AND 0xe000 = C AND 0xe000 \<and> x AND 0xc00 = C AND 0xc00 \<and> x AND 0x1000 = C AND 0x1000 \<and> x AND 0x60 = C AND 0x60"
  by (subst and_mask_parts [of "[0x3, 0xe000, 0xc00, 0x1000, 0x60]"]) simp_all

lemma mask_parts_ef83 [rv_table_simps]:
  fixes x :: inst_t
  shows "C AND 0xef83 = C \<Longrightarrow> x AND 0xef83 = C \<longleftrightarrow>
    x AND 0x3 = C AND 0x3 \<and> x AND 0xe000 = C AND 0xe000 \<and> x AND 0xf80 = C AND 0xf80"
  by (subst and_mask_parts [of "[0x3, 0xe000, 0xf80]"]) simp_all

lemma mask_parts_f003 [rv_table_simps]:
  fixes x :: inst_t
  shows "C AND 0xf003 = C \<Longrightarrow> x AND 0xf003 = C \<longleftrightarrow>
    x AND 0x3 = C AND 0x3 \<and> x AND 0xe000 = C AND 0xe000 \<and> x AND 0x1000 = C AND 0x1000"
  by (subst and_mask_parts [of "[0x3, 0xe000, 0x1000]"]) simp_all

lemma mask_parts_f07f [rv_table_simps]:
  fixes x :: inst_t
  shows "C AND 0xf07f = C \<Longrightarrow> x AND 0xf07f = C \<longleftrightarrow>
    x AND 0x3 = C AND 0x3 \<and> x AND 0xe000 = C AND 0xe000 \<and> x AND 0x1000 = C AND 0x1000 \<and> x AND 0x7c = C AND 0x7c"
  by (subst and_mask_parts [of "[0x3, 0xe000, 0x1000, 0x7c]"]) simp_all

lemma mask_parts_1ffc [rv_table_simps]:
  fixes x :: inst_t
  shows "C AND 0x1ffc = C \<Longrightarrow> x AND 0x1ffc = C \<longleftrightarrow>
    x AND 0x1000 = C AND 0x1000 \<and> x AND 0xf80 = C AND 0xf80 \<and> x AND 0x7c = C AND 0x7c"
  by (subst and_mask_parts [of "[0x1000, 0xf80, 0x7c]"]) simp_all

lemma mask_parts_fe000000 [rv_table_simps]:
  fixes x :: inst_t
  shows "C AND 0xfe000000 = C \<Longrightarrow> x AND 0xfe000000 = C \<longleftrightarrow>
    x AND 0x6000000 = C AND 0x6000000 \<and> x AND 0xf8000000 = C AND 0xf8000000"
  by (subst and_mask_parts [of "[0x6000000, 0xf8000000]"]) simp_all

lemmas table_defs = agrees_def rv_inst_match_def rv_inst_mask_def

section \<open>Soundness: what the decoder returns agrees with the tables\<close>

definition decoded_ok :: "isa \<Rightarrow> inst_t \<Rightarrow> opcode \<Rightarrow> bool" where
  "decoded_ok cfg inst opc \<longleftrightarrow> opc = rv_op_illegal \<or> op_enabled cfg opc \<and> agrees opc inst"

lemma decoded_ok_illegal [simp]: "decoded_ok cfg inst 0"
  by (simp add: decoded_ok_def)

lemma decoded_ok_guard:
  "decoded_ok cfg inst (if b then x else y) \<longleftrightarrow>
    (b \<longrightarrow> decoded_ok cfg inst x) \<and> (\<not> b \<longrightarrow> decoded_ok cfg inst y)"
  by simp

text \<open>A case label of a switch: what the failed cases say is not needed.\<close>

lemma decoded_ok_sel:
  "(s = (c :: inst_t) \<Longrightarrow> decoded_ok cfg inst x) \<Longrightarrow> decoded_ok cfg inst y \<Longrightarrow>
    decoded_ok cfg inst (if s = c then x else y)"
  by simp

lemma decode_fp_ok:
  assumes "inst AND 0b11 = 3" and "drop_bit 2 inst AND 0b11111 = 20"
  shows
    "drop_bit 25 inst AND 0b1111111 = 16 \<Longrightarrow> decoded_ok cfg inst (decode_fp_16 cfg inst)"
    "drop_bit 25 inst AND 0b1111111 = 17 \<Longrightarrow> decoded_ok cfg inst (decode_fp_17 cfg inst)"
    "drop_bit 25 inst AND 0b1111111 = 19 \<Longrightarrow> decoded_ok cfg inst (decode_fp_19 cfg inst)"
    "drop_bit 25 inst AND 0b1111111 = 20 \<Longrightarrow> decoded_ok cfg inst (decode_fp_20 cfg inst)"
    "drop_bit 25 inst AND 0b1111111 = 21 \<Longrightarrow> decoded_ok cfg inst (decode_fp_21 cfg inst)"
    "drop_bit 25 inst AND 0b1111111 = 23 \<Longrightarrow> decoded_ok cfg inst (decode_fp_23 cfg inst)"
    "drop_bit 25 inst AND 0b1111111 = 32 \<Longrightarrow> decoded_ok cfg inst (decode_fp_32 cfg inst)"
    "drop_bit 25 inst AND 0b1111111 = 33 \<Longrightarrow> decoded_ok cfg inst (decode_fp_33 cfg inst)"
    "drop_bit 25 inst AND 0b1111111 = 35 \<Longrightarrow> decoded_ok cfg inst (decode_fp_35 cfg inst)"
    "drop_bit 25 inst AND 0b1111111 = 44 \<Longrightarrow> decoded_ok cfg inst (decode_fp_44 cfg inst)"
    "drop_bit 25 inst AND 0b1111111 = 45 \<Longrightarrow> decoded_ok cfg inst (decode_fp_45 cfg inst)"
    "drop_bit 25 inst AND 0b1111111 = 47 \<Longrightarrow> decoded_ok cfg inst (decode_fp_47 cfg inst)"
    "drop_bit 25 inst AND 0b1111111 = 80 \<Longrightarrow> decoded_ok cfg inst (decode_fp_80 cfg inst)"
    "drop_bit 25 inst AND 0b1111111 = 81 \<Longrightarrow> decoded_ok cfg inst (decode_fp_81 cfg inst)"
    "drop_bit 25 inst AND 0b1111111 = 83 \<Longrightarrow> decoded_ok cfg inst (decode_fp_83 cfg inst)"
    "drop_bit 25 inst AND 0b1111111 = 96 \<Longrightarrow> decoded_ok cfg inst (decode_fp_96 cfg inst)"
    "drop_bit 25 inst AND 0b1111111 = 97 \<Longrightarrow> decoded_ok cfg inst (decode_fp_97 cfg inst)"
    "drop_bit 25 inst AND 0b1111111 = 99 \<Longrightarrow> decoded_ok cfg inst (decode_fp_99 cfg inst)"
    "drop_bit 25 inst AND 0b1111111 = 104 \<Longrightarrow> decoded_ok cfg inst (decode_fp_104 cfg inst)"
    "drop_bit 25 inst AND 0b1111111 = 105 \<Longrightarrow> decoded_ok cfg inst (decode_fp_105 cfg inst)"
    "drop_bit 25 inst AND 0b1111111 = 107 \<Longrightarrow> decoded_ok cfg inst (decode_fp_107 cfg inst)"
    "drop_bit 25 inst AND 0b1111111 = 112 \<Longrightarrow> decoded_ok cfg inst (decode_fp_112 cfg inst)"
    "drop_bit 25 inst AND 0b1111111 = 113 \<Longrightarrow> decoded_ok cfg inst (decode_fp_113 cfg inst)"
    "drop_bit 25 inst AND 0b1111111 = 115 \<Longrightarrow> decoded_ok cfg inst (decode_fp_115 cfg inst)"
    "drop_bit 25 inst AND 0b1111111 = 120 \<Longrightarrow> decoded_ok cfg inst (decode_fp_120 cfg inst)"
    "drop_bit 25 inst AND 0b1111111 = 121 \<Longrightarrow> decoded_ok cfg inst (decode_fp_121 cfg inst)"
    "drop_bit 25 inst AND 0b1111111 = 123 \<Longrightarrow> decoded_ok cfg inst (decode_fp_123 cfg inst)"
  using assms unfolding rv_switch_defs Let_def
  by - ((intro decoded_ok_sel)?; (simp only: decoded_ok_guard)?;
    simp add: decoded_ok_def op_enabled_def sel_norms or_sel rv_table_simps table_defs)+

lemma decode_major_ok:
  assumes "inst AND 0b11 = 3"
  shows
    "drop_bit 2 inst AND 0b11111 = 0 \<Longrightarrow> decoded_ok cfg inst (decode_major_load cfg inst)"
    "drop_bit 2 inst AND 0b11111 = 1 \<Longrightarrow> decoded_ok cfg inst (decode_major_load_fp cfg inst)"
    "drop_bit 2 inst AND 0b11111 = 3 \<Longrightarrow> decoded_ok cfg inst (decode_major_misc_mem cfg inst)"
    "drop_bit 2 inst AND 0b11111 = 4 \<Longrightarrow> decoded_ok cfg inst (decode_major_op_imm cfg inst)"
    "drop_bit 2 inst AND 0b11111 = 6 \<Longrightarrow> decoded_ok cfg inst (decode_major_op_imm_32 cfg inst)"
    "drop_bit 2 inst AND 0b11111 = 8 \<Longrightarrow> decoded_ok cfg inst (decode_major_store cfg inst)"
    "drop_bit 2 inst AND 0b11111 = 9 \<Longrightarrow> decoded_ok cfg inst (decode_major_store_fp cfg inst)"
    "drop_bit 2 inst AND 0b11111 = 11 \<Longrightarrow> decoded_ok cfg inst (decode_major_amo cfg inst)"
    "drop_bit 2 inst AND 0b11111 = 12 \<Longrightarrow> decoded_ok cfg inst (decode_major_op cfg inst)"
    "drop_bit 2 inst AND 0b11111 = 14 \<Longrightarrow> decoded_ok cfg inst (decode_major_op_32 cfg inst)"
    "drop_bit 2 inst AND 0b11111 = 16 \<Longrightarrow> decoded_ok cfg inst (decode_major_madd cfg inst)"
    "drop_bit 2 inst AND 0b11111 = 17 \<Longrightarrow> decoded_ok cfg inst (decode_major_msub cfg inst)"
    "drop_bit 2 inst AND 0b11111 = 18 \<Longrightarrow> decoded_ok cfg inst (decode_major_nmsub cfg inst)"
    "drop_bit 2 inst AND 0b11111 = 19 \<Longrightarrow> decoded_ok cfg inst (decode_major_nmadd cfg inst)"
    "drop_bit 2 inst AND 0b11111 = 22 \<Longrightarrow> decoded_ok cfg inst (decode_major_op_imm_64 cfg inst)"
    "drop_bit 2 inst AND 0b11111 = 24 \<Longrightarrow> decoded_ok cfg inst (decode_major_branch cfg inst)"
    "drop_bit 2 inst AND 0b11111 = 25 \<Longrightarrow> decoded_ok cfg inst (decode_major_jalr cfg inst)"
    "drop_bit 2 inst AND 0b11111 = 30 \<Longrightarrow> decoded_ok cfg inst (decode_major_op_64 cfg inst)"
  using assms unfolding rv_switch_defs Let_def
  by - ((intro decoded_ok_sel)?; (simp only: decoded_ok_guard)?;
    simp add: decoded_ok_def op_enabled_def sel_norms or_sel rv_table_simps table_defs)+

lemma decode_system_priv_ok:
  assumes "inst AND 0b11 = 3" and "drop_bit 2 inst AND 0b11111 = 28" and "drop_bit 12 inst AND 0b111 = 0"
  shows "decoded_ok cfg inst (decode_system_priv cfg inst)"
  using assms unfolding decode_system_priv_def Let_def
  by - ((intro decoded_ok_sel)?; (simp only: decoded_ok_guard)?;
    simp add: decoded_ok_def op_enabled_def sel_norms or_sel rv_table_simps table_defs)+

lemma decode_major_system_ok:
  assumes "inst AND 0b11 = 3" and "drop_bit 2 inst AND 0b11111 = 28"
  shows "decoded_ok cfg inst (decode_major_system cfg inst)"
  using assms decode_system_priv_ok [OF assms] unfolding decode_major_system_def Let_def
  by - ((intro decoded_ok_sel)?; (simp only: decoded_ok_guard)?;
    simp add: decoded_ok_def op_enabled_def sel_norms or_sel rv_table_simps table_defs)+

lemma decode_major_op_fp_ok:
  assumes "inst AND 0b11 = 3" and "drop_bit 2 inst AND 0b11111 = 20"
  shows "decoded_ok cfg inst (decode_major_op_fp cfg inst)"
  using assms unfolding decode_major_op_fp_def Let_def
  by - ((intro decoded_ok_sel decode_fp_ok)?; (simp only: decoded_ok_guard)?;
    (assumption | simp add: decoded_ok_def op_enabled_def sel_norms or_sel rv_table_simps table_defs))+

lemma decode_op_32_ok:
  assumes "inst AND 0b11 = 3"
  shows "decoded_ok cfg inst (decode_op_32 cfg inst)"
  using assms unfolding decode_op_32_def Let_def
  by - ((intro decoded_ok_sel decode_major_ok decode_major_op_fp_ok decode_major_system_ok)?;
    (simp only: decoded_ok_guard)?;
    (assumption | simp add: decoded_ok_def op_enabled_def sel_norms or_sel rv_table_simps table_defs))+

lemma decode_op_c_ok:
  "inst AND 0b11 = 0 \<Longrightarrow> decoded_ok cfg inst (decode_op_c0 cfg inst)"
  "inst AND 0b11 = 1 \<Longrightarrow> decoded_ok cfg inst (decode_op_c1 cfg inst)"
  "inst AND 0b11 = 2 \<Longrightarrow> decoded_ok cfg inst (decode_op_c2 cfg inst)"
  unfolding decode_op_c0_def decode_op_c1_def decode_op_c2_def Let_def
  by - ((intro decoded_ok_sel)?; (simp only: decoded_ok_guard)?;
    simp add: decoded_ok_def op_enabled_def sel_norms or_sel rv_table_simps table_defs)+

lemma decode_inst_op_ok: "decoded_ok cfg inst (decode_inst_op cfg inst)"
  unfolding decode_inst_op_def Let_def
  by (intro decoded_ok_sel decode_op_c_ok decode_op_32_ok decoded_ok_illegal)

section \<open>Completeness: an enabled opcode that agrees is returned\<close>

lemmas decodes_as_simps = decodes_as_def op_enabled_def sel_norms or_sel rv_table_simps table_defs
  decode_inst_op_def rv_switch_defs

lemma decodes_as_base:
  "decodes_as cfg inst 1"
  "list_all (decodes_as cfg inst) [2..<64]"
  by (simp_all add: decodes_as_simps)

lemma decodes_as_mas: "list_all (decodes_as cfg inst) [64..<130]"
  by (simp add: decodes_as_simps)

lemma decodes_as_fd: "list_all (decodes_as cfg inst) [130..<192]"
  by (simp add: decodes_as_simps)

lemma decodes_as_q: "list_all (decodes_as cfg inst) [192..<226]"
  by (simp add: decodes_as_simps)

lemma decodes_as_c:
  "list_all (decodes_as cfg inst)
     ([226..<234] @ [235, 236, 237] @ [239..<256] @ 257 # [260..<268])"
  by (simp add: decodes_as_simps)

text \<open>Five compressed opcodes have fixed bits that a more specific opcode refines.\<close>

lemma decodes_as_shadowed:
  "\<not> agrees rv_op_c_nop inst \<Longrightarrow> decodes_as cfg inst rv_op_c_addi"
  "\<not> agrees rv_op_c_addi16sp inst \<Longrightarrow> decodes_as cfg inst rv_op_c_lui"
  "\<not> agrees rv_op_c_jr inst \<Longrightarrow> decodes_as cfg inst rv_op_c_mv"
  "\<not> agrees rv_op_c_ebreak inst \<Longrightarrow> decodes_as cfg inst rv_op_c_jalr"
  "\<not> agrees rv_op_c_ebreak inst \<Longrightarrow> \<not> agrees rv_op_c_jalr inst \<Longrightarrow> decodes_as cfg inst rv_op_c_add"
  by (simp_all add: decodes_as_simps) blast+

lemma refines_compressed:
  "refines rv_op_c_nop rv_op_c_addi" "refines rv_op_c_addi16sp rv_op_c_lui"
  "refines rv_op_c_jr rv_op_c_mv" "refines rv_op_c_ebreak rv_op_c_jalr"
  "refines rv_op_c_ebreak rv_op_c_add" "refines rv_op_c_jalr rv_op_c_add"
  by (simp_all add: refines_def rv_inst_match_def rv_inst_mask_def)

lemma decodes_as_unshadowed:
  assumes "opc < 268" and "opc \<noteq> 0" and "opc \<notin> {234, 238, 256, 258, 259}"
  shows "decodes_as cfg inst opc"
proof -
  have "opc = 1 \<or> opc \<in> {2..<64} \<or> opc \<in> {64..<130} \<or> opc \<in> {130..<192} \<or>
      opc \<in> {192..<226} \<or> opc \<in> {226..<268}"
    using assms(1,2) by simp arith
  moreover have "opc \<in> {226..<268} \<Longrightarrow>
      opc \<in> set ([226..<234] @ [235, 236, 237] @ [239..<256] @ 257 # [260..<268])"
    using assms(3) unfolding set_upt set_append list.set insert_iff Un_iff atLeastLessThan_iff empty_iff
    by linarith
  ultimately show ?thesis
    using decodes_as_base decodes_as_mas decodes_as_fd decodes_as_q decodes_as_c
    unfolding list_all_iff set_upt by blast
qed

lemma op_enabled_less: "op_enabled cfg opc \<Longrightarrow> opc < 268 \<and> opc \<noteq> 0"
  by (rule ccontr) (simp add: op_enabled_def split: if_splits)

lemma decode_inst_op_complete:
  assumes "op_enabled cfg opc" and "agrees opc inst"
    and "\<And>opd. op_enabled cfg opd \<Longrightarrow> refines opd opc \<Longrightarrow> \<not> agrees opd inst"
  shows "decode_inst_op cfg inst = opc"
proof (cases "opc \<in> {234, 238, 256, 258, 259}")
  case True
  then have "rvc cfg" using assms(1) by (auto simp: op_enabled_def)
  then have "\<not> agrees opd inst"
    if "refines opd opc" and "opd \<in> {rv_op_c_nop, rv_op_c_addi16sp, rv_op_c_jr, rv_op_c_ebreak, rv_op_c_jalr}"
    for opd using that assms(3) by (auto simp: op_enabled_def)
  then have "decodes_as cfg inst opc"
    using True refines_compressed decodes_as_shadowed [of inst cfg] by auto
  then show ?thesis using assms(1,2) by (simp add: decodes_as_def)
next
  case False
  then show ?thesis
    using decodes_as_unshadowed [of opc cfg inst] op_enabled_less [OF assms(1)] assms(1,2)
    by (simp add: decodes_as_def)
qed

section \<open>The decoder returns the most specific enabled opcode\<close>

lemma refines_mask_less: "refines a b \<Longrightarrow> unat (rv_inst_mask ! b) < unat (rv_inst_mask ! a)"
  unfolding refines_def using word_and_le1 [of "rv_inst_mask ! b" "rv_inst_mask ! a"]
  by (auto simp: word_less_nat_alt [symmetric] order_le_less)
lemma refines_trans:
  assumes ab: "refines a b" and bc: "refines b c"
  shows "refines a c"
  unfolding refines_def
proof (intro conjI)
  let ?M = "\<lambda>q. rv_inst_mask ! q"
  show "?M a \<noteq> ?M c" using refines_mask_less [OF ab] refines_mask_less [OF bc] by auto
  have m: "?M b AND ?M a = ?M b" "?M c AND ?M b = ?M c"
    "rv_inst_match ! a AND ?M b = rv_inst_match ! b" "rv_inst_match ! b AND ?M c = rv_inst_match ! c"
    using ab bc by (simp_all add: refines_def)
  show "?M c AND ?M a = ?M c"
    using arg_cong [OF m(1), of "\<lambda>w. ?M c AND w"] m(2) by (simp add: and.assoc [symmetric])
  have "rv_inst_match ! a AND ?M c = rv_inst_match ! a AND (?M b AND ?M c)"
    using m(2) by (simp add: and.commute)
  also have "\<dots> = rv_inst_match ! c" using m(3,4) by (simp add: and.assoc [symmetric])
  finally show "rv_inst_match ! a AND ?M c = rv_inst_match ! c" .
qed

text \<open>Among the enabled opcodes that agree with a word there is one that no other refines.\<close>

lemma most_specific_opcode:
  assumes "P opc" and "\<And>q. P q \<Longrightarrow> op_enabled cfg q \<and> agrees q inst"
    and "\<And>q p. P p \<Longrightarrow> op_enabled cfg q \<Longrightarrow> agrees q inst \<Longrightarrow> refines q p \<Longrightarrow> P q"
  obtains q where "P q" and "decode_inst_op cfg inst = q"
proof -
  have "\<forall>q. P q \<longrightarrow> unat (rv_inst_mask ! q) < 2 ^ 64"
    using unsigned_less [where 'b = 64 and 'a = nat] by simp
  then obtain q where q: "P q" "\<And>p. P p \<Longrightarrow> unat (rv_inst_mask ! p) \<le> unat (rv_inst_mask ! q)"
    using ex_has_greatest_nat [of P opc "\<lambda>q. unat (rv_inst_mask ! q)" "2 ^ 64"] assms(1) by auto
  have "decode_inst_op cfg inst = q"
  proof (rule decode_inst_op_complete)
    fix opd assume "op_enabled cfg opd" and "refines opd q"
    then show "\<not> agrees opd inst"
      using assms(3) [OF q(1)] q(2) refines_mask_less by (meson not_less)
  qed (use assms(2) q(1) in auto)
  with q(1) show ?thesis by (rule that)
qed

end
