(* ===== verification/Rv_Format_Laws.thy ===== *)
theory Rv_Format_Laws
  imports Rv_Formats
begin

text \<open>
  Round trips of the instruction formats: what a format's encoder writes, its decoder reads back.
  The operand ranges a format can express are the predicate \<open>format_ok\<close>; the proofs combine the
  laws of the operand interface with the fact that the operands of a format occupy disjoint bits.
\<close>

section \<open>Operand ranges\<close>

definition reg_ok :: "u8 \<Rightarrow> bool" where
  "reg_ok r \<longleftrightarrow> r < 32"

definition creg_ok :: "u8 \<Rightarrow> bool" where
  "creg_ok r \<longleftrightarrow> 8 \<le> r \<and> r < 16"

text \<open>Immediates of \<open>W\<close> bits that are multiples of \<open>2 ^ k\<close>, signed and unsigned.\<close>

definition simm_range :: "nat \<Rightarrow> nat \<Rightarrow> s32 \<Rightarrow> bool" where
  "simm_range W k imm \<longleftrightarrow> - (2 ^ (W - 1)) \<le> sint imm \<and> sint imm < 2 ^ (W - 1) \<and> 2 ^ k dvd sint imm"

definition uimm_range :: "nat \<Rightarrow> nat \<Rightarrow> s32 \<Rightarrow> bool" where
  "uimm_range W k imm \<longleftrightarrow> 0 \<le> sint imm \<and> sint imm < 2 ^ W \<and> 2 ^ k dvd sint imm"

lemma ucast_scast_32 [simp]: "ucast (scast (x :: s32) :: u64) = x"
  by (rule bit_word_eqI) (auto simp: bit_simps)

lemma ucast_ucast_8 [simp]: "ucast (ucast (x :: u8) :: u64) = x"
  by (rule bit_word_eqI) (auto simp: bit_simps)

lemma ucast_ucast_small [simp]:
  "ucast (ucast (a :: 3 word) :: u64) = a" "ucast (ucast (b :: 1 word) :: u64) = b"
  "ucast (ucast (c :: 4 word) :: u64) = c"
  by (rule bit_word_eqI; auto simp: bit_simps)+

lemma ucast_mask_small [simp]:
  "(ucast (a :: 3 word) :: u64) AND 7 = ucast a" "(ucast (b :: 1 word) :: u64) AND 1 = ucast b"
  "(ucast (c :: 4 word) :: u64) AND 0xf = ucast c"
proof -
  have "(ucast a :: u64) AND mask 3 = ucast a"
    by (rule bit_word_eqI) (auto simp: bit_simps dest: bit_imp_le_length)
  moreover have "(ucast b :: u64) AND mask 1 = ucast b"
    by (rule bit_word_eqI) (auto simp: bit_simps dest: bit_imp_le_length)
  moreover have "(ucast c :: u64) AND mask 4 = ucast c"
    by (rule bit_word_eqI) (auto simp: bit_simps dest: bit_imp_le_length)
  ultimately show "(ucast a :: u64) AND 7 = ucast a" "(ucast b :: u64) AND 1 = ucast b"
    "(ucast c :: u64) AND 0xf = ucast c"
    by (simp_all add: mask_eq_exp_minus_1)
qed

lemma reg_ok_mask [simp]:
  assumes "reg_ok r" shows "(ucast r :: u64) AND 0x1f = ucast r"
proof -
  have "i < 5" if "bit r i" for i
    using assms that by (intro less_numeral_bit [of r 32 5 i]) (simp_all add: reg_ok_def)
  then have "(ucast r :: u64) AND mask 5 = ucast r"
    by (intro bit_word_eqI) (auto simp: bit_simps)
  then show ?thesis by (simp add: mask_eq_exp_minus_1)
qed

lemma creg_ok_cases:
  assumes "creg_ok r"
  shows "r = 8 \<or> r = 9 \<or> r = 10 \<or> r = 11 \<or> r = 12 \<or> r = 13 \<or> r = 14 \<or> r = 15"
proof -
  have "8 \<le> unat r" "unat r < 16"
    using assms by (auto simp: creg_ok_def word_le_nat_alt word_less_nat_alt)
  then show ?thesis by (simp add: word_unat_eq_iff, arith)
qed

lemma creg_ok_round [simp]:
  assumes "creg_ok r" shows "ucast ((((ucast r :: u64) + 8) AND 7) + 8) = r"
  using creg_ok_cases [OF assms] by (elim disjE) simp_all

lemma dvd_sint_bits:
  fixes x :: "'a::len word"
  assumes "2 ^ k dvd sint x" and "i < k" and "i < LENGTH('a)"
  shows "\<not> bit x i"
proof -
  have "take_bit k (sint x) = 0"
    using assms(1) by (simp add: take_bit_eq_mod)
  then have "\<not> bit (sint x) i"
    using assms(2) by (metis bit_0_eq bit_take_bit_iff bot_apply bot_bool_def)
  then show ?thesis
    using assms(3) by (auto simp: bit_sint_iff dest: bit_imp_le_length)
qed

lemma sint_scast_64 [simp]: "sint (scast (x :: s32) :: u64) = sint x"
  by (rule sint_up_scast) (simp add: is_up)

lemma simm_range_fits:
  assumes "simm_range W k imm" and "k < W" and "W \<le> 64"
    and "vmask = push_bit k (mask (W - k))"
  shows "sign_extend W (scast imm AND vmask) = scast imm"
proof -
  let ?y = "scast imm :: u64"
  have low: "\<not> bit ?y j" if "j < k" for j
    using assms that dvd_sint_bits [of k ?y j] by (auto simp: simm_range_def)
  have "signed_take_bit (W - 1) (?y AND vmask) = signed_take_bit (W - 1) ?y"
  proof (rule bit_word_eqI)
    fix i assume "i < LENGTH(64)"
    moreover have "bit vmask (min (W - 1) i)" if "bit ?y (min (W - 1) i)"
    proof -
      have "k \<le> min (W - 1) i" using low that by (meson not_le)
      moreover have "min (W - 1) i < W" "min (W - 1) i < 64" using assms(2,3) by auto
      ultimately show ?thesis by (auto simp: assms(4) bit_simps)
    qed
    ultimately show "bit (signed_take_bit (W - 1) (?y AND vmask)) i = bit (signed_take_bit (W - 1) ?y) i"
      by (auto simp only: bit_signed_take_bit_iff bit_and_iff)
  qed
  also have "\<dots> = ?y"
    using assms(1) by (intro signed_take_bit_word_eq) (auto simp: simm_range_def)
  finally show ?thesis by (simp add: sign_extend_def)
qed

lemma uimm_range_fits:
  assumes "uimm_range W k imm" and "k \<le> W" and "W \<le> 31"
    and "vmask = push_bit k (mask (W - k))"
  shows "(scast imm :: u64) AND vmask = scast imm"
proof (rule bit_word_eqI)
  let ?y = "scast imm :: u64"
  fix i assume i: "i < LENGTH(64)"
  have "\<not> bit ?y j" if "j < k" for j
    using assms that dvd_sint_bits [of k ?y j] by (auto simp: uimm_range_def)
  moreover have "\<not> bit ?y j" if "W \<le> j" "j < 64" for j
  proof -
    have "take_bit W (sint imm) = sint imm"
      using assms(1) by (simp add: uimm_range_def take_bit_int_eq_self)
    then have "\<not> bit (sint ?y) j"
      using that by (metis bit_take_bit_iff not_le sint_scast_64)
    then show ?thesis using that bit_sint_iff [of ?y j] by (simp del: sint_scast_64)
  qed
  ultimately have "k \<le> i \<and> i < W" if "bit ?y i"
    using that i by (metis bit_word_less_64 not_le)
  then show "bit (?y AND vmask) i = bit ?y i"
    using assms(2-4) i by (auto simp: bit_and_iff bit_push_bit_iff bit_mask_iff)
qed

lemma simm_range_masks [rv_codec_simps]:
  "simm_range 32 12 imm \<Longrightarrow> sign_extend 32 (scast imm AND 0xfffff000) = scast imm"
  "simm_range 21 1 imm \<Longrightarrow> sign_extend 21 (scast imm AND 0x1ffffe) = scast imm"
  "simm_range 13 1 imm \<Longrightarrow> sign_extend 13 (scast imm AND 0x1ffe) = scast imm"
  "simm_range 12 0 imm \<Longrightarrow> sign_extend 12 (scast imm AND 0xfff) = scast imm"
  "simm_range 12 1 imm \<Longrightarrow> sign_extend 12 (scast imm AND 0xffe) = scast imm"
  "simm_range 9 1 imm \<Longrightarrow> sign_extend 9 (scast imm AND 0x1fe) = scast imm"
  "simm_range 6 0 imm \<Longrightarrow> sign_extend 6 (scast imm AND 0x3f) = scast imm"
  "simm_range 10 4 imm \<Longrightarrow> sign_extend 10 (scast imm AND 0x3f0) = scast imm"
  "simm_range 18 12 imm \<Longrightarrow> sign_extend 18 (scast imm AND 0x3f000) = scast imm"
  by - (erule simm_range_fits; simp add: mask_eq_exp_minus_1)+

lemma uimm_range_masks [rv_codec_simps]:
  "uimm_range 5 0 imm \<Longrightarrow> (scast imm :: u64) AND 0x1f = scast imm"
  "uimm_range 6 0 imm \<Longrightarrow> (scast imm :: u64) AND 0x3f = scast imm"
  "uimm_range 7 0 imm \<Longrightarrow> (scast imm :: u64) AND 0x7f = scast imm"
  "uimm_range 12 0 imm \<Longrightarrow> (scast imm :: u64) AND 0xfff = scast imm"
  "uimm_range 8 2 imm \<Longrightarrow> (scast imm :: u64) AND 0xfc = scast imm"
  "uimm_range 9 3 imm \<Longrightarrow> (scast imm :: u64) AND 0x1f8 = scast imm"
  "uimm_range 10 4 imm \<Longrightarrow> (scast imm :: u64) AND 0x3f0 = scast imm"
  "uimm_range 10 2 imm \<Longrightarrow> (scast imm :: u64) AND 0x3fc = scast imm"
  "uimm_range 7 2 imm \<Longrightarrow> (scast imm :: u64) AND 0x7c = scast imm"
  "uimm_range 8 3 imm \<Longrightarrow> (scast imm :: u64) AND 0xf8 = scast imm"
  "uimm_range 9 4 imm \<Longrightarrow> (scast imm :: u64) AND 0x1f0 = scast imm"
  by - (erule uimm_range_fits; simp add: mask_eq_exp_minus_1)+

section \<open>What a format can express\<close>

primrec format_ok :: "rv_codec \<Rightarrow> decode \<Rightarrow> bool" where
  "format_ok rv_codec_illegal d \<longleftrightarrow> False"
| "format_ok rv_codec_none d \<longleftrightarrow>
     dec_rd d = 0 \<and> dec_rs1 d = 0 \<and> dec_rs2 d = 0 \<and> dec_imm d = 0"
| "format_ok rv_codec_u d \<longleftrightarrow>
     reg_ok (dec_rd d) \<and> dec_rs1 d = 0 \<and> dec_rs2 d = 0 \<and> simm_range 32 12 (dec_imm d)"
| "format_ok rv_codec_uj d \<longleftrightarrow>
     reg_ok (dec_rd d) \<and> dec_rs1 d = 0 \<and> dec_rs2 d = 0 \<and> simm_range 21 1 (dec_imm d)"
| "format_ok rv_codec_i d \<longleftrightarrow>
     reg_ok (dec_rd d) \<and> reg_ok (dec_rs1 d) \<and> dec_rs2 d = 0 \<and> simm_range 12 0 (dec_imm d)"
| "format_ok rv_codec_i_sh5 d \<longleftrightarrow>
     reg_ok (dec_rd d) \<and> reg_ok (dec_rs1 d) \<and> dec_rs2 d = 0 \<and> uimm_range 5 0 (dec_imm d)"
| "format_ok rv_codec_i_sh6 d \<longleftrightarrow>
     reg_ok (dec_rd d) \<and> reg_ok (dec_rs1 d) \<and> dec_rs2 d = 0 \<and> uimm_range 6 0 (dec_imm d)"
| "format_ok rv_codec_i_sh7 d \<longleftrightarrow>
     reg_ok (dec_rd d) \<and> reg_ok (dec_rs1 d) \<and> dec_rs2 d = 0 \<and> uimm_range 7 0 (dec_imm d)"
| "format_ok rv_codec_i_csr d \<longleftrightarrow>
     reg_ok (dec_rd d) \<and> reg_ok (dec_rs1 d) \<and> dec_rs2 d = 0 \<and> uimm_range 12 0 (dec_imm d)"
| "format_ok rv_codec_s d \<longleftrightarrow>
     dec_rd d = 0 \<and> reg_ok (dec_rs1 d) \<and> reg_ok (dec_rs2 d) \<and> simm_range 12 0 (dec_imm d)"
| "format_ok rv_codec_sb d \<longleftrightarrow>
     dec_rd d = 0 \<and> reg_ok (dec_rs1 d) \<and> reg_ok (dec_rs2 d) \<and> simm_range 13 1 (dec_imm d)"
| "format_ok rv_codec_r d \<longleftrightarrow>
     reg_ok (dec_rd d) \<and> reg_ok (dec_rs1 d) \<and> reg_ok (dec_rs2 d) \<and> dec_imm d = 0"
| "format_ok rv_codec_r_m d \<longleftrightarrow>
     reg_ok (dec_rd d) \<and> reg_ok (dec_rs1 d) \<and> reg_ok (dec_rs2 d) \<and> dec_imm d = 0"
| "format_ok rv_codec_r4_m d \<longleftrightarrow>
     reg_ok (dec_rd d) \<and> reg_ok (dec_rs1 d) \<and> reg_ok (dec_rs2 d) \<and> reg_ok (dec_rs3 d) \<and> dec_imm d = 0"
| "format_ok rv_codec_r_a d \<longleftrightarrow>
     reg_ok (dec_rd d) \<and> reg_ok (dec_rs1 d) \<and> reg_ok (dec_rs2 d) \<and> dec_imm d = 0"
| "format_ok rv_codec_r_l d \<longleftrightarrow>
     reg_ok (dec_rd d) \<and> reg_ok (dec_rs1 d) \<and> dec_rs2 d = 0 \<and> dec_imm d = 0"
| "format_ok rv_codec_r_f d \<longleftrightarrow>
     dec_rd d = 0 \<and> dec_rs1 d = 0 \<and> dec_rs2 d = 0 \<and> dec_imm d = 0"
| "format_ok rv_codec_cb d \<longleftrightarrow>
     dec_rd d = 0 \<and> creg_ok (dec_rs1 d) \<and> dec_rs2 d = 0 \<and> simm_range 9 1 (dec_imm d)"
| "format_ok rv_codec_cb_imm d \<longleftrightarrow>
     dec_rd d = dec_rs1 d \<and> creg_ok (dec_rs1 d) \<and> dec_rs2 d = 0 \<and> simm_range 6 0 (dec_imm d)"
| "format_ok rv_codec_cb_sh5 d \<longleftrightarrow>
     dec_rd d = dec_rs1 d \<and> creg_ok (dec_rs1 d) \<and> dec_rs2 d = 0 \<and> uimm_range 5 0 (dec_imm d)"
| "format_ok rv_codec_cb_sh6 d \<longleftrightarrow>
     dec_rd d = dec_rs1 d \<and> creg_ok (dec_rs1 d) \<and> dec_rs2 d = 0 \<and> uimm_range 6 0 (dec_imm d)"
| "format_ok rv_codec_ci d \<longleftrightarrow>
     dec_rd d = dec_rs1 d \<and> reg_ok (dec_rs1 d) \<and> dec_rs2 d = 0 \<and> simm_range 6 0 (dec_imm d)"
| "format_ok rv_codec_ci_sh5 d \<longleftrightarrow>
     dec_rd d = dec_rs1 d \<and> reg_ok (dec_rs1 d) \<and> dec_rs2 d = 0 \<and> uimm_range 5 0 (dec_imm d)"
| "format_ok rv_codec_ci_sh6 d \<longleftrightarrow>
     dec_rd d = dec_rs1 d \<and> reg_ok (dec_rs1 d) \<and> dec_rs2 d = 0 \<and> uimm_range 6 0 (dec_imm d)"
| "format_ok rv_codec_ci_16sp d \<longleftrightarrow>
     dec_rd d = 2 \<and> dec_rs1 d = 2 \<and> dec_rs2 d = 0 \<and> simm_range 10 4 (dec_imm d)"
| "format_ok rv_codec_ci_lwsp d \<longleftrightarrow>
     reg_ok (dec_rd d) \<and> dec_rs1 d = 2 \<and> dec_rs2 d = 0 \<and> uimm_range 8 2 (dec_imm d)"
| "format_ok rv_codec_ci_ldsp d \<longleftrightarrow>
     reg_ok (dec_rd d) \<and> dec_rs1 d = 2 \<and> dec_rs2 d = 0 \<and> uimm_range 9 3 (dec_imm d)"
| "format_ok rv_codec_ci_lqsp d \<longleftrightarrow>
     reg_ok (dec_rd d) \<and> dec_rs1 d = 2 \<and> dec_rs2 d = 0 \<and> uimm_range 10 4 (dec_imm d)"
| "format_ok rv_codec_ci_li d \<longleftrightarrow>
     reg_ok (dec_rd d) \<and> dec_rs1 d = 0 \<and> dec_rs2 d = 0 \<and> simm_range 6 0 (dec_imm d)"
| "format_ok rv_codec_ci_lui d \<longleftrightarrow>
     reg_ok (dec_rd d) \<and> dec_rs1 d = 0 \<and> dec_rs2 d = 0 \<and> simm_range 18 12 (dec_imm d)"
| "format_ok rv_codec_ci_none d \<longleftrightarrow>
     dec_rd d = 0 \<and> dec_rs1 d = 0 \<and> dec_rs2 d = 0 \<and> dec_imm d = 0"
| "format_ok rv_codec_ciw_4spn d \<longleftrightarrow>
     creg_ok (dec_rd d) \<and> dec_rs1 d = 2 \<and> dec_rs2 d = 0 \<and> uimm_range 10 2 (dec_imm d)"
| "format_ok rv_codec_cj d \<longleftrightarrow>
     dec_rd d = 0 \<and> dec_rs1 d = 0 \<and> dec_rs2 d = 0 \<and> simm_range 12 1 (dec_imm d)"
| "format_ok rv_codec_cj_jal d \<longleftrightarrow>
     dec_rd d = 1 \<and> dec_rs1 d = 0 \<and> dec_rs2 d = 0 \<and> simm_range 12 1 (dec_imm d)"
| "format_ok rv_codec_cl_lw d \<longleftrightarrow>
     creg_ok (dec_rd d) \<and> creg_ok (dec_rs1 d) \<and> dec_rs2 d = 0 \<and> uimm_range 7 2 (dec_imm d)"
| "format_ok rv_codec_cl_ld d \<longleftrightarrow>
     creg_ok (dec_rd d) \<and> creg_ok (dec_rs1 d) \<and> dec_rs2 d = 0 \<and> uimm_range 8 3 (dec_imm d)"
| "format_ok rv_codec_cl_lq d \<longleftrightarrow>
     creg_ok (dec_rd d) \<and> creg_ok (dec_rs1 d) \<and> dec_rs2 d = 0 \<and> uimm_range 9 4 (dec_imm d)"
| "format_ok rv_codec_cr d \<longleftrightarrow>
     dec_rd d = dec_rs1 d \<and> reg_ok (dec_rs1 d) \<and> reg_ok (dec_rs2 d) \<and> dec_imm d = 0"
| "format_ok rv_codec_cr_mv d \<longleftrightarrow>
     reg_ok (dec_rd d) \<and> reg_ok (dec_rs1 d) \<and> dec_rs2 d = 0 \<and> dec_imm d = 0"
| "format_ok rv_codec_cr_jalr d \<longleftrightarrow>
     dec_rd d = 1 \<and> reg_ok (dec_rs1 d) \<and> dec_rs2 d = 0 \<and> dec_imm d = 0"
| "format_ok rv_codec_cr_jr d \<longleftrightarrow>
     dec_rd d = 0 \<and> reg_ok (dec_rs1 d) \<and> dec_rs2 d = 0 \<and> dec_imm d = 0"
| "format_ok rv_codec_cs d \<longleftrightarrow>
     dec_rd d = dec_rs1 d \<and> creg_ok (dec_rs1 d) \<and> creg_ok (dec_rs2 d) \<and> dec_imm d = 0"
| "format_ok rv_codec_cs_sw d \<longleftrightarrow>
     dec_rd d = 0 \<and> creg_ok (dec_rs1 d) \<and> creg_ok (dec_rs2 d) \<and> uimm_range 7 2 (dec_imm d)"
| "format_ok rv_codec_cs_sd d \<longleftrightarrow>
     dec_rd d = 0 \<and> creg_ok (dec_rs1 d) \<and> creg_ok (dec_rs2 d) \<and> uimm_range 8 3 (dec_imm d)"
| "format_ok rv_codec_cs_sq d \<longleftrightarrow>
     dec_rd d = 0 \<and> creg_ok (dec_rs1 d) \<and> creg_ok (dec_rs2 d) \<and> uimm_range 9 4 (dec_imm d)"
| "format_ok rv_codec_css_swsp d \<longleftrightarrow>
     dec_rd d = 0 \<and> dec_rs1 d = 2 \<and> reg_ok (dec_rs2 d) \<and> uimm_range 8 2 (dec_imm d)"
| "format_ok rv_codec_css_sdsp d \<longleftrightarrow>
     dec_rd d = 0 \<and> dec_rs1 d = 2 \<and> reg_ok (dec_rs2 d) \<and> uimm_range 9 3 (dec_imm d)"
| "format_ok rv_codec_css_sqsp d \<longleftrightarrow>
     dec_rd d = 0 \<and> dec_rs1 d = 2 \<and> reg_ok (dec_rs2 d) \<and> uimm_range 10 4 (dec_imm d)"

text \<open>The fields a format carries; the four common ones are written by every decoder.\<close>

definition same_operands :: "rv_codec \<Rightarrow> decode \<Rightarrow> decode \<Rightarrow> bool" where
  "same_operands c d e \<longleftrightarrow>
     dec_imm d = dec_imm e \<and> dec_rd d = dec_rd e \<and> dec_rs1 d = dec_rs1 e \<and> dec_rs2 d = dec_rs2 e \<and>
     (if c = rv_codec_r4_m then dec_rs3 d = dec_rs3 e else True) \<and>
     (if c = rv_codec_r_m \<or> c = rv_codec_r4_m then dec_rm d = dec_rm e else True) \<and>
     (if c = rv_codec_r_a \<or> c = rv_codec_r_l then dec_aq d = dec_aq e \<and> dec_rl d = dec_rl e else True) \<and>
     (if c = rv_codec_r_f then dec_pred d = dec_pred e \<and> dec_succ d = dec_succ e else True)"

text \<open>The instruction bits a format's operands occupy.\<close>

primrec format_mask :: "rv_codec \<Rightarrow> inst_t" where
  "format_mask rv_codec_illegal = 0"
| "format_mask rv_codec_none = 0"
| "format_mask rv_codec_u = 0xffffff80"
| "format_mask rv_codec_uj = 0xffffff80"
| "format_mask rv_codec_i = 0xffff8f80"
| "format_mask rv_codec_i_sh5 = 0x1ff8f80"
| "format_mask rv_codec_i_sh6 = 0x3ff8f80"
| "format_mask rv_codec_i_sh7 = 0x7ff8f80"
| "format_mask rv_codec_i_csr = 0xffff8f80"
| "format_mask rv_codec_s = 0xffff8f80"
| "format_mask rv_codec_sb = 0xffff8f80"
| "format_mask rv_codec_r = 0x1ff8f80"
| "format_mask rv_codec_r_m = 0x1ffff80"
| "format_mask rv_codec_r4_m = 0xf9ffff80"
| "format_mask rv_codec_r_a = 0x7ff8f80"
| "format_mask rv_codec_r_l = 0x60f8f80"
| "format_mask rv_codec_r_f = 0xff00000"
| "format_mask rv_codec_cb = 0x1ffc"
| "format_mask rv_codec_cb_imm = 0x13fc"
| "format_mask rv_codec_cb_sh5 = 0x3fc"
| "format_mask rv_codec_cb_sh6 = 0x13fc"
| "format_mask rv_codec_ci = 0x1ffc"
| "format_mask rv_codec_ci_sh5 = 0xffc"
| "format_mask rv_codec_ci_sh6 = 0x1ffc"
| "format_mask rv_codec_ci_16sp = 0x107c"
| "format_mask rv_codec_ci_lwsp = 0x1ffc"
| "format_mask rv_codec_ci_ldsp = 0x1ffc"
| "format_mask rv_codec_ci_lqsp = 0x1ffc"
| "format_mask rv_codec_ci_li = 0x1ffc"
| "format_mask rv_codec_ci_lui = 0x1ffc"
| "format_mask rv_codec_ci_none = 0"
| "format_mask rv_codec_ciw_4spn = 0x1ffc"
| "format_mask rv_codec_cj = 0x1ffc"
| "format_mask rv_codec_cj_jal = 0x1ffc"
| "format_mask rv_codec_cl_lw = 0x1ffc"
| "format_mask rv_codec_cl_ld = 0x1ffc"
| "format_mask rv_codec_cl_lq = 0x1ffc"
| "format_mask rv_codec_cr = 0xffc"
| "format_mask rv_codec_cr_mv = 0xffc"
| "format_mask rv_codec_cr_jalr = 0xf80"
| "format_mask rv_codec_cr_jr = 0xf80"
| "format_mask rv_codec_cs = 0x39c"
| "format_mask rv_codec_cs_sw = 0x1ffc"
| "format_mask rv_codec_cs_sd = 0x1ffc"
| "format_mask rv_codec_cs_sq = 0x1ffc"
| "format_mask rv_codec_css_swsp = 0x1ffc"
| "format_mask rv_codec_css_sdsp = 0x1ffc"
| "format_mask rv_codec_css_sqsp = 0x1ffc"

section \<open>Round trip of the formats\<close>

text \<open>The operand laws in the form in which the formats use them.\<close>

lemma layoutI [simp]: "wf_operand segs \<Longrightarrow> operand_layout segs"
  by (rule operand_layout.intro)

lemma decode_raw_or [rv_codec_simps]:
  "wf_operand segs \<Longrightarrow>
    imm_operand_decode segs (y OR z) = imm_operand_decode segs y OR imm_operand_decode segs z"
  by (rule operand_layout.decode_or) simp

lemma decode_raw_same [rv_codec_simps]:
  "wf_operand segs \<Longrightarrow> imm_operand_decode segs (imm_operand_encode segs x) = x AND value_mask segs"
  by (rule operand_layout.decode_encode) simp

lemma decode_raw_other [rv_codec_simps]:
  "wf_operand segs \<Longrightarrow> wf_operand segs' \<Longrightarrow> field_mask segs AND field_mask segs' = 0 \<Longrightarrow>
    imm_operand_decode segs (imm_operand_encode segs' x) = 0"
  by (rule operand_layout.decode_other) simp_all

lemma decode_raw_match:
  "m AND M = 0 \<Longrightarrow> wf_operand segs \<Longrightarrow> field_mask segs AND M = field_mask segs \<Longrightarrow>
    imm_operand_decode segs m = 0"
  by (rule operand_layout.decode_outside) simp_all

lemma format_roundtrip:
  assumes ok: "format_ok c d" and cs: "c \<noteq> rv_codec_cs" and m: "m AND format_mask c = 0"
  shows "\<exists>bits. encode_inst_type c d = Some bits \<and>
    same_operands c (decode_inst_codec c d0 (m OR bits)) d"
proof -
  note mm = decode_raw_match [OF m]
  show ?thesis using ok cs mm
    by (cases c) (simp_all add: decode_inst_codec_def encode_inst_type_def
        decode_format_defs encode_format_defs assert_then_def same_operands_def rv_codec_simps)
qed

section \<open>Reassembly: encoding what was decoded\<close>

lemma encode_raw_decode:
  assumes "wf_operand segs" and "y AND value_mask segs = imm_operand_decode segs inst"
  shows "imm_operand_encode segs y = inst AND field_mask segs"
proof -
  have l: "operand_layout segs" using assms(1) by simp
  have "imm_operand_encode segs y = imm_operand_encode segs y AND field_mask segs"
    by (simp add: operand_layout.encode_field [OF l])
  also have "\<dots> = imm_operand_encode segs (imm_operand_decode segs (imm_operand_encode segs y))"
    by (simp add: operand_layout.encode_decode [OF l])
  also have "\<dots> = imm_operand_encode segs (imm_operand_decode segs inst)"
    by (simp add: operand_layout.decode_encode [OF l] assms(2))
  also have "\<dots> = inst AND field_mask segs"
    by (rule operand_layout.encode_decode [OF l])
  finally show ?thesis .
qed

lemma decode_raw_value_mask:
  assumes "wf_operand segs"
  shows "imm_operand_decode segs inst AND value_mask segs = imm_operand_decode segs inst"
  by (rule bit_word_eqI)
    (auto simp: bit_operand_decode [OF assms] bit_value_mask [OF assms] bit_and_iff)

lemma encode_raw_fits:
  assumes wf: "wf_operand segs" and "take_bit W (value_mask segs) = value_mask segs"
    and y: "take_bit W y = take_bit W (imm_operand_decode segs inst)"
  shows "imm_operand_encode segs y = inst AND field_mask segs"
proof (rule encode_raw_decode [OF wf], rule bit_word_eqI)
  fix n :: nat
  have "bit y n \<longleftrightarrow> bit (imm_operand_decode segs inst) n" if "bit (value_mask segs) n"
    using that assms(2) y by (metis bit_take_bit_iff)
  then show "bit (y AND value_mask segs) n \<longleftrightarrow> bit (imm_operand_decode segs inst) n"
    using decode_raw_value_mask [OF wf, of inst] by (metis bit_and_iff)
qed

lemma take_bit_3_add_8: "take_bit 3 (x + 8) = take_bit 3 (x :: u64)"
  by transfer (simp add: take_bit_eq_mod mod_mod_cancel)
lemma take_bit_ucast_ucast:
  "take_bit LENGTH('a) (ucast (ucast (x :: u64) :: 'a::len word)) = take_bit LENGTH('a) x"
  by (rule bit_word_eqI) (auto simp: bit_simps)

lemma take_bit_decoded:
  fixes x :: u64
  shows
  "take_bit 8 (ucast (ucast x :: u8)) = take_bit 8 x"
  "take_bit 3 (ucast (ucast x :: 3 word)) = take_bit 3 x"
  "take_bit 4 (ucast (ucast x :: 4 word)) = take_bit 4 x"
  "take_bit 1 (ucast (ucast x :: 1 word)) = take_bit 1 x"
  "take_bit 3 (ucast (ucast (x + 8) :: u8) + 8) = take_bit 3 x"
  "take_bit 32 (scast (ucast x :: s32)) = take_bit 32 x"
  "0 < W \<Longrightarrow> W \<le> 32 \<Longrightarrow> take_bit W (scast (ucast (sign_extend W x) :: s32)) = take_bit W x"
proof -
  have "take_bit 3 (ucast (ucast (x + 8) :: u8) :: u64) = take_bit 3 (x + 8)"
    by (rule bit_word_eqI) (auto simp: bit_simps)
  then show "take_bit 3 (ucast (ucast (x + 8) :: u8) + 8) = take_bit 3 x"
    by (simp add: take_bit_3_add_8)
  show "take_bit 1 (ucast (ucast x :: 1 word)) = take_bit 1 x"
    using take_bit_ucast_ucast [where 'a = 1 and x = x] by (simp only: len_num1 One_nat_def)
  have low: "take_bit W (scast (y :: s32) :: u64) = take_bit W (ucast y)" if "W \<le> 32" for W y
  proof (rule bit_word_eqI)
    fix n
    have "n < W \<Longrightarrow> n = 31 \<or> n < 31" using that by auto
    then show "bit (take_bit W (scast y :: u64)) n = bit (take_bit W (ucast y :: u64)) n"
      by (auto simp: bit_simps)
  qed
  have ext: "take_bit W (ucast (ucast (sign_extend W x) :: s32) :: u64) = take_bit W x"
    if "0 < W" "W \<le> 32"
  proof (rule bit_word_eqI)
    fix n
    have "n < W \<Longrightarrow> min (W - 1) n = n" by auto
    then show "bit (take_bit W (ucast (ucast (sign_extend W x) :: s32) :: u64)) n = bit (take_bit W x) n"
      using that by (auto simp: bit_simps sign_extend_def)
  qed
  then show "0 < W \<Longrightarrow> W \<le> 32 \<Longrightarrow> take_bit W (scast (ucast (sign_extend W x) :: s32)) = take_bit W x"
    by (simp add: low)
  show "take_bit 32 (scast (ucast x :: s32)) = take_bit 32 x"
    using take_bit_ucast_ucast [where 'a = 32 and x = x] by (simp add: low)
qed (rule bit_word_eqI; auto simp: bit_simps)+

lemma encode_raw_again [rv_codec_simps]:
  assumes "wf_operand segs"
  shows
  "take_bit 8 (value_mask segs) = value_mask segs \<Longrightarrow>
    imm_operand_encode segs (ucast (ucast (imm_operand_decode segs inst) :: u8)) = inst AND field_mask segs"
  "take_bit 3 (value_mask segs) = value_mask segs \<Longrightarrow>
    imm_operand_encode segs (ucast (ucast (imm_operand_decode segs inst) :: 3 word)) = inst AND field_mask segs"
  "take_bit 4 (value_mask segs) = value_mask segs \<Longrightarrow>
    imm_operand_encode segs (ucast (ucast (imm_operand_decode segs inst) :: 4 word)) = inst AND field_mask segs"
  "take_bit 1 (value_mask segs) = value_mask segs \<Longrightarrow>
    imm_operand_encode segs (ucast (ucast (imm_operand_decode segs inst) :: 1 word)) = inst AND field_mask segs"
  "take_bit 3 (value_mask segs) = value_mask segs \<Longrightarrow>
    imm_operand_encode segs (ucast (ucast (imm_operand_decode segs inst + 8) :: u8) + 8) = inst AND field_mask segs"
  "take_bit 32 (value_mask segs) = value_mask segs \<Longrightarrow>
    imm_operand_encode segs (scast (ucast (imm_operand_decode segs inst) :: s32)) = inst AND field_mask segs"
  "0 < W \<Longrightarrow> W \<le> 32 \<Longrightarrow> take_bit W (value_mask segs) = value_mask segs \<Longrightarrow>
    imm_operand_encode segs (scast (ucast (sign_extend W (imm_operand_decode segs inst)) :: s32)) = inst AND field_mask segs"
  by - (erule encode_raw_fits [OF assms], simp only: take_bit_decoded)+

lemma format_reassemble:
  assumes "c \<noteq> rv_codec_cs" and "c \<noteq> rv_codec_illegal"
  shows "encode_inst_type c (decode_inst_codec c d0 inst) = Some (inst AND format_mask c)"
  using assms
  by (cases c) (simp_all add: decode_inst_codec_def encode_inst_type_def
        decode_format_defs encode_format_defs assert_then_def rv_codec_simps 
        bit.conj_disj_distrib [symmetric])
end
