(* ===== verification/Rv_Constraints.thy ===== *)
theory Rv_Constraints
  imports Rv_Formats
begin

text \<open>
  Compression and pseudo-instruction metadata of \<^verbatim>\<open>src/src/asm/meta.h\<close> and
  \<^verbatim>\<open>src/src/asm/meta.cc\<close>, and the interpreter of constraint lists of
  \<^verbatim>\<open>src/src/asm/constraints.h\<close>.  The arrays keep their terminators (\<open>rvc_end\<close>, a null
  constraint pointer); the loops walk them, and a walk that leaves an array is the result \<open>None\<close>.
\<close>

section \<open>Constraints\<close>

datatype rvc_constraint =
    rvc_end | rvc_simm_6 | rvc_imm_6 | rvc_imm_7 | rvc_imm_8
  | rvc_imm_9 | rvc_imm_10 | rvc_imm_12 | rvc_imm_18 | rvc_imm_nz
  | rvc_imm_x2 | rvc_imm_x4 | rvc_imm_x8 | rvc_imm_x16 | rvc_rd_b3
  | rvc_rs1_b3 | rvc_rs2_b3 | rvc_rd_eq_rs1 | rvc_rd_eq_ra | rvc_rd_eq_sp
  | rvc_rd_eq_x0 | rvc_rs1_eq_sp | rvc_rs1_eq_x0 | rvc_rs2_eq_x0 | rvc_rd_ne_x0_x2
  | rvc_rd_ne_x0 | rvc_rs1_ne_x0 | rvc_rs2_ne_x0 | rvc_rs2_eq_rs1 | rvc_rs1_eq_ra
  | rvc_imm_eq_zero | rvc_imm_eq_n1 | rvc_imm_eq_p1 | rvc_csr_eq_0x001 | rvc_csr_eq_0x002
  | rvc_csr_eq_0x003 | rvc_csr_eq_0xc00 | rvc_csr_eq_0xc01 | rvc_csr_eq_0xc02 | rvc_csr_eq_0xc80
  | rvc_csr_eq_0xc81 | rvc_csr_eq_0xc82

record rv_comp_data =
  comp_op :: opcode
  comp_constraints :: "rvc_constraint list option"

definition comp_entry :: "opcode \<Rightarrow> rvc_constraint list option \<Rightarrow> rv_comp_data" where
  "comp_entry opc cs = \<lparr>comp_op = opc, comp_constraints = cs\<rparr>"

section \<open>Constraint arrays\<close>

definition rvcc_c_addi4spn :: "rvc_constraint list" where
  "rvcc_c_addi4spn = [rvc_imm_10, rvc_imm_x4, rvc_imm_nz, rvc_rd_b3, rvc_rs1_eq_sp, rvc_end]"

definition rvcc_c_fld :: "rvc_constraint list" where
  "rvcc_c_fld = [rvc_imm_8, rvc_imm_x8, rvc_rd_b3, rvc_rs1_b3, rvc_end]"

definition rvcc_c_lw :: "rvc_constraint list" where
  "rvcc_c_lw = [rvc_imm_7, rvc_imm_x4, rvc_rd_b3, rvc_rs1_b3, rvc_end]"

definition rvcc_c_flw :: "rvc_constraint list" where
  "rvcc_c_flw = [rvc_imm_7, rvc_imm_x4, rvc_rd_b3, rvc_rs1_b3, rvc_end]"

definition rvcc_c_fsd :: "rvc_constraint list" where
  "rvcc_c_fsd = [rvc_imm_8, rvc_imm_x8, rvc_rs1_b3, rvc_rs2_b3, rvc_end]"

definition rvcc_c_sw :: "rvc_constraint list" where
  "rvcc_c_sw = [rvc_imm_7, rvc_imm_x4, rvc_rs1_b3, rvc_rs2_b3, rvc_end]"

definition rvcc_c_fsw :: "rvc_constraint list" where
  "rvcc_c_fsw = [rvc_imm_7, rvc_imm_x4, rvc_rs1_b3, rvc_rs2_b3, rvc_end]"

definition rvcc_c_nop :: "rvc_constraint list" where
  "rvcc_c_nop = [rvc_rd_eq_x0, rvc_rs1_eq_x0, rvc_rs2_eq_x0, rvc_end]"

definition rvcc_c_addi :: "rvc_constraint list" where
  "rvcc_c_addi = [rvc_simm_6, rvc_rd_ne_x0, rvc_rd_eq_rs1, rvc_end]"

definition rvcc_c_jal :: "rvc_constraint list" where
  "rvcc_c_jal = [rvc_imm_12, rvc_imm_x2, rvc_rd_eq_ra, rvc_end]"

definition rvcc_c_li :: "rvc_constraint list" where
  "rvcc_c_li = [rvc_imm_6, rvc_rd_ne_x0, rvc_rs1_eq_x0, rvc_end]"

definition rvcc_c_addi16sp :: "rvc_constraint list" where
  "rvcc_c_addi16sp = [rvc_imm_10, rvc_imm_x4, rvc_imm_nz, rvc_rd_eq_sp, rvc_rs1_eq_sp, rvc_end]"

definition rvcc_c_lui :: "rvc_constraint list" where
  "rvcc_c_lui = [rvc_imm_18, rvc_imm_nz, rvc_rd_ne_x0_x2, rvc_end]"

definition rvcc_c_srli_rv32c :: "rvc_constraint list" where
  "rvcc_c_srli_rv32c = [rvc_imm_nz, rvc_rd_eq_rs1, rvc_rd_b3, rvc_rs1_b3, rvc_end]"

definition rvcc_c_srai_rv32c :: "rvc_constraint list" where
  "rvcc_c_srai_rv32c = [rvc_imm_nz, rvc_rd_eq_rs1, rvc_rd_b3, rvc_rs1_b3, rvc_end]"

definition rvcc_c_andi :: "rvc_constraint list" where
  "rvcc_c_andi = [rvc_imm_nz, rvc_rd_eq_rs1, rvc_rd_b3, rvc_rs1_b3, rvc_end]"

definition rvcc_c_sub :: "rvc_constraint list" where
  "rvcc_c_sub = [rvc_rd_eq_rs1, rvc_rd_b3, rvc_rs1_b3, rvc_rs2_b3, rvc_end]"

definition rvcc_c_xor :: "rvc_constraint list" where
  "rvcc_c_xor = [rvc_rd_eq_rs1, rvc_rd_b3, rvc_rs1_b3, rvc_rs2_b3, rvc_end]"

definition rvcc_c_or :: "rvc_constraint list" where
  "rvcc_c_or = [rvc_rd_eq_rs1, rvc_rd_b3, rvc_rs1_b3, rvc_rs2_b3, rvc_end]"

definition rvcc_c_and :: "rvc_constraint list" where
  "rvcc_c_and = [rvc_rd_eq_rs1, rvc_rd_b3, rvc_rs1_b3, rvc_rs2_b3, rvc_end]"

definition rvcc_c_subw :: "rvc_constraint list" where
  "rvcc_c_subw = [rvc_rd_eq_rs1, rvc_rd_b3, rvc_rs1_b3, rvc_rs2_b3, rvc_end]"

definition rvcc_c_addw :: "rvc_constraint list" where
  "rvcc_c_addw = [rvc_rd_eq_rs1, rvc_rd_b3, rvc_rs1_b3, rvc_rs2_b3, rvc_end]"

definition rvcc_c_j :: "rvc_constraint list" where
  "rvcc_c_j = [rvc_imm_12, rvc_imm_x2, rvc_rd_eq_x0, rvc_end]"

definition rvcc_c_beqz :: "rvc_constraint list" where
  "rvcc_c_beqz = [rvc_imm_9, rvc_imm_x2, rvc_rs1_b3, rvc_rs2_eq_x0, rvc_end]"

definition rvcc_c_bnez :: "rvc_constraint list" where
  "rvcc_c_bnez = [rvc_imm_9, rvc_imm_x2, rvc_rs1_b3, rvc_rs2_eq_x0, rvc_end]"

definition rvcc_c_slli_rv32c :: "rvc_constraint list" where
  "rvcc_c_slli_rv32c = [rvc_imm_nz, rvc_rd_ne_x0, rvc_rd_eq_rs1, rvc_end]"

definition rvcc_c_fldsp :: "rvc_constraint list" where
  "rvcc_c_fldsp = [rvc_imm_9, rvc_imm_x8, rvc_rs1_eq_sp, rvc_end]"

definition rvcc_c_lwsp :: "rvc_constraint list" where
  "rvcc_c_lwsp = [rvc_imm_8, rvc_imm_x4, rvc_rd_ne_x0, rvc_rs1_eq_sp, rvc_end]"

definition rvcc_c_flwsp :: "rvc_constraint list" where
  "rvcc_c_flwsp = [rvc_imm_8, rvc_imm_x4, rvc_rs1_eq_sp, rvc_end]"

definition rvcc_c_jr :: "rvc_constraint list" where
  "rvcc_c_jr = [rvc_rd_eq_x0, rvc_rs1_ne_x0, rvc_end]"

definition rvcc_c_mv :: "rvc_constraint list" where
  "rvcc_c_mv = [rvc_imm_eq_zero, rvc_rd_ne_x0, rvc_end]"

definition rvcc_c_ebreak :: "rvc_constraint list" where
  "rvcc_c_ebreak = [rvc_end]"

definition rvcc_c_jalr :: "rvc_constraint list" where
  "rvcc_c_jalr = [rvc_rd_eq_ra, rvc_rs1_ne_x0, rvc_end]"

definition rvcc_c_add :: "rvc_constraint list" where
  "rvcc_c_add = [rvc_rd_eq_rs1, rvc_rd_ne_x0, rvc_rs2_ne_x0, rvc_end]"

definition rvcc_c_fsdsp :: "rvc_constraint list" where
  "rvcc_c_fsdsp = [rvc_imm_9, rvc_imm_x8, rvc_rs1_eq_sp, rvc_end]"

definition rvcc_c_swsp :: "rvc_constraint list" where
  "rvcc_c_swsp = [rvc_imm_8, rvc_imm_x4, rvc_rs1_eq_sp, rvc_end]"

definition rvcc_c_fswsp :: "rvc_constraint list" where
  "rvcc_c_fswsp = [rvc_imm_8, rvc_imm_x4, rvc_rs1_eq_sp, rvc_end]"

definition rvcc_c_ld :: "rvc_constraint list" where
  "rvcc_c_ld = [rvc_imm_8, rvc_imm_x8, rvc_rd_b3, rvc_rs1_b3, rvc_end]"

definition rvcc_c_sd :: "rvc_constraint list" where
  "rvcc_c_sd = [rvc_imm_8, rvc_imm_x8, rvc_rs1_b3, rvc_rs2_b3, rvc_end]"

definition rvcc_c_addiw :: "rvc_constraint list" where
  "rvcc_c_addiw = [rvc_imm_6, rvc_rd_ne_x0, rvc_rd_eq_rs1, rvc_end]"

definition rvcc_c_srli_rv64c :: "rvc_constraint list" where
  "rvcc_c_srli_rv64c = [rvc_imm_nz, rvc_rd_eq_rs1, rvc_rd_b3, rvc_rs1_b3, rvc_end]"

definition rvcc_c_srai_rv64c :: "rvc_constraint list" where
  "rvcc_c_srai_rv64c = [rvc_imm_nz, rvc_rd_eq_rs1, rvc_rd_b3, rvc_rs1_b3, rvc_end]"

definition rvcc_c_slli_rv64c :: "rvc_constraint list" where
  "rvcc_c_slli_rv64c = [rvc_imm_nz, rvc_rd_ne_x0, rvc_rd_eq_rs1, rvc_end]"

definition rvcc_c_ldsp :: "rvc_constraint list" where
  "rvcc_c_ldsp = [rvc_imm_9, rvc_imm_x8, rvc_rd_ne_x0, rvc_rs1_eq_sp, rvc_end]"

definition rvcc_c_sdsp :: "rvc_constraint list" where
  "rvcc_c_sdsp = [rvc_imm_9, rvc_imm_x8, rvc_rs1_eq_sp, rvc_end]"

definition rvcc_c_lq :: "rvc_constraint list" where
  "rvcc_c_lq = [rvc_imm_9, rvc_imm_x16, rvc_end]"

definition rvcc_c_sq :: "rvc_constraint list" where
  "rvcc_c_sq = [rvc_imm_9, rvc_imm_x16, rvc_end]"

definition rvcc_c_lqsp :: "rvc_constraint list" where
  "rvcc_c_lqsp = [rvc_imm_10, rvc_imm_x16, rvc_rs1_eq_sp, rvc_end]"

definition rvcc_c_sqsp :: "rvc_constraint list" where
  "rvcc_c_sqsp = [rvc_imm_10, rvc_imm_x16, rvc_rs1_eq_sp, rvc_end]"

definition rvcc_jal :: "rvc_constraint list" where
  "rvcc_jal = [rvc_rd_eq_ra, rvc_end]"

definition rvcc_jalr :: "rvc_constraint list" where
  "rvcc_jalr = [rvc_rd_eq_ra, rvc_imm_eq_zero, rvc_end]"

definition rvcc_nop :: "rvc_constraint list" where
  "rvcc_nop = [rvc_rd_eq_x0, rvc_rs1_eq_x0, rvc_imm_eq_zero, rvc_end]"

definition rvcc_mv :: "rvc_constraint list" where
  "rvcc_mv = [rvc_imm_eq_zero, rvc_end]"

definition rvcc_not :: "rvc_constraint list" where
  "rvcc_not = [rvc_imm_eq_n1, rvc_end]"

definition rvcc_neg :: "rvc_constraint list" where
  "rvcc_neg = [rvc_rs1_eq_x0, rvc_end]"

definition rvcc_negw :: "rvc_constraint list" where
  "rvcc_negw = [rvc_rs1_eq_x0, rvc_end]"

definition rvcc_sext_w :: "rvc_constraint list" where
  "rvcc_sext_w = [rvc_rs2_eq_x0, rvc_end]"

definition rvcc_seqz :: "rvc_constraint list" where
  "rvcc_seqz = [rvc_imm_eq_p1, rvc_end]"

definition rvcc_snez :: "rvc_constraint list" where
  "rvcc_snez = [rvc_rs1_eq_x0, rvc_end]"

definition rvcc_sltz :: "rvc_constraint list" where
  "rvcc_sltz = [rvc_rs2_eq_x0, rvc_end]"

definition rvcc_sgtz :: "rvc_constraint list" where
  "rvcc_sgtz = [rvc_rs1_eq_x0, rvc_end]"

definition rvcc_fmv_s :: "rvc_constraint list" where
  "rvcc_fmv_s = [rvc_rs2_eq_rs1, rvc_end]"

definition rvcc_fabs_s :: "rvc_constraint list" where
  "rvcc_fabs_s = [rvc_rs2_eq_rs1, rvc_end]"

definition rvcc_fneg_s :: "rvc_constraint list" where
  "rvcc_fneg_s = [rvc_rs2_eq_rs1, rvc_end]"

definition rvcc_fmv_d :: "rvc_constraint list" where
  "rvcc_fmv_d = [rvc_rs2_eq_rs1, rvc_end]"

definition rvcc_fabs_d :: "rvc_constraint list" where
  "rvcc_fabs_d = [rvc_rs2_eq_rs1, rvc_end]"

definition rvcc_fneg_d :: "rvc_constraint list" where
  "rvcc_fneg_d = [rvc_rs2_eq_rs1, rvc_end]"

definition rvcc_fmv_q :: "rvc_constraint list" where
  "rvcc_fmv_q = [rvc_rs2_eq_rs1, rvc_end]"

definition rvcc_fabs_q :: "rvc_constraint list" where
  "rvcc_fabs_q = [rvc_rs2_eq_rs1, rvc_end]"

definition rvcc_fneg_q :: "rvc_constraint list" where
  "rvcc_fneg_q = [rvc_rs2_eq_rs1, rvc_end]"

definition rvcc_beqz :: "rvc_constraint list" where
  "rvcc_beqz = [rvc_rs2_eq_x0, rvc_end]"

definition rvcc_bnez :: "rvc_constraint list" where
  "rvcc_bnez = [rvc_rs2_eq_x0, rvc_end]"

definition rvcc_blez :: "rvc_constraint list" where
  "rvcc_blez = [rvc_rs1_eq_x0, rvc_end]"

definition rvcc_bgez :: "rvc_constraint list" where
  "rvcc_bgez = [rvc_rs2_eq_x0, rvc_end]"

definition rvcc_bltz :: "rvc_constraint list" where
  "rvcc_bltz = [rvc_rs2_eq_x0, rvc_end]"

definition rvcc_bgtz :: "rvc_constraint list" where
  "rvcc_bgtz = [rvc_rs1_eq_x0, rvc_end]"

definition rvcc_ble :: "rvc_constraint list" where
  "rvcc_ble = [rvc_end]"

definition rvcc_bleu :: "rvc_constraint list" where
  "rvcc_bleu = [rvc_end]"

definition rvcc_bgt :: "rvc_constraint list" where
  "rvcc_bgt = [rvc_end]"

definition rvcc_bgtu :: "rvc_constraint list" where
  "rvcc_bgtu = [rvc_end]"

definition rvcc_j :: "rvc_constraint list" where
  "rvcc_j = [rvc_rd_eq_x0, rvc_end]"

definition rvcc_ret :: "rvc_constraint list" where
  "rvcc_ret = [rvc_rd_eq_x0, rvc_rs1_eq_ra, rvc_end]"

definition rvcc_jr :: "rvc_constraint list" where
  "rvcc_jr = [rvc_rd_eq_x0, rvc_imm_eq_zero, rvc_end]"

definition rvcc_rdcycle :: "rvc_constraint list" where
  "rvcc_rdcycle = [rvc_rs1_eq_x0, rvc_csr_eq_0xc00, rvc_end]"

definition rvcc_rdtime :: "rvc_constraint list" where
  "rvcc_rdtime = [rvc_rs1_eq_x0, rvc_csr_eq_0xc01, rvc_end]"

definition rvcc_rdinstret :: "rvc_constraint list" where
  "rvcc_rdinstret = [rvc_rs1_eq_x0, rvc_csr_eq_0xc02, rvc_end]"

definition rvcc_rdcycleh :: "rvc_constraint list" where
  "rvcc_rdcycleh = [rvc_rs1_eq_x0, rvc_csr_eq_0xc80, rvc_end]"

definition rvcc_rdtimeh :: "rvc_constraint list" where
  "rvcc_rdtimeh = [rvc_rs1_eq_x0, rvc_csr_eq_0xc81, rvc_end]"

definition rvcc_rdinstreth :: "rvc_constraint list" where
  "rvcc_rdinstreth = [rvc_rs1_eq_x0, rvc_csr_eq_0xc80, rvc_end]"

definition rvcc_frcsr :: "rvc_constraint list" where
  "rvcc_frcsr = [rvc_rs1_eq_x0, rvc_csr_eq_0x003, rvc_end]"

definition rvcc_frrm :: "rvc_constraint list" where
  "rvcc_frrm = [rvc_rs1_eq_x0, rvc_csr_eq_0x002, rvc_end]"

definition rvcc_frflags :: "rvc_constraint list" where
  "rvcc_frflags = [rvc_rs1_eq_x0, rvc_csr_eq_0x001, rvc_end]"

definition rvcc_fscsr :: "rvc_constraint list" where
  "rvcc_fscsr = [rvc_csr_eq_0x003, rvc_end]"

definition rvcc_fsrm :: "rvc_constraint list" where
  "rvcc_fsrm = [rvc_csr_eq_0x002, rvc_end]"

definition rvcc_fsflags :: "rvc_constraint list" where
  "rvcc_fsflags = [rvc_csr_eq_0x001, rvc_end]"

definition rvcc_fsrmi :: "rvc_constraint list" where
  "rvcc_fsrmi = [rvc_csr_eq_0x002, rvc_end]"

definition rvcc_fsflagsi :: "rvc_constraint list" where
  "rvcc_fsflagsi = [rvc_csr_eq_0x001, rvc_end]"

section \<open>Arrays of alternatives\<close>

definition rvcd_rv32_lui :: "rv_comp_data list" where
  "rvcd_rv32_lui = [
     comp_entry rv_op_c_lui (Some rvcc_c_lui),
     comp_entry rv_op_illegal None]"

definition rvcd_rv32_jal :: "rv_comp_data list" where
  "rvcd_rv32_jal = [
     comp_entry rv_op_c_jal (Some rvcc_c_jal),
     comp_entry rv_op_c_j (Some rvcc_c_j),
     comp_entry rv_op_illegal None]"

definition rvcd_rv32_jalr :: "rv_comp_data list" where
  "rvcd_rv32_jalr = [
     comp_entry rv_op_c_jr (Some rvcc_c_jr),
     comp_entry rv_op_c_jalr (Some rvcc_c_jalr),
     comp_entry rv_op_illegal None]"

definition rvcd_rv32_beq :: "rv_comp_data list" where
  "rvcd_rv32_beq = [
     comp_entry rv_op_c_beqz (Some rvcc_c_beqz),
     comp_entry rv_op_illegal None]"

definition rvcd_rv32_bne :: "rv_comp_data list" where
  "rvcd_rv32_bne = [
     comp_entry rv_op_c_bnez (Some rvcc_c_bnez),
     comp_entry rv_op_illegal None]"

definition rvcd_rv32_lw :: "rv_comp_data list" where
  "rvcd_rv32_lw = [
     comp_entry rv_op_c_lw (Some rvcc_c_lw),
     comp_entry rv_op_c_lwsp (Some rvcc_c_lwsp),
     comp_entry rv_op_illegal None]"

definition rvcd_rv32_sw :: "rv_comp_data list" where
  "rvcd_rv32_sw = [
     comp_entry rv_op_c_sw (Some rvcc_c_sw),
     comp_entry rv_op_c_swsp (Some rvcc_c_swsp),
     comp_entry rv_op_illegal None]"

definition rvcd_rv32_addi :: "rv_comp_data list" where
  "rvcd_rv32_addi = [
     comp_entry rv_op_c_addi4spn (Some rvcc_c_addi4spn),
     comp_entry rv_op_c_nop (Some rvcc_c_nop),
     comp_entry rv_op_c_addi (Some rvcc_c_addi),
     comp_entry rv_op_c_li (Some rvcc_c_li),
     comp_entry rv_op_c_addi16sp (Some rvcc_c_addi16sp),
     comp_entry rv_op_c_mv (Some rvcc_c_mv),
     comp_entry rv_op_illegal None]"

definition rvcd_rv32_andi :: "rv_comp_data list" where
  "rvcd_rv32_andi = [
     comp_entry rv_op_c_andi (Some rvcc_c_andi),
     comp_entry rv_op_illegal None]"

definition rvcd_rv32_slli :: "rv_comp_data list" where
  "rvcd_rv32_slli = [
     comp_entry rv_op_c_slli (Some rvcc_c_slli_rv32c),
     comp_entry rv_op_illegal None]"

definition rvcd_rv32_srli :: "rv_comp_data list" where
  "rvcd_rv32_srli = [
     comp_entry rv_op_c_srli (Some rvcc_c_srli_rv32c),
     comp_entry rv_op_illegal None]"

definition rvcd_rv32_srai :: "rv_comp_data list" where
  "rvcd_rv32_srai = [
     comp_entry rv_op_c_srai (Some rvcc_c_srai_rv32c),
     comp_entry rv_op_illegal None]"

definition rvcd_rv32_add :: "rv_comp_data list" where
  "rvcd_rv32_add = [
     comp_entry rv_op_c_add (Some rvcc_c_add),
     comp_entry rv_op_illegal None]"

definition rvcd_rv32_sub :: "rv_comp_data list" where
  "rvcd_rv32_sub = [
     comp_entry rv_op_c_sub (Some rvcc_c_sub),
     comp_entry rv_op_illegal None]"

definition rvcd_rv32_xor :: "rv_comp_data list" where
  "rvcd_rv32_xor = [
     comp_entry rv_op_c_xor (Some rvcc_c_xor),
     comp_entry rv_op_illegal None]"

definition rvcd_rv32_or :: "rv_comp_data list" where
  "rvcd_rv32_or = [
     comp_entry rv_op_c_or (Some rvcc_c_or),
     comp_entry rv_op_illegal None]"

definition rvcd_rv32_and :: "rv_comp_data list" where
  "rvcd_rv32_and = [
     comp_entry rv_op_c_and (Some rvcc_c_and),
     comp_entry rv_op_illegal None]"

definition rvcd_rv32_ebreak :: "rv_comp_data list" where
  "rvcd_rv32_ebreak = [
     comp_entry rv_op_c_ebreak (Some rvcc_c_ebreak),
     comp_entry rv_op_illegal None]"

definition rvcd_rv32_flw :: "rv_comp_data list" where
  "rvcd_rv32_flw = [
     comp_entry rv_op_c_flw (Some rvcc_c_flw),
     comp_entry rv_op_c_flwsp (Some rvcc_c_flwsp),
     comp_entry rv_op_illegal None]"

definition rvcd_rv32_fsw :: "rv_comp_data list" where
  "rvcd_rv32_fsw = [
     comp_entry rv_op_c_fsw (Some rvcc_c_fsw),
     comp_entry rv_op_c_fswsp (Some rvcc_c_fswsp),
     comp_entry rv_op_illegal None]"

definition rvcd_rv32_fld :: "rv_comp_data list" where
  "rvcd_rv32_fld = [
     comp_entry rv_op_c_fld (Some rvcc_c_fld),
     comp_entry rv_op_c_fldsp (Some rvcc_c_fldsp),
     comp_entry rv_op_illegal None]"

definition rvcd_rv32_fsd :: "rv_comp_data list" where
  "rvcd_rv32_fsd = [
     comp_entry rv_op_c_fsd (Some rvcc_c_fsd),
     comp_entry rv_op_c_fsdsp (Some rvcc_c_fsdsp),
     comp_entry rv_op_illegal None]"

definition rvcd_rv64_lui :: "rv_comp_data list" where
  "rvcd_rv64_lui = [
     comp_entry rv_op_c_lui (Some rvcc_c_lui),
     comp_entry rv_op_illegal None]"

definition rvcd_rv64_jal :: "rv_comp_data list" where
  "rvcd_rv64_jal = [
     comp_entry rv_op_c_j (Some rvcc_c_j),
     comp_entry rv_op_illegal None]"

definition rvcd_rv64_jalr :: "rv_comp_data list" where
  "rvcd_rv64_jalr = [
     comp_entry rv_op_c_jr (Some rvcc_c_jr),
     comp_entry rv_op_c_jalr (Some rvcc_c_jalr),
     comp_entry rv_op_illegal None]"

definition rvcd_rv64_beq :: "rv_comp_data list" where
  "rvcd_rv64_beq = [
     comp_entry rv_op_c_beqz (Some rvcc_c_beqz),
     comp_entry rv_op_illegal None]"

definition rvcd_rv64_bne :: "rv_comp_data list" where
  "rvcd_rv64_bne = [
     comp_entry rv_op_c_bnez (Some rvcc_c_bnez),
     comp_entry rv_op_illegal None]"

definition rvcd_rv64_lw :: "rv_comp_data list" where
  "rvcd_rv64_lw = [
     comp_entry rv_op_c_lw (Some rvcc_c_lw),
     comp_entry rv_op_c_lwsp (Some rvcc_c_lwsp),
     comp_entry rv_op_illegal None]"

definition rvcd_rv64_sw :: "rv_comp_data list" where
  "rvcd_rv64_sw = [
     comp_entry rv_op_c_sw (Some rvcc_c_sw),
     comp_entry rv_op_c_swsp (Some rvcc_c_swsp),
     comp_entry rv_op_illegal None]"

definition rvcd_rv64_addi :: "rv_comp_data list" where
  "rvcd_rv64_addi = [
     comp_entry rv_op_c_addi4spn (Some rvcc_c_addi4spn),
     comp_entry rv_op_c_nop (Some rvcc_c_nop),
     comp_entry rv_op_c_addi (Some rvcc_c_addi),
     comp_entry rv_op_c_li (Some rvcc_c_li),
     comp_entry rv_op_c_addi16sp (Some rvcc_c_addi16sp),
     comp_entry rv_op_c_mv (Some rvcc_c_mv),
     comp_entry rv_op_illegal None]"

definition rvcd_rv64_andi :: "rv_comp_data list" where
  "rvcd_rv64_andi = [
     comp_entry rv_op_c_andi (Some rvcc_c_andi),
     comp_entry rv_op_illegal None]"

definition rvcd_rv64_add :: "rv_comp_data list" where
  "rvcd_rv64_add = [
     comp_entry rv_op_c_add (Some rvcc_c_add),
     comp_entry rv_op_illegal None]"

definition rvcd_rv64_sub :: "rv_comp_data list" where
  "rvcd_rv64_sub = [
     comp_entry rv_op_c_sub (Some rvcc_c_sub),
     comp_entry rv_op_illegal None]"

definition rvcd_rv64_xor :: "rv_comp_data list" where
  "rvcd_rv64_xor = [
     comp_entry rv_op_c_xor (Some rvcc_c_xor),
     comp_entry rv_op_illegal None]"

definition rvcd_rv64_or :: "rv_comp_data list" where
  "rvcd_rv64_or = [
     comp_entry rv_op_c_or (Some rvcc_c_or),
     comp_entry rv_op_illegal None]"

definition rvcd_rv64_and :: "rv_comp_data list" where
  "rvcd_rv64_and = [
     comp_entry rv_op_c_and (Some rvcc_c_and),
     comp_entry rv_op_illegal None]"

definition rvcd_rv64_ld :: "rv_comp_data list" where
  "rvcd_rv64_ld = [
     comp_entry rv_op_c_ld (Some rvcc_c_ld),
     comp_entry rv_op_c_ldsp (Some rvcc_c_ldsp),
     comp_entry rv_op_illegal None]"

definition rvcd_rv64_sd :: "rv_comp_data list" where
  "rvcd_rv64_sd = [
     comp_entry rv_op_c_sd (Some rvcc_c_sd),
     comp_entry rv_op_c_sdsp (Some rvcc_c_sdsp),
     comp_entry rv_op_illegal None]"

definition rvcd_rv64_slli :: "rv_comp_data list" where
  "rvcd_rv64_slli = [
     comp_entry rv_op_c_slli (Some rvcc_c_slli_rv64c),
     comp_entry rv_op_illegal None]"

definition rvcd_rv64_srli :: "rv_comp_data list" where
  "rvcd_rv64_srli = [
     comp_entry rv_op_c_srli (Some rvcc_c_srli_rv64c),
     comp_entry rv_op_illegal None]"

definition rvcd_rv64_srai :: "rv_comp_data list" where
  "rvcd_rv64_srai = [
     comp_entry rv_op_c_srai (Some rvcc_c_srai_rv64c),
     comp_entry rv_op_illegal None]"

definition rvcd_rv64_addiw :: "rv_comp_data list" where
  "rvcd_rv64_addiw = [
     comp_entry rv_op_c_addiw (Some rvcc_c_addiw),
     comp_entry rv_op_illegal None]"

definition rvcd_rv64_addw :: "rv_comp_data list" where
  "rvcd_rv64_addw = [
     comp_entry rv_op_c_addw (Some rvcc_c_addw),
     comp_entry rv_op_illegal None]"

definition rvcd_rv64_subw :: "rv_comp_data list" where
  "rvcd_rv64_subw = [
     comp_entry rv_op_c_subw (Some rvcc_c_subw),
     comp_entry rv_op_illegal None]"

definition rvcd_rv64_ebreak :: "rv_comp_data list" where
  "rvcd_rv64_ebreak = [
     comp_entry rv_op_c_ebreak (Some rvcc_c_ebreak),
     comp_entry rv_op_illegal None]"

definition rvcd_rv64_fld :: "rv_comp_data list" where
  "rvcd_rv64_fld = [
     comp_entry rv_op_c_fld (Some rvcc_c_fld),
     comp_entry rv_op_c_fldsp (Some rvcc_c_fldsp),
     comp_entry rv_op_illegal None]"

definition rvcd_rv64_fsd :: "rv_comp_data list" where
  "rvcd_rv64_fsd = [
     comp_entry rv_op_c_fsd (Some rvcc_c_fsd),
     comp_entry rv_op_c_fsdsp (Some rvcc_c_fsdsp),
     comp_entry rv_op_illegal None]"

definition rvcd_rv128_lq :: "rv_comp_data list" where
  "rvcd_rv128_lq = [
     comp_entry rv_op_c_lq (Some rvcc_c_lq),
     comp_entry rv_op_c_lqsp (Some rvcc_c_lqsp),
     comp_entry rv_op_illegal None]"

definition rvcd_rv128_sq :: "rv_comp_data list" where
  "rvcd_rv128_sq = [
     comp_entry rv_op_c_sq (Some rvcc_c_sq),
     comp_entry rv_op_c_sqsp (Some rvcc_c_sqsp),
     comp_entry rv_op_illegal None]"

definition rvcp_jal :: "rv_comp_data list" where
  "rvcp_jal = [
     comp_entry rv_op_j (Some rvcc_j),
     comp_entry rv_op_jal (Some rvcc_jal),
     comp_entry rv_op_illegal None]"

definition rvcp_jalr :: "rv_comp_data list" where
  "rvcp_jalr = [
     comp_entry rv_op_ret (Some rvcc_ret),
     comp_entry rv_op_jr (Some rvcc_jr),
     comp_entry rv_op_jalr (Some rvcc_jalr),
     comp_entry rv_op_illegal None]"

definition rvcp_beq :: "rv_comp_data list" where
  "rvcp_beq = [
     comp_entry rv_op_beqz (Some rvcc_beqz),
     comp_entry rv_op_illegal None]"

definition rvcp_bne :: "rv_comp_data list" where
  "rvcp_bne = [
     comp_entry rv_op_bnez (Some rvcc_bnez),
     comp_entry rv_op_illegal None]"

definition rvcp_blt :: "rv_comp_data list" where
  "rvcp_blt = [
     comp_entry rv_op_bltz (Some rvcc_bltz),
     comp_entry rv_op_bgtz (Some rvcc_bgtz),
     comp_entry rv_op_bgt (Some rvcc_bgt),
     comp_entry rv_op_illegal None]"

definition rvcp_bge :: "rv_comp_data list" where
  "rvcp_bge = [
     comp_entry rv_op_blez (Some rvcc_blez),
     comp_entry rv_op_bgez (Some rvcc_bgez),
     comp_entry rv_op_ble (Some rvcc_ble),
     comp_entry rv_op_illegal None]"

definition rvcp_bltu :: "rv_comp_data list" where
  "rvcp_bltu = [
     comp_entry rv_op_bgtu (Some rvcc_bgtu),
     comp_entry rv_op_illegal None]"

definition rvcp_bgeu :: "rv_comp_data list" where
  "rvcp_bgeu = [
     comp_entry rv_op_bleu (Some rvcc_bleu),
     comp_entry rv_op_illegal None]"

definition rvcp_addi :: "rv_comp_data list" where
  "rvcp_addi = [
     comp_entry rv_op_nop (Some rvcc_nop),
     comp_entry rv_op_mv (Some rvcc_mv),
     comp_entry rv_op_illegal None]"

definition rvcp_sltiu :: "rv_comp_data list" where
  "rvcp_sltiu = [
     comp_entry rv_op_seqz (Some rvcc_seqz),
     comp_entry rv_op_illegal None]"

definition rvcp_xori :: "rv_comp_data list" where
  "rvcp_xori = [
     comp_entry rv_op_not (Some rvcc_not),
     comp_entry rv_op_illegal None]"

definition rvcp_sub :: "rv_comp_data list" where
  "rvcp_sub = [
     comp_entry rv_op_neg (Some rvcc_neg),
     comp_entry rv_op_illegal None]"

definition rvcp_slt :: "rv_comp_data list" where
  "rvcp_slt = [
     comp_entry rv_op_sltz (Some rvcc_sltz),
     comp_entry rv_op_sgtz (Some rvcc_sgtz),
     comp_entry rv_op_illegal None]"

definition rvcp_sltu :: "rv_comp_data list" where
  "rvcp_sltu = [
     comp_entry rv_op_snez (Some rvcc_snez),
     comp_entry rv_op_illegal None]"

definition rvcp_addiw :: "rv_comp_data list" where
  "rvcp_addiw = [
     comp_entry rv_op_sext_w (Some rvcc_sext_w),
     comp_entry rv_op_illegal None]"

definition rvcp_subw :: "rv_comp_data list" where
  "rvcp_subw = [
     comp_entry rv_op_negw (Some rvcc_negw),
     comp_entry rv_op_illegal None]"

definition rvcp_csrrw :: "rv_comp_data list" where
  "rvcp_csrrw = [
     comp_entry rv_op_fscsr (Some rvcc_fscsr),
     comp_entry rv_op_fsrm (Some rvcc_fsrm),
     comp_entry rv_op_fsflags (Some rvcc_fsflags),
     comp_entry rv_op_illegal None]"

definition rvcp_csrrs :: "rv_comp_data list" where
  "rvcp_csrrs = [
     comp_entry rv_op_rdcycle (Some rvcc_rdcycle),
     comp_entry rv_op_rdtime (Some rvcc_rdtime),
     comp_entry rv_op_rdinstret (Some rvcc_rdinstret),
     comp_entry rv_op_rdcycleh (Some rvcc_rdcycleh),
     comp_entry rv_op_rdtimeh (Some rvcc_rdtimeh),
     comp_entry rv_op_rdinstreth (Some rvcc_rdinstreth),
     comp_entry rv_op_frcsr (Some rvcc_frcsr),
     comp_entry rv_op_frrm (Some rvcc_frrm),
     comp_entry rv_op_frflags (Some rvcc_frflags),
     comp_entry rv_op_illegal None]"

definition rvcp_csrrwi :: "rv_comp_data list" where
  "rvcp_csrrwi = [
     comp_entry rv_op_fsrmi (Some rvcc_fsrmi),
     comp_entry rv_op_fsflagsi (Some rvcc_fsflagsi),
     comp_entry rv_op_illegal None]"

definition rvcp_fsgnj_s :: "rv_comp_data list" where
  "rvcp_fsgnj_s = [
     comp_entry rv_op_fmv_s (Some rvcc_fmv_s),
     comp_entry rv_op_illegal None]"

definition rvcp_fsgnjn_s :: "rv_comp_data list" where
  "rvcp_fsgnjn_s = [
     comp_entry rv_op_fneg_s (Some rvcc_fneg_s),
     comp_entry rv_op_illegal None]"

definition rvcp_fsgnjx_s :: "rv_comp_data list" where
  "rvcp_fsgnjx_s = [
     comp_entry rv_op_fabs_s (Some rvcc_fabs_s),
     comp_entry rv_op_illegal None]"

definition rvcp_fsgnj_d :: "rv_comp_data list" where
  "rvcp_fsgnj_d = [
     comp_entry rv_op_fmv_d (Some rvcc_fmv_d),
     comp_entry rv_op_illegal None]"

definition rvcp_fsgnjn_d :: "rv_comp_data list" where
  "rvcp_fsgnjn_d = [
     comp_entry rv_op_fneg_d (Some rvcc_fneg_d),
     comp_entry rv_op_illegal None]"

definition rvcp_fsgnjx_d :: "rv_comp_data list" where
  "rvcp_fsgnjx_d = [
     comp_entry rv_op_fabs_d (Some rvcc_fabs_d),
     comp_entry rv_op_illegal None]"

definition rvcp_fsgnj_q :: "rv_comp_data list" where
  "rvcp_fsgnj_q = [
     comp_entry rv_op_fmv_q (Some rvcc_fmv_q),
     comp_entry rv_op_illegal None]"

definition rvcp_fsgnjn_q :: "rv_comp_data list" where
  "rvcp_fsgnjn_q = [
     comp_entry rv_op_fneg_q (Some rvcc_fneg_q),
     comp_entry rv_op_illegal None]"

definition rvcp_fsgnjx_q :: "rv_comp_data list" where
  "rvcp_fsgnjx_q = [
     comp_entry rv_op_fabs_q (Some rvcc_fabs_q),
     comp_entry rv_op_illegal None]"

section \<open>Arrays indexed by opcode\<close>

definition rv_inst_pseudo :: "rv_comp_data list option list" where
  "rv_inst_pseudo = [
    None, None, None, Some rvcp_jal, Some rvcp_jalr, Some rvcp_beq,
    Some rvcp_bne, Some rvcp_blt, Some rvcp_bge, Some rvcp_bltu, Some rvcp_bgeu, None,
    None, None, None, None, None, None,
    None, Some rvcp_addi, None, Some rvcp_sltiu, Some rvcp_xori, None,
    None, None, None, None, None, Some rvcp_sub,
    None, Some rvcp_slt, Some rvcp_sltu, None, None, None,
    None, None, None, None, None, None,
    None, Some rvcp_addiw, None, None, None, None,
    Some rvcp_subw, None, None, None, None, None,
    None, None, None, None, None, None,
    None, None, None, None, None, None,
    None, None, None, None, None, None,
    None, None, None, None, None, None,
    None, None, None, None, None, None,
    None, None, None, None, None, None,
    None, None, None, None, None, None,
    None, None, None, None, None, None,
    None, None, None, None, None, None,
    None, None, None, None, None, None,
    None, None, None, None, None, None,
    None, None, None, None, Some rvcp_csrrw, Some rvcp_csrrs,
    None, Some rvcp_csrrwi, None, None, None, None,
    None, None, None, None, None, None,
    None, None, Some rvcp_fsgnj_s, Some rvcp_fsgnjn_s, Some rvcp_fsgnjx_s, None,
    None, None, None, None, None, None,
    None, None, None, None, None, None,
    None, None, None, None, None, None,
    None, None, None, None, None, None,
    None, None, Some rvcp_fsgnj_d, Some rvcp_fsgnjn_d, Some rvcp_fsgnjx_d, None,
    None, None, None, None, None, None,
    None, None, None, None, None, None,
    None, None, None, None, None, None,
    None, None, None, None, None, None,
    None, None, None, None, Some rvcp_fsgnj_q, Some rvcp_fsgnjn_q,
    Some rvcp_fsgnjx_q, None, None, None, None, None,
    None, None, None, None, None, None,
    None, None, None, None, None, None,
    None, None, None, None, None, None,
    None, None, None, None, None, None,
    None, None, None, None, None, None,
    None, None, None, None, None, None,
    None, None, None, None, None, None,
    None, None, None, None, None, None,
    None, None, None, None, None, None,
    None, None, None, None, None, None,
    None, None, None, None, None, None,
    None, None, None, None, None, None,
    None, None, None, None, None, None,
    None, None, None, None, None, None,
    None, None, None, None, None, None,
    None, None, None, None, None, None,
    None, None, None, None, None, None,
    None, None, None, None, None, None]"

definition rv_inst_comp_rv32 :: "rv_comp_data list option list" where
  "rv_inst_comp_rv32 = [
    None, Some rvcd_rv32_lui, None, Some rvcd_rv32_jal, Some rvcd_rv32_jalr, Some rvcd_rv32_beq,
    Some rvcd_rv32_bne, None, None, None, None, None,
    None, Some rvcd_rv32_lw, None, None, None, None,
    Some rvcd_rv32_sw, Some rvcd_rv32_addi, None, None, None, None,
    Some rvcd_rv32_andi, Some rvcd_rv32_slli, Some rvcd_rv32_srli, Some rvcd_rv32_srai, Some rvcd_rv32_add, Some rvcd_rv32_sub,
    None, None, None, Some rvcd_rv32_xor, None, None,
    Some rvcd_rv32_or, Some rvcd_rv32_and, None, None, None, None,
    None, None, None, None, None, None,
    None, None, None, None, None, None,
    None, None, None, None, None, None,
    None, None, None, None, None, None,
    None, None, None, None, None, None,
    None, None, None, None, None, None,
    None, None, None, None, None, None,
    None, None, None, None, None, None,
    None, None, None, None, None, None,
    None, None, None, None, None, None,
    None, None, None, None, None, None,
    None, None, None, None, None, None,
    None, None, Some rvcd_rv32_ebreak, None, None, None,
    None, None, None, None, None, None,
    None, None, None, None, Some rvcd_rv32_flw, Some rvcd_rv32_fsw,
    None, None, None, None, None, None,
    None, None, None, None, None, None,
    None, None, None, None, None, None,
    None, None, None, None, None, None,
    None, None, None, None, Some rvcd_rv32_fld, Some rvcd_rv32_fsd,
    None, None, None, None, None, None,
    None, None, None, None, None, None,
    None, None, None, None, None, None,
    None, None, None, None, None, None,
    None, None, None, None, None, None,
    None, None, None, None, None, None,
    None, None, None, None, None, None,
    None, None, None, None, None, None,
    None, None, None, None, None, None,
    None, None, None, None, None, None,
    None, None, None, None, None, None,
    None, None, None, None, None, None,
    None, None, None, None, None, None,
    None, None, None, None, None, None,
    None, None, None, None, None, None,
    None, None, None, None, None, None,
    None, None, None, None, None, None,
    None, None, None, None, None, None,
    None, None, None, None, None, None,
    None, None, None, None, None, None,
    None, None, None, None, None, None,
    None, None, None, None, None, None,
    None, None, None, None, None, None,
    None, None, None, None, None, None,
    None, None, None, None, None, None,
    None, None, None, None, None, None]"

definition rv_inst_comp_rv64 :: "rv_comp_data list option list" where
  "rv_inst_comp_rv64 = [
    None, Some rvcd_rv64_lui, None, Some rvcd_rv64_jal, Some rvcd_rv64_jalr, Some rvcd_rv64_beq,
    Some rvcd_rv64_bne, None, None, None, None, None,
    None, Some rvcd_rv64_lw, None, None, None, None,
    Some rvcd_rv64_sw, Some rvcd_rv64_addi, None, None, None, None,
    Some rvcd_rv64_andi, Some rvcd_rv64_slli, Some rvcd_rv64_srli, Some rvcd_rv64_srai, Some rvcd_rv64_add, Some rvcd_rv64_sub,
    None, None, None, Some rvcd_rv64_xor, None, None,
    Some rvcd_rv64_or, Some rvcd_rv64_and, None, None, None, Some rvcd_rv64_ld,
    Some rvcd_rv64_sd, Some rvcd_rv64_addiw, None, None, None, Some rvcd_rv64_addw,
    Some rvcd_rv64_subw, None, None, None, None, None,
    None, None, None, None, None, None,
    None, None, None, None, None, None,
    None, None, None, None, None, None,
    None, None, None, None, None, None,
    None, None, None, None, None, None,
    None, None, None, None, None, None,
    None, None, None, None, None, None,
    None, None, None, None, None, None,
    None, None, None, None, None, None,
    None, None, None, None, None, None,
    None, None, Some rvcd_rv64_ebreak, None, None, None,
    None, None, None, None, None, None,
    None, None, None, None, None, None,
    None, None, None, None, None, None,
    None, None, None, None, None, None,
    None, None, None, None, None, None,
    None, None, None, None, None, None,
    None, None, None, None, Some rvcd_rv64_fld, Some rvcd_rv64_fsd,
    None, None, None, None, None, None,
    None, None, None, None, None, None,
    None, None, None, None, None, None,
    None, None, None, None, None, None,
    None, None, None, None, None, None,
    None, None, None, None, None, None,
    None, None, None, None, None, None,
    None, None, None, None, None, None,
    None, None, None, None, None, None,
    None, None, None, None, None, None,
    None, None, None, None, None, None,
    None, None, None, None, None, None,
    None, None, None, None, None, None,
    None, None, None, None, None, None,
    None, None, None, None, None, None,
    None, None, None, None, None, None,
    None, None, None, None, None, None,
    None, None, None, None, None, None,
    None, None, None, None, None, None,
    None, None, None, None, None, None,
    None, None, None, None, None, None,
    None, None, None, None, None, None,
    None, None, None, None, None, None,
    None, None, None, None, None, None,
    None, None, None, None, None, None,
    None, None, None, None, None, None]"

definition rv_inst_comp_rv128 :: "rv_comp_data list option list" where
  "rv_inst_comp_rv128 = [
    None, None, None, None, None, None,
    None, None, None, None, None, None,
    None, None, None, None, None, None,
    None, None, None, None, None, None,
    None, None, None, None, None, None,
    None, None, None, None, None, None,
    None, None, None, None, None, None,
    None, None, None, None, None, None,
    None, None, None, None, None, Some rvcd_rv128_lq,
    Some rvcd_rv128_sq, None, None, None, None, None,
    None, None, None, None, None, None,
    None, None, None, None, None, None,
    None, None, None, None, None, None,
    None, None, None, None, None, None,
    None, None, None, None, None, None,
    None, None, None, None, None, None,
    None, None, None, None, None, None,
    None, None, None, None, None, None,
    None, None, None, None, None, None,
    None, None, None, None, None, None,
    None, None, None, None, None, None,
    None, None, None, None, None, None,
    None, None, None, None, None, None,
    None, None, None, None, None, None,
    None, None, None, None, None, None,
    None, None, None, None, None, None,
    None, None, None, None, None, None,
    None, None, None, None, None, None,
    None, None, None, None, None, None,
    None, None, None, None, None, None,
    None, None, None, None, None, None,
    None, None, None, None, None, None,
    None, None, None, None, None, None,
    None, None, None, None, None, None,
    None, None, None, None, None, None,
    None, None, None, None, None, None,
    None, None, None, None, None, None,
    None, None, None, None, None, None,
    None, None, None, None, None, None,
    None, None, None, None, None, None,
    None, None, None, None, None, None,
    None, None, None, None, None, None,
    None, None, None, None, None, None,
    None, None, None, None, None, None,
    None, None, None, None, None, None,
    None, None, None, None, None, None,
    None, None, None, None, None, None,
    None, None, None, None, None, None,
    None, None, None, None, None, None,
    None, None, None, None, None, None,
    None, None, None, None, None, None,
    None, None, None, None, None, None,
    None, None, None, None, None, None]"

definition rv_inst_depseudo :: "rv_comp_data list" where
  "rv_inst_depseudo = [
    comp_entry rv_op_illegal None, comp_entry rv_op_illegal None, comp_entry rv_op_illegal None,
    comp_entry rv_op_jal (Some rvcc_jal), comp_entry rv_op_jalr (Some rvcc_jalr), comp_entry rv_op_illegal None,
    comp_entry rv_op_illegal None, comp_entry rv_op_illegal None, comp_entry rv_op_illegal None,
    comp_entry rv_op_illegal None, comp_entry rv_op_illegal None, comp_entry rv_op_illegal None,
    comp_entry rv_op_illegal None, comp_entry rv_op_illegal None, comp_entry rv_op_illegal None,
    comp_entry rv_op_illegal None, comp_entry rv_op_illegal None, comp_entry rv_op_illegal None,
    comp_entry rv_op_illegal None, comp_entry rv_op_illegal None, comp_entry rv_op_illegal None,
    comp_entry rv_op_illegal None, comp_entry rv_op_illegal None, comp_entry rv_op_illegal None,
    comp_entry rv_op_illegal None, comp_entry rv_op_illegal None, comp_entry rv_op_illegal None,
    comp_entry rv_op_illegal None, comp_entry rv_op_illegal None, comp_entry rv_op_illegal None,
    comp_entry rv_op_illegal None, comp_entry rv_op_illegal None, comp_entry rv_op_illegal None,
    comp_entry rv_op_illegal None, comp_entry rv_op_illegal None, comp_entry rv_op_illegal None,
    comp_entry rv_op_illegal None, comp_entry rv_op_illegal None, comp_entry rv_op_illegal None,
    comp_entry rv_op_illegal None, comp_entry rv_op_illegal None, comp_entry rv_op_illegal None,
    comp_entry rv_op_illegal None, comp_entry rv_op_illegal None, comp_entry rv_op_illegal None,
    comp_entry rv_op_illegal None, comp_entry rv_op_illegal None, comp_entry rv_op_illegal None,
    comp_entry rv_op_illegal None, comp_entry rv_op_illegal None, comp_entry rv_op_illegal None,
    comp_entry rv_op_illegal None, comp_entry rv_op_illegal None, comp_entry rv_op_illegal None,
    comp_entry rv_op_illegal None, comp_entry rv_op_illegal None, comp_entry rv_op_illegal None,
    comp_entry rv_op_illegal None, comp_entry rv_op_illegal None, comp_entry rv_op_illegal None,
    comp_entry rv_op_illegal None, comp_entry rv_op_illegal None, comp_entry rv_op_illegal None,
    comp_entry rv_op_illegal None, comp_entry rv_op_illegal None, comp_entry rv_op_illegal None,
    comp_entry rv_op_illegal None, comp_entry rv_op_illegal None, comp_entry rv_op_illegal None,
    comp_entry rv_op_illegal None, comp_entry rv_op_illegal None, comp_entry rv_op_illegal None,
    comp_entry rv_op_illegal None, comp_entry rv_op_illegal None, comp_entry rv_op_illegal None,
    comp_entry rv_op_illegal None, comp_entry rv_op_illegal None, comp_entry rv_op_illegal None,
    comp_entry rv_op_illegal None, comp_entry rv_op_illegal None, comp_entry rv_op_illegal None,
    comp_entry rv_op_illegal None, comp_entry rv_op_illegal None, comp_entry rv_op_illegal None,
    comp_entry rv_op_illegal None, comp_entry rv_op_illegal None, comp_entry rv_op_illegal None,
    comp_entry rv_op_illegal None, comp_entry rv_op_illegal None, comp_entry rv_op_illegal None,
    comp_entry rv_op_illegal None, comp_entry rv_op_illegal None, comp_entry rv_op_illegal None,
    comp_entry rv_op_illegal None, comp_entry rv_op_illegal None, comp_entry rv_op_illegal None,
    comp_entry rv_op_illegal None, comp_entry rv_op_illegal None, comp_entry rv_op_illegal None,
    comp_entry rv_op_illegal None, comp_entry rv_op_illegal None, comp_entry rv_op_illegal None,
    comp_entry rv_op_illegal None, comp_entry rv_op_illegal None, comp_entry rv_op_illegal None,
    comp_entry rv_op_illegal None, comp_entry rv_op_illegal None, comp_entry rv_op_illegal None,
    comp_entry rv_op_illegal None, comp_entry rv_op_illegal None, comp_entry rv_op_illegal None,
    comp_entry rv_op_illegal None, comp_entry rv_op_illegal None, comp_entry rv_op_illegal None,
    comp_entry rv_op_illegal None, comp_entry rv_op_illegal None, comp_entry rv_op_illegal None,
    comp_entry rv_op_illegal None, comp_entry rv_op_illegal None, comp_entry rv_op_illegal None,
    comp_entry rv_op_illegal None, comp_entry rv_op_illegal None, comp_entry rv_op_illegal None,
    comp_entry rv_op_illegal None, comp_entry rv_op_illegal None, comp_entry rv_op_illegal None,
    comp_entry rv_op_illegal None, comp_entry rv_op_illegal None, comp_entry rv_op_illegal None,
    comp_entry rv_op_illegal None, comp_entry rv_op_illegal None, comp_entry rv_op_illegal None,
    comp_entry rv_op_illegal None, comp_entry rv_op_illegal None, comp_entry rv_op_illegal None,
    comp_entry rv_op_illegal None, comp_entry rv_op_illegal None, comp_entry rv_op_illegal None,
    comp_entry rv_op_illegal None, comp_entry rv_op_illegal None, comp_entry rv_op_illegal None,
    comp_entry rv_op_illegal None, comp_entry rv_op_illegal None, comp_entry rv_op_illegal None,
    comp_entry rv_op_illegal None, comp_entry rv_op_illegal None, comp_entry rv_op_illegal None,
    comp_entry rv_op_illegal None, comp_entry rv_op_illegal None, comp_entry rv_op_illegal None,
    comp_entry rv_op_illegal None, comp_entry rv_op_illegal None, comp_entry rv_op_illegal None,
    comp_entry rv_op_illegal None, comp_entry rv_op_illegal None, comp_entry rv_op_illegal None,
    comp_entry rv_op_illegal None, comp_entry rv_op_illegal None, comp_entry rv_op_illegal None,
    comp_entry rv_op_illegal None, comp_entry rv_op_illegal None, comp_entry rv_op_illegal None,
    comp_entry rv_op_illegal None, comp_entry rv_op_illegal None, comp_entry rv_op_illegal None,
    comp_entry rv_op_illegal None, comp_entry rv_op_illegal None, comp_entry rv_op_illegal None,
    comp_entry rv_op_illegal None, comp_entry rv_op_illegal None, comp_entry rv_op_illegal None,
    comp_entry rv_op_illegal None, comp_entry rv_op_illegal None, comp_entry rv_op_illegal None,
    comp_entry rv_op_illegal None, comp_entry rv_op_illegal None, comp_entry rv_op_illegal None,
    comp_entry rv_op_illegal None, comp_entry rv_op_illegal None, comp_entry rv_op_illegal None,
    comp_entry rv_op_illegal None, comp_entry rv_op_illegal None, comp_entry rv_op_illegal None,
    comp_entry rv_op_illegal None, comp_entry rv_op_illegal None, comp_entry rv_op_illegal None,
    comp_entry rv_op_illegal None, comp_entry rv_op_illegal None, comp_entry rv_op_illegal None,
    comp_entry rv_op_illegal None, comp_entry rv_op_illegal None, comp_entry rv_op_illegal None,
    comp_entry rv_op_illegal None, comp_entry rv_op_illegal None, comp_entry rv_op_illegal None,
    comp_entry rv_op_illegal None, comp_entry rv_op_illegal None, comp_entry rv_op_illegal None,
    comp_entry rv_op_illegal None, comp_entry rv_op_illegal None, comp_entry rv_op_illegal None,
    comp_entry rv_op_illegal None, comp_entry rv_op_illegal None, comp_entry rv_op_illegal None,
    comp_entry rv_op_illegal None, comp_entry rv_op_illegal None, comp_entry rv_op_illegal None,
    comp_entry rv_op_illegal None, comp_entry rv_op_illegal None, comp_entry rv_op_illegal None,
    comp_entry rv_op_illegal None, comp_entry rv_op_illegal None, comp_entry rv_op_illegal None,
    comp_entry rv_op_illegal None, comp_entry rv_op_illegal None, comp_entry rv_op_illegal None,
    comp_entry rv_op_illegal None, comp_entry rv_op_illegal None, comp_entry rv_op_illegal None,
    comp_entry rv_op_illegal None, comp_entry rv_op_illegal None, comp_entry rv_op_illegal None,
    comp_entry rv_op_illegal None, comp_entry rv_op_illegal None, comp_entry rv_op_illegal None,
    comp_entry rv_op_illegal None, comp_entry rv_op_illegal None, comp_entry rv_op_illegal None,
    comp_entry rv_op_illegal None, comp_entry rv_op_illegal None, comp_entry rv_op_illegal None,
    comp_entry rv_op_illegal None, comp_entry rv_op_illegal None, comp_entry rv_op_illegal None,
    comp_entry rv_op_illegal None, comp_entry rv_op_illegal None, comp_entry rv_op_illegal None,
    comp_entry rv_op_illegal None, comp_entry rv_op_illegal None, comp_entry rv_op_illegal None,
    comp_entry rv_op_illegal None, comp_entry rv_op_illegal None, comp_entry rv_op_illegal None,
    comp_entry rv_op_illegal None, comp_entry rv_op_illegal None, comp_entry rv_op_illegal None,
    comp_entry rv_op_illegal None, comp_entry rv_op_illegal None, comp_entry rv_op_illegal None,
    comp_entry rv_op_illegal None, comp_entry rv_op_illegal None, comp_entry rv_op_illegal None,
    comp_entry rv_op_illegal None, comp_entry rv_op_illegal None, comp_entry rv_op_illegal None,
    comp_entry rv_op_illegal None, comp_entry rv_op_illegal None, comp_entry rv_op_illegal None,
    comp_entry rv_op_illegal None, comp_entry rv_op_illegal None, comp_entry rv_op_illegal None,
    comp_entry rv_op_illegal None, comp_entry rv_op_illegal None, comp_entry rv_op_illegal None,
    comp_entry rv_op_illegal None, comp_entry rv_op_illegal None, comp_entry rv_op_illegal None,
    comp_entry rv_op_illegal None, comp_entry rv_op_illegal None, comp_entry rv_op_illegal None,
    comp_entry rv_op_illegal None, comp_entry rv_op_illegal None, comp_entry rv_op_addi (Some rvcc_nop),
    comp_entry rv_op_addi (Some rvcc_mv), comp_entry rv_op_xori (Some rvcc_not), comp_entry rv_op_sub (Some rvcc_neg),
    comp_entry rv_op_subw (Some rvcc_negw), comp_entry rv_op_addiw (Some rvcc_sext_w), comp_entry rv_op_sltiu (Some rvcc_seqz),
    comp_entry rv_op_sltu (Some rvcc_snez), comp_entry rv_op_slt (Some rvcc_sltz), comp_entry rv_op_slt (Some rvcc_sgtz),
    comp_entry rv_op_fsgnj_s (Some rvcc_fmv_s), comp_entry rv_op_fsgnjx_s (Some rvcc_fabs_s), comp_entry rv_op_fsgnjn_s (Some rvcc_fneg_s),
    comp_entry rv_op_fsgnj_d (Some rvcc_fmv_d), comp_entry rv_op_fsgnjx_d (Some rvcc_fabs_d), comp_entry rv_op_fsgnjn_d (Some rvcc_fneg_d),
    comp_entry rv_op_fsgnj_q (Some rvcc_fmv_q), comp_entry rv_op_fsgnjx_q (Some rvcc_fabs_q), comp_entry rv_op_fsgnjn_q (Some rvcc_fneg_q),
    comp_entry rv_op_beq (Some rvcc_beqz), comp_entry rv_op_bne (Some rvcc_bnez), comp_entry rv_op_bge (Some rvcc_blez),
    comp_entry rv_op_bge (Some rvcc_bgez), comp_entry rv_op_blt (Some rvcc_bltz), comp_entry rv_op_blt (Some rvcc_bgtz),
    comp_entry rv_op_bge (Some rvcc_ble), comp_entry rv_op_bgeu (Some rvcc_bleu), comp_entry rv_op_blt (Some rvcc_bgt),
    comp_entry rv_op_bltu (Some rvcc_bgtu), comp_entry rv_op_jal (Some rvcc_j), comp_entry rv_op_jalr (Some rvcc_ret),
    comp_entry rv_op_jalr (Some rvcc_jr), comp_entry rv_op_csrrs (Some rvcc_rdcycle), comp_entry rv_op_csrrs (Some rvcc_rdtime),
    comp_entry rv_op_csrrs (Some rvcc_rdinstret), comp_entry rv_op_csrrs (Some rvcc_rdcycleh), comp_entry rv_op_csrrs (Some rvcc_rdtimeh),
    comp_entry rv_op_csrrs (Some rvcc_rdinstreth), comp_entry rv_op_csrrs (Some rvcc_frcsr), comp_entry rv_op_csrrs (Some rvcc_frrm),
    comp_entry rv_op_csrrs (Some rvcc_frflags), comp_entry rv_op_csrrw (Some rvcc_fscsr), comp_entry rv_op_csrrw (Some rvcc_fsrm),
    comp_entry rv_op_csrrw (Some rvcc_fsflags), comp_entry rv_op_csrrwi (Some rvcc_fsrmi), comp_entry rv_op_csrrwi (Some rvcc_fsflagsi)]"

lemmas constraint_array_defs =
  rvcc_c_addi4spn_def rvcc_c_fld_def rvcc_c_lw_def rvcc_c_flw_def
  rvcc_c_fsd_def rvcc_c_sw_def rvcc_c_fsw_def rvcc_c_nop_def
  rvcc_c_addi_def rvcc_c_jal_def rvcc_c_li_def rvcc_c_addi16sp_def
  rvcc_c_lui_def rvcc_c_srli_rv32c_def rvcc_c_srai_rv32c_def rvcc_c_andi_def
  rvcc_c_sub_def rvcc_c_xor_def rvcc_c_or_def rvcc_c_and_def
  rvcc_c_subw_def rvcc_c_addw_def rvcc_c_j_def rvcc_c_beqz_def
  rvcc_c_bnez_def rvcc_c_slli_rv32c_def rvcc_c_fldsp_def rvcc_c_lwsp_def
  rvcc_c_flwsp_def rvcc_c_jr_def rvcc_c_mv_def rvcc_c_ebreak_def
  rvcc_c_jalr_def rvcc_c_add_def rvcc_c_fsdsp_def rvcc_c_swsp_def
  rvcc_c_fswsp_def rvcc_c_ld_def rvcc_c_sd_def rvcc_c_addiw_def
  rvcc_c_srli_rv64c_def rvcc_c_srai_rv64c_def rvcc_c_slli_rv64c_def rvcc_c_ldsp_def
  rvcc_c_sdsp_def rvcc_c_lq_def rvcc_c_sq_def rvcc_c_lqsp_def
  rvcc_c_sqsp_def rvcc_jal_def rvcc_jalr_def rvcc_nop_def
  rvcc_mv_def rvcc_not_def rvcc_neg_def rvcc_negw_def
  rvcc_sext_w_def rvcc_seqz_def rvcc_snez_def rvcc_sltz_def
  rvcc_sgtz_def rvcc_fmv_s_def rvcc_fabs_s_def rvcc_fneg_s_def
  rvcc_fmv_d_def rvcc_fabs_d_def rvcc_fneg_d_def rvcc_fmv_q_def
  rvcc_fabs_q_def rvcc_fneg_q_def rvcc_beqz_def rvcc_bnez_def
  rvcc_blez_def rvcc_bgez_def rvcc_bltz_def rvcc_bgtz_def
  rvcc_ble_def rvcc_bleu_def rvcc_bgt_def rvcc_bgtu_def
  rvcc_j_def rvcc_ret_def rvcc_jr_def rvcc_rdcycle_def
  rvcc_rdtime_def rvcc_rdinstret_def rvcc_rdcycleh_def rvcc_rdtimeh_def
  rvcc_rdinstreth_def rvcc_frcsr_def rvcc_frrm_def rvcc_frflags_def
  rvcc_fscsr_def rvcc_fsrm_def rvcc_fsflags_def rvcc_fsrmi_def
  rvcc_fsflagsi_def

lemmas comp_array_defs =
  rvcd_rv32_lui_def rvcd_rv32_jal_def rvcd_rv32_jalr_def rvcd_rv32_beq_def
  rvcd_rv32_bne_def rvcd_rv32_lw_def rvcd_rv32_sw_def rvcd_rv32_addi_def
  rvcd_rv32_andi_def rvcd_rv32_slli_def rvcd_rv32_srli_def rvcd_rv32_srai_def
  rvcd_rv32_add_def rvcd_rv32_sub_def rvcd_rv32_xor_def rvcd_rv32_or_def
  rvcd_rv32_and_def rvcd_rv32_ebreak_def rvcd_rv32_flw_def rvcd_rv32_fsw_def
  rvcd_rv32_fld_def rvcd_rv32_fsd_def rvcd_rv64_lui_def rvcd_rv64_jal_def
  rvcd_rv64_jalr_def rvcd_rv64_beq_def rvcd_rv64_bne_def rvcd_rv64_lw_def
  rvcd_rv64_sw_def rvcd_rv64_addi_def rvcd_rv64_andi_def rvcd_rv64_add_def
  rvcd_rv64_sub_def rvcd_rv64_xor_def rvcd_rv64_or_def rvcd_rv64_and_def
  rvcd_rv64_ld_def rvcd_rv64_sd_def rvcd_rv64_slli_def rvcd_rv64_srli_def
  rvcd_rv64_srai_def rvcd_rv64_addiw_def rvcd_rv64_addw_def rvcd_rv64_subw_def
  rvcd_rv64_ebreak_def rvcd_rv64_fld_def rvcd_rv64_fsd_def rvcd_rv128_lq_def
  rvcd_rv128_sq_def rvcp_jal_def rvcp_jalr_def rvcp_beq_def
  rvcp_bne_def rvcp_blt_def rvcp_bge_def rvcp_bltu_def
  rvcp_bgeu_def rvcp_addi_def rvcp_sltiu_def rvcp_xori_def
  rvcp_sub_def rvcp_slt_def rvcp_sltu_def rvcp_addiw_def
  rvcp_subw_def rvcp_csrrw_def rvcp_csrrs_def rvcp_csrrwi_def
  rvcp_fsgnj_s_def rvcp_fsgnjn_s_def rvcp_fsgnjx_s_def rvcp_fsgnj_d_def
  rvcp_fsgnjn_d_def rvcp_fsgnjx_d_def rvcp_fsgnj_q_def rvcp_fsgnjn_q_def
  rvcp_fsgnjx_q_def

lemma comp_table_lengths [simp]:
  "length rv_inst_pseudo = 318" "length rv_inst_depseudo = 318" "length rv_inst_comp_rv32 = 318"
  "length rv_inst_comp_rv64 = 318" "length rv_inst_comp_rv128 = 318"
  by (simp_all add: rv_inst_pseudo_def rv_inst_depseudo_def rv_inst_comp_rv32_def
      rv_inst_comp_rv64_def rv_inst_comp_rv128_def)

section \<open>The constraint interpreter\<close>

text \<open>One arm of the switch of \<^verbatim>\<open>constraint_check\<close>; the immediate is compared as a signed number.\<close>

definition constraint_holds :: "decode \<Rightarrow> rvc_constraint \<Rightarrow> bool" where
  "constraint_holds dec c =
    (let imm = dec_imm dec; rd = dec_rd dec; rs1 = dec_rs1 dec; rs2 = dec_rs2 dec in
     case c of
       rvc_simm_6 \<Rightarrow> - 32 \<le> sint imm \<and> sint imm < 32
     | rvc_imm_6 \<Rightarrow> sint imm \<le> 0b111111
     | rvc_imm_7 \<Rightarrow> sint imm \<le> 0b1111111
     | rvc_imm_8 \<Rightarrow> sint imm \<le> 0b11111111
     | rvc_imm_9 \<Rightarrow> sint imm \<le> 0b111111111
     | rvc_imm_10 \<Rightarrow> sint imm \<le> 0b1111111111
     | rvc_imm_12 \<Rightarrow> sint imm \<le> 0b111111111111
     | rvc_imm_18 \<Rightarrow> sint imm \<le> 0b111111111111111111
     | rvc_imm_nz \<Rightarrow> imm \<noteq> 0
     | rvc_imm_x2 \<Rightarrow> imm AND 0b1 = 0
     | rvc_imm_x4 \<Rightarrow> imm AND 0b11 = 0
     | rvc_imm_x8 \<Rightarrow> imm AND 0b111 = 0
     | rvc_imm_x16 \<Rightarrow> imm AND 0b1111 = 0
     | rvc_rd_b3 \<Rightarrow> 8 \<le> rd \<and> rd \<le> 15
     | rvc_rs1_b3 \<Rightarrow> 8 \<le> rs1 \<and> rs1 \<le> 15
     | rvc_rs2_b3 \<Rightarrow> 8 \<le> rs2 \<and> rs2 \<le> 15
     | rvc_rd_eq_rs1 \<Rightarrow> rd = rs1
     | rvc_rd_eq_ra \<Rightarrow> rd = 1
     | rvc_rd_eq_sp \<Rightarrow> rd = 2
     | rvc_rd_eq_x0 \<Rightarrow> rd = 0
     | rvc_rs1_eq_sp \<Rightarrow> rs1 = 2
     | rvc_rs1_eq_x0 \<Rightarrow> rs1 = 0
     | rvc_rs2_eq_x0 \<Rightarrow> rs2 = 0
     | rvc_rd_ne_x0_x2 \<Rightarrow> rd \<noteq> 0 \<and> rd \<noteq> 2
     | rvc_rd_ne_x0 \<Rightarrow> rd \<noteq> 0
     | rvc_rs1_ne_x0 \<Rightarrow> rs1 \<noteq> 0
     | rvc_rs2_ne_x0 \<Rightarrow> rs2 \<noteq> 0
     | rvc_rs2_eq_rs1 \<Rightarrow> rs2 = rs1
     | rvc_rs1_eq_ra \<Rightarrow> rs1 = 1
     | rvc_imm_eq_zero \<Rightarrow> imm = 0
     | rvc_imm_eq_n1 \<Rightarrow> imm = - 1
     | rvc_imm_eq_p1 \<Rightarrow> imm = 1
     | rvc_csr_eq_0x001 \<Rightarrow> imm = 0x001
     | rvc_csr_eq_0x002 \<Rightarrow> imm = 0x002
     | rvc_csr_eq_0x003 \<Rightarrow> imm = 0x003
     | rvc_csr_eq_0xc00 \<Rightarrow> imm = 0xc00
     | rvc_csr_eq_0xc01 \<Rightarrow> imm = 0xc01
     | rvc_csr_eq_0xc02 \<Rightarrow> imm = 0xc02
     | rvc_csr_eq_0xc80 \<Rightarrow> imm = 0xc80
     | rvc_csr_eq_0xc81 \<Rightarrow> imm = 0xc81
     | rvc_csr_eq_0xc82 \<Rightarrow> imm = 0xc82
     | _ \<Rightarrow> True)"

fun constraint_check :: "decode \<Rightarrow> rvc_constraint list \<Rightarrow> bool option" where
  "constraint_check dec [] = None"
| "constraint_check dec (c # cs) =
    (if c = rvc_end then Some True
     else if \<not> constraint_holds dec c then Some False
     else constraint_check dec cs)"

definition constraint_assign :: "decode \<Rightarrow> rvc_constraint \<Rightarrow> decode" where
  "constraint_assign dec c =
    (case c of
       rvc_rd_eq_rs1 \<Rightarrow> dec\<lparr>dec_rd := dec_rs1 dec\<rparr>
     | rvc_rd_eq_ra \<Rightarrow> dec\<lparr>dec_rd := 1\<rparr>
     | rvc_rd_eq_sp \<Rightarrow> dec\<lparr>dec_rd := 2\<rparr>
     | rvc_rd_eq_x0 \<Rightarrow> dec\<lparr>dec_rd := 0\<rparr>
     | rvc_rs1_eq_sp \<Rightarrow> dec\<lparr>dec_rs1 := 2\<rparr>
     | rvc_rs1_eq_x0 \<Rightarrow> dec\<lparr>dec_rs1 := 0\<rparr>
     | rvc_rs2_eq_x0 \<Rightarrow> dec\<lparr>dec_rs2 := 0\<rparr>
     | rvc_rs2_eq_rs1 \<Rightarrow> dec\<lparr>dec_rs2 := dec_rs1 dec\<rparr>
     | rvc_rs1_eq_ra \<Rightarrow> dec\<lparr>dec_rs1 := 1\<rparr>
     | rvc_imm_eq_zero \<Rightarrow> dec\<lparr>dec_imm := 0\<rparr>
     | rvc_imm_eq_n1 \<Rightarrow> dec\<lparr>dec_imm := - 1\<rparr>
     | rvc_imm_eq_p1 \<Rightarrow> dec\<lparr>dec_imm := 1\<rparr>
     | rvc_csr_eq_0x001 \<Rightarrow> dec\<lparr>dec_imm := 0x001\<rparr>
     | rvc_csr_eq_0x002 \<Rightarrow> dec\<lparr>dec_imm := 0x002\<rparr>
     | rvc_csr_eq_0x003 \<Rightarrow> dec\<lparr>dec_imm := 0x003\<rparr>
     | rvc_csr_eq_0xc00 \<Rightarrow> dec\<lparr>dec_imm := 0xc00\<rparr>
     | rvc_csr_eq_0xc01 \<Rightarrow> dec\<lparr>dec_imm := 0xc01\<rparr>
     | rvc_csr_eq_0xc02 \<Rightarrow> dec\<lparr>dec_imm := 0xc02\<rparr>
     | rvc_csr_eq_0xc80 \<Rightarrow> dec\<lparr>dec_imm := 0xc80\<rparr>
     | rvc_csr_eq_0xc81 \<Rightarrow> dec\<lparr>dec_imm := 0xc81\<rparr>
     | rvc_csr_eq_0xc82 \<Rightarrow> dec\<lparr>dec_imm := 0xc82\<rparr>
     | _ \<Rightarrow> dec)"

fun constraint_set :: "decode \<Rightarrow> rvc_constraint list \<Rightarrow> decode option" where
  "constraint_set dec [] = None"
| "constraint_set dec (c # cs) =
    (if c = rvc_end then Some dec else constraint_set (constraint_assign dec c) cs)"

section \<open>Terminated arrays\<close>

definition comp_terminated :: "rv_comp_data list \<Rightarrow> bool" where
  "comp_terminated cds \<longleftrightarrow> list_ex (\<lambda>cd. comp_constraints cd = None) cds \<and>
     list_all (\<lambda>cd. case comp_constraints cd of None \<Rightarrow> True | Some cs \<Rightarrow> rvc_end \<in> set cs) cds"

lemma constraint_check_terminated: "rvc_end \<in> set cs \<Longrightarrow> constraint_check dec cs \<noteq> None"
  by (induction cs) auto

lemma constraint_set_terminated: "rvc_end \<in> set cs \<Longrightarrow> constraint_set dec cs \<noteq> None"
  by (induction cs arbitrary: dec) auto

text \<open>What a constraint list demands: every constraint before the terminator.\<close>

lemma constraint_check_iff:
  "constraint_check dec cs = Some True \<longleftrightarrow>
    rvc_end \<in> set cs \<and> list_all (constraint_holds dec) (takeWhile (\<lambda>c. c \<noteq> rvc_end) cs)"
  by (induction cs) auto

text \<open>Where a constraint holds, assigning it changes nothing.\<close>

lemma constraint_assign_id: "constraint_holds dec c \<Longrightarrow> constraint_assign dec c = dec"
  by (cases c) (simp_all add: constraint_holds_def constraint_assign_def)

lemma constraint_set_id: "constraint_check dec cs = Some True \<Longrightarrow> constraint_set dec cs = Some dec"
  by (induction cs) (auto simp: constraint_assign_id split: if_splits)

end
