(* ===== verification/Rv_Codec.thy ===== *)
theory Rv_Codec
  imports Rv_Switch_Laws Rv_Format_Laws Rv_Constraints
begin

text \<open>
  The codec of \<^verbatim>\<open>src/src/asm/codec.h\<close>: instruction length and fetch, decoding with decompression
  for the three base ISAs, compression, and pseudo-instructions.

  The functions update the decoded instruction in place and some return a \<^verbatim>\<open>bool\<close>; here they
  return the pair.  \<open>None\<close> is a walk past the end of a constraint or alternatives array; the laws
  below show that no call on a table opcode has this result.
\<close>

section \<open>Instruction length and fetch\<close>

definition inst_length :: "inst_t \<Rightarrow> nat" where
  "inst_length inst =
    (if inst AND 0b11 \<noteq> 0b11 then 2
     else if inst AND 0b11100 \<noteq> 0b11100 then 4
     else if inst AND 0b111111 = 0b011111 then 6
     else if inst AND 0b1111111 = 0b0111111 then 8
     else 0)"

text \<open>Little-endian reads of memory bytes, as \<^verbatim>\<open>htole16\<close>/\<^verbatim>\<open>htole32\<close> of the host access give them.\<close>

definition read_le16 :: "(u64 \<Rightarrow> u8) \<Rightarrow> u64 \<Rightarrow> inst_t" where
  "read_le16 mem addr = ucast (mem addr) OR push_bit 8 (ucast (mem (addr + 1)))"

definition read_le32 :: "(u64 \<Rightarrow> u8) \<Rightarrow> u64 \<Rightarrow> inst_t" where
  "read_le32 mem addr = read_le16 mem addr OR push_bit 16 (read_le16 mem (addr + 2))"

definition inst_fetch :: "(u64 \<Rightarrow> u8) \<Rightarrow> u64 \<Rightarrow> inst_t \<times> u64" where
  "inst_fetch mem addr =
    (let inst = read_le32 mem addr in
     if inst AND 0b11 \<noteq> 0b11 then (inst AND 0xffff, 2)
     else if inst AND 0b11100 \<noteq> 0b11100 then (inst, 4)
     else if inst AND 0b111111 = 0b011111 then (inst OR push_bit 32 (read_le16 mem (addr + 4)), 6)
     else if inst AND 0b1111111 = 0b0111111 then (inst OR push_bit 32 (read_le32 mem (addr + 4)), 8)
     else (0, 0))"

section \<open>Decompression and decoding\<close>

definition set_op :: "decode \<Rightarrow> opcode \<Rightarrow> decode" where
  "set_op dec opc = dec\<lparr>dec_op := opc, dec_codec := rv_inst_codec ! opc\<rparr>"

definition decompress_inst_rv32 :: "decode \<Rightarrow> decode" where
  "decompress_inst_rv32 dec =
    (let decomp_op = rv_inst_decomp_rv32 ! dec_op dec in
     if decomp_op \<noteq> rv_op_illegal then set_op dec decomp_op else dec)"

definition decompress_inst_rv64 :: "decode \<Rightarrow> decode" where
  "decompress_inst_rv64 dec =
    (let decomp_op = rv_inst_decomp_rv64 ! dec_op dec in
     if decomp_op \<noteq> rv_op_illegal then set_op dec decomp_op else dec)"

definition decompress_inst_rv128 :: "decode \<Rightarrow> decode" where
  "decompress_inst_rv128 dec =
    (let decomp_op = rv_inst_decomp_rv128 ! dec_op dec in
     if decomp_op \<noteq> rv_op_illegal then set_op dec decomp_op else dec)"

definition decode_inst :: "isa \<Rightarrow> decode \<Rightarrow> inst_t \<Rightarrow> decode" where
  "decode_inst cfg dec inst = decode_inst_type (dec\<lparr>dec_op := decode_inst_op cfg inst\<rparr>) inst"

definition decode_inst_rv32 :: "decode \<Rightarrow> inst_t \<Rightarrow> decode" where
  "decode_inst_rv32 dec inst = decompress_inst_rv32 (decode_inst (isa_all True False False) dec inst)"

definition decode_inst_rv64 :: "decode \<Rightarrow> inst_t \<Rightarrow> decode" where
  "decode_inst_rv64 dec inst = decompress_inst_rv64 (decode_inst (isa_all False True False) dec inst)"

definition decode_inst_rv128 :: "decode \<Rightarrow> inst_t \<Rightarrow> decode" where
  "decode_inst_rv128 dec inst = decompress_inst_rv128 (decode_inst (isa_all False False True) dec inst)"

section \<open>Compression and pseudo-instructions\<close>

text \<open>The loop over alternatives: the first whose constraints hold replaces the opcode.\<close>

fun comp_search :: "decode \<Rightarrow> rv_comp_data list \<Rightarrow> (bool \<times> decode) option" where
  "comp_search dec [] = None"
| "comp_search dec (cd # cds) =
    (case comp_constraints cd of
       None \<Rightarrow> Some (False, dec)
     | Some cs \<Rightarrow>
        (case constraint_check dec cs of
           None \<Rightarrow> None
         | Some b \<Rightarrow> if b then Some (True, set_op dec (comp_op cd)) else comp_search dec cds))"

definition decode_pseudo_inst :: "decode \<Rightarrow> (bool \<times> decode) option" where
  "decode_pseudo_inst dec =
    (case rv_inst_pseudo ! dec_op dec of
       None \<Rightarrow> Some (False, dec) | Some cds \<Rightarrow> comp_search dec cds)"

definition compress_inst_rv32 :: "decode \<Rightarrow> (bool \<times> decode) option" where
  "compress_inst_rv32 dec =
    (case rv_inst_comp_rv32 ! dec_op dec of
       None \<Rightarrow> Some (False, dec) | Some cds \<Rightarrow> comp_search dec cds)"

definition compress_inst_rv64 :: "decode \<Rightarrow> (bool \<times> decode) option" where
  "compress_inst_rv64 dec =
    (case rv_inst_comp_rv64 ! dec_op dec of
       None \<Rightarrow> Some (False, dec) | Some cds \<Rightarrow> comp_search dec cds)"

definition compress_inst_rv128 :: "decode \<Rightarrow> (bool \<times> decode) option" where
  "compress_inst_rv128 dec =
    (case rv_inst_comp_rv128 ! dec_op dec of
       None \<Rightarrow> Some (False, dec) | Some cds \<Rightarrow> comp_search dec cds)"

definition encode_pseudo :: "decode \<Rightarrow> (bool \<times> decode) option" where
  "encode_pseudo dec =
    (let cd = rv_inst_depseudo ! dec_op dec in
     case comp_constraints cd of
       None \<Rightarrow> Some (False, dec)
     | Some cs \<Rightarrow> map_option (Pair True) (constraint_set (set_op dec (comp_op cd)) cs))"

section \<open>Fetch\<close>

lemma read_le16_high: "read_le16 mem addr AND push_bit 16 x = 0"
  by (rule bit_word_eqI) (auto simp: read_le16_def bit_simps dest: bit_imp_le_length)

lemma read_le32_high: "read_le32 mem addr AND push_bit 32 x = 0"
  by (rule bit_word_eqI) (auto simp: read_le32_def read_le16_def bit_simps dest: bit_imp_le_length)

lemma read_le32_low: "read_le32 mem addr AND 0xffffffff = read_le32 mem addr"
proof -
  have "read_le32 mem addr AND mask 32 = read_le32 mem addr"
    by (rule bit_word_eqI) (auto simp: read_le32_def read_le16_def bit_simps dest: bit_imp_le_length)
  then show ?thesis by (simp add: mask_eq_exp_minus_1)
qed

section \<open>Interface: tables of alternatives that a second table undoes\<close>

lemma comp_search_total: "comp_terminated cds \<Longrightarrow> comp_search dec cds \<noteq> None"
proof (induction cds)
  case (Cons cd cds)
  then show ?case
    using constraint_check_terminated [of _ dec]
    by (fastforce simp: comp_terminated_def split: option.splits)
qed (simp add: comp_terminated_def)

lemma comp_search_found:
  "comp_search dec cds = Some (True, dec') \<Longrightarrow>
    \<exists>cd \<in> set cds. \<exists>cs. comp_constraints cd = Some cs \<and> constraint_check dec cs = Some True \<and>
      dec' = set_op dec (comp_op cd)"
  by (induction cds) (auto split: option.splits if_splits)

lemma comp_search_kept: "comp_search dec cds = Some (False, dec') \<Longrightarrow> dec' = dec"
  by (induction cds) (auto split: option.splits if_splits)

text \<open>\<open>alternatives\<close> is a table of \<^verbatim>\<open>rv_comp_data\<close> arrays, \<open>undoes opc cd\<close> that entry \<open>cd\<close> leads back to \<open>opc\<close>.\<close>

locale comp_table =
  fixes alternatives :: "rv_comp_data list option list"
    and undoes :: "opcode \<Rightarrow> rv_comp_data \<Rightarrow> bool"
  assumes table_size: "length alternatives = 318"
    and table_ok: "all_from 0 (\<lambda>opc entry. case entry of None \<Rightarrow> True | Some cds \<Rightarrow>
      comp_terminated cds \<and> list_all (\<lambda>cd. comp_constraints cd = None \<or> undoes opc cd) cds)
      alternatives"
begin

definition search :: "decode \<Rightarrow> (bool \<times> decode) option" where
  "search dec = (case alternatives ! dec_op dec of
     None \<Rightarrow> Some (False, dec) | Some cds \<Rightarrow> comp_search dec cds)"

lemma entry_ok:
  assumes "opc < 318" and "alternatives ! opc = Some cds"
  shows "comp_terminated cds" "cd \<in> set cds \<Longrightarrow> comp_constraints cd \<noteq> None \<Longrightarrow> undoes opc cd"
proof -
  have "comp_terminated cds \<and> list_all (\<lambda>cd. comp_constraints cd = None \<or> undoes opc cd) cds"
    using all_from_nth [OF table_ok, of opc] assms table_size by simp
  then show "comp_terminated cds" "cd \<in> set cds \<Longrightarrow> comp_constraints cd \<noteq> None \<Longrightarrow> undoes opc cd"
    by (auto simp: list_all_iff)
qed

lemma search_total: "dec_op dec < 318 \<Longrightarrow> search dec \<noteq> None"
  unfolding search_def using entry_ok(1) comp_search_total by (cases "alternatives ! dec_op dec") auto

lemma search_found:
  assumes "dec_op dec < 318" and "search dec = Some (True, dec')"
  obtains cd cs where "undoes (dec_op dec) cd" and "comp_constraints cd = Some cs"
    and "constraint_check dec cs = Some True" and "dec' = set_op dec (comp_op cd)"
proof -
  obtain cds where cds: "alternatives ! dec_op dec = Some cds" "comp_search dec cds = Some (True, dec')"
    using assms(2) by (auto simp: search_def split: option.splits)
  then obtain cd cs where "cd \<in> set cds" "comp_constraints cd = Some cs"
    "constraint_check dec cs = Some True" "dec' = set_op dec (comp_op cd)"
    using comp_search_found by blast
  then show ?thesis using entry_ok(2) [OF assms(1) cds(1)] that by auto
qed

lemma search_kept: "search dec = Some (False, dec') \<Longrightarrow> dec' = dec"
  unfolding search_def by (auto split: option.splits dest: comp_search_kept)

lemma search_shape:
  assumes "dec_op dec < 318"
  shows "\<exists>b opc. search dec = Some (b, if b then set_op dec opc else dec)"
proof -
  obtain b dec' where s: "search dec = Some (b, dec')" using search_total [OF assms] by auto
  show ?thesis
  proof (cases b)
    case True
    with s have "search dec = Some (True, dec')" by simp
    then obtain opc where "dec' = set_op dec opc" by (rule search_found [OF assms]) blast
    with s True show ?thesis by auto
  next
    case False
    with s have "dec' = dec" using search_kept by simp
    with s False show ?thesis by auto
  qed
qed

end

interpretation comp_rv32: comp_table rv_inst_comp_rv32
  "\<lambda>opc cd. rv_inst_decomp_rv32 ! comp_op cd = opc \<and> opc \<noteq> rv_op_illegal"
  by unfold_locales (simp_all add: rv_inst_comp_rv32_def comp_array_defs constraint_array_defs
      comp_entry_def rv_inst_decomp_rv32_def comp_terminated_def)

interpretation comp_rv64: comp_table rv_inst_comp_rv64
  "\<lambda>opc cd. rv_inst_decomp_rv64 ! comp_op cd = opc \<and> opc \<noteq> rv_op_illegal"
  by unfold_locales (simp_all add: rv_inst_comp_rv64_def comp_array_defs constraint_array_defs
      comp_entry_def rv_inst_decomp_rv64_def comp_terminated_def)

interpretation comp_rv128: comp_table rv_inst_comp_rv128
  "\<lambda>opc cd. rv_inst_decomp_rv128 ! comp_op cd = opc \<and> opc \<noteq> rv_op_illegal"
  by unfold_locales (simp_all add: rv_inst_comp_rv128_def comp_array_defs constraint_array_defs
      comp_entry_def rv_inst_decomp_rv128_def comp_terminated_def)

interpretation pseudo: comp_table rv_inst_pseudo
  "\<lambda>opc cd. rv_inst_depseudo ! comp_op cd = \<lparr>comp_op = opc, comp_constraints = comp_constraints cd\<rparr>"
  by unfold_locales (simp_all add: rv_inst_pseudo_def comp_array_defs constraint_array_defs
      comp_entry_def rv_inst_depseudo_def comp_terminated_def)

lemma search_eqs:
  "compress_inst_rv32 = comp_rv32.search" "compress_inst_rv64 = comp_rv64.search"
  "compress_inst_rv128 = comp_rv128.search" "decode_pseudo_inst = pseudo.search"
  by (simp_all add: fun_eq_iff compress_inst_rv32_def compress_inst_rv64_def
      compress_inst_rv128_def decode_pseudo_inst_def comp_rv32.search_def comp_rv64.search_def
      comp_rv128.search_def pseudo.search_def)

section \<open>Compression, then decompression\<close>

lemma set_op_fields [simp]:
  "dec_op (set_op dec opc) = opc" "set_op (set_op dec opc) opd = set_op dec opd"
  by (simp_all add: set_op_def)

lemma set_op_same: "dec_codec dec = rv_inst_codec ! dec_op dec \<Longrightarrow> set_op dec (dec_op dec) = dec"
  by (simp add: set_op_def)

lemma constraint_check_set_op [simp]: "constraint_check (set_op dec opc) cs = constraint_check dec cs"
proof (induction cs)
  case (Cons c cs)
  have "constraint_holds (set_op dec opc) c = constraint_holds dec c"
    by (cases c) (simp_all add: constraint_holds_def set_op_def)
  with Cons show ?case by simp
qed simp

lemma decompress_compress_rv32:
  "dec_op d < 318 \<Longrightarrow> compress_inst_rv32 d = Some (True, d') \<Longrightarrow>
    decompress_inst_rv32 d' = set_op d (dec_op d)"
  unfolding search_eqs by (erule comp_rv32.search_found) (auto simp: decompress_inst_rv32_def)

lemma decompress_compress_rv64:
  "dec_op d < 318 \<Longrightarrow> compress_inst_rv64 d = Some (True, d') \<Longrightarrow>
    decompress_inst_rv64 d' = set_op d (dec_op d)"
  unfolding search_eqs by (erule comp_rv64.search_found) (auto simp: decompress_inst_rv64_def)

lemma decompress_compress_rv128:
  "dec_op d < 318 \<Longrightarrow> compress_inst_rv128 d = Some (True, d') \<Longrightarrow>
    decompress_inst_rv128 d' = set_op d (dec_op d)"
  unfolding search_eqs by (erule comp_rv128.search_found) (auto simp: decompress_inst_rv128_def)

lemma encode_decode_pseudo:
  "dec_op d < 318 \<Longrightarrow> decode_pseudo_inst d = Some (True, d') \<Longrightarrow>
    encode_pseudo d' = Some (True, set_op d (dec_op d))"
  unfolding search_eqs
  by (erule pseudo.search_found) (auto simp: encode_pseudo_def constraint_set_id)

end
