(* ===== verification/Rv_Codec_Laws.thy ===== *)
theory Rv_Codec_Laws
  imports Rv_Codec
begin

text \<open>
  Round trips of whole instructions: assembling what was disassembled gives the same word, and
  disassembling what was assembled gives the same instruction.  They combine the laws of the opcode
  decoder, of the instruction formats and of the tables.
\<close>

section \<open>Tables and formats fit together\<close>

definition inst_bits :: "inst_t \<Rightarrow> inst_t" where
  "inst_bits inst = (if inst AND 0b11 = 0b11 then 0xffffffff else 0xffff)"

text \<open>
  What the encoder of a format writes: every operand the decoder reads, but for the format \<open>cs\<close>, whose encoder writes the
  first register into the field of the second source register too.
\<close>

definition as_encoded :: "rv_codec \<Rightarrow> decode \<Rightarrow> decode" where
  "as_encoded c d = (if c = rv_codec_cs then d\<lparr>dec_rs2 := dec_rd d\<rparr> else d)"

lemma cs_fields:
  "operand_segs operand_crs1rdq = operand_segs operand_crs1q" "operand_segs operand_crs2q = operand_segs operand_crdq"
  by (simp_all add: operand_defs)

lemma cs_roundtrip:
  assumes ok: "format_ok rv_codec_cs d" and m: "m AND format_mask rv_codec_cs = 0"
  shows "\<exists>bits. encode_inst_type rv_codec_cs d = Some bits \<and>
    same_operands rv_codec_cs (decode_inst_codec rv_codec_cs d0 (m OR bits)) (d\<lparr>dec_rs2 := dec_rd d\<rparr>)"
proof -
  note mm = decode_raw_match [OF m]
  show ?thesis using ok mm
    by (simp add: decode_inst_codec_def encode_inst_type_def cs_fields
        decode_format_defs encode_format_defs assert_then_def same_operands_def rv_codec_simps)
qed

lemma format_roundtrip_all:
  assumes "format_ok c d" and "m AND format_mask c = 0"
  shows "\<exists>bits. encode_inst_type c d = Some bits \<and> same_operands c (decode_inst_codec c d0 (m OR bits)) (as_encoded c d)"
  using format_roundtrip [OF assms(1) _ assms(2)] cs_roundtrip [of d m] assms
  by (cases "c = rv_codec_cs") (simp_all add: as_encoded_def)

definition encoder_mask :: "rv_codec \<Rightarrow> inst_t" where
  "encoder_mask c = (if c = rv_codec_cs then 0x380 else format_mask c)"

definition second_source :: "rv_codec \<Rightarrow> inst_t \<Rightarrow> inst_t" where
  "second_source c inst = (if c = rv_codec_cs then drop_bit 5 (inst AND 0x380) else 0)"

lemma cs_second_source:
  "imm_operand_encode (operand_segs operand_crdq) (ucast (ucast (imm_operand_decode (operand_segs operand_crs1q) inst + 8) :: u8) + 8) =
    drop_bit 5 (inst AND 0x380)"
proof -
  have "imm_operand_decode (operand_segs operand_crs1q) inst = imm_operand_decode (operand_segs operand_crdq) (drop_bit 5 inst)"
    by (simp add: operand_defs S_shift_def B_width_def B_mask_def)
  then have "imm_operand_encode (operand_segs operand_crdq) (ucast (ucast (imm_operand_decode (operand_segs operand_crs1q) inst + 8) :: u8) + 8)
      = drop_bit 5 inst AND field_mask (operand_segs operand_crdq)"
    by (simp add: rv_codec_simps)
  then show ?thesis by (simp add: rv_codec_simps)
qed

lemma format_reassemble_all:
  assumes "c \<noteq> rv_codec_illegal"
  shows "encode_inst_type c (decode_inst_codec c d0 inst) = Some (inst AND encoder_mask c OR second_source c inst)"
proof (cases "c = rv_codec_cs")
  case True
  then show ?thesis
    by (simp add: encoder_mask_def second_source_def decode_inst_codec_def encode_inst_type_def cs_fields cs_second_source
        decode_format_defs encode_format_defs assert_then_def rv_codec_simps or.commute)
qed (simp add: encoder_mask_def second_source_def format_reassemble assms)

text \<open>
  The bits of an instruction that its decoded form determines: all of them, but for the bits that the two fence instructions
  ignore and the second source register of the format \<open>cs\<close>.
\<close>

definition kept_bits :: "opcode \<Rightarrow> inst_t" where
  "kept_bits opc =
    (if opc = rv_op_fence then 0x0ff0707f else if opc = rv_op_fence_i then 0x707f
     else if rv_inst_codec ! opc = rv_codec_cs then 0xffe3 else inst_bits (rv_inst_match ! opc))"

text \<open>Operands and fixed bits do not overlap.\<close>

definition op_free :: "opcode \<Rightarrow> bool" where
  "op_free opc \<longleftrightarrow> rv_inst_mask ! opc AND format_mask (rv_inst_codec ! opc) = 0"

lemmas table_check_defs = rv_inst_mask_def rv_inst_match_def rv_inst_codec_def inst_bits_def

lemma table_coherent:
  "all_from 0 (\<lambda>opc (m, t, c). opc = 0 \<or> opc \<ge> 268 \<or>
     m AND 0b11 = 0b11 \<and> t AND m = t \<and> c \<noteq> rv_codec_illegal \<and>
     m OR encoder_mask c = (if opc = rv_op_fence then 0x0ff0707f else if opc = rv_op_fence_i then 0x707f
       else if c = rv_codec_cs then 0xffe3 else inst_bits t))
   (zip rv_inst_mask (zip rv_inst_match rv_inst_codec))"
  by (simp add: table_check_defs encoder_mask_def)

lemma op_tables:
  assumes "op_enabled cfg opc"
  shows "rv_inst_mask ! opc AND 0b11 = 0b11"
    and "rv_inst_match ! opc AND rv_inst_mask ! opc = rv_inst_match ! opc"
    and "rv_inst_codec ! opc \<noteq> rv_codec_illegal"
    and "rv_inst_mask ! opc OR encoder_mask (rv_inst_codec ! opc) = kept_bits opc"
  using all_from_nth [OF table_coherent, of opc] op_enabled_less [OF assms]
  by (auto simp: kept_bits_def)

section \<open>Disassemble, then assemble\<close>

lemma decode_inst_fields:
  "dec_op (decode_inst_codec c d inst) = dec_op d"
  "dec_codec (decode_inst_codec c d inst) = dec_codec d"
  by (cases c; simp add: decode_inst_codec_def decode_format_defs)+

lemma codec_update_same: "dec_codec d = c \<Longrightarrow> d\<lparr>dec_codec := c\<rparr> = d"
  by (cases d) simp

lemma decode_inst_op_field [simp]: "dec_op (decode_inst cfg d inst) = decode_inst_op cfg inst"
  by (simp add: decode_inst_def decode_inst_type_def Let_def decode_inst_fields)

lemma encode_decode_inst:
  assumes "decode_inst_op cfg inst = opc" and "opc \<noteq> rv_op_illegal"
  shows "encode_inst (decode_inst cfg d inst) = Some (inst AND kept_bits opc OR second_source (rv_inst_codec ! opc) inst, decode_inst cfg d inst)"
proof -
  have en: "op_enabled cfg opc" and ag: "agrees opc inst"
    using decode_inst_op_ok [of cfg inst] assms(1,2) by (auto simp: decoded_ok_def)
  note tables = op_tables [OF en]
  let ?c = "rv_inst_codec ! opc"
  have word: "rv_inst_match ! opc OR (inst AND encoder_mask ?c) = inst AND kept_bits opc"
    using ag tables(4) [symmetric] by (simp add: agrees_def bit.conj_disj_distrib)
  have dec: "decode_inst cfg d inst = decode_inst_codec ?c (d\<lparr>dec_op := opc, dec_codec := ?c\<rparr>) inst"
    by (simp add: decode_inst_def decode_inst_type_def assms(1))
  then show ?thesis
    using format_reassemble_all [OF tables(3)] word
    by (simp add: encode_inst_def Let_def decode_inst_fields codec_update_same or.assoc [symmetric])
qed

section \<open>Assemble, then disassemble\<close>

lemma encode_raw_within [rv_codec_simps]:
  "wf_operand segs \<Longrightarrow> field_mask segs AND M = field_mask segs \<Longrightarrow>
    imm_operand_encode segs x AND M = imm_operand_encode segs x"
  by (rule operand_layout.encode_mask) simp_all

lemma format_bits_within:
  assumes "encode_inst_type c d = Some bits"
  shows "bits AND format_mask c = bits"
  using assms by (cases c) (auto simp: encode_inst_type_def encode_format_defs assert_then_def
      rv_codec_simps bit.conj_disj_distrib2 split: if_splits)

text \<open>Operands for which the word is not the encoding of a more specific compressed opcode.\<close>

definition operands_unshadowed :: "decode \<Rightarrow> bool" where
  "operands_unshadowed d \<longleftrightarrow>
     (if dec_op d = rv_op_c_addi then dec_rd d \<noteq> 0 \<or> dec_imm d \<noteq> 0
      else if dec_op d = rv_op_c_lui then dec_rd d \<noteq> 2
      else if dec_op d = rv_op_c_mv \<or> dec_op d = rv_op_c_jalr then dec_rs1 d \<noteq> 0
      else if dec_op d = rv_op_c_add then dec_rs2 d \<noteq> 0
      else True)"

lemma decode_raw_known:
  assumes "inst AND M = C" and "wf_operand segs" and "field_mask segs AND M = field_mask segs"
  shows "imm_operand_decode segs inst = imm_operand_decode segs C"
proof -
  have "inst AND field_mask segs = C AND field_mask segs"
    using assms(1,3) by (rule and_subset)
  then show ?thesis
    by (metis assms(2) layoutI operand_layout.decode_field)
qed

lemma shadowing_operands:
  "agrees rv_op_c_nop inst \<Longrightarrow> dec_rd (decode_ci d inst) = 0 \<and> dec_imm (decode_ci d inst) = 0"
  "agrees rv_op_c_addi16sp inst \<Longrightarrow> dec_rd (decode_ci_lui d inst) = 2"
  "agrees rv_op_c_jr inst \<Longrightarrow> dec_rs1 (decode_cr_mv d inst) = 0"
  "agrees rv_op_c_ebreak inst \<Longrightarrow> dec_rs1 (decode_cr_jalr d inst) = 0"
  "agrees rv_op_c_ebreak inst \<or> agrees rv_op_c_jalr inst \<Longrightarrow> dec_rs2 (decode_cr d inst) = 0"
proof -
  note simps = agrees_def table_check_defs decode_format_defs rv_codec_simps
  note eval = operand_defs S_shift_def B_width_def B_mask_def sign_extend_def
  show "agrees rv_op_c_nop inst \<Longrightarrow> dec_rd (decode_ci d inst) = 0 \<and> dec_imm (decode_ci d inst) = 0"
    by (simp add: simps decode_raw_known [where inst = inst and M = "0xffff" and C = "1"]) (simp add: eval)
  show "agrees rv_op_c_addi16sp inst \<Longrightarrow> dec_rd (decode_ci_lui d inst) = 2"
    by (simp add: simps decode_raw_known [where inst = inst and M = "0xef83" and C = "0x6101"]) (simp add: eval)
  show "agrees rv_op_c_jr inst \<Longrightarrow> dec_rs1 (decode_cr_mv d inst) = 0"
    by (simp add: simps decode_raw_known [where inst = inst and M = "0xf07f" and C = "0x8002"]) (simp add: eval)
  show "agrees rv_op_c_ebreak inst \<Longrightarrow> dec_rs1 (decode_cr_jalr d inst) = 0"
    by (simp add: simps decode_raw_known [where inst = inst and M = "0xffff" and C = "0x9002"]) (simp add: eval)
  assume "agrees rv_op_c_ebreak inst \<or> agrees rv_op_c_jalr inst"
  then have "inst AND 0xf07f = 0x9002"
    using and_subset [of inst "0xffff" "0x9002" "0xf07f"] by (auto simp: agrees_def table_check_defs)
  then show "dec_rs2 (decode_cr d inst) = 0"
    by (simp add: simps decode_raw_known [where inst = inst and M = "0xf07f" and C = "0x9002"]) (simp add: eval)
qed

lemma same_operands_codec [simp]:
  "same_operands c e (d\<lparr>dec_codec := x\<rparr>) = same_operands c e d"
  by (simp add: same_operands_def)

lemma decode_inst_op_encoded:
  assumes "op_enabled cfg (dec_op d)" and "agrees (dec_op d) inst" and "operands_unshadowed d"
    and "c = rv_inst_codec ! dec_op d" and "same_operands c (decode_inst_codec c d0 inst) d"
  shows "decode_inst_op cfg inst = dec_op d"
proof (cases "dec_op d \<in> {234, 238, 256, 258, 259}")
  case True
  note shadow = shadowing_operands [of inst d0]
  note simps = operands_unshadowed_def same_operands_def decode_inst_codec_def rv_inst_codec_def
  have "dec_op d = 234 \<Longrightarrow> \<not> agrees rv_op_c_nop inst"
    and "dec_op d = 238 \<Longrightarrow> \<not> agrees rv_op_c_addi16sp inst"
    and "dec_op d = 256 \<Longrightarrow> \<not> agrees rv_op_c_jr inst"
    and "dec_op d = 258 \<Longrightarrow> \<not> agrees rv_op_c_ebreak inst"
    and "dec_op d = 259 \<Longrightarrow> \<not> (agrees rv_op_c_ebreak inst \<or> agrees rv_op_c_jalr inst)"
    using shadow assms(3-5) by (force simp: simps)+
  then have "decodes_as cfg inst (dec_op d)"
    using True decodes_as_shadowed [of inst cfg] by auto
  then show ?thesis using assms(1,2) by (simp add: decodes_as_def)
next
  case False
  then show ?thesis
    using decodes_as_unshadowed [of "dec_op d" cfg inst] op_enabled_less [OF assms(1)] assms(1,2)
    by (simp add: decodes_as_def)
qed

text \<open>Fields of the operands that the opcode fixes, such as \<^verbatim>\<open>rs2\<close> of \<^verbatim>\<open>fsqrt.s\<close>, hold what it fixes.\<close>

definition fixed_agree :: "decode \<Rightarrow> bool" where
  "fixed_agree d \<longleftrightarrow>
    (case encode_inst_type (rv_inst_codec ! dec_op d) (set_op d (dec_op d)) of None \<Rightarrow> True
     | Some bits \<Rightarrow> bits AND rv_inst_mask ! dec_op d = rv_inst_match ! dec_op d AND format_mask (rv_inst_codec ! dec_op d))"

lemma decode_inst_op_as_encoded:
  assumes "op_enabled cfg (dec_op d)" and "agrees (dec_op d) inst" and "operands_unshadowed d"
    and "c = rv_inst_codec ! dec_op d" and "same_operands c (decode_inst_codec c d0 inst) (as_encoded c d)"
  shows "decode_inst_op cfg inst = dec_op d"
proof (cases "c = rv_codec_cs")
  case True
  have "dec_op d \<notin> {234, 238, 256, 258, 259}"
    using True assms(4) by (auto simp: rv_inst_codec_def)
  then show ?thesis
    using decodes_as_unshadowed [of "dec_op d" cfg inst] op_enabled_less [OF assms(1)] assms(1,2)
    by (simp add: decodes_as_def)
qed (use decode_inst_op_encoded [OF assms(1-4)] assms(5) in \<open>simp add: as_encoded_def\<close>)

lemma or_same_field:
  fixes t b m f :: inst_t
  assumes "b AND m = t AND f" "t AND m = t"
  shows "(t OR b) AND m = t" "t OR b = (t AND NOT f) OR b"
proof -
  have b: "bit b n" if "bit t n" "bit f n" for n using assms(1) that by (metis bit_and_iff)
  have m: "bit t n \<Longrightarrow> bit m n" "bit b n \<Longrightarrow> bit m n \<Longrightarrow> bit t n" for n using assms by (metis bit_and_iff)+
  show "(t OR b) AND m = t" by (rule bit_word_eqI) (use m in \<open>auto simp: bit_or_iff bit_and_iff\<close>)
  show "t OR b = (t AND NOT f) OR b" by (rule bit_word_eqI) (use b in \<open>auto simp: bit_or_iff bit_and_iff bit_not_iff\<close>)
qed

lemma decode_encode_inst:
  assumes en: "op_enabled cfg (dec_op d)" and fr: "fixed_agree d"
    and c: "c = rv_inst_codec ! dec_op d"
    and ok: "format_ok c d" and un: "operands_unshadowed d"
  obtains inst where "encode_inst d = Some (inst, set_op d (dec_op d))"
    and "dec_op (decode_inst cfg d0 inst) = dec_op d" and "agrees (dec_op d) inst"
    and "same_operands c (decode_inst cfg d0 inst) (as_encoded c d)"
proof -
  let ?t = "rv_inst_match ! dec_op d" and ?m = "rv_inst_mask ! dec_op d" and ?f = "format_mask c"
  let ?d = "d\<lparr>dec_codec := c\<rparr>"
  have ok': "format_ok c ?d" using ok by (cases c) simp_all
  have tf: "(?t AND NOT ?f) AND ?f = 0" by (simp add: and.assoc)
  obtain bits where bits: "encode_inst_type c ?d = Some bits"
    and same: "\<And>d1. same_operands c (decode_inst_codec c d1 (?t AND NOT ?f OR bits)) (as_encoded c ?d)"
    using format_roundtrip_all [OF ok' tf] by (metis option.inject)
  have "bits AND ?m = ?t AND ?f" using fr bits by (simp add: fixed_agree_def set_op_def c)
  then have field: "(?t OR bits) AND ?m = ?t" "?t OR bits = (?t AND NOT ?f) OR bits"
    using or_same_field op_tables(2) [OF en] by blast+
  have agrees: "agrees (dec_op d) (?t OR bits)" by (simp add: agrees_def field(1))
  have same': "same_operands c (decode_inst_codec c d1 (?t OR bits)) (as_encoded c d)" for d1
    unfolding field(2) using same [of d1] by (simp add: as_encoded_def same_operands_def split: if_splits)
  then have op: "decode_inst_op cfg (?t OR bits) = dec_op d"
    using decode_inst_op_as_encoded en un c agrees by blast
  show ?thesis
  proof (rule that)
    show "encode_inst d = Some (?t OR bits, set_op d (dec_op d))"
      using bits by (simp add: encode_inst_def Let_def c set_op_def)
    show "dec_op (decode_inst cfg d0 (?t OR bits)) = dec_op d" by (simp add: op)
    show "same_operands c (decode_inst cfg d0 (?t OR bits)) (as_encoded c d)"
      using same' by (simp add: decode_inst_def decode_inst_type_def op c)
  qed (rule agrees)
qed

lemma op_free_agrees: "op_free (dec_op d) \<Longrightarrow> rv_inst_match ! dec_op d AND rv_inst_mask ! dec_op d = rv_inst_match ! dec_op d \<Longrightarrow> fixed_agree d"
proof -
  assume free: "op_free (dec_op d)" and tm: "rv_inst_match ! dec_op d AND rv_inst_mask ! dec_op d = rv_inst_match ! dec_op d"
  let ?f = "format_mask (rv_inst_codec ! dec_op d)" and ?m = "rv_inst_mask ! dec_op d" and ?t = "rv_inst_match ! dec_op d"
  have "?t AND ?f = ?t AND (?m AND ?f)" by (metis and.assoc tm)
  then have "?t AND ?f = 0" using free by (simp add: op_free_def)
  moreover have "bits AND ?m = 0" if "bits AND ?f = bits" for bits
  proof -
    have "bits AND ?m = bits AND (?m AND ?f)" by (metis and.commute and.assoc that)
    then show ?thesis using free by (simp add: op_free_def)
  qed
  ultimately show ?thesis by (auto simp: fixed_agree_def split: option.splits dest: format_bits_within)
qed

section \<open>Evaluation\<close>

text \<open>What evaluates the codec on a concrete instruction.\<close>

lemmas codec_eval =
  encode_inst_def decode_inst_def decode_inst_type_def decode_inst_codec_def encode_inst_type_def
  decode_format_defs encode_format_defs assert_then_def set_op_def decode_init_def isa_all_def
  decode_inst_op_def rv_switch_defs rv_inst_codec_def rv_inst_match_def
  operand_defs uimm_operand_encode_def uimm_operand_decode_def simm_operand_encode_def
  simm_operand_decode_def S_shift_def B_width_def B_mask_def sign_extend_def
  decode_inst_rv32_def decode_inst_rv64_def decompress_inst_rv32_def decompress_inst_rv64_def

lemmas comp_eval =
  compress_inst_rv32_def compress_inst_rv64_def compress_inst_rv128_def decode_pseudo_inst_def
  rv_inst_comp_rv32_def rv_inst_comp_rv64_def rv_inst_comp_rv128_def rv_inst_pseudo_def
  comp_array_defs constraint_array_defs comp_entry_def constraint_holds_def
  set_op_def decode_init_def rv_inst_codec_def

end
