(* ===== verification/Rv_Comp_Laws.thy ===== *)
theory Rv_Comp_Laws
  imports Rv_Codec_Laws
begin

text \<open>
  Compression of RV64 instructions through to the instruction word: what \<^verbatim>\<open>compress_inst_rv64\<close> accepts, \<^verbatim>\<open>encode_inst\<close>
  turns into a word of two bytes, and \<^verbatim>\<open>decode_inst_rv64\<close> gives back the instruction, if the immediate fits the
  compressed format.  That the registers fit follows from the constraints of the compression tables; the constraints on
  the immediates are upper bounds or missing, so that the immediate has to be asked for.
\<close>

section \<open>Immediates of the compressed formats\<close>

definition imm_of_format :: "rv_codec \<Rightarrow> s32 \<Rightarrow> bool" where
  "imm_of_format c imm \<longleftrightarrow>
    (case c of
       rv_codec_cb \<Rightarrow> simm_range 9 1 imm | rv_codec_cb_imm \<Rightarrow> simm_range 6 0 imm
     | rv_codec_ci \<Rightarrow> simm_range 6 0 imm | rv_codec_ci_li \<Rightarrow> simm_range 6 0 imm
     | rv_codec_ci_16sp \<Rightarrow> simm_range 10 4 imm | rv_codec_ci_lui \<Rightarrow> simm_range 18 12 imm
     | rv_codec_cj \<Rightarrow> simm_range 12 1 imm
     | rv_codec_ci_sh6 \<Rightarrow> uimm_range 6 0 imm | rv_codec_cb_sh6 \<Rightarrow> uimm_range 6 0 imm
     | rv_codec_ciw_4spn \<Rightarrow> uimm_range 10 2 imm
     | rv_codec_cl_lw \<Rightarrow> uimm_range 7 2 imm | rv_codec_cs_sw \<Rightarrow> uimm_range 7 2 imm
     | rv_codec_cl_ld \<Rightarrow> uimm_range 8 3 imm | rv_codec_cs_sd \<Rightarrow> uimm_range 8 3 imm
     | rv_codec_ci_lwsp \<Rightarrow> uimm_range 8 2 imm | rv_codec_css_swsp \<Rightarrow> uimm_range 8 2 imm
     | rv_codec_ci_ldsp \<Rightarrow> uimm_range 9 3 imm | rv_codec_css_sdsp \<Rightarrow> uimm_range 9 3 imm
     | rv_codec_ci_none \<Rightarrow> imm = 0 | rv_codec_cr_jr \<Rightarrow> imm = 0 | rv_codec_cr_jalr \<Rightarrow> imm = 0
     | _ \<Rightarrow> True)"

section \<open>The compression table\<close>

text \<open>Instructions that fit their format and are compressed fit the compressed format, and not one that another opcode has.\<close>

definition compresses :: "rv_codec \<Rightarrow> rv_comp_data list \<Rightarrow> bool" where
  "compresses c cds \<longleftrightarrow> (\<forall>d d'. format_ok c d \<and> comp_search d cds = Some (True, d') \<and>
      imm_of_format (rv_inst_codec ! dec_op d') (dec_imm d) \<longrightarrow>
    format_ok (rv_inst_codec ! dec_op d') d \<and> operands_unshadowed d')"

lemma codec_nth:
  "rv_inst_codec ! 226 = rv_codec_ciw_4spn" "rv_inst_codec ! 227 = rv_codec_cl_ld" "rv_inst_codec ! 228 = rv_codec_cl_lw"
  "rv_inst_codec ! 229 = rv_codec_cl_lw" "rv_inst_codec ! 230 = rv_codec_cs_sd" "rv_inst_codec ! 231 = rv_codec_cs_sw"
  "rv_inst_codec ! 232 = rv_codec_cs_sw" "rv_inst_codec ! 233 = rv_codec_ci_none" "rv_inst_codec ! 234 = rv_codec_ci"
  "rv_inst_codec ! 235 = rv_codec_cj_jal" "rv_inst_codec ! 236 = rv_codec_ci_li" "rv_inst_codec ! 237 = rv_codec_ci_16sp"
  "rv_inst_codec ! 238 = rv_codec_ci_lui" "rv_inst_codec ! 239 = rv_codec_cb_sh6" "rv_inst_codec ! 240 = rv_codec_cb_sh6"
  "rv_inst_codec ! 241 = rv_codec_cb_imm" "rv_inst_codec ! 242 = rv_codec_cs" "rv_inst_codec ! 243 = rv_codec_cs"
  "rv_inst_codec ! 244 = rv_codec_cs" "rv_inst_codec ! 245 = rv_codec_cs" "rv_inst_codec ! 246 = rv_codec_cs"
  "rv_inst_codec ! 247 = rv_codec_cs" "rv_inst_codec ! 248 = rv_codec_cj" "rv_inst_codec ! 249 = rv_codec_cb"
  "rv_inst_codec ! 250 = rv_codec_cb" "rv_inst_codec ! 251 = rv_codec_ci_sh6" "rv_inst_codec ! 252 = rv_codec_ci_ldsp"
  "rv_inst_codec ! 253 = rv_codec_ci_lwsp" "rv_inst_codec ! 254 = rv_codec_ci_lwsp" "rv_inst_codec ! 255 = rv_codec_cr_jr"
  "rv_inst_codec ! 256 = rv_codec_cr_mv" "rv_inst_codec ! 257 = rv_codec_ci_none" "rv_inst_codec ! 258 = rv_codec_cr_jalr"
  "rv_inst_codec ! 259 = rv_codec_cr" "rv_inst_codec ! 260 = rv_codec_css_sdsp" "rv_inst_codec ! 261 = rv_codec_css_swsp"
  "rv_inst_codec ! 262 = rv_codec_css_swsp" "rv_inst_codec ! 263 = rv_codec_cl_ld" "rv_inst_codec ! 264 = rv_codec_cs_sd"
  "rv_inst_codec ! 265 = rv_codec_ci" "rv_inst_codec ! 266 = rv_codec_ci_ldsp" "rv_inst_codec ! 267 = rv_codec_css_sdsp"
  by (simp_all add: rv_inst_codec_def)

lemma creg_ok_b3: "8 \<le> r \<and> r \<le> 15 \<longleftrightarrow> creg_ok r" 
  by (simp add: creg_ok_def word_le_nat_alt word_less_nat_alt) arith

lemma rv64_compresses:
  "compresses rv_codec_u rvcd_rv64_lui"
  "compresses rv_codec_uj rvcd_rv64_jal"
  "compresses rv_codec_i rvcd_rv64_jalr"
  "compresses rv_codec_sb rvcd_rv64_beq"
  "compresses rv_codec_sb rvcd_rv64_bne"
  "compresses rv_codec_i rvcd_rv64_lw"
  "compresses rv_codec_s rvcd_rv64_sw"
  "compresses rv_codec_i rvcd_rv64_addi"
  "compresses rv_codec_i rvcd_rv64_andi"
  "compresses rv_codec_i_sh7 rvcd_rv64_slli"
  "compresses rv_codec_i_sh7 rvcd_rv64_srli"
  "compresses rv_codec_i_sh7 rvcd_rv64_srai"
  "compresses rv_codec_r rvcd_rv64_add"
  "compresses rv_codec_r rvcd_rv64_sub"
  "compresses rv_codec_r rvcd_rv64_xor"
  "compresses rv_codec_r rvcd_rv64_or"
  "compresses rv_codec_r rvcd_rv64_and"
  "compresses rv_codec_i rvcd_rv64_ld"
  "compresses rv_codec_s rvcd_rv64_sd"
  "compresses rv_codec_i rvcd_rv64_addiw"
  "compresses rv_codec_r rvcd_rv64_addw"
  "compresses rv_codec_r rvcd_rv64_subw"
  "compresses rv_codec_none rvcd_rv64_ebreak"
  "compresses rv_codec_i rvcd_rv64_fld"
  "compresses rv_codec_s rvcd_rv64_fsd"
  by (auto simp: compresses_def creg_ok_b3 [simplified] comp_array_defs constraint_array_defs comp_entry_def constraint_holds_def imm_of_format_def 
    codec_nth Let_def operands_unshadowed_def set_op_def split: if_splits)

definition rv64_compressed :: "opcode \<Rightarrow> bool" where
  "rv64_compressed opc \<longleftrightarrow> op_enabled (isa_all False True False) opc \<and> op_free opc \<and> rv_inst_mask ! opc AND 3 = 3 \<and> rv_inst_match ! opc AND 3 \<noteq> 3"

lemma compressed_table:
  "all_from 0 (\<lambda>opc (m, t, c). opc < 226 \<or> opc \<ge> 268 \<or> m AND format_mask c = 0 \<and> m AND 3 = 3 \<and> t AND 3 \<noteq> 3)
   (zip rv_inst_mask (zip rv_inst_match rv_inst_codec))"
  by (simp add: table_check_defs)

lemma rv64_compressedI:
  assumes "226 \<le> opc" and "op_enabled (isa_all False True False) opc"
  shows "rv64_compressed opc"
  using all_from_nth [OF compressed_table, of opc] op_enabled_less [OF assms(2)] assms
  by (auto simp: rv64_compressed_def op_free_def)

definition plain_format :: "rv_codec \<Rightarrow> bool" where
  "plain_format c \<longleftrightarrow> c \<noteq> rv_codec_r4_m \<and> c \<noteq> rv_codec_r_m \<and> c \<noteq> rv_codec_r_a \<and> c \<noteq> rv_codec_r_l \<and> c \<noteq> rv_codec_r_f"

lemma rv64_alternatives:
  "list_all (\<lambda>(entry, c). case entry of None \<Rightarrow> True | Some cds \<Rightarrow> compresses c cds \<and> plain_format c \<and>
     list_all (\<lambda>cd. comp_constraints cd = None \<or> 226 \<le> comp_op cd \<and> op_enabled (isa_all False True False) (comp_op cd)) cds)
     (zip rv_inst_comp_rv64 rv_inst_codec)"
  by (simp add: rv_inst_comp_rv64_def rv_inst_codec_def rv64_compresses plain_format_def)
    (simp add: comp_array_defs constraint_array_defs comp_entry_def op_enabled_def isa_all_def)

lemma compress_rv64_entry:
  assumes "dec_op d < 318" and "compress_inst_rv64 d = Some (True, d')"
  obtains cds opc where "comp_search d cds = Some (True, d')" "compresses (rv_inst_codec ! dec_op d) cds" "plain_format (rv_inst_codec ! dec_op d)"
    "rv64_compressed opc" "d' = set_op d opc"
proof -
  obtain cds where cds: "rv_inst_comp_rv64 ! dec_op d = Some cds" "comp_search d cds = Some (True, d')"
    using assms(2) by (auto simp: compress_inst_rv64_def split: option.splits)
  have "length rv_inst_codec = 318" by (simp add: rv_inst_codec_def)
  then have entry: "compresses (rv_inst_codec ! dec_op d) cds" "plain_format (rv_inst_codec ! dec_op d)"
    "list_all (\<lambda>cd. comp_constraints cd = None \<or> 226 \<le> comp_op cd \<and> op_enabled (isa_all False True False) (comp_op cd)) cds"
    using iffD1 [OF list_all_length rv64_alternatives, rule_format, of "dec_op d"] assms(1) cds(1) comp_rv64.table_size by simp_all
  obtain cd cs where cd: "cd \<in> set cds" "comp_constraints cd = Some cs" "d' = set_op d (comp_op cd)"
    using comp_search_found [OF cds(2)] by blast
  have "rv64_compressed (comp_op cd)" using entry(3) cd by (auto simp: list_all_iff intro: rv64_compressedI)
  then show ?thesis using that [OF cds(2) entry(1,2), of "comp_op cd"] cd(3) by simp
qed

section \<open>Compress, assemble, disassemble\<close>

lemma compressed_roundtrip:
  assumes "dec_op d < 318" and "format_ok (rv_inst_codec ! dec_op d) d" and "compress_inst_rv64 d = Some (True, d')"
    and "imm_of_format (rv_inst_codec ! dec_op d') (dec_imm d)"
  shows "\<exists>inst. encode_inst d' = Some (inst, d') \<and> inst_length inst = 2 \<and> dec_op (decode_inst_rv64 d0 inst) = dec_op d \<and>
    same_operands (rv_inst_codec ! dec_op d) (decode_inst_rv64 d0 inst) (as_encoded (rv_inst_codec ! dec_op d') d)"
proof -
  let ?c = "rv_inst_codec ! dec_op d'" and ?cfg = "isa_all False True False"
  obtain cds opc where cds: "comp_search d cds = Some (True, d')" "compresses (rv_inst_codec ! dec_op d) cds" "plain_format (rv_inst_codec ! dec_op d)"
    "rv64_compressed opc" "d' = set_op d opc"
    by (rule compress_rv64_entry [OF assms(1,3)])
  have ok: "format_ok ?c d" "operands_unshadowed d'"
    using cds(1,2) assms(2,4) unfolding compresses_def by blast+
  have "format_ok c (set_op e opc) = format_ok c e" for c e opc by (cases c) (simp_all add: set_op_def)
  then have fmt: "format_ok ?c d'" using ok(1) cds(5) by simp
  have en: "op_enabled ?cfg (dec_op d')" and free: "op_free (dec_op d')" and low: "rv_inst_mask ! dec_op d' AND 3 = 3" "rv_inst_match ! dec_op d' AND 3 \<noteq> 3"
    using cds(4,5) by (simp_all add: rv64_compressed_def)
  obtain inst where inst: "encode_inst d' = Some (inst, set_op d' (dec_op d'))" "dec_op (decode_inst ?cfg d0 inst) = dec_op d'"
    "agrees (dec_op d') inst" "same_operands ?c (decode_inst ?cfg d0 inst) (as_encoded ?c d')"
    using decode_encode_inst [OF en op_free_agrees [OF free op_tables(2) [OF en]] refl fmt ok(2)] by blast
  have "rv_inst_match ! dec_op d' AND 3 = inst AND (rv_inst_mask ! dec_op d' AND 3)"
    using inst(3) by (simp add: agrees_def and.assoc [symmetric])
  then have "inst_length inst = 2" using low by (simp add: inst_length_def)
  moreover have "set_op d' (dec_op d') = d'" using cds(5) by simp
  moreover have "dec_op d \<noteq> rv_op_illegal \<and> rv_inst_decomp_rv64 ! dec_op d' = dec_op d"
    using assms(1,3) unfolding search_eqs by (elim comp_rv64.search_found) auto
  then have dec: "decode_inst_rv64 d0 inst = set_op (decode_inst ?cfg d0 inst) (dec_op d)"
    using inst(2) by (simp add: decode_inst_rv64_def decompress_inst_rv64_def Let_def)
  moreover have fields: "dec_imm d' = dec_imm d" "dec_rd d' = dec_rd d" "dec_rs1 d' = dec_rs1 d" "dec_rs2 d' = dec_rs2 d"
    using cds(5) by (simp_all add: set_op_def)
  have "same_operands (rv_inst_codec ! dec_op d) (set_op (decode_inst ?cfg d0 inst) (dec_op d)) (as_encoded ?c d)"
    using inst(4) cds(3) fields by (simp add: same_operands_def set_op_def as_encoded_def plain_format_def split: if_splits)
  ultimately show ?thesis using inst(1) by auto
qed

end
