(* ===== verification/Rv_Codec_Props.thy ===== *)
theory Rv_Codec_Props
  imports Rv_Comp_Laws
begin

text \<open>
  The properties of the instruction codec (\<^verbatim>\<open>src/src/asm\<close>): the contract of the opcode decoder,
  round trips of operands, formats and whole instructions, compression and pseudo-instructions.
\<close>

section \<open>The opcode decoder\<close>

text \<open>
  C1.  The opcode decoder returns exactly the most specific enabled opcode: the result is a legal
  opcode \<open>opc\<close> iff the extension of \<open>opc\<close> is enabled, the instruction word has the fixed bits that
  the \<open>match\<close> and \<open>mask\<close> tables give \<open>opc\<close>, and no enabled opcode with the same and more fixed bits
  agrees with the word.
\<close>

theorem decode_inst_op_most_specific:
  "decode_inst_op cfg inst = opc \<and> opc \<noteq> rv_op_illegal \<longleftrightarrow>
    op_enabled cfg opc \<and> agrees opc inst \<and>
    \<not> (\<exists>opd. op_enabled cfg opd \<and> refines opd opc \<and> agrees opd inst)"
proof (intro iffI conjI notI)
  assume d: "decode_inst_op cfg inst = opc \<and> opc \<noteq> rv_op_illegal"
  then show "op_enabled cfg opc" "agrees opc inst"
    using decode_inst_op_ok [of cfg inst] by (auto simp: decoded_ok_def)
  assume "\<exists>opd. op_enabled cfg opd \<and> refines opd opc \<and> agrees opd inst"
  then obtain opd where "op_enabled cfg opd \<and> agrees opd inst \<and> refines opd opc" by blast
  then obtain q where "refines q opc" "decode_inst_op cfg inst = q"
  proof (rule most_specific_opcode [where P = "\<lambda>q. op_enabled cfg q \<and> agrees q inst \<and> refines q opc" and cfg = cfg and inst = inst])
    fix p q assume "op_enabled cfg p \<and> agrees p inst \<and> refines p opc" "op_enabled cfg q" "agrees q inst" "refines q p"
    then show "op_enabled cfg q \<and> agrees q inst \<and> refines q opc" using refines_trans by simp
  qed auto
  with d show False using refines_mask_less by blast
next
  assume "op_enabled cfg opc \<and> agrees opc inst \<and>
    \<not> (\<exists>opd. op_enabled cfg opd \<and> refines opd opc \<and> agrees opd inst)"
  then show "decode_inst_op cfg inst = opc" and "opc = rv_op_illegal \<Longrightarrow> False"
    using decode_inst_op_complete op_enabled_less by blast+
qed

text \<open>
  C2.  The decoder rejects a word exactly when no enabled opcode agrees with it: no valid
  instruction is reported illegal and no invalid one is accepted.
\<close>

theorem decode_inst_op_illegal:
  "decode_inst_op cfg inst = rv_op_illegal \<longleftrightarrow> \<not> (\<exists>opc. op_enabled cfg opc \<and> agrees opc inst)"
proof
  assume d: "decode_inst_op cfg inst = rv_op_illegal"
  show "\<not> (\<exists>opc. op_enabled cfg opc \<and> agrees opc inst)"
  proof
    assume "\<exists>opc. op_enabled cfg opc \<and> agrees opc inst"
    then obtain q where "op_enabled cfg q" "decode_inst_op cfg inst = q"
      using most_specific_opcode [of "\<lambda>q. op_enabled cfg q \<and> agrees q inst" _ cfg inst] by blast
    then show False using d by (simp add: op_enabled_def)
  qed
qed (use decode_inst_op_ok [of cfg inst] in \<open>auto simp: decoded_ok_def\<close>)

section \<open>Whole instructions\<close>

text \<open>
  C3.  Assembling a disassembled instruction: for every word that the decoder accepts, \<open>encode_inst\<close> of the decoded
  instruction succeeds and gives back the word, in the two or four bytes of its length.  Three things are not given
  back (\<open>kept_bits\<close>): bits above the length, the fields that \<^verbatim>\<open>fence\<close> and \<^verbatim>\<open>fence.i\<close> ignore, and the second source
  register of the six instructions of the format \<open>cs\<close>, which the encoder overwrites with the first (\<open>second_source\<close>).
\<close>

theorem reassemble_inst:
  assumes "decode_inst_op cfg inst = opc" and "opc \<noteq> rv_op_illegal"
  shows "encode_inst (decode_inst cfg d inst) =
    Some (inst AND kept_bits opc OR second_source (rv_inst_codec ! opc) inst, decode_inst cfg d inst)"
  by (rule encode_decode_inst [OF assms])

text \<open>Witness: \<open>bne a0, zero, -16\<close> on RV64.\<close>

theorem reassemble_inst_witness:
  "encode_inst (decode_inst (isa_all False True False) decode_init 0xfe0518e3) =
     Some (0xfe0518e3, decode_inst (isa_all False True False) decode_init 0xfe0518e3)"
proof -
  have "decode_inst_op (isa_all False True False) 0xfe0518e3 = rv_op_bne"
    by (simp add: decode_inst_op_def rv_switch_defs isa_all_def)
  then show ?thesis
    using reassemble_inst [of "isa_all False True False" "0xfe0518e3" rv_op_bne decode_init]
    by (simp add: kept_bits_def second_source_def inst_bits_def rv_inst_codec_def rv_inst_match_def)
qed

text \<open>
  C4.  Disassembling an assembled instruction gives back the same instruction.  For an enabled opcode and operands in the
  range of its format, where fields of the operands that the opcode fixes hold what it fixes (\<open>fixed_agree\<close>) and the
  operands are not one of the five combinations that compressed encodings reserve for another opcode
  (\<open>operands_unshadowed\<close>), \<open>encode_inst\<close> succeeds and decoding its result yields the opcode and the operands; in the
  format \<open>cs\<close> the first register in place of the second source (\<open>as_encoded\<close>).
\<close>

theorem disassemble_assembled:
  assumes "op_enabled cfg (dec_op d)" and "format_ok (rv_inst_codec ! dec_op d) d"
    and "fixed_agree d" and "operands_unshadowed d"
  shows "\<exists>inst. encode_inst d = Some (inst, set_op d (dec_op d)) \<and>
    dec_op (decode_inst cfg d0 inst) = dec_op d \<and>
    same_operands (rv_inst_codec ! dec_op d) (decode_inst cfg d0 inst) (as_encoded (rv_inst_codec ! dec_op d) d)"
  using decode_encode_inst [OF assms(1,3) refl assms(2,4)] by metis

text \<open>Witness: \<open>jal ra, -2048\<close> on RV64.\<close>

theorem disassemble_assembled_witness:
  "\<exists>inst. encode_inst (decode_init\<lparr>dec_op := rv_op_jal, dec_rd := 1, dec_imm := - 2048\<rparr>) =
      Some (inst, set_op (decode_init\<lparr>dec_op := rv_op_jal, dec_rd := 1, dec_imm := - 2048\<rparr>) rv_op_jal) \<and>
    dec_imm (decode_inst (isa_all False True False) decode_init inst) = - 2048"
proof -
  let ?d = "decode_init\<lparr>dec_op := rv_op_jal, dec_rd := 1, dec_imm := - 2048\<rparr>"
  have "op_enabled (isa_all False True False) (dec_op ?d)"
    by (simp add: op_enabled_def isa_all_def)
  moreover have "fixed_agree ?d"
    by (rule op_free_agrees) (simp_all add: op_free_def rv_inst_mask_def rv_inst_match_def rv_inst_codec_def)
  moreover have "rv_inst_codec ! dec_op ?d = rv_codec_uj" by (simp add: rv_inst_codec_def)
  moreover have "format_ok rv_codec_uj ?d"
    by (simp add: decode_init_def reg_ok_def simm_range_def)
  moreover have "operands_unshadowed ?d" by (simp add: operands_unshadowed_def)
  ultimately show ?thesis
    using disassemble_assembled [of "isa_all False True False" ?d decode_init]
    by (auto simp: same_operands_def as_encoded_def)
qed

section \<open>Compression and pseudo-instructions\<close>

text \<open>
  C5.  Compression on RV64, through to the instruction word.  When \<open>compress_inst_rv64\<close> compresses an instruction whose
  operands fit its format and whose immediate fits the compressed format, assembling the compressed instruction gives a
  word of two bytes that \<open>decode_inst_rv64\<close> decodes and decompresses to the instruction: the same opcode and operands, in
  the format \<open>cs\<close> with the first register in place of the second source.  That the registers fit follows from the
  constraints of the compression tables; those on immediates are upper bounds or missing (see the lemmas below).
\<close>

theorem compressed_inst_decodes:
  assumes "dec_op d < 318" and "format_ok (rv_inst_codec ! dec_op d) d" and "compress_inst_rv64 d = Some (True, d')"
    and "imm_of_format (rv_inst_codec ! dec_op d') (dec_imm d)"
  shows "\<exists>inst. encode_inst d' = Some (inst, d') \<and> inst_length inst = 2 \<and> dec_op (decode_inst_rv64 d0 inst) = dec_op d \<and>
    same_operands (rv_inst_codec ! dec_op d) (decode_inst_rv64 d0 inst) (as_encoded (rv_inst_codec ! dec_op d') d)"
  by (rule compressed_roundtrip [OF assms])

text \<open>Witness: \<open>addi x8, x8, 5\<close>, which compresses to \<open>c.addi\<close>.\<close>

theorem compressed_inst_decodes_witness:
  "\<exists>inst. encode_inst (set_op (decode_init\<lparr>dec_rd := 8, dec_rs1 := 8, dec_imm := 5\<rparr>) rv_op_c_addi) =
      Some (inst, set_op (decode_init\<lparr>dec_rd := 8, dec_rs1 := 8, dec_imm := 5\<rparr>) rv_op_c_addi) \<and>
    inst_length inst = 2 \<and> dec_op (decode_inst_rv64 decode_init inst) = rv_op_addi \<and>
    dec_imm (decode_inst_rv64 decode_init inst) = 5"
proof -
  let ?d = "set_op (decode_init\<lparr>dec_rd := 8, dec_rs1 := 8, dec_imm := 5\<rparr>) rv_op_addi"
  have "compress_inst_rv64 ?d = Some (True, set_op ?d rv_op_c_addi)" by (simp add: comp_eval)
  moreover have "format_ok (rv_inst_codec ! dec_op ?d) ?d"
    by (simp add: rv_inst_codec_def set_op_def decode_init_def reg_ok_def simm_range_def)
  moreover have "imm_of_format (rv_inst_codec ! rv_op_c_addi) (dec_imm ?d)"
    by (simp add: codec_nth imm_of_format_def set_op_def simm_range_def)
  ultimately show ?thesis
    using compressed_inst_decodes [of ?d "set_op ?d rv_op_c_addi" decode_init]
    by (auto simp: same_operands_def as_encoded_def codec_nth set_op_def)
qed

text \<open>
  C6.  Pseudo-instructions: when \<open>decode_pseudo_inst\<close> replaces an instruction by a pseudo-instruction,
  \<open>encode_pseudo\<close> gives back the original instruction.
\<close>

theorem pseudo_roundtrip:
  assumes "dec_op d < 318" and "dec_codec d = rv_inst_codec ! dec_op d"
    and "decode_pseudo_inst d = Some (True, d')"
  shows "encode_pseudo d' = Some (True, d)"
  using encode_decode_pseudo [OF assms(1,3)] set_op_same [OF assms(2)] by simp

text \<open>Witness: \<open>addi x5, x6, 0\<close> is \<open>mv x5, x6\<close>.\<close>

theorem pseudo_roundtrip_witness:
  "encode_pseudo (set_op (set_op (decode_init\<lparr>dec_rd := 5, dec_rs1 := 6\<rparr>) rv_op_addi) rv_op_mv) =
   Some (True, set_op (decode_init\<lparr>dec_rd := 5, dec_rs1 := 6\<rparr>) rv_op_addi)"
  by (rule pseudo_roundtrip) (simp_all add: comp_eval)

text \<open>
  The table walks end inside their arrays: on every opcode of the tables, compression and
  pseudo-instruction decoding return a result, and one that leaves the operands alone.
\<close>

lemma table_walks_total:
  assumes "dec_op d < 318"
  shows "(\<exists>b opc. compress_inst_rv32 d = Some (b, if b then set_op d opc else d)) \<and>
    (\<exists>b opc. compress_inst_rv64 d = Some (b, if b then set_op d opc else d)) \<and>
    (\<exists>b opc. compress_inst_rv128 d = Some (b, if b then set_op d opc else d)) \<and>
    (\<exists>b opc. decode_pseudo_inst d = Some (b, if b then set_op d opc else d))"
  unfolding search_eqs
  using comp_rv32.search_shape [OF assms] comp_rv64.search_shape [OF assms]
    comp_rv128.search_shape [OF assms] pseudo.search_shape [OF assms] by blast

lemma table_walks_total_example:
  "\<exists>b opc. compress_inst_rv32 decode_init = Some (b, if b then set_op decode_init opc else decode_init)"
  using table_walks_total [of decode_init] by (simp add: decode_init_def)

text \<open>
  The \<open>cs\<close> encoder does not write the second source register: assembling \<open>c.sub x8, x8, x9\<close>
  gives the word of \<open>c.sub x8, x8, x8\<close>, which decodes with \<open>rs2\<close> equal to \<open>rd\<close>.
\<close>

lemma encode_cs_loses_rs2:
  "encode_inst (set_op (decode_init\<lparr>dec_rd := 8, dec_rs1 := 8, dec_rs2 := 9\<rparr>) rv_op_c_sub) =
     Some (0x8c01, set_op (decode_init\<lparr>dec_rd := 8, dec_rs1 := 8, dec_rs2 := 9\<rparr>) rv_op_c_sub) \<and>
   decode_inst (isa_all False True False) decode_init 0x8c01 =
     set_op (decode_init\<lparr>dec_rd := 8, dec_rs1 := 8, dec_rs2 := 8\<rparr>) rv_op_c_sub"
  by (simp add: codec_eval)

text \<open>
  Compression accepts immediates that do not fit: the constraint \<open>imm_6\<close> is an upper bound only,
  so \<open>li a0, 40\<close> becomes \<open>c.li\<close>, whose encoding decodes to \<open>li a0, -24\<close>; and \<^verbatim>\<open>c.jr\<close> has no constraint on the offset, so
  that \<open>jalr zero, 8(ra)\<close> becomes \<open>jr ra\<close>.
\<close>

lemma compress_li_changes_immediate:
  "compress_inst_rv64 (set_op (decode_init\<lparr>dec_rd := 10, dec_imm := 40\<rparr>) rv_op_addi) =
     Some (True, set_op (decode_init\<lparr>dec_rd := 10, dec_imm := 40\<rparr>) rv_op_c_li) \<and>
   encode_inst (set_op (decode_init\<lparr>dec_rd := 10, dec_imm := 40\<rparr>) rv_op_c_li) =
     Some (0x5521, set_op (decode_init\<lparr>dec_rd := 10, dec_imm := 40\<rparr>) rv_op_c_li) \<and>
   decode_inst_rv64 decode_init 0x5521 =
     set_op (decode_init\<lparr>dec_rd := 10, dec_imm := - 24\<rparr>) rv_op_addi"
proof (intro conjI)
  let ?d = "decode_init\<lparr>dec_rd := 10, dec_imm := 40\<rparr>"
  show "compress_inst_rv64 (set_op ?d rv_op_addi) = Some (True, set_op ?d rv_op_c_li)"
    by (simp add: comp_eval)
  show "encode_inst (set_op ?d rv_op_c_li) = Some (0x5521, set_op ?d rv_op_c_li)"
    by (simp add: codec_eval)
  show "decode_inst_rv64 decode_init 0x5521 =
      set_op (decode_init\<lparr>dec_rd := 10, dec_imm := - 24\<rparr>) rv_op_addi"
    by (simp add: codec_eval rv_inst_decomp_rv64_def)
qed

lemma compress_jalr_drops_offset:
  "compress_inst_rv64 (set_op (decode_init\<lparr>dec_rs1 := 1, dec_imm := 8\<rparr>) rv_op_jalr) =
     Some (True, set_op (decode_init\<lparr>dec_rs1 := 1, dec_imm := 8\<rparr>) rv_op_c_jr) \<and>
   encode_inst (set_op (decode_init\<lparr>dec_rs1 := 1, dec_imm := 8\<rparr>) rv_op_c_jr) =
     Some (0x8082, set_op (decode_init\<lparr>dec_rs1 := 1, dec_imm := 8\<rparr>) rv_op_c_jr) \<and>
   decode_inst_rv64 decode_init 0x8082 = set_op (decode_init\<lparr>dec_rs1 := 1\<rparr>) rv_op_jalr"
proof (intro conjI)
  let ?d = "decode_init\<lparr>dec_rs1 := 1, dec_imm := 8\<rparr>"
  show "compress_inst_rv64 (set_op ?d rv_op_jalr) = Some (True, set_op ?d rv_op_c_jr)"
    by (simp add: comp_eval)
  show "encode_inst (set_op ?d rv_op_c_jr) = Some (0x8082, set_op ?d rv_op_c_jr)"
    by (simp add: codec_eval)
  show "decode_inst_rv64 decode_init 0x8082 = set_op (decode_init\<lparr>dec_rs1 := 1\<rparr>) rv_op_jalr"
    by (simp add: codec_eval rv_inst_decomp_rv64_def)
qed

end
