(* ===== verification/Rv_Emit.thy ===== *)
theory Rv_Emit
  imports Rv_Codec
begin

text \<open>
  The emitters of \<^verbatim>\<open>src/src/asm/jit.cc\<close>: one function per opcode outside the compressed sets, which
  checks its operands and encodes the instruction.  An operand is a width-typed immediate of
  \<^verbatim>\<open>types.h\<close>, a 64-bit integer with a test for its width.  \<open>None\<close> is a failed assertion of the encoder.
\<close>

section \<open>Width-typed immediates\<close>

definition offset_valid :: "nat \<Rightarrow> u64 \<Rightarrow> bool" where
  "offset_valid W imm \<longleftrightarrow> sint imm \<le> 2 ^ (W - 1) - 1 \<and> sint imm \<ge> - (2 ^ (W - 1))"

definition simm_valid :: "nat \<Rightarrow> u64 \<Rightarrow> bool" where
  "simm_valid W imm \<longleftrightarrow> sint imm \<le> 2 ^ (W - 1) - 1 \<and> sint imm \<ge> - (2 ^ (W - 1))"

definition uimm_valid :: "nat \<Rightarrow> u64 \<Rightarrow> bool" where
  "uimm_valid W imm \<longleftrightarrow> imm \<le> push_bit W 1 - 1"

type_synonym ireg5 = u64
type_synonym freg5 = u64
type_synonym arg1 = u64
type_synonym arg3 = u64
type_synonym arg4 = u64
type_synonym uimm5 = u64
type_synonym uimm6 = u64
type_synonym uimm7 = u64
type_synonym uimm12 = u64
type_synonym simm12 = u64
type_synonym simm32 = u64
type_synonym offset12 = u64
type_synonym offset13 = u64
type_synonym offset21 = u64
type_synonym offset32 = u64

abbreviation ireg5_valid :: "ireg5 \<Rightarrow> bool" where "ireg5_valid \<equiv> uimm_valid 5"
abbreviation freg5_valid :: "freg5 \<Rightarrow> bool" where "freg5_valid \<equiv> uimm_valid 5"
abbreviation arg1_valid :: "arg1 \<Rightarrow> bool" where "arg1_valid \<equiv> uimm_valid 1"
abbreviation arg3_valid :: "arg3 \<Rightarrow> bool" where "arg3_valid \<equiv> uimm_valid 3"
abbreviation arg4_valid :: "arg4 \<Rightarrow> bool" where "arg4_valid \<equiv> uimm_valid 4"
abbreviation uimm5_valid :: "uimm5 \<Rightarrow> bool" where "uimm5_valid \<equiv> uimm_valid 5"
abbreviation uimm6_valid :: "uimm6 \<Rightarrow> bool" where "uimm6_valid \<equiv> uimm_valid 6"
abbreviation uimm7_valid :: "uimm7 \<Rightarrow> bool" where "uimm7_valid \<equiv> uimm_valid 7"
abbreviation uimm12_valid :: "uimm12 \<Rightarrow> bool" where "uimm12_valid \<equiv> uimm_valid 12"
abbreviation simm12_valid :: "simm12 \<Rightarrow> bool" where "simm12_valid \<equiv> simm_valid 12"
abbreviation simm32_valid :: "simm32 \<Rightarrow> bool" where "simm32_valid \<equiv> simm_valid 32"
abbreviation offset12_valid :: "offset12 \<Rightarrow> bool" where "offset12_valid \<equiv> offset_valid 12"
abbreviation offset13_valid :: "offset13 \<Rightarrow> bool" where "offset13_valid \<equiv> offset_valid 13"
abbreviation offset21_valid :: "offset21 \<Rightarrow> bool" where "offset21_valid \<equiv> offset_valid 21"
abbreviation offset32_valid :: "offset32 \<Rightarrow> bool" where "offset32_valid \<equiv> offset_valid 32"

section \<open>Emitters\<close>

definition emit_inst :: "decode \<Rightarrow> inst_t option" where
  "emit_inst dec = map_option fst (encode_inst dec)"

named_theorems emit_defs \<open>the emitters\<close>

definition emit_lui :: "ireg5 \<Rightarrow> simm32 \<Rightarrow> inst_t option" where [emit_defs]:
  "emit_lui rd imm20 = (if ireg5_valid rd \<and> simm32_valid imm20
     then emit_inst (decode_init\<lparr>dec_op := rv_op_lui, dec_rd := ucast rd, dec_imm := ucast imm20\<rparr>)
     else Some 0)"

definition emit_auipc :: "ireg5 \<Rightarrow> offset32 \<Rightarrow> inst_t option" where [emit_defs]:
  "emit_auipc rd oimm20 = (if ireg5_valid rd \<and> offset32_valid oimm20
     then emit_inst (decode_init\<lparr>dec_op := rv_op_auipc, dec_rd := ucast rd, dec_imm := ucast oimm20\<rparr>)
     else Some 0)"

definition emit_jal :: "ireg5 \<Rightarrow> offset21 \<Rightarrow> inst_t option" where [emit_defs]:
  "emit_jal rd jimm20 = (if ireg5_valid rd \<and> offset21_valid jimm20
     then emit_inst (decode_init\<lparr>dec_op := rv_op_jal, dec_rd := ucast rd, dec_imm := ucast jimm20\<rparr>)
     else Some 0)"

definition emit_jalr :: "ireg5 \<Rightarrow> ireg5 \<Rightarrow> simm12 \<Rightarrow> inst_t option" where [emit_defs]:
  "emit_jalr rd rs1 imm12 = (if ireg5_valid rd \<and> ireg5_valid rs1 \<and> simm12_valid imm12
     then emit_inst (decode_init\<lparr>dec_op := rv_op_jalr, dec_rd := ucast rd, dec_rs1 := ucast rs1, dec_imm := ucast imm12\<rparr>)
     else Some 0)"

definition emit_beq :: "ireg5 \<Rightarrow> ireg5 \<Rightarrow> offset13 \<Rightarrow> inst_t option" where [emit_defs]:
  "emit_beq rs1 rs2 sbimm12 = (if ireg5_valid rs1 \<and> ireg5_valid rs2 \<and> offset13_valid sbimm12
     then emit_inst (decode_init\<lparr>dec_op := rv_op_beq, dec_rs1 := ucast rs1, dec_rs2 := ucast rs2, dec_imm := ucast sbimm12\<rparr>)
     else Some 0)"

definition emit_bne :: "ireg5 \<Rightarrow> ireg5 \<Rightarrow> offset13 \<Rightarrow> inst_t option" where [emit_defs]:
  "emit_bne rs1 rs2 sbimm12 = (if ireg5_valid rs1 \<and> ireg5_valid rs2 \<and> offset13_valid sbimm12
     then emit_inst (decode_init\<lparr>dec_op := rv_op_bne, dec_rs1 := ucast rs1, dec_rs2 := ucast rs2, dec_imm := ucast sbimm12\<rparr>)
     else Some 0)"

definition emit_blt :: "ireg5 \<Rightarrow> ireg5 \<Rightarrow> offset13 \<Rightarrow> inst_t option" where [emit_defs]:
  "emit_blt rs1 rs2 sbimm12 = (if ireg5_valid rs1 \<and> ireg5_valid rs2 \<and> offset13_valid sbimm12
     then emit_inst (decode_init\<lparr>dec_op := rv_op_blt, dec_rs1 := ucast rs1, dec_rs2 := ucast rs2, dec_imm := ucast sbimm12\<rparr>)
     else Some 0)"

definition emit_bge :: "ireg5 \<Rightarrow> ireg5 \<Rightarrow> offset13 \<Rightarrow> inst_t option" where [emit_defs]:
  "emit_bge rs1 rs2 sbimm12 = (if ireg5_valid rs1 \<and> ireg5_valid rs2 \<and> offset13_valid sbimm12
     then emit_inst (decode_init\<lparr>dec_op := rv_op_bge, dec_rs1 := ucast rs1, dec_rs2 := ucast rs2, dec_imm := ucast sbimm12\<rparr>)
     else Some 0)"

definition emit_bltu :: "ireg5 \<Rightarrow> ireg5 \<Rightarrow> offset13 \<Rightarrow> inst_t option" where [emit_defs]:
  "emit_bltu rs1 rs2 sbimm12 = (if ireg5_valid rs1 \<and> ireg5_valid rs2 \<and> offset13_valid sbimm12
     then emit_inst (decode_init\<lparr>dec_op := rv_op_bltu, dec_rs1 := ucast rs1, dec_rs2 := ucast rs2, dec_imm := ucast sbimm12\<rparr>)
     else Some 0)"

definition emit_bgeu :: "ireg5 \<Rightarrow> ireg5 \<Rightarrow> offset13 \<Rightarrow> inst_t option" where [emit_defs]:
  "emit_bgeu rs1 rs2 sbimm12 = (if ireg5_valid rs1 \<and> ireg5_valid rs2 \<and> offset13_valid sbimm12
     then emit_inst (decode_init\<lparr>dec_op := rv_op_bgeu, dec_rs1 := ucast rs1, dec_rs2 := ucast rs2, dec_imm := ucast sbimm12\<rparr>)
     else Some 0)"

definition emit_lb :: "ireg5 \<Rightarrow> ireg5 \<Rightarrow> offset12 \<Rightarrow> inst_t option" where [emit_defs]:
  "emit_lb rd rs1 oimm12 = (if ireg5_valid rd \<and> ireg5_valid rs1 \<and> offset12_valid oimm12
     then emit_inst (decode_init\<lparr>dec_op := rv_op_lb, dec_rd := ucast rd, dec_rs1 := ucast rs1, dec_imm := ucast oimm12\<rparr>)
     else Some 0)"

definition emit_lh :: "ireg5 \<Rightarrow> ireg5 \<Rightarrow> offset12 \<Rightarrow> inst_t option" where [emit_defs]:
  "emit_lh rd rs1 oimm12 = (if ireg5_valid rd \<and> ireg5_valid rs1 \<and> offset12_valid oimm12
     then emit_inst (decode_init\<lparr>dec_op := rv_op_lh, dec_rd := ucast rd, dec_rs1 := ucast rs1, dec_imm := ucast oimm12\<rparr>)
     else Some 0)"

definition emit_lw :: "ireg5 \<Rightarrow> ireg5 \<Rightarrow> offset12 \<Rightarrow> inst_t option" where [emit_defs]:
  "emit_lw rd rs1 oimm12 = (if ireg5_valid rd \<and> ireg5_valid rs1 \<and> offset12_valid oimm12
     then emit_inst (decode_init\<lparr>dec_op := rv_op_lw, dec_rd := ucast rd, dec_rs1 := ucast rs1, dec_imm := ucast oimm12\<rparr>)
     else Some 0)"

definition emit_lbu :: "ireg5 \<Rightarrow> ireg5 \<Rightarrow> offset12 \<Rightarrow> inst_t option" where [emit_defs]:
  "emit_lbu rd rs1 oimm12 = (if ireg5_valid rd \<and> ireg5_valid rs1 \<and> offset12_valid oimm12
     then emit_inst (decode_init\<lparr>dec_op := rv_op_lbu, dec_rd := ucast rd, dec_rs1 := ucast rs1, dec_imm := ucast oimm12\<rparr>)
     else Some 0)"

definition emit_lhu :: "ireg5 \<Rightarrow> ireg5 \<Rightarrow> offset12 \<Rightarrow> inst_t option" where [emit_defs]:
  "emit_lhu rd rs1 oimm12 = (if ireg5_valid rd \<and> ireg5_valid rs1 \<and> offset12_valid oimm12
     then emit_inst (decode_init\<lparr>dec_op := rv_op_lhu, dec_rd := ucast rd, dec_rs1 := ucast rs1, dec_imm := ucast oimm12\<rparr>)
     else Some 0)"

definition emit_sb :: "ireg5 \<Rightarrow> ireg5 \<Rightarrow> offset12 \<Rightarrow> inst_t option" where [emit_defs]:
  "emit_sb rs1 rs2 simm12 = (if ireg5_valid rs1 \<and> ireg5_valid rs2 \<and> offset12_valid simm12
     then emit_inst (decode_init\<lparr>dec_op := rv_op_sb, dec_rs1 := ucast rs1, dec_rs2 := ucast rs2, dec_imm := ucast simm12\<rparr>)
     else Some 0)"

definition emit_sh :: "ireg5 \<Rightarrow> ireg5 \<Rightarrow> offset12 \<Rightarrow> inst_t option" where [emit_defs]:
  "emit_sh rs1 rs2 simm12 = (if ireg5_valid rs1 \<and> ireg5_valid rs2 \<and> offset12_valid simm12
     then emit_inst (decode_init\<lparr>dec_op := rv_op_sh, dec_rs1 := ucast rs1, dec_rs2 := ucast rs2, dec_imm := ucast simm12\<rparr>)
     else Some 0)"

definition emit_sw :: "ireg5 \<Rightarrow> ireg5 \<Rightarrow> offset12 \<Rightarrow> inst_t option" where [emit_defs]:
  "emit_sw rs1 rs2 simm12 = (if ireg5_valid rs1 \<and> ireg5_valid rs2 \<and> offset12_valid simm12
     then emit_inst (decode_init\<lparr>dec_op := rv_op_sw, dec_rs1 := ucast rs1, dec_rs2 := ucast rs2, dec_imm := ucast simm12\<rparr>)
     else Some 0)"

definition emit_addi :: "ireg5 \<Rightarrow> ireg5 \<Rightarrow> simm12 \<Rightarrow> inst_t option" where [emit_defs]:
  "emit_addi rd rs1 imm12 = (if ireg5_valid rd \<and> ireg5_valid rs1 \<and> simm12_valid imm12
     then emit_inst (decode_init\<lparr>dec_op := rv_op_addi, dec_rd := ucast rd, dec_rs1 := ucast rs1, dec_imm := ucast imm12\<rparr>)
     else Some 0)"

definition emit_slti :: "ireg5 \<Rightarrow> ireg5 \<Rightarrow> simm12 \<Rightarrow> inst_t option" where [emit_defs]:
  "emit_slti rd rs1 imm12 = (if ireg5_valid rd \<and> ireg5_valid rs1 \<and> simm12_valid imm12
     then emit_inst (decode_init\<lparr>dec_op := rv_op_slti, dec_rd := ucast rd, dec_rs1 := ucast rs1, dec_imm := ucast imm12\<rparr>)
     else Some 0)"

definition emit_sltiu :: "ireg5 \<Rightarrow> ireg5 \<Rightarrow> simm12 \<Rightarrow> inst_t option" where [emit_defs]:
  "emit_sltiu rd rs1 imm12 = (if ireg5_valid rd \<and> ireg5_valid rs1 \<and> simm12_valid imm12
     then emit_inst (decode_init\<lparr>dec_op := rv_op_sltiu, dec_rd := ucast rd, dec_rs1 := ucast rs1, dec_imm := ucast imm12\<rparr>)
     else Some 0)"

definition emit_xori :: "ireg5 \<Rightarrow> ireg5 \<Rightarrow> simm12 \<Rightarrow> inst_t option" where [emit_defs]:
  "emit_xori rd rs1 imm12 = (if ireg5_valid rd \<and> ireg5_valid rs1 \<and> simm12_valid imm12
     then emit_inst (decode_init\<lparr>dec_op := rv_op_xori, dec_rd := ucast rd, dec_rs1 := ucast rs1, dec_imm := ucast imm12\<rparr>)
     else Some 0)"

definition emit_ori :: "ireg5 \<Rightarrow> ireg5 \<Rightarrow> simm12 \<Rightarrow> inst_t option" where [emit_defs]:
  "emit_ori rd rs1 imm12 = (if ireg5_valid rd \<and> ireg5_valid rs1 \<and> simm12_valid imm12
     then emit_inst (decode_init\<lparr>dec_op := rv_op_ori, dec_rd := ucast rd, dec_rs1 := ucast rs1, dec_imm := ucast imm12\<rparr>)
     else Some 0)"

definition emit_andi :: "ireg5 \<Rightarrow> ireg5 \<Rightarrow> simm12 \<Rightarrow> inst_t option" where [emit_defs]:
  "emit_andi rd rs1 imm12 = (if ireg5_valid rd \<and> ireg5_valid rs1 \<and> simm12_valid imm12
     then emit_inst (decode_init\<lparr>dec_op := rv_op_andi, dec_rd := ucast rd, dec_rs1 := ucast rs1, dec_imm := ucast imm12\<rparr>)
     else Some 0)"

definition emit_slli :: "ireg5 \<Rightarrow> ireg5 \<Rightarrow> uimm7 \<Rightarrow> inst_t option" where [emit_defs]:
  "emit_slli rd rs1 shamt7 = (if ireg5_valid rd \<and> ireg5_valid rs1 \<and> uimm7_valid shamt7
     then emit_inst (decode_init\<lparr>dec_op := rv_op_slli, dec_rd := ucast rd, dec_rs1 := ucast rs1, dec_imm := ucast shamt7\<rparr>)
     else Some 0)"

definition emit_srli :: "ireg5 \<Rightarrow> ireg5 \<Rightarrow> uimm7 \<Rightarrow> inst_t option" where [emit_defs]:
  "emit_srli rd rs1 shamt7 = (if ireg5_valid rd \<and> ireg5_valid rs1 \<and> uimm7_valid shamt7
     then emit_inst (decode_init\<lparr>dec_op := rv_op_srli, dec_rd := ucast rd, dec_rs1 := ucast rs1, dec_imm := ucast shamt7\<rparr>)
     else Some 0)"

definition emit_srai :: "ireg5 \<Rightarrow> ireg5 \<Rightarrow> uimm7 \<Rightarrow> inst_t option" where [emit_defs]:
  "emit_srai rd rs1 shamt7 = (if ireg5_valid rd \<and> ireg5_valid rs1 \<and> uimm7_valid shamt7
     then emit_inst (decode_init\<lparr>dec_op := rv_op_srai, dec_rd := ucast rd, dec_rs1 := ucast rs1, dec_imm := ucast shamt7\<rparr>)
     else Some 0)"

definition emit_add :: "ireg5 \<Rightarrow> ireg5 \<Rightarrow> ireg5 \<Rightarrow> inst_t option" where [emit_defs]:
  "emit_add rd rs1 rs2 = (if ireg5_valid rd \<and> ireg5_valid rs1 \<and> ireg5_valid rs2
     then emit_inst (decode_init\<lparr>dec_op := rv_op_add, dec_rd := ucast rd, dec_rs1 := ucast rs1, dec_rs2 := ucast rs2\<rparr>)
     else Some 0)"

definition emit_sub :: "ireg5 \<Rightarrow> ireg5 \<Rightarrow> ireg5 \<Rightarrow> inst_t option" where [emit_defs]:
  "emit_sub rd rs1 rs2 = (if ireg5_valid rd \<and> ireg5_valid rs1 \<and> ireg5_valid rs2
     then emit_inst (decode_init\<lparr>dec_op := rv_op_sub, dec_rd := ucast rd, dec_rs1 := ucast rs1, dec_rs2 := ucast rs2\<rparr>)
     else Some 0)"

definition emit_sll :: "ireg5 \<Rightarrow> ireg5 \<Rightarrow> ireg5 \<Rightarrow> inst_t option" where [emit_defs]:
  "emit_sll rd rs1 rs2 = (if ireg5_valid rd \<and> ireg5_valid rs1 \<and> ireg5_valid rs2
     then emit_inst (decode_init\<lparr>dec_op := rv_op_sll, dec_rd := ucast rd, dec_rs1 := ucast rs1, dec_rs2 := ucast rs2\<rparr>)
     else Some 0)"

definition emit_slt :: "ireg5 \<Rightarrow> ireg5 \<Rightarrow> ireg5 \<Rightarrow> inst_t option" where [emit_defs]:
  "emit_slt rd rs1 rs2 = (if ireg5_valid rd \<and> ireg5_valid rs1 \<and> ireg5_valid rs2
     then emit_inst (decode_init\<lparr>dec_op := rv_op_slt, dec_rd := ucast rd, dec_rs1 := ucast rs1, dec_rs2 := ucast rs2\<rparr>)
     else Some 0)"

definition emit_sltu :: "ireg5 \<Rightarrow> ireg5 \<Rightarrow> ireg5 \<Rightarrow> inst_t option" where [emit_defs]:
  "emit_sltu rd rs1 rs2 = (if ireg5_valid rd \<and> ireg5_valid rs1 \<and> ireg5_valid rs2
     then emit_inst (decode_init\<lparr>dec_op := rv_op_sltu, dec_rd := ucast rd, dec_rs1 := ucast rs1, dec_rs2 := ucast rs2\<rparr>)
     else Some 0)"

definition emit_xor :: "ireg5 \<Rightarrow> ireg5 \<Rightarrow> ireg5 \<Rightarrow> inst_t option" where [emit_defs]:
  "emit_xor rd rs1 rs2 = (if ireg5_valid rd \<and> ireg5_valid rs1 \<and> ireg5_valid rs2
     then emit_inst (decode_init\<lparr>dec_op := rv_op_xor, dec_rd := ucast rd, dec_rs1 := ucast rs1, dec_rs2 := ucast rs2\<rparr>)
     else Some 0)"

definition emit_srl :: "ireg5 \<Rightarrow> ireg5 \<Rightarrow> ireg5 \<Rightarrow> inst_t option" where [emit_defs]:
  "emit_srl rd rs1 rs2 = (if ireg5_valid rd \<and> ireg5_valid rs1 \<and> ireg5_valid rs2
     then emit_inst (decode_init\<lparr>dec_op := rv_op_srl, dec_rd := ucast rd, dec_rs1 := ucast rs1, dec_rs2 := ucast rs2\<rparr>)
     else Some 0)"

definition emit_sra :: "ireg5 \<Rightarrow> ireg5 \<Rightarrow> ireg5 \<Rightarrow> inst_t option" where [emit_defs]:
  "emit_sra rd rs1 rs2 = (if ireg5_valid rd \<and> ireg5_valid rs1 \<and> ireg5_valid rs2
     then emit_inst (decode_init\<lparr>dec_op := rv_op_sra, dec_rd := ucast rd, dec_rs1 := ucast rs1, dec_rs2 := ucast rs2\<rparr>)
     else Some 0)"

definition emit_or :: "ireg5 \<Rightarrow> ireg5 \<Rightarrow> ireg5 \<Rightarrow> inst_t option" where [emit_defs]:
  "emit_or rd rs1 rs2 = (if ireg5_valid rd \<and> ireg5_valid rs1 \<and> ireg5_valid rs2
     then emit_inst (decode_init\<lparr>dec_op := rv_op_or, dec_rd := ucast rd, dec_rs1 := ucast rs1, dec_rs2 := ucast rs2\<rparr>)
     else Some 0)"

definition emit_and :: "ireg5 \<Rightarrow> ireg5 \<Rightarrow> ireg5 \<Rightarrow> inst_t option" where [emit_defs]:
  "emit_and rd rs1 rs2 = (if ireg5_valid rd \<and> ireg5_valid rs1 \<and> ireg5_valid rs2
     then emit_inst (decode_init\<lparr>dec_op := rv_op_and, dec_rd := ucast rd, dec_rs1 := ucast rs1, dec_rs2 := ucast rs2\<rparr>)
     else Some 0)"

definition emit_fence :: "arg4 \<Rightarrow> arg4 \<Rightarrow> inst_t option" where [emit_defs]:
  "emit_fence pred succ = (if arg4_valid pred \<and> arg4_valid succ
     then emit_inst (decode_init\<lparr>dec_op := rv_op_fence, dec_pred := ucast pred, dec_succ := ucast succ\<rparr>)
     else Some 0)"

definition emit_fence_i :: "inst_t option" where [emit_defs]:
  "emit_fence_i = emit_inst (decode_init\<lparr>dec_op := rv_op_fence_i\<rparr>)"

definition emit_lwu :: "ireg5 \<Rightarrow> ireg5 \<Rightarrow> offset12 \<Rightarrow> inst_t option" where [emit_defs]:
  "emit_lwu rd rs1 oimm12 = (if ireg5_valid rd \<and> ireg5_valid rs1 \<and> offset12_valid oimm12
     then emit_inst (decode_init\<lparr>dec_op := rv_op_lwu, dec_rd := ucast rd, dec_rs1 := ucast rs1, dec_imm := ucast oimm12\<rparr>)
     else Some 0)"

definition emit_ld :: "ireg5 \<Rightarrow> ireg5 \<Rightarrow> offset12 \<Rightarrow> inst_t option" where [emit_defs]:
  "emit_ld rd rs1 oimm12 = (if ireg5_valid rd \<and> ireg5_valid rs1 \<and> offset12_valid oimm12
     then emit_inst (decode_init\<lparr>dec_op := rv_op_ld, dec_rd := ucast rd, dec_rs1 := ucast rs1, dec_imm := ucast oimm12\<rparr>)
     else Some 0)"

definition emit_sd :: "ireg5 \<Rightarrow> ireg5 \<Rightarrow> offset12 \<Rightarrow> inst_t option" where [emit_defs]:
  "emit_sd rs1 rs2 simm12 = (if ireg5_valid rs1 \<and> ireg5_valid rs2 \<and> offset12_valid simm12
     then emit_inst (decode_init\<lparr>dec_op := rv_op_sd, dec_rs1 := ucast rs1, dec_rs2 := ucast rs2, dec_imm := ucast simm12\<rparr>)
     else Some 0)"

definition emit_addiw :: "ireg5 \<Rightarrow> ireg5 \<Rightarrow> simm12 \<Rightarrow> inst_t option" where [emit_defs]:
  "emit_addiw rd rs1 imm12 = (if ireg5_valid rd \<and> ireg5_valid rs1 \<and> simm12_valid imm12
     then emit_inst (decode_init\<lparr>dec_op := rv_op_addiw, dec_rd := ucast rd, dec_rs1 := ucast rs1, dec_imm := ucast imm12\<rparr>)
     else Some 0)"

definition emit_slliw :: "ireg5 \<Rightarrow> ireg5 \<Rightarrow> uimm5 \<Rightarrow> inst_t option" where [emit_defs]:
  "emit_slliw rd rs1 shamt5 = (if ireg5_valid rd \<and> ireg5_valid rs1 \<and> uimm5_valid shamt5
     then emit_inst (decode_init\<lparr>dec_op := rv_op_slliw, dec_rd := ucast rd, dec_rs1 := ucast rs1, dec_imm := ucast shamt5\<rparr>)
     else Some 0)"

definition emit_srliw :: "ireg5 \<Rightarrow> ireg5 \<Rightarrow> uimm5 \<Rightarrow> inst_t option" where [emit_defs]:
  "emit_srliw rd rs1 shamt5 = (if ireg5_valid rd \<and> ireg5_valid rs1 \<and> uimm5_valid shamt5
     then emit_inst (decode_init\<lparr>dec_op := rv_op_srliw, dec_rd := ucast rd, dec_rs1 := ucast rs1, dec_imm := ucast shamt5\<rparr>)
     else Some 0)"

definition emit_sraiw :: "ireg5 \<Rightarrow> ireg5 \<Rightarrow> uimm5 \<Rightarrow> inst_t option" where [emit_defs]:
  "emit_sraiw rd rs1 shamt5 = (if ireg5_valid rd \<and> ireg5_valid rs1 \<and> uimm5_valid shamt5
     then emit_inst (decode_init\<lparr>dec_op := rv_op_sraiw, dec_rd := ucast rd, dec_rs1 := ucast rs1, dec_imm := ucast shamt5\<rparr>)
     else Some 0)"

definition emit_addw :: "ireg5 \<Rightarrow> ireg5 \<Rightarrow> ireg5 \<Rightarrow> inst_t option" where [emit_defs]:
  "emit_addw rd rs1 rs2 = (if ireg5_valid rd \<and> ireg5_valid rs1 \<and> ireg5_valid rs2
     then emit_inst (decode_init\<lparr>dec_op := rv_op_addw, dec_rd := ucast rd, dec_rs1 := ucast rs1, dec_rs2 := ucast rs2\<rparr>)
     else Some 0)"

definition emit_subw :: "ireg5 \<Rightarrow> ireg5 \<Rightarrow> ireg5 \<Rightarrow> inst_t option" where [emit_defs]:
  "emit_subw rd rs1 rs2 = (if ireg5_valid rd \<and> ireg5_valid rs1 \<and> ireg5_valid rs2
     then emit_inst (decode_init\<lparr>dec_op := rv_op_subw, dec_rd := ucast rd, dec_rs1 := ucast rs1, dec_rs2 := ucast rs2\<rparr>)
     else Some 0)"

definition emit_sllw :: "ireg5 \<Rightarrow> ireg5 \<Rightarrow> ireg5 \<Rightarrow> inst_t option" where [emit_defs]:
  "emit_sllw rd rs1 rs2 = (if ireg5_valid rd \<and> ireg5_valid rs1 \<and> ireg5_valid rs2
     then emit_inst (decode_init\<lparr>dec_op := rv_op_sllw, dec_rd := ucast rd, dec_rs1 := ucast rs1, dec_rs2 := ucast rs2\<rparr>)
     else Some 0)"

definition emit_srlw :: "ireg5 \<Rightarrow> ireg5 \<Rightarrow> ireg5 \<Rightarrow> inst_t option" where [emit_defs]:
  "emit_srlw rd rs1 rs2 = (if ireg5_valid rd \<and> ireg5_valid rs1 \<and> ireg5_valid rs2
     then emit_inst (decode_init\<lparr>dec_op := rv_op_srlw, dec_rd := ucast rd, dec_rs1 := ucast rs1, dec_rs2 := ucast rs2\<rparr>)
     else Some 0)"

definition emit_sraw :: "ireg5 \<Rightarrow> ireg5 \<Rightarrow> ireg5 \<Rightarrow> inst_t option" where [emit_defs]:
  "emit_sraw rd rs1 rs2 = (if ireg5_valid rd \<and> ireg5_valid rs1 \<and> ireg5_valid rs2
     then emit_inst (decode_init\<lparr>dec_op := rv_op_sraw, dec_rd := ucast rd, dec_rs1 := ucast rs1, dec_rs2 := ucast rs2\<rparr>)
     else Some 0)"

definition emit_ldu :: "ireg5 \<Rightarrow> ireg5 \<Rightarrow> offset12 \<Rightarrow> inst_t option" where [emit_defs]:
  "emit_ldu rd rs1 oimm12 = (if ireg5_valid rd \<and> ireg5_valid rs1 \<and> offset12_valid oimm12
     then emit_inst (decode_init\<lparr>dec_op := rv_op_ldu, dec_rd := ucast rd, dec_rs1 := ucast rs1, dec_imm := ucast oimm12\<rparr>)
     else Some 0)"

definition emit_lq :: "ireg5 \<Rightarrow> ireg5 \<Rightarrow> offset12 \<Rightarrow> inst_t option" where [emit_defs]:
  "emit_lq rd rs1 oimm12 = (if ireg5_valid rd \<and> ireg5_valid rs1 \<and> offset12_valid oimm12
     then emit_inst (decode_init\<lparr>dec_op := rv_op_lq, dec_rd := ucast rd, dec_rs1 := ucast rs1, dec_imm := ucast oimm12\<rparr>)
     else Some 0)"

definition emit_sq :: "ireg5 \<Rightarrow> ireg5 \<Rightarrow> offset12 \<Rightarrow> inst_t option" where [emit_defs]:
  "emit_sq rs1 rs2 simm12 = (if ireg5_valid rs1 \<and> ireg5_valid rs2 \<and> offset12_valid simm12
     then emit_inst (decode_init\<lparr>dec_op := rv_op_sq, dec_rs1 := ucast rs1, dec_rs2 := ucast rs2, dec_imm := ucast simm12\<rparr>)
     else Some 0)"

definition emit_addid :: "ireg5 \<Rightarrow> ireg5 \<Rightarrow> simm12 \<Rightarrow> inst_t option" where [emit_defs]:
  "emit_addid rd rs1 imm12 = (if ireg5_valid rd \<and> ireg5_valid rs1 \<and> simm12_valid imm12
     then emit_inst (decode_init\<lparr>dec_op := rv_op_addid, dec_rd := ucast rd, dec_rs1 := ucast rs1, dec_imm := ucast imm12\<rparr>)
     else Some 0)"

definition emit_sllid :: "ireg5 \<Rightarrow> ireg5 \<Rightarrow> uimm6 \<Rightarrow> inst_t option" where [emit_defs]:
  "emit_sllid rd rs1 shamt6 = (if ireg5_valid rd \<and> ireg5_valid rs1 \<and> uimm6_valid shamt6
     then emit_inst (decode_init\<lparr>dec_op := rv_op_sllid, dec_rd := ucast rd, dec_rs1 := ucast rs1, dec_imm := ucast shamt6\<rparr>)
     else Some 0)"

definition emit_srlid :: "ireg5 \<Rightarrow> ireg5 \<Rightarrow> uimm6 \<Rightarrow> inst_t option" where [emit_defs]:
  "emit_srlid rd rs1 shamt6 = (if ireg5_valid rd \<and> ireg5_valid rs1 \<and> uimm6_valid shamt6
     then emit_inst (decode_init\<lparr>dec_op := rv_op_srlid, dec_rd := ucast rd, dec_rs1 := ucast rs1, dec_imm := ucast shamt6\<rparr>)
     else Some 0)"

definition emit_sraid :: "ireg5 \<Rightarrow> ireg5 \<Rightarrow> uimm6 \<Rightarrow> inst_t option" where [emit_defs]:
  "emit_sraid rd rs1 shamt6 = (if ireg5_valid rd \<and> ireg5_valid rs1 \<and> uimm6_valid shamt6
     then emit_inst (decode_init\<lparr>dec_op := rv_op_sraid, dec_rd := ucast rd, dec_rs1 := ucast rs1, dec_imm := ucast shamt6\<rparr>)
     else Some 0)"

definition emit_addd :: "ireg5 \<Rightarrow> ireg5 \<Rightarrow> ireg5 \<Rightarrow> inst_t option" where [emit_defs]:
  "emit_addd rd rs1 rs2 = (if ireg5_valid rd \<and> ireg5_valid rs1 \<and> ireg5_valid rs2
     then emit_inst (decode_init\<lparr>dec_op := rv_op_addd, dec_rd := ucast rd, dec_rs1 := ucast rs1, dec_rs2 := ucast rs2\<rparr>)
     else Some 0)"

definition emit_subd :: "ireg5 \<Rightarrow> ireg5 \<Rightarrow> ireg5 \<Rightarrow> inst_t option" where [emit_defs]:
  "emit_subd rd rs1 rs2 = (if ireg5_valid rd \<and> ireg5_valid rs1 \<and> ireg5_valid rs2
     then emit_inst (decode_init\<lparr>dec_op := rv_op_subd, dec_rd := ucast rd, dec_rs1 := ucast rs1, dec_rs2 := ucast rs2\<rparr>)
     else Some 0)"

definition emit_slld :: "ireg5 \<Rightarrow> ireg5 \<Rightarrow> ireg5 \<Rightarrow> inst_t option" where [emit_defs]:
  "emit_slld rd rs1 rs2 = (if ireg5_valid rd \<and> ireg5_valid rs1 \<and> ireg5_valid rs2
     then emit_inst (decode_init\<lparr>dec_op := rv_op_slld, dec_rd := ucast rd, dec_rs1 := ucast rs1, dec_rs2 := ucast rs2\<rparr>)
     else Some 0)"

definition emit_srld :: "ireg5 \<Rightarrow> ireg5 \<Rightarrow> ireg5 \<Rightarrow> inst_t option" where [emit_defs]:
  "emit_srld rd rs1 rs2 = (if ireg5_valid rd \<and> ireg5_valid rs1 \<and> ireg5_valid rs2
     then emit_inst (decode_init\<lparr>dec_op := rv_op_srld, dec_rd := ucast rd, dec_rs1 := ucast rs1, dec_rs2 := ucast rs2\<rparr>)
     else Some 0)"

definition emit_srad :: "ireg5 \<Rightarrow> ireg5 \<Rightarrow> ireg5 \<Rightarrow> inst_t option" where [emit_defs]:
  "emit_srad rd rs1 rs2 = (if ireg5_valid rd \<and> ireg5_valid rs1 \<and> ireg5_valid rs2
     then emit_inst (decode_init\<lparr>dec_op := rv_op_srad, dec_rd := ucast rd, dec_rs1 := ucast rs1, dec_rs2 := ucast rs2\<rparr>)
     else Some 0)"

definition emit_mul :: "ireg5 \<Rightarrow> ireg5 \<Rightarrow> ireg5 \<Rightarrow> inst_t option" where [emit_defs]:
  "emit_mul rd rs1 rs2 = (if ireg5_valid rd \<and> ireg5_valid rs1 \<and> ireg5_valid rs2
     then emit_inst (decode_init\<lparr>dec_op := rv_op_mul, dec_rd := ucast rd, dec_rs1 := ucast rs1, dec_rs2 := ucast rs2\<rparr>)
     else Some 0)"

definition emit_mulh :: "ireg5 \<Rightarrow> ireg5 \<Rightarrow> ireg5 \<Rightarrow> inst_t option" where [emit_defs]:
  "emit_mulh rd rs1 rs2 = (if ireg5_valid rd \<and> ireg5_valid rs1 \<and> ireg5_valid rs2
     then emit_inst (decode_init\<lparr>dec_op := rv_op_mulh, dec_rd := ucast rd, dec_rs1 := ucast rs1, dec_rs2 := ucast rs2\<rparr>)
     else Some 0)"

definition emit_mulhsu :: "ireg5 \<Rightarrow> ireg5 \<Rightarrow> ireg5 \<Rightarrow> inst_t option" where [emit_defs]:
  "emit_mulhsu rd rs1 rs2 = (if ireg5_valid rd \<and> ireg5_valid rs1 \<and> ireg5_valid rs2
     then emit_inst (decode_init\<lparr>dec_op := rv_op_mulhsu, dec_rd := ucast rd, dec_rs1 := ucast rs1, dec_rs2 := ucast rs2\<rparr>)
     else Some 0)"

definition emit_mulhu :: "ireg5 \<Rightarrow> ireg5 \<Rightarrow> ireg5 \<Rightarrow> inst_t option" where [emit_defs]:
  "emit_mulhu rd rs1 rs2 = (if ireg5_valid rd \<and> ireg5_valid rs1 \<and> ireg5_valid rs2
     then emit_inst (decode_init\<lparr>dec_op := rv_op_mulhu, dec_rd := ucast rd, dec_rs1 := ucast rs1, dec_rs2 := ucast rs2\<rparr>)
     else Some 0)"

definition emit_div :: "ireg5 \<Rightarrow> ireg5 \<Rightarrow> ireg5 \<Rightarrow> inst_t option" where [emit_defs]:
  "emit_div rd rs1 rs2 = (if ireg5_valid rd \<and> ireg5_valid rs1 \<and> ireg5_valid rs2
     then emit_inst (decode_init\<lparr>dec_op := rv_op_div, dec_rd := ucast rd, dec_rs1 := ucast rs1, dec_rs2 := ucast rs2\<rparr>)
     else Some 0)"

definition emit_divu :: "ireg5 \<Rightarrow> ireg5 \<Rightarrow> ireg5 \<Rightarrow> inst_t option" where [emit_defs]:
  "emit_divu rd rs1 rs2 = (if ireg5_valid rd \<and> ireg5_valid rs1 \<and> ireg5_valid rs2
     then emit_inst (decode_init\<lparr>dec_op := rv_op_divu, dec_rd := ucast rd, dec_rs1 := ucast rs1, dec_rs2 := ucast rs2\<rparr>)
     else Some 0)"

definition emit_rem :: "ireg5 \<Rightarrow> ireg5 \<Rightarrow> ireg5 \<Rightarrow> inst_t option" where [emit_defs]:
  "emit_rem rd rs1 rs2 = (if ireg5_valid rd \<and> ireg5_valid rs1 \<and> ireg5_valid rs2
     then emit_inst (decode_init\<lparr>dec_op := rv_op_rem, dec_rd := ucast rd, dec_rs1 := ucast rs1, dec_rs2 := ucast rs2\<rparr>)
     else Some 0)"

definition emit_remu :: "ireg5 \<Rightarrow> ireg5 \<Rightarrow> ireg5 \<Rightarrow> inst_t option" where [emit_defs]:
  "emit_remu rd rs1 rs2 = (if ireg5_valid rd \<and> ireg5_valid rs1 \<and> ireg5_valid rs2
     then emit_inst (decode_init\<lparr>dec_op := rv_op_remu, dec_rd := ucast rd, dec_rs1 := ucast rs1, dec_rs2 := ucast rs2\<rparr>)
     else Some 0)"

definition emit_mulw :: "ireg5 \<Rightarrow> ireg5 \<Rightarrow> ireg5 \<Rightarrow> inst_t option" where [emit_defs]:
  "emit_mulw rd rs1 rs2 = (if ireg5_valid rd \<and> ireg5_valid rs1 \<and> ireg5_valid rs2
     then emit_inst (decode_init\<lparr>dec_op := rv_op_mulw, dec_rd := ucast rd, dec_rs1 := ucast rs1, dec_rs2 := ucast rs2\<rparr>)
     else Some 0)"

definition emit_divw :: "ireg5 \<Rightarrow> ireg5 \<Rightarrow> ireg5 \<Rightarrow> inst_t option" where [emit_defs]:
  "emit_divw rd rs1 rs2 = (if ireg5_valid rd \<and> ireg5_valid rs1 \<and> ireg5_valid rs2
     then emit_inst (decode_init\<lparr>dec_op := rv_op_divw, dec_rd := ucast rd, dec_rs1 := ucast rs1, dec_rs2 := ucast rs2\<rparr>)
     else Some 0)"

definition emit_divuw :: "ireg5 \<Rightarrow> ireg5 \<Rightarrow> ireg5 \<Rightarrow> inst_t option" where [emit_defs]:
  "emit_divuw rd rs1 rs2 = (if ireg5_valid rd \<and> ireg5_valid rs1 \<and> ireg5_valid rs2
     then emit_inst (decode_init\<lparr>dec_op := rv_op_divuw, dec_rd := ucast rd, dec_rs1 := ucast rs1, dec_rs2 := ucast rs2\<rparr>)
     else Some 0)"

definition emit_remw :: "ireg5 \<Rightarrow> ireg5 \<Rightarrow> ireg5 \<Rightarrow> inst_t option" where [emit_defs]:
  "emit_remw rd rs1 rs2 = (if ireg5_valid rd \<and> ireg5_valid rs1 \<and> ireg5_valid rs2
     then emit_inst (decode_init\<lparr>dec_op := rv_op_remw, dec_rd := ucast rd, dec_rs1 := ucast rs1, dec_rs2 := ucast rs2\<rparr>)
     else Some 0)"

definition emit_remuw :: "ireg5 \<Rightarrow> ireg5 \<Rightarrow> ireg5 \<Rightarrow> inst_t option" where [emit_defs]:
  "emit_remuw rd rs1 rs2 = (if ireg5_valid rd \<and> ireg5_valid rs1 \<and> ireg5_valid rs2
     then emit_inst (decode_init\<lparr>dec_op := rv_op_remuw, dec_rd := ucast rd, dec_rs1 := ucast rs1, dec_rs2 := ucast rs2\<rparr>)
     else Some 0)"

definition emit_muld :: "ireg5 \<Rightarrow> ireg5 \<Rightarrow> ireg5 \<Rightarrow> inst_t option" where [emit_defs]:
  "emit_muld rd rs1 rs2 = (if ireg5_valid rd \<and> ireg5_valid rs1 \<and> ireg5_valid rs2
     then emit_inst (decode_init\<lparr>dec_op := rv_op_muld, dec_rd := ucast rd, dec_rs1 := ucast rs1, dec_rs2 := ucast rs2\<rparr>)
     else Some 0)"

definition emit_divd :: "ireg5 \<Rightarrow> ireg5 \<Rightarrow> ireg5 \<Rightarrow> inst_t option" where [emit_defs]:
  "emit_divd rd rs1 rs2 = (if ireg5_valid rd \<and> ireg5_valid rs1 \<and> ireg5_valid rs2
     then emit_inst (decode_init\<lparr>dec_op := rv_op_divd, dec_rd := ucast rd, dec_rs1 := ucast rs1, dec_rs2 := ucast rs2\<rparr>)
     else Some 0)"

definition emit_divud :: "ireg5 \<Rightarrow> ireg5 \<Rightarrow> ireg5 \<Rightarrow> inst_t option" where [emit_defs]:
  "emit_divud rd rs1 rs2 = (if ireg5_valid rd \<and> ireg5_valid rs1 \<and> ireg5_valid rs2
     then emit_inst (decode_init\<lparr>dec_op := rv_op_divud, dec_rd := ucast rd, dec_rs1 := ucast rs1, dec_rs2 := ucast rs2\<rparr>)
     else Some 0)"

definition emit_remd :: "ireg5 \<Rightarrow> ireg5 \<Rightarrow> ireg5 \<Rightarrow> inst_t option" where [emit_defs]:
  "emit_remd rd rs1 rs2 = (if ireg5_valid rd \<and> ireg5_valid rs1 \<and> ireg5_valid rs2
     then emit_inst (decode_init\<lparr>dec_op := rv_op_remd, dec_rd := ucast rd, dec_rs1 := ucast rs1, dec_rs2 := ucast rs2\<rparr>)
     else Some 0)"

definition emit_remud :: "ireg5 \<Rightarrow> ireg5 \<Rightarrow> ireg5 \<Rightarrow> inst_t option" where [emit_defs]:
  "emit_remud rd rs1 rs2 = (if ireg5_valid rd \<and> ireg5_valid rs1 \<and> ireg5_valid rs2
     then emit_inst (decode_init\<lparr>dec_op := rv_op_remud, dec_rd := ucast rd, dec_rs1 := ucast rs1, dec_rs2 := ucast rs2\<rparr>)
     else Some 0)"

definition emit_lr_w :: "ireg5 \<Rightarrow> ireg5 \<Rightarrow> arg1 \<Rightarrow> arg1 \<Rightarrow> inst_t option" where [emit_defs]:
  "emit_lr_w rd rs1 aq rl = (if ireg5_valid rd \<and> ireg5_valid rs1 \<and> arg1_valid aq \<and> arg1_valid rl
     then emit_inst (decode_init\<lparr>dec_op := rv_op_lr_w, dec_rd := ucast rd, dec_rs1 := ucast rs1, dec_aq := ucast aq, dec_rl := ucast rl\<rparr>)
     else Some 0)"

definition emit_sc_w :: "ireg5 \<Rightarrow> ireg5 \<Rightarrow> ireg5 \<Rightarrow> arg1 \<Rightarrow> arg1 \<Rightarrow> inst_t option" where [emit_defs]:
  "emit_sc_w rd rs1 rs2 aq rl = (if ireg5_valid rd \<and> ireg5_valid rs1 \<and> ireg5_valid rs2 \<and> arg1_valid aq \<and> arg1_valid rl
     then emit_inst (decode_init\<lparr>dec_op := rv_op_sc_w, dec_rd := ucast rd, dec_rs1 := ucast rs1, dec_rs2 := ucast rs2, dec_aq := ucast aq, dec_rl := ucast rl\<rparr>)
     else Some 0)"

definition emit_amoswap_w :: "ireg5 \<Rightarrow> ireg5 \<Rightarrow> ireg5 \<Rightarrow> arg1 \<Rightarrow> arg1 \<Rightarrow> inst_t option" where [emit_defs]:
  "emit_amoswap_w rd rs1 rs2 aq rl = (if ireg5_valid rd \<and> ireg5_valid rs1 \<and> ireg5_valid rs2 \<and> arg1_valid aq \<and> arg1_valid rl
     then emit_inst (decode_init\<lparr>dec_op := rv_op_amoswap_w, dec_rd := ucast rd, dec_rs1 := ucast rs1, dec_rs2 := ucast rs2, dec_aq := ucast aq, dec_rl := ucast rl\<rparr>)
     else Some 0)"

definition emit_amoadd_w :: "ireg5 \<Rightarrow> ireg5 \<Rightarrow> ireg5 \<Rightarrow> arg1 \<Rightarrow> arg1 \<Rightarrow> inst_t option" where [emit_defs]:
  "emit_amoadd_w rd rs1 rs2 aq rl = (if ireg5_valid rd \<and> ireg5_valid rs1 \<and> ireg5_valid rs2 \<and> arg1_valid aq \<and> arg1_valid rl
     then emit_inst (decode_init\<lparr>dec_op := rv_op_amoadd_w, dec_rd := ucast rd, dec_rs1 := ucast rs1, dec_rs2 := ucast rs2, dec_aq := ucast aq, dec_rl := ucast rl\<rparr>)
     else Some 0)"

definition emit_amoxor_w :: "ireg5 \<Rightarrow> ireg5 \<Rightarrow> ireg5 \<Rightarrow> arg1 \<Rightarrow> arg1 \<Rightarrow> inst_t option" where [emit_defs]:
  "emit_amoxor_w rd rs1 rs2 aq rl = (if ireg5_valid rd \<and> ireg5_valid rs1 \<and> ireg5_valid rs2 \<and> arg1_valid aq \<and> arg1_valid rl
     then emit_inst (decode_init\<lparr>dec_op := rv_op_amoxor_w, dec_rd := ucast rd, dec_rs1 := ucast rs1, dec_rs2 := ucast rs2, dec_aq := ucast aq, dec_rl := ucast rl\<rparr>)
     else Some 0)"

definition emit_amoor_w :: "ireg5 \<Rightarrow> ireg5 \<Rightarrow> ireg5 \<Rightarrow> arg1 \<Rightarrow> arg1 \<Rightarrow> inst_t option" where [emit_defs]:
  "emit_amoor_w rd rs1 rs2 aq rl = (if ireg5_valid rd \<and> ireg5_valid rs1 \<and> ireg5_valid rs2 \<and> arg1_valid aq \<and> arg1_valid rl
     then emit_inst (decode_init\<lparr>dec_op := rv_op_amoor_w, dec_rd := ucast rd, dec_rs1 := ucast rs1, dec_rs2 := ucast rs2, dec_aq := ucast aq, dec_rl := ucast rl\<rparr>)
     else Some 0)"

definition emit_amoand_w :: "ireg5 \<Rightarrow> ireg5 \<Rightarrow> ireg5 \<Rightarrow> arg1 \<Rightarrow> arg1 \<Rightarrow> inst_t option" where [emit_defs]:
  "emit_amoand_w rd rs1 rs2 aq rl = (if ireg5_valid rd \<and> ireg5_valid rs1 \<and> ireg5_valid rs2 \<and> arg1_valid aq \<and> arg1_valid rl
     then emit_inst (decode_init\<lparr>dec_op := rv_op_amoand_w, dec_rd := ucast rd, dec_rs1 := ucast rs1, dec_rs2 := ucast rs2, dec_aq := ucast aq, dec_rl := ucast rl\<rparr>)
     else Some 0)"

definition emit_amomin_w :: "ireg5 \<Rightarrow> ireg5 \<Rightarrow> ireg5 \<Rightarrow> arg1 \<Rightarrow> arg1 \<Rightarrow> inst_t option" where [emit_defs]:
  "emit_amomin_w rd rs1 rs2 aq rl = (if ireg5_valid rd \<and> ireg5_valid rs1 \<and> ireg5_valid rs2 \<and> arg1_valid aq \<and> arg1_valid rl
     then emit_inst (decode_init\<lparr>dec_op := rv_op_amomin_w, dec_rd := ucast rd, dec_rs1 := ucast rs1, dec_rs2 := ucast rs2, dec_aq := ucast aq, dec_rl := ucast rl\<rparr>)
     else Some 0)"

definition emit_amomax_w :: "ireg5 \<Rightarrow> ireg5 \<Rightarrow> ireg5 \<Rightarrow> arg1 \<Rightarrow> arg1 \<Rightarrow> inst_t option" where [emit_defs]:
  "emit_amomax_w rd rs1 rs2 aq rl = (if ireg5_valid rd \<and> ireg5_valid rs1 \<and> ireg5_valid rs2 \<and> arg1_valid aq \<and> arg1_valid rl
     then emit_inst (decode_init\<lparr>dec_op := rv_op_amomax_w, dec_rd := ucast rd, dec_rs1 := ucast rs1, dec_rs2 := ucast rs2, dec_aq := ucast aq, dec_rl := ucast rl\<rparr>)
     else Some 0)"

definition emit_amominu_w :: "ireg5 \<Rightarrow> ireg5 \<Rightarrow> ireg5 \<Rightarrow> arg1 \<Rightarrow> arg1 \<Rightarrow> inst_t option" where [emit_defs]:
  "emit_amominu_w rd rs1 rs2 aq rl = (if ireg5_valid rd \<and> ireg5_valid rs1 \<and> ireg5_valid rs2 \<and> arg1_valid aq \<and> arg1_valid rl
     then emit_inst (decode_init\<lparr>dec_op := rv_op_amominu_w, dec_rd := ucast rd, dec_rs1 := ucast rs1, dec_rs2 := ucast rs2, dec_aq := ucast aq, dec_rl := ucast rl\<rparr>)
     else Some 0)"

definition emit_amomaxu_w :: "ireg5 \<Rightarrow> ireg5 \<Rightarrow> ireg5 \<Rightarrow> arg1 \<Rightarrow> arg1 \<Rightarrow> inst_t option" where [emit_defs]:
  "emit_amomaxu_w rd rs1 rs2 aq rl = (if ireg5_valid rd \<and> ireg5_valid rs1 \<and> ireg5_valid rs2 \<and> arg1_valid aq \<and> arg1_valid rl
     then emit_inst (decode_init\<lparr>dec_op := rv_op_amomaxu_w, dec_rd := ucast rd, dec_rs1 := ucast rs1, dec_rs2 := ucast rs2, dec_aq := ucast aq, dec_rl := ucast rl\<rparr>)
     else Some 0)"

definition emit_lr_d :: "ireg5 \<Rightarrow> ireg5 \<Rightarrow> arg1 \<Rightarrow> arg1 \<Rightarrow> inst_t option" where [emit_defs]:
  "emit_lr_d rd rs1 aq rl = (if ireg5_valid rd \<and> ireg5_valid rs1 \<and> arg1_valid aq \<and> arg1_valid rl
     then emit_inst (decode_init\<lparr>dec_op := rv_op_lr_d, dec_rd := ucast rd, dec_rs1 := ucast rs1, dec_aq := ucast aq, dec_rl := ucast rl\<rparr>)
     else Some 0)"

definition emit_sc_d :: "ireg5 \<Rightarrow> ireg5 \<Rightarrow> ireg5 \<Rightarrow> arg1 \<Rightarrow> arg1 \<Rightarrow> inst_t option" where [emit_defs]:
  "emit_sc_d rd rs1 rs2 aq rl = (if ireg5_valid rd \<and> ireg5_valid rs1 \<and> ireg5_valid rs2 \<and> arg1_valid aq \<and> arg1_valid rl
     then emit_inst (decode_init\<lparr>dec_op := rv_op_sc_d, dec_rd := ucast rd, dec_rs1 := ucast rs1, dec_rs2 := ucast rs2, dec_aq := ucast aq, dec_rl := ucast rl\<rparr>)
     else Some 0)"

definition emit_amoswap_d :: "ireg5 \<Rightarrow> ireg5 \<Rightarrow> ireg5 \<Rightarrow> arg1 \<Rightarrow> arg1 \<Rightarrow> inst_t option" where [emit_defs]:
  "emit_amoswap_d rd rs1 rs2 aq rl = (if ireg5_valid rd \<and> ireg5_valid rs1 \<and> ireg5_valid rs2 \<and> arg1_valid aq \<and> arg1_valid rl
     then emit_inst (decode_init\<lparr>dec_op := rv_op_amoswap_d, dec_rd := ucast rd, dec_rs1 := ucast rs1, dec_rs2 := ucast rs2, dec_aq := ucast aq, dec_rl := ucast rl\<rparr>)
     else Some 0)"

definition emit_amoadd_d :: "ireg5 \<Rightarrow> ireg5 \<Rightarrow> ireg5 \<Rightarrow> arg1 \<Rightarrow> arg1 \<Rightarrow> inst_t option" where [emit_defs]:
  "emit_amoadd_d rd rs1 rs2 aq rl = (if ireg5_valid rd \<and> ireg5_valid rs1 \<and> ireg5_valid rs2 \<and> arg1_valid aq \<and> arg1_valid rl
     then emit_inst (decode_init\<lparr>dec_op := rv_op_amoadd_d, dec_rd := ucast rd, dec_rs1 := ucast rs1, dec_rs2 := ucast rs2, dec_aq := ucast aq, dec_rl := ucast rl\<rparr>)
     else Some 0)"

definition emit_amoxor_d :: "ireg5 \<Rightarrow> ireg5 \<Rightarrow> ireg5 \<Rightarrow> arg1 \<Rightarrow> arg1 \<Rightarrow> inst_t option" where [emit_defs]:
  "emit_amoxor_d rd rs1 rs2 aq rl = (if ireg5_valid rd \<and> ireg5_valid rs1 \<and> ireg5_valid rs2 \<and> arg1_valid aq \<and> arg1_valid rl
     then emit_inst (decode_init\<lparr>dec_op := rv_op_amoxor_d, dec_rd := ucast rd, dec_rs1 := ucast rs1, dec_rs2 := ucast rs2, dec_aq := ucast aq, dec_rl := ucast rl\<rparr>)
     else Some 0)"

definition emit_amoor_d :: "ireg5 \<Rightarrow> ireg5 \<Rightarrow> ireg5 \<Rightarrow> arg1 \<Rightarrow> arg1 \<Rightarrow> inst_t option" where [emit_defs]:
  "emit_amoor_d rd rs1 rs2 aq rl = (if ireg5_valid rd \<and> ireg5_valid rs1 \<and> ireg5_valid rs2 \<and> arg1_valid aq \<and> arg1_valid rl
     then emit_inst (decode_init\<lparr>dec_op := rv_op_amoor_d, dec_rd := ucast rd, dec_rs1 := ucast rs1, dec_rs2 := ucast rs2, dec_aq := ucast aq, dec_rl := ucast rl\<rparr>)
     else Some 0)"

definition emit_amoand_d :: "ireg5 \<Rightarrow> ireg5 \<Rightarrow> ireg5 \<Rightarrow> arg1 \<Rightarrow> arg1 \<Rightarrow> inst_t option" where [emit_defs]:
  "emit_amoand_d rd rs1 rs2 aq rl = (if ireg5_valid rd \<and> ireg5_valid rs1 \<and> ireg5_valid rs2 \<and> arg1_valid aq \<and> arg1_valid rl
     then emit_inst (decode_init\<lparr>dec_op := rv_op_amoand_d, dec_rd := ucast rd, dec_rs1 := ucast rs1, dec_rs2 := ucast rs2, dec_aq := ucast aq, dec_rl := ucast rl\<rparr>)
     else Some 0)"

definition emit_amomin_d :: "ireg5 \<Rightarrow> ireg5 \<Rightarrow> ireg5 \<Rightarrow> arg1 \<Rightarrow> arg1 \<Rightarrow> inst_t option" where [emit_defs]:
  "emit_amomin_d rd rs1 rs2 aq rl = (if ireg5_valid rd \<and> ireg5_valid rs1 \<and> ireg5_valid rs2 \<and> arg1_valid aq \<and> arg1_valid rl
     then emit_inst (decode_init\<lparr>dec_op := rv_op_amomin_d, dec_rd := ucast rd, dec_rs1 := ucast rs1, dec_rs2 := ucast rs2, dec_aq := ucast aq, dec_rl := ucast rl\<rparr>)
     else Some 0)"

definition emit_amomax_d :: "ireg5 \<Rightarrow> ireg5 \<Rightarrow> ireg5 \<Rightarrow> arg1 \<Rightarrow> arg1 \<Rightarrow> inst_t option" where [emit_defs]:
  "emit_amomax_d rd rs1 rs2 aq rl = (if ireg5_valid rd \<and> ireg5_valid rs1 \<and> ireg5_valid rs2 \<and> arg1_valid aq \<and> arg1_valid rl
     then emit_inst (decode_init\<lparr>dec_op := rv_op_amomax_d, dec_rd := ucast rd, dec_rs1 := ucast rs1, dec_rs2 := ucast rs2, dec_aq := ucast aq, dec_rl := ucast rl\<rparr>)
     else Some 0)"

definition emit_amominu_d :: "ireg5 \<Rightarrow> ireg5 \<Rightarrow> ireg5 \<Rightarrow> arg1 \<Rightarrow> arg1 \<Rightarrow> inst_t option" where [emit_defs]:
  "emit_amominu_d rd rs1 rs2 aq rl = (if ireg5_valid rd \<and> ireg5_valid rs1 \<and> ireg5_valid rs2 \<and> arg1_valid aq \<and> arg1_valid rl
     then emit_inst (decode_init\<lparr>dec_op := rv_op_amominu_d, dec_rd := ucast rd, dec_rs1 := ucast rs1, dec_rs2 := ucast rs2, dec_aq := ucast aq, dec_rl := ucast rl\<rparr>)
     else Some 0)"

definition emit_amomaxu_d :: "ireg5 \<Rightarrow> ireg5 \<Rightarrow> ireg5 \<Rightarrow> arg1 \<Rightarrow> arg1 \<Rightarrow> inst_t option" where [emit_defs]:
  "emit_amomaxu_d rd rs1 rs2 aq rl = (if ireg5_valid rd \<and> ireg5_valid rs1 \<and> ireg5_valid rs2 \<and> arg1_valid aq \<and> arg1_valid rl
     then emit_inst (decode_init\<lparr>dec_op := rv_op_amomaxu_d, dec_rd := ucast rd, dec_rs1 := ucast rs1, dec_rs2 := ucast rs2, dec_aq := ucast aq, dec_rl := ucast rl\<rparr>)
     else Some 0)"

definition emit_lr_q :: "ireg5 \<Rightarrow> ireg5 \<Rightarrow> arg1 \<Rightarrow> arg1 \<Rightarrow> inst_t option" where [emit_defs]:
  "emit_lr_q rd rs1 aq rl = (if ireg5_valid rd \<and> ireg5_valid rs1 \<and> arg1_valid aq \<and> arg1_valid rl
     then emit_inst (decode_init\<lparr>dec_op := rv_op_lr_q, dec_rd := ucast rd, dec_rs1 := ucast rs1, dec_aq := ucast aq, dec_rl := ucast rl\<rparr>)
     else Some 0)"

definition emit_sc_q :: "ireg5 \<Rightarrow> ireg5 \<Rightarrow> ireg5 \<Rightarrow> arg1 \<Rightarrow> arg1 \<Rightarrow> inst_t option" where [emit_defs]:
  "emit_sc_q rd rs1 rs2 aq rl = (if ireg5_valid rd \<and> ireg5_valid rs1 \<and> ireg5_valid rs2 \<and> arg1_valid aq \<and> arg1_valid rl
     then emit_inst (decode_init\<lparr>dec_op := rv_op_sc_q, dec_rd := ucast rd, dec_rs1 := ucast rs1, dec_rs2 := ucast rs2, dec_aq := ucast aq, dec_rl := ucast rl\<rparr>)
     else Some 0)"

definition emit_amoswap_q :: "ireg5 \<Rightarrow> ireg5 \<Rightarrow> ireg5 \<Rightarrow> arg1 \<Rightarrow> arg1 \<Rightarrow> inst_t option" where [emit_defs]:
  "emit_amoswap_q rd rs1 rs2 aq rl = (if ireg5_valid rd \<and> ireg5_valid rs1 \<and> ireg5_valid rs2 \<and> arg1_valid aq \<and> arg1_valid rl
     then emit_inst (decode_init\<lparr>dec_op := rv_op_amoswap_q, dec_rd := ucast rd, dec_rs1 := ucast rs1, dec_rs2 := ucast rs2, dec_aq := ucast aq, dec_rl := ucast rl\<rparr>)
     else Some 0)"

definition emit_amoadd_q :: "ireg5 \<Rightarrow> ireg5 \<Rightarrow> ireg5 \<Rightarrow> arg1 \<Rightarrow> arg1 \<Rightarrow> inst_t option" where [emit_defs]:
  "emit_amoadd_q rd rs1 rs2 aq rl = (if ireg5_valid rd \<and> ireg5_valid rs1 \<and> ireg5_valid rs2 \<and> arg1_valid aq \<and> arg1_valid rl
     then emit_inst (decode_init\<lparr>dec_op := rv_op_amoadd_q, dec_rd := ucast rd, dec_rs1 := ucast rs1, dec_rs2 := ucast rs2, dec_aq := ucast aq, dec_rl := ucast rl\<rparr>)
     else Some 0)"

definition emit_amoxor_q :: "ireg5 \<Rightarrow> ireg5 \<Rightarrow> ireg5 \<Rightarrow> arg1 \<Rightarrow> arg1 \<Rightarrow> inst_t option" where [emit_defs]:
  "emit_amoxor_q rd rs1 rs2 aq rl = (if ireg5_valid rd \<and> ireg5_valid rs1 \<and> ireg5_valid rs2 \<and> arg1_valid aq \<and> arg1_valid rl
     then emit_inst (decode_init\<lparr>dec_op := rv_op_amoxor_q, dec_rd := ucast rd, dec_rs1 := ucast rs1, dec_rs2 := ucast rs2, dec_aq := ucast aq, dec_rl := ucast rl\<rparr>)
     else Some 0)"

definition emit_amoor_q :: "ireg5 \<Rightarrow> ireg5 \<Rightarrow> ireg5 \<Rightarrow> arg1 \<Rightarrow> arg1 \<Rightarrow> inst_t option" where [emit_defs]:
  "emit_amoor_q rd rs1 rs2 aq rl = (if ireg5_valid rd \<and> ireg5_valid rs1 \<and> ireg5_valid rs2 \<and> arg1_valid aq \<and> arg1_valid rl
     then emit_inst (decode_init\<lparr>dec_op := rv_op_amoor_q, dec_rd := ucast rd, dec_rs1 := ucast rs1, dec_rs2 := ucast rs2, dec_aq := ucast aq, dec_rl := ucast rl\<rparr>)
     else Some 0)"

definition emit_amoand_q :: "ireg5 \<Rightarrow> ireg5 \<Rightarrow> ireg5 \<Rightarrow> arg1 \<Rightarrow> arg1 \<Rightarrow> inst_t option" where [emit_defs]:
  "emit_amoand_q rd rs1 rs2 aq rl = (if ireg5_valid rd \<and> ireg5_valid rs1 \<and> ireg5_valid rs2 \<and> arg1_valid aq \<and> arg1_valid rl
     then emit_inst (decode_init\<lparr>dec_op := rv_op_amoand_q, dec_rd := ucast rd, dec_rs1 := ucast rs1, dec_rs2 := ucast rs2, dec_aq := ucast aq, dec_rl := ucast rl\<rparr>)
     else Some 0)"

definition emit_amomin_q :: "ireg5 \<Rightarrow> ireg5 \<Rightarrow> ireg5 \<Rightarrow> arg1 \<Rightarrow> arg1 \<Rightarrow> inst_t option" where [emit_defs]:
  "emit_amomin_q rd rs1 rs2 aq rl = (if ireg5_valid rd \<and> ireg5_valid rs1 \<and> ireg5_valid rs2 \<and> arg1_valid aq \<and> arg1_valid rl
     then emit_inst (decode_init\<lparr>dec_op := rv_op_amomin_q, dec_rd := ucast rd, dec_rs1 := ucast rs1, dec_rs2 := ucast rs2, dec_aq := ucast aq, dec_rl := ucast rl\<rparr>)
     else Some 0)"

definition emit_amomax_q :: "ireg5 \<Rightarrow> ireg5 \<Rightarrow> ireg5 \<Rightarrow> arg1 \<Rightarrow> arg1 \<Rightarrow> inst_t option" where [emit_defs]:
  "emit_amomax_q rd rs1 rs2 aq rl = (if ireg5_valid rd \<and> ireg5_valid rs1 \<and> ireg5_valid rs2 \<and> arg1_valid aq \<and> arg1_valid rl
     then emit_inst (decode_init\<lparr>dec_op := rv_op_amomax_q, dec_rd := ucast rd, dec_rs1 := ucast rs1, dec_rs2 := ucast rs2, dec_aq := ucast aq, dec_rl := ucast rl\<rparr>)
     else Some 0)"

definition emit_amominu_q :: "ireg5 \<Rightarrow> ireg5 \<Rightarrow> ireg5 \<Rightarrow> arg1 \<Rightarrow> arg1 \<Rightarrow> inst_t option" where [emit_defs]:
  "emit_amominu_q rd rs1 rs2 aq rl = (if ireg5_valid rd \<and> ireg5_valid rs1 \<and> ireg5_valid rs2 \<and> arg1_valid aq \<and> arg1_valid rl
     then emit_inst (decode_init\<lparr>dec_op := rv_op_amominu_q, dec_rd := ucast rd, dec_rs1 := ucast rs1, dec_rs2 := ucast rs2, dec_aq := ucast aq, dec_rl := ucast rl\<rparr>)
     else Some 0)"

definition emit_amomaxu_q :: "ireg5 \<Rightarrow> ireg5 \<Rightarrow> ireg5 \<Rightarrow> arg1 \<Rightarrow> arg1 \<Rightarrow> inst_t option" where [emit_defs]:
  "emit_amomaxu_q rd rs1 rs2 aq rl = (if ireg5_valid rd \<and> ireg5_valid rs1 \<and> ireg5_valid rs2 \<and> arg1_valid aq \<and> arg1_valid rl
     then emit_inst (decode_init\<lparr>dec_op := rv_op_amomaxu_q, dec_rd := ucast rd, dec_rs1 := ucast rs1, dec_rs2 := ucast rs2, dec_aq := ucast aq, dec_rl := ucast rl\<rparr>)
     else Some 0)"

definition emit_ecall :: "inst_t option" where [emit_defs]:
  "emit_ecall = emit_inst (decode_init\<lparr>dec_op := rv_op_ecall\<rparr>)"

definition emit_ebreak :: "inst_t option" where [emit_defs]:
  "emit_ebreak = emit_inst (decode_init\<lparr>dec_op := rv_op_ebreak\<rparr>)"

definition emit_uret :: "inst_t option" where [emit_defs]:
  "emit_uret = emit_inst (decode_init\<lparr>dec_op := rv_op_uret\<rparr>)"

definition emit_sret :: "inst_t option" where [emit_defs]:
  "emit_sret = emit_inst (decode_init\<lparr>dec_op := rv_op_sret\<rparr>)"

definition emit_hret :: "inst_t option" where [emit_defs]:
  "emit_hret = emit_inst (decode_init\<lparr>dec_op := rv_op_hret\<rparr>)"

definition emit_mret :: "inst_t option" where [emit_defs]:
  "emit_mret = emit_inst (decode_init\<lparr>dec_op := rv_op_mret\<rparr>)"

definition emit_dret :: "inst_t option" where [emit_defs]:
  "emit_dret = emit_inst (decode_init\<lparr>dec_op := rv_op_dret\<rparr>)"

definition emit_sfence_vm :: "ireg5 \<Rightarrow> inst_t option" where [emit_defs]:
  "emit_sfence_vm rs1 = (if ireg5_valid rs1
     then emit_inst (decode_init\<lparr>dec_op := rv_op_sfence_vm, dec_rs1 := ucast rs1\<rparr>)
     else Some 0)"

definition emit_wfi :: "inst_t option" where [emit_defs]:
  "emit_wfi = emit_inst (decode_init\<lparr>dec_op := rv_op_wfi\<rparr>)"

definition emit_csrrw :: "ireg5 \<Rightarrow> ireg5 \<Rightarrow> uimm12 \<Rightarrow> inst_t option" where [emit_defs]:
  "emit_csrrw rd rs1 csr12 = (if ireg5_valid rd \<and> ireg5_valid rs1 \<and> uimm12_valid csr12
     then emit_inst (decode_init\<lparr>dec_op := rv_op_csrrw, dec_rd := ucast rd, dec_rs1 := ucast rs1, dec_imm := ucast csr12\<rparr>)
     else Some 0)"

definition emit_csrrs :: "ireg5 \<Rightarrow> ireg5 \<Rightarrow> uimm12 \<Rightarrow> inst_t option" where [emit_defs]:
  "emit_csrrs rd rs1 csr12 = (if ireg5_valid rd \<and> ireg5_valid rs1 \<and> uimm12_valid csr12
     then emit_inst (decode_init\<lparr>dec_op := rv_op_csrrs, dec_rd := ucast rd, dec_rs1 := ucast rs1, dec_imm := ucast csr12\<rparr>)
     else Some 0)"

definition emit_csrrc :: "ireg5 \<Rightarrow> ireg5 \<Rightarrow> uimm12 \<Rightarrow> inst_t option" where [emit_defs]:
  "emit_csrrc rd rs1 csr12 = (if ireg5_valid rd \<and> ireg5_valid rs1 \<and> uimm12_valid csr12
     then emit_inst (decode_init\<lparr>dec_op := rv_op_csrrc, dec_rd := ucast rd, dec_rs1 := ucast rs1, dec_imm := ucast csr12\<rparr>)
     else Some 0)"

definition emit_csrrwi :: "ireg5 \<Rightarrow> uimm5 \<Rightarrow> uimm12 \<Rightarrow> inst_t option" where [emit_defs]:
  "emit_csrrwi rd zimm csr12 = (if ireg5_valid rd \<and> uimm5_valid zimm \<and> uimm12_valid csr12
     then emit_inst (decode_init\<lparr>dec_op := rv_op_csrrwi, dec_rd := ucast rd, dec_imm := ucast zimm, dec_imm := ucast csr12\<rparr>)
     else Some 0)"

definition emit_csrrsi :: "ireg5 \<Rightarrow> uimm5 \<Rightarrow> uimm12 \<Rightarrow> inst_t option" where [emit_defs]:
  "emit_csrrsi rd zimm csr12 = (if ireg5_valid rd \<and> uimm5_valid zimm \<and> uimm12_valid csr12
     then emit_inst (decode_init\<lparr>dec_op := rv_op_csrrsi, dec_rd := ucast rd, dec_imm := ucast zimm, dec_imm := ucast csr12\<rparr>)
     else Some 0)"

definition emit_csrrci :: "ireg5 \<Rightarrow> uimm5 \<Rightarrow> uimm12 \<Rightarrow> inst_t option" where [emit_defs]:
  "emit_csrrci rd zimm csr12 = (if ireg5_valid rd \<and> uimm5_valid zimm \<and> uimm12_valid csr12
     then emit_inst (decode_init\<lparr>dec_op := rv_op_csrrci, dec_rd := ucast rd, dec_imm := ucast zimm, dec_imm := ucast csr12\<rparr>)
     else Some 0)"

definition emit_flw :: "freg5 \<Rightarrow> ireg5 \<Rightarrow> offset12 \<Rightarrow> inst_t option" where [emit_defs]:
  "emit_flw frd rs1 oimm12 = (if freg5_valid frd \<and> ireg5_valid rs1 \<and> offset12_valid oimm12
     then emit_inst (decode_init\<lparr>dec_op := rv_op_flw, dec_rd := ucast frd, dec_rs1 := ucast rs1, dec_imm := ucast oimm12\<rparr>)
     else Some 0)"

definition emit_fsw :: "ireg5 \<Rightarrow> freg5 \<Rightarrow> offset12 \<Rightarrow> inst_t option" where [emit_defs]:
  "emit_fsw rs1 frs2 simm12 = (if ireg5_valid rs1 \<and> freg5_valid frs2 \<and> offset12_valid simm12
     then emit_inst (decode_init\<lparr>dec_op := rv_op_fsw, dec_rs1 := ucast rs1, dec_rs2 := ucast frs2, dec_imm := ucast simm12\<rparr>)
     else Some 0)"

definition emit_fmadd_s :: "freg5 \<Rightarrow> freg5 \<Rightarrow> freg5 \<Rightarrow> freg5 \<Rightarrow> arg3 \<Rightarrow> inst_t option" where [emit_defs]:
  "emit_fmadd_s frd frs1 frs2 frs3 rm = (if freg5_valid frd \<and> freg5_valid frs1 \<and> freg5_valid frs2 \<and> freg5_valid frs3 \<and> arg3_valid rm
     then emit_inst (decode_init\<lparr>dec_op := rv_op_fmadd_s, dec_rd := ucast frd, dec_rs1 := ucast frs1, dec_rs2 := ucast frs2, dec_rs3 := ucast frs3, dec_rm := ucast rm\<rparr>)
     else Some 0)"

definition emit_fmsub_s :: "freg5 \<Rightarrow> freg5 \<Rightarrow> freg5 \<Rightarrow> freg5 \<Rightarrow> arg3 \<Rightarrow> inst_t option" where [emit_defs]:
  "emit_fmsub_s frd frs1 frs2 frs3 rm = (if freg5_valid frd \<and> freg5_valid frs1 \<and> freg5_valid frs2 \<and> freg5_valid frs3 \<and> arg3_valid rm
     then emit_inst (decode_init\<lparr>dec_op := rv_op_fmsub_s, dec_rd := ucast frd, dec_rs1 := ucast frs1, dec_rs2 := ucast frs2, dec_rs3 := ucast frs3, dec_rm := ucast rm\<rparr>)
     else Some 0)"

definition emit_fnmsub_s :: "freg5 \<Rightarrow> freg5 \<Rightarrow> freg5 \<Rightarrow> freg5 \<Rightarrow> arg3 \<Rightarrow> inst_t option" where [emit_defs]:
  "emit_fnmsub_s frd frs1 frs2 frs3 rm = (if freg5_valid frd \<and> freg5_valid frs1 \<and> freg5_valid frs2 \<and> freg5_valid frs3 \<and> arg3_valid rm
     then emit_inst (decode_init\<lparr>dec_op := rv_op_fnmsub_s, dec_rd := ucast frd, dec_rs1 := ucast frs1, dec_rs2 := ucast frs2, dec_rs3 := ucast frs3, dec_rm := ucast rm\<rparr>)
     else Some 0)"

definition emit_fnmadd_s :: "freg5 \<Rightarrow> freg5 \<Rightarrow> freg5 \<Rightarrow> freg5 \<Rightarrow> arg3 \<Rightarrow> inst_t option" where [emit_defs]:
  "emit_fnmadd_s frd frs1 frs2 frs3 rm = (if freg5_valid frd \<and> freg5_valid frs1 \<and> freg5_valid frs2 \<and> freg5_valid frs3 \<and> arg3_valid rm
     then emit_inst (decode_init\<lparr>dec_op := rv_op_fnmadd_s, dec_rd := ucast frd, dec_rs1 := ucast frs1, dec_rs2 := ucast frs2, dec_rs3 := ucast frs3, dec_rm := ucast rm\<rparr>)
     else Some 0)"

definition emit_fadd_s :: "freg5 \<Rightarrow> freg5 \<Rightarrow> freg5 \<Rightarrow> arg3 \<Rightarrow> inst_t option" where [emit_defs]:
  "emit_fadd_s frd frs1 frs2 rm = (if freg5_valid frd \<and> freg5_valid frs1 \<and> freg5_valid frs2 \<and> arg3_valid rm
     then emit_inst (decode_init\<lparr>dec_op := rv_op_fadd_s, dec_rd := ucast frd, dec_rs1 := ucast frs1, dec_rs2 := ucast frs2, dec_rm := ucast rm\<rparr>)
     else Some 0)"

definition emit_fsub_s :: "freg5 \<Rightarrow> freg5 \<Rightarrow> freg5 \<Rightarrow> arg3 \<Rightarrow> inst_t option" where [emit_defs]:
  "emit_fsub_s frd frs1 frs2 rm = (if freg5_valid frd \<and> freg5_valid frs1 \<and> freg5_valid frs2 \<and> arg3_valid rm
     then emit_inst (decode_init\<lparr>dec_op := rv_op_fsub_s, dec_rd := ucast frd, dec_rs1 := ucast frs1, dec_rs2 := ucast frs2, dec_rm := ucast rm\<rparr>)
     else Some 0)"

definition emit_fmul_s :: "freg5 \<Rightarrow> freg5 \<Rightarrow> freg5 \<Rightarrow> arg3 \<Rightarrow> inst_t option" where [emit_defs]:
  "emit_fmul_s frd frs1 frs2 rm = (if freg5_valid frd \<and> freg5_valid frs1 \<and> freg5_valid frs2 \<and> arg3_valid rm
     then emit_inst (decode_init\<lparr>dec_op := rv_op_fmul_s, dec_rd := ucast frd, dec_rs1 := ucast frs1, dec_rs2 := ucast frs2, dec_rm := ucast rm\<rparr>)
     else Some 0)"

definition emit_fdiv_s :: "freg5 \<Rightarrow> freg5 \<Rightarrow> freg5 \<Rightarrow> arg3 \<Rightarrow> inst_t option" where [emit_defs]:
  "emit_fdiv_s frd frs1 frs2 rm = (if freg5_valid frd \<and> freg5_valid frs1 \<and> freg5_valid frs2 \<and> arg3_valid rm
     then emit_inst (decode_init\<lparr>dec_op := rv_op_fdiv_s, dec_rd := ucast frd, dec_rs1 := ucast frs1, dec_rs2 := ucast frs2, dec_rm := ucast rm\<rparr>)
     else Some 0)"

definition emit_fsgnj_s :: "freg5 \<Rightarrow> freg5 \<Rightarrow> freg5 \<Rightarrow> inst_t option" where [emit_defs]:
  "emit_fsgnj_s frd frs1 frs2 = (if freg5_valid frd \<and> freg5_valid frs1 \<and> freg5_valid frs2
     then emit_inst (decode_init\<lparr>dec_op := rv_op_fsgnj_s, dec_rd := ucast frd, dec_rs1 := ucast frs1, dec_rs2 := ucast frs2\<rparr>)
     else Some 0)"

definition emit_fsgnjn_s :: "freg5 \<Rightarrow> freg5 \<Rightarrow> freg5 \<Rightarrow> inst_t option" where [emit_defs]:
  "emit_fsgnjn_s frd frs1 frs2 = (if freg5_valid frd \<and> freg5_valid frs1 \<and> freg5_valid frs2
     then emit_inst (decode_init\<lparr>dec_op := rv_op_fsgnjn_s, dec_rd := ucast frd, dec_rs1 := ucast frs1, dec_rs2 := ucast frs2\<rparr>)
     else Some 0)"

definition emit_fsgnjx_s :: "freg5 \<Rightarrow> freg5 \<Rightarrow> freg5 \<Rightarrow> inst_t option" where [emit_defs]:
  "emit_fsgnjx_s frd frs1 frs2 = (if freg5_valid frd \<and> freg5_valid frs1 \<and> freg5_valid frs2
     then emit_inst (decode_init\<lparr>dec_op := rv_op_fsgnjx_s, dec_rd := ucast frd, dec_rs1 := ucast frs1, dec_rs2 := ucast frs2\<rparr>)
     else Some 0)"

definition emit_fmin_s :: "freg5 \<Rightarrow> freg5 \<Rightarrow> freg5 \<Rightarrow> inst_t option" where [emit_defs]:
  "emit_fmin_s frd frs1 frs2 = (if freg5_valid frd \<and> freg5_valid frs1 \<and> freg5_valid frs2
     then emit_inst (decode_init\<lparr>dec_op := rv_op_fmin_s, dec_rd := ucast frd, dec_rs1 := ucast frs1, dec_rs2 := ucast frs2\<rparr>)
     else Some 0)"

definition emit_fmax_s :: "freg5 \<Rightarrow> freg5 \<Rightarrow> freg5 \<Rightarrow> inst_t option" where [emit_defs]:
  "emit_fmax_s frd frs1 frs2 = (if freg5_valid frd \<and> freg5_valid frs1 \<and> freg5_valid frs2
     then emit_inst (decode_init\<lparr>dec_op := rv_op_fmax_s, dec_rd := ucast frd, dec_rs1 := ucast frs1, dec_rs2 := ucast frs2\<rparr>)
     else Some 0)"

definition emit_fsqrt_s :: "freg5 \<Rightarrow> freg5 \<Rightarrow> arg3 \<Rightarrow> inst_t option" where [emit_defs]:
  "emit_fsqrt_s frd frs1 rm = (if freg5_valid frd \<and> freg5_valid frs1 \<and> arg3_valid rm
     then emit_inst (decode_init\<lparr>dec_op := rv_op_fsqrt_s, dec_rd := ucast frd, dec_rs1 := ucast frs1, dec_rm := ucast rm\<rparr>)
     else Some 0)"

definition emit_fle_s :: "ireg5 \<Rightarrow> freg5 \<Rightarrow> freg5 \<Rightarrow> inst_t option" where [emit_defs]:
  "emit_fle_s rd frs1 frs2 = (if ireg5_valid rd \<and> freg5_valid frs1 \<and> freg5_valid frs2
     then emit_inst (decode_init\<lparr>dec_op := rv_op_fle_s, dec_rd := ucast rd, dec_rs1 := ucast frs1, dec_rs2 := ucast frs2\<rparr>)
     else Some 0)"

definition emit_flt_s :: "ireg5 \<Rightarrow> freg5 \<Rightarrow> freg5 \<Rightarrow> inst_t option" where [emit_defs]:
  "emit_flt_s rd frs1 frs2 = (if ireg5_valid rd \<and> freg5_valid frs1 \<and> freg5_valid frs2
     then emit_inst (decode_init\<lparr>dec_op := rv_op_flt_s, dec_rd := ucast rd, dec_rs1 := ucast frs1, dec_rs2 := ucast frs2\<rparr>)
     else Some 0)"

definition emit_feq_s :: "ireg5 \<Rightarrow> freg5 \<Rightarrow> freg5 \<Rightarrow> inst_t option" where [emit_defs]:
  "emit_feq_s rd frs1 frs2 = (if ireg5_valid rd \<and> freg5_valid frs1 \<and> freg5_valid frs2
     then emit_inst (decode_init\<lparr>dec_op := rv_op_feq_s, dec_rd := ucast rd, dec_rs1 := ucast frs1, dec_rs2 := ucast frs2\<rparr>)
     else Some 0)"

definition emit_fcvt_w_s :: "ireg5 \<Rightarrow> freg5 \<Rightarrow> arg3 \<Rightarrow> inst_t option" where [emit_defs]:
  "emit_fcvt_w_s rd frs1 rm = (if ireg5_valid rd \<and> freg5_valid frs1 \<and> arg3_valid rm
     then emit_inst (decode_init\<lparr>dec_op := rv_op_fcvt_w_s, dec_rd := ucast rd, dec_rs1 := ucast frs1, dec_rm := ucast rm\<rparr>)
     else Some 0)"

definition emit_fcvt_wu_s :: "ireg5 \<Rightarrow> freg5 \<Rightarrow> arg3 \<Rightarrow> inst_t option" where [emit_defs]:
  "emit_fcvt_wu_s rd frs1 rm = (if ireg5_valid rd \<and> freg5_valid frs1 \<and> arg3_valid rm
     then emit_inst (decode_init\<lparr>dec_op := rv_op_fcvt_wu_s, dec_rd := ucast rd, dec_rs1 := ucast frs1, dec_rm := ucast rm\<rparr>)
     else Some 0)"

definition emit_fcvt_s_w :: "freg5 \<Rightarrow> ireg5 \<Rightarrow> arg3 \<Rightarrow> inst_t option" where [emit_defs]:
  "emit_fcvt_s_w frd rs1 rm = (if freg5_valid frd \<and> ireg5_valid rs1 \<and> arg3_valid rm
     then emit_inst (decode_init\<lparr>dec_op := rv_op_fcvt_s_w, dec_rd := ucast frd, dec_rs1 := ucast rs1, dec_rm := ucast rm\<rparr>)
     else Some 0)"

definition emit_fcvt_s_wu :: "freg5 \<Rightarrow> ireg5 \<Rightarrow> arg3 \<Rightarrow> inst_t option" where [emit_defs]:
  "emit_fcvt_s_wu frd rs1 rm = (if freg5_valid frd \<and> ireg5_valid rs1 \<and> arg3_valid rm
     then emit_inst (decode_init\<lparr>dec_op := rv_op_fcvt_s_wu, dec_rd := ucast frd, dec_rs1 := ucast rs1, dec_rm := ucast rm\<rparr>)
     else Some 0)"

definition emit_fmv_x_s :: "ireg5 \<Rightarrow> freg5 \<Rightarrow> inst_t option" where [emit_defs]:
  "emit_fmv_x_s rd frs1 = (if ireg5_valid rd \<and> freg5_valid frs1
     then emit_inst (decode_init\<lparr>dec_op := rv_op_fmv_x_s, dec_rd := ucast rd, dec_rs1 := ucast frs1\<rparr>)
     else Some 0)"

definition emit_fclass_s :: "ireg5 \<Rightarrow> freg5 \<Rightarrow> inst_t option" where [emit_defs]:
  "emit_fclass_s rd frs1 = (if ireg5_valid rd \<and> freg5_valid frs1
     then emit_inst (decode_init\<lparr>dec_op := rv_op_fclass_s, dec_rd := ucast rd, dec_rs1 := ucast frs1\<rparr>)
     else Some 0)"

definition emit_fmv_s_x :: "freg5 \<Rightarrow> ireg5 \<Rightarrow> inst_t option" where [emit_defs]:
  "emit_fmv_s_x frd rs1 = (if freg5_valid frd \<and> ireg5_valid rs1
     then emit_inst (decode_init\<lparr>dec_op := rv_op_fmv_s_x, dec_rd := ucast frd, dec_rs1 := ucast rs1\<rparr>)
     else Some 0)"

definition emit_fcvt_l_s :: "ireg5 \<Rightarrow> freg5 \<Rightarrow> arg3 \<Rightarrow> inst_t option" where [emit_defs]:
  "emit_fcvt_l_s rd frs1 rm = (if ireg5_valid rd \<and> freg5_valid frs1 \<and> arg3_valid rm
     then emit_inst (decode_init\<lparr>dec_op := rv_op_fcvt_l_s, dec_rd := ucast rd, dec_rs1 := ucast frs1, dec_rm := ucast rm\<rparr>)
     else Some 0)"

definition emit_fcvt_lu_s :: "ireg5 \<Rightarrow> freg5 \<Rightarrow> arg3 \<Rightarrow> inst_t option" where [emit_defs]:
  "emit_fcvt_lu_s rd frs1 rm = (if ireg5_valid rd \<and> freg5_valid frs1 \<and> arg3_valid rm
     then emit_inst (decode_init\<lparr>dec_op := rv_op_fcvt_lu_s, dec_rd := ucast rd, dec_rs1 := ucast frs1, dec_rm := ucast rm\<rparr>)
     else Some 0)"

definition emit_fcvt_s_l :: "freg5 \<Rightarrow> ireg5 \<Rightarrow> arg3 \<Rightarrow> inst_t option" where [emit_defs]:
  "emit_fcvt_s_l frd rs1 rm = (if freg5_valid frd \<and> ireg5_valid rs1 \<and> arg3_valid rm
     then emit_inst (decode_init\<lparr>dec_op := rv_op_fcvt_s_l, dec_rd := ucast frd, dec_rs1 := ucast rs1, dec_rm := ucast rm\<rparr>)
     else Some 0)"

definition emit_fcvt_s_lu :: "freg5 \<Rightarrow> ireg5 \<Rightarrow> arg3 \<Rightarrow> inst_t option" where [emit_defs]:
  "emit_fcvt_s_lu frd rs1 rm = (if freg5_valid frd \<and> ireg5_valid rs1 \<and> arg3_valid rm
     then emit_inst (decode_init\<lparr>dec_op := rv_op_fcvt_s_lu, dec_rd := ucast frd, dec_rs1 := ucast rs1, dec_rm := ucast rm\<rparr>)
     else Some 0)"

definition emit_fld :: "freg5 \<Rightarrow> ireg5 \<Rightarrow> offset12 \<Rightarrow> inst_t option" where [emit_defs]:
  "emit_fld frd rs1 oimm12 = (if freg5_valid frd \<and> ireg5_valid rs1 \<and> offset12_valid oimm12
     then emit_inst (decode_init\<lparr>dec_op := rv_op_fld, dec_rd := ucast frd, dec_rs1 := ucast rs1, dec_imm := ucast oimm12\<rparr>)
     else Some 0)"

definition emit_fsd :: "ireg5 \<Rightarrow> freg5 \<Rightarrow> offset12 \<Rightarrow> inst_t option" where [emit_defs]:
  "emit_fsd rs1 frs2 simm12 = (if ireg5_valid rs1 \<and> freg5_valid frs2 \<and> offset12_valid simm12
     then emit_inst (decode_init\<lparr>dec_op := rv_op_fsd, dec_rs1 := ucast rs1, dec_rs2 := ucast frs2, dec_imm := ucast simm12\<rparr>)
     else Some 0)"

definition emit_fmadd_d :: "freg5 \<Rightarrow> freg5 \<Rightarrow> freg5 \<Rightarrow> freg5 \<Rightarrow> arg3 \<Rightarrow> inst_t option" where [emit_defs]:
  "emit_fmadd_d frd frs1 frs2 frs3 rm = (if freg5_valid frd \<and> freg5_valid frs1 \<and> freg5_valid frs2 \<and> freg5_valid frs3 \<and> arg3_valid rm
     then emit_inst (decode_init\<lparr>dec_op := rv_op_fmadd_d, dec_rd := ucast frd, dec_rs1 := ucast frs1, dec_rs2 := ucast frs2, dec_rs3 := ucast frs3, dec_rm := ucast rm\<rparr>)
     else Some 0)"

definition emit_fmsub_d :: "freg5 \<Rightarrow> freg5 \<Rightarrow> freg5 \<Rightarrow> freg5 \<Rightarrow> arg3 \<Rightarrow> inst_t option" where [emit_defs]:
  "emit_fmsub_d frd frs1 frs2 frs3 rm = (if freg5_valid frd \<and> freg5_valid frs1 \<and> freg5_valid frs2 \<and> freg5_valid frs3 \<and> arg3_valid rm
     then emit_inst (decode_init\<lparr>dec_op := rv_op_fmsub_d, dec_rd := ucast frd, dec_rs1 := ucast frs1, dec_rs2 := ucast frs2, dec_rs3 := ucast frs3, dec_rm := ucast rm\<rparr>)
     else Some 0)"

definition emit_fnmsub_d :: "freg5 \<Rightarrow> freg5 \<Rightarrow> freg5 \<Rightarrow> freg5 \<Rightarrow> arg3 \<Rightarrow> inst_t option" where [emit_defs]:
  "emit_fnmsub_d frd frs1 frs2 frs3 rm = (if freg5_valid frd \<and> freg5_valid frs1 \<and> freg5_valid frs2 \<and> freg5_valid frs3 \<and> arg3_valid rm
     then emit_inst (decode_init\<lparr>dec_op := rv_op_fnmsub_d, dec_rd := ucast frd, dec_rs1 := ucast frs1, dec_rs2 := ucast frs2, dec_rs3 := ucast frs3, dec_rm := ucast rm\<rparr>)
     else Some 0)"

definition emit_fnmadd_d :: "freg5 \<Rightarrow> freg5 \<Rightarrow> freg5 \<Rightarrow> freg5 \<Rightarrow> arg3 \<Rightarrow> inst_t option" where [emit_defs]:
  "emit_fnmadd_d frd frs1 frs2 frs3 rm = (if freg5_valid frd \<and> freg5_valid frs1 \<and> freg5_valid frs2 \<and> freg5_valid frs3 \<and> arg3_valid rm
     then emit_inst (decode_init\<lparr>dec_op := rv_op_fnmadd_d, dec_rd := ucast frd, dec_rs1 := ucast frs1, dec_rs2 := ucast frs2, dec_rs3 := ucast frs3, dec_rm := ucast rm\<rparr>)
     else Some 0)"

definition emit_fadd_d :: "freg5 \<Rightarrow> freg5 \<Rightarrow> freg5 \<Rightarrow> arg3 \<Rightarrow> inst_t option" where [emit_defs]:
  "emit_fadd_d frd frs1 frs2 rm = (if freg5_valid frd \<and> freg5_valid frs1 \<and> freg5_valid frs2 \<and> arg3_valid rm
     then emit_inst (decode_init\<lparr>dec_op := rv_op_fadd_d, dec_rd := ucast frd, dec_rs1 := ucast frs1, dec_rs2 := ucast frs2, dec_rm := ucast rm\<rparr>)
     else Some 0)"

definition emit_fsub_d :: "freg5 \<Rightarrow> freg5 \<Rightarrow> freg5 \<Rightarrow> arg3 \<Rightarrow> inst_t option" where [emit_defs]:
  "emit_fsub_d frd frs1 frs2 rm = (if freg5_valid frd \<and> freg5_valid frs1 \<and> freg5_valid frs2 \<and> arg3_valid rm
     then emit_inst (decode_init\<lparr>dec_op := rv_op_fsub_d, dec_rd := ucast frd, dec_rs1 := ucast frs1, dec_rs2 := ucast frs2, dec_rm := ucast rm\<rparr>)
     else Some 0)"

definition emit_fmul_d :: "freg5 \<Rightarrow> freg5 \<Rightarrow> freg5 \<Rightarrow> arg3 \<Rightarrow> inst_t option" where [emit_defs]:
  "emit_fmul_d frd frs1 frs2 rm = (if freg5_valid frd \<and> freg5_valid frs1 \<and> freg5_valid frs2 \<and> arg3_valid rm
     then emit_inst (decode_init\<lparr>dec_op := rv_op_fmul_d, dec_rd := ucast frd, dec_rs1 := ucast frs1, dec_rs2 := ucast frs2, dec_rm := ucast rm\<rparr>)
     else Some 0)"

definition emit_fdiv_d :: "freg5 \<Rightarrow> freg5 \<Rightarrow> freg5 \<Rightarrow> arg3 \<Rightarrow> inst_t option" where [emit_defs]:
  "emit_fdiv_d frd frs1 frs2 rm = (if freg5_valid frd \<and> freg5_valid frs1 \<and> freg5_valid frs2 \<and> arg3_valid rm
     then emit_inst (decode_init\<lparr>dec_op := rv_op_fdiv_d, dec_rd := ucast frd, dec_rs1 := ucast frs1, dec_rs2 := ucast frs2, dec_rm := ucast rm\<rparr>)
     else Some 0)"

definition emit_fsgnj_d :: "freg5 \<Rightarrow> freg5 \<Rightarrow> freg5 \<Rightarrow> inst_t option" where [emit_defs]:
  "emit_fsgnj_d frd frs1 frs2 = (if freg5_valid frd \<and> freg5_valid frs1 \<and> freg5_valid frs2
     then emit_inst (decode_init\<lparr>dec_op := rv_op_fsgnj_d, dec_rd := ucast frd, dec_rs1 := ucast frs1, dec_rs2 := ucast frs2\<rparr>)
     else Some 0)"

definition emit_fsgnjn_d :: "freg5 \<Rightarrow> freg5 \<Rightarrow> freg5 \<Rightarrow> inst_t option" where [emit_defs]:
  "emit_fsgnjn_d frd frs1 frs2 = (if freg5_valid frd \<and> freg5_valid frs1 \<and> freg5_valid frs2
     then emit_inst (decode_init\<lparr>dec_op := rv_op_fsgnjn_d, dec_rd := ucast frd, dec_rs1 := ucast frs1, dec_rs2 := ucast frs2\<rparr>)
     else Some 0)"

definition emit_fsgnjx_d :: "freg5 \<Rightarrow> freg5 \<Rightarrow> freg5 \<Rightarrow> inst_t option" where [emit_defs]:
  "emit_fsgnjx_d frd frs1 frs2 = (if freg5_valid frd \<and> freg5_valid frs1 \<and> freg5_valid frs2
     then emit_inst (decode_init\<lparr>dec_op := rv_op_fsgnjx_d, dec_rd := ucast frd, dec_rs1 := ucast frs1, dec_rs2 := ucast frs2\<rparr>)
     else Some 0)"

definition emit_fmin_d :: "freg5 \<Rightarrow> freg5 \<Rightarrow> freg5 \<Rightarrow> inst_t option" where [emit_defs]:
  "emit_fmin_d frd frs1 frs2 = (if freg5_valid frd \<and> freg5_valid frs1 \<and> freg5_valid frs2
     then emit_inst (decode_init\<lparr>dec_op := rv_op_fmin_d, dec_rd := ucast frd, dec_rs1 := ucast frs1, dec_rs2 := ucast frs2\<rparr>)
     else Some 0)"

definition emit_fmax_d :: "freg5 \<Rightarrow> freg5 \<Rightarrow> freg5 \<Rightarrow> inst_t option" where [emit_defs]:
  "emit_fmax_d frd frs1 frs2 = (if freg5_valid frd \<and> freg5_valid frs1 \<and> freg5_valid frs2
     then emit_inst (decode_init\<lparr>dec_op := rv_op_fmax_d, dec_rd := ucast frd, dec_rs1 := ucast frs1, dec_rs2 := ucast frs2\<rparr>)
     else Some 0)"

definition emit_fcvt_s_d :: "freg5 \<Rightarrow> freg5 \<Rightarrow> arg3 \<Rightarrow> inst_t option" where [emit_defs]:
  "emit_fcvt_s_d frd frs1 rm = (if freg5_valid frd \<and> freg5_valid frs1 \<and> arg3_valid rm
     then emit_inst (decode_init\<lparr>dec_op := rv_op_fcvt_s_d, dec_rd := ucast frd, dec_rs1 := ucast frs1, dec_rm := ucast rm\<rparr>)
     else Some 0)"

definition emit_fcvt_d_s :: "freg5 \<Rightarrow> freg5 \<Rightarrow> arg3 \<Rightarrow> inst_t option" where [emit_defs]:
  "emit_fcvt_d_s frd frs1 rm = (if freg5_valid frd \<and> freg5_valid frs1 \<and> arg3_valid rm
     then emit_inst (decode_init\<lparr>dec_op := rv_op_fcvt_d_s, dec_rd := ucast frd, dec_rs1 := ucast frs1, dec_rm := ucast rm\<rparr>)
     else Some 0)"

definition emit_fsqrt_d :: "freg5 \<Rightarrow> freg5 \<Rightarrow> arg3 \<Rightarrow> inst_t option" where [emit_defs]:
  "emit_fsqrt_d frd frs1 rm = (if freg5_valid frd \<and> freg5_valid frs1 \<and> arg3_valid rm
     then emit_inst (decode_init\<lparr>dec_op := rv_op_fsqrt_d, dec_rd := ucast frd, dec_rs1 := ucast frs1, dec_rm := ucast rm\<rparr>)
     else Some 0)"

definition emit_fle_d :: "ireg5 \<Rightarrow> freg5 \<Rightarrow> freg5 \<Rightarrow> inst_t option" where [emit_defs]:
  "emit_fle_d rd frs1 frs2 = (if ireg5_valid rd \<and> freg5_valid frs1 \<and> freg5_valid frs2
     then emit_inst (decode_init\<lparr>dec_op := rv_op_fle_d, dec_rd := ucast rd, dec_rs1 := ucast frs1, dec_rs2 := ucast frs2\<rparr>)
     else Some 0)"

definition emit_flt_d :: "ireg5 \<Rightarrow> freg5 \<Rightarrow> freg5 \<Rightarrow> inst_t option" where [emit_defs]:
  "emit_flt_d rd frs1 frs2 = (if ireg5_valid rd \<and> freg5_valid frs1 \<and> freg5_valid frs2
     then emit_inst (decode_init\<lparr>dec_op := rv_op_flt_d, dec_rd := ucast rd, dec_rs1 := ucast frs1, dec_rs2 := ucast frs2\<rparr>)
     else Some 0)"

definition emit_feq_d :: "ireg5 \<Rightarrow> freg5 \<Rightarrow> freg5 \<Rightarrow> inst_t option" where [emit_defs]:
  "emit_feq_d rd frs1 frs2 = (if ireg5_valid rd \<and> freg5_valid frs1 \<and> freg5_valid frs2
     then emit_inst (decode_init\<lparr>dec_op := rv_op_feq_d, dec_rd := ucast rd, dec_rs1 := ucast frs1, dec_rs2 := ucast frs2\<rparr>)
     else Some 0)"

definition emit_fcvt_w_d :: "ireg5 \<Rightarrow> freg5 \<Rightarrow> arg3 \<Rightarrow> inst_t option" where [emit_defs]:
  "emit_fcvt_w_d rd frs1 rm = (if ireg5_valid rd \<and> freg5_valid frs1 \<and> arg3_valid rm
     then emit_inst (decode_init\<lparr>dec_op := rv_op_fcvt_w_d, dec_rd := ucast rd, dec_rs1 := ucast frs1, dec_rm := ucast rm\<rparr>)
     else Some 0)"

definition emit_fcvt_wu_d :: "ireg5 \<Rightarrow> freg5 \<Rightarrow> arg3 \<Rightarrow> inst_t option" where [emit_defs]:
  "emit_fcvt_wu_d rd frs1 rm = (if ireg5_valid rd \<and> freg5_valid frs1 \<and> arg3_valid rm
     then emit_inst (decode_init\<lparr>dec_op := rv_op_fcvt_wu_d, dec_rd := ucast rd, dec_rs1 := ucast frs1, dec_rm := ucast rm\<rparr>)
     else Some 0)"

definition emit_fcvt_d_w :: "freg5 \<Rightarrow> ireg5 \<Rightarrow> arg3 \<Rightarrow> inst_t option" where [emit_defs]:
  "emit_fcvt_d_w frd rs1 rm = (if freg5_valid frd \<and> ireg5_valid rs1 \<and> arg3_valid rm
     then emit_inst (decode_init\<lparr>dec_op := rv_op_fcvt_d_w, dec_rd := ucast frd, dec_rs1 := ucast rs1, dec_rm := ucast rm\<rparr>)
     else Some 0)"

definition emit_fcvt_d_wu :: "freg5 \<Rightarrow> ireg5 \<Rightarrow> arg3 \<Rightarrow> inst_t option" where [emit_defs]:
  "emit_fcvt_d_wu frd rs1 rm = (if freg5_valid frd \<and> ireg5_valid rs1 \<and> arg3_valid rm
     then emit_inst (decode_init\<lparr>dec_op := rv_op_fcvt_d_wu, dec_rd := ucast frd, dec_rs1 := ucast rs1, dec_rm := ucast rm\<rparr>)
     else Some 0)"

definition emit_fclass_d :: "ireg5 \<Rightarrow> freg5 \<Rightarrow> inst_t option" where [emit_defs]:
  "emit_fclass_d rd frs1 = (if ireg5_valid rd \<and> freg5_valid frs1
     then emit_inst (decode_init\<lparr>dec_op := rv_op_fclass_d, dec_rd := ucast rd, dec_rs1 := ucast frs1\<rparr>)
     else Some 0)"

definition emit_fcvt_l_d :: "ireg5 \<Rightarrow> freg5 \<Rightarrow> arg3 \<Rightarrow> inst_t option" where [emit_defs]:
  "emit_fcvt_l_d rd frs1 rm = (if ireg5_valid rd \<and> freg5_valid frs1 \<and> arg3_valid rm
     then emit_inst (decode_init\<lparr>dec_op := rv_op_fcvt_l_d, dec_rd := ucast rd, dec_rs1 := ucast frs1, dec_rm := ucast rm\<rparr>)
     else Some 0)"

definition emit_fcvt_lu_d :: "ireg5 \<Rightarrow> freg5 \<Rightarrow> arg3 \<Rightarrow> inst_t option" where [emit_defs]:
  "emit_fcvt_lu_d rd frs1 rm = (if ireg5_valid rd \<and> freg5_valid frs1 \<and> arg3_valid rm
     then emit_inst (decode_init\<lparr>dec_op := rv_op_fcvt_lu_d, dec_rd := ucast rd, dec_rs1 := ucast frs1, dec_rm := ucast rm\<rparr>)
     else Some 0)"

definition emit_fmv_x_d :: "ireg5 \<Rightarrow> freg5 \<Rightarrow> inst_t option" where [emit_defs]:
  "emit_fmv_x_d rd frs1 = (if ireg5_valid rd \<and> freg5_valid frs1
     then emit_inst (decode_init\<lparr>dec_op := rv_op_fmv_x_d, dec_rd := ucast rd, dec_rs1 := ucast frs1\<rparr>)
     else Some 0)"

definition emit_fcvt_d_l :: "freg5 \<Rightarrow> ireg5 \<Rightarrow> arg3 \<Rightarrow> inst_t option" where [emit_defs]:
  "emit_fcvt_d_l frd rs1 rm = (if freg5_valid frd \<and> ireg5_valid rs1 \<and> arg3_valid rm
     then emit_inst (decode_init\<lparr>dec_op := rv_op_fcvt_d_l, dec_rd := ucast frd, dec_rs1 := ucast rs1, dec_rm := ucast rm\<rparr>)
     else Some 0)"

definition emit_fcvt_d_lu :: "freg5 \<Rightarrow> ireg5 \<Rightarrow> arg3 \<Rightarrow> inst_t option" where [emit_defs]:
  "emit_fcvt_d_lu frd rs1 rm = (if freg5_valid frd \<and> ireg5_valid rs1 \<and> arg3_valid rm
     then emit_inst (decode_init\<lparr>dec_op := rv_op_fcvt_d_lu, dec_rd := ucast frd, dec_rs1 := ucast rs1, dec_rm := ucast rm\<rparr>)
     else Some 0)"

definition emit_fmv_d_x :: "freg5 \<Rightarrow> ireg5 \<Rightarrow> inst_t option" where [emit_defs]:
  "emit_fmv_d_x frd rs1 = (if freg5_valid frd \<and> ireg5_valid rs1
     then emit_inst (decode_init\<lparr>dec_op := rv_op_fmv_d_x, dec_rd := ucast frd, dec_rs1 := ucast rs1\<rparr>)
     else Some 0)"

definition emit_flq :: "freg5 \<Rightarrow> ireg5 \<Rightarrow> offset12 \<Rightarrow> inst_t option" where [emit_defs]:
  "emit_flq frd rs1 oimm12 = (if freg5_valid frd \<and> ireg5_valid rs1 \<and> offset12_valid oimm12
     then emit_inst (decode_init\<lparr>dec_op := rv_op_flq, dec_rd := ucast frd, dec_rs1 := ucast rs1, dec_imm := ucast oimm12\<rparr>)
     else Some 0)"

definition emit_fsq :: "ireg5 \<Rightarrow> freg5 \<Rightarrow> offset12 \<Rightarrow> inst_t option" where [emit_defs]:
  "emit_fsq rs1 frs2 simm12 = (if ireg5_valid rs1 \<and> freg5_valid frs2 \<and> offset12_valid simm12
     then emit_inst (decode_init\<lparr>dec_op := rv_op_fsq, dec_rs1 := ucast rs1, dec_rs2 := ucast frs2, dec_imm := ucast simm12\<rparr>)
     else Some 0)"

definition emit_fmadd_q :: "freg5 \<Rightarrow> freg5 \<Rightarrow> freg5 \<Rightarrow> freg5 \<Rightarrow> arg3 \<Rightarrow> inst_t option" where [emit_defs]:
  "emit_fmadd_q frd frs1 frs2 frs3 rm = (if freg5_valid frd \<and> freg5_valid frs1 \<and> freg5_valid frs2 \<and> freg5_valid frs3 \<and> arg3_valid rm
     then emit_inst (decode_init\<lparr>dec_op := rv_op_fmadd_q, dec_rd := ucast frd, dec_rs1 := ucast frs1, dec_rs2 := ucast frs2, dec_rs3 := ucast frs3, dec_rm := ucast rm\<rparr>)
     else Some 0)"

definition emit_fmsub_q :: "freg5 \<Rightarrow> freg5 \<Rightarrow> freg5 \<Rightarrow> freg5 \<Rightarrow> arg3 \<Rightarrow> inst_t option" where [emit_defs]:
  "emit_fmsub_q frd frs1 frs2 frs3 rm = (if freg5_valid frd \<and> freg5_valid frs1 \<and> freg5_valid frs2 \<and> freg5_valid frs3 \<and> arg3_valid rm
     then emit_inst (decode_init\<lparr>dec_op := rv_op_fmsub_q, dec_rd := ucast frd, dec_rs1 := ucast frs1, dec_rs2 := ucast frs2, dec_rs3 := ucast frs3, dec_rm := ucast rm\<rparr>)
     else Some 0)"

definition emit_fnmsub_q :: "freg5 \<Rightarrow> freg5 \<Rightarrow> freg5 \<Rightarrow> freg5 \<Rightarrow> arg3 \<Rightarrow> inst_t option" where [emit_defs]:
  "emit_fnmsub_q frd frs1 frs2 frs3 rm = (if freg5_valid frd \<and> freg5_valid frs1 \<and> freg5_valid frs2 \<and> freg5_valid frs3 \<and> arg3_valid rm
     then emit_inst (decode_init\<lparr>dec_op := rv_op_fnmsub_q, dec_rd := ucast frd, dec_rs1 := ucast frs1, dec_rs2 := ucast frs2, dec_rs3 := ucast frs3, dec_rm := ucast rm\<rparr>)
     else Some 0)"

definition emit_fnmadd_q :: "freg5 \<Rightarrow> freg5 \<Rightarrow> freg5 \<Rightarrow> freg5 \<Rightarrow> arg3 \<Rightarrow> inst_t option" where [emit_defs]:
  "emit_fnmadd_q frd frs1 frs2 frs3 rm = (if freg5_valid frd \<and> freg5_valid frs1 \<and> freg5_valid frs2 \<and> freg5_valid frs3 \<and> arg3_valid rm
     then emit_inst (decode_init\<lparr>dec_op := rv_op_fnmadd_q, dec_rd := ucast frd, dec_rs1 := ucast frs1, dec_rs2 := ucast frs2, dec_rs3 := ucast frs3, dec_rm := ucast rm\<rparr>)
     else Some 0)"

definition emit_fadd_q :: "freg5 \<Rightarrow> freg5 \<Rightarrow> freg5 \<Rightarrow> arg3 \<Rightarrow> inst_t option" where [emit_defs]:
  "emit_fadd_q frd frs1 frs2 rm = (if freg5_valid frd \<and> freg5_valid frs1 \<and> freg5_valid frs2 \<and> arg3_valid rm
     then emit_inst (decode_init\<lparr>dec_op := rv_op_fadd_q, dec_rd := ucast frd, dec_rs1 := ucast frs1, dec_rs2 := ucast frs2, dec_rm := ucast rm\<rparr>)
     else Some 0)"

definition emit_fsub_q :: "freg5 \<Rightarrow> freg5 \<Rightarrow> freg5 \<Rightarrow> arg3 \<Rightarrow> inst_t option" where [emit_defs]:
  "emit_fsub_q frd frs1 frs2 rm = (if freg5_valid frd \<and> freg5_valid frs1 \<and> freg5_valid frs2 \<and> arg3_valid rm
     then emit_inst (decode_init\<lparr>dec_op := rv_op_fsub_q, dec_rd := ucast frd, dec_rs1 := ucast frs1, dec_rs2 := ucast frs2, dec_rm := ucast rm\<rparr>)
     else Some 0)"

definition emit_fmul_q :: "freg5 \<Rightarrow> freg5 \<Rightarrow> freg5 \<Rightarrow> arg3 \<Rightarrow> inst_t option" where [emit_defs]:
  "emit_fmul_q frd frs1 frs2 rm = (if freg5_valid frd \<and> freg5_valid frs1 \<and> freg5_valid frs2 \<and> arg3_valid rm
     then emit_inst (decode_init\<lparr>dec_op := rv_op_fmul_q, dec_rd := ucast frd, dec_rs1 := ucast frs1, dec_rs2 := ucast frs2, dec_rm := ucast rm\<rparr>)
     else Some 0)"

definition emit_fdiv_q :: "freg5 \<Rightarrow> freg5 \<Rightarrow> freg5 \<Rightarrow> arg3 \<Rightarrow> inst_t option" where [emit_defs]:
  "emit_fdiv_q frd frs1 frs2 rm = (if freg5_valid frd \<and> freg5_valid frs1 \<and> freg5_valid frs2 \<and> arg3_valid rm
     then emit_inst (decode_init\<lparr>dec_op := rv_op_fdiv_q, dec_rd := ucast frd, dec_rs1 := ucast frs1, dec_rs2 := ucast frs2, dec_rm := ucast rm\<rparr>)
     else Some 0)"

definition emit_fsgnj_q :: "freg5 \<Rightarrow> freg5 \<Rightarrow> freg5 \<Rightarrow> inst_t option" where [emit_defs]:
  "emit_fsgnj_q frd frs1 frs2 = (if freg5_valid frd \<and> freg5_valid frs1 \<and> freg5_valid frs2
     then emit_inst (decode_init\<lparr>dec_op := rv_op_fsgnj_q, dec_rd := ucast frd, dec_rs1 := ucast frs1, dec_rs2 := ucast frs2\<rparr>)
     else Some 0)"

definition emit_fsgnjn_q :: "freg5 \<Rightarrow> freg5 \<Rightarrow> freg5 \<Rightarrow> inst_t option" where [emit_defs]:
  "emit_fsgnjn_q frd frs1 frs2 = (if freg5_valid frd \<and> freg5_valid frs1 \<and> freg5_valid frs2
     then emit_inst (decode_init\<lparr>dec_op := rv_op_fsgnjn_q, dec_rd := ucast frd, dec_rs1 := ucast frs1, dec_rs2 := ucast frs2\<rparr>)
     else Some 0)"

definition emit_fsgnjx_q :: "freg5 \<Rightarrow> freg5 \<Rightarrow> freg5 \<Rightarrow> inst_t option" where [emit_defs]:
  "emit_fsgnjx_q frd frs1 frs2 = (if freg5_valid frd \<and> freg5_valid frs1 \<and> freg5_valid frs2
     then emit_inst (decode_init\<lparr>dec_op := rv_op_fsgnjx_q, dec_rd := ucast frd, dec_rs1 := ucast frs1, dec_rs2 := ucast frs2\<rparr>)
     else Some 0)"

definition emit_fmin_q :: "freg5 \<Rightarrow> freg5 \<Rightarrow> freg5 \<Rightarrow> inst_t option" where [emit_defs]:
  "emit_fmin_q frd frs1 frs2 = (if freg5_valid frd \<and> freg5_valid frs1 \<and> freg5_valid frs2
     then emit_inst (decode_init\<lparr>dec_op := rv_op_fmin_q, dec_rd := ucast frd, dec_rs1 := ucast frs1, dec_rs2 := ucast frs2\<rparr>)
     else Some 0)"

definition emit_fmax_q :: "freg5 \<Rightarrow> freg5 \<Rightarrow> freg5 \<Rightarrow> inst_t option" where [emit_defs]:
  "emit_fmax_q frd frs1 frs2 = (if freg5_valid frd \<and> freg5_valid frs1 \<and> freg5_valid frs2
     then emit_inst (decode_init\<lparr>dec_op := rv_op_fmax_q, dec_rd := ucast frd, dec_rs1 := ucast frs1, dec_rs2 := ucast frs2\<rparr>)
     else Some 0)"

definition emit_fcvt_s_q :: "freg5 \<Rightarrow> freg5 \<Rightarrow> arg3 \<Rightarrow> inst_t option" where [emit_defs]:
  "emit_fcvt_s_q frd frs1 rm = (if freg5_valid frd \<and> freg5_valid frs1 \<and> arg3_valid rm
     then emit_inst (decode_init\<lparr>dec_op := rv_op_fcvt_s_q, dec_rd := ucast frd, dec_rs1 := ucast frs1, dec_rm := ucast rm\<rparr>)
     else Some 0)"

definition emit_fcvt_q_s :: "freg5 \<Rightarrow> freg5 \<Rightarrow> arg3 \<Rightarrow> inst_t option" where [emit_defs]:
  "emit_fcvt_q_s frd frs1 rm = (if freg5_valid frd \<and> freg5_valid frs1 \<and> arg3_valid rm
     then emit_inst (decode_init\<lparr>dec_op := rv_op_fcvt_q_s, dec_rd := ucast frd, dec_rs1 := ucast frs1, dec_rm := ucast rm\<rparr>)
     else Some 0)"

definition emit_fcvt_d_q :: "freg5 \<Rightarrow> freg5 \<Rightarrow> arg3 \<Rightarrow> inst_t option" where [emit_defs]:
  "emit_fcvt_d_q frd frs1 rm = (if freg5_valid frd \<and> freg5_valid frs1 \<and> arg3_valid rm
     then emit_inst (decode_init\<lparr>dec_op := rv_op_fcvt_d_q, dec_rd := ucast frd, dec_rs1 := ucast frs1, dec_rm := ucast rm\<rparr>)
     else Some 0)"

definition emit_fcvt_q_d :: "freg5 \<Rightarrow> freg5 \<Rightarrow> arg3 \<Rightarrow> inst_t option" where [emit_defs]:
  "emit_fcvt_q_d frd frs1 rm = (if freg5_valid frd \<and> freg5_valid frs1 \<and> arg3_valid rm
     then emit_inst (decode_init\<lparr>dec_op := rv_op_fcvt_q_d, dec_rd := ucast frd, dec_rs1 := ucast frs1, dec_rm := ucast rm\<rparr>)
     else Some 0)"

definition emit_fsqrt_q :: "freg5 \<Rightarrow> freg5 \<Rightarrow> arg3 \<Rightarrow> inst_t option" where [emit_defs]:
  "emit_fsqrt_q frd frs1 rm = (if freg5_valid frd \<and> freg5_valid frs1 \<and> arg3_valid rm
     then emit_inst (decode_init\<lparr>dec_op := rv_op_fsqrt_q, dec_rd := ucast frd, dec_rs1 := ucast frs1, dec_rm := ucast rm\<rparr>)
     else Some 0)"

definition emit_fle_q :: "ireg5 \<Rightarrow> freg5 \<Rightarrow> freg5 \<Rightarrow> inst_t option" where [emit_defs]:
  "emit_fle_q rd frs1 frs2 = (if ireg5_valid rd \<and> freg5_valid frs1 \<and> freg5_valid frs2
     then emit_inst (decode_init\<lparr>dec_op := rv_op_fle_q, dec_rd := ucast rd, dec_rs1 := ucast frs1, dec_rs2 := ucast frs2\<rparr>)
     else Some 0)"

definition emit_flt_q :: "ireg5 \<Rightarrow> freg5 \<Rightarrow> freg5 \<Rightarrow> inst_t option" where [emit_defs]:
  "emit_flt_q rd frs1 frs2 = (if ireg5_valid rd \<and> freg5_valid frs1 \<and> freg5_valid frs2
     then emit_inst (decode_init\<lparr>dec_op := rv_op_flt_q, dec_rd := ucast rd, dec_rs1 := ucast frs1, dec_rs2 := ucast frs2\<rparr>)
     else Some 0)"

definition emit_feq_q :: "ireg5 \<Rightarrow> freg5 \<Rightarrow> freg5 \<Rightarrow> inst_t option" where [emit_defs]:
  "emit_feq_q rd frs1 frs2 = (if ireg5_valid rd \<and> freg5_valid frs1 \<and> freg5_valid frs2
     then emit_inst (decode_init\<lparr>dec_op := rv_op_feq_q, dec_rd := ucast rd, dec_rs1 := ucast frs1, dec_rs2 := ucast frs2\<rparr>)
     else Some 0)"

definition emit_fcvt_w_q :: "ireg5 \<Rightarrow> freg5 \<Rightarrow> arg3 \<Rightarrow> inst_t option" where [emit_defs]:
  "emit_fcvt_w_q rd frs1 rm = (if ireg5_valid rd \<and> freg5_valid frs1 \<and> arg3_valid rm
     then emit_inst (decode_init\<lparr>dec_op := rv_op_fcvt_w_q, dec_rd := ucast rd, dec_rs1 := ucast frs1, dec_rm := ucast rm\<rparr>)
     else Some 0)"

definition emit_fcvt_wu_q :: "ireg5 \<Rightarrow> freg5 \<Rightarrow> arg3 \<Rightarrow> inst_t option" where [emit_defs]:
  "emit_fcvt_wu_q rd frs1 rm = (if ireg5_valid rd \<and> freg5_valid frs1 \<and> arg3_valid rm
     then emit_inst (decode_init\<lparr>dec_op := rv_op_fcvt_wu_q, dec_rd := ucast rd, dec_rs1 := ucast frs1, dec_rm := ucast rm\<rparr>)
     else Some 0)"

definition emit_fcvt_q_w :: "freg5 \<Rightarrow> ireg5 \<Rightarrow> arg3 \<Rightarrow> inst_t option" where [emit_defs]:
  "emit_fcvt_q_w frd rs1 rm = (if freg5_valid frd \<and> ireg5_valid rs1 \<and> arg3_valid rm
     then emit_inst (decode_init\<lparr>dec_op := rv_op_fcvt_q_w, dec_rd := ucast frd, dec_rs1 := ucast rs1, dec_rm := ucast rm\<rparr>)
     else Some 0)"

definition emit_fcvt_q_wu :: "freg5 \<Rightarrow> ireg5 \<Rightarrow> arg3 \<Rightarrow> inst_t option" where [emit_defs]:
  "emit_fcvt_q_wu frd rs1 rm = (if freg5_valid frd \<and> ireg5_valid rs1 \<and> arg3_valid rm
     then emit_inst (decode_init\<lparr>dec_op := rv_op_fcvt_q_wu, dec_rd := ucast frd, dec_rs1 := ucast rs1, dec_rm := ucast rm\<rparr>)
     else Some 0)"

definition emit_fclass_q :: "ireg5 \<Rightarrow> freg5 \<Rightarrow> inst_t option" where [emit_defs]:
  "emit_fclass_q rd frs1 = (if ireg5_valid rd \<and> freg5_valid frs1
     then emit_inst (decode_init\<lparr>dec_op := rv_op_fclass_q, dec_rd := ucast rd, dec_rs1 := ucast frs1\<rparr>)
     else Some 0)"

definition emit_fcvt_l_q :: "ireg5 \<Rightarrow> freg5 \<Rightarrow> arg3 \<Rightarrow> inst_t option" where [emit_defs]:
  "emit_fcvt_l_q rd frs1 rm = (if ireg5_valid rd \<and> freg5_valid frs1 \<and> arg3_valid rm
     then emit_inst (decode_init\<lparr>dec_op := rv_op_fcvt_l_q, dec_rd := ucast rd, dec_rs1 := ucast frs1, dec_rm := ucast rm\<rparr>)
     else Some 0)"

definition emit_fcvt_lu_q :: "ireg5 \<Rightarrow> freg5 \<Rightarrow> arg3 \<Rightarrow> inst_t option" where [emit_defs]:
  "emit_fcvt_lu_q rd frs1 rm = (if ireg5_valid rd \<and> freg5_valid frs1 \<and> arg3_valid rm
     then emit_inst (decode_init\<lparr>dec_op := rv_op_fcvt_lu_q, dec_rd := ucast rd, dec_rs1 := ucast frs1, dec_rm := ucast rm\<rparr>)
     else Some 0)"

definition emit_fcvt_q_l :: "freg5 \<Rightarrow> ireg5 \<Rightarrow> arg3 \<Rightarrow> inst_t option" where [emit_defs]:
  "emit_fcvt_q_l frd rs1 rm = (if freg5_valid frd \<and> ireg5_valid rs1 \<and> arg3_valid rm
     then emit_inst (decode_init\<lparr>dec_op := rv_op_fcvt_q_l, dec_rd := ucast frd, dec_rs1 := ucast rs1, dec_rm := ucast rm\<rparr>)
     else Some 0)"

definition emit_fcvt_q_lu :: "freg5 \<Rightarrow> ireg5 \<Rightarrow> arg3 \<Rightarrow> inst_t option" where [emit_defs]:
  "emit_fcvt_q_lu frd rs1 rm = (if freg5_valid frd \<and> ireg5_valid rs1 \<and> arg3_valid rm
     then emit_inst (decode_init\<lparr>dec_op := rv_op_fcvt_q_lu, dec_rd := ucast frd, dec_rs1 := ucast rs1, dec_rm := ucast rm\<rparr>)
     else Some 0)"

definition emit_fmv_x_q :: "ireg5 \<Rightarrow> freg5 \<Rightarrow> inst_t option" where [emit_defs]:
  "emit_fmv_x_q rd frs1 = (if ireg5_valid rd \<and> freg5_valid frs1
     then emit_inst (decode_init\<lparr>dec_op := rv_op_fmv_x_q, dec_rd := ucast rd, dec_rs1 := ucast frs1\<rparr>)
     else Some 0)"

definition emit_fmv_q_x :: "freg5 \<Rightarrow> ireg5 \<Rightarrow> inst_t option" where [emit_defs]:
  "emit_fmv_q_x frd rs1 = (if freg5_valid frd \<and> ireg5_valid rs1
     then emit_inst (decode_init\<lparr>dec_op := rv_op_fmv_q_x, dec_rd := ucast frd, dec_rs1 := ucast rs1\<rparr>)
     else Some 0)"

end
