(* ===== verification/Rv_Assembler.thy ===== *)
theory Rv_Assembler
  imports Rv_Emit "HOL-Library.Product_Lexorder" "HOL-Library.Char_ord"
begin

text \<open>
  The assembler of \<^verbatim>\<open>src/src/asm/assembler.cc\<close>: sections of bytes, labels, relocations, and the
  expansion of constants into instructions.  \<^verbatim>\<open>size_t\<close> has 64 bits.  A pointer to a section is its index;
  a pointer to a label is an index into the list of all labels made, because labels are shared
  between two maps and change after they are entered.  A map ordered by position is a sorted
  association list.  \<open>None\<close> is a failed assertion of an encoder or an access out of the bounds of a vector.
\<close>

section \<open>Bit operations\<close>

text \<open>\<^verbatim>\<open>bitextend\<close>, \<^verbatim>\<open>ctz\<close> and \<^verbatim>\<open>ispow2\<close> of \<^verbatim>\<open>bits.h\<close> at 64 bits.\<close>

definition bitextend :: "u64 \<Rightarrow> nat \<Rightarrow> u64" where
  "bitextend val b =
    (let m = push_bit (b - 1) 1;
         val = val AND (push_bit b 1 - 1)
     in (val XOR m) - m)"

primrec ctz_loop :: "nat \<Rightarrow> nat \<Rightarrow> u64 \<Rightarrow> bool \<Rightarrow> nat \<Rightarrow> nat" where
  "ctz_loop 0 i val found count = count"
| "ctz_loop (Suc k) i val found count =
    (let found = found \<or> val AND push_bit i 1 \<noteq> 0 in
     ctz_loop k (Suc i) val found (if found then count else Suc count))"

definition ctz :: "u64 \<Rightarrow> nat" where
  "ctz val = ctz_loop 64 0 val False 0"

definition ispow2 :: "u64 \<Rightarrow> bool" where
  "ispow2 val \<longleftrightarrow> val \<noteq> 0 \<and> val AND (val - 1) = 0"

section \<open>State\<close>

type_synonym section_offset = "u64 \<times> u64"

record asm_section =
  sec_index :: u64
  sec_offset :: u64
  sec_name :: string
  sec_buf :: "u8 list"

record label =
  label_name :: string
  label_pos :: section_offset
  label_num :: s64

record reloc =
  reloc_pos :: section_offset
  reloc_name :: string
  rela_type :: int

record assembler =
  asm_sections :: "asm_section list"
  section_map :: "string \<rightharpoonup> nat"
  label_objs :: "label list"
  labels_byname :: "string \<rightharpoonup> nat"
  labels_byoffset :: "(section_offset \<times> nat) list"
  relocs_byoffset :: "(section_offset \<times> reloc) list"
  strong_exports :: "string list"
  weak_exports :: "string list"
  current :: nat

text \<open>Entering a key into an ordered map.\<close>

primrec map_put :: "'k::linorder \<Rightarrow> 'v \<Rightarrow> ('k \<times> 'v) list \<Rightarrow> ('k \<times> 'v) list" where
  "map_put k v [] = [(k, v)]"
| "map_put k v (e # es) =
    (if k < fst e then (k, v) # e # es else if k = fst e then (k, v) # es else e # map_put k v es)"

section \<open>Names\<close>

text \<open>The classes of \<^verbatim>\<open><cctype>\<close> in the C locale.\<close>

definition isdigit :: "char \<Rightarrow> bool" where
  "isdigit c \<longleftrightarrow> CHR ''0'' \<le> c \<and> c \<le> CHR ''9''"

definition isalpha :: "char \<Rightarrow> bool" where
  "isalpha c \<longleftrightarrow> CHR ''A'' \<le> c \<and> c \<le> CHR ''Z'' \<or> CHR ''a'' \<le> c \<and> c \<le> CHR ''z''"

definition symbol_char :: "char \<Rightarrow> bool" where
  "symbol_char c \<longleftrightarrow> isalpha c \<or> isdigit c \<or> c = CHR ''_'' \<or> c = CHR ''.''"

definition check_symbol :: "string \<Rightarrow> bool" where
  "check_symbol arg \<longleftrightarrow>
    \<not> (length arg < 1 \<or> \<not> (isalpha (arg ! 0) \<or> arg ! 0 = CHR ''_'')) \<and> list_all symbol_char (drop 1 arg)"

definition check_private :: "string \<Rightarrow> bool" where
  "check_private arg \<longleftrightarrow>
    \<not> (length arg < 2 \<or> arg ! 0 \<noteq> CHR ''.'' \<or> \<not> (isalpha (arg ! 1) \<or> arg ! 1 = CHR ''_'')) \<and>
    list_all symbol_char (drop 2 arg)"

definition check_local :: "string \<Rightarrow> bool" where
  "check_local arg \<longleftrightarrow>
    \<not> (length arg < 2 \<or> \<not> (last arg = CHR ''b'' \<or> last arg = CHR ''f'')) \<and> list_all isdigit (butlast arg)"

text \<open>Decimal numerals: \<^verbatim>\<open>std::to_string\<close> and \<^verbatim>\<open>strtoull\<close> on digits, which saturates.\<close>

definition digit_char :: "nat \<Rightarrow> char" where
  "digit_char n = char_of (48 + n)"

fun nat_string :: "nat \<Rightarrow> string" where
  "nat_string n = (if n < 10 then [digit_char n] else nat_string (n div 10) @ [digit_char (n mod 10)])"

declare nat_string.simps [simp del]

definition to_string :: "int \<Rightarrow> string" where
  "to_string i = (if i < 0 then CHR ''-'' # nat_string (nat (- i)) else nat_string (nat i))"

definition strtoull :: "string \<Rightarrow> u64" where
  "strtoull s = of_nat (min (foldl (\<lambda>n c. 10 * n + (of_char c - 48)) 0 s) (2 ^ 64 - 1))"

section \<open>Sections and bytes\<close>

definition get_section :: "string \<Rightarrow> assembler \<Rightarrow> assembler" where
  "get_section name a =
    (case section_map a name of
       None \<Rightarrow>
         (let i = length (asm_sections a) in
          a\<lparr>section_map := (section_map a)(name \<mapsto> i),
            asm_sections := asm_sections a @ [\<lparr>sec_index = of_nat i, sec_offset = 0, sec_name = name, sec_buf = []\<rparr>],
            current := i\<rparr>)
     | Some i \<Rightarrow> a\<lparr>current := i\<rparr>)"

definition assembler_init :: assembler where
  "assembler_init = get_section ''.text'' (get_section ''''
    \<lparr>asm_sections = [], section_map = (\<lambda>_. None), label_objs = [], labels_byname = (\<lambda>_. None),
     labels_byoffset = [], relocs_byoffset = [], strong_exports = [], weak_exports = [], current = 0\<rparr>)"

definition asm_global :: "string \<Rightarrow> assembler \<Rightarrow> assembler" where
  "asm_global l a = a\<lparr>strong_exports := strong_exports a @ [l]\<rparr>"

definition asm_weak :: "string \<Rightarrow> assembler \<Rightarrow> assembler" where
  "asm_weak l a = a\<lparr>weak_exports := weak_exports a @ [l]\<rparr>"

definition cur_buf :: "assembler \<Rightarrow> u8 list" where
  "cur_buf a = sec_buf (asm_sections a ! current a)"

definition current_offset :: "assembler \<Rightarrow> section_offset" where
  "current_offset a = (sec_index (asm_sections a ! current a), of_nat (length (cur_buf a)))"

definition push_back :: "u8 list \<Rightarrow> assembler \<Rightarrow> assembler" where
  "push_back bs a = a\<lparr>asm_sections := (asm_sections a)
     [current a := (asm_sections a ! current a)\<lparr>sec_buf := cur_buf a @ bs\<rparr>]\<rparr>"

definition append_8 :: "u8 \<Rightarrow> assembler \<Rightarrow> assembler" where
  "append_8 d = push_back [d]"

definition append_16 :: "u16 \<Rightarrow> assembler \<Rightarrow> assembler" where
  "append_16 d = push_back [ucast (d AND 0xff), ucast (drop_bit 8 d)]"

definition append_32 :: "u32 \<Rightarrow> assembler \<Rightarrow> assembler" where
  "append_32 d = push_back [ucast (d AND 0xff), ucast (drop_bit 8 d AND 0xff),
     ucast (drop_bit 16 d AND 0xff), ucast (drop_bit 24 d AND 0xff)]"

definition append_64 :: "u64 \<Rightarrow> assembler \<Rightarrow> assembler" where
  "append_64 d = push_back [ucast (d AND 0xff), ucast (drop_bit 8 d AND 0xff),
     ucast (drop_bit 16 d AND 0xff), ucast (drop_bit 24 d AND 0xff),
     ucast (drop_bit 32 d AND 0xff), ucast (drop_bit 40 d AND 0xff),
     ucast (drop_bit 48 d AND 0xff), ucast (drop_bit 56 d AND 0xff)]"

definition add_inst :: "u64 \<Rightarrow> assembler \<Rightarrow> assembler" where
  "add_inst inst a =
    (let len = inst_length inst in
     if len = 2 then append_16 (ucast inst) a
     else if len = 4 then append_32 (ucast inst) a
     else if len = 6 then append_16 (ucast (drop_bit 32 inst)) (append_32 (ucast inst) a)
     else if len = 8 then append_64 inst a
     else a)"

definition balign :: "u64 \<Rightarrow> assembler \<Rightarrow> assembler" where
  "balign align a =
    (if \<not> ispow2 align then a
     else if of_nat (length (cur_buf a)) AND (align - 1) = 0 then a
     else push_back (replicate (unat (align - (of_nat (length (cur_buf a)) AND (align - 1)))) 0) a)"

text \<open>The shift is of an \<^verbatim>\<open>int\<close>.\<close>

definition p2align :: "nat \<Rightarrow> assembler \<Rightarrow> assembler option" where
  "p2align s a = (if s < 32 then Some (balign (scast (push_bit s 1 :: s32)) a) else None)"

section \<open>Constants\<close>

definition add_emitted :: "inst_t option \<Rightarrow> assembler \<Rightarrow> assembler option" where
  "add_emitted w a = map_option (\<lambda>inst. add_inst inst a) w"

definition fits_lui :: "u64 \<Rightarrow> bool" where
  "fits_lui val \<longleftrightarrow> val AND NOT 0x7fffffff = 0 \<or> val AND NOT 0x7fffffff = NOT 0x7fffffff"

text \<open>One level of \<^verbatim>\<open>load_imm_r\<close>: what is loaded first, and the shift.\<close>

definition imm_lo :: "u64 \<Rightarrow> u64" where "imm_lo val = bitextend val 12"
definition imm_shift :: "u64 \<Rightarrow> nat" where "imm_shift val = 12 + ctz (drop_bit 12 (val - imm_lo val))"
definition imm_hi :: "u64 \<Rightarrow> u64" where "imm_hi val = signed_drop_bit (imm_shift val) (val - imm_lo val)"


lemma bitextend_eq:
  assumes "k < 63"
  shows "bitextend val (Suc k) = signed_take_bit k val"
proof -
  let ?t = "take_bit k val"
  have mask: "push_bit (Suc k) 1 - 1 = (mask (Suc k) :: u64)" by (simp add: mask_eq_exp_minus_1)
  show ?thesis
  proof (cases "bit val k")
    case True
    then have "(val AND mask (Suc k)) XOR push_bit k 1 = ?t"
      by (auto intro!: bit_word_eqI simp: bit_simps less_Suc_eq)
    then have "bitextend val (Suc k) = ?t + NOT (mask k)"
      unfolding bitextend_def Let_def mask by (simp add: mask_eq_exp_minus_1 not_eq_complement)
    also have "\<dots> = ?t OR NOT (mask k)"
      by (rule disjunctive_add_eq_or) (auto intro!: bit_word_eqI simp: bit_simps)
    finally show ?thesis using True by (simp add: signed_take_bit_def)
  next
    case False
    then have "(val AND mask (Suc k)) XOR push_bit k 1 = ?t OR push_bit k 1"
      by (auto intro!: bit_word_eqI simp: bit_simps less_Suc_eq)
    also have "\<dots> = ?t + push_bit k 1"
      by (rule disjunctive_add_eq_or [symmetric]) (auto intro!: bit_word_eqI simp: bit_simps)
    finally have "bitextend val (Suc k) = ?t" unfolding bitextend_def Let_def mask by simp
    then show ?thesis using False by (simp add: signed_take_bit_def)
  qed
qed

lemma bitextend_12: "bitextend val 12 = signed_take_bit 11 val"
  using bitextend_eq [of 11 val] by simp

lemma sint_imm_lo: "sint (imm_lo val) = signed_take_bit 11 (sint val)"
proof (rule bit_eqI)
  fix n
  show "bit (sint (imm_lo val)) n \<longleftrightarrow> bit (signed_take_bit 11 (sint val)) n"
    unfolding imm_lo_def bitextend_12 by (auto simp: bit_simps min_def)
qed

lemma abs_signed_take_bit: "\<bar>signed_take_bit n x\<bar> \<le> \<bar>x\<bar>" for x :: int
proof (cases "- (2 ^ n) \<le> x \<and> x < 2 ^ n")
  case False
  moreover have "- (2 ^ n) \<le> signed_take_bit n x" "signed_take_bit n x < 2 ^ n"
    by (simp_all add: signed_take_bit_int_greater_eq_minus_exp signed_take_bit_int_less_exp)
  ultimately show ?thesis by linarith
qed (simp add: signed_take_bit_int_eq_self)

lemma imm_hi_smaller:
  assumes "\<not> fits_lui val"
  shows "\<bar>sint (imm_hi val)\<bar> < \<bar>sint val\<bar>"
proof -
  have "sint val \<notin> {0, 1, - 1}"
  proof
    assume "sint val \<in> {0, 1, - 1}"
    then have "val \<in> {0, 1, - 1}" by (auto simp flip: signed_eq_0_iff intro!: signed_word_eqI)
    then show False using assms by (auto simp: fits_lui_def)
  qed
  then have big: "2 \<le> \<bar>sint val\<bar>" by auto
  let ?h = "sint (val - imm_lo val)" and ?s = "imm_shift val"
  have "\<bar>?h\<bar> \<le> \<bar>sint val - sint (imm_lo val)\<bar>" by (simp add: sint_word_diff abs_signed_take_bit)
  moreover have "- 2048 \<le> sint (imm_lo val)" "sint (imm_lo val) < 2048"
    using signed_take_bit_int_greater_eq_minus_exp [of 11 "sint val"] signed_take_bit_int_less_exp [of 11 "sint val"]
    by (simp_all add: sint_imm_lo)
  ultimately have h: "\<bar>?h\<bar> \<le> \<bar>sint val\<bar> + 2048" by linarith
  have "imm_shift val = 12 + ctz (drop_bit 12 (val - imm_lo val))" by (rule imm_shift_def)
  then have "drop_bit ?s ?h = drop_bit (ctz (drop_bit 12 (val - imm_lo val))) (drop_bit 12 ?h)"
    by (simp add: ac_simps)
  moreover have "\<bar>drop_bit k x\<bar> \<le> \<bar>x\<bar>" for k and x :: int
  proof -
    have "x div 2 ^ k \<le> x" if "0 \<le> x" using zdiv_mono2 [of x 1 "2 ^ k"] that by simp
    moreover have "x \<le> x div 2 ^ k" "x div 2 ^ k < 0" if "x < 0"
      using zdiv_mono2_neg [of x 1 "2 ^ k"] that by (simp_all add: div_neg_pos_less0)
    ultimately show ?thesis by (cases "0 \<le> x") (auto simp: drop_bit_eq_div pos_imp_zdiv_nonneg_iff)
  qed
  ultimately have "\<bar>sint (imm_hi val)\<bar> \<le> \<bar>?h div 4096\<bar>"
    by (simp add: imm_hi_def sint_signed_drop_bit_eq drop_bit_eq_div [of 12])
  moreover have "\<bar>?h div 4096\<bar> < \<bar>sint val\<bar>" using h big by linarith
  ultimately show ?thesis by linarith
qed

text \<open>The assembly of a constant; \<^verbatim>\<open>hi >> shift\<close> is an arithmetic shift.\<close>

function load_imm_r :: "ireg5 \<Rightarrow> u64 \<Rightarrow> assembler \<Rightarrow> assembler option" where
  "load_imm_r rd val a =
    (if fits_lui val then
       (let upper = push_bit 12 (signed_drop_bit 12 val) in
        case add_emitted (emit_lui rd upper) a of
          None \<Rightarrow> None
        | Some a \<Rightarrow>
            (let val = val - upper in
             if val \<noteq> 0 then add_emitted (emit_addi rd rd (bitextend val 12)) a else Some a))
     else
       (case load_imm_r rd (imm_hi val) a of
          None \<Rightarrow> None
        | Some a \<Rightarrow>
            (case add_emitted (emit_slli rd rd (of_nat (imm_shift val))) a of
               None \<Rightarrow> None
             | Some a \<Rightarrow>
                 if imm_lo val \<noteq> 0 then add_emitted (emit_addi rd rd (scast (ucast (bitextend (imm_lo val) 12) :: s32))) a
                 else Some a)))"
  by auto

termination
proof (relation "measure (\<lambda>(rd, val, a). nat \<bar>sint val\<bar>)")
  show "((rd, imm_hi val, a), rd, val, a) \<in> measure (\<lambda>(rd, val, a). nat \<bar>sint val\<bar>)" if "\<not> fits_lui val"
    for rd val and a :: assembler
    using imm_hi_smaller [OF that] by simp
qed simp

declare load_imm_r.simps [simp del]

definition load_imm :: "ireg5 \<Rightarrow> u64 \<Rightarrow> assembler \<Rightarrow> assembler option" where
  "load_imm rd val a =
    (if sint val \<ge> - 2048 \<and> sint val \<le> 2047
     then add_emitted (emit_addi rd 0 (scast (ucast val :: s32))) a
     else if ispow2 val then
       (case add_emitted (emit_addi rd 0 1) a of
          None \<Rightarrow> None
        | Some a \<Rightarrow> add_emitted (emit_slli rd rd (of_nat (ctz val))) a)
     else load_imm_r rd val a)"

section \<open>Labels\<close>

definition SHN_ABS :: u64 where "SHN_ABS = 0xfff1"

definition lookup_label_name :: "string \<Rightarrow> assembler \<Rightarrow> nat option" where
  "lookup_label_name l a = labels_byname a l"

primrec find_forward :: "section_offset \<Rightarrow> s64 \<Rightarrow> label list \<Rightarrow> bool \<Rightarrow> (section_offset \<times> nat) list \<Rightarrow> nat option" where
  "find_forward pos num objs found [] = None"
| "find_forward pos num objs found (ent # es) =
    (let found = found \<or> fst ent > pos in
     if found \<and> label_num (objs ! snd ent) = num then Some (snd ent) else find_forward pos num objs found es)"

definition lookup_label_f :: "reloc \<Rightarrow> s64 \<Rightarrow> assembler \<Rightarrow> nat option" where
  "lookup_label_f r num a = find_forward (reloc_pos r) num (label_objs a) False (labels_byoffset a)"

primrec find_backward :: "section_offset \<Rightarrow> s64 \<Rightarrow> label list \<Rightarrow> nat option \<Rightarrow> (section_offset \<times> nat) list \<Rightarrow> nat option" where
  "find_backward pos num objs found [] = found"
| "find_backward pos num objs found (ent # es) =
    (if fst ent > pos then found
     else find_backward pos num objs (if label_num (objs ! snd ent) = num then Some (snd ent) else found) es)"

definition lookup_label_b :: "reloc \<Rightarrow> s64 \<Rightarrow> assembler \<Rightarrow> nat option" where
  "lookup_label_b r num a = find_backward (reloc_pos r) num (label_objs a) None (labels_byoffset a)"

definition lookup_label :: "reloc \<Rightarrow> string \<Rightarrow> assembler \<Rightarrow> nat option" where
  "lookup_label r name a =
    (if check_local name then
       (if last name = CHR ''f'' then lookup_label_f r (strtoull (butlast name)) a
        else lookup_label_b r (strtoull (butlast name)) a)
     else lookup_label_name name a)"

definition enter_label :: "label \<Rightarrow> assembler \<Rightarrow> assembler" where
  "enter_label l a =
    (let i = length (label_objs a) in
     a\<lparr>label_objs := label_objs a @ [l], labels_byname := (labels_byname a)(label_name l \<mapsto> i),
       labels_byoffset := map_put (label_pos l) i (labels_byoffset a)\<rparr>)"

text \<open>The result is the pointer to the label, or null, with the assembler.\<close>

definition add_label_at :: "string \<Rightarrow> section_offset \<Rightarrow> assembler \<Rightarrow> nat option \<times> assembler" where
  "add_label_at name pos a =
    (if labels_byname a name \<noteq> None then (None, a)
     else (Some (length (label_objs a)), enter_label \<lparr>label_name = name, label_pos = pos, label_num = 0\<rparr> a))"

definition add_label :: "string \<Rightarrow> assembler \<Rightarrow> nat option \<times> assembler" where
  "add_label name a = add_label_at name (current_offset a) a"

definition num_label :: "s64 \<Rightarrow> nat \<Rightarrow> string" where
  "num_label num i = ''.L'' @ to_string (sint num) @ to_string (int i)"

text \<open>The search for a free name is given as many rounds as there are labels, and one more.\<close>

primrec free_name :: "nat \<Rightarrow> s64 \<Rightarrow> nat \<Rightarrow> assembler \<Rightarrow> string option" where
  "free_name 0 num i a = None"
| "free_name (Suc k) num i a =
    (if labels_byname a (num_label num i) = None then Some (num_label num i) else free_name k num (Suc i) a)"

definition add_label_num :: "s64 \<Rightarrow> assembler \<Rightarrow> (nat option \<times> assembler) option" where
  "add_label_num num a =
    map_option (\<lambda>name. case add_label name a of
        (Some i, a) \<Rightarrow> (Some i, a\<lparr>label_objs := (label_objs a)[i := (label_objs a ! i)\<lparr>label_num := num\<rparr>]\<rparr>)
      | (None, a) \<Rightarrow> (None, a))
    (free_name (Suc (length (label_objs a))) num 1 a)"

definition add_constant :: "string \<Rightarrow> u64 \<Rightarrow> assembler \<Rightarrow> nat option \<times> assembler" where
  "add_constant name val a = add_label_at name (SHN_ABS, val) a"

section \<open>Relocations\<close>

definition lookup_reloc :: "section_offset \<Rightarrow> assembler \<Rightarrow> reloc option" where
  "lookup_reloc pos a = map_of (relocs_byoffset a) pos"

definition add_reloc :: "string \<Rightarrow> int \<Rightarrow> assembler \<Rightarrow> reloc option \<times> assembler" where
  "add_reloc name ty a =
    (if map_of (relocs_byoffset a) (current_offset a) \<noteq> None then (None, a)
     else let r = \<lparr>reloc_pos = current_offset a, reloc_name = name, rela_type = ty\<rparr> in
       (Some r, a\<lparr>relocs_byoffset := map_put (current_offset a) r (relocs_byoffset a)\<rparr>))"

text \<open>The final position of a section offset; \<open>None\<close> if there is no such section.\<close>

definition final_offset :: "section_offset \<Rightarrow> assembler \<Rightarrow> u64 option" where
  "final_offset pos a =
    (if unat (fst pos) < length (asm_sections a)
     then Some (sec_offset (asm_sections a ! unat (fst pos)) + snd pos) else None)"

definition label_offset :: "label \<Rightarrow> assembler \<Rightarrow> u64 option" where
  "label_offset l a = final_offset (label_pos l) a"

definition reloc_offset :: "reloc \<Rightarrow> assembler \<Rightarrow> u64 option" where
  "reloc_offset r a = final_offset (reloc_pos r) a"

definition buf_memory :: "u8 list \<Rightarrow> u64 \<Rightarrow> u8" where
  "buf_memory buf x = (if unat x < length buf then buf ! unat x else 0)"

definition buf_fetch :: "u8 list \<Rightarrow> u64 \<Rightarrow> (inst_t \<times> u64) option" where
  "buf_fetch buf off =
    (let (inst, len) = inst_fetch (buf_memory buf) off in
     if unat off + max 4 (unat len) \<le> length buf then Some (inst, len) else None)"

definition put_bytes :: "nat \<Rightarrow> u8 list \<Rightarrow> u8 list \<Rightarrow> u8 list option" where
  "put_bytes off bs buf =
    (if off + length bs \<le> length buf then Some (take off buf @ bs @ drop (off + length bs) buf) else None)"

primrec le_bytes :: "nat \<Rightarrow> u64 \<Rightarrow> u8 list" where
  "le_bytes 0 v = []"
| "le_bytes (Suc n) v = ucast v # le_bytes n (drop_bit 8 v)"

definition reencode_inst :: "decode \<Rightarrow> nat \<Rightarrow> u8 list \<Rightarrow> u8 list option" where
  "reencode_inst dec off buf =
    (case emit_inst dec of
       None \<Rightarrow> None
     | Some inst \<Rightarrow>
         (let len = inst_length inst in
          if len = 2 \<or> len = 4 then put_bytes off (le_bytes len inst) buf else Some buf))"

definition R_RISCV_32 :: int where "R_RISCV_32 = 1"
definition R_RISCV_64 :: int where "R_RISCV_64 = 2"
definition R_RISCV_BRANCH :: int where "R_RISCV_BRANCH = 16"
definition R_RISCV_JAL :: int where "R_RISCV_JAL = 17"
definition R_RISCV_CALL :: int where "R_RISCV_CALL = 18"
definition R_RISCV_PCREL_HI20 :: int where "R_RISCV_PCREL_HI20 = 23"
definition R_RISCV_PCREL_LO12_I :: int where "R_RISCV_PCREL_LO12_I = 24"
definition R_RISCV_PCREL_LO12_S :: int where "R_RISCV_PCREL_LO12_S = 25"
definition R_RISCV_HI20 :: int where "R_RISCV_HI20 = 26"
definition R_RISCV_LO12_I :: int where "R_RISCV_LO12_I = 27"
definition R_RISCV_LO12_S :: int where "R_RISCV_LO12_S = 28"

text \<open>The parts of an offset; \<^verbatim>\<open>upper\<close> is an \<^verbatim>\<open>int\<close>.\<close>

definition upper_part :: "u64 \<Rightarrow> s32" where
  "upper_part off = ucast (push_bit 12 (drop_bit 12 (off + 0x800)))"

definition lower_part :: "u64 \<Rightarrow> s32" where
  "lower_part off = ucast (off - scast (upper_part off))"

text \<open>The immediate that a relocation puts into its instruction.\<close>

datatype reloc_action = Imm s32 | Call s32 s32 | Word32 | Word64 | Nothing

definition reloc_imm :: "int \<Rightarrow> u64 \<Rightarrow> u64 \<Rightarrow> reloc_action" where
  "reloc_imm ty label_off reloc_off =
    (if ty = R_RISCV_JAL \<or> ty = R_RISCV_BRANCH then Imm (ucast (label_off - reloc_off))
     else if ty = R_RISCV_HI20 then Imm (upper_part label_off)
     else if ty = R_RISCV_LO12_I \<or> ty = R_RISCV_LO12_S then Imm (lower_part label_off)
     else if ty = R_RISCV_PCREL_HI20 then Imm (upper_part (label_off - reloc_off))
     else if ty = R_RISCV_CALL then Call (upper_part (label_off - reloc_off)) (lower_part (label_off - reloc_off))
     else if ty = R_RISCV_32 then Word32
     else if ty = R_RISCV_64 then Word64
     else Nothing)"

text \<open>
  The relocations \<^verbatim>\<open>PCREL_LO12\<close> use the relocation at the position of their label and the label of that
  one.  The result is \<open>None\<close> for undefined behaviour and \<open>Some None\<close> for an unresolved relocation.
\<close>

definition pcrel_lo :: "reloc \<Rightarrow> u64 \<Rightarrow> assembler \<Rightarrow> reloc_action option option" where
  "pcrel_lo r label_off a =
    (case map_of (relocs_byoffset a) (fst (reloc_pos r), label_off) of
       None \<Rightarrow> Some None
     | Some hi \<Rightarrow>
         (case reloc_offset hi a of
            None \<Rightarrow> None
          | Some reloc_off \<Rightarrow>
              (case lookup_label_name (reloc_name hi) a of
                 None \<Rightarrow> Some None
               | Some l \<Rightarrow>
                   (case label_offset (label_objs a ! l) a of
                      None \<Rightarrow> None
                    | Some target \<Rightarrow> Some (Some (Imm (lower_part (target - reloc_off))))))))"

definition apply_reloc :: "reloc_action \<Rightarrow> u64 \<Rightarrow> u64 \<Rightarrow> u8 list \<Rightarrow> u8 list option" where
  "apply_reloc act label_off off buf =
    (case buf_fetch buf off of
       None \<Rightarrow> None
     | Some (inst, pc_offset) \<Rightarrow>
         (let dec = decode_inst_rv64 decode_init inst in
          case act of
            Imm imm \<Rightarrow> reencode_inst (dec\<lparr>dec_imm := imm\<rparr>) (unat off) buf
          | Call upper lower \<Rightarrow>
              (case buf_fetch buf (off + pc_offset) of
                 None \<Rightarrow> None
               | Some (inst2, _) \<Rightarrow>
                   Option.bind (reencode_inst ((decode_inst_rv64 decode_init inst2)\<lparr>dec_imm := lower\<rparr>) (unat (off + pc_offset)) buf)
                     (reencode_inst (dec\<lparr>dec_imm := upper\<rparr>) (unat off)))
          | Word32 \<Rightarrow> put_bytes (unat off) (le_bytes 4 label_off) buf
          | Word64 \<Rightarrow> put_bytes (unat off) (le_bytes 8 label_off) buf
          | Nothing \<Rightarrow> Some buf))"

definition relocate :: "section_offset \<Rightarrow> assembler \<Rightarrow> (bool \<times> assembler) option" where
  "relocate pos a =
    (case map_of (relocs_byoffset a) pos of
       None \<Rightarrow> None
     | Some r \<Rightarrow>
         (case lookup_label r (reloc_name r) a of
            None \<Rightarrow> Some (False, a)
          | Some l \<Rightarrow>
              (let l = label_objs a ! l;
                   a = a\<lparr>relocs_byoffset := map_put pos (r\<lparr>reloc_name := label_name l\<rparr>) (relocs_byoffset a)\<rparr>;
                   label_off = (if fst (label_pos l) = SHN_ABS then Some (snd (label_pos l)) else label_offset l a)
               in case (label_off, reloc_offset r a) of
                    (Some label_off, Some reloc_off) \<Rightarrow>
                      (case (if rela_type r = R_RISCV_PCREL_LO12_I \<or> rela_type r = R_RISCV_PCREL_LO12_S
                             then pcrel_lo r label_off a else Some (Some (reloc_imm (rela_type r) label_off reloc_off))) of
                         None \<Rightarrow> None
                       | Some None \<Rightarrow>
                           map_option (\<lambda>_. (False, a))
                             (buf_fetch (sec_buf (asm_sections a ! unat (fst (reloc_pos r)))) (snd (reloc_pos r)))
                       | Some (Some act) \<Rightarrow>
                           (let s = unat (fst (reloc_pos r));
                                sec = asm_sections a ! s
                            in map_option (\<lambda>buf. (True, a\<lparr>asm_sections := (asm_sections a)[s := sec\<lparr>sec_buf := buf\<rparr>]\<rparr>))
                                 (apply_reloc act label_off (snd (reloc_pos r)) (sec_buf sec))))
                  | _ \<Rightarrow> None)))"

primrec place_sections :: "u64 \<Rightarrow> asm_section list \<Rightarrow> asm_section list" where
  "place_sections off [] = []"
| "place_sections off (s # ss) = s\<lparr>sec_offset := off\<rparr> # place_sections (off + of_nat (length (sec_buf s))) ss"

primrec relocate_all :: "section_offset list \<Rightarrow> assembler \<Rightarrow> (nat \<times> assembler) option" where
  "relocate_all [] a = Some (0, a)"
| "relocate_all (pos # ps) a =
    (case relocate pos a of
       None \<Rightarrow> None
     | Some (ok, a) \<Rightarrow> map_option (\<lambda>(n, a). (if ok then n else Suc n, a)) (relocate_all ps a))"

text \<open>With the number of unresolved relocations, which is printed.\<close>

definition link :: "assembler \<Rightarrow> (nat \<times> assembler) option" where
  "link a =
    (let a = a\<lparr>asm_sections := place_sections 0 (asm_sections a)\<rparr> in
     relocate_all (map fst (relocs_byoffset a)) a)"

end
