(* ===== verification/Rv_Asm.thy ===== *)
theory Rv_Asm
  imports Rv_Assembler
begin

text \<open>
  The second half of \<^verbatim>\<open>src/src/asm/jit.cc\<close>: for each emitter a function that appends its instruction to
  the current section of an assembler and returns whether the operands were valid.
\<close>

definition asm_inst :: "decode \<Rightarrow> assembler \<Rightarrow> (bool \<times> assembler) option" where
  "asm_inst dec a = map_option (\<lambda>inst. (True, add_inst inst a)) (emit_inst dec)"

named_theorems asm_defs \<open>the assembling emitters\<close>

definition asm_lui :: "ireg5 \<Rightarrow> simm32 \<Rightarrow> assembler \<Rightarrow> (bool \<times> assembler) option" where [asm_defs]:
  "asm_lui rd imm20 a = (if ireg5_valid rd \<and> simm32_valid imm20
     then asm_inst (decode_init\<lparr>dec_op := rv_op_lui, dec_rd := ucast rd, dec_imm := ucast imm20\<rparr>) a
     else Some (False, a))"

definition asm_auipc :: "ireg5 \<Rightarrow> offset32 \<Rightarrow> assembler \<Rightarrow> (bool \<times> assembler) option" where [asm_defs]:
  "asm_auipc rd oimm20 a = (if ireg5_valid rd \<and> offset32_valid oimm20
     then asm_inst (decode_init\<lparr>dec_op := rv_op_auipc, dec_rd := ucast rd, dec_imm := ucast oimm20\<rparr>) a
     else Some (False, a))"

definition asm_jal :: "ireg5 \<Rightarrow> offset21 \<Rightarrow> assembler \<Rightarrow> (bool \<times> assembler) option" where [asm_defs]:
  "asm_jal rd jimm20 a = (if ireg5_valid rd \<and> offset21_valid jimm20
     then asm_inst (decode_init\<lparr>dec_op := rv_op_jal, dec_rd := ucast rd, dec_imm := ucast jimm20\<rparr>) a
     else Some (False, a))"

definition asm_jalr :: "ireg5 \<Rightarrow> ireg5 \<Rightarrow> simm12 \<Rightarrow> assembler \<Rightarrow> (bool \<times> assembler) option" where [asm_defs]:
  "asm_jalr rd rs1 imm12 a = (if ireg5_valid rd \<and> ireg5_valid rs1 \<and> simm12_valid imm12
     then asm_inst (decode_init\<lparr>dec_op := rv_op_jalr, dec_rd := ucast rd, dec_rs1 := ucast rs1, dec_imm := ucast imm12\<rparr>) a
     else Some (False, a))"

definition asm_beq :: "ireg5 \<Rightarrow> ireg5 \<Rightarrow> offset13 \<Rightarrow> assembler \<Rightarrow> (bool \<times> assembler) option" where [asm_defs]:
  "asm_beq rs1 rs2 sbimm12 a = (if ireg5_valid rs1 \<and> ireg5_valid rs2 \<and> offset13_valid sbimm12
     then asm_inst (decode_init\<lparr>dec_op := rv_op_beq, dec_rs1 := ucast rs1, dec_rs2 := ucast rs2, dec_imm := ucast sbimm12\<rparr>) a
     else Some (False, a))"

definition asm_bne :: "ireg5 \<Rightarrow> ireg5 \<Rightarrow> offset13 \<Rightarrow> assembler \<Rightarrow> (bool \<times> assembler) option" where [asm_defs]:
  "asm_bne rs1 rs2 sbimm12 a = (if ireg5_valid rs1 \<and> ireg5_valid rs2 \<and> offset13_valid sbimm12
     then asm_inst (decode_init\<lparr>dec_op := rv_op_bne, dec_rs1 := ucast rs1, dec_rs2 := ucast rs2, dec_imm := ucast sbimm12\<rparr>) a
     else Some (False, a))"

definition asm_blt :: "ireg5 \<Rightarrow> ireg5 \<Rightarrow> offset13 \<Rightarrow> assembler \<Rightarrow> (bool \<times> assembler) option" where [asm_defs]:
  "asm_blt rs1 rs2 sbimm12 a = (if ireg5_valid rs1 \<and> ireg5_valid rs2 \<and> offset13_valid sbimm12
     then asm_inst (decode_init\<lparr>dec_op := rv_op_blt, dec_rs1 := ucast rs1, dec_rs2 := ucast rs2, dec_imm := ucast sbimm12\<rparr>) a
     else Some (False, a))"

definition asm_bge :: "ireg5 \<Rightarrow> ireg5 \<Rightarrow> offset13 \<Rightarrow> assembler \<Rightarrow> (bool \<times> assembler) option" where [asm_defs]:
  "asm_bge rs1 rs2 sbimm12 a = (if ireg5_valid rs1 \<and> ireg5_valid rs2 \<and> offset13_valid sbimm12
     then asm_inst (decode_init\<lparr>dec_op := rv_op_bge, dec_rs1 := ucast rs1, dec_rs2 := ucast rs2, dec_imm := ucast sbimm12\<rparr>) a
     else Some (False, a))"

definition asm_bltu :: "ireg5 \<Rightarrow> ireg5 \<Rightarrow> offset13 \<Rightarrow> assembler \<Rightarrow> (bool \<times> assembler) option" where [asm_defs]:
  "asm_bltu rs1 rs2 sbimm12 a = (if ireg5_valid rs1 \<and> ireg5_valid rs2 \<and> offset13_valid sbimm12
     then asm_inst (decode_init\<lparr>dec_op := rv_op_bltu, dec_rs1 := ucast rs1, dec_rs2 := ucast rs2, dec_imm := ucast sbimm12\<rparr>) a
     else Some (False, a))"

definition asm_bgeu :: "ireg5 \<Rightarrow> ireg5 \<Rightarrow> offset13 \<Rightarrow> assembler \<Rightarrow> (bool \<times> assembler) option" where [asm_defs]:
  "asm_bgeu rs1 rs2 sbimm12 a = (if ireg5_valid rs1 \<and> ireg5_valid rs2 \<and> offset13_valid sbimm12
     then asm_inst (decode_init\<lparr>dec_op := rv_op_bgeu, dec_rs1 := ucast rs1, dec_rs2 := ucast rs2, dec_imm := ucast sbimm12\<rparr>) a
     else Some (False, a))"

definition asm_lb :: "ireg5 \<Rightarrow> ireg5 \<Rightarrow> offset12 \<Rightarrow> assembler \<Rightarrow> (bool \<times> assembler) option" where [asm_defs]:
  "asm_lb rd rs1 oimm12 a = (if ireg5_valid rd \<and> ireg5_valid rs1 \<and> offset12_valid oimm12
     then asm_inst (decode_init\<lparr>dec_op := rv_op_lb, dec_rd := ucast rd, dec_rs1 := ucast rs1, dec_imm := ucast oimm12\<rparr>) a
     else Some (False, a))"

definition asm_lh :: "ireg5 \<Rightarrow> ireg5 \<Rightarrow> offset12 \<Rightarrow> assembler \<Rightarrow> (bool \<times> assembler) option" where [asm_defs]:
  "asm_lh rd rs1 oimm12 a = (if ireg5_valid rd \<and> ireg5_valid rs1 \<and> offset12_valid oimm12
     then asm_inst (decode_init\<lparr>dec_op := rv_op_lh, dec_rd := ucast rd, dec_rs1 := ucast rs1, dec_imm := ucast oimm12\<rparr>) a
     else Some (False, a))"

definition asm_lw :: "ireg5 \<Rightarrow> ireg5 \<Rightarrow> offset12 \<Rightarrow> assembler \<Rightarrow> (bool \<times> assembler) option" where [asm_defs]:
  "asm_lw rd rs1 oimm12 a = (if ireg5_valid rd \<and> ireg5_valid rs1 \<and> offset12_valid oimm12
     then asm_inst (decode_init\<lparr>dec_op := rv_op_lw, dec_rd := ucast rd, dec_rs1 := ucast rs1, dec_imm := ucast oimm12\<rparr>) a
     else Some (False, a))"

definition asm_lbu :: "ireg5 \<Rightarrow> ireg5 \<Rightarrow> offset12 \<Rightarrow> assembler \<Rightarrow> (bool \<times> assembler) option" where [asm_defs]:
  "asm_lbu rd rs1 oimm12 a = (if ireg5_valid rd \<and> ireg5_valid rs1 \<and> offset12_valid oimm12
     then asm_inst (decode_init\<lparr>dec_op := rv_op_lbu, dec_rd := ucast rd, dec_rs1 := ucast rs1, dec_imm := ucast oimm12\<rparr>) a
     else Some (False, a))"

definition asm_lhu :: "ireg5 \<Rightarrow> ireg5 \<Rightarrow> offset12 \<Rightarrow> assembler \<Rightarrow> (bool \<times> assembler) option" where [asm_defs]:
  "asm_lhu rd rs1 oimm12 a = (if ireg5_valid rd \<and> ireg5_valid rs1 \<and> offset12_valid oimm12
     then asm_inst (decode_init\<lparr>dec_op := rv_op_lhu, dec_rd := ucast rd, dec_rs1 := ucast rs1, dec_imm := ucast oimm12\<rparr>) a
     else Some (False, a))"

definition asm_sb :: "ireg5 \<Rightarrow> ireg5 \<Rightarrow> offset12 \<Rightarrow> assembler \<Rightarrow> (bool \<times> assembler) option" where [asm_defs]:
  "asm_sb rs1 rs2 simm12 a = (if ireg5_valid rs1 \<and> ireg5_valid rs2 \<and> offset12_valid simm12
     then asm_inst (decode_init\<lparr>dec_op := rv_op_sb, dec_rs1 := ucast rs1, dec_rs2 := ucast rs2, dec_imm := ucast simm12\<rparr>) a
     else Some (False, a))"

definition asm_sh :: "ireg5 \<Rightarrow> ireg5 \<Rightarrow> offset12 \<Rightarrow> assembler \<Rightarrow> (bool \<times> assembler) option" where [asm_defs]:
  "asm_sh rs1 rs2 simm12 a = (if ireg5_valid rs1 \<and> ireg5_valid rs2 \<and> offset12_valid simm12
     then asm_inst (decode_init\<lparr>dec_op := rv_op_sh, dec_rs1 := ucast rs1, dec_rs2 := ucast rs2, dec_imm := ucast simm12\<rparr>) a
     else Some (False, a))"

definition asm_sw :: "ireg5 \<Rightarrow> ireg5 \<Rightarrow> offset12 \<Rightarrow> assembler \<Rightarrow> (bool \<times> assembler) option" where [asm_defs]:
  "asm_sw rs1 rs2 simm12 a = (if ireg5_valid rs1 \<and> ireg5_valid rs2 \<and> offset12_valid simm12
     then asm_inst (decode_init\<lparr>dec_op := rv_op_sw, dec_rs1 := ucast rs1, dec_rs2 := ucast rs2, dec_imm := ucast simm12\<rparr>) a
     else Some (False, a))"

definition asm_addi :: "ireg5 \<Rightarrow> ireg5 \<Rightarrow> simm12 \<Rightarrow> assembler \<Rightarrow> (bool \<times> assembler) option" where [asm_defs]:
  "asm_addi rd rs1 imm12 a = (if ireg5_valid rd \<and> ireg5_valid rs1 \<and> simm12_valid imm12
     then asm_inst (decode_init\<lparr>dec_op := rv_op_addi, dec_rd := ucast rd, dec_rs1 := ucast rs1, dec_imm := ucast imm12\<rparr>) a
     else Some (False, a))"

definition asm_slti :: "ireg5 \<Rightarrow> ireg5 \<Rightarrow> simm12 \<Rightarrow> assembler \<Rightarrow> (bool \<times> assembler) option" where [asm_defs]:
  "asm_slti rd rs1 imm12 a = (if ireg5_valid rd \<and> ireg5_valid rs1 \<and> simm12_valid imm12
     then asm_inst (decode_init\<lparr>dec_op := rv_op_slti, dec_rd := ucast rd, dec_rs1 := ucast rs1, dec_imm := ucast imm12\<rparr>) a
     else Some (False, a))"

definition asm_sltiu :: "ireg5 \<Rightarrow> ireg5 \<Rightarrow> simm12 \<Rightarrow> assembler \<Rightarrow> (bool \<times> assembler) option" where [asm_defs]:
  "asm_sltiu rd rs1 imm12 a = (if ireg5_valid rd \<and> ireg5_valid rs1 \<and> simm12_valid imm12
     then asm_inst (decode_init\<lparr>dec_op := rv_op_sltiu, dec_rd := ucast rd, dec_rs1 := ucast rs1, dec_imm := ucast imm12\<rparr>) a
     else Some (False, a))"

definition asm_xori :: "ireg5 \<Rightarrow> ireg5 \<Rightarrow> simm12 \<Rightarrow> assembler \<Rightarrow> (bool \<times> assembler) option" where [asm_defs]:
  "asm_xori rd rs1 imm12 a = (if ireg5_valid rd \<and> ireg5_valid rs1 \<and> simm12_valid imm12
     then asm_inst (decode_init\<lparr>dec_op := rv_op_xori, dec_rd := ucast rd, dec_rs1 := ucast rs1, dec_imm := ucast imm12\<rparr>) a
     else Some (False, a))"

definition asm_ori :: "ireg5 \<Rightarrow> ireg5 \<Rightarrow> simm12 \<Rightarrow> assembler \<Rightarrow> (bool \<times> assembler) option" where [asm_defs]:
  "asm_ori rd rs1 imm12 a = (if ireg5_valid rd \<and> ireg5_valid rs1 \<and> simm12_valid imm12
     then asm_inst (decode_init\<lparr>dec_op := rv_op_ori, dec_rd := ucast rd, dec_rs1 := ucast rs1, dec_imm := ucast imm12\<rparr>) a
     else Some (False, a))"

definition asm_andi :: "ireg5 \<Rightarrow> ireg5 \<Rightarrow> simm12 \<Rightarrow> assembler \<Rightarrow> (bool \<times> assembler) option" where [asm_defs]:
  "asm_andi rd rs1 imm12 a = (if ireg5_valid rd \<and> ireg5_valid rs1 \<and> simm12_valid imm12
     then asm_inst (decode_init\<lparr>dec_op := rv_op_andi, dec_rd := ucast rd, dec_rs1 := ucast rs1, dec_imm := ucast imm12\<rparr>) a
     else Some (False, a))"

definition asm_slli :: "ireg5 \<Rightarrow> ireg5 \<Rightarrow> uimm7 \<Rightarrow> assembler \<Rightarrow> (bool \<times> assembler) option" where [asm_defs]:
  "asm_slli rd rs1 shamt7 a = (if ireg5_valid rd \<and> ireg5_valid rs1 \<and> uimm7_valid shamt7
     then asm_inst (decode_init\<lparr>dec_op := rv_op_slli, dec_rd := ucast rd, dec_rs1 := ucast rs1, dec_imm := ucast shamt7\<rparr>) a
     else Some (False, a))"

definition asm_srli :: "ireg5 \<Rightarrow> ireg5 \<Rightarrow> uimm7 \<Rightarrow> assembler \<Rightarrow> (bool \<times> assembler) option" where [asm_defs]:
  "asm_srli rd rs1 shamt7 a = (if ireg5_valid rd \<and> ireg5_valid rs1 \<and> uimm7_valid shamt7
     then asm_inst (decode_init\<lparr>dec_op := rv_op_srli, dec_rd := ucast rd, dec_rs1 := ucast rs1, dec_imm := ucast shamt7\<rparr>) a
     else Some (False, a))"

definition asm_srai :: "ireg5 \<Rightarrow> ireg5 \<Rightarrow> uimm7 \<Rightarrow> assembler \<Rightarrow> (bool \<times> assembler) option" where [asm_defs]:
  "asm_srai rd rs1 shamt7 a = (if ireg5_valid rd \<and> ireg5_valid rs1 \<and> uimm7_valid shamt7
     then asm_inst (decode_init\<lparr>dec_op := rv_op_srai, dec_rd := ucast rd, dec_rs1 := ucast rs1, dec_imm := ucast shamt7\<rparr>) a
     else Some (False, a))"

definition asm_add :: "ireg5 \<Rightarrow> ireg5 \<Rightarrow> ireg5 \<Rightarrow> assembler \<Rightarrow> (bool \<times> assembler) option" where [asm_defs]:
  "asm_add rd rs1 rs2 a = (if ireg5_valid rd \<and> ireg5_valid rs1 \<and> ireg5_valid rs2
     then asm_inst (decode_init\<lparr>dec_op := rv_op_add, dec_rd := ucast rd, dec_rs1 := ucast rs1, dec_rs2 := ucast rs2\<rparr>) a
     else Some (False, a))"

definition asm_sub :: "ireg5 \<Rightarrow> ireg5 \<Rightarrow> ireg5 \<Rightarrow> assembler \<Rightarrow> (bool \<times> assembler) option" where [asm_defs]:
  "asm_sub rd rs1 rs2 a = (if ireg5_valid rd \<and> ireg5_valid rs1 \<and> ireg5_valid rs2
     then asm_inst (decode_init\<lparr>dec_op := rv_op_sub, dec_rd := ucast rd, dec_rs1 := ucast rs1, dec_rs2 := ucast rs2\<rparr>) a
     else Some (False, a))"

definition asm_sll :: "ireg5 \<Rightarrow> ireg5 \<Rightarrow> ireg5 \<Rightarrow> assembler \<Rightarrow> (bool \<times> assembler) option" where [asm_defs]:
  "asm_sll rd rs1 rs2 a = (if ireg5_valid rd \<and> ireg5_valid rs1 \<and> ireg5_valid rs2
     then asm_inst (decode_init\<lparr>dec_op := rv_op_sll, dec_rd := ucast rd, dec_rs1 := ucast rs1, dec_rs2 := ucast rs2\<rparr>) a
     else Some (False, a))"

definition asm_slt :: "ireg5 \<Rightarrow> ireg5 \<Rightarrow> ireg5 \<Rightarrow> assembler \<Rightarrow> (bool \<times> assembler) option" where [asm_defs]:
  "asm_slt rd rs1 rs2 a = (if ireg5_valid rd \<and> ireg5_valid rs1 \<and> ireg5_valid rs2
     then asm_inst (decode_init\<lparr>dec_op := rv_op_slt, dec_rd := ucast rd, dec_rs1 := ucast rs1, dec_rs2 := ucast rs2\<rparr>) a
     else Some (False, a))"

definition asm_sltu :: "ireg5 \<Rightarrow> ireg5 \<Rightarrow> ireg5 \<Rightarrow> assembler \<Rightarrow> (bool \<times> assembler) option" where [asm_defs]:
  "asm_sltu rd rs1 rs2 a = (if ireg5_valid rd \<and> ireg5_valid rs1 \<and> ireg5_valid rs2
     then asm_inst (decode_init\<lparr>dec_op := rv_op_sltu, dec_rd := ucast rd, dec_rs1 := ucast rs1, dec_rs2 := ucast rs2\<rparr>) a
     else Some (False, a))"

definition asm_xor :: "ireg5 \<Rightarrow> ireg5 \<Rightarrow> ireg5 \<Rightarrow> assembler \<Rightarrow> (bool \<times> assembler) option" where [asm_defs]:
  "asm_xor rd rs1 rs2 a = (if ireg5_valid rd \<and> ireg5_valid rs1 \<and> ireg5_valid rs2
     then asm_inst (decode_init\<lparr>dec_op := rv_op_xor, dec_rd := ucast rd, dec_rs1 := ucast rs1, dec_rs2 := ucast rs2\<rparr>) a
     else Some (False, a))"

definition asm_srl :: "ireg5 \<Rightarrow> ireg5 \<Rightarrow> ireg5 \<Rightarrow> assembler \<Rightarrow> (bool \<times> assembler) option" where [asm_defs]:
  "asm_srl rd rs1 rs2 a = (if ireg5_valid rd \<and> ireg5_valid rs1 \<and> ireg5_valid rs2
     then asm_inst (decode_init\<lparr>dec_op := rv_op_srl, dec_rd := ucast rd, dec_rs1 := ucast rs1, dec_rs2 := ucast rs2\<rparr>) a
     else Some (False, a))"

definition asm_sra :: "ireg5 \<Rightarrow> ireg5 \<Rightarrow> ireg5 \<Rightarrow> assembler \<Rightarrow> (bool \<times> assembler) option" where [asm_defs]:
  "asm_sra rd rs1 rs2 a = (if ireg5_valid rd \<and> ireg5_valid rs1 \<and> ireg5_valid rs2
     then asm_inst (decode_init\<lparr>dec_op := rv_op_sra, dec_rd := ucast rd, dec_rs1 := ucast rs1, dec_rs2 := ucast rs2\<rparr>) a
     else Some (False, a))"

definition asm_or :: "ireg5 \<Rightarrow> ireg5 \<Rightarrow> ireg5 \<Rightarrow> assembler \<Rightarrow> (bool \<times> assembler) option" where [asm_defs]:
  "asm_or rd rs1 rs2 a = (if ireg5_valid rd \<and> ireg5_valid rs1 \<and> ireg5_valid rs2
     then asm_inst (decode_init\<lparr>dec_op := rv_op_or, dec_rd := ucast rd, dec_rs1 := ucast rs1, dec_rs2 := ucast rs2\<rparr>) a
     else Some (False, a))"

definition asm_and :: "ireg5 \<Rightarrow> ireg5 \<Rightarrow> ireg5 \<Rightarrow> assembler \<Rightarrow> (bool \<times> assembler) option" where [asm_defs]:
  "asm_and rd rs1 rs2 a = (if ireg5_valid rd \<and> ireg5_valid rs1 \<and> ireg5_valid rs2
     then asm_inst (decode_init\<lparr>dec_op := rv_op_and, dec_rd := ucast rd, dec_rs1 := ucast rs1, dec_rs2 := ucast rs2\<rparr>) a
     else Some (False, a))"

definition asm_fence :: "arg4 \<Rightarrow> arg4 \<Rightarrow> assembler \<Rightarrow> (bool \<times> assembler) option" where [asm_defs]:
  "asm_fence pred succ a = (if arg4_valid pred \<and> arg4_valid succ
     then asm_inst (decode_init\<lparr>dec_op := rv_op_fence, dec_pred := ucast pred, dec_succ := ucast succ\<rparr>) a
     else Some (False, a))"

definition asm_fence_i :: "assembler \<Rightarrow> (bool \<times> assembler) option" where [asm_defs]:
  "asm_fence_i a = asm_inst (decode_init\<lparr>dec_op := rv_op_fence_i\<rparr>) a"

definition asm_lwu :: "ireg5 \<Rightarrow> ireg5 \<Rightarrow> offset12 \<Rightarrow> assembler \<Rightarrow> (bool \<times> assembler) option" where [asm_defs]:
  "asm_lwu rd rs1 oimm12 a = (if ireg5_valid rd \<and> ireg5_valid rs1 \<and> offset12_valid oimm12
     then asm_inst (decode_init\<lparr>dec_op := rv_op_lwu, dec_rd := ucast rd, dec_rs1 := ucast rs1, dec_imm := ucast oimm12\<rparr>) a
     else Some (False, a))"

definition asm_ld :: "ireg5 \<Rightarrow> ireg5 \<Rightarrow> offset12 \<Rightarrow> assembler \<Rightarrow> (bool \<times> assembler) option" where [asm_defs]:
  "asm_ld rd rs1 oimm12 a = (if ireg5_valid rd \<and> ireg5_valid rs1 \<and> offset12_valid oimm12
     then asm_inst (decode_init\<lparr>dec_op := rv_op_ld, dec_rd := ucast rd, dec_rs1 := ucast rs1, dec_imm := ucast oimm12\<rparr>) a
     else Some (False, a))"

definition asm_sd :: "ireg5 \<Rightarrow> ireg5 \<Rightarrow> offset12 \<Rightarrow> assembler \<Rightarrow> (bool \<times> assembler) option" where [asm_defs]:
  "asm_sd rs1 rs2 simm12 a = (if ireg5_valid rs1 \<and> ireg5_valid rs2 \<and> offset12_valid simm12
     then asm_inst (decode_init\<lparr>dec_op := rv_op_sd, dec_rs1 := ucast rs1, dec_rs2 := ucast rs2, dec_imm := ucast simm12\<rparr>) a
     else Some (False, a))"

definition asm_addiw :: "ireg5 \<Rightarrow> ireg5 \<Rightarrow> simm12 \<Rightarrow> assembler \<Rightarrow> (bool \<times> assembler) option" where [asm_defs]:
  "asm_addiw rd rs1 imm12 a = (if ireg5_valid rd \<and> ireg5_valid rs1 \<and> simm12_valid imm12
     then asm_inst (decode_init\<lparr>dec_op := rv_op_addiw, dec_rd := ucast rd, dec_rs1 := ucast rs1, dec_imm := ucast imm12\<rparr>) a
     else Some (False, a))"

definition asm_slliw :: "ireg5 \<Rightarrow> ireg5 \<Rightarrow> uimm5 \<Rightarrow> assembler \<Rightarrow> (bool \<times> assembler) option" where [asm_defs]:
  "asm_slliw rd rs1 shamt5 a = (if ireg5_valid rd \<and> ireg5_valid rs1 \<and> uimm5_valid shamt5
     then asm_inst (decode_init\<lparr>dec_op := rv_op_slliw, dec_rd := ucast rd, dec_rs1 := ucast rs1, dec_imm := ucast shamt5\<rparr>) a
     else Some (False, a))"

definition asm_srliw :: "ireg5 \<Rightarrow> ireg5 \<Rightarrow> uimm5 \<Rightarrow> assembler \<Rightarrow> (bool \<times> assembler) option" where [asm_defs]:
  "asm_srliw rd rs1 shamt5 a = (if ireg5_valid rd \<and> ireg5_valid rs1 \<and> uimm5_valid shamt5
     then asm_inst (decode_init\<lparr>dec_op := rv_op_srliw, dec_rd := ucast rd, dec_rs1 := ucast rs1, dec_imm := ucast shamt5\<rparr>) a
     else Some (False, a))"

definition asm_sraiw :: "ireg5 \<Rightarrow> ireg5 \<Rightarrow> uimm5 \<Rightarrow> assembler \<Rightarrow> (bool \<times> assembler) option" where [asm_defs]:
  "asm_sraiw rd rs1 shamt5 a = (if ireg5_valid rd \<and> ireg5_valid rs1 \<and> uimm5_valid shamt5
     then asm_inst (decode_init\<lparr>dec_op := rv_op_sraiw, dec_rd := ucast rd, dec_rs1 := ucast rs1, dec_imm := ucast shamt5\<rparr>) a
     else Some (False, a))"

definition asm_addw :: "ireg5 \<Rightarrow> ireg5 \<Rightarrow> ireg5 \<Rightarrow> assembler \<Rightarrow> (bool \<times> assembler) option" where [asm_defs]:
  "asm_addw rd rs1 rs2 a = (if ireg5_valid rd \<and> ireg5_valid rs1 \<and> ireg5_valid rs2
     then asm_inst (decode_init\<lparr>dec_op := rv_op_addw, dec_rd := ucast rd, dec_rs1 := ucast rs1, dec_rs2 := ucast rs2\<rparr>) a
     else Some (False, a))"

definition asm_subw :: "ireg5 \<Rightarrow> ireg5 \<Rightarrow> ireg5 \<Rightarrow> assembler \<Rightarrow> (bool \<times> assembler) option" where [asm_defs]:
  "asm_subw rd rs1 rs2 a = (if ireg5_valid rd \<and> ireg5_valid rs1 \<and> ireg5_valid rs2
     then asm_inst (decode_init\<lparr>dec_op := rv_op_subw, dec_rd := ucast rd, dec_rs1 := ucast rs1, dec_rs2 := ucast rs2\<rparr>) a
     else Some (False, a))"

definition asm_sllw :: "ireg5 \<Rightarrow> ireg5 \<Rightarrow> ireg5 \<Rightarrow> assembler \<Rightarrow> (bool \<times> assembler) option" where [asm_defs]:
  "asm_sllw rd rs1 rs2 a = (if ireg5_valid rd \<and> ireg5_valid rs1 \<and> ireg5_valid rs2
     then asm_inst (decode_init\<lparr>dec_op := rv_op_sllw, dec_rd := ucast rd, dec_rs1 := ucast rs1, dec_rs2 := ucast rs2\<rparr>) a
     else Some (False, a))"

definition asm_srlw :: "ireg5 \<Rightarrow> ireg5 \<Rightarrow> ireg5 \<Rightarrow> assembler \<Rightarrow> (bool \<times> assembler) option" where [asm_defs]:
  "asm_srlw rd rs1 rs2 a = (if ireg5_valid rd \<and> ireg5_valid rs1 \<and> ireg5_valid rs2
     then asm_inst (decode_init\<lparr>dec_op := rv_op_srlw, dec_rd := ucast rd, dec_rs1 := ucast rs1, dec_rs2 := ucast rs2\<rparr>) a
     else Some (False, a))"

definition asm_sraw :: "ireg5 \<Rightarrow> ireg5 \<Rightarrow> ireg5 \<Rightarrow> assembler \<Rightarrow> (bool \<times> assembler) option" where [asm_defs]:
  "asm_sraw rd rs1 rs2 a = (if ireg5_valid rd \<and> ireg5_valid rs1 \<and> ireg5_valid rs2
     then asm_inst (decode_init\<lparr>dec_op := rv_op_sraw, dec_rd := ucast rd, dec_rs1 := ucast rs1, dec_rs2 := ucast rs2\<rparr>) a
     else Some (False, a))"

definition asm_ldu :: "ireg5 \<Rightarrow> ireg5 \<Rightarrow> offset12 \<Rightarrow> assembler \<Rightarrow> (bool \<times> assembler) option" where [asm_defs]:
  "asm_ldu rd rs1 oimm12 a = (if ireg5_valid rd \<and> ireg5_valid rs1 \<and> offset12_valid oimm12
     then asm_inst (decode_init\<lparr>dec_op := rv_op_ldu, dec_rd := ucast rd, dec_rs1 := ucast rs1, dec_imm := ucast oimm12\<rparr>) a
     else Some (False, a))"

definition asm_lq :: "ireg5 \<Rightarrow> ireg5 \<Rightarrow> offset12 \<Rightarrow> assembler \<Rightarrow> (bool \<times> assembler) option" where [asm_defs]:
  "asm_lq rd rs1 oimm12 a = (if ireg5_valid rd \<and> ireg5_valid rs1 \<and> offset12_valid oimm12
     then asm_inst (decode_init\<lparr>dec_op := rv_op_lq, dec_rd := ucast rd, dec_rs1 := ucast rs1, dec_imm := ucast oimm12\<rparr>) a
     else Some (False, a))"

definition asm_sq :: "ireg5 \<Rightarrow> ireg5 \<Rightarrow> offset12 \<Rightarrow> assembler \<Rightarrow> (bool \<times> assembler) option" where [asm_defs]:
  "asm_sq rs1 rs2 simm12 a = (if ireg5_valid rs1 \<and> ireg5_valid rs2 \<and> offset12_valid simm12
     then asm_inst (decode_init\<lparr>dec_op := rv_op_sq, dec_rs1 := ucast rs1, dec_rs2 := ucast rs2, dec_imm := ucast simm12\<rparr>) a
     else Some (False, a))"

definition asm_addid :: "ireg5 \<Rightarrow> ireg5 \<Rightarrow> simm12 \<Rightarrow> assembler \<Rightarrow> (bool \<times> assembler) option" where [asm_defs]:
  "asm_addid rd rs1 imm12 a = (if ireg5_valid rd \<and> ireg5_valid rs1 \<and> simm12_valid imm12
     then asm_inst (decode_init\<lparr>dec_op := rv_op_addid, dec_rd := ucast rd, dec_rs1 := ucast rs1, dec_imm := ucast imm12\<rparr>) a
     else Some (False, a))"

definition asm_sllid :: "ireg5 \<Rightarrow> ireg5 \<Rightarrow> uimm6 \<Rightarrow> assembler \<Rightarrow> (bool \<times> assembler) option" where [asm_defs]:
  "asm_sllid rd rs1 shamt6 a = (if ireg5_valid rd \<and> ireg5_valid rs1 \<and> uimm6_valid shamt6
     then asm_inst (decode_init\<lparr>dec_op := rv_op_sllid, dec_rd := ucast rd, dec_rs1 := ucast rs1, dec_imm := ucast shamt6\<rparr>) a
     else Some (False, a))"

definition asm_srlid :: "ireg5 \<Rightarrow> ireg5 \<Rightarrow> uimm6 \<Rightarrow> assembler \<Rightarrow> (bool \<times> assembler) option" where [asm_defs]:
  "asm_srlid rd rs1 shamt6 a = (if ireg5_valid rd \<and> ireg5_valid rs1 \<and> uimm6_valid shamt6
     then asm_inst (decode_init\<lparr>dec_op := rv_op_srlid, dec_rd := ucast rd, dec_rs1 := ucast rs1, dec_imm := ucast shamt6\<rparr>) a
     else Some (False, a))"

definition asm_sraid :: "ireg5 \<Rightarrow> ireg5 \<Rightarrow> uimm6 \<Rightarrow> assembler \<Rightarrow> (bool \<times> assembler) option" where [asm_defs]:
  "asm_sraid rd rs1 shamt6 a = (if ireg5_valid rd \<and> ireg5_valid rs1 \<and> uimm6_valid shamt6
     then asm_inst (decode_init\<lparr>dec_op := rv_op_sraid, dec_rd := ucast rd, dec_rs1 := ucast rs1, dec_imm := ucast shamt6\<rparr>) a
     else Some (False, a))"

definition asm_addd :: "ireg5 \<Rightarrow> ireg5 \<Rightarrow> ireg5 \<Rightarrow> assembler \<Rightarrow> (bool \<times> assembler) option" where [asm_defs]:
  "asm_addd rd rs1 rs2 a = (if ireg5_valid rd \<and> ireg5_valid rs1 \<and> ireg5_valid rs2
     then asm_inst (decode_init\<lparr>dec_op := rv_op_addd, dec_rd := ucast rd, dec_rs1 := ucast rs1, dec_rs2 := ucast rs2\<rparr>) a
     else Some (False, a))"

definition asm_subd :: "ireg5 \<Rightarrow> ireg5 \<Rightarrow> ireg5 \<Rightarrow> assembler \<Rightarrow> (bool \<times> assembler) option" where [asm_defs]:
  "asm_subd rd rs1 rs2 a = (if ireg5_valid rd \<and> ireg5_valid rs1 \<and> ireg5_valid rs2
     then asm_inst (decode_init\<lparr>dec_op := rv_op_subd, dec_rd := ucast rd, dec_rs1 := ucast rs1, dec_rs2 := ucast rs2\<rparr>) a
     else Some (False, a))"

definition asm_slld :: "ireg5 \<Rightarrow> ireg5 \<Rightarrow> ireg5 \<Rightarrow> assembler \<Rightarrow> (bool \<times> assembler) option" where [asm_defs]:
  "asm_slld rd rs1 rs2 a = (if ireg5_valid rd \<and> ireg5_valid rs1 \<and> ireg5_valid rs2
     then asm_inst (decode_init\<lparr>dec_op := rv_op_slld, dec_rd := ucast rd, dec_rs1 := ucast rs1, dec_rs2 := ucast rs2\<rparr>) a
     else Some (False, a))"

definition asm_srld :: "ireg5 \<Rightarrow> ireg5 \<Rightarrow> ireg5 \<Rightarrow> assembler \<Rightarrow> (bool \<times> assembler) option" where [asm_defs]:
  "asm_srld rd rs1 rs2 a = (if ireg5_valid rd \<and> ireg5_valid rs1 \<and> ireg5_valid rs2
     then asm_inst (decode_init\<lparr>dec_op := rv_op_srld, dec_rd := ucast rd, dec_rs1 := ucast rs1, dec_rs2 := ucast rs2\<rparr>) a
     else Some (False, a))"

definition asm_srad :: "ireg5 \<Rightarrow> ireg5 \<Rightarrow> ireg5 \<Rightarrow> assembler \<Rightarrow> (bool \<times> assembler) option" where [asm_defs]:
  "asm_srad rd rs1 rs2 a = (if ireg5_valid rd \<and> ireg5_valid rs1 \<and> ireg5_valid rs2
     then asm_inst (decode_init\<lparr>dec_op := rv_op_srad, dec_rd := ucast rd, dec_rs1 := ucast rs1, dec_rs2 := ucast rs2\<rparr>) a
     else Some (False, a))"

definition asm_mul :: "ireg5 \<Rightarrow> ireg5 \<Rightarrow> ireg5 \<Rightarrow> assembler \<Rightarrow> (bool \<times> assembler) option" where [asm_defs]:
  "asm_mul rd rs1 rs2 a = (if ireg5_valid rd \<and> ireg5_valid rs1 \<and> ireg5_valid rs2
     then asm_inst (decode_init\<lparr>dec_op := rv_op_mul, dec_rd := ucast rd, dec_rs1 := ucast rs1, dec_rs2 := ucast rs2\<rparr>) a
     else Some (False, a))"

definition asm_mulh :: "ireg5 \<Rightarrow> ireg5 \<Rightarrow> ireg5 \<Rightarrow> assembler \<Rightarrow> (bool \<times> assembler) option" where [asm_defs]:
  "asm_mulh rd rs1 rs2 a = (if ireg5_valid rd \<and> ireg5_valid rs1 \<and> ireg5_valid rs2
     then asm_inst (decode_init\<lparr>dec_op := rv_op_mulh, dec_rd := ucast rd, dec_rs1 := ucast rs1, dec_rs2 := ucast rs2\<rparr>) a
     else Some (False, a))"

definition asm_mulhsu :: "ireg5 \<Rightarrow> ireg5 \<Rightarrow> ireg5 \<Rightarrow> assembler \<Rightarrow> (bool \<times> assembler) option" where [asm_defs]:
  "asm_mulhsu rd rs1 rs2 a = (if ireg5_valid rd \<and> ireg5_valid rs1 \<and> ireg5_valid rs2
     then asm_inst (decode_init\<lparr>dec_op := rv_op_mulhsu, dec_rd := ucast rd, dec_rs1 := ucast rs1, dec_rs2 := ucast rs2\<rparr>) a
     else Some (False, a))"

definition asm_mulhu :: "ireg5 \<Rightarrow> ireg5 \<Rightarrow> ireg5 \<Rightarrow> assembler \<Rightarrow> (bool \<times> assembler) option" where [asm_defs]:
  "asm_mulhu rd rs1 rs2 a = (if ireg5_valid rd \<and> ireg5_valid rs1 \<and> ireg5_valid rs2
     then asm_inst (decode_init\<lparr>dec_op := rv_op_mulhu, dec_rd := ucast rd, dec_rs1 := ucast rs1, dec_rs2 := ucast rs2\<rparr>) a
     else Some (False, a))"

definition asm_div :: "ireg5 \<Rightarrow> ireg5 \<Rightarrow> ireg5 \<Rightarrow> assembler \<Rightarrow> (bool \<times> assembler) option" where [asm_defs]:
  "asm_div rd rs1 rs2 a = (if ireg5_valid rd \<and> ireg5_valid rs1 \<and> ireg5_valid rs2
     then asm_inst (decode_init\<lparr>dec_op := rv_op_div, dec_rd := ucast rd, dec_rs1 := ucast rs1, dec_rs2 := ucast rs2\<rparr>) a
     else Some (False, a))"

definition asm_divu :: "ireg5 \<Rightarrow> ireg5 \<Rightarrow> ireg5 \<Rightarrow> assembler \<Rightarrow> (bool \<times> assembler) option" where [asm_defs]:
  "asm_divu rd rs1 rs2 a = (if ireg5_valid rd \<and> ireg5_valid rs1 \<and> ireg5_valid rs2
     then asm_inst (decode_init\<lparr>dec_op := rv_op_divu, dec_rd := ucast rd, dec_rs1 := ucast rs1, dec_rs2 := ucast rs2\<rparr>) a
     else Some (False, a))"

definition asm_rem :: "ireg5 \<Rightarrow> ireg5 \<Rightarrow> ireg5 \<Rightarrow> assembler \<Rightarrow> (bool \<times> assembler) option" where [asm_defs]:
  "asm_rem rd rs1 rs2 a = (if ireg5_valid rd \<and> ireg5_valid rs1 \<and> ireg5_valid rs2
     then asm_inst (decode_init\<lparr>dec_op := rv_op_rem, dec_rd := ucast rd, dec_rs1 := ucast rs1, dec_rs2 := ucast rs2\<rparr>) a
     else Some (False, a))"

definition asm_remu :: "ireg5 \<Rightarrow> ireg5 \<Rightarrow> ireg5 \<Rightarrow> assembler \<Rightarrow> (bool \<times> assembler) option" where [asm_defs]:
  "asm_remu rd rs1 rs2 a = (if ireg5_valid rd \<and> ireg5_valid rs1 \<and> ireg5_valid rs2
     then asm_inst (decode_init\<lparr>dec_op := rv_op_remu, dec_rd := ucast rd, dec_rs1 := ucast rs1, dec_rs2 := ucast rs2\<rparr>) a
     else Some (False, a))"

definition asm_mulw :: "ireg5 \<Rightarrow> ireg5 \<Rightarrow> ireg5 \<Rightarrow> assembler \<Rightarrow> (bool \<times> assembler) option" where [asm_defs]:
  "asm_mulw rd rs1 rs2 a = (if ireg5_valid rd \<and> ireg5_valid rs1 \<and> ireg5_valid rs2
     then asm_inst (decode_init\<lparr>dec_op := rv_op_mulw, dec_rd := ucast rd, dec_rs1 := ucast rs1, dec_rs2 := ucast rs2\<rparr>) a
     else Some (False, a))"

definition asm_divw :: "ireg5 \<Rightarrow> ireg5 \<Rightarrow> ireg5 \<Rightarrow> assembler \<Rightarrow> (bool \<times> assembler) option" where [asm_defs]:
  "asm_divw rd rs1 rs2 a = (if ireg5_valid rd \<and> ireg5_valid rs1 \<and> ireg5_valid rs2
     then asm_inst (decode_init\<lparr>dec_op := rv_op_divw, dec_rd := ucast rd, dec_rs1 := ucast rs1, dec_rs2 := ucast rs2\<rparr>) a
     else Some (False, a))"

definition asm_divuw :: "ireg5 \<Rightarrow> ireg5 \<Rightarrow> ireg5 \<Rightarrow> assembler \<Rightarrow> (bool \<times> assembler) option" where [asm_defs]:
  "asm_divuw rd rs1 rs2 a = (if ireg5_valid rd \<and> ireg5_valid rs1 \<and> ireg5_valid rs2
     then asm_inst (decode_init\<lparr>dec_op := rv_op_divuw, dec_rd := ucast rd, dec_rs1 := ucast rs1, dec_rs2 := ucast rs2\<rparr>) a
     else Some (False, a))"

definition asm_remw :: "ireg5 \<Rightarrow> ireg5 \<Rightarrow> ireg5 \<Rightarrow> assembler \<Rightarrow> (bool \<times> assembler) option" where [asm_defs]:
  "asm_remw rd rs1 rs2 a = (if ireg5_valid rd \<and> ireg5_valid rs1 \<and> ireg5_valid rs2
     then asm_inst (decode_init\<lparr>dec_op := rv_op_remw, dec_rd := ucast rd, dec_rs1 := ucast rs1, dec_rs2 := ucast rs2\<rparr>) a
     else Some (False, a))"

definition asm_remuw :: "ireg5 \<Rightarrow> ireg5 \<Rightarrow> ireg5 \<Rightarrow> assembler \<Rightarrow> (bool \<times> assembler) option" where [asm_defs]:
  "asm_remuw rd rs1 rs2 a = (if ireg5_valid rd \<and> ireg5_valid rs1 \<and> ireg5_valid rs2
     then asm_inst (decode_init\<lparr>dec_op := rv_op_remuw, dec_rd := ucast rd, dec_rs1 := ucast rs1, dec_rs2 := ucast rs2\<rparr>) a
     else Some (False, a))"

definition asm_muld :: "ireg5 \<Rightarrow> ireg5 \<Rightarrow> ireg5 \<Rightarrow> assembler \<Rightarrow> (bool \<times> assembler) option" where [asm_defs]:
  "asm_muld rd rs1 rs2 a = (if ireg5_valid rd \<and> ireg5_valid rs1 \<and> ireg5_valid rs2
     then asm_inst (decode_init\<lparr>dec_op := rv_op_muld, dec_rd := ucast rd, dec_rs1 := ucast rs1, dec_rs2 := ucast rs2\<rparr>) a
     else Some (False, a))"

definition asm_divd :: "ireg5 \<Rightarrow> ireg5 \<Rightarrow> ireg5 \<Rightarrow> assembler \<Rightarrow> (bool \<times> assembler) option" where [asm_defs]:
  "asm_divd rd rs1 rs2 a = (if ireg5_valid rd \<and> ireg5_valid rs1 \<and> ireg5_valid rs2
     then asm_inst (decode_init\<lparr>dec_op := rv_op_divd, dec_rd := ucast rd, dec_rs1 := ucast rs1, dec_rs2 := ucast rs2\<rparr>) a
     else Some (False, a))"

definition asm_divud :: "ireg5 \<Rightarrow> ireg5 \<Rightarrow> ireg5 \<Rightarrow> assembler \<Rightarrow> (bool \<times> assembler) option" where [asm_defs]:
  "asm_divud rd rs1 rs2 a = (if ireg5_valid rd \<and> ireg5_valid rs1 \<and> ireg5_valid rs2
     then asm_inst (decode_init\<lparr>dec_op := rv_op_divud, dec_rd := ucast rd, dec_rs1 := ucast rs1, dec_rs2 := ucast rs2\<rparr>) a
     else Some (False, a))"

definition asm_remd :: "ireg5 \<Rightarrow> ireg5 \<Rightarrow> ireg5 \<Rightarrow> assembler \<Rightarrow> (bool \<times> assembler) option" where [asm_defs]:
  "asm_remd rd rs1 rs2 a = (if ireg5_valid rd \<and> ireg5_valid rs1 \<and> ireg5_valid rs2
     then asm_inst (decode_init\<lparr>dec_op := rv_op_remd, dec_rd := ucast rd, dec_rs1 := ucast rs1, dec_rs2 := ucast rs2\<rparr>) a
     else Some (False, a))"

definition asm_remud :: "ireg5 \<Rightarrow> ireg5 \<Rightarrow> ireg5 \<Rightarrow> assembler \<Rightarrow> (bool \<times> assembler) option" where [asm_defs]:
  "asm_remud rd rs1 rs2 a = (if ireg5_valid rd \<and> ireg5_valid rs1 \<and> ireg5_valid rs2
     then asm_inst (decode_init\<lparr>dec_op := rv_op_remud, dec_rd := ucast rd, dec_rs1 := ucast rs1, dec_rs2 := ucast rs2\<rparr>) a
     else Some (False, a))"

definition asm_lr_w :: "ireg5 \<Rightarrow> ireg5 \<Rightarrow> arg1 \<Rightarrow> arg1 \<Rightarrow> assembler \<Rightarrow> (bool \<times> assembler) option" where [asm_defs]:
  "asm_lr_w rd rs1 aq rl a = (if ireg5_valid rd \<and> ireg5_valid rs1 \<and> arg1_valid aq \<and> arg1_valid rl
     then asm_inst (decode_init\<lparr>dec_op := rv_op_lr_w, dec_rd := ucast rd, dec_rs1 := ucast rs1, dec_aq := ucast aq, dec_rl := ucast rl\<rparr>) a
     else Some (False, a))"

definition asm_sc_w :: "ireg5 \<Rightarrow> ireg5 \<Rightarrow> ireg5 \<Rightarrow> arg1 \<Rightarrow> arg1 \<Rightarrow> assembler \<Rightarrow> (bool \<times> assembler) option" where [asm_defs]:
  "asm_sc_w rd rs1 rs2 aq rl a = (if ireg5_valid rd \<and> ireg5_valid rs1 \<and> ireg5_valid rs2 \<and> arg1_valid aq \<and> arg1_valid rl
     then asm_inst (decode_init\<lparr>dec_op := rv_op_sc_w, dec_rd := ucast rd, dec_rs1 := ucast rs1, dec_rs2 := ucast rs2, dec_aq := ucast aq, dec_rl := ucast rl\<rparr>) a
     else Some (False, a))"

definition asm_amoswap_w :: "ireg5 \<Rightarrow> ireg5 \<Rightarrow> ireg5 \<Rightarrow> arg1 \<Rightarrow> arg1 \<Rightarrow> assembler \<Rightarrow> (bool \<times> assembler) option" where [asm_defs]:
  "asm_amoswap_w rd rs1 rs2 aq rl a = (if ireg5_valid rd \<and> ireg5_valid rs1 \<and> ireg5_valid rs2 \<and> arg1_valid aq \<and> arg1_valid rl
     then asm_inst (decode_init\<lparr>dec_op := rv_op_amoswap_w, dec_rd := ucast rd, dec_rs1 := ucast rs1, dec_rs2 := ucast rs2, dec_aq := ucast aq, dec_rl := ucast rl\<rparr>) a
     else Some (False, a))"

definition asm_amoadd_w :: "ireg5 \<Rightarrow> ireg5 \<Rightarrow> ireg5 \<Rightarrow> arg1 \<Rightarrow> arg1 \<Rightarrow> assembler \<Rightarrow> (bool \<times> assembler) option" where [asm_defs]:
  "asm_amoadd_w rd rs1 rs2 aq rl a = (if ireg5_valid rd \<and> ireg5_valid rs1 \<and> ireg5_valid rs2 \<and> arg1_valid aq \<and> arg1_valid rl
     then asm_inst (decode_init\<lparr>dec_op := rv_op_amoadd_w, dec_rd := ucast rd, dec_rs1 := ucast rs1, dec_rs2 := ucast rs2, dec_aq := ucast aq, dec_rl := ucast rl\<rparr>) a
     else Some (False, a))"

definition asm_amoxor_w :: "ireg5 \<Rightarrow> ireg5 \<Rightarrow> ireg5 \<Rightarrow> arg1 \<Rightarrow> arg1 \<Rightarrow> assembler \<Rightarrow> (bool \<times> assembler) option" where [asm_defs]:
  "asm_amoxor_w rd rs1 rs2 aq rl a = (if ireg5_valid rd \<and> ireg5_valid rs1 \<and> ireg5_valid rs2 \<and> arg1_valid aq \<and> arg1_valid rl
     then asm_inst (decode_init\<lparr>dec_op := rv_op_amoxor_w, dec_rd := ucast rd, dec_rs1 := ucast rs1, dec_rs2 := ucast rs2, dec_aq := ucast aq, dec_rl := ucast rl\<rparr>) a
     else Some (False, a))"

definition asm_amoor_w :: "ireg5 \<Rightarrow> ireg5 \<Rightarrow> ireg5 \<Rightarrow> arg1 \<Rightarrow> arg1 \<Rightarrow> assembler \<Rightarrow> (bool \<times> assembler) option" where [asm_defs]:
  "asm_amoor_w rd rs1 rs2 aq rl a = (if ireg5_valid rd \<and> ireg5_valid rs1 \<and> ireg5_valid rs2 \<and> arg1_valid aq \<and> arg1_valid rl
     then asm_inst (decode_init\<lparr>dec_op := rv_op_amoor_w, dec_rd := ucast rd, dec_rs1 := ucast rs1, dec_rs2 := ucast rs2, dec_aq := ucast aq, dec_rl := ucast rl\<rparr>) a
     else Some (False, a))"

definition asm_amoand_w :: "ireg5 \<Rightarrow> ireg5 \<Rightarrow> ireg5 \<Rightarrow> arg1 \<Rightarrow> arg1 \<Rightarrow> assembler \<Rightarrow> (bool \<times> assembler) option" where [asm_defs]:
  "asm_amoand_w rd rs1 rs2 aq rl a = (if ireg5_valid rd \<and> ireg5_valid rs1 \<and> ireg5_valid rs2 \<and> arg1_valid aq \<and> arg1_valid rl
     then asm_inst (decode_init\<lparr>dec_op := rv_op_amoand_w, dec_rd := ucast rd, dec_rs1 := ucast rs1, dec_rs2 := ucast rs2, dec_aq := ucast aq, dec_rl := ucast rl\<rparr>) a
     else Some (False, a))"

definition asm_amomin_w :: "ireg5 \<Rightarrow> ireg5 \<Rightarrow> ireg5 \<Rightarrow> arg1 \<Rightarrow> arg1 \<Rightarrow> assembler \<Rightarrow> (bool \<times> assembler) option" where [asm_defs]:
  "asm_amomin_w rd rs1 rs2 aq rl a = (if ireg5_valid rd \<and> ireg5_valid rs1 \<and> ireg5_valid rs2 \<and> arg1_valid aq \<and> arg1_valid rl
     then asm_inst (decode_init\<lparr>dec_op := rv_op_amomin_w, dec_rd := ucast rd, dec_rs1 := ucast rs1, dec_rs2 := ucast rs2, dec_aq := ucast aq, dec_rl := ucast rl\<rparr>) a
     else Some (False, a))"

definition asm_amomax_w :: "ireg5 \<Rightarrow> ireg5 \<Rightarrow> ireg5 \<Rightarrow> arg1 \<Rightarrow> arg1 \<Rightarrow> assembler \<Rightarrow> (bool \<times> assembler) option" where [asm_defs]:
  "asm_amomax_w rd rs1 rs2 aq rl a = (if ireg5_valid rd \<and> ireg5_valid rs1 \<and> ireg5_valid rs2 \<and> arg1_valid aq \<and> arg1_valid rl
     then asm_inst (decode_init\<lparr>dec_op := rv_op_amomax_w, dec_rd := ucast rd, dec_rs1 := ucast rs1, dec_rs2 := ucast rs2, dec_aq := ucast aq, dec_rl := ucast rl\<rparr>) a
     else Some (False, a))"

definition asm_amominu_w :: "ireg5 \<Rightarrow> ireg5 \<Rightarrow> ireg5 \<Rightarrow> arg1 \<Rightarrow> arg1 \<Rightarrow> assembler \<Rightarrow> (bool \<times> assembler) option" where [asm_defs]:
  "asm_amominu_w rd rs1 rs2 aq rl a = (if ireg5_valid rd \<and> ireg5_valid rs1 \<and> ireg5_valid rs2 \<and> arg1_valid aq \<and> arg1_valid rl
     then asm_inst (decode_init\<lparr>dec_op := rv_op_amominu_w, dec_rd := ucast rd, dec_rs1 := ucast rs1, dec_rs2 := ucast rs2, dec_aq := ucast aq, dec_rl := ucast rl\<rparr>) a
     else Some (False, a))"

definition asm_amomaxu_w :: "ireg5 \<Rightarrow> ireg5 \<Rightarrow> ireg5 \<Rightarrow> arg1 \<Rightarrow> arg1 \<Rightarrow> assembler \<Rightarrow> (bool \<times> assembler) option" where [asm_defs]:
  "asm_amomaxu_w rd rs1 rs2 aq rl a = (if ireg5_valid rd \<and> ireg5_valid rs1 \<and> ireg5_valid rs2 \<and> arg1_valid aq \<and> arg1_valid rl
     then asm_inst (decode_init\<lparr>dec_op := rv_op_amomaxu_w, dec_rd := ucast rd, dec_rs1 := ucast rs1, dec_rs2 := ucast rs2, dec_aq := ucast aq, dec_rl := ucast rl\<rparr>) a
     else Some (False, a))"

definition asm_lr_d :: "ireg5 \<Rightarrow> ireg5 \<Rightarrow> arg1 \<Rightarrow> arg1 \<Rightarrow> assembler \<Rightarrow> (bool \<times> assembler) option" where [asm_defs]:
  "asm_lr_d rd rs1 aq rl a = (if ireg5_valid rd \<and> ireg5_valid rs1 \<and> arg1_valid aq \<and> arg1_valid rl
     then asm_inst (decode_init\<lparr>dec_op := rv_op_lr_d, dec_rd := ucast rd, dec_rs1 := ucast rs1, dec_aq := ucast aq, dec_rl := ucast rl\<rparr>) a
     else Some (False, a))"

definition asm_sc_d :: "ireg5 \<Rightarrow> ireg5 \<Rightarrow> ireg5 \<Rightarrow> arg1 \<Rightarrow> arg1 \<Rightarrow> assembler \<Rightarrow> (bool \<times> assembler) option" where [asm_defs]:
  "asm_sc_d rd rs1 rs2 aq rl a = (if ireg5_valid rd \<and> ireg5_valid rs1 \<and> ireg5_valid rs2 \<and> arg1_valid aq \<and> arg1_valid rl
     then asm_inst (decode_init\<lparr>dec_op := rv_op_sc_d, dec_rd := ucast rd, dec_rs1 := ucast rs1, dec_rs2 := ucast rs2, dec_aq := ucast aq, dec_rl := ucast rl\<rparr>) a
     else Some (False, a))"

definition asm_amoswap_d :: "ireg5 \<Rightarrow> ireg5 \<Rightarrow> ireg5 \<Rightarrow> arg1 \<Rightarrow> arg1 \<Rightarrow> assembler \<Rightarrow> (bool \<times> assembler) option" where [asm_defs]:
  "asm_amoswap_d rd rs1 rs2 aq rl a = (if ireg5_valid rd \<and> ireg5_valid rs1 \<and> ireg5_valid rs2 \<and> arg1_valid aq \<and> arg1_valid rl
     then asm_inst (decode_init\<lparr>dec_op := rv_op_amoswap_d, dec_rd := ucast rd, dec_rs1 := ucast rs1, dec_rs2 := ucast rs2, dec_aq := ucast aq, dec_rl := ucast rl\<rparr>) a
     else Some (False, a))"

definition asm_amoadd_d :: "ireg5 \<Rightarrow> ireg5 \<Rightarrow> ireg5 \<Rightarrow> arg1 \<Rightarrow> arg1 \<Rightarrow> assembler \<Rightarrow> (bool \<times> assembler) option" where [asm_defs]:
  "asm_amoadd_d rd rs1 rs2 aq rl a = (if ireg5_valid rd \<and> ireg5_valid rs1 \<and> ireg5_valid rs2 \<and> arg1_valid aq \<and> arg1_valid rl
     then asm_inst (decode_init\<lparr>dec_op := rv_op_amoadd_d, dec_rd := ucast rd, dec_rs1 := ucast rs1, dec_rs2 := ucast rs2, dec_aq := ucast aq, dec_rl := ucast rl\<rparr>) a
     else Some (False, a))"

definition asm_amoxor_d :: "ireg5 \<Rightarrow> ireg5 \<Rightarrow> ireg5 \<Rightarrow> arg1 \<Rightarrow> arg1 \<Rightarrow> assembler \<Rightarrow> (bool \<times> assembler) option" where [asm_defs]:
  "asm_amoxor_d rd rs1 rs2 aq rl a = (if ireg5_valid rd \<and> ireg5_valid rs1 \<and> ireg5_valid rs2 \<and> arg1_valid aq \<and> arg1_valid rl
     then asm_inst (decode_init\<lparr>dec_op := rv_op_amoxor_d, dec_rd := ucast rd, dec_rs1 := ucast rs1, dec_rs2 := ucast rs2, dec_aq := ucast aq, dec_rl := ucast rl\<rparr>) a
     else Some (False, a))"

definition asm_amoor_d :: "ireg5 \<Rightarrow> ireg5 \<Rightarrow> ireg5 \<Rightarrow> arg1 \<Rightarrow> arg1 \<Rightarrow> assembler \<Rightarrow> (bool \<times> assembler) option" where [asm_defs]:
  "asm_amoor_d rd rs1 rs2 aq rl a = (if ireg5_valid rd \<and> ireg5_valid rs1 \<and> ireg5_valid rs2 \<and> arg1_valid aq \<and> arg1_valid rl
     then asm_inst (decode_init\<lparr>dec_op := rv_op_amoor_d, dec_rd := ucast rd, dec_rs1 := ucast rs1, dec_rs2 := ucast rs2, dec_aq := ucast aq, dec_rl := ucast rl\<rparr>) a
     else Some (False, a))"

definition asm_amoand_d :: "ireg5 \<Rightarrow> ireg5 \<Rightarrow> ireg5 \<Rightarrow> arg1 \<Rightarrow> arg1 \<Rightarrow> assembler \<Rightarrow> (bool \<times> assembler) option" where [asm_defs]:
  "asm_amoand_d rd rs1 rs2 aq rl a = (if ireg5_valid rd \<and> ireg5_valid rs1 \<and> ireg5_valid rs2 \<and> arg1_valid aq \<and> arg1_valid rl
     then asm_inst (decode_init\<lparr>dec_op := rv_op_amoand_d, dec_rd := ucast rd, dec_rs1 := ucast rs1, dec_rs2 := ucast rs2, dec_aq := ucast aq, dec_rl := ucast rl\<rparr>) a
     else Some (False, a))"

definition asm_amomin_d :: "ireg5 \<Rightarrow> ireg5 \<Rightarrow> ireg5 \<Rightarrow> arg1 \<Rightarrow> arg1 \<Rightarrow> assembler \<Rightarrow> (bool \<times> assembler) option" where [asm_defs]:
  "asm_amomin_d rd rs1 rs2 aq rl a = (if ireg5_valid rd \<and> ireg5_valid rs1 \<and> ireg5_valid rs2 \<and> arg1_valid aq \<and> arg1_valid rl
     then asm_inst (decode_init\<lparr>dec_op := rv_op_amomin_d, dec_rd := ucast rd, dec_rs1 := ucast rs1, dec_rs2 := ucast rs2, dec_aq := ucast aq, dec_rl := ucast rl\<rparr>) a
     else Some (False, a))"

definition asm_amomax_d :: "ireg5 \<Rightarrow> ireg5 \<Rightarrow> ireg5 \<Rightarrow> arg1 \<Rightarrow> arg1 \<Rightarrow> assembler \<Rightarrow> (bool \<times> assembler) option" where [asm_defs]:
  "asm_amomax_d rd rs1 rs2 aq rl a = (if ireg5_valid rd \<and> ireg5_valid rs1 \<and> ireg5_valid rs2 \<and> arg1_valid aq \<and> arg1_valid rl
     then asm_inst (decode_init\<lparr>dec_op := rv_op_amomax_d, dec_rd := ucast rd, dec_rs1 := ucast rs1, dec_rs2 := ucast rs2, dec_aq := ucast aq, dec_rl := ucast rl\<rparr>) a
     else Some (False, a))"

definition asm_amominu_d :: "ireg5 \<Rightarrow> ireg5 \<Rightarrow> ireg5 \<Rightarrow> arg1 \<Rightarrow> arg1 \<Rightarrow> assembler \<Rightarrow> (bool \<times> assembler) option" where [asm_defs]:
  "asm_amominu_d rd rs1 rs2 aq rl a = (if ireg5_valid rd \<and> ireg5_valid rs1 \<and> ireg5_valid rs2 \<and> arg1_valid aq \<and> arg1_valid rl
     then asm_inst (decode_init\<lparr>dec_op := rv_op_amominu_d, dec_rd := ucast rd, dec_rs1 := ucast rs1, dec_rs2 := ucast rs2, dec_aq := ucast aq, dec_rl := ucast rl\<rparr>) a
     else Some (False, a))"

definition asm_amomaxu_d :: "ireg5 \<Rightarrow> ireg5 \<Rightarrow> ireg5 \<Rightarrow> arg1 \<Rightarrow> arg1 \<Rightarrow> assembler \<Rightarrow> (bool \<times> assembler) option" where [asm_defs]:
  "asm_amomaxu_d rd rs1 rs2 aq rl a = (if ireg5_valid rd \<and> ireg5_valid rs1 \<and> ireg5_valid rs2 \<and> arg1_valid aq \<and> arg1_valid rl
     then asm_inst (decode_init\<lparr>dec_op := rv_op_amomaxu_d, dec_rd := ucast rd, dec_rs1 := ucast rs1, dec_rs2 := ucast rs2, dec_aq := ucast aq, dec_rl := ucast rl\<rparr>) a
     else Some (False, a))"

definition asm_lr_q :: "ireg5 \<Rightarrow> ireg5 \<Rightarrow> arg1 \<Rightarrow> arg1 \<Rightarrow> assembler \<Rightarrow> (bool \<times> assembler) option" where [asm_defs]:
  "asm_lr_q rd rs1 aq rl a = (if ireg5_valid rd \<and> ireg5_valid rs1 \<and> arg1_valid aq \<and> arg1_valid rl
     then asm_inst (decode_init\<lparr>dec_op := rv_op_lr_q, dec_rd := ucast rd, dec_rs1 := ucast rs1, dec_aq := ucast aq, dec_rl := ucast rl\<rparr>) a
     else Some (False, a))"

definition asm_sc_q :: "ireg5 \<Rightarrow> ireg5 \<Rightarrow> ireg5 \<Rightarrow> arg1 \<Rightarrow> arg1 \<Rightarrow> assembler \<Rightarrow> (bool \<times> assembler) option" where [asm_defs]:
  "asm_sc_q rd rs1 rs2 aq rl a = (if ireg5_valid rd \<and> ireg5_valid rs1 \<and> ireg5_valid rs2 \<and> arg1_valid aq \<and> arg1_valid rl
     then asm_inst (decode_init\<lparr>dec_op := rv_op_sc_q, dec_rd := ucast rd, dec_rs1 := ucast rs1, dec_rs2 := ucast rs2, dec_aq := ucast aq, dec_rl := ucast rl\<rparr>) a
     else Some (False, a))"

definition asm_amoswap_q :: "ireg5 \<Rightarrow> ireg5 \<Rightarrow> ireg5 \<Rightarrow> arg1 \<Rightarrow> arg1 \<Rightarrow> assembler \<Rightarrow> (bool \<times> assembler) option" where [asm_defs]:
  "asm_amoswap_q rd rs1 rs2 aq rl a = (if ireg5_valid rd \<and> ireg5_valid rs1 \<and> ireg5_valid rs2 \<and> arg1_valid aq \<and> arg1_valid rl
     then asm_inst (decode_init\<lparr>dec_op := rv_op_amoswap_q, dec_rd := ucast rd, dec_rs1 := ucast rs1, dec_rs2 := ucast rs2, dec_aq := ucast aq, dec_rl := ucast rl\<rparr>) a
     else Some (False, a))"

definition asm_amoadd_q :: "ireg5 \<Rightarrow> ireg5 \<Rightarrow> ireg5 \<Rightarrow> arg1 \<Rightarrow> arg1 \<Rightarrow> assembler \<Rightarrow> (bool \<times> assembler) option" where [asm_defs]:
  "asm_amoadd_q rd rs1 rs2 aq rl a = (if ireg5_valid rd \<and> ireg5_valid rs1 \<and> ireg5_valid rs2 \<and> arg1_valid aq \<and> arg1_valid rl
     then asm_inst (decode_init\<lparr>dec_op := rv_op_amoadd_q, dec_rd := ucast rd, dec_rs1 := ucast rs1, dec_rs2 := ucast rs2, dec_aq := ucast aq, dec_rl := ucast rl\<rparr>) a
     else Some (False, a))"

definition asm_amoxor_q :: "ireg5 \<Rightarrow> ireg5 \<Rightarrow> ireg5 \<Rightarrow> arg1 \<Rightarrow> arg1 \<Rightarrow> assembler \<Rightarrow> (bool \<times> assembler) option" where [asm_defs]:
  "asm_amoxor_q rd rs1 rs2 aq rl a = (if ireg5_valid rd \<and> ireg5_valid rs1 \<and> ireg5_valid rs2 \<and> arg1_valid aq \<and> arg1_valid rl
     then asm_inst (decode_init\<lparr>dec_op := rv_op_amoxor_q, dec_rd := ucast rd, dec_rs1 := ucast rs1, dec_rs2 := ucast rs2, dec_aq := ucast aq, dec_rl := ucast rl\<rparr>) a
     else Some (False, a))"

definition asm_amoor_q :: "ireg5 \<Rightarrow> ireg5 \<Rightarrow> ireg5 \<Rightarrow> arg1 \<Rightarrow> arg1 \<Rightarrow> assembler \<Rightarrow> (bool \<times> assembler) option" where [asm_defs]:
  "asm_amoor_q rd rs1 rs2 aq rl a = (if ireg5_valid rd \<and> ireg5_valid rs1 \<and> ireg5_valid rs2 \<and> arg1_valid aq \<and> arg1_valid rl
     then asm_inst (decode_init\<lparr>dec_op := rv_op_amoor_q, dec_rd := ucast rd, dec_rs1 := ucast rs1, dec_rs2 := ucast rs2, dec_aq := ucast aq, dec_rl := ucast rl\<rparr>) a
     else Some (False, a))"

definition asm_amoand_q :: "ireg5 \<Rightarrow> ireg5 \<Rightarrow> ireg5 \<Rightarrow> arg1 \<Rightarrow> arg1 \<Rightarrow> assembler \<Rightarrow> (bool \<times> assembler) option" where [asm_defs]:
  "asm_amoand_q rd rs1 rs2 aq rl a = (if ireg5_valid rd \<and> ireg5_valid rs1 \<and> ireg5_valid rs2 \<and> arg1_valid aq \<and> arg1_valid rl
     then asm_inst (decode_init\<lparr>dec_op := rv_op_amoand_q, dec_rd := ucast rd, dec_rs1 := ucast rs1, dec_rs2 := ucast rs2, dec_aq := ucast aq, dec_rl := ucast rl\<rparr>) a
     else Some (False, a))"

definition asm_amomin_q :: "ireg5 \<Rightarrow> ireg5 \<Rightarrow> ireg5 \<Rightarrow> arg1 \<Rightarrow> arg1 \<Rightarrow> assembler \<Rightarrow> (bool \<times> assembler) option" where [asm_defs]:
  "asm_amomin_q rd rs1 rs2 aq rl a = (if ireg5_valid rd \<and> ireg5_valid rs1 \<and> ireg5_valid rs2 \<and> arg1_valid aq \<and> arg1_valid rl
     then asm_inst (decode_init\<lparr>dec_op := rv_op_amomin_q, dec_rd := ucast rd, dec_rs1 := ucast rs1, dec_rs2 := ucast rs2, dec_aq := ucast aq, dec_rl := ucast rl\<rparr>) a
     else Some (False, a))"

definition asm_amomax_q :: "ireg5 \<Rightarrow> ireg5 \<Rightarrow> ireg5 \<Rightarrow> arg1 \<Rightarrow> arg1 \<Rightarrow> assembler \<Rightarrow> (bool \<times> assembler) option" where [asm_defs]:
  "asm_amomax_q rd rs1 rs2 aq rl a = (if ireg5_valid rd \<and> ireg5_valid rs1 \<and> ireg5_valid rs2 \<and> arg1_valid aq \<and> arg1_valid rl
     then asm_inst (decode_init\<lparr>dec_op := rv_op_amomax_q, dec_rd := ucast rd, dec_rs1 := ucast rs1, dec_rs2 := ucast rs2, dec_aq := ucast aq, dec_rl := ucast rl\<rparr>) a
     else Some (False, a))"

definition asm_amominu_q :: "ireg5 \<Rightarrow> ireg5 \<Rightarrow> ireg5 \<Rightarrow> arg1 \<Rightarrow> arg1 \<Rightarrow> assembler \<Rightarrow> (bool \<times> assembler) option" where [asm_defs]:
  "asm_amominu_q rd rs1 rs2 aq rl a = (if ireg5_valid rd \<and> ireg5_valid rs1 \<and> ireg5_valid rs2 \<and> arg1_valid aq \<and> arg1_valid rl
     then asm_inst (decode_init\<lparr>dec_op := rv_op_amominu_q, dec_rd := ucast rd, dec_rs1 := ucast rs1, dec_rs2 := ucast rs2, dec_aq := ucast aq, dec_rl := ucast rl\<rparr>) a
     else Some (False, a))"

definition asm_amomaxu_q :: "ireg5 \<Rightarrow> ireg5 \<Rightarrow> ireg5 \<Rightarrow> arg1 \<Rightarrow> arg1 \<Rightarrow> assembler \<Rightarrow> (bool \<times> assembler) option" where [asm_defs]:
  "asm_amomaxu_q rd rs1 rs2 aq rl a = (if ireg5_valid rd \<and> ireg5_valid rs1 \<and> ireg5_valid rs2 \<and> arg1_valid aq \<and> arg1_valid rl
     then asm_inst (decode_init\<lparr>dec_op := rv_op_amomaxu_q, dec_rd := ucast rd, dec_rs1 := ucast rs1, dec_rs2 := ucast rs2, dec_aq := ucast aq, dec_rl := ucast rl\<rparr>) a
     else Some (False, a))"

definition asm_ecall :: "assembler \<Rightarrow> (bool \<times> assembler) option" where [asm_defs]:
  "asm_ecall a = asm_inst (decode_init\<lparr>dec_op := rv_op_ecall\<rparr>) a"

definition asm_ebreak :: "assembler \<Rightarrow> (bool \<times> assembler) option" where [asm_defs]:
  "asm_ebreak a = asm_inst (decode_init\<lparr>dec_op := rv_op_ebreak\<rparr>) a"

definition asm_uret :: "assembler \<Rightarrow> (bool \<times> assembler) option" where [asm_defs]:
  "asm_uret a = asm_inst (decode_init\<lparr>dec_op := rv_op_uret\<rparr>) a"

definition asm_sret :: "assembler \<Rightarrow> (bool \<times> assembler) option" where [asm_defs]:
  "asm_sret a = asm_inst (decode_init\<lparr>dec_op := rv_op_sret\<rparr>) a"

definition asm_hret :: "assembler \<Rightarrow> (bool \<times> assembler) option" where [asm_defs]:
  "asm_hret a = asm_inst (decode_init\<lparr>dec_op := rv_op_hret\<rparr>) a"

definition asm_mret :: "assembler \<Rightarrow> (bool \<times> assembler) option" where [asm_defs]:
  "asm_mret a = asm_inst (decode_init\<lparr>dec_op := rv_op_mret\<rparr>) a"

definition asm_dret :: "assembler \<Rightarrow> (bool \<times> assembler) option" where [asm_defs]:
  "asm_dret a = asm_inst (decode_init\<lparr>dec_op := rv_op_dret\<rparr>) a"

definition asm_sfence_vm :: "ireg5 \<Rightarrow> assembler \<Rightarrow> (bool \<times> assembler) option" where [asm_defs]:
  "asm_sfence_vm rs1 a = (if ireg5_valid rs1
     then asm_inst (decode_init\<lparr>dec_op := rv_op_sfence_vm, dec_rs1 := ucast rs1\<rparr>) a
     else Some (False, a))"

definition asm_wfi :: "assembler \<Rightarrow> (bool \<times> assembler) option" where [asm_defs]:
  "asm_wfi a = asm_inst (decode_init\<lparr>dec_op := rv_op_wfi\<rparr>) a"

definition asm_csrrw :: "ireg5 \<Rightarrow> ireg5 \<Rightarrow> uimm12 \<Rightarrow> assembler \<Rightarrow> (bool \<times> assembler) option" where [asm_defs]:
  "asm_csrrw rd rs1 csr12 a = (if ireg5_valid rd \<and> ireg5_valid rs1 \<and> uimm12_valid csr12
     then asm_inst (decode_init\<lparr>dec_op := rv_op_csrrw, dec_rd := ucast rd, dec_rs1 := ucast rs1, dec_imm := ucast csr12\<rparr>) a
     else Some (False, a))"

definition asm_csrrs :: "ireg5 \<Rightarrow> ireg5 \<Rightarrow> uimm12 \<Rightarrow> assembler \<Rightarrow> (bool \<times> assembler) option" where [asm_defs]:
  "asm_csrrs rd rs1 csr12 a = (if ireg5_valid rd \<and> ireg5_valid rs1 \<and> uimm12_valid csr12
     then asm_inst (decode_init\<lparr>dec_op := rv_op_csrrs, dec_rd := ucast rd, dec_rs1 := ucast rs1, dec_imm := ucast csr12\<rparr>) a
     else Some (False, a))"

definition asm_csrrc :: "ireg5 \<Rightarrow> ireg5 \<Rightarrow> uimm12 \<Rightarrow> assembler \<Rightarrow> (bool \<times> assembler) option" where [asm_defs]:
  "asm_csrrc rd rs1 csr12 a = (if ireg5_valid rd \<and> ireg5_valid rs1 \<and> uimm12_valid csr12
     then asm_inst (decode_init\<lparr>dec_op := rv_op_csrrc, dec_rd := ucast rd, dec_rs1 := ucast rs1, dec_imm := ucast csr12\<rparr>) a
     else Some (False, a))"

definition asm_csrrwi :: "ireg5 \<Rightarrow> uimm5 \<Rightarrow> uimm12 \<Rightarrow> assembler \<Rightarrow> (bool \<times> assembler) option" where [asm_defs]:
  "asm_csrrwi rd zimm csr12 a = (if ireg5_valid rd \<and> uimm5_valid zimm \<and> uimm12_valid csr12
     then asm_inst (decode_init\<lparr>dec_op := rv_op_csrrwi, dec_rd := ucast rd, dec_imm := ucast zimm, dec_imm := ucast csr12\<rparr>) a
     else Some (False, a))"

definition asm_csrrsi :: "ireg5 \<Rightarrow> uimm5 \<Rightarrow> uimm12 \<Rightarrow> assembler \<Rightarrow> (bool \<times> assembler) option" where [asm_defs]:
  "asm_csrrsi rd zimm csr12 a = (if ireg5_valid rd \<and> uimm5_valid zimm \<and> uimm12_valid csr12
     then asm_inst (decode_init\<lparr>dec_op := rv_op_csrrsi, dec_rd := ucast rd, dec_imm := ucast zimm, dec_imm := ucast csr12\<rparr>) a
     else Some (False, a))"

definition asm_csrrci :: "ireg5 \<Rightarrow> uimm5 \<Rightarrow> uimm12 \<Rightarrow> assembler \<Rightarrow> (bool \<times> assembler) option" where [asm_defs]:
  "asm_csrrci rd zimm csr12 a = (if ireg5_valid rd \<and> uimm5_valid zimm \<and> uimm12_valid csr12
     then asm_inst (decode_init\<lparr>dec_op := rv_op_csrrci, dec_rd := ucast rd, dec_imm := ucast zimm, dec_imm := ucast csr12\<rparr>) a
     else Some (False, a))"

definition asm_flw :: "freg5 \<Rightarrow> ireg5 \<Rightarrow> offset12 \<Rightarrow> assembler \<Rightarrow> (bool \<times> assembler) option" where [asm_defs]:
  "asm_flw frd rs1 oimm12 a = (if freg5_valid frd \<and> ireg5_valid rs1 \<and> offset12_valid oimm12
     then asm_inst (decode_init\<lparr>dec_op := rv_op_flw, dec_rd := ucast frd, dec_rs1 := ucast rs1, dec_imm := ucast oimm12\<rparr>) a
     else Some (False, a))"

definition asm_fsw :: "ireg5 \<Rightarrow> freg5 \<Rightarrow> offset12 \<Rightarrow> assembler \<Rightarrow> (bool \<times> assembler) option" where [asm_defs]:
  "asm_fsw rs1 frs2 simm12 a = (if ireg5_valid rs1 \<and> freg5_valid frs2 \<and> offset12_valid simm12
     then asm_inst (decode_init\<lparr>dec_op := rv_op_fsw, dec_rs1 := ucast rs1, dec_rs2 := ucast frs2, dec_imm := ucast simm12\<rparr>) a
     else Some (False, a))"

definition asm_fmadd_s :: "freg5 \<Rightarrow> freg5 \<Rightarrow> freg5 \<Rightarrow> freg5 \<Rightarrow> arg3 \<Rightarrow> assembler \<Rightarrow> (bool \<times> assembler) option" where [asm_defs]:
  "asm_fmadd_s frd frs1 frs2 frs3 rm a = (if freg5_valid frd \<and> freg5_valid frs1 \<and> freg5_valid frs2 \<and> freg5_valid frs3 \<and> arg3_valid rm
     then asm_inst (decode_init\<lparr>dec_op := rv_op_fmadd_s, dec_rd := ucast frd, dec_rs1 := ucast frs1, dec_rs2 := ucast frs2, dec_rs3 := ucast frs3, dec_rm := ucast rm\<rparr>) a
     else Some (False, a))"

definition asm_fmsub_s :: "freg5 \<Rightarrow> freg5 \<Rightarrow> freg5 \<Rightarrow> freg5 \<Rightarrow> arg3 \<Rightarrow> assembler \<Rightarrow> (bool \<times> assembler) option" where [asm_defs]:
  "asm_fmsub_s frd frs1 frs2 frs3 rm a = (if freg5_valid frd \<and> freg5_valid frs1 \<and> freg5_valid frs2 \<and> freg5_valid frs3 \<and> arg3_valid rm
     then asm_inst (decode_init\<lparr>dec_op := rv_op_fmsub_s, dec_rd := ucast frd, dec_rs1 := ucast frs1, dec_rs2 := ucast frs2, dec_rs3 := ucast frs3, dec_rm := ucast rm\<rparr>) a
     else Some (False, a))"

definition asm_fnmsub_s :: "freg5 \<Rightarrow> freg5 \<Rightarrow> freg5 \<Rightarrow> freg5 \<Rightarrow> arg3 \<Rightarrow> assembler \<Rightarrow> (bool \<times> assembler) option" where [asm_defs]:
  "asm_fnmsub_s frd frs1 frs2 frs3 rm a = (if freg5_valid frd \<and> freg5_valid frs1 \<and> freg5_valid frs2 \<and> freg5_valid frs3 \<and> arg3_valid rm
     then asm_inst (decode_init\<lparr>dec_op := rv_op_fnmsub_s, dec_rd := ucast frd, dec_rs1 := ucast frs1, dec_rs2 := ucast frs2, dec_rs3 := ucast frs3, dec_rm := ucast rm\<rparr>) a
     else Some (False, a))"

definition asm_fnmadd_s :: "freg5 \<Rightarrow> freg5 \<Rightarrow> freg5 \<Rightarrow> freg5 \<Rightarrow> arg3 \<Rightarrow> assembler \<Rightarrow> (bool \<times> assembler) option" where [asm_defs]:
  "asm_fnmadd_s frd frs1 frs2 frs3 rm a = (if freg5_valid frd \<and> freg5_valid frs1 \<and> freg5_valid frs2 \<and> freg5_valid frs3 \<and> arg3_valid rm
     then asm_inst (decode_init\<lparr>dec_op := rv_op_fnmadd_s, dec_rd := ucast frd, dec_rs1 := ucast frs1, dec_rs2 := ucast frs2, dec_rs3 := ucast frs3, dec_rm := ucast rm\<rparr>) a
     else Some (False, a))"

definition asm_fadd_s :: "freg5 \<Rightarrow> freg5 \<Rightarrow> freg5 \<Rightarrow> arg3 \<Rightarrow> assembler \<Rightarrow> (bool \<times> assembler) option" where [asm_defs]:
  "asm_fadd_s frd frs1 frs2 rm a = (if freg5_valid frd \<and> freg5_valid frs1 \<and> freg5_valid frs2 \<and> arg3_valid rm
     then asm_inst (decode_init\<lparr>dec_op := rv_op_fadd_s, dec_rd := ucast frd, dec_rs1 := ucast frs1, dec_rs2 := ucast frs2, dec_rm := ucast rm\<rparr>) a
     else Some (False, a))"

definition asm_fsub_s :: "freg5 \<Rightarrow> freg5 \<Rightarrow> freg5 \<Rightarrow> arg3 \<Rightarrow> assembler \<Rightarrow> (bool \<times> assembler) option" where [asm_defs]:
  "asm_fsub_s frd frs1 frs2 rm a = (if freg5_valid frd \<and> freg5_valid frs1 \<and> freg5_valid frs2 \<and> arg3_valid rm
     then asm_inst (decode_init\<lparr>dec_op := rv_op_fsub_s, dec_rd := ucast frd, dec_rs1 := ucast frs1, dec_rs2 := ucast frs2, dec_rm := ucast rm\<rparr>) a
     else Some (False, a))"

definition asm_fmul_s :: "freg5 \<Rightarrow> freg5 \<Rightarrow> freg5 \<Rightarrow> arg3 \<Rightarrow> assembler \<Rightarrow> (bool \<times> assembler) option" where [asm_defs]:
  "asm_fmul_s frd frs1 frs2 rm a = (if freg5_valid frd \<and> freg5_valid frs1 \<and> freg5_valid frs2 \<and> arg3_valid rm
     then asm_inst (decode_init\<lparr>dec_op := rv_op_fmul_s, dec_rd := ucast frd, dec_rs1 := ucast frs1, dec_rs2 := ucast frs2, dec_rm := ucast rm\<rparr>) a
     else Some (False, a))"

definition asm_fdiv_s :: "freg5 \<Rightarrow> freg5 \<Rightarrow> freg5 \<Rightarrow> arg3 \<Rightarrow> assembler \<Rightarrow> (bool \<times> assembler) option" where [asm_defs]:
  "asm_fdiv_s frd frs1 frs2 rm a = (if freg5_valid frd \<and> freg5_valid frs1 \<and> freg5_valid frs2 \<and> arg3_valid rm
     then asm_inst (decode_init\<lparr>dec_op := rv_op_fdiv_s, dec_rd := ucast frd, dec_rs1 := ucast frs1, dec_rs2 := ucast frs2, dec_rm := ucast rm\<rparr>) a
     else Some (False, a))"

definition asm_fsgnj_s :: "freg5 \<Rightarrow> freg5 \<Rightarrow> freg5 \<Rightarrow> assembler \<Rightarrow> (bool \<times> assembler) option" where [asm_defs]:
  "asm_fsgnj_s frd frs1 frs2 a = (if freg5_valid frd \<and> freg5_valid frs1 \<and> freg5_valid frs2
     then asm_inst (decode_init\<lparr>dec_op := rv_op_fsgnj_s, dec_rd := ucast frd, dec_rs1 := ucast frs1, dec_rs2 := ucast frs2\<rparr>) a
     else Some (False, a))"

definition asm_fsgnjn_s :: "freg5 \<Rightarrow> freg5 \<Rightarrow> freg5 \<Rightarrow> assembler \<Rightarrow> (bool \<times> assembler) option" where [asm_defs]:
  "asm_fsgnjn_s frd frs1 frs2 a = (if freg5_valid frd \<and> freg5_valid frs1 \<and> freg5_valid frs2
     then asm_inst (decode_init\<lparr>dec_op := rv_op_fsgnjn_s, dec_rd := ucast frd, dec_rs1 := ucast frs1, dec_rs2 := ucast frs2\<rparr>) a
     else Some (False, a))"

definition asm_fsgnjx_s :: "freg5 \<Rightarrow> freg5 \<Rightarrow> freg5 \<Rightarrow> assembler \<Rightarrow> (bool \<times> assembler) option" where [asm_defs]:
  "asm_fsgnjx_s frd frs1 frs2 a = (if freg5_valid frd \<and> freg5_valid frs1 \<and> freg5_valid frs2
     then asm_inst (decode_init\<lparr>dec_op := rv_op_fsgnjx_s, dec_rd := ucast frd, dec_rs1 := ucast frs1, dec_rs2 := ucast frs2\<rparr>) a
     else Some (False, a))"

definition asm_fmin_s :: "freg5 \<Rightarrow> freg5 \<Rightarrow> freg5 \<Rightarrow> assembler \<Rightarrow> (bool \<times> assembler) option" where [asm_defs]:
  "asm_fmin_s frd frs1 frs2 a = (if freg5_valid frd \<and> freg5_valid frs1 \<and> freg5_valid frs2
     then asm_inst (decode_init\<lparr>dec_op := rv_op_fmin_s, dec_rd := ucast frd, dec_rs1 := ucast frs1, dec_rs2 := ucast frs2\<rparr>) a
     else Some (False, a))"

definition asm_fmax_s :: "freg5 \<Rightarrow> freg5 \<Rightarrow> freg5 \<Rightarrow> assembler \<Rightarrow> (bool \<times> assembler) option" where [asm_defs]:
  "asm_fmax_s frd frs1 frs2 a = (if freg5_valid frd \<and> freg5_valid frs1 \<and> freg5_valid frs2
     then asm_inst (decode_init\<lparr>dec_op := rv_op_fmax_s, dec_rd := ucast frd, dec_rs1 := ucast frs1, dec_rs2 := ucast frs2\<rparr>) a
     else Some (False, a))"

definition asm_fsqrt_s :: "freg5 \<Rightarrow> freg5 \<Rightarrow> arg3 \<Rightarrow> assembler \<Rightarrow> (bool \<times> assembler) option" where [asm_defs]:
  "asm_fsqrt_s frd frs1 rm a = (if freg5_valid frd \<and> freg5_valid frs1 \<and> arg3_valid rm
     then asm_inst (decode_init\<lparr>dec_op := rv_op_fsqrt_s, dec_rd := ucast frd, dec_rs1 := ucast frs1, dec_rm := ucast rm\<rparr>) a
     else Some (False, a))"

definition asm_fle_s :: "ireg5 \<Rightarrow> freg5 \<Rightarrow> freg5 \<Rightarrow> assembler \<Rightarrow> (bool \<times> assembler) option" where [asm_defs]:
  "asm_fle_s rd frs1 frs2 a = (if ireg5_valid rd \<and> freg5_valid frs1 \<and> freg5_valid frs2
     then asm_inst (decode_init\<lparr>dec_op := rv_op_fle_s, dec_rd := ucast rd, dec_rs1 := ucast frs1, dec_rs2 := ucast frs2\<rparr>) a
     else Some (False, a))"

definition asm_flt_s :: "ireg5 \<Rightarrow> freg5 \<Rightarrow> freg5 \<Rightarrow> assembler \<Rightarrow> (bool \<times> assembler) option" where [asm_defs]:
  "asm_flt_s rd frs1 frs2 a = (if ireg5_valid rd \<and> freg5_valid frs1 \<and> freg5_valid frs2
     then asm_inst (decode_init\<lparr>dec_op := rv_op_flt_s, dec_rd := ucast rd, dec_rs1 := ucast frs1, dec_rs2 := ucast frs2\<rparr>) a
     else Some (False, a))"

definition asm_feq_s :: "ireg5 \<Rightarrow> freg5 \<Rightarrow> freg5 \<Rightarrow> assembler \<Rightarrow> (bool \<times> assembler) option" where [asm_defs]:
  "asm_feq_s rd frs1 frs2 a = (if ireg5_valid rd \<and> freg5_valid frs1 \<and> freg5_valid frs2
     then asm_inst (decode_init\<lparr>dec_op := rv_op_feq_s, dec_rd := ucast rd, dec_rs1 := ucast frs1, dec_rs2 := ucast frs2\<rparr>) a
     else Some (False, a))"

definition asm_fcvt_w_s :: "ireg5 \<Rightarrow> freg5 \<Rightarrow> arg3 \<Rightarrow> assembler \<Rightarrow> (bool \<times> assembler) option" where [asm_defs]:
  "asm_fcvt_w_s rd frs1 rm a = (if ireg5_valid rd \<and> freg5_valid frs1 \<and> arg3_valid rm
     then asm_inst (decode_init\<lparr>dec_op := rv_op_fcvt_w_s, dec_rd := ucast rd, dec_rs1 := ucast frs1, dec_rm := ucast rm\<rparr>) a
     else Some (False, a))"

definition asm_fcvt_wu_s :: "ireg5 \<Rightarrow> freg5 \<Rightarrow> arg3 \<Rightarrow> assembler \<Rightarrow> (bool \<times> assembler) option" where [asm_defs]:
  "asm_fcvt_wu_s rd frs1 rm a = (if ireg5_valid rd \<and> freg5_valid frs1 \<and> arg3_valid rm
     then asm_inst (decode_init\<lparr>dec_op := rv_op_fcvt_wu_s, dec_rd := ucast rd, dec_rs1 := ucast frs1, dec_rm := ucast rm\<rparr>) a
     else Some (False, a))"

definition asm_fcvt_s_w :: "freg5 \<Rightarrow> ireg5 \<Rightarrow> arg3 \<Rightarrow> assembler \<Rightarrow> (bool \<times> assembler) option" where [asm_defs]:
  "asm_fcvt_s_w frd rs1 rm a = (if freg5_valid frd \<and> ireg5_valid rs1 \<and> arg3_valid rm
     then asm_inst (decode_init\<lparr>dec_op := rv_op_fcvt_s_w, dec_rd := ucast frd, dec_rs1 := ucast rs1, dec_rm := ucast rm\<rparr>) a
     else Some (False, a))"

definition asm_fcvt_s_wu :: "freg5 \<Rightarrow> ireg5 \<Rightarrow> arg3 \<Rightarrow> assembler \<Rightarrow> (bool \<times> assembler) option" where [asm_defs]:
  "asm_fcvt_s_wu frd rs1 rm a = (if freg5_valid frd \<and> ireg5_valid rs1 \<and> arg3_valid rm
     then asm_inst (decode_init\<lparr>dec_op := rv_op_fcvt_s_wu, dec_rd := ucast frd, dec_rs1 := ucast rs1, dec_rm := ucast rm\<rparr>) a
     else Some (False, a))"

definition asm_fmv_x_s :: "ireg5 \<Rightarrow> freg5 \<Rightarrow> assembler \<Rightarrow> (bool \<times> assembler) option" where [asm_defs]:
  "asm_fmv_x_s rd frs1 a = (if ireg5_valid rd \<and> freg5_valid frs1
     then asm_inst (decode_init\<lparr>dec_op := rv_op_fmv_x_s, dec_rd := ucast rd, dec_rs1 := ucast frs1\<rparr>) a
     else Some (False, a))"

definition asm_fclass_s :: "ireg5 \<Rightarrow> freg5 \<Rightarrow> assembler \<Rightarrow> (bool \<times> assembler) option" where [asm_defs]:
  "asm_fclass_s rd frs1 a = (if ireg5_valid rd \<and> freg5_valid frs1
     then asm_inst (decode_init\<lparr>dec_op := rv_op_fclass_s, dec_rd := ucast rd, dec_rs1 := ucast frs1\<rparr>) a
     else Some (False, a))"

definition asm_fmv_s_x :: "freg5 \<Rightarrow> ireg5 \<Rightarrow> assembler \<Rightarrow> (bool \<times> assembler) option" where [asm_defs]:
  "asm_fmv_s_x frd rs1 a = (if freg5_valid frd \<and> ireg5_valid rs1
     then asm_inst (decode_init\<lparr>dec_op := rv_op_fmv_s_x, dec_rd := ucast frd, dec_rs1 := ucast rs1\<rparr>) a
     else Some (False, a))"

definition asm_fcvt_l_s :: "ireg5 \<Rightarrow> freg5 \<Rightarrow> arg3 \<Rightarrow> assembler \<Rightarrow> (bool \<times> assembler) option" where [asm_defs]:
  "asm_fcvt_l_s rd frs1 rm a = (if ireg5_valid rd \<and> freg5_valid frs1 \<and> arg3_valid rm
     then asm_inst (decode_init\<lparr>dec_op := rv_op_fcvt_l_s, dec_rd := ucast rd, dec_rs1 := ucast frs1, dec_rm := ucast rm\<rparr>) a
     else Some (False, a))"

definition asm_fcvt_lu_s :: "ireg5 \<Rightarrow> freg5 \<Rightarrow> arg3 \<Rightarrow> assembler \<Rightarrow> (bool \<times> assembler) option" where [asm_defs]:
  "asm_fcvt_lu_s rd frs1 rm a = (if ireg5_valid rd \<and> freg5_valid frs1 \<and> arg3_valid rm
     then asm_inst (decode_init\<lparr>dec_op := rv_op_fcvt_lu_s, dec_rd := ucast rd, dec_rs1 := ucast frs1, dec_rm := ucast rm\<rparr>) a
     else Some (False, a))"

definition asm_fcvt_s_l :: "freg5 \<Rightarrow> ireg5 \<Rightarrow> arg3 \<Rightarrow> assembler \<Rightarrow> (bool \<times> assembler) option" where [asm_defs]:
  "asm_fcvt_s_l frd rs1 rm a = (if freg5_valid frd \<and> ireg5_valid rs1 \<and> arg3_valid rm
     then asm_inst (decode_init\<lparr>dec_op := rv_op_fcvt_s_l, dec_rd := ucast frd, dec_rs1 := ucast rs1, dec_rm := ucast rm\<rparr>) a
     else Some (False, a))"

definition asm_fcvt_s_lu :: "freg5 \<Rightarrow> ireg5 \<Rightarrow> arg3 \<Rightarrow> assembler \<Rightarrow> (bool \<times> assembler) option" where [asm_defs]:
  "asm_fcvt_s_lu frd rs1 rm a = (if freg5_valid frd \<and> ireg5_valid rs1 \<and> arg3_valid rm
     then asm_inst (decode_init\<lparr>dec_op := rv_op_fcvt_s_lu, dec_rd := ucast frd, dec_rs1 := ucast rs1, dec_rm := ucast rm\<rparr>) a
     else Some (False, a))"

definition asm_fld :: "freg5 \<Rightarrow> ireg5 \<Rightarrow> offset12 \<Rightarrow> assembler \<Rightarrow> (bool \<times> assembler) option" where [asm_defs]:
  "asm_fld frd rs1 oimm12 a = (if freg5_valid frd \<and> ireg5_valid rs1 \<and> offset12_valid oimm12
     then asm_inst (decode_init\<lparr>dec_op := rv_op_fld, dec_rd := ucast frd, dec_rs1 := ucast rs1, dec_imm := ucast oimm12\<rparr>) a
     else Some (False, a))"

definition asm_fsd :: "ireg5 \<Rightarrow> freg5 \<Rightarrow> offset12 \<Rightarrow> assembler \<Rightarrow> (bool \<times> assembler) option" where [asm_defs]:
  "asm_fsd rs1 frs2 simm12 a = (if ireg5_valid rs1 \<and> freg5_valid frs2 \<and> offset12_valid simm12
     then asm_inst (decode_init\<lparr>dec_op := rv_op_fsd, dec_rs1 := ucast rs1, dec_rs2 := ucast frs2, dec_imm := ucast simm12\<rparr>) a
     else Some (False, a))"

definition asm_fmadd_d :: "freg5 \<Rightarrow> freg5 \<Rightarrow> freg5 \<Rightarrow> freg5 \<Rightarrow> arg3 \<Rightarrow> assembler \<Rightarrow> (bool \<times> assembler) option" where [asm_defs]:
  "asm_fmadd_d frd frs1 frs2 frs3 rm a = (if freg5_valid frd \<and> freg5_valid frs1 \<and> freg5_valid frs2 \<and> freg5_valid frs3 \<and> arg3_valid rm
     then asm_inst (decode_init\<lparr>dec_op := rv_op_fmadd_d, dec_rd := ucast frd, dec_rs1 := ucast frs1, dec_rs2 := ucast frs2, dec_rs3 := ucast frs3, dec_rm := ucast rm\<rparr>) a
     else Some (False, a))"

definition asm_fmsub_d :: "freg5 \<Rightarrow> freg5 \<Rightarrow> freg5 \<Rightarrow> freg5 \<Rightarrow> arg3 \<Rightarrow> assembler \<Rightarrow> (bool \<times> assembler) option" where [asm_defs]:
  "asm_fmsub_d frd frs1 frs2 frs3 rm a = (if freg5_valid frd \<and> freg5_valid frs1 \<and> freg5_valid frs2 \<and> freg5_valid frs3 \<and> arg3_valid rm
     then asm_inst (decode_init\<lparr>dec_op := rv_op_fmsub_d, dec_rd := ucast frd, dec_rs1 := ucast frs1, dec_rs2 := ucast frs2, dec_rs3 := ucast frs3, dec_rm := ucast rm\<rparr>) a
     else Some (False, a))"

definition asm_fnmsub_d :: "freg5 \<Rightarrow> freg5 \<Rightarrow> freg5 \<Rightarrow> freg5 \<Rightarrow> arg3 \<Rightarrow> assembler \<Rightarrow> (bool \<times> assembler) option" where [asm_defs]:
  "asm_fnmsub_d frd frs1 frs2 frs3 rm a = (if freg5_valid frd \<and> freg5_valid frs1 \<and> freg5_valid frs2 \<and> freg5_valid frs3 \<and> arg3_valid rm
     then asm_inst (decode_init\<lparr>dec_op := rv_op_fnmsub_d, dec_rd := ucast frd, dec_rs1 := ucast frs1, dec_rs2 := ucast frs2, dec_rs3 := ucast frs3, dec_rm := ucast rm\<rparr>) a
     else Some (False, a))"

definition asm_fnmadd_d :: "freg5 \<Rightarrow> freg5 \<Rightarrow> freg5 \<Rightarrow> freg5 \<Rightarrow> arg3 \<Rightarrow> assembler \<Rightarrow> (bool \<times> assembler) option" where [asm_defs]:
  "asm_fnmadd_d frd frs1 frs2 frs3 rm a = (if freg5_valid frd \<and> freg5_valid frs1 \<and> freg5_valid frs2 \<and> freg5_valid frs3 \<and> arg3_valid rm
     then asm_inst (decode_init\<lparr>dec_op := rv_op_fnmadd_d, dec_rd := ucast frd, dec_rs1 := ucast frs1, dec_rs2 := ucast frs2, dec_rs3 := ucast frs3, dec_rm := ucast rm\<rparr>) a
     else Some (False, a))"

definition asm_fadd_d :: "freg5 \<Rightarrow> freg5 \<Rightarrow> freg5 \<Rightarrow> arg3 \<Rightarrow> assembler \<Rightarrow> (bool \<times> assembler) option" where [asm_defs]:
  "asm_fadd_d frd frs1 frs2 rm a = (if freg5_valid frd \<and> freg5_valid frs1 \<and> freg5_valid frs2 \<and> arg3_valid rm
     then asm_inst (decode_init\<lparr>dec_op := rv_op_fadd_d, dec_rd := ucast frd, dec_rs1 := ucast frs1, dec_rs2 := ucast frs2, dec_rm := ucast rm\<rparr>) a
     else Some (False, a))"

definition asm_fsub_d :: "freg5 \<Rightarrow> freg5 \<Rightarrow> freg5 \<Rightarrow> arg3 \<Rightarrow> assembler \<Rightarrow> (bool \<times> assembler) option" where [asm_defs]:
  "asm_fsub_d frd frs1 frs2 rm a = (if freg5_valid frd \<and> freg5_valid frs1 \<and> freg5_valid frs2 \<and> arg3_valid rm
     then asm_inst (decode_init\<lparr>dec_op := rv_op_fsub_d, dec_rd := ucast frd, dec_rs1 := ucast frs1, dec_rs2 := ucast frs2, dec_rm := ucast rm\<rparr>) a
     else Some (False, a))"

definition asm_fmul_d :: "freg5 \<Rightarrow> freg5 \<Rightarrow> freg5 \<Rightarrow> arg3 \<Rightarrow> assembler \<Rightarrow> (bool \<times> assembler) option" where [asm_defs]:
  "asm_fmul_d frd frs1 frs2 rm a = (if freg5_valid frd \<and> freg5_valid frs1 \<and> freg5_valid frs2 \<and> arg3_valid rm
     then asm_inst (decode_init\<lparr>dec_op := rv_op_fmul_d, dec_rd := ucast frd, dec_rs1 := ucast frs1, dec_rs2 := ucast frs2, dec_rm := ucast rm\<rparr>) a
     else Some (False, a))"

definition asm_fdiv_d :: "freg5 \<Rightarrow> freg5 \<Rightarrow> freg5 \<Rightarrow> arg3 \<Rightarrow> assembler \<Rightarrow> (bool \<times> assembler) option" where [asm_defs]:
  "asm_fdiv_d frd frs1 frs2 rm a = (if freg5_valid frd \<and> freg5_valid frs1 \<and> freg5_valid frs2 \<and> arg3_valid rm
     then asm_inst (decode_init\<lparr>dec_op := rv_op_fdiv_d, dec_rd := ucast frd, dec_rs1 := ucast frs1, dec_rs2 := ucast frs2, dec_rm := ucast rm\<rparr>) a
     else Some (False, a))"

definition asm_fsgnj_d :: "freg5 \<Rightarrow> freg5 \<Rightarrow> freg5 \<Rightarrow> assembler \<Rightarrow> (bool \<times> assembler) option" where [asm_defs]:
  "asm_fsgnj_d frd frs1 frs2 a = (if freg5_valid frd \<and> freg5_valid frs1 \<and> freg5_valid frs2
     then asm_inst (decode_init\<lparr>dec_op := rv_op_fsgnj_d, dec_rd := ucast frd, dec_rs1 := ucast frs1, dec_rs2 := ucast frs2\<rparr>) a
     else Some (False, a))"

definition asm_fsgnjn_d :: "freg5 \<Rightarrow> freg5 \<Rightarrow> freg5 \<Rightarrow> assembler \<Rightarrow> (bool \<times> assembler) option" where [asm_defs]:
  "asm_fsgnjn_d frd frs1 frs2 a = (if freg5_valid frd \<and> freg5_valid frs1 \<and> freg5_valid frs2
     then asm_inst (decode_init\<lparr>dec_op := rv_op_fsgnjn_d, dec_rd := ucast frd, dec_rs1 := ucast frs1, dec_rs2 := ucast frs2\<rparr>) a
     else Some (False, a))"

definition asm_fsgnjx_d :: "freg5 \<Rightarrow> freg5 \<Rightarrow> freg5 \<Rightarrow> assembler \<Rightarrow> (bool \<times> assembler) option" where [asm_defs]:
  "asm_fsgnjx_d frd frs1 frs2 a = (if freg5_valid frd \<and> freg5_valid frs1 \<and> freg5_valid frs2
     then asm_inst (decode_init\<lparr>dec_op := rv_op_fsgnjx_d, dec_rd := ucast frd, dec_rs1 := ucast frs1, dec_rs2 := ucast frs2\<rparr>) a
     else Some (False, a))"

definition asm_fmin_d :: "freg5 \<Rightarrow> freg5 \<Rightarrow> freg5 \<Rightarrow> assembler \<Rightarrow> (bool \<times> assembler) option" where [asm_defs]:
  "asm_fmin_d frd frs1 frs2 a = (if freg5_valid frd \<and> freg5_valid frs1 \<and> freg5_valid frs2
     then asm_inst (decode_init\<lparr>dec_op := rv_op_fmin_d, dec_rd := ucast frd, dec_rs1 := ucast frs1, dec_rs2 := ucast frs2\<rparr>) a
     else Some (False, a))"

definition asm_fmax_d :: "freg5 \<Rightarrow> freg5 \<Rightarrow> freg5 \<Rightarrow> assembler \<Rightarrow> (bool \<times> assembler) option" where [asm_defs]:
  "asm_fmax_d frd frs1 frs2 a = (if freg5_valid frd \<and> freg5_valid frs1 \<and> freg5_valid frs2
     then asm_inst (decode_init\<lparr>dec_op := rv_op_fmax_d, dec_rd := ucast frd, dec_rs1 := ucast frs1, dec_rs2 := ucast frs2\<rparr>) a
     else Some (False, a))"

definition asm_fcvt_s_d :: "freg5 \<Rightarrow> freg5 \<Rightarrow> arg3 \<Rightarrow> assembler \<Rightarrow> (bool \<times> assembler) option" where [asm_defs]:
  "asm_fcvt_s_d frd frs1 rm a = (if freg5_valid frd \<and> freg5_valid frs1 \<and> arg3_valid rm
     then asm_inst (decode_init\<lparr>dec_op := rv_op_fcvt_s_d, dec_rd := ucast frd, dec_rs1 := ucast frs1, dec_rm := ucast rm\<rparr>) a
     else Some (False, a))"

definition asm_fcvt_d_s :: "freg5 \<Rightarrow> freg5 \<Rightarrow> arg3 \<Rightarrow> assembler \<Rightarrow> (bool \<times> assembler) option" where [asm_defs]:
  "asm_fcvt_d_s frd frs1 rm a = (if freg5_valid frd \<and> freg5_valid frs1 \<and> arg3_valid rm
     then asm_inst (decode_init\<lparr>dec_op := rv_op_fcvt_d_s, dec_rd := ucast frd, dec_rs1 := ucast frs1, dec_rm := ucast rm\<rparr>) a
     else Some (False, a))"

definition asm_fsqrt_d :: "freg5 \<Rightarrow> freg5 \<Rightarrow> arg3 \<Rightarrow> assembler \<Rightarrow> (bool \<times> assembler) option" where [asm_defs]:
  "asm_fsqrt_d frd frs1 rm a = (if freg5_valid frd \<and> freg5_valid frs1 \<and> arg3_valid rm
     then asm_inst (decode_init\<lparr>dec_op := rv_op_fsqrt_d, dec_rd := ucast frd, dec_rs1 := ucast frs1, dec_rm := ucast rm\<rparr>) a
     else Some (False, a))"

definition asm_fle_d :: "ireg5 \<Rightarrow> freg5 \<Rightarrow> freg5 \<Rightarrow> assembler \<Rightarrow> (bool \<times> assembler) option" where [asm_defs]:
  "asm_fle_d rd frs1 frs2 a = (if ireg5_valid rd \<and> freg5_valid frs1 \<and> freg5_valid frs2
     then asm_inst (decode_init\<lparr>dec_op := rv_op_fle_d, dec_rd := ucast rd, dec_rs1 := ucast frs1, dec_rs2 := ucast frs2\<rparr>) a
     else Some (False, a))"

definition asm_flt_d :: "ireg5 \<Rightarrow> freg5 \<Rightarrow> freg5 \<Rightarrow> assembler \<Rightarrow> (bool \<times> assembler) option" where [asm_defs]:
  "asm_flt_d rd frs1 frs2 a = (if ireg5_valid rd \<and> freg5_valid frs1 \<and> freg5_valid frs2
     then asm_inst (decode_init\<lparr>dec_op := rv_op_flt_d, dec_rd := ucast rd, dec_rs1 := ucast frs1, dec_rs2 := ucast frs2\<rparr>) a
     else Some (False, a))"

definition asm_feq_d :: "ireg5 \<Rightarrow> freg5 \<Rightarrow> freg5 \<Rightarrow> assembler \<Rightarrow> (bool \<times> assembler) option" where [asm_defs]:
  "asm_feq_d rd frs1 frs2 a = (if ireg5_valid rd \<and> freg5_valid frs1 \<and> freg5_valid frs2
     then asm_inst (decode_init\<lparr>dec_op := rv_op_feq_d, dec_rd := ucast rd, dec_rs1 := ucast frs1, dec_rs2 := ucast frs2\<rparr>) a
     else Some (False, a))"

definition asm_fcvt_w_d :: "ireg5 \<Rightarrow> freg5 \<Rightarrow> arg3 \<Rightarrow> assembler \<Rightarrow> (bool \<times> assembler) option" where [asm_defs]:
  "asm_fcvt_w_d rd frs1 rm a = (if ireg5_valid rd \<and> freg5_valid frs1 \<and> arg3_valid rm
     then asm_inst (decode_init\<lparr>dec_op := rv_op_fcvt_w_d, dec_rd := ucast rd, dec_rs1 := ucast frs1, dec_rm := ucast rm\<rparr>) a
     else Some (False, a))"

definition asm_fcvt_wu_d :: "ireg5 \<Rightarrow> freg5 \<Rightarrow> arg3 \<Rightarrow> assembler \<Rightarrow> (bool \<times> assembler) option" where [asm_defs]:
  "asm_fcvt_wu_d rd frs1 rm a = (if ireg5_valid rd \<and> freg5_valid frs1 \<and> arg3_valid rm
     then asm_inst (decode_init\<lparr>dec_op := rv_op_fcvt_wu_d, dec_rd := ucast rd, dec_rs1 := ucast frs1, dec_rm := ucast rm\<rparr>) a
     else Some (False, a))"

definition asm_fcvt_d_w :: "freg5 \<Rightarrow> ireg5 \<Rightarrow> arg3 \<Rightarrow> assembler \<Rightarrow> (bool \<times> assembler) option" where [asm_defs]:
  "asm_fcvt_d_w frd rs1 rm a = (if freg5_valid frd \<and> ireg5_valid rs1 \<and> arg3_valid rm
     then asm_inst (decode_init\<lparr>dec_op := rv_op_fcvt_d_w, dec_rd := ucast frd, dec_rs1 := ucast rs1, dec_rm := ucast rm\<rparr>) a
     else Some (False, a))"

definition asm_fcvt_d_wu :: "freg5 \<Rightarrow> ireg5 \<Rightarrow> arg3 \<Rightarrow> assembler \<Rightarrow> (bool \<times> assembler) option" where [asm_defs]:
  "asm_fcvt_d_wu frd rs1 rm a = (if freg5_valid frd \<and> ireg5_valid rs1 \<and> arg3_valid rm
     then asm_inst (decode_init\<lparr>dec_op := rv_op_fcvt_d_wu, dec_rd := ucast frd, dec_rs1 := ucast rs1, dec_rm := ucast rm\<rparr>) a
     else Some (False, a))"

definition asm_fclass_d :: "ireg5 \<Rightarrow> freg5 \<Rightarrow> assembler \<Rightarrow> (bool \<times> assembler) option" where [asm_defs]:
  "asm_fclass_d rd frs1 a = (if ireg5_valid rd \<and> freg5_valid frs1
     then asm_inst (decode_init\<lparr>dec_op := rv_op_fclass_d, dec_rd := ucast rd, dec_rs1 := ucast frs1\<rparr>) a
     else Some (False, a))"

definition asm_fcvt_l_d :: "ireg5 \<Rightarrow> freg5 \<Rightarrow> arg3 \<Rightarrow> assembler \<Rightarrow> (bool \<times> assembler) option" where [asm_defs]:
  "asm_fcvt_l_d rd frs1 rm a = (if ireg5_valid rd \<and> freg5_valid frs1 \<and> arg3_valid rm
     then asm_inst (decode_init\<lparr>dec_op := rv_op_fcvt_l_d, dec_rd := ucast rd, dec_rs1 := ucast frs1, dec_rm := ucast rm\<rparr>) a
     else Some (False, a))"

definition asm_fcvt_lu_d :: "ireg5 \<Rightarrow> freg5 \<Rightarrow> arg3 \<Rightarrow> assembler \<Rightarrow> (bool \<times> assembler) option" where [asm_defs]:
  "asm_fcvt_lu_d rd frs1 rm a = (if ireg5_valid rd \<and> freg5_valid frs1 \<and> arg3_valid rm
     then asm_inst (decode_init\<lparr>dec_op := rv_op_fcvt_lu_d, dec_rd := ucast rd, dec_rs1 := ucast frs1, dec_rm := ucast rm\<rparr>) a
     else Some (False, a))"

definition asm_fmv_x_d :: "ireg5 \<Rightarrow> freg5 \<Rightarrow> assembler \<Rightarrow> (bool \<times> assembler) option" where [asm_defs]:
  "asm_fmv_x_d rd frs1 a = (if ireg5_valid rd \<and> freg5_valid frs1
     then asm_inst (decode_init\<lparr>dec_op := rv_op_fmv_x_d, dec_rd := ucast rd, dec_rs1 := ucast frs1\<rparr>) a
     else Some (False, a))"

definition asm_fcvt_d_l :: "freg5 \<Rightarrow> ireg5 \<Rightarrow> arg3 \<Rightarrow> assembler \<Rightarrow> (bool \<times> assembler) option" where [asm_defs]:
  "asm_fcvt_d_l frd rs1 rm a = (if freg5_valid frd \<and> ireg5_valid rs1 \<and> arg3_valid rm
     then asm_inst (decode_init\<lparr>dec_op := rv_op_fcvt_d_l, dec_rd := ucast frd, dec_rs1 := ucast rs1, dec_rm := ucast rm\<rparr>) a
     else Some (False, a))"

definition asm_fcvt_d_lu :: "freg5 \<Rightarrow> ireg5 \<Rightarrow> arg3 \<Rightarrow> assembler \<Rightarrow> (bool \<times> assembler) option" where [asm_defs]:
  "asm_fcvt_d_lu frd rs1 rm a = (if freg5_valid frd \<and> ireg5_valid rs1 \<and> arg3_valid rm
     then asm_inst (decode_init\<lparr>dec_op := rv_op_fcvt_d_lu, dec_rd := ucast frd, dec_rs1 := ucast rs1, dec_rm := ucast rm\<rparr>) a
     else Some (False, a))"

definition asm_fmv_d_x :: "freg5 \<Rightarrow> ireg5 \<Rightarrow> assembler \<Rightarrow> (bool \<times> assembler) option" where [asm_defs]:
  "asm_fmv_d_x frd rs1 a = (if freg5_valid frd \<and> ireg5_valid rs1
     then asm_inst (decode_init\<lparr>dec_op := rv_op_fmv_d_x, dec_rd := ucast frd, dec_rs1 := ucast rs1\<rparr>) a
     else Some (False, a))"

definition asm_flq :: "freg5 \<Rightarrow> ireg5 \<Rightarrow> offset12 \<Rightarrow> assembler \<Rightarrow> (bool \<times> assembler) option" where [asm_defs]:
  "asm_flq frd rs1 oimm12 a = (if freg5_valid frd \<and> ireg5_valid rs1 \<and> offset12_valid oimm12
     then asm_inst (decode_init\<lparr>dec_op := rv_op_flq, dec_rd := ucast frd, dec_rs1 := ucast rs1, dec_imm := ucast oimm12\<rparr>) a
     else Some (False, a))"

definition asm_fsq :: "ireg5 \<Rightarrow> freg5 \<Rightarrow> offset12 \<Rightarrow> assembler \<Rightarrow> (bool \<times> assembler) option" where [asm_defs]:
  "asm_fsq rs1 frs2 simm12 a = (if ireg5_valid rs1 \<and> freg5_valid frs2 \<and> offset12_valid simm12
     then asm_inst (decode_init\<lparr>dec_op := rv_op_fsq, dec_rs1 := ucast rs1, dec_rs2 := ucast frs2, dec_imm := ucast simm12\<rparr>) a
     else Some (False, a))"

definition asm_fmadd_q :: "freg5 \<Rightarrow> freg5 \<Rightarrow> freg5 \<Rightarrow> freg5 \<Rightarrow> arg3 \<Rightarrow> assembler \<Rightarrow> (bool \<times> assembler) option" where [asm_defs]:
  "asm_fmadd_q frd frs1 frs2 frs3 rm a = (if freg5_valid frd \<and> freg5_valid frs1 \<and> freg5_valid frs2 \<and> freg5_valid frs3 \<and> arg3_valid rm
     then asm_inst (decode_init\<lparr>dec_op := rv_op_fmadd_q, dec_rd := ucast frd, dec_rs1 := ucast frs1, dec_rs2 := ucast frs2, dec_rs3 := ucast frs3, dec_rm := ucast rm\<rparr>) a
     else Some (False, a))"

definition asm_fmsub_q :: "freg5 \<Rightarrow> freg5 \<Rightarrow> freg5 \<Rightarrow> freg5 \<Rightarrow> arg3 \<Rightarrow> assembler \<Rightarrow> (bool \<times> assembler) option" where [asm_defs]:
  "asm_fmsub_q frd frs1 frs2 frs3 rm a = (if freg5_valid frd \<and> freg5_valid frs1 \<and> freg5_valid frs2 \<and> freg5_valid frs3 \<and> arg3_valid rm
     then asm_inst (decode_init\<lparr>dec_op := rv_op_fmsub_q, dec_rd := ucast frd, dec_rs1 := ucast frs1, dec_rs2 := ucast frs2, dec_rs3 := ucast frs3, dec_rm := ucast rm\<rparr>) a
     else Some (False, a))"

definition asm_fnmsub_q :: "freg5 \<Rightarrow> freg5 \<Rightarrow> freg5 \<Rightarrow> freg5 \<Rightarrow> arg3 \<Rightarrow> assembler \<Rightarrow> (bool \<times> assembler) option" where [asm_defs]:
  "asm_fnmsub_q frd frs1 frs2 frs3 rm a = (if freg5_valid frd \<and> freg5_valid frs1 \<and> freg5_valid frs2 \<and> freg5_valid frs3 \<and> arg3_valid rm
     then asm_inst (decode_init\<lparr>dec_op := rv_op_fnmsub_q, dec_rd := ucast frd, dec_rs1 := ucast frs1, dec_rs2 := ucast frs2, dec_rs3 := ucast frs3, dec_rm := ucast rm\<rparr>) a
     else Some (False, a))"

definition asm_fnmadd_q :: "freg5 \<Rightarrow> freg5 \<Rightarrow> freg5 \<Rightarrow> freg5 \<Rightarrow> arg3 \<Rightarrow> assembler \<Rightarrow> (bool \<times> assembler) option" where [asm_defs]:
  "asm_fnmadd_q frd frs1 frs2 frs3 rm a = (if freg5_valid frd \<and> freg5_valid frs1 \<and> freg5_valid frs2 \<and> freg5_valid frs3 \<and> arg3_valid rm
     then asm_inst (decode_init\<lparr>dec_op := rv_op_fnmadd_q, dec_rd := ucast frd, dec_rs1 := ucast frs1, dec_rs2 := ucast frs2, dec_rs3 := ucast frs3, dec_rm := ucast rm\<rparr>) a
     else Some (False, a))"

definition asm_fadd_q :: "freg5 \<Rightarrow> freg5 \<Rightarrow> freg5 \<Rightarrow> arg3 \<Rightarrow> assembler \<Rightarrow> (bool \<times> assembler) option" where [asm_defs]:
  "asm_fadd_q frd frs1 frs2 rm a = (if freg5_valid frd \<and> freg5_valid frs1 \<and> freg5_valid frs2 \<and> arg3_valid rm
     then asm_inst (decode_init\<lparr>dec_op := rv_op_fadd_q, dec_rd := ucast frd, dec_rs1 := ucast frs1, dec_rs2 := ucast frs2, dec_rm := ucast rm\<rparr>) a
     else Some (False, a))"

definition asm_fsub_q :: "freg5 \<Rightarrow> freg5 \<Rightarrow> freg5 \<Rightarrow> arg3 \<Rightarrow> assembler \<Rightarrow> (bool \<times> assembler) option" where [asm_defs]:
  "asm_fsub_q frd frs1 frs2 rm a = (if freg5_valid frd \<and> freg5_valid frs1 \<and> freg5_valid frs2 \<and> arg3_valid rm
     then asm_inst (decode_init\<lparr>dec_op := rv_op_fsub_q, dec_rd := ucast frd, dec_rs1 := ucast frs1, dec_rs2 := ucast frs2, dec_rm := ucast rm\<rparr>) a
     else Some (False, a))"

definition asm_fmul_q :: "freg5 \<Rightarrow> freg5 \<Rightarrow> freg5 \<Rightarrow> arg3 \<Rightarrow> assembler \<Rightarrow> (bool \<times> assembler) option" where [asm_defs]:
  "asm_fmul_q frd frs1 frs2 rm a = (if freg5_valid frd \<and> freg5_valid frs1 \<and> freg5_valid frs2 \<and> arg3_valid rm
     then asm_inst (decode_init\<lparr>dec_op := rv_op_fmul_q, dec_rd := ucast frd, dec_rs1 := ucast frs1, dec_rs2 := ucast frs2, dec_rm := ucast rm\<rparr>) a
     else Some (False, a))"

definition asm_fdiv_q :: "freg5 \<Rightarrow> freg5 \<Rightarrow> freg5 \<Rightarrow> arg3 \<Rightarrow> assembler \<Rightarrow> (bool \<times> assembler) option" where [asm_defs]:
  "asm_fdiv_q frd frs1 frs2 rm a = (if freg5_valid frd \<and> freg5_valid frs1 \<and> freg5_valid frs2 \<and> arg3_valid rm
     then asm_inst (decode_init\<lparr>dec_op := rv_op_fdiv_q, dec_rd := ucast frd, dec_rs1 := ucast frs1, dec_rs2 := ucast frs2, dec_rm := ucast rm\<rparr>) a
     else Some (False, a))"

definition asm_fsgnj_q :: "freg5 \<Rightarrow> freg5 \<Rightarrow> freg5 \<Rightarrow> assembler \<Rightarrow> (bool \<times> assembler) option" where [asm_defs]:
  "asm_fsgnj_q frd frs1 frs2 a = (if freg5_valid frd \<and> freg5_valid frs1 \<and> freg5_valid frs2
     then asm_inst (decode_init\<lparr>dec_op := rv_op_fsgnj_q, dec_rd := ucast frd, dec_rs1 := ucast frs1, dec_rs2 := ucast frs2\<rparr>) a
     else Some (False, a))"

definition asm_fsgnjn_q :: "freg5 \<Rightarrow> freg5 \<Rightarrow> freg5 \<Rightarrow> assembler \<Rightarrow> (bool \<times> assembler) option" where [asm_defs]:
  "asm_fsgnjn_q frd frs1 frs2 a = (if freg5_valid frd \<and> freg5_valid frs1 \<and> freg5_valid frs2
     then asm_inst (decode_init\<lparr>dec_op := rv_op_fsgnjn_q, dec_rd := ucast frd, dec_rs1 := ucast frs1, dec_rs2 := ucast frs2\<rparr>) a
     else Some (False, a))"

definition asm_fsgnjx_q :: "freg5 \<Rightarrow> freg5 \<Rightarrow> freg5 \<Rightarrow> assembler \<Rightarrow> (bool \<times> assembler) option" where [asm_defs]:
  "asm_fsgnjx_q frd frs1 frs2 a = (if freg5_valid frd \<and> freg5_valid frs1 \<and> freg5_valid frs2
     then asm_inst (decode_init\<lparr>dec_op := rv_op_fsgnjx_q, dec_rd := ucast frd, dec_rs1 := ucast frs1, dec_rs2 := ucast frs2\<rparr>) a
     else Some (False, a))"

definition asm_fmin_q :: "freg5 \<Rightarrow> freg5 \<Rightarrow> freg5 \<Rightarrow> assembler \<Rightarrow> (bool \<times> assembler) option" where [asm_defs]:
  "asm_fmin_q frd frs1 frs2 a = (if freg5_valid frd \<and> freg5_valid frs1 \<and> freg5_valid frs2
     then asm_inst (decode_init\<lparr>dec_op := rv_op_fmin_q, dec_rd := ucast frd, dec_rs1 := ucast frs1, dec_rs2 := ucast frs2\<rparr>) a
     else Some (False, a))"

definition asm_fmax_q :: "freg5 \<Rightarrow> freg5 \<Rightarrow> freg5 \<Rightarrow> assembler \<Rightarrow> (bool \<times> assembler) option" where [asm_defs]:
  "asm_fmax_q frd frs1 frs2 a = (if freg5_valid frd \<and> freg5_valid frs1 \<and> freg5_valid frs2
     then asm_inst (decode_init\<lparr>dec_op := rv_op_fmax_q, dec_rd := ucast frd, dec_rs1 := ucast frs1, dec_rs2 := ucast frs2\<rparr>) a
     else Some (False, a))"

definition asm_fcvt_s_q :: "freg5 \<Rightarrow> freg5 \<Rightarrow> arg3 \<Rightarrow> assembler \<Rightarrow> (bool \<times> assembler) option" where [asm_defs]:
  "asm_fcvt_s_q frd frs1 rm a = (if freg5_valid frd \<and> freg5_valid frs1 \<and> arg3_valid rm
     then asm_inst (decode_init\<lparr>dec_op := rv_op_fcvt_s_q, dec_rd := ucast frd, dec_rs1 := ucast frs1, dec_rm := ucast rm\<rparr>) a
     else Some (False, a))"

definition asm_fcvt_q_s :: "freg5 \<Rightarrow> freg5 \<Rightarrow> arg3 \<Rightarrow> assembler \<Rightarrow> (bool \<times> assembler) option" where [asm_defs]:
  "asm_fcvt_q_s frd frs1 rm a = (if freg5_valid frd \<and> freg5_valid frs1 \<and> arg3_valid rm
     then asm_inst (decode_init\<lparr>dec_op := rv_op_fcvt_q_s, dec_rd := ucast frd, dec_rs1 := ucast frs1, dec_rm := ucast rm\<rparr>) a
     else Some (False, a))"

definition asm_fcvt_d_q :: "freg5 \<Rightarrow> freg5 \<Rightarrow> arg3 \<Rightarrow> assembler \<Rightarrow> (bool \<times> assembler) option" where [asm_defs]:
  "asm_fcvt_d_q frd frs1 rm a = (if freg5_valid frd \<and> freg5_valid frs1 \<and> arg3_valid rm
     then asm_inst (decode_init\<lparr>dec_op := rv_op_fcvt_d_q, dec_rd := ucast frd, dec_rs1 := ucast frs1, dec_rm := ucast rm\<rparr>) a
     else Some (False, a))"

definition asm_fcvt_q_d :: "freg5 \<Rightarrow> freg5 \<Rightarrow> arg3 \<Rightarrow> assembler \<Rightarrow> (bool \<times> assembler) option" where [asm_defs]:
  "asm_fcvt_q_d frd frs1 rm a = (if freg5_valid frd \<and> freg5_valid frs1 \<and> arg3_valid rm
     then asm_inst (decode_init\<lparr>dec_op := rv_op_fcvt_q_d, dec_rd := ucast frd, dec_rs1 := ucast frs1, dec_rm := ucast rm\<rparr>) a
     else Some (False, a))"

definition asm_fsqrt_q :: "freg5 \<Rightarrow> freg5 \<Rightarrow> arg3 \<Rightarrow> assembler \<Rightarrow> (bool \<times> assembler) option" where [asm_defs]:
  "asm_fsqrt_q frd frs1 rm a = (if freg5_valid frd \<and> freg5_valid frs1 \<and> arg3_valid rm
     then asm_inst (decode_init\<lparr>dec_op := rv_op_fsqrt_q, dec_rd := ucast frd, dec_rs1 := ucast frs1, dec_rm := ucast rm\<rparr>) a
     else Some (False, a))"

definition asm_fle_q :: "ireg5 \<Rightarrow> freg5 \<Rightarrow> freg5 \<Rightarrow> assembler \<Rightarrow> (bool \<times> assembler) option" where [asm_defs]:
  "asm_fle_q rd frs1 frs2 a = (if ireg5_valid rd \<and> freg5_valid frs1 \<and> freg5_valid frs2
     then asm_inst (decode_init\<lparr>dec_op := rv_op_fle_q, dec_rd := ucast rd, dec_rs1 := ucast frs1, dec_rs2 := ucast frs2\<rparr>) a
     else Some (False, a))"

definition asm_flt_q :: "ireg5 \<Rightarrow> freg5 \<Rightarrow> freg5 \<Rightarrow> assembler \<Rightarrow> (bool \<times> assembler) option" where [asm_defs]:
  "asm_flt_q rd frs1 frs2 a = (if ireg5_valid rd \<and> freg5_valid frs1 \<and> freg5_valid frs2
     then asm_inst (decode_init\<lparr>dec_op := rv_op_flt_q, dec_rd := ucast rd, dec_rs1 := ucast frs1, dec_rs2 := ucast frs2\<rparr>) a
     else Some (False, a))"

definition asm_feq_q :: "ireg5 \<Rightarrow> freg5 \<Rightarrow> freg5 \<Rightarrow> assembler \<Rightarrow> (bool \<times> assembler) option" where [asm_defs]:
  "asm_feq_q rd frs1 frs2 a = (if ireg5_valid rd \<and> freg5_valid frs1 \<and> freg5_valid frs2
     then asm_inst (decode_init\<lparr>dec_op := rv_op_feq_q, dec_rd := ucast rd, dec_rs1 := ucast frs1, dec_rs2 := ucast frs2\<rparr>) a
     else Some (False, a))"

definition asm_fcvt_w_q :: "ireg5 \<Rightarrow> freg5 \<Rightarrow> arg3 \<Rightarrow> assembler \<Rightarrow> (bool \<times> assembler) option" where [asm_defs]:
  "asm_fcvt_w_q rd frs1 rm a = (if ireg5_valid rd \<and> freg5_valid frs1 \<and> arg3_valid rm
     then asm_inst (decode_init\<lparr>dec_op := rv_op_fcvt_w_q, dec_rd := ucast rd, dec_rs1 := ucast frs1, dec_rm := ucast rm\<rparr>) a
     else Some (False, a))"

definition asm_fcvt_wu_q :: "ireg5 \<Rightarrow> freg5 \<Rightarrow> arg3 \<Rightarrow> assembler \<Rightarrow> (bool \<times> assembler) option" where [asm_defs]:
  "asm_fcvt_wu_q rd frs1 rm a = (if ireg5_valid rd \<and> freg5_valid frs1 \<and> arg3_valid rm
     then asm_inst (decode_init\<lparr>dec_op := rv_op_fcvt_wu_q, dec_rd := ucast rd, dec_rs1 := ucast frs1, dec_rm := ucast rm\<rparr>) a
     else Some (False, a))"

definition asm_fcvt_q_w :: "freg5 \<Rightarrow> ireg5 \<Rightarrow> arg3 \<Rightarrow> assembler \<Rightarrow> (bool \<times> assembler) option" where [asm_defs]:
  "asm_fcvt_q_w frd rs1 rm a = (if freg5_valid frd \<and> ireg5_valid rs1 \<and> arg3_valid rm
     then asm_inst (decode_init\<lparr>dec_op := rv_op_fcvt_q_w, dec_rd := ucast frd, dec_rs1 := ucast rs1, dec_rm := ucast rm\<rparr>) a
     else Some (False, a))"

definition asm_fcvt_q_wu :: "freg5 \<Rightarrow> ireg5 \<Rightarrow> arg3 \<Rightarrow> assembler \<Rightarrow> (bool \<times> assembler) option" where [asm_defs]:
  "asm_fcvt_q_wu frd rs1 rm a = (if freg5_valid frd \<and> ireg5_valid rs1 \<and> arg3_valid rm
     then asm_inst (decode_init\<lparr>dec_op := rv_op_fcvt_q_wu, dec_rd := ucast frd, dec_rs1 := ucast rs1, dec_rm := ucast rm\<rparr>) a
     else Some (False, a))"

definition asm_fclass_q :: "ireg5 \<Rightarrow> freg5 \<Rightarrow> assembler \<Rightarrow> (bool \<times> assembler) option" where [asm_defs]:
  "asm_fclass_q rd frs1 a = (if ireg5_valid rd \<and> freg5_valid frs1
     then asm_inst (decode_init\<lparr>dec_op := rv_op_fclass_q, dec_rd := ucast rd, dec_rs1 := ucast frs1\<rparr>) a
     else Some (False, a))"

definition asm_fcvt_l_q :: "ireg5 \<Rightarrow> freg5 \<Rightarrow> arg3 \<Rightarrow> assembler \<Rightarrow> (bool \<times> assembler) option" where [asm_defs]:
  "asm_fcvt_l_q rd frs1 rm a = (if ireg5_valid rd \<and> freg5_valid frs1 \<and> arg3_valid rm
     then asm_inst (decode_init\<lparr>dec_op := rv_op_fcvt_l_q, dec_rd := ucast rd, dec_rs1 := ucast frs1, dec_rm := ucast rm\<rparr>) a
     else Some (False, a))"

definition asm_fcvt_lu_q :: "ireg5 \<Rightarrow> freg5 \<Rightarrow> arg3 \<Rightarrow> assembler \<Rightarrow> (bool \<times> assembler) option" where [asm_defs]:
  "asm_fcvt_lu_q rd frs1 rm a = (if ireg5_valid rd \<and> freg5_valid frs1 \<and> arg3_valid rm
     then asm_inst (decode_init\<lparr>dec_op := rv_op_fcvt_lu_q, dec_rd := ucast rd, dec_rs1 := ucast frs1, dec_rm := ucast rm\<rparr>) a
     else Some (False, a))"

definition asm_fcvt_q_l :: "freg5 \<Rightarrow> ireg5 \<Rightarrow> arg3 \<Rightarrow> assembler \<Rightarrow> (bool \<times> assembler) option" where [asm_defs]:
  "asm_fcvt_q_l frd rs1 rm a = (if freg5_valid frd \<and> ireg5_valid rs1 \<and> arg3_valid rm
     then asm_inst (decode_init\<lparr>dec_op := rv_op_fcvt_q_l, dec_rd := ucast frd, dec_rs1 := ucast rs1, dec_rm := ucast rm\<rparr>) a
     else Some (False, a))"

definition asm_fcvt_q_lu :: "freg5 \<Rightarrow> ireg5 \<Rightarrow> arg3 \<Rightarrow> assembler \<Rightarrow> (bool \<times> assembler) option" where [asm_defs]:
  "asm_fcvt_q_lu frd rs1 rm a = (if freg5_valid frd \<and> ireg5_valid rs1 \<and> arg3_valid rm
     then asm_inst (decode_init\<lparr>dec_op := rv_op_fcvt_q_lu, dec_rd := ucast frd, dec_rs1 := ucast rs1, dec_rm := ucast rm\<rparr>) a
     else Some (False, a))"

definition asm_fmv_x_q :: "ireg5 \<Rightarrow> freg5 \<Rightarrow> assembler \<Rightarrow> (bool \<times> assembler) option" where [asm_defs]:
  "asm_fmv_x_q rd frs1 a = (if ireg5_valid rd \<and> freg5_valid frs1
     then asm_inst (decode_init\<lparr>dec_op := rv_op_fmv_x_q, dec_rd := ucast rd, dec_rs1 := ucast frs1\<rparr>) a
     else Some (False, a))"

definition asm_fmv_q_x :: "freg5 \<Rightarrow> ireg5 \<Rightarrow> assembler \<Rightarrow> (bool \<times> assembler) option" where [asm_defs]:
  "asm_fmv_q_x frd rs1 a = (if freg5_valid frd \<and> ireg5_valid rs1
     then asm_inst (decode_init\<lparr>dec_op := rv_op_fmv_q_x, dec_rd := ucast frd, dec_rs1 := ucast rs1\<rparr>) a
     else Some (False, a))"

end
