(* ===== verification/Rv_Emit_Laws.thy ===== *)
theory Rv_Emit_Laws
  imports Rv_Emit Rv_Codec_Laws
begin

text \<open>
  The emitters as a table, and what holds for every entry: the word that an emitter returns decodes to
  its opcode and its operands.  The proof goes by the 19 shapes an entry can have (a format with the
  operands in it).
\<close>

section \<open>Operands of emitters\<close>

text \<open>The place of an operand; a signed immediate has a width and a number of low bits that are zero.\<close>

datatype arg = A_rd | A_rs1 | A_rs2 | A_rs3 | A_rm | A_aq | A_rl | A_pred | A_succ
  | A_simm nat nat | A_uimm nat

primrec arg_valid :: "arg \<Rightarrow> u64 \<Rightarrow> bool" where
  "arg_valid A_rd v = uimm_valid 5 v"
| "arg_valid A_rs1 v = uimm_valid 5 v"
| "arg_valid A_rs2 v = uimm_valid 5 v"
| "arg_valid A_rs3 v = uimm_valid 5 v"
| "arg_valid A_rm v = uimm_valid 3 v"
| "arg_valid A_aq v = uimm_valid 1 v"
| "arg_valid A_rl v = uimm_valid 1 v"
| "arg_valid A_pred v = uimm_valid 4 v"
| "arg_valid A_succ v = uimm_valid 4 v"
| "arg_valid (A_simm W k) v = simm_valid W v"
| "arg_valid (A_uimm W) v = uimm_valid W v"

text \<open>The emitters do not test the low bits of an offset, which the format has no room for.\<close>

primrec arg_aligned :: "arg \<Rightarrow> u64 \<Rightarrow> bool" where
  "arg_aligned A_rd v = True"
| "arg_aligned A_rs1 v = True"
| "arg_aligned A_rs2 v = True"
| "arg_aligned A_rs3 v = True"
| "arg_aligned A_rm v = True"
| "arg_aligned A_aq v = True"
| "arg_aligned A_rl v = True"
| "arg_aligned A_pred v = True"
| "arg_aligned A_succ v = True"
| "arg_aligned (A_simm W k) v = (2 ^ k dvd sint v)"
| "arg_aligned (A_uimm W) v = True"

primrec arg_set :: "arg \<Rightarrow> u64 \<Rightarrow> decode \<Rightarrow> decode" where
  "arg_set A_rd v d = d\<lparr>dec_rd := ucast v\<rparr>"
| "arg_set A_rs1 v d = d\<lparr>dec_rs1 := ucast v\<rparr>"
| "arg_set A_rs2 v d = d\<lparr>dec_rs2 := ucast v\<rparr>"
| "arg_set A_rs3 v d = d\<lparr>dec_rs3 := ucast v\<rparr>"
| "arg_set A_rm v d = d\<lparr>dec_rm := ucast v\<rparr>"
| "arg_set A_aq v d = d\<lparr>dec_aq := ucast v\<rparr>"
| "arg_set A_rl v d = d\<lparr>dec_rl := ucast v\<rparr>"
| "arg_set A_pred v d = d\<lparr>dec_pred := ucast v\<rparr>"
| "arg_set A_succ v d = d\<lparr>dec_succ := ucast v\<rparr>"
| "arg_set (A_simm W k) v d = d\<lparr>dec_imm := ucast v\<rparr>"
| "arg_set (A_uimm W) v d = d\<lparr>dec_imm := ucast v\<rparr>"

primrec arg_get :: "arg \<Rightarrow> decode \<Rightarrow> u64" where
  "arg_get A_rd d = ucast (dec_rd d)"
| "arg_get A_rs1 d = ucast (dec_rs1 d)"
| "arg_get A_rs2 d = ucast (dec_rs2 d)"
| "arg_get A_rs3 d = ucast (dec_rs3 d)"
| "arg_get A_rm d = ucast (dec_rm d)"
| "arg_get A_aq d = ucast (dec_aq d)"
| "arg_get A_rl d = ucast (dec_rl d)"
| "arg_get A_pred d = ucast (dec_pred d)"
| "arg_get A_succ d = ucast (dec_succ d)"
| "arg_get (A_simm W k) d = scast (dec_imm d)"
| "arg_get (A_uimm W) d = scast (dec_imm d)"

definition build :: "opcode \<Rightarrow> arg list \<Rightarrow> u64 list \<Rightarrow> decode" where
  "build op args xs = fold (\<lambda>(a, v) d. arg_set a v d) (zip args xs) (decode_init\<lparr>dec_op := op\<rparr>)"

section \<open>The table\<close>

text \<open>Every emitter but those of \<open>csrrwi\<close>, \<open>csrrsi\<close> and \<open>csrrci\<close>.\<close>

definition emitters :: "(opcode \<times> arg list \<times> (u64 list \<Rightarrow> inst_t option)) list" where
  "emitters = [
    (rv_op_lui, [A_rd, A_simm 32 12], \<lambda>xs. case xs of [a, b] \<Rightarrow> emit_lui a b | _ \<Rightarrow> None),
    (rv_op_auipc, [A_rd, A_simm 32 12], \<lambda>xs. case xs of [a, b] \<Rightarrow> emit_auipc a b | _ \<Rightarrow> None),
    (rv_op_jal, [A_rd, A_simm 21 1], \<lambda>xs. case xs of [a, b] \<Rightarrow> emit_jal a b | _ \<Rightarrow> None),
    (rv_op_jalr, [A_rd, A_rs1, A_simm 12 0], \<lambda>xs. case xs of [a, b, c] \<Rightarrow> emit_jalr a b c | _ \<Rightarrow> None),
    (rv_op_beq, [A_rs1, A_rs2, A_simm 13 1], \<lambda>xs. case xs of [a, b, c] \<Rightarrow> emit_beq a b c | _ \<Rightarrow> None),
    (rv_op_bne, [A_rs1, A_rs2, A_simm 13 1], \<lambda>xs. case xs of [a, b, c] \<Rightarrow> emit_bne a b c | _ \<Rightarrow> None),
    (rv_op_blt, [A_rs1, A_rs2, A_simm 13 1], \<lambda>xs. case xs of [a, b, c] \<Rightarrow> emit_blt a b c | _ \<Rightarrow> None),
    (rv_op_bge, [A_rs1, A_rs2, A_simm 13 1], \<lambda>xs. case xs of [a, b, c] \<Rightarrow> emit_bge a b c | _ \<Rightarrow> None),
    (rv_op_bltu, [A_rs1, A_rs2, A_simm 13 1], \<lambda>xs. case xs of [a, b, c] \<Rightarrow> emit_bltu a b c | _ \<Rightarrow> None),
    (rv_op_bgeu, [A_rs1, A_rs2, A_simm 13 1], \<lambda>xs. case xs of [a, b, c] \<Rightarrow> emit_bgeu a b c | _ \<Rightarrow> None),
    (rv_op_lb, [A_rd, A_rs1, A_simm 12 0], \<lambda>xs. case xs of [a, b, c] \<Rightarrow> emit_lb a b c | _ \<Rightarrow> None),
    (rv_op_lh, [A_rd, A_rs1, A_simm 12 0], \<lambda>xs. case xs of [a, b, c] \<Rightarrow> emit_lh a b c | _ \<Rightarrow> None),
    (rv_op_lw, [A_rd, A_rs1, A_simm 12 0], \<lambda>xs. case xs of [a, b, c] \<Rightarrow> emit_lw a b c | _ \<Rightarrow> None),
    (rv_op_lbu, [A_rd, A_rs1, A_simm 12 0], \<lambda>xs. case xs of [a, b, c] \<Rightarrow> emit_lbu a b c | _ \<Rightarrow> None),
    (rv_op_lhu, [A_rd, A_rs1, A_simm 12 0], \<lambda>xs. case xs of [a, b, c] \<Rightarrow> emit_lhu a b c | _ \<Rightarrow> None),
    (rv_op_sb, [A_rs1, A_rs2, A_simm 12 0], \<lambda>xs. case xs of [a, b, c] \<Rightarrow> emit_sb a b c | _ \<Rightarrow> None),
    (rv_op_sh, [A_rs1, A_rs2, A_simm 12 0], \<lambda>xs. case xs of [a, b, c] \<Rightarrow> emit_sh a b c | _ \<Rightarrow> None),
    (rv_op_sw, [A_rs1, A_rs2, A_simm 12 0], \<lambda>xs. case xs of [a, b, c] \<Rightarrow> emit_sw a b c | _ \<Rightarrow> None),
    (rv_op_addi, [A_rd, A_rs1, A_simm 12 0], \<lambda>xs. case xs of [a, b, c] \<Rightarrow> emit_addi a b c | _ \<Rightarrow> None),
    (rv_op_slti, [A_rd, A_rs1, A_simm 12 0], \<lambda>xs. case xs of [a, b, c] \<Rightarrow> emit_slti a b c | _ \<Rightarrow> None),
    (rv_op_sltiu, [A_rd, A_rs1, A_simm 12 0], \<lambda>xs. case xs of [a, b, c] \<Rightarrow> emit_sltiu a b c | _ \<Rightarrow> None),
    (rv_op_xori, [A_rd, A_rs1, A_simm 12 0], \<lambda>xs. case xs of [a, b, c] \<Rightarrow> emit_xori a b c | _ \<Rightarrow> None),
    (rv_op_ori, [A_rd, A_rs1, A_simm 12 0], \<lambda>xs. case xs of [a, b, c] \<Rightarrow> emit_ori a b c | _ \<Rightarrow> None),
    (rv_op_andi, [A_rd, A_rs1, A_simm 12 0], \<lambda>xs. case xs of [a, b, c] \<Rightarrow> emit_andi a b c | _ \<Rightarrow> None),
    (rv_op_slli, [A_rd, A_rs1, A_uimm 7], \<lambda>xs. case xs of [a, b, c] \<Rightarrow> emit_slli a b c | _ \<Rightarrow> None),
    (rv_op_srli, [A_rd, A_rs1, A_uimm 7], \<lambda>xs. case xs of [a, b, c] \<Rightarrow> emit_srli a b c | _ \<Rightarrow> None),
    (rv_op_srai, [A_rd, A_rs1, A_uimm 7], \<lambda>xs. case xs of [a, b, c] \<Rightarrow> emit_srai a b c | _ \<Rightarrow> None),
    (rv_op_add, [A_rd, A_rs1, A_rs2], \<lambda>xs. case xs of [a, b, c] \<Rightarrow> emit_add a b c | _ \<Rightarrow> None),
    (rv_op_sub, [A_rd, A_rs1, A_rs2], \<lambda>xs. case xs of [a, b, c] \<Rightarrow> emit_sub a b c | _ \<Rightarrow> None),
    (rv_op_sll, [A_rd, A_rs1, A_rs2], \<lambda>xs. case xs of [a, b, c] \<Rightarrow> emit_sll a b c | _ \<Rightarrow> None),
    (rv_op_slt, [A_rd, A_rs1, A_rs2], \<lambda>xs. case xs of [a, b, c] \<Rightarrow> emit_slt a b c | _ \<Rightarrow> None),
    (rv_op_sltu, [A_rd, A_rs1, A_rs2], \<lambda>xs. case xs of [a, b, c] \<Rightarrow> emit_sltu a b c | _ \<Rightarrow> None),
    (rv_op_xor, [A_rd, A_rs1, A_rs2], \<lambda>xs. case xs of [a, b, c] \<Rightarrow> emit_xor a b c | _ \<Rightarrow> None),
    (rv_op_srl, [A_rd, A_rs1, A_rs2], \<lambda>xs. case xs of [a, b, c] \<Rightarrow> emit_srl a b c | _ \<Rightarrow> None),
    (rv_op_sra, [A_rd, A_rs1, A_rs2], \<lambda>xs. case xs of [a, b, c] \<Rightarrow> emit_sra a b c | _ \<Rightarrow> None),
    (rv_op_or, [A_rd, A_rs1, A_rs2], \<lambda>xs. case xs of [a, b, c] \<Rightarrow> emit_or a b c | _ \<Rightarrow> None),
    (rv_op_and, [A_rd, A_rs1, A_rs2], \<lambda>xs. case xs of [a, b, c] \<Rightarrow> emit_and a b c | _ \<Rightarrow> None),
    (rv_op_fence, [A_pred, A_succ], \<lambda>xs. case xs of [a, b] \<Rightarrow> emit_fence a b | _ \<Rightarrow> None),
    (rv_op_fence_i, [], \<lambda>xs. case xs of [] \<Rightarrow> emit_fence_i | _ \<Rightarrow> None),
    (rv_op_lwu, [A_rd, A_rs1, A_simm 12 0], \<lambda>xs. case xs of [a, b, c] \<Rightarrow> emit_lwu a b c | _ \<Rightarrow> None),
    (rv_op_ld, [A_rd, A_rs1, A_simm 12 0], \<lambda>xs. case xs of [a, b, c] \<Rightarrow> emit_ld a b c | _ \<Rightarrow> None),
    (rv_op_sd, [A_rs1, A_rs2, A_simm 12 0], \<lambda>xs. case xs of [a, b, c] \<Rightarrow> emit_sd a b c | _ \<Rightarrow> None),
    (rv_op_addiw, [A_rd, A_rs1, A_simm 12 0], \<lambda>xs. case xs of [a, b, c] \<Rightarrow> emit_addiw a b c | _ \<Rightarrow> None),
    (rv_op_slliw, [A_rd, A_rs1, A_uimm 5], \<lambda>xs. case xs of [a, b, c] \<Rightarrow> emit_slliw a b c | _ \<Rightarrow> None),
    (rv_op_srliw, [A_rd, A_rs1, A_uimm 5], \<lambda>xs. case xs of [a, b, c] \<Rightarrow> emit_srliw a b c | _ \<Rightarrow> None),
    (rv_op_sraiw, [A_rd, A_rs1, A_uimm 5], \<lambda>xs. case xs of [a, b, c] \<Rightarrow> emit_sraiw a b c | _ \<Rightarrow> None),
    (rv_op_addw, [A_rd, A_rs1, A_rs2], \<lambda>xs. case xs of [a, b, c] \<Rightarrow> emit_addw a b c | _ \<Rightarrow> None),
    (rv_op_subw, [A_rd, A_rs1, A_rs2], \<lambda>xs. case xs of [a, b, c] \<Rightarrow> emit_subw a b c | _ \<Rightarrow> None),
    (rv_op_sllw, [A_rd, A_rs1, A_rs2], \<lambda>xs. case xs of [a, b, c] \<Rightarrow> emit_sllw a b c | _ \<Rightarrow> None),
    (rv_op_srlw, [A_rd, A_rs1, A_rs2], \<lambda>xs. case xs of [a, b, c] \<Rightarrow> emit_srlw a b c | _ \<Rightarrow> None),
    (rv_op_sraw, [A_rd, A_rs1, A_rs2], \<lambda>xs. case xs of [a, b, c] \<Rightarrow> emit_sraw a b c | _ \<Rightarrow> None),
    (rv_op_ldu, [A_rd, A_rs1, A_simm 12 0], \<lambda>xs. case xs of [a, b, c] \<Rightarrow> emit_ldu a b c | _ \<Rightarrow> None),
    (rv_op_lq, [A_rd, A_rs1, A_simm 12 0], \<lambda>xs. case xs of [a, b, c] \<Rightarrow> emit_lq a b c | _ \<Rightarrow> None),
    (rv_op_sq, [A_rs1, A_rs2, A_simm 12 0], \<lambda>xs. case xs of [a, b, c] \<Rightarrow> emit_sq a b c | _ \<Rightarrow> None),
    (rv_op_addid, [A_rd, A_rs1, A_simm 12 0], \<lambda>xs. case xs of [a, b, c] \<Rightarrow> emit_addid a b c | _ \<Rightarrow> None),
    (rv_op_sllid, [A_rd, A_rs1, A_uimm 6], \<lambda>xs. case xs of [a, b, c] \<Rightarrow> emit_sllid a b c | _ \<Rightarrow> None),
    (rv_op_srlid, [A_rd, A_rs1, A_uimm 6], \<lambda>xs. case xs of [a, b, c] \<Rightarrow> emit_srlid a b c | _ \<Rightarrow> None),
    (rv_op_sraid, [A_rd, A_rs1, A_uimm 6], \<lambda>xs. case xs of [a, b, c] \<Rightarrow> emit_sraid a b c | _ \<Rightarrow> None),
    (rv_op_addd, [A_rd, A_rs1, A_rs2], \<lambda>xs. case xs of [a, b, c] \<Rightarrow> emit_addd a b c | _ \<Rightarrow> None),
    (rv_op_subd, [A_rd, A_rs1, A_rs2], \<lambda>xs. case xs of [a, b, c] \<Rightarrow> emit_subd a b c | _ \<Rightarrow> None),
    (rv_op_slld, [A_rd, A_rs1, A_rs2], \<lambda>xs. case xs of [a, b, c] \<Rightarrow> emit_slld a b c | _ \<Rightarrow> None),
    (rv_op_srld, [A_rd, A_rs1, A_rs2], \<lambda>xs. case xs of [a, b, c] \<Rightarrow> emit_srld a b c | _ \<Rightarrow> None),
    (rv_op_srad, [A_rd, A_rs1, A_rs2], \<lambda>xs. case xs of [a, b, c] \<Rightarrow> emit_srad a b c | _ \<Rightarrow> None),
    (rv_op_mul, [A_rd, A_rs1, A_rs2], \<lambda>xs. case xs of [a, b, c] \<Rightarrow> emit_mul a b c | _ \<Rightarrow> None),
    (rv_op_mulh, [A_rd, A_rs1, A_rs2], \<lambda>xs. case xs of [a, b, c] \<Rightarrow> emit_mulh a b c | _ \<Rightarrow> None),
    (rv_op_mulhsu, [A_rd, A_rs1, A_rs2], \<lambda>xs. case xs of [a, b, c] \<Rightarrow> emit_mulhsu a b c | _ \<Rightarrow> None),
    (rv_op_mulhu, [A_rd, A_rs1, A_rs2], \<lambda>xs. case xs of [a, b, c] \<Rightarrow> emit_mulhu a b c | _ \<Rightarrow> None),
    (rv_op_div, [A_rd, A_rs1, A_rs2], \<lambda>xs. case xs of [a, b, c] \<Rightarrow> emit_div a b c | _ \<Rightarrow> None),
    (rv_op_divu, [A_rd, A_rs1, A_rs2], \<lambda>xs. case xs of [a, b, c] \<Rightarrow> emit_divu a b c | _ \<Rightarrow> None),
    (rv_op_rem, [A_rd, A_rs1, A_rs2], \<lambda>xs. case xs of [a, b, c] \<Rightarrow> emit_rem a b c | _ \<Rightarrow> None),
    (rv_op_remu, [A_rd, A_rs1, A_rs2], \<lambda>xs. case xs of [a, b, c] \<Rightarrow> emit_remu a b c | _ \<Rightarrow> None),
    (rv_op_mulw, [A_rd, A_rs1, A_rs2], \<lambda>xs. case xs of [a, b, c] \<Rightarrow> emit_mulw a b c | _ \<Rightarrow> None),
    (rv_op_divw, [A_rd, A_rs1, A_rs2], \<lambda>xs. case xs of [a, b, c] \<Rightarrow> emit_divw a b c | _ \<Rightarrow> None),
    (rv_op_divuw, [A_rd, A_rs1, A_rs2], \<lambda>xs. case xs of [a, b, c] \<Rightarrow> emit_divuw a b c | _ \<Rightarrow> None),
    (rv_op_remw, [A_rd, A_rs1, A_rs2], \<lambda>xs. case xs of [a, b, c] \<Rightarrow> emit_remw a b c | _ \<Rightarrow> None),
    (rv_op_remuw, [A_rd, A_rs1, A_rs2], \<lambda>xs. case xs of [a, b, c] \<Rightarrow> emit_remuw a b c | _ \<Rightarrow> None),
    (rv_op_muld, [A_rd, A_rs1, A_rs2], \<lambda>xs. case xs of [a, b, c] \<Rightarrow> emit_muld a b c | _ \<Rightarrow> None),
    (rv_op_divd, [A_rd, A_rs1, A_rs2], \<lambda>xs. case xs of [a, b, c] \<Rightarrow> emit_divd a b c | _ \<Rightarrow> None),
    (rv_op_divud, [A_rd, A_rs1, A_rs2], \<lambda>xs. case xs of [a, b, c] \<Rightarrow> emit_divud a b c | _ \<Rightarrow> None),
    (rv_op_remd, [A_rd, A_rs1, A_rs2], \<lambda>xs. case xs of [a, b, c] \<Rightarrow> emit_remd a b c | _ \<Rightarrow> None),
    (rv_op_remud, [A_rd, A_rs1, A_rs2], \<lambda>xs. case xs of [a, b, c] \<Rightarrow> emit_remud a b c | _ \<Rightarrow> None),
    (rv_op_lr_w, [A_rd, A_rs1, A_aq, A_rl], \<lambda>xs. case xs of [a, b, c, d] \<Rightarrow> emit_lr_w a b c d | _ \<Rightarrow> None),
    (rv_op_sc_w, [A_rd, A_rs1, A_rs2, A_aq, A_rl], \<lambda>xs. case xs of [a, b, c, d, e] \<Rightarrow> emit_sc_w a b c d e | _ \<Rightarrow> None),
    (rv_op_amoswap_w, [A_rd, A_rs1, A_rs2, A_aq, A_rl], \<lambda>xs. case xs of [a, b, c, d, e] \<Rightarrow> emit_amoswap_w a b c d e | _ \<Rightarrow> None),
    (rv_op_amoadd_w, [A_rd, A_rs1, A_rs2, A_aq, A_rl], \<lambda>xs. case xs of [a, b, c, d, e] \<Rightarrow> emit_amoadd_w a b c d e | _ \<Rightarrow> None),
    (rv_op_amoxor_w, [A_rd, A_rs1, A_rs2, A_aq, A_rl], \<lambda>xs. case xs of [a, b, c, d, e] \<Rightarrow> emit_amoxor_w a b c d e | _ \<Rightarrow> None),
    (rv_op_amoor_w, [A_rd, A_rs1, A_rs2, A_aq, A_rl], \<lambda>xs. case xs of [a, b, c, d, e] \<Rightarrow> emit_amoor_w a b c d e | _ \<Rightarrow> None),
    (rv_op_amoand_w, [A_rd, A_rs1, A_rs2, A_aq, A_rl], \<lambda>xs. case xs of [a, b, c, d, e] \<Rightarrow> emit_amoand_w a b c d e | _ \<Rightarrow> None),
    (rv_op_amomin_w, [A_rd, A_rs1, A_rs2, A_aq, A_rl], \<lambda>xs. case xs of [a, b, c, d, e] \<Rightarrow> emit_amomin_w a b c d e | _ \<Rightarrow> None),
    (rv_op_amomax_w, [A_rd, A_rs1, A_rs2, A_aq, A_rl], \<lambda>xs. case xs of [a, b, c, d, e] \<Rightarrow> emit_amomax_w a b c d e | _ \<Rightarrow> None),
    (rv_op_amominu_w, [A_rd, A_rs1, A_rs2, A_aq, A_rl], \<lambda>xs. case xs of [a, b, c, d, e] \<Rightarrow> emit_amominu_w a b c d e | _ \<Rightarrow> None),
    (rv_op_amomaxu_w, [A_rd, A_rs1, A_rs2, A_aq, A_rl], \<lambda>xs. case xs of [a, b, c, d, e] \<Rightarrow> emit_amomaxu_w a b c d e | _ \<Rightarrow> None),
    (rv_op_lr_d, [A_rd, A_rs1, A_aq, A_rl], \<lambda>xs. case xs of [a, b, c, d] \<Rightarrow> emit_lr_d a b c d | _ \<Rightarrow> None),
    (rv_op_sc_d, [A_rd, A_rs1, A_rs2, A_aq, A_rl], \<lambda>xs. case xs of [a, b, c, d, e] \<Rightarrow> emit_sc_d a b c d e | _ \<Rightarrow> None),
    (rv_op_amoswap_d, [A_rd, A_rs1, A_rs2, A_aq, A_rl], \<lambda>xs. case xs of [a, b, c, d, e] \<Rightarrow> emit_amoswap_d a b c d e | _ \<Rightarrow> None),
    (rv_op_amoadd_d, [A_rd, A_rs1, A_rs2, A_aq, A_rl], \<lambda>xs. case xs of [a, b, c, d, e] \<Rightarrow> emit_amoadd_d a b c d e | _ \<Rightarrow> None),
    (rv_op_amoxor_d, [A_rd, A_rs1, A_rs2, A_aq, A_rl], \<lambda>xs. case xs of [a, b, c, d, e] \<Rightarrow> emit_amoxor_d a b c d e | _ \<Rightarrow> None),
    (rv_op_amoor_d, [A_rd, A_rs1, A_rs2, A_aq, A_rl], \<lambda>xs. case xs of [a, b, c, d, e] \<Rightarrow> emit_amoor_d a b c d e | _ \<Rightarrow> None),
    (rv_op_amoand_d, [A_rd, A_rs1, A_rs2, A_aq, A_rl], \<lambda>xs. case xs of [a, b, c, d, e] \<Rightarrow> emit_amoand_d a b c d e | _ \<Rightarrow> None),
    (rv_op_amomin_d, [A_rd, A_rs1, A_rs2, A_aq, A_rl], \<lambda>xs. case xs of [a, b, c, d, e] \<Rightarrow> emit_amomin_d a b c d e | _ \<Rightarrow> None),
    (rv_op_amomax_d, [A_rd, A_rs1, A_rs2, A_aq, A_rl], \<lambda>xs. case xs of [a, b, c, d, e] \<Rightarrow> emit_amomax_d a b c d e | _ \<Rightarrow> None),
    (rv_op_amominu_d, [A_rd, A_rs1, A_rs2, A_aq, A_rl], \<lambda>xs. case xs of [a, b, c, d, e] \<Rightarrow> emit_amominu_d a b c d e | _ \<Rightarrow> None),
    (rv_op_amomaxu_d, [A_rd, A_rs1, A_rs2, A_aq, A_rl], \<lambda>xs. case xs of [a, b, c, d, e] \<Rightarrow> emit_amomaxu_d a b c d e | _ \<Rightarrow> None),
    (rv_op_lr_q, [A_rd, A_rs1, A_aq, A_rl], \<lambda>xs. case xs of [a, b, c, d] \<Rightarrow> emit_lr_q a b c d | _ \<Rightarrow> None),
    (rv_op_sc_q, [A_rd, A_rs1, A_rs2, A_aq, A_rl], \<lambda>xs. case xs of [a, b, c, d, e] \<Rightarrow> emit_sc_q a b c d e | _ \<Rightarrow> None),
    (rv_op_amoswap_q, [A_rd, A_rs1, A_rs2, A_aq, A_rl], \<lambda>xs. case xs of [a, b, c, d, e] \<Rightarrow> emit_amoswap_q a b c d e | _ \<Rightarrow> None),
    (rv_op_amoadd_q, [A_rd, A_rs1, A_rs2, A_aq, A_rl], \<lambda>xs. case xs of [a, b, c, d, e] \<Rightarrow> emit_amoadd_q a b c d e | _ \<Rightarrow> None),
    (rv_op_amoxor_q, [A_rd, A_rs1, A_rs2, A_aq, A_rl], \<lambda>xs. case xs of [a, b, c, d, e] \<Rightarrow> emit_amoxor_q a b c d e | _ \<Rightarrow> None),
    (rv_op_amoor_q, [A_rd, A_rs1, A_rs2, A_aq, A_rl], \<lambda>xs. case xs of [a, b, c, d, e] \<Rightarrow> emit_amoor_q a b c d e | _ \<Rightarrow> None),
    (rv_op_amoand_q, [A_rd, A_rs1, A_rs2, A_aq, A_rl], \<lambda>xs. case xs of [a, b, c, d, e] \<Rightarrow> emit_amoand_q a b c d e | _ \<Rightarrow> None),
    (rv_op_amomin_q, [A_rd, A_rs1, A_rs2, A_aq, A_rl], \<lambda>xs. case xs of [a, b, c, d, e] \<Rightarrow> emit_amomin_q a b c d e | _ \<Rightarrow> None),
    (rv_op_amomax_q, [A_rd, A_rs1, A_rs2, A_aq, A_rl], \<lambda>xs. case xs of [a, b, c, d, e] \<Rightarrow> emit_amomax_q a b c d e | _ \<Rightarrow> None),
    (rv_op_amominu_q, [A_rd, A_rs1, A_rs2, A_aq, A_rl], \<lambda>xs. case xs of [a, b, c, d, e] \<Rightarrow> emit_amominu_q a b c d e | _ \<Rightarrow> None),
    (rv_op_amomaxu_q, [A_rd, A_rs1, A_rs2, A_aq, A_rl], \<lambda>xs. case xs of [a, b, c, d, e] \<Rightarrow> emit_amomaxu_q a b c d e | _ \<Rightarrow> None),
    (rv_op_ecall, [], \<lambda>xs. case xs of [] \<Rightarrow> emit_ecall | _ \<Rightarrow> None),
    (rv_op_ebreak, [], \<lambda>xs. case xs of [] \<Rightarrow> emit_ebreak | _ \<Rightarrow> None),
    (rv_op_uret, [], \<lambda>xs. case xs of [] \<Rightarrow> emit_uret | _ \<Rightarrow> None),
    (rv_op_sret, [], \<lambda>xs. case xs of [] \<Rightarrow> emit_sret | _ \<Rightarrow> None),
    (rv_op_hret, [], \<lambda>xs. case xs of [] \<Rightarrow> emit_hret | _ \<Rightarrow> None),
    (rv_op_mret, [], \<lambda>xs. case xs of [] \<Rightarrow> emit_mret | _ \<Rightarrow> None),
    (rv_op_dret, [], \<lambda>xs. case xs of [] \<Rightarrow> emit_dret | _ \<Rightarrow> None),
    (rv_op_sfence_vm, [A_rs1], \<lambda>xs. case xs of [a] \<Rightarrow> emit_sfence_vm a | _ \<Rightarrow> None),
    (rv_op_wfi, [], \<lambda>xs. case xs of [] \<Rightarrow> emit_wfi | _ \<Rightarrow> None),
    (rv_op_csrrw, [A_rd, A_rs1, A_uimm 12], \<lambda>xs. case xs of [a, b, c] \<Rightarrow> emit_csrrw a b c | _ \<Rightarrow> None),
    (rv_op_csrrs, [A_rd, A_rs1, A_uimm 12], \<lambda>xs. case xs of [a, b, c] \<Rightarrow> emit_csrrs a b c | _ \<Rightarrow> None),
    (rv_op_csrrc, [A_rd, A_rs1, A_uimm 12], \<lambda>xs. case xs of [a, b, c] \<Rightarrow> emit_csrrc a b c | _ \<Rightarrow> None),
    (rv_op_flw, [A_rd, A_rs1, A_simm 12 0], \<lambda>xs. case xs of [a, b, c] \<Rightarrow> emit_flw a b c | _ \<Rightarrow> None),
    (rv_op_fsw, [A_rs1, A_rs2, A_simm 12 0], \<lambda>xs. case xs of [a, b, c] \<Rightarrow> emit_fsw a b c | _ \<Rightarrow> None),
    (rv_op_fmadd_s, [A_rd, A_rs1, A_rs2, A_rs3, A_rm], \<lambda>xs. case xs of [a, b, c, d, e] \<Rightarrow> emit_fmadd_s a b c d e | _ \<Rightarrow> None),
    (rv_op_fmsub_s, [A_rd, A_rs1, A_rs2, A_rs3, A_rm], \<lambda>xs. case xs of [a, b, c, d, e] \<Rightarrow> emit_fmsub_s a b c d e | _ \<Rightarrow> None),
    (rv_op_fnmsub_s, [A_rd, A_rs1, A_rs2, A_rs3, A_rm], \<lambda>xs. case xs of [a, b, c, d, e] \<Rightarrow> emit_fnmsub_s a b c d e | _ \<Rightarrow> None),
    (rv_op_fnmadd_s, [A_rd, A_rs1, A_rs2, A_rs3, A_rm], \<lambda>xs. case xs of [a, b, c, d, e] \<Rightarrow> emit_fnmadd_s a b c d e | _ \<Rightarrow> None),
    (rv_op_fadd_s, [A_rd, A_rs1, A_rs2, A_rm], \<lambda>xs. case xs of [a, b, c, d] \<Rightarrow> emit_fadd_s a b c d | _ \<Rightarrow> None),
    (rv_op_fsub_s, [A_rd, A_rs1, A_rs2, A_rm], \<lambda>xs. case xs of [a, b, c, d] \<Rightarrow> emit_fsub_s a b c d | _ \<Rightarrow> None),
    (rv_op_fmul_s, [A_rd, A_rs1, A_rs2, A_rm], \<lambda>xs. case xs of [a, b, c, d] \<Rightarrow> emit_fmul_s a b c d | _ \<Rightarrow> None),
    (rv_op_fdiv_s, [A_rd, A_rs1, A_rs2, A_rm], \<lambda>xs. case xs of [a, b, c, d] \<Rightarrow> emit_fdiv_s a b c d | _ \<Rightarrow> None),
    (rv_op_fsgnj_s, [A_rd, A_rs1, A_rs2], \<lambda>xs. case xs of [a, b, c] \<Rightarrow> emit_fsgnj_s a b c | _ \<Rightarrow> None),
    (rv_op_fsgnjn_s, [A_rd, A_rs1, A_rs2], \<lambda>xs. case xs of [a, b, c] \<Rightarrow> emit_fsgnjn_s a b c | _ \<Rightarrow> None),
    (rv_op_fsgnjx_s, [A_rd, A_rs1, A_rs2], \<lambda>xs. case xs of [a, b, c] \<Rightarrow> emit_fsgnjx_s a b c | _ \<Rightarrow> None),
    (rv_op_fmin_s, [A_rd, A_rs1, A_rs2], \<lambda>xs. case xs of [a, b, c] \<Rightarrow> emit_fmin_s a b c | _ \<Rightarrow> None),
    (rv_op_fmax_s, [A_rd, A_rs1, A_rs2], \<lambda>xs. case xs of [a, b, c] \<Rightarrow> emit_fmax_s a b c | _ \<Rightarrow> None),
    (rv_op_fsqrt_s, [A_rd, A_rs1, A_rm], \<lambda>xs. case xs of [a, b, c] \<Rightarrow> emit_fsqrt_s a b c | _ \<Rightarrow> None),
    (rv_op_fle_s, [A_rd, A_rs1, A_rs2], \<lambda>xs. case xs of [a, b, c] \<Rightarrow> emit_fle_s a b c | _ \<Rightarrow> None),
    (rv_op_flt_s, [A_rd, A_rs1, A_rs2], \<lambda>xs. case xs of [a, b, c] \<Rightarrow> emit_flt_s a b c | _ \<Rightarrow> None),
    (rv_op_feq_s, [A_rd, A_rs1, A_rs2], \<lambda>xs. case xs of [a, b, c] \<Rightarrow> emit_feq_s a b c | _ \<Rightarrow> None),
    (rv_op_fcvt_w_s, [A_rd, A_rs1, A_rm], \<lambda>xs. case xs of [a, b, c] \<Rightarrow> emit_fcvt_w_s a b c | _ \<Rightarrow> None),
    (rv_op_fcvt_wu_s, [A_rd, A_rs1, A_rm], \<lambda>xs. case xs of [a, b, c] \<Rightarrow> emit_fcvt_wu_s a b c | _ \<Rightarrow> None),
    (rv_op_fcvt_s_w, [A_rd, A_rs1, A_rm], \<lambda>xs. case xs of [a, b, c] \<Rightarrow> emit_fcvt_s_w a b c | _ \<Rightarrow> None),
    (rv_op_fcvt_s_wu, [A_rd, A_rs1, A_rm], \<lambda>xs. case xs of [a, b, c] \<Rightarrow> emit_fcvt_s_wu a b c | _ \<Rightarrow> None),
    (rv_op_fmv_x_s, [A_rd, A_rs1], \<lambda>xs. case xs of [a, b] \<Rightarrow> emit_fmv_x_s a b | _ \<Rightarrow> None),
    (rv_op_fclass_s, [A_rd, A_rs1], \<lambda>xs. case xs of [a, b] \<Rightarrow> emit_fclass_s a b | _ \<Rightarrow> None),
    (rv_op_fmv_s_x, [A_rd, A_rs1], \<lambda>xs. case xs of [a, b] \<Rightarrow> emit_fmv_s_x a b | _ \<Rightarrow> None),
    (rv_op_fcvt_l_s, [A_rd, A_rs1, A_rm], \<lambda>xs. case xs of [a, b, c] \<Rightarrow> emit_fcvt_l_s a b c | _ \<Rightarrow> None),
    (rv_op_fcvt_lu_s, [A_rd, A_rs1, A_rm], \<lambda>xs. case xs of [a, b, c] \<Rightarrow> emit_fcvt_lu_s a b c | _ \<Rightarrow> None),
    (rv_op_fcvt_s_l, [A_rd, A_rs1, A_rm], \<lambda>xs. case xs of [a, b, c] \<Rightarrow> emit_fcvt_s_l a b c | _ \<Rightarrow> None),
    (rv_op_fcvt_s_lu, [A_rd, A_rs1, A_rm], \<lambda>xs. case xs of [a, b, c] \<Rightarrow> emit_fcvt_s_lu a b c | _ \<Rightarrow> None),
    (rv_op_fld, [A_rd, A_rs1, A_simm 12 0], \<lambda>xs. case xs of [a, b, c] \<Rightarrow> emit_fld a b c | _ \<Rightarrow> None),
    (rv_op_fsd, [A_rs1, A_rs2, A_simm 12 0], \<lambda>xs. case xs of [a, b, c] \<Rightarrow> emit_fsd a b c | _ \<Rightarrow> None),
    (rv_op_fmadd_d, [A_rd, A_rs1, A_rs2, A_rs3, A_rm], \<lambda>xs. case xs of [a, b, c, d, e] \<Rightarrow> emit_fmadd_d a b c d e | _ \<Rightarrow> None),
    (rv_op_fmsub_d, [A_rd, A_rs1, A_rs2, A_rs3, A_rm], \<lambda>xs. case xs of [a, b, c, d, e] \<Rightarrow> emit_fmsub_d a b c d e | _ \<Rightarrow> None),
    (rv_op_fnmsub_d, [A_rd, A_rs1, A_rs2, A_rs3, A_rm], \<lambda>xs. case xs of [a, b, c, d, e] \<Rightarrow> emit_fnmsub_d a b c d e | _ \<Rightarrow> None),
    (rv_op_fnmadd_d, [A_rd, A_rs1, A_rs2, A_rs3, A_rm], \<lambda>xs. case xs of [a, b, c, d, e] \<Rightarrow> emit_fnmadd_d a b c d e | _ \<Rightarrow> None),
    (rv_op_fadd_d, [A_rd, A_rs1, A_rs2, A_rm], \<lambda>xs. case xs of [a, b, c, d] \<Rightarrow> emit_fadd_d a b c d | _ \<Rightarrow> None),
    (rv_op_fsub_d, [A_rd, A_rs1, A_rs2, A_rm], \<lambda>xs. case xs of [a, b, c, d] \<Rightarrow> emit_fsub_d a b c d | _ \<Rightarrow> None),
    (rv_op_fmul_d, [A_rd, A_rs1, A_rs2, A_rm], \<lambda>xs. case xs of [a, b, c, d] \<Rightarrow> emit_fmul_d a b c d | _ \<Rightarrow> None),
    (rv_op_fdiv_d, [A_rd, A_rs1, A_rs2, A_rm], \<lambda>xs. case xs of [a, b, c, d] \<Rightarrow> emit_fdiv_d a b c d | _ \<Rightarrow> None),
    (rv_op_fsgnj_d, [A_rd, A_rs1, A_rs2], \<lambda>xs. case xs of [a, b, c] \<Rightarrow> emit_fsgnj_d a b c | _ \<Rightarrow> None),
    (rv_op_fsgnjn_d, [A_rd, A_rs1, A_rs2], \<lambda>xs. case xs of [a, b, c] \<Rightarrow> emit_fsgnjn_d a b c | _ \<Rightarrow> None),
    (rv_op_fsgnjx_d, [A_rd, A_rs1, A_rs2], \<lambda>xs. case xs of [a, b, c] \<Rightarrow> emit_fsgnjx_d a b c | _ \<Rightarrow> None),
    (rv_op_fmin_d, [A_rd, A_rs1, A_rs2], \<lambda>xs. case xs of [a, b, c] \<Rightarrow> emit_fmin_d a b c | _ \<Rightarrow> None),
    (rv_op_fmax_d, [A_rd, A_rs1, A_rs2], \<lambda>xs. case xs of [a, b, c] \<Rightarrow> emit_fmax_d a b c | _ \<Rightarrow> None),
    (rv_op_fcvt_s_d, [A_rd, A_rs1, A_rm], \<lambda>xs. case xs of [a, b, c] \<Rightarrow> emit_fcvt_s_d a b c | _ \<Rightarrow> None),
    (rv_op_fcvt_d_s, [A_rd, A_rs1, A_rm], \<lambda>xs. case xs of [a, b, c] \<Rightarrow> emit_fcvt_d_s a b c | _ \<Rightarrow> None),
    (rv_op_fsqrt_d, [A_rd, A_rs1, A_rm], \<lambda>xs. case xs of [a, b, c] \<Rightarrow> emit_fsqrt_d a b c | _ \<Rightarrow> None),
    (rv_op_fle_d, [A_rd, A_rs1, A_rs2], \<lambda>xs. case xs of [a, b, c] \<Rightarrow> emit_fle_d a b c | _ \<Rightarrow> None),
    (rv_op_flt_d, [A_rd, A_rs1, A_rs2], \<lambda>xs. case xs of [a, b, c] \<Rightarrow> emit_flt_d a b c | _ \<Rightarrow> None),
    (rv_op_feq_d, [A_rd, A_rs1, A_rs2], \<lambda>xs. case xs of [a, b, c] \<Rightarrow> emit_feq_d a b c | _ \<Rightarrow> None),
    (rv_op_fcvt_w_d, [A_rd, A_rs1, A_rm], \<lambda>xs. case xs of [a, b, c] \<Rightarrow> emit_fcvt_w_d a b c | _ \<Rightarrow> None),
    (rv_op_fcvt_wu_d, [A_rd, A_rs1, A_rm], \<lambda>xs. case xs of [a, b, c] \<Rightarrow> emit_fcvt_wu_d a b c | _ \<Rightarrow> None),
    (rv_op_fcvt_d_w, [A_rd, A_rs1, A_rm], \<lambda>xs. case xs of [a, b, c] \<Rightarrow> emit_fcvt_d_w a b c | _ \<Rightarrow> None),
    (rv_op_fcvt_d_wu, [A_rd, A_rs1, A_rm], \<lambda>xs. case xs of [a, b, c] \<Rightarrow> emit_fcvt_d_wu a b c | _ \<Rightarrow> None),
    (rv_op_fclass_d, [A_rd, A_rs1], \<lambda>xs. case xs of [a, b] \<Rightarrow> emit_fclass_d a b | _ \<Rightarrow> None),
    (rv_op_fcvt_l_d, [A_rd, A_rs1, A_rm], \<lambda>xs. case xs of [a, b, c] \<Rightarrow> emit_fcvt_l_d a b c | _ \<Rightarrow> None),
    (rv_op_fcvt_lu_d, [A_rd, A_rs1, A_rm], \<lambda>xs. case xs of [a, b, c] \<Rightarrow> emit_fcvt_lu_d a b c | _ \<Rightarrow> None),
    (rv_op_fmv_x_d, [A_rd, A_rs1], \<lambda>xs. case xs of [a, b] \<Rightarrow> emit_fmv_x_d a b | _ \<Rightarrow> None),
    (rv_op_fcvt_d_l, [A_rd, A_rs1, A_rm], \<lambda>xs. case xs of [a, b, c] \<Rightarrow> emit_fcvt_d_l a b c | _ \<Rightarrow> None),
    (rv_op_fcvt_d_lu, [A_rd, A_rs1, A_rm], \<lambda>xs. case xs of [a, b, c] \<Rightarrow> emit_fcvt_d_lu a b c | _ \<Rightarrow> None),
    (rv_op_fmv_d_x, [A_rd, A_rs1], \<lambda>xs. case xs of [a, b] \<Rightarrow> emit_fmv_d_x a b | _ \<Rightarrow> None),
    (rv_op_flq, [A_rd, A_rs1, A_simm 12 0], \<lambda>xs. case xs of [a, b, c] \<Rightarrow> emit_flq a b c | _ \<Rightarrow> None),
    (rv_op_fsq, [A_rs1, A_rs2, A_simm 12 0], \<lambda>xs. case xs of [a, b, c] \<Rightarrow> emit_fsq a b c | _ \<Rightarrow> None),
    (rv_op_fmadd_q, [A_rd, A_rs1, A_rs2, A_rs3, A_rm], \<lambda>xs. case xs of [a, b, c, d, e] \<Rightarrow> emit_fmadd_q a b c d e | _ \<Rightarrow> None),
    (rv_op_fmsub_q, [A_rd, A_rs1, A_rs2, A_rs3, A_rm], \<lambda>xs. case xs of [a, b, c, d, e] \<Rightarrow> emit_fmsub_q a b c d e | _ \<Rightarrow> None),
    (rv_op_fnmsub_q, [A_rd, A_rs1, A_rs2, A_rs3, A_rm], \<lambda>xs. case xs of [a, b, c, d, e] \<Rightarrow> emit_fnmsub_q a b c d e | _ \<Rightarrow> None),
    (rv_op_fnmadd_q, [A_rd, A_rs1, A_rs2, A_rs3, A_rm], \<lambda>xs. case xs of [a, b, c, d, e] \<Rightarrow> emit_fnmadd_q a b c d e | _ \<Rightarrow> None),
    (rv_op_fadd_q, [A_rd, A_rs1, A_rs2, A_rm], \<lambda>xs. case xs of [a, b, c, d] \<Rightarrow> emit_fadd_q a b c d | _ \<Rightarrow> None),
    (rv_op_fsub_q, [A_rd, A_rs1, A_rs2, A_rm], \<lambda>xs. case xs of [a, b, c, d] \<Rightarrow> emit_fsub_q a b c d | _ \<Rightarrow> None),
    (rv_op_fmul_q, [A_rd, A_rs1, A_rs2, A_rm], \<lambda>xs. case xs of [a, b, c, d] \<Rightarrow> emit_fmul_q a b c d | _ \<Rightarrow> None),
    (rv_op_fdiv_q, [A_rd, A_rs1, A_rs2, A_rm], \<lambda>xs. case xs of [a, b, c, d] \<Rightarrow> emit_fdiv_q a b c d | _ \<Rightarrow> None),
    (rv_op_fsgnj_q, [A_rd, A_rs1, A_rs2], \<lambda>xs. case xs of [a, b, c] \<Rightarrow> emit_fsgnj_q a b c | _ \<Rightarrow> None),
    (rv_op_fsgnjn_q, [A_rd, A_rs1, A_rs2], \<lambda>xs. case xs of [a, b, c] \<Rightarrow> emit_fsgnjn_q a b c | _ \<Rightarrow> None),
    (rv_op_fsgnjx_q, [A_rd, A_rs1, A_rs2], \<lambda>xs. case xs of [a, b, c] \<Rightarrow> emit_fsgnjx_q a b c | _ \<Rightarrow> None),
    (rv_op_fmin_q, [A_rd, A_rs1, A_rs2], \<lambda>xs. case xs of [a, b, c] \<Rightarrow> emit_fmin_q a b c | _ \<Rightarrow> None),
    (rv_op_fmax_q, [A_rd, A_rs1, A_rs2], \<lambda>xs. case xs of [a, b, c] \<Rightarrow> emit_fmax_q a b c | _ \<Rightarrow> None),
    (rv_op_fcvt_s_q, [A_rd, A_rs1, A_rm], \<lambda>xs. case xs of [a, b, c] \<Rightarrow> emit_fcvt_s_q a b c | _ \<Rightarrow> None),
    (rv_op_fcvt_q_s, [A_rd, A_rs1, A_rm], \<lambda>xs. case xs of [a, b, c] \<Rightarrow> emit_fcvt_q_s a b c | _ \<Rightarrow> None),
    (rv_op_fcvt_d_q, [A_rd, A_rs1, A_rm], \<lambda>xs. case xs of [a, b, c] \<Rightarrow> emit_fcvt_d_q a b c | _ \<Rightarrow> None),
    (rv_op_fcvt_q_d, [A_rd, A_rs1, A_rm], \<lambda>xs. case xs of [a, b, c] \<Rightarrow> emit_fcvt_q_d a b c | _ \<Rightarrow> None),
    (rv_op_fsqrt_q, [A_rd, A_rs1, A_rm], \<lambda>xs. case xs of [a, b, c] \<Rightarrow> emit_fsqrt_q a b c | _ \<Rightarrow> None),
    (rv_op_fle_q, [A_rd, A_rs1, A_rs2], \<lambda>xs. case xs of [a, b, c] \<Rightarrow> emit_fle_q a b c | _ \<Rightarrow> None),
    (rv_op_flt_q, [A_rd, A_rs1, A_rs2], \<lambda>xs. case xs of [a, b, c] \<Rightarrow> emit_flt_q a b c | _ \<Rightarrow> None),
    (rv_op_feq_q, [A_rd, A_rs1, A_rs2], \<lambda>xs. case xs of [a, b, c] \<Rightarrow> emit_feq_q a b c | _ \<Rightarrow> None),
    (rv_op_fcvt_w_q, [A_rd, A_rs1, A_rm], \<lambda>xs. case xs of [a, b, c] \<Rightarrow> emit_fcvt_w_q a b c | _ \<Rightarrow> None),
    (rv_op_fcvt_wu_q, [A_rd, A_rs1, A_rm], \<lambda>xs. case xs of [a, b, c] \<Rightarrow> emit_fcvt_wu_q a b c | _ \<Rightarrow> None),
    (rv_op_fcvt_q_w, [A_rd, A_rs1, A_rm], \<lambda>xs. case xs of [a, b, c] \<Rightarrow> emit_fcvt_q_w a b c | _ \<Rightarrow> None),
    (rv_op_fcvt_q_wu, [A_rd, A_rs1, A_rm], \<lambda>xs. case xs of [a, b, c] \<Rightarrow> emit_fcvt_q_wu a b c | _ \<Rightarrow> None),
    (rv_op_fclass_q, [A_rd, A_rs1], \<lambda>xs. case xs of [a, b] \<Rightarrow> emit_fclass_q a b | _ \<Rightarrow> None),
    (rv_op_fcvt_l_q, [A_rd, A_rs1, A_rm], \<lambda>xs. case xs of [a, b, c] \<Rightarrow> emit_fcvt_l_q a b c | _ \<Rightarrow> None),
    (rv_op_fcvt_lu_q, [A_rd, A_rs1, A_rm], \<lambda>xs. case xs of [a, b, c] \<Rightarrow> emit_fcvt_lu_q a b c | _ \<Rightarrow> None),
    (rv_op_fcvt_q_l, [A_rd, A_rs1, A_rm], \<lambda>xs. case xs of [a, b, c] \<Rightarrow> emit_fcvt_q_l a b c | _ \<Rightarrow> None),
    (rv_op_fcvt_q_lu, [A_rd, A_rs1, A_rm], \<lambda>xs. case xs of [a, b, c] \<Rightarrow> emit_fcvt_q_lu a b c | _ \<Rightarrow> None),
    (rv_op_fmv_x_q, [A_rd, A_rs1], \<lambda>xs. case xs of [a, b] \<Rightarrow> emit_fmv_x_q a b | _ \<Rightarrow> None),
    (rv_op_fmv_q_x, [A_rd, A_rs1], \<lambda>xs. case xs of [a, b] \<Rightarrow> emit_fmv_q_x a b | _ \<Rightarrow> None)]"

text \<open>The shapes: a format, the operands, and the bits of the word the operands occupy.\<close>

definition emit_shapes :: "(rv_codec \<times> arg list \<times> inst_t) list" where
  "emit_shapes = [
    (rv_codec_u, [A_rd, A_simm 32 12], 0xffffff80),
    (rv_codec_uj, [A_rd, A_simm 21 1], 0xffffff80),
    (rv_codec_i, [A_rd, A_rs1, A_simm 12 0], 0xffff8f80),
    (rv_codec_sb, [A_rs1, A_rs2, A_simm 13 1], 0xffff8f80),
    (rv_codec_s, [A_rs1, A_rs2, A_simm 12 0], 0xffff8f80),
    (rv_codec_i_sh7, [A_rd, A_rs1, A_uimm 7], 0x7ff8f80),
    (rv_codec_r, [A_rd, A_rs1, A_rs2], 0x1ff8f80),
    (rv_codec_r_f, [A_pred, A_succ], 0xff00000),
    (rv_codec_none, [], 0x0),
    (rv_codec_i_sh5, [A_rd, A_rs1, A_uimm 5], 0x1ff8f80),
    (rv_codec_i_sh6, [A_rd, A_rs1, A_uimm 6], 0x3ff8f80),
    (rv_codec_r_l, [A_rd, A_rs1, A_aq, A_rl], 0x60f8f80),
    (rv_codec_r_a, [A_rd, A_rs1, A_rs2, A_aq, A_rl], 0x7ff8f80),
    (rv_codec_r, [A_rs1], 0xf8000),
    (rv_codec_i_csr, [A_rd, A_rs1, A_uimm 12], 0xffff8f80),
    (rv_codec_r4_m, [A_rd, A_rs1, A_rs2, A_rs3, A_rm], 0xf9ffff80),
    (rv_codec_r_m, [A_rd, A_rs1, A_rs2, A_rm], 0x1ffff80),
    (rv_codec_r_m, [A_rd, A_rs1, A_rm], 0xfff80),
    (rv_codec_r, [A_rd, A_rs1], 0xf8f80)]"

section \<open>Valid immediates\<close>

lemma uimm_valid_unat: "W < 64 \<Longrightarrow> uimm_valid W v \<longleftrightarrow> unat v < 2 ^ W"
proof -
  assume W: "W < 64"
  have "unat (take_bit W (- 1) :: u64) = mask W"
    unfolding unsigned_take_bit_eq unsigned_minus_1_eq_mask take_bit_of_mask using W by (simp add: min_def)
  then have "unat (push_bit W 1 - 1 :: u64) = 2 ^ W - 1"
    by (simp add: take_bit_minus_one_eq_mask mask_eq_exp_minus_1)
  moreover have "x \<le> y - 1 \<longleftrightarrow> x < y" if "0 < y" for x y :: nat using that by auto
  ultimately show ?thesis by (simp add: uimm_valid_def word_le_nat_alt)
qed

lemma uimm_bits:
  assumes "uimm_valid W v" and "W < 64" and "bit v i"
  shows "i < W"
proof -
  have "take_bit W v = v"
    using assms(1,2) by (simp add: uimm_valid_unat word_unat_eq_iff unsigned_take_bit_eq take_bit_nat_eq_self)
  then show ?thesis using assms(3) by (metis bit_take_bit_iff)
qed

lemma uimm_ucast:
  assumes "uimm_valid W v" and "W < 64" and "W \<le> LENGTH('a::len)"
  shows "ucast (ucast v :: 'a word) = v"
  using uimm_bits [OF assms(1,2)] assms(3) by (intro bit_word_eqI) (force simp: bit_simps)

lemma uimm_small:
  "uimm_valid 3 v \<Longrightarrow> ucast (ucast v :: 3 word) = v"
  "uimm_valid (Suc 0) v \<Longrightarrow> ucast (ucast v :: 1 word) = v"
  "uimm_valid 4 v \<Longrightarrow> ucast (ucast v :: 4 word) = v"
  "uimm_valid 5 v \<Longrightarrow> ucast (ucast v :: u8) = v"
  by (auto intro: uimm_ucast)

lemma uimm_reg: "uimm_valid 5 v \<Longrightarrow> reg_ok (ucast v)"
proof -
  assume "uimm_valid 5 v"
  then have v: "unat v < 32" by (simp add: uimm_valid_unat)
  then have "unat (ucast v :: u8) = unat v"
    by (simp add: unsigned_ucast_eq take_bit_nat_eq_self)
  then show "reg_ok (ucast v)" using v by (simp add: reg_ok_def word_less_nat_alt)
qed

lemma uimm_imm:
  assumes "uimm_valid W v" and "W \<le> 12"
  shows "uimm_range W 0 (ucast v)" and "scast (ucast v :: s32) = v"
proof -
  have v: "unat v < 2 ^ W" using assms by (simp add: uimm_valid_unat)
  moreover have "(2 :: nat) ^ W \<le> 2 ^ 12" using assms(2) by (intro power_increasing) simp_all
  ultimately have "unat v < 4096" by simp
  then have "uint v < 4096" by (simp add: uint_nat del: of_nat_unat)
  then have "take_bit 32 (uint v) = uint v" by (intro take_bit_int_eq_self) simp_all
  moreover have "signed_take_bit 31 (uint v) = uint v"
    using \<open>uint v < 4096\<close> order_trans [OF _ uint_ge_0 [of v]] by (intro signed_take_bit_int_eq_self) simp_all
  ultimately have "sint (ucast v :: s32) = uint v" by (simp add: sint_uint unsigned_ucast_eq)
  moreover have "uint v < 2 ^ W" using v by (simp add: uint_nat of_nat_less_numeral_power_cancel_iff del: of_nat_unat)
  ultimately show "uimm_range W 0 (ucast v)" by (simp add: uimm_range_def)
  show "scast (ucast v :: s32) = v"
    using uimm_bits [OF assms(1)] assms(2) by (intro bit_word_eqI) (force simp: bit_simps)
qed

lemma simm_imm:
  assumes "simm_valid W v" and "W \<le> 32" and "2 ^ k dvd sint v"
  shows "simm_range W k (ucast v)" and "scast (ucast v :: s32) = v"
proof -
  have "(2 :: int) ^ (W - 1) \<le> 2 ^ 31" using assms(2) by (intro power_increasing) simp_all
  then have r: "- (2 ^ 31) \<le> sint v" "sint v < 2 ^ 31" using assms(1) by (auto simp: simm_valid_def)
  have "sint (ucast v :: s32) = signed_take_bit 31 (sint v)"
    by (simp add: sint_uint unsigned_ucast_eq signed_take_bit_take_bit)
  also have "\<dots> = sint v" using r by (simp add: signed_take_bit_int_eq_self)
  finally have s: "sint (ucast v :: s32) = sint v" .
  then show "simm_range W k (ucast v)" using assms by (auto simp: simm_range_def simm_valid_def)
  show "scast (ucast v :: s32) = v" by (metis s sint_scast_64 signed_word_eqI)
qed

lemmas valid_imms =
  uimm_imm [where W = 5, simplified] uimm_imm [where W = 6, simplified] uimm_imm [where W = 7, simplified]
  uimm_imm [where W = 12, simplified] simm_imm [where W = 12 and k = 0, simplified]
  simm_imm [where W = 13 and k = 1, simplified] simm_imm [where W = 21 and k = 1, simplified]
  simm_imm [where W = 32 and k = 12, simplified]

lemma S_encode_zero: "S_encode l rs 0 = 0"
  by (induction rs) (simp_all add: Let_def)

lemma encode_raw_zero: "imm_operand_encode segs 0 = 0"
  by (induction segs) (simp_all add: S_encode_zero)

lemma uimm_and: "uimm_valid 5 v \<Longrightarrow> v AND 31 = v" "uimm_valid 3 v \<Longrightarrow> v AND 7 = v"
proof -
  have "v AND mask W = v" if "uimm_valid W v" "W < 64" for W
    using uimm_bits [OF that] by (auto intro!: bit_word_eqI simp: bit_simps)
  from this [of 5] this [of 3] show "uimm_valid 5 v \<Longrightarrow> v AND 31 = v" "uimm_valid 3 v \<Longrightarrow> v AND 7 = v"
    by (simp_all add: mask_eq_exp_minus_1)
qed

section \<open>Encoding and decoding by shape\<close>

definition shape_ok :: "rv_codec \<Rightarrow> arg list \<Rightarrow> inst_t \<Rightarrow> bool" where
  "shape_ok c args M \<longleftrightarrow> (\<forall>xs. length xs = length args \<longrightarrow>
     list_all2 arg_valid args xs \<longrightarrow> list_all2 arg_aligned args xs \<longrightarrow>
     (\<forall>op. \<exists>bits. encode_inst_type c ((build op args xs)\<lparr>dec_codec := c\<rparr>) = Some bits \<and> bits AND M = bits \<and>
       (\<forall>t d0. t AND M = 0 \<longrightarrow> map (\<lambda>a. arg_get a (decode_inst_codec c d0 (t OR bits))) args = xs)))"

text \<open>The shapes that use all the operands of their format.\<close>

lemma shape_ok_full:
  assumes "c \<noteq> rv_codec_cs"
    and "\<And>op xs. length xs = length args \<Longrightarrow> list_all2 arg_valid args xs \<Longrightarrow> list_all2 arg_aligned args xs \<Longrightarrow>
      format_ok c (build op args xs) \<and>
      (\<forall>d. same_operands c d (build op args xs) \<longrightarrow> map (\<lambda>a. arg_get a d) args = xs)"
  shows "shape_ok c args (format_mask c)"
  unfolding shape_ok_def
proof (intro allI impI)
  fix xs op
  assume xs: "length xs = length args" "list_all2 arg_valid args xs" "list_all2 arg_aligned args xs"
  let ?d = "(build op args xs)\<lparr>dec_codec := c\<rparr>"
  have ok: "format_ok c ?d" using assms(2) [OF xs, of op] by (cases c) simp_all
  obtain bits where bits: "encode_inst_type c ?d = Some bits"
    using format_roundtrip [OF ok assms(1), of 0] by auto
  have "map (\<lambda>a. arg_get a (decode_inst_codec c d0 (t OR bits))) args = xs" if "t AND format_mask c = 0" for t d0
    using format_roundtrip [OF ok assms(1) that, of d0] bits assms(2) [OF xs, of op] by simp
  then show "\<exists>bits. encode_inst_type c ?d = Some bits \<and> bits AND format_mask c = bits \<and>
      (\<forall>t d0. t AND format_mask c = 0 \<longrightarrow> map (\<lambda>a. arg_get a (decode_inst_codec c d0 (t OR bits))) args = xs)"
    using bits format_bits_within [OF bits] by blast
qed

lemmas shape_simps = build_def decode_init_def same_operands_def valid_imms uimm_small uimm_reg
  list_all2_Cons1 length_Suc_conv

lemma full_shapes:
  "shape_ok rv_codec_u [A_rd, A_simm 32 12] (format_mask rv_codec_u)"
  "shape_ok rv_codec_uj [A_rd, A_simm 21 1] (format_mask rv_codec_uj)"
  "shape_ok rv_codec_i [A_rd, A_rs1, A_simm 12 0] (format_mask rv_codec_i)"
  "shape_ok rv_codec_sb [A_rs1, A_rs2, A_simm 13 1] (format_mask rv_codec_sb)"
  "shape_ok rv_codec_s [A_rs1, A_rs2, A_simm 12 0] (format_mask rv_codec_s)"
  "shape_ok rv_codec_i_sh7 [A_rd, A_rs1, A_uimm 7] (format_mask rv_codec_i_sh7)"
  "shape_ok rv_codec_r [A_rd, A_rs1, A_rs2] (format_mask rv_codec_r)"
  "shape_ok rv_codec_r_f [A_pred, A_succ] (format_mask rv_codec_r_f)"
  "shape_ok rv_codec_none [] (format_mask rv_codec_none)"
  "shape_ok rv_codec_i_sh5 [A_rd, A_rs1, A_uimm 5] (format_mask rv_codec_i_sh5)"
  "shape_ok rv_codec_i_sh6 [A_rd, A_rs1, A_uimm 6] (format_mask rv_codec_i_sh6)"
  "shape_ok rv_codec_r_l [A_rd, A_rs1, A_aq, A_rl] (format_mask rv_codec_r_l)"
  "shape_ok rv_codec_r_a [A_rd, A_rs1, A_rs2, A_aq, A_rl] (format_mask rv_codec_r_a)"
  "shape_ok rv_codec_i_csr [A_rd, A_rs1, A_uimm 12] (format_mask rv_codec_i_csr)"
  "shape_ok rv_codec_r4_m [A_rd, A_rs1, A_rs2, A_rs3, A_rm] (format_mask rv_codec_r4_m)"
  "shape_ok rv_codec_r_m [A_rd, A_rs1, A_rs2, A_rm] (format_mask rv_codec_r_m)"
  by (rule shape_ok_full; force simp: shape_simps)+

text \<open>The shapes of instructions that fix operands of their format.\<close>

lemma partial_shapes:
  "shape_ok rv_codec_r [A_rs1] 0xf8000"
  "shape_ok rv_codec_r_m [A_rd, A_rs1, A_rm] 0xfff80"
  "shape_ok rv_codec_r [A_rd, A_rs1] 0xf8f80"
proof -
  note simps = shape_simps decode_inst_codec_def encode_inst_type_def decode_format_defs encode_format_defs
    assert_then_def rv_codec_simps encode_raw_zero bit.conj_disj_distrib2 uimm_and
  show "shape_ok rv_codec_r [A_rs1] 0xf8000"
    unfolding shape_ok_def by (auto simp: simps decode_raw_match [where M = "0xf8000"])
  show "shape_ok rv_codec_r_m [A_rd, A_rs1, A_rm] 0xfff80"
    unfolding shape_ok_def by (auto simp: simps decode_raw_match [where M = "0xfff80"])
  show "shape_ok rv_codec_r [A_rd, A_rs1] 0xf8f80"
    unfolding shape_ok_def by (auto simp: simps decode_raw_match [where M = "0xf8f80"])
qed

section \<open>Every emitter\<close>

lemma length_cases [simp]:
  "(\<forall>xs. length xs = 0 \<longrightarrow> P xs) \<longleftrightarrow> P []"
  "(\<forall>xs. length xs = Suc 0 \<longrightarrow> P xs) \<longleftrightarrow> (\<forall>a. P [a])"
  "(\<forall>xs. length xs = Suc (Suc 0) \<longrightarrow> P xs) \<longleftrightarrow> (\<forall>a b. P [a, b])"
  "(\<forall>xs. length xs = Suc (Suc (Suc 0)) \<longrightarrow> P xs) \<longleftrightarrow> (\<forall>a b c. P [a, b, c])"
  "(\<forall>xs. length xs = Suc (Suc (Suc (Suc 0))) \<longrightarrow> P xs) \<longleftrightarrow> (\<forall>a b c d. P [a, b, c, d])"
  "(\<forall>xs. length xs = Suc (Suc (Suc (Suc (Suc 0)))) \<longrightarrow> P xs) \<longleftrightarrow> (\<forall>a b c d e. P [a, b, c, d, e])"
  by (auto simp: length_Suc_conv)

lemma emitters_table:
  "list_all (\<lambda>(op, args, f). \<forall>xs. length xs = length args \<longrightarrow>
     f xs = (if list_all2 arg_valid args xs then emit_inst (build op args xs) else Some 0)) emitters"
  unfolding emitters_def list.pred_inject prod.case
  by (intro conjI TrueI; simp add: emit_defs build_def offset_valid_def simm_valid_def)

text \<open>A walk along a table and a list sorted by the index into it.\<close>

fun table_check :: "('t \<Rightarrow> 'a \<Rightarrow> bool) \<Rightarrow> nat \<Rightarrow> 't list \<Rightarrow> (nat \<times> 'a) list \<Rightarrow> bool" where
  "table_check P n ts [] = True"
| "table_check P n [] (e # es) = False"
| "table_check P n (t # ts) (e # es) =
    (if fst e = n then P t (snd e) \<and> table_check P n (t # ts) es
     else if fst e < n then False else table_check P (Suc n) ts (e # es))"

lemma table_check_nth:
  "table_check P n ts es \<Longrightarrow> (i, x) \<in> set es \<Longrightarrow> n \<le> i \<and> i - n < length ts \<and> P (ts ! (i - n)) x"
proof (induction P n ts es rule: table_check.induct)
  case (3 P n t ts e es)
  show ?case
  proof (cases "fst e = n")
    case True
    then show ?thesis using 3 by auto
  next
    case False
    then have "Suc n \<le> i \<and> i - Suc n < length ts \<and> P (ts ! (i - Suc n)) x"
      using 3 by (simp split: if_splits)
    moreover have "i - n = Suc (i - Suc n)" if "Suc n \<le> i" using that by simp
    ultimately show ?thesis by auto
  qed
qed simp_all

lemma emitter_shapes:
  "table_check (\<lambda>(c, m, t) (args, _). m AND 0xffffffff0000007f = 0x7f \<and> t AND 0b11100 \<noteq> 0b11100 \<and> t AND 0b11 = 0b11 \<and>
     list_ex (\<lambda>(c', args', M). c = c' \<and> args = args' \<and> m AND M = 0) emit_shapes)
   0 (take 234 (zip rv_inst_codec (zip rv_inst_mask rv_inst_match))) emitters"
  by code_simp

lemma shapes_32: "(c, args, M) \<in> set emit_shapes \<Longrightarrow> M AND 0xffffffff = M"
  by (auto simp: emit_shapes_def)

lemma emit_table_lengths: "234 \<le> length rv_inst_codec" "234 \<le> length rv_inst_mask" "234 \<le> length rv_inst_match"
  by (simp_all add: table_check_defs)

lemma emitter_shape:
  assumes "(op, args, f) \<in> set emitters"
  obtains M where "(rv_inst_codec ! op, args, M) \<in> set emit_shapes" and "rv_inst_mask ! op AND M = 0"
    and "op < 234" and "rv_inst_mask ! op AND 0xffffffff0000007f = 0x7f" and "rv_inst_match ! op AND 0b11100 \<noteq> 0b11100"
    and "rv_inst_match ! op AND 0b11 = 0b11"
  using table_check_nth [OF emitter_shapes assms] emit_table_lengths by (auto simp: list_ex_iff)

lemma shapes_ok: "(c, args, M) \<in> set emit_shapes \<Longrightarrow> shape_ok c args M"
  using full_shapes partial_shapes by (auto simp: emit_shapes_def)

lemma emitter_value:
  assumes "(op, args, f) \<in> set emitters" and "length xs = length args"
  shows "f xs = (if list_all2 arg_valid args xs then emit_inst (build op args xs) else Some 0)"
  using emitters_table assms unfolding list_all_iff by blast

text \<open>A mask that covers the lowest seven bits of a 32-bit word.\<close>

lemma word_mask_bits:
  fixes m t b :: u64
  assumes "m AND 0xffffffff0000007f = 0x7f" and "t AND m = t" and "b AND m = 0"
  shows "t AND 0xffffffff = t" and "(t OR b) AND 0b11 = t AND 0b11" and "(t OR b) AND 0b11100 = t AND 0b11100"
proof -
  have "(0xffffffff0000007f :: u64) = NOT (mask 32) OR mask 7" "(0x7f :: u64) = mask 7"
    by (simp_all add: mask_eq_exp_minus_1)
  then have b: "bit (m AND (NOT (mask 32) OR mask 7)) i \<longleftrightarrow> bit (mask 7 :: u64) i" for i using assms(1) by simp
  have low: "bit m i" if "i < 7" for i using b [of i] that by (auto simp: bit_simps)
  have high: "\<not> bit m i" if "32 \<le> i" for i using b [of i] that by (auto simp: bit_simps dest: bit_imp_le_length)
  have t: "bit m i" if "bit t i" for i using that assms(2) by (metis bit_and_iff)
  then have "t AND mask 32 = t" using high by (intro bit_word_eqI) (force simp: bit_simps not_le [symmetric])
  then show "t AND 0xffffffff = t" by (simp add: mask_eq_exp_minus_1)
  have "\<not> bit b i" if "i < 7" for i using low [OF that] assms(3) by (metis bit_and_iff bit_0_eq bot_apply bot_bool_def)
  then have b: "b AND mask 7 = 0" by (intro bit_word_eqI) (auto simp: bit_simps)
  have "b AND N = 0" if "mask 7 AND N = N" for N
  proof -
    have "b AND N = (b AND mask 7) AND N" by (simp only: and.assoc that)
    then show ?thesis by (simp add: b)
  qed
  from this [of "0b11"] this [of "0b11100"]
  show "(t OR b) AND 0b11 = t AND 0b11" and "(t OR b) AND 0b11100 = t AND 0b11100"
    by (simp_all add: bit.conj_disj_distrib2 mask_eq_exp_minus_1)
qed

lemma emitter_decodes:
  assumes "(op, args, f) \<in> set emitters" and "op_enabled cfg op" and "length xs = length args"
    and "list_all2 arg_valid args xs" and "list_all2 arg_aligned args xs"
  shows "\<exists>w. f xs = Some w \<and> inst_length w = 4 \<and> w AND 0xffffffff = w \<and>
    (\<forall>d0. dec_op (decode_inst cfg d0 w) = op \<and> map (\<lambda>a. arg_get a (decode_inst cfg d0 w)) args = xs)"
proof -
  let ?c = "rv_inst_codec ! op" and ?t = "rv_inst_match ! op" and ?m = "rv_inst_mask ! op"
  let ?d = "(build op args xs)\<lparr>dec_codec := ?c\<rparr>"
  obtain M where M: "(?c, args, M) \<in> set emit_shapes" "?m AND M = 0" and op: "op < 234"
    and m: "?m AND 0xffffffff0000007f = 0x7f" and t: "?t AND 0b11100 \<noteq> 0b11100" "?t AND 0b11 = 0b11"
    by (rule emitter_shape [OF assms(1)])
  have tm: "?t AND ?m = ?t" using op_tables [OF assms(2)] by simp
  have "?t AND M = (?t AND ?m) AND M" by (simp add: tm)
  also have "\<dots> = 0" by (simp add: and.assoc M(2))
  finally have tM: "?t AND M = 0" .
  obtain bits where bits: "encode_inst_type ?c ?d = Some bits" "bits AND M = bits"
    and dec: "\<And>d1. map (\<lambda>a. arg_get a (decode_inst_codec ?c d1 (?t OR bits))) args = xs"
    using shapes_ok [OF M(1)] assms(3-5) tM unfolding shape_ok_def by metis
  have "bits AND ?m = bits AND (M AND ?m)" using bits(2) by (simp add: and.assoc [symmetric])
  also have "\<dots> = 0" using M(2) by (simp add: and.commute)
  finally have mb: "bits AND ?m = 0" .
  have bits32: "bits AND 0xffffffff = bits" using bits(2) shapes_32 [OF M(1)] by (metis and.assoc)
  note w = word_mask_bits [OF m tm mb]
  have "agrees op (?t OR bits)" using mb by (simp add: agrees_def bit.conj_disj_distrib2 tm)
  then have opd: "decode_inst_op cfg (?t OR bits) = op"
    using decodes_as_unshadowed [of op cfg "?t OR bits"] op_enabled_less [OF assms(2)] assms(2) op
    by (simp add: decodes_as_def)
  have "dec_op (fold (\<lambda>(a, v). arg_set a v) l d) = dec_op d" for l d
  proof (induction l arbitrary: d)
    case (Cons p l)
    then show ?case by (cases p; cases "fst p") simp_all
  qed simp
  then have "dec_op (build op args xs) = op" by (simp add: build_def)
  then have "f xs = Some (?t OR bits)"
    using emitter_value [OF assms(1,3)] assms(4) bits(1) by (simp add: emit_inst_def encode_inst_def Let_def)
  moreover have "(?t OR bits) AND 0xffffffff = ?t OR bits"
    using bits32 w(1) by (simp add: bit.conj_disj_distrib2)
  moreover have "inst_length (?t OR bits) = 4"
    using w(2,3) t by (simp add: inst_length_def)
  ultimately show ?thesis using dec opd by (simp add: decode_inst_def decode_inst_type_def decode_inst_fields)
qed

end
