(* ===== verification/Rv_Alu.thy ===== *)
theory Rv_Alu
  imports Rv_Prelude "HOL-Library.Signed_Division"
begin

text \<open>
  The arithmetic helpers of \<^verbatim>\<open>src/src/asm/alu.h\<close> (high part of a product, division and remainder
  with the RISC-V results for division by zero and overflow) and the atomic operations of
  \<^verbatim>\<open>src/src/emu/amo.h\<close>.  The templates are instantiated with the 32-bit and 64-bit integer types; the
  definitions are generic in the word length.  \<open>of_bool\<close> is the C++ conversion of a comparison.
\<close>

section \<open>Multiply high\<close>

definition qb :: "'a::len word itself \<Rightarrow> nat" where
  "qb _ = (LENGTH('a) div 8) * 4"

definition half_mask :: "'a::len word" where
  "half_mask = push_bit (qb TYPE('a word)) 1 - 1"

definition mulhu :: "'a::len word \<Rightarrow> 'a word \<Rightarrow> 'a word" where
  "mulhu x y =
    (let q = qb TYPE('a word);
         x0 = x AND half_mask;
         x1 = drop_bit q x AND half_mask;
         y0 = y AND half_mask;
         y1 = drop_bit q y AND half_mask;
         z0 = x0 * y0;
         z1 = x1 * y0;
         z2 = x0 * y1;
         z3 = x1 * y1;
         z4 = z1 + z2;
         c1 = of_bool (z4 < z1);
         lo = z0 + push_bit q z4;
         c2 = of_bool (lo < z0)
     in z3 + drop_bit q z4 + push_bit q c1 + c2)"

definition mulh :: "'a::len word \<Rightarrow> 'a word \<Rightarrow> 'a word" where
  "mulh x y =
    (let q = qb TYPE('a word);
         xs = of_bool (sint x < 0);
         ys = of_bool (sint y < 0);
         xu = (NOT xs + 1) XOR (x - xs);
         yu = (NOT ys + 1) XOR (y - ys);
         x0 = xu AND half_mask;
         x1 = drop_bit q xu AND half_mask;
         y0 = yu AND half_mask;
         y1 = drop_bit q yu AND half_mask;
         z0 = x0 * y0;
         z1 = x1 * y0;
         z2 = x0 * y1;
         z3 = x1 * y1;
         z4 = z1 + z2;
         c1 = of_bool (z4 < z1);
         l1 = z0 + push_bit q z4;
         c2 = of_bool (l1 < z0);
         rs = xs XOR ys;
         h1 = z3 + drop_bit q z4 + push_bit q c1 + c2;
         l2 = l1 - rs;
         hb = of_bool (l2 > l1);
         h2 = h1 - hb
     in (- rs) XOR h2)"

definition mulhsu :: "'a::len word \<Rightarrow> 'a word \<Rightarrow> 'a word" where
  "mulhsu x y =
    (let q = qb TYPE('a word);
         xs = of_bool (sint x < 0);
         xu = (NOT xs + 1) XOR (x - xs);
         x0 = xu AND half_mask;
         x1 = drop_bit q xu AND half_mask;
         y0 = y AND half_mask;
         y1 = drop_bit q y AND half_mask;
         z0 = x0 * y0;
         z1 = x1 * y0;
         z2 = x0 * y1;
         z3 = x1 * y1;
         z4 = z1 + z2;
         c1 = of_bool (z4 < z1);
         l1 = z0 + push_bit q z4;
         c2 = of_bool (l1 < z0);
         h1 = z3 + drop_bit q z4 + push_bit q c1 + c2;
         l2 = l1 - xs;
         hb = of_bool (l2 > l1);
         h2 = h1 - hb
     in (- xs) XOR h2)"

section \<open>Division and remainder\<close>

definition min_signed :: "'a::len word" where
  "min_signed = push_bit (LENGTH('a) - 1) 1"

definition div_s :: "'a::len word \<Rightarrow> 'a word \<Rightarrow> 'a word" where
  "div_s x y =
    (if x = min_signed \<and> y = - 1 then min_signed
     else if y = 0 then - 1 else word_of_int (sint x sdiv sint y))"

definition divu :: "'a::len word \<Rightarrow> 'a word \<Rightarrow> 'a word" where
  "divu x y = (if y = 0 then - 1 else x div y)"

definition rem_s :: "'a::len word \<Rightarrow> 'a word \<Rightarrow> 'a word" where
  "rem_s x y =
    (if x = min_signed \<and> y = - 1 then 0
     else if y = 0 then x else word_of_int (sint x smod sint y))"

definition remu :: "'a::len word \<Rightarrow> 'a word \<Rightarrow> 'a word" where
  "remu x y = (if y = 0 then x else x mod y)"

section \<open>Atomic operations\<close>

datatype amo_op =
    amoswap | amoadd | amoxor | amoor | amoand | amomin | amomax | amominu | amomaxu

definition amomin_fn :: "'a::len word \<Rightarrow> 'a word \<Rightarrow> 'a word" where
  "amomin_fn x y = (if y <s x then y else x)"

definition amomax_fn :: "'a::len word \<Rightarrow> 'a word \<Rightarrow> 'a word" where
  "amomax_fn x y = (if x <s y then y else x)"

definition amominu_fn :: "'a::len word \<Rightarrow> 'a word \<Rightarrow> 'a word" where
  "amominu_fn x y = (if y < x then y else x)"

definition amomaxu_fn :: "'a::len word \<Rightarrow> 'a word \<Rightarrow> 'a word" where
  "amomaxu_fn x y = (if x < y then y else x)"

fun amo_fn :: "amo_op \<Rightarrow> 'a::len word \<Rightarrow> 'a word \<Rightarrow> 'a word" where
  "amo_fn amoswap x y = y"
| "amo_fn amoadd x y = x + y"
| "amo_fn amoxor x y = x XOR y"
| "amo_fn amoor x y = x OR y"
| "amo_fn amoand x y = x AND y"
| "amo_fn amomin x y = amomin_fn x y"
| "amo_fn amomax x y = amomax_fn x y"
| "amo_fn amominu x y = amominu_fn x y"
| "amo_fn amomaxu x y = amomaxu_fn x y"

section \<open>The schoolbook product\<close>

text \<open>
  The carries of the schoolbook product in base \<open>B\<close>, over the natural numbers: \<open>N = B * B\<close> is the
  modulus of the word, \<open>z4\<close> and \<open>lo\<close> are reduced sums with carries \<open>c1\<close> and \<open>c2\<close>.
\<close>

lemma schoolbook_product:
  fixes B N x0 x1 y0 y1 z4 c1 lo c2 :: nat
  assumes "N = B * B" and "0 < B" and "x1 * y0 + x0 * y1 = c1 * N + z4"
    and "x0 * y0 + (z4 mod B) * B = c2 * N + lo"
  shows "(x1 * B + x0) * (y1 * B + y0) = N * (x1 * y1 + z4 div B + c1 * B + c2) + lo"
proof -
  have "(x1 * B + x0) * (y1 * B + y0) = N * (x1 * y1) + (x1 * y0 + x0 * y1) * B + x0 * y0"
    by (simp add: assms(1) algebra_simps)
  also have "\<dots> = N * (x1 * y1) + c1 * N * B + z4 * B + x0 * y0"
    unfolding assms(3) by (simp add: algebra_simps)
  also have "z4 * B = N * (z4 div B) + (z4 mod B) * B"
  proof -
    have "z4 * B = (z4 div B * B + z4 mod B) * B" by simp
    also have "\<dots> = N * (z4 div B) + (z4 mod B) * B"
      unfolding assms(1) add_mult_distrib by (simp add: ac_simps)
    finally show ?thesis .
  qed
  finally show ?thesis using assms(4) by (simp add: algebra_simps)
qed

text \<open>A sum of two words and its carry, as the code detects it.\<close>

lemma unat_add_carry:
  fixes a b :: "'a::len word"
  shows "unat a + unat b = unat (of_bool (a + b < a) :: 'a word) * 2 ^ LENGTH('a) + unat (a + b)"
proof -
  define N :: nat where "N = 2 ^ LENGTH('a)"
  have "unat b < N" unfolding N_def by (rule unsigned_less)
  then show ?thesis by (auto simp: word_less_nat_alt unat_plus_if' N_def [symmetric])
qed

section \<open>The high word of an unsigned product\<close>

text \<open>The low word, which the code computes for its carry.\<close>

definition mul_lo :: "'a::len word \<Rightarrow> 'a word \<Rightarrow> 'a word" where
  "mul_lo x y =
    (let q = qb TYPE('a word);
         x0 = x AND half_mask; x1 = drop_bit q x AND half_mask;
         y0 = y AND half_mask; y1 = drop_bit q y AND half_mask
     in x0 * y0 + push_bit q (x1 * y0 + x0 * y1))"

lemma unat_and_half_mask:
  "unat (x AND half_mask :: 'a::len word) = unat x mod 2 ^ qb TYPE('a word)"
proof -
  have "x AND half_mask = take_bit (qb TYPE('a word)) x"
    by (simp add: half_mask_def take_bit_eq_mask mask_eq_exp_minus_1)
  then have "unat (x AND half_mask) = take_bit (qb TYPE('a word)) (unat x)"
    by (simp only: unsigned_take_bit_eq)
  then show ?thesis by (simp only: take_bit_eq_mod)
qed

lemma unat_push_half:
  fixes z :: "'a::len word"
  assumes "LENGTH('a) = 2 * q"
  shows "unat (push_bit q z) = (unat z mod 2 ^ q) * 2 ^ q"
proof -
  have "unat (push_bit q z) = (unat z * 2 ^ q) mod 2 ^ (q + q)"
    unfolding unsigned_push_bit_eq assms mult_2 by (simp only: take_bit_eq_mod push_bit_eq_mult)
  then show ?thesis by (simp add: power_add mult_mod_left)
qed

lemma mulhu_mul_lo:
  fixes x y :: "'a::len word"
  assumes len: "LENGTH('a) = 2 * q" and q: "qb TYPE('a word) = q"
  shows "unat x * unat y = 2 ^ LENGTH('a) * unat (mulhu x y) + unat (mul_lo x y)"
proof -
  define B N :: nat where "B = 2 ^ q" and "N = 2 ^ LENGTH('a)"
  have BN: "N = B * B" "0 < B" by (simp_all add: B_def N_def len mult_2 power_add)
  define x0 x1 y0 y1 where "x0 = x AND half_mask" and "x1 = drop_bit q x AND half_mask"
    and "y0 = y AND half_mask" and "y1 = drop_bit q y AND half_mask"
  define z4 c1 lo c2 where "z4 = x1 * y0 + x0 * y1" and "c1 = (of_bool (z4 < x1 * y0) :: 'a word)"
    and "lo = x0 * y0 + push_bit q z4" and "c2 = (of_bool (lo < x0 * y0) :: 'a word)"
  have hi: "mulhu x y = x1 * y1 + drop_bit q z4 + push_bit q c1 + c2" and lo: "mul_lo x y = lo"
    by (simp_all add: mulhu_def mul_lo_def Let_def q x0_def x1_def y0_def y1_def z4_def c1_def lo_def c2_def)
  have less: "unat w < N" for w :: "'a word" unfolding N_def by (rule unsigned_less)
  have drop_nat: "unat (drop_bit q w) = unat w div B" for w :: "'a word"
  proof -
    have "unat (drop_bit q w) = drop_bit q (take_bit LENGTH('a) (unat w))"
      by (rule unsigned_drop_bit_eq)
    also have "take_bit LENGTH('a) (unat w) = unat w"
      using less [of w] by (simp add: take_bit_nat_eq_self N_def)
    finally show ?thesis unfolding B_def drop_bit_eq_div .
  qed
  have low: "unat (w AND half_mask) = unat w mod B" for w :: "'a word"
    by (simp add: unat_and_half_mask q B_def)
  have high: "unat (drop_bit q w AND half_mask) = unat w div B" for w :: "'a word"
    using less [of w] by (simp add: low drop_nat BN(1) less_mult_imp_div_less)
  have parts: "unat x0 = unat x mod B" "unat y0 = unat y mod B"
      "unat x1 = unat x div B" "unat y1 = unat y div B"
    unfolding x0_def y0_def x1_def y1_def by (rule low low high high)+
  have bounds: "unat x0 < B" "unat x1 < B" "unat y0 < B" "unat y1 < B"
    using less [of x] less [of y] BN by (simp_all add: parts less_mult_imp_div_less)
  have prod: "unat (u * v) = unat u * unat v" if "unat u < B" "unat v < B" for u v :: "'a word"
  proof -
    have "unat u * unat v < N" using that BN by (simp add: mult_strict_mono)
    then show ?thesis by (simp add: N_def unat_mult_lem)
  qed
  have x: "unat x = unat x1 * B + unat x0" and y: "unat y = unat y1 * B + unat y0"
    by (simp_all add: parts)
  have "unat x1 * unat y0 + unat x0 * unat y1 = unat c1 * N + unat z4"
    using unat_add_carry [of "x1 * y0" "x0 * y1"] bounds by (simp add: prod z4_def c1_def N_def)
  moreover have "unat x0 * unat y0 + (unat z4 mod B) * B = unat c2 * N + unat lo"
    using unat_add_carry [of "x0 * y0" "push_bit q z4"] bounds
    by (simp add: prod unat_push_half [OF len] lo_def c2_def N_def B_def)
  ultimately have main: "unat x * unat y =
      N * (unat x1 * unat y1 + unat z4 div B + unat c1 * B + unat c2) + unat lo"
    unfolding x y by (intro schoolbook_product [OF BN])
  define S where "S = unat x1 * unat y1 + unat z4 div B + unat c1 * B + unat c2"
  have "0 < N" by (simp add: N_def)
  then have "unat x * unat y < N * N"
    using less [of x] less [of y] by (intro mult_strict_mono) simp_all
  then have "N * S < N * N" using main unfolding S_def by linarith
  then have "S < N" by simp
  moreover have "unat (mulhu x y) = S mod N"
  proof -
    have "unat (push_bit q c1) = unat c1 * B"
      using BN len len_gt_0 [where 'a = 'a]
      by (auto simp: unat_push_half [OF len] B_def [symmetric] c1_def) (simp add: B_def)
    then show ?thesis
      unfolding hi S_def N_def
      by (simp add: unat_word_ariths mod_simps drop_nat prod bounds)
  qed
  ultimately show ?thesis using main by (simp add: S_def lo N_def)
qed

lemma mulhu_high:
  fixes x y :: "'a::len word"
  assumes "LENGTH('a) = 2 * q" and "qb TYPE('a word) = q"
  shows "unat (mulhu x y) = unat x * unat y div 2 ^ LENGTH('a)"
    and "unat (mul_lo x y) = unat x * unat y mod 2 ^ LENGTH('a)"
  using mulhu_mul_lo [OF assms, of x y] unsigned_less [of "mul_lo x y"] by simp_all

section \<open>Signed products\<close>

text \<open>The magnitude of a word, by the branch-free negation of the code.\<close>

definition magnitude :: "'a::len word \<Rightarrow> 'a word" where
  "magnitude x =
    (let xs = of_bool (sint x < 0) in (NOT xs + 1) XOR (x - xs))"

lemma magnitude_eq: "magnitude x = (if sint x < 0 then - x else x)"
proof -
  have "(NOT 1 + 1 :: 'a word) = - 1" by (simp add: not_eq_complement)
  moreover have "- 1 XOR (x - 1) = - x"
  proof -
    have "- 1 XOR (x - 1) = NOT (x - 1)" by (rule bit_word_eqI) (simp add: bit_simps)
    also have "\<dots> = - x" by (simp add: not_eq_complement)
    finally show ?thesis .
  qed
  ultimately show ?thesis by (simp add: magnitude_def Let_def)
qed

lemma uint_magnitude: "uint (magnitude x) = \<bar>sint (x :: 'a::len word)\<bar>"
proof (cases "sint x < 0")
  case True
  have "- (2 ^ (LENGTH('a) - 1)) \<le> sint x" using sint_ge [of x] by simp
  moreover have "(2 :: int) ^ (LENGTH('a) - 1) < 2 ^ LENGTH('a)" by simp
  ultimately have "- sint x < 2 ^ LENGTH('a)" by linarith
  then have "take_bit LENGTH('a) (- sint x) = - sint x"
    using True by (intro take_bit_int_eq_self) auto
  moreover have "- x = word_of_int (- sint x)" by simp
  ultimately have "uint (- x) = - sint x"
    by (metis uint_word_of_int_eq)
  with True show ?thesis by (simp add: magnitude_eq)
next
  case False
  have "sint x < 2 ^ (LENGTH('a) - 1)" using sint_less [of x] by simp
  moreover have "(2 :: int) ^ (LENGTH('a) - 1) < 2 ^ LENGTH('a)" by simp
  ultimately have "sint x < 2 ^ LENGTH('a)" by linarith
  then have "take_bit LENGTH('a) (sint x) = sint x"
    using False by (intro take_bit_int_eq_self) auto
  then have "uint x = sint x" by (simp add: uint_sint)
  with False show ?thesis by (simp add: magnitude_eq)
qed

definition negate_high :: "'a::len word \<Rightarrow> 'a word \<Rightarrow> 'a word \<Rightarrow> 'a word" where
  "negate_high rs h l = (- rs) XOR (h - of_bool (l - rs > l))"

lemma mulh_parts:
  "mulh x y = negate_high (of_bool (sint x < 0) XOR of_bool (sint y < 0))
     (mulhu (magnitude x) (magnitude y)) (mul_lo (magnitude x) (magnitude y))"
  by (simp add: mulh_def mulhu_def mul_lo_def negate_high_def magnitude_def Let_def)

lemma mulhsu_parts:
  "mulhsu x y = negate_high (of_bool (sint x < 0)) (mulhu (magnitude x) y) (mul_lo (magnitude x) y)"
  by (simp add: mulhsu_def mulhu_def mul_lo_def negate_high_def magnitude_def Let_def)

lemma negate_high_0: "negate_high 0 h l = h"
  by (simp add: negate_high_def)

lemma negate_high_1:
  fixes h l :: "'a::len word"
  assumes "V = 2 ^ LENGTH('a) * uint h + uint l"
  shows "negate_high 1 h l = word_of_int ((- V) div 2 ^ LENGTH('a))"
proof -
  define N :: int where "N = 2 ^ LENGTH('a)"
  have l: "0 \<le> uint l" "uint l < N" "0 < N"
    unfolding N_def by simp_all
  have "- V = - uint l + N * (- uint h)" using assms by (simp add: N_def)
  then have "(- V) div N = - uint h + (- uint l) div N"
    using l(3) by (simp only: div_mult_self2 [of N "- uint l" "- uint h"])
  also have "(- uint l) div N = (if l = 0 then 0 else - 1)"
    using l zdiv_zminus1_eq_if [of N "uint l"] by (auto simp: uint_0_iff)
  finally have "word_of_int ((- V) div N) = (if l = 0 then - h else - h - 1 :: 'a word)"
    by simp
  moreover have "l - 1 > l \<longleftrightarrow> l = 0"
  proof (cases "l = 0")
    case False
    then have "0 < uint l" by (simp add: word_neq_0_conv word_less_def)
    then show ?thesis using False by (simp add: word_less_def uint_sub_if')
  qed (simp add: word_neq_0_conv [symmetric])
  moreover have "- 1 XOR w = - w - 1" for w :: "'a word"
    using not_eq_complement [of w] by (metis bit.xor_one_left)
  ultimately show ?thesis by (simp add: negate_high_def N_def)
qed

lemma mulh_high:
  fixes x y :: "'a::len word"
  assumes "LENGTH('a) = 2 * q" and "qb TYPE('a word) = q"
  shows "mulh x y = word_of_int (sint x * sint y div 2 ^ LENGTH('a))"
    and "mulhsu x y = word_of_int (sint x * uint y div 2 ^ LENGTH('a))"
proof -
  have V: "uint a * uint b = 2 ^ LENGTH('a) * uint (mulhu a b) + uint (mul_lo a b)" for a b :: "'a word"
    using arg_cong [OF mulhu_mul_lo [OF assms, of a b], of int] by simp
  have pos: "mulhu a b = word_of_int (uint a * uint b div 2 ^ LENGTH('a))" for a b :: "'a word"
    unfolding V by (simp add: div_mult_self4)
  show "mulhsu x y = word_of_int (sint x * uint y div 2 ^ LENGTH('a))"
  proof (cases "sint x < 0")
    case True
    then have "- (uint (magnitude x) * uint y) = sint x * uint y" by (simp add: uint_magnitude)
    then show ?thesis
      using True negate_high_1 [OF V [of "magnitude x" y]] by (simp add: mulhsu_parts)
  next
    case False
    then show ?thesis by (simp add: mulhsu_parts negate_high_0 pos uint_magnitude)
  qed
  show "mulh x y = word_of_int (sint x * sint y div 2 ^ LENGTH('a))"
  proof (cases "sint x < 0 \<longleftrightarrow> sint y < 0")
    case True
    then have "uint (magnitude x) * uint (magnitude y) = sint x * sint y"
      by (auto simp: uint_magnitude)
    with True show ?thesis by (auto simp: mulh_parts negate_high_0 pos)
  next
    case False
    then have "- (uint (magnitude x) * uint (magnitude y)) = sint x * sint y"
      by (auto simp: uint_magnitude)
    with False show ?thesis
      using negate_high_1 [OF V [of "magnitude x" "magnitude y"]] by (auto simp: mulh_parts)
  qed
qed
section \<open>Division and remainder\<close>

lemma minus_min_signed: "- min_signed = (min_signed :: 'a::len word)"
proof -
  have "(min_signed :: 'a word) = 2 ^ (LENGTH('a) - 1)"
    by (simp add: min_signed_def push_bit_eq_mult)
  then have "min_signed + min_signed = (2 :: 'a word) ^ Suc (LENGTH('a) - 1)"
    by (simp only: mult_2 [symmetric] power_Suc)
  also have "Suc (LENGTH('a) - 1) = LENGTH('a)" by simp
  finally have "min_signed + min_signed = (0 :: 'a word)" by simp
  then show ?thesis by (rule minus_unique)
qed

lemma sint_min_signed: "sint (min_signed :: 'a::len word) = - (2 ^ (LENGTH('a) - 1))"
proof -
  have "word_of_int (- (2 ^ (LENGTH('a) - 1))) = - (min_signed :: 'a word)"
    by (simp add: min_signed_def push_bit_eq_mult)
  then have "(min_signed :: 'a word) = word_of_int (- (2 ^ (LENGTH('a) - 1)))"
    by (simp only: minus_min_signed)
  then have "sint (min_signed :: 'a word) = signed_take_bit (LENGTH('a) - 1) (- (2 ^ (LENGTH('a) - 1)))"
    using sint_sbintrunc' by metis
  also have "\<dots> = - (2 ^ (LENGTH('a) - 1))"
    by (rule signed_take_bit_int_eq_self) simp_all
  finally show ?thesis .
qed

lemma div_rem_identity: "div_s x y * y + rem_s x y = (x :: 'a::len word)"
proof (cases "y = 0 \<or> x = min_signed \<and> y = - 1")
  case True
  then show ?thesis
    by (auto simp: div_s_def rem_s_def minus_min_signed)
next
  case False
  have "word_of_int (sint x sdiv sint y) * y + word_of_int (sint x smod sint y) =
      word_of_int (sint x sdiv sint y * sint y + sint x smod sint y)"
    by simp
  also have "\<dots> = x" by (simp only: sdiv_mult_smod_eq) simp
  finally show ?thesis using False by (auto simp: div_s_def rem_s_def)
qed

lemma sint_of_int_range:
  "- (2 ^ (LENGTH('a) - 1)) \<le> k \<Longrightarrow> k < 2 ^ (LENGTH('a) - 1) \<Longrightarrow>
    sint (word_of_int k :: 'a::len word) = k"
  unfolding sint_sbintrunc' by (rule signed_take_bit_int_eq_self)

lemma sdiv_range:
  fixes a b M :: int
  assumes "- M \<le> a" "a < M" "b \<noteq> 0" "\<not> (a = - M \<and> b = - 1)"
  shows "- M \<le> a sdiv b \<and> a sdiv b < M"
proof -
  have abs: "\<bar>a sdiv b\<bar> = \<bar>a\<bar> div \<bar>b\<bar>"
    using assms(3) by (cases "a = 0") (simp_all add: signed_divide_int_def abs_mult pos_imp_zdiv_nonneg_iff)
  consider "b = 1" | "b = - 1" | "2 \<le> \<bar>b\<bar>" using assms(3) by linarith
  then show ?thesis
  proof cases
    case 1
    then have "a sdiv b = a" by (simp add: signed_divide_int_def sgn_mult_abs)
    then show ?thesis using assms(1,2) by simp
  next
    case 2
    then have "a sdiv b = - a" by (simp add: signed_divide_int_def sgn_mult_abs)
    then show ?thesis using assms 2 by auto
  next
    case 3
    have "\<bar>a\<bar> div \<bar>b\<bar> \<le> \<bar>a\<bar> div 2" using 3 by (intro zdiv_mono2) auto
    also have "\<dots> < M" using assms(1,2) by linarith
    finally show ?thesis using abs by linarith
  qed
qed

lemma smod_range:
  fixes a b :: int
  assumes "b \<noteq> 0"
  shows "\<bar>a smod b\<bar> < \<bar>b\<bar>"
proof -
  have "0 \<le> \<bar>a\<bar> mod \<bar>b\<bar>" "\<bar>a\<bar> mod \<bar>b\<bar> < \<bar>b\<bar>"
    using assms by (simp_all add: pos_mod_bound)
  then show ?thesis using assms by (cases "a = 0") (simp_all add: signed_modulo_int_def abs_mult)
qed

lemma div_rem_exact:
  fixes x y :: "'a::len word"
  assumes "y \<noteq> 0" and "\<not> (x = min_signed \<and> y = - 1)"
  shows "sint (div_s x y) = sint x sdiv sint y" and "sint (rem_s x y) = sint x smod sint y"
proof -
  let ?M = "2 ^ (LENGTH('a) - 1) :: int"
  have y: "sint y \<noteq> 0" using assms(1) by (simp add: signed_eq_0_iff)
  have x: "- ?M \<le> sint x" "sint x < ?M" and y': "\<bar>sint y\<bar> \<le> ?M"
    using sint_ge [of x] sint_less [of x] sint_ge [of y] sint_less [of y] by auto
  have "\<not> (sint x = - ?M \<and> sint y = - 1)"
    using assms(2) sint_min_signed [where 'a = 'a] by (metis sint_n1 signed_word_eqI)
  then have "- ?M \<le> sint x sdiv sint y \<and> sint x sdiv sint y < ?M"
    using sdiv_range [OF x y] by simp
  then show "sint (div_s x y) = sint x sdiv sint y"
    using assms sint_of_int_range [where 'a = 'a] by (auto simp: div_s_def)
  have "- ?M \<le> sint x smod sint y \<and> sint x smod sint y < ?M"
    using smod_range [OF y, of "sint x"] y' by linarith
  then show "sint (rem_s x y) = sint x smod sint y"
    using assms sint_of_int_range [where 'a = 'a] by (auto simp: rem_s_def)
qed

end
