(* ===== verification/Rv_Fpu.thy ===== *)
theory Rv_Fpu
  imports Rv_Prelude
begin

text \<open>
  The floating-point support of \<^verbatim>\<open>src/src/asm/fpu.h\<close>: the exchange of exception flags and rounding
  mode with the host's floating-point environment (the C11 variant, which the build uses: nothing
  defines \<^verbatim>\<open>USE_SSE_MATH\<close>), the classification of a number by its bits, and the conversions to
  integers (the variants for x86-64).  The host environment is the state that
  \<^verbatim>\<open>fetestexcept\<close>, \<^verbatim>\<open>feclearexcept\<close> and \<^verbatim>\<open>fesetround\<close> read and write.  The arithmetic of the host is
  a parameter: the record \<open>host_fp\<close> of operations on the bits of numbers, which may read and change
  the environment.
\<close>

section \<open>Host environment\<close>

datatype fe_rounding = FE_TONEAREST | FE_TOWARDZERO | FE_DOWNWARD | FE_UPWARD

record host_fenv =
  fe_divbyzero :: bool
  fe_inexact :: bool
  fe_invalid :: bool
  fe_overflow :: bool
  fe_underflow :: bool
  fe_round :: fe_rounding

abbreviation (input) rv_fcsr_NX :: u32 where "rv_fcsr_NX \<equiv> 1"
abbreviation (input) rv_fcsr_UF :: u32 where "rv_fcsr_UF \<equiv> 2"
abbreviation (input) rv_fcsr_OF :: u32 where "rv_fcsr_OF \<equiv> 4"
abbreviation (input) rv_fcsr_DZ :: u32 where "rv_fcsr_DZ \<equiv> 8"
abbreviation (input) rv_fcsr_NV :: u32 where "rv_fcsr_NV \<equiv> 16"

definition flag_if :: "bool \<Rightarrow> u32 \<Rightarrow> u32" where
  "flag_if b f = (if b then f else 0)"

definition fenv_getflags :: "host_fenv \<Rightarrow> u32 \<Rightarrow> u32" where
  "fenv_getflags env fcsr =
     fcsr OR flag_if (fe_divbyzero env) rv_fcsr_DZ OR flag_if (fe_inexact env) rv_fcsr_NX
       OR flag_if (fe_invalid env) rv_fcsr_NV OR flag_if (fe_overflow env) rv_fcsr_OF
       OR flag_if (fe_underflow env) rv_fcsr_UF"

definition fenv_clearflags :: "u32 \<Rightarrow> host_fenv \<Rightarrow> host_fenv" where
  "fenv_clearflags fcsr env = env
     \<lparr>fe_divbyzero := fe_divbyzero env \<and> fcsr AND rv_fcsr_DZ \<noteq> 0,
      fe_inexact := fe_inexact env \<and> fcsr AND rv_fcsr_NX \<noteq> 0,
      fe_invalid := fe_invalid env \<and> fcsr AND rv_fcsr_NV \<noteq> 0,
      fe_overflow := fe_overflow env \<and> fcsr AND rv_fcsr_OF \<noteq> 0,
      fe_underflow := fe_underflow env \<and> fcsr AND rv_fcsr_UF \<noteq> 0\<rparr>"

definition fenv_setrm :: "u32 \<Rightarrow> host_fenv \<Rightarrow> host_fenv" where
  "fenv_setrm rm env =
    (if rm = 0 then env\<lparr>fe_round := FE_TONEAREST\<rparr>
     else if rm = 1 then env\<lparr>fe_round := FE_TOWARDZERO\<rparr>
     else if rm = 2 then env\<lparr>fe_round := FE_DOWNWARD\<rparr>
     else if rm = 3 then env\<lparr>fe_round := FE_UPWARD\<rparr>
     else if rm = 4 then env\<lparr>fe_round := FE_TONEAREST\<rparr>
     else env)"

section \<open>Flags\<close>

lemma and_push_bit_one:
  "x AND push_bit n 1 \<noteq> 0 \<longleftrightarrow> bit x n" if "n < LENGTH('a)" for x :: "'a::len word"
proof -
  have "x AND push_bit n 1 = (if bit x n then push_bit n 1 else 0)"
    using that by (auto intro!: bit_word_eqI simp: bit_simps)
  moreover have "push_bit n 1 \<noteq> (0 :: 'a word)" using that by (simp add: push_bit_eq_mult)
  ultimately show ?thesis by simp
qed

lemma flag_tests:
  "x AND rv_fcsr_NX \<noteq> 0 \<longleftrightarrow> bit x 0" "x AND rv_fcsr_UF \<noteq> 0 \<longleftrightarrow> bit x 1"
  "x AND rv_fcsr_OF \<noteq> 0 \<longleftrightarrow> bit x 2" "x AND rv_fcsr_DZ \<noteq> 0 \<longleftrightarrow> bit x 3"
  "x AND rv_fcsr_NV \<noteq> 0 \<longleftrightarrow> bit x 4"
  using and_push_bit_one [of 0 x] and_push_bit_one [of 1 x] and_push_bit_one [of 2 x]
    and_push_bit_one [of 3 x] and_push_bit_one [of 4 x]
  by simp_all

text \<open>What is raised in the environment is recorded already.\<close>

definition flags_within :: "host_fenv \<Rightarrow> u32 \<Rightarrow> bool" where
  "flags_within env x \<longleftrightarrow>
     (fe_inexact env \<longrightarrow> bit x 0) \<and> (fe_underflow env \<longrightarrow> bit x 1) \<and> (fe_overflow env \<longrightarrow> bit x 2) \<and>
     (fe_divbyzero env \<longrightarrow> bit x 3) \<and> (fe_invalid env \<longrightarrow> bit x 4)"

lemma or_push_bit_one: "x OR push_bit n 1 = x" if "bit x n" for x :: "'a::len word"
  using that by (auto intro!: bit_word_eqI simp: bit_simps)

lemma or_flag_if:
  "(b \<longrightarrow> bit x 0) \<Longrightarrow> x OR flag_if b rv_fcsr_NX = x"
  "(b \<longrightarrow> bit x 1) \<Longrightarrow> x OR flag_if b rv_fcsr_UF = x"
  "(b \<longrightarrow> bit x 2) \<Longrightarrow> x OR flag_if b rv_fcsr_OF = x"
  "(b \<longrightarrow> bit x 3) \<Longrightarrow> x OR flag_if b rv_fcsr_DZ = x"
  "(b \<longrightarrow> bit x 4) \<Longrightarrow> x OR flag_if b rv_fcsr_NV = x"
  using or_push_bit_one [of x 0] or_push_bit_one [of x 1] or_push_bit_one [of x 2]
    or_push_bit_one [of x 3] or_push_bit_one [of x 4]
  by (auto simp: flag_if_def)

lemma getflags_within: "flags_within env x \<Longrightarrow> fenv_getflags env x = x"
  unfolding flags_within_def fenv_getflags_def or.assoc [symmetric]
  by (elim conjE) (simp only: or_flag_if)

lemma clearflags_within: "flags_within (fenv_clearflags x env) x"
  by (simp add: flags_within_def fenv_clearflags_def flag_tests)

lemma setrm_within [simp]: "flags_within (fenv_setrm rm env) x \<longleftrightarrow> flags_within env x"
  by (simp add: flags_within_def fenv_setrm_def)

section \<open>Classification\<close>

record float_format =
  man_size :: nat
  exp_size :: nat

definition f32_type :: float_format where
  "f32_type = \<lparr>man_size = 23, exp_size = 8\<rparr>"

definition f64_type :: float_format where
  "f64_type = \<lparr>man_size = 52, exp_size = 11\<rparr>"

text \<open>The bits of a number: \<open>man\<close> lowest, then \<open>exp\<close>, then \<open>sign\<close>; the class is a one-bit mask.\<close>

definition float_man :: "float_format \<Rightarrow> u64 \<Rightarrow> u64" where
  "float_man F v = take_bit (man_size F) v"

definition float_exp :: "float_format \<Rightarrow> u64 \<Rightarrow> u64" where
  "float_exp F v = take_bit (exp_size F) (drop_bit (man_size F) v)"

definition float_sign :: "float_format \<Rightarrow> u64 \<Rightarrow> bool" where
  "float_sign F v = bit v (man_size F + exp_size F)"

definition float_classify :: "float_format \<Rightarrow> u64 \<Rightarrow> nat" where
  "float_classify F v =
    (let neg = float_sign F v; ex = float_exp F v; man = float_man F v in
     if ex = 0
     then if man = 0 then (if neg then 8 else 16) else (if neg then 4 else 32)
     else if ex = push_bit (exp_size F) 1 - 1
     then if man = 0 then (if neg then 1 else 128) else (if man AND 1 \<noteq> 0 then 256 else 512)
     else if neg then 2 else 64)"

definition f32_classify :: "u64 \<Rightarrow> nat" where
  "f32_classify v = float_classify f32_type v"

definition f64_classify :: "u64 \<Rightarrow> nat" where
  "f64_classify v = float_classify f64_type v"

text \<open>
  The classes of the instruction set, as a specification over the three fields: a NaN is quiet if
  the topmost bit of its mantissa is set.
\<close>

definition spec_classify :: "float_format \<Rightarrow> u64 \<Rightarrow> nat" where
  "spec_classify F v =
    (let s = float_sign F v; e = unat (float_exp F v); m = unat (float_man F v) in
     if e = 2 ^ exp_size F - 1 \<and> m \<noteq> 0 then (if 2 ^ (man_size F - 1) \<le> m then 512 else 256)
     else if e = 2 ^ exp_size F - 1 then (if s then 1 else 128)
     else if e = 0 \<and> m = 0 then (if s then 8 else 16)
     else if e = 0 then (if s then 4 else 32)
     else (if s then 2 else 64))"

lemma float_classify_spec:
  assumes "F = f32_type \<or> F = f64_type"
    and "\<not> (unat (float_exp F v) = 2 ^ exp_size F - 1 \<and> float_man F v \<noteq> 0)"
  shows "float_classify F v = spec_classify F v"
proof -
  have "float_exp F v = push_bit (exp_size F) 1 - 1 \<longleftrightarrow> unat (float_exp F v) = 2 ^ exp_size F - 1"
    using assms(1) by (auto simp: f32_type_def f64_type_def word_unat_eq_iff)
  moreover have "float_exp F v = 0 \<longleftrightarrow> unat (float_exp F v) = 0" "float_man F v = 0 \<longleftrightarrow> unat (float_man F v) = 0"
    by (simp_all only: unat_eq_0)
  moreover have "0 \<noteq> (2 :: nat) ^ exp_size F - 1"
    using assms(1) by (auto simp: f32_type_def f64_type_def)
  ultimately show ?thesis
    using assms(2) unfolding float_classify_def spec_classify_def Let_def by (simp split: if_split)
qed

section \<open>Arithmetic of the host\<close>

text \<open>
  What C++ does with the operators and conversions of \<^verbatim>\<open>float\<close> and \<^verbatim>\<open>double\<close>, as functions of the
  bits and the environment.
\<close>

record 'b fp_ops =
  fp_neg :: "'b \<Rightarrow> 'b"
  fp_add :: "'b \<Rightarrow> 'b \<Rightarrow> host_fenv \<Rightarrow> 'b \<times> host_fenv"
  fp_sub :: "'b \<Rightarrow> 'b \<Rightarrow> host_fenv \<Rightarrow> 'b \<times> host_fenv"
  fp_mul :: "'b \<Rightarrow> 'b \<Rightarrow> host_fenv \<Rightarrow> 'b \<times> host_fenv"
  fp_div :: "'b \<Rightarrow> 'b \<Rightarrow> host_fenv \<Rightarrow> 'b \<times> host_fenv"
  fp_sqrt :: "'b \<Rightarrow> host_fenv \<Rightarrow> 'b \<times> host_fenv"
  fp_lt :: "'b \<Rightarrow> 'b \<Rightarrow> host_fenv \<Rightarrow> bool \<times> host_fenv"
  fp_le :: "'b \<Rightarrow> 'b \<Rightarrow> host_fenv \<Rightarrow> bool \<times> host_fenv"
  fp_eq :: "'b \<Rightarrow> 'b \<Rightarrow> host_fenv \<Rightarrow> bool \<times> host_fenv"
  fp_to_s32 :: "'b \<Rightarrow> host_fenv \<Rightarrow> s32 \<times> host_fenv"
  fp_to_u32 :: "'b \<Rightarrow> host_fenv \<Rightarrow> u32 \<times> host_fenv"
  fp_to_s64 :: "'b \<Rightarrow> host_fenv \<Rightarrow> s64 \<times> host_fenv"
  fp_to_u64 :: "'b \<Rightarrow> host_fenv \<Rightarrow> u64 \<times> host_fenv"
  fp_of_s32 :: "s32 \<Rightarrow> host_fenv \<Rightarrow> 'b \<times> host_fenv"
  fp_of_u32 :: "u32 \<Rightarrow> host_fenv \<Rightarrow> 'b \<times> host_fenv"
  fp_of_s64 :: "s64 \<Rightarrow> host_fenv \<Rightarrow> 'b \<times> host_fenv"
  fp_of_u64 :: "u64 \<Rightarrow> host_fenv \<Rightarrow> 'b \<times> host_fenv"

record host_fp =
  hf32 :: "u32 fp_ops"
  hf64 :: "u64 fp_ops"
  hf_narrow :: "u64 \<Rightarrow> host_fenv \<Rightarrow> u32 \<times> host_fenv"   \<comment> \<open>\<open>f32(f64)\<close>\<close>
  hf_widen :: "u32 \<Rightarrow> host_fenv \<Rightarrow> u64 \<times> host_fenv"    \<comment> \<open>\<open>f64(f32)\<close>\<close>

text \<open>\<^verbatim>\<open>std::isnan\<close> and \<^verbatim>\<open>std::isinf\<close>\<close>

definition float_isnan :: "float_format \<Rightarrow> u64 \<Rightarrow> bool" where
  "float_isnan F v \<longleftrightarrow> float_exp F v = push_bit (exp_size F) 1 - 1 \<and> float_man F v \<noteq> 0"

definition float_isinf :: "float_format \<Rightarrow> u64 \<Rightarrow> bool" where
  "float_isinf F v \<longleftrightarrow> float_exp F v = push_bit (exp_size F) 1 - 1 \<and> float_man F v = 0"

section \<open>Conversions to integers\<close>

text \<open>The result, the control register with the flags the conversion raises itself, the environment.\<close>

definition fcvt_w :: "float_format \<Rightarrow> ('b::len word) fp_ops \<Rightarrow> u32 \<Rightarrow> 'b word \<Rightarrow> host_fenv \<Rightarrow>
    s32 \<times> u32 \<times> host_fenv" where
  "fcvt_w F H fcsr f e =
    (case fp_of_s32 H 0x7fffffff e of (mx, e) \<Rightarrow>
     case fp_lt H mx f e of (gt, e) \<Rightarrow>
     case fp_to_s32 H f e of (i, e) \<Rightarrow>
       (if gt \<and> i <s 0 \<or> float_isnan F (ucast f) then 0x7fffffff else i, fcsr, e))"

definition fcvt_wu :: "float_format \<Rightarrow> ('b::len word) fp_ops \<Rightarrow> u32 \<Rightarrow> 'b word \<Rightarrow> host_fenv \<Rightarrow>
    s32 \<times> u32 \<times> host_fenv" where
  "fcvt_wu F H fcsr f e =
    (case fp_of_s32 H 0 e of (zero, e) \<Rightarrow>
     case fp_le H zero f e of (pos, e) \<Rightarrow>
     if float_isnan F (ucast f) \<or> pos \<and> float_isinf F (ucast f) then (- 1, fcsr, e)
     else if pos then (case fp_to_u32 H f e of (i, e) \<Rightarrow> (i, fcsr, e))
     else case fp_of_s32 H (- 1) e of (m1, e) \<Rightarrow>
          case fp_lt H m1 f e of (gt, e) \<Rightarrow>
            if gt then (0, fcsr OR rv_fcsr_NX, e) else (0, fcsr OR rv_fcsr_NV, e))"

definition fcvt_l :: "float_format \<Rightarrow> ('b::len word) fp_ops \<Rightarrow> u32 \<Rightarrow> 'b word \<Rightarrow> host_fenv \<Rightarrow>
    s64 \<times> u32 \<times> host_fenv" where
  "fcvt_l F H fcsr f e =
    (case fp_of_s64 H 0x7fffffffffffffff e of (mx, e) \<Rightarrow>
     case fp_lt H mx f e of (gt, e) \<Rightarrow>
     case fp_to_s64 H f e of (i, e) \<Rightarrow>
       (if gt \<and> i <s 0 \<or> float_isnan F (ucast f) then 0x7fffffffffffffff else i, fcsr, e))"

text \<open>\<open>two63\<close> is the constant 2 to the 63rd in the format.\<close>

definition fcvt_lu :: "float_format \<Rightarrow> ('b::len word) fp_ops \<Rightarrow> 'b word \<Rightarrow> u32 \<Rightarrow> 'b word \<Rightarrow> host_fenv \<Rightarrow>
    s64 \<times> u32 \<times> host_fenv" where
  "fcvt_lu F H two63 fcsr f e =
    (case fp_of_s32 H 0 e of (zero, e) \<Rightarrow>
     case fp_le H zero f e of (pos, e) \<Rightarrow>
     if float_isnan F (ucast f) \<or> pos \<and> float_isinf F (ucast f) then (- 1, fcsr, e)
     else case fp_of_s32 H (- 1) e of (m1, e) \<Rightarrow>
          case fp_le H f m1 e of (below, e) \<Rightarrow>
          if below then (0, fcsr OR rv_fcsr_NV, e)
          else case fp_lt H f zero e of (neg, e) \<Rightarrow>
          if neg then (0, fcsr OR rv_fcsr_NX, e)
          else case fp_lt H two63 f e of (big, e) \<Rightarrow>
          if big then (case fp_sub H f two63 e of (g, e) \<Rightarrow>
                       case fp_to_s64 H g e of (i, e) \<Rightarrow> (i XOR 0x8000000000000000, fcsr, e))
          else (case fp_to_s64 H f e of (i, e) \<Rightarrow> (i, fcsr, e)))"

section \<open>The conversion of C++ to an unsigned integer\<close>

text \<open>
  The integer part of the magnitude of a number: what the language defines for a conversion to an
  integer type, if it fits.
\<close>

definition float_trunc :: "float_format \<Rightarrow> u64 \<Rightarrow> nat" where
  "float_trunc F v =
    (let e = unat (float_exp F v); m = unat (float_man F v) in
     (if e = 0 then m else 2 ^ man_size F + m) * 2 ^ max e 1 div 2 ^ (2 ^ (exp_size F - 1) - 1 + man_size F))"

definition converts_unsigned :: "host_fp \<Rightarrow> bool" where
  "converts_unsigned hf \<longleftrightarrow>
    (\<forall>v e. \<not> float_sign f32_type (ucast v) \<longrightarrow> float_trunc f32_type (ucast v) < 2 ^ 32 \<longrightarrow>
       fst (fp_to_u32 (hf32 hf) v e) = of_nat (float_trunc f32_type (ucast v))) \<and>
    (\<forall>v e. \<not> float_sign f64_type v \<longrightarrow> float_trunc f64_type v < 2 ^ 64 \<longrightarrow>
       fst (fp_to_u64 (hf64 hf) v e) = of_nat (float_trunc f64_type v))"

text \<open>
  A host for examples, with these conversions, no other arithmetic, and no exceptions raised.
\<close>

definition demo_fp :: "float_format \<Rightarrow> ('b::len word) fp_ops" where
  "demo_fp F = \<lparr>fp_neg = \<lambda>a. a, fp_add = \<lambda>a b e. (0, e), fp_sub = \<lambda>a b e. (0, e),
     fp_mul = \<lambda>a b e. (0, e), fp_div = \<lambda>a b e. (0, e), fp_sqrt = \<lambda>a e. (0, e),
     fp_lt = \<lambda>a b e. (False, e), fp_le = \<lambda>a b e. (False, e), fp_eq = \<lambda>a b e. (a = b, e),
     fp_to_s32 = \<lambda>a e. (0, e), fp_to_u32 = \<lambda>a e. (of_nat (float_trunc F (ucast a)), e),
     fp_to_s64 = \<lambda>a e. (0, e), fp_to_u64 = \<lambda>a e. (of_nat (float_trunc F (ucast a)), e),
     fp_of_s32 = \<lambda>a e. (0, e), fp_of_u32 = \<lambda>a e. (0, e), fp_of_s64 = \<lambda>a e. (0, e),
     fp_of_u64 = \<lambda>a e. (0, e)\<rparr>"

definition demo_hf :: host_fp where
  "demo_hf = \<lparr>hf32 = demo_fp f32_type, hf64 = demo_fp f64_type, hf_narrow = \<lambda>a e. (0, e),
     hf_widen = \<lambda>a e. (0, e)\<rparr>"

definition demo_fenv :: host_fenv where
  "demo_fenv = \<lparr>fe_divbyzero = False, fe_inexact = False, fe_invalid = False, fe_overflow = False,
     fe_underflow = False, fe_round = FE_TONEAREST\<rparr>"

lemma demo_converts: "converts_unsigned demo_hf"
  by (simp add: converts_unsigned_def demo_hf_def demo_fp_def)

end
