(* ===== verification/Rv_Proc.thy ===== *)
theory Rv_Proc
  imports Rv_Formats Rv_Alu Rv_Fpu
begin

text \<open>
  The processor state of \<^verbatim>\<open>src/src/emu/processor-base.h\<close> and the outcome of an operation on it.

  \<^verbatim>\<open>raise\<close> leaves an instruction by \<^verbatim>\<open>longjmp\<close>: the changes made so far stay, nothing after it
  runs.  The outcome is therefore either a return value or an exit, each with the state.  A C++
  operation without defined result (a shift by the width of the operand or more) is an exit of its
  own kind.
\<close>

section \<open>Outcomes\<close>

datatype exit_kind =
    Trap "int"            \<comment> \<open>\<open>raise(cause, addr)\<close> with \<open>exceptions\<close> set\<close>
  | Panic                 \<comment> \<open>\<open>panic(...)\<close> ends the program\<close>
  | Ended                 \<comment> \<open>\<open>::exit(...)\<close> ends the program\<close>
  | Undefined             \<comment> \<open>undefined behaviour of C++\<close>

datatype ('s, 'a) outcome = Ret (result: 'a) (final: 's) | Exit exit_kind (final: 's)

primrec bind_outcome :: "('s, 'a) outcome \<Rightarrow> ('a \<Rightarrow> 's \<Rightarrow> ('s, 'b) outcome) \<Rightarrow> ('s, 'b) outcome" where
  "bind_outcome (Ret a s) f = f a s"
| "bind_outcome (Exit k s) f = Exit k s"

lemma bind_outcome_assoc:
  "bind_outcome (bind_outcome r f) g = bind_outcome r (\<lambda>a s. bind_outcome (f a s) g)"
  by (cases r) simp_all

section \<open>Processor state\<close>

text \<open>
  The fields of \<^verbatim>\<open>processor_base\<close> that the modelled code uses; \<open>'x\<close> is the register width and \<open>'m\<close>
  the type of the memory management unit.  A floating-point register is its 64 bits.  The host's
  floating-point environment is part of the state, since instructions change it.  Logging,
  tracing and debugger fields are left out.
\<close>

record (overloaded) ('x, 'm) processor =
  pc :: "'x::len word"
  ireg :: "'x word list"
  freg :: "u64 list"
  lr :: "'x word"
  cause :: "'x word"
  badaddr :: "'x word"
  running :: bool
  time_ctr :: u64
  instret :: u64
  fcsr :: u32
  fenv :: host_fenv
  mmu :: 'm

text \<open>
  \<^verbatim>\<open>raise\<close> with \<^verbatim>\<open>exceptions\<close> set, as the constructor leaves it and nothing in the program changes it: the branch that
  only records the cause is never taken.
\<close>

definition raise :: "int \<Rightarrow> 'x::len word \<Rightarrow> ('x, 'm, 'z) processor_scheme \<Rightarrow>
    (('x, 'm, 'z) processor_scheme, 'a) outcome" where
  "raise ex_cause ex_addr p = Exit (Trap ex_cause) (p\<lparr>badaddr := ex_addr\<rparr>)"

text \<open>The state the constructor \<^verbatim>\<open>processor_base()\<close> makes.\<close>

definition proc_init :: "host_fenv \<Rightarrow> 'm \<Rightarrow> ('x::len, 'm) processor" where
  "proc_init env u = \<lparr>pc = 0, ireg = replicate 32 0, freg = replicate 32 0, lr = 0, cause = 0,
     badaddr = 0, running = True, time_ctr = 0, instret = 0, fcsr = 0, fenv = env, mmu = u\<rparr>"

section \<open>Registers\<close>

definition get_reg :: "('x::len, 'm, 'z) processor_scheme \<Rightarrow> u8 \<Rightarrow> 'x word" where
  "get_reg p r = ireg p ! unat r"

text \<open>\<^verbatim>\<open>proc.ireg[dec.rd] = (dec.rd == 0) ? 0 : v\<close>\<close>

definition set_rd :: "decode \<Rightarrow> 'x::len word \<Rightarrow> ('x, 'm, 'z) processor_scheme \<Rightarrow>
    ('x, 'm, 'z) processor_scheme" where
  "set_rd dec v p =
    p\<lparr>ireg := (ireg p)[unat (dec_rd dec) := (if dec_rd dec = 0 then 0 else v)]\<rparr>"

text \<open>
  Floating-point registers: \<^verbatim>\<open>r.s\<close> and \<^verbatim>\<open>r.wu\<close> are the low 32 bits, and writing them leaves the high
  bits; \<^verbatim>\<open>r.d\<close> and \<^verbatim>\<open>r.lu\<close> are all 64.
\<close>

definition get_freg :: "('x::len, 'm, 'z) processor_scheme \<Rightarrow> u8 \<Rightarrow> 'b::len word" where
  "get_freg p r = ucast (freg p ! unat r)"

definition set_freg :: "u8 \<Rightarrow> 'b::len word \<Rightarrow> ('x::len, 'm, 'z) processor_scheme \<Rightarrow>
    ('x, 'm, 'z) processor_scheme" where
  "set_freg r v p =
    p\<lparr>freg := (freg p)[unat r := (freg p ! unat r AND NOT (mask LENGTH('b))) OR ucast v]\<rparr>"

text \<open>The well-formed register files: 32 registers each, the first integer register is zero.\<close>

definition regs_ok :: "('x::len, 'm, 'z) processor_scheme \<Rightarrow> bool" where
  "regs_ok p \<longleftrightarrow> length (ireg p) = 32 \<and> ireg p ! 0 = 0 \<and> length (freg p) = 32"

lemma regs_ok_init [simp]: "regs_ok (proc_init env u)"
  by (simp add: regs_ok_def proc_init_def)

lemma set_rd_regs_ok [simp, intro]: "regs_ok p \<Longrightarrow> regs_ok (set_rd dec v p)"
  by (auto simp: regs_ok_def set_rd_def nth_list_update unat_eq_0 dest: sym)

lemma get_reg_zero: "regs_ok p \<Longrightarrow> get_reg p 0 = 0"
  by (simp add: get_reg_def regs_ok_def)

lemma get_reg_set_rd:
  assumes "regs_ok p" and "dec_rd dec < 32"
  shows "get_reg (set_rd dec v p) r = (if r = dec_rd dec \<and> r \<noteq> 0 then v else get_reg p r)"
proof -
  have len: "unat (dec_rd dec) < length (ireg p)"
    using assms by (simp add: regs_ok_def word_less_nat_alt)
  show ?thesis
  proof (cases "r = dec_rd dec")
    case True
    then show ?thesis using len assms(1) by (auto simp: get_reg_def set_rd_def regs_ok_def)
  next
    case False
    then have "unat (dec_rd dec) \<noteq> unat r" by (simp add: word_unat_eq_iff)
    then show ?thesis using False by (simp add: get_reg_def set_rd_def)
  qed
qed

lemma set_freg_regs_ok [simp, intro]: "regs_ok p \<Longrightarrow> regs_ok (set_freg r v p)"
  by (simp add: regs_ok_def set_freg_def)

lemma get_set_freg:
  fixes p :: "('x::len, 'm, 'z) processor_scheme" and v :: "'b::len word"
  assumes "regs_ok p" and "r < 32" and "LENGTH('b) \<le> 64"
  shows "get_freg (set_freg r v p) r = v"
proof -
  have "unat r < length (freg p)" using assms by (simp add: regs_ok_def word_less_nat_alt)
  then show ?thesis
    using assms(3) by (auto intro!: bit_word_eqI simp: get_freg_def set_freg_def bit_simps)
qed

lemma set_rd_fields [simp]:
  "pc (set_rd dec v p) = pc p" "lr (set_rd dec v p) = lr p" "mmu (set_rd dec v p) = mmu p"
  "badaddr (set_rd dec v p) = badaddr p" "cause (set_rd dec v p) = cause p"
  "processor.more (set_rd dec v p) = processor.more p"
  by (simp_all add: set_rd_def)

section \<open>Interface to the memory management unit\<close>

text \<open>
  The member templates \<^verbatim>\<open>load<P,T>\<close>, \<^verbatim>\<open>store<P,T>\<close> and \<^verbatim>\<open>amo<P,T>\<close> an instruction calls, indexed by
  \<^verbatim>\<open>sizeof(T)\<close>; values are passed as the low bytes of a 64-bit word,
  floating-point numbers as their bits.
\<close>

record (overloaded) ('s, 'x) mmu_ops =
  mmu_load :: "nat \<Rightarrow> 'x word \<Rightarrow> 's \<Rightarrow> ('s, u64) outcome"
  mmu_store :: "nat \<Rightarrow> 'x word \<Rightarrow> u64 \<Rightarrow> 's \<Rightarrow> ('s, unit) outcome"
  mmu_store_fp :: "nat \<Rightarrow> 'x word \<Rightarrow> u64 \<Rightarrow> 's \<Rightarrow> ('s, unit) outcome"   \<comment> \<open>\<open>T\<close> is \<open>f32\<close> or \<open>f64\<close>\<close>
  mmu_amo :: "nat \<Rightarrow> amo_op \<Rightarrow> 'x word \<Rightarrow> u64 \<Rightarrow> 's \<Rightarrow> ('s, u64) outcome"

text \<open>What an operation must leave alone for the instructions that call it: registers and pc.\<close>

definition keeps_regs :: "('x::len, 'm, 'z) processor_scheme \<Rightarrow>
    (('x, 'm, 'z) processor_scheme, 'a) outcome \<Rightarrow> bool" where
  "keeps_regs p r \<longleftrightarrow> ireg (final r) = ireg p \<and> freg (final r) = freg p \<and> pc (final r) = pc p"

locale mmu_interface =
  fixes ops :: "(('x::len, 'm, 'z) processor_scheme, 'x) mmu_ops"
  assumes load_keeps: "keeps_regs p (mmu_load ops n va p)"
    and store_keeps: "keeps_regs p (mmu_store ops n va v p)"
    and store_fp_keeps: "keeps_regs p (mmu_store_fp ops n va v p)"
    and amo_keeps: "keeps_regs p (mmu_amo ops n aop va v p)"

end
