(* ===== verification/Rv_Interp.thy ===== *)
theory Rv_Interp
  imports Rv_Proc Rv_Switch
begin

text \<open>
  The instruction interpreter of \<^verbatim>\<open>src/src/emu/interp.h\<close>: \<^verbatim>\<open>exec_inst_rv32\<close> and
  \<^verbatim>\<open>exec_inst_rv64\<close>.  The two C++ functions repeat the
  same cases with \<^verbatim>\<open>sx\<close>/\<^verbatim>\<open>ux\<close> of 32 and 64 bits; the cases are stated once, generic in the
  register width, in groups of the switch, and each function selects the groups it has.  A group
  returns \<open>None\<close> for an opcode it does not handle.

  The build uses \<^verbatim>\<open>-fwrapv\<close>, so signed arithmetic wraps; a shift by the operand width or more has
  no defined result in C++ and is the exit \<open>Undefined\<close>.  The floating-point cases compute with the
  arithmetic of the host, which is the parameter \<open>hf\<close>.
\<close>

section \<open>Building blocks\<close>

text \<open>\<^verbatim>\<open>if (rvX) { ... }; break;\<close> followed by \<^verbatim>\<open>return pc_offset\<close>\<close>

definition when_ext :: "bool \<Rightarrow> 'a \<Rightarrow> 's \<Rightarrow> ('s, 'a) outcome \<Rightarrow> ('s, 'a) outcome option" where
  "when_ext b off p r = Some (if b then r else Ret off p)"

definition guard_shift :: "nat \<Rightarrow> nat \<Rightarrow> 's \<Rightarrow> ('s, 'a) outcome \<Rightarrow> ('s, 'a) outcome" where
  "guard_shift width n p r = (if n < width then r else Exit Undefined p)"

section \<open>Control transfer\<close>

definition exec_ctrl :: "isa \<Rightarrow> decode \<Rightarrow> 'x::len word \<Rightarrow>
    ('x, 'm, 'z) processor_scheme \<Rightarrow> (('x, 'm, 'z) processor_scheme, 'x word) outcome option" where
  "exec_ctrl cfg dec pc_offset proc =
    (let imm = scast (dec_imm dec);
         a = get_reg proc (dec_rs1 dec);
         b = get_reg proc (dec_rs2 dec) in
     if dec_op dec = rv_op_lui then when_ext (rvi cfg) pc_offset proc
       (Ret pc_offset (set_rd dec (imm) proc))
     else if dec_op dec = rv_op_auipc then when_ext (rvi cfg) pc_offset proc
       (Ret pc_offset (set_rd dec (pc proc + imm) proc))
     else if dec_op dec = rv_op_jal then when_ext (rvi cfg) pc_offset proc
       (Ret imm (set_rd dec (pc proc + pc_offset) proc))
     else if dec_op dec = rv_op_jalr then when_ext (rvi cfg) pc_offset proc
       (let new_offset = (a + imm - pc proc) AND NOT 1
        in Ret new_offset (set_rd dec (pc proc + pc_offset) proc))
     else if dec_op dec = rv_op_beq then when_ext (rvi cfg) pc_offset proc
       (Ret (if a = b then imm else pc_offset) proc)
     else if dec_op dec = rv_op_bne then when_ext (rvi cfg) pc_offset proc
       (Ret (if a \<noteq> b then imm else pc_offset) proc)
     else if dec_op dec = rv_op_blt then when_ext (rvi cfg) pc_offset proc
       (Ret (if a <s b then imm else pc_offset) proc)
     else if dec_op dec = rv_op_bge then when_ext (rvi cfg) pc_offset proc
       (Ret (if b \<le>s a then imm else pc_offset) proc)
     else if dec_op dec = rv_op_bltu then when_ext (rvi cfg) pc_offset proc
       (Ret (if a < b then imm else pc_offset) proc)
     else if dec_op dec = rv_op_bgeu then when_ext (rvi cfg) pc_offset proc
       (Ret (if b \<le> a then imm else pc_offset) proc)
     else None)"

section \<open>Loads and stores\<close>

definition exec_mem :: "isa \<Rightarrow> (('x, 'm, 'z) processor_scheme, 'x) mmu_ops \<Rightarrow> decode \<Rightarrow> 'x::len word \<Rightarrow>
    ('x, 'm, 'z) processor_scheme \<Rightarrow> (('x, 'm, 'z) processor_scheme, 'x word) outcome option" where
  "exec_mem cfg ops dec pc_offset proc =
    (let imm = scast (dec_imm dec);
         a = get_reg proc (dec_rs1 dec);
         b = get_reg proc (dec_rs2 dec) in
     if dec_op dec = rv_op_lb then when_ext (rvi cfg) pc_offset proc
       (bind_outcome (mmu_load ops 1 (a + imm) proc) (\<lambda>t proc.
        Ret pc_offset (set_rd dec (scast (ucast t :: 8 word)) proc)))
     else if dec_op dec = rv_op_lh then when_ext (rvi cfg) pc_offset proc
       (bind_outcome (mmu_load ops 2 (a + imm) proc) (\<lambda>t proc.
        Ret pc_offset (set_rd dec (scast (ucast t :: 16 word)) proc)))
     else if dec_op dec = rv_op_lw then when_ext (rvi cfg) pc_offset proc
       (bind_outcome (mmu_load ops 4 (a + imm) proc) (\<lambda>t proc.
        Ret pc_offset (set_rd dec (scast (ucast t :: 32 word)) proc)))
     else if dec_op dec = rv_op_lbu then when_ext (rvi cfg) pc_offset proc
       (bind_outcome (mmu_load ops 1 (a + imm) proc) (\<lambda>t proc.
        Ret pc_offset (set_rd dec (ucast (ucast t :: 8 word)) proc)))
     else if dec_op dec = rv_op_lhu then when_ext (rvi cfg) pc_offset proc
       (bind_outcome (mmu_load ops 2 (a + imm) proc) (\<lambda>t proc.
        Ret pc_offset (set_rd dec (ucast (ucast t :: 16 word)) proc)))
     else if dec_op dec = rv_op_sb then when_ext (rvi cfg) pc_offset proc
       (bind_outcome (mmu_store ops 1 (a + imm) (ucast b) proc) (\<lambda>_ proc. Ret pc_offset proc))
     else if dec_op dec = rv_op_sh then when_ext (rvi cfg) pc_offset proc
       (bind_outcome (mmu_store ops 2 (a + imm) (ucast b) proc) (\<lambda>_ proc. Ret pc_offset proc))
     else if dec_op dec = rv_op_sw then when_ext (rvi cfg) pc_offset proc
       (bind_outcome (mmu_store ops 4 (a + imm) (ucast b) proc) (\<lambda>_ proc. Ret pc_offset proc))
     else None)"

definition exec_mem_64 :: "isa \<Rightarrow> (('x, 'm, 'z) processor_scheme, 'x) mmu_ops \<Rightarrow> decode \<Rightarrow> 'x::len word \<Rightarrow>
    ('x, 'm, 'z) processor_scheme \<Rightarrow> (('x, 'm, 'z) processor_scheme, 'x word) outcome option" where
  "exec_mem_64 cfg ops dec pc_offset proc =
    (let imm = scast (dec_imm dec);
         a = get_reg proc (dec_rs1 dec);
         b = get_reg proc (dec_rs2 dec) in
     if dec_op dec = rv_op_lwu then when_ext (rvi cfg) pc_offset proc
       (bind_outcome (mmu_load ops 4 (a + imm) proc) (\<lambda>t proc.
        Ret pc_offset (set_rd dec (ucast (ucast t :: 32 word)) proc)))
     else if dec_op dec = rv_op_ld then when_ext (rvi cfg) pc_offset proc
       (bind_outcome (mmu_load ops 8 (a + imm) proc) (\<lambda>t proc.
        Ret pc_offset (set_rd dec (scast (ucast t :: 64 word)) proc)))
     else if dec_op dec = rv_op_sd then when_ext (rvi cfg) pc_offset proc
       (bind_outcome (mmu_store ops 8 (a + imm) (ucast b) proc) (\<lambda>_ proc. Ret pc_offset proc))
     else None)"

section \<open>Integer operations\<close>

definition exec_op_imm :: "isa \<Rightarrow> decode \<Rightarrow> 'x::len word \<Rightarrow>
    ('x, 'm, 'z) processor_scheme \<Rightarrow> (('x, 'm, 'z) processor_scheme, 'x word) outcome option" where
  "exec_op_imm cfg dec pc_offset proc =
    (let imm = scast (dec_imm dec);
         a = get_reg proc (dec_rs1 dec) in
     if dec_op dec = rv_op_addi then when_ext (rvi cfg) pc_offset proc
       (Ret pc_offset (set_rd dec (a + imm) proc))
     else if dec_op dec = rv_op_slti then when_ext (rvi cfg) pc_offset proc
       (Ret pc_offset (set_rd dec (of_bool (a <s imm)) proc))
     else if dec_op dec = rv_op_sltiu then when_ext (rvi cfg) pc_offset proc
       (Ret pc_offset (set_rd dec (of_bool (a < imm)) proc))
     else if dec_op dec = rv_op_xori then when_ext (rvi cfg) pc_offset proc
       (Ret pc_offset (set_rd dec (a XOR imm) proc))
     else if dec_op dec = rv_op_ori then when_ext (rvi cfg) pc_offset proc
       (Ret pc_offset (set_rd dec (a OR imm) proc))
     else if dec_op dec = rv_op_andi then when_ext (rvi cfg) pc_offset proc
       (Ret pc_offset (set_rd dec (a AND imm) proc))
     else None)"

definition exec_shift_imm :: "isa \<Rightarrow> decode \<Rightarrow> 'x::len word \<Rightarrow>
    ('x, 'm, 'z) processor_scheme \<Rightarrow> (('x, 'm, 'z) processor_scheme, 'x word) outcome option" where
  "exec_shift_imm cfg dec pc_offset proc =
    (let n = unat (dec_imm dec);
         a = get_reg proc (dec_rs1 dec) in
     if dec_op dec = rv_op_slli then when_ext (rvi cfg) pc_offset proc
       (guard_shift LENGTH('x) (n) proc
        (Ret pc_offset (set_rd dec (push_bit n a) proc)))
     else if dec_op dec = rv_op_srli then when_ext (rvi cfg) pc_offset proc
       (guard_shift LENGTH('x) (n) proc
        (Ret pc_offset (set_rd dec (drop_bit n a) proc)))
     else if dec_op dec = rv_op_srai then when_ext (rvi cfg) pc_offset proc
       (guard_shift LENGTH('x) (n) proc
        (Ret pc_offset (set_rd dec (signed_drop_bit n a) proc)))
     else None)"

definition exec_op :: "isa \<Rightarrow> decode \<Rightarrow> 'x::len word \<Rightarrow>
    ('x, 'm, 'z) processor_scheme \<Rightarrow> (('x, 'm, 'z) processor_scheme, 'x word) outcome option" where
  "exec_op cfg dec pc_offset proc =
    (let a = get_reg proc (dec_rs1 dec);
         b = get_reg proc (dec_rs2 dec);
         n = unat (get_reg proc (dec_rs2 dec) AND 0b1111111) in
     if dec_op dec = rv_op_add then when_ext (rvi cfg) pc_offset proc
       (Ret pc_offset (set_rd dec (a + b) proc))
     else if dec_op dec = rv_op_sub then when_ext (rvi cfg) pc_offset proc
       (Ret pc_offset (set_rd dec (a - b) proc))
     else if dec_op dec = rv_op_sll then when_ext (rvi cfg) pc_offset proc
       (guard_shift LENGTH('x) (n) proc
        (Ret pc_offset (set_rd dec (push_bit n a) proc)))
     else if dec_op dec = rv_op_slt then when_ext (rvi cfg) pc_offset proc
       (Ret pc_offset (set_rd dec (of_bool (a <s b)) proc))
     else if dec_op dec = rv_op_sltu then when_ext (rvi cfg) pc_offset proc
       (Ret pc_offset (set_rd dec (of_bool (a < b)) proc))
     else if dec_op dec = rv_op_xor then when_ext (rvi cfg) pc_offset proc
       (Ret pc_offset (set_rd dec (a XOR b) proc))
     else if dec_op dec = rv_op_srl then when_ext (rvi cfg) pc_offset proc
       (guard_shift LENGTH('x) (n) proc
        (Ret pc_offset (set_rd dec (drop_bit n a) proc)))
     else if dec_op dec = rv_op_sra then when_ext (rvi cfg) pc_offset proc
       (guard_shift LENGTH('x) (n) proc
        (Ret pc_offset (set_rd dec (signed_drop_bit n a) proc)))
     else if dec_op dec = rv_op_or then when_ext (rvi cfg) pc_offset proc
       (Ret pc_offset (set_rd dec (a OR b) proc))
     else if dec_op dec = rv_op_and then when_ext (rvi cfg) pc_offset proc
       (Ret pc_offset (set_rd dec (a AND b) proc))
     else None)"

definition exec_op_imm_w :: "isa \<Rightarrow> decode \<Rightarrow> 'x::len word \<Rightarrow>
    ('x, 'm, 'z) processor_scheme \<Rightarrow> (('x, 'm, 'z) processor_scheme, 'x word) outcome option" where
  "exec_op_imm_w cfg dec pc_offset proc =
    (let aw = (ucast (get_reg proc (dec_rs1 dec)) :: u32);
         n = unat (dec_imm dec) in
     if dec_op dec = rv_op_addiw then when_ext (rvi cfg) pc_offset proc
       (Ret pc_offset (set_rd dec (scast (aw + dec_imm dec)) proc))
     else if dec_op dec = rv_op_slliw then when_ext (rvi cfg) pc_offset proc
       (guard_shift 32 (n) proc
        (Ret pc_offset (set_rd dec (scast (push_bit n aw)) proc)))
     else if dec_op dec = rv_op_srliw then when_ext (rvi cfg) pc_offset proc
       (guard_shift 32 (n) proc
        (Ret pc_offset (set_rd dec (scast (drop_bit n aw)) proc)))
     else if dec_op dec = rv_op_sraiw then when_ext (rvi cfg) pc_offset proc
       (guard_shift 32 (n) proc
        (Ret pc_offset (set_rd dec (scast (signed_drop_bit n aw)) proc)))
     else None)"

definition exec_op_w :: "isa \<Rightarrow> decode \<Rightarrow> 'x::len word \<Rightarrow>
    ('x, 'm, 'z) processor_scheme \<Rightarrow> (('x, 'm, 'z) processor_scheme, 'x word) outcome option" where
  "exec_op_w cfg dec pc_offset proc =
    (let aw = (ucast (get_reg proc (dec_rs1 dec)) :: u32);
         bw = (ucast (get_reg proc (dec_rs2 dec)) :: u32);
         n = unat (get_reg proc (dec_rs2 dec) AND 0b11111) in
     if dec_op dec = rv_op_addw then when_ext (rvi cfg) pc_offset proc
       (Ret pc_offset (set_rd dec (scast (aw + bw)) proc))
     else if dec_op dec = rv_op_subw then when_ext (rvi cfg) pc_offset proc
       (Ret pc_offset (set_rd dec (scast (aw - bw)) proc))
     else if dec_op dec = rv_op_sllw then when_ext (rvi cfg) pc_offset proc
       (guard_shift 32 (n) proc
        (Ret pc_offset (set_rd dec (scast (push_bit n aw)) proc)))
     else if dec_op dec = rv_op_srlw then when_ext (rvi cfg) pc_offset proc
       (guard_shift 32 (n) proc
        (Ret pc_offset (set_rd dec (scast (drop_bit n aw)) proc)))
     else if dec_op dec = rv_op_sraw then when_ext (rvi cfg) pc_offset proc
       (guard_shift 32 (n) proc
        (Ret pc_offset (set_rd dec (scast (signed_drop_bit n aw)) proc)))
     else None)"

section \<open>Multiplication and division\<close>

definition exec_mul :: "isa \<Rightarrow> decode \<Rightarrow> 'x::len word \<Rightarrow>
    ('x, 'm, 'z) processor_scheme \<Rightarrow> (('x, 'm, 'z) processor_scheme, 'x word) outcome option" where
  "exec_mul cfg dec pc_offset proc =
    (let a = get_reg proc (dec_rs1 dec);
         b = get_reg proc (dec_rs2 dec) in
     if dec_op dec = rv_op_mul then when_ext (rvm cfg) pc_offset proc
       (Ret pc_offset (set_rd dec (a * b) proc))
     else if dec_op dec = rv_op_mulh then when_ext (rvm cfg) pc_offset proc
       (Ret pc_offset (set_rd dec (mulh a b) proc))
     else if dec_op dec = rv_op_mulhsu then when_ext (rvm cfg) pc_offset proc
       (Ret pc_offset (set_rd dec (mulhsu a b) proc))
     else if dec_op dec = rv_op_mulhu then when_ext (rvm cfg) pc_offset proc
       (Ret pc_offset (set_rd dec (mulhu a b) proc))
     else if dec_op dec = rv_op_div then when_ext (rvm cfg) pc_offset proc
       (Ret pc_offset (set_rd dec (if a = min_signed \<and> b = - 1 then min_signed else if b = 0 then - 1
         else word_of_int (sint a sdiv sint b)) proc))
     else if dec_op dec = rv_op_divu then when_ext (rvm cfg) pc_offset proc
       (Ret pc_offset (set_rd dec (if b = 0 then - 1 else a div b) proc))
     else if dec_op dec = rv_op_rem then when_ext (rvm cfg) pc_offset proc
       (Ret pc_offset (set_rd dec (if a = min_signed \<and> b = - 1 then 0 else if b = 0 then a
         else word_of_int (sint a smod sint b)) proc))
     else if dec_op dec = rv_op_remu then when_ext (rvm cfg) pc_offset proc
       (Ret pc_offset (set_rd dec (if b = 0 then a else a mod b) proc))
     else None)"

definition exec_mul_w :: "isa \<Rightarrow> decode \<Rightarrow> 'x::len word \<Rightarrow>
    ('x, 'm, 'z) processor_scheme \<Rightarrow> (('x, 'm, 'z) processor_scheme, 'x word) outcome option" where
  "exec_mul_w cfg dec pc_offset proc =
    (let aw = (ucast (get_reg proc (dec_rs1 dec)) :: u32);
         bw = (ucast (get_reg proc (dec_rs2 dec)) :: u32) in
     if dec_op dec = rv_op_mulw then when_ext (rvm cfg) pc_offset proc
       (Ret pc_offset (set_rd dec (scast (aw * bw)) proc))
     else if dec_op dec = rv_op_divw then when_ext (rvm cfg) pc_offset proc
       (Ret pc_offset (set_rd dec (scast (if aw = min_signed \<and> bw = - 1 then min_signed else if bw = 0 then - 1
         else (word_of_int (sint aw sdiv sint bw) :: u32))) proc))
     else if dec_op dec = rv_op_divuw then when_ext (rvm cfg) pc_offset proc
       (Ret pc_offset (set_rd dec (scast (if bw = 0 then - 1 else aw div bw)) proc))
     else if dec_op dec = rv_op_remw then when_ext (rvm cfg) pc_offset proc
       (Ret pc_offset (set_rd dec (scast (if aw = min_signed \<and> bw = - 1 then 0 else if bw = 0 then aw
         else word_of_int (sint aw smod sint bw))) proc))
     else if dec_op dec = rv_op_remuw then when_ext (rvm cfg) pc_offset proc
       (Ret pc_offset (set_rd dec (scast (if bw = 0 then aw else aw mod bw)) proc))
     else None)"

section \<open>Atomic operations\<close>

definition exec_amo_op :: "(('x, 'm, 'z) processor_scheme, 'x) mmu_ops \<Rightarrow> nat \<Rightarrow> amo_op \<Rightarrow> decode \<Rightarrow>
    'x::len word \<Rightarrow> 'x word \<Rightarrow> 'x word \<Rightarrow> ('x, 'm, 'z) processor_scheme \<Rightarrow>
    (('x, 'm, 'z) processor_scheme, 'x word) outcome" where
  "exec_amo_op ops n aop dec pc_offset a b proc =
    bind_outcome (mmu_amo ops n aop a (ucast b) proc) (\<lambda>t proc. Ret pc_offset
      (set_rd dec (if n = 4 then scast (ucast t :: 32 word) else scast (ucast t :: 64 word)) proc))"

definition exec_amo_w :: "isa \<Rightarrow> (('x, 'm, 'z) processor_scheme, 'x) mmu_ops \<Rightarrow> decode \<Rightarrow> 'x::len word \<Rightarrow>
    ('x, 'm, 'z) processor_scheme \<Rightarrow> (('x, 'm, 'z) processor_scheme, 'x word) outcome option" where
  "exec_amo_w cfg ops dec pc_offset proc =
    (let a = get_reg proc (dec_rs1 dec);
         b = get_reg proc (dec_rs2 dec) in
     if dec_op dec = rv_op_lr_w then when_ext (rva cfg) pc_offset proc
       (let proc = proc\<lparr>lr := a\<rparr> in
        bind_outcome (mmu_load ops 4 a proc) (\<lambda>t proc.
          Ret pc_offset (set_rd dec (scast (ucast t :: 32 word)) proc)))
     else if dec_op dec = rv_op_sc_w then when_ext (rva cfg) pc_offset proc
       (if lr proc \<noteq> a then Ret pc_offset (set_rd dec 1 proc)
        else bind_outcome (mmu_store ops 4 a (ucast b) proc) (\<lambda>_ proc.
          Ret pc_offset (set_rd dec 0 proc)))
     else if dec_op dec = rv_op_amoswap_w then when_ext (rva cfg) pc_offset proc
       (exec_amo_op ops 4 amoswap dec pc_offset a b proc)
     else if dec_op dec = rv_op_amoadd_w then when_ext (rva cfg) pc_offset proc
       (exec_amo_op ops 4 amoadd dec pc_offset a b proc)
     else if dec_op dec = rv_op_amoxor_w then when_ext (rva cfg) pc_offset proc
       (exec_amo_op ops 4 amoxor dec pc_offset a b proc)
     else if dec_op dec = rv_op_amoor_w then when_ext (rva cfg) pc_offset proc
       (exec_amo_op ops 4 amoor dec pc_offset a b proc)
     else if dec_op dec = rv_op_amoand_w then when_ext (rva cfg) pc_offset proc
       (exec_amo_op ops 4 amoand dec pc_offset a b proc)
     else if dec_op dec = rv_op_amomin_w then when_ext (rva cfg) pc_offset proc
       (exec_amo_op ops 4 amomin dec pc_offset a b proc)
     else if dec_op dec = rv_op_amomax_w then when_ext (rva cfg) pc_offset proc
       (exec_amo_op ops 4 amomax dec pc_offset a b proc)
     else if dec_op dec = rv_op_amominu_w then when_ext (rva cfg) pc_offset proc
       (exec_amo_op ops 4 amominu dec pc_offset a b proc)
     else if dec_op dec = rv_op_amomaxu_w then when_ext (rva cfg) pc_offset proc
       (exec_amo_op ops 4 amomaxu dec pc_offset a b proc)
     else None)"

definition exec_amo_d :: "isa \<Rightarrow> (('x, 'm, 'z) processor_scheme, 'x) mmu_ops \<Rightarrow> decode \<Rightarrow> 'x::len word \<Rightarrow>
    ('x, 'm, 'z) processor_scheme \<Rightarrow> (('x, 'm, 'z) processor_scheme, 'x word) outcome option" where
  "exec_amo_d cfg ops dec pc_offset proc =
    (let a = get_reg proc (dec_rs1 dec);
         b = get_reg proc (dec_rs2 dec) in
     if dec_op dec = rv_op_lr_d then when_ext (rva cfg) pc_offset proc
       (let proc = proc\<lparr>lr := a\<rparr> in
        bind_outcome (mmu_load ops 8 a proc) (\<lambda>t proc.
          Ret pc_offset (set_rd dec (scast (ucast t :: 64 word)) proc)))
     else if dec_op dec = rv_op_sc_d then when_ext (rva cfg) pc_offset proc
       (if lr proc \<noteq> a then Ret pc_offset (set_rd dec 1 proc)
        else bind_outcome (mmu_store ops 8 a (ucast b) proc) (\<lambda>_ proc.
          Ret pc_offset (set_rd dec 0 proc)))
     else if dec_op dec = rv_op_amoswap_d then when_ext (rva cfg) pc_offset proc
       (exec_amo_op ops 8 amoswap dec pc_offset a b proc)
     else if dec_op dec = rv_op_amoadd_d then when_ext (rva cfg) pc_offset proc
       (exec_amo_op ops 8 amoadd dec pc_offset a b proc)
     else if dec_op dec = rv_op_amoxor_d then when_ext (rva cfg) pc_offset proc
       (exec_amo_op ops 8 amoxor dec pc_offset a b proc)
     else if dec_op dec = rv_op_amoor_d then when_ext (rva cfg) pc_offset proc
       (exec_amo_op ops 8 amoor dec pc_offset a b proc)
     else if dec_op dec = rv_op_amoand_d then when_ext (rva cfg) pc_offset proc
       (exec_amo_op ops 8 amoand dec pc_offset a b proc)
     else if dec_op dec = rv_op_amomin_d then when_ext (rva cfg) pc_offset proc
       (exec_amo_op ops 8 amomin dec pc_offset a b proc)
     else if dec_op dec = rv_op_amomax_d then when_ext (rva cfg) pc_offset proc
       (exec_amo_op ops 8 amomax dec pc_offset a b proc)
     else if dec_op dec = rv_op_amominu_d then when_ext (rva cfg) pc_offset proc
       (exec_amo_op ops 8 amominu dec pc_offset a b proc)
     else if dec_op dec = rv_op_amomaxu_d then when_ext (rva cfg) pc_offset proc
       (exec_amo_op ops 8 amomaxu dec pc_offset a b proc)
     else None)"

section \<open>Floating point\<close>

text \<open>
  The cases of the F and D extensions.  The host's arithmetic \<open>hf\<close> works on the bits of numbers and
  on the environment; every case with rounding first sets the rounding mode from \<^verbatim>\<open>fcsr\<close> (the
  instruction's own rounding mode is not used).  \<^verbatim>\<open>a * b + c\<close> is a multiplication followed by an
  addition.
\<close>

definition set_rm :: "('x::len, 'm, 'z) processor_scheme \<Rightarrow> ('x, 'm, 'z) processor_scheme" where
  "set_rm p = p\<lparr>fenv := fenv_setrm (drop_bit 5 (fcsr p) AND 0b111) (fenv p)\<rparr>"

text \<open>\<^verbatim>\<open>proc.freg[dec.rd].r.s.val = ...\<close> with the value and the environment after its computation\<close>

definition fp_result :: "decode \<Rightarrow> (host_fenv \<Rightarrow> 'b::len word \<times> host_fenv) \<Rightarrow>
    ('x::len, 'm, 'z) processor_scheme \<Rightarrow> ('x, 'm, 'z) processor_scheme" where
  "fp_result dec f p = (case f (fenv p) of (v, e) \<Rightarrow> set_freg (dec_rd dec) v (p\<lparr>fenv := e\<rparr>))"

text \<open>\<^verbatim>\<open>proc.ireg[dec.rd] = (dec.rd == 0) ? 0 : ...\<close>; the computation may also set flags in \<^verbatim>\<open>fcsr\<close>\<close>

definition fp_int :: "decode \<Rightarrow> (u32 \<Rightarrow> host_fenv \<Rightarrow> 'x word \<times> u32 \<times> host_fenv) \<Rightarrow>
    ('x::len, 'm, 'z) processor_scheme \<Rightarrow> ('x, 'm, 'z) processor_scheme" where
  "fp_int dec f p =
    (if dec_rd dec = 0 then set_rd dec 0 p
     else case f (fcsr p) (fenv p) of (v, c, e) \<Rightarrow> set_rd dec v (p\<lparr>fcsr := c, fenv := e\<rparr>))"

definition fp_cmp :: "bool \<times> host_fenv \<Rightarrow> u32 \<Rightarrow> 'x::len word \<times> u32 \<times> host_fenv" where
  "fp_cmp r c = (case r of (b, e) \<Rightarrow> (of_bool b, c, e))"

definition fp_word :: "s32 \<times> u32 \<times> host_fenv \<Rightarrow> 'x::len word \<times> u32 \<times> host_fenv" where
  "fp_word r = (case r of (v, c, e) \<Rightarrow> (scast v, c, e))"

definition fp_long :: "s64 \<times> u32 \<times> host_fenv \<Rightarrow> 'x::len word \<times> u32 \<times> host_fenv" where
  "fp_long r = (case r of (v, c, e) \<Rightarrow> (scast v, c, e))"

definition fp_fma :: "('b::len word) fp_ops \<Rightarrow> bool \<Rightarrow> bool \<Rightarrow> 'b word \<Rightarrow> 'b word \<Rightarrow> 'b word \<Rightarrow>
    host_fenv \<Rightarrow> 'b word \<times> host_fenv" where
  "fp_fma H neg sub a b c e =
    (case fp_mul H a (if neg then fp_neg H b else b) e of (m, e) \<Rightarrow>
      if sub then fp_sub H m c e else fp_add H m c e)"

definition fp_select :: "bool \<times> host_fenv \<Rightarrow> bool \<Rightarrow> 'b::len word \<Rightarrow> 'b word \<Rightarrow> 'b word \<times> host_fenv" where
  "fp_select r nan a b = (case r of (lt, e) \<Rightarrow> (if lt \<or> nan then a else b, e))"

text \<open>Single precision, and its conversions to and from 64-bit integers.\<close>

definition exec_f :: "isa \<Rightarrow> (('x, 'm, 'z) processor_scheme, 'x) mmu_ops \<Rightarrow> host_fp \<Rightarrow> decode \<Rightarrow>
    'x::len word \<Rightarrow> ('x, 'm, 'z) processor_scheme \<Rightarrow> (('x, 'm, 'z) processor_scheme, 'x word) outcome option" where
  "exec_f cfg ops hf dec pc_offset proc =
    (let imm = scast (dec_imm dec);
         base = get_reg proc (dec_rs1 dec);
         H = hf32 hf;
         a = get_freg proc (dec_rs1 dec) :: u32;
         b = get_freg proc (dec_rs2 dec) :: u32;
         c = get_freg proc (dec_rs3 dec) :: u32 in
     if dec_op dec = rv_op_flw then when_ext (rvf cfg) pc_offset proc
       (bind_outcome (mmu_load ops 4 (base + imm) proc) (\<lambda>t proc.
        Ret pc_offset (set_freg (dec_rd dec) (ucast t :: u32) proc)))
     else if dec_op dec = rv_op_fsw then when_ext (rvf cfg) pc_offset proc
       (bind_outcome (mmu_store_fp ops 4 (base + imm) (ucast b) proc) (\<lambda>_ proc. Ret pc_offset proc))
     else if dec_op dec = rv_op_fmadd_s then when_ext (rvf cfg) pc_offset proc
       (Ret pc_offset (fp_result dec (fp_fma H False False a b c) (set_rm proc)))
     else if dec_op dec = rv_op_fmsub_s then when_ext (rvf cfg) pc_offset proc
       (Ret pc_offset (fp_result dec (fp_fma H False True a b c) (set_rm proc)))
     else if dec_op dec = rv_op_fnmsub_s then when_ext (rvf cfg) pc_offset proc
       (Ret pc_offset (fp_result dec (fp_fma H True False a b c) (set_rm proc)))
     else if dec_op dec = rv_op_fnmadd_s then when_ext (rvf cfg) pc_offset proc
       (Ret pc_offset (fp_result dec (fp_fma H True True a b c) (set_rm proc)))
     else if dec_op dec = rv_op_fadd_s then when_ext (rvf cfg) pc_offset proc
       (Ret pc_offset (fp_result dec (fp_add H a b) (set_rm proc)))
     else if dec_op dec = rv_op_fsub_s then when_ext (rvf cfg) pc_offset proc
       (Ret pc_offset (fp_result dec (fp_sub H a b) (set_rm proc)))
     else if dec_op dec = rv_op_fmul_s then when_ext (rvf cfg) pc_offset proc
       (Ret pc_offset (fp_result dec (fp_mul H a b) (set_rm proc)))
     else if dec_op dec = rv_op_fdiv_s then when_ext (rvf cfg) pc_offset proc
       (Ret pc_offset (fp_result dec (fp_div H a b) (set_rm proc)))
     else if dec_op dec = rv_op_fsgnj_s then when_ext (rvf cfg) pc_offset proc
       (Ret pc_offset (set_freg (dec_rd dec) ((a AND NOT 0x80000000) OR (b AND 0x80000000)) proc))
     else if dec_op dec = rv_op_fsgnjn_s then when_ext (rvf cfg) pc_offset proc
       (Ret pc_offset (set_freg (dec_rd dec) ((a AND NOT 0x80000000) OR (NOT b AND 0x80000000)) proc))
     else if dec_op dec = rv_op_fsgnjx_s then when_ext (rvf cfg) pc_offset proc
       (Ret pc_offset (set_freg (dec_rd dec) (a XOR (b AND 0x80000000)) proc))
     else if dec_op dec = rv_op_fmin_s then when_ext (rvf cfg) pc_offset proc
       (Ret pc_offset (fp_result dec (\<lambda>e. fp_select (fp_lt H a b e) (float_isnan f32_type (ucast b)) a b) proc))
     else if dec_op dec = rv_op_fmax_s then when_ext (rvf cfg) pc_offset proc
       (Ret pc_offset (fp_result dec (\<lambda>e. fp_select (fp_lt H b a e) (float_isnan f32_type (ucast b)) a b) proc))
     else if dec_op dec = rv_op_fsqrt_s then when_ext (rvf cfg) pc_offset proc
       (Ret pc_offset (fp_result dec (fp_sqrt H a) (set_rm proc)))
     else if dec_op dec = rv_op_fle_s then when_ext (rvf cfg) pc_offset proc
       (Ret pc_offset (fp_int dec (\<lambda>c e. fp_cmp (fp_le H a b e) c) proc))
     else if dec_op dec = rv_op_flt_s then when_ext (rvf cfg) pc_offset proc
       (Ret pc_offset (fp_int dec (\<lambda>c e. fp_cmp (fp_lt H a b e) c) proc))
     else if dec_op dec = rv_op_feq_s then when_ext (rvf cfg) pc_offset proc
       (Ret pc_offset (fp_int dec (\<lambda>c e. fp_cmp (fp_eq H a b e) c) proc))
     else if dec_op dec = rv_op_fcvt_w_s then when_ext (rvf cfg) pc_offset proc
       (Ret pc_offset (fp_int dec (\<lambda>c e. fp_word (fcvt_w f32_type H c a e)) (set_rm proc)))
     else if dec_op dec = rv_op_fcvt_wu_s then when_ext (rvf cfg) pc_offset proc
       (Ret pc_offset (fp_int dec (\<lambda>c e. fp_word (fcvt_wu f32_type H c a e)) (set_rm proc)))
     else if dec_op dec = rv_op_fcvt_s_w then when_ext (rvf cfg) pc_offset proc
       (Ret pc_offset (fp_result dec (fp_of_s32 H (ucast base)) (set_rm proc)))
     else if dec_op dec = rv_op_fcvt_s_wu then when_ext (rvf cfg) pc_offset proc
       (Ret pc_offset (fp_result dec (fp_of_u32 H (ucast base)) (set_rm proc)))
     else if dec_op dec = rv_op_fmv_x_s then when_ext (rvf cfg) pc_offset proc
       (Ret pc_offset (set_rd dec (scast (if float_isnan f32_type (ucast a) then 0x7fc00000 else a)) proc))
     else if dec_op dec = rv_op_fclass_s then when_ext (rvf cfg) pc_offset proc
       (Ret pc_offset (set_rd dec (of_nat (f32_classify (ucast a))) proc))
     else if dec_op dec = rv_op_fmv_s_x then when_ext (rvf cfg) pc_offset proc
       (Ret pc_offset (set_freg (dec_rd dec) (ucast base :: u32) proc))
     else None)"

definition exec_f_64 :: "isa \<Rightarrow> host_fp \<Rightarrow> decode \<Rightarrow>
    'x::len word \<Rightarrow> ('x, 'm, 'z) processor_scheme \<Rightarrow> (('x, 'm, 'z) processor_scheme, 'x word) outcome option" where
  "exec_f_64 cfg hf dec pc_offset proc =
    (let base = get_reg proc (dec_rs1 dec);
         H = hf32 hf;
         a = get_freg proc (dec_rs1 dec) :: u32 in
     if dec_op dec = rv_op_fcvt_l_s then when_ext (rvf cfg) pc_offset proc
       (Ret pc_offset (fp_int dec (\<lambda>c e. fp_long (fcvt_l f32_type H c a e)) (set_rm proc)))
     else if dec_op dec = rv_op_fcvt_lu_s then when_ext (rvf cfg) pc_offset proc
       (Ret pc_offset (fp_int dec (\<lambda>c e. fp_long (fcvt_lu f32_type H 0x5f000000 c a e)) (set_rm proc)))
     else if dec_op dec = rv_op_fcvt_s_l then when_ext (rvf cfg) pc_offset proc
       (Ret pc_offset (fp_result dec (fp_of_s64 H (ucast base)) (set_rm proc)))
     else if dec_op dec = rv_op_fcvt_s_lu then when_ext (rvf cfg) pc_offset proc
       (Ret pc_offset (fp_result dec (fp_of_u64 H (ucast base)) (set_rm proc)))
     else None)"

text \<open>Double precision.\<close>

definition exec_d :: "isa \<Rightarrow> (('x, 'm, 'z) processor_scheme, 'x) mmu_ops \<Rightarrow> host_fp \<Rightarrow> decode \<Rightarrow>
    'x::len word \<Rightarrow> ('x, 'm, 'z) processor_scheme \<Rightarrow> (('x, 'm, 'z) processor_scheme, 'x word) outcome option" where
  "exec_d cfg ops hf dec pc_offset proc =
    (let imm = scast (dec_imm dec);
         base = get_reg proc (dec_rs1 dec);
         H = hf64 hf;
         a = get_freg proc (dec_rs1 dec) :: u64;
         b = get_freg proc (dec_rs2 dec) :: u64;
         c = get_freg proc (dec_rs3 dec) :: u64 in
     if dec_op dec = rv_op_fld then when_ext (rvd cfg) pc_offset proc
       (bind_outcome (mmu_load ops 8 (base + imm) proc) (\<lambda>t proc.
        Ret pc_offset (set_freg (dec_rd dec) (ucast t :: u64) proc)))
     else if dec_op dec = rv_op_fsd then when_ext (rvd cfg) pc_offset proc
       (bind_outcome (mmu_store_fp ops 8 (base + imm) (ucast b) proc) (\<lambda>_ proc. Ret pc_offset proc))
     else if dec_op dec = rv_op_fmadd_d then when_ext (rvd cfg) pc_offset proc
       (Ret pc_offset (fp_result dec (fp_fma H False False a b c) (set_rm proc)))
     else if dec_op dec = rv_op_fmsub_d then when_ext (rvd cfg) pc_offset proc
       (Ret pc_offset (fp_result dec (fp_fma H False True a b c) (set_rm proc)))
     else if dec_op dec = rv_op_fnmsub_d then when_ext (rvd cfg) pc_offset proc
       (Ret pc_offset (fp_result dec (fp_fma H True False a b c) (set_rm proc)))
     else if dec_op dec = rv_op_fnmadd_d then when_ext (rvd cfg) pc_offset proc
       (Ret pc_offset (fp_result dec (fp_fma H True True a b c) (set_rm proc)))
     else if dec_op dec = rv_op_fadd_d then when_ext (rvd cfg) pc_offset proc
       (Ret pc_offset (fp_result dec (fp_add H a b) (set_rm proc)))
     else if dec_op dec = rv_op_fsub_d then when_ext (rvd cfg) pc_offset proc
       (Ret pc_offset (fp_result dec (fp_sub H a b) (set_rm proc)))
     else if dec_op dec = rv_op_fmul_d then when_ext (rvd cfg) pc_offset proc
       (Ret pc_offset (fp_result dec (fp_mul H a b) (set_rm proc)))
     else if dec_op dec = rv_op_fdiv_d then when_ext (rvd cfg) pc_offset proc
       (Ret pc_offset (fp_result dec (fp_div H a b) (set_rm proc)))
     else if dec_op dec = rv_op_fsgnj_d then when_ext (rvd cfg) pc_offset proc
       (Ret pc_offset (set_freg (dec_rd dec) ((a AND NOT 0x8000000000000000) OR (b AND 0x8000000000000000)) proc))
     else if dec_op dec = rv_op_fsgnjn_d then when_ext (rvd cfg) pc_offset proc
       (Ret pc_offset (set_freg (dec_rd dec) ((a AND NOT 0x8000000000000000) OR (NOT b AND 0x8000000000000000)) proc))
     else if dec_op dec = rv_op_fsgnjx_d then when_ext (rvd cfg) pc_offset proc
       (Ret pc_offset (set_freg (dec_rd dec) (a XOR (b AND 0x8000000000000000)) proc))
     else if dec_op dec = rv_op_fmin_d then when_ext (rvd cfg) pc_offset proc
       (Ret pc_offset (fp_result dec (\<lambda>e. fp_select (fp_lt H a b e) (float_isnan f64_type (ucast b)) a b) proc))
     else if dec_op dec = rv_op_fmax_d then when_ext (rvd cfg) pc_offset proc
       (Ret pc_offset (fp_result dec (\<lambda>e. fp_select (fp_lt H b a e) (float_isnan f64_type (ucast b)) a b) proc))
     else if dec_op dec = rv_op_fcvt_s_d then when_ext (rvd cfg) pc_offset proc
       (Ret pc_offset (fp_result dec (hf_narrow hf a) (set_rm proc)))
     else if dec_op dec = rv_op_fcvt_d_s then when_ext (rvd cfg) pc_offset proc
       (Ret pc_offset (fp_result dec (hf_widen hf (get_freg proc (dec_rs1 dec))) (set_rm proc)))
     else if dec_op dec = rv_op_fsqrt_d then when_ext (rvd cfg) pc_offset proc
       (Ret pc_offset (fp_result dec (fp_sqrt H a) (set_rm proc)))
     else if dec_op dec = rv_op_fle_d then when_ext (rvd cfg) pc_offset proc
       (Ret pc_offset (fp_int dec (\<lambda>c e. fp_cmp (fp_le H a b e) c) proc))
     else if dec_op dec = rv_op_flt_d then when_ext (rvd cfg) pc_offset proc
       (Ret pc_offset (fp_int dec (\<lambda>c e. fp_cmp (fp_lt H a b e) c) proc))
     else if dec_op dec = rv_op_feq_d then when_ext (rvd cfg) pc_offset proc
       (Ret pc_offset (fp_int dec (\<lambda>c e. fp_cmp (fp_eq H a b e) c) proc))
     else if dec_op dec = rv_op_fcvt_w_d then when_ext (rvd cfg) pc_offset proc
       (Ret pc_offset (fp_int dec (\<lambda>c e. fp_word (fcvt_w f64_type H c a e)) (set_rm proc)))
     else if dec_op dec = rv_op_fcvt_wu_d then when_ext (rvd cfg) pc_offset proc
       (Ret pc_offset (fp_int dec (\<lambda>c e. fp_word (fcvt_wu f64_type H c a e)) (set_rm proc)))
     else if dec_op dec = rv_op_fcvt_d_w then when_ext (rvd cfg) pc_offset proc
       (Ret pc_offset (fp_result dec (fp_of_s32 H (ucast base)) (set_rm proc)))
     else if dec_op dec = rv_op_fcvt_d_wu then when_ext (rvd cfg) pc_offset proc
       (Ret pc_offset (fp_result dec (fp_of_u32 H (ucast base)) (set_rm proc)))
     else if dec_op dec = rv_op_fclass_d then when_ext (rvd cfg) pc_offset proc
       (Ret pc_offset (set_rd dec (of_nat (f64_classify a)) proc))
     else None)"

definition exec_d_64 :: "isa \<Rightarrow> host_fp \<Rightarrow> decode \<Rightarrow>
    'x::len word \<Rightarrow> ('x, 'm, 'z) processor_scheme \<Rightarrow> (('x, 'm, 'z) processor_scheme, 'x word) outcome option" where
  "exec_d_64 cfg hf dec pc_offset proc =
    (let base = get_reg proc (dec_rs1 dec);
         H = hf64 hf;
         a = get_freg proc (dec_rs1 dec) :: u64 in
     if dec_op dec = rv_op_fcvt_l_d then when_ext (rvd cfg) pc_offset proc
       (Ret pc_offset (fp_int dec (\<lambda>c e. fp_long (fcvt_l f64_type H c a e)) (set_rm proc)))
     else if dec_op dec = rv_op_fcvt_lu_d then when_ext (rvd cfg) pc_offset proc
       (Ret pc_offset (fp_int dec (\<lambda>c e. fp_long (fcvt_lu f64_type H 0x43e0000000000000 c a e)) (set_rm proc)))
     else if dec_op dec = rv_op_fmv_x_d then when_ext (rvd cfg) pc_offset proc
       (Ret pc_offset (set_rd dec (scast (if float_isnan f64_type a then 0x7ff8000000000000 else a)) proc))
     else if dec_op dec = rv_op_fcvt_d_l then when_ext (rvd cfg) pc_offset proc
       (Ret pc_offset (fp_result dec (fp_of_s64 H (ucast base)) (set_rm proc)))
     else if dec_op dec = rv_op_fcvt_d_lu then when_ext (rvd cfg) pc_offset proc
       (Ret pc_offset (fp_result dec (fp_of_u64 H (ucast base)) (set_rm proc)))
     else if dec_op dec = rv_op_fmv_d_x then when_ext (rvd cfg) pc_offset proc
       (Ret pc_offset (set_freg (dec_rd dec) (ucast base :: u64) proc))
     else None)"

section \<open>The switches\<close>

text \<open>Try the groups in turn; \<^verbatim>\<open>default: return -1\<close>.\<close>

fun first_case :: "('s, 'x::len word) outcome option list \<Rightarrow> 's \<Rightarrow> ('s, 'x word) outcome" where
  "first_case [] p = Ret (- 1) p"
| "first_case (Some r # rs) p = r"
| "first_case (None # rs) p = first_case rs p"

definition exec_inst_rv32 :: "isa \<Rightarrow> ((32, 'm, 'z) processor_scheme, 32) mmu_ops \<Rightarrow> host_fp \<Rightarrow>
    decode \<Rightarrow> 32 word \<Rightarrow> (32, 'm, 'z) processor_scheme \<Rightarrow>
    ((32, 'm, 'z) processor_scheme, 32 word) outcome" where
  "exec_inst_rv32 cfg ops hf dec pc_offset proc = first_case
    [exec_ctrl cfg dec pc_offset proc, exec_mem cfg ops dec pc_offset proc,
     exec_op_imm cfg dec pc_offset proc, exec_shift_imm cfg dec pc_offset proc,
     exec_op cfg dec pc_offset proc, exec_mul cfg dec pc_offset proc,
     exec_amo_w cfg ops dec pc_offset proc, exec_f cfg ops hf dec pc_offset proc,
     exec_d cfg ops hf dec pc_offset proc] proc"

definition exec_inst_rv64 :: "isa \<Rightarrow> ((64, 'm, 'z) processor_scheme, 64) mmu_ops \<Rightarrow> host_fp \<Rightarrow>
    decode \<Rightarrow> 64 word \<Rightarrow> (64, 'm, 'z) processor_scheme \<Rightarrow>
    ((64, 'm, 'z) processor_scheme, 64 word) outcome" where
  "exec_inst_rv64 cfg ops hf dec pc_offset proc = first_case
    [exec_ctrl cfg dec pc_offset proc, exec_mem cfg ops dec pc_offset proc,
     exec_op_imm cfg dec pc_offset proc, exec_op cfg dec pc_offset proc,
     exec_mem_64 cfg ops dec pc_offset proc, exec_shift_imm cfg dec pc_offset proc,
     exec_op_imm_w cfg dec pc_offset proc, exec_op_w cfg dec pc_offset proc,
     exec_mul cfg dec pc_offset proc, exec_mul_w cfg dec pc_offset proc,
     exec_amo_w cfg ops dec pc_offset proc, exec_amo_d cfg ops dec pc_offset proc,
     exec_f cfg ops hf dec pc_offset proc, exec_f_64 cfg hf dec pc_offset proc,
     exec_d cfg ops hf dec pc_offset proc, exec_d_64 cfg hf dec pc_offset proc] proc"

end
