(* ===== verification/Rv_Interp_Laws.thy ===== *)
theory Rv_Interp_Laws
  imports Rv_Interp
begin

text \<open>
  Laws of the interpreter: every instruction keeps the register file well formed, whatever the
  memory management unit does within its interface, and the multiplication and division
  instructions compute the results the instruction set defines over the integers.
\<close>

section \<open>Well-formed register file\<close>

definition case_ok :: "('s \<Rightarrow> bool) \<Rightarrow> ('s, 'a) outcome option \<Rightarrow> bool" where
  "case_ok P r \<longleftrightarrow> (case r of None \<Rightarrow> True | Some r \<Rightarrow> P (final r))"

lemma case_ok_simps [simp]:
  "case_ok P None" "case_ok P (Some r) \<longleftrightarrow> P (final r)"
  by (simp_all add: case_ok_def)

lemma case_ok_if: "case_ok P r \<Longrightarrow> case_ok P s \<Longrightarrow> case_ok P (if b then r else s)"
  by simp

lemma case_ok_when:
  "P proc \<Longrightarrow> P (final r) \<Longrightarrow> case_ok P (when_ext b off proc r)"
  by (simp add: when_ext_def)

lemma final_guard_shift: "P proc \<Longrightarrow> P (final r) \<Longrightarrow> P (final (guard_shift w n proc r))"
  by (simp add: guard_shift_def)

lemma final_bind:
  "P (final r) \<Longrightarrow> (\<And>a s. P s \<Longrightarrow> P (final (f a s))) \<Longrightarrow> P (final (bind_outcome r f))"
  by (cases r) simp_all

lemma final_first_case:
  "P proc \<Longrightarrow> list_all (case_ok P) rs \<Longrightarrow> P (final (first_case rs proc))"
  by (induction rs proc rule: first_case.induct) simp_all

lemma final_if: "P (final r) \<Longrightarrow> P (final s) \<Longrightarrow> P (final (if b then r else s))"
  by simp

text \<open>
  A predicate on the state that the interpreter's primitive effects keep: writing the destination
  register, setting the reservation, the floating-point registers and their state, and the
  operations of the memory management unit.
\<close>

locale exec_invariant =
  fixes ops :: "(('x::len, 'm, 'z) processor_scheme, 'x) mmu_ops"
    and P :: "('x, 'm, 'z) processor_scheme \<Rightarrow> bool"
  assumes keep_set_rd: "P p \<Longrightarrow> P (set_rd dec v p)"
    and keep_lr: "P p \<Longrightarrow> P (p\<lparr>lr := a\<rparr>)"
    and keep_freg: "P p \<Longrightarrow> P (p\<lparr>freg := (freg p)[i := f]\<rparr>)"
    and keep_fenv: "P p \<Longrightarrow> P (p\<lparr>fenv := e\<rparr>)"
    and keep_fcsr: "P p \<Longrightarrow> P (p\<lparr>fcsr := c\<rparr>)"
    and keep_load: "P p \<Longrightarrow> P (final (mmu_load ops n va p))"
    and keep_store: "P p \<Longrightarrow> P (final (mmu_store ops n va w p))"
    and keep_store_fp: "P p \<Longrightarrow> P (final (mmu_store_fp ops n va w p))"
    and keep_amo: "P p \<Longrightarrow> P (final (mmu_amo ops n aop va w p))"
begin

lemma alu_groups:
  assumes "P proc"
  shows "case_ok P (exec_ctrl cfg dec off proc)" "case_ok P (exec_op_imm cfg dec off proc)"
    "case_ok P (exec_shift_imm cfg dec off proc)" "case_ok P (exec_op cfg dec off proc)"
    "case_ok P (exec_op_imm_w cfg dec off proc)" "case_ok P (exec_op_w cfg dec off proc)"
    "case_ok P (exec_mul cfg dec off proc)" "case_ok P (exec_mul_w cfg dec off proc)"
  unfolding exec_ctrl_def exec_op_imm_def exec_shift_imm_def exec_op_def exec_op_imm_w_def
    exec_op_w_def exec_mul_def exec_mul_w_def Let_def
  by (intro case_ok_if case_ok_when final_guard_shift [where P = P]; simp add: assms keep_set_rd)+

lemma mem_groups:
  assumes "P proc"
  shows "case_ok P (exec_mem cfg ops dec off proc)" "case_ok P (exec_mem_64 cfg ops dec off proc)"
    "case_ok P (exec_amo_w cfg ops dec off proc)" "case_ok P (exec_amo_d cfg ops dec off proc)"
  unfolding exec_mem_def exec_mem_64_def exec_amo_w_def exec_amo_d_def exec_amo_op_def Let_def
  by (intro case_ok_if case_ok_when case_ok_simps(1) final_if [where P = P] final_bind [where P = P];
      simp add: assms keep_set_rd keep_lr keep_load keep_store keep_amo)+

lemma keep_set_rm: "P p \<Longrightarrow> P (set_rm p)"
  unfolding set_rm_def by (rule keep_fenv)

lemma keep_set_freg: "P p \<Longrightarrow> P (set_freg i v p)"
  unfolding set_freg_def by (rule keep_freg)

lemma keep_fp_result: "P p \<Longrightarrow> P (fp_result dec f p)"
  by (simp add: fp_result_def keep_set_freg keep_fenv split: prod.split)

lemma keep_fp_int:
  assumes "P p"
  shows "P (fp_int dec g p)"
proof -
  have "P (p\<lparr>fcsr := c, fenv := e\<rparr>)" for c e
    using keep_fenv [OF keep_fcsr [OF assms, of c], of e] by simp
  then show ?thesis by (simp add: fp_int_def assms keep_set_rd split: prod.split)
qed

lemmas keep_fp = keep_set_rm keep_set_freg keep_fp_result keep_fp_int

lemma fp_groups:
  assumes "P proc"
  shows "case_ok P (exec_f cfg ops hf dec off proc)" "case_ok P (exec_f_64 cfg hf dec off proc)"
    "case_ok P (exec_d cfg ops hf dec off proc)" "case_ok P (exec_d_64 cfg hf dec off proc)"
  unfolding exec_f_def exec_f_64_def exec_d_def exec_d_64_def Let_def
  by (intro case_ok_if case_ok_when case_ok_simps(1) final_bind [where P = P];
      simp add: assms keep_set_rd keep_load keep_store_fp keep_fp)+

end

text \<open>The two widths: every instruction keeps the predicate.\<close>

lemma exec_keeps_rv64:
  fixes proc :: "(64, 'm, 'z) processor_scheme"
  assumes "exec_invariant ops P" and "P proc"
  shows "P (final (exec_inst_rv64 cfg ops hf dec off proc))"
  unfolding exec_inst_rv64_def
  by (rule final_first_case [where P = P, OF assms(2)])
    (simp only: list.pred_inject simp_thms exec_invariant.alu_groups [OF assms]
      exec_invariant.mem_groups [OF assms] exec_invariant.fp_groups [OF assms])

lemma exec_keeps_rv32:
  fixes proc :: "(32, 'm, 'z) processor_scheme"
  assumes "exec_invariant ops P" and "P proc"
  shows "P (final (exec_inst_rv32 cfg ops hf dec off proc))"
  unfolding exec_inst_rv32_def
  by (rule final_first_case [where P = P, OF assms(2)])
    (simp only: list.pred_inject simp_thms exec_invariant.alu_groups [OF assms]
      exec_invariant.mem_groups [OF assms] exec_invariant.fp_groups [OF assms])

text \<open>Every memory management unit within its interface keeps the register file well formed.\<close>

context mmu_interface
begin

lemma regs_invariant: "exec_invariant ops regs_ok"
proof
  fix p :: "('x, 'm, 'z) processor_scheme" and n va w aop a i f e c and dec :: decode and v
  assume ok: "regs_ok p"
  show "regs_ok (set_rd dec v p)" using ok by simp
  show "regs_ok (p\<lparr>lr := a\<rparr>)" "regs_ok (p\<lparr>freg := (freg p)[i := f]\<rparr>)"
    "regs_ok (p\<lparr>fenv := e\<rparr>)" "regs_ok (p\<lparr>fcsr := c\<rparr>)"
    using ok by (simp_all add: regs_ok_def)
  show "regs_ok (final (mmu_load ops n va p))" "regs_ok (final (mmu_store ops n va w p))"
    "regs_ok (final (mmu_store_fp ops n va w p))" "regs_ok (final (mmu_amo ops n aop va w p))"
    using ok load_keeps [of p n va] store_keeps [of p n va w] store_fp_keeps [of p n va w]
      amo_keeps [of p n aop va w]
    by (simp_all add: regs_ok_def keeps_regs_def)
qed

end

sublocale mmu_interface \<subseteq> regs: exec_invariant ops regs_ok
  by (rule regs_invariant)

lemma regs_ok_exec_rv64:
  fixes proc :: "(64, 'm, 'z) processor_scheme"
  assumes "mmu_interface ops" and "regs_ok proc"
  shows "regs_ok (final (exec_inst_rv64 cfg ops hf dec off proc))"
proof (rule exec_keeps_rv64 [where P = regs_ok])
  show "exec_invariant ops regs_ok" by (rule mmu_interface.regs_invariant [OF assms(1)])
qed (rule assms(2))

lemma regs_ok_exec_rv32:
  fixes proc :: "(32, 'm, 'z) processor_scheme"
  assumes "mmu_interface ops" and "regs_ok proc"
  shows "regs_ok (final (exec_inst_rv32 cfg ops hf dec off proc))"
proof (rule exec_keeps_rv32 [where P = regs_ok])
  show "exec_invariant ops regs_ok" by (rule mmu_interface.regs_invariant [OF assms(1)])
qed (rule assms(2))

section \<open>Results of the arithmetic instructions\<close>

text \<open>
  The multiplication and division instructions as the instruction set defines them, over the
  integers: \<open>spec_mul\<close> is the specification, stated without reference to the interpreter.
\<close>

definition spec_mul :: "opcode \<Rightarrow> 'x::len word \<Rightarrow> 'x word \<Rightarrow> 'x word" where
  "spec_mul opc a b =
    (if opc = rv_op_mul then word_of_int (sint a * sint b)
     else if opc = rv_op_mulh then word_of_int (sint a * sint b div 2 ^ LENGTH('x))
     else if opc = rv_op_mulhsu then word_of_int (sint a * uint b div 2 ^ LENGTH('x))
     else if opc = rv_op_mulhu then word_of_int (uint a * uint b div 2 ^ LENGTH('x))
     else if opc = rv_op_div then
       (if sint b = 0 then - 1 else word_of_int (sint a sdiv sint b))
     else if opc = rv_op_divu then (if uint b = 0 then - 1 else word_of_int (uint a div uint b))
     else if opc = rv_op_rem then
       (if sint b = 0 then a else word_of_int (sint a smod sint b))
     else (if uint b = 0 then a else word_of_int (uint a mod uint b)))"

lemma mulhu_int:
  fixes a b :: "'x::len word"
  assumes "LENGTH('x) = 2 * q" and "qb TYPE('x word) = q"
  shows "mulhu a b = word_of_int (uint a * uint b div 2 ^ LENGTH('x))"
proof -
  have "uint (mulhu a b) = uint a * uint b div 2 ^ LENGTH('x)"
    using arg_cong [OF mulhu_high(1) [OF assms, of a b], of int] by (simp add: zdiv_int)
  then show ?thesis by (metis word_of_int_uint)
qed

lemma div_overflow:
  "word_of_int (sint (min_signed :: 'x::len word) sdiv sint (- 1 :: 'x word)) = (min_signed :: 'x word)"
  "word_of_int (sint (min_signed :: 'x::len word) smod sint (- 1 :: 'x word)) = (0 :: 'x word)"
proof -
  have "sint (- 1 :: 'x word) = - 1" by (rule sint_n1)
  moreover have "k sdiv - 1 = - k" "k smod - 1 = 0" for k :: int
    by (simp_all add: signed_divide_int_def signed_modulo_int_def sgn_mult_abs)
  ultimately show
    "word_of_int (sint (min_signed :: 'x::len word) sdiv sint (- 1 :: 'x word)) = (min_signed :: 'x word)"
    "word_of_int (sint (min_signed :: 'x::len word) smod sint (- 1 :: 'x word)) = (0 :: 'x word)"
    by (simp_all add: minus_min_signed)
qed

lemma exec_mul_spec:
  fixes proc :: "('x::len, 'm, 'z) processor_scheme"
  assumes len: "LENGTH('x) = 2 * q" "qb TYPE('x word) = q"
    and "rv_op_mul \<le> dec_op dec" and "dec_op dec \<le> rv_op_remu" and "rvm cfg"
  shows "exec_mul cfg dec off proc = Some (Ret off
    (set_rd dec (spec_mul (dec_op dec) (get_reg proc (dec_rs1 dec)) (get_reg proc (dec_rs2 dec))) proc))"
proof -
  have opc: "dec_op dec \<in> {64, 65, 66, 67, 68, 69, 70, 71}" using assms(3,4) by auto
  have smod_1: "k smod 1 = 0" for k :: int by (simp add: signed_modulo_int_def)
  note specs = spec_mul_def minus_min_signed smod_1 mulhu_int [OF len] mulh_high [OF len] div_overflow signed_eq_0_iff
    unsigned_eq_0_iff
  show ?thesis
    using opc by (auto simp: exec_mul_def when_ext_def assms(5) specs word_div_def word_mod_def Let_def)
qed

end
