(* ===== verification/Rv_Li_Laws.thy ===== *)
theory Rv_Li_Laws
  imports Rv_Assembler Rv_Emit_Laws Rv_Interp_Laws
begin

text \<open>
  The code that \<^verbatim>\<open>load_imm\<close> assembles, run by the interpreter: what it leaves in the register.
\<close>

section \<open>Bytes of the current section\<close>

definition asm_ok :: "assembler \<Rightarrow> bool" where
  "asm_ok a \<longleftrightarrow> current a < length (asm_sections a)"

lemma push_back_sections [simp]:
  "asm_ok (push_back bs a) \<longleftrightarrow> asm_ok a" "current (push_back bs a) = current a"
  by (simp_all add: push_back_def asm_ok_def)

lemma cur_buf_push_back [simp]: "asm_ok a \<Longrightarrow> cur_buf (push_back bs a) = cur_buf a @ bs"
  by (simp add: push_back_def asm_ok_def cur_buf_def)

lemma push_back_append: "asm_ok a \<Longrightarrow> push_back bs' (push_back bs a) = push_back (bs @ bs') a"
  by (simp add: push_back_def asm_ok_def cur_buf_def)

lemma push_back_Nil: "asm_ok a \<Longrightarrow> push_back [] a = a"
  by (simp add: push_back_def asm_ok_def cur_buf_def)

lemma add_inst_word: "inst_length w = 4 \<Longrightarrow> add_inst w a = push_back (le_bytes 4 w) a"
proof -
  have "ucast (drop_bit k (ucast w :: u32) AND 0xff) = (ucast (drop_bit k w) :: u8)" if "k \<le> 24" for k
  proof -
    have "ucast (drop_bit k (ucast w :: u32) AND mask 8) = (ucast (drop_bit k w) :: u8)"
      using that by (auto intro!: bit_word_eqI simp: bit_simps)
    then show ?thesis by (simp add: mask_eq_exp_minus_1)
  qed
  from this [of 0] this [of 8] this [of 16] this [of 24]
  show "inst_length w = 4 \<Longrightarrow> add_inst w a = push_back (le_bytes 4 w) a"
    by (simp add: add_inst_def append_32_def numeral_eq_Suc)
qed

abbreviation code_bytes :: "u64 list \<Rightarrow> u8 list" where
  "code_bytes ws \<equiv> concat (map (le_bytes 4) ws)"

section \<open>Running code\<close>

primrec run_words :: "isa \<Rightarrow> ((64, 'm, 'z) processor_scheme, 64) mmu_ops \<Rightarrow> host_fp \<Rightarrow> u64 list \<Rightarrow>
    (64, 'm, 'z) processor_scheme \<Rightarrow> ((64, 'm, 'z) processor_scheme, unit) outcome" where
  "run_words cfg ops hf [] p = Ret () p"
| "run_words cfg ops hf (w # ws) p =
    bind_outcome (exec_inst_rv64 cfg ops hf (decode_inst_rv64 decode_init w) 4 p) (\<lambda>off p.
      run_words cfg ops hf ws (p\<lparr>pc := pc p + off\<rparr>))"

lemma run_words_append:
  "run_words cfg ops hf (ws @ ws') p = bind_outcome (run_words cfg ops hf ws p) (\<lambda>_. run_words cfg ops hf ws')"
  by (induction ws arbitrary: p) (simp_all add: bind_outcome_assoc)

text \<open>Code that computes a function of one register in place.\<close>

definition effect :: "isa \<Rightarrow> ((64, 'm, 'z) processor_scheme, 64) mmu_ops \<Rightarrow> host_fp \<Rightarrow> nat \<Rightarrow> u64 list \<Rightarrow>
    (u64 \<Rightarrow> u64) \<Rightarrow> bool" where
  "effect cfg ops hf r ws f \<longleftrightarrow> (\<forall>p. regs_ok p \<longrightarrow> run_words cfg ops hf ws p =
     Ret () (p\<lparr>ireg := (ireg p)[r := f (ireg p ! r)], pc := pc p + of_nat (4 * length ws)\<rparr>))"

lemma effect_append:
  assumes "effect cfg ops hf r ws f" and "effect cfg ops hf r ws' g" and "0 < r" and "r < 32"
  shows "effect cfg ops hf r (ws @ ws') (\<lambda>x. g (f x))"
  using assms by (simp add: effect_def run_words_append regs_ok_def ac_simps)

lemma effect_cong: "effect cfg ops hf r ws f \<Longrightarrow> (\<And>x. f x = g x) \<Longrightarrow> effect cfg ops hf r ws g"
  by (simp add: effect_def)

section \<open>The three instructions\<close>

abbreviation rv64 :: isa where "rv64 \<equiv> isa_all False True False"

lemma li_emitters:
  "(rv_op_lui, [A_rd, A_simm 32 12], \<lambda>xs. case xs of [a, b] \<Rightarrow> emit_lui a b | _ \<Rightarrow> None) \<in> set emitters"
  "(rv_op_addi, [A_rd, A_rs1, A_simm 12 0], \<lambda>xs. case xs of [a, b, c] \<Rightarrow> emit_addi a b c | _ \<Rightarrow> None) \<in> set emitters"
  "(rv_op_slli, [A_rd, A_rs1, A_uimm 7], \<lambda>xs. case xs of [a, b, c] \<Rightarrow> emit_slli a b c | _ \<Rightarrow> None) \<in> set emitters"
  by (simp_all add: emitters_def)

lemma li_enabled: "op_enabled rv64 rv_op_lui" "op_enabled rv64 rv_op_addi" "op_enabled rv64 rv_op_slli"
  by (simp_all add: op_enabled_def isa_all_def)

lemma li_plain: "rv_inst_decomp_rv64 ! rv_op_lui = rv_op_illegal" "rv_inst_decomp_rv64 ! rv_op_addi = rv_op_illegal"
  "rv_inst_decomp_rv64 ! rv_op_slli = rv_op_illegal"
  by (simp_all add: rv_inst_decomp_rv64_def)

abbreviation decoded :: "u64 \<Rightarrow> decode" where "decoded w \<equiv> decode_inst_rv64 decode_init w"

lemma emitter_decodes_rv64:
  assumes "(op, args, f) \<in> set emitters" and "op_enabled rv64 op" and plain: "rv_inst_decomp_rv64 ! op = rv_op_illegal"
    and "length xs = length args" and "list_all2 arg_valid args xs" and "list_all2 arg_aligned args xs"
  shows "\<exists>w. f xs = Some w \<and> inst_length w = 4 \<and> w AND 0xffffffff = w \<and>
    dec_op (decoded w) = op \<and> map (\<lambda>a. arg_get a (decoded w)) args = xs"
proof -
  obtain w where w: "f xs = Some w" "inst_length w = 4" "w AND 0xffffffff = w"
    and dec: "\<And>d0. dec_op (decode_inst rv64 d0 w) = op" "\<And>d0. map (\<lambda>a. arg_get a (decode_inst rv64 d0 w)) args = xs"
    using emitter_decodes [OF assms(1,2,4-6)] by blast
  have "decoded w = decode_inst rv64 decode_init w"
    using plain dec(1) [of decode_init] by (simp add: decode_inst_rv64_def decompress_inst_rv64_def Let_def)
  then show ?thesis using w dec by simp
qed

lemma emit_lui_decodes:
  assumes "uimm_valid 5 rd" and "simm_valid 32 imm" and "2 ^ 12 dvd sint imm"
  obtains w where "emit_lui rd imm = Some w" and "inst_length w = 4" and "dec_op (decoded w) = rv_op_lui"
    and "ucast (dec_rd (decoded w)) = rd" and "scast (dec_imm (decoded w)) = imm"
  using emitter_decodes_rv64 [OF li_emitters(1) li_enabled(1) li_plain(1), of "[rd, imm]"] assms
  by (auto simp: list_all2_Cons1)

lemma emit_addi_decodes:
  assumes "uimm_valid 5 rd" and "uimm_valid 5 rs1" and "simm_valid 12 imm"
  obtains w where "emit_addi rd rs1 imm = Some w" and "inst_length w = 4" and "dec_op (decoded w) = rv_op_addi"
    and "ucast (dec_rd (decoded w)) = rd" and "ucast (dec_rs1 (decoded w)) = rs1" and "scast (dec_imm (decoded w)) = imm"
  using emitter_decodes_rv64 [OF li_emitters(2) li_enabled(2) li_plain(2), of "[rd, rs1, imm]"] assms
  by (auto simp: list_all2_Cons1)

lemma emit_slli_decodes:
  assumes "uimm_valid 5 rd" and "uimm_valid 5 rs1" and "uimm_valid 7 sh"
  obtains w where "emit_slli rd rs1 sh = Some w" and "inst_length w = 4" and "dec_op (decoded w) = rv_op_slli"
    and "ucast (dec_rd (decoded w)) = rd" and "ucast (dec_rs1 (decoded w)) = rs1" and "scast (dec_imm (decoded w)) = sh"
  using emitter_decodes_rv64 [OF li_emitters(3) li_enabled(3) li_plain(3), of "[rd, rs1, sh]"] assms
  by (auto simp: list_all2_Cons1)

lemma ucast_reg:
  assumes "ucast (r :: u8) = (rd :: u64)"
  shows "unat r = unat rd" and "r = 0 \<longleftrightarrow> rd = 0"
proof -
  have "unat r < 2 ^ 64" using unsigned_less [of r, where 'a = nat] by simp
  then have "unat (ucast r :: u64) = unat r" by (simp add: unsigned_ucast_eq take_bit_nat_eq_self)
  then show "unat r = unat rd" using assms by simp
  then show "r = 0 \<longleftrightarrow> rd = 0" by (simp add: word_unat_eq_iff)
qed

lemma effect_lui:
  assumes "uimm_valid 5 rd" and "rd \<noteq> 0" and "simm_valid 32 imm" and "2 ^ 12 dvd sint imm" and "rvi cfg"
  shows "\<exists>w. add_emitted (emit_lui rd imm) a = Some (push_back (le_bytes 4 w) a) \<and>
    effect cfg ops hf (unat rd) [w] (\<lambda>_. imm)"
proof -
  obtain w where w: "emit_lui rd imm = Some w" "inst_length w = 4" and d: "dec_op (decoded w) = rv_op_lui"
    "ucast (dec_rd (decoded w)) = rd" "scast (dec_imm (decoded w)) = imm"
    by (rule emit_lui_decodes [OF assms(1,3,4)])
  have "exec_inst_rv64 cfg ops hf (decoded w) 4 p = Ret 4 (p\<lparr>ireg := (ireg p)[unat rd := imm]\<rparr>)" for p
    using d(1,3) assms(2,5) ucast_reg [OF d(2)] by (simp add: exec_inst_rv64_def exec_ctrl_def when_ext_def set_rd_def)
  then have "effect cfg ops hf (unat rd) [w] (\<lambda>_. imm)" by (simp add: effect_def)
  then show ?thesis using w by (auto simp: add_emitted_def add_inst_word)
qed

lemma effect_addi_from:
  assumes "uimm_valid 5 rd" and "rd \<noteq> 0" and "uimm_valid 5 rs" and "simm_valid 12 imm" and "rvi cfg"
  shows "\<exists>w. add_emitted (emit_addi rd rs imm) a = Some (push_back (le_bytes 4 w) a) \<and>
    (\<forall>p. run_words cfg ops hf [w] p = Ret () (p\<lparr>ireg := (ireg p)[unat rd := ireg p ! unat rs + imm], pc := pc p + 4\<rparr>))"
proof -
  obtain w where w: "emit_addi rd rs imm = Some w" "inst_length w = 4" and d: "dec_op (decoded w) = rv_op_addi"
    "ucast (dec_rd (decoded w)) = rd" "ucast (dec_rs1 (decoded w)) = rs" "scast (dec_imm (decoded w)) = imm"
    by (rule emit_addi_decodes [OF assms(1,3,4)])
  have "exec_inst_rv64 cfg ops hf (decoded w) 4 p = Ret 4 (p\<lparr>ireg := (ireg p)[unat rd := ireg p ! unat rs + imm]\<rparr>)" for p
    using d(1,4) assms(2,5) ucast_reg [OF d(2)] ucast_reg [OF d(3)]
    by (simp add: exec_inst_rv64_def exec_op_imm_def exec_ctrl_def exec_mem_def when_ext_def set_rd_def get_reg_def)
  then show ?thesis using w by (intro exI [of _ w]) (simp add: add_emitted_def add_inst_word)
qed

lemma effect_addi:
  assumes "uimm_valid 5 rd" and "rd \<noteq> 0" and "simm_valid 12 imm" and "rvi cfg"
  shows "\<exists>w. add_emitted (emit_addi rd rd imm) a = Some (push_back (le_bytes 4 w) a) \<and>
    effect cfg ops hf (unat rd) [w] (\<lambda>x. x + imm)"
    and "\<exists>w. add_emitted (emit_addi rd 0 imm) a = Some (push_back (le_bytes 4 w) a) \<and>
    effect cfg ops hf (unat rd) [w] (\<lambda>x. imm)"
  using effect_addi_from [OF assms(1,2,1,3,4), of a ops hf] effect_addi_from [OF assms(1,2) _ assms(3,4), of 0 a ops hf]
  by (auto simp: effect_def regs_ok_def uimm_valid_unat)

lemma effect_slli:
  assumes "uimm_valid 5 rd" and "rd \<noteq> 0" and "sh < 64" and "rvi cfg"
  shows "\<exists>w. add_emitted (emit_slli rd rd (of_nat sh)) a = Some (push_back (le_bytes 4 w) a) \<and>
    effect cfg ops hf (unat rd) [w] (push_bit sh)"
proof -
  have sh: "unat (of_nat sh :: u64) = sh" using assms(3) by (simp add: unat_of_nat)
  then have v: "uimm_valid 7 (of_nat sh)" using assms(3) by (simp add: uimm_valid_unat)
  obtain w where w: "emit_slli rd rd (of_nat sh) = Some w" "inst_length w = 4" and d: "dec_op (decoded w) = rv_op_slli"
    "ucast (dec_rd (decoded w)) = rd" "ucast (dec_rs1 (decoded w)) = rd" "scast (dec_imm (decoded w)) = (of_nat sh :: u64)"
    by (rule emit_slli_decodes [OF assms(1,1) v])
  have "dec_imm (decoded w) = ucast (of_nat sh :: u64)" using arg_cong [OF d(4), of "ucast :: u64 \<Rightarrow> s32"] by simp
  then have n: "unat (dec_imm (decoded w)) = sh"
    using assms(3) sh by (simp only: unsigned_ucast_eq) (simp add: take_bit_nat_eq_self)
  have "exec_inst_rv64 cfg ops hf (decoded w) 4 p = Ret 4 (p\<lparr>ireg := (ireg p)[unat rd := push_bit sh (ireg p ! unat rd)]\<rparr>)" for p
    using d(1) n assms(2-4) ucast_reg [OF d(2)] ucast_reg [OF d(3)]
    by (simp add: exec_inst_rv64_def exec_op_imm_def exec_ctrl_def exec_mem_def exec_shift_imm_def exec_op_def exec_mem_64_def
        when_ext_def set_rd_def get_reg_def guard_shift_def)
  then have "effect cfg ops hf (unat rd) [w] (push_bit sh)" by (simp add: effect_def)
  then show ?thesis using w by (auto simp: add_emitted_def add_inst_word)
qed

section \<open>Trailing zeros and powers of two\<close>

lemma ctz_loop_found: "ctz_loop k i x True n = n"
  by (induction k arbitrary: i) simp_all

lemma ctz_loop_bits:
  assumes "\<And>j. j < i \<Longrightarrow> \<not> bit x j"
  shows "ctz_loop k i x False i \<le> i + k \<and> (\<forall>j < ctz_loop k i x False i. \<not> bit x j) \<and>
    (ctz_loop k i x False i < i + k \<longrightarrow> bit x (ctz_loop k i x False i))"
  using assms
proof (induction k arbitrary: i)
  case (Suc k)
  show ?case
  proof (cases "bit x i")
    case True
    then show ?thesis using Suc.prems by (simp add: Let_def and_exp_eq_0_iff_not_bit ctz_loop_found)
  next
    case False
    then have "\<not> bit x j" if "j < Suc i" for j using that Suc.prems by (cases "j = i") auto
    then show ?thesis using Suc.IH [of "Suc i"] False by (simp add: Let_def and_exp_eq_0_iff_not_bit)
  qed
qed auto

lemma ctz_below: "j < ctz x \<Longrightarrow> \<not> bit x j"
  using ctz_loop_bits [of 0 x 64] by (simp add: ctz_def)

lemma ctz_at: "x \<noteq> 0 \<Longrightarrow> ctz x < 64 \<and> bit x (ctz x)"
proof -
  assume "x \<noteq> 0"
  then obtain j where j: "bit x j" by (auto simp: bit_eq_iff)
  then have "j < 64" using bit_imp_le_length [OF j] by simp
  moreover have "ctz x \<le> j" using ctz_below [of j x] j by (meson not_le)
  ultimately show ?thesis using ctz_loop_bits [of 0 x 64] by (simp add: ctz_def)
qed

lemma pow2_ctz:
  assumes "ispow2 x"
  shows "push_bit (ctz x) 1 = x"
proof -
  let ?c = "ctz x" and ?r = "x AND NOT (push_bit (ctz x) 1)"
  have x: "x \<noteq> 0" "x AND (x - 1) = 0" using assms by (simp_all add: ispow2_def)
  note c = ctz_at [OF x(1)]
  have or: "x = ?r OR push_bit ?c 1" using c by (intro bit_word_eqI) (auto simp: bit_simps)
  have "?r AND push_bit ?c 1 = 0" by (intro bit_word_eqI) (auto simp: bit_simps)
  then have "x = ?r + push_bit ?c 1" using or by (simp add: disjunctive_add_eq_or)
  then have "x - 1 = ?r + mask ?c" by (simp add: mask_eq_exp_minus_1)
  also have "?r AND mask ?c = 0" using ctz_below [of _ x] by (intro bit_word_eqI) (auto simp: bit_simps)
  then have "?r + mask ?c = ?r OR mask ?c" by (rule disjunctive_add_eq_or)
  finally have "x AND (?r OR mask ?c) = 0" using x(2) by simp
  then have "\<not> bit ?r i" for i
    by (metis bit_0_eq bit_and_iff bit_or_iff bot_apply bot_bool_def)
  then have "?r = 0" by (intro bit_word_eqI) auto
  then show ?thesis using or by simp
qed

section \<open>The value that is loaded\<close>

text \<open>
  The difference between the constant and what \<^verbatim>\<open>load_imm_r\<close> loads: the upper part is not rounded up
  when the lower part is sign-extended to a negative number.
\<close>

function imm_err :: "u64 \<Rightarrow> u64" where
  "imm_err val = (if fits_lui val then (if bit val 11 then 0x1000 else 0)
     else push_bit (imm_shift val) (imm_err (imm_hi val)))"
  by auto

termination
proof (relation "measure (\<lambda>val. nat \<bar>sint val\<bar>)")
  show "(imm_hi val, val) \<in> measure (\<lambda>val. nat \<bar>sint val\<bar>)" if "\<not> fits_lui val" for val
    using imm_hi_smaller [OF that] by simp
qed simp

declare imm_err.simps [simp del]

lemma low_split: "val - push_bit 12 (signed_drop_bit 12 val) = take_bit 12 val" for val :: u64
proof -
  have "push_bit 12 (signed_drop_bit 12 val) AND take_bit 12 val = 0"
    by (intro bit_word_eqI) (auto simp: bit_simps)
  moreover have "push_bit 12 (signed_drop_bit 12 val) OR take_bit 12 val = val"
    by (intro bit_word_eqI) (auto simp: bit_simps)
  ultimately have "push_bit 12 (signed_drop_bit 12 val) + take_bit 12 val = val"
    by (simp add: disjunctive_add_eq_or)
  then show ?thesis by (metis add_diff_cancel_left')
qed

lemma take_bit_disjoint: "take_bit k val AND push_bit k 1 = 0" "take_bit k val AND NOT (mask k) = 0" for val :: u64
  by (intro bit_word_eqI; auto simp: bit_simps)+

lemma sint_signed_take_bit: "k < 63 \<Longrightarrow> sint (signed_take_bit k w) = signed_take_bit k (sint w)" for w :: u64
  by (rule bit_eqI) (auto simp: bit_simps min_def)

lemma sign_low: "signed_take_bit 11 val = take_bit 12 val - (if bit val 11 then 0x1000 else 0)" for val :: u64
proof (cases "bit val 11")
  case True
  have t: "take_bit 12 val = take_bit 11 val OR push_bit 11 1"
    using True by (intro bit_word_eqI) (auto simp: bit_simps less_Suc_eq numeral_eq_Suc)
  have "take_bit 11 val + push_bit 11 1 = take_bit 11 val OR push_bit 11 1"
    by (rule disjunctive_add_eq_or) (rule take_bit_disjoint)
  then have "take_bit 12 val = take_bit 11 val + 0x800" unfolding t by simp
  moreover have "signed_take_bit 11 val = take_bit 11 val + NOT (mask 11)"
    using True disjunctive_add_eq_or [OF take_bit_disjoint(2), of 11 val] by (simp add: signed_take_bit_def)
  moreover have "NOT (mask 11) = (- 0x800 :: u64)" by (simp add: mask_eq_exp_minus_1)
  ultimately show ?thesis using True by simp
next
  case False
  then have "take_bit 12 val = take_bit 11 val"
    by (intro bit_word_eqI) (auto simp: bit_simps less_Suc_eq numeral_eq_Suc)
  then show ?thesis using False by (simp add: signed_take_bit_def)
qed

lemma upper_lower:
  "push_bit 12 (signed_drop_bit 12 val) + signed_take_bit 11 val = val - (if bit val 11 then 0x1000 else 0)" for val :: u64
proof -
  have "push_bit 12 (signed_drop_bit 12 val) = val - take_bit 12 val" using low_split [of val] by (metis diff_diff_eq2 add_diff_cancel_left')
  then show ?thesis unfolding sign_low by simp
qed

lemma fits_lui_bits: "fits_lui val \<longleftrightarrow> (\<forall>i. 31 \<le> i \<longrightarrow> i < 64 \<longrightarrow> \<not> bit val i) \<or> (\<forall>i. 31 \<le> i \<longrightarrow> i < 64 \<longrightarrow> bit val i)"
proof -
  have m: "(0x7fffffff :: u64) = mask 31" by (simp add: mask_eq_exp_minus_1)
  have "val AND NOT (mask 31) = 0 \<longleftrightarrow> (\<forall>i. 31 \<le> i \<longrightarrow> i < 64 \<longrightarrow> \<not> bit val i)"
    by (auto simp: bit_eq_iff bit_simps not_less [symmetric])
  moreover have "val AND NOT (mask 31) = NOT (mask 31) \<longleftrightarrow> (\<forall>i. 31 \<le> i \<longrightarrow> i < 64 \<longrightarrow> bit val i)"
    by (auto simp: bit_eq_iff bit_simps)
  ultimately show ?thesis by (simp only: fits_lui_def m)
qed

lemma fits_lui_sint: "fits_lui val \<Longrightarrow> - (2 ^ 31) \<le> sint val \<and> sint val < 2 ^ 31"
proof -
  assume f: "fits_lui val"
  have "signed_take_bit 31 val = val"
  proof (rule bit_word_eqI)
    fix n :: nat
    assume "n < LENGTH(64)"
    then show "bit (signed_take_bit 31 val) n = bit val n"
      using f by (auto simp: fits_lui_bits bit_simps min_def)
  qed
  then have "sint val = signed_take_bit 31 (sint val)"
    using sint_signed_take_bit [of 31 val] by simp
  then show ?thesis
    using signed_take_bit_int_greater_eq_minus_exp [of 31 "sint val"] signed_take_bit_int_less_exp [of 31 "sint val"]
    by simp
qed

lemma signed_take_bit_range:
  fixes w :: u64
  assumes "signed_take_bit k w = w" and "k < 63"
  shows "- (2 ^ k) \<le> sint w" and "sint w < 2 ^ k"
proof -
  have "sint w = signed_take_bit k (sint w)" using sint_signed_take_bit [of k w] assms by simp
  then show "- (2 ^ k) \<le> sint w" and "sint w < 2 ^ k"
    using signed_take_bit_int_greater_eq_minus_exp [of k "sint w"] signed_take_bit_int_less_exp [of k "sint w"] by simp_all
qed

lemma simm_valid_12: "simm_valid 12 (signed_take_bit 11 val)"
  using signed_take_bit_range [of 11 "signed_take_bit 11 val"] by (simp add: simm_valid_def)

lemma upper_ok:
  assumes "fits_lui val"
  shows "simm_valid 32 (push_bit 12 (signed_drop_bit 12 val))" and "2 ^ 12 dvd sint (push_bit 12 (signed_drop_bit 12 val))"
proof -
  let ?u = "push_bit 12 (signed_drop_bit 12 val)"
  have "signed_take_bit 31 ?u = ?u"
    using assms by (intro bit_word_eqI) (auto simp: fits_lui_bits bit_simps min_def)
  then show "simm_valid 32 ?u" using signed_take_bit_range [of 31 ?u] by (simp add: simm_valid_def)
  have "take_bit 12 (sint ?u) = 0" by (rule bit_eqI) (auto simp: bit_simps)
  then show "2 ^ 12 dvd sint ?u" by (simp add: take_bit_eq_0_iff)
qed

lemma shifted_back:
  assumes "\<not> fits_lui val"
  shows "imm_shift val < 64" and "push_bit (imm_shift val) (imm_hi val) = val - imm_lo val"
proof -
  let ?h = "val - imm_lo val" and ?c = "ctz (drop_bit 12 (val - imm_lo val))"
  have "?h = push_bit 12 (signed_drop_bit 12 val) + (if bit val 11 then 0x1000 else 0)"
    using upper_lower [of val] by (auto simp: imm_lo_def bitextend_12 algebra_simps)
  also have "\<dots> = push_bit 12 (signed_drop_bit 12 val + (if bit val 11 then 1 else 0))"
    by (simp add: push_bit_add)
  finally have low: "\<not> bit ?h j" if "j < 12" for j using that by (simp add: bit_simps)
  have "?h \<noteq> 0"
  proof
    assume "?h = 0"
    then have "signed_take_bit 11 val = val" by (simp add: imm_lo_def bitextend_12)
    then have "bit val i \<longleftrightarrow> bit val 11" if "31 \<le> i" "i < 64" for i
      using that bit_signed_take_bit_iff [of 11 val i] by (auto simp: min_def)
    then show False using assms by (auto simp: fits_lui_bits)
  qed
  then have "drop_bit 12 ?h \<noteq> 0"
  proof -
    obtain j where "bit ?h j" using \<open>?h \<noteq> 0\<close> by (auto simp: bit_eq_iff)
    moreover have "12 + (j - 12) = j" using calculation low [of j] by (cases "j < 12") simp_all
    ultimately have "bit (drop_bit 12 ?h) (j - 12)" by (simp only: bit_drop_bit_eq o_def)
    then show ?thesis by auto
  qed
  then have "bit ?h (12 + ?c)" using ctz_at [of "drop_bit 12 ?h"] by (simp add: bit_drop_bit_eq)
  then show s: "imm_shift val < 64" using bit_imp_le_length by (fastforce simp: imm_shift_def)
  have zero: "\<not> bit ?h j" if "j < imm_shift val" for j
    using low [of j] ctz_below [of "j - 12" "drop_bit 12 ?h"] that
    by (cases "j < 12") (auto simp: imm_shift_def bit_drop_bit_eq)
  show "push_bit (imm_shift val) (imm_hi val) = ?h"
  proof (rule bit_word_eqI)
    fix n :: nat
    assume "n < LENGTH(64)"
    then show "bit (push_bit (imm_shift val) (imm_hi val)) n = bit ?h n"
      using s zero [of n] by (cases "n < imm_shift val") (auto simp: imm_hi_def bit_simps)
  qed
qed

lemma load_imm_r_effect:
  assumes "uimm_valid 5 rd" and "rd \<noteq> 0" and "rvi cfg" and "asm_ok a"
  shows "\<exists>ws. load_imm_r rd val a = Some (push_back (code_bytes ws) a) \<and>
    effect cfg ops hf (unat rd) ws (\<lambda>_. val - imm_err val)"
proof (induction val rule: imm_err.induct)
  case (1 val)
  have r: "0 < unat rd" "unat rd < 32" using assms(1,2) by (simp_all add: uimm_valid_unat unat_gt_0)
  note app = effect_append [OF _ _ r]
  note chain = push_back_append [OF assms(4)]
  show ?case
  proof (cases "fits_lui val")
    case True
    let ?u = "push_bit 12 (signed_drop_bit 12 val)" and ?l = "signed_take_bit 11 val"
    obtain w where w: "add_emitted (emit_lui rd ?u) a = Some (push_back (le_bytes 4 w) a)"
      "effect cfg ops hf (unat rd) [w] (\<lambda>_. ?u)"
      using effect_lui [OF assms(1,2) upper_ok [OF True] assms(3)] by blast
    have l: "bitextend (take_bit 12 val) 12 = ?l" by (simp add: bitextend_12 signed_take_bit_take_bit)
    show ?thesis
    proof (cases "take_bit 12 val = 0")
      case low: True
      then have "\<not> bit val 11" using bit_take_bit_iff [of 12 val 11] by auto
      moreover have "?u = val" using low_split [of val] low by simp
      ultimately show ?thesis
        using True w low by (intro exI [of _ "[w]"]) (simp add: load_imm_r.simps imm_err.simps Let_def low_split)
    next
      case low: False
      obtain w' where w': "add_emitted (emit_addi rd rd ?l) (push_back (le_bytes 4 w) a) =
          Some (push_back (le_bytes 4 w') (push_back (le_bytes 4 w) a))"
        "effect cfg ops hf (unat rd) [w'] (\<lambda>x. x + ?l)"
        using effect_addi(1) [OF assms(1,2) simm_valid_12 assms(3)] by blast
      have "?u + ?l = val - imm_err val"
        using True upper_lower [of val] by (simp add: imm_err.simps)
      then have "effect cfg ops hf (unat rd) [w, w'] (\<lambda>_. val - imm_err val)"
        using app [OF w(2) w'(2)] by simp
      moreover have "load_imm_r rd val a = Some (push_back (code_bytes [w, w']) a)"
        using True w(1) w'(1) low by (simp add: load_imm_r.simps Let_def low_split l chain)
      ultimately show ?thesis by blast
    qed
  next
    case False
    obtain ws where ws: "load_imm_r rd (imm_hi val) a = Some (push_back (code_bytes ws) a)"
      "effect cfg ops hf (unat rd) ws (\<lambda>_. imm_hi val - imm_err (imm_hi val))"
      using 1 [OF False] by blast
    let ?a = "push_back (code_bytes ws) a"
    obtain w where w: "add_emitted (emit_slli rd rd (of_nat (imm_shift val))) ?a = Some (push_back (le_bytes 4 w) ?a)"
      "effect cfg ops hf (unat rd) [w] (push_bit (imm_shift val))"
      using effect_slli [OF assms(1,2) shifted_back(1) [OF False] assms(3)] by blast
    have "push_bit (imm_shift val) (imm_hi val - imm_err (imm_hi val)) = val - imm_lo val - imm_err val"
      using shifted_back(2) [OF False] False by (simp add: imm_err.simps [of val] push_bit_eq_mult algebra_simps)
    then have eff: "effect cfg ops hf (unat rd) (ws @ [w]) (\<lambda>_. val - imm_lo val - imm_err val)"
      using app [OF ws(2) w(2)] by simp
    show ?thesis
    proof (cases "imm_lo val = 0")
      case True
      then have "load_imm_r rd val a = Some (push_back (code_bytes (ws @ [w])) a)"
        using False ws(1) w(1) by (subst load_imm_r.simps) (simp add: chain)
      moreover have "effect cfg ops hf (unat rd) (ws @ [w]) (\<lambda>_. val - imm_err val)" using eff True by simp
      ultimately show ?thesis by blast
    next
      case lo: False
      have l: "scast (ucast (bitextend (imm_lo val) 12) :: s32) = imm_lo val"
        using simm_imm(2) [OF simm_valid_12, where k = 0] by (simp add: imm_lo_def bitextend_12)
      obtain w' where w': "add_emitted (emit_addi rd rd (imm_lo val)) (push_back (le_bytes 4 w) ?a) =
          Some (push_back (le_bytes 4 w') (push_back (le_bytes 4 w) ?a))"
        "effect cfg ops hf (unat rd) [w'] (\<lambda>x. x + imm_lo val)"
        using effect_addi(1) [OF assms(1,2) _ assms(3)] simm_valid_12 unfolding imm_lo_def bitextend_12 by blast
      have "load_imm_r rd val a = Some (push_back (code_bytes (ws @ [w, w'])) a)"
        using False ws(1) w(1) w'(1) lo by (subst load_imm_r.simps) (simp add: chain l)
      moreover have "effect cfg ops hf (unat rd) (ws @ [w, w']) (\<lambda>_. val - imm_err val)"
        using app [OF eff w'(2)] by (simp add: algebra_simps)
      ultimately show ?thesis by blast
    qed
  qed
qed

text \<open>What \<^verbatim>\<open>load_imm\<close> leaves in the register.\<close>

definition loaded_imm :: "u64 \<Rightarrow> u64" where
  "loaded_imm val =
    (if sint val \<ge> - 2048 \<and> sint val \<le> 2047 \<or> ispow2 val then val else val - imm_err val)"

lemma load_imm_effect:
  assumes "uimm_valid 5 rd" and "rd \<noteq> 0" and "rvi cfg" and "asm_ok a"
  shows "\<exists>ws. load_imm rd val a = Some (push_back (code_bytes ws) a) \<and>
    effect cfg ops hf (unat rd) ws (\<lambda>_. loaded_imm val)"
proof -
  have r: "0 < unat rd" "unat rd < 32" using assms(1,2) by (simp_all add: uimm_valid_unat unat_gt_0)
  consider (small) "sint val \<ge> - 2048 \<and> sint val \<le> 2047"
    | (pow) "\<not> (sint val \<ge> - 2048 \<and> sint val \<le> 2047)" "ispow2 val"
    | (other) "\<not> (sint val \<ge> - 2048 \<and> sint val \<le> 2047)" "\<not> ispow2 val" by blast
  then show ?thesis
  proof cases
    case small
    then have v: "simm_valid 12 val" by (simp add: simm_valid_def)
    then have "scast (ucast val :: s32) = val" using simm_imm(2) [where k = 0] by simp
    moreover obtain w where "add_emitted (emit_addi rd 0 val) a = Some (push_back (le_bytes 4 w) a)"
      "effect cfg ops hf (unat rd) [w] (\<lambda>_. val)"
      using effect_addi(2) [OF assms(1,2) v assms(3)] by blast
    ultimately show ?thesis using small by (intro exI [of _ "[w]"]) (simp add: load_imm_def loaded_imm_def)
  next
    case pow
    have "simm_valid 12 1" by (simp add: simm_valid_def)
    then obtain w where w: "add_emitted (emit_addi rd 0 1) a = Some (push_back (le_bytes 4 w) a)"
      "effect cfg ops hf (unat rd) [w] (\<lambda>_. 1)"
      using effect_addi(2) [OF assms(1,2) _ assms(3)] by blast
    have "ctz val < 64" using pow(2) ctz_at [of val] by (simp add: ispow2_def)
    then obtain w' where w': "add_emitted (emit_slli rd rd (of_nat (ctz val))) (push_back (le_bytes 4 w) a) =
        Some (push_back (le_bytes 4 w') (push_back (le_bytes 4 w) a))"
      "effect cfg ops hf (unat rd) [w'] (push_bit (ctz val))"
      using effect_slli [OF assms(1,2) _ assms(3)] by blast
    have "effect cfg ops hf (unat rd) [w, w'] (\<lambda>_. val)"
      using effect_append [OF w(2) w'(2) r] pow2_ctz [OF pow(2)] by simp
    then show ?thesis
      using pow w(1) w'(1) by (intro exI [of _ "[w, w']"])
        (auto simp: load_imm_def loaded_imm_def push_back_append [OF assms(4)])
  next
    case other
    then show ?thesis using load_imm_r_effect [OF assms] by (auto simp: load_imm_def loaded_imm_def)
  qed
qed

end
