(* ===== verification/Rv_Asm_Laws.thy ===== *)
theory Rv_Asm_Laws
  imports Rv_Asm Rv_Li_Laws
begin

text \<open>
  The assembling emitters as a table beside that of the emitters, code in a buffer, and relocation:
  what a relocated instruction decodes to.
\<close>

section \<open>The table of the assembling emitters\<close>

definition assemblers :: "(opcode \<times> arg list \<times> (u64 list \<Rightarrow> assembler \<Rightarrow> (bool \<times> assembler) option)) list" where
  "assemblers = [
    (rv_op_lui, [A_rd, A_simm 32 12], \<lambda>xs s. case xs of [a, b] \<Rightarrow> asm_lui a b s | _ \<Rightarrow> None),
    (rv_op_auipc, [A_rd, A_simm 32 12], \<lambda>xs s. case xs of [a, b] \<Rightarrow> asm_auipc a b s | _ \<Rightarrow> None),
    (rv_op_jal, [A_rd, A_simm 21 1], \<lambda>xs s. case xs of [a, b] \<Rightarrow> asm_jal a b s | _ \<Rightarrow> None),
    (rv_op_jalr, [A_rd, A_rs1, A_simm 12 0], \<lambda>xs s. case xs of [a, b, c] \<Rightarrow> asm_jalr a b c s | _ \<Rightarrow> None),
    (rv_op_beq, [A_rs1, A_rs2, A_simm 13 1], \<lambda>xs s. case xs of [a, b, c] \<Rightarrow> asm_beq a b c s | _ \<Rightarrow> None),
    (rv_op_bne, [A_rs1, A_rs2, A_simm 13 1], \<lambda>xs s. case xs of [a, b, c] \<Rightarrow> asm_bne a b c s | _ \<Rightarrow> None),
    (rv_op_blt, [A_rs1, A_rs2, A_simm 13 1], \<lambda>xs s. case xs of [a, b, c] \<Rightarrow> asm_blt a b c s | _ \<Rightarrow> None),
    (rv_op_bge, [A_rs1, A_rs2, A_simm 13 1], \<lambda>xs s. case xs of [a, b, c] \<Rightarrow> asm_bge a b c s | _ \<Rightarrow> None),
    (rv_op_bltu, [A_rs1, A_rs2, A_simm 13 1], \<lambda>xs s. case xs of [a, b, c] \<Rightarrow> asm_bltu a b c s | _ \<Rightarrow> None),
    (rv_op_bgeu, [A_rs1, A_rs2, A_simm 13 1], \<lambda>xs s. case xs of [a, b, c] \<Rightarrow> asm_bgeu a b c s | _ \<Rightarrow> None),
    (rv_op_lb, [A_rd, A_rs1, A_simm 12 0], \<lambda>xs s. case xs of [a, b, c] \<Rightarrow> asm_lb a b c s | _ \<Rightarrow> None),
    (rv_op_lh, [A_rd, A_rs1, A_simm 12 0], \<lambda>xs s. case xs of [a, b, c] \<Rightarrow> asm_lh a b c s | _ \<Rightarrow> None),
    (rv_op_lw, [A_rd, A_rs1, A_simm 12 0], \<lambda>xs s. case xs of [a, b, c] \<Rightarrow> asm_lw a b c s | _ \<Rightarrow> None),
    (rv_op_lbu, [A_rd, A_rs1, A_simm 12 0], \<lambda>xs s. case xs of [a, b, c] \<Rightarrow> asm_lbu a b c s | _ \<Rightarrow> None),
    (rv_op_lhu, [A_rd, A_rs1, A_simm 12 0], \<lambda>xs s. case xs of [a, b, c] \<Rightarrow> asm_lhu a b c s | _ \<Rightarrow> None),
    (rv_op_sb, [A_rs1, A_rs2, A_simm 12 0], \<lambda>xs s. case xs of [a, b, c] \<Rightarrow> asm_sb a b c s | _ \<Rightarrow> None),
    (rv_op_sh, [A_rs1, A_rs2, A_simm 12 0], \<lambda>xs s. case xs of [a, b, c] \<Rightarrow> asm_sh a b c s | _ \<Rightarrow> None),
    (rv_op_sw, [A_rs1, A_rs2, A_simm 12 0], \<lambda>xs s. case xs of [a, b, c] \<Rightarrow> asm_sw a b c s | _ \<Rightarrow> None),
    (rv_op_addi, [A_rd, A_rs1, A_simm 12 0], \<lambda>xs s. case xs of [a, b, c] \<Rightarrow> asm_addi a b c s | _ \<Rightarrow> None),
    (rv_op_slti, [A_rd, A_rs1, A_simm 12 0], \<lambda>xs s. case xs of [a, b, c] \<Rightarrow> asm_slti a b c s | _ \<Rightarrow> None),
    (rv_op_sltiu, [A_rd, A_rs1, A_simm 12 0], \<lambda>xs s. case xs of [a, b, c] \<Rightarrow> asm_sltiu a b c s | _ \<Rightarrow> None),
    (rv_op_xori, [A_rd, A_rs1, A_simm 12 0], \<lambda>xs s. case xs of [a, b, c] \<Rightarrow> asm_xori a b c s | _ \<Rightarrow> None),
    (rv_op_ori, [A_rd, A_rs1, A_simm 12 0], \<lambda>xs s. case xs of [a, b, c] \<Rightarrow> asm_ori a b c s | _ \<Rightarrow> None),
    (rv_op_andi, [A_rd, A_rs1, A_simm 12 0], \<lambda>xs s. case xs of [a, b, c] \<Rightarrow> asm_andi a b c s | _ \<Rightarrow> None),
    (rv_op_slli, [A_rd, A_rs1, A_uimm 7], \<lambda>xs s. case xs of [a, b, c] \<Rightarrow> asm_slli a b c s | _ \<Rightarrow> None),
    (rv_op_srli, [A_rd, A_rs1, A_uimm 7], \<lambda>xs s. case xs of [a, b, c] \<Rightarrow> asm_srli a b c s | _ \<Rightarrow> None),
    (rv_op_srai, [A_rd, A_rs1, A_uimm 7], \<lambda>xs s. case xs of [a, b, c] \<Rightarrow> asm_srai a b c s | _ \<Rightarrow> None),
    (rv_op_add, [A_rd, A_rs1, A_rs2], \<lambda>xs s. case xs of [a, b, c] \<Rightarrow> asm_add a b c s | _ \<Rightarrow> None),
    (rv_op_sub, [A_rd, A_rs1, A_rs2], \<lambda>xs s. case xs of [a, b, c] \<Rightarrow> asm_sub a b c s | _ \<Rightarrow> None),
    (rv_op_sll, [A_rd, A_rs1, A_rs2], \<lambda>xs s. case xs of [a, b, c] \<Rightarrow> asm_sll a b c s | _ \<Rightarrow> None),
    (rv_op_slt, [A_rd, A_rs1, A_rs2], \<lambda>xs s. case xs of [a, b, c] \<Rightarrow> asm_slt a b c s | _ \<Rightarrow> None),
    (rv_op_sltu, [A_rd, A_rs1, A_rs2], \<lambda>xs s. case xs of [a, b, c] \<Rightarrow> asm_sltu a b c s | _ \<Rightarrow> None),
    (rv_op_xor, [A_rd, A_rs1, A_rs2], \<lambda>xs s. case xs of [a, b, c] \<Rightarrow> asm_xor a b c s | _ \<Rightarrow> None),
    (rv_op_srl, [A_rd, A_rs1, A_rs2], \<lambda>xs s. case xs of [a, b, c] \<Rightarrow> asm_srl a b c s | _ \<Rightarrow> None),
    (rv_op_sra, [A_rd, A_rs1, A_rs2], \<lambda>xs s. case xs of [a, b, c] \<Rightarrow> asm_sra a b c s | _ \<Rightarrow> None),
    (rv_op_or, [A_rd, A_rs1, A_rs2], \<lambda>xs s. case xs of [a, b, c] \<Rightarrow> asm_or a b c s | _ \<Rightarrow> None),
    (rv_op_and, [A_rd, A_rs1, A_rs2], \<lambda>xs s. case xs of [a, b, c] \<Rightarrow> asm_and a b c s | _ \<Rightarrow> None),
    (rv_op_fence, [A_pred, A_succ], \<lambda>xs s. case xs of [a, b] \<Rightarrow> asm_fence a b s | _ \<Rightarrow> None),
    (rv_op_fence_i, [], \<lambda>xs s. case xs of [] \<Rightarrow> asm_fence_i s | _ \<Rightarrow> None),
    (rv_op_lwu, [A_rd, A_rs1, A_simm 12 0], \<lambda>xs s. case xs of [a, b, c] \<Rightarrow> asm_lwu a b c s | _ \<Rightarrow> None),
    (rv_op_ld, [A_rd, A_rs1, A_simm 12 0], \<lambda>xs s. case xs of [a, b, c] \<Rightarrow> asm_ld a b c s | _ \<Rightarrow> None),
    (rv_op_sd, [A_rs1, A_rs2, A_simm 12 0], \<lambda>xs s. case xs of [a, b, c] \<Rightarrow> asm_sd a b c s | _ \<Rightarrow> None),
    (rv_op_addiw, [A_rd, A_rs1, A_simm 12 0], \<lambda>xs s. case xs of [a, b, c] \<Rightarrow> asm_addiw a b c s | _ \<Rightarrow> None),
    (rv_op_slliw, [A_rd, A_rs1, A_uimm 5], \<lambda>xs s. case xs of [a, b, c] \<Rightarrow> asm_slliw a b c s | _ \<Rightarrow> None),
    (rv_op_srliw, [A_rd, A_rs1, A_uimm 5], \<lambda>xs s. case xs of [a, b, c] \<Rightarrow> asm_srliw a b c s | _ \<Rightarrow> None),
    (rv_op_sraiw, [A_rd, A_rs1, A_uimm 5], \<lambda>xs s. case xs of [a, b, c] \<Rightarrow> asm_sraiw a b c s | _ \<Rightarrow> None),
    (rv_op_addw, [A_rd, A_rs1, A_rs2], \<lambda>xs s. case xs of [a, b, c] \<Rightarrow> asm_addw a b c s | _ \<Rightarrow> None),
    (rv_op_subw, [A_rd, A_rs1, A_rs2], \<lambda>xs s. case xs of [a, b, c] \<Rightarrow> asm_subw a b c s | _ \<Rightarrow> None),
    (rv_op_sllw, [A_rd, A_rs1, A_rs2], \<lambda>xs s. case xs of [a, b, c] \<Rightarrow> asm_sllw a b c s | _ \<Rightarrow> None),
    (rv_op_srlw, [A_rd, A_rs1, A_rs2], \<lambda>xs s. case xs of [a, b, c] \<Rightarrow> asm_srlw a b c s | _ \<Rightarrow> None),
    (rv_op_sraw, [A_rd, A_rs1, A_rs2], \<lambda>xs s. case xs of [a, b, c] \<Rightarrow> asm_sraw a b c s | _ \<Rightarrow> None),
    (rv_op_ldu, [A_rd, A_rs1, A_simm 12 0], \<lambda>xs s. case xs of [a, b, c] \<Rightarrow> asm_ldu a b c s | _ \<Rightarrow> None),
    (rv_op_lq, [A_rd, A_rs1, A_simm 12 0], \<lambda>xs s. case xs of [a, b, c] \<Rightarrow> asm_lq a b c s | _ \<Rightarrow> None),
    (rv_op_sq, [A_rs1, A_rs2, A_simm 12 0], \<lambda>xs s. case xs of [a, b, c] \<Rightarrow> asm_sq a b c s | _ \<Rightarrow> None),
    (rv_op_addid, [A_rd, A_rs1, A_simm 12 0], \<lambda>xs s. case xs of [a, b, c] \<Rightarrow> asm_addid a b c s | _ \<Rightarrow> None),
    (rv_op_sllid, [A_rd, A_rs1, A_uimm 6], \<lambda>xs s. case xs of [a, b, c] \<Rightarrow> asm_sllid a b c s | _ \<Rightarrow> None),
    (rv_op_srlid, [A_rd, A_rs1, A_uimm 6], \<lambda>xs s. case xs of [a, b, c] \<Rightarrow> asm_srlid a b c s | _ \<Rightarrow> None),
    (rv_op_sraid, [A_rd, A_rs1, A_uimm 6], \<lambda>xs s. case xs of [a, b, c] \<Rightarrow> asm_sraid a b c s | _ \<Rightarrow> None),
    (rv_op_addd, [A_rd, A_rs1, A_rs2], \<lambda>xs s. case xs of [a, b, c] \<Rightarrow> asm_addd a b c s | _ \<Rightarrow> None),
    (rv_op_subd, [A_rd, A_rs1, A_rs2], \<lambda>xs s. case xs of [a, b, c] \<Rightarrow> asm_subd a b c s | _ \<Rightarrow> None),
    (rv_op_slld, [A_rd, A_rs1, A_rs2], \<lambda>xs s. case xs of [a, b, c] \<Rightarrow> asm_slld a b c s | _ \<Rightarrow> None),
    (rv_op_srld, [A_rd, A_rs1, A_rs2], \<lambda>xs s. case xs of [a, b, c] \<Rightarrow> asm_srld a b c s | _ \<Rightarrow> None),
    (rv_op_srad, [A_rd, A_rs1, A_rs2], \<lambda>xs s. case xs of [a, b, c] \<Rightarrow> asm_srad a b c s | _ \<Rightarrow> None),
    (rv_op_mul, [A_rd, A_rs1, A_rs2], \<lambda>xs s. case xs of [a, b, c] \<Rightarrow> asm_mul a b c s | _ \<Rightarrow> None),
    (rv_op_mulh, [A_rd, A_rs1, A_rs2], \<lambda>xs s. case xs of [a, b, c] \<Rightarrow> asm_mulh a b c s | _ \<Rightarrow> None),
    (rv_op_mulhsu, [A_rd, A_rs1, A_rs2], \<lambda>xs s. case xs of [a, b, c] \<Rightarrow> asm_mulhsu a b c s | _ \<Rightarrow> None),
    (rv_op_mulhu, [A_rd, A_rs1, A_rs2], \<lambda>xs s. case xs of [a, b, c] \<Rightarrow> asm_mulhu a b c s | _ \<Rightarrow> None),
    (rv_op_div, [A_rd, A_rs1, A_rs2], \<lambda>xs s. case xs of [a, b, c] \<Rightarrow> asm_div a b c s | _ \<Rightarrow> None),
    (rv_op_divu, [A_rd, A_rs1, A_rs2], \<lambda>xs s. case xs of [a, b, c] \<Rightarrow> asm_divu a b c s | _ \<Rightarrow> None),
    (rv_op_rem, [A_rd, A_rs1, A_rs2], \<lambda>xs s. case xs of [a, b, c] \<Rightarrow> asm_rem a b c s | _ \<Rightarrow> None),
    (rv_op_remu, [A_rd, A_rs1, A_rs2], \<lambda>xs s. case xs of [a, b, c] \<Rightarrow> asm_remu a b c s | _ \<Rightarrow> None),
    (rv_op_mulw, [A_rd, A_rs1, A_rs2], \<lambda>xs s. case xs of [a, b, c] \<Rightarrow> asm_mulw a b c s | _ \<Rightarrow> None),
    (rv_op_divw, [A_rd, A_rs1, A_rs2], \<lambda>xs s. case xs of [a, b, c] \<Rightarrow> asm_divw a b c s | _ \<Rightarrow> None),
    (rv_op_divuw, [A_rd, A_rs1, A_rs2], \<lambda>xs s. case xs of [a, b, c] \<Rightarrow> asm_divuw a b c s | _ \<Rightarrow> None),
    (rv_op_remw, [A_rd, A_rs1, A_rs2], \<lambda>xs s. case xs of [a, b, c] \<Rightarrow> asm_remw a b c s | _ \<Rightarrow> None),
    (rv_op_remuw, [A_rd, A_rs1, A_rs2], \<lambda>xs s. case xs of [a, b, c] \<Rightarrow> asm_remuw a b c s | _ \<Rightarrow> None),
    (rv_op_muld, [A_rd, A_rs1, A_rs2], \<lambda>xs s. case xs of [a, b, c] \<Rightarrow> asm_muld a b c s | _ \<Rightarrow> None),
    (rv_op_divd, [A_rd, A_rs1, A_rs2], \<lambda>xs s. case xs of [a, b, c] \<Rightarrow> asm_divd a b c s | _ \<Rightarrow> None),
    (rv_op_divud, [A_rd, A_rs1, A_rs2], \<lambda>xs s. case xs of [a, b, c] \<Rightarrow> asm_divud a b c s | _ \<Rightarrow> None),
    (rv_op_remd, [A_rd, A_rs1, A_rs2], \<lambda>xs s. case xs of [a, b, c] \<Rightarrow> asm_remd a b c s | _ \<Rightarrow> None),
    (rv_op_remud, [A_rd, A_rs1, A_rs2], \<lambda>xs s. case xs of [a, b, c] \<Rightarrow> asm_remud a b c s | _ \<Rightarrow> None),
    (rv_op_lr_w, [A_rd, A_rs1, A_aq, A_rl], \<lambda>xs s. case xs of [a, b, c, d] \<Rightarrow> asm_lr_w a b c d s | _ \<Rightarrow> None),
    (rv_op_sc_w, [A_rd, A_rs1, A_rs2, A_aq, A_rl], \<lambda>xs s. case xs of [a, b, c, d, e] \<Rightarrow> asm_sc_w a b c d e s | _ \<Rightarrow> None),
    (rv_op_amoswap_w, [A_rd, A_rs1, A_rs2, A_aq, A_rl], \<lambda>xs s. case xs of [a, b, c, d, e] \<Rightarrow> asm_amoswap_w a b c d e s | _ \<Rightarrow> None),
    (rv_op_amoadd_w, [A_rd, A_rs1, A_rs2, A_aq, A_rl], \<lambda>xs s. case xs of [a, b, c, d, e] \<Rightarrow> asm_amoadd_w a b c d e s | _ \<Rightarrow> None),
    (rv_op_amoxor_w, [A_rd, A_rs1, A_rs2, A_aq, A_rl], \<lambda>xs s. case xs of [a, b, c, d, e] \<Rightarrow> asm_amoxor_w a b c d e s | _ \<Rightarrow> None),
    (rv_op_amoor_w, [A_rd, A_rs1, A_rs2, A_aq, A_rl], \<lambda>xs s. case xs of [a, b, c, d, e] \<Rightarrow> asm_amoor_w a b c d e s | _ \<Rightarrow> None),
    (rv_op_amoand_w, [A_rd, A_rs1, A_rs2, A_aq, A_rl], \<lambda>xs s. case xs of [a, b, c, d, e] \<Rightarrow> asm_amoand_w a b c d e s | _ \<Rightarrow> None),
    (rv_op_amomin_w, [A_rd, A_rs1, A_rs2, A_aq, A_rl], \<lambda>xs s. case xs of [a, b, c, d, e] \<Rightarrow> asm_amomin_w a b c d e s | _ \<Rightarrow> None),
    (rv_op_amomax_w, [A_rd, A_rs1, A_rs2, A_aq, A_rl], \<lambda>xs s. case xs of [a, b, c, d, e] \<Rightarrow> asm_amomax_w a b c d e s | _ \<Rightarrow> None),
    (rv_op_amominu_w, [A_rd, A_rs1, A_rs2, A_aq, A_rl], \<lambda>xs s. case xs of [a, b, c, d, e] \<Rightarrow> asm_amominu_w a b c d e s | _ \<Rightarrow> None),
    (rv_op_amomaxu_w, [A_rd, A_rs1, A_rs2, A_aq, A_rl], \<lambda>xs s. case xs of [a, b, c, d, e] \<Rightarrow> asm_amomaxu_w a b c d e s | _ \<Rightarrow> None),
    (rv_op_lr_d, [A_rd, A_rs1, A_aq, A_rl], \<lambda>xs s. case xs of [a, b, c, d] \<Rightarrow> asm_lr_d a b c d s | _ \<Rightarrow> None),
    (rv_op_sc_d, [A_rd, A_rs1, A_rs2, A_aq, A_rl], \<lambda>xs s. case xs of [a, b, c, d, e] \<Rightarrow> asm_sc_d a b c d e s | _ \<Rightarrow> None),
    (rv_op_amoswap_d, [A_rd, A_rs1, A_rs2, A_aq, A_rl], \<lambda>xs s. case xs of [a, b, c, d, e] \<Rightarrow> asm_amoswap_d a b c d e s | _ \<Rightarrow> None),
    (rv_op_amoadd_d, [A_rd, A_rs1, A_rs2, A_aq, A_rl], \<lambda>xs s. case xs of [a, b, c, d, e] \<Rightarrow> asm_amoadd_d a b c d e s | _ \<Rightarrow> None),
    (rv_op_amoxor_d, [A_rd, A_rs1, A_rs2, A_aq, A_rl], \<lambda>xs s. case xs of [a, b, c, d, e] \<Rightarrow> asm_amoxor_d a b c d e s | _ \<Rightarrow> None),
    (rv_op_amoor_d, [A_rd, A_rs1, A_rs2, A_aq, A_rl], \<lambda>xs s. case xs of [a, b, c, d, e] \<Rightarrow> asm_amoor_d a b c d e s | _ \<Rightarrow> None),
    (rv_op_amoand_d, [A_rd, A_rs1, A_rs2, A_aq, A_rl], \<lambda>xs s. case xs of [a, b, c, d, e] \<Rightarrow> asm_amoand_d a b c d e s | _ \<Rightarrow> None),
    (rv_op_amomin_d, [A_rd, A_rs1, A_rs2, A_aq, A_rl], \<lambda>xs s. case xs of [a, b, c, d, e] \<Rightarrow> asm_amomin_d a b c d e s | _ \<Rightarrow> None),
    (rv_op_amomax_d, [A_rd, A_rs1, A_rs2, A_aq, A_rl], \<lambda>xs s. case xs of [a, b, c, d, e] \<Rightarrow> asm_amomax_d a b c d e s | _ \<Rightarrow> None),
    (rv_op_amominu_d, [A_rd, A_rs1, A_rs2, A_aq, A_rl], \<lambda>xs s. case xs of [a, b, c, d, e] \<Rightarrow> asm_amominu_d a b c d e s | _ \<Rightarrow> None),
    (rv_op_amomaxu_d, [A_rd, A_rs1, A_rs2, A_aq, A_rl], \<lambda>xs s. case xs of [a, b, c, d, e] \<Rightarrow> asm_amomaxu_d a b c d e s | _ \<Rightarrow> None),
    (rv_op_lr_q, [A_rd, A_rs1, A_aq, A_rl], \<lambda>xs s. case xs of [a, b, c, d] \<Rightarrow> asm_lr_q a b c d s | _ \<Rightarrow> None),
    (rv_op_sc_q, [A_rd, A_rs1, A_rs2, A_aq, A_rl], \<lambda>xs s. case xs of [a, b, c, d, e] \<Rightarrow> asm_sc_q a b c d e s | _ \<Rightarrow> None),
    (rv_op_amoswap_q, [A_rd, A_rs1, A_rs2, A_aq, A_rl], \<lambda>xs s. case xs of [a, b, c, d, e] \<Rightarrow> asm_amoswap_q a b c d e s | _ \<Rightarrow> None),
    (rv_op_amoadd_q, [A_rd, A_rs1, A_rs2, A_aq, A_rl], \<lambda>xs s. case xs of [a, b, c, d, e] \<Rightarrow> asm_amoadd_q a b c d e s | _ \<Rightarrow> None),
    (rv_op_amoxor_q, [A_rd, A_rs1, A_rs2, A_aq, A_rl], \<lambda>xs s. case xs of [a, b, c, d, e] \<Rightarrow> asm_amoxor_q a b c d e s | _ \<Rightarrow> None),
    (rv_op_amoor_q, [A_rd, A_rs1, A_rs2, A_aq, A_rl], \<lambda>xs s. case xs of [a, b, c, d, e] \<Rightarrow> asm_amoor_q a b c d e s | _ \<Rightarrow> None),
    (rv_op_amoand_q, [A_rd, A_rs1, A_rs2, A_aq, A_rl], \<lambda>xs s. case xs of [a, b, c, d, e] \<Rightarrow> asm_amoand_q a b c d e s | _ \<Rightarrow> None),
    (rv_op_amomin_q, [A_rd, A_rs1, A_rs2, A_aq, A_rl], \<lambda>xs s. case xs of [a, b, c, d, e] \<Rightarrow> asm_amomin_q a b c d e s | _ \<Rightarrow> None),
    (rv_op_amomax_q, [A_rd, A_rs1, A_rs2, A_aq, A_rl], \<lambda>xs s. case xs of [a, b, c, d, e] \<Rightarrow> asm_amomax_q a b c d e s | _ \<Rightarrow> None),
    (rv_op_amominu_q, [A_rd, A_rs1, A_rs2, A_aq, A_rl], \<lambda>xs s. case xs of [a, b, c, d, e] \<Rightarrow> asm_amominu_q a b c d e s | _ \<Rightarrow> None),
    (rv_op_amomaxu_q, [A_rd, A_rs1, A_rs2, A_aq, A_rl], \<lambda>xs s. case xs of [a, b, c, d, e] \<Rightarrow> asm_amomaxu_q a b c d e s | _ \<Rightarrow> None),
    (rv_op_ecall, [], \<lambda>xs s. case xs of [] \<Rightarrow> asm_ecall s | _ \<Rightarrow> None),
    (rv_op_ebreak, [], \<lambda>xs s. case xs of [] \<Rightarrow> asm_ebreak s | _ \<Rightarrow> None),
    (rv_op_uret, [], \<lambda>xs s. case xs of [] \<Rightarrow> asm_uret s | _ \<Rightarrow> None),
    (rv_op_sret, [], \<lambda>xs s. case xs of [] \<Rightarrow> asm_sret s | _ \<Rightarrow> None),
    (rv_op_hret, [], \<lambda>xs s. case xs of [] \<Rightarrow> asm_hret s | _ \<Rightarrow> None),
    (rv_op_mret, [], \<lambda>xs s. case xs of [] \<Rightarrow> asm_mret s | _ \<Rightarrow> None),
    (rv_op_dret, [], \<lambda>xs s. case xs of [] \<Rightarrow> asm_dret s | _ \<Rightarrow> None),
    (rv_op_sfence_vm, [A_rs1], \<lambda>xs s. case xs of [a] \<Rightarrow> asm_sfence_vm a s | _ \<Rightarrow> None),
    (rv_op_wfi, [], \<lambda>xs s. case xs of [] \<Rightarrow> asm_wfi s | _ \<Rightarrow> None),
    (rv_op_csrrw, [A_rd, A_rs1, A_uimm 12], \<lambda>xs s. case xs of [a, b, c] \<Rightarrow> asm_csrrw a b c s | _ \<Rightarrow> None),
    (rv_op_csrrs, [A_rd, A_rs1, A_uimm 12], \<lambda>xs s. case xs of [a, b, c] \<Rightarrow> asm_csrrs a b c s | _ \<Rightarrow> None),
    (rv_op_csrrc, [A_rd, A_rs1, A_uimm 12], \<lambda>xs s. case xs of [a, b, c] \<Rightarrow> asm_csrrc a b c s | _ \<Rightarrow> None),
    (rv_op_flw, [A_rd, A_rs1, A_simm 12 0], \<lambda>xs s. case xs of [a, b, c] \<Rightarrow> asm_flw a b c s | _ \<Rightarrow> None),
    (rv_op_fsw, [A_rs1, A_rs2, A_simm 12 0], \<lambda>xs s. case xs of [a, b, c] \<Rightarrow> asm_fsw a b c s | _ \<Rightarrow> None),
    (rv_op_fmadd_s, [A_rd, A_rs1, A_rs2, A_rs3, A_rm], \<lambda>xs s. case xs of [a, b, c, d, e] \<Rightarrow> asm_fmadd_s a b c d e s | _ \<Rightarrow> None),
    (rv_op_fmsub_s, [A_rd, A_rs1, A_rs2, A_rs3, A_rm], \<lambda>xs s. case xs of [a, b, c, d, e] \<Rightarrow> asm_fmsub_s a b c d e s | _ \<Rightarrow> None),
    (rv_op_fnmsub_s, [A_rd, A_rs1, A_rs2, A_rs3, A_rm], \<lambda>xs s. case xs of [a, b, c, d, e] \<Rightarrow> asm_fnmsub_s a b c d e s | _ \<Rightarrow> None),
    (rv_op_fnmadd_s, [A_rd, A_rs1, A_rs2, A_rs3, A_rm], \<lambda>xs s. case xs of [a, b, c, d, e] \<Rightarrow> asm_fnmadd_s a b c d e s | _ \<Rightarrow> None),
    (rv_op_fadd_s, [A_rd, A_rs1, A_rs2, A_rm], \<lambda>xs s. case xs of [a, b, c, d] \<Rightarrow> asm_fadd_s a b c d s | _ \<Rightarrow> None),
    (rv_op_fsub_s, [A_rd, A_rs1, A_rs2, A_rm], \<lambda>xs s. case xs of [a, b, c, d] \<Rightarrow> asm_fsub_s a b c d s | _ \<Rightarrow> None),
    (rv_op_fmul_s, [A_rd, A_rs1, A_rs2, A_rm], \<lambda>xs s. case xs of [a, b, c, d] \<Rightarrow> asm_fmul_s a b c d s | _ \<Rightarrow> None),
    (rv_op_fdiv_s, [A_rd, A_rs1, A_rs2, A_rm], \<lambda>xs s. case xs of [a, b, c, d] \<Rightarrow> asm_fdiv_s a b c d s | _ \<Rightarrow> None),
    (rv_op_fsgnj_s, [A_rd, A_rs1, A_rs2], \<lambda>xs s. case xs of [a, b, c] \<Rightarrow> asm_fsgnj_s a b c s | _ \<Rightarrow> None),
    (rv_op_fsgnjn_s, [A_rd, A_rs1, A_rs2], \<lambda>xs s. case xs of [a, b, c] \<Rightarrow> asm_fsgnjn_s a b c s | _ \<Rightarrow> None),
    (rv_op_fsgnjx_s, [A_rd, A_rs1, A_rs2], \<lambda>xs s. case xs of [a, b, c] \<Rightarrow> asm_fsgnjx_s a b c s | _ \<Rightarrow> None),
    (rv_op_fmin_s, [A_rd, A_rs1, A_rs2], \<lambda>xs s. case xs of [a, b, c] \<Rightarrow> asm_fmin_s a b c s | _ \<Rightarrow> None),
    (rv_op_fmax_s, [A_rd, A_rs1, A_rs2], \<lambda>xs s. case xs of [a, b, c] \<Rightarrow> asm_fmax_s a b c s | _ \<Rightarrow> None),
    (rv_op_fsqrt_s, [A_rd, A_rs1, A_rm], \<lambda>xs s. case xs of [a, b, c] \<Rightarrow> asm_fsqrt_s a b c s | _ \<Rightarrow> None),
    (rv_op_fle_s, [A_rd, A_rs1, A_rs2], \<lambda>xs s. case xs of [a, b, c] \<Rightarrow> asm_fle_s a b c s | _ \<Rightarrow> None),
    (rv_op_flt_s, [A_rd, A_rs1, A_rs2], \<lambda>xs s. case xs of [a, b, c] \<Rightarrow> asm_flt_s a b c s | _ \<Rightarrow> None),
    (rv_op_feq_s, [A_rd, A_rs1, A_rs2], \<lambda>xs s. case xs of [a, b, c] \<Rightarrow> asm_feq_s a b c s | _ \<Rightarrow> None),
    (rv_op_fcvt_w_s, [A_rd, A_rs1, A_rm], \<lambda>xs s. case xs of [a, b, c] \<Rightarrow> asm_fcvt_w_s a b c s | _ \<Rightarrow> None),
    (rv_op_fcvt_wu_s, [A_rd, A_rs1, A_rm], \<lambda>xs s. case xs of [a, b, c] \<Rightarrow> asm_fcvt_wu_s a b c s | _ \<Rightarrow> None),
    (rv_op_fcvt_s_w, [A_rd, A_rs1, A_rm], \<lambda>xs s. case xs of [a, b, c] \<Rightarrow> asm_fcvt_s_w a b c s | _ \<Rightarrow> None),
    (rv_op_fcvt_s_wu, [A_rd, A_rs1, A_rm], \<lambda>xs s. case xs of [a, b, c] \<Rightarrow> asm_fcvt_s_wu a b c s | _ \<Rightarrow> None),
    (rv_op_fmv_x_s, [A_rd, A_rs1], \<lambda>xs s. case xs of [a, b] \<Rightarrow> asm_fmv_x_s a b s | _ \<Rightarrow> None),
    (rv_op_fclass_s, [A_rd, A_rs1], \<lambda>xs s. case xs of [a, b] \<Rightarrow> asm_fclass_s a b s | _ \<Rightarrow> None),
    (rv_op_fmv_s_x, [A_rd, A_rs1], \<lambda>xs s. case xs of [a, b] \<Rightarrow> asm_fmv_s_x a b s | _ \<Rightarrow> None),
    (rv_op_fcvt_l_s, [A_rd, A_rs1, A_rm], \<lambda>xs s. case xs of [a, b, c] \<Rightarrow> asm_fcvt_l_s a b c s | _ \<Rightarrow> None),
    (rv_op_fcvt_lu_s, [A_rd, A_rs1, A_rm], \<lambda>xs s. case xs of [a, b, c] \<Rightarrow> asm_fcvt_lu_s a b c s | _ \<Rightarrow> None),
    (rv_op_fcvt_s_l, [A_rd, A_rs1, A_rm], \<lambda>xs s. case xs of [a, b, c] \<Rightarrow> asm_fcvt_s_l a b c s | _ \<Rightarrow> None),
    (rv_op_fcvt_s_lu, [A_rd, A_rs1, A_rm], \<lambda>xs s. case xs of [a, b, c] \<Rightarrow> asm_fcvt_s_lu a b c s | _ \<Rightarrow> None),
    (rv_op_fld, [A_rd, A_rs1, A_simm 12 0], \<lambda>xs s. case xs of [a, b, c] \<Rightarrow> asm_fld a b c s | _ \<Rightarrow> None),
    (rv_op_fsd, [A_rs1, A_rs2, A_simm 12 0], \<lambda>xs s. case xs of [a, b, c] \<Rightarrow> asm_fsd a b c s | _ \<Rightarrow> None),
    (rv_op_fmadd_d, [A_rd, A_rs1, A_rs2, A_rs3, A_rm], \<lambda>xs s. case xs of [a, b, c, d, e] \<Rightarrow> asm_fmadd_d a b c d e s | _ \<Rightarrow> None),
    (rv_op_fmsub_d, [A_rd, A_rs1, A_rs2, A_rs3, A_rm], \<lambda>xs s. case xs of [a, b, c, d, e] \<Rightarrow> asm_fmsub_d a b c d e s | _ \<Rightarrow> None),
    (rv_op_fnmsub_d, [A_rd, A_rs1, A_rs2, A_rs3, A_rm], \<lambda>xs s. case xs of [a, b, c, d, e] \<Rightarrow> asm_fnmsub_d a b c d e s | _ \<Rightarrow> None),
    (rv_op_fnmadd_d, [A_rd, A_rs1, A_rs2, A_rs3, A_rm], \<lambda>xs s. case xs of [a, b, c, d, e] \<Rightarrow> asm_fnmadd_d a b c d e s | _ \<Rightarrow> None),
    (rv_op_fadd_d, [A_rd, A_rs1, A_rs2, A_rm], \<lambda>xs s. case xs of [a, b, c, d] \<Rightarrow> asm_fadd_d a b c d s | _ \<Rightarrow> None),
    (rv_op_fsub_d, [A_rd, A_rs1, A_rs2, A_rm], \<lambda>xs s. case xs of [a, b, c, d] \<Rightarrow> asm_fsub_d a b c d s | _ \<Rightarrow> None),
    (rv_op_fmul_d, [A_rd, A_rs1, A_rs2, A_rm], \<lambda>xs s. case xs of [a, b, c, d] \<Rightarrow> asm_fmul_d a b c d s | _ \<Rightarrow> None),
    (rv_op_fdiv_d, [A_rd, A_rs1, A_rs2, A_rm], \<lambda>xs s. case xs of [a, b, c, d] \<Rightarrow> asm_fdiv_d a b c d s | _ \<Rightarrow> None),
    (rv_op_fsgnj_d, [A_rd, A_rs1, A_rs2], \<lambda>xs s. case xs of [a, b, c] \<Rightarrow> asm_fsgnj_d a b c s | _ \<Rightarrow> None),
    (rv_op_fsgnjn_d, [A_rd, A_rs1, A_rs2], \<lambda>xs s. case xs of [a, b, c] \<Rightarrow> asm_fsgnjn_d a b c s | _ \<Rightarrow> None),
    (rv_op_fsgnjx_d, [A_rd, A_rs1, A_rs2], \<lambda>xs s. case xs of [a, b, c] \<Rightarrow> asm_fsgnjx_d a b c s | _ \<Rightarrow> None),
    (rv_op_fmin_d, [A_rd, A_rs1, A_rs2], \<lambda>xs s. case xs of [a, b, c] \<Rightarrow> asm_fmin_d a b c s | _ \<Rightarrow> None),
    (rv_op_fmax_d, [A_rd, A_rs1, A_rs2], \<lambda>xs s. case xs of [a, b, c] \<Rightarrow> asm_fmax_d a b c s | _ \<Rightarrow> None),
    (rv_op_fcvt_s_d, [A_rd, A_rs1, A_rm], \<lambda>xs s. case xs of [a, b, c] \<Rightarrow> asm_fcvt_s_d a b c s | _ \<Rightarrow> None),
    (rv_op_fcvt_d_s, [A_rd, A_rs1, A_rm], \<lambda>xs s. case xs of [a, b, c] \<Rightarrow> asm_fcvt_d_s a b c s | _ \<Rightarrow> None),
    (rv_op_fsqrt_d, [A_rd, A_rs1, A_rm], \<lambda>xs s. case xs of [a, b, c] \<Rightarrow> asm_fsqrt_d a b c s | _ \<Rightarrow> None),
    (rv_op_fle_d, [A_rd, A_rs1, A_rs2], \<lambda>xs s. case xs of [a, b, c] \<Rightarrow> asm_fle_d a b c s | _ \<Rightarrow> None),
    (rv_op_flt_d, [A_rd, A_rs1, A_rs2], \<lambda>xs s. case xs of [a, b, c] \<Rightarrow> asm_flt_d a b c s | _ \<Rightarrow> None),
    (rv_op_feq_d, [A_rd, A_rs1, A_rs2], \<lambda>xs s. case xs of [a, b, c] \<Rightarrow> asm_feq_d a b c s | _ \<Rightarrow> None),
    (rv_op_fcvt_w_d, [A_rd, A_rs1, A_rm], \<lambda>xs s. case xs of [a, b, c] \<Rightarrow> asm_fcvt_w_d a b c s | _ \<Rightarrow> None),
    (rv_op_fcvt_wu_d, [A_rd, A_rs1, A_rm], \<lambda>xs s. case xs of [a, b, c] \<Rightarrow> asm_fcvt_wu_d a b c s | _ \<Rightarrow> None),
    (rv_op_fcvt_d_w, [A_rd, A_rs1, A_rm], \<lambda>xs s. case xs of [a, b, c] \<Rightarrow> asm_fcvt_d_w a b c s | _ \<Rightarrow> None),
    (rv_op_fcvt_d_wu, [A_rd, A_rs1, A_rm], \<lambda>xs s. case xs of [a, b, c] \<Rightarrow> asm_fcvt_d_wu a b c s | _ \<Rightarrow> None),
    (rv_op_fclass_d, [A_rd, A_rs1], \<lambda>xs s. case xs of [a, b] \<Rightarrow> asm_fclass_d a b s | _ \<Rightarrow> None),
    (rv_op_fcvt_l_d, [A_rd, A_rs1, A_rm], \<lambda>xs s. case xs of [a, b, c] \<Rightarrow> asm_fcvt_l_d a b c s | _ \<Rightarrow> None),
    (rv_op_fcvt_lu_d, [A_rd, A_rs1, A_rm], \<lambda>xs s. case xs of [a, b, c] \<Rightarrow> asm_fcvt_lu_d a b c s | _ \<Rightarrow> None),
    (rv_op_fmv_x_d, [A_rd, A_rs1], \<lambda>xs s. case xs of [a, b] \<Rightarrow> asm_fmv_x_d a b s | _ \<Rightarrow> None),
    (rv_op_fcvt_d_l, [A_rd, A_rs1, A_rm], \<lambda>xs s. case xs of [a, b, c] \<Rightarrow> asm_fcvt_d_l a b c s | _ \<Rightarrow> None),
    (rv_op_fcvt_d_lu, [A_rd, A_rs1, A_rm], \<lambda>xs s. case xs of [a, b, c] \<Rightarrow> asm_fcvt_d_lu a b c s | _ \<Rightarrow> None),
    (rv_op_fmv_d_x, [A_rd, A_rs1], \<lambda>xs s. case xs of [a, b] \<Rightarrow> asm_fmv_d_x a b s | _ \<Rightarrow> None),
    (rv_op_flq, [A_rd, A_rs1, A_simm 12 0], \<lambda>xs s. case xs of [a, b, c] \<Rightarrow> asm_flq a b c s | _ \<Rightarrow> None),
    (rv_op_fsq, [A_rs1, A_rs2, A_simm 12 0], \<lambda>xs s. case xs of [a, b, c] \<Rightarrow> asm_fsq a b c s | _ \<Rightarrow> None),
    (rv_op_fmadd_q, [A_rd, A_rs1, A_rs2, A_rs3, A_rm], \<lambda>xs s. case xs of [a, b, c, d, e] \<Rightarrow> asm_fmadd_q a b c d e s | _ \<Rightarrow> None),
    (rv_op_fmsub_q, [A_rd, A_rs1, A_rs2, A_rs3, A_rm], \<lambda>xs s. case xs of [a, b, c, d, e] \<Rightarrow> asm_fmsub_q a b c d e s | _ \<Rightarrow> None),
    (rv_op_fnmsub_q, [A_rd, A_rs1, A_rs2, A_rs3, A_rm], \<lambda>xs s. case xs of [a, b, c, d, e] \<Rightarrow> asm_fnmsub_q a b c d e s | _ \<Rightarrow> None),
    (rv_op_fnmadd_q, [A_rd, A_rs1, A_rs2, A_rs3, A_rm], \<lambda>xs s. case xs of [a, b, c, d, e] \<Rightarrow> asm_fnmadd_q a b c d e s | _ \<Rightarrow> None),
    (rv_op_fadd_q, [A_rd, A_rs1, A_rs2, A_rm], \<lambda>xs s. case xs of [a, b, c, d] \<Rightarrow> asm_fadd_q a b c d s | _ \<Rightarrow> None),
    (rv_op_fsub_q, [A_rd, A_rs1, A_rs2, A_rm], \<lambda>xs s. case xs of [a, b, c, d] \<Rightarrow> asm_fsub_q a b c d s | _ \<Rightarrow> None),
    (rv_op_fmul_q, [A_rd, A_rs1, A_rs2, A_rm], \<lambda>xs s. case xs of [a, b, c, d] \<Rightarrow> asm_fmul_q a b c d s | _ \<Rightarrow> None),
    (rv_op_fdiv_q, [A_rd, A_rs1, A_rs2, A_rm], \<lambda>xs s. case xs of [a, b, c, d] \<Rightarrow> asm_fdiv_q a b c d s | _ \<Rightarrow> None),
    (rv_op_fsgnj_q, [A_rd, A_rs1, A_rs2], \<lambda>xs s. case xs of [a, b, c] \<Rightarrow> asm_fsgnj_q a b c s | _ \<Rightarrow> None),
    (rv_op_fsgnjn_q, [A_rd, A_rs1, A_rs2], \<lambda>xs s. case xs of [a, b, c] \<Rightarrow> asm_fsgnjn_q a b c s | _ \<Rightarrow> None),
    (rv_op_fsgnjx_q, [A_rd, A_rs1, A_rs2], \<lambda>xs s. case xs of [a, b, c] \<Rightarrow> asm_fsgnjx_q a b c s | _ \<Rightarrow> None),
    (rv_op_fmin_q, [A_rd, A_rs1, A_rs2], \<lambda>xs s. case xs of [a, b, c] \<Rightarrow> asm_fmin_q a b c s | _ \<Rightarrow> None),
    (rv_op_fmax_q, [A_rd, A_rs1, A_rs2], \<lambda>xs s. case xs of [a, b, c] \<Rightarrow> asm_fmax_q a b c s | _ \<Rightarrow> None),
    (rv_op_fcvt_s_q, [A_rd, A_rs1, A_rm], \<lambda>xs s. case xs of [a, b, c] \<Rightarrow> asm_fcvt_s_q a b c s | _ \<Rightarrow> None),
    (rv_op_fcvt_q_s, [A_rd, A_rs1, A_rm], \<lambda>xs s. case xs of [a, b, c] \<Rightarrow> asm_fcvt_q_s a b c s | _ \<Rightarrow> None),
    (rv_op_fcvt_d_q, [A_rd, A_rs1, A_rm], \<lambda>xs s. case xs of [a, b, c] \<Rightarrow> asm_fcvt_d_q a b c s | _ \<Rightarrow> None),
    (rv_op_fcvt_q_d, [A_rd, A_rs1, A_rm], \<lambda>xs s. case xs of [a, b, c] \<Rightarrow> asm_fcvt_q_d a b c s | _ \<Rightarrow> None),
    (rv_op_fsqrt_q, [A_rd, A_rs1, A_rm], \<lambda>xs s. case xs of [a, b, c] \<Rightarrow> asm_fsqrt_q a b c s | _ \<Rightarrow> None),
    (rv_op_fle_q, [A_rd, A_rs1, A_rs2], \<lambda>xs s. case xs of [a, b, c] \<Rightarrow> asm_fle_q a b c s | _ \<Rightarrow> None),
    (rv_op_flt_q, [A_rd, A_rs1, A_rs2], \<lambda>xs s. case xs of [a, b, c] \<Rightarrow> asm_flt_q a b c s | _ \<Rightarrow> None),
    (rv_op_feq_q, [A_rd, A_rs1, A_rs2], \<lambda>xs s. case xs of [a, b, c] \<Rightarrow> asm_feq_q a b c s | _ \<Rightarrow> None),
    (rv_op_fcvt_w_q, [A_rd, A_rs1, A_rm], \<lambda>xs s. case xs of [a, b, c] \<Rightarrow> asm_fcvt_w_q a b c s | _ \<Rightarrow> None),
    (rv_op_fcvt_wu_q, [A_rd, A_rs1, A_rm], \<lambda>xs s. case xs of [a, b, c] \<Rightarrow> asm_fcvt_wu_q a b c s | _ \<Rightarrow> None),
    (rv_op_fcvt_q_w, [A_rd, A_rs1, A_rm], \<lambda>xs s. case xs of [a, b, c] \<Rightarrow> asm_fcvt_q_w a b c s | _ \<Rightarrow> None),
    (rv_op_fcvt_q_wu, [A_rd, A_rs1, A_rm], \<lambda>xs s. case xs of [a, b, c] \<Rightarrow> asm_fcvt_q_wu a b c s | _ \<Rightarrow> None),
    (rv_op_fclass_q, [A_rd, A_rs1], \<lambda>xs s. case xs of [a, b] \<Rightarrow> asm_fclass_q a b s | _ \<Rightarrow> None),
    (rv_op_fcvt_l_q, [A_rd, A_rs1, A_rm], \<lambda>xs s. case xs of [a, b, c] \<Rightarrow> asm_fcvt_l_q a b c s | _ \<Rightarrow> None),
    (rv_op_fcvt_lu_q, [A_rd, A_rs1, A_rm], \<lambda>xs s. case xs of [a, b, c] \<Rightarrow> asm_fcvt_lu_q a b c s | _ \<Rightarrow> None),
    (rv_op_fcvt_q_l, [A_rd, A_rs1, A_rm], \<lambda>xs s. case xs of [a, b, c] \<Rightarrow> asm_fcvt_q_l a b c s | _ \<Rightarrow> None),
    (rv_op_fcvt_q_lu, [A_rd, A_rs1, A_rm], \<lambda>xs s. case xs of [a, b, c] \<Rightarrow> asm_fcvt_q_lu a b c s | _ \<Rightarrow> None),
    (rv_op_fmv_x_q, [A_rd, A_rs1], \<lambda>xs s. case xs of [a, b] \<Rightarrow> asm_fmv_x_q a b s | _ \<Rightarrow> None),
    (rv_op_fmv_q_x, [A_rd, A_rs1], \<lambda>xs s. case xs of [a, b] \<Rightarrow> asm_fmv_q_x a b s | _ \<Rightarrow> None)]"

lemma assemblers_table:
  "list_all (\<lambda>(op, args, g). \<forall>xs. length xs = length args \<longrightarrow> (\<forall>a.
     g xs a = (if list_all2 arg_valid args xs then asm_inst (build op args xs) a else Some (False, a)))) assemblers"
  unfolding assemblers_def list.pred_inject prod.case
  by (intro conjI TrueI; auto simp: asm_defs build_def offset_valid_def simm_valid_def)

lemma same_tables: "map (\<lambda>(op, args, _). (op, args)) assemblers = map (\<lambda>(op, args, _). (op, args)) emitters"
  by (simp add: assemblers_def emitters_def)

lemma assembler_emitter:
  assumes "(op, args, g) \<in> set assemblers"
  obtains f where "(op, args, f) \<in> set emitters"
    and "\<And>xs a. length xs = length args \<Longrightarrow>
      g xs a = (if list_all2 arg_valid args xs then map_option (\<lambda>w. (True, add_inst w a)) (f xs) else Some (False, a))"
proof -
  have "(op, args) \<in> set (map (\<lambda>(op, args, _). (op, args)) emitters)"
    unfolding same_tables [symmetric] using assms by force
  then obtain f where f: "(op, args, f) \<in> set emitters" by auto
  show ?thesis
  proof (rule that [OF f])
    fix xs :: "u64 list" and a
    assume len: "length xs = length args"
    have "\<forall>xs. length xs = length args \<longrightarrow> (\<forall>a.
       g xs a = (if list_all2 arg_valid args xs then asm_inst (build op args xs) a else Some (False, a)))"
      using assemblers_table assms unfolding list_all_iff by blast
    then show "g xs a = (if list_all2 arg_valid args xs then map_option (\<lambda>w. (True, add_inst w a)) (f xs) else Some (False, a))"
      using len emitter_value [OF f len] by (simp add: asm_inst_def)
  qed
qed

section \<open>Code in a buffer\<close>

lemma le_bytes_4: "le_bytes 4 w = [ucast w, ucast (drop_bit 8 w), ucast (drop_bit 16 w), ucast (drop_bit 24 w)]"
  by (simp add: numeral_eq_Suc)

lemma read_le32_bytes:
  assumes "mem a = ucast w" and "mem (a + 1) = ucast (drop_bit 8 w)" and "mem (a + 2) = ucast (drop_bit 16 w)"
    and "mem (a + 3) = ucast (drop_bit 24 w)"
  shows "read_le32 mem a = w AND 0xffffffff"
proof -
  have eq: "a + 2 + 1 = a + 3" by simp
  have "read_le32 mem a = (ucast (ucast w :: u8) OR push_bit 8 (ucast (ucast (drop_bit 8 w) :: u8))) OR
      push_bit 16 (ucast (ucast (drop_bit 16 w) :: u8) OR push_bit 8 (ucast (ucast (drop_bit 24 w) :: u8)))"
    by (simp only: read_le32_def read_le16_def eq assms)
  also have "\<dots> = (w AND mask 32 :: u64)"
  proof (rule bit_word_eqI)
    fix n :: nat
    consider "n < 8" | "8 \<le> n" "n < 16" | "16 \<le> n" "n < 24" | "24 \<le> n" "n < 32" | "32 \<le> n" by linarith
    then show "bit (((ucast (ucast w :: u8) :: u64) OR push_bit 8 (ucast (ucast (drop_bit 8 w) :: u8))) OR
        push_bit 16 (ucast (ucast (drop_bit 16 w) :: u8) OR push_bit 8 (ucast (ucast (drop_bit 24 w) :: u8)))) n =
      bit (w AND mask 32 :: u64) n" if "n < LENGTH(64)"
      using that by cases (auto simp: bit_simps)
  qed
  finally show ?thesis by (simp add: mask_eq_exp_minus_1)
qed

definition word_at :: "u8 list \<Rightarrow> nat \<Rightarrow> u64 \<Rightarrow> bool" where
  "word_at buf off w \<longleftrightarrow> off + 4 \<le> length buf \<and> take 4 (drop off buf) = le_bytes 4 w"

lemma word_at_fetch:
  assumes "word_at buf off w" and "inst_length w = 4" and "w AND 0xffffffff = w" and "length buf < 2 ^ 64"
  shows "buf_fetch buf (of_nat off) = Some (w, 4)"
proof -
  have len: "off + 4 \<le> length buf" using assms(1) by (simp add: word_at_def)
  have b: "buf ! (off + i) = le_bytes 4 w ! i" if "i < 4" for i
  proof -
    have "le_bytes 4 w ! i = take 4 (drop off buf) ! i" using assms(1) by (simp add: word_at_def)
    then show ?thesis using that len by simp
  qed
  have ix: "unat (of_nat off + of_nat i :: u64) = off + i" if "i < 4" for i
  proof -
    have "unat (of_nat (off + i) :: u64) = off + i" using that len assms(4) by (simp only: unat_of_nat) (simp add: take_bit_nat_eq_self)
    then show ?thesis by simp
  qed
  have m: "buf_memory buf (of_nat off + of_nat i) = le_bytes 4 w ! i" if "i < 4" for i
    using ix [OF that] b [OF that] that len by (simp add: buf_memory_def)
  have "read_le32 (buf_memory buf) (of_nat off) = w AND 0xffffffff"
    by (rule read_le32_bytes) (use m [of 0] m [of 1] m [of 2] m [of 3] in \<open>simp_all add: le_bytes_4\<close>)
  moreover have "w AND 0b11 = 0b11" "w AND 0b11100 \<noteq> 0b11100"
    using assms(2) by (auto simp: inst_length_def split: if_splits)
  ultimately have "inst_fetch (buf_memory buf) (of_nat off) = (w, 4)"
    using assms(3) by (simp add: inst_fetch_def Let_def)
  moreover have "unat (of_nat off :: u64) = off" using ix [of 0] by simp
  ultimately show ?thesis using len by (simp add: buf_fetch_def)
qed

lemma word_at_append: "word_at (buf @ le_bytes 4 w) (length buf) w"
  by (simp add: word_at_def le_bytes_4)

lemma put_bytes_word:
  assumes "off + 4 \<le> length buf"
  obtains buf' where "put_bytes off (le_bytes 4 w) buf = Some buf'" and "word_at buf' off w" and "length buf' = length buf"
    and "\<And>off' w'. word_at buf off' w' \<Longrightarrow> off' + 4 \<le> off \<or> off + 4 \<le> off' \<Longrightarrow> word_at buf' off' w'"
proof
  let ?b = "take off buf @ le_bytes 4 w @ drop (off + 4) buf"
  have l: "length (le_bytes 4 w) = 4" by (simp add: le_bytes_4)
  show "put_bytes off (le_bytes 4 w) buf = Some ?b" using assms by (simp add: put_bytes_def l)
  show "length ?b = length buf" using assms by (simp add: l)
  show "word_at ?b off w" using assms by (simp add: word_at_def l)
  show "word_at ?b off' w'" if "word_at buf off' w'" "off' + 4 \<le> off \<or> off + 4 \<le> off'" for off' w'
    using that(2)
  proof
    assume "off' + 4 \<le> off"
    then show ?thesis using that(1) assms by (auto simp: word_at_def l min_def take_drop)
  next
    assume o: "off + 4 \<le> off'"
    then have "drop off' ?b = drop off' buf" using assms by (simp add: l add.commute)
    then show ?thesis using that(1) assms by (simp add: word_at_def l)
  qed
qed

section \<open>Parts of an offset\<close>

lemma offset_parts:
  assumes "- (2 ^ 31) \<le> sint off" and "sint off < 2 ^ 31 - 2048"
  shows "scast (upper_part off) + scast (lower_part off) = off"
    and "simm_range 32 12 (upper_part off)" and "simm_range 12 0 (lower_part off)"
    and "scast (upper_part off) = off + 0x800 - take_bit 12 (off + 0x800)"
    and "scast (lower_part off) = take_bit 12 (off + 0x800) - 0x800"
proof -
  let ?x = "off + 0x800" and ?u = "push_bit 12 (drop_bit 12 (off + 0x800))"
  have "sint ?x = signed_take_bit 63 (sint off + 0x800)" by (simp add: sint_word_add)
  also have "\<dots> = sint off + 0x800" using assms by (intro signed_take_bit_int_eq_self) simp_all
  finally have "signed_take_bit 31 ?x = ?x" using assms by (intro signed_take_bit_word_eq) simp_all
  then have top: "bit ?x i \<longleftrightarrow> bit ?x 31" if "31 \<le> i" "i < 64" for i
    using that bit_signed_take_bit_iff [of 31 ?x i] by (auto simp: min_def)
  have "signed_take_bit 31 ?u = ?u"
  proof (rule bit_word_eqI)
    fix n :: nat
    assume "n < LENGTH(64)"
    then show "bit (signed_take_bit 31 ?u) n = bit ?u n"
      using top [of n] by (cases "n < 31") (simp_all add: bit_simps min_def)
  qed
  then have u: "simm_valid 32 ?u" using signed_take_bit_range [of 31 ?u] by (simp add: simm_valid_def)
  have "take_bit 12 (sint ?u) = 0" by (rule bit_eqI) (auto simp: bit_simps)
  then have dvd: "2 ^ 12 dvd sint ?u" by (simp add: take_bit_eq_0_iff)
  note U = simm_imm [OF u _ dvd, simplified]
  show "simm_range 32 12 (upper_part off)" unfolding upper_part_def using U(1) by simp
  have up: "scast (upper_part off) = ?u" unfolding upper_part_def using U(2) by simp
  let ?t = "take_bit 12 ?x"
  have "?u + ?t = ?x" by (rule bits_ident)
  then have ut: "?u = ?x - ?t" by (rule eq_diff_eq [THEN iffD2])
  then show "scast (upper_part off) = ?x - ?t" using up by simp
  have low: "off - ?u = ?t - 0x800" unfolding ut by simp
  have "unat ?t < 2 ^ 12" by (simp only: unsigned_take_bit_eq take_bit_nat_less_exp)
  then have "uint ?t < 4096" by (simp add: uint_nat del: of_nat_unat)
  moreover have "sint ?t = uint ?t"
  proof -
    have "\<not> bit ?t 63" by (simp add: bit_simps)
    then show ?thesis by (simp add: sint_uint signed_take_bit_def bit_simps) (simp add: unsigned_take_bit_eq)
  qed
  ultimately have t: "0 \<le> sint ?t" "sint ?t < 4096" by simp_all
  have "sint (?t - 0x800) = signed_take_bit 63 (sint ?t - 0x800)" by (simp add: sint_word_diff)
  also have "\<dots> = sint ?t - 0x800" using t by (intro signed_take_bit_int_eq_self) simp_all
  finally have l: "simm_valid 12 (?t - 0x800)" using t by (simp add: simm_valid_def)
  note L = simm_imm [OF l, where k = 0, simplified]
  have eq: "lower_part off = ucast (?t - 0x800)" unfolding lower_part_def up low ..
  show "simm_range 12 0 (lower_part off)" unfolding eq using L(1) by simp
  show lo: "scast (lower_part off) = ?t - 0x800" unfolding eq using L(2) by simp
  show "scast (upper_part off) + scast (lower_part off) = off" unfolding up lo ut by simp
qed

section \<open>Relocated instructions\<close>

text \<open>Encoding looks at the operands of the format only, so a relocated instruction is an emitted one.\<close>

lemma reg_ok_uimm: "reg_ok r \<Longrightarrow> uimm_valid 5 (ucast r)"
  using ucast_reg(1) [OF refl, of r] by (simp add: uimm_valid_unat reg_ok_def word_less_nat_alt)

lemma emit_inst_auipc:
  assumes "dec_op d = rv_op_auipc" and "reg_ok (dec_rd d)" and "simm_range 32 12 (dec_imm d)"
  shows "emit_inst d = emit_auipc (ucast (dec_rd d)) (scast (dec_imm d))"
proof -
  have "uimm_valid 5 (ucast (dec_rd d))" "offset_valid 32 (scast (dec_imm d))"
    using reg_ok_uimm [OF assms(2)] assms(3) by (simp_all add: simm_range_def offset_valid_def)
  then show ?thesis
    using assms(1) by (simp add: emit_auipc_def emit_inst_def encode_inst_def rv_inst_codec_def encode_inst_type_def
        encode_format_defs assert_then_def Let_def)
qed

lemma emit_inst_jalr:
  assumes "dec_op d = rv_op_jalr" and "reg_ok (dec_rd d)" and "reg_ok (dec_rs1 d)" and "simm_range 12 0 (dec_imm d)"
  shows "emit_inst d = emit_jalr (ucast (dec_rd d)) (ucast (dec_rs1 d)) (scast (dec_imm d))"
proof -
  have "uimm_valid 5 (ucast (dec_rd d))" "uimm_valid 5 (ucast (dec_rs1 d))" "simm_valid 12 (scast (dec_imm d))"
    using reg_ok_uimm assms(2-4) by (simp_all add: simm_range_def simm_valid_def)
  then show ?thesis
    using assms(1) by (simp add: emit_jalr_def emit_inst_def encode_inst_def rv_inst_codec_def encode_inst_type_def
        encode_format_defs assert_then_def Let_def)
qed

lemma call_emitters:
  "(rv_op_auipc, [A_rd, A_simm 32 12], \<lambda>xs. case xs of [a, b] \<Rightarrow> emit_auipc a b | _ \<Rightarrow> None) \<in> set emitters"
  "(rv_op_jalr, [A_rd, A_rs1, A_simm 12 0], \<lambda>xs. case xs of [a, b, c] \<Rightarrow> emit_jalr a b c | _ \<Rightarrow> None) \<in> set emitters"
  by (simp_all add: emitters_def)

lemma call_enabled: "op_enabled rv64 rv_op_auipc" "op_enabled rv64 rv_op_jalr"
  by (simp_all add: op_enabled_def isa_all_def)

lemma call_plain: "rv_inst_decomp_rv64 ! rv_op_auipc = rv_op_illegal" "rv_inst_decomp_rv64 ! rv_op_jalr = rv_op_illegal"
  by (simp_all add: rv_inst_decomp_rv64_def)

lemma emit_auipc_decodes:
  assumes "uimm_valid 5 rd" and "simm_valid 32 imm" and "2 ^ 12 dvd sint imm"
  obtains w where "emit_auipc rd imm = Some w" and "inst_length w = 4" and "w AND 0xffffffff = w"
    and "dec_op (decoded w) = rv_op_auipc" and "ucast (dec_rd (decoded w)) = rd" and "scast (dec_imm (decoded w)) = imm"
  using emitter_decodes_rv64 [OF call_emitters(1) call_enabled(1) call_plain(1), of "[rd, imm]"] assms
  by (auto simp: list_all2_Cons1)

lemma emit_jalr_decodes:
  assumes "uimm_valid 5 rd" and "uimm_valid 5 rs1" and "simm_valid 12 imm"
  obtains w where "emit_jalr rd rs1 imm = Some w" and "inst_length w = 4" and "w AND 0xffffffff = w"
    and "dec_op (decoded w) = rv_op_jalr" and "ucast (dec_rd (decoded w)) = rd" and "ucast (dec_rs1 (decoded w)) = rs1"
    and "scast (dec_imm (decoded w)) = imm"
  using emitter_decodes_rv64 [OF call_emitters(2) call_enabled(2) call_plain(2), of "[rd, rs1, imm]"] assms
  by (auto simp: list_all2_Cons1)

lemma reg_from_uimm: "uimm_valid 5 rd \<Longrightarrow> ucast (r :: u8) = (rd :: u64) \<Longrightarrow> reg_ok r"
  using uimm_reg [of rd] by auto

lemma simm_from_range: "simm_range W k imm \<Longrightarrow> simm_valid W (scast imm)" "simm_range W k imm \<Longrightarrow> 2 ^ k dvd sint (scast imm :: u64)"
  by (simp_all add: simm_range_def simm_valid_def)

lemma scast_inj_32: "scast (x :: s32) = (scast y :: u64) \<Longrightarrow> x = y"
  by (metis ucast_scast_32)

text \<open>The call sequence \<^verbatim>\<open>auipc rd, 0; jalr rd2, rd, 0\<close> after the relocation \<^verbatim>\<open>R_RISCV_CALL\<close>.\<close>

lemma apply_call:
  assumes regs: "uimm_valid 5 rd" "uimm_valid 5 rd2" and w: "emit_auipc rd 0 = Some w1" "emit_jalr rd2 rd 0 = Some w2"
    and buf: "word_at buf off w1" "word_at buf (off + 4) w2" "length buf < 2 ^ 64"
    and imms: "simm_range 32 12 upper" "simm_range 12 0 lower"
  obtains buf' w1' w2' where "apply_reloc (Call upper lower) lo (of_nat off) buf = Some buf'"
    and "length buf' = length buf" and "word_at buf' off w1'" and "word_at buf' (off + 4) w2'"
    and "emit_auipc rd (scast upper) = Some w1'" and "emit_jalr rd2 rd (scast lower) = Some w2'"
proof -
  have z: "simm_valid 32 0" "simm_valid 12 0" by (simp_all add: simm_valid_def)
  obtain v1 where v1: "emit_auipc rd 0 = Some v1" "inst_length v1 = 4" "v1 AND 0xffffffff = v1"
    "dec_op (decoded v1) = rv_op_auipc" "ucast (dec_rd (decoded v1)) = rd"
    by (rule emit_auipc_decodes [OF regs(1) z(1)]) simp
  obtain v2 where v2: "emit_jalr rd2 rd 0 = Some v2" "inst_length v2 = 4" "v2 AND 0xffffffff = v2"
    "dec_op (decoded v2) = rv_op_jalr" "ucast (dec_rd (decoded v2)) = rd2" "ucast (dec_rs1 (decoded v2)) = rd"
    by (rule emit_jalr_decodes [OF regs(2,1) z(2)])
  have eq: "w1 = v1" "w2 = v2" using w v1(1) v2(1) by simp_all
  obtain u1 where u1: "emit_auipc rd (scast upper) = Some u1" "inst_length u1 = 4" "u1 AND 0xffffffff = u1"
    by (rule emit_auipc_decodes [OF regs(1) simm_from_range [OF imms(1)]])
  obtain u2 where u2: "emit_jalr rd2 rd (scast lower) = Some u2" "inst_length u2 = 4" "u2 AND 0xffffffff = u2"
    by (rule emit_jalr_decodes [OF regs(2,1) simm_from_range(1) [OF imms(2)]])
  have e1: "emit_inst ((decoded w1)\<lparr>dec_imm := upper\<rparr>) = Some u1"
    using emit_inst_auipc [of "(decoded w1)\<lparr>dec_imm := upper\<rparr>"] v1(4,5) u1(1) imms(1) reg_from_uimm [OF regs(1) v1(5)]
    by (simp add: eq)
  have e2: "emit_inst ((decoded w2)\<lparr>dec_imm := lower\<rparr>) = Some u2"
    using emit_inst_jalr [of "(decoded w2)\<lparr>dec_imm := lower\<rparr>"] v2(4-6) u2(1) imms(2)
      reg_from_uimm [OF regs(2) v2(5)] reg_from_uimm [OF regs(1) v2(6)] by (simp add: eq)
  have f1: "buf_fetch buf (of_nat off) = Some (w1, 4)" using word_at_fetch [OF buf(1) _ _ buf(3)] v1(2,3) by (simp add: eq)
  have f2: "buf_fetch buf (of_nat off + 4) = Some (w2, 4)"
    using word_at_fetch [OF buf(2) _ _ buf(3)] v2(2,3) by (simp add: eq)
  have len: "off + 4 + 4 \<le> length buf" using buf(2) by (simp add: word_at_def)
  then have ix: "unat (of_nat off :: u64) = off" "unat (of_nat off + 4 :: u64) = off + 4"
    using buf(3) unat_of_nat [of "off + 4", where 'a = 64] by (simp_all add: unat_of_nat take_bit_nat_eq_self)
  obtain b1 where b1: "put_bytes (off + 4) (le_bytes 4 u2) buf = Some b1" "word_at b1 (off + 4) u2" "length b1 = length buf"
    by (rule put_bytes_word [OF len])
  have len1: "off + 4 \<le> length b1" using len b1(3) by simp
  obtain b2 where b2: "put_bytes off (le_bytes 4 u1) b1 = Some b2" "word_at b2 off u1" "length b2 = length b1"
    "word_at b2 (off + 4) u2"
    using put_bytes_word [OF len1, of u1] b1(2) by (metis order_refl)
  have "apply_reloc (Call upper lower) lo (of_nat off) buf = Some b2"
    using f1 f2 e1 e2 b1(1) b2(1) u1(2) u2(2) ix by (simp add: apply_reloc_def reencode_inst_def)
  then show ?thesis using that b1(3) b2 u1(1) u2(1) by simp
qed

lemma even_and_not_one: "even x \<Longrightarrow> x AND NOT 1 = x" for x :: u64
  by (intro bit_word_eqI) (auto simp: bit_simps even_iff_mod_2_eq_zero [symmetric] bit_0)

lemma run_call:
  fixes p :: "(64, 'm, 'z) processor_scheme"
  assumes regs: "uimm_valid 5 rd" "rd \<noteq> 0" "uimm_valid 5 rd2" and w: "emit_auipc rd upper = Some w1" "emit_jalr rd2 rd lower = Some w2"
    and imms: "simm_valid 32 upper" "2 ^ 12 dvd sint upper" "simm_valid 12 lower"
    and "rvi cfg" and "regs_ok p" and "even (upper + lower)"
  shows "\<exists>q. run_words cfg ops hf [w1, w2] p = Ret () q \<and> pc q = pc p + (upper + lower) \<and>
    get_reg q (ucast rd2) = (if rd2 = 0 then 0 else pc p + 8)"
proof -
  obtain v1 where v1: "emit_auipc rd upper = Some v1" "dec_op (decoded v1) = rv_op_auipc" "ucast (dec_rd (decoded v1)) = rd"
    "scast (dec_imm (decoded v1)) = upper"
    by (rule emit_auipc_decodes [OF regs(1) imms(1,2)])
  obtain v2 where v2: "emit_jalr rd2 rd lower = Some v2" "dec_op (decoded v2) = rv_op_jalr" "ucast (dec_rd (decoded v2)) = rd2"
    "ucast (dec_rs1 (decoded v2)) = rd" "scast (dec_imm (decoded v2)) = lower"
    by (rule emit_jalr_decodes [OF regs(3,1) imms(3)])
  have eq: "w1 = v1" "w2 = v2" using w v1(1) v2(1) by simp_all
  have r: "unat rd < 32" "unat rd2 < 32" "unat rd \<noteq> 0" using regs by (simp_all add: uimm_valid_unat unat_eq_zero)
  have rd2: "unat (dec_rd (decoded w2)) = unat rd2" "dec_rd (decoded w2) = 0 \<longleftrightarrow> rd2 = 0" "unat (ucast rd2 :: u8) = unat rd2"
    using ucast_reg [OF v2(3)] ucast_reg(1) [OF uimm_small(4) [OF regs(3)]] by (simp_all add: eq)
  let ?q = "p\<lparr>ireg := (ireg p)[unat rd := pc p + upper], pc := pc p + 4\<rparr>"
  have x1: "exec_inst_rv64 cfg ops hf (decoded w1) 4 p = Ret 4 (p\<lparr>ireg := (ireg p)[unat rd := pc p + upper]\<rparr>)"
    using v1(2,4) assms(2,9) ucast_reg [OF v1(3)] by (simp add: exec_inst_rv64_def exec_ctrl_def when_ext_def set_rd_def eq)
  have ev: "(upper + lower - 4) AND NOT 1 = upper + lower - 4" using assms(11) by (intro even_and_not_one) simp
  have "exec_inst_rv64 cfg ops hf (decoded w2) 4 ?q =
      Ret (upper + lower - 4) (set_rd (decoded w2) (pc p + 8) ?q)"
    using v2(2,5) assms(9,10) ucast_reg [OF v2(4)] r ev
    by (simp add: exec_inst_rv64_def exec_ctrl_def when_ext_def get_reg_def regs_ok_def Let_def eq algebra_simps)
  then have "run_words cfg ops hf [w1, w2] p = Ret () ((set_rd (decoded w2) (pc p + 8) ?q)\<lparr>pc := pc p + (upper + lower)\<rparr>)"
    using x1 by (simp add: set_rd_def algebra_simps)
  moreover have "get_reg ((set_rd (decoded w2) (pc p + 8) ?q)\<lparr>pc := pc p + (upper + lower)\<rparr>) (ucast rd2) = (if rd2 = 0 then 0 else pc p + 8)"
    using r assms(10) rd2 by (simp add: set_rd_def get_reg_def regs_ok_def nth_list_update)
  ultimately show ?thesis by auto
qed

end
