(* ===== verification/Rv_Label_Laws.thy ===== *)
theory Rv_Label_Laws
  imports Rv_Assembler
begin

text \<open>
  The label tables of the assembler: the invariant that ties the two maps to the labels made, that
  every operation on labels keeps it, that names made from numbers are distinct, so that the search for
  a free one ends, and what the search for a local label finds.
\<close>

section \<open>Numerals\<close>

lemma digit_char_inject: "m < 10 \<Longrightarrow> n < 10 \<Longrightarrow> digit_char m = digit_char n \<longleftrightarrow> m = n"
  by (auto simp: digit_char_def char_of_eq_iff take_bit_nat_eq_self)

lemma nat_string_not_Nil: "nat_string n \<noteq> []"
  by (subst nat_string.simps) simp

lemma nat_string_inject: "nat_string m = nat_string n \<longleftrightarrow> m = n"
proof (induction m arbitrary: n rule: nat_string.induct)
  case (1 m)
  show ?case
  proof (cases "m < 10 \<or> n < 10")
    case True
    then show ?thesis
      by (subst nat_string.simps [of m], subst nat_string.simps [of n])
        (auto simp: digit_char_inject nat_string_not_Nil dest: sym)
  next
    case False
    then have "nat_string m = nat_string n \<longleftrightarrow> m div 10 = n div 10 \<and> m mod 10 = n mod 10"
      using 1 by (subst nat_string.simps [of m], subst nat_string.simps [of n]) (simp add: digit_char_inject)
    also have "\<dots> \<longleftrightarrow> m = n" by (metis div_mult_mod_eq)
    finally show ?thesis .
  qed
qed

lemma num_label_inject: "num_label num i = num_label num j \<longleftrightarrow> i = j"
  by (simp add: num_label_def to_string_def nat_string_inject)

section \<open>Ordered maps\<close>

lemma map_put_keys: "fst ` set (map_put k v es) = insert k (fst ` set es)"
  by (induction es) auto

lemma map_put_sorted: "sorted_wrt (<) (map fst es) \<Longrightarrow> sorted_wrt (<) (map fst (map_put k v es))"
proof (induction es)
  case (Cons e es)
  moreover have "fst e < x" if "x \<in> set (map fst (map_put k v es))" "fst e < k" for x
  proof -
    have "x \<in> insert k (fst ` set es)" using that(1) map_put_keys [of k v es] by auto
    then show ?thesis using that(2) Cons.prems by auto
  qed
  ultimately show ?case by force
qed simp

lemma map_put_lookup:
  "sorted_wrt (<) (map fst es) \<Longrightarrow> map_of (map_put k v es) = (map_of es)(k \<mapsto> v)"
proof (induction es)
  case (Cons e es)
  then show ?case by (cases e) (auto simp: fun_eq_iff)
qed (auto simp: fun_eq_iff)

lemma map_put_set: "set (map_put k v es) \<subseteq> insert (k, v) (set es)"
  by (induction es) auto

section \<open>The invariant of the label tables\<close>

text \<open>
  Every name leads to a label of that name; every position leads to a label at that position; positions
  are in order.
\<close>

definition labels_ok :: "assembler \<Rightarrow> bool" where
  "labels_ok a \<longleftrightarrow>
    (\<forall>name i. labels_byname a name = Some i \<longrightarrow> i < length (label_objs a) \<and> label_name (label_objs a ! i) = name) \<and>
    (\<forall>(pos, i) \<in> set (labels_byoffset a). i < length (label_objs a) \<and> label_pos (label_objs a ! i) = pos) \<and>
    sorted_wrt (<) (map fst (labels_byoffset a))"

lemma labels_okD:
  assumes "labels_ok a"
  shows "labels_byname a name = Some i \<Longrightarrow> i < length (label_objs a)"
    and "labels_byname a name = Some i \<Longrightarrow> label_name (label_objs a ! i) = name"
    and "(pos, i) \<in> set (labels_byoffset a) \<Longrightarrow> i < length (label_objs a)"
    and "(pos, i) \<in> set (labels_byoffset a) \<Longrightarrow> label_pos (label_objs a ! i) = pos"
    and "sorted_wrt (<) (map fst (labels_byoffset a))"
  using assms unfolding labels_ok_def by blast+

lemma labels_ok_init: "labels_ok assembler_init"
  by (simp add: labels_ok_def assembler_init_def get_section_def)

lemma labels_ok_cong:
  "labels_byname b = labels_byname a \<Longrightarrow> labels_byoffset b = labels_byoffset a \<Longrightarrow> label_objs b = label_objs a \<Longrightarrow>
    labels_ok b \<longleftrightarrow> labels_ok a"
  by (simp add: labels_ok_def)

lemma labels_okI:
  assumes "\<And>name i. labels_byname a name = Some i \<Longrightarrow> i < length (label_objs a) \<and> label_name (label_objs a ! i) = name"
    and "\<And>pos i. (pos, i) \<in> set (labels_byoffset a) \<Longrightarrow> i < length (label_objs a) \<and> label_pos (label_objs a ! i) = pos"
    and "sorted_wrt (<) (map fst (labels_byoffset a))"
  shows "labels_ok a"
  using assms unfolding labels_ok_def by auto

lemma labels_ok_enter:
  assumes "labels_ok a"
  shows "labels_ok (enter_label l a)"
proof (rule labels_okI)
  let ?n = "length (label_objs a)"
  have objs: "label_objs (enter_label l a) = label_objs a @ [l]" by (simp add: enter_label_def Let_def)
  fix name i
  assume "labels_byname (enter_label l a) name = Some i"
  then have "name = label_name l \<and> i = ?n \<or> labels_byname a name = Some i"
    by (auto simp: enter_label_def Let_def split: if_splits)
  then show "i < length (label_objs (enter_label l a)) \<and> label_name (label_objs (enter_label l a) ! i) = name"
    using labels_okD(1,2) [OF assms] by (fastforce simp: objs nth_append less_SucI)
next
  have objs: "label_objs (enter_label l a) = label_objs a @ [l]" by (simp add: enter_label_def Let_def)
  fix pos i
  assume "(pos, i) \<in> set (labels_byoffset (enter_label l a))"
  then have "pos = label_pos l \<and> i = length (label_objs a) \<or> (pos, i) \<in> set (labels_byoffset a)"
    using map_put_set by (fastforce simp: enter_label_def Let_def)
  then show "i < length (label_objs (enter_label l a)) \<and> label_pos (label_objs (enter_label l a) ! i) = pos"
    using labels_okD(3,4) [OF assms] by (fastforce simp: objs nth_append less_SucI)
next
  show "sorted_wrt (<) (map fst (labels_byoffset (enter_label l a)))"
    using map_put_sorted [OF labels_okD(5) [OF assms]] by (simp add: enter_label_def Let_def)
qed

lemma renumbered [simp]:
  "label_name (objs[i := (objs ! i)\<lparr>label_num := num\<rparr>] ! j) = label_name (objs ! j)"
  "label_pos (objs[i := (objs ! i)\<lparr>label_num := num\<rparr>] ! j) = label_pos (objs ! j)"
  by (cases "i = j"; cases "i < length objs"; simp add: list_update_beyond)
    (cases "i = j"; cases "i < length objs"; simp add: list_update_beyond)

lemma labels_ok_num:
  assumes "labels_ok a"
  shows "labels_ok (a\<lparr>label_objs := (label_objs a)[i := (label_objs a ! i)\<lparr>label_num := num\<rparr>]\<rparr>)"
  using labels_okD [OF assms] by (intro labels_okI) auto

lemma labels_ok_add: "labels_ok a \<Longrightarrow> labels_ok (snd (add_label_at name pos a))"
  by (simp add: add_label_at_def labels_ok_enter)

section \<open>The search for a free name\<close>

lemma free_name_Some:
  assumes "i \<le> j" and "j < i + k" and "labels_byname a (num_label num j) = None"
  shows "\<exists>n. i \<le> n \<and> n \<le> j \<and> free_name k num i a = Some (num_label num n) \<and> labels_byname a (num_label num n) = None"
  using assms
proof (induction k arbitrary: i)
  case (Suc k)
  show ?case
  proof (cases "labels_byname a (num_label num i) = None")
    case False
    then have "i \<noteq> j" using Suc.prems(3) by auto
    then have "\<exists>n. Suc i \<le> n \<and> n \<le> j \<and> free_name k num (Suc i) a = Some (num_label num n) \<and>
        labels_byname a (num_label num n) = None"
      using Suc.IH [of "Suc i"] Suc.prems by simp
    then show ?thesis using False by (auto intro: Suc_leD)
  qed (use Suc.prems(1) in auto)
qed simp

lemma free_name_returns:
  assumes "labels_ok a"
  obtains n where "free_name (Suc (length (label_objs a))) num 1 a = Some (num_label num n)"
    and "labels_byname a (num_label num n) = None"
proof -
  let ?N = "Suc (length (label_objs a))"
  have "\<exists>j \<in> {1 ..< 1 + ?N}. labels_byname a (num_label num j) = None"
  proof (rule ccontr)
    assume taken: "\<not> ?thesis"
    have "num_label num ` {1 ..< 1 + ?N} \<subseteq> set (map label_name (label_objs a))"
    proof
      fix s
      assume "s \<in> num_label num ` {1 ..< 1 + ?N}"
      then obtain i where "labels_byname a s = Some i" using taken by force
      then show "s \<in> set (map label_name (label_objs a))" using labels_okD(1,2) [OF assms] by force
    qed
    then have "card (num_label num ` {1 ..< 1 + ?N}) \<le> card (set (map label_name (label_objs a)))"
      by (intro card_mono) simp_all
    also have "\<dots> \<le> length (label_objs a)" using card_length [of "map label_name (label_objs a)"] by simp
    finally show False by (simp add: card_image inj_on_def num_label_inject)
  qed
  then obtain j where "1 \<le> j" "j < 1 + ?N" "labels_byname a (num_label num j) = None" by auto
  then show ?thesis using free_name_Some [of 1 j ?N a num] that by blast
qed

lemma labels_ok_append [simp]: "labels_ok (append_32 w a) \<longleftrightarrow> labels_ok a"
  by (rule labels_ok_cong) (simp_all add: append_32_def push_back_def)

lemma add_label_num_new:
  assumes "labels_ok a"
  shows "\<exists>name a'. add_label_num num a = Some (Some (length (label_objs a)), a') \<and> labels_byname a name = None \<and>
    lookup_label_name name a' = Some (length (label_objs a)) \<and>
    label_objs a' = label_objs a @ [\<lparr>label_name = name, label_pos = current_offset a, label_num = num\<rparr>] \<and> labels_ok a'"
proof -
  obtain n where n: "free_name (Suc (length (label_objs a))) num 1 a = Some (num_label num n)"
    "labels_byname a (num_label num n) = None"
    by (rule free_name_returns [OF assms])
  let ?l = "\<lparr>label_name = num_label num n, label_pos = current_offset a, label_num = 0\<rparr>"
  let ?b = "enter_label ?l a" and ?i = "length (label_objs a)"
  define a' where "a' = ?b\<lparr>label_objs := (label_objs ?b)[?i := (label_objs ?b ! ?i)\<lparr>label_num := num\<rparr>]\<rparr>"
  have "add_label_num num a = Some (Some ?i, a')"
    using n by (simp add: add_label_num_def add_label_def add_label_at_def a'_def)
  moreover have "lookup_label_name (num_label num n) a' = Some ?i"
    by (simp add: a'_def lookup_label_name_def enter_label_def Let_def)
  moreover have "label_objs a' = label_objs a @ [\<lparr>label_name = num_label num n, label_pos = current_offset a, label_num = num\<rparr>]"
    by (simp add: a'_def enter_label_def Let_def)
  moreover have "labels_ok a'" unfolding a'_def by (intro labels_ok_num labels_ok_enter assms)
  ultimately show ?thesis using n(2) by blast
qed

lemma add_label_num_ok: "labels_ok a \<Longrightarrow> \<exists>l a'. add_label_num num a = Some (l, a') \<and> labels_ok a'"
  using add_label_num_new by blast

section \<open>Local labels\<close>

lemma find_forward_found:
  "find_forward pos num objs True es = map_option snd (List.find (\<lambda>e. label_num (objs ! snd e) = num) es)"
  by (induction es) simp_all

lemma find_forward_eq:
  "sorted_wrt (<) (map fst es) \<Longrightarrow> find_forward pos num objs False es =
     map_option snd (List.find (\<lambda>e. pos < fst e \<and> label_num (objs ! snd e) = num) es)"
proof (induction es)
  case (Cons e es)
  have "pos < fst e' " if "e' \<in> set es" "pos < fst e" for e' using that Cons.prems by (auto intro: less_trans)
  then have "List.find (\<lambda>e. pos < fst e \<and> label_num (objs ! snd e) = num) es =
      List.find (\<lambda>e. label_num (objs ! snd e) = num) es" if "pos < fst e"
    using that by (intro find_cong) auto
  then show ?case using Cons by (cases "pos < fst e") (auto simp: find_forward_found)
qed simp

lemma find_backward_eq:
  "sorted_wrt (<) (map fst es) \<Longrightarrow> find_backward pos num objs found es =
     (let m = filter (\<lambda>e. fst e \<le> pos \<and> label_num (objs ! snd e) = num) es
      in if m = [] then found else Some (snd (last m)))"
proof (induction es arbitrary: found)
  case (Cons e es)
  show ?case
  proof (cases "pos < fst e")
    case True
    then have "filter (\<lambda>e. fst e \<le> pos \<and> label_num (objs ! snd e) = num) (e # es) = []"
      using Cons.prems by (auto simp: filter_empty_conv dest: less_le_trans order_trans)
    then show ?thesis using True by simp
  qed (use Cons in \<open>simp add: Let_def\<close>)
qed simp

text \<open>The first and the last entry of a sorted list that has a property.\<close>

lemma find_least:
  fixes es :: "('k::linorder \<times> 'v) list"
  assumes "sorted_wrt (<) (map fst es)" and "List.find P es = Some e"
  shows "e \<in> set es" and "P e" and "e' \<in> set es \<Longrightarrow> P e' \<Longrightarrow> fst e \<le> fst e'"
proof -
  obtain i where i: "i < length es" "P (es ! i)" "e = es ! i" "\<forall>j<i. \<not> P (es ! j)"
    using assms(2) by (auto simp: find_Some_iff)
  then show "e \<in> set es" "P e" by simp_all
  show "fst e \<le> fst e'" if e': "e' \<in> set es" "P e'"
  proof -
    obtain j where j: "j < length es" "e' = es ! j" using e'(1) by (auto simp: in_set_conv_nth)
    then have "i \<le> j" using i(4) e'(2) by (auto simp: not_less [symmetric])
    then show ?thesis using sorted_wrt_nth_less [OF assms(1), of i j] i j by (cases "i = j") auto
  qed
qed

lemma last_greatest:
  fixes es :: "('k::linorder \<times> 'v) list"
  assumes "sorted_wrt (<) (map fst es)" and "es \<noteq> []" and "e' \<in> set es"
  shows "fst e' \<le> fst (last es)"
proof -
  obtain j where j: "j < length es" "e' = es ! j" using assms(3) by (auto simp: in_set_conv_nth)
  have "j \<le> length es - 1" using j(1) by simp
  then show ?thesis
    using sorted_wrt_nth_less [OF assms(1), of j "length es - 1"] j assms(2)
    by (cases "j = length es - 1") (auto simp: last_conv_nth)
qed

lemma sorted_filter_keys: "sorted_wrt (<) (map fst es) \<Longrightarrow> sorted_wrt (<) (map fst (filter P es))"
  by (simp add: sorted_wrt_map sorted_wrt_filter)

end
