(* ===== verification/Rv_Memory.thy ===== *)
theory Rv_Memory
  imports Rv_Prelude
begin

text \<open>
  The memory bus of \<^verbatim>\<open>src/src/emu/mmu-memory.h\<close> for 64-bit addresses: a list of segments maps
  machine physical addresses to host addresses, and an access of 1, 2, 4 or 8 bytes is a
  little-endian access of host memory.  A \<^verbatim>\<open>buserror_t\<close> other than zero is \<open>None\<close>.  The segments
  modelled are the memory-mapped ones (\<^verbatim>\<open>mmap_memory_segment\<close>: RAM and ELF images); the
  memory-mapped devices are separate components.
\<close>

section \<open>Host memory\<close>

type_synonym host_memory = "u64 \<Rightarrow> u8"

primrec read_bytes :: "host_memory \<Rightarrow> u64 \<Rightarrow> nat \<Rightarrow> u64" where
  "read_bytes hm a 0 = 0"
| "read_bytes hm a (Suc n) = ucast (hm a) OR push_bit 8 (read_bytes hm (a + 1) n)"

primrec write_bytes :: "host_memory \<Rightarrow> u64 \<Rightarrow> nat \<Rightarrow> u64 \<Rightarrow> host_memory" where
  "write_bytes hm a 0 v = hm"
| "write_bytes hm a (Suc n) v = write_bytes (hm(a := ucast v)) (a + 1) n (drop_bit 8 v)"

section \<open>Segments\<close>

record memory_segment =
  seg_mpa :: u64     \<comment> \<open>machine physical address (guest)\<close>
  seg_uva :: u64     \<comment> \<open>user virtual address (host)\<close>
  seg_size :: u64
  seg_flags :: u32

record user_memory =
  segments :: "memory_segment list"
  hmem :: host_memory

definition add_segment :: "memory_segment \<Rightarrow> user_memory \<Rightarrow> user_memory" where
  "add_segment seg mem = mem\<lparr>segments := segments mem @ [seg]\<rparr>"

definition clear_segments :: "user_memory \<Rightarrow> user_memory" where
  "clear_segments mem = mem\<lparr>segments := []\<rparr>"

definition in_segment :: "u64 \<Rightarrow> memory_segment \<Rightarrow> bool" where
  "in_segment mpa seg \<longleftrightarrow> seg_mpa seg \<le> mpa \<and>
     (mpa < seg_mpa seg + seg_size seg \<or> seg_mpa seg + seg_size seg = 0)"

definition mpa_to_uva :: "user_memory \<Rightarrow> u64 \<Rightarrow> u64 option" where
  "mpa_to_uva mem mpa =
     map_option (\<lambda>seg. seg_uva seg + (mpa - seg_mpa seg)) (find (in_segment mpa) (segments mem))"

section \<open>Bus accesses\<close>

definition bus_size :: "nat \<Rightarrow> bool" where
  "bus_size n \<longleftrightarrow> n = 1 \<or> n = 2 \<or> n = 4 \<or> n = 8"

definition mem_load :: "nat \<Rightarrow> user_memory \<Rightarrow> u64 \<Rightarrow> u64 option" where
  "mem_load n mem mpa =
    (if bus_size n
     then (case mpa_to_uva mem mpa of None \<Rightarrow> None | Some uva \<Rightarrow> Some (read_bytes (hmem mem) uva n))
     else None)"

definition mem_store :: "nat \<Rightarrow> user_memory \<Rightarrow> u64 \<Rightarrow> u64 \<Rightarrow> user_memory option" where
  "mem_store n mem mpa val =
    (if bus_size n
     then (case mpa_to_uva mem mpa of
             None \<Rightarrow> None
           | Some uva \<Rightarrow> Some (mem\<lparr>hmem := write_bytes (hmem mem) uva n val\<rparr>))
     else None)"

section \<open>Bytes\<close>

lemma bit_read_bytes:
  "bit (read_bytes hm a n) i \<longleftrightarrow> i < 64 \<and> i < 8 * n \<and> bit (hm (a + of_nat (i div 8))) (i mod 8)"
proof (induction n arbitrary: a i)
  case (Suc n)
  show ?case
  proof (cases "i < 8")
    case True
    then show ?thesis by (auto simp: bit_simps)
  next
    case False
    have "\<not> bit (hm a) i" using False bit_imp_le_length [of "hm a" i] by auto
    moreover have "a + 1 + of_nat ((i - 8) div 8) = a + of_nat (i div 8)" "(i - 8) mod 8 = i mod 8"
    proof -
      obtain j where i: "i = j + 8" using False by (metis le_add_diff_inverse2 not_le)
      then have "i div 8 = Suc (j div 8)" by simp
      then show "a + 1 + of_nat ((i - 8) div 8) = a + of_nat (i div 8)"
        by (simp only: i add_diff_cancel_right' of_nat_Suc add.assoc)
      show "(i - 8) mod 8 = i mod 8" by (simp add: i)
    qed
    ultimately have "bit (read_bytes hm (a + 1) n) (i - 8) \<longleftrightarrow>
        i - 8 < 64 \<and> i - 8 < 8 * n \<and> bit (hm (a + of_nat (i div 8))) (i mod 8)"
      unfolding Suc.IH by (simp only:)
    then show ?thesis using False \<open>\<not> bit (hm a) i\<close> by (auto simp: bit_simps)
  qed
qed simp

lemma write_bytes_at:
  assumes "n \<le> 8"
  shows "write_bytes hm a n v b =
    (if unat (b - a) < n then ucast (drop_bit (8 * unat (b - a)) v) else hm b)"
  using assms
proof (induction n arbitrary: hm a v)
  case (Suc n)
  show ?case
  proof (cases "b = a")
    case True
    have "unat (a - (a + 1)) = 2 ^ 64 - 1" by (simp add: unsigned_minus_1_eq_mask mask_eq_exp_minus_1)
    then show ?thesis using True Suc by simp
  next
    case False
    then have "b - a \<noteq> 0" by simp
    then have "unat (b - a - 1) = unat (b - a) - 1" and "0 < unat (b - a)"
      by (rule unat_minus_one) (use \<open>b - a \<noteq> 0\<close> in \<open>simp only: unat_gt_0 simp_thms\<close>)
    then have "unat (b - a) = Suc (unat (b - (a + 1)))" by (simp add: diff_diff_eq)
    then show ?thesis using False Suc by (simp add: drop_bit_drop_bit add.commute)
  qed
qed simp

lemma read_write_same:
  assumes "n \<le> 8"
  shows "read_bytes (write_bytes hm a n v) a n = take_bit (8 * n) v"
proof (rule bit_word_eqI)
  fix i assume "i < LENGTH(64)"
  then have i: "i < 64" by simp
  have "unat (of_nat (i div 8) :: u64) = i div 8"
    using i by (simp add: unat_of_nat)
  then have "write_bytes hm a n v (a + of_nat (i div 8)) = ucast (drop_bit (8 * (i div 8)) v)"
    if "i < 8 * n"
    using write_bytes_at [OF assms, of hm a v "a + of_nat (i div 8)"] that
      less_mult_imp_div_less [of i n 8] by (simp add: mult.commute)
  moreover have "8 * (i div 8) + i mod 8 = i" by simp
  ultimately show "bit (read_bytes (write_bytes hm a n v) a n) i = bit (take_bit (8 * n) v) i"
    using i by (auto simp: bit_read_bytes bit_simps)
qed

lemma read_write_other:
  assumes "n \<le> 8" and "k \<le> 8" and "\<And>j. j < k \<Longrightarrow> n \<le> unat (b + of_nat j - a)"
  shows "read_bytes (write_bytes hm a n v) b k = read_bytes hm b k"
proof (rule bit_word_eqI)
  fix i assume "i < LENGTH(64)"
  have "write_bytes hm a n v (b + of_nat (i div 8)) = hm (b + of_nat (i div 8))" if "i < 8 * k"
    using that assms(3) [of "i div 8"] less_mult_imp_div_less [of i k 8]
    by (simp add: write_bytes_at [OF assms(1)] mult.commute)
  then show "bit (read_bytes (write_bytes hm a n v) b k) i = bit (read_bytes hm b k) i"
    by (auto simp: bit_read_bytes)
qed

section \<open>The bus interface\<close>

text \<open>
  What an access of \<open>n\<close> bytes promises: a store fails exactly where a load does, a load after a
  store of the same address returns the stored bytes, and stores do not change which addresses
  are mapped.
\<close>

locale memory_bus =
  fixes n :: nat
    and ld :: "'m \<Rightarrow> u64 \<Rightarrow> u64 option" and st :: "'m \<Rightarrow> u64 \<Rightarrow> u64 \<Rightarrow> 'm option"
  assumes store_none: "st m a v = None \<longleftrightarrow> ld m a = None"
    and load_store: "st m a v = Some m' \<Longrightarrow> ld m' a = Some (take_bit (8 * n) v)"
    and load_mapped: "st m a v = Some m' \<Longrightarrow> ld m' b = None \<longleftrightarrow> ld m b = None"
    and load_bound: "ld m a = Some v \<Longrightarrow> take_bit (8 * n) v = v"
begin

lemma store_load_same:
  assumes "ld m a = Some v"
  obtains m' where "st m a v = Some m'" and "ld m' a = Some v"
proof -
  obtain m' where m': "st m a v = Some m'" using store_none [of m a v] assms by auto
  then have "ld m' a = Some v" using load_store [OF m'] load_bound [OF assms] by simp
  with m' show ?thesis by (rule that)
qed

lemma store_store:
  assumes "st m a v = Some m'"
  shows "\<exists>m''. st m' a w = Some m'' \<and> ld m'' a = Some (take_bit (8 * n) w)"
proof -
  have "ld m' a \<noteq> None" using load_store [OF assms] by simp
  then obtain m'' where "st m' a w = Some m''" using store_none [of m' a w] by auto
  then show ?thesis using load_store by blast
qed

end

lemma mpa_to_uva_hmem [simp]: "mpa_to_uva (mem\<lparr>hmem := hm\<rparr>) a = mpa_to_uva mem a"
  by (simp add: mpa_to_uva_def)

lemma memory_bus_user:
  assumes "bus_size n"
  shows "memory_bus n (mem_load n) (mem_store n)"
proof
  have n: "n \<le> 8" using assms by (auto simp: bus_size_def)
  fix m m' a v b
  show "mem_store n m a v = None \<longleftrightarrow> mem_load n m a = None"
    using assms by (simp add: mem_store_def mem_load_def split: option.split)
  show "mem_store n m a v = Some m' \<Longrightarrow> mem_load n m' a = Some (take_bit (8 * n) v)"
    using assms n by (auto simp: mem_store_def mem_load_def read_write_same split: option.splits)
  show "mem_store n m a v = Some m' \<Longrightarrow> mem_load n m' b = None \<longleftrightarrow> mem_load n m b = None"
    using assms by (auto simp: mem_store_def mem_load_def split: option.splits)
  show "mem_load n m a = Some v \<Longrightarrow> take_bit (8 * n) v = v"
  proof -
    assume "mem_load n m a = Some v"
    then obtain uva where "v = read_bytes (hmem m) uva n"
      using assms by (auto simp: mem_load_def split: option.splits)
    then show ?thesis by (auto intro!: bit_word_eqI simp: bit_read_bytes bit_simps)
  qed
qed

interpretation bus_8: memory_bus 1 "mem_load 1" "mem_store 1"
  by (rule memory_bus_user) (simp add: bus_size_def)

interpretation bus_16: memory_bus 2 "mem_load 2" "mem_store 2"
  by (rule memory_bus_user) (simp add: bus_size_def)

interpretation bus_32: memory_bus 4 "mem_load 4" "mem_store 4"
  by (rule memory_bus_user) (simp add: bus_size_def)

interpretation bus_64: memory_bus 8 "mem_load 8" "mem_store 8"
  by (rule memory_bus_user) (simp add: bus_size_def)

end
