(* ===== verification/Rv_Proxy.thy ===== *)
theory Rv_Proxy
  imports Rv_Interp_Laws Rv_Memory
begin

text \<open>
  The proxy memory management unit of \<^verbatim>\<open>src/src/emu/mmu-proxy.h\<close>: user-mode simulation, where guest
  addresses are host addresses.  \<^verbatim>\<open>enfore_memory_top\<close> is false, so loads and stores use the address
  as it is; \<^verbatim>\<open>amo\<close> masks it with \<^verbatim>\<open>memory_top - 1\<close>.
\<close>

section \<open>Operations\<close>

definition memory_top :: "'x::len word itself \<Rightarrow> u64" where
  "memory_top _ = (if LENGTH('x) div 8 = 4 then 0x80000000 else 0x7f0000000000)"

definition proxy_load :: "nat \<Rightarrow> 'x::len word \<Rightarrow> ('x, host_memory, 'z) processor_scheme \<Rightarrow>
    (('x, host_memory, 'z) processor_scheme, u64) outcome" where
  "proxy_load n va p = Ret (ucast (ucast (read_bytes (mmu p) (ucast va) n) :: 'x word)) p"

definition proxy_store :: "nat \<Rightarrow> 'x::len word \<Rightarrow> u64 \<Rightarrow> ('x, host_memory, 'z) processor_scheme \<Rightarrow>
    (('x, host_memory, 'z) processor_scheme, unit) outcome" where
  "proxy_store n va val p = Ret () (p\<lparr>mmu := write_bytes (mmu p) (ucast va) n val\<rparr>)"

text \<open>
  \<^verbatim>\<open>store<P,f32>\<close> and \<^verbatim>\<open>store<P,f64>\<close> assign through a pointer to the type, so they write the bits of
  the number, like the stores of an integer of its size.
\<close>

text \<open>The value passes through \<^verbatim>\<open>UX\<close>; \<^verbatim>\<open>amo_fn<UX>\<close> on operands of type \<^verbatim>\<open>s32\<close> or \<^verbatim>\<open>s64\<close>, sign-extended or truncated to \<^verbatim>\<open>UX\<close>.\<close>

definition proxy_amo :: "nat \<Rightarrow> amo_op \<Rightarrow> 'x::len word \<Rightarrow> u64 \<Rightarrow>
    ('x, host_memory, 'z) processor_scheme \<Rightarrow>
    (('x, host_memory, 'z) processor_scheme, u64) outcome" where
  "proxy_amo n aop va val2 p =
    (let a = ucast (va AND ucast (memory_top TYPE('x word) - 1));
         val1 = ucast (ucast (read_bytes (mmu p) a n) :: 'x word);
         ext = (\<lambda>v :: u64. (if n = 4 then scast (ucast v :: s32) else scast (ucast v :: s64)) :: 'x word);
         val = amo_fn aop (ext val1) (ext val2)
     in Ret val1 (p\<lparr>mmu := write_bytes (mmu p) a n (ucast val)\<rparr>))"

definition mmu_proxy_ops :: "(('x::len, host_memory, 'z) processor_scheme, 'x) mmu_ops" where
  "mmu_proxy_ops = \<lparr>mmu_load = proxy_load, mmu_store = proxy_store,
     mmu_store_fp = proxy_store, mmu_amo = proxy_amo\<rparr>"

section \<open>The proxy provides the interface\<close>

interpretation proxy: mmu_interface "mmu_proxy_ops :: (('x::len, host_memory, 'z) processor_scheme, 'x) mmu_ops"
  by unfold_locales (simp_all add: mmu_proxy_ops_def proxy_load_def proxy_store_def proxy_amo_def
      keeps_regs_def Let_def)

lemma ucast_ucast_take:
  fixes v :: "'a::len word"
  assumes "k \<le> LENGTH('x::len)"
  shows "ucast (ucast (take_bit k v) :: 'x word) = take_bit k v"
  using assms by (auto intro!: bit_word_eqI simp: bit_simps)

lemma proxy_load_store:
  fixes va :: "'x::len word"
  assumes "n \<le> 8" and "8 * n \<le> LENGTH('x)"
  shows "bind_outcome (proxy_store n va v p) (\<lambda>_ p. proxy_load n va p) =
    Ret (take_bit (8 * n) v) (p\<lparr>mmu := write_bytes (mmu p) (ucast va) n v\<rparr>)"
  by (simp add: proxy_load_def proxy_store_def read_write_same [OF assms(1)]
      ucast_ucast_take [OF assms(2)])

end
