(* ===== verification/Rv_Priv_State.thy ===== *)
theory Rv_Priv_State
  imports Rv_Proc
begin

text \<open>
  The privileged processor state \<^verbatim>\<open>processor_priv\<close> of \<^verbatim>\<open>src/src/emu/processor-priv-1.9.h\<close>, which
  extends the base state, and the bit-fields of its status registers.  A register that C++
  declares as a union of a word and bit-fields is the word; its fields are read and written
  through \<open>get_field\<close> and \<open>set_field\<close>.
\<close>

section \<open>Bit-fields\<close>

definition get_field :: "nat \<Rightarrow> nat \<Rightarrow> 'x::len word \<Rightarrow> 'x word" where
  "get_field k w x = take_bit w (drop_bit k x)"

definition set_field :: "nat \<Rightarrow> nat \<Rightarrow> 'x::len word \<Rightarrow> 'x word \<Rightarrow> 'x word" where
  "set_field k w v x = (x AND NOT (push_bit k (mask w))) OR push_bit k (take_bit w v)"

lemma bit_get_field: "bit (get_field k w x) n \<longleftrightarrow> n < w \<and> bit x (k + n)"
  by (auto simp: get_field_def bit_simps)

lemma bit_set_field:
  fixes x v :: "'x::len word"
  shows "bit (set_field k w v x) n \<longleftrightarrow>
    (if k \<le> n \<and> n < k + w then bit v (n - k) \<and> n < LENGTH('x) else bit x n)"
  by (auto simp: set_field_def bit_simps dest: bit_imp_le_length)

lemma get_set_field_same:
  fixes x v :: "'x::len word"
  shows "k + w \<le> LENGTH('x) \<Longrightarrow> get_field k w (set_field k w v x) = take_bit w v"
  by (rule bit_word_eqI) (auto simp: bit_get_field bit_set_field bit_simps)

lemma get_set_field_other:
  fixes x v :: "'x::len word"
  shows "k + w \<le> k' \<or> k' + w' \<le> k \<Longrightarrow> get_field k' w' (set_field k w v x) = get_field k' w' x"
  by (rule bit_word_eqI) (auto simp: bit_get_field bit_set_field)

section \<open>Privilege modes, causes and interrupts\<close>

abbreviation (input) rv_mode_U :: "'x::len word" where "rv_mode_U \<equiv> 0"
abbreviation (input) rv_mode_S :: "'x::len word" where "rv_mode_S \<equiv> 1"
abbreviation (input) rv_mode_H :: "'x::len word" where "rv_mode_H \<equiv> 2"
abbreviation (input) rv_mode_M :: "'x::len word" where "rv_mode_M \<equiv> 3"

abbreviation (input) rv_cause_misaligned_fetch :: int where "rv_cause_misaligned_fetch \<equiv> 0"
abbreviation (input) rv_cause_fault_fetch :: int where "rv_cause_fault_fetch \<equiv> 1"
abbreviation (input) rv_cause_illegal_instruction :: int where "rv_cause_illegal_instruction \<equiv> 2"
abbreviation (input) rv_cause_breakpoint :: int where "rv_cause_breakpoint \<equiv> 3"
abbreviation (input) rv_cause_misaligned_load :: int where "rv_cause_misaligned_load \<equiv> 4"
abbreviation (input) rv_cause_fault_load :: int where "rv_cause_fault_load \<equiv> 5"
abbreviation (input) rv_cause_misaligned_store :: int where "rv_cause_misaligned_store \<equiv> 6"
abbreviation (input) rv_cause_fault_store :: int where "rv_cause_fault_store \<equiv> 7"
abbreviation (input) rv_cause_user_ecall :: int where "rv_cause_user_ecall \<equiv> 8"
abbreviation (input) rv_cause_supervisor_ecall :: int where "rv_cause_supervisor_ecall \<equiv> 9"
abbreviation (input) rv_cause_hypervisor_ecall :: int where "rv_cause_hypervisor_ecall \<equiv> 10"
abbreviation (input) rv_cause_machine_ecall :: int where "rv_cause_machine_ecall \<equiv> 11"

section \<open>The state\<close>

record (overloaded) ('x, 'm) processor_priv = "('x::len, 'm) processor" +
  pdid :: "'x word"
  mode :: "'x word"
  resetvec :: "'x word"
  misa :: "'x word"
  mvendorid :: "'x word"
  marchid :: "'x word"
  mimpid :: "'x word"
  mhartid :: "'x word"
  mstatus :: "'x word"
  mtvec :: "'x word"
  medeleg :: "'x word"
  mideleg :: "'x word"
  mip :: "'x word"
  mie :: "'x word"
  mhcounteren :: "'x word"
  mscounteren :: "'x word"
  mucounteren :: "'x word"
  mscratch :: "'x word"
  mepc :: "'x word"
  mcause :: "'x word"
  mbadaddr :: "'x word"
  mbase :: "'x word"
  mbound :: "'x word"
  mibase :: "'x word"
  mibound :: "'x word"
  mdbase :: "'x word"
  mdbound :: "'x word"
  stvec :: "'x word"
  sedeleg :: "'x word"
  sideleg :: "'x word"
  sscratch :: "'x word"
  sepc :: "'x word"
  scause :: "'x word"
  sbadaddr :: "'x word"
  sptbr :: "'x word"

text \<open>Fields of \<^verbatim>\<open>union status\<close>: offset and width of each.\<close>

abbreviation (input) status_sie :: "'x::len word \<Rightarrow> 'x word" where "status_sie s \<equiv> get_field 1 1 s"
abbreviation (input) status_mie :: "'x::len word \<Rightarrow> 'x word" where "status_mie s \<equiv> get_field 3 1 s"
abbreviation (input) status_spie :: "'x::len word \<Rightarrow> 'x word" where "status_spie s \<equiv> get_field 5 1 s"
abbreviation (input) status_mpie :: "'x::len word \<Rightarrow> 'x word" where "status_mpie s \<equiv> get_field 7 1 s"
abbreviation (input) status_spp :: "'x::len word \<Rightarrow> 'x word" where "status_spp s \<equiv> get_field 8 1 s"
abbreviation (input) status_mpp :: "'x::len word \<Rightarrow> 'x word" where "status_mpp s \<equiv> get_field 11 2 s"
abbreviation (input) status_mprv :: "'x::len word \<Rightarrow> 'x word" where "status_mprv s \<equiv> get_field 17 1 s"
abbreviation (input) status_pum :: "'x::len word \<Rightarrow> 'x word" where "status_pum s \<equiv> get_field 18 1 s"
abbreviation (input) status_mxr :: "'x::len word \<Rightarrow> 'x word" where "status_mxr s \<equiv> get_field 19 1 s"
abbreviation (input) status_vm :: "'x::len word \<Rightarrow> 'x word" where "status_vm s \<equiv> get_field 24 4 s"

end
