(* ===== verification/Rv_Tlb.thy ===== *)
theory Rv_Tlb
  imports Rv_Prelude
begin

text \<open>
  The direct-mapped, tagged translation look-aside buffer of \<^verbatim>\<open>src/src/emu/tlb-soft.h\<close>, with the
  RV64 parameters of \<^verbatim>\<open>src/src/emu/pma.h\<close> (26 bits of address space identifier, 38 bits of
  physical page number) and 128 entries.  Bit-fields are words of their width, so a constructor
  truncates its arguments.  A pointer into the table is the index of the entry.
\<close>

section \<open>Entries and table\<close>

record tlb_entry =
  ent_ppn :: "38 word"
  ent_asid :: "26 word"
  ent_vpn :: "52 word"
  ent_ptel :: "2 word"
  ent_pteb :: "10 word"
  ent_pdid :: u32
  ent_pma :: u32

type_synonym tlb = "tlb_entry list"

definition tlb_entry_default :: tlb_entry where
  "tlb_entry_default = \<lparr>ent_ppn = - 1, ent_asid = - 1, ent_vpn = - 1, ent_ptel = 0, ent_pteb = 0,
     ent_pdid = 0, ent_pma = 0\<rparr>"

definition tlb_entry_make :: "u64 \<Rightarrow> u64 \<Rightarrow> u64 \<Rightarrow> u64 \<Rightarrow> u64 \<Rightarrow> u64 \<Rightarrow> tlb_entry" where
  "tlb_entry_make pdid asid vpn ptel pteb ppn = \<lparr>ent_ppn = ucast ppn, ent_asid = ucast asid,
     ent_vpn = ucast vpn, ent_ptel = ucast ptel, ent_pteb = ucast pteb, ent_pdid = ucast pdid,
     ent_pma = 0\<rparr>"

definition tlb_size :: nat where "tlb_size = 128"

definition tlb_init :: tlb where
  "tlb_init = replicate tlb_size tlb_entry_default"

definition tlb_index :: "u64 \<Rightarrow> nat" where
  "tlb_index vpn = unat (vpn AND (push_bit 7 1 - 1))"

section \<open>Operations\<close>

definition tlb_match :: "u64 \<Rightarrow> u64 \<Rightarrow> u64 \<Rightarrow> tlb_entry \<Rightarrow> bool" where
  "tlb_match pdid asid vpn e \<longleftrightarrow>
     ucast (ent_pdid e) = pdid \<and> ucast (ent_asid e) = asid \<and> ucast (ent_vpn e) = vpn"

definition tlb_lookup :: "tlb \<Rightarrow> u64 \<Rightarrow> u64 \<Rightarrow> u64 \<Rightarrow> nat option" where
  "tlb_lookup t pdid asid va =
    (let vpn = drop_bit 12 va; i = tlb_index vpn in
     if tlb_match pdid asid vpn (t ! i) then Some i else None)"

definition tlb_insert :: "tlb \<Rightarrow> u64 \<Rightarrow> u64 \<Rightarrow> u64 \<Rightarrow> u64 \<Rightarrow> u64 \<Rightarrow> u64 \<Rightarrow> tlb \<times> nat" where
  "tlb_insert t pdid asid va ptel pteb ppn =
    (let vpn = drop_bit 12 va; i = tlb_index vpn in
     (t[i := tlb_entry_make pdid asid vpn ptel pteb ppn], i))"

definition tlb_flush :: "tlb \<Rightarrow> u64 \<Rightarrow> tlb" where
  "tlb_flush t pdid = map (\<lambda>e. if ucast (ent_pdid e) \<noteq> pdid then e else tlb_entry_default) t"

definition tlb_flush_asid :: "tlb \<Rightarrow> u64 \<Rightarrow> u64 \<Rightarrow> tlb" where
  "tlb_flush_asid t pdid asid =
     map (\<lambda>e. if asid \<noteq> 0 \<and> ucast (ent_pdid e) \<noteq> pdid \<and> ucast (ent_asid e) \<noteq> asid then e
              else tlb_entry_default) t"

section \<open>The table as a cache of translations\<close>

text \<open>
  The abstraction: the translation the table holds for a protection domain, an address space and
  a virtual page.
\<close>

type_synonym tlb_key = "u64 \<times> u64 \<times> u64"

definition tlb_abs :: "tlb \<Rightarrow> tlb_key \<rightharpoonup> tlb_entry" where
  "tlb_abs t = (\<lambda>(pdid, asid, vpn).
     if tlb_match pdid asid vpn (t ! tlb_index vpn) then Some (t ! tlb_index vpn) else None)"

definition tlb_ok :: "tlb \<Rightarrow> bool" where
  "tlb_ok t \<longleftrightarrow> length t = tlb_size"

text \<open>Keys that fit the tag fields.\<close>

definition key_ok :: "tlb_key \<Rightarrow> bool" where
  "key_ok = (\<lambda>(pdid, asid, vpn). pdid < 0x100000000 \<and> asid < 0x4000000 \<and> vpn < 0x10000000000000)"

text \<open>
  What a client relies on: an inserted translation is found; an insertion invents no other
  translation; a flush invents none, except for the tag that an empty entry carries.
\<close>

locale translation_cache =
  fixes lookup :: "'t \<Rightarrow> 'k \<rightharpoonup> 'v" and insert :: "'t \<Rightarrow> 'k \<Rightarrow> 'v \<Rightarrow> 't"
    and valid :: "'t \<Rightarrow> bool" and makes :: "'k \<Rightarrow> 'v \<Rightarrow> bool"
  assumes insert_found: "valid t \<Longrightarrow> makes k v \<Longrightarrow> lookup (insert t k v) k = Some v"
    and insert_other: "valid t \<Longrightarrow> makes k v \<Longrightarrow> k' \<noteq> k \<Longrightarrow>
      lookup (insert t k v) k' = Some w \<Longrightarrow> lookup t k' = Some w"
    and insert_valid: "valid t \<Longrightarrow> valid (insert t k v)"
begin

text \<open>A property of all cached translations survives the insertion of one that has it.\<close>

lemma insert_invariant:
  assumes "valid t" and "makes k v"
    and "\<And>k w. lookup t k = Some w \<Longrightarrow> P k w" and "P k v"
    and "lookup (insert t k v) k' = Some w"
  shows "P k' w"
proof (cases "k' = k")
  case True
  then show ?thesis using insert_found [OF assms(1,2)] assms(4,5) by simp
next
  case False
  then show ?thesis using insert_other [OF assms(1,2) False assms(5)] assms(3) by blast
qed

text \<open>The cache holds a subset of a translation function it is filled from.\<close>

lemma insert_submap:
  assumes "valid t" and "makes k v" and "lookup t \<subseteq>\<^sub>m f" and "f k = Some v"
  shows "lookup (insert t k v) \<subseteq>\<^sub>m f"
  unfolding map_le_def
proof
  fix k' assume "k' \<in> dom (lookup (insert t k v))"
  then obtain w where w: "lookup (insert t k v) k' = Some w" by auto
  have "f a = Some b" if "lookup t a = Some b" for a b
    using that assms(3) by (metis domI map_le_def)
  then have "f k' = Some w"
    using assms(4) w by (rule insert_invariant [OF assms(1,2), where P = "\<lambda>k w. f k = Some w"])
  with w show "lookup (insert t k v) k' = f k'" by simp
qed

end

lemma tlb_index_less: "tlb_index vpn < tlb_size"
proof -
  have "vpn AND 127 \<le> 127" by (rule word_and_le1)
  then have "unat (vpn AND 127) \<le> 127" by (simp add: word_le_nat_alt)
  then show ?thesis by (simp add: tlb_index_def tlb_size_def)
qed

definition tlb_put :: "tlb \<Rightarrow> tlb_key \<Rightarrow> tlb_entry \<Rightarrow> tlb" where
  "tlb_put t k e = (case k of (pdid, asid, vpn) \<Rightarrow> t[tlb_index vpn := e])"

definition tags :: "tlb_key \<Rightarrow> tlb_entry \<Rightarrow> bool" where
  "tags k e = (case k of (pdid, asid, vpn) \<Rightarrow> tlb_match pdid asid vpn e)"

interpretation tlb_cache: translation_cache tlb_abs tlb_put tlb_ok tags
proof
  fix t :: tlb and k k' :: tlb_key and v w :: tlb_entry
  obtain pdid asid vpn where k: "k = (pdid, asid, vpn)" by (metis prod.exhaust)
  obtain pdid' asid' vpn' where k': "k' = (pdid', asid', vpn')" by (metis prod.exhaust)
  assume t: "tlb_ok t"
  then have len: "tlb_index vpn < length t" using tlb_index_less by (simp add: tlb_ok_def)
  then show "tags k v \<Longrightarrow> tlb_abs (tlb_put t k v) k = Some v"
    by (simp add: tlb_abs_def tlb_put_def tags_def k)
  show "tlb_ok (tlb_put t k v)" using t by (simp add: tlb_ok_def tlb_put_def k)
  assume "tags k v" and "k' \<noteq> k" and found: "tlb_abs (tlb_put t k v) k' = Some w"
  then have "tlb_index vpn' \<noteq> tlb_index vpn"
    using len by (auto simp: tlb_abs_def tlb_put_def tags_def tlb_match_def k k' split: if_splits)
  then show "tlb_abs t k' = Some w"
    using found by (auto simp: tlb_abs_def tlb_put_def k k' split: if_splits)
qed

section \<open>Lookup and insert\<close>

lemma tlb_lookup_abs:
  "tlb_lookup t pdid asid va = Some i \<longleftrightarrow>
    tlb_abs t (pdid, asid, drop_bit 12 va) = Some (t ! i) \<and> i = tlb_index (drop_bit 12 va)"
  by (auto simp: tlb_lookup_def tlb_abs_def Let_def)

lemma tlb_lookup_none:
  "tlb_lookup t pdid asid va = None \<longleftrightarrow> tlb_abs t (pdid, asid, drop_bit 12 va) = None"
  by (simp add: tlb_lookup_def tlb_abs_def Let_def)

text \<open>The tags of an entry made for a key that fits are the key.\<close>

lemma tags_make:
  assumes "key_ok (pdid, asid, vpn)"
  shows "tags (pdid, asid, vpn) (tlb_entry_make pdid asid vpn ptel pteb ppn)"
proof -
  have "i < 32" if "bit pdid i" for i
    using assms that by (intro less_numeral_bit [of pdid "0x100000000" 32 i]) (simp_all add: key_ok_def)
  moreover have "i < 26" if "bit asid i" for i
    using assms that by (intro less_numeral_bit [of asid "0x4000000" 26 i]) (simp_all add: key_ok_def)
  moreover have "i < 52" if "bit vpn i" for i
    using assms that by (intro less_numeral_bit [of vpn "0x10000000000000" 52 i]) (simp_all add: key_ok_def)
  ultimately have "ucast (ucast pdid :: u32) = pdid" "ucast (ucast asid :: 26 word) = asid"
    "ucast (ucast vpn :: 52 word) = vpn"
    by (auto intro!: bit_word_eqI simp: bit_simps)
  then show ?thesis by (simp add: tags_def tlb_match_def tlb_entry_make_def)
qed

lemma tlb_insert_put:
  "tlb_insert t pdid asid va ptel pteb ppn =
    (tlb_put t (pdid, asid, drop_bit 12 va) (tlb_entry_make pdid asid (drop_bit 12 va) ptel pteb ppn),
     tlb_index (drop_bit 12 va))"
  by (simp add: tlb_insert_def tlb_put_def Let_def)

section \<open>Flush\<close>

lemma tlb_flush_abs:
  assumes "tlb_ok t" and "tlb_abs (tlb_flush t pdid) k = Some e" and "e \<noteq> tlb_entry_default"
  shows "tlb_abs t k = Some e" and "fst k \<noteq> pdid"
proof -
  obtain pdid' asid' vpn' where k: "k = (pdid', asid', vpn')" by (metis prod.exhaust)
  have "tlb_index vpn' < length t" using assms(1) tlb_index_less by (simp add: tlb_ok_def)
  then show "tlb_abs t k = Some e" "fst k \<noteq> pdid"
    using assms(2,3)
    by (auto simp: tlb_abs_def tlb_flush_def tlb_match_def k split: if_splits)
qed

lemma tlb_flush_asid_abs:
  assumes "tlb_ok t" and "tlb_abs (tlb_flush_asid t pdid asid) k = Some e" and "e \<noteq> tlb_entry_default"
  shows "tlb_abs t k = Some e" and "asid \<noteq> 0 \<and> fst k \<noteq> pdid \<and> fst (snd k) \<noteq> asid"
proof -
  obtain pdid' asid' vpn' where k: "k = (pdid', asid', vpn')" by (metis prod.exhaust)
  have "tlb_index vpn' < length t" using assms(1) tlb_index_less by (simp add: tlb_ok_def)
  then show "tlb_abs t k = Some e" "asid \<noteq> 0 \<and> fst k \<noteq> pdid \<and> fst (snd k) \<noteq> asid"
    using assms(2,3)
    by (auto simp: tlb_abs_def tlb_flush_asid_def tlb_match_def k split: if_splits)
qed

end
