(* ===== verification/Rv_Mmu.thy ===== *)
theory Rv_Mmu
  imports Rv_Priv_State Rv_Memory Rv_Tlb
begin

text \<open>
  The software memory management unit \<^verbatim>\<open>mmu_soft\<close> of \<^verbatim>\<open>src/src/emu/mmu-soft.h\<close> for RV64, with the
  page table formats of \<^verbatim>\<open>src/src/emu/pte.h\<close>: alignment and permission checks, translation through
  the TLBs, and the page table walker.

  The walker's loop counter is unsigned, so its test \<^verbatim>\<open>level >= 0\<close> never ends the loop: a chain of
  pointer entries goes on below level 0, where the shift amounts leave the range C++ defines.
  Two steps below level 0 every walk has left the defined range, so \<open>levels + 2\<close> iterations
  of fuel never run out (\<open>walk_loop_fuel\<close>).
\<close>

section \<open>Page table formats\<close>

record ptm =
  ptm_levels :: nat
  ptm_bits :: nat
  ptm_size :: nat      \<comment> \<open>\<open>sizeof(pte_type)\<close>\<close>
  ptm_ppn_bits :: nat  \<comment> \<open>width of the page number field, above 10 bits of flags\<close>

definition sv32 :: ptm where
  "sv32 = \<lparr>ptm_levels = 2, ptm_bits = 10, ptm_size = 4, ptm_ppn_bits = 22\<rparr>"

definition sv39 :: ptm where
  "sv39 = \<lparr>ptm_levels = 3, ptm_bits = 9, ptm_size = 8, ptm_ppn_bits = 38\<rparr>"

definition sv48 :: ptm where
  "sv48 = \<lparr>ptm_levels = 4, ptm_bits = 9, ptm_size = 8, ptm_ppn_bits = 38\<rparr>"

abbreviation (input) pte_flag_V :: u64 where "pte_flag_V \<equiv> 0x01"
abbreviation (input) pte_flag_R :: u64 where "pte_flag_R \<equiv> 0x02"
abbreviation (input) pte_flag_W :: u64 where "pte_flag_W \<equiv> 0x04"
abbreviation (input) pte_flag_X :: u64 where "pte_flag_X \<equiv> 0x08"
abbreviation (input) pte_flag_U :: u64 where "pte_flag_U \<equiv> 0x10"
abbreviation (input) pte_flag_A :: u64 where "pte_flag_A \<equiv> 0x40"
abbreviation (input) pte_flag_D :: u64 where "pte_flag_D \<equiv> 0x80"

definition pte_flags :: "u64 \<Rightarrow> u64" where
  "pte_flags pte = get_field 0 10 pte"

definition pte_ppn :: "ptm \<Rightarrow> u64 \<Rightarrow> u64" where
  "pte_ppn fmt pte = get_field 10 (ptm_ppn_bits fmt) pte"

section \<open>State\<close>

datatype mmu_op = op_fetch | op_load | op_store

record mmu_soft =
  l1_itlb :: tlb
  l1_dtlb :: tlb
  mem :: user_memory

type_synonym 'z proc = "(64, mmu_soft, 'z) processor_priv_scheme"

definition get_tlb :: "mmu_op \<Rightarrow> 'z proc \<Rightarrow> tlb" where
  "get_tlb mop p = (if mop = op_fetch then l1_itlb (mmu p) else l1_dtlb (mmu p))"

definition set_tlb :: "mmu_op \<Rightarrow> tlb \<Rightarrow> 'z proc \<Rightarrow> 'z proc" where
  "set_tlb mop t p =
    (if mop = op_fetch then p\<lparr>mmu := (mmu p)\<lparr>l1_itlb := t\<rparr>\<rparr> else p\<lparr>mmu := (mmu p)\<lparr>l1_dtlb := t\<rparr>\<rparr>)"

definition set_mem :: "user_memory \<Rightarrow> 'z proc \<Rightarrow> 'z proc" where
  "set_mem m p = p\<lparr>mmu := (mmu p)\<lparr>mem := m\<rparr>\<rparr>"

section \<open>Checks\<close>

definition misaligned :: "nat \<Rightarrow> u64 \<Rightarrow> bool" where
  "misaligned n va \<longleftrightarrow> va AND (of_nat n - 1) \<noteq> 0"

definition ent_flag :: "tlb_entry \<Rightarrow> u64 \<Rightarrow> bool" where
  "ent_flag e f \<longleftrightarrow> ucast (ent_pteb e) AND f \<noteq> 0"

definition fetch_access_fault :: "'z proc \<Rightarrow> u64 \<Rightarrow> tlb_entry option \<Rightarrow> bool" where
  "fetch_access_fault p privilege_level ent =
    (case ent of
       None \<Rightarrow> False
     | Some e \<Rightarrow> \<not> ent_flag e pte_flag_X \<or>
         (if ent_flag e pte_flag_U then privilege_level > rv_mode_U else privilege_level < rv_mode_S))"

definition load_access_fault :: "'z proc \<Rightarrow> u64 \<Rightarrow> tlb_entry option \<Rightarrow> bool" where
  "load_access_fault p privilege_level ent =
    (case ent of
       None \<Rightarrow> False
     | Some e \<Rightarrow>
         \<not> ent_flag e pte_flag_R \<and> \<not> (ent_flag e pte_flag_X \<and> status_mxr (mstatus p) \<noteq> 0) \<or>
         (if ent_flag e pte_flag_U then privilege_level > rv_mode_U \<and> status_pum (mstatus p) \<noteq> 0
          else privilege_level < rv_mode_S))"

definition store_access_fault :: "'z proc \<Rightarrow> u64 \<Rightarrow> tlb_entry option \<Rightarrow> bool" where
  "store_access_fault p privilege_level ent =
    (case ent of
       None \<Rightarrow> False
     | Some e \<Rightarrow> \<not> ent_flag e pte_flag_W \<or>
         (if ent_flag e pte_flag_U then privilege_level > rv_mode_U \<and> status_pum (mstatus p) \<noteq> 0
          else privilege_level < rv_mode_S))"

definition effective_mode :: "'z proc \<Rightarrow> mmu_op \<Rightarrow> u64" where
  "effective_mode p mop =
    (if mode p \<ge> rv_mode_M \<and> status_mprv (mstatus p) = 1 \<and> mop \<noteq> op_fetch \<and>
        status_mpp (mstatus p) \<le> rv_mode_S
     then status_mpp (mstatus p) else mode p)"

section \<open>Page table walk\<close>

definition fault_cause :: "mmu_op \<Rightarrow> int" where
  "fault_cause mop =
    (case mop of op_fetch \<Rightarrow> rv_cause_fault_fetch | op_load \<Rightarrow> rv_cause_fault_load
               | op_store \<Rightarrow> rv_cause_fault_store)"

definition page_translate_offset :: "ptm \<Rightarrow> u64 \<Rightarrow> u64 \<Rightarrow> u64 \<Rightarrow> u64" where
  "page_translate_offset fmt ppn va level =
    (let shift = of_nat (ptm_bits fmt) * level + 12
     in push_bit 12 ppn + (va AND (push_bit (unat shift) 1 - 1)))"

definition ad_flags :: "mmu_op \<Rightarrow> u64" where
  "ad_flags mop = pte_flag_A OR (if mop = op_store then pte_flag_D else 0)"

text \<open>
  \<^verbatim>\<open>ppn = pte.val.ppn << page_shift\<close>: the 22-bit field of an Sv32 entry is promoted to \<^verbatim>\<open>int\<close>, so
  the shift is one of a 32-bit signed number, which is undefined if the result does not fit in 32
  bits; the 38-bit field of the other formats is a 64-bit number.
\<close>

definition next_table :: "ptm \<Rightarrow> u64 \<Rightarrow> u64 option" where
  "next_table fmt pte =
    (if ptm_ppn_bits fmt < 32
     then if pte_ppn fmt pte < 0x100000 then Some (scast (ucast (push_bit 12 (pte_ppn fmt pte)) :: s32))
          else None
     else Some (push_bit 12 (pte_ppn fmt pte)))"

fun walk_loop :: "nat \<Rightarrow> ptm \<Rightarrow> mmu_op \<Rightarrow> u64 \<Rightarrow> u64 \<Rightarrow> u64 \<Rightarrow> 'z proc \<Rightarrow>
    ('z proc, u64 \<times> u64 \<times> u64) outcome" where
  "walk_loop 0 fmt mop va level ppn p = Exit Undefined p"
| "walk_loop (Suc fuel) fmt mop va level ppn p =
    (let shift = of_nat (ptm_bits fmt) * level + 12 in
     if shift \<ge> 64 then Exit Undefined p
     else
       let vpn = drop_bit (unat shift) va AND (push_bit (ptm_bits fmt) 1 - 1);
           pte_mpa = ppn + vpn * of_nat (ptm_size fmt) in
       case mem_load (ptm_size fmt) (mem (mmu p)) pte_mpa of
         None \<Rightarrow> raise (fault_cause mop) va p
       | Some pte \<Rightarrow>
           if (drop_bit 1 pte OR drop_bit 2 pte OR drop_bit 3 pte) AND 1 = 0
           then (case next_table fmt pte of
                   None \<Rightarrow> Exit Undefined p
                 | Some ppn' \<Rightarrow> walk_loop fuel fmt mop va (level - 1) ppn' p)
           else if (NOT (pte_flags pte) OR
                    (drop_bit 1 (NOT (pte_flags pte)) AND drop_bit 2 (pte_flags pte))) AND 1 \<noteq> 0
           then raise (fault_cause mop) va p
           else if pte_flags pte AND (pte_flag_R OR pte_flag_X) \<noteq> 0
           then
             if shift - 12 \<ge> 31 then Exit Undefined p
             else if (push_bit (unat (shift - 12)) 1 - 1) AND pte_ppn fmt pte \<noteq> 0
             then raise (fault_cause mop) va p
             else if pte_flags pte AND ad_flags mop \<noteq> ad_flags mop
             then
               let pte = pte OR ad_flags mop in
               (case mem_store (ptm_size fmt) (mem (mmu p)) pte_mpa pte of
                  None \<Rightarrow> raise (fault_cause mop) va p
                | Some m \<Rightarrow> Ret (page_translate_offset fmt (pte_ppn fmt pte) va level, pte, level)
                     (set_mem m p))
             else Ret (page_translate_offset fmt (pte_ppn fmt pte) va level, pte, level) p
           else walk_loop fuel fmt mop va (level - 1) ppn p)"

definition walk_page_table :: "ptm \<Rightarrow> mmu_op \<Rightarrow> u64 \<Rightarrow> 'z proc \<Rightarrow>
    ('z proc, u64 \<times> u64 \<times> u64) outcome" where
  "walk_page_table fmt mop va p =
     walk_loop (ptm_levels fmt + 2) fmt mop va (of_nat (ptm_levels fmt) - 1)
       (push_bit 12 (sptbr p AND (push_bit 38 1 - 1))) p"

section \<open>Translation\<close>

definition page_translate_addr_tlb_miss :: "ptm \<Rightarrow> mmu_op \<Rightarrow> u64 \<Rightarrow> tlb_entry option \<Rightarrow> 'z proc \<Rightarrow>
    ('z proc, u64 \<times> tlb_entry option) outcome" where
  "page_translate_addr_tlb_miss fmt mop va ent p =
    bind_outcome (walk_page_table fmt mop va p) (\<lambda>(pa, pte, level) p.
      if pa = 0 then Ret (0, ent) p
      else
        let (t, i) = tlb_insert (get_tlb mop p) (pdid p) (drop_bit 38 (sptbr p)) va level
              (pte_flags pte) (pte_ppn fmt pte)
        in Ret (pa, Some (t ! i)) (set_tlb mop t p))"

definition page_translate_addr :: "ptm \<Rightarrow> mmu_op \<Rightarrow> u64 \<Rightarrow> 'z proc \<Rightarrow>
    ('z proc, u64 \<times> tlb_entry option) outcome" where
  "page_translate_addr fmt mop va p =
    (case tlb_lookup (get_tlb mop p) (pdid p) (drop_bit 38 (sptbr p)) va of
       Some i \<Rightarrow>
         (let e = get_tlb mop p ! i in
          if ucast (ent_pteb e) AND ad_flags mop \<noteq> ad_flags mop
          then Ret (page_translate_offset fmt (ucast (ent_ppn e)) va (ucast (ent_ptel e)), Some e) p
          else page_translate_addr_tlb_miss fmt mop va (Some e) p)
     | None \<Rightarrow> page_translate_addr_tlb_miss fmt mop va None p)"

definition translate_addr :: "mmu_op \<Rightarrow> u64 \<Rightarrow> 'z proc \<Rightarrow> ('z proc, u64 \<times> tlb_entry option) outcome" where
  "translate_addr mop va p =
    (if effective_mode p mop \<ge> rv_mode_M then Ret (va, None) p
     else if status_vm (mstatus p) = 0 then Ret (va, None) p
     else if status_vm (mstatus p) = 8 then page_translate_addr sv32 mop va p
     else if status_vm (mstatus p) = 9 then page_translate_addr sv39 mop va p
     else if status_vm (mstatus p) = 10 then page_translate_addr sv48 mop va p
     else Exit Panic p)"

section \<open>Accesses\<close>

text \<open>
  \<^verbatim>\<open>if (!mpa) return;\<close> leaves a load without a value: the caller's variable stays
  uninitialised.  A store to physical address 0 is dropped.
\<close>

definition soft_load :: "nat \<Rightarrow> u64 \<Rightarrow> 'z proc \<Rightarrow> ('z proc, u64) outcome" where
  "soft_load n va p =
    (if misaligned n va then raise rv_cause_misaligned_load va p
     else bind_outcome (translate_addr op_load va p) (\<lambda>(mpa, ent) p.
       if mpa = 0 then Exit Undefined p
       else if load_access_fault p (mode p) ent then raise rv_cause_fault_load va p
       else case mem_load n (mem (mmu p)) mpa of
              None \<Rightarrow> raise rv_cause_fault_load va p
            | Some v \<Rightarrow> Ret v p))"

definition soft_store :: "nat \<Rightarrow> u64 \<Rightarrow> u64 \<Rightarrow> 'z proc \<Rightarrow> ('z proc, unit) outcome" where
  "soft_store n va val p =
    (if misaligned n va then raise rv_cause_misaligned_store va p
     else bind_outcome (translate_addr op_store va p) (\<lambda>(mpa, ent) p.
       if mpa = 0 then Ret () p
       else if store_access_fault p (mode p) ent then raise rv_cause_fault_store va p
       else case mem_store n (mem (mmu p)) mpa val of
              None \<Rightarrow> raise rv_cause_fault_store va p
            | Some m \<Rightarrow> Ret () (set_mem m p)))"

text \<open>
  \<^verbatim>\<open>store<P,f32>\<close> and \<^verbatim>\<open>store<P,f64>\<close> call \<^verbatim>\<open>store_32(va, val)\<close> and \<^verbatim>\<open>store_64(va, val)\<close> of the bus with a
  floating-point argument for an integer parameter: what is stored is the number converted to an
  unsigned integer, not its bits.
\<close>

definition bus_fp_value :: "host_fp \<Rightarrow> nat \<Rightarrow> u64 \<Rightarrow> host_fenv \<Rightarrow> u64 \<times> host_fenv" where
  "bus_fp_value hf n bits e =
    (if n = 4 then (case fp_to_u32 (hf32 hf) (ucast bits) e of (v, e) \<Rightarrow> (ucast v, e))
     else fp_to_u64 (hf64 hf) bits e)"

definition soft_store_fp :: "host_fp \<Rightarrow> nat \<Rightarrow> u64 \<Rightarrow> u64 \<Rightarrow> 'z proc \<Rightarrow> ('z proc, unit) outcome" where
  "soft_store_fp hf n va bits p =
    (if misaligned n va then raise rv_cause_misaligned_store va p
     else bind_outcome (translate_addr op_store va p) (\<lambda>(mpa, ent) p.
       if mpa = 0 then Ret () p
       else if store_access_fault p (mode p) ent then raise rv_cause_fault_store va p
       else case bus_fp_value hf n bits (fenv p) of (val, e) \<Rightarrow>
         let p = p\<lparr>fenv := e\<rparr> in
         case mem_store n (mem (mmu p)) mpa val of
           None \<Rightarrow> raise rv_cause_fault_store va p
         | Some m \<Rightarrow> Ret () (set_mem m p)))"

text \<open>\<^verbatim>\<open>amo_fn<UX>\<close> is called with operands of type \<^verbatim>\<open>s32\<close> or \<^verbatim>\<open>s64\<close>, which are sign-extended.\<close>

definition amo_value :: "nat \<Rightarrow> amo_op \<Rightarrow> u64 \<Rightarrow> u64 \<Rightarrow> u64" where
  "amo_value n aop x y =
    (if n = 4 then amo_fn aop (scast (ucast x :: s32)) (scast (ucast y :: s32)) else amo_fn aop x y)"

definition soft_amo :: "nat \<Rightarrow> amo_op \<Rightarrow> u64 \<Rightarrow> u64 \<Rightarrow> 'z proc \<Rightarrow> ('z proc, u64) outcome" where
  "soft_amo n aop va val2 p =
    (if misaligned n va then raise rv_cause_misaligned_store va p
     else bind_outcome (translate_addr op_store va p) (\<lambda>(mpa, ent) p.
       if mpa = 0 then Exit Undefined p
       else if load_access_fault p (mode p) ent then raise rv_cause_fault_store va p
       else case mem_load n (mem (mmu p)) mpa of
              None \<Rightarrow> raise rv_cause_fault_store va p
            | Some val1 \<Rightarrow>
                if store_access_fault p (mode p) ent then raise rv_cause_fault_store va p
                else case mem_store n (mem (mmu p)) mpa (amo_value n aop val1 val2) of
                       None \<Rightarrow> raise rv_cause_fault_store va p
                     | Some m \<Rightarrow> Ret val1 (set_mem m p)))"

definition mmu_soft_ops :: "host_fp \<Rightarrow> ('z proc, 64) mmu_ops" where
  "mmu_soft_ops hf = \<lparr>mmu_load = soft_load, mmu_store = soft_store,
     mmu_store_fp = soft_store_fp hf, mmu_amo = soft_amo\<rparr>"

section \<open>Instruction fetch\<close>

text \<open>Append the next 16 bits of an instruction at \<open>mpa + 2 * k\<close>.\<close>

definition fetch_half :: "u64 \<Rightarrow> u64 \<Rightarrow> nat \<Rightarrow> inst_t \<Rightarrow> 'z proc \<Rightarrow> ('z proc, inst_t) outcome" where
  "fetch_half pcv mpa k inst p =
    (case mem_load 2 (mem (mmu p)) (mpa + of_nat (2 * k)) of
       None \<Rightarrow> raise rv_cause_fault_fetch pcv p
     | Some h \<Rightarrow> Ret (inst OR push_bit (16 * k) h) p)"

definition soft_inst_fetch :: "u64 \<Rightarrow> u64 \<Rightarrow> 'z proc \<Rightarrow> ('z proc, inst_t \<times> u64) outcome" where
  "soft_inst_fetch pcv pc_offset p =
    (if misaligned 2 pcv then raise rv_cause_misaligned_fetch pcv p
     else bind_outcome (translate_addr op_fetch pcv p) (\<lambda>(mpa, ent) p.
       if mpa = 0 then Ret (0, pc_offset) p
       else if fetch_access_fault p (mode p) ent then raise rv_cause_fault_fetch pcv p
       else bind_outcome (fetch_half pcv mpa 0 0 p) (\<lambda>inst p.
         if inst AND 0b11 \<noteq> 0b11 then Ret (inst, 2) p
         else if inst AND 0b11100 \<noteq> 0b11100 then
           bind_outcome (fetch_half pcv mpa 1 inst p) (\<lambda>inst p. Ret (inst, 4) p)
         else if inst AND 0b111111 = 0b011111 then
           bind_outcome (fetch_half pcv mpa 1 inst p) (\<lambda>inst p.
           bind_outcome (fetch_half pcv mpa 2 inst p) (\<lambda>inst p. Ret (inst, 6) p))
         else if inst AND 0b1111111 = 0b0111111 then
           bind_outcome (fetch_half pcv mpa 1 inst p) (\<lambda>inst p.
           bind_outcome (fetch_half pcv mpa 2 inst p) (\<lambda>inst p.
           bind_outcome (fetch_half pcv mpa 3 inst p) (\<lambda>inst p. Ret (inst, 8) p)))
         else raise rv_cause_fault_fetch pcv p)))"

end
