(* ===== verification/Rv_Exec_Props.thy ===== *)
theory Rv_Exec_Props
  imports Rv_Proxy Rv_Mmu
begin

text \<open>
  Properties of the instruction interpreter: results of the multiplication and division
  instructions, the register file, control transfer, memory accesses and atomic operations.
\<close>

lemma freg_init [simp]: "freg (proc_init env u) = replicate 32 0"
  by (simp add: proc_init_def)

section \<open>Multiplication and division\<close>

text \<open>
  C13.  On RV64 and on RV32, the eight instructions of the M extension compute what the
  instruction set defines over the integers: the low or high half of the signed, unsigned or mixed
  product, the quotient and remainder rounded towards zero, with the prescribed results for
  division by zero and for overflow.  The interpreter builds the high halves from four half-width
  products with carries.
\<close>

theorem exec_inst_mul_spec:
  fixes p64 :: "(64, 'm, 'z) processor_scheme" and p32 :: "(32, 'n, 'y) processor_scheme"
  assumes "rv_op_mul \<le> dec_op dec" and "dec_op dec \<le> rv_op_remu" and "rvm cfg"
  shows "exec_inst_rv64 cfg ops hf dec off p64 = Ret off
      (set_rd dec (spec_mul (dec_op dec) (get_reg p64 (dec_rs1 dec)) (get_reg p64 (dec_rs2 dec))) p64) \<and>
    exec_inst_rv32 cfg ops' hf' dec off' p32 = Ret off'
      (set_rd dec (spec_mul (dec_op dec) (get_reg p32 (dec_rs1 dec)) (get_reg p32 (dec_rs2 dec))) p32)"
proof -
  have "dec_op dec \<in> {64, 65, 66, 67, 68, 69, 70, 71}" using assms(1,2) by auto
  then have none: "exec_ctrl cfg dec off p64 = None" "exec_mem cfg ops dec off p64 = None"
    "exec_op_imm cfg dec off p64 = None" "exec_op cfg dec off p64 = None"
    "exec_mem_64 cfg ops dec off p64 = None" "exec_shift_imm cfg dec off p64 = None"
    "exec_op_imm_w cfg dec off p64 = None" "exec_op_w cfg dec off p64 = None"
    "exec_ctrl cfg dec off' p32 = None" "exec_mem cfg ops' dec off' p32 = None"
    "exec_op_imm cfg dec off' p32 = None" "exec_op cfg dec off' p32 = None"
    "exec_shift_imm cfg dec off' p32 = None"
    by (auto simp: exec_ctrl_def exec_mem_def exec_op_imm_def exec_op_def exec_mem_64_def
        exec_shift_imm_def exec_op_imm_w_def exec_op_w_def)
  have q: "LENGTH(64) = 2 * 32" "qb TYPE(64 word) = 32" "LENGTH(32) = 2 * 16" "qb TYPE(32 word) = 16"
    by (simp_all add: qb_def)
  show ?thesis
    by (simp add: exec_inst_rv64_def exec_inst_rv32_def none exec_mul_spec [OF q(1,2) assms]
        exec_mul_spec [OF q(3,4) assms])
qed

text \<open>Witness: \<open>mulh a0, a0, a1\<close> of the least number and 2.\<close>

theorem exec_inst_mul_spec_witness:
  "get_reg (final (exec_inst_rv64 (isa_all False True False) mmu_proxy_ops demo_hf
      (decode_init\<lparr>dec_op := rv_op_mulh, dec_rd := 10, dec_rs1 := 10, dec_rs2 := 11\<rparr>) 4
      ((proc_init demo_fenv (\<lambda>_. 0))\<lparr>ireg := (replicate 32 0)[10 := min_signed, 11 := 2]\<rparr>))) 10 = - 1"
proof -
  let ?d = "decode_init\<lparr>dec_op := rv_op_mulh, dec_rd := 10, dec_rs1 := 10, dec_rs2 := 11\<rparr>"
  let ?p = "(proc_init demo_fenv (\<lambda>_. 0) :: (64, host_memory) processor)
    \<lparr>ireg := (replicate 32 0)[10 := min_signed, 11 := 2]\<rparr>"
  have "rv_op_mul \<le> dec_op ?d" "dec_op ?d \<le> rv_op_remu" "rvm (isa_all False True False)"
    by (simp_all add: isa_all_def)
  note exec_inst_mul_spec [OF this, of mmu_proxy_ops demo_hf 4 ?p mmu_proxy_ops
      demo_hf 4 "proc_init demo_fenv (\<lambda>_. 0)"]
  then show ?thesis
    by (simp add: get_reg_def set_rd_def spec_mul_def sint_min_signed nth_list_update)
qed

definition word_forms :: "(opcode \<times> opcode) list" where
  "word_forms = [(rv_op_mulw, rv_op_mul), (rv_op_divw, rv_op_div), (rv_op_divuw, rv_op_divu),
     (rv_op_remw, rv_op_rem), (rv_op_remuw, rv_op_remu)]"

lemma spec_mul_cases:
  fixes a b :: "'x::len word"
  shows "spec_mul rv_op_mul a b = a * b"
    and "spec_mul rv_op_div a b = (if a = min_signed \<and> b = - 1 then min_signed else if b = 0 then - 1
      else word_of_int (sint a sdiv sint b))"
    and "spec_mul rv_op_divu a b = (if b = 0 then - 1 else a div b)"
    and "spec_mul rv_op_rem a b = (if a = min_signed \<and> b = - 1 then 0 else if b = 0 then a
      else word_of_int (sint a smod sint b))"
    and "spec_mul rv_op_remu a b = (if b = 0 then a else a mod b)"
  using div_overflow [where 'x = 'x]
  by (auto simp: spec_mul_def signed_eq_0_iff unsigned_eq_0_iff word_div_def word_mod_def)

text \<open>
  The word forms of these instructions on RV64 are the 32-bit instructions applied to the
  low halves of the operands, with the result sign-extended.
\<close>

lemma exec_inst_mulw_spec:
  fixes p :: "(64, 'm, 'z) processor_scheme"
  assumes "(dec_op dec, opc) \<in> set word_forms" and "rvm cfg"
  shows "exec_inst_rv64 cfg ops hf dec off p = Ret off (set_rd dec
    (scast (spec_mul opc (ucast (get_reg p (dec_rs1 dec)) :: u32) (ucast (get_reg p (dec_rs2 dec))))) p)"
proof -
  have opc: "dec_op dec \<in> {72, 73, 74, 75, 76}" using assms(1) by (auto simp: word_forms_def)
  have none: "exec_ctrl cfg dec off p = None" "exec_mem cfg ops dec off p = None"
    "exec_op_imm cfg dec off p = None" "exec_op cfg dec off p = None"
    "exec_mem_64 cfg ops dec off p = None" "exec_shift_imm cfg dec off p = None"
    "exec_op_imm_w cfg dec off p = None" "exec_op_w cfg dec off p = None" "exec_mul cfg dec off p = None"
    using opc by (auto simp: exec_ctrl_def exec_mem_def exec_op_imm_def exec_op_def exec_mem_64_def
        exec_shift_imm_def exec_op_imm_w_def exec_op_w_def exec_mul_def)
  have "exec_mul_w cfg dec off p = Some (Ret off (set_rd dec
    (scast (spec_mul opc (ucast (get_reg p (dec_rs1 dec)) :: u32) (ucast (get_reg p (dec_rs2 dec))))) p))"
    using assms unfolding word_forms_def
    by (auto simp only: list.set insert_iff empty_iff prod.inject exec_mul_w_def when_ext_def Let_def
        spec_mul_cases if_True if_False) simp_all
  then show ?thesis by (simp add: exec_inst_rv64_def none)
qed

text \<open>Witness: \<open>divuw a0, a0, a1\<close> by zero.\<close>

lemma exec_inst_mulw_spec_example:
  "get_reg (final (exec_inst_rv64 (isa_all False True False) mmu_proxy_ops demo_hf
      (decode_init\<lparr>dec_op := rv_op_divuw, dec_rd := 10, dec_rs1 := 10, dec_rs2 := 11\<rparr>) 4
      (proc_init demo_fenv (\<lambda>_. 0)))) 10 = - 1"
proof -
  let ?d = "decode_init\<lparr>dec_op := rv_op_divuw, dec_rd := 10, dec_rs1 := 10, dec_rs2 := 11\<rparr>"
  have "(dec_op ?d, rv_op_divu) \<in> set word_forms" "rvm (isa_all False True False)"
    by (simp_all add: isa_all_def word_forms_def)
  note exec_inst_mulw_spec [OF this, of mmu_proxy_ops demo_hf 4
      "proc_init demo_fenv (\<lambda>_. 0) :: (64, host_memory) processor"]
  then show ?thesis
    by (simp add: get_reg_def set_rd_def spec_mul_def proc_init_def nth_list_update)
qed

section \<open>The register file\<close>

text \<open>
  C14.  Every instruction of the proxy emulator keeps the register file well formed, on RV64 and
  on RV32: there are 32 integer and 32 floating-point registers and \<open>x0\<close> is zero, whether the
  instruction returns or traps and whatever the arithmetic of the host does.
\<close>

theorem exec_inst_regs_ok:
  fixes p64 :: "(64, host_memory, 'z) processor_scheme" and p32 :: "(32, host_memory, 'y) processor_scheme"
  assumes "regs_ok p64" and "regs_ok p32"
  shows "regs_ok (final (exec_inst_rv64 cfg mmu_proxy_ops hf dec off p64)) \<and>
    regs_ok (final (exec_inst_rv32 cfg mmu_proxy_ops hf dec off' p32))"
  using regs_ok_exec_rv64 [OF proxy.mmu_interface_axioms assms(1)]
    regs_ok_exec_rv32 [OF proxy.mmu_interface_axioms assms(2)] by blast

text \<open>Witness: \<open>lw zero, 0(zero)\<close> in the initial state, with memory full of ones.\<close>

theorem exec_inst_regs_ok_witness:
  "regs_ok (final (exec_inst_rv64 (isa_all False True False) mmu_proxy_ops demo_hf
    (decode_init\<lparr>dec_op := rv_op_lw\<rparr>) 4 (proc_init demo_fenv (\<lambda>_. 0xff))))"
proof -
  have "regs_ok (proc_init demo_fenv (\<lambda>_. 0xff) :: (64, host_memory) processor)"
    "regs_ok (proc_init demo_fenv (\<lambda>_. 0xff) :: (32, host_memory) processor)" by simp_all
  from exec_inst_regs_ok [OF this] show ?thesis by simp
qed

section \<open>Control transfer\<close>

lemma and_not_one_shift:
  fixes x y :: "'a::len word"
  assumes "even y"
  shows "y + ((x - y) AND NOT 1) = x AND NOT 1"
proof -
  have clear: "z AND NOT 1 = z - (z AND 1)" for z :: "'a word"
  proof -
    have "(z AND NOT 1) AND (z AND 1) = 0" "(z AND NOT 1) OR (z AND 1) = z"
      by (auto intro!: bit_word_eqI simp: bit_simps)
    then have "(z AND NOT 1) + (z AND 1) = z" by (simp add: disjunctive_add_eq_or)
    then show ?thesis by (metis add_diff_cancel_right')
  qed
  have "even (x - y + y) \<longleftrightarrow> even (x - y)" using assms by (simp only: even_add simp_thms)
  then have "(x - y) AND 1 = x AND 1" by (simp only: diff_add_cancel and_one_eq mod2_eq_if)
  then show ?thesis unfolding clear by simp
qed

text \<open>
  \<open>jalr\<close> jumps to the sum of the base register and the offset with the lowest bit cleared,
  although the interpreter clears the bit of the distance and not of the target: this is right
  because the program counter is even.  The link register holds the address of the next
  instruction; if it is also the base register, the old value is used.
\<close>

lemma exec_jalr:
  fixes p :: "(64, 'm, 'z) processor_scheme"
  assumes "dec_op dec = rv_op_jalr" and "rvi cfg" and "even (pc p)" and "regs_ok p" and "dec_rd dec < 32"
  shows "\<exists>off' q. exec_inst_rv64 cfg ops hf dec off p = Ret off' q \<and>
    pc q + off' = (get_reg p (dec_rs1 dec) + scast (dec_imm dec)) AND NOT 1 \<and>
    get_reg q r = (if r = dec_rd dec \<and> r \<noteq> 0 then pc p + off else get_reg p r)"
proof -
  let ?a = "get_reg p (dec_rs1 dec) + scast (dec_imm dec)"
  have "exec_inst_rv64 cfg ops hf dec off p =
      Ret ((?a - pc p) AND NOT 1) (set_rd dec (pc p + off) p)"
    using assms(1,2) by (simp add: exec_inst_rv64_def exec_ctrl_def when_ext_def Let_def)
  then show ?thesis
    using and_not_one_shift [OF assms(3), of ?a] get_reg_set_rd [OF assms(4,5)] by simp
qed

text \<open>Witness: \<open>jalr ra, 7(ra)\<close> at address 0x1000 with \<open>ra = 0x2000\<close>.\<close>

lemma exec_jalr_example:
  "\<exists>off' q. exec_inst_rv64 (isa_all False True False) mmu_proxy_ops demo_hf
      (decode_init\<lparr>dec_op := rv_op_jalr, dec_rd := 1, dec_rs1 := 1, dec_imm := 7\<rparr>) 4
      ((proc_init demo_fenv (\<lambda>_. 0))\<lparr>pc := 0x1000, ireg := (replicate 32 0)[1 := 0x2000]\<rparr>) = Ret off' q \<and>
    pc q + off' = (0x2006 :: 64 word) \<and> get_reg q 1 = 0x1004"
proof -
  let ?d = "decode_init\<lparr>dec_op := rv_op_jalr, dec_rd := 1, dec_rs1 := 1, dec_imm := 7\<rparr>"
  let ?p = "(proc_init demo_fenv (\<lambda>_. 0) :: (64, host_memory) processor)
    \<lparr>pc := 0x1000, ireg := (replicate 32 0)[1 := 0x2000]\<rparr>"
  have "dec_op ?d = rv_op_jalr" "rvi (isa_all False True False)" "even (pc ?p)" "regs_ok ?p" "dec_rd ?d < 32"
    by (simp_all add: isa_all_def regs_ok_def)
  from exec_jalr [OF this, of mmu_proxy_ops demo_hf 4 1]
  show ?thesis by (simp add: get_reg_def nth_list_update)
qed

section \<open>Memory accesses\<close>

definition store_forms :: "(opcode \<times> nat) list" where
  "store_forms = [(rv_op_sb, 1), (rv_op_sh, 2), (rv_op_sw, 4), (rv_op_sd, 8)]"

definition load_forms :: "(opcode \<times> nat \<times> (u64 \<Rightarrow> u64)) list" where
  "load_forms =
    [(rv_op_lb, 1, \<lambda>v. scast (ucast v :: 8 word)), (rv_op_lbu, 1, \<lambda>v. ucast (ucast v :: 8 word)),
     (rv_op_lh, 2, \<lambda>v. scast (ucast v :: 16 word)), (rv_op_lhu, 2, \<lambda>v. ucast (ucast v :: 16 word)),
     (rv_op_lw, 4, \<lambda>v. scast (ucast v :: 32 word)), (rv_op_lwu, 4, \<lambda>v. ucast (ucast v :: 32 word)),
     (rv_op_ld, 8, \<lambda>v. v)]"

lemma exec_store_rv64:
  fixes p :: "(64, 'm, 'z) processor_scheme"
  assumes "(dec_op dec, n) \<in> set store_forms" and "rvi cfg"
  shows "exec_inst_rv64 cfg ops hf dec off p =
    bind_outcome (mmu_store ops n (get_reg p (dec_rs1 dec) + scast (dec_imm dec)) (get_reg p (dec_rs2 dec)) p)
      (\<lambda>_ q. Ret off q)"
  using assms by (auto simp: store_forms_def exec_inst_rv64_def exec_ctrl_def exec_mem_def exec_mem_64_def
      exec_op_imm_def exec_op_def when_ext_def)

lemma exec_load_rv64:
  fixes p :: "(64, 'm, 'z) processor_scheme"
  assumes "(dec_op dec, n, ext) \<in> set load_forms" and "rvi cfg"
  shows "exec_inst_rv64 cfg ops hf dec off p =
    bind_outcome (mmu_load ops n (get_reg p (dec_rs1 dec) + scast (dec_imm dec)) p)
      (\<lambda>t q. Ret off (set_rd dec (ext t) q))"
  using assms by (auto simp: load_forms_def exec_inst_rv64_def exec_ctrl_def exec_mem_def exec_mem_64_def
      exec_op_imm_def exec_op_def when_ext_def)

lemma ucast_take_bit: "ucast (take_bit n v) = (ucast v :: 'b::len word)" if "LENGTH('b) \<le> n"
  for v :: "'a::len word"
  using that by (auto intro!: bit_word_eqI simp: bit_simps)

lemma load_forms_take:
  assumes "(opc, n, ext) \<in> set load_forms"
  shows "ext (take_bit (8 * n) v) = ext v" and "n \<le> 8"
  using assms by (auto simp: load_forms_def ucast_take_bit take_bit_word_eq_self)

text \<open>
  C15.  A store followed by a load of the same size and address, in the proxy emulator on RV64,
  returns the stored bytes, sign-extended or zero-extended as the load says.
\<close>

theorem exec_store_load:
  fixes p :: "(64, host_memory, 'z) processor_scheme"
  assumes st: "(dec_op st, n) \<in> set store_forms" and ld: "(dec_op ld, n, ext) \<in> set load_forms"
    and "rvi cfg" and "dec_rs1 ld = dec_rs1 st" and "dec_imm ld = dec_imm st"
    and "regs_ok p" and "dec_rd ld < 32" and "dec_rd ld \<noteq> 0"
  shows "\<exists>q r. exec_inst_rv64 cfg mmu_proxy_ops hf st off p = Ret off q \<and>
    exec_inst_rv64 cfg mmu_proxy_ops hf ld off' q = Ret off' r \<and>
    get_reg r (dec_rd ld) = ext (get_reg p (dec_rs2 st))"
proof -
  let ?va = "get_reg p (dec_rs1 st) + scast (dec_imm st) :: u64"
  let ?v = "get_reg p (dec_rs2 st)"
  let ?q = "p\<lparr>mmu := write_bytes (mmu p) ?va n ?v\<rparr>"
  have "exec_inst_rv64 cfg mmu_proxy_ops hf st off p = Ret off ?q"
    by (simp add: exec_store_rv64 [OF st assms(3)] mmu_proxy_ops_def proxy_store_def)
  moreover have "get_reg ?q r = get_reg p r" for r by (simp add: get_reg_def)
  moreover have "mmu_load mmu_proxy_ops n ?va ?q = Ret (take_bit (8 * n) ?v) ?q"
    using proxy_load_store [of n ?va ?v p] load_forms_take(2) [OF ld]
    by (simp add: mmu_proxy_ops_def proxy_store_def)
  ultimately have "exec_inst_rv64 cfg mmu_proxy_ops hf ld off' ?q = Ret off' (set_rd ld (ext ?v) ?q)"
    by (simp add: exec_load_rv64 [OF ld assms(3)] assms(4,5) load_forms_take(1) [OF ld])
  moreover have "regs_ok ?q" using assms(6) by (simp add: regs_ok_def)
  note get_reg_set_rd [OF this assms(7), of "ext ?v" "dec_rd ld"]
  ultimately show ?thesis using assms(8) \<open>exec_inst_rv64 cfg mmu_proxy_ops hf st off p = Ret off ?q\<close> by simp
qed

text \<open>Witness: \<open>sb\<close> and \<open>lb\<close> of 0x80 at address 0x100.\<close>

theorem exec_store_load_witness:
  "\<exists>q r. exec_inst_rv64 (isa_all False True False) mmu_proxy_ops demo_hf
      (decode_init\<lparr>dec_op := rv_op_sb, dec_rs2 := 5, dec_imm := 0x100\<rparr>) 4
      ((proc_init demo_fenv (\<lambda>_. 0))\<lparr>ireg := (replicate 32 0)[5 := 0x80]\<rparr>) = Ret 4 q \<and>
    exec_inst_rv64 (isa_all False True False) mmu_proxy_ops demo_hf
      (decode_init\<lparr>dec_op := rv_op_lb, dec_rd := 6, dec_imm := 0x100\<rparr>) 4 q = Ret 4 r \<and>
    get_reg r 6 = - 0x80"
proof -
  let ?s = "decode_init\<lparr>dec_op := rv_op_sb, dec_rs2 := 5, dec_imm := 0x100\<rparr>"
  let ?l = "decode_init\<lparr>dec_op := rv_op_lb, dec_rd := 6, dec_imm := 0x100\<rparr>"
  let ?p = "(proc_init demo_fenv (\<lambda>_. 0) :: (64, host_memory) processor)\<lparr>ireg := (replicate 32 0)[5 := 0x80]\<rparr>"
  have "(dec_op ?s, 1) \<in> set store_forms" "(dec_op ?l, 1, \<lambda>v. scast (ucast v :: 8 word)) \<in> set load_forms"
    "rvi (isa_all False True False)" "dec_rs1 ?l = dec_rs1 ?s" "dec_imm ?l = dec_imm ?s" "regs_ok ?p"
    "dec_rd ?l < 32" "dec_rd ?l \<noteq> 0"
    by (simp_all add: store_forms_def load_forms_def isa_all_def regs_ok_def decode_init_def)
  from exec_store_load [OF this, of demo_hf 4 4]
  show ?thesis by (simp add: get_reg_def nth_list_update)
qed

section \<open>Atomic operations\<close>

lemma sint_scast_up: "sint (scast x :: u64) = sint x" for x :: s32
proof -
  have "- (2 ^ 63) \<le> sint x" "sint x < 2 ^ 63" using sint_ge [of x] sint_less [of x] by simp_all
  then have "sint (word_of_int (sint x) :: u64) = sint x"
    using sint_of_int_range [where 'a = 64, of "sint x"] by simp
  then show ?thesis by (metis scast_eq)
qed

lemma int_mod_up:
  "- m \<le> k \<Longrightarrow> k < m \<Longrightarrow> k mod m = k + (if k < 0 then m else 0)" for k m :: int
proof -
  assume "- m \<le> k" and "k < m"
  moreover have "(k + m) mod m = k + m" if "- m \<le> k" "k < 0"
    using that by (intro mod_pos_pos_trivial) auto
  ultimately show ?thesis by (auto simp: mod_pos_pos_trivial)
qed

lemma uint_sint_32: "uint x = sint x + (if sint x < 0 then 2 ^ 32 else 0)" for x :: s32
proof -
  have "uint x = sint x mod 2 ^ 32" by (simp add: uint_sint take_bit_eq_mod)
  also have "\<dots> = sint x + (if sint x < 0 then 2 ^ 32 else 0)"
    by (rule int_mod_up) (use sint_ge [of x] sint_less [of x] in simp_all)
  finally show ?thesis .
qed

lemma uint_scast_up: "uint (scast x :: u64) = uint x + (if sint x < 0 then 2 ^ 64 - 2 ^ 32 else 0)" for x :: s32
proof -
  have "uint (scast x :: u64) = sint x mod 2 ^ 64" unfolding scast_eq uint_word_of_int by simp
  also have "\<dots> = sint x + (if sint x < 0 then 2 ^ 64 else 0)"
    by (rule int_mod_up) (use sint_ge [of x] sint_less [of x] in simp_all)
  finally show ?thesis using uint_sint_32 [of x] by (simp only: split: if_splits) linarith+
qed

lemma scast_less_iff:
  fixes x y :: s32
  shows "(scast x :: u64) <s scast y \<longleftrightarrow> x <s y" and "(scast x :: u64) < scast y \<longleftrightarrow> x < y"
proof -
  show "(scast x :: u64) <s scast y \<longleftrightarrow> x <s y" by (simp add: word_sless_alt sint_scast_up)
  show "(scast x :: u64) < scast y \<longleftrightarrow> x < y"
    using sint_ge [of x] sint_less [of x] sint_ge [of y] sint_less [of y]
    by (auto simp: word_less_def uint_scast_up uint_sint_32)
qed

lemma ucast_scast_up:
  "ucast (scast x :: u64) = x" "ucast (scast x + scast y :: u64) = x + y"
  "ucast (scast x AND scast y :: u64) = x AND y" "ucast (scast x OR scast y :: u64) = x OR y"
  "ucast (scast x XOR scast y :: u64) = x XOR y" for x y :: s32
proof -
  show cancel: "ucast (scast x :: u64) = x" for x :: s32 by (auto intro!: bit_word_eqI simp: bit_simps)
  have "ucast (a + b) = (ucast a + ucast b :: s32)" for a b :: u64
  proof -
    have "ucast (word_of_int k :: u64) = (word_of_int k :: s32)" for k
      by (auto intro!: bit_word_eqI simp: bit_simps)
    then show ?thesis by (simp only: word_add_def [of a b] ucast_eq [of a] ucast_eq [of b] wi_hom_add)
  qed
  then show "ucast (scast x + scast y :: u64) = x + y" by (simp add: cancel)
  show "ucast (scast x AND scast y :: u64) = x AND y" "ucast (scast x OR scast y :: u64) = x OR y"
    "ucast (scast x XOR scast y :: u64) = x XOR y"
    by (auto intro!: bit_word_eqI simp: bit_simps)
qed

text \<open>
  The memory management unit computes 32-bit atomic operations on 64-bit registers with
  sign-extended operands; the value it stores is nevertheless the 32-bit operation on the 32-bit
  operands, for all nine operations, the unsigned minimum and maximum included.
\<close>

lemma amo_value_word:
  "ucast (amo_value 4 aop x y) = amo_fn aop (ucast x :: s32) (ucast y)"
  by (cases aop) (simp_all add: amo_value_def amomin_fn_def amomax_fn_def amominu_fn_def amomaxu_fn_def
      scast_less_iff ucast_scast_up)

text \<open>
  A successful store-conditional does not clear the reservation: executed a second time, it
  succeeds again, with no load-reserved in between.
\<close>

lemma exec_sc_again:
  fixes p :: "(64, host_memory, 'z) processor_scheme"
  assumes "dec_op dec = rv_op_sc_w \<or> dec_op dec = rv_op_sc_d" and "rva cfg"
    and "lr p = get_reg p (dec_rs1 dec)" and "regs_ok p"
    and "dec_rd dec < 32" and "dec_rd dec \<noteq> 0" and "dec_rd dec \<noteq> dec_rs1 dec"
  shows "\<exists>q r. exec_inst_rv64 cfg mmu_proxy_ops hf dec off p = Ret off q \<and> get_reg q (dec_rd dec) = 0 \<and>
    exec_inst_rv64 cfg mmu_proxy_ops hf dec off q = Ret off r \<and> get_reg r (dec_rd dec) = 0"
proof -
  let ?n = "if dec_op dec = rv_op_sc_w then 4 else 8 :: nat"
  have sc: "exec_inst_rv64 cfg mmu_proxy_ops hf dec off s = Ret off
      (set_rd dec 0 (s\<lparr>mmu := write_bytes (mmu s) (lr s) ?n (get_reg s (dec_rs2 dec))\<rparr>))"
    if "lr s = get_reg s (dec_rs1 dec)" for s :: "(64, host_memory, 'z) processor_scheme"
    using assms(1,2) that
    by (auto simp: exec_inst_rv64_def exec_ctrl_def exec_mem_def exec_mem_64_def exec_op_imm_def
        exec_op_def exec_shift_imm_def exec_op_imm_w_def exec_op_w_def exec_mul_def exec_mul_w_def
        exec_amo_w_def exec_amo_d_def when_ext_def mmu_proxy_ops_def proxy_store_def)
  let ?q = "set_rd dec 0 (p\<lparr>mmu := write_bytes (mmu p) (lr p) ?n (get_reg p (dec_rs2 dec))\<rparr>)"
  have zero: "get_reg (set_rd dec 0 s) (dec_rd dec) = 0"
    if "regs_ok s" for s :: "(64, host_memory, 'z) processor_scheme"
    using get_reg_set_rd [OF that assms(5), of 0 "dec_rd dec"] assms(6) by simp
  have upd: "regs_ok (s\<lparr>mmu := u\<rparr>) \<longleftrightarrow> regs_ok s" "get_reg (s\<lparr>mmu := u\<rparr>) r = get_reg s r" for u r s
    by (simp_all add: regs_ok_def get_reg_def)
  have "get_reg ?q (dec_rs1 dec) = get_reg p (dec_rs1 dec)"
    using assms(4,7) by (subst get_reg_set_rd) (auto simp: upd assms(5))
  then have "lr ?q = get_reg ?q (dec_rs1 dec)" using assms(3) by simp
  from sc [OF this] sc [OF assms(3)] show ?thesis using assms(4) by (simp add: zero upd)
qed

text \<open>Witness: \<open>sc.w t0, t1, (a0)\<close> with a reservation of the address 0x40 in \<open>a0\<close>.\<close>

lemma exec_sc_again_example:
  "\<exists>q r. exec_inst_rv64 (isa_all False True False) mmu_proxy_ops demo_hf
      (decode_init\<lparr>dec_op := rv_op_sc_w, dec_rd := 5, dec_rs1 := 10, dec_rs2 := 6\<rparr>) 4
      ((proc_init demo_fenv (\<lambda>_. 0))\<lparr>lr := 0x40, ireg := (replicate 32 0)[10 := 0x40, 5 := 7]\<rparr>) = Ret 4 q \<and>
    get_reg q 5 = 0 \<and>
    exec_inst_rv64 (isa_all False True False) mmu_proxy_ops demo_hf
      (decode_init\<lparr>dec_op := rv_op_sc_w, dec_rd := 5, dec_rs1 := 10, dec_rs2 := 6\<rparr>) 4 q = Ret 4 r \<and>
    get_reg r 5 = 0"
proof -
  let ?d = "decode_init\<lparr>dec_op := rv_op_sc_w, dec_rd := 5, dec_rs1 := 10, dec_rs2 := 6\<rparr>"
  let ?p = "(proc_init demo_fenv (\<lambda>_. 0) :: (64, host_memory) processor)
    \<lparr>lr := 0x40, ireg := (replicate 32 0)[10 := 0x40, 5 := 7]\<rparr>"
  have "dec_op ?d = rv_op_sc_w \<or> dec_op ?d = rv_op_sc_d" "rva (isa_all False True False)"
    "lr ?p = get_reg ?p (dec_rs1 ?d)" "regs_ok ?p" "dec_rd ?d < 32" "dec_rd ?d \<noteq> 0" "dec_rd ?d \<noteq> dec_rs1 ?d"
    by (simp_all add: isa_all_def get_reg_def regs_ok_def nth_list_update)
  from exec_sc_again [OF this, of demo_hf 4] show ?thesis by simp
qed

end
