(* ===== verification/Rv_Asm_Props.thy ===== *)
theory Rv_Asm_Props
  imports Rv_Asm_Laws Rv_Label_Laws Rv_Exec_Props
begin

text \<open>
  What the assembler promises: the emitters and the functions that assemble one instruction, the
  expansion of constants, and the relocation of calls, each down to what the decoder and the
  interpreter make of the bytes.
\<close>

section \<open>Emitters\<close>

text \<open>
  C7.  Every emitter but the three for \<open>csrrwi\<close>, \<open>csrrsi\<close> and \<open>csrrci\<close>: with operands in range it
  returns a word that decodes to its opcode and to the operands it was given, provided that offsets
  have the alignment the format assumes; with an operand out of range it returns the illegal
  instruction 0.
\<close>

theorem emit_disassembles:
  assumes "(op, args, f) \<in> set emitters" and "op_enabled cfg op" and "length xs = length args"
  shows "if list_all2 arg_valid args xs
    then list_all2 arg_aligned args xs \<longrightarrow> (\<exists>w. f xs = Some w \<and> dec_op (decode_inst cfg d0 w) = op \<and>
      map (\<lambda>a. arg_get a (decode_inst cfg d0 w)) args = xs)
    else f xs = Some 0"
  using emitter_decodes [OF assms] emitter_value [OF assms(1,3)] by (simp split: if_split) metis

text \<open>Witness: \<open>beq x5, x6, -8\<close>, and a register number that is too large.\<close>

theorem emit_disassembles_witness:
  "(\<exists>w. emit_addi 5 6 (- 8) = Some w \<and> dec_op (decode_inst rv64 decode_init w) = rv_op_addi \<and>
     map (\<lambda>a. arg_get a (decode_inst rv64 decode_init w)) [A_rd, A_rs1, A_simm 12 0] = [5, 6, - 8]) \<and>
   emit_addi 32 6 (- 8) = Some 0"
proof -
  have "list_all2 arg_valid [A_rd, A_rs1, A_simm 12 0] [5, 6, - 8]" "\<not> list_all2 arg_valid [A_rd, A_rs1, A_simm 12 0] [32, 6, - 8]"
    by (simp_all add: uimm_valid_def simm_valid_def)
  then show ?thesis
    using emit_disassembles [OF li_emitters(2) li_enabled(2), of "[5, 6, - 8]" decode_init]
      emit_disassembles [OF li_emitters(2) li_enabled(2), of "[32, 6, - 8]" decode_init] by simp
qed

text \<open>
  The emitters of \<open>csrrwi\<close>, \<open>csrrsi\<close> and \<open>csrrci\<close> assign the immediate twice, so the first one, the value
  for the register, is lost.
\<close>

lemma emit_csr_immediate_lost:
  assumes "uimm_valid 5 zimm"
  shows "emit_csrrwi rd zimm csr = emit_csrrwi rd 0 csr" and "emit_csrrsi rd zimm csr = emit_csrrsi rd 0 csr"
    and "emit_csrrci rd zimm csr = emit_csrrci rd 0 csr"
  using assms by (simp_all add: emit_csrrwi_def emit_csrrsi_def emit_csrrci_def uimm_valid_unat)

section \<open>Assembling instructions\<close>

lemma plain_ops: "table_check (\<lambda>op _. op = rv_op_illegal) 0 rv_inst_decomp_rv64 emitters"
  by code_simp

lemma emitter_plain: "(op, args, f) \<in> set emitters \<Longrightarrow> rv_inst_decomp_rv64 ! op = rv_op_illegal"
  using table_check_nth [OF plain_ops] by auto

text \<open>
  C8.  Assembling an instruction, for every assembler but those of \<open>csrrwi\<close>, \<open>csrrsi\<close> and \<open>csrrci\<close>: with valid operands,
  and offsets with the alignment the format assumes, the function appends four bytes to the current
  section, and fetching and decoding there, as the RV64 emulator does, gives the opcode and the
  operands; with an invalid operand it returns false and changes nothing.
\<close>

theorem asm_appends:
  assumes "(op, args, g) \<in> set assemblers" and "op_enabled rv64 op" and "length xs = length args"
    and "asm_ok a" and "length (cur_buf a) + 4 < 2 ^ 64"
  shows "if list_all2 arg_valid args xs
    then list_all2 arg_aligned args xs \<longrightarrow> (\<exists>w a'. g xs a = Some (True, a') \<and> cur_buf a' = cur_buf a @ le_bytes 4 w \<and>
      buf_fetch (cur_buf a') (of_nat (length (cur_buf a))) = Some (w, 4) \<and>
      dec_op (decode_inst_rv64 decode_init w) = op \<and>
      map (\<lambda>a. arg_get a (decode_inst_rv64 decode_init w)) args = xs)
    else g xs a = Some (False, a)"
proof -
  obtain f where f: "(op, args, f) \<in> set emitters" and g: "g xs a =
      (if list_all2 arg_valid args xs then map_option (\<lambda>w. (True, add_inst w a)) (f xs) else Some (False, a))"
    using assembler_emitter [OF assms(1)] assms(3) by metis
  have "\<exists>w a'. g xs a = Some (True, a') \<and> cur_buf a' = cur_buf a @ le_bytes 4 w \<and>
      buf_fetch (cur_buf a') (of_nat (length (cur_buf a))) = Some (w, 4) \<and>
      dec_op (decode_inst_rv64 decode_init w) = op \<and>
      map (\<lambda>a. arg_get a (decode_inst_rv64 decode_init w)) args = xs"
    if v: "list_all2 arg_valid args xs" "list_all2 arg_aligned args xs"
  proof -
    obtain w where w: "f xs = Some w" "inst_length w = 4" "w AND 0xffffffff = w"
      "dec_op (decoded w) = op" "map (\<lambda>a. arg_get a (decoded w)) args = xs"
      using emitter_decodes_rv64 [OF f assms(2) emitter_plain [OF f] assms(3) v] by blast
    let ?a = "push_back (le_bytes 4 w) a"
    have buf: "cur_buf ?a = cur_buf a @ le_bytes 4 w" using assms(4) by simp
    have "length (cur_buf ?a) < 2 ^ 64" unfolding buf using assms(5) by (simp add: le_bytes_4)
    then have "buf_fetch (cur_buf ?a) (of_nat (length (cur_buf a))) = Some (w, 4)"
      using word_at_fetch [OF word_at_append w(2,3)] by (simp add: buf)
    then show ?thesis using w v(1) buf by (intro exI [of _ w] exI [of _ ?a]) (simp add: g add_inst_word)
  qed
  then show ?thesis using g by simp
qed

text \<open>Witness: \<^verbatim>\<open>addi x5, x6, -8\<close> in a new assembler.\<close>

lemma asm_ok_init: "asm_ok assembler_init" "cur_buf assembler_init = []"
  by (simp_all add: assembler_init_def get_section_def asm_ok_def cur_buf_def)

lemma addi_assembler:
  "(rv_op_addi, [A_rd, A_rs1, A_simm 12 0], \<lambda>xs s. case xs of [a, b, c] \<Rightarrow> asm_addi a b c s | _ \<Rightarrow> None) \<in> set assemblers"
  by (simp add: assemblers_def)

theorem asm_appends_witness:
  "(\<exists>w a'. asm_addi 5 6 (- 8) assembler_init = Some (True, a') \<and> cur_buf a' = le_bytes 4 w \<and>
      buf_fetch (cur_buf a') 0 = Some (w, 4) \<and> dec_op (decode_inst_rv64 decode_init w) = rv_op_addi \<and>
      map (\<lambda>a. arg_get a (decode_inst_rv64 decode_init w)) [A_rd, A_rs1, A_simm 12 0] = [5, 6, - 8]) \<and>
   asm_addi 32 6 (- 8) assembler_init = Some (False, assembler_init)"
proof -
  have "list_all2 arg_valid [A_rd, A_rs1, A_simm 12 0] [5, 6, - 8]" "\<not> list_all2 arg_valid [A_rd, A_rs1, A_simm 12 0] [32, 6, - 8]"
    by (simp_all add: uimm_valid_def simm_valid_def)
  then show ?thesis
    using asm_appends [OF addi_assembler li_enabled(2), of "[5, 6, - 8]" assembler_init]
      asm_appends [OF addi_assembler li_enabled(2), of "[32, 6, - 8]" assembler_init] by (simp add: asm_ok_init)
qed

section \<open>Constants\<close>

text \<open>
  C9.  The expansion of a constant: \<^verbatim>\<open>load_imm\<close> returns for every value and every register but \<^verbatim>\<open>x0\<close>, it only
  appends whole instructions, and running them writes the register and nothing else.  The register
  holds the value when it is small or a power of two, and otherwise the value less an error: where
  the last part has bit 11 set, its upper part is not rounded, and the result is too small by \<open>2^12\<close>,
  shifted with that part.
\<close>

theorem load_imm_loads:
  assumes "uimm_valid 5 rd" and "rd \<noteq> 0" and "rvi cfg" and "asm_ok a" and "regs_ok p"
  shows "\<exists>ws. load_imm rd val a = Some (push_back (concat (map (le_bytes 4) ws)) a) \<and>
    run_words cfg ops hf ws p = Ret () (p\<lparr>ireg := (ireg p)[unat rd :=
      if - 2048 \<le> sint val \<and> sint val \<le> 2047 \<or> ispow2 val then val else val - imm_err val],
      pc := pc p + of_nat (4 * length ws)\<rparr>)"
  using load_imm_effect [OF assms(1-4), of val ops hf] assms(5) unfolding effect_def loaded_imm_def by blast

text \<open>Witness: \<^verbatim>\<open>li a0, 0x1234\<close> is right, and \<^verbatim>\<open>li a0, 0x1800\<close> loads \<open>0x800\<close>.\<close>

lemma imm_err_values: "imm_err 0x1234 = 0" "imm_err 0x1800 = 0x1000" "\<not> ispow2 0x1234" "\<not> ispow2 0x1800"
  by (simp_all add: imm_err.simps fits_lui_def ispow2_def)

theorem load_imm_loads_witness:
  "(\<exists>ws. load_imm 10 0x1234 assembler_init = Some (push_back (concat (map (le_bytes 4) ws)) assembler_init) \<and>
     run_words rv64 mmu_proxy_ops demo_hf ws (proc_init demo_fenv (\<lambda>_. 0)) =
       Ret () ((proc_init demo_fenv (\<lambda>_. 0))\<lparr>ireg := (replicate 32 0)[10 := 0x1234], pc := of_nat (4 * length ws)\<rparr>)) \<and>
   (\<exists>ws. load_imm 10 0x1800 assembler_init = Some (push_back (concat (map (le_bytes 4) ws)) assembler_init) \<and>
     run_words rv64 mmu_proxy_ops demo_hf ws (proc_init demo_fenv (\<lambda>_. 0)) =
       Ret () ((proc_init demo_fenv (\<lambda>_. 0))\<lparr>ireg := (replicate 32 0)[10 := 0x800], pc := of_nat (4 * length ws)\<rparr>))"
proof -
  have "uimm_valid 5 10" "rvi rv64" "(10 :: u64) \<noteq> 0" "regs_ok (proc_init demo_fenv (\<lambda>_. 0) :: (64, host_memory) processor)"
    by (simp_all add: uimm_valid_def isa_all_def)
  note load = load_imm_loads [OF this(1,3,2) asm_ok_init(1) this(4), where ops = mmu_proxy_ops and hf = demo_hf]
  show ?thesis using load [of "0x1234"] load [of "0x1800"] by (simp add: imm_err_values proc_init_def)
qed

section \<open>Relocation of calls\<close>

lemmas reloc_types = R_RISCV_32_def R_RISCV_64_def R_RISCV_BRANCH_def R_RISCV_JAL_def R_RISCV_CALL_def
  R_RISCV_PCREL_HI20_def R_RISCV_PCREL_LO12_I_def R_RISCV_PCREL_LO12_S_def R_RISCV_HI20_def R_RISCV_LO12_I_def R_RISCV_LO12_S_def

text \<open>
  C10.  A relocated call: when the linker has placed the sections and resolves an \<^verbatim>\<open>R_RISCV_CALL\<close> relocation
  at an \<^verbatim>\<open>auipc\<close> and the \<^verbatim>\<open>jalr\<close> after it, it succeeds and leaves two instructions in their place that jump
  from wherever they run by the distance between the relocation and the label, and write the return
  address to the link register, provided that the distance is even and below \<open>2^31 - 2^11\<close>.
\<close>

theorem relocated_call_jumps:
  fixes p :: "(64, 'm, 'z) processor_scheme"
  assumes r: "map_of (relocs_byoffset a) pos = Some r" "rela_type r = R_RISCV_CALL" "reloc_pos r = (of_nat s, of_nat off)"
    and l: "lookup_label r (reloc_name r) a = Some l" "fst (label_pos (label_objs a ! l)) \<noteq> SHN_ABS"
    and place: "label_offset (label_objs a ! l) a = Some target" "reloc_offset r a = Some source"
    and s: "s < length (asm_sections a)" "length (asm_sections a) < 2 ^ 64" "length (sec_buf (asm_sections a ! s)) < 2 ^ 64"
    and code: "emit_auipc rd 0 = Some v1" "emit_jalr rd2 rd 0 = Some v2"
      "word_at (sec_buf (asm_sections a ! s)) off v1" "word_at (sec_buf (asm_sections a ! s)) (off + 4) v2"
    and regs: "uimm_valid 5 rd" "rd \<noteq> 0" "uimm_valid 5 rd2"
    and dist: "- (2 ^ 31) \<le> sint (target - source)" "sint (target - source) < 2 ^ 31 - 2048" "even (target - source)"
    and exec: "rvi cfg" "regs_ok p"
  shows "\<exists>a' w1 w2 q. relocate pos a = Some (True, a') \<and>
    word_at (sec_buf (asm_sections a' ! s)) off w1 \<and> word_at (sec_buf (asm_sections a' ! s)) (off + 4) w2 \<and>
    run_words cfg ops hf [w1, w2] p = Ret () q \<and> pc q = pc p + (target - source) \<and>
    get_reg q (ucast rd2) = (if rd2 = 0 then 0 else pc p + 8)"
proof -
  let ?d = "target - source" and ?buf = "sec_buf (asm_sections a ! s)"
  note parts = offset_parts [OF dist(1,2)]
  obtain buf' w1 w2 where b: "apply_reloc (Call (upper_part ?d) (lower_part ?d)) target (of_nat off) ?buf = Some buf'"
    "word_at buf' off w1" "word_at buf' (off + 4) w2"
    "emit_auipc rd (scast (upper_part ?d)) = Some w1" "emit_jalr rd2 rd (scast (lower_part ?d)) = Some w2"
    by (rule apply_call [OF regs(1,3) code s(3) parts(2,3), of target])
  have ix: "unat (of_nat s :: u64) = s" using s(1,2) by (simp add: unat_of_nat take_bit_nat_eq_self)
  define a' where "a' = a\<lparr>relocs_byoffset := map_put pos (r\<lparr>reloc_name := label_name (label_objs a ! l)\<rparr>) (relocs_byoffset a),
    asm_sections := (asm_sections a)[s := (asm_sections a ! s)\<lparr>sec_buf := buf'\<rparr>]\<rparr>"
  have ty: "rela_type r \<noteq> R_RISCV_PCREL_LO12_I" "rela_type r \<noteq> R_RISCV_PCREL_LO12_S"
    "reloc_imm (rela_type r) target source = Call (upper_part ?d) (lower_part ?d)"
    by (simp_all add: r(2) reloc_imm_def reloc_types)
  have place': "label_offset (label_objs a ! l) (a\<lparr>relocs_byoffset := m\<rparr>) = Some target"
    "reloc_offset r (a\<lparr>relocs_byoffset := m\<rparr>) = Some source" for m
    using place by (simp_all add: label_offset_def reloc_offset_def final_offset_def split: if_splits)
  have "relocate pos a = Some (True, a')"
    using r(1,3) l ty b(1) place' ix by (simp add: relocate_def a'_def Let_def)
  moreover have "sec_buf (asm_sections a' ! s) = buf'" using s(1) by (simp add: a'_def)
  moreover have "\<exists>q. run_words cfg ops hf [w1, w2] p = Ret () q \<and> pc q = pc p + ?d \<and>
      get_reg q (ucast rd2) = (if rd2 = 0 then 0 else pc p + 8)"
    using run_call [OF regs b(4,5) simm_from_range [OF parts(2)] simm_from_range(1) [OF parts(3)] exec] dist(3)
    unfolding parts(1) by blast
  ultimately show ?thesis using b(2,3) by blast
qed

text \<open>
  Witness: a label \<^verbatim>\<open>f\<close>, a \<^verbatim>\<open>nop\<close> and a call of \<^verbatim>\<open>f\<close> through \<^verbatim>\<open>x6\<close>: run at \<open>0x1000\<close>, the call jumps to \<open>0xffc\<close>,
  the place of the \<^verbatim>\<open>nop\<close>.
\<close>

definition demo_call :: assembler where
  "demo_call = append_32 0x300e7 (append_32 0x317 (snd (add_reloc ''f'' R_RISCV_CALL
    (append_32 0x13 (snd (add_label ''f'' assembler_init))))))"

lemma demo_call_words: "emit_auipc 6 0 = Some 0x317" "emit_jalr 1 6 0 = Some 0x300e7"
  by code_simp+

lemma demo_call_state:
  "map_of (relocs_byoffset demo_call) (1, 4) = Some \<lparr>reloc_pos = (1, 4), reloc_name = ''f'', rela_type = R_RISCV_CALL\<rparr>"
  "lookup_label \<lparr>reloc_pos = (1, 4), reloc_name = ''f'', rela_type = R_RISCV_CALL\<rparr> ''f'' demo_call = Some 0"
  "label_objs demo_call ! 0 = \<lparr>label_name = ''f'', label_pos = (1, 0), label_num = 0\<rparr>"
  "label_offset (label_objs demo_call ! 0) demo_call = Some 0"
  "reloc_offset \<lparr>reloc_pos = (1, 4), reloc_name = ''f'', rela_type = R_RISCV_CALL\<rparr> demo_call = Some 4"
  "length (asm_sections demo_call) = 2" "length (sec_buf (asm_sections demo_call ! 1)) = 12"
  "word_at (sec_buf (asm_sections demo_call ! 1)) 4 0x317" "word_at (sec_buf (asm_sections demo_call ! 1)) 8 0x300e7"
  by code_simp+

theorem relocated_call_jumps_witness:
  "\<exists>a' w1 w2 q. relocate (1, 4) demo_call = Some (True, a') \<and>
    word_at (sec_buf (asm_sections a' ! 1)) 4 w1 \<and> word_at (sec_buf (asm_sections a' ! 1)) 8 w2 \<and>
    run_words rv64 mmu_proxy_ops demo_hf [w1, w2] ((proc_init demo_fenv (\<lambda>_. 0))\<lparr>pc := 0x1000\<rparr>) = Ret () q \<and>
    pc q = 0xffc \<and> get_reg q 1 = 0x1008"
proof -
  let ?p = "(proc_init demo_fenv (\<lambda>_. 0) :: (64, host_memory) processor)\<lparr>pc := 0x1000\<rparr>"
  have "uimm_valid 5 6" "uimm_valid 5 1" "rvi rv64" "regs_ok ?p"
    by (simp_all add: uimm_valid_def isa_all_def regs_ok_def proc_init_def)
  with relocated_call_jumps [where a = demo_call and pos = "(1, 4)" and s = 1 and off = 4 and l = 0 and target = 0
      and source = 4 and rd = 6 and ?rd2.0 = 1 and cfg = rv64 and p = ?p and ops = mmu_proxy_ops and hf = demo_hf,
      OF demo_call_state(1) _ _ _ _ demo_call_state(4) _ _ _ _ demo_call_words]
  show ?thesis by (simp add: demo_call_state [simplified] SHN_ABS_def)
qed

section \<open>Labels\<close>

text \<open>
  C11.  Local labels: \<^verbatim>\<open>lookup_label_f\<close> returns the nearest label with the number after the relocation, and
  \<^verbatim>\<open>lookup_label_b\<close> the nearest one at or before it; each returns null only when there is none.
\<close>

theorem local_label_nearest:
  assumes "labels_ok a"
  shows "(case lookup_label_f r num a of
      Some l \<Rightarrow> label_num (label_objs a ! l) = num \<and> reloc_pos r < label_pos (label_objs a ! l) \<and>
        (\<forall>(pos, i) \<in> set (labels_byoffset a). label_num (label_objs a ! i) = num \<longrightarrow> reloc_pos r < pos \<longrightarrow>
           label_pos (label_objs a ! l) \<le> pos)
    | None \<Rightarrow> \<forall>(pos, i) \<in> set (labels_byoffset a). label_num (label_objs a ! i) = num \<longrightarrow> pos \<le> reloc_pos r) \<and>
   (case lookup_label_b r num a of
      Some l \<Rightarrow> label_num (label_objs a ! l) = num \<and> label_pos (label_objs a ! l) \<le> reloc_pos r \<and>
        (\<forall>(pos, i) \<in> set (labels_byoffset a). label_num (label_objs a ! i) = num \<longrightarrow> pos \<le> reloc_pos r \<longrightarrow>
           pos \<le> label_pos (label_objs a ! l))
    | None \<Rightarrow> \<forall>(pos, i) \<in> set (labels_byoffset a). label_num (label_objs a ! i) = num \<longrightarrow> reloc_pos r < pos)"
    (is "?F \<and> ?B")
proof
  let ?es = "labels_byoffset a"
  note ok = labels_okD(3-5) [OF assms]
  let ?P = "\<lambda>e. reloc_pos r < fst e \<and> label_num (label_objs a ! snd e) = num"
  have f: "lookup_label_f r num a = map_option snd (List.find ?P ?es)"
    by (simp add: lookup_label_f_def find_forward_eq [OF ok(3)])
  show ?F
  proof (cases "List.find ?P ?es")
    case None
    have "pos \<le> reloc_pos r" if "(pos, i) \<in> set ?es" "label_num (label_objs a ! i) = num" for pos i
    proof (rule ccontr)
      assume "\<not> pos \<le> reloc_pos r"
      then have "?P (pos, i)" using that(2) by simp
      then show False using None that(1) unfolding find_None_iff by blast
    qed
    then show ?thesis unfolding f None by (simp split: prod.split) blast
  next
    case (Some e)
    note e = find_least [OF ok(3) Some]
    have "label_pos (label_objs a ! snd e) = fst e" using e(1) ok(2) [of "fst e" "snd e"] by simp
    then show ?thesis unfolding f Some using e(2) e(3) by fastforce
  qed
next
  let ?es = "labels_byoffset a"
  note ok = labels_okD(3-5) [OF assms]
  let ?m = "filter (\<lambda>e. fst e \<le> reloc_pos r \<and> label_num (label_objs a ! snd e) = num) ?es"
  have b: "lookup_label_b r num a = (if ?m = [] then None else Some (snd (last ?m)))"
    by (simp add: lookup_label_b_def find_backward_eq [OF ok(3)] Let_def)
  show ?B
  proof (cases "?m = []")
    case True
    then show ?thesis unfolding b by (auto simp: filter_empty_conv not_le)
  next
    case False
    then have l: "last ?m \<in> set ?m" by (rule last_in_set)
    have "label_pos (label_objs a ! snd (last ?m)) = fst (last ?m)" using l ok(2) [of "fst (last ?m)" "snd (last ?m)"] by simp
    then show ?thesis
      unfolding b using l False last_greatest [OF sorted_filter_keys [OF ok(3)] False] by fastforce
  qed
qed

text \<open>Witness: two labels \<^verbatim>\<open>1:\<close> with a relocation between them.\<close>

definition demo_labels :: assembler where
  "demo_labels = snd (the (add_label_num 1 (append_32 0x13 (append_32 0x13 (snd (the (add_label_num 1 assembler_init)))))))"

lemma demo_labels_ok: "labels_ok demo_labels"
proof -
  obtain l a where a: "add_label_num 1 assembler_init = Some (l, a)" "labels_ok a"
    using add_label_num_ok [OF labels_ok_init] by metis
  then obtain m b where "add_label_num 1 (append_32 0x13 (append_32 0x13 a)) = Some (m, b)" "labels_ok b"
    using add_label_num_ok [of "append_32 0x13 (append_32 0x13 a)" 1] by auto
  then show ?thesis using a(1) by (simp add: demo_labels_def)
qed

lemma demo_lookups:
  "lookup_label_f \<lparr>reloc_pos = (1, 4), reloc_name = ''1f'', rela_type = R_RISCV_JAL\<rparr> 1 demo_labels = Some 1"
  "lookup_label_b \<lparr>reloc_pos = (1, 4), reloc_name = ''1b'', rela_type = R_RISCV_JAL\<rparr> 1 demo_labels = Some 0"
  by code_simp+

theorem local_label_nearest_witness:
  "(1, 4) < label_pos (label_objs demo_labels ! 1) \<and> label_pos (label_objs demo_labels ! 0) \<le> (1, 4)"
  using local_label_nearest [OF demo_labels_ok, of 1 "\<lparr>reloc_pos = (1, 4), reloc_name = ''1f'', rela_type = R_RISCV_JAL\<rparr>"]
    local_label_nearest [OF demo_labels_ok, of 1 "\<lparr>reloc_pos = (1, 4), reloc_name = ''1b'', rela_type = R_RISCV_JAL\<rparr>"]
  by (simp add: demo_lookups)

text \<open>
  C12.  A numbered label: the search for a free name ends, so \<^verbatim>\<open>add_label\<close> always makes a new label with the
  number, at the current position, under a name no label had; the other labels stay, and the tables
  stay well formed.
\<close>

theorem add_label_num_fresh:
  assumes "labels_ok a"
  shows "\<exists>name a'. add_label_num num a = Some (Some (length (label_objs a)), a') \<and> labels_byname a name = None \<and>
    lookup_label_name name a' = Some (length (label_objs a)) \<and>
    label_objs a' = label_objs a @ [\<lparr>label_name = name, label_pos = current_offset a, label_num = num\<rparr>] \<and> labels_ok a'"
  by (rule add_label_num_new [OF assms])

text \<open>Witness: the first label \<^verbatim>\<open>7:\<close> of a new assembler.\<close>

theorem add_label_num_fresh_witness:
  "\<exists>name a'. add_label_num 7 assembler_init = Some (Some 0, a') \<and>
    label_objs a' = [\<lparr>label_name = name, label_pos = (1, 0), label_num = 7\<rparr>] \<and> labels_ok a'"
  using add_label_num_fresh [OF labels_ok_init, of 7]
  by (auto simp: assembler_init_def get_section_def current_offset_def cur_buf_def)

end
