(* ===== verification/Rv_X86.thy ===== *)
theory Rv_X86
  imports Rv_Memory "HOL-Library.Signed_Division"
begin

text \<open>
  The host machine of the just-in-time compiler: the x86-64 instructions that
  \<^verbatim>\<open>src/src/jit/jit-emitter-rv64.h\<close> asks its assembler for, as the architecture defines them.  An operand
  is a register, a place in the processor structure addressed through \<^verbatim>\<open>rbp\<close> (a guest register, the
  program counter, the trap cause), guest memory or an immediate.  Flags are kept only after \<^verbatim>\<open>cmp\<close>
  and \<^verbatim>\<open>test\<close>; after any other instruction that changes them they are unknown, and a jump on unknown flags
  has no result.  Operands that no encoding has (two places in memory, different sizes, an immediate
  that does not fit) and divide errors have no result either.

  The architecture has no \<^verbatim>\<open>movzx\<close> from 32 bits, which the emitter asks for in some forms of \<^verbatim>\<open>zext.w\<close> and \<^verbatim>\<open>addiw.z\<close>; it
  has no result, since what the assembler, which is not part of the sources, makes of it is not known.
\<close>

section \<open>Operands and instructions\<close>

datatype width = B | W | D | Q

datatype x86_operand =
    Reg width nat           \<comment> \<open>\<open>x86::gpq(r)\<close>, \<open>x86::gpd(r)\<close>, \<open>x86::al\<close>\<close>
  | Slot width nat          \<comment> \<open>\<open>rbp_reg_q(r)\<close>, \<open>rbp_reg_d(r)\<close>\<close>
  | Pc_slot                 \<comment> \<open>\<open>qword_ptr(rbp, proc_offset(pc))\<close>\<close>
  | Cause_slot              \<comment> \<open>\<open>qword_ptr(rbp, proc_offset(cause))\<close>\<close>
  | Mem width nat u64       \<comment> \<open>\<open>qword_ptr(base, displacement)\<close>\<close>
  | Imm u64

datatype alu_op = ADD | SUB | LAND | LOR | LXOR | IMUL
datatype shift_op = SHL | SHR | SAR
datatype cond = E | NE | L | GE | Below | AE | NS

text \<open>
  Labels: of the function that emits, of the end of the trace, of a guest address within the trace, of the
  trampolines, and addresses of other code.
\<close>

datatype x86_label = Local nat | Start | Term | Return | Trace u64 | Jmp_tramp u64 | Exit_tramp u64 | Code u64 | Lookup

datatype x86_inst =
    Mov x86_operand x86_operand | Movsxd x86_operand x86_operand | Movsx x86_operand x86_operand | Movzx x86_operand x86_operand
  | Alu alu_op x86_operand x86_operand | Shift shift_op x86_operand x86_operand | Neg x86_operand
  | Imul1 x86_operand | Mul1 x86_operand | Div1 x86_operand | Idiv1 x86_operand | Cdq | Cqo
  | Cmp x86_operand x86_operand | Test x86_operand x86_operand | Set cond x86_operand
  | Lea_disp x86_operand nat u64 | Lea_index x86_operand nat nat
  | Jcc cond x86_label | Jmp x86_label | Bind x86_label | Call string

record x86_flags =
  zf :: bool
  sf :: bool
  cf :: bool
  ovf :: bool

record x86 =
  gpr :: "nat \<Rightarrow> u64"
  slots :: "nat \<Rightarrow> u64"
  pc_slot :: u64
  cause_slot :: u64
  eflags :: "x86_flags option"
  guest :: host_memory

section \<open>Reading and writing\<close>

primrec bits :: "width \<Rightarrow> nat" where
  "bits B = 8" | "bits W = 16" | "bits D = 32" | "bits Q = 64"

primrec size_of :: "x86_operand \<Rightarrow> width option" where
  "size_of (Reg w r) = Some w"
| "size_of (Slot w r) = Some w"
| "size_of Pc_slot = Some Q"
| "size_of Cause_slot = Some Q"
| "size_of (Mem w b d) = Some w"
| "size_of (Imm v) = None"

primrec in_memory :: "x86_operand \<Rightarrow> bool" where
  "in_memory (Reg w r) = False"
| "in_memory (Slot w r) = True"
| "in_memory Pc_slot = True"
| "in_memory Cause_slot = True"
| "in_memory (Mem w b d) = True"
| "in_memory (Imm v) = False"

primrec read_op :: "x86_operand \<Rightarrow> x86 \<Rightarrow> u64" where
  "read_op (Reg w r) s = take_bit (bits w) (gpr s r)"
| "read_op (Slot w r) s = take_bit (bits w) (slots s r)"
| "read_op Pc_slot s = pc_slot s"
| "read_op Cause_slot s = cause_slot s"
| "read_op (Mem w b d) s = read_bytes (guest s) (gpr s b + d) (bits w div 8)"
| "read_op (Imm v) s = v"

definition merge :: "width \<Rightarrow> u64 \<Rightarrow> u64 \<Rightarrow> u64" where
  "merge w old v = (case w of Q \<Rightarrow> v | _ \<Rightarrow> (old AND NOT (mask (bits w))) OR take_bit (bits w) v)"

text \<open>Writing the lower half of a register clears the upper half; narrower writes keep the rest.\<close>

primrec write_op :: "x86_operand \<Rightarrow> u64 \<Rightarrow> x86 \<Rightarrow> x86 option" where
  "write_op (Reg w r) v s =
    Some (s\<lparr>gpr := (gpr s)(r := if w = D then take_bit 32 v else merge w (gpr s r) v)\<rparr>)"
| "write_op (Slot w r) v s = Some (s\<lparr>slots := (slots s)(r := merge w (slots s r) v)\<rparr>)"
| "write_op Pc_slot v s = Some (s\<lparr>pc_slot := v\<rparr>)"
| "write_op Cause_slot v s = Some (s\<lparr>cause_slot := v\<rparr>)"
| "write_op (Mem w b d) v s = Some (s\<lparr>guest := write_bytes (guest s) (gpr s b + d) (bits w div 8) v\<rparr>)"
| "write_op (Imm i) v s = None"

section \<open>Well-formed operands\<close>

definition fits :: "width \<Rightarrow> u64 \<Rightarrow> bool" where
  "fits w v \<longleftrightarrow> - (2 ^ 31) \<le> sint v \<and> sint v < (if w = Q then 2 ^ 31 else 2 ^ 32)"

definition operands_ok :: "x86_operand \<Rightarrow> x86_operand \<Rightarrow> bool" where
  "operands_ok a b \<longleftrightarrow> \<not> (in_memory a \<and> in_memory b) \<and>
    (case size_of a of
       None \<Rightarrow> False
     | Some w \<Rightarrow> (case b of Imm v \<Rightarrow> fits w v | _ \<Rightarrow> size_of b = Some w))"

definition mov_ok :: "x86_operand \<Rightarrow> x86_operand \<Rightarrow> bool" where
  "mov_ok a b \<longleftrightarrow> operands_ok a b \<or> (case (a, b) of (Reg w r, Imm v) \<Rightarrow> w = Q | _ \<Rightarrow> False)"

section \<open>Arithmetic\<close>

primrec alu :: "alu_op \<Rightarrow> 'a::len word \<Rightarrow> 'a word \<Rightarrow> 'a word" where
  "alu ADD a b = a + b"
| "alu SUB a b = a - b"
| "alu LAND a b = a AND b"
| "alu LOR a b = a OR b"
| "alu LXOR a b = a XOR b"
| "alu IMUL a b = a * b"

primrec shift :: "shift_op \<Rightarrow> nat \<Rightarrow> 'a::len word \<Rightarrow> 'a word" where
  "shift SHL n a = push_bit n a"
| "shift SHR n a = drop_bit n a"
| "shift SAR n a = signed_drop_bit n a"

definition cmp_flags :: "'a::len word \<Rightarrow> 'a word \<Rightarrow> x86_flags" where
  "cmp_flags a b = \<lparr>zf = (a - b = 0), sf = (sint (a - b) < 0), cf = (a < b), ovf = (sint (a - b) \<noteq> sint a - sint b)\<rparr>"

definition test_flags :: "'a::len word \<Rightarrow> x86_flags" where
  "test_flags a = \<lparr>zf = (a = 0), sf = (sint a < 0), cf = False, ovf = False\<rparr>"

primrec holds :: "cond \<Rightarrow> x86_flags \<Rightarrow> bool" where
  "holds E f \<longleftrightarrow> zf f"
| "holds NE f \<longleftrightarrow> \<not> zf f"
| "holds L f \<longleftrightarrow> sf f \<noteq> ovf f"
| "holds GE f \<longleftrightarrow> sf f = ovf f"
| "holds Below f \<longleftrightarrow> cf f"
| "holds AE f \<longleftrightarrow> \<not> cf f"
| "holds NS f \<longleftrightarrow> \<not> sf f"

definition low32 :: "u64 \<Rightarrow> u32" where "low32 v = ucast v"

definition smash :: "x86 \<Rightarrow> x86" where "smash s = s\<lparr>eflags := None\<rparr>"

text \<open>The upper half of a sign extension.\<close>

definition sign_fill :: "'a::len word \<Rightarrow> 'a word" where
  "sign_fill a = (if sint a < 0 then - 1 else 0)"

text \<open>The division of the double-width \<^verbatim>\<open>rdx:rax\<close>: quotient and remainder, or an error.\<close>

definition idiv_words :: "'a::len word \<Rightarrow> 'a word \<Rightarrow> 'a word \<Rightarrow> ('a word \<times> 'a word) option" where
  "idiv_words hi lo b =
    (let n = sint hi * 2 ^ LENGTH('a) + uint lo;
         q = n sdiv sint b
     in if b = 0 \<or> q < - (2 ^ (LENGTH('a) - 1)) \<or> 2 ^ (LENGTH('a) - 1) \<le> q then None
        else Some (word_of_int q, word_of_int (n smod sint b)))"

definition div_words :: "'a::len word \<Rightarrow> 'a word \<Rightarrow> 'a word \<Rightarrow> ('a word \<times> 'a word) option" where
  "div_words hi lo b =
    (let n = uint hi * 2 ^ LENGTH('a) + uint lo;
         q = n div uint b
     in if b = 0 \<or> 2 ^ LENGTH('a) \<le> q then None else Some (word_of_int q, word_of_int (n mod uint b)))"

abbreviation (input) "rax \<equiv> 0 :: nat"
abbreviation (input) "rcx \<equiv> 1 :: nat"
abbreviation (input) "rdx \<equiv> 2 :: nat"

definition divide :: "width option \<Rightarrow> (u64 \<Rightarrow> u64 \<Rightarrow> u64 \<Rightarrow> (u64 \<times> u64) option) \<Rightarrow>
    (u32 \<Rightarrow> u32 \<Rightarrow> u32 \<Rightarrow> (u32 \<times> u32) option) \<Rightarrow> u64 \<Rightarrow> x86 \<Rightarrow> x86 option" where
  "divide w f64 f32 v s =
    (if w = Some Q then
       map_option (\<lambda>(q, r). smash (s\<lparr>gpr := (gpr s)(rax := q, rdx := r)\<rparr>)) (f64 (gpr s rdx) (gpr s rax) v)
     else if w = Some D then
       map_option (\<lambda>(q, r). smash (s\<lparr>gpr := (gpr s)(rax := ucast q, rdx := ucast r)\<rparr>))
         (f32 (low32 (gpr s rdx)) (low32 (gpr s rax)) (low32 v))
     else None)"

section \<open>Execution\<close>

primrec exec_x86 :: "x86_inst \<Rightarrow> x86 \<Rightarrow> x86 option" where
  "exec_x86 (Mov a b) s = (if mov_ok a b then write_op a (read_op b s) s else None)"
| "exec_x86 (Movsxd a b) s =
    (if size_of a = Some Q \<and> size_of b = Some D \<and> \<not> in_memory a then write_op a (scast (low32 (read_op b s))) s else None)"
| "exec_x86 (Movsx a b) s =
    (if size_of a = Some Q \<and> \<not> in_memory a \<and> size_of b = Some W then write_op a (scast (ucast (read_op b s) :: u16)) s
     else if size_of a = Some Q \<and> \<not> in_memory a \<and> size_of b = Some B then write_op a (scast (ucast (read_op b s) :: u8)) s
     else None)"
| "exec_x86 (Movzx a b) s =
    (case (size_of a, size_of b) of
       (Some v, Some w) \<Rightarrow> if \<not> in_memory a \<and> bits w < bits v \<and> w \<noteq> D then write_op a (read_op b s) s else None
     | _ \<Rightarrow> None)"
| "exec_x86 (Alu f a b) s =
    (if operands_ok a b then
       (if size_of a = Some Q then write_op a (alu f (read_op a s) (read_op b s)) (smash s)
        else if size_of a = Some D
        then write_op a (ucast (alu f (low32 (read_op a s)) (low32 (read_op b s)))) (smash s)
        else None)
     else None)"
| "exec_x86 (Shift f a b) s =
    (if (case b of Reg w r \<Rightarrow> w = B \<and> r = rcx | Imm v \<Rightarrow> True | _ \<Rightarrow> False) then
       (if size_of a = Some Q then write_op a (shift f (unat (read_op b s AND 0x3f)) (read_op a s)) (smash s)
        else if size_of a = Some D
        then write_op a (ucast (shift f (unat (read_op b s AND 0x1f)) (low32 (read_op a s)))) (smash s)
        else None)
     else None)"
| "exec_x86 (Neg a) s =
    (if size_of a = Some Q then write_op a (- read_op a s) (smash s)
     else if size_of a = Some D then write_op a (ucast (- low32 (read_op a s))) (smash s)
     else None)"
| "exec_x86 (Imul1 a) s =
    (if size_of a = Some Q then
       (let p = sint (gpr s rax) * sint (read_op a s)
        in Some (smash (s\<lparr>gpr := (gpr s)(rax := word_of_int p, rdx := word_of_int (p div 2 ^ 64))\<rparr>)))
     else None)"
| "exec_x86 (Mul1 a) s =
    (if size_of a = Some Q then
       (let p = uint (gpr s rax) * uint (read_op a s)
        in Some (smash (s\<lparr>gpr := (gpr s)(rax := word_of_int p, rdx := word_of_int (p div 2 ^ 64))\<rparr>)))
     else None)"
| "exec_x86 (Div1 a) s = divide (size_of a) div_words div_words (read_op a s) s"
| "exec_x86 (Idiv1 a) s = divide (size_of a) idiv_words idiv_words (read_op a s) s"
| "exec_x86 Cdq s =
    Some (s\<lparr>gpr := (gpr s)(rdx := ucast (sign_fill (low32 (gpr s rax))))\<rparr>)"
| "exec_x86 Cqo s = Some (s\<lparr>gpr := (gpr s)(rdx := sign_fill (gpr s rax))\<rparr>)"
| "exec_x86 (Cmp a b) s =
    (if operands_ok a b then
       (if size_of a = Some Q then Some (s\<lparr>eflags := Some (cmp_flags (read_op a s) (read_op b s))\<rparr>)
        else if size_of a = Some D
        then Some (s\<lparr>eflags := Some (cmp_flags (low32 (read_op a s)) (low32 (read_op b s)))\<rparr>)
        else None)
     else None)"
| "exec_x86 (Test a b) s =
    (if operands_ok a b then
       (if size_of a = Some Q then Some (s\<lparr>eflags := Some (test_flags (read_op a s AND read_op b s))\<rparr>)
        else if size_of a = Some D
        then Some (s\<lparr>eflags := Some (test_flags (low32 (read_op a s AND read_op b s)))\<rparr>)
        else None)
     else None)"
| "exec_x86 (Set c a) s =
    (case eflags s of
       None \<Rightarrow> None
     | Some f \<Rightarrow> if size_of a = Some B then write_op a (of_bool (holds c f)) s else None)"
| "exec_x86 (Lea_disp a b d) s =
    (if size_of a \<in> {Some D, Some Q} \<and> \<not> in_memory a then write_op a (gpr s b + d) s else None)"
| "exec_x86 (Lea_index a b i) s =
    (if size_of a \<in> {Some D, Some Q} \<and> \<not> in_memory a then write_op a (gpr s b + gpr s i) s else None)"
| "exec_x86 (Jcc c l) s = None"
| "exec_x86 (Jmp l) s = None"
| "exec_x86 (Bind l) s = Some s"
| "exec_x86 (Call f) s = None"

text \<open>
  Running code: a jump goes forward to its label; if the label is not ahead, the code is left with it.
  The result is the label it was left with, or \<open>None\<close> at the end of the code.
\<close>

primrec after :: "x86_label \<Rightarrow> x86_inst list \<Rightarrow> x86_inst list option" where
  "after l [] = None"
| "after l (i # is) = (if i = Bind l then Some is else after l is)"

lemma after_shorter: "after l is = Some js \<Longrightarrow> length js < length is"
  by (induction "is") (auto split: if_splits)

function run_x86 :: "x86_inst list \<Rightarrow> x86 \<Rightarrow> (x86_label option \<times> x86) option" where
  "run_x86 [] s = Some (None, s)"
| "run_x86 (i # is) s =
    (case i of
       Jmp l \<Rightarrow> (case after l is of None \<Rightarrow> Some (Some l, s) | Some js \<Rightarrow> run_x86 js s)
     | Jcc c l \<Rightarrow>
         (case eflags s of
            None \<Rightarrow> None
          | Some f \<Rightarrow>
              if holds c f then (case after l is of None \<Rightarrow> Some (Some l, s) | Some js \<Rightarrow> run_x86 js s)
              else run_x86 is s)
     | _ \<Rightarrow> (case exec_x86 i s of None \<Rightarrow> None | Some s \<Rightarrow> run_x86 is s))"
  by pat_completeness auto

termination
  by (relation "measure (\<lambda>(is, s). length is)") (auto dest: after_shorter intro: less_SucI)

section \<open>Composition of code\<close>

lemma after_append: "after l is = Some js \<Longrightarrow> after l (is @ ks) = Some (js @ ks)"
  by (induction "is") auto

lemma run_x86_step:
  assumes "\<And>l. i \<noteq> Jmp l" and "\<And>c l. i \<noteq> Jcc c l"
  shows "run_x86 (i # is) s = (case exec_x86 i s of None \<Rightarrow> None | Some s \<Rightarrow> run_x86 is s)"
proof (cases i)
  case (Jcc c l)
  then show ?thesis using assms(2) by blast
next
  case (Jmp l)
  then show ?thesis using assms(1) by blast
qed (simp_all del: exec_x86.simps)

lemma run_x86_append:
  "run_x86 is s = Some (None, t) \<Longrightarrow> run_x86 (is @ js) s = run_x86 js t"
proof (induction "length is" arbitrary: "is" s rule: less_induct)
  case less
  show ?case
  proof (cases "is")
    case (Cons i ks)
    consider (jmp) l where "i = Jmp l" | (jcc) c l where "i = Jcc c l" | (step) "\<And>l. i \<noteq> Jmp l" "\<And>c l. i \<noteq> Jcc c l"
      by blast
    then show ?thesis
    proof cases
      case jmp
      then show ?thesis
        using less Cons by (auto split: option.splits simp: after_append dest: after_shorter)
    next
      case jcc
      then show ?thesis
        using less Cons by (auto split: option.splits if_splits simp: after_append dest: after_shorter)
    next
      case step
      show ?thesis
        using less Cons unfolding Cons append_Cons run_x86_step [OF step] by (auto split: option.splits)
    qed
  qed (use less in simp)
qed

lemma after_append_None: "after l is = None \<Longrightarrow> after l (is @ ks) = after l ks"
  by (induction "is") (auto split: if_splits)

text \<open>Code left with a label goes on at the label if it is ahead in what follows.\<close>

lemma run_x86_exit:
  "run_x86 is s = Some (Some l, t) \<Longrightarrow>
    run_x86 (is @ js) s = (case after l js of None \<Rightarrow> Some (Some l, t) | Some ks \<Rightarrow> run_x86 ks t)"
proof (induction "length is" arbitrary: "is" s rule: less_induct)
  case less
  show ?case
  proof (cases "is")
    case (Cons i ks)
    consider (jmp) l where "i = Jmp l" | (jcc) c l where "i = Jcc c l" | (step) "\<And>l. i \<noteq> Jmp l" "\<And>c l. i \<noteq> Jcc c l"
      by blast
    then show ?thesis
    proof cases
      case jmp
      then show ?thesis
        using less Cons by (auto split: option.splits simp: after_append after_append_None dest: after_shorter)
    next
      case jcc
      then show ?thesis
        using less Cons by (auto split: option.splits if_splits simp: after_append after_append_None dest: after_shorter)
    next
      case step
      show ?thesis
        using less Cons unfolding Cons append_Cons run_x86_step [OF step] by (auto split: option.splits)
    qed
  qed (use less in simp)
qed

end
