(* ===== verification/Rv_Jit.thy ===== *)
theory Rv_Jit
  imports Rv_X86 Rv_Codec
begin

text \<open>
  The emitters of the just-in-time compiler for RV64, \<^verbatim>\<open>src/src/jit/jit-emitter-rv64.h\<close>: for each
  instruction the list of x86-64 instructions it asks the assembler for.  Twelve guest registers live
  in host registers, the others in the processor structure.  \<^verbatim>\<open>newLabel\<close> within one function is a local label;
  labels of one function are bound in it, after the jumps to them.
\<close>

section \<open>Decoded instructions\<close>

record jit_decode = decode +
  jit_pc :: u64
  jit_inst :: u64
  jit_sz :: "4 word"

text \<open>The host register of a guest register, 0 for \<^verbatim>\<open>x0\<close> and negative for one in memory.\<close>

definition x86_reg :: "u8 \<Rightarrow> int" where
  "x86_reg rd =
    (if rd = 0 then 0
     else if rd = 1 then 2
     else if rd = 2 then 3
     else if rd = 5 then 6
     else if rd = 6 then 7
     else if rd = 10 then 8
     else if rd = 11 then 9
     else if rd = 12 then 10
     else if rd = 13 then 11
     else if rd = 14 then 12
     else if rd = 15 then 13
     else if rd = 16 then 14
     else if rd = 17 then 15
     else - 1)"

text \<open>The constructor clears this, and nothing sets it.\<close>

definition use_mmu :: bool where "use_mmu \<longleftrightarrow> False"

named_theorems jit_defs \<open>the emitters\<close>

section \<open>Moves\<close>

definition jit_emit_pc :: "u64 \<Rightarrow> x86_inst list" where
  "jit_emit_pc new_pc =
    (if new_pc < 0xffffffff then [Mov Pc_slot (Imm new_pc)]
     else [Mov (Reg Q 0) (Imm new_pc), Mov Pc_slot (Reg Q 0)])"

definition jit_sx_32_rd :: "jit_decode \<Rightarrow> x86_inst list" where [jit_defs]:
  "jit_sx_32_rd d =
    (let rdx = x86_reg (dec_rd d) in
     (if 0 < rdx then [Movsxd (Reg Q (nat rdx)) (Reg D (nat rdx))]
     else [Movsxd (Reg Q 1) (Slot D (unat (dec_rd d))), Mov (Slot Q (unat (dec_rd d))) (Reg Q 1)]))"

definition jit_zero_rd :: "jit_decode \<Rightarrow> x86_inst list" where [jit_defs]:
  "jit_zero_rd d =
    (let rdx = x86_reg (dec_rd d) in
     (if 0 < rdx then [Alu LXOR (Reg D (nat rdx)) (Reg D (nat rdx))]
     else [Mov (Slot Q (unat (dec_rd d))) (Imm (0))]))"

definition jit_mv_rax_rs1 :: "jit_decode \<Rightarrow> x86_inst list" where [jit_defs]:
  "jit_mv_rax_rs1 d =
    (let rs1x = x86_reg (dec_rs1 d) in
     (if 0 < rs1x then [Mov (Reg Q 0) (Reg Q (nat rs1x))]
     else [Mov (Reg Q 0) (Slot Q (unat (dec_rs1 d)))]))"

definition jit_mv_rd_rs1 :: "jit_decode \<Rightarrow> x86_inst list" where [jit_defs]:
  "jit_mv_rd_rs1 d =
    (if dec_rd d = dec_rs1 d then []
     else (let rdx = x86_reg (dec_rd d); rs1x = x86_reg (dec_rs1 d) in
       (if 0 < rdx then (if 0 < rs1x then [Mov (Reg Q (nat rdx)) (Reg Q (nat rs1x))]
           else [Mov (Reg Q (nat rdx)) (Slot Q (unat (dec_rs1 d)))])
       else if 0 < rs1x then [Mov (Slot Q (unat (dec_rd d))) (Reg Q (nat rs1x))]
       else [Mov (Reg Q 0) (Slot Q (unat (dec_rs1 d))), Mov (Slot Q (unat (dec_rd d))) (Reg Q 0)])))"

definition jit_mv_rd_rs1_32 :: "jit_decode \<Rightarrow> x86_inst list" where [jit_defs]:
  "jit_mv_rd_rs1_32 d =
    (if dec_rd d = dec_rs1 d then []
     else (let rdx = x86_reg (dec_rd d); rs1x = x86_reg (dec_rs1 d) in
       (if 0 < rdx then (if 0 < rs1x then [Mov (Reg D (nat rdx)) (Reg D (nat rs1x))]
           else [Mov (Reg D (nat rdx)) (Slot D (unat (dec_rs1 d)))])
       else if 0 < rs1x then [Mov (Slot D (unat (dec_rd d))) (Reg D (nat rs1x))]
       else [Mov (Reg D 0) (Slot D (unat (dec_rs1 d))), Mov (Slot D (unat (dec_rd d))) (Reg D 0)])))"

definition jit_mv_rd_rs2 :: "jit_decode \<Rightarrow> x86_inst list" where [jit_defs]:
  "jit_mv_rd_rs2 d =
    (if dec_rd d = dec_rs2 d then []
     else (let rdx = x86_reg (dec_rd d); rs2x = x86_reg (dec_rs2 d) in
       (if 0 < rdx then (if 0 < rs2x then [Mov (Reg Q (nat rdx)) (Reg Q (nat rs2x))]
           else [Mov (Reg Q (nat rdx)) (Slot Q (unat (dec_rs2 d)))])
       else if 0 < rs2x then [Mov (Slot Q (unat (dec_rd d))) (Reg Q (nat rs2x))]
       else [Mov (Reg Q 0) (Slot Q (unat (dec_rs2 d))), Mov (Slot Q (unat (dec_rd d))) (Reg Q 0)])))"

definition jit_mv_rd_rs1_sx_32 :: "jit_decode \<Rightarrow> x86_inst list" where [jit_defs]:
  "jit_mv_rd_rs1_sx_32 d =
    (let rdx = x86_reg (dec_rd d); rs1x = x86_reg (dec_rs1 d) in
     (if 0 < rdx then (if 0 < rs1x then [Movsxd (Reg Q (nat rdx)) (Reg D (nat rs1x))]
         else [Movsxd (Reg Q (nat rdx)) (Slot D (unat (dec_rs1 d)))])
     else if 0 < rs1x then [Movsxd (Reg Q 0) (Reg D (nat rs1x)), Mov (Slot Q (unat (dec_rd d))) (Reg Q 0)]
     else [Movsxd (Reg Q 0) (Slot D (unat (dec_rs1 d))), Mov (Slot Q (unat (dec_rd d))) (Reg Q 0)]))"

definition jit_mv_rd_rs2_sx_32 :: "jit_decode \<Rightarrow> x86_inst list" where [jit_defs]:
  "jit_mv_rd_rs2_sx_32 d =
    (let rdx = x86_reg (dec_rd d); rs2x = x86_reg (dec_rs2 d) in
     (if 0 < rdx then (if 0 < rs2x then [Movsxd (Reg Q (nat rdx)) (Reg D (nat rs2x))]
         else [Mov (Reg Q (nat rdx)) (Slot D (unat (dec_rs2 d)))])
     else if 0 < rs2x then [Movsxd (Reg Q 0) (Reg D (nat rs2x)), Mov (Slot Q (unat (dec_rd d))) (Reg Q 0)]
     else [Movsxd (Reg Q 0) (Slot D (unat (dec_rs2 d))), Mov (Slot Q (unat (dec_rd d))) (Reg Q 0)]))"

definition jit_mv_cl_rs2 :: "jit_decode \<Rightarrow> x86_inst list" where [jit_defs]:
  "jit_mv_cl_rs2 d =
    (let rs2x = x86_reg (dec_rs2 d) in
     (if 0 < rs2x then [Mov (Reg D 1) (Reg D (nat rs2x))]
     else [Mov (Reg D 1) (Slot D (unat (dec_rs2 d)))]))"

section \<open>Arithmetic and logic\<close>

definition jit_auipc :: "jit_decode \<Rightarrow> x86_inst list" where [jit_defs]:
  "jit_auipc d =
    (let rdx = x86_reg (dec_rd d) in
     (if dec_rd d = 0 then []
     else if 0 < rdx then [Mov (Reg Q (nat rdx)) (Imm (jit_pc d + scast (dec_imm d)))]
     else [Mov (Slot Q (unat (dec_rd d))) (Imm (jit_pc d + scast (dec_imm d)))]))"

definition jit_add :: "jit_decode \<Rightarrow> x86_inst list" where [jit_defs]:
  "jit_add d =
    (let rdx = x86_reg (dec_rd d); rs1x = x86_reg (dec_rs1 d); rs2x = x86_reg (dec_rs2 d) in
     (if dec_rd d = 0 then []
     else if dec_rs1 d = 0 then jit_mv_rd_rs2 d
     else if dec_rs2 d = 0 then jit_mv_rd_rs1 d
     else if dec_rd d = dec_rs1 d then (if 0 < rdx then (if 0 < rs2x then [Alu ADD (Reg Q (nat rdx)) (Reg Q (nat rs2x))]
             else [Alu ADD (Reg Q (nat rdx)) (Slot Q (unat (dec_rs2 d)))])
         else if 0 < rs2x then [Alu ADD (Slot Q (unat (dec_rd d))) (Reg Q (nat rs2x))]
         else [Mov (Reg Q 0) (Slot Q (unat (dec_rs2 d))), Alu ADD (Slot Q (unat (dec_rd d))) (Reg Q 0)])
     else if dec_rd d = dec_rs2 d then (if 0 < rdx then (if 0 < rs1x then [Alu ADD (Reg Q (nat rdx)) (Reg Q (nat rs1x))]
             else [Alu ADD (Reg Q (nat rdx)) (Slot Q (unat (dec_rs1 d)))])
         else if 0 < rs1x then [Alu ADD (Slot Q (unat (dec_rd d))) (Reg Q (nat rs1x))]
         else [Mov (Reg Q 0) (Slot Q (unat (dec_rs1 d))), Alu ADD (Slot Q (unat (dec_rd d))) (Reg Q 0)])
     else if 0 < rdx \<and> 0 < rs1x \<and> 0 < rs2x then [Lea_index (Reg Q (nat rdx)) (nat rs1x) (nat rs2x)]
     else if rdx < 0 \<and> (rs1x < 0 \<or> rs2x < 0) then (jit_mv_rax_rs1 d
         @ (if 0 < rs2x then [Alu ADD (Reg Q 0) (Reg Q (nat rs2x))]
         else [Alu ADD (Reg Q 0) (Slot Q (unat (dec_rs2 d)))])
         @ [Mov (Slot Q (unat (dec_rd d))) (Reg Q 0)])
     else (jit_mv_rd_rs1 d
         @ (if 0 < rdx then (if 0 < rs2x then [Alu ADD (Reg Q (nat rdx)) (Reg Q (nat rs2x))]
             else [Alu ADD (Reg Q (nat rdx)) (Slot Q (unat (dec_rs2 d)))])
         else [Alu ADD (Slot Q (unat (dec_rd d))) (Reg Q (nat rs2x))]))))"

definition jit_sub :: "jit_decode \<Rightarrow> x86_inst list" where [jit_defs]:
  "jit_sub d =
    (let rdx = x86_reg (dec_rd d); rs1x = x86_reg (dec_rs1 d); rs2x = x86_reg (dec_rs2 d) in
     (if dec_rd d = 0 then []
     else if dec_rs1 d = 0 then (jit_mv_rd_rs2 d
         @ (if 0 < rdx then [Neg (Reg Q (nat rdx))]
         else [Neg (Slot Q (unat (dec_rd d)))]))
     else if dec_rs2 d = 0 then jit_mv_rd_rs1 d
     else if dec_rd d = dec_rs1 d then (if 0 < rdx then (if 0 < rs2x then [Alu SUB (Reg Q (nat rdx)) (Reg Q (nat rs2x))]
             else [Alu SUB (Reg Q (nat rdx)) (Slot Q (unat (dec_rs2 d)))])
         else if 0 < rs2x then [Alu SUB (Slot Q (unat (dec_rd d))) (Reg Q (nat rs2x))]
         else [Mov (Reg Q 0) (Slot Q (unat (dec_rs2 d))), Alu SUB (Slot Q (unat (dec_rd d))) (Reg Q 0)])
     else if dec_rd d = dec_rs2 d then ((if 0 < rdx then (if 0 < rs1x then [Alu SUB (Reg Q (nat rdx)) (Reg Q (nat rs1x))]
             else [Alu SUB (Reg Q (nat rdx)) (Slot Q (unat (dec_rs1 d)))])
         else if 0 < rs1x then [Alu SUB (Slot Q (unat (dec_rd d))) (Reg Q (nat rs1x))]
         else [Mov (Reg Q 0) (Slot Q (unat (dec_rs1 d))), Alu SUB (Slot Q (unat (dec_rd d))) (Reg Q 0)])
         @ (if 0 < rdx then [Neg (Reg Q (nat rdx))]
         else [Neg (Slot Q (unat (dec_rd d)))]))
     else if rdx < 0 \<and> (rs1x < 0 \<or> rs2x < 0) then (jit_mv_rax_rs1 d
         @ (if 0 < rs2x then [Alu SUB (Reg Q 0) (Reg Q (nat rs2x))]
         else [Alu SUB (Reg Q 0) (Slot Q (unat (dec_rs2 d)))])
         @ [Mov (Slot Q (unat (dec_rd d))) (Reg Q 0)])
     else (jit_mv_rd_rs1 d
         @ (if 0 < rdx then (if 0 < rs2x then [Alu SUB (Reg Q (nat rdx)) (Reg Q (nat rs2x))]
             else [Alu SUB (Reg Q (nat rdx)) (Slot Q (unat (dec_rs2 d)))])
         else [Alu SUB (Slot Q (unat (dec_rd d))) (Reg Q (nat rs2x))]))))"

definition jit_mul :: "jit_decode \<Rightarrow> x86_inst list" where [jit_defs]:
  "jit_mul d =
    (let rdx = x86_reg (dec_rd d); rs1x = x86_reg (dec_rs1 d); rs2x = x86_reg (dec_rs2 d) in
     (if dec_rd d = 0 then []
     else if dec_rs1 d = 0 \<or> dec_rs2 d = 0 then jit_zero_rd d
     else if dec_rd d = dec_rs1 d \<and> 0 < rdx then (if 0 < rs2x then [Alu IMUL (Reg Q (nat rdx)) (Reg Q (nat rs2x))]
         else [Alu IMUL (Reg Q (nat rdx)) (Slot Q (unat (dec_rs2 d)))])
     else if dec_rd d = dec_rs2 d \<and> 0 < rdx then (if 0 < rs1x then [Alu IMUL (Reg Q (nat rdx)) (Reg Q (nat rs1x))]
         else [Alu IMUL (Reg Q (nat rdx)) (Slot Q (unat (dec_rs1 d)))])
     else if rdx < 0 then (jit_mv_rax_rs1 d
         @ (if 0 < rs2x then [Alu IMUL (Reg Q 0) (Reg Q (nat rs2x))]
         else [Alu IMUL (Reg Q 0) (Slot Q (unat (dec_rs2 d)))])
         @ [Mov (Slot Q (unat (dec_rd d))) (Reg Q 0)])
     else (jit_mv_rd_rs1 d
         @ (if 0 < rs2x then [Alu IMUL (Reg Q (nat rdx)) (Reg Q (nat rs2x))]
         else [Alu IMUL (Reg Q (nat rdx)) (Slot Q (unat (dec_rs2 d)))]))))"

definition jit_mulh :: "jit_decode \<Rightarrow> x86_inst list" where [jit_defs]:
  "jit_mulh d =
    (let rdx = x86_reg (dec_rd d); rs2x = x86_reg (dec_rs2 d) in
     (if dec_rd d = 0 then []
     else if dec_rs1 d = 0 \<or> dec_rs2 d = 0 then jit_zero_rd d
     else ((if rdx \<noteq> 2 then [Mov (Slot Q 1) (Reg Q 2)]
         else [])
         @ jit_mv_rax_rs1 d
         @ (if 0 < rs2x then [Imul1 (Reg Q (nat rs2x))]
         else [Mov (Reg Q 1) (Slot Q (unat (dec_rs2 d))), Imul1 (Reg Q 1)])
         @ (if 0 < rdx then (if rdx \<noteq> 2 then [Mov (Reg Q (nat rdx)) (Reg Q 2)]
             else [])
         else [Mov (Slot Q (unat (dec_rd d))) (Reg Q 2)])
         @ (if rdx \<noteq> 2 then [Mov (Reg Q 2) (Slot Q 1)]
         else []))))"

definition jit_mulhu :: "jit_decode \<Rightarrow> x86_inst list" where [jit_defs]:
  "jit_mulhu d =
    (let rdx = x86_reg (dec_rd d); rs2x = x86_reg (dec_rs2 d) in
     (if dec_rd d = 0 then []
     else if dec_rs1 d = 0 \<or> dec_rs2 d = 0 then jit_zero_rd d
     else ((if rdx \<noteq> 2 then [Mov (Slot Q 1) (Reg Q 2)]
         else [])
         @ jit_mv_rax_rs1 d
         @ (if 0 < rs2x then [Mul1 (Reg Q (nat rs2x))]
         else [Mov (Reg Q 1) (Slot Q (unat (dec_rs2 d))), Mul1 (Reg Q 1)])
         @ (if 0 < rdx then (if rdx \<noteq> 2 then [Mov (Reg Q (nat rdx)) (Reg Q 2)]
             else [])
         else [Mov (Slot Q (unat (dec_rd d))) (Reg Q 2)])
         @ (if rdx \<noteq> 2 then [Mov (Reg Q 2) (Slot Q 1)]
         else []))))"

definition jit_mulhsu :: "jit_decode \<Rightarrow> x86_inst list" where [jit_defs]:
  "jit_mulhsu d =
    (let rdx = x86_reg (dec_rd d); rs1x = x86_reg (dec_rs1 d); rs2x = x86_reg (dec_rs2 d) in
     (if dec_rd d = 0 then []
     else if dec_rs1 d = 0 \<or> dec_rs2 d = 0 then jit_zero_rd d
     else ((if rdx \<noteq> 2 \<or> (rs1x = 2 \<or> rs2x = 2 ) then [Mov (Slot Q 1) (Reg Q 2)]
         else [])
         @ jit_mv_rax_rs1 d
         @ [Test (Reg Q 0) (Reg Q 0), Jcc NS (Local 0), Neg (Reg Q 0)]
         @ (if 0 < rs2x then [Mul1 (Reg Q (nat rs2x))]
         else [Mov (Reg Q 1) (Slot Q (unat (dec_rs2 d))), Mul1 (Reg Q 1)])
         @ [Alu LXOR (Reg Q 2) (Imm (- 1)), Mov (Reg Q 1) (Reg Q 2)]
         @ (if rs1x = 2 \<or> rs2x = 2 then [Mov (Reg Q 2) (Slot Q 1)]
         else [])
         @ jit_mv_rax_rs1 d
         @ (if 0 < rs2x then [Alu IMUL (Reg Q 0) (Reg Q (nat rs2x))]
         else [Alu IMUL (Reg Q 0) (Slot Q (unat (dec_rs2 d)))])
         @ [Test (Reg Q 0) (Reg Q 0), Set E (Reg B 2), Movzx (Reg D 2) (Reg B 2), Lea_index (Reg Q 2) 2 1, Jmp (Local 1), Bind (Local 0)]
         @ (if 0 < rs2x then [Mul1 (Reg Q (nat rs2x))]
         else [Mov (Reg Q 1) (Slot Q (unat (dec_rs2 d))), Mul1 (Reg Q 1)])
         @ [Bind (Local 1)]
         @ (if 0 < rdx then (if rdx \<noteq> 2 then [Mov (Reg Q (nat rdx)) (Reg Q 2)]
             else [])
         else [Mov (Slot Q (unat (dec_rd d))) (Reg Q 2)])
         @ (if rdx \<noteq> 2 then [Mov (Reg Q 2) (Slot Q 1)]
         else []))))"

definition jit_div :: "jit_decode \<Rightarrow> x86_inst list" where [jit_defs]:
  "jit_div d =
    (let rdx = x86_reg (dec_rd d); rs1x = x86_reg (dec_rs1 d); rs2x = x86_reg (dec_rs2 d) in
     (if dec_rd d = 0 then []
     else if dec_rs2 d = 0 then (if 0 < rdx then [Mov (Reg Q (nat rdx)) (Imm (- 1))]
         else [Mov (Slot Q (unat (dec_rd d))) (Imm (- 1))])
     else if dec_rs1 d = 0 then jit_zero_rd d
     else ([Mov (Reg Q 0) (Imm 0x8000000000000000)]
         @ (if 0 < rs1x then [Cmp (Reg Q (nat rs1x)) (Reg Q 0)]
         else [Cmp (Slot Q (unat (dec_rs1 d))) (Reg Q 0)])
         @ [Jcc NE (Local 1)]
         @ (if 0 < rs2x then [Cmp (Reg Q (nat rs2x)) (Imm (- 1))]
         else [Cmp (Slot Q (unat (dec_rs2 d))) (Imm (- 1))])
         @ [Jcc E (Local 0), Bind (Local 1)]
         @ (if 0 < rs2x then [Test (Reg Q (nat rs2x)) (Reg Q (nat rs2x))]
         else [Cmp (Slot Q (unat (dec_rs2 d))) (Imm (0))])
         @ [Jcc NE (Local 2), Mov (Reg Q 0) (Imm (- 1)), Jmp (Local 0), Bind (Local 2)]
         @ jit_mv_rax_rs1 d
         @ (if rdx \<noteq> 2 then [Mov (Reg Q 1) (Reg Q 2)]
         else [])
         @ [Cqo]
         @ (if 0 < rs2x then [Idiv1 (Reg Q (nat rs2x))]
         else [Idiv1 (Slot Q (unat (dec_rs2 d)))])
         @ (if rdx \<noteq> 2 then [Mov (Reg Q 2) (Reg Q 1)]
         else [])
         @ [Bind (Local 0)]
         @ (if 0 < rdx then [Mov (Reg Q (nat rdx)) (Reg Q 0)]
         else [Mov (Slot Q (unat (dec_rd d))) (Reg Q 0)]))))"

definition jit_rem :: "jit_decode \<Rightarrow> x86_inst list" where [jit_defs]:
  "jit_rem d =
    (let rdx = x86_reg (dec_rd d); rs1x = x86_reg (dec_rs1 d); rs2x = x86_reg (dec_rs2 d) in
     (if dec_rd d = 0 then []
     else if dec_rs2 d = 0 then (if 0 < rdx then [Mov (Reg Q (nat rdx)) (Imm (- 1))]
         else [Mov (Slot Q (unat (dec_rd d))) (Imm (- 1))])
     else if dec_rs1 d = 0 then jit_zero_rd d
     else ((if rdx \<noteq> 2 then [Mov (Reg Q 1) (Reg Q 2)]
         else [])
         @ [Mov (Reg Q 0) (Imm 0x8000000000000000)]
         @ (if 0 < rs1x then [Cmp (Reg Q (nat rs1x)) (Reg Q 0)]
         else [Cmp (Slot Q (unat (dec_rs1 d))) (Reg Q 0)])
         @ [Jcc NE (Local 1), Alu LXOR (Reg D 2) (Reg D 2)]
         @ (if 0 < rs2x then [Cmp (Reg Q (nat rs2x)) (Imm (- 1))]
         else [Cmp (Slot Q (unat (dec_rs2 d))) (Imm (- 1))])
         @ [Jcc E (Local 0), Bind (Local 1)]
         @ jit_mv_rax_rs1 d
         @ (if 0 < rs2x then [Test (Reg Q (nat rs2x)) (Reg Q (nat rs2x))]
         else [Cmp (Slot Q (unat (dec_rs2 d))) (Imm (0))])
         @ [Jcc NE (Local 2), Mov (Reg Q 2) (Reg Q 0), Jmp (Local 0), Bind (Local 2), Cqo]
         @ (if 0 < rs2x then [Idiv1 (Reg Q (nat rs2x))]
         else [Idiv1 (Slot Q (unat (dec_rs2 d)))])
         @ [Bind (Local 0)]
         @ (if 0 < rdx then (if rdx \<noteq> 2 then [Mov (Reg Q (nat rdx)) (Reg Q 2)]
             else [])
         else [Mov (Slot Q (unat (dec_rd d))) (Reg Q 2)])
         @ (if rdx \<noteq> 2 then [Mov (Reg Q 2) (Reg Q 1)]
         else []))))"

definition jit_divu :: "jit_decode \<Rightarrow> x86_inst list" where [jit_defs]:
  "jit_divu d =
    (let rdx = x86_reg (dec_rd d); rs2x = x86_reg (dec_rs2 d) in
     (if dec_rd d = 0 then []
     else if dec_rs2 d = 0 then (if 0 < rdx then [Mov (Reg Q (nat rdx)) (Imm (- 1))]
         else [Mov (Slot Q (unat (dec_rd d))) (Imm (- 1))])
     else if dec_rs1 d = 0 then jit_zero_rd d
     else ((if 0 < rs2x then [Test (Reg Q (nat rs2x)) (Reg Q (nat rs2x))]
         else [Cmp (Slot Q (unat (dec_rs2 d))) (Imm (0))])
         @ [Jcc NE (Local 1), Mov (Reg Q 0) (Imm (- 1)), Jmp (Local 0), Bind (Local 1)]
         @ jit_mv_rax_rs1 d
         @ (if rdx \<noteq> 2 then [Mov (Reg Q 1) (Reg Q 2)]
         else [])
         @ [Alu LXOR (Reg Q 2) (Reg Q 2)]
         @ (if 0 < rs2x then [Div1 (Reg Q (nat rs2x))]
         else [Div1 (Slot Q (unat (dec_rs2 d)))])
         @ (if rdx \<noteq> 2 then [Mov (Reg Q 2) (Reg Q 1)]
         else [])
         @ [Bind (Local 0)]
         @ (if 0 < rdx then [Mov (Reg Q (nat rdx)) (Reg Q 0)]
         else [Mov (Slot Q (unat (dec_rd d))) (Reg Q 0)]))))"

definition jit_remu :: "jit_decode \<Rightarrow> x86_inst list" where [jit_defs]:
  "jit_remu d =
    (let rdx = x86_reg (dec_rd d); rs2x = x86_reg (dec_rs2 d) in
     (if dec_rd d = 0 then []
     else if dec_rs2 d = 0 then (if 0 < rdx then [Mov (Reg Q (nat rdx)) (Imm (- 1))]
         else [Mov (Slot Q (unat (dec_rd d))) (Imm (- 1))])
     else if dec_rs1 d = 0 then jit_zero_rd d
     else ((if rdx \<noteq> 2 then [Mov (Reg Q 1) (Reg Q 2)]
         else [])
         @ jit_mv_rax_rs1 d
         @ (if 0 < rs2x then [Test (Reg Q (nat rs2x)) (Reg Q (nat rs2x))]
         else [Cmp (Slot Q (unat (dec_rs2 d))) (Imm (0))])
         @ [Jcc NE (Local 1), Mov (Reg Q 2) (Reg Q 0), Jmp (Local 0), Bind (Local 1), Alu LXOR (Reg Q 2) (Reg Q 2)]
         @ (if 0 < rs2x then [Div1 (Reg Q (nat rs2x))]
         else [Div1 (Slot Q (unat (dec_rs2 d)))])
         @ [Bind (Local 0)]
         @ (if 0 < rdx then (if rdx \<noteq> 2 then [Mov (Reg Q (nat rdx)) (Reg Q 2)]
             else [])
         else [Mov (Slot Q (unat (dec_rd d))) (Reg Q 2)])
         @ (if rdx \<noteq> 2 then [Mov (Reg Q 2) (Reg Q 1)]
         else []))))"

definition jit_slt :: "jit_decode \<Rightarrow> x86_inst list" where [jit_defs]:
  "jit_slt d =
    (let rdx = x86_reg (dec_rd d); rs1x = x86_reg (dec_rs1 d); rs2x = x86_reg (dec_rs2 d) in
     (if dec_rd d = 0 then []
     else ((if 0 < rs1x \<and> 0 < rs2x then [Cmp (Reg Q (nat rs1x)) (Reg Q (nat rs2x))]
         else ((if dec_rs1 d = 0 then [Alu LXOR (Reg D 0) (Reg D 0)]
             else if 0 < rs1x then [Mov (Reg Q 0) (Reg Q (nat rs1x))]
             else [Mov (Reg Q 0) (Slot Q (unat (dec_rs1 d)))])
             @ (if dec_rs2 d = 0 then [Cmp (Reg Q 0) (Imm (0))]
             else if 0 < rs2x then [Cmp (Reg Q 0) (Reg Q (nat rs2x))]
             else [Cmp (Reg Q 0) (Slot Q (unat (dec_rs2 d)))])))
         @ [Set L (Reg B 0)]
         @ (if 0 < rdx then [Movzx (Reg D (nat rdx)) (Reg B 0)]
         else [Movzx (Reg D 0) (Reg B 0), Mov (Slot Q (unat (dec_rd d))) (Reg Q 0)]))))"

definition jit_sltu :: "jit_decode \<Rightarrow> x86_inst list" where [jit_defs]:
  "jit_sltu d =
    (let rdx = x86_reg (dec_rd d); rs1x = x86_reg (dec_rs1 d); rs2x = x86_reg (dec_rs2 d) in
     (if dec_rd d = 0 then []
     else ((if 0 < rs1x \<and> 0 < rs2x then [Cmp (Reg Q (nat rs1x)) (Reg Q (nat rs2x))]
         else ((if dec_rs1 d = 0 then [Alu LXOR (Reg D 0) (Reg D 0)]
             else if 0 < rs1x then [Mov (Reg Q 0) (Reg Q (nat rs1x))]
             else [Mov (Reg Q 0) (Slot Q (unat (dec_rs1 d)))])
             @ (if dec_rs2 d = 0 then [Cmp (Reg Q 0) (Imm (0))]
             else if 0 < rs2x then [Cmp (Reg Q 0) (Reg Q (nat rs2x))]
             else [Cmp (Reg Q 0) (Slot Q (unat (dec_rs2 d)))])))
         @ [Set Below (Reg B 0)]
         @ (if 0 < rdx then [Movzx (Reg D (nat rdx)) (Reg B 0)]
         else [Movzx (Reg D 0) (Reg B 0), Mov (Slot Q (unat (dec_rd d))) (Reg Q 0)]))))"

definition jit_and :: "jit_decode \<Rightarrow> x86_inst list" where [jit_defs]:
  "jit_and d =
    (let rdx = x86_reg (dec_rd d); rs1x = x86_reg (dec_rs1 d); rs2x = x86_reg (dec_rs2 d) in
     (if dec_rd d = 0 then []
     else if dec_rs1 d = 0 \<or> dec_rs2 d = 0 then jit_zero_rd d
     else if dec_rd d = dec_rs1 d then (if 0 < rdx then (if 0 < rs2x then [Alu LAND (Reg Q (nat rdx)) (Reg Q (nat rs2x))]
             else [Alu LAND (Reg Q (nat rdx)) (Slot Q (unat (dec_rs2 d)))])
         else if 0 < rs2x then [Alu LAND (Slot Q (unat (dec_rd d))) (Reg Q (nat rs2x))]
         else [Mov (Reg Q 0) (Slot Q (unat (dec_rs2 d))), Alu LAND (Slot Q (unat (dec_rd d))) (Reg Q 0)])
     else if dec_rd d = dec_rs2 d then (if 0 < rdx then (if 0 < rs1x then [Alu LAND (Reg Q (nat rdx)) (Reg Q (nat rs1x))]
             else [Alu LAND (Reg Q (nat rdx)) (Slot Q (unat (dec_rs1 d)))])
         else if 0 < rs1x then [Alu LAND (Slot Q (unat (dec_rd d))) (Reg Q (nat rs1x))]
         else [Mov (Reg Q 0) (Slot Q (unat (dec_rs1 d))), Alu LAND (Slot Q (unat (dec_rd d))) (Reg Q 0)])
     else if rdx < 0 \<and> (rs1x < 0 \<or> rs2x < 0) then (jit_mv_rax_rs1 d
         @ (if 0 < rs2x then [Alu LAND (Reg Q 0) (Reg Q (nat rs2x))]
         else [Alu LAND (Reg Q 0) (Slot Q (unat (dec_rs2 d)))])
         @ [Mov (Slot Q (unat (dec_rd d))) (Reg Q 0)])
     else (jit_mv_rd_rs1 d
         @ (if 0 < rdx then (if 0 < rs2x then [Alu LAND (Reg Q (nat rdx)) (Reg Q (nat rs2x))]
             else [Alu LAND (Reg Q (nat rdx)) (Slot Q (unat (dec_rs2 d)))])
         else [Alu LAND (Slot Q (unat (dec_rd d))) (Reg Q (nat rs2x))]))))"

definition jit_or :: "jit_decode \<Rightarrow> x86_inst list" where [jit_defs]:
  "jit_or d =
    (let rdx = x86_reg (dec_rd d); rs1x = x86_reg (dec_rs1 d); rs2x = x86_reg (dec_rs2 d) in
     (if dec_rd d = 0 then []
     else if dec_rs1 d = 0 \<and> dec_rs2 d = 0 then jit_zero_rd d
     else if dec_rs1 d = 0 then jit_mv_rd_rs2 d
     else if dec_rs2 d = 0 then jit_mv_rd_rs1 d
     else if dec_rd d = dec_rs1 d then (if 0 < rdx then (if 0 < rs2x then [Alu LOR (Reg Q (nat rdx)) (Reg Q (nat rs2x))]
             else [Alu LOR (Reg Q (nat rdx)) (Slot Q (unat (dec_rs2 d)))])
         else if 0 < rs2x then [Alu LOR (Slot Q (unat (dec_rd d))) (Reg Q (nat rs2x))]
         else [Mov (Reg Q 0) (Slot Q (unat (dec_rs2 d))), Alu LOR (Slot Q (unat (dec_rd d))) (Reg Q 0)])
     else if dec_rd d = dec_rs2 d then (if 0 < rdx then (if 0 < rs1x then [Alu LOR (Reg Q (nat rdx)) (Reg Q (nat rs1x))]
             else [Alu LOR (Reg Q (nat rdx)) (Slot Q (unat (dec_rs1 d)))])
         else if 0 < rs1x then [Alu LOR (Slot Q (unat (dec_rd d))) (Reg Q (nat rs1x))]
         else [Mov (Reg Q 0) (Slot Q (unat (dec_rs1 d))), Alu LOR (Slot Q (unat (dec_rd d))) (Reg Q 0)])
     else if rdx < 0 \<and> (rs1x < 0 \<or> rs2x < 0) then (jit_mv_rax_rs1 d
         @ (if 0 < rs2x then [Alu LOR (Reg Q 0) (Reg Q (nat rs2x))]
         else [Alu LOR (Reg Q 0) (Slot Q (unat (dec_rs2 d)))])
         @ [Mov (Slot Q (unat (dec_rd d))) (Reg Q 0)])
     else (jit_mv_rd_rs1 d
         @ (if 0 < rdx then (if 0 < rs2x then [Alu LOR (Reg Q (nat rdx)) (Reg Q (nat rs2x))]
             else [Alu LOR (Reg Q (nat rdx)) (Slot Q (unat (dec_rs2 d)))])
         else [Alu LOR (Slot Q (unat (dec_rd d))) (Reg Q (nat rs2x))]))))"

definition jit_xor :: "jit_decode \<Rightarrow> x86_inst list" where [jit_defs]:
  "jit_xor d =
    (let rdx = x86_reg (dec_rd d); rs1x = x86_reg (dec_rs1 d); rs2x = x86_reg (dec_rs2 d) in
     (if dec_rd d = 0 then []
     else if dec_rs1 d = 0 \<and> dec_rs2 d = 0 then jit_zero_rd d
     else if dec_rs1 d = 0 then jit_mv_rd_rs2 d
     else if dec_rs2 d = 0 then jit_mv_rd_rs1 d
     else if dec_rd d = dec_rs1 d then (if 0 < rdx then (if 0 < rs2x then [Alu LXOR (Reg Q (nat rdx)) (Reg Q (nat rs2x))]
             else [Alu LXOR (Reg Q (nat rdx)) (Slot Q (unat (dec_rs2 d)))])
         else if 0 < rs2x then [Alu LXOR (Slot Q (unat (dec_rd d))) (Reg Q (nat rs2x))]
         else [Mov (Reg Q 0) (Slot Q (unat (dec_rs2 d))), Alu LXOR (Slot Q (unat (dec_rd d))) (Reg Q 0)])
     else if dec_rd d = dec_rs2 d then (if 0 < rdx then (if 0 < rs1x then [Alu LXOR (Reg Q (nat rdx)) (Reg Q (nat rs1x))]
             else [Alu LXOR (Reg Q (nat rdx)) (Slot Q (unat (dec_rs1 d)))])
         else if 0 < rs1x then [Alu LXOR (Slot Q (unat (dec_rd d))) (Reg Q (nat rs1x))]
         else [Mov (Reg Q 0) (Slot Q (unat (dec_rs1 d))), Alu LXOR (Slot Q (unat (dec_rd d))) (Reg Q 0)])
     else if rdx < 0 \<and> (rs1x < 0 \<or> rs2x < 0) then (jit_mv_rax_rs1 d
         @ (if 0 < rs2x then [Alu LXOR (Reg Q 0) (Reg Q (nat rs2x))]
         else [Alu LXOR (Reg Q 0) (Slot Q (unat (dec_rs2 d)))])
         @ [Mov (Slot Q (unat (dec_rd d))) (Reg Q 0)])
     else (jit_mv_rd_rs1 d
         @ (if 0 < rdx then (if 0 < rs2x then [Alu LXOR (Reg Q (nat rdx)) (Reg Q (nat rs2x))]
             else [Alu LXOR (Reg Q (nat rdx)) (Slot Q (unat (dec_rs2 d)))])
         else [Alu LXOR (Slot Q (unat (dec_rd d))) (Reg Q (nat rs2x))]))))"

definition jit_sll :: "jit_decode \<Rightarrow> x86_inst list" where [jit_defs]:
  "jit_sll d =
    (let rdx = x86_reg (dec_rd d); rs2x = x86_reg (dec_rs2 d) in
     (if dec_rd d = 0 then []
     else if dec_rs1 d = 0 then jit_zero_rd d
     else if dec_rs2 d = 0 then jit_mv_rd_rs1 d
     else if dec_rd d = dec_rs1 d then (jit_mv_cl_rs2 d
         @ (if 0 < rdx then [Shift SHL (Reg Q (nat rdx)) (Reg B 1)]
         else [Shift SHL (Slot Q (unat (dec_rd d))) (Reg B 1)]))
     else if rdx < 0 then (jit_mv_cl_rs2 d
         @ jit_mv_rax_rs1 d
         @ (if 0 < rs2x then [Shift SHL (Reg Q 0) (Reg B 1)]
         else [Shift SHL (Reg Q 0) (Reg B 1)])
         @ [Mov (Slot Q (unat (dec_rd d))) (Reg Q 0)])
     else (jit_mv_cl_rs2 d
         @ jit_mv_rd_rs1 d
         @ (if 0 < rs2x then [Shift SHL (Reg Q (nat rdx)) (Reg B 1)]
         else [Shift SHL (Reg Q (nat rdx)) (Reg B 1)]))))"

definition jit_srl :: "jit_decode \<Rightarrow> x86_inst list" where [jit_defs]:
  "jit_srl d =
    (let rdx = x86_reg (dec_rd d); rs2x = x86_reg (dec_rs2 d) in
     (if dec_rd d = 0 then []
     else if dec_rs1 d = 0 then jit_zero_rd d
     else if dec_rs2 d = 0 then jit_mv_rd_rs1 d
     else if dec_rd d = dec_rs1 d then (jit_mv_cl_rs2 d
         @ (if 0 < rdx then [Shift SHR (Reg Q (nat rdx)) (Reg B 1)]
         else [Shift SHR (Slot Q (unat (dec_rd d))) (Reg B 1)]))
     else if rdx < 0 then (jit_mv_cl_rs2 d
         @ jit_mv_rax_rs1 d
         @ (if 0 < rs2x then [Shift SHR (Reg Q 0) (Reg B 1)]
         else [Shift SHR (Reg Q 0) (Reg B 1)])
         @ [Mov (Slot Q (unat (dec_rd d))) (Reg Q 0)])
     else (jit_mv_cl_rs2 d
         @ jit_mv_rd_rs1 d
         @ (if 0 < rs2x then [Shift SHR (Reg Q (nat rdx)) (Reg B 1)]
         else [Shift SHR (Reg Q (nat rdx)) (Reg B 1)]))))"

definition jit_sra :: "jit_decode \<Rightarrow> x86_inst list" where [jit_defs]:
  "jit_sra d =
    (let rdx = x86_reg (dec_rd d); rs2x = x86_reg (dec_rs2 d) in
     (if dec_rd d = 0 then []
     else if dec_rs1 d = 0 then jit_zero_rd d
     else if dec_rs2 d = 0 then jit_mv_rd_rs1 d
     else if dec_rd d = dec_rs1 d then (jit_mv_cl_rs2 d
         @ (if 0 < rdx then [Shift SAR (Reg Q (nat rdx)) (Reg B 1)]
         else [Shift SAR (Slot Q (unat (dec_rd d))) (Reg B 1)]))
     else if rdx < 0 then (jit_mv_cl_rs2 d
         @ jit_mv_rax_rs1 d
         @ (if 0 < rs2x then [Shift SAR (Reg Q 0) (Reg B 1)]
         else [Shift SAR (Reg Q 0) (Reg B 1)])
         @ [Mov (Slot Q (unat (dec_rd d))) (Reg Q 0)])
     else (jit_mv_cl_rs2 d
         @ jit_mv_rd_rs1 d
         @ (if 0 < rs2x then [Shift SAR (Reg Q (nat rdx)) (Reg B 1)]
         else [Shift SAR (Reg Q (nat rdx)) (Reg B 1)]))))"

definition jit_addw :: "jit_decode \<Rightarrow> x86_inst list" where [jit_defs]:
  "jit_addw d =
    (let rdx = x86_reg (dec_rd d); rs1x = x86_reg (dec_rs1 d); rs2x = x86_reg (dec_rs2 d) in
     (if dec_rd d = 0 then []
     else if dec_rs1 d = 0 then jit_mv_rd_rs2_sx_32 d
     else if dec_rs2 d = 0 then jit_mv_rd_rs1_sx_32 d
     else if dec_rd d = dec_rs1 d then ((if 0 < rdx then (if 0 < rs2x then [Alu ADD (Reg D (nat rdx)) (Reg D (nat rs2x))]
             else [Alu ADD (Reg D (nat rdx)) (Slot D (unat (dec_rs2 d)))])
         else if 0 < rs2x then [Alu ADD (Slot D (unat (dec_rd d))) (Reg D (nat rs2x))]
         else [Mov (Reg D 0) (Slot D (unat (dec_rs2 d))), Alu ADD (Slot D (unat (dec_rd d))) (Reg D 0)])
         @ jit_sx_32_rd d)
     else if dec_rd d = dec_rs2 d then ((if 0 < rdx then (if 0 < rs1x then [Alu ADD (Reg D (nat rdx)) (Reg D (nat rs1x))]
             else [Alu ADD (Reg D (nat rdx)) (Slot D (unat (dec_rs1 d)))])
         else if 0 < rs1x then [Alu ADD (Slot D (unat (dec_rd d))) (Reg D (nat rs1x))]
         else [Mov (Reg D 0) (Slot D (unat (dec_rs1 d))), Alu ADD (Slot D (unat (dec_rd d))) (Reg D 0)])
         @ jit_sx_32_rd d)
     else if 0 < rdx \<and> 0 < rs1x \<and> 0 < rs2x then ([Lea_index (Reg D (nat rdx)) (nat rs1x) (nat rs2x)]
         @ jit_sx_32_rd d)
     else if rdx < 0 then ((if 0 < rs1x then [Mov (Reg D 0) (Reg D (nat rs1x))]
         else [Mov (Reg D 0) (Slot D (unat (dec_rs1 d)))])
         @ (if 0 < rs2x then [Alu ADD (Reg D 0) (Reg D (nat rs2x))]
         else [Alu ADD (Reg D 0) (Slot D (unat (dec_rs2 d)))])
         @ [Movsxd (Reg Q 0) (Reg D 0), Mov (Slot Q (unat (dec_rd d))) (Reg Q 0)])
     else (jit_mv_rd_rs1 d
         @ (if 0 < rs2x then [Alu ADD (Reg D (nat rdx)) (Reg D (nat rs2x))]
         else [Alu ADD (Reg D (nat rdx)) (Slot D (unat (dec_rs2 d)))])
         @ jit_sx_32_rd d)))"

definition jit_subw :: "jit_decode \<Rightarrow> x86_inst list" where [jit_defs]:
  "jit_subw d =
    (let rdx = x86_reg (dec_rd d); rs1x = x86_reg (dec_rs1 d); rs2x = x86_reg (dec_rs2 d) in
     (if dec_rd d = 0 then []
     else if dec_rs1 d = 0 then ((if dec_rd d \<noteq> dec_rs2 d then jit_mv_rd_rs2 d
         else [])
         @ (if 0 < rdx then [Neg (Reg D (nat rdx))]
         else [Neg (Slot D (unat (dec_rd d)))])
         @ jit_sx_32_rd d)
     else if dec_rs2 d = 0 then jit_mv_rd_rs1_sx_32 d
     else if dec_rd d = dec_rs1 d then ((if 0 < rdx then (if 0 < rs2x then [Alu SUB (Reg D (nat rdx)) (Reg D (nat rs2x))]
             else [Alu SUB (Reg D (nat rdx)) (Slot D (unat (dec_rs2 d)))])
         else if 0 < rs2x then [Alu SUB (Slot D (unat (dec_rd d))) (Reg D (nat rs2x))]
         else [Mov (Reg D 0) (Slot D (unat (dec_rs2 d))), Alu SUB (Slot D (unat (dec_rd d))) (Reg D 0)])
         @ jit_sx_32_rd d)
     else if dec_rd d = dec_rs2 d then ((if 0 < rdx then (if 0 < rs1x then [Alu SUB (Reg D (nat rdx)) (Reg D (nat rs1x))]
             else [Alu SUB (Reg D (nat rdx)) (Slot D (unat (dec_rs1 d)))])
         else if 0 < rs1x then [Alu SUB (Slot D (unat (dec_rd d))) (Reg D (nat rs1x))]
         else [Mov (Reg D 0) (Slot D (unat (dec_rs1 d))), Alu SUB (Slot D (unat (dec_rd d))) (Reg D 0)])
         @ (if 0 < rdx then [Neg (Reg D (nat rdx))]
         else [Neg (Slot D (unat (dec_rd d)))])
         @ jit_sx_32_rd d)
     else if rdx < 0 then ((if 0 < rs1x then [Mov (Reg D 0) (Reg D (nat rs1x))]
         else [Mov (Reg D 0) (Slot D (unat (dec_rs1 d)))])
         @ (if 0 < rs2x then [Alu SUB (Reg D 0) (Reg D (nat rs2x))]
         else [Alu SUB (Reg D 0) (Slot D (unat (dec_rs2 d)))])
         @ [Movsxd (Reg Q 0) (Reg D 0), Mov (Slot Q (unat (dec_rd d))) (Reg Q 0)])
     else (jit_mv_rd_rs1 d
         @ (if 0 < rs2x then [Alu SUB (Reg D (nat rdx)) (Reg D (nat rs2x))]
         else [Alu SUB (Reg D (nat rdx)) (Slot D (unat (dec_rs2 d)))])
         @ jit_sx_32_rd d)))"

definition jit_mulw :: "jit_decode \<Rightarrow> x86_inst list" where [jit_defs]:
  "jit_mulw d =
    (let rdx = x86_reg (dec_rd d); rs1x = x86_reg (dec_rs1 d); rs2x = x86_reg (dec_rs2 d) in
     (if dec_rd d = 0 then []
     else if dec_rs1 d = 0 \<or> dec_rs2 d = 0 then jit_zero_rd d
     else if dec_rd d = dec_rs1 d \<and> 0 < rdx then ((if 0 < rs2x then [Alu IMUL (Reg D (nat rdx)) (Reg D (nat rs2x))]
         else [Alu IMUL (Reg D (nat rdx)) (Slot D (unat (dec_rs2 d)))])
         @ jit_sx_32_rd d)
     else if dec_rd d = dec_rs2 d \<and> 0 < rdx then ((if 0 < rs1x then [Alu IMUL (Reg D (nat rdx)) (Reg D (nat rs1x))]
         else [Alu IMUL (Reg D (nat rdx)) (Slot D (unat (dec_rs1 d)))])
         @ jit_sx_32_rd d)
     else if rdx < 0 then ((if 0 < rs1x then [Mov (Reg D 0) (Reg D (nat rs1x))]
         else [Mov (Reg D 0) (Slot D (unat (dec_rs1 d)))])
         @ (if 0 < rs2x then [Alu IMUL (Reg D 0) (Reg D (nat rs2x))]
         else [Alu IMUL (Reg D 0) (Slot D (unat (dec_rs2 d)))])
         @ [Mov (Slot D (unat (dec_rd d))) (Reg D 0)]
         @ jit_sx_32_rd d)
     else (jit_mv_rd_rs1 d
         @ (if 0 < rs2x then [Alu IMUL (Reg D (nat rdx)) (Reg D (nat rs2x))]
         else [Alu IMUL (Reg D (nat rdx)) (Slot D (unat (dec_rs2 d)))])
         @ jit_sx_32_rd d)))"

definition jit_divw :: "jit_decode \<Rightarrow> x86_inst list" where [jit_defs]:
  "jit_divw d =
    (let rdx = x86_reg (dec_rd d); rs1x = x86_reg (dec_rs1 d); rs2x = x86_reg (dec_rs2 d) in
     (if dec_rd d = 0 then []
     else if dec_rs2 d = 0 then (if 0 < rdx then [Mov (Reg Q (nat rdx)) (Imm (- 1))]
         else [Mov (Slot Q (unat (dec_rd d))) (Imm (- 1))])
     else if dec_rs1 d = 0 then jit_zero_rd d
     else ([Mov (Reg D 0) (Imm (- 0x80000000))]
         @ (if 0 < rs1x then [Cmp (Reg D (nat rs1x)) (Reg D 0)]
         else [Cmp (Slot D (unat (dec_rs1 d))) (Reg D 0)])
         @ [Jcc NE (Local 1)]
         @ (if 0 < rs2x then [Cmp (Reg D (nat rs2x)) (Imm (- 1))]
         else [Cmp (Slot D (unat (dec_rs2 d))) (Imm (- 1))])
         @ [Jcc E (Local 0), Bind (Local 1)]
         @ (if 0 < rs2x then [Test (Reg Q (nat rs2x)) (Reg Q (nat rs2x))]
         else [Cmp (Slot D (unat (dec_rs2 d))) (Imm (0))])
         @ [Jcc NE (Local 2), Mov (Reg D 0) (Imm (- 1)), Jmp (Local 0), Bind (Local 2)]
         @ (if 0 < rs1x then [Mov (Reg D 0) (Reg D (nat rs1x))]
         else [Mov (Reg D 0) (Slot D (unat (dec_rs1 d)))])
         @ (if rdx \<noteq> 2 then [Mov (Reg Q 1) (Reg Q 2)]
         else [])
         @ [Cdq]
         @ (if 0 < rs2x then [Idiv1 (Reg D (nat rs2x))]
         else [Idiv1 (Slot D (unat (dec_rs2 d)))])
         @ (if rdx \<noteq> 2 then [Mov (Reg Q 2) (Reg Q 1)]
         else [])
         @ [Bind (Local 0)]
         @ (if 0 < rdx then [Movsxd (Reg Q (nat rdx)) (Reg D 0)]
         else [Movsxd (Reg Q 0) (Reg D 0), Mov (Slot Q (unat (dec_rd d))) (Reg Q 0)]))))"

definition jit_remw :: "jit_decode \<Rightarrow> x86_inst list" where [jit_defs]:
  "jit_remw d =
    (let rdx = x86_reg (dec_rd d); rs1x = x86_reg (dec_rs1 d); rs2x = x86_reg (dec_rs2 d) in
     (if dec_rd d = 0 then []
     else if dec_rs2 d = 0 then (if 0 < rdx then [Mov (Reg Q (nat rdx)) (Imm (- 1))]
         else [Mov (Slot Q (unat (dec_rd d))) (Imm (- 1))])
     else if dec_rs1 d = 0 then jit_zero_rd d
     else ((if rdx \<noteq> 2 then [Mov (Reg Q 1) (Reg Q 2)]
         else [])
         @ [Mov (Reg D 0) (Imm (- 0x80000000))]
         @ (if 0 < rs1x then [Cmp (Reg D (nat rs1x)) (Reg D 0)]
         else [Cmp (Slot D (unat (dec_rs1 d))) (Reg D 0)])
         @ [Jcc NE (Local 1), Alu LXOR (Reg D 2) (Reg D 2)]
         @ (if 0 < rs2x then [Cmp (Reg D (nat rs2x)) (Imm (- 1))]
         else [Cmp (Slot D (unat (dec_rs2 d))) (Imm (- 1))])
         @ [Jcc E (Local 0), Bind (Local 1)]
         @ (if 0 < rs1x then [Mov (Reg D 0) (Reg D (nat rs1x))]
         else [Mov (Reg D 0) (Slot D (unat (dec_rs1 d)))])
         @ (if 0 < rs2x then [Test (Reg Q (nat rs2x)) (Reg Q (nat rs2x))]
         else [Cmp (Slot D (unat (dec_rs2 d))) (Imm (0))])
         @ [Jcc NE (Local 2), Mov (Reg D 2) (Reg D 0), Jmp (Local 0), Bind (Local 2), Cdq]
         @ (if 0 < rs2x then [Idiv1 (Reg D (nat rs2x))]
         else [Idiv1 (Slot D (unat (dec_rs2 d)))])
         @ [Bind (Local 0)]
         @ (if 0 < rdx then [Movsxd (Reg Q (nat rdx)) (Reg D 2)]
         else [Movsxd (Reg Q 2) (Reg D 2), Mov (Slot Q (unat (dec_rd d))) (Reg Q 2)])
         @ (if rdx \<noteq> 2 then [Mov (Reg Q 2) (Reg Q 1)]
         else []))))"

definition jit_divuw :: "jit_decode \<Rightarrow> x86_inst list" where [jit_defs]:
  "jit_divuw d =
    (let rdx = x86_reg (dec_rd d); rs1x = x86_reg (dec_rs1 d); rs2x = x86_reg (dec_rs2 d) in
     (if dec_rd d = 0 then []
     else if dec_rs2 d = 0 then (if 0 < rdx then [Mov (Reg Q (nat rdx)) (Imm (- 1))]
         else [Mov (Slot Q (unat (dec_rd d))) (Imm (- 1))])
     else if dec_rs1 d = 0 then jit_zero_rd d
     else ((if 0 < rs2x then [Test (Reg Q (nat rs2x)) (Reg Q (nat rs2x))]
         else [Cmp (Slot D (unat (dec_rs2 d))) (Imm (0))])
         @ [Jcc NE (Local 1), Mov (Reg D 0) (Imm (- 1)), Jmp (Local 0), Bind (Local 1)]
         @ (if 0 < rs1x then [Mov (Reg D 0) (Reg D (nat rs1x))]
         else [Mov (Reg D 0) (Slot D (unat (dec_rs1 d)))])
         @ (if rdx \<noteq> 2 then [Mov (Reg Q 1) (Reg Q 2)]
         else [])
         @ [Alu LXOR (Reg D 2) (Reg D 2)]
         @ (if 0 < rs2x then [Div1 (Reg D (nat rs2x))]
         else [Div1 (Slot D (unat (dec_rs2 d)))])
         @ (if rdx \<noteq> 2 then [Mov (Reg Q 2) (Reg Q 1)]
         else [])
         @ [Bind (Local 0)]
         @ (if 0 < rdx then [Movsxd (Reg Q (nat rdx)) (Reg D 0)]
         else [Movsxd (Reg Q 0) (Reg D 0), Mov (Slot Q (unat (dec_rd d))) (Reg Q 0)]))))"

definition jit_remuw :: "jit_decode \<Rightarrow> x86_inst list" where [jit_defs]:
  "jit_remuw d =
    (let rdx = x86_reg (dec_rd d); rs1x = x86_reg (dec_rs1 d); rs2x = x86_reg (dec_rs2 d) in
     (if dec_rd d = 0 then []
     else if dec_rs2 d = 0 then (if 0 < rdx then [Mov (Reg Q (nat rdx)) (Imm (- 1))]
         else [Mov (Slot Q (unat (dec_rd d))) (Imm (- 1))])
     else if dec_rs1 d = 0 then jit_zero_rd d
     else ((if rdx \<noteq> 2 then [Mov (Reg Q 1) (Reg Q 2)]
         else [])
         @ (if 0 < rs1x then [Mov (Reg D 0) (Reg D (nat rs1x))]
         else [Mov (Reg D 0) (Slot D (unat (dec_rs1 d)))])
         @ (if 0 < rs2x then [Test (Reg Q (nat rs2x)) (Reg Q (nat rs2x))]
         else [Cmp (Slot D (unat (dec_rs2 d))) (Imm (0))])
         @ [Jcc NE (Local 1), Mov (Reg D 2) (Reg D 0), Jmp (Local 0), Bind (Local 1), Alu LXOR (Reg D 2) (Reg D 2)]
         @ (if 0 < rs2x then [Div1 (Reg D (nat rs2x))]
         else [Div1 (Slot D (unat (dec_rs2 d)))])
         @ [Bind (Local 0)]
         @ (if 0 < rdx then [Movsxd (Reg Q (nat rdx)) (Reg D 2)]
         else [Movsxd (Reg Q 2) (Reg D 2), Mov (Slot Q (unat (dec_rd d))) (Reg Q 2)])
         @ (if rdx \<noteq> 2 then [Mov (Reg Q 2) (Reg Q 1)]
         else []))))"

definition jit_sllw :: "jit_decode \<Rightarrow> x86_inst list" where [jit_defs]:
  "jit_sllw d =
    (let rdx = x86_reg (dec_rd d); rs1x = x86_reg (dec_rs1 d); rs2x = x86_reg (dec_rs2 d) in
     (if dec_rd d = 0 then []
     else if dec_rs1 d = 0 then jit_zero_rd d
     else if dec_rs2 d = 0 then jit_mv_rd_rs1_sx_32 d
     else if dec_rd d = dec_rs1 d then (jit_mv_cl_rs2 d
         @ (if 0 < rdx then [Shift SHL (Reg D (nat rdx)) (Reg B 1)]
         else [Shift SHL (Slot D (unat (dec_rd d))) (Reg B 1)])
         @ jit_sx_32_rd d)
     else if rdx < 0 then (jit_mv_cl_rs2 d
         @ (if 0 < rs1x then [Mov (Reg D 0) (Reg D (nat rs1x))]
         else [Mov (Reg D 0) (Slot D (unat (dec_rs1 d)))])
         @ (if 0 < rs2x then [Shift SHL (Reg D 0) (Reg B 1)]
         else [Shift SHL (Reg D 0) (Reg B 1)])
         @ [Movsxd (Reg Q 0) (Reg D 0), Mov (Slot Q (unat (dec_rd d))) (Reg Q 0)])
     else (jit_mv_cl_rs2 d
         @ jit_mv_rd_rs1_32 d
         @ (if 0 < rs2x then [Shift SHL (Reg D (nat rdx)) (Reg B 1)]
         else [Shift SHL (Reg D (nat rdx)) (Reg B 1)])
         @ jit_sx_32_rd d)))"

definition jit_srlw :: "jit_decode \<Rightarrow> x86_inst list" where [jit_defs]:
  "jit_srlw d =
    (let rdx = x86_reg (dec_rd d); rs1x = x86_reg (dec_rs1 d); rs2x = x86_reg (dec_rs2 d) in
     (if dec_rd d = 0 then []
     else if dec_rs1 d = 0 then jit_zero_rd d
     else if dec_rs2 d = 0 then jit_mv_rd_rs1_sx_32 d
     else if dec_rd d = dec_rs1 d then (jit_mv_cl_rs2 d
         @ (if 0 < rdx then [Shift SHR (Reg D (nat rdx)) (Reg B 1)]
         else [Shift SHR (Slot D (unat (dec_rd d))) (Reg B 1)])
         @ jit_sx_32_rd d)
     else if rdx < 0 then (jit_mv_cl_rs2 d
         @ (if 0 < rs1x then [Mov (Reg D 0) (Reg D (nat rs1x))]
         else [Mov (Reg D 0) (Slot D (unat (dec_rs1 d)))])
         @ (if 0 < rs2x then [Shift SHR (Reg D 0) (Reg B 1)]
         else [Shift SHR (Reg D 0) (Reg B 1)])
         @ [Movsxd (Reg Q 0) (Reg D 0), Mov (Slot Q (unat (dec_rd d))) (Reg Q 0)])
     else (jit_mv_cl_rs2 d
         @ jit_mv_rd_rs1_32 d
         @ (if 0 < rs2x then [Shift SHR (Reg D (nat rdx)) (Reg B 1)]
         else [Shift SHR (Reg D (nat rdx)) (Reg B 1)])
         @ jit_sx_32_rd d)))"

definition jit_sraw :: "jit_decode \<Rightarrow> x86_inst list" where [jit_defs]:
  "jit_sraw d =
    (let rdx = x86_reg (dec_rd d); rs1x = x86_reg (dec_rs1 d); rs2x = x86_reg (dec_rs2 d) in
     (if dec_rd d = 0 then []
     else if dec_rs1 d = 0 then jit_zero_rd d
     else if dec_rs2 d = 0 then jit_mv_rd_rs1_sx_32 d
     else if dec_rd d = dec_rs1 d then (jit_mv_cl_rs2 d
         @ (if 0 < rdx then [Shift SAR (Reg D (nat rdx)) (Reg B 1)]
         else [Shift SAR (Slot D (unat (dec_rd d))) (Reg B 1)])
         @ jit_sx_32_rd d)
     else if rdx < 0 then (jit_mv_cl_rs2 d
         @ (if 0 < rs1x then [Mov (Reg D 0) (Reg D (nat rs1x))]
         else [Mov (Reg D 0) (Slot D (unat (dec_rs1 d)))])
         @ (if 0 < rs2x then [Shift SAR (Reg D 0) (Reg B 1)]
         else [Shift SAR (Reg D 0) (Reg B 1)])
         @ [Movsxd (Reg Q 0) (Reg D 0), Mov (Slot Q (unat (dec_rd d))) (Reg Q 0)])
     else (jit_mv_cl_rs2 d
         @ jit_mv_rd_rs1_32 d
         @ (if 0 < rs2x then [Shift SAR (Reg D (nat rdx)) (Reg B 1)]
         else [Shift SAR (Reg D (nat rdx)) (Reg B 1)])
         @ jit_sx_32_rd d)))"

definition jit_addi :: "jit_decode \<Rightarrow> x86_inst list" where [jit_defs]:
  "jit_addi d =
    (let rdx = x86_reg (dec_rd d); rs1x = x86_reg (dec_rs1 d) in
     (if dec_rd d = 0 then []
     else if dec_rs1 d = 0 then (if 0 < rdx then [Mov (Reg Q (nat rdx)) (Imm (scast (dec_imm d)))]
         else [Mov (Slot Q (unat (dec_rd d))) (Imm (scast (dec_imm d)))])
     else if dec_rd d = dec_rs1 d then (if 0 < rdx then [Alu ADD (Reg Q (nat rdx)) (Imm (scast (dec_imm d)))]
         else [Alu ADD (Slot Q (unat (dec_rd d))) (Imm (scast (dec_imm d)))])
     else if dec_imm d = 0 then jit_mv_rd_rs1 d
     else if 0 < rdx \<and> 0 < rs1x then [Lea_disp (Reg Q (nat rdx)) (nat rs1x) (scast (dec_imm d))]
     else (jit_mv_rd_rs1 d
         @ (if 0 < rdx then [Alu ADD (Reg Q (nat rdx)) (Imm (scast (dec_imm d)))]
         else [Alu ADD (Slot Q (unat (dec_rd d))) (Imm (scast (dec_imm d)))]))))"

definition jit_slti :: "jit_decode \<Rightarrow> x86_inst list" where [jit_defs]:
  "jit_slti d =
    (let rdx = x86_reg (dec_rd d); rs1x = x86_reg (dec_rs1 d) in
     (if dec_rd d = 0 then []
     else if dec_rs1 d = 0 then (let result = (0 <s dec_imm d) in
         (if 0 < rdx then [Mov (Reg Q (nat rdx)) (Imm (of_bool result))]
         else [Mov (Slot Q (unat (dec_rd d))) (Imm (of_bool result))]))
     else ((if 0 < rs1x then [Cmp (Reg Q (nat rs1x)) (Imm (scast (dec_imm d)))]
         else [Cmp (Slot Q (unat (dec_rs1 d))) (Imm (scast (dec_imm d)))])
         @ [Set L (Reg B 0)]
         @ (if 0 < rdx then [Movzx (Reg D (nat rdx)) (Reg B 0)]
         else [Movzx (Reg D 0) (Reg B 0), Mov (Slot Q (unat (dec_rd d))) (Reg Q 0)]))))"

definition jit_sltiu :: "jit_decode \<Rightarrow> x86_inst list" where [jit_defs]:
  "jit_sltiu d =
    (let rdx = x86_reg (dec_rd d); rs1x = x86_reg (dec_rs1 d) in
     (if dec_rd d = 0 then []
     else if dec_rs1 d = 0 then (let result = (0 < (scast (dec_imm d) :: u64)) in
         (if 0 < rdx then [Mov (Reg Q (nat rdx)) (Imm (of_bool result))]
         else [Mov (Slot Q (unat (dec_rd d))) (Imm (of_bool result))]))
     else ((if 0 < rs1x then [Cmp (Reg Q (nat rs1x)) (Imm (scast (dec_imm d)))]
         else [Cmp (Slot Q (unat (dec_rs1 d))) (Imm (scast (dec_imm d)))])
         @ [Set Below (Reg B 0)]
         @ (if 0 < rdx then [Movzx (Reg D (nat rdx)) (Reg B 0)]
         else [Movzx (Reg D 0) (Reg B 0), Mov (Slot Q (unat (dec_rd d))) (Reg Q 0)]))))"

definition jit_andi :: "jit_decode \<Rightarrow> x86_inst list" where [jit_defs]:
  "jit_andi d =
    (let rdx = x86_reg (dec_rd d) in
     (if dec_rd d = 0 then []
     else if dec_rs1 d = 0 then jit_zero_rd d
     else if dec_rd d = dec_rs1 d then (if 0 < rdx then [Alu LAND (Reg Q (nat rdx)) (Imm (scast (dec_imm d)))]
         else [Alu LAND (Slot Q (unat (dec_rd d))) (Imm (scast (dec_imm d)))])
     else (jit_mv_rd_rs1 d
         @ (if 0 < rdx then [Alu LAND (Reg Q (nat rdx)) (Imm (scast (dec_imm d)))]
         else [Alu LAND (Slot Q (unat (dec_rd d))) (Imm (scast (dec_imm d)))]))))"

definition jit_ori :: "jit_decode \<Rightarrow> x86_inst list" where [jit_defs]:
  "jit_ori d =
    (let rdx = x86_reg (dec_rd d) in
     (if dec_rd d = 0 then []
     else if dec_rs1 d = 0 then (if 0 < rdx then [Mov (Reg Q (nat rdx)) (Imm (scast (dec_imm d)))]
         else [Mov (Slot Q (unat (dec_rd d))) (Imm (scast (dec_imm d)))])
     else if dec_rd d = dec_rs1 d then (if 0 < rdx then [Alu LOR (Reg Q (nat rdx)) (Imm (scast (dec_imm d)))]
         else [Alu LOR (Slot Q (unat (dec_rd d))) (Imm (scast (dec_imm d)))])
     else (jit_mv_rd_rs1 d
         @ (if 0 < rdx then [Alu LOR (Reg Q (nat rdx)) (Imm (scast (dec_imm d)))]
         else [Alu LOR (Slot Q (unat (dec_rd d))) (Imm (scast (dec_imm d)))]))))"

definition jit_xori :: "jit_decode \<Rightarrow> x86_inst list" where [jit_defs]:
  "jit_xori d =
    (let rdx = x86_reg (dec_rd d) in
     (if dec_rd d = 0 then []
     else if dec_rs1 d = 0 then (if 0 < rdx then [Mov (Reg Q (nat rdx)) (Imm (scast (dec_imm d)))]
         else [Mov (Slot Q (unat (dec_rd d))) (Imm (scast (dec_imm d)))])
     else if dec_rd d = dec_rs1 d then (if 0 < rdx then [Alu LXOR (Reg Q (nat rdx)) (Imm (scast (dec_imm d)))]
         else [Alu LXOR (Slot Q (unat (dec_rd d))) (Imm (scast (dec_imm d)))])
     else (jit_mv_rd_rs1 d
         @ (if 0 < rdx then [Alu LXOR (Reg Q (nat rdx)) (Imm (scast (dec_imm d)))]
         else [Alu LXOR (Slot Q (unat (dec_rd d))) (Imm (scast (dec_imm d)))]))))"

definition jit_slli :: "jit_decode \<Rightarrow> x86_inst list" where [jit_defs]:
  "jit_slli d =
    (let rdx = x86_reg (dec_rd d) in
     (if dec_rd d = 0 then []
     else if dec_rs1 d = 0 then jit_zero_rd d
     else if dec_rd d = dec_rs1 d then (if 0 < rdx then [Shift SHL (Reg Q (nat rdx)) (Imm (scast (dec_imm d)))]
         else [Shift SHL (Slot Q (unat (dec_rd d))) (Imm (scast (dec_imm d)))])
     else (jit_mv_rd_rs1 d
         @ (if 0 < rdx then [Shift SHL (Reg Q (nat rdx)) (Imm (scast (dec_imm d)))]
         else [Shift SHL (Slot Q (unat (dec_rd d))) (Imm (scast (dec_imm d)))]))))"

definition jit_srli :: "jit_decode \<Rightarrow> x86_inst list" where [jit_defs]:
  "jit_srli d =
    (let rdx = x86_reg (dec_rd d) in
     (if dec_rd d = 0 then []
     else if dec_rs1 d = 0 then jit_zero_rd d
     else if dec_rd d = dec_rs1 d then (if 0 < rdx then [Shift SHR (Reg Q (nat rdx)) (Imm (scast (dec_imm d)))]
         else [Shift SHR (Slot Q (unat (dec_rd d))) (Imm (scast (dec_imm d)))])
     else (jit_mv_rd_rs1 d
         @ (if 0 < rdx then [Shift SHR (Reg Q (nat rdx)) (Imm (scast (dec_imm d)))]
         else [Shift SHR (Slot Q (unat (dec_rd d))) (Imm (scast (dec_imm d)))]))))"

definition jit_srai :: "jit_decode \<Rightarrow> x86_inst list" where [jit_defs]:
  "jit_srai d =
    (let rdx = x86_reg (dec_rd d) in
     (if dec_rd d = 0 then []
     else if dec_rs1 d = 0 then jit_zero_rd d
     else if dec_rd d = dec_rs1 d then (if 0 < rdx then [Shift SAR (Reg Q (nat rdx)) (Imm (scast (dec_imm d)))]
         else [Shift SAR (Slot Q (unat (dec_rd d))) (Imm (scast (dec_imm d)))])
     else (jit_mv_rd_rs1 d
         @ (if 0 < rdx then [Shift SAR (Reg Q (nat rdx)) (Imm (scast (dec_imm d)))]
         else [Shift SAR (Slot Q (unat (dec_rd d))) (Imm (scast (dec_imm d)))]))))"

definition jit_addiw :: "jit_decode \<Rightarrow> x86_inst list" where [jit_defs]:
  "jit_addiw d =
    (let rdx = x86_reg (dec_rd d); rs1x = x86_reg (dec_rs1 d) in
     (if dec_rd d = 0 then []
     else if dec_rs1 d = 0 then ((if 0 < rdx then [Mov (Reg D (nat rdx)) (Imm (scast (dec_imm d)))]
         else [Mov (Slot D (unat (dec_rd d))) (Imm (scast (dec_imm d)))])
         @ jit_sx_32_rd d)
     else if dec_rd d = dec_rs1 d then ((if 0 < rdx then [Alu ADD (Reg D (nat rdx)) (Imm (scast (dec_imm d)))]
         else [Alu ADD (Slot D (unat (dec_rd d))) (Imm (scast (dec_imm d)))])
         @ jit_sx_32_rd d)
     else if rdx < 0 then ((if 0 < rs1x then [Mov (Reg D 0) (Reg D (nat rs1x))]
         else [Mov (Reg D 0) (Slot D (unat (dec_rs1 d)))])
         @ [Alu ADD (Reg D 0) (Imm (scast (dec_imm d))), Movsxd (Reg Q 0) (Reg D 0), Mov (Slot Q (unat (dec_rd d))) (Reg Q 0)])
     else (jit_mv_rd_rs1_32 d
         @ [Alu ADD (Reg D (nat rdx)) (Imm (scast (dec_imm d)))]
         @ jit_sx_32_rd d)))"

definition jit_slliw :: "jit_decode \<Rightarrow> x86_inst list" where [jit_defs]:
  "jit_slliw d =
    (let rdx = x86_reg (dec_rd d); rs1x = x86_reg (dec_rs1 d) in
     (if dec_rd d = 0 then []
     else if dec_rs1 d = 0 then jit_zero_rd d
     else if dec_rd d = dec_rs1 d then ((if 0 < rdx then [Shift SHL (Reg D (nat rdx)) (Imm (scast (dec_imm d)))]
         else [Shift SHL (Slot D (unat (dec_rd d))) (Imm (scast (dec_imm d)))])
         @ jit_sx_32_rd d)
     else if rdx < 0 then ((if 0 < rs1x then [Mov (Reg D 0) (Reg D (nat rs1x))]
         else [Mov (Reg D 0) (Slot D (unat (dec_rs1 d)))])
         @ [Shift SHL (Reg D 0) (Imm (scast (dec_imm d))), Movsxd (Reg Q 0) (Reg D 0), Mov (Slot Q (unat (dec_rd d))) (Reg Q 0)])
     else (jit_mv_rd_rs1_32 d
         @ [Shift SHL (Reg D (nat rdx)) (Imm (scast (dec_imm d)))]
         @ jit_sx_32_rd d)))"

definition jit_srliw :: "jit_decode \<Rightarrow> x86_inst list" where [jit_defs]:
  "jit_srliw d =
    (let rdx = x86_reg (dec_rd d); rs1x = x86_reg (dec_rs1 d) in
     (if dec_rd d = 0 then []
     else if dec_rs1 d = 0 then jit_zero_rd d
     else if dec_rd d = dec_rs1 d then ((if 0 < rdx then [Shift SHR (Reg D (nat rdx)) (Imm (scast (dec_imm d)))]
         else [Shift SHR (Slot D (unat (dec_rd d))) (Imm (scast (dec_imm d)))])
         @ jit_sx_32_rd d)
     else if rdx < 0 then ((if 0 < rs1x then [Mov (Reg D 0) (Reg D (nat rs1x))]
         else [Mov (Reg D 0) (Slot D (unat (dec_rs1 d)))])
         @ [Shift SHR (Reg D 0) (Imm (scast (dec_imm d))), Movsxd (Reg Q 0) (Reg D 0), Mov (Slot Q (unat (dec_rd d))) (Reg Q 0)])
     else (jit_mv_rd_rs1_32 d
         @ [Shift SHR (Reg D (nat rdx)) (Imm (scast (dec_imm d)))]
         @ jit_sx_32_rd d)))"

definition jit_sraiw :: "jit_decode \<Rightarrow> x86_inst list" where [jit_defs]:
  "jit_sraiw d =
    (let rdx = x86_reg (dec_rd d); rs1x = x86_reg (dec_rs1 d) in
     (if dec_rd d = 0 then []
     else if dec_rs1 d = 0 then jit_zero_rd d
     else if dec_rd d = dec_rs1 d then ((if 0 < rdx then [Shift SAR (Reg D (nat rdx)) (Imm (scast (dec_imm d)))]
         else [Shift SAR (Slot D (unat (dec_rd d))) (Imm (scast (dec_imm d)))])
         @ jit_sx_32_rd d)
     else if rdx < 0 then ((if 0 < rs1x then [Mov (Reg D 0) (Reg D (nat rs1x))]
         else [Mov (Reg D 0) (Slot D (unat (dec_rs1 d)))])
         @ [Shift SAR (Reg D 0) (Imm (scast (dec_imm d))), Movsxd (Reg Q 0) (Reg D 0), Mov (Slot Q (unat (dec_rd d))) (Reg Q 0)])
     else (jit_mv_rd_rs1_32 d
         @ [Shift SAR (Reg D (nat rdx)) (Imm (scast (dec_imm d)))]
         @ jit_sx_32_rd d)))"

definition jit_lui :: "jit_decode \<Rightarrow> x86_inst list" where [jit_defs]:
  "jit_lui d =
    (let rdx = x86_reg (dec_rd d) in
     (if dec_rd d = 0 then []
     else if 0 < rdx then [Mov (Reg Q (nat rdx)) (Imm (scast (dec_imm d)))]
     else [Mov (Slot Q (unat (dec_rd d))) (Imm (scast (dec_imm d)))]))"

section \<open>Loads and stores\<close>

definition jit_ld :: "jit_decode \<Rightarrow> x86_inst list" where [jit_defs]:
  "jit_ld d =
    (let rdx = x86_reg (dec_rd d); rs1x = x86_reg (dec_rs1 d) in
     (if dec_rd d = 0 then []
     else if use_mmu then ((if dec_rs1 d = 0 then [Mov (Reg Q 0) (Imm (scast (dec_imm d)))]
         else if 0 < rs1x then [Lea_disp (Reg Q 0) (nat rs1x) (scast (dec_imm d))]
         else [Mov (Reg Q 1) (Slot Q (unat (dec_rs1 d))), Lea_disp (Reg Q 0) 1 (scast (dec_imm d))])
         @ [Call ''ld'', Cmp Cause_slot (Imm (0)), Jcc E (Local 0)]
         @ jit_emit_pc (jit_pc d)
         @ [Jmp Term, Bind (Local 0)]
         @ (if 0 < rdx then [Mov (Reg Q (nat rdx)) (Reg Q 0)]
         else [Mov (Slot Q (unat (dec_rd d))) (Reg Q 0)]))
     else if 0 < rdx then (if 0 < rs1x then [Mov (Reg Q (nat rdx)) (Mem Q (nat rs1x) (scast (dec_imm d)))]
         else [Mov (Reg Q 0) (Slot Q (unat (dec_rs1 d))), Mov (Reg Q (nat rdx)) (Mem Q 0 (scast (dec_imm d)))])
     else ((if 0 < rs1x then [Mov (Reg Q 0) (Mem Q (nat rs1x) (scast (dec_imm d)))]
         else [Mov (Reg Q 0) (Slot Q (unat (dec_rs1 d))), Mov (Reg Q 0) (Mem Q 0 (scast (dec_imm d)))])
         @ [Mov (Slot Q (unat (dec_rd d))) (Reg Q 0)])))"

definition jit_lw :: "jit_decode \<Rightarrow> x86_inst list" where [jit_defs]:
  "jit_lw d =
    (let rdx = x86_reg (dec_rd d); rs1x = x86_reg (dec_rs1 d) in
     (if dec_rd d = 0 then []
     else if use_mmu then ((if dec_rs1 d = 0 then [Mov (Reg Q 0) (Imm (scast (dec_imm d)))]
         else if 0 < rs1x then [Lea_disp (Reg Q 0) (nat rs1x) (scast (dec_imm d))]
         else [Mov (Reg Q 1) (Slot Q (unat (dec_rs1 d))), Lea_disp (Reg Q 0) 1 (scast (dec_imm d))])
         @ [Call ''lw'', Cmp Cause_slot (Imm (0)), Jcc E (Local 0)]
         @ jit_emit_pc (jit_pc d)
         @ [Jmp Term, Bind (Local 0)]
         @ (if 0 < rdx then [Movsxd (Reg Q (nat rdx)) (Reg D 0)]
         else [Movsxd (Reg Q 0) (Reg D 0), Mov (Slot Q (unat (dec_rd d))) (Reg Q 0)]))
     else if 0 < rdx then (if 0 < rs1x then [Movsxd (Reg Q (nat rdx)) (Mem D (nat rs1x) (scast (dec_imm d)))]
         else [Mov (Reg Q 0) (Slot Q (unat (dec_rs1 d))), Movsxd (Reg Q (nat rdx)) (Mem D 0 (scast (dec_imm d)))])
     else ((if 0 < rs1x then [Movsxd (Reg Q 0) (Mem D (nat rs1x) (scast (dec_imm d)))]
         else [Mov (Reg Q 0) (Slot Q (unat (dec_rs1 d))), Movsxd (Reg Q 0) (Mem D 0 (scast (dec_imm d)))])
         @ [Mov (Slot Q (unat (dec_rd d))) (Reg Q 0)])))"

definition jit_lwu :: "jit_decode \<Rightarrow> x86_inst list" where [jit_defs]:
  "jit_lwu d =
    (let rdx = x86_reg (dec_rd d); rs1x = x86_reg (dec_rs1 d) in
     (if dec_rd d = 0 then []
     else if use_mmu then ((if dec_rs1 d = 0 then [Mov (Reg Q 0) (Imm (scast (dec_imm d)))]
         else if 0 < rs1x then [Lea_disp (Reg Q 0) (nat rs1x) (scast (dec_imm d))]
         else [Mov (Reg Q 1) (Slot Q (unat (dec_rs1 d))), Lea_disp (Reg Q 0) 1 (scast (dec_imm d))])
         @ [Call ''lw'', Cmp Cause_slot (Imm (0)), Jcc E (Local 0)]
         @ jit_emit_pc (jit_pc d)
         @ [Jmp Term, Bind (Local 0)]
         @ (if 0 < rdx then [Mov (Reg D (nat rdx)) (Reg D 0)]
         else [Mov (Slot Q (unat (dec_rd d))) (Reg Q 0)]))
     else if 0 < rdx then (if 0 < rs1x then [Mov (Reg D (nat rdx)) (Mem D (nat rs1x) (scast (dec_imm d)))]
         else [Mov (Reg Q 0) (Slot Q (unat (dec_rs1 d))), Mov (Reg D (nat rdx)) (Mem D 0 (scast (dec_imm d)))])
     else ((if 0 < rs1x then [Mov (Reg D 0) (Mem D (nat rs1x) (scast (dec_imm d)))]
         else [Mov (Reg Q 0) (Slot Q (unat (dec_rs1 d))), Mov (Reg D 0) (Mem D 0 (scast (dec_imm d)))])
         @ [Mov (Slot Q (unat (dec_rd d))) (Reg Q 0)])))"

definition jit_lh :: "jit_decode \<Rightarrow> x86_inst list" where [jit_defs]:
  "jit_lh d =
    (let rdx = x86_reg (dec_rd d); rs1x = x86_reg (dec_rs1 d) in
     (if dec_rd d = 0 then []
     else if use_mmu then ((if dec_rs1 d = 0 then [Mov (Reg Q 0) (Imm (scast (dec_imm d)))]
         else if 0 < rs1x then [Lea_disp (Reg Q 0) (nat rs1x) (scast (dec_imm d))]
         else [Mov (Reg Q 1) (Slot Q (unat (dec_rs1 d))), Lea_disp (Reg Q 0) 1 (scast (dec_imm d))])
         @ [Call ''lh'', Cmp Cause_slot (Imm (0)), Jcc E (Local 0)]
         @ jit_emit_pc (jit_pc d)
         @ [Jmp Term, Bind (Local 0)]
         @ (if 0 < rdx then [Movsx (Reg Q (nat rdx)) (Reg W 0)]
         else [Movsx (Reg Q 0) (Reg W 0), Mov (Slot Q (unat (dec_rd d))) (Reg Q 0)]))
     else if 0 < rdx then (if 0 < rs1x then [Movsx (Reg Q (nat rdx)) (Mem W (nat rs1x) (scast (dec_imm d)))]
         else [Mov (Reg Q 0) (Slot Q (unat (dec_rs1 d))), Movsx (Reg Q (nat rdx)) (Mem W 0 (scast (dec_imm d)))])
     else ((if 0 < rs1x then [Movsx (Reg Q 0) (Mem W (nat rs1x) (scast (dec_imm d)))]
         else [Mov (Reg Q 0) (Slot Q (unat (dec_rs1 d))), Movsx (Reg Q 0) (Mem W 0 (scast (dec_imm d)))])
         @ [Mov (Slot Q (unat (dec_rd d))) (Reg Q 0)])))"

definition jit_lhu :: "jit_decode \<Rightarrow> x86_inst list" where [jit_defs]:
  "jit_lhu d =
    (let rdx = x86_reg (dec_rd d); rs1x = x86_reg (dec_rs1 d) in
     (if dec_rd d = 0 then []
     else if use_mmu then ((if dec_rs1 d = 0 then [Mov (Reg Q 0) (Imm (scast (dec_imm d)))]
         else if 0 < rs1x then [Lea_disp (Reg Q 0) (nat rs1x) (scast (dec_imm d))]
         else [Mov (Reg Q 1) (Slot Q (unat (dec_rs1 d))), Lea_disp (Reg Q 0) 1 (scast (dec_imm d))])
         @ [Call ''lh'', Cmp Cause_slot (Imm (0)), Jcc E (Local 0)]
         @ jit_emit_pc (jit_pc d)
         @ [Jmp Term, Bind (Local 0)]
         @ (if 0 < rdx then [Mov (Reg D (nat rdx)) (Reg D 0)]
         else [Mov (Slot Q (unat (dec_rd d))) (Reg Q 0)]))
     else if 0 < rdx then (if 0 < rs1x then [Movzx (Reg D (nat rdx)) (Mem W (nat rs1x) (scast (dec_imm d)))]
         else [Mov (Reg Q 0) (Slot Q (unat (dec_rs1 d))), Movzx (Reg D (nat rdx)) (Mem W 0 (scast (dec_imm d)))])
     else ((if 0 < rs1x then [Movzx (Reg D 0) (Mem W (nat rs1x) (scast (dec_imm d)))]
         else [Mov (Reg Q 0) (Slot Q (unat (dec_rs1 d))), Movzx (Reg D 0) (Mem W 0 (scast (dec_imm d)))])
         @ [Mov (Slot Q (unat (dec_rd d))) (Reg Q 0)])))"

definition jit_lb :: "jit_decode \<Rightarrow> x86_inst list" where [jit_defs]:
  "jit_lb d =
    (let rdx = x86_reg (dec_rd d); rs1x = x86_reg (dec_rs1 d) in
     (if dec_rd d = 0 then []
     else if use_mmu then ((if dec_rs1 d = 0 then [Mov (Reg Q 0) (Imm (scast (dec_imm d)))]
         else if 0 < rs1x then [Lea_disp (Reg Q 0) (nat rs1x) (scast (dec_imm d))]
         else [Mov (Reg Q 1) (Slot Q (unat (dec_rs1 d))), Lea_disp (Reg Q 0) 1 (scast (dec_imm d))])
         @ [Call ''lb'', Cmp Cause_slot (Imm (0)), Jcc E (Local 0)]
         @ jit_emit_pc (jit_pc d)
         @ [Jmp Term, Bind (Local 0)]
         @ (if 0 < rdx then [Movsx (Reg Q (nat rdx)) (Reg B 0)]
         else [Movsx (Reg Q 0) (Reg B 0), Mov (Slot Q (unat (dec_rd d))) (Reg Q 0)]))
     else if 0 < rdx then (if 0 < rs1x then [Movsx (Reg Q (nat rdx)) (Mem B (nat rs1x) (scast (dec_imm d)))]
         else [Mov (Reg Q 0) (Slot Q (unat (dec_rs1 d))), Movsx (Reg Q (nat rdx)) (Mem B 0 (scast (dec_imm d)))])
     else ((if 0 < rs1x then [Movsx (Reg Q 0) (Mem B (nat rs1x) (scast (dec_imm d)))]
         else [Mov (Reg Q 0) (Slot Q (unat (dec_rs1 d))), Movsx (Reg Q 0) (Mem B 0 (scast (dec_imm d)))])
         @ [Mov (Slot Q (unat (dec_rd d))) (Reg Q 0)])))"

definition jit_lbu :: "jit_decode \<Rightarrow> x86_inst list" where [jit_defs]:
  "jit_lbu d =
    (let rdx = x86_reg (dec_rd d); rs1x = x86_reg (dec_rs1 d) in
     (if dec_rd d = 0 then []
     else if use_mmu then ((if dec_rs1 d = 0 then [Mov (Reg Q 0) (Imm (scast (dec_imm d)))]
         else if 0 < rs1x then [Lea_disp (Reg Q 0) (nat rs1x) (scast (dec_imm d))]
         else [Mov (Reg Q 1) (Slot Q (unat (dec_rs1 d))), Lea_disp (Reg Q 0) 1 (scast (dec_imm d))])
         @ [Call ''lb'', Cmp Cause_slot (Imm (0)), Jcc E (Local 0)]
         @ jit_emit_pc (jit_pc d)
         @ [Jmp Term, Bind (Local 0)]
         @ (if 0 < rdx then [Mov (Reg D (nat rdx)) (Reg D 0)]
         else [Mov (Slot Q (unat (dec_rd d))) (Reg Q 0)]))
     else if 0 < rdx then (if 0 < rs1x then [Movzx (Reg D (nat rdx)) (Mem B (nat rs1x) (scast (dec_imm d)))]
         else [Mov (Reg Q 0) (Slot Q (unat (dec_rs1 d))), Movzx (Reg D (nat rdx)) (Mem B 0 (scast (dec_imm d)))])
     else ((if 0 < rs1x then [Movzx (Reg D 0) (Mem B (nat rs1x) (scast (dec_imm d)))]
         else [Mov (Reg Q 0) (Slot Q (unat (dec_rs1 d))), Movzx (Reg D 0) (Mem B 0 (scast (dec_imm d)))])
         @ [Mov (Slot Q (unat (dec_rd d))) (Reg Q 0)])))"

definition jit_sd :: "jit_decode \<Rightarrow> x86_inst list" where [jit_defs]:
  "jit_sd d =
    (let rs2x = x86_reg (dec_rs2 d); rs1x = x86_reg (dec_rs1 d) in
     (if dec_rs2 d = 0 then (if use_mmu then ((if 0 < rs1x then [Lea_disp (Reg Q 0) (nat rs1x) (scast (dec_imm d))]
             else [Mov (Reg Q 1) (Slot Q (unat (dec_rs1 d))), Lea_disp (Reg Q 0) 1 (scast (dec_imm d))])
             @ [Alu LXOR (Reg D 1) (Reg D 1), Call ''sd'', Cmp Cause_slot (Imm (0)), Jcc E (Local 0)]
             @ jit_emit_pc (jit_pc d)
             @ [Jmp Term, Bind (Local 0)])
         else if 0 < rs1x then [Mov (Mem Q (nat rs1x) (scast (dec_imm d))) (Imm (0))]
         else [Mov (Reg Q 0) (Slot Q (unat (dec_rs1 d))), Mov (Mem Q 0 (scast (dec_imm d))) (Imm (0))])
     else if use_mmu then ((if 0 < rs1x then [Lea_disp (Reg Q 0) (nat rs1x) (scast (dec_imm d))]
         else [Mov (Reg Q 1) (Slot Q (unat (dec_rs1 d))), Lea_disp (Reg Q 0) 1 (scast (dec_imm d))])
         @ (if 0 < rs2x then [Mov (Reg Q 1) (Reg Q (nat rs2x))]
         else [Mov (Reg Q 1) (Slot Q (unat (dec_rs2 d)))])
         @ [Call ''sd'', Cmp Cause_slot (Imm (0)), Jcc E (Local 1)]
         @ jit_emit_pc (jit_pc d)
         @ [Jmp Term, Bind (Local 1)])
     else if 0 < rs2x then (if 0 < rs1x then [Mov (Mem Q (nat rs1x) (scast (dec_imm d))) (Reg Q (nat rs2x))]
         else [Mov (Reg Q 0) (Slot Q (unat (dec_rs1 d))), Mov (Mem Q 0 (scast (dec_imm d))) (Reg Q (nat rs2x))])
     else ([Mov (Reg Q 1) (Slot Q (unat (dec_rs2 d)))]
         @ (if 0 < rs1x then [Mov (Mem Q (nat rs1x) (scast (dec_imm d))) (Reg Q 1)]
         else [Mov (Reg Q 0) (Slot Q (unat (dec_rs1 d))), Mov (Mem Q 0 (scast (dec_imm d))) (Reg Q 1)]))))"

definition jit_sw :: "jit_decode \<Rightarrow> x86_inst list" where [jit_defs]:
  "jit_sw d =
    (let rs2x = x86_reg (dec_rs2 d); rs1x = x86_reg (dec_rs1 d) in
     (if dec_rs2 d = 0 then (if use_mmu then ((if 0 < rs1x then [Lea_disp (Reg Q 0) (nat rs1x) (scast (dec_imm d))]
             else [Mov (Reg Q 1) (Slot Q (unat (dec_rs1 d))), Lea_disp (Reg Q 0) 1 (scast (dec_imm d))])
             @ [Alu LXOR (Reg D 1) (Reg D 1), Call ''sw'', Cmp Cause_slot (Imm (0)), Jcc E (Local 0)]
             @ jit_emit_pc (jit_pc d)
             @ [Jmp Term, Bind (Local 0)])
         else if 0 < rs1x then [Mov (Mem D (nat rs1x) (scast (dec_imm d))) (Imm (0))]
         else [Mov (Reg Q 0) (Slot Q (unat (dec_rs1 d))), Mov (Mem D 0 (scast (dec_imm d))) (Imm (0))])
     else if use_mmu then ((if 0 < rs1x then [Lea_disp (Reg Q 0) (nat rs1x) (scast (dec_imm d))]
         else [Mov (Reg Q 1) (Slot Q (unat (dec_rs1 d))), Lea_disp (Reg Q 0) 1 (scast (dec_imm d))])
         @ (if 0 < rs2x then [Mov (Reg D 1) (Reg D (nat rs2x))]
         else [Mov (Reg D 1) (Slot D (unat (dec_rs2 d)))])
         @ [Call ''sw'', Cmp Cause_slot (Imm (0)), Jcc E (Local 1)]
         @ jit_emit_pc (jit_pc d)
         @ [Jmp Term, Bind (Local 1)])
     else if 0 < rs2x then (if 0 < rs1x then [Mov (Mem D (nat rs1x) (scast (dec_imm d))) (Reg D (nat rs2x))]
         else [Mov (Reg Q 0) (Slot Q (unat (dec_rs1 d))), Mov (Mem D 0 (scast (dec_imm d))) (Reg D (nat rs2x))])
     else ([Mov (Reg Q 1) (Slot Q (unat (dec_rs2 d)))]
         @ (if 0 < rs1x then [Mov (Mem D (nat rs1x) (scast (dec_imm d))) (Reg D 1)]
         else [Mov (Reg Q 0) (Slot Q (unat (dec_rs1 d))), Mov (Mem D 0 (scast (dec_imm d))) (Reg D 1)]))))"

definition jit_sh :: "jit_decode \<Rightarrow> x86_inst list" where [jit_defs]:
  "jit_sh d =
    (let rs2x = x86_reg (dec_rs2 d); rs1x = x86_reg (dec_rs1 d) in
     (if dec_rs2 d = 0 then (if use_mmu then ((if 0 < rs1x then [Lea_disp (Reg Q 0) (nat rs1x) (scast (dec_imm d))]
             else [Mov (Reg Q 1) (Slot Q (unat (dec_rs1 d))), Lea_disp (Reg Q 0) 1 (scast (dec_imm d))])
             @ [Alu LXOR (Reg D 1) (Reg D 1), Call ''sh'', Cmp Cause_slot (Imm (0)), Jcc E (Local 0)]
             @ jit_emit_pc (jit_pc d)
             @ [Jmp Term, Bind (Local 0)])
         else if 0 < rs1x then [Mov (Mem W (nat rs1x) (scast (dec_imm d))) (Imm (0))]
         else [Mov (Reg Q 0) (Slot Q (unat (dec_rs1 d))), Mov (Mem W 0 (scast (dec_imm d))) (Imm (0))])
     else if use_mmu then ((if 0 < rs1x then [Lea_disp (Reg Q 0) (nat rs1x) (scast (dec_imm d))]
         else [Mov (Reg Q 1) (Slot Q (unat (dec_rs1 d))), Lea_disp (Reg Q 0) 1 (scast (dec_imm d))])
         @ (if 0 < rs2x then [Mov (Reg D 1) (Reg D (nat rs2x))]
         else [Mov (Reg D 1) (Slot D (unat (dec_rs2 d)))])
         @ [Call ''sh'', Cmp Cause_slot (Imm (0)), Jcc E (Local 1)]
         @ jit_emit_pc (jit_pc d)
         @ [Jmp Term, Bind (Local 1)])
     else if 0 < rs2x then (if 0 < rs1x then [Mov (Mem W (nat rs1x) (scast (dec_imm d))) (Reg W (nat rs2x))]
         else [Mov (Reg Q 0) (Slot Q (unat (dec_rs1 d))), Mov (Mem W 0 (scast (dec_imm d))) (Reg W (nat rs2x))])
     else ([Mov (Reg Q 1) (Slot Q (unat (dec_rs2 d)))]
         @ (if 0 < rs1x then [Mov (Mem W (nat rs1x) (scast (dec_imm d))) (Reg W 1)]
         else [Mov (Reg Q 0) (Slot Q (unat (dec_rs1 d))), Mov (Mem W 0 (scast (dec_imm d))) (Reg W 1)]))))"

definition jit_sb :: "jit_decode \<Rightarrow> x86_inst list" where [jit_defs]:
  "jit_sb d =
    (let rs2x = x86_reg (dec_rs2 d); rs1x = x86_reg (dec_rs1 d) in
     (if dec_rs2 d = 0 then (if use_mmu then ((if 0 < rs1x then [Lea_disp (Reg Q 0) (nat rs1x) (scast (dec_imm d))]
             else [Mov (Reg Q 1) (Slot Q (unat (dec_rs1 d))), Lea_disp (Reg Q 0) 1 (scast (dec_imm d))])
             @ [Alu LXOR (Reg D 1) (Reg D 1), Call ''sb'', Cmp Cause_slot (Imm (0)), Jcc E (Local 0)]
             @ jit_emit_pc (jit_pc d)
             @ [Jmp Term, Bind (Local 0)])
         else if 0 < rs1x then [Mov (Mem B (nat rs1x) (scast (dec_imm d))) (Imm (0))]
         else [Mov (Reg Q 0) (Slot Q (unat (dec_rs1 d))), Mov (Mem B 0 (scast (dec_imm d))) (Imm (0))])
     else if use_mmu then ((if 0 < rs1x then [Lea_disp (Reg Q 0) (nat rs1x) (scast (dec_imm d))]
         else [Mov (Reg Q 1) (Slot Q (unat (dec_rs1 d))), Lea_disp (Reg Q 0) 1 (scast (dec_imm d))])
         @ (if 0 < rs2x then [Mov (Reg D 1) (Reg D (nat rs2x))]
         else [Mov (Reg D 1) (Slot D (unat (dec_rs2 d)))])
         @ [Call ''sb'', Cmp Cause_slot (Imm (0)), Jcc E (Local 1)]
         @ jit_emit_pc (jit_pc d)
         @ [Jmp Term, Bind (Local 1)])
     else if 0 < rs2x then (if 0 < rs1x then [Mov (Mem B (nat rs1x) (scast (dec_imm d))) (Reg B (nat rs2x))]
         else [Mov (Reg Q 0) (Slot Q (unat (dec_rs1 d))), Mov (Mem B 0 (scast (dec_imm d))) (Reg B (nat rs2x))])
     else ([Mov (Reg Q 1) (Slot Q (unat (dec_rs2 d)))]
         @ (if 0 < rs1x then [Mov (Mem B (nat rs1x) (scast (dec_imm d))) (Reg B 1)]
         else [Mov (Reg Q 0) (Slot Q (unat (dec_rs1 d))), Mov (Mem B 0 (scast (dec_imm d))) (Reg B 1)]))))"

section \<open>Fused instructions\<close>

definition jit_la :: "jit_decode \<Rightarrow> x86_inst list" where [jit_defs]:
  "jit_la d =
    (let rdx = x86_reg (dec_rd d) in
     (if dec_rd d = 0 then []
     else (let addr = jit_pc d + scast (dec_imm d) in
         (if dec_rd d = 0 then []
         else if 0 < rdx then [Mov (Reg Q (nat rdx)) (Imm (addr))]
         else [Mov (Reg Q 0) (Imm (addr)), Mov (Slot Q (unat (dec_rd d))) (Reg Q 0)]))))"

definition jit_zextw :: "jit_decode \<Rightarrow> x86_inst list" where [jit_defs]:
  "jit_zextw d =
    (let rdx = x86_reg (dec_rd d); rs1x = x86_reg (dec_rs1 d) in
     (if dec_rd d = dec_rs1 d then (if 0 < rdx then [Movzx (Reg Q (nat rdx)) (Reg D (nat rdx))]
         else [Mov (Reg D 0) (Slot D (unat (dec_rd d))), Mov (Slot Q (unat (dec_rd d))) (Reg Q 0)])
     else if 0 < rdx \<and> 0 < rs1x then [Movzx (Reg Q (nat rdx)) (Reg D (nat rs1x))]
     else if 0 < rdx then [Mov (Reg D (nat rdx)) (Slot D (unat (dec_rs1 d)))]
     else if 0 < rs1x then [Movzx (Reg Q 0) (Reg D (nat rs1x)), Mov (Slot Q (unat (dec_rd d))) (Reg Q 0)]
     else [Movzx (Reg Q 0) (Slot D (unat (dec_rs1 d))), Mov (Slot Q (unat (dec_rd d))) (Reg Q 0)]))"

definition jit_addiwz :: "jit_decode \<Rightarrow> x86_inst list" where [jit_defs]:
  "jit_addiwz d =
    (let rdx = x86_reg (dec_rd d) in
     (if dec_rd d = 0 then []
     else if 0 < rdx then [Alu ADD (Reg D (nat rdx)) (Imm (scast (dec_imm d))), Movzx (Reg Q (nat rdx)) (Reg D (nat rdx))]
     else [Mov (Reg D 0) (Slot D (unat (dec_rd d))), Alu ADD (Reg D 0) (Imm (scast (dec_imm d))), Mov (Slot Q (unat (dec_rd d))) (Reg Q 0)]))"

section \<open>Comparison of the operands of a branch\<close>

definition jit_cmp :: "jit_decode \<Rightarrow> x86_inst list" where [jit_defs]:
  "jit_cmp d =
    (let rs1x = x86_reg (dec_rs1 d); rs2x = x86_reg (dec_rs2 d) in
     (if dec_rs1 d = 0 then ([Alu LXOR (Reg D 0) (Reg D 0)]
         @ (if 0 < rs2x then [Cmp (Reg Q 0) (Reg Q (nat rs2x))]
         else [Cmp (Reg Q 0) (Slot Q (unat (dec_rs2 d)))]))
     else if dec_rs2 d = 0 then (if 0 < rs1x then [Cmp (Reg Q (nat rs1x)) (Imm (0))]
         else [Cmp (Slot Q (unat (dec_rs1 d))) (Imm (0))])
     else if 0 < rs1x then (if 0 < rs2x then [Cmp (Reg Q (nat rs1x)) (Reg Q (nat rs2x))]
         else [Cmp (Reg Q (nat rs1x)) (Slot Q (unat (dec_rs2 d)))])
     else if 0 < rs2x then [Cmp (Slot Q (unat (dec_rs1 d))) (Reg Q (nat rs2x))]
     else [Mov (Reg Q 0) (Slot Q (unat (dec_rs1 d))), Cmp (Reg Q 0) (Slot Q (unat (dec_rs2 d)))]))"

section \<open>The state of the emitter\<close>

text \<open>
  Labels are known by the guest address; a fix-up is a guest address with the position in the code just
  after the jump to patch.  \<^verbatim>\<open>lookup_trace_slow\<close> gives the code of an earlier trace or 0.
\<close>

record jit_emitter =
  je_code :: "x86_inst list"
  je_labels :: "u64 list"
  je_jmp_tramps :: "u64 list"
  je_exit_tramps :: "u64 list"
  je_fixups :: "(u64 \<times> nat) list"
  je_callstack :: "u64 list"
  je_term_pc :: u64

definition jit_emitter_init :: jit_emitter where
  "jit_emitter_init = \<lparr>je_code = [], je_labels = [], je_jmp_tramps = [], je_exit_tramps = [], je_fixups = [],
     je_callstack = [], je_term_pc = 0\<rparr>"

definition add_code :: "x86_inst list \<Rightarrow> jit_emitter \<Rightarrow> jit_emitter" where
  "add_code is e = e\<lparr>je_code := je_code e @ is\<rparr>"

definition create_exit_tramp :: "u64 \<Rightarrow> jit_emitter \<Rightarrow> jit_emitter" where
  "create_exit_tramp pc e = (if pc \<in> set (je_exit_tramps e) then e else e\<lparr>je_exit_tramps := insort pc (je_exit_tramps e)\<rparr>)"

definition create_jump_tramp :: "u64 \<Rightarrow> jit_emitter \<Rightarrow> jit_emitter" where
  "create_jump_tramp pc e = (if pc \<in> set (je_jmp_tramps e) then e else e\<lparr>je_jmp_tramps := insort pc (je_jmp_tramps e)\<rparr>)"

definition create_jump_fixup :: "u64 \<Rightarrow> jit_emitter \<Rightarrow> jit_emitter" where
  "create_jump_fixup pc e = e\<lparr>je_fixups := je_fixups e @ [(pc, length (je_code e))]\<rparr>"

definition emit_jump_fixup :: "u64 \<Rightarrow> jit_emitter \<Rightarrow> jit_emitter" where
  "emit_jump_fixup pc e = create_jump_fixup pc (add_code [Jmp (Jmp_tramp pc)] (create_jump_tramp pc e))"

definition emit_branch_fixup :: "cond \<Rightarrow> u64 \<Rightarrow> jit_emitter \<Rightarrow> jit_emitter" where
  "emit_branch_fixup bf pc e = create_jump_fixup pc (add_code [Jcc bf (Jmp_tramp pc)] (create_jump_tramp pc e))"

section \<open>Branches and jumps\<close>

text \<open>\<open>taken\<close> is what the branch does in the traced execution.\<close>

definition emit_branch :: "(u64 \<Rightarrow> u64) \<Rightarrow> jit_decode \<Rightarrow> bool \<Rightarrow> cond \<Rightarrow> cond \<Rightarrow> jit_emitter \<Rightarrow> jit_emitter" where
  "emit_branch lookup d taken bf ibf e =
    (let branch_pc = jit_pc d + scast (dec_imm d);
         cont_pc = jit_pc d + of_nat (inst_length (jit_inst d));
         branch_i = branch_pc \<in> set (je_labels e);
         cont_i = cont_pc \<in> set (je_labels e);
         e = add_code (jit_cmp d) e
     in if branch_i \<and> cont_i then add_code [Jcc bf (Trace branch_pc), Jmp (Trace cont_pc)] e
        else if taken \<and> branch_i then
          (let e = add_code [Jcc bf (Trace branch_pc)] e;
               cont_addr = lookup cont_pc;
               e = (if cont_addr \<noteq> 0 then add_code [Jmp (Code cont_addr)] e else emit_jump_fixup cont_pc e)
           in e\<lparr>je_term_pc := 0\<rparr>)
        else if \<not> taken \<and> cont_i then
          (let e = add_code [Jcc ibf (Trace cont_pc)] e;
               branch_addr = lookup branch_pc;
               e = (if branch_addr \<noteq> 0 then add_code [Jmp (Code branch_addr)] e else emit_jump_fixup branch_pc e)
           in e\<lparr>je_term_pc := 0\<rparr>)
        else if taken then
          (let cont_addr = lookup cont_pc;
               e = (if cont_addr \<noteq> 0 then add_code [Jcc ibf (Code cont_addr)] e else emit_branch_fixup ibf cont_pc e)
           in e\<lparr>je_term_pc := branch_pc\<rparr>)
        else
          (let branch_addr = lookup branch_pc;
               e = (if branch_addr \<noteq> 0 then add_code [Jcc bf (Code branch_addr)] e else emit_branch_fixup bf branch_pc e)
           in e\<lparr>je_term_pc := cont_pc\<rparr>))"

text \<open>The conditions of the six branches on the registers, and on the flags after the comparison.\<close>

definition branch_cond :: "opcode \<Rightarrow> u64 \<Rightarrow> u64 \<Rightarrow> bool" where
  "branch_cond opc a b =
    (if opc = rv_op_bne then a \<noteq> b
     else if opc = rv_op_beq then a = b
     else if opc = rv_op_blt then a <s b
     else if opc = rv_op_bge then b \<le>s a
     else if opc = rv_op_bltu then a < b
     else b \<le> a)"

definition branch_flags :: "opcode \<Rightarrow> cond \<times> cond" where
  "branch_flags opc =
    (if opc = rv_op_bne then (NE, E)
     else if opc = rv_op_beq then (E, NE)
     else if opc = rv_op_blt then (L, GE)
     else if opc = rv_op_bge then (GE, L)
     else if opc = rv_op_bltu then (Below, AE)
     else (AE, Below))"

definition emit_branch_op :: "(u64 \<Rightarrow> u64) \<Rightarrow> u64 list \<Rightarrow> jit_decode \<Rightarrow> jit_emitter \<Rightarrow> jit_emitter" where
  "emit_branch_op lookup regs d =
    emit_branch lookup d (branch_cond (dec_op d) (regs ! unat (dec_rs1 d)) (regs ! unat (dec_rs2 d)))
      (fst (branch_flags (dec_op d))) (snd (branch_flags (dec_op d)))"

definition jit_emit_jal :: "jit_decode \<Rightarrow> jit_emitter \<Rightarrow> jit_emitter" where
  "jit_emit_jal d e =
    (let e = e\<lparr>je_term_pc := jit_pc d + scast (dec_imm d)\<rparr>;
         rdx = x86_reg (dec_rd d)
     in if dec_rd d = 0 then e
        else
          (let link_addr = jit_pc d + of_nat (inst_length (jit_inst d));
               e = e\<lparr>je_callstack := je_callstack e @ [link_addr]\<rparr>
           in add_code (if 0 < rdx then [Mov (Reg Q (nat rdx)) (Imm link_addr)]
                else [Mov (Reg Q 0) (Imm link_addr), Mov (Slot Q (unat (dec_rd d))) (Reg Q 0)]) e))"

definition jit_emit_jalr :: "jit_decode \<Rightarrow> jit_emitter \<Rightarrow> bool \<times> jit_emitter" where
  "jit_emit_jalr d e =
    (let e = e\<lparr>je_term_pc := 0\<rparr>;
         rdx = x86_reg (dec_rd d);
         rs1x = x86_reg (dec_rs1 d);
         imm = scast (dec_imm d)
     in if dec_rd d = 0 \<and> dec_rs1 d = 1 \<and> je_callstack e \<noteq> [] then
          (let link_addr = last (je_callstack e);
               e = e\<lparr>je_callstack := butlast (je_callstack e)\<rparr>;
               e = create_exit_tramp (jit_pc d) e
           in (True, add_code [Cmp (Reg Q 2) (Imm link_addr), Jcc NE (Exit_tramp (jit_pc d))] e))
        else
          (let link_addr = jit_pc d + of_nat (inst_length (jit_inst d));
               e = add_code
                 (if dec_rs1 d = 0 then
                    (if dec_imm d = 0 then [Alu LXOR (Reg D 0) (Reg D 0)] else [Mov (Reg D 0) (Imm imm)])
                  else if 0 < rs1x then
                    (if dec_imm d = 0 then [Mov Pc_slot (Reg Q (nat rs1x))]
                     else [Lea_disp (Reg Q 0) (nat rs1x) imm, Mov Pc_slot (Reg Q 0)])
                  else [Mov (Reg Q 0) (Slot Q (unat (dec_rs1 d))), Alu ADD (Reg Q 0) (Imm imm), Mov Pc_slot (Reg Q 0)]) e;
               e = add_code
                 (if dec_rd d = 0 then []
                  else if 0 < rdx then [Mov (Reg Q (nat rdx)) (Imm link_addr)]
                  else [Mov (Reg Q 0) (Imm link_addr), Mov (Slot Q (unat (dec_rd d))) (Reg Q 0)]) e
           in (False, add_code [Jmp Lookup] e)))"

definition emit_call :: "jit_decode \<Rightarrow> jit_emitter \<Rightarrow> jit_emitter" where
  "emit_call d e =
    (let term_pc = jit_pc d + scast (dec_imm d);
         e = e\<lparr>je_term_pc := term_pc\<rparr>;
         rs1x = x86_reg (dec_rd d);
         link_addr = jit_pc d + of_nat (inst_length (jit_inst d)) + 4;
         e = e\<lparr>je_callstack := je_callstack e @ [link_addr]\<rparr>
     in add_code
       ((if dec_rd d = 1 then []
         else if 0 < rs1x then [Mov (Reg Q (nat rs1x)) (Imm term_pc)]
         else [Mov (Reg Q 0) (Imm term_pc), Mov (Slot Q (unat (dec_rs1 d))) (Reg Q 0)])
        @ [Mov (Reg Q 2) (Imm link_addr)]) e)"

section \<open>One instruction\<close>

definition jit_op_la :: opcode where "jit_op_la = 1024"
definition jit_op_call :: opcode where "jit_op_call = 1025"
definition jit_op_zextw :: opcode where "jit_op_zextw = 1026"
definition jit_op_addiwz :: opcode where "jit_op_addiwz = 1027"

text \<open>The emitters that only add code, by opcode.\<close>

definition jit_table :: "(opcode \<times> (jit_decode \<Rightarrow> x86_inst list)) list" where
  "jit_table =
    [(rv_op_auipc, jit_auipc), (rv_op_add, jit_add), (rv_op_sub, jit_sub), (rv_op_mul, jit_mul), (rv_op_mulh, jit_mulh),
     (rv_op_mulhu, jit_mulhu), (rv_op_mulhsu, jit_mulhsu), (rv_op_div, jit_div), (rv_op_rem, jit_rem), (rv_op_divu, jit_divu),
     (rv_op_remu, jit_remu), (rv_op_slt, jit_slt), (rv_op_sltu, jit_sltu), (rv_op_and, jit_and), (rv_op_or, jit_or),
     (rv_op_xor, jit_xor), (rv_op_sll, jit_sll), (rv_op_srl, jit_srl), (rv_op_sra, jit_sra), (rv_op_addw, jit_addw),
     (rv_op_subw, jit_subw), (rv_op_mulw, jit_mulw), (rv_op_divw, jit_divw), (rv_op_remw, jit_remw), (rv_op_divuw, jit_divuw),
     (rv_op_remuw, jit_remuw), (rv_op_sllw, jit_sllw), (rv_op_srlw, jit_srlw), (rv_op_sraw, jit_sraw), (rv_op_addi, jit_addi),
     (rv_op_slti, jit_slti), (rv_op_sltiu, jit_sltiu), (rv_op_andi, jit_andi), (rv_op_ori, jit_ori), (rv_op_xori, jit_xori),
     (rv_op_slli, jit_slli), (rv_op_srli, jit_srli), (rv_op_srai, jit_srai), (rv_op_addiw, jit_addiw), (rv_op_slliw, jit_slliw),
     (rv_op_srliw, jit_srliw), (rv_op_sraiw, jit_sraiw), (rv_op_ld, jit_ld), (rv_op_lw, jit_lw), (rv_op_lwu, jit_lwu),
     (rv_op_lh, jit_lh), (rv_op_lhu, jit_lhu), (rv_op_lb, jit_lb), (rv_op_lbu, jit_lbu), (rv_op_sd, jit_sd),
     (rv_op_sw, jit_sw), (rv_op_sh, jit_sh), (rv_op_sb, jit_sb), (rv_op_lui, jit_lui), (jit_op_la, jit_la),
     (jit_op_zextw, jit_zextw), (jit_op_addiwz, jit_addiwz)]"

definition jit_straight :: "jit_decode \<Rightarrow> x86_inst list option" where
  "jit_straight d = map_option (\<lambda>f. f d) (map_of jit_table (dec_op d))"

text \<open>
  \<^verbatim>\<open>emit\<close>: an instruction already in the trace ends it; otherwise its label is bound and its code is added.
  \<open>False\<close> ends the trace.  \<open>regs\<close> are the guest registers at the time of emission.
\<close>

definition jit_emit :: "(u64 \<Rightarrow> u64) \<Rightarrow> u64 list \<Rightarrow> jit_decode \<Rightarrow> jit_emitter \<Rightarrow> bool \<times> jit_emitter" where
  "jit_emit lookup regs d e =
    (if jit_pc d \<in> set (je_labels e) then (False, e)
     else
       (let e = add_code [Bind (Trace (jit_pc d))] (e\<lparr>je_labels := je_labels e @ [jit_pc d]\<rparr>);
            next_pc = jit_pc d + of_nat (inst_length (jit_inst d))
        in case jit_straight d of
             Some code \<Rightarrow>
               (True, add_code code (e\<lparr>je_term_pc :=
                  (if dec_op d = jit_op_la then next_pc + 4
                   else if dec_op d = jit_op_zextw \<or> dec_op d = jit_op_addiwz then jit_pc d + ucast (jit_sz d)
                   else next_pc)\<rparr>))
           | None \<Rightarrow>
               if dec_op d \<in> {rv_op_bne, rv_op_beq, rv_op_blt, rv_op_bge, rv_op_bltu, rv_op_bgeu}
               then (True, emit_branch_op lookup regs d e)
               else if dec_op d = rv_op_jal then (True, jit_emit_jal d e)
               else if dec_op d = rv_op_jalr then jit_emit_jalr d e
               else if dec_op d = jit_op_call then (True, emit_call d e)
               else (False, e)))"

section \<open>Entering and leaving a trace\<close>

text \<open>The guest registers kept in host registers; the host's own registers on the stack are not modelled.\<close>

definition mapped_regs :: "u8 list" where
  "mapped_regs = [1, 2, 5, 6, 10, 11, 12, 13, 14, 15, 16, 17]"

definition emit_prolog :: "x86_inst list" where
  "emit_prolog = map (\<lambda>r. Mov (Reg Q (nat (x86_reg r))) (Slot Q (unat r))) mapped_regs"

text \<open>\<^verbatim>\<open>begin\<close> and \<^verbatim>\<open>end\<close>.\<close>

definition emit_begin :: "jit_emitter \<Rightarrow> jit_emitter" where
  "emit_begin e = add_code [Bind Start] e"

definition emit_end :: "jit_emitter \<Rightarrow> jit_emitter" where
  "emit_end e = add_code [Bind Term] (if je_term_pc e \<noteq> 0 then add_code (jit_emit_pc (je_term_pc e)) e else e)"

definition jump_trampolines :: "jit_emitter \<Rightarrow> x86_inst list" where
  "jump_trampolines e = concat (map (\<lambda>pc. Bind (Jmp_tramp pc) # jit_emit_pc pc @ [Jmp Lookup]) (je_jmp_tramps e))"

definition exit_trampolines :: "jit_emitter \<Rightarrow> x86_inst list" where
  "exit_trampolines e = concat (map (\<lambda>pc. Bind (Exit_tramp pc) # jit_emit_pc pc @ [Jmp Term]) (je_exit_tramps e))"

text \<open>\<^verbatim>\<open>ret\<close> is a jump out of the code.\<close>

definition emit_epilog :: "jit_emitter \<Rightarrow> x86_inst list" where
  "emit_epilog e = map (\<lambda>r. Mov (Slot Q (unat r)) (Reg Q (nat (x86_reg r)))) mapped_regs @ [Jmp Return]
     @ jump_trampolines e @ exit_trampolines e"

end
