(* ===== verification/Rv_Fusion.thy ===== *)
theory Rv_Fusion
  imports Rv_Jit
begin

text \<open>
  Fusion of instruction sequences before they are compiled, \<^verbatim>\<open>src/src/jit/jit-fusion.h\<close>: a state machine
  queues instructions that may begin one of four idioms and emits one pseudo instruction for a complete one.
  \<open>fuse\<close> is the rewriting of the instruction sequence that the state machine carries out.
\<close>

section \<open>The state machine\<close>

datatype match_state =
    match_state_none | match_state_auipc | match_state_zextw | match_state_addiw | match_state_addiwz

record fusion =
  fu_imm :: u64
  fu_rd :: u8
  fu_rs1 :: u8
  fu_sz :: nat
  fu_pc :: u64
  fu_state :: match_state
  fu_queue :: "jit_decode list"

definition fusion_init :: fusion where
  "fusion_init = \<lparr>fu_imm = 0, fu_rd = 0, fu_rs1 = 0, fu_sz = 0, fu_pc = 0, fu_state = match_state_none, fu_queue = []\<rparr>"

text \<open>The constructors of \<^verbatim>\<open>jit_decode\<close> for a pseudo instruction.\<close>

definition jit_pseudo :: "u64 \<Rightarrow> u64 \<Rightarrow> opcode \<Rightarrow> u8 \<Rightarrow> u8 \<Rightarrow> s32 \<Rightarrow> jit_decode" where
  "jit_pseudo at inst opc rd rs1 imm =
    decode.extend (decode_init\<lparr>dec_op := opc, dec_rd := rd, dec_rs1 := rs1, dec_imm := imm\<rparr>)
      \<lparr>jit_pc = at, jit_inst = inst, jit_sz = 0\<rparr>"

definition emit_queue :: "(u64 \<Rightarrow> u64) \<Rightarrow> u64 list \<Rightarrow> fusion \<times> jit_emitter \<Rightarrow> fusion \<times> jit_emitter" where
  "emit_queue lookup regs = (\<lambda>(f, e).
    (f\<lparr>fu_state := match_state_none, fu_queue := []\<rparr>, fold (\<lambda>d e. snd (jit_emit lookup regs d e)) (fu_queue f) e))"

definition clear_queue :: "fusion \<Rightarrow> fusion" where
  "clear_queue f = f\<lparr>fu_state := match_state_none, fu_queue := []\<rparr>"

definition fusion_end :: "(u64 \<Rightarrow> u64) \<Rightarrow> u64 list \<Rightarrow> fusion \<times> jit_emitter \<Rightarrow> fusion \<times> jit_emitter" where
  "fusion_end lookup regs fe = (case emit_queue lookup regs fe of (f, e) \<Rightarrow> (f, emit_end e))"

text \<open>An instruction goes to the emitter unless the state machine keeps it.\<close>

definition pass_on :: "(u64 \<Rightarrow> u64) \<Rightarrow> u64 list \<Rightarrow> jit_decode \<Rightarrow> fusion \<times> jit_emitter \<Rightarrow> bool \<times> fusion \<times> jit_emitter" where
  "pass_on lookup regs d = (\<lambda>(f, e). case jit_emit lookup regs d e of (ok, e) \<Rightarrow> (ok, f, e))"

definition begin_zextw :: "jit_decode \<Rightarrow> fusion \<Rightarrow> fusion" where
  "begin_zextw d f = f\<lparr>fu_rd := dec_rd d, fu_rs1 := dec_rs1 d, fu_pc := jit_pc d, fu_sz := inst_length (jit_inst d),
     fu_state := match_state_zextw, fu_queue := fu_queue f @ [d]\<rparr>"

definition fusion_emit :: "(u64 \<Rightarrow> u64) \<Rightarrow> u64 list \<Rightarrow> jit_decode \<Rightarrow> fusion \<times> jit_emitter \<Rightarrow> bool \<times> fusion \<times> jit_emitter" where
  "fusion_emit lookup regs d fe =
    (case fe of (f, e) \<Rightarrow>
     case fu_state f of
       match_state_none \<Rightarrow>
         if dec_op d = rv_op_auipc then
           (True, f\<lparr>fu_rd := dec_rd d, fu_imm := scast (dec_imm d), fu_pc := jit_pc d, fu_state := match_state_auipc,
              fu_queue := fu_queue f @ [d]\<rparr>, e)
         else if dec_op d = rv_op_addiw \<and> dec_rd d = dec_rs1 d then
           (True, f\<lparr>fu_rd := dec_rd d, fu_imm := scast (dec_imm d), fu_pc := jit_pc d, fu_sz := inst_length (jit_inst d),
              fu_state := match_state_addiw, fu_queue := fu_queue f @ [d]\<rparr>, e)
         else if (dec_op d = rv_op_addiw \<or> dec_op d = rv_op_slli) \<and> dec_imm d = 32 then (True, begin_zextw d f, e)
         else pass_on lookup regs d fe
     | match_state_addiw \<Rightarrow>
         if dec_op d = rv_op_slli \<and> fu_rd f = dec_rd d \<and> fu_rd f = dec_rs1 d \<and> dec_imm d = 32 then
           (True, f\<lparr>fu_sz := fu_sz f + inst_length (jit_inst d), fu_state := match_state_addiwz, fu_queue := fu_queue f @ [d]\<rparr>, e)
         else if dec_op d = rv_op_slli \<and> dec_imm d = 32 then
           (case emit_queue lookup regs fe of (f, e) \<Rightarrow> (True, begin_zextw d f, e))
         else pass_on lookup regs d (emit_queue lookup regs fe)
     | match_state_addiwz \<Rightarrow>
         if dec_op d = rv_op_srli \<and> fu_rd f = dec_rd d \<and> fu_rd f = dec_rs1 d \<and> dec_imm d = 32 then
           (True, clear_queue f, snd (jit_emit lookup regs
              ((jit_pseudo (fu_pc f) (jit_inst d) jit_op_addiwz (fu_rd f) 0 (ucast (fu_imm f)))
                 \<lparr>jit_sz := of_nat (fu_sz f + inst_length (jit_inst d))\<rparr>) e))
         else pass_on lookup regs d (emit_queue lookup regs fe)
     | match_state_auipc \<Rightarrow>
         if dec_op d = rv_op_addi \<and> fu_rd f = dec_rd d \<and> fu_rd f = dec_rs1 d then
           (let imm = fu_imm f + scast (dec_imm d)
            in (True, clear_queue (f\<lparr>fu_imm := imm\<rparr>),
                snd (jit_emit lookup regs (jit_pseudo (fu_pc f) (jit_inst d) jit_op_la (dec_rs1 d) 0 (ucast imm)) e)))
         else if (dec_op d = rv_op_addi \<or> dec_op d = rv_op_jalr) \<and> fu_rd f = dec_rs1 d \<and> dec_rd d = 1 then
           (let imm = fu_imm f + scast (dec_imm d)
            in (True, clear_queue (f\<lparr>fu_imm := imm\<rparr>),
                snd (jit_emit lookup regs (jit_pseudo (fu_pc f) (jit_inst d) jit_op_call (dec_rs1 d) 0 (ucast imm)) e)))
         else pass_on lookup regs d (emit_queue lookup regs fe)
     | match_state_zextw \<Rightarrow>
         if dec_op d = rv_op_srli \<and> fu_rd f = dec_rd d \<and> fu_rd f = dec_rs1 d \<and> dec_imm d = 32 then
           (True, clear_queue f, snd (jit_emit lookup regs
              ((jit_pseudo (fu_pc f) (jit_inst d) jit_op_zextw (fu_rd f) (fu_rs1 f) 0)
                 \<lparr>jit_sz := of_nat (fu_sz f + inst_length (jit_inst d))\<rparr>) e))
         else pass_on lookup regs d (emit_queue lookup regs fe))"

section \<open>The rewriting\<close>

definition opens_zextw :: "jit_decode \<Rightarrow> bool" where
  "opens_zextw d \<longleftrightarrow> (dec_op d = rv_op_addiw \<and> dec_rd d \<noteq> dec_rs1 d \<or> dec_op d = rv_op_slli) \<and> dec_imm d = 32"

definition fold_la :: "jit_decode \<Rightarrow> jit_decode \<Rightarrow> opcode \<Rightarrow> jit_decode" where
  "fold_la d d' opc = jit_pseudo (jit_pc d) (jit_inst d') opc (dec_rs1 d') 0 (ucast (scast (dec_imm d) + scast (dec_imm d') :: u64))"

definition fold_zextw :: "jit_decode \<Rightarrow> jit_decode \<Rightarrow> jit_decode" where
  "fold_zextw d d' = (jit_pseudo (jit_pc d) (jit_inst d') jit_op_zextw (dec_rd d) (dec_rs1 d) 0)
     \<lparr>jit_sz := of_nat (inst_length (jit_inst d) + inst_length (jit_inst d'))\<rparr>"

definition fold_addiwz :: "jit_decode \<Rightarrow> jit_decode \<Rightarrow> jit_decode \<Rightarrow> jit_decode" where
  "fold_addiwz d d' d'' = (jit_pseudo (jit_pc d) (jit_inst d'') jit_op_addiwz (dec_rd d) 0 (dec_imm d))
     \<lparr>jit_sz := of_nat (inst_length (jit_inst d) + inst_length (jit_inst d') + inst_length (jit_inst d''))\<rparr>"

definition same_shift :: "opcode \<Rightarrow> jit_decode \<Rightarrow> jit_decode \<Rightarrow> bool" where
  "same_shift opc d d' \<longleftrightarrow> dec_op d' = opc \<and> dec_rd d = dec_rd d' \<and> dec_rd d = dec_rs1 d' \<and> dec_imm d' = 32"

definition completes_la :: "jit_decode \<Rightarrow> jit_decode \<Rightarrow> bool" where
  "completes_la d d' \<longleftrightarrow> dec_op d' = rv_op_addi \<and> dec_rd d = dec_rd d' \<and> dec_rd d = dec_rs1 d'"

definition completes_call :: "jit_decode \<Rightarrow> jit_decode \<Rightarrow> bool" where
  "completes_call d d' \<longleftrightarrow> (dec_op d' = rv_op_addi \<or> dec_op d' = rv_op_jalr) \<and> dec_rd d = dec_rs1 d' \<and> dec_rd d' = 1"

definition fuse_auipc :: "jit_decode \<Rightarrow> jit_decode \<Rightarrow> jit_decode list" where
  "fuse_auipc d d' = (if completes_la d d' then [fold_la d d' jit_op_la]
     else if completes_call d d' then [fold_la d d' jit_op_call] else [d, d'])"

definition fuse_zextw :: "jit_decode \<Rightarrow> jit_decode \<Rightarrow> jit_decode list" where
  "fuse_zextw d d' = (if same_shift rv_op_srli d d' then [fold_zextw d d'] else [d, d'])"

definition fuse_addiwz :: "jit_decode \<Rightarrow> jit_decode \<Rightarrow> jit_decode \<Rightarrow> jit_decode list" where
  "fuse_addiwz d d' d'' = (if same_shift rv_op_srli d d'' then [fold_addiwz d d' d''] else [d, d', d''])"

fun fuse :: "jit_decode list \<Rightarrow> jit_decode list" where
  "fuse [] = []"
| "fuse [d] = [d]"
| "fuse (d # d' # ds) =
    (if dec_op d = rv_op_auipc then fuse_auipc d d' @ fuse ds
     else if dec_op d = rv_op_addiw \<and> dec_rd d = dec_rs1 d then
       (if same_shift rv_op_slli d d' then
          (case ds of [] \<Rightarrow> [d, d'] | d'' # ds' \<Rightarrow> fuse_addiwz d d' d'' @ fuse ds')
        else if dec_op d' = rv_op_slli \<and> dec_imm d' = 32 then d # fuse (d' # ds)
        else d # d' # fuse ds)
     else if opens_zextw d then fuse_zextw d d' @ fuse ds
     else d # fuse (d' # ds))"

text \<open>The instructions each instruction of the result stands for.\<close>

definition groups_auipc :: "jit_decode \<Rightarrow> jit_decode \<Rightarrow> (jit_decode \<times> jit_decode list) list" where
  "groups_auipc d d' = (if completes_la d d' \<or> completes_call d d' then [(hd (fuse_auipc d d'), [d, d'])] else [(d, [d]), (d', [d'])])"

definition groups_zextw :: "jit_decode \<Rightarrow> jit_decode \<Rightarrow> (jit_decode \<times> jit_decode list) list" where
  "groups_zextw d d' = (if same_shift rv_op_srli d d' then [(fold_zextw d d', [d, d'])] else [(d, [d]), (d', [d'])])"

definition groups_addiwz :: "jit_decode \<Rightarrow> jit_decode \<Rightarrow> jit_decode \<Rightarrow> (jit_decode \<times> jit_decode list) list" where
  "groups_addiwz d d' d'' = (if same_shift rv_op_srli d d'' then [(fold_addiwz d d' d'', [d, d', d''])]
     else [(d, [d]), (d', [d']), (d'', [d''])])"

fun groups :: "jit_decode list \<Rightarrow> (jit_decode \<times> jit_decode list) list" where
  "groups [] = []"
| "groups [d] = [(d, [d])]"
| "groups (d # d' # ds) =
    (if dec_op d = rv_op_auipc then groups_auipc d d' @ groups ds
     else if dec_op d = rv_op_addiw \<and> dec_rd d = dec_rs1 d then
       (if same_shift rv_op_slli d d' then
          (case ds of [] \<Rightarrow> [(d, [d]), (d', [d'])] | d'' # ds' \<Rightarrow> groups_addiwz d d' d'' @ groups ds')
        else if dec_op d' = rv_op_slli \<and> dec_imm d' = 32 then (d, [d]) # groups (d' # ds)
        else (d, [d]) # (d', [d']) # groups ds)
     else if opens_zextw d then groups_zextw d d' @ groups ds
     else (d, [d]) # groups (d' # ds))"

lemmas group_defs = groups_auipc_def groups_zextw_def groups_addiwz_def fuse_auipc_def fuse_zextw_def fuse_addiwz_def

lemma groups_fuse: "map fst (groups ds) = fuse ds"
  by (induction ds rule: fuse.induct) (auto simp: group_defs split: list.split)

lemma groups_concat: "concat (map snd (groups ds)) = ds"
  by (induction ds rule: fuse.induct) (auto simp: group_defs split: list.split)

end
