(* ===== verification/Rv_Jit_Laws.thy ===== *)
theory Rv_Jit_Laws
  imports Rv_Jit Rv_Exec_Props
begin

text \<open>
  That emitted code does what the instruction does: a host state represents the guest registers, and running
  the code of an instruction changes the represented register \<^verbatim>\<open>rd\<close> only, to the result of the instruction.
\<close>

section \<open>The register map\<close>

lemma x86_reg_range: "x86_reg r \<in> {- 1, 0, 2, 3, 6, 7, 8, 9, 10, 11, 12, 13, 14, 15}"
  by (simp add: x86_reg_def)

lemma x86_reg_cases: "x86_reg r = - 1 \<or> x86_reg r = 0 \<or> 2 \<le> x86_reg r \<and> x86_reg r \<noteq> 4 \<and> x86_reg r \<noteq> 5"
  using x86_reg_range [of r] by auto

lemma x86_reg_inj: "0 < x86_reg a \<Longrightarrow> x86_reg a = x86_reg b \<longleftrightarrow> a = b"
  unfolding x86_reg_def by (simp split: if_splits)

lemma x86_reg_host [simp]:
  "0 < x86_reg a \<Longrightarrow> nat (x86_reg a) \<noteq> 0" "0 < x86_reg a \<Longrightarrow> nat (x86_reg a) \<noteq> Suc 0"
  "0 < x86_reg a \<Longrightarrow> Suc 0 \<noteq> nat (x86_reg a)"
  "0 < x86_reg a \<Longrightarrow> 0 < x86_reg b \<Longrightarrow> nat (x86_reg a) = nat (x86_reg b) \<longleftrightarrow> a = b"
  "0 < x86_reg a \<Longrightarrow> nat (x86_reg a) = 2 \<longleftrightarrow> a = 1" "0 < x86_reg a \<Longrightarrow> 2 = nat (x86_reg a) \<longleftrightarrow> a = 1"
  "x86_reg a = 2 \<longleftrightarrow> a = 1" "x86_reg 0 = 0" "x86_reg 1 = 2"
  "x86_reg a < 0 \<longleftrightarrow> \<not> 0 < x86_reg a \<and> a \<noteq> 0"
proof -
  have two: "x86_reg a = 2 \<longleftrightarrow> a = 1" for a using x86_reg_inj [of 1 a] by (auto simp: x86_reg_def [of 1])
  then show "x86_reg a = 2 \<longleftrightarrow> a = 1" .
  show "0 < x86_reg a \<Longrightarrow> nat (x86_reg a) = 2 \<longleftrightarrow> a = 1" "0 < x86_reg a \<Longrightarrow> 2 = nat (x86_reg a) \<longleftrightarrow> a = 1"
    using two [of a] by auto
  show "0 < x86_reg a \<Longrightarrow> nat (x86_reg a) \<noteq> 0" "0 < x86_reg a \<Longrightarrow> nat (x86_reg a) \<noteq> Suc 0"
    "0 < x86_reg a \<Longrightarrow> Suc 0 \<noteq> nat (x86_reg a)"
    using x86_reg_cases [of a] by auto
  show "0 < x86_reg a \<Longrightarrow> 0 < x86_reg b \<Longrightarrow> nat (x86_reg a) = nat (x86_reg b) \<longleftrightarrow> a = b"
    using x86_reg_inj [of a b] by (auto simp: nat_eq_iff)
  show "x86_reg 0 = 0" "x86_reg 1 = 2" by (simp_all add: x86_reg_def)
  show "x86_reg a < 0 \<longleftrightarrow> \<not> 0 < x86_reg a \<and> a \<noteq> 0" by (simp add: x86_reg_def)
qed

lemma imm_range [simp]: "- 2147483648 \<le> sint (i :: s32)" "sint (i :: s32) < 2147483648" "sint (i :: s32) < 4294967296"
  using sint_ge [of i] sint_lt [of i] by simp_all

section \<open>Representation of the guest registers\<close>

definition reg_val :: "x86 \<Rightarrow> u8 \<Rightarrow> u64" where
  "reg_val s r = (if 0 < x86_reg r then gpr s (nat (x86_reg r)) else slots s (unat r))"

text \<open>Code that writes one guest register and leaves the others and guest memory alone.\<close>

definition computes :: "x86_inst list \<Rightarrow> u8 \<Rightarrow> u64 \<Rightarrow> x86 \<Rightarrow> bool" where
  "computes is rd v s \<longleftrightarrow> (\<exists>t. run_x86 is s = Some (None, t) \<and> guest t = guest s \<and>
     (\<forall>r. reg_val t r = (if r = rd \<and> rd \<noteq> 0 then v else reg_val s r)))"

lemmas x86_simps = operands_ok_def mov_ok_def fits_def smash_def

lemma unat_inj: "unat a = unat b \<longleftrightarrow> a = b" for a b :: u8
  by (simp add: word_unat_eq_iff)

lemma slot_zero: "unat a = 0 \<longleftrightarrow> a = 0" "unat a = Suc 0 \<longleftrightarrow> a = 1" "0 = unat a \<longleftrightarrow> a = 0" "Suc 0 = unat a \<longleftrightarrow> a = 1" for a :: u8
  using unat_inj [of a 0] unat_inj [of a 1] by auto

lemma take_64 [simp]: "take_bit 64 x = x" for x :: u64
  by (rule bit_word_eqI) (simp add: bit_simps)

lemmas jit_simps = x86_simps reg_val_def unat_inj slot_zero

lemma merge_simps [simp]:
  "merge Q old v = v" "low32 (merge D old v) = low32 v" "take_bit 32 (merge D old v) = take_bit 32 v"
  "take_bit 8 (merge B old v) = take_bit 8 v"
  by (auto intro!: bit_word_eqI simp: merge_def low32_def bit_simps)

lemma low32_simps [simp]:
  "low32 (take_bit 32 x) = low32 x" "low32 (ucast (y :: u32)) = y" "take_bit 32 (ucast (y :: u32) :: u64) = ucast y" "low32 0 = 0"
  by (auto intro!: bit_word_eqI simp: low32_def bit_simps)

lemma low32_add: "low32 (x + y) = low32 x + low32 y"
proof -
  have "ucast (word_of_int k :: u64) = (word_of_int k :: u32)" for k
    by (auto intro!: bit_word_eqI simp: bit_simps)
  then show ?thesis by (simp only: low32_def word_add_def [of x y] ucast_eq [of x] ucast_eq [of y] wi_hom_add)
qed

lemma of_bool_bits [simp]: "take_bit 8 (of_bool b :: u64) = of_bool b" "take_bit 32 (of_bool b :: u64) = of_bool b"
  by (cases b; simp)+

lemma low32_imm [simp]: "low32 (scast (i :: s32)) = i"
  by (rule bit_word_eqI) (simp add: low32_def bit_simps)

lemma shift_amount:
  "unat i < 64 \<Longrightarrow> unat ((scast i :: u64) AND 0x3f) = unat i" "unat i < 32 \<Longrightarrow> unat ((scast i :: u64) AND 0x1f) = unat i"
  for i :: s32
proof -
  have small: "scast i AND mask k = (ucast i :: u64)" if "unat i < 2 ^ k" "k \<le> 31" for k
  proof -
    have "take_bit k i = i" using that(1) by (simp add: word_unat_eq_iff unsigned_take_bit_eq take_bit_nat_eq_self)
    then have "bit i n \<Longrightarrow> n < k" for n by (metis bit_take_bit_iff)
    then show ?thesis using that(2) by (intro bit_word_eqI) (force simp: bit_simps)
  qed
  show "unat ((scast i :: u64) AND 0x3f) = unat i" if "unat i < 64" using small [of 6] that
    by (simp add: mask_eq_exp_minus_1 unsigned_ucast_eq take_bit_nat_eq_self)
  show "unat ((scast i :: u64) AND 0x1f) = unat i" if "unat i < 32" using small [of 5] that
    by (simp add: mask_eq_exp_minus_1 unsigned_ucast_eq take_bit_nat_eq_self)
qed

lemma holds_cmp [simp]:
  "holds E (cmp_flags a b) \<longleftrightarrow> a = b" "holds NE (cmp_flags a b) \<longleftrightarrow> a \<noteq> b" "holds Below (cmp_flags a b) \<longleftrightarrow> a < b"
  "holds AE (cmp_flags a b) \<longleftrightarrow> b \<le> a" "holds L (cmp_flags a b) \<longleftrightarrow> a <s b" "holds GE (cmp_flags a b) \<longleftrightarrow> b \<le>s a"
  for a b :: "'a::len word"
proof -
  define M :: int where "M = 2 ^ (LENGTH('a) - 1)"
  have two: "2 ^ LENGTH('a) = 2 * M" unfolding M_def by (simp flip: power_Suc)
  have range: "- M \<le> sint a" "sint a < M" "- M \<le> sint b" "sint b < M"
    unfolding M_def using sint_ge [of a] sint_ge [of b] sint_less [of a] sint_less [of b] by simp_all
  have "sint (a - b) = (sint a - sint b + M) mod (2 * M) - M"
    by (simp add: sint_word_diff signed_take_bit_eq_take_bit_shift take_bit_eq_mod M_def flip: power_Suc)
  moreover have "(sint a - sint b + M) mod (2 * M) =
      (if sint a - sint b < - M then sint a - sint b + 3 * M else if M \<le> sint a - sint b then sint a - sint b - M
       else sint a - sint b + M)"
    using range mod_add_self2 [of "sint a - sint b + M" "2 * M"] mod_add_self2 [of "sint a - sint b - M" "2 * M"]
      mod_pos_pos_trivial [of "sint a - sint b + 3 * M" "2 * M"] mod_pos_pos_trivial [of "sint a - sint b - M" "2 * M"]
      mod_pos_pos_trivial [of "sint a - sint b + M" "2 * M"]
    by (simp add: algebra_simps)
  ultimately have L: "(sint (a - b) < 0) \<noteq> (sint (a - b) \<noteq> sint a - sint b) \<longleftrightarrow> sint a < sint b"
    using range by auto
  show "holds E (cmp_flags a b) \<longleftrightarrow> a = b" "holds NE (cmp_flags a b) \<longleftrightarrow> a \<noteq> b" "holds Below (cmp_flags a b) \<longleftrightarrow> a < b"
    "holds AE (cmp_flags a b) \<longleftrightarrow> b \<le> a" by (auto simp: cmp_flags_def not_less)
  show "holds L (cmp_flags a b) \<longleftrightarrow> a <s b" "holds GE (cmp_flags a b) \<longleftrightarrow> b \<le>s a"
    using L by (auto simp: cmp_flags_def word_sless_alt word_sle_eq)
qed

lemma holds_test [simp]:
  "holds E (test_flags a) \<longleftrightarrow> a = 0" "holds NE (test_flags a) \<longleftrightarrow> a \<noteq> 0" "holds NS (test_flags a) \<longleftrightarrow> 0 \<le> sint a"
  by (simp_all add: test_flags_def not_less)

declare holds.simps [simp del]

lemma shift_count [simp]:
  "take_bit 8 x AND 0x3f = x AND 0x3f" "take_bit 8 x AND 0x1f = x AND 0x1f"
  "take_bit 32 x AND 0x3f = x AND 0x3f" "take_bit 32 x AND 0x1f = x AND 0x1f" for x :: u64
proof -
  have "take_bit n x AND mask k = x AND mask k" if "k \<le> n" for n k
    using that by (auto intro!: bit_word_eqI simp: bit_simps)
  from this [of 6 8] this [of 5 8] this [of 6 32] this [of 5 32]
  show "take_bit 8 x AND 0x3f = x AND 0x3f" "take_bit 8 x AND 0x1f = x AND 0x1f"
    "take_bit 32 x AND 0x3f = x AND 0x3f" "take_bit 32 x AND 0x1f = x AND 0x1f"
    by (simp_all add: mask_eq_exp_minus_1)
qed

lemma sless_imm [simp]: "0 <s (scast i :: u64) \<longleftrightarrow> 0 <s i" for i :: s32
  by (simp add: word_sless_alt)

section \<open>Code on the represented registers\<close>

text \<open>
  The branches of an emitter on whether a source is in a host register give the same instruction on
  \<open>src w r\<close>; running it reads the represented register.
\<close>

definition src :: "width \<Rightarrow> u8 \<Rightarrow> x86_operand" where
  "src w r = (if 0 < x86_reg r then Reg w (nat (x86_reg r)) else Slot w (unat r))"

lemma src_folds:
  "(if 0 < x86_reg r then [Cmp (Reg w (nat (x86_reg r))) x] else [Cmp (Slot w (unat r)) x]) = [Cmp (src w r) x]"
  "(if 0 < x86_reg r then [Mov x (Reg w (nat (x86_reg r)))] else [Mov x (Slot w (unat r))]) = [Mov x (src w r)]"
  "(if 0 < x86_reg r then [Idiv1 (Reg w (nat (x86_reg r)))] else [Idiv1 (Slot w (unat r))]) = [Idiv1 (src w r)]"
  "(if 0 < x86_reg r then [Div1 (Reg w (nat (x86_reg r)))] else [Div1 (Slot w (unat r))]) = [Div1 (src w r)]"
  "(if 0 < x86_reg r then [Movsxd x (Reg w (nat (x86_reg r)))] else [Movsxd x (Slot w (unat r))]) = [Movsxd x (src w r)]"
  "(if 0 < x86_reg r then [Alu f x (Reg w (nat (x86_reg r)))] else [Alu f x (Slot w (unat r))]) = [Alu f x (src w r)]"
  by (simp_all add: src_def)

lemma src_simps:
  "size_of (src w r) = Some w" "operands_ok (src w r) (Reg v n) \<longleftrightarrow> w = v" "operands_ok (Reg v n) (src w r) \<longleftrightarrow> w = v"
  "operands_ok (src w r) (Imm i) \<longleftrightarrow> fits w i" "mov_ok (Reg v n) (src w r) \<longleftrightarrow> w = v"
  "read_op (src Q r) s = reg_val s r" "read_op (src D r) s = take_bit 32 (reg_val s r)"
  by (auto simp: src_def operands_ok_def mov_ok_def reg_val_def)

lemma zero_test:
  "run_x86 ((if 0 < x86_reg r then [Test (Reg Q (nat (x86_reg r))) (Reg Q (nat (x86_reg r)))] else [Cmp (Slot Q (unat r)) (Imm 0)]) @ is) s =
    run_x86 is (s\<lparr>eflags := Some (if 0 < x86_reg r then test_flags (reg_val s r) else cmp_flags (reg_val s r) 0)\<rparr>)"
  by (simp add: operands_ok_def fits_def reg_val_def)

lemma zero_test_word:
  "run_x86 ((if 0 < x86_reg r then [Test (Reg Q (nat (x86_reg r))) (Reg Q (nat (x86_reg r)))] else [Cmp (Slot D (unat r)) (Imm 0)]) @ is) s =
    run_x86 is (s\<lparr>eflags := Some (if 0 < x86_reg r then test_flags (reg_val s r) else cmp_flags (low32 (reg_val s r)) 0)\<rparr>)"
  by (simp add: operands_ok_def fits_def reg_val_def)

lemma zero_flags: "holds NE (if m then test_flags a else cmp_flags a 0) \<longleftrightarrow> a \<noteq> (0 :: u64)"
  "holds NE (if m then test_flags a else cmp_flags (low32 a) 0) \<longleftrightarrow> (if m then a \<noteq> 0 else low32 a \<noteq> 0)"
  by simp_all

lemma reg_val_upd:
  "reg_val (s\<lparr>eflags := f\<rparr>) r = reg_val s r"
  "reg_val (s\<lparr>gpr := g(0 := v)\<rparr>) r = reg_val (s\<lparr>gpr := g\<rparr>) r"
  "reg_val (s\<lparr>gpr := g(Suc 0 := v)\<rparr>) r = reg_val (s\<lparr>gpr := g\<rparr>) r"
  "reg_val (s\<lparr>gpr := g(2 := v)\<rparr>) r = (if r = 1 then v else reg_val (s\<lparr>gpr := g\<rparr>) r)"
  "0 < x86_reg rd \<Longrightarrow> reg_val (s\<lparr>gpr := g(nat (x86_reg rd) := v)\<rparr>) r = (if r = rd then v else reg_val (s\<lparr>gpr := g\<rparr>) r)"
  "\<not> 0 < x86_reg rd \<Longrightarrow> reg_val (s\<lparr>slots := h(unat rd := v)\<rparr>) r = (if r = rd then v else reg_val (s\<lparr>slots := h\<rparr>) r)"
  "reg_val (s\<lparr>slots := h(Suc 0 := v)\<rparr>) r = reg_val (s\<lparr>slots := h\<rparr>) r"
  "slots t = slots s \<Longrightarrow> reg_val (t\<lparr>gpr := gpr s\<rparr>) r = reg_val s r"
  "gpr t = gpr s \<Longrightarrow> reg_val (t\<lparr>slots := slots s\<rparr>) r = reg_val s r"
  by (auto simp: reg_val_def unat_inj slot_zero)

lemma reg_val_fold:
  "gpr s 2 = reg_val s 1" "0 < x86_reg r \<Longrightarrow> gpr s (nat (x86_reg r)) = reg_val s r"
  "\<not> 0 < x86_reg r \<Longrightarrow> slots s (unat r) = reg_val s r"
  by (simp_all add: reg_val_def)

lemma reg_val_0: "slots s 0 = 0 \<Longrightarrow> reg_val s 0 = 0"
  by (simp add: reg_val_def)

lemma ok_simps:
  "operands_ok (Reg v n) (Reg w m) \<longleftrightarrow> v = w" "operands_ok (Reg v n) (Slot w m) \<longleftrightarrow> v = w"
  "operands_ok (Slot v n) (Reg w m) \<longleftrightarrow> v = w" "operands_ok (Reg v n) (Imm i) \<longleftrightarrow> fits v i"
  "operands_ok (Slot v n) (Imm i) \<longleftrightarrow> fits v i"
  "mov_ok (Reg v n) (Reg w m) \<longleftrightarrow> v = w" "mov_ok (Reg v n) (Slot w m) \<longleftrightarrow> v = w"
  "mov_ok (Slot v n) (Reg w m) \<longleftrightarrow> v = w" "mov_ok (Reg v n) (Imm i) \<longleftrightarrow> v = Q \<or> fits v i"
  "mov_ok (Slot v n) (Imm i) \<longleftrightarrow> fits v i"
  by (auto simp: operands_ok_def mov_ok_def)

lemmas run_simps = ok_simps src_simps zero_test zero_test_word zero_flags reg_val_upd reg_val_fold reg_val_0 smash_def fits_def unat_inj slot_zero

lemma operand_cases:
  assumes "dec_rd d = 0 \<Longrightarrow> P" "dec_rd d \<noteq> 0 \<Longrightarrow> dec_rs2 d = 0 \<Longrightarrow> 0 < x86_reg (dec_rd d) \<Longrightarrow> P" 
    "dec_rd d \<noteq> 0 \<Longrightarrow> dec_rs2 d = 0 \<Longrightarrow> \<not> 0 < x86_reg (dec_rd d) \<Longrightarrow> P"
    "dec_rd d \<noteq> 0 \<Longrightarrow> dec_rs2 d \<noteq> 0 \<Longrightarrow> dec_rs1 d = 0 \<Longrightarrow> 0 < x86_reg (dec_rd d) \<Longrightarrow> P" 
    "dec_rd d \<noteq> 0 \<Longrightarrow> dec_rs2 d \<noteq> 0 \<Longrightarrow> dec_rs1 d = 0 \<Longrightarrow> \<not> 0 < x86_reg (dec_rd d) \<Longrightarrow> P" 
    "dec_rs1 d \<noteq> 0 \<Longrightarrow> dec_rs2 d \<noteq> 0 \<Longrightarrow> dec_rd d = 1 \<Longrightarrow> P"
    "dec_rs1 d \<noteq> 0 \<Longrightarrow> dec_rs2 d \<noteq> 0 \<Longrightarrow> 0 < x86_reg (dec_rd d) \<Longrightarrow> dec_rd d \<noteq> 0 \<Longrightarrow> dec_rd d \<noteq> 1 \<Longrightarrow> P"
    "dec_rs1 d \<noteq> 0 \<Longrightarrow> dec_rs2 d \<noteq> 0 \<Longrightarrow> \<not> 0 < x86_reg (dec_rd d) \<Longrightarrow> dec_rd d \<noteq> 0 \<Longrightarrow> dec_rd d \<noteq> 1 \<Longrightarrow> P"
  shows P
  using assms by blast

section \<open>Arithmetic and logic\<close>

named_theorems jit_computes \<open>what the emitted code computes\<close>

lemma jit_add_computes [jit_computes]:
  "slots s 0 = 0 \<Longrightarrow> computes (jit_add d) (dec_rd d) (reg_val s (dec_rs1 d) + reg_val s (dec_rs2 d)) s"
  unfolding computes_def jit_defs Let_def src_folds by - (rule operand_cases [of d]; auto simp: run_simps)

lemma jit_sub_computes [jit_computes]:
  "slots s 0 = 0 \<Longrightarrow> computes (jit_sub d) (dec_rd d) (reg_val s (dec_rs1 d) - reg_val s (dec_rs2 d)) s"
  unfolding computes_def jit_defs Let_def src_folds by - (rule operand_cases [of d]; auto simp: run_simps)

lemma jit_mul_computes [jit_computes]:
  "slots s 0 = 0 \<Longrightarrow> computes (jit_mul d) (dec_rd d) (reg_val s (dec_rs1 d) * reg_val s (dec_rs2 d)) s"
  unfolding computes_def jit_defs Let_def src_folds by - (rule operand_cases [of d]; auto simp: run_simps mult.commute)

lemma jit_and_computes [jit_computes]:
  "slots s 0 = 0 \<Longrightarrow> computes (jit_and d) (dec_rd d) (reg_val s (dec_rs1 d) AND reg_val s (dec_rs2 d)) s"
  unfolding computes_def jit_defs Let_def src_folds by - (rule operand_cases [of d]; auto simp: run_simps and.commute)

lemma jit_or_computes [jit_computes]:
  "slots s 0 = 0 \<Longrightarrow> computes (jit_or d) (dec_rd d) (reg_val s (dec_rs1 d) OR reg_val s (dec_rs2 d)) s"
  unfolding computes_def jit_defs Let_def src_folds by - (rule operand_cases [of d]; auto simp: run_simps or.commute)

lemma jit_xor_computes [jit_computes]:
  "slots s 0 = 0 \<Longrightarrow> computes (jit_xor d) (dec_rd d) (reg_val s (dec_rs1 d) XOR reg_val s (dec_rs2 d)) s"
  unfolding computes_def jit_defs Let_def src_folds by - (rule operand_cases [of d]; auto simp: run_simps xor.commute)

lemma jit_addi_computes [jit_computes]:
  "slots s 0 = 0 \<Longrightarrow> computes (jit_addi d) (dec_rd d) (reg_val s (dec_rs1 d) + scast (dec_imm d)) s"
  unfolding computes_def jit_defs Let_def src_folds by - (rule operand_cases [of d]; auto simp: run_simps)

lemma jit_andi_computes [jit_computes]:
  "slots s 0 = 0 \<Longrightarrow> computes (jit_andi d) (dec_rd d) (reg_val s (dec_rs1 d) AND scast (dec_imm d)) s"
  unfolding computes_def jit_defs Let_def src_folds by - (rule operand_cases [of d]; auto simp: run_simps)

lemma jit_ori_computes [jit_computes]:
  "slots s 0 = 0 \<Longrightarrow> computes (jit_ori d) (dec_rd d) (reg_val s (dec_rs1 d) OR scast (dec_imm d)) s"
  unfolding computes_def jit_defs Let_def src_folds by - (rule operand_cases [of d]; auto simp: run_simps)

lemma jit_xori_computes [jit_computes]:
  "slots s 0 = 0 \<Longrightarrow> computes (jit_xori d) (dec_rd d) (reg_val s (dec_rs1 d) XOR scast (dec_imm d)) s"
  unfolding computes_def jit_defs Let_def src_folds by - (rule operand_cases [of d]; auto simp: run_simps)

lemma jit_addw_computes [jit_computes]:
  "slots s 0 = 0 \<Longrightarrow> (dec_rs1 d = 0 \<Longrightarrow> 0 < x86_reg (dec_rd d) \<Longrightarrow> 0 < x86_reg (dec_rs2 d)) \<Longrightarrow> computes (jit_addw d) (dec_rd d) (scast (low32 (reg_val s (dec_rs1 d)) + low32 (reg_val s (dec_rs2 d)))) s"
  unfolding computes_def jit_defs Let_def src_folds by - (rule operand_cases [of d]; auto simp: run_simps add.commute low32_add)

lemma jit_subw_computes [jit_computes]:
  "slots s 0 = 0 \<Longrightarrow> computes (jit_subw d) (dec_rd d) (scast (low32 (reg_val s (dec_rs1 d)) - low32 (reg_val s (dec_rs2 d)))) s"
  unfolding computes_def jit_defs Let_def src_folds by - (rule operand_cases [of d]; auto simp: run_simps)

lemma jit_mulw_computes [jit_computes]:
  "slots s 0 = 0 \<Longrightarrow> computes (jit_mulw d) (dec_rd d) (scast (low32 (reg_val s (dec_rs1 d)) * low32 (reg_val s (dec_rs2 d)))) s"
  unfolding computes_def jit_defs Let_def src_folds by - (rule operand_cases [of d]; auto simp: run_simps mult.commute)

lemma jit_slt_computes [jit_computes]:
  "slots s 0 = 0 \<Longrightarrow> computes (jit_slt d) (dec_rd d) (of_bool (reg_val s (dec_rs1 d) <s reg_val s (dec_rs2 d))) s"
  unfolding computes_def jit_defs Let_def src_folds by - (rule operand_cases [of d]; auto simp: run_simps)

lemma jit_sltu_computes [jit_computes]:
  "slots s 0 = 0 \<Longrightarrow> computes (jit_sltu d) (dec_rd d) (of_bool (reg_val s (dec_rs1 d) < reg_val s (dec_rs2 d))) s"
  unfolding computes_def jit_defs Let_def src_folds by - (rule operand_cases [of d]; auto simp: run_simps)

lemma jit_slti_computes [jit_computes]:
  "slots s 0 = 0 \<Longrightarrow> computes (jit_slti d) (dec_rd d) (of_bool (reg_val s (dec_rs1 d) <s scast (dec_imm d))) s"
  unfolding computes_def jit_defs Let_def src_folds by - (rule operand_cases [of d]; auto simp: run_simps)

lemma jit_sltiu_computes [jit_computes]:
  "slots s 0 = 0 \<Longrightarrow> computes (jit_sltiu d) (dec_rd d) (of_bool (reg_val s (dec_rs1 d) < scast (dec_imm d))) s"
  unfolding computes_def jit_defs Let_def src_folds by - (rule operand_cases [of d]; auto simp: run_simps)

lemma jit_sll_computes [jit_computes]:
  "slots s 0 = 0 \<Longrightarrow> computes (jit_sll d) (dec_rd d) (push_bit (unat (reg_val s (dec_rs2 d) AND 0x3f)) (reg_val s (dec_rs1 d))) s"
  unfolding computes_def jit_defs Let_def src_folds by - (rule operand_cases [of d]; auto simp: run_simps)

lemma jit_sllw_computes [jit_computes]:
  "slots s 0 = 0 \<Longrightarrow> computes (jit_sllw d) (dec_rd d) (scast (push_bit (unat (reg_val s (dec_rs2 d) AND 0x1f)) (low32 (reg_val s (dec_rs1 d))))) s"
  unfolding computes_def jit_defs Let_def src_folds by - (rule operand_cases [of d]; auto simp: run_simps)

lemma jit_slli_computes [jit_computes]:
  "slots s 0 = 0 \<Longrightarrow> unat (dec_imm d) < 64 \<Longrightarrow> computes (jit_slli d) (dec_rd d) (push_bit (unat (dec_imm d)) (reg_val s (dec_rs1 d))) s"
  unfolding computes_def jit_defs Let_def src_folds by - (rule operand_cases [of d]; auto simp: run_simps shift_amount)

lemma jit_slliw_computes [jit_computes]:
  "slots s 0 = 0 \<Longrightarrow> unat (dec_imm d) < 32 \<Longrightarrow> computes (jit_slliw d) (dec_rd d) (scast (push_bit (unat (dec_imm d)) (low32 (reg_val s (dec_rs1 d))))) s"
  unfolding computes_def jit_defs Let_def src_folds by - (rule operand_cases [of d]; auto simp: run_simps shift_amount)

lemma jit_srl_computes [jit_computes]:
  "slots s 0 = 0 \<Longrightarrow> computes (jit_srl d) (dec_rd d) (drop_bit (unat (reg_val s (dec_rs2 d) AND 0x3f)) (reg_val s (dec_rs1 d))) s"
  unfolding computes_def jit_defs Let_def src_folds by - (rule operand_cases [of d]; auto simp: run_simps)

lemma jit_srlw_computes [jit_computes]:
  "slots s 0 = 0 \<Longrightarrow> computes (jit_srlw d) (dec_rd d) (scast (drop_bit (unat (reg_val s (dec_rs2 d) AND 0x1f)) (low32 (reg_val s (dec_rs1 d))))) s"
  unfolding computes_def jit_defs Let_def src_folds by - (rule operand_cases [of d]; auto simp: run_simps)

lemma jit_srli_computes [jit_computes]:
  "slots s 0 = 0 \<Longrightarrow> unat (dec_imm d) < 64 \<Longrightarrow> computes (jit_srli d) (dec_rd d) (drop_bit (unat (dec_imm d)) (reg_val s (dec_rs1 d))) s"
  unfolding computes_def jit_defs Let_def src_folds by - (rule operand_cases [of d]; auto simp: run_simps shift_amount)

lemma jit_srliw_computes [jit_computes]:
  "slots s 0 = 0 \<Longrightarrow> unat (dec_imm d) < 32 \<Longrightarrow> computes (jit_srliw d) (dec_rd d) (scast (drop_bit (unat (dec_imm d)) (low32 (reg_val s (dec_rs1 d))))) s"
  unfolding computes_def jit_defs Let_def src_folds by - (rule operand_cases [of d]; auto simp: run_simps shift_amount)

lemma jit_sra_computes [jit_computes]:
  "slots s 0 = 0 \<Longrightarrow> computes (jit_sra d) (dec_rd d) (signed_drop_bit (unat (reg_val s (dec_rs2 d) AND 0x3f)) (reg_val s (dec_rs1 d))) s"
  unfolding computes_def jit_defs Let_def src_folds by - (rule operand_cases [of d]; auto simp: run_simps)

lemma jit_sraw_computes [jit_computes]:
  "slots s 0 = 0 \<Longrightarrow> computes (jit_sraw d) (dec_rd d) (scast (signed_drop_bit (unat (reg_val s (dec_rs2 d) AND 0x1f)) (low32 (reg_val s (dec_rs1 d))))) s"
  unfolding computes_def jit_defs Let_def src_folds by - (rule operand_cases [of d]; auto simp: run_simps)

lemma jit_srai_computes [jit_computes]:
  "slots s 0 = 0 \<Longrightarrow> unat (dec_imm d) < 64 \<Longrightarrow> computes (jit_srai d) (dec_rd d) (signed_drop_bit (unat (dec_imm d)) (reg_val s (dec_rs1 d))) s"
  unfolding computes_def jit_defs Let_def src_folds by - (rule operand_cases [of d]; auto simp: run_simps shift_amount)

lemma jit_sraiw_computes [jit_computes]:
  "slots s 0 = 0 \<Longrightarrow> unat (dec_imm d) < 32 \<Longrightarrow> computes (jit_sraiw d) (dec_rd d) (scast (signed_drop_bit (unat (dec_imm d)) (low32 (reg_val s (dec_rs1 d))))) s"
  unfolding computes_def jit_defs Let_def src_folds by - (rule operand_cases [of d]; auto simp: run_simps shift_amount)

lemma jit_addiw_computes [jit_computes]:
  "slots s 0 = 0 \<Longrightarrow> computes (jit_addiw d) (dec_rd d) (scast (low32 (reg_val s (dec_rs1 d)) + dec_imm d)) s"
  unfolding computes_def jit_defs Let_def src_folds by - (rule operand_cases [of d]; auto simp: run_simps low32_imm)

lemma jit_lui_computes [jit_computes]:
  "slots s 0 = 0 \<Longrightarrow> computes (jit_lui d) (dec_rd d) (scast (dec_imm d)) s"
  unfolding computes_def jit_defs Let_def src_folds by - (rule operand_cases [of d]; auto simp: run_simps)

lemma jit_auipc_computes [jit_computes]:
  "slots s 0 = 0 \<Longrightarrow> 0 < x86_reg (dec_rd d) \<or> fits Q (jit_pc d + scast (dec_imm d)) \<Longrightarrow> computes (jit_auipc d) (dec_rd d) (jit_pc d + scast (dec_imm d)) s"
  unfolding computes_def jit_defs Let_def src_folds by - (rule operand_cases [of d]; auto simp: run_simps)

end
