(* ===== verification/Rv_Jit_Div_Laws.thy ===== *)
theory Rv_Jit_Div_Laws
  imports Rv_Jit_Laws
begin

text \<open>
  The emitted code for the high halves of products and for division.  The host divides the double-width
  \<^verbatim>\<open>rdx:rax\<close>, and \<^verbatim>\<open>rdx\<close> holds the guest register \<^verbatim>\<open>ra\<close>, which the code has to save.
\<close>

section \<open>Division of the host\<close>

lemma idiv_words_extended:
  fixes a b :: "'a::len word"
  assumes "b \<noteq> 0" and "\<not> (a = min_signed \<and> b = - 1)"
  shows "idiv_words (sign_fill a) a b = Some (word_of_int (sint a sdiv sint b), word_of_int (sint a smod sint b))"
proof -
  define h :: int where "h = 2 ^ (LENGTH('a) - 1)"
  have two: "2 ^ LENGTH('a) = 2 * h" unfolding h_def by (simp flip: power_Suc)
  have range: "- h \<le> sint a" "sint a < h" unfolding h_def using sint_ge [of a] sint_less [of a] by simp_all
  have "uint a = sint a mod (2 * h)" by (simp add: uint_sint take_bit_eq_mod two [symmetric])
  then have "uint a = (if sint a < 0 then sint a + 2 ^ LENGTH('a) else sint a)"
    using range mod_pos_pos_trivial [of "sint a + 2 * h" "2 * h"] mod_pos_pos_trivial [of "sint a" "2 * h"]
    unfolding two by simp
  then have n: "sint (sign_fill a) * 2 ^ LENGTH('a) + uint a = sint a" by (simp add: sign_fill_def)
  have "sint b \<noteq> 0" using assms(1) by (simp add: signed_eq_0_iff)
  moreover have "\<not> (sint a = - (2 ^ (LENGTH('a) - 1)) \<and> sint b = - 1)"
    using assms(2) by (metis sint_min_signed sint_n1 signed_word_eqI)
  ultimately have "- (2 ^ (LENGTH('a) - 1)) \<le> sint a sdiv sint b \<and> sint a sdiv sint b < 2 ^ (LENGTH('a) - 1)"
    using sdiv_range [of "2 ^ (LENGTH('a) - 1)" "sint a" "sint b"] sint_ge [of a] sint_less [of a] by simp
  then show ?thesis using assms(1) unfolding idiv_words_def Let_def n by simp
qed

lemma div_words_extended:
  fixes a b :: "'a::len word"
  assumes "b \<noteq> 0"
  shows "div_words 0 a b = Some (a div b, a mod b)"
proof -
  have "uint (a div b) < 2 ^ LENGTH('a)" by simp
  then have "uint a div uint b < 2 ^ LENGTH('a)" by (simp add: uint_div_distrib)
  then show ?thesis using assms by (simp add: div_words_def Let_def word_div_def word_mod_def not_le)
qed

section \<open>High halves of products\<close>

lemma jit_mulh_computes [jit_computes]:
  "slots s 0 = 0 \<Longrightarrow> computes (jit_mulh d) (dec_rd d) (mulh (reg_val s (dec_rs1 d)) (reg_val s (dec_rs2 d))) s"
  unfolding computes_def jit_defs Let_def src_folds mulh_high [where q = 32 and 'a = 64, simplified qb_def, simplified]
  by - (rule operand_cases [of d]; cases "0 < x86_reg (dec_rs2 d)"; auto simp: run_simps Let_def)

lemma jit_mulhu_computes [jit_computes]:
  "slots s 0 = 0 \<Longrightarrow> computes (jit_mulhu d) (dec_rd d) (mulhu (reg_val s (dec_rs1 d)) (reg_val s (dec_rs2 d))) s"
  unfolding computes_def jit_defs Let_def src_folds mulhu_int [where q = 32 and 'x = 64, simplified qb_def, simplified]
  by - (rule operand_cases [of d]; cases "0 < x86_reg (dec_rs2 d)"; auto simp: run_simps Let_def)

text \<open>
  The code for a negative first operand multiplies its magnitude; the negated product has as its high half
  the complement of that of the product, plus one if the low half is zero.
\<close>

lemma mulhsu_magnitude:
  fixes a b :: u64
  shows "sint a < 0 \<Longrightarrow>
      of_bool (a * b = 0) + NOT (word_of_int (uint (- a) * uint b div 0x10000000000000000)) = mulhsu a b" (is "_ \<Longrightarrow> ?neg")
    and "\<not> sint a < 0 \<Longrightarrow> word_of_int (uint a * uint b div 0x10000000000000000) = mulhsu a b" (is "_ \<Longrightarrow> ?pos")
proof -
  have h: "mulhsu a b = word_of_int (sint a * uint b div 0x10000000000000000)"
    by (simp only: mulh_high(2) [where q = 32 and 'a = 64, simplified qb_def, simplified])
  have range: "- (2 ^ 63) \<le> sint a" "sint a < 2 ^ 63" using sint_ge [of a] sint_less [of a] by simp_all
  have u: "uint (word_of_int k :: u64) = k" if "0 \<le> k" "k < 2 ^ 64" for k
    using that by (simp add: unsigned_of_int take_bit_eq_mod)
  show ?pos if "\<not> sint a < 0"
    using u [of "sint a"] that range unfolding h by simp
  show ?neg if "sint a < 0"
  proof -
    have "uint (word_of_int (- sint a) :: u64) = - sint a" by (rule u) (use that range in simp_all)
    then have m: "uint (- a) = - sint a" by simp
    have "(word_of_int k :: u64) = 0 \<longleftrightarrow> k mod 0x10000000000000000 = 0" for k
      using unsigned_of_int [where 'b = 64 and 'a = int, of k] unsigned_eq_0_iff [of "word_of_int k :: u64", where 'a = int]
      by (simp add: take_bit_eq_mod)
    from this [of "uint (- a) * uint b"] have z: "a * b = 0 \<longleftrightarrow> (uint (- a) * uint b) mod 0x10000000000000000 = 0"
      by simp
    have "- n div 0x10000000000000000 = (if n mod 0x10000000000000000 = 0 then - (n div 0x10000000000000000)
        else - 1 - n div 0x10000000000000000)" for n :: int
      by (simp add: zdiv_zminus1_eq_if)
    from this [of "uint (- a) * uint b"] show ?thesis
      unfolding h z by (simp add: m not_eq_complement)
  qed
qed

lemma mulhsu_zero: "mulhsu 0 b = 0" "mulhsu a 0 = 0" for a b :: u64
  using mulhsu_magnitude [of 0 b] mulhsu_magnitude [of a 0] by (cases "sint a < 0"; simp)+

lemma jit_mulhsu_computes [jit_computes]:
  "slots s 0 = 0 \<Longrightarrow> computes (jit_mulhsu d) (dec_rd d) (mulhsu (reg_val s (dec_rs1 d)) (reg_val s (dec_rs2 d))) s"
  unfolding computes_def jit_defs Let_def src_folds
  by - (rule operand_cases [of d]; cases "0 < x86_reg (dec_rs2 d)"; cases "dec_rs1 d = 1"; cases "dec_rs2 d = 1";
      cases "sint (reg_val s (dec_rs1 d)) < 0"; auto simp: run_simps Let_def mulhsu_magnitude mulhsu_zero)

section \<open>Division\<close>

text \<open>
  Where the emitted code divides as the instruction does: the divisor is not \<^verbatim>\<open>ra\<close>, which the sign
  extension destroys; a remainder is not by \<^verbatim>\<open>x0\<close>, and a quotient not of \<^verbatim>\<open>x0\<close> by a register that holds zero.
\<close>

definition div_ok :: "jit_decode \<Rightarrow> 'a::len word \<Rightarrow> bool" where
  "div_ok d b \<longleftrightarrow> dec_rs2 d \<noteq> 1 \<and> (dec_rs2 d = 0 \<or> dec_rs1 d \<noteq> 0 \<or> b \<noteq> 0)"

definition rem_ok :: "jit_decode \<Rightarrow> bool" where
  "rem_ok d \<longleftrightarrow> dec_rs2 d \<noteq> 1 \<and> dec_rs2 d \<noteq> 0"

text \<open>The code for the least dividend clears \<^verbatim>\<open>rdx\<close>, which the dividend may be in.\<close>

definition dividend_ok :: "jit_decode \<Rightarrow> bool" where
  "dividend_ok d \<longleftrightarrow> dec_rs1 d \<noteq> 1"

text \<open>The word forms test all 64 bits of a divisor in a host register for zero.\<close>

definition word_divisor_ok :: "jit_decode \<Rightarrow> u64 \<Rightarrow> bool" where
  "word_divisor_ok d b \<longleftrightarrow> \<not> 0 < x86_reg (dec_rs2 d) \<or> b = 0 \<or> low32 b \<noteq> 0"

lemma mask_full [simp]: "mask 64 = (- 1 :: u64)" "low32 (mask 32) = - 1" "low32 (- 1) = - 1"
    "low32 0x80000000 = 0x80000000" "low32 (- 0x80000000) = 0x80000000"
  by (auto intro!: bit_word_eqI simp: bit_simps low32_def)

lemma min_signed_words: "(min_signed :: u64) = 0x8000000000000000" "(min_signed :: u32) = 0x80000000"
  by (simp_all add: min_signed_def)

lemmas jit_div_simps = run_simps divide_def div_words_extended idiv_words_extended min_signed_words

lemma jit_divu_computes [jit_computes]:
  "slots s 0 = 0 \<Longrightarrow> div_ok d (reg_val s (dec_rs2 d)) \<Longrightarrow> computes (jit_divu d) (dec_rd d) (divu (reg_val s (dec_rs1 d)) (reg_val s (dec_rs2 d))) s"
  unfolding computes_def jit_defs Let_def src_folds divu_def div_ok_def
  by - (rule operand_cases [of d]; auto simp: jit_div_simps)

lemma jit_remu_computes [jit_computes]:
  "slots s 0 = 0 \<Longrightarrow> rem_ok d \<Longrightarrow> computes (jit_remu d) (dec_rd d) (remu (reg_val s (dec_rs1 d)) (reg_val s (dec_rs2 d))) s"
  unfolding computes_def jit_defs Let_def src_folds remu_def rem_ok_def
  by - (rule operand_cases [of d]; auto simp: jit_div_simps)

lemma jit_div_computes [jit_computes]:
  "slots s 0 = 0 \<Longrightarrow> div_ok d (reg_val s (dec_rs2 d)) \<Longrightarrow> computes (jit_div d) (dec_rd d) (div_s (reg_val s (dec_rs1 d)) (reg_val s (dec_rs2 d))) s"
  unfolding computes_def jit_defs Let_def src_folds div_s_def div_ok_def
  by - (rule operand_cases [of d]; auto simp: jit_div_simps)

lemma jit_rem_computes [jit_computes]:
  "slots s 0 = 0 \<Longrightarrow> rem_ok d \<Longrightarrow> dividend_ok d \<Longrightarrow>
    computes (jit_rem d) (dec_rd d) (rem_s (reg_val s (dec_rs1 d)) (reg_val s (dec_rs2 d))) s"
  unfolding computes_def jit_defs Let_def src_folds rem_s_def rem_ok_def dividend_ok_def
  by - (rule operand_cases [of d]; auto simp: jit_div_simps)

lemma jit_divuw_computes [jit_computes]:
  "slots s 0 = 0 \<Longrightarrow> div_ok d (low32 (reg_val s (dec_rs2 d))) \<Longrightarrow> word_divisor_ok d (reg_val s (dec_rs2 d)) \<Longrightarrow>
    computes (jit_divuw d) (dec_rd d) (scast (divu (low32 (reg_val s (dec_rs1 d))) (low32 (reg_val s (dec_rs2 d))))) s"
  unfolding computes_def jit_defs Let_def src_folds divu_def div_ok_def word_divisor_ok_def
  by - (rule operand_cases [of d]; auto simp: jit_div_simps)

lemma jit_remuw_computes [jit_computes]:
  "slots s 0 = 0 \<Longrightarrow> rem_ok d \<Longrightarrow> word_divisor_ok d (reg_val s (dec_rs2 d)) \<Longrightarrow>
    computes (jit_remuw d) (dec_rd d) (scast (remu (low32 (reg_val s (dec_rs1 d))) (low32 (reg_val s (dec_rs2 d))))) s"
  unfolding computes_def jit_defs Let_def src_folds remu_def rem_ok_def word_divisor_ok_def
  by - (rule operand_cases [of d]; auto simp: jit_div_simps)

lemma jit_divw_computes [jit_computes]:
  "slots s 0 = 0 \<Longrightarrow> div_ok d (low32 (reg_val s (dec_rs2 d))) \<Longrightarrow> word_divisor_ok d (reg_val s (dec_rs2 d)) \<Longrightarrow>
    computes (jit_divw d) (dec_rd d) (scast (div_s (low32 (reg_val s (dec_rs1 d))) (low32 (reg_val s (dec_rs2 d))))) s"
  unfolding computes_def jit_defs Let_def src_folds div_s_def div_ok_def word_divisor_ok_def
  by - (rule operand_cases [of d]; auto simp: jit_div_simps)

lemma jit_remw_computes [jit_computes]:
  "slots s 0 = 0 \<Longrightarrow> rem_ok d \<Longrightarrow> dividend_ok d \<Longrightarrow> word_divisor_ok d (reg_val s (dec_rs2 d)) \<Longrightarrow>
    computes (jit_remw d) (dec_rd d) (scast (rem_s (low32 (reg_val s (dec_rs1 d))) (low32 (reg_val s (dec_rs2 d))))) s"
  unfolding computes_def jit_defs Let_def src_folds rem_s_def rem_ok_def dividend_ok_def word_divisor_ok_def
  by - (rule operand_cases [of d]; auto simp: jit_div_simps)

end
