(* ===== verification/Rv_Jit_Mem_Laws.thy ===== *)
theory Rv_Jit_Mem_Laws
  imports Rv_Jit_Laws
begin

text \<open>
  The emitted code for loads, stores and the fused instructions.  Without \<^verbatim>\<open>use_mmu\<close> guest addresses are host
  addresses, as in the proxy memory management unit.
\<close>

section \<open>Loads\<close>

abbreviation addr :: "jit_decode \<Rightarrow> x86 \<Rightarrow> u64" where
  "addr d s \<equiv> reg_val s (dec_rs1 d) + scast (dec_imm d)"

lemma read_bytes_take: "n \<le> 8 \<Longrightarrow> k \<ge> 8 * n \<Longrightarrow> take_bit k (read_bytes hm a n) = read_bytes hm a n"
  by (rule bit_word_eqI) (auto simp: bit_simps bit_read_bytes)

lemma byte_take: "take_bit 32 (ucast (b :: u8) :: u64) = ucast b" "(ucast (take_bit 8 v) :: u8) = ucast (v :: u64)"
proof -
  have "bit b n \<Longrightarrow> n < 8" for n using bit_imp_le_length [of b n] by simp
  then show "take_bit 32 (ucast (b :: u8) :: u64) = ucast b" by (intro bit_word_eqI) (force simp: bit_simps)
qed (auto intro!: bit_word_eqI simp: bit_simps)

lemmas jit_mem_simps = jit_simps use_mmu_def read_bytes_take byte_take

lemma jit_ld_computes [jit_computes]:
  "slots s 0 = 0 \<Longrightarrow> computes (jit_ld d) (dec_rd d) (read_bytes (guest s) (addr d s) 8) s"
  unfolding computes_def jit_defs Let_def by (auto simp: jit_mem_simps)

lemma jit_lw_computes [jit_computes]:
  "slots s 0 = 0 \<Longrightarrow> computes (jit_lw d) (dec_rd d) (scast (ucast (read_bytes (guest s) (addr d s) 4) :: 32 word)) s"
  unfolding computes_def jit_defs Let_def by (auto simp: jit_mem_simps low32_def)

lemma jit_lwu_computes [jit_computes]:
  "slots s 0 = 0 \<Longrightarrow> computes (jit_lwu d) (dec_rd d) (read_bytes (guest s) (addr d s) 4) s"
  unfolding computes_def jit_defs Let_def by (auto simp: jit_mem_simps)

lemma jit_lh_computes [jit_computes]:
  "slots s 0 = 0 \<Longrightarrow> computes (jit_lh d) (dec_rd d) (scast (ucast (read_bytes (guest s) (addr d s) 2) :: 16 word)) s"
  unfolding computes_def jit_defs Let_def by (auto simp: jit_mem_simps)

lemma jit_lhu_computes [jit_computes]:
  "slots s 0 = 0 \<Longrightarrow> computes (jit_lhu d) (dec_rd d) (read_bytes (guest s) (addr d s) 2) s"
  unfolding computes_def jit_defs Let_def by (auto simp: jit_mem_simps)

lemma jit_lb_computes [jit_computes]:
  "slots s 0 = 0 \<Longrightarrow> computes (jit_lb d) (dec_rd d) (scast (ucast (read_bytes (guest s) (addr d s) 1) :: 8 word)) s"
  unfolding computes_def jit_defs Let_def by (auto simp: jit_mem_simps)

lemma jit_lbu_computes [jit_computes]:
  "slots s 0 = 0 \<Longrightarrow> computes (jit_lbu d) (dec_rd d) (read_bytes (guest s) (addr d s) 1) s"
  unfolding computes_def jit_defs Let_def by (auto simp: jit_mem_simps)

section \<open>Stores\<close>

definition stores :: "x86_inst list \<Rightarrow> nat \<Rightarrow> u64 \<Rightarrow> u64 \<Rightarrow> x86 \<Rightarrow> bool" where
  "stores is n a v s \<longleftrightarrow> (\<exists>t. run_x86 is s = Some (None, t) \<and> guest t = write_bytes (guest s) a n v \<and>
     (\<forall>r. reg_val t r = reg_val s r))"

lemma write_bytes_take: "write_bytes hm a n (take_bit (8 * n) v) = write_bytes hm a n v"
  by (induction n arbitrary: hm a v) (auto simp: drop_bit_take_bit ucast_take_bit)

lemma write_bytes_takes:
  "write_bytes hm a 4 (take_bit 32 v) = write_bytes hm a 4 v" "write_bytes hm a 2 (take_bit 16 v) = write_bytes hm a 2 v"
  "write_bytes hm a 1 (take_bit 8 v) = write_bytes hm a 1 v" "write_bytes hm a (Suc 0) (take_bit 8 v) = write_bytes hm a (Suc 0) v"
  using write_bytes_take [of hm a 4 v] write_bytes_take [of hm a 2 v] write_bytes_take [of hm a 1 v] by simp_all

lemma jit_sd_stores [jit_computes]:
  "slots s 0 = 0 \<Longrightarrow> stores (jit_sd d) 8 (addr d s) (reg_val s (dec_rs2 d)) s"
  unfolding stores_def jit_defs Let_def by (auto simp: jit_mem_simps write_bytes_takes)

lemma jit_sw_stores [jit_computes]:
  "slots s 0 = 0 \<Longrightarrow> stores (jit_sw d) 4 (addr d s) (reg_val s (dec_rs2 d)) s"
  unfolding stores_def jit_defs Let_def by (auto simp: jit_mem_simps write_bytes_takes)

lemma jit_sh_stores [jit_computes]:
  "slots s 0 = 0 \<Longrightarrow> stores (jit_sh d) 2 (addr d s) (reg_val s (dec_rs2 d)) s"
  unfolding stores_def jit_defs Let_def by (auto simp: jit_mem_simps write_bytes_takes)

lemma jit_sb_stores [jit_computes]:
  "slots s 0 = 0 \<Longrightarrow> stores (jit_sb d) 1 (addr d s) (reg_val s (dec_rs2 d)) s"
  unfolding stores_def jit_defs Let_def by (auto simp: jit_mem_simps write_bytes_takes)

section \<open>Fused instructions\<close>

lemma jit_la_computes [jit_computes]:
  "slots s 0 = 0 \<Longrightarrow> computes (jit_la d) (dec_rd d) (jit_pc d + scast (dec_imm d)) s"
  unfolding computes_def jit_defs Let_def by (auto simp: jit_simps)

text \<open>
  The forms of \<^verbatim>\<open>zext.w\<close> and \<^verbatim>\<open>addiw.z\<close> that the emitter makes of instructions the host has: a source register kept
  in memory, and for \<^verbatim>\<open>zext.w\<close> a destination that is the source or is kept in a register of the host.
\<close>

definition zextw_encodes :: "u8 \<Rightarrow> u8 \<Rightarrow> bool" where
  "zextw_encodes rd rs1 \<longleftrightarrow> \<not> 0 < x86_reg rs1 \<and> (rd = rs1 \<or> 0 < x86_reg rd)"

lemma jit_zextw_computes [jit_computes]:
  "slots s 0 = 0 \<Longrightarrow> zextw_encodes (dec_rd d) (dec_rs1 d) \<Longrightarrow> dec_rd d \<noteq> 0 \<Longrightarrow>
    computes (jit_zextw d) (dec_rd d) (take_bit 32 (reg_val s (dec_rs1 d))) s"
  unfolding computes_def zextw_encodes_def jit_defs Let_def by (auto simp: jit_simps)

lemma jit_addiwz_computes [jit_computes]:
  "slots s 0 = 0 \<Longrightarrow> \<not> 0 < x86_reg (dec_rd d) \<Longrightarrow>
    computes (jit_addiwz d) (dec_rd d) (ucast (low32 (reg_val s (dec_rd d)) + dec_imm d)) s"
  unfolding computes_def jit_defs Let_def by (auto simp: jit_simps)

end
