(* ===== verification/Rv_Jit_Sim.thy ===== *)
theory Rv_Jit_Sim
  imports Rv_Jit_Div_Laws Rv_Jit_Mem_Laws
begin

text \<open>
  The emitted code against the interpreter.  Both are compared with the results of the instructions as functions
  of their operands; from that follows the simulation of one instruction and of a sequence of them.
\<close>

section \<open>Results of the instructions\<close>

definition alu_results :: "u64 \<Rightarrow> s32 \<Rightarrow> u64 \<Rightarrow> u64 \<Rightarrow> (opcode \<times> u64) list" where
  "alu_results at i a b =
    [(rv_op_lui, scast i), (rv_op_auipc, at + scast i),
     (rv_op_addi, a + scast i), (rv_op_slti, of_bool (a <s scast i)), (rv_op_sltiu, of_bool (a < scast i)),
     (rv_op_xori, a XOR scast i), (rv_op_ori, a OR scast i), (rv_op_andi, a AND scast i),
     (rv_op_add, a + b), (rv_op_sub, a - b), (rv_op_slt, of_bool (a <s b)), (rv_op_sltu, of_bool (a < b)),
     (rv_op_xor, a XOR b), (rv_op_or, a OR b), (rv_op_and, a AND b),
     (rv_op_addiw, scast (low32 a + i)), (rv_op_addw, scast (low32 a + low32 b)), (rv_op_subw, scast (low32 a - low32 b))]"

definition shift_results :: "s32 \<Rightarrow> u64 \<Rightarrow> u64 \<Rightarrow> (opcode \<times> u64) list" where
  "shift_results i a b =
    [(rv_op_slli, push_bit (unat i) a), (rv_op_srli, drop_bit (unat i) a), (rv_op_srai, signed_drop_bit (unat i) a),
     (rv_op_sll, push_bit (unat (b AND 0x3f)) a), (rv_op_srl, drop_bit (unat (b AND 0x3f)) a),
     (rv_op_sra, signed_drop_bit (unat (b AND 0x3f)) a),
     (rv_op_slliw, scast (push_bit (unat i) (low32 a))), (rv_op_srliw, scast (drop_bit (unat i) (low32 a))),
     (rv_op_sraiw, scast (signed_drop_bit (unat i) (low32 a))),
     (rv_op_sllw, scast (push_bit (unat (b AND 0x1f)) (low32 a))), (rv_op_srlw, scast (drop_bit (unat (b AND 0x1f)) (low32 a))),
     (rv_op_sraw, scast (signed_drop_bit (unat (b AND 0x1f)) (low32 a)))]"

definition mul_results :: "u64 \<Rightarrow> u64 \<Rightarrow> (opcode \<times> u64) list" where
  "mul_results a b =
    [(rv_op_mul, a * b), (rv_op_mulh, mulh a b), (rv_op_mulhu, mulhu a b), (rv_op_mulhsu, mulhsu a b),
     (rv_op_div, div_s a b), (rv_op_divu, divu a b), (rv_op_rem, rem_s a b), (rv_op_remu, remu a b),
     (rv_op_mulw, scast (low32 a * low32 b)), (rv_op_divw, scast (div_s (low32 a) (low32 b))),
     (rv_op_divuw, scast (divu (low32 a) (low32 b))), (rv_op_remw, scast (rem_s (low32 a) (low32 b))),
     (rv_op_remuw, scast (remu (low32 a) (low32 b)))]"

definition load_results :: "host_memory \<Rightarrow> u64 \<Rightarrow> (opcode \<times> u64) list" where
  "load_results m a =
    [(rv_op_ld, read_bytes m a 8), (rv_op_lw, scast (ucast (read_bytes m a 4) :: 32 word)), (rv_op_lwu, read_bytes m a 4),
     (rv_op_lh, scast (ucast (read_bytes m a 2) :: 16 word)), (rv_op_lhu, read_bytes m a 2),
     (rv_op_lb, scast (ucast (read_bytes m a 1) :: 8 word)), (rv_op_lbu, read_bytes m a 1)]"

definition inst_results :: "host_memory \<Rightarrow> u64 \<Rightarrow> s32 \<Rightarrow> u64 \<Rightarrow> u64 \<Rightarrow> (opcode \<times> u64) list" where
  "inst_results m at i a b = alu_results at i a b @ shift_results i a b @ mul_results a b @ load_results m (a + scast i)"

text \<open>Side conditions under which the code of an instruction has its result.\<close>

definition jit_ok :: "jit_decode \<Rightarrow> u64 \<Rightarrow> bool" where
  "jit_ok d b \<longleftrightarrow>
    (let opc = dec_op d
     in if opc = rv_op_auipc then 0 < x86_reg (dec_rd d) \<or> fits Q (jit_pc d + scast (dec_imm d))
        else if opc = rv_op_addw then dec_rs1 d \<noteq> 0 \<or> \<not> 0 < x86_reg (dec_rd d) \<or> 0 < x86_reg (dec_rs2 d)
        else if opc = rv_op_div \<or> opc = rv_op_divu then div_ok d b
        else if opc = rv_op_divw \<or> opc = rv_op_divuw then div_ok d (low32 b) \<and> word_divisor_ok d b
        else if opc = rv_op_rem then rem_ok d \<and> dividend_ok d
        else if opc = rv_op_remu then rem_ok d
        else if opc = rv_op_remw then rem_ok d \<and> dividend_ok d \<and> word_divisor_ok d b
        else if opc = rv_op_remuw then rem_ok d \<and> word_divisor_ok d b
        else True)"

section \<open>The interpreter\<close>

lemmas exec_groups = exec_inst_rv64_def exec_ctrl_def exec_mem_def exec_mem_64_def exec_op_imm_def exec_op_def
  exec_shift_imm_def exec_op_imm_w_def exec_op_w_def exec_mul_def exec_mul_w_def when_ext_def Let_def

lemma exec_alu:
  fixes p :: "(64, 'm, 'z) processor_scheme"
  assumes "(dec_op dec, v) \<in> set (alu_results (pc p) (dec_imm dec) (get_reg p (dec_rs1 dec)) (get_reg p (dec_rs2 dec)))"
    and "rvi cfg"
  shows "exec_inst_rv64 cfg ops hf dec off p = Ret off (set_rd dec v p)"
  using assms unfolding alu_results_def list.set insert_iff empty_iff prod.inject low32_def
  by (elim disjE conjE; simp add: exec_groups)

lemma shift_mask: "unat (b AND 0x7f) < 64 \<Longrightarrow> b AND 0x7f = b AND 0x3f" for b :: u64
proof -
  have small: "take_bit 6 x = x" if "unat x < 64" for x :: u64
    using that by (simp add: word_unat_eq_iff unsigned_take_bit_eq take_bit_nat_eq_self)
  have "take_bit 6 (b AND mask 7) = b AND mask 6" by (auto intro!: bit_word_eqI simp: bit_simps)
  then show "b AND 0x7f = b AND 0x3f" if "unat (b AND 0x7f) < 64"
    using small [OF that] by (simp add: mask_eq_exp_minus_1)
qed

lemma exec_shift:
  fixes p :: "(64, 'm, 'z) processor_scheme"
  assumes "(dec_op dec, v) \<in> set (shift_results (dec_imm dec) (get_reg p (dec_rs1 dec)) (get_reg p (dec_rs2 dec)))"
    and "rvi cfg" and "exec_inst_rv64 cfg ops hf dec off p = Ret off' q"
  shows "off' = off \<and> q = set_rd dec v p \<and>
    (dec_op dec \<in> {rv_op_slli, rv_op_srli, rv_op_srai} \<longrightarrow> unat (dec_imm dec) < 64) \<and>
    (dec_op dec \<in> {rv_op_slliw, rv_op_srliw, rv_op_sraiw} \<longrightarrow> unat (dec_imm dec) < 32)"
  using assms unfolding shift_results_def list.set insert_iff empty_iff prod.inject low32_def
  by (elim disjE conjE; simp add: exec_groups guard_shift_def split: if_splits; use shift_mask in auto)

lemma exec_muldiv:
  fixes p :: "(64, 'm, 'z) processor_scheme"
  assumes "(dec_op dec, v) \<in> set (mul_results (get_reg p (dec_rs1 dec)) (get_reg p (dec_rs2 dec)))" and "rvm cfg"
  shows "exec_inst_rv64 cfg ops hf dec off p = Ret off (set_rd dec v p)"
  using assms unfolding mul_results_def list.set insert_iff empty_iff prod.inject low32_def
  by (elim disjE conjE; simp add: exec_groups div_s_def divu_def rem_s_def remu_def)

lemma read_bytes_low:
  "(ucast (ucast (read_bytes m a 4) :: 32 word) :: u64) = read_bytes m a 4"
  "(ucast (ucast (read_bytes m a 2) :: 16 word) :: u64) = read_bytes m a 2"
  "(ucast (ucast (read_bytes m a 1) :: 8 word) :: u64) = read_bytes m a 1"
  by (rule bit_word_eqI; auto simp: bit_simps bit_read_bytes)+

lemma exec_load:
  fixes p :: "(64, host_memory, 'z) processor_scheme"
  assumes "(dec_op dec, v) \<in> set (load_results (mmu p) (get_reg p (dec_rs1 dec) + scast (dec_imm dec)))" and "rvi cfg"
  shows "exec_inst_rv64 cfg mmu_proxy_ops hf dec off p = Ret off (set_rd dec v p)"
  using assms unfolding load_results_def list.set insert_iff empty_iff prod.inject
  by (elim disjE conjE; simp add: exec_groups mmu_proxy_ops_def proxy_load_def read_bytes_low)

section \<open>The emitted code\<close>

lemmas jit_emitted = jit_straight_def jit_table_def jit_op_la_def jit_op_zextw_def jit_op_addiwz_def jit_ok_def

lemma code_alu:
  assumes "(dec_op d, v) \<in> set (alu_results (jit_pc d) (dec_imm d) (reg_val s (dec_rs1 d)) (reg_val s (dec_rs2 d)))"
    and "slots s 0 = 0" and "jit_ok d (reg_val s (dec_rs2 d))"
  shows "\<exists>code. jit_straight d = Some code \<and> computes code (dec_rd d) v s"
  using assms unfolding alu_results_def list.set insert_iff empty_iff prod.inject
  by (elim disjE conjE; simp add: jit_emitted jit_computes)

lemma code_shift:
  assumes "(dec_op d, v) \<in> set (shift_results (dec_imm d) (reg_val s (dec_rs1 d)) (reg_val s (dec_rs2 d)))"
    and "slots s 0 = 0" and "dec_op d \<in> {rv_op_slli, rv_op_srli, rv_op_srai} \<longrightarrow> unat (dec_imm d) < 64"
    and "dec_op d \<in> {rv_op_slliw, rv_op_srliw, rv_op_sraiw} \<longrightarrow> unat (dec_imm d) < 32"
  shows "\<exists>code. jit_straight d = Some code \<and> computes code (dec_rd d) v s"
  using assms unfolding shift_results_def list.set insert_iff empty_iff prod.inject
  by (elim disjE conjE; simp add: jit_emitted jit_computes)

lemma code_muldiv:
  assumes "(dec_op d, v) \<in> set (mul_results (reg_val s (dec_rs1 d)) (reg_val s (dec_rs2 d)))"
    and "slots s 0 = 0" and "jit_ok d (reg_val s (dec_rs2 d))"
  shows "\<exists>code. jit_straight d = Some code \<and> computes code (dec_rd d) v s"
  using assms unfolding mul_results_def list.set insert_iff empty_iff prod.inject
  by (elim disjE conjE; simp add: jit_emitted jit_computes)

lemma code_load:
  assumes "(dec_op d, v) \<in> set (load_results (guest s) (reg_val s (dec_rs1 d) + scast (dec_imm d)))"
    and "slots s 0 = 0"
  shows "\<exists>code. jit_straight d = Some code \<and> computes code (dec_rd d) v s"
  using assms unfolding load_results_def list.set insert_iff empty_iff prod.inject
  by (elim disjE conjE; simp add: jit_emitted jit_computes jit_lb_computes [simplified] jit_lbu_computes [simplified] jit_sb_stores [simplified])

lemma code_store:
  assumes "(dec_op d, n) \<in> set store_forms" and "slots s 0 = 0"
  shows "\<exists>code. jit_straight d = Some code \<and>
    stores code n (reg_val s (dec_rs1 d) + scast (dec_imm d)) (reg_val s (dec_rs2 d)) s"
  using assms unfolding store_forms_def list.set insert_iff empty_iff prod.inject
  by (elim disjE conjE; simp add: jit_emitted jit_computes jit_lb_computes [simplified] jit_lbu_computes [simplified] jit_sb_stores [simplified])

section \<open>Simulation of one instruction\<close>

text \<open>The host state holds the guest's registers and memory.\<close>

definition jit_rel :: "(64, host_memory, 'z) processor_scheme \<Rightarrow> x86 \<Rightarrow> bool" where
  "jit_rel p s \<longleftrightarrow> regs_ok p \<and> guest s = mmu p \<and> slots s 0 = 0 \<and> (\<forall>r < 32. reg_val s r = get_reg p r)"

definition regs_in_range :: "jit_decode \<Rightarrow> bool" where
  "regs_in_range d \<longleftrightarrow> dec_rd d < 32 \<and> dec_rs1 d < 32 \<and> dec_rs2 d < 32"

lemma truncate_simps [simp]:
  "dec_op (decode.truncate d) = dec_op d" "dec_rd (decode.truncate d) = dec_rd d" "dec_rs1 (decode.truncate d) = dec_rs1 d"
  "dec_rs2 (decode.truncate d) = dec_rs2 d" "dec_imm (decode.truncate d) = dec_imm d"
  by (simp_all add: decode.defs)

lemma table_covered:
  assumes "jit_straight d = Some code" and "dec_op d < 1024"
  obtains v where "(dec_op d, v) \<in> set (inst_results m at i a b)" | n where "(dec_op d, n) \<in> set store_forms"
proof -
  have "dec_op d \<in> fst ` set jit_table" using assms(1) by (auto simp: jit_straight_def dest!: map_of_SomeD) force
  moreover have "\<forall>opc \<in> fst ` set jit_table. opc < 1024 \<longrightarrow> opc \<in> fst ` set (inst_results m at i a b) \<or> opc \<in> fst ` set store_forms"
    by (simp add: jit_table_def inst_results_def alu_results_def shift_results_def mul_results_def load_results_def
        store_forms_def jit_op_la_def jit_op_zextw_def jit_op_addiwz_def)
  ultimately show thesis using assms(2) that by force
qed

lemma jit_rel_computes:
  assumes "jit_rel p s" and "computes code (dec_rd d) v s" and "dec_rd d < 32"
  shows "\<exists>t. run_x86 code s = Some (None, t) \<and> jit_rel (set_rd (decode.truncate d) v p) t"
proof -
  from assms(2) obtain t where t: "run_x86 code s = Some (None, t)" "guest t = guest s"
    "\<And>r. reg_val t r = (if r = dec_rd d \<and> dec_rd d \<noteq> 0 then v else reg_val s r)"
    unfolding computes_def by blast
  have "slots t 0 = 0" using t(3) [of 0] assms(1) by (simp add: jit_rel_def reg_val_def)
  then have "jit_rel (set_rd (decode.truncate d) v p) t"
    using assms(1,3) t(2,3) get_reg_set_rd [of p "decode.truncate d" v] by (auto simp: jit_rel_def)
  then show ?thesis using t(1) by blast
qed

lemma jit_rel_stores:
  assumes "jit_rel p s" and "stores code n a v s"
  shows "\<exists>t. run_x86 code s = Some (None, t) \<and> jit_rel (p\<lparr>mmu := write_bytes (mmu p) a n v\<rparr>) t"
proof -
  from assms(2) obtain t where t: "run_x86 code s = Some (None, t)" "guest t = write_bytes (guest s) a n v"
    "\<And>r. reg_val t r = reg_val s r"
    unfolding stores_def by blast
  have "slots t 0 = 0" using t(3) [of 0] assms(1) by (simp add: jit_rel_def reg_val_def)
  then have "jit_rel (p\<lparr>mmu := write_bytes (mmu p) a n v\<rparr>) t"
    using assms(1) t(2,3) by (auto simp: jit_rel_def regs_ok_def get_reg_def)
  then show ?thesis using t(1) by blast
qed

lemma straight_simulates:
  fixes p :: "(64, host_memory, 'z) processor_scheme"
  assumes straight: "jit_straight d = Some code" "dec_op d < 1024"
    and cfg: "rvi cfg" "rvm cfg"
    and range: "regs_in_range d"
    and rel: "jit_rel p s" "pc p = jit_pc d"
    and ok: "jit_ok d (get_reg p (dec_rs2 d))"
    and exec: "exec_inst_rv64 cfg mmu_proxy_ops hf (decode.truncate d) off p = Ret off' q"
  shows "off' = off \<and> pc q = pc p \<and> (\<exists>t. run_x86 code s = Some (None, t) \<and> jit_rel q t)"
proof -
  let ?d = "decode.truncate d"
  have s: "slots s 0 = 0" "guest s = mmu p" "reg_val s (dec_rs1 d) = get_reg p (dec_rs1 d)" "reg_val s (dec_rs2 d) = get_reg p (dec_rs2 d)"
    using rel(1) range by (simp_all add: jit_rel_def regs_in_range_def)
  let ?a = "reg_val s (dec_rs1 d)" and ?b = "reg_val s (dec_rs2 d)"
  from straight show ?thesis
  proof (cases rule: table_covered [of d code "mmu p" "jit_pc d" "dec_imm d" ?a ?b])
    case (1 v)
    have "off' = off \<and> q = set_rd ?d v p \<and> computes code (dec_rd d) v s"
    proof -
      consider (alu) "(dec_op d, v) \<in> set (alu_results (jit_pc d) (dec_imm d) ?a ?b)" |
        (shift) "(dec_op d, v) \<in> set (shift_results (dec_imm d) ?a ?b)" | (mul) "(dec_op d, v) \<in> set (mul_results ?a ?b)" |
        (load) "(dec_op d, v) \<in> set (load_results (mmu p) (?a + scast (dec_imm d)))"
        using 1 unfolding inst_results_def by auto
      then show ?thesis
      proof cases
        case alu
        then show ?thesis using exec_alu [of ?d v p cfg mmu_proxy_ops hf off] code_alu [of d v s] s ok cfg rel(2) straight(1) exec by simp
      next
        case shift
        then show ?thesis using exec_shift [of ?d v p cfg mmu_proxy_ops hf off off' q] code_shift [of d v s] s cfg straight(1) exec by simp
      next
        case mul
        then show ?thesis using exec_muldiv [of ?d v p cfg mmu_proxy_ops hf off] code_muldiv [of d v s] s ok cfg straight(1) exec by simp
      next
        case load
        then show ?thesis using exec_load [of ?d v p cfg hf off] code_load [of d v s] s cfg straight(1) exec by simp
      qed
    qed
    then show ?thesis using jit_rel_computes [OF rel(1), of code d v] range by (auto simp: regs_in_range_def)
  next
    case (2 n)
    then have "stores code n (?a + scast (dec_imm d)) ?b s" using code_store [of d n s] s straight(1) by simp
    moreover have "off' = off" "q = p\<lparr>mmu := write_bytes (mmu p) (?a + scast (dec_imm d)) n ?b\<rparr>"
      using exec_store_rv64 [of ?d n cfg mmu_proxy_ops hf off p] 2 cfg s exec by (simp_all add: mmu_proxy_ops_def proxy_store_def)
    ultimately show ?thesis using jit_rel_stores [OF rel(1)] by simp
  qed
qed

end
