(* ===== verification/Rv_Jit_Trace.thy ===== *)
theory Rv_Jit_Trace
  imports Rv_Jit_Sim
begin

text \<open>
  The code the emitter adds for one instruction, branches and jumps included, against one step of the interpreter.
\<close>

section \<open>Branches\<close>

lemma jit_cmp_runs:
  "slots s 0 = 0 \<Longrightarrow> \<exists>t. run_x86 (jit_cmp d) s = Some (None, t) \<and> guest t = guest s \<and> (\<forall>r. reg_val t r = reg_val s r) \<and>
    eflags t = Some (cmp_flags (reg_val s (dec_rs1 d)) (reg_val s (dec_rs2 d)))"
  unfolding jit_defs Let_def src_folds
  by - (rule operand_cases [of d]; cases "0 < x86_reg (dec_rs1 d)"; auto simp: run_simps)

lemma branch_flags_hold:
  "holds (fst (branch_flags opc)) (cmp_flags a b) \<longleftrightarrow> branch_cond opc a b"
  "holds (snd (branch_flags opc)) (cmp_flags a b) \<longleftrightarrow> \<not> branch_cond opc a b"
  unfolding branch_flags_def branch_cond_def by (simp_all add: not_less word_sless_alt word_sle_eq not_le)

definition branch_ops :: "opcode set" where
  "branch_ops = {rv_op_bne, rv_op_beq, rv_op_blt, rv_op_bge, rv_op_bltu, rv_op_bgeu}"

lemma exec_branch:
  fixes p :: "(64, 'm, 'z) processor_scheme"
  assumes "dec_op dec \<in> branch_ops" and "rvi cfg"
  shows "exec_inst_rv64 cfg ops hf dec off p =
    Ret (if branch_cond (dec_op dec) (get_reg p (dec_rs1 dec)) (get_reg p (dec_rs2 dec)) then scast (dec_imm dec) else off) p"
  using assms unfolding branch_ops_def insert_iff empty_iff
  by (elim disjE; simp add: exec_groups branch_cond_def)

text \<open>The labels that stand for a guest address: code of this trace, a trampoline, or an earlier trace.\<close>

definition leads_to :: "(u64 \<Rightarrow> u64) \<Rightarrow> x86_label \<Rightarrow> u64 \<Rightarrow> bool" where
  "leads_to lookup l next \<longleftrightarrow> l = Trace next \<or> l = Jmp_tramp next \<or> lookup next \<noteq> 0 \<and> l = Code (lookup next)"

definition arrives :: "(u64 \<Rightarrow> u64) \<Rightarrow> jit_emitter \<Rightarrow> x86_label option \<Rightarrow> u64 \<Rightarrow> bool" where
  "arrives lookup e l next \<longleftrightarrow> (case l of None \<Rightarrow> je_term_pc e = next
     | Some l \<Rightarrow> leads_to lookup l next \<and> (l = Trace next \<longrightarrow> next \<in> set (je_labels e)) \<and>
         (l = Jmp_tramp next \<longrightarrow> next \<in> set (je_jmp_tramps e)))"

lemmas fixup_defs = emit_branch_fixup_def emit_jump_fixup_def create_jump_fixup_def create_jump_tramp_def add_code_def

definition branch_code :: "(u64 \<Rightarrow> u64) \<Rightarrow> jit_decode \<Rightarrow> bool \<Rightarrow> cond \<Rightarrow> cond \<Rightarrow> jit_emitter \<Rightarrow> x86_inst list" where
  "branch_code lookup d taken bf ibf e =
    (let branch_pc = jit_pc d + scast (dec_imm d);
         cont_pc = jit_pc d + of_nat (inst_length (jit_inst d));
         branch_i = branch_pc \<in> set (je_labels e);
         cont_i = cont_pc \<in> set (je_labels e);
         out = (\<lambda>pc. if lookup pc \<noteq> 0 then Code (lookup pc) else Jmp_tramp pc)
     in if branch_i \<and> cont_i then [Jcc bf (Trace branch_pc), Jmp (Trace cont_pc)]
        else if taken \<and> branch_i then [Jcc bf (Trace branch_pc), Jmp (out cont_pc)]
        else if \<not> taken \<and> cont_i then [Jcc ibf (Trace cont_pc), Jmp (out branch_pc)]
        else if taken then [Jcc ibf (out cont_pc)] else [Jcc bf (out branch_pc)])"

lemma emit_branch_code:
  "je_code (emit_branch lookup d taken bf ibf e) = je_code e @ jit_cmp d @ branch_code lookup d taken bf ibf e"
  "je_labels (emit_branch lookup d taken bf ibf e) = je_labels e"
  unfolding emit_branch_def branch_code_def by (simp_all add: Let_def fixup_defs)

lemma emit_branch_tramps:
  "set (je_jmp_tramps (emit_branch lookup d taken bf ibf e)) = set (je_jmp_tramps e) \<union>
    (let branch_pc = jit_pc d + scast (dec_imm d);
         cont_pc = jit_pc d + of_nat (inst_length (jit_inst d));
         branch_i = branch_pc \<in> set (je_labels e);
         cont_i = cont_pc \<in> set (je_labels e);
         out = (\<lambda>pc. if lookup pc = 0 then {pc} else {})
     in if branch_i \<and> cont_i then {} else if taken \<and> branch_i then out cont_pc
        else if \<not> taken \<and> cont_i then out branch_pc else if taken then out cont_pc else out branch_pc)"
  unfolding emit_branch_def by (auto simp: Let_def fixup_defs set_insort_key)

lemma emit_branch_term:
  assumes "jit_pc d + scast (dec_imm d) \<notin> set (je_labels e) \<or> \<not> taken"
    and "jit_pc d + of_nat (inst_length (jit_inst d)) \<notin> set (je_labels e) \<or> taken"
  shows "je_term_pc (emit_branch lookup d taken bf ibf e) =
    (if taken then jit_pc d + scast (dec_imm d) else jit_pc d + of_nat (inst_length (jit_inst d)))"
  using assms unfolding emit_branch_def by (auto simp: Let_def fixup_defs)

lemma emit_branch_simulates:
  fixes p :: "(64, host_memory, 'z) processor_scheme"
  assumes "jit_rel p s" and "regs_in_range d" and e'_def: "e' = emit_branch_op lookup regs d e"
    and next_def: "next = jit_pc d + (if branch_cond (dec_op d) (get_reg p (dec_rs1 d)) (get_reg p (dec_rs2 d))
      then scast (dec_imm d) else of_nat (inst_length (jit_inst d)))"
  shows "\<exists>c l t. je_code e' = je_code e @ c \<and> run_x86 c s = Some (l, t) \<and> jit_rel p t \<and> arrives lookup e' l next"
proof -
  let ?taken = "branch_cond (dec_op d) (regs ! unat (dec_rs1 d)) (regs ! unat (dec_rs2 d))"
  let ?bf = "fst (branch_flags (dec_op d))" and ?ibf = "snd (branch_flags (dec_op d))"
  let ?c = "branch_code lookup d ?taken ?bf ?ibf e"
  have v: "reg_val s (dec_rs1 d) = get_reg p (dec_rs1 d)" "reg_val s (dec_rs2 d) = get_reg p (dec_rs2 d)"
    using assms(1,2) by (simp_all add: jit_rel_def regs_in_range_def)
  obtain t where t: "run_x86 (jit_cmp d) s = Some (None, t)" "guest t = guest s" "\<And>r. reg_val t r = reg_val s r"
    "eflags t = Some (cmp_flags (get_reg p (dec_rs1 d)) (get_reg p (dec_rs2 d)))"
    using jit_cmp_runs [of s d] assms(1) unfolding v by (auto simp: jit_rel_def)
  have "slots t 0 = 0" using t(3) [of 0] assms(1) by (simp add: jit_rel_def reg_val_def)
  then have rel: "jit_rel p t" using assms(1) t(2,3) by (simp add: jit_rel_def)
  have e': "e' = emit_branch lookup d ?taken ?bf ?ibf e" by (simp add: e'_def emit_branch_op_def)
  note ends = emit_branch_term [of d e ?taken lookup ?bf ?ibf, folded e']
  have "\<exists>l. run_x86 ?c t = Some (l, t) \<and> arrives lookup e' l next"
    unfolding branch_code_def next_def arrives_def leads_to_def Let_def using ends t(4)
    by (auto simp: e' emit_branch_code emit_branch_tramps branch_flags_hold Let_def)
  then show ?thesis
    using run_x86_append [OF t(1), of ?c] rel emit_branch_code(1) [of lookup d ?taken ?bf ?ibf e, folded e'] by auto
qed

section \<open>Labels in the code\<close>

definition binds_within :: "x86_inst list \<Rightarrow> u64 set \<Rightarrow> bool" where
  "binds_within is A \<longleftrightarrow> (\<forall>l. Bind l \<in> set is \<longrightarrow> (\<exists>n. l = Local n) \<or> (\<exists>x \<in> A. l = Trace x))"

lemma binds_within_simps [simp]:
  "binds_within [] A" "binds_within (xs @ ys) A \<longleftrightarrow> binds_within xs A \<and> binds_within ys A"
  "binds_within (i # is) A \<longleftrightarrow> (case i of Bind l \<Rightarrow> (\<exists>n. l = Local n) \<or> (\<exists>x \<in> A. l = Trace x) | _ \<Rightarrow> True) \<and> binds_within is A"
  by (auto simp: binds_within_def split: x86_inst.splits)

lemma binds_within_mono: "binds_within is A \<Longrightarrow> A \<subseteq> C \<Longrightarrow> binds_within is C"
  unfolding binds_within_def by blast

lemma after_unbound: "Bind l \<notin> set is \<Longrightarrow> after l is = None"
  by (induction "is") auto

lemma binds_within_if:
  "binds_within (if c then xs else ys) A \<longleftrightarrow> (c \<longrightarrow> binds_within xs A) \<and> (\<not> c \<longrightarrow> binds_within ys A)"
  by simp

lemma straight_binds:
  assumes "jit_straight d = Some code"
  shows "binds_within code A"
proof -
  obtain f where f: "(dec_op d, f) \<in> set jit_table" "code = f d"
    using assms unfolding jit_straight_def by (auto dest: map_of_SomeD)
  have "\<forall>(opc, g) \<in> set jit_table. binds_within (g d) A"
    unfolding jit_table_def list.set ball_simps prod.case jit_defs Let_def use_mmu_def
    by (intro conjI; simp only: binds_within_if binds_within_simps x86_inst.case x86_label.inject if_False simp_thms)
  then show ?thesis using f by fastforce
qed

section \<open>One instruction\<close>

lemma emit_jal_code:
  "je_code (jit_emit_jal d e) = je_code e @
    (if dec_rd d = 0 then []
     else if 0 < x86_reg (dec_rd d) then [Mov (Reg Q (nat (x86_reg (dec_rd d)))) (Imm (jit_pc d + of_nat (inst_length (jit_inst d))))]
     else [Mov (Reg Q 0) (Imm (jit_pc d + of_nat (inst_length (jit_inst d)))), Mov (Slot Q (unat (dec_rd d))) (Reg Q 0)])"
  "je_labels (jit_emit_jal d e) = je_labels e" "je_term_pc (jit_emit_jal d e) = jit_pc d + scast (dec_imm d)"
  "je_jmp_tramps (jit_emit_jal d e) = je_jmp_tramps e"
  by (simp_all add: jit_emit_jal_def Let_def add_code_def)

lemma link_computes:
  "slots s 0 = 0 \<Longrightarrow> computes (if dec_rd d = 0 then [] else if 0 < x86_reg (dec_rd d) then [Mov (Reg Q (nat (x86_reg (dec_rd d)))) (Imm v)]
     else [Mov (Reg Q 0) (Imm v), Mov (Slot Q (unat (dec_rd d))) (Reg Q 0)]) (dec_rd d) v s"
  unfolding computes_def by - (rule operand_cases [of d]; auto simp: run_simps)

text \<open>The instructions covered: all but the indirect jump, which ends a trace or pops the call stack.\<close>

definition supported :: "jit_decode \<Rightarrow> bool" where
  "supported d \<longleftrightarrow> regs_in_range d \<and> dec_op d < 1024 \<and> dec_op d \<noteq> rv_op_jalr"

lemma not_straight:
  assumes "jit_straight d = None" and "jit_emit lookup regs d e = (True, e')" and "supported d"
  shows "dec_op d \<in> branch_ops \<or> dec_op d = rv_op_jal"
  using assms unfolding jit_emit_def branch_ops_def supported_def
  by (auto simp: Let_def jit_op_call_def split: if_splits)

lemma jit_emit_cases:
  assumes "jit_emit lookup regs d e = (True, e')" and "supported d"
  defines "e0 \<equiv> add_code [Bind (Trace (jit_pc d))] (e\<lparr>je_labels := je_labels e @ [jit_pc d]\<rparr>)"
  obtains (straight) code where "jit_straight d = Some code" "je_code e' = je_code e @ Bind (Trace (jit_pc d)) # code"
      "je_labels e' = je_labels e @ [jit_pc d]" "je_term_pc e' = jit_pc d + of_nat (inst_length (jit_inst d))"
      "je_jmp_tramps e' = je_jmp_tramps e"
    | (branch) "dec_op d \<in> branch_ops" "e' = emit_branch_op lookup regs d e0"
    | (jal) "dec_op d = rv_op_jal" "e' = jit_emit_jal d e0"
proof (cases "jit_straight d")
  case None
  then show ?thesis
    using not_straight [OF None assms(1,2)] assms(1) that(2,3) unfolding jit_emit_def e0_def branch_ops_def
    by (auto simp: Let_def split: if_splits)
next
  case (Some code)
  then show ?thesis
    using assms(1,2) that(1) unfolding jit_emit_def supported_def
    by (auto simp: Let_def add_code_def jit_op_la_def jit_op_zextw_def jit_op_addiwz_def split: if_splits)
qed

lemma jit_emit_fresh: "jit_emit lookup regs d e = (True, e') \<Longrightarrow> jit_pc d \<notin> set (je_labels e)"
  by (auto simp: jit_emit_def split: if_splits)

lemma jit_emit_code:
  assumes "jit_emit lookup regs d e = (True, e')" and "supported d"
  shows "\<exists>c. je_code e' = je_code e @ c \<and> binds_within c {jit_pc d} \<and> je_labels e' = je_labels e @ [jit_pc d] \<and>
    set (je_jmp_tramps e) \<subseteq> set (je_jmp_tramps e')"
  using assms
proof (cases rule: jit_emit_cases)
  case (straight code)
  then show ?thesis using straight_binds [of d code "{jit_pc d}"] by auto
next
  case branch
  have "binds_within (jit_cmp d) A" "binds_within (branch_code lookup d taken bf ibf e1) A" for taken bf ibf e1 A
    by (auto simp: jit_cmp_def branch_code_def Let_def)
  then show ?thesis using branch(2) by (simp add: emit_branch_op_def emit_branch_code emit_branch_tramps add_code_def)
next
  case jal
  then show ?thesis by (auto simp: emit_jal_code add_code_def)
qed

lemma exec_jal:
  fixes p :: "(64, 'm, 'z) processor_scheme"
  assumes "dec_op dec = rv_op_jal" and "rvi cfg"
  shows "exec_inst_rv64 cfg ops hf dec off p = Ret (scast (dec_imm dec)) (set_rd dec (pc p + off) p)"
  using assms by (simp add: exec_groups)

lemma jit_rel_pc [simp]: "jit_rel (p\<lparr>pc := v\<rparr>) s \<longleftrightarrow> jit_rel p s"
  by (simp add: jit_rel_def regs_ok_def get_reg_def)

lemma run_label: "run_x86 c s = r \<Longrightarrow> run_x86 (Bind l # c) s = r"
  by simp

lemma jit_emit_simulates:
  fixes p :: "(64, host_memory, 'z) processor_scheme"
  assumes emit: "jit_emit lookup regs d e = (True, e')" and sup: "supported d"
    and cfg: "rvi cfg" "rvm cfg"
    and rel: "jit_rel p s" "pc p = jit_pc d"
    and ok: "jit_ok d (get_reg p (dec_rs2 d))"
    and exec: "exec_inst_rv64 cfg mmu_proxy_ops hf (decode.truncate d) (of_nat (inst_length (jit_inst d))) p = Ret off q"
  shows "\<exists>c l t. je_code e' = je_code e @ c \<and> run_x86 c s = Some (l, t) \<and> jit_rel (q\<lparr>pc := pc q + off\<rparr>) t \<and>
    arrives lookup e' l (pc q + off)"
  using emit sup
proof (cases rule: jit_emit_cases)
  case (straight code)
  then obtain t where "off = of_nat (inst_length (jit_inst d))" "pc q = pc p" "run_x86 code s = Some (None, t)" "jit_rel q t"
    using straight_simulates [OF straight(1) _ cfg _ rel ok exec] sup by (auto simp: supported_def)
  then show ?thesis
    using straight rel(2) by (intro exI [of _ "Bind (Trace (jit_pc d)) # code"] exI [of _ None] exI [of _ t]) (simp add: arrives_def)
next
  case branch
  have q: "q = p" "off = (if branch_cond (dec_op d) (get_reg p (dec_rs1 d)) (get_reg p (dec_rs2 d)) then scast (dec_imm d)
      else of_nat (inst_length (jit_inst d)))"
    using exec_branch [of "decode.truncate d" cfg mmu_proxy_ops hf "of_nat (inst_length (jit_inst d))" p] branch(1) cfg(1) exec
    by simp_all
  from emit_branch_simulates [OF rel(1) _ branch(2) refl] sup obtain c l t
    where "je_code e' = je_code e @ Bind (Trace (jit_pc d)) # c" "run_x86 c s = Some (l, t)" "jit_rel p t"
      "arrives lookup e' l (pc p + off)"
    unfolding q(2) rel(2) supported_def by (auto simp: add_code_def)
  then show ?thesis
    unfolding q(1) by (intro exI [of _ "Bind (Trace (jit_pc d)) # c"] exI [of _ l] exI [of _ t]) simp
next
  case jal
  let ?v = "jit_pc d + of_nat (inst_length (jit_inst d))"
  have q: "off = scast (dec_imm d)" "q = set_rd (decode.truncate d) ?v p"
    using exec_jal [of "decode.truncate d" cfg mmu_proxy_ops hf "of_nat (inst_length (jit_inst d))" p] jal(1) cfg(1) exec rel(2)
    by simp_all
  have "slots s 0 = 0" using rel(1) by (simp add: jit_rel_def)
  from jit_rel_computes [OF rel(1) link_computes [OF this, of d ?v]] sup obtain t
    where "run_x86 (if dec_rd d = 0 then [] else if 0 < x86_reg (dec_rd d) then [Mov (Reg Q (nat (x86_reg (dec_rd d)))) (Imm ?v)]
       else [Mov (Reg Q 0) (Imm ?v), Mov (Slot Q (unat (dec_rd d))) (Reg Q 0)]) s = Some (None, t)" "jit_rel q t"
    unfolding q(2) supported_def regs_in_range_def by blast
  then show ?thesis
    unfolding jal(2) emit_jal_code add_code_def
    by (intro exI [of _ "Bind (Trace (jit_pc d)) # _"] exI [of _ None] exI [of _ t])
      (simp add: arrives_def emit_jal_code q rel(2) del: if_split)
qed

section \<open>The interpreter on a sequence\<close>

text \<open>The interpreter on a list of instructions.\<close>

fun interp_run :: "isa \<Rightarrow> host_fp \<Rightarrow> jit_decode list \<Rightarrow> (64, host_memory, 'z) processor_scheme \<Rightarrow>
    (64, host_memory, 'z) processor_scheme option" where
  "interp_run cfg hf [] p = Some p"
| "interp_run cfg hf (d # ds) p =
    (if pc p = jit_pc d then
       (case exec_inst_rv64 cfg mmu_proxy_ops hf (decode.truncate d) (of_nat (inst_length (jit_inst d))) p of
          Ret off q \<Rightarrow> interp_run cfg hf ds (q\<lparr>pc := pc q + off\<rparr>)
        | Exit _ _ \<Rightarrow> None)
     else None)"

end
