(* ===== verification/Rv_Fusion_Laws.thy ===== *)
theory Rv_Fusion_Laws
  imports Rv_Fusion Rv_Jit_Trace
begin

text \<open>The state machine carries out the rewriting, and what the fused instructions compute.\<close>

section \<open>Refinement\<close>

text \<open>The registers matter to branches only, and no branch is queued.\<close>

lemma jit_emit_regs:
  assumes "NO_MATCH [] regs" and "dec_op d \<notin> branch_ops"
  shows "jit_emit lookup regs d e = jit_emit lookup [] d e"
  using assms(2) unfolding jit_emit_def branch_ops_def by (simp add: Let_def split: option.split)

lemma pseudo_fields [simp]:
  "dec_op (jit_pseudo at inst opc rd rs1 imm) = opc" "dec_rd (jit_pseudo at inst opc rd rs1 imm) = rd"
  "dec_rs1 (jit_pseudo at inst opc rd rs1 imm) = rs1" "dec_imm (jit_pseudo at inst opc rd rs1 imm) = imm"
  "jit_pc (jit_pseudo at inst opc rd rs1 imm) = at" "jit_inst (jit_pseudo at inst opc rd rs1 imm) = inst"
  by (simp_all add: jit_pseudo_def decode.defs)

lemma pseudo_sz [simp]: "dec_op (d\<lparr>jit_sz := n\<rparr>) = dec_op d" "dec_rd (d\<lparr>jit_sz := n\<rparr>) = dec_rd d"
  "dec_rs1 (d\<lparr>jit_sz := n\<rparr>) = dec_rs1 d" "dec_imm (d\<lparr>jit_sz := n\<rparr>) = dec_imm d"
  by simp_all

definition emit_all :: "(u64 \<Rightarrow> u64) \<Rightarrow> (jit_decode \<Rightarrow> u64 list) \<Rightarrow> jit_decode list \<Rightarrow> jit_emitter \<Rightarrow> jit_emitter" where
  "emit_all lookup R ds e = fold (\<lambda>d e. snd (jit_emit lookup (R d) d e)) ds e"

definition fuse_all :: "(u64 \<Rightarrow> u64) \<Rightarrow> (jit_decode \<Rightarrow> u64 list) \<Rightarrow> jit_decode list \<Rightarrow> fusion \<times> jit_emitter \<Rightarrow> fusion \<times> jit_emitter" where
  "fuse_all lookup R ds fe = fold (\<lambda>d fe. snd (fusion_emit lookup (R d) d fe)) ds fe"

lemmas fusion_defs = fusion_emit_def emit_queue_def pass_on_def begin_zextw_def clear_queue_def opens_zextw_def same_shift_def
  fold_la_def fold_zextw_def fold_addiwz_def branch_ops_def jit_op_la_def jit_op_call_def jit_op_zextw_def jit_op_addiwz_def

lemma emit_all_append [simp]: "emit_all lookup R (xs @ ys) e = emit_all lookup R ys (emit_all lookup R xs e)"
  by (simp add: emit_all_def)

lemma all_simps [simp]:
  "emit_all lookup R [] e = e" "emit_all lookup R (d # ds) e = emit_all lookup R ds (snd (jit_emit lookup (R d) d e))"
  "fuse_all lookup R [] fe = fe" "fuse_all lookup R (d # ds) fe = fuse_all lookup R ds (snd (fusion_emit lookup (R d) d fe))"
  by (simp_all add: emit_all_def fuse_all_def)

text \<open>What the state machine does with an instruction, by the state it is in and the instruction it has queued.\<close>

definition idle :: "fusion \<Rightarrow> bool" where
  "idle f \<longleftrightarrow> fu_state f = match_state_none \<and> fu_queue f = []"

lemma idle_auipc:
  assumes "idle f" and "dec_op d = rv_op_auipc"
  obtains f' where "snd (fusion_emit lookup regs d (f, e)) = (f', e)" "fu_state f' = match_state_auipc" "fu_queue f' = [d]"
    "fu_rd f' = dec_rd d" "fu_imm f' = scast (dec_imm d)" "fu_pc f' = jit_pc d"
  using assms by (simp add: idle_def fusion_emit_def)

lemma idle_addiw:
  assumes "idle f" and "dec_op d = rv_op_addiw" and "dec_rd d = dec_rs1 d"
  obtains f' where "snd (fusion_emit lookup regs d (f, e)) = (f', e)" "fu_state f' = match_state_addiw" "fu_queue f' = [d]"
    "fu_rd f' = dec_rd d" "fu_imm f' = scast (dec_imm d)" "fu_pc f' = jit_pc d" "fu_sz f' = inst_length (jit_inst d)"
  using assms by (simp add: idle_def fusion_emit_def)

lemma idle_zextw:
  assumes "idle f" and "opens_zextw d"
  shows "snd (fusion_emit lookup regs d (f, e)) = (begin_zextw d f, e)"
  using assms by (auto simp: idle_def fusion_emit_def opens_zextw_def)

lemma begin_zextw_fields [simp]:
  "fu_state (begin_zextw d f) = match_state_zextw" "fu_queue (begin_zextw d f) = fu_queue f @ [d]"
  "fu_rd (begin_zextw d f) = dec_rd d" "fu_rs1 (begin_zextw d f) = dec_rs1 d" "fu_pc (begin_zextw d f) = jit_pc d"
  "fu_sz (begin_zextw d f) = inst_length (jit_inst d)"
  by (simp_all add: begin_zextw_def)

lemma idle_other:
  assumes "idle f" and "dec_op d \<noteq> rv_op_auipc" and "\<not> (dec_op d = rv_op_addiw \<and> dec_rd d = dec_rs1 d)" and "\<not> opens_zextw d"
  shows "snd (fusion_emit lookup regs d (f, e)) = (f, snd (jit_emit lookup regs d e))"
  using assms by (auto simp: idle_def fusion_emit_def opens_zextw_def pass_on_def split: prod.split)

text \<open>With the queue emitted or dropped the machine is idle again.\<close>

lemma passes_on:
  assumes "fu_queue f = q" and "\<forall>d \<in> set q. dec_op d \<notin> branch_ops"
  shows "idle (fst (snd (pass_on lookup (R d) d (emit_queue lookup (R d) (f, e)))))"
    and "snd (snd (pass_on lookup (R d) d (emit_queue lookup (R d) (f, e)))) = emit_all lookup R (q @ [d]) e"
proof -
  have "fold (\<lambda>d' e. snd (jit_emit lookup (R d) d' e)) q e = emit_all lookup R q e" for e
    using assms(2) by (induction q arbitrary: e) (simp_all add: jit_emit_regs)
  then show "snd (snd (pass_on lookup (R d) d (emit_queue lookup (R d) (f, e)))) = emit_all lookup R (q @ [d]) e"
    by (simp add: pass_on_def emit_queue_def assms(1) case_prod_beta)
qed (simp add: pass_on_def emit_queue_def idle_def case_prod_beta)

lemma queued_auipc:
  assumes "fu_state f = match_state_auipc" "fu_queue f = [d]" "fu_rd f = dec_rd d" "fu_imm f = scast (dec_imm d)"
    "fu_pc f = jit_pc d" "dec_op d = rv_op_auipc"
  shows "idle (fst (snd (fusion_emit lookup (R d') d' (f, e)))) \<and>
    snd (snd (fusion_emit lookup (R d') d' (f, e))) = emit_all lookup R (fuse_auipc d d') e"
proof (cases "completes_la d d' \<or> completes_call d d'")
  case True
  then show ?thesis
    using assms by (auto simp: fusion_emit_def fuse_auipc_def completes_la_def completes_call_def Let_def idle_def clear_queue_def
      fold_la_def jit_emit_regs branch_ops_def jit_op_la_def jit_op_call_def)
next
  case False
  then have "fusion_emit lookup (R d') d' (f, e) = pass_on lookup (R d') d' (emit_queue lookup (R d') (f, e))"
    "fuse_auipc d d' = [d, d']"
    using assms by (auto simp: fusion_emit_def fuse_auipc_def completes_la_def completes_call_def)
  then show ?thesis using passes_on [OF assms(2), of lookup R d' e] assms(6) by (simp add: branch_ops_def)
qed

lemma queued_zextw:
  assumes "fu_state f = match_state_zextw" "fu_queue f = [d]" "fu_rd f = dec_rd d" "fu_rs1 f = dec_rs1 d"
    "fu_pc f = jit_pc d" "fu_sz f = inst_length (jit_inst d)" "opens_zextw d"
  shows "idle (fst (snd (fusion_emit lookup (R d') d' (f, e)))) \<and>
    snd (snd (fusion_emit lookup (R d') d' (f, e))) = emit_all lookup R (fuse_zextw d d') e"
proof (cases "same_shift rv_op_srli d d'")
  case True
  then show ?thesis
    using assms by (auto simp: fusion_emit_def fuse_zextw_def same_shift_def idle_def clear_queue_def
      fold_zextw_def jit_emit_regs branch_ops_def jit_op_zextw_def)
next
  case False
  then have "fusion_emit lookup (R d') d' (f, e) = pass_on lookup (R d') d' (emit_queue lookup (R d') (f, e))"
    "fuse_zextw d d' = [d, d']"
    using assms by (auto simp: fusion_emit_def fuse_zextw_def same_shift_def)
  then show ?thesis using passes_on [OF assms(2), of lookup R d' e] assms(7) by (auto simp: branch_ops_def opens_zextw_def)
qed

lemma queued_addiwz:
  assumes "fu_state f = match_state_addiwz" "fu_queue f = [d, d']" "fu_rd f = dec_rd d" "fu_imm f = scast (dec_imm d)"
    "fu_pc f = jit_pc d" "fu_sz f = inst_length (jit_inst d) + inst_length (jit_inst d')"
    "dec_op d = rv_op_addiw" "dec_op d' = rv_op_slli"
  shows "idle (fst (snd (fusion_emit lookup (R d'') d'' (f, e)))) \<and>
    snd (snd (fusion_emit lookup (R d'') d'' (f, e))) = emit_all lookup R (fuse_addiwz d d' d'') e"
proof (cases "same_shift rv_op_srli d d''")
  case True
  then show ?thesis
    using assms by (auto simp: fusion_emit_def fuse_addiwz_def same_shift_def idle_def clear_queue_def
      fold_addiwz_def jit_emit_regs branch_ops_def jit_op_addiwz_def)
next
  case False
  then have "fusion_emit lookup (R d'') d'' (f, e) = pass_on lookup (R d'') d'' (emit_queue lookup (R d'') (f, e))"
    "fuse_addiwz d d' d'' = [d, d', d'']"
    using assms by (auto simp: fusion_emit_def fuse_addiwz_def same_shift_def)
  then show ?thesis using passes_on [OF assms(2), of lookup R d'' e] assms(7,8) by (simp add: branch_ops_def)
qed

lemma queued_addiw:
  assumes "fu_state f = match_state_addiw" "fu_queue f = [d]" "fu_rd f = dec_rd d" "fu_imm f = scast (dec_imm d)"
    "fu_pc f = jit_pc d" "fu_sz f = inst_length (jit_inst d)" "dec_op d = rv_op_addiw"
  shows "same_shift rv_op_slli d d' \<Longrightarrow> \<exists>f'. snd (fusion_emit lookup (R d') d' (f, e)) = (f', e) \<and>
      fu_state f' = match_state_addiwz \<and> fu_queue f' = [d, d'] \<and> fu_rd f' = dec_rd d \<and> fu_imm f' = scast (dec_imm d) \<and>
      fu_pc f' = jit_pc d \<and> fu_sz f' = inst_length (jit_inst d) + inst_length (jit_inst d')"
    and "\<not> same_shift rv_op_slli d d' \<Longrightarrow> dec_op d' = rv_op_slli \<and> dec_imm d' = 32 \<Longrightarrow>
      snd (fusion_emit lookup (R d') d' (f, e)) = (begin_zextw d' (clear_queue f), emit_all lookup R [d] e)"
    and "\<not> same_shift rv_op_slli d d' \<Longrightarrow> \<not> (dec_op d' = rv_op_slli \<and> dec_imm d' = 32) \<Longrightarrow>
      idle (fst (snd (fusion_emit lookup (R d') d' (f, e)))) \<and>
      snd (snd (fusion_emit lookup (R d') d' (f, e))) = emit_all lookup R [d, d'] e"
proof -
  show "same_shift rv_op_slli d d' \<Longrightarrow> \<exists>f'. snd (fusion_emit lookup (R d') d' (f, e)) = (f', e) \<and>
      fu_state f' = match_state_addiwz \<and> fu_queue f' = [d, d'] \<and> fu_rd f' = dec_rd d \<and> fu_imm f' = scast (dec_imm d) \<and>
      fu_pc f' = jit_pc d \<and> fu_sz f' = inst_length (jit_inst d) + inst_length (jit_inst d')"
    using assms by (auto simp: fusion_emit_def same_shift_def)
  show "\<not> same_shift rv_op_slli d d' \<Longrightarrow> dec_op d' = rv_op_slli \<and> dec_imm d' = 32 \<Longrightarrow>
      snd (fusion_emit lookup (R d') d' (f, e)) = (begin_zextw d' (clear_queue f), emit_all lookup R [d] e)"
    using assms by (auto simp: fusion_emit_def same_shift_def emit_queue_def clear_queue_def jit_emit_regs branch_ops_def)
  show "idle (fst (snd (fusion_emit lookup (R d') d' (f, e)))) \<and>
      snd (snd (fusion_emit lookup (R d') d' (f, e))) = emit_all lookup R [d, d'] e"
    if "\<not> same_shift rv_op_slli d d'" "\<not> (dec_op d' = rv_op_slli \<and> dec_imm d' = 32)"
  proof -
    have "fusion_emit lookup (R d') d' (f, e) = pass_on lookup (R d') d' (emit_queue lookup (R d') (f, e))"
      using assms that by (auto simp: fusion_emit_def same_shift_def)
    then show ?thesis using passes_on [OF assms(2), of lookup R d' e] assms(7) by (simp add: branch_ops_def)
  qed
qed

lemma idle_continues:
  assumes "idle (fst fe) \<and> snd fe = e'"
    and "\<And>f'. idle f' \<Longrightarrow> snd (emit_queue lookup regs (fuse_all lookup R ds (f', e'))) = r"
  shows "snd (emit_queue lookup regs (fuse_all lookup R ds fe)) = r"
  using assms by (cases fe) simp

lemma fusion_carries_out:
  assumes "idle f"
  shows "snd (emit_queue lookup regs (fuse_all lookup R ds (f, e))) = emit_all lookup R (fuse ds) e"
  using assms
proof (induction ds arbitrary: f e rule: fuse.induct)
  case 1
  then show ?case by (simp add: idle_def emit_queue_def)
next
  case (2 d)
  then show ?case by (auto simp: fusion_defs idle_def jit_emit_regs split: prod.split)
next
  case (3 d d' ds)
  let ?emit = "\<lambda>d fe. snd (fusion_emit lookup (R d) d fe)"
  note idle = "3.prems"
  consider (auipc) "dec_op d = rv_op_auipc" | (addiw) "dec_op d = rv_op_addiw" "dec_rd d = dec_rs1 d"
    | (zextw) "dec_op d \<noteq> rv_op_auipc" "\<not> (dec_op d = rv_op_addiw \<and> dec_rd d = dec_rs1 d)" "opens_zextw d"
    | (other) "dec_op d \<noteq> rv_op_auipc" "\<not> (dec_op d = rv_op_addiw \<and> dec_rd d = dec_rs1 d)" "\<not> opens_zextw d"
    by blast
  then show ?case
  proof cases
    case auipc
    obtain f' where f': "?emit d (f, e) = (f', e)" "fu_state f' = match_state_auipc" "fu_queue f' = [d]"
      "fu_rd f' = dec_rd d" "fu_imm f' = scast (dec_imm d)" "fu_pc f' = jit_pc d" by (rule idle_auipc [OF idle auipc])
    from idle_continues [OF queued_auipc [OF f'(2-6) auipc] "3.IH"(1) [OF auipc]] f'(1) auipc show ?thesis by simp
  next
    case zextw
    have "idle (fst (?emit d' (begin_zextw d f, e))) \<and>
        snd (?emit d' (begin_zextw d f, e)) = emit_all lookup R (fuse_zextw d d') e"
      using queued_zextw [of "begin_zextw d f" d lookup R d' e] idle zextw(3) by (simp add: idle_def)
    from idle_continues [OF this "3.IH"(5) [OF zextw]] idle_zextw [OF idle zextw(3)] zextw show ?thesis by auto
  next
    case other
    then show ?thesis using "3.IH"(6) [OF other idle] idle_other [OF idle other] by auto
  next
    case addiw
    then have "dec_op d \<noteq> rv_op_auipc" by simp
    obtain f' where f': "?emit d (f, e) = (f', e)" "fu_state f' = match_state_addiw" "fu_queue f' = [d]" "fu_rd f' = dec_rd d"
      "fu_imm f' = scast (dec_imm d)" "fu_pc f' = jit_pc d" "fu_sz f' = inst_length (jit_inst d)" by (rule idle_addiw [OF idle addiw])
    note queued = queued_addiw [OF f'(2-7) addiw(1)]
    consider (slli) "same_shift rv_op_slli d d'" | (shift) "\<not> same_shift rv_op_slli d d'" "dec_op d' = rv_op_slli \<and> dec_imm d' = 32"
      | (none) "\<not> same_shift rv_op_slli d d'" "\<not> (dec_op d' = rv_op_slli \<and> dec_imm d' = 32)" by blast
    then show ?thesis
    proof cases
      case slli
      obtain g where g: "?emit d' (f', e) = (g, e)" "fu_state g = match_state_addiwz" "fu_queue g = [d, d']" "fu_rd g = dec_rd d"
        "fu_imm g = scast (dec_imm d)" "fu_pc g = jit_pc d" "fu_sz g = inst_length (jit_inst d) + inst_length (jit_inst d')"
        using queued(1) [OF slli] by blast
      have d': "dec_op d' = rv_op_slli" using slli by (simp add: same_shift_def)
      show ?thesis
      proof (cases ds)
        case Nil
        then show ?thesis using f'(1) g addiw slli d' by (simp add: emit_queue_def jit_emit_regs branch_ops_def)
      next
        case (Cons d'' ds')
        from idle_continues [OF queued_addiwz [OF g(2-7) addiw(1) d'] "3.IH"(2) [OF _ _ slli Cons]] f'(1) g(1) addiw slli Cons
        show ?thesis by simp
      qed
    next
      case shift
      then have "opens_zextw d'" "idle (clear_queue f')" by (simp_all add: opens_zextw_def idle_def clear_queue_def)
      from "3.IH"(3) [OF _ _ shift this(2), of "emit_all lookup R [d] e"] idle_zextw [OF this(2,1)]
      show ?thesis using f'(1) queued(2) [OF shift] addiw shift by simp
    next
      case none
      from idle_continues [OF queued(3) [OF none] "3.IH"(4) [OF _ _ none]] f'(1) addiw none show ?thesis by auto
    qed
  qed
qed

section \<open>What the fused instructions do\<close>

lemma set_rd_twice:
  assumes "dec_rd dec' = dec_rd dec"
  shows "set_rd dec v (set_rd dec' w p\<lparr>pc := a\<rparr>) = set_rd dec v p\<lparr>pc := a\<rparr>"
  using assms by (simp add: set_rd_def)

lemma slli_srli: "drop_bit 32 (push_bit 32 a) = take_bit 32 a" for a :: u64
  by (rule bit_word_eqI) (auto simp: bit_simps)

lemma low_scast: "take_bit 32 (scast v :: u64) = ucast v" for v :: "32 word"
proof (rule bit_word_eqI)
  fix n
  show "bit (take_bit 32 (scast v :: u64)) n \<longleftrightarrow> bit (ucast v :: u64) n"
    by (cases "n < 32") (auto simp: bit_simps min_absorb2 dest: bit_imp_le_length)
qed

text \<open>An instruction of \<^verbatim>\<open>alu_results\<close> or \<^verbatim>\<open>shift_results\<close> on the way through a sequence.\<close>

lemma interp_alu:
  assumes "interp_run cfg hf (d # ds) p = Some q" and "rvi cfg"
    and "(dec_op d, v) \<in> set (alu_results (pc p) (dec_imm d) (get_reg p (dec_rs1 d)) (get_reg p (dec_rs2 d)))"
  shows "interp_run cfg hf ds (set_rd (decode.truncate d) v p\<lparr>pc := pc p + of_nat (inst_length (jit_inst d))\<rparr>) = Some q"
  using assms exec_alu [of "decode.truncate d" v p cfg mmu_proxy_ops hf] by (simp split: if_splits)

lemma interp_shift:
  assumes "interp_run cfg hf (d # ds) p = Some q" and "rvi cfg"
    and "(dec_op d, v) \<in> set (shift_results (dec_imm d) (get_reg p (dec_rs1 d)) (get_reg p (dec_rs2 d)))"
  shows "interp_run cfg hf ds (set_rd (decode.truncate d) v p\<lparr>pc := pc p + of_nat (inst_length (jit_inst d))\<rparr>) = Some q"
proof -
  from assms(1) obtain off r where r: "exec_inst_rv64 cfg mmu_proxy_ops hf (decode.truncate d) (of_nat (inst_length (jit_inst d))) p
      = Ret off r" "interp_run cfg hf ds (r\<lparr>pc := pc r + off\<rparr>) = Some q"
    by (auto split: if_splits outcome.splits)
  from exec_shift [OF _ assms(2) r(1), of v] assms(3) r(2) show ?thesis by simp
qed

lemma interp_at: "interp_run cfg hf (d # ds) p = Some q \<Longrightarrow> jit_pc d = pc p"
  by (simp split: if_splits)

lemma set_rd_same: "(dec_rd dec \<noteq> 0 \<Longrightarrow> v = w) \<Longrightarrow> set_rd dec v p = set_rd dec w p"
  by (cases "dec_rd dec = 0") (simp_all add: set_rd_def)

text \<open>Two instructions with the same destination, the second reading what the first wrote.\<close>

lemma chained_results:
  fixes p :: "('x::len, 'm, 'z) processor_scheme"
  assumes "regs_ok p" and "dec_rd d < 32" and "dec_rd d = dec_rd d'"
    and "q = set_rd (decode.truncate d') (f (get_reg (set_rd (decode.truncate d) v p\<lparr>pc := a\<rparr>) (dec_rd d)))
      (set_rd (decode.truncate d) v p\<lparr>pc := a\<rparr>)\<lparr>pc := b\<rparr>"
  shows "q = set_rd (decode.truncate d) (f v) p\<lparr>pc := b\<rparr>"
proof -
  have "get_reg (set_rd (decode.truncate d) v p\<lparr>pc := a\<rparr>) (dec_rd d) = (if dec_rd d \<noteq> 0 then v else get_reg p 0)"
    using get_reg_set_rd [of p "decode.truncate d" v] assms(1,2) by (simp add: get_reg_def)
  then have "set_rd (decode.truncate d') (f (get_reg (set_rd (decode.truncate d) v p\<lparr>pc := a\<rparr>) (dec_rd d))) x =
      set_rd (decode.truncate d') (f v) x" for x :: "('x, 'm, 'z) processor_scheme"
    using assms(3) by (intro set_rd_same) simp
  then show ?thesis unfolding assms(4) using assms(3) by (simp add: set_rd_def)
qed

lemma interp_la:
  assumes "interp_run cfg hf [d, d'] p = Some q" and "rvi cfg" and "regs_ok p" and "dec_rd d < 32"
    and "dec_op d = rv_op_auipc" and "completes_la d d'"
  shows "q = set_rd (decode.truncate d) (pc p + scast (dec_imm d) + scast (dec_imm d')) p
    \<lparr>pc := pc p + of_nat (inst_length (jit_inst d)) + of_nat (inst_length (jit_inst d'))\<rparr>"
proof (rule chained_results [OF assms(3,4), where f = "\<lambda>x. x + scast (dec_imm d')"])
  let ?v = "pc p + scast (dec_imm d)"
  let ?p = "set_rd (decode.truncate d) ?v p\<lparr>pc := pc p + of_nat (inst_length (jit_inst d))\<rparr>"
  have "interp_run cfg hf [d'] ?p = Some q"
    by (rule interp_alu [OF assms(1,2)]) (simp add: alu_results_def assms(5))
  from interp_alu [OF this assms(2), of "get_reg ?p (dec_rd d) + scast (dec_imm d')"]
  show "q = set_rd (decode.truncate d') (get_reg ?p (dec_rd d) + scast (dec_imm d')) ?p
      \<lparr>pc := pc p + of_nat (inst_length (jit_inst d)) + of_nat (inst_length (jit_inst d'))\<rparr>"
    using assms(6) by (auto simp: alu_results_def completes_la_def)
qed (use assms(6) in \<open>simp add: completes_la_def\<close>)

lemma interp_zextw:
  assumes "interp_run cfg hf [d, d'] p = Some q" and "rvi cfg" and "regs_ok p" and "dec_rd d < 32"
    and "dec_op d = rv_op_slli" and "dec_imm d = 32" and "same_shift rv_op_srli d d'"
  shows "q = set_rd (decode.truncate d) (take_bit 32 (get_reg p (dec_rs1 d))) p
    \<lparr>pc := pc p + of_nat (inst_length (jit_inst d)) + of_nat (inst_length (jit_inst d'))\<rparr>"
  unfolding slli_srli [symmetric]
proof (rule chained_results [OF assms(3,4), where f = "drop_bit 32"])
  let ?p = "set_rd (decode.truncate d) (push_bit 32 (get_reg p (dec_rs1 d))) p\<lparr>pc := pc p + of_nat (inst_length (jit_inst d))\<rparr>"
  have "interp_run cfg hf [d'] ?p = Some q"
    by (rule interp_shift [OF assms(1,2)]) (simp add: shift_results_def assms(5,6))
  from interp_shift [OF this assms(2), of "drop_bit 32 (get_reg ?p (dec_rd d))"]
  show "q = set_rd (decode.truncate d') (drop_bit 32 (get_reg ?p (dec_rd d))) ?p
      \<lparr>pc := pc p + of_nat (inst_length (jit_inst d)) + of_nat (inst_length (jit_inst d'))\<rparr>"
    using assms(7) by (auto simp: shift_results_def same_shift_def)
qed (use assms(7) in \<open>simp add: same_shift_def\<close>)

lemma interp_addiwz:
  assumes "interp_run cfg hf [d, d', d''] p = Some q" and "rvi cfg" and "regs_ok p" and "dec_rd d < 32"
    and "dec_op d = rv_op_addiw" and "dec_rd d = dec_rs1 d" and "same_shift rv_op_slli d d'" and "same_shift rv_op_srli d d''"
  shows "q = set_rd (decode.truncate d) (ucast (low32 (get_reg p (dec_rs1 d)) + dec_imm d)) p
    \<lparr>pc := pc p + of_nat (inst_length (jit_inst d)) + of_nat (inst_length (jit_inst d')) + of_nat (inst_length (jit_inst d''))\<rparr>"
proof -
  let ?v = "low32 (get_reg p (dec_rs1 d)) + dec_imm d"
  let ?p = "set_rd (decode.truncate d) (scast ?v) p\<lparr>pc := pc p + of_nat (inst_length (jit_inst d))\<rparr>"
  have run: "interp_run cfg hf [d', d''] ?p = Some q"
    by (rule interp_alu [OF assms(1,2)]) (simp add: alu_results_def assms(5))
  have "regs_ok ?p" using set_rd_regs_ok [OF assms(3), of "decode.truncate d" "scast ?v"] by (simp add: regs_ok_def)
  then have "q = set_rd (decode.truncate d') (take_bit 32 (get_reg ?p (dec_rs1 d'))) ?p
      \<lparr>pc := pc ?p + of_nat (inst_length (jit_inst d')) + of_nat (inst_length (jit_inst d''))\<rparr>"
    using assms(4,7,8) by (intro interp_zextw [OF run assms(2)]) (auto simp: same_shift_def)
  then show ?thesis
    unfolding low_scast [symmetric]
    using assms(7)
    by (intro chained_results [OF assms(3,4), where d' = d' and f = "take_bit 32" and a = "pc p + of_nat (inst_length (jit_inst d))"])
      (auto simp: same_shift_def)
qed

text \<open>
  When the fused instruction stands for the sequence: the instruction that opens the idiom of \<^verbatim>\<open>zext.w\<close> is a shift into
  a register other than \<^verbatim>\<open>x0\<close>, the sum of the offsets of \<^verbatim>\<open>la\<close> fits 32 bits, the instructions have their usual lengths,
  and the emitter has instructions of the host for the registers (\<^verbatim>\<open>movzx\<close> from 32 bits is none).
\<close>

definition fusion_ok :: "jit_decode list \<Rightarrow> bool" where
  "fusion_ok ds \<longleftrightarrow> (\<forall>d \<in> set ds. regs_in_range d \<and> inst_length (jit_inst d) \<le> 4) \<and>
    (if dec_op (hd ds) = rv_op_auipc then
       completes_la (hd ds) (ds ! 1) \<and> inst_length (jit_inst (hd ds)) = 4 \<and>
       - (2 ^ 31) \<le> sint (dec_imm (hd ds)) + sint (dec_imm (ds ! 1)) \<and> sint (dec_imm (hd ds)) + sint (dec_imm (ds ! 1)) < 2 ^ 31
     else if dec_op (hd ds) = rv_op_addiw then dec_rd (hd ds) = dec_rs1 (hd ds) \<and> \<not> 0 < x86_reg (dec_rd (hd ds))
     else dec_rd (hd ds) \<noteq> 0 \<and> zextw_encodes (dec_rd (hd ds)) (dec_rs1 (hd ds)))"

lemma fuse_nonempty [simp]: "fuse ds = [] \<longleftrightarrow> ds = []"
  by (induction ds rule: fuse.induct)
    (auto simp: fuse_auipc_def fuse_zextw_def fuse_addiwz_def split: list.split)

lemma fused_idioms:
  assumes "fuse ds = [g]" and "1 < length ds" and "fusion_ok ds"
  obtains (la) d d' where "ds = [d, d']" "dec_op d = rv_op_auipc" "completes_la d d'" "g = fold_la d d' jit_op_la"
    | (zextw) d d' where "ds = [d, d']" "dec_op d = rv_op_slli" "dec_imm d = 32" "dec_rd d \<noteq> 0" "same_shift rv_op_srli d d'" "g = fold_zextw d d'"
        "zextw_encodes (dec_rd d) (dec_rs1 d)"
    | (addiwz) d d' d'' where "ds = [d, d', d'']" "dec_op d = rv_op_addiw" "dec_rd d = dec_rs1 d" "same_shift rv_op_slli d d'"
        "same_shift rv_op_srli d d''" "g = fold_addiwz d d' d''" "\<not> 0 < x86_reg (dec_rd d)"
proof -
  obtain d d' es where ds: "ds = d # d' # es" using assms(2) by (cases ds rule: fuse.cases) auto
  consider "dec_op d = rv_op_auipc" | "dec_op d = rv_op_addiw" | "dec_op d \<noteq> rv_op_auipc" "dec_op d \<noteq> rv_op_addiw" by blast
  then show thesis
  proof cases
    case 1
    then show thesis using assms la by (auto simp: ds fusion_ok_def fuse_auipc_def)
  next
    case 2
    then show thesis using assms addiwz by (auto simp: ds fusion_ok_def fuse_addiwz_def split: if_splits list.splits)
  next
    case 3
    then show thesis using assms zextw by (auto simp: ds fusion_ok_def fuse_zextw_def opens_zextw_def split: if_splits)
  qed
qed

lemma la_offset:
  fixes i j :: "32 word"
  assumes "- (2 ^ 31) \<le> sint i + sint j" and "sint i + sint j < 2 ^ 31"
  shows "scast (ucast (scast i + scast j :: u64) :: 32 word) = (scast i + scast j :: u64)"
proof -
  have sum: "(scast i + scast j :: u64) = word_of_int (sint i + sint j)" by simp
  have low: "(ucast (word_of_int k :: u64) :: 32 word) = word_of_int k" for k
    by (simp add: unsigned_of_int word_of_int_eq_iff)
  show ?thesis
    unfolding sum low signed_of_int using signed_take_bit_int_eq_self [of 31 "sint i + sint j"] assms by (simp del: of_int_add)
qed

lemma emit_fused:
  assumes "jit_emit lookup regs g e = (True, e')" and "jit_straight g = Some code" and "computes code (dec_rd g) v s"
    and "jit_rel p s" and "dec_rd g < 32" and "je_term_pc e' = pc q" and "q = set_rd (decode.truncate g) v p\<lparr>pc := a\<rparr>"
  shows "\<exists>c t. je_code e' = je_code e @ c \<and> run_x86 c s = Some (None, t) \<and> jit_rel q t \<and> arrives lookup e' None (pc q)"
proof -
  obtain t where t: "run_x86 code s = Some (None, t)" "jit_rel (set_rd (decode.truncate g) v p) t"
    using jit_rel_computes [OF assms(4,3,5)] by blast
  have "je_code e' = je_code e @ Bind (Trace (jit_pc g)) # code"
    using assms(1,2) by (auto simp: jit_emit_def Let_def add_code_def split: if_splits)
  then show ?thesis using t assms(6,7) by (intro exI [of _ "Bind (Trace (jit_pc g)) # code"] exI [of _ t]) (simp add: arrives_def)
qed

text \<open>The emitter keeps the length of a fused instruction in four bits.\<close>

lemma lengths_fit:
  assumes "n \<le> 12"
  shows "(ucast (of_nat n :: 4 word) :: u64) = of_nat n"
  using assms by (simp add: unsigned_of_nat take_bit_nat_eq_self)

lemma fused_term:
  assumes "jit_emit lookup regs g e = (True, e')" and "jit_straight g = Some code"
  shows "je_term_pc e' = (if dec_op g = jit_op_la then jit_pc g + of_nat (inst_length (jit_inst g)) + 4
    else if dec_op g = jit_op_zextw \<or> dec_op g = jit_op_addiwz then jit_pc g + ucast (jit_sz g)
    else jit_pc g + of_nat (inst_length (jit_inst g)))"
  using assms by (auto simp: jit_emit_def Let_def add_code_def split: if_splits)

lemma fused_simulates:
  fixes p :: "(64, host_memory, 'z) processor_scheme"
  assumes fused: "fuse ds = [g]" "1 < length ds" "fusion_ok ds" and rvi: "rvi cfg"
    and emit: "jit_emit lookup regs g e = (True, e')" and rel: "jit_rel p s" and run: "interp_run cfg hf ds p = Some q"
  shows "\<exists>c t. je_code e' = je_code e @ c \<and> run_x86 c s = Some (None, t) \<and> jit_rel q t \<and> arrives lookup e' None (pc q)"
  using fused
proof (cases rule: fused_idioms)
  case (la d d')
  have r: "dec_rd d < 32" "regs_ok p" "slots s 0 = 0" "jit_pc d = pc p"
    using fused(3) rel interp_at run la(1) by (auto simp: fusion_ok_def regs_in_range_def jit_rel_def)
  have g: "dec_op g = jit_op_la" "dec_rd g = dec_rd d" "jit_pc g = pc p" "jit_inst g = jit_inst d'"
    "scast (dec_imm g) = (scast (dec_imm d) + scast (dec_imm d') :: u64)"
    using la(2-4) r(4) fused(3) la_offset by (auto simp: fold_la_def completes_la_def fusion_ok_def la(1))
  have code: "jit_straight g = Some (jit_la g)" using g(1) by (simp add: jit_emitted)
  have q: "q = set_rd (decode.truncate g) (pc p + scast (dec_imm g)) p
      \<lparr>pc := pc p + of_nat (inst_length (jit_inst d)) + of_nat (inst_length (jit_inst d'))\<rparr>"
    using interp_la [OF run [unfolded la(1)] rvi r(2,1) la(2,3)] g(2,5)
    by (simp add: set_rd_def add.assoc)
  show ?thesis
    using emit_fused [OF emit code _ rel _ _ q] jit_la_computes [OF r(3), of g] fused_term [OF emit code] g r(1) la(2) fused(3)
    by (simp add: q fusion_ok_def la(1))
next
  case (zextw d d')
  have r: "dec_rd d < 32" "regs_ok p" "slots s 0 = 0" "jit_pc d = pc p" "dec_rs1 d < 32"
    using fused(3) rel interp_at run zextw(1) by (auto simp: fusion_ok_def regs_in_range_def jit_rel_def)
  have g: "dec_op g = jit_op_zextw" "dec_rd g = dec_rd d" "dec_rs1 g = dec_rs1 d" "jit_pc g = pc p"
    "jit_sz g = of_nat (inst_length (jit_inst d) + inst_length (jit_inst d'))"
    using zextw(6) r(4) by (simp_all add: fold_zextw_def)
  have code: "jit_straight g = Some (jit_zextw g)" using g(1) by (simp add: jit_emitted)
  have q: "q = set_rd (decode.truncate g) (take_bit 32 (reg_val s (dec_rs1 g))) p
      \<lparr>pc := pc p + of_nat (inst_length (jit_inst d)) + of_nat (inst_length (jit_inst d'))\<rparr>"
    using interp_zextw [OF run [unfolded zextw(1)] rvi r(2,1) zextw(2,3,5)] g(2,3) rel r(5)
    by (simp add: jit_rel_def set_rd_def)
  have "inst_length (jit_inst d) + inst_length (jit_inst d') \<le> 12" using fused(3) by (simp add: fusion_ok_def zextw(1))
  from emit_fused [OF emit code _ rel _ _ q] jit_zextw_computes [OF r(3), of g] fused_term [OF emit code] lengths_fit [OF this]
  show ?thesis using g r(1) zextw(4,7) by (simp add: q add.assoc jit_op_la_def jit_op_zextw_def)
next
  case (addiwz d d' d'')
  have r: "dec_rd d < 32" "regs_ok p" "slots s 0 = 0" "jit_pc d = pc p" "dec_rs1 d < 32"
    using fused(3) rel interp_at run addiwz(1) by (auto simp: fusion_ok_def regs_in_range_def jit_rel_def)
  have g: "dec_op g = jit_op_addiwz" "dec_rd g = dec_rd d" "jit_pc g = pc p" "dec_imm g = dec_imm d"
    "jit_sz g = of_nat (inst_length (jit_inst d) + inst_length (jit_inst d') + inst_length (jit_inst d''))"
    using addiwz(6) r(4) by (simp_all add: fold_addiwz_def)
  have code: "jit_straight g = Some (jit_addiwz g)" using g(1) by (simp add: jit_emitted)
  have q: "q = set_rd (decode.truncate g) (ucast (low32 (reg_val s (dec_rd g)) + dec_imm g)) p
      \<lparr>pc := pc p + of_nat (inst_length (jit_inst d)) + of_nat (inst_length (jit_inst d')) + of_nat (inst_length (jit_inst d''))\<rparr>"
    using interp_addiwz [OF run [unfolded addiwz(1)] rvi r(2,1) addiwz(2-5)] g(2,4) rel r(5) addiwz(3)
    by (simp add: jit_rel_def set_rd_def)
  have "inst_length (jit_inst d) + inst_length (jit_inst d') + inst_length (jit_inst d'') \<le> 12"
    using fused(3) by (simp add: fusion_ok_def addiwz(1))
  from emit_fused [OF emit code _ rel _ _ q] jit_addiwz_computes [OF r(3), of g] fused_term [OF emit code] lengths_fit [OF this]
  show ?thesis using g r(1) addiwz(7) by (simp add: q add.assoc jit_op_la_def jit_op_zextw_def jit_op_addiwz_def)
qed

end
