(* ===== verification/Rv_Jit_Compile.thy ===== *)
theory Rv_Jit_Compile
  imports Rv_Fusion_Laws
begin

text \<open>
  The compiler as \<^verbatim>\<open>jit_trace\<close> runs it, the fusion of instructions in front of the emitter: the code of a whole
  trace against a run of the interpreter.
\<close>

section \<open>A trace\<close>

text \<open>Emitting a list of instructions, \<open>None\<close> when the emitter refuses one.\<close>

fun emit_trace :: "(u64 \<Rightarrow> u64) \<Rightarrow> (jit_decode \<Rightarrow> u64 list) \<Rightarrow> jit_decode list \<Rightarrow> jit_emitter \<Rightarrow> jit_emitter option" where
  "emit_trace lookup R [] e = Some e"
| "emit_trace lookup R (d # ds) e =
    (case jit_emit lookup (R d) d e of (ok, e') \<Rightarrow> if ok then emit_trace lookup R ds e' else None)"

lemma emit_trace_all: "emit_trace lookup R ds e = Some e' \<Longrightarrow> emit_all lookup R ds e = e'"
  by (induction ds arbitrary: e) (auto split: prod.splits if_splits)

text \<open>Each instruction is the one at the address where the code before it falls through.\<close>

fun linked :: "(u64 \<Rightarrow> u64) \<Rightarrow> (jit_decode \<Rightarrow> u64 list) \<Rightarrow> u64 \<Rightarrow> jit_decode list \<Rightarrow> jit_emitter \<Rightarrow> bool" where
  "linked lookup R at [] e \<longleftrightarrow> True"
| "linked lookup R at (d # ds) e \<longleftrightarrow> jit_pc d = at \<and>
    (let e' = snd (jit_emit lookup (R d) d e) in linked lookup R (je_term_pc e') ds e')"

text \<open>
  An emitted instruction stands for one instruction, and its code is right in the state \<open>p\<close>, or for an idiom.
\<close>

definition group_ok :: "jit_decode \<times> jit_decode list \<Rightarrow> (64, host_memory, 'z) processor_scheme \<Rightarrow> bool" where
  "group_ok = (\<lambda>(g, b) p. if b = [g] then supported g \<and> jit_ok g (get_reg p (dec_rs2 g)) else 1 < length b \<and> fuse b = [g] \<and> fusion_ok b)"

text \<open>The interpreter executes each group it reaches on the trace, and the code of the group is right in that state.\<close>

fun trace_ok :: "isa \<Rightarrow> host_fp \<Rightarrow> (jit_decode \<times> jit_decode list) list \<Rightarrow> (64, host_memory, 'z) processor_scheme \<Rightarrow> bool" where
  "trace_ok cfg hf [] p \<longleftrightarrow> True"
| "trace_ok cfg hf ((g, b) # gs) p \<longleftrightarrow>
    (pc p = jit_pc g \<longrightarrow> group_ok (g, b) p \<and> (case interp_run cfg hf b p of Some q \<Rightarrow> trace_ok cfg hf gs q | None \<Rightarrow> False))"

text \<open>What the emitter can be given: an instruction it supports, or one that has code of its own.\<close>

definition emittable :: "jit_decode \<Rightarrow> bool" where
  "emittable d \<longleftrightarrow> supported d \<or> jit_straight d \<noteq> None"

lemma emit_code:
  assumes "jit_emit lookup regs d e = (True, e')" and "emittable d"
  shows "\<exists>c. je_code e' = je_code e @ c \<and> binds_within c {jit_pc d} \<and> je_labels e' = je_labels e @ [jit_pc d] \<and>
    set (je_jmp_tramps e) \<subseteq> set (je_jmp_tramps e')"
proof (cases "supported d")
  case False
  then obtain code where "jit_straight d = Some code" using assms(2) by (auto simp: emittable_def)
  then show ?thesis
    using assms(1) straight_binds [of d code "{jit_pc d}"]
    by (intro exI [of _ "Bind (Trace (jit_pc d)) # code"]) (auto simp: jit_emit_def Let_def add_code_def split: if_splits)
qed (rule jit_emit_code [OF assms(1)])

lemma group_simulates:
  fixes p :: "(64, host_memory, 'z) processor_scheme"
  assumes emit: "jit_emit lookup regs g e = (True, e')" and ok: "group_ok (g, b) p"
    and cfg: "rvi cfg" "rvm cfg" and rel: "jit_rel p s" and run: "interp_run cfg hf b p = Some q"
  shows "\<exists>c l t. je_code e' = je_code e @ c \<and> run_x86 c s = Some (l, t) \<and> jit_rel q t \<and> arrives lookup e' l (pc q)"
proof (cases "b = [g]")
  case True
  with run obtain off r where r: "pc p = jit_pc g" "q = r\<lparr>pc := pc r + off\<rparr>"
    "exec_inst_rv64 cfg mmu_proxy_ops hf (decode.truncate g) (of_nat (inst_length (jit_inst g))) p = Ret off r"
    by (auto split: if_splits outcome.splits)
  from jit_emit_simulates [OF emit _ cfg rel r(1) _ r(3)] ok True show ?thesis by (auto simp: group_ok_def r(2))
next
  case False
  then have "fuse b = [g]" "1 < length b" "fusion_ok b" using ok by (auto simp: group_ok_def)
  from fused_simulates [OF this cfg(1) emit rel run] show ?thesis by blast
qed

lemma emit_trace_code:
  assumes "emit_trace lookup R ds e = Some e'" and "list_all emittable ds"
  shows "\<exists>c A. je_code e' = je_code e @ c \<and> binds_within c A \<and> A \<inter> set (je_labels e) = {} \<and>
    set (je_labels e) \<subseteq> set (je_labels e') \<and> set (je_jmp_tramps e) \<subseteq> set (je_jmp_tramps e')"
  using assms
proof (induction ds arbitrary: e)
  case (Cons d ds)
  from Cons.prems(1) obtain e1 where e1: "jit_emit lookup (R d) d e = (True, e1)" "emit_trace lookup R ds e1 = Some e'"
    by (auto split: prod.splits if_splits)
  obtain c1 where c1: "je_code e1 = je_code e @ c1" "binds_within c1 {jit_pc d}" "je_labels e1 = je_labels e @ [jit_pc d]"
    "set (je_jmp_tramps e) \<subseteq> set (je_jmp_tramps e1)"
    using emit_code [OF e1(1)] Cons.prems(2) by auto
  obtain c2 A where c2: "je_code e' = je_code e1 @ c2" "binds_within c2 A" "A \<inter> set (je_labels e1) = {}"
    "set (je_labels e1) \<subseteq> set (je_labels e')" "set (je_jmp_tramps e1) \<subseteq> set (je_jmp_tramps e')"
    using Cons.IH [OF e1(2)] Cons.prems(2) by auto
  have "binds_within (c1 @ c2) (insert (jit_pc d) A)"
    using binds_within_mono [OF c1(2), of "insert (jit_pc d) A"] binds_within_mono [OF c2(2), of "insert (jit_pc d) A"] by auto
  then show ?case
    using c1 c2 jit_emit_fresh [OF e1(1)] by (intro exI [of _ "c1 @ c2"] exI [of _ "insert (jit_pc d) A"]) auto
qed (auto intro: exI [of _ "{}"])

lemma exit_unbound:
  assumes "arrives lookup e (Some l) next" and "binds_within c A" and "A \<inter> set (je_labels e) = {}"
  shows "after l c = None"
  using assms by (intro after_unbound) (auto simp: arrives_def leads_to_def binds_within_def)

lemma arrives_mono:
  assumes "arrives lookup e (Some l) next" and "set (je_labels e) \<subseteq> set (je_labels e')"
    and "set (je_jmp_tramps e) \<subseteq> set (je_jmp_tramps e')"
  shows "arrives lookup e' (Some l) next"
  using assms unfolding arrives_def by auto

lemma interp_run_append:
  "interp_run cfg hf (xs @ ys) p = (case interp_run cfg hf xs p of None \<Rightarrow> None | Some q \<Rightarrow> interp_run cfg hf ys q)"
  by (induction xs arbitrary: p) (auto split: outcome.split)

text \<open>
  The code of the instructions follows the interpreter along the trace and leaves it where the interpreter does.
\<close>

lemma emit_trace_simulates:
  fixes p :: "(64, host_memory, 'z) processor_scheme"
  assumes "emit_trace lookup R (map fst gs) e = Some e'" and "linked lookup R (pc p) (map fst gs) e"
    and "rvi cfg" "rvm cfg" "list_all emittable (map fst gs)" and "trace_ok cfg hf gs p" and "jit_rel p s"
  shows "\<exists>c k q l t. je_code e' = je_code e @ c \<and> k \<le> length gs \<and> (gs \<noteq> [] \<longrightarrow> 0 < k) \<and> (l = None \<longrightarrow> k = length gs) \<and>
    interp_run cfg hf (concat (map snd (take k gs))) p = Some q \<and>
    run_x86 c s = Some (l, t) \<and> jit_rel q t \<and> (gs \<noteq> [] \<longrightarrow> arrives lookup e' l (pc q))"
  using assms
proof (induction gs arbitrary: e p s)
  case Nil
  then show ?case by (auto intro!: exI [of _ None])
next
  case (Cons x gs)
  obtain g b where x: "x = (g, b)" by (cases x)
  from Cons.prems(1) obtain e1 where e1: "jit_emit lookup (R g) g e = (True, e1)" "emit_trace lookup R (map fst gs) e1 = Some e'"
    by (auto simp: x split: prod.splits if_splits)
  have pc: "pc p = jit_pc g" using Cons.prems(2) by (simp add: x)
  from Cons.prems(6) pc obtain r where r: "interp_run cfg hf b p = Some r" and ok: "group_ok (g, b) p" "trace_ok cfg hf gs r"
    by (auto simp: x split: option.splits)
  obtain c1 l1 t1 where c1: "je_code e1 = je_code e @ c1" "run_x86 c1 s = Some (l1, t1)" "jit_rel r t1" "arrives lookup e1 l1 (pc r)"
    using group_simulates [OF e1(1) ok(1) Cons.prems(3,4,7) r] by auto
  obtain c2 A where c2: "je_code e' = je_code e1 @ c2" "binds_within c2 A" "A \<inter> set (je_labels e1) = {}"
    "set (je_labels e1) \<subseteq> set (je_labels e')" "set (je_jmp_tramps e1) \<subseteq> set (je_jmp_tramps e')"
    using emit_trace_code [OF e1(2)] Cons.prems(5) by auto
  show ?case
  proof (cases l1)
    case (Some l)
    then have "run_x86 (c1 @ c2) s = Some (Some l, t1)"
      using run_x86_exit [of c1 s l t1 c2] c1(2,4) exit_unbound [OF _ c2(2,3)] by simp
    moreover have "arrives lookup e' (Some l) (pc r)" using arrives_mono c1(4) c2(4,5) Some by blast
    ultimately show ?thesis
      using c1 c2 r by (intro exI [of _ "c1 @ c2"] exI [of _ "Suc 0"] exI [of _ r] exI [of _ "Some l"] exI [of _ t1]) (simp add: x)
  next
    case None
    then have "je_term_pc e1 = pc r" using c1(4) by (simp add: arrives_def)
    then have lk: "linked lookup R (pc r) (map fst gs) e1" "list_all emittable (map fst gs)"
      using Cons.prems(2,5) e1(1) by (auto simp: x Let_def)
    obtain c3 k q l t where c3: "je_code e' = je_code e1 @ c3" "k \<le> length gs" "l = None \<longrightarrow> k = length gs"
      "interp_run cfg hf (concat (map snd (take k gs))) r = Some q" "run_x86 c3 t1 = Some (l, t)" "jit_rel q t"
      "gs \<noteq> [] \<longrightarrow> arrives lookup e' l (pc q)"
      using Cons.IH [OF e1(2) lk(1) Cons.prems(3,4) lk(2) ok(2) c1(3)] by blast
    have "arrives lookup e' l (pc q)"
    proof (cases "gs = []")
      case True
      then show ?thesis using c3 c1(4) None e1(2) c2(1) by simp
    qed (use c3 in simp)
    then show ?thesis
      using c1 c3 r None run_x86_append [of c1 s t1 c3]
      by (intro exI [of _ "c1 @ c3"] exI [of _ "Suc k"] exI [of _ q] exI [of _ l] exI [of _ t]) (simp add: x interp_run_append)
  qed
qed

section \<open>The compiled function\<close>

text \<open>\<^verbatim>\<open>emit_prolog\<close>, \<^verbatim>\<open>begin\<close>, the instructions, \<^verbatim>\<open>end\<close> and \<^verbatim>\<open>emit_epilog\<close>, as \<^verbatim>\<open>jit_trace\<close> calls them.\<close>

definition jit_function :: "jit_emitter \<Rightarrow> x86_inst list" where
  "jit_function e = emit_prolog @ je_code (emit_end e) @ emit_epilog (emit_end e)"

text \<open>Outside compiled code the registers are in the processor structure.\<close>

definition stored :: "(64, host_memory, 'z) processor_scheme \<Rightarrow> x86 \<Rightarrow> bool" where
  "stored p s \<longleftrightarrow> regs_ok p \<and> guest s = mmu p \<and> (\<forall>r < 32. slots s (unat r) = get_reg p r)"

lemma prolog_loads:
  assumes "stored p s"
  shows "\<exists>t. run_x86 emit_prolog s = Some (None, t) \<and> jit_rel p t"
proof -
  obtain t where t: "run_x86 emit_prolog s = Some (None, t)" "slots t = slots s" "guest t = guest s"
    "gpr t = (gpr s)(2 := slots s 1, 3 := slots s 2, 6 := slots s 5, 7 := slots s 6, 8 := slots s 10, 9 := slots s 11,
       10 := slots s 12, 11 := slots s 13, 12 := slots s 14, 13 := slots s 15, 14 := slots s 16, 15 := slots s 17)"
    by (simp add: emit_prolog_def mapped_regs_def x86_reg_def ok_simps)
  have "reg_val t r = slots s (unat r)" for r
    unfolding reg_val_def t(2,4) x86_reg_def by simp
  then show ?thesis
    using t(1-3) assms get_reg_zero [of p] by (auto simp: jit_rel_def stored_def intro!: exI [of _ t] dest: spec [of _ 0])
qed

lemma epilog_stores:
  assumes "jit_rel q t"
  shows "\<exists>u. run_x86 (map (\<lambda>r. Mov (Slot Q (unat r)) (Reg Q (nat (x86_reg r)))) mapped_regs) t = Some (None, u) \<and>
    stored q u \<and> pc_slot u = pc_slot t"
proof -
  obtain u where u: "run_x86 (map (\<lambda>r. Mov (Slot Q (unat r)) (Reg Q (nat (x86_reg r)))) mapped_regs) t = Some (None, u)"
    "guest u = guest t" "pc_slot u = pc_slot t"
    "slots u = (slots t)(1 := gpr t 2, 2 := gpr t 3, 5 := gpr t 6, 6 := gpr t 7, 10 := gpr t 8, 11 := gpr t 9,
       12 := gpr t 10, 13 := gpr t 11, 14 := gpr t 12, 15 := gpr t 13, 16 := gpr t 14, 17 := gpr t 15)"
    by (simp add: mapped_regs_def x86_reg_def ok_simps)
  have "slots u (unat r) = reg_val t r" for r
    unfolding reg_val_def u(4) x86_reg_def by (simp add: word_unat_eq_iff)
  then show ?thesis using u(1-3) assms by (auto simp: jit_rel_def stored_def)
qed

text \<open>\<^verbatim>\<open>emit_pc\<close> stores an address with a sign-extended 32-bit immediate when it is below \<open>2 ^ 32 - 1\<close>.\<close>

definition pc_fits :: "u64 \<Rightarrow> bool" where
  "pc_fits x \<longleftrightarrow> x < 0x80000000 \<or> 0xffffffff \<le> x"

lemma emit_pc_stores:
  assumes "pc_fits x"
  shows "\<exists>u. run_x86 (jit_emit_pc x) t = Some (None, u) \<and> pc_slot u = x \<and> (jit_rel q t \<longrightarrow> jit_rel q u)"
proof (cases "x < 0xffffffff")
  case True
  then have small: "x < 0x80000000" using assms by (auto simp: pc_fits_def)
  then have u: "0 \<le> uint x" "uint x < 0x80000000" by (simp_all add: word_less_def)
  moreover have "(0x80000000 :: int) < 2 ^ 63" by simp
  ultimately have "signed_take_bit 63 (uint x) = uint x" by (intro signed_take_bit_int_eq_self) linarith+
  then have "sint x = uint x" by (simp add: sint_uint)
  then have "fits Q x" unfolding fits_def using u by (simp, linarith)
  then show ?thesis
    using True by (auto simp: jit_emit_pc_def mov_ok_def operands_ok_def jit_rel_def reg_val_def)
next
  case False
  then show ?thesis by (auto simp: jit_emit_pc_def mov_ok_def operands_ok_def jit_rel_def reg_val_def)
qed

text \<open>
  Where compiled code may be left: it returns to the caller with the registers stored; it goes to the lookup of a
  trace; it goes back to an instruction of the trace, or to an earlier trace.
\<close>

definition left_at :: "(u64 \<Rightarrow> u64) \<Rightarrow> (64, host_memory, 'z) processor_scheme \<Rightarrow> x86_label \<Rightarrow> x86 \<Rightarrow> bool" where
  "left_at lookup q l t \<longleftrightarrow>
    l = Return \<and> stored q t \<and> (pc q \<noteq> 0 \<longrightarrow> pc_slot t = pc q) \<or>
    l = Lookup \<and> jit_rel q t \<and> pc_slot t = pc q \<or>
    l = Trace (pc q) \<and> jit_rel q t \<or>
    lookup (pc q) \<noteq> 0 \<and> l = Code (lookup (pc q)) \<and> jit_rel q t"

lemma emit_pc_binds [simp]: "Bind l \<notin> set (jit_emit_pc x)"
  by (simp add: jit_emit_pc_def)

lemma after_unbound_append: "Bind l \<notin> set is \<Longrightarrow> after l (is @ js) = after l js"
  by (simp add: after_append_None after_unbound)

lemma after_tramp:
  "x \<in> set xs \<Longrightarrow> \<exists>js. after (Jmp_tramp x) (concat (map (\<lambda>y. Bind (Jmp_tramp y) # jit_emit_pc y @ [Jmp Lookup]) xs) @ ks) =
    Some (jit_emit_pc x @ Jmp Lookup # js @ ks) \<and> Bind Lookup \<notin> set js"
proof (induction xs)
  case (Cons y ys)
  show ?case
  proof (cases "x = y")
    case True
    then show ?thesis by (intro exI [of _ "concat (map (\<lambda>y. Bind (Jmp_tramp y) # jit_emit_pc y @ [Jmp Lookup]) ys)"]) auto
  next
    case False
    then show ?thesis using Cons by (simp add: after_unbound_append)
  qed
qed simp

definition jit_stores :: "x86_inst list" where
  "jit_stores = map (\<lambda>r. Mov (Slot Q (unat r)) (Reg Q (nat (x86_reg r)))) mapped_regs"

lemma emit_end_fields: "je_jmp_tramps (emit_end e) = je_jmp_tramps e" "je_exit_tramps (emit_end e) = je_exit_tramps e"
  "je_code (emit_end e) = je_code e @ (if je_term_pc e \<noteq> 0 then jit_emit_pc (je_term_pc e) else []) @ [Bind Term]"
  by (simp_all add: emit_end_def add_code_def)

lemma function_code:
  "jit_function e = emit_prolog @ je_code e @ (if je_term_pc e \<noteq> 0 then jit_emit_pc (je_term_pc e) else []) @ [Bind Term] @
    jit_stores @ [Jmp Return] @ jump_trampolines e @ exit_trampolines e"
  by (simp add: jit_function_def emit_end_fields emit_epilog_def jit_stores_def jump_trampolines_def exit_trampolines_def)

lemma trampoline_binds:
  "Bind Return \<notin> set (jump_trampolines e @ exit_trampolines e)" "Bind Lookup \<notin> set (exit_trampolines e)"
  "Bind (Trace x) \<notin> set (jump_trampolines e @ exit_trampolines e)" "Bind (Code x) \<notin> set (jump_trampolines e @ exit_trampolines e)"
  "Bind l \<notin> set jit_stores"
  by (auto simp: jump_trampolines_def exit_trampolines_def jit_stores_def)

lemma function_end:
  assumes "arrives lookup e l (pc q)" and "jit_rel q t" and "\<forall>x \<in> insert (je_term_pc e) (set (je_jmp_tramps e)). pc_fits x"
    and "run_x86 (emit_prolog @ je_code e) s = Some (l, t)"
  shows "\<exists>l' t'. run_x86 (jit_function e) s = Some (Some l', t') \<and> left_at lookup q l' t' \<and> (l' = Return \<longrightarrow> l = None)"
proof (cases l)
  case None
  let ?P = "if je_term_pc e \<noteq> 0 then jit_emit_pc (je_term_pc e) else []"
  have at: "je_term_pc e = pc q" using assms(1) None by (simp add: arrives_def)
  obtain u where u: "run_x86 ?P t = Some (None, u)" "jit_rel q u" "pc q \<noteq> 0 \<longrightarrow> pc_slot u = pc q"
    using emit_pc_stores [of "je_term_pc e" t q] assms(2,3) at by (cases "pc q = 0") auto
  obtain v where v: "run_x86 jit_stores u = Some (None, v)" "stored q v" "pc_slot v = pc_slot u"
    using epilog_stores [OF u(2)] unfolding jit_stores_def by blast
  have "after Return (jump_trampolines e @ exit_trampolines e) = None" by (rule after_unbound [OF trampoline_binds(1)])
  then have "run_x86 (jit_function e) s = Some (Some Return, v)"
    unfolding function_code using run_x86_append [OF assms(4) [unfolded None]] run_x86_append [OF u(1)] run_x86_append [OF v(1)]
    by simp
  then show ?thesis using v u(3) None by (auto simp: left_at_def)
next
  case (Some m)
  let ?R = "(if je_term_pc e \<noteq> 0 then jit_emit_pc (je_term_pc e) else []) @ [Bind Term] @ jit_stores @ [Jmp Return]"
  have run: "run_x86 (jit_function e) s = (case after m (?R @ jump_trampolines e @ exit_trampolines e) of
      None \<Rightarrow> Some (Some m, t) | Some ks \<Rightarrow> run_x86 ks t)"
    unfolding function_code using run_x86_exit [OF assms(4) [unfolded Some]] by simp
  have R: "after m (?R @ js) = after m js" if "m \<noteq> Term" for js
    using that trampoline_binds(5) by (intro after_unbound_append) simp
  from assms(1) Some consider (tramp) "m = Jmp_tramp (pc q)" "pc q \<in> set (je_jmp_tramps e)" |
    (other) "m = Trace (pc q) \<or> lookup (pc q) \<noteq> 0 \<and> m = Code (lookup (pc q))"
    by (auto simp: arrives_def leads_to_def)
  then show ?thesis
  proof cases
    case tramp
    obtain js where js: "after m (jump_trampolines e @ exit_trampolines e) =
        Some (jit_emit_pc (pc q) @ Jmp Lookup # js @ exit_trampolines e)" "Bind Lookup \<notin> set js"
      using after_tramp [OF tramp(2), of "exit_trampolines e"] unfolding tramp(1) jump_trampolines_def by auto
    obtain u where u: "run_x86 (jit_emit_pc (pc q)) t = Some (None, u)" "pc_slot u = pc q" "jit_rel q u"
      using emit_pc_stores [of "pc q" t q] assms(2,3) tramp(2) by auto
    have "after Lookup (js @ exit_trampolines e) = None" using js(2) trampoline_binds(2) by (intro after_unbound) simp
    then have "run_x86 (jit_function e) s = Some (Some Lookup, u)"
      unfolding run using R js(1) run_x86_append [OF u(1)] tramp(1) by simp
    then show ?thesis using u by (auto simp: left_at_def)
  next
    case other
    then have "after m (jump_trampolines e @ exit_trampolines e) = None"
      using trampoline_binds(3,4) by (auto intro: after_unbound)
    then have "run_x86 (jit_function e) s = Some (Some m, t)" unfolding run using R other by auto
    then show ?thesis using other assms(2) by (auto simp: left_at_def)
  qed
qed

text \<open>The instructions through the fusion state machine, as \<^verbatim>\<open>jit_trace\<close> passes them.\<close>

definition compile :: "(u64 \<Rightarrow> u64) \<Rightarrow> (jit_decode \<Rightarrow> u64 list) \<Rightarrow> jit_decode list \<Rightarrow> x86_inst list" where
  "compile lookup R ds =
    (let (_, e) = fusion_end lookup [] (fuse_all lookup R ds (fusion_init, emit_begin jit_emitter_init))
     in emit_prolog @ je_code e @ emit_epilog e)"

lemma compile_function:
  assumes "emit_trace lookup R (fuse ds) (emit_begin jit_emitter_init) = Some e"
  shows "compile lookup R ds = jit_function e"
proof -
  have "snd (emit_queue lookup [] (fuse_all lookup R ds (fusion_init, emit_begin jit_emitter_init))) = e"
    using fusion_carries_out [of fusion_init lookup "[]" R ds] emit_trace_all [OF assms] by (simp add: idle_def fusion_init_def)
  then show ?thesis by (auto simp: compile_def fusion_end_def jit_function_def split: prod.splits)
qed

lemma groups_nonempty: "(g, b) \<in> set (groups ds) \<Longrightarrow> b \<noteq> []"
  by (induction ds rule: fuse.induct) (auto simp: group_defs split: if_splits list.splits)

text \<open>The first \<open>k\<close> groups are a prefix of the instructions.\<close>

lemma groups_prefix:
  assumes "ds \<noteq> []" and "0 < k" and "k \<le> length (groups ds)"
  obtains n where "concat (map snd (take k (groups ds))) = take n ds" "0 < n" "n \<le> length ds" "k = length (groups ds) \<Longrightarrow> n = length ds"
proof -
  let ?n = "length (concat (map snd (take k (groups ds))))"
  have split: "concat (map snd (take k (groups ds))) @ concat (map snd (drop k (groups ds))) = ds"
    by (metis append_take_drop_id concat_append groups_concat map_append)
  have "groups ds \<noteq> []" using assms(2,3) by auto
  then have "snd (hd (groups ds)) \<noteq> []" using groups_nonempty [of "fst (hd (groups ds))" "snd (hd (groups ds))" ds] by simp
  then have "0 < ?n" using assms(2,3) by (cases "groups ds"; cases k) auto
  show ?thesis
  proof (rule that [of ?n])
    show "concat (map snd (take k (groups ds))) = take ?n ds" by (metis append_eq_conv_conj split)
    show "?n \<le> length ds" by (metis length_append le_add1 split)
    show "?n = length ds" if "k = length (groups ds)" using that by (simp add: groups_concat)
  qed fact
qed

lemma compiled_trace:
  fixes p :: "(64, host_memory, 'z) processor_scheme"
  assumes emit: "emit_trace lookup R (fuse ds) (emit_begin jit_emitter_init) = Some e" "ds \<noteq> []"
    and "linked lookup R (pc p) (fuse ds) (emit_begin jit_emitter_init)"
    and "rvi cfg" "rvm cfg" "list_all emittable (fuse ds)" and "trace_ok cfg hf (groups ds) p"
    and fit: "list_all pc_fits (je_term_pc e # je_jmp_tramps e)"
    and "stored p s"
  shows "\<exists>k q l t. 0 < k \<and> k \<le> length ds \<and> (l = Return \<longrightarrow> k = length ds) \<and>
    interp_run cfg hf (take k ds) p = Some q \<and> run_x86 (compile lookup R ds) s = Some (Some l, t) \<and> left_at lookup q l t"
proof -
  let ?e0 = "emit_begin jit_emitter_init"
  have gs: "map fst (groups ds) = fuse ds" "groups ds \<noteq> []" using emit(2) groups_concat [of ds] by (auto simp: groups_fuse)
  obtain s1 where s1: "run_x86 emit_prolog s = Some (None, s1)" "jit_rel p s1" using prolog_loads [OF assms(9)] by blast
  obtain c k q l t where c: "je_code e = je_code ?e0 @ c" "k \<le> length (groups ds)" "0 < k" "l = None \<longrightarrow> k = length (groups ds)"
    "interp_run cfg hf (concat (map snd (take k (groups ds)))) p = Some q" "run_x86 c s1 = Some (l, t)" "jit_rel q t"
    "arrives lookup e l (pc q)"
    using emit_trace_simulates [of lookup R "groups ds", unfolded gs(1), OF assms(1,3-7) s1(2)] gs(2) by blast
  have "je_code e = Bind Start # c" using c(1) by (simp add: emit_begin_def jit_emitter_init_def add_code_def)
  then have "run_x86 (emit_prolog @ je_code e) s = Some (l, t)" using run_x86_append [OF s1(1)] c(6) by simp
  moreover have "\<forall>x \<in> insert (je_term_pc e) (set (je_jmp_tramps e)). pc_fits x" using fit by (auto simp: list_all_iff)
  ultimately obtain l' t' where "run_x86 (jit_function e) s = Some (Some l', t')" "left_at lookup q l' t'" "l' = Return \<longrightarrow> l = None"
    using function_end [OF c(8,7)] by blast
  then show ?thesis
    using groups_prefix [OF emit(2) c(3,2)] c(4,5) compile_function [OF emit(1)] by metis
qed

end
