(* ===== verification/Rv_Jit_Props.thy ===== *)
theory Rv_Jit_Props
  imports Rv_Jit_Compile
begin

text \<open>Properties of the just-in-time compiler.\<close>

section \<open>States and instructions of the examples\<close>

definition jit_demo :: "u64 \<Rightarrow> opcode \<Rightarrow> u8 \<Rightarrow> u8 \<Rightarrow> u8 \<Rightarrow> s32 \<Rightarrow> jit_decode" where
  "jit_demo at opc rd rs1 rs2 imm =
    decode.extend (decode_init\<lparr>dec_op := opc, dec_rd := rd, dec_rs1 := rs1, dec_rs2 := rs2, dec_imm := imm\<rparr>)
      \<lparr>jit_pc = at, jit_inst = 3, jit_sz = 0\<rparr>"

definition jit_demo_x86 :: x86 where
  "jit_demo_x86 = \<lparr>gpr = (\<lambda>_. 0), slots = (\<lambda>_. 0), pc_slot = 0, cause_slot = 0, eflags = None, guest = (\<lambda>_. 0)\<rparr>"

definition jit_demo_proc :: "(64, host_memory) processor" where
  "jit_demo_proc = (proc_init demo_fenv (\<lambda>_. 0))\<lparr>pc := 0x1000\<rparr>"

lemma jit_demo_fields [simp]:
  "dec_op (jit_demo at opc rd rs1 rs2 imm) = opc" "dec_rd (jit_demo at opc rd rs1 rs2 imm) = rd"
  "dec_rs1 (jit_demo at opc rd rs1 rs2 imm) = rs1" "dec_rs2 (jit_demo at opc rd rs1 rs2 imm) = rs2"
  "dec_imm (jit_demo at opc rd rs1 rs2 imm) = imm" "jit_pc (jit_demo at opc rd rs1 rs2 imm) = at"
  "inst_length (jit_inst (jit_demo at opc rd rs1 rs2 imm)) = 4"
  by (simp_all add: jit_demo_def decode.defs inst_length_def)

lemma jit_demo_regs: "regs_ok jit_demo_proc" "get_reg jit_demo_proc r = (if r < 32 then 0 else get_reg jit_demo_proc r)"
  "pc jit_demo_proc = 0x1000" "mmu jit_demo_proc = (\<lambda>_. 0)"
  by (simp_all add: jit_demo_proc_def regs_ok_def get_reg_def proc_init_def word_less_nat_alt)

lemma jit_demo_stored: "stored jit_demo_proc jit_demo_x86"
  using jit_demo_regs(1,4) by (auto simp: stored_def jit_demo_x86_def jit_demo_regs(2))

text \<open>The loop \<^verbatim>\<open>addi t0, t0, 1; slli t1, s0, 32; srli t1, t1, 32; bne t1, zero, -12\<close>, the shifts an idiom.\<close>

definition jit_demo_loop :: "jit_decode list" where
  "jit_demo_loop = [jit_demo 0x1000 rv_op_addi 5 5 0 1, jit_demo 0x1004 rv_op_slli 6 8 0 32, jit_demo 0x1008 rv_op_srli 6 6 0 32,
     jit_demo 0x100c rv_op_bne 0 6 0 (- 12)]"

lemma jit_demo_groups: "groups jit_demo_loop =
  [(jit_demo 0x1000 rv_op_addi 5 5 0 1, [jit_demo 0x1000 rv_op_addi 5 5 0 1]),
   (fold_zextw (jit_demo 0x1004 rv_op_slli 6 8 0 32) (jit_demo 0x1008 rv_op_srli 6 6 0 32),
     [jit_demo 0x1004 rv_op_slli 6 8 0 32, jit_demo 0x1008 rv_op_srli 6 6 0 32]),
   (jit_demo 0x100c rv_op_bne 0 6 0 (- 12), [jit_demo 0x100c rv_op_bne 0 6 0 (- 12)])]"
  by (simp add: jit_demo_loop_def groups_zextw_def opens_zextw_def same_shift_def)

lemma jit_demo_fuse: "fuse jit_demo_loop =
  [jit_demo 0x1000 rv_op_addi 5 5 0 1,
   fold_zextw (jit_demo 0x1004 rv_op_slli 6 8 0 32) (jit_demo 0x1008 rv_op_srli 6 6 0 32), jit_demo 0x100c rv_op_bne 0 6 0 (- 12)]"
  using groups_fuse [of jit_demo_loop] by (simp add: jit_demo_groups)

lemma fold_zextw_fields [simp]:
  "dec_op (fold_zextw d d') = jit_op_zextw" "dec_rd (fold_zextw d d') = dec_rd d" "dec_rs1 (fold_zextw d d') = dec_rs1 d"
  "jit_pc (fold_zextw d d') = jit_pc d"
  "jit_sz (fold_zextw d d') = of_nat (inst_length (jit_inst d) + inst_length (jit_inst d'))"
  by (simp_all add: fold_zextw_def)

lemmas jit_demo_emit = jit_emit_def emit_begin_def jit_emitter_init_def jit_straight_def jit_table_def add_code_def Let_def
  jit_op_la_def jit_op_zextw_def jit_op_addiwz_def jit_op_call_def emit_branch_op_def branch_flags_def branch_cond_def
  emit_branch_def fixup_defs

lemma jit_demo_emits: "\<exists>e. emit_trace (\<lambda>_. 0) (\<lambda>_. (replicate 32 1)[0 := 0]) (fuse jit_demo_loop) (emit_begin jit_emitter_init) = Some e \<and>
  je_term_pc e = 0 \<and> je_jmp_tramps e = [0x1010]"
  by (simp add: jit_demo_fuse jit_demo_emit)

lemma jit_demo_linked: "linked (\<lambda>_. 0) (\<lambda>_. (replicate 32 1)[0 := 0]) 0x1000 (fuse jit_demo_loop) (emit_begin jit_emitter_init)"
  by (simp add: jit_demo_fuse jit_demo_emit)

lemmas jit_demo_exec = exec_groups isa_all_def guard_shift_def jit_demo_proc_def proc_init_def get_reg_def set_rd_def
  supported_def regs_in_range_def jit_ok_def fusion_ok_def zextw_encodes_def

lemma jit_demo_trace_ok: "trace_ok (isa_all False True False) demo_hf (groups jit_demo_loop) jit_demo_proc"
  by (simp add: jit_demo_groups group_ok_def jit_demo_exec x86_reg_def fuse_zextw_def opens_zextw_def same_shift_def)

section \<open>The compiler\<close>

text \<open>
  C16.  Compiled code follows the interpreter.  Take a trace of RV64 instructions from the address the processor is at,
  given to the compiler (fusion of idioms, emitter, prolog and epilog), whose instructions the emitter accepts and
  links one to the next.  Run from any state of the host that holds the registers and memory of a processor, not only
  the one the trace was recorded in, the compiled function ends, and where it ends the interpreter arrives in the same
  number of instructions: the function returns with the interpreter's registers stored after the whole trace, looks up
  the code of the interpreter's program counter, or jumps to code of this trace or another that begins there.
  \<open>trace_ok\<close> asks that the interpreter executes the instructions it reaches, that none is \<^verbatim>\<open>jalr\<close>, and that their operands
  are among those for which the code is right (\<open>jit_ok\<close>, \<open>fusion_ok\<close>); \<open>pc_fits\<close> excludes the addresses from \<open>2 ^ 31\<close> to
  \<open>2 ^ 32 - 2\<close>, which the code stores sign-extended.
\<close>

theorem compiled_trace_simulates:
  fixes p :: "(64, host_memory, 'z) processor_scheme"
  assumes "emit_trace lookup R (fuse ds) (emit_begin jit_emitter_init) = Some e" "ds \<noteq> []"
    and "linked lookup R (pc p) (fuse ds) (emit_begin jit_emitter_init)"
    and "rvi cfg" "rvm cfg" "list_all emittable (fuse ds)" and "trace_ok cfg hf (groups ds) p"
    and "list_all pc_fits (je_term_pc e # je_jmp_tramps e)"
    and "stored p s"
  shows "\<exists>k q l t. 0 < k \<and> k \<le> length ds \<and> (l = Return \<longrightarrow> k = length ds) \<and>
    interp_run cfg hf (take k ds) p = Some q \<and> run_x86 (compile lookup R ds) s = Some (Some l, t) \<and> left_at lookup q l t"
  by (rule compiled_trace [OF assms])

text \<open>Witness: the loop, recorded with a register that is not zero and run with one that is.\<close>

theorem compiled_trace_simulates_witness:
  "\<exists>k q l t. 0 < k \<and> k \<le> 4 \<and> interp_run (isa_all False True False) demo_hf (take k jit_demo_loop) jit_demo_proc = Some q \<and>
    run_x86 (compile (\<lambda>_. 0) (\<lambda>_. (replicate 32 1)[0 := 0]) jit_demo_loop) jit_demo_x86 = Some (Some l, t) \<and> left_at (\<lambda>_. 0) q l t"
proof -
  obtain e where e: "emit_trace (\<lambda>_. 0) (\<lambda>_. (replicate 32 1)[0 := 0]) (fuse jit_demo_loop) (emit_begin jit_emitter_init) = Some e"
    "je_term_pc e = 0" "je_jmp_tramps e = [0x1010]"
    using jit_demo_emits by blast
  have "linked (\<lambda>_. 0) (\<lambda>_. (replicate 32 1)[0 := 0]) (pc jit_demo_proc) (fuse jit_demo_loop) (emit_begin jit_emitter_init)"
    using jit_demo_linked by (simp add: jit_demo_regs)
  moreover have "list_all emittable (fuse jit_demo_loop)"
    by (simp add: jit_demo_fuse emittable_def supported_def regs_in_range_def jit_emitted)
  moreover have "list_all pc_fits (je_term_pc e # je_jmp_tramps e)" by (simp add: e pc_fits_def)
  moreover have "jit_demo_loop \<noteq> []" "length jit_demo_loop = 4" "rvi (isa_all False True False)" "rvm (isa_all False True False)"
    by (simp_all add: jit_demo_loop_def isa_all_def)
  ultimately show ?thesis
    using compiled_trace_simulates [OF e(1) _ _ _ _ _ jit_demo_trace_ok _ jit_demo_stored] by (fastforce simp: jit_demo_x86_def)
qed

text \<open>
  C17.  Each instruction the emitter accepts, other than the indirect jump, does in compiled code what one step of the
  interpreter does: from a host state that holds the registers and the memory of the processor, the code it adds runs,
  leaves the registers and memory of the processor after the instruction, and falls through or jumps to what stands for
  the interpreter's next program counter.  The side condition \<open>jit_ok\<close> excludes the operands for which the code of the
  divisions, \<^verbatim>\<open>addw\<close> and \<^verbatim>\<open>auipc\<close> is wrong.
\<close>

theorem emitted_instruction_simulates:
  fixes p :: "(64, host_memory, 'z) processor_scheme"
  assumes "jit_emit lookup regs d e = (True, e')" and "supported d" and "rvi cfg" "rvm cfg"
    and "jit_rel p s" "pc p = jit_pc d" and "jit_ok d (get_reg p (dec_rs2 d))"
    and "exec_inst_rv64 cfg mmu_proxy_ops hf (decode.truncate d) (of_nat (inst_length (jit_inst d))) p = Ret off q"
  shows "\<exists>c l t. je_code e' = je_code e @ c \<and> run_x86 c s = Some (l, t) \<and> jit_rel (q\<lparr>pc := pc q + off\<rparr>) t \<and>
    arrives lookup e' l (pc q + off)"
  by (rule jit_emit_simulates [OF assms])

text \<open>Witness: \<^verbatim>\<open>jal ra, 16\<close> links and goes on at its target.\<close>

theorem emitted_instruction_simulates_witness:
  "\<exists>e' c l t. jit_emit (\<lambda>_. 0) [] (jit_demo 0x1000 rv_op_jal 1 0 0 16) jit_emitter_init = (True, e') \<and> je_code e' = c \<and>
    run_x86 c jit_demo_x86 = Some (l, t) \<and> reg_val t 1 = 0x1004 \<and> arrives (\<lambda>_. 0) e' l 0x1010"
proof -
  let ?d = "jit_demo 0x1000 rv_op_jal 1 0 0 16" and ?cfg = "isa_all False True False"
  let ?q = "set_rd (decode.truncate ?d) (0x1004 :: u64) jit_demo_proc"
  obtain e' where e': "jit_emit (\<lambda>_. 0) [] ?d jit_emitter_init = (True, e')" by (simp add: jit_demo_emit)
  have rel: "jit_rel jit_demo_proc jit_demo_x86"
    using jit_demo_regs(1,4) by (auto simp: jit_rel_def jit_demo_x86_def reg_val_def jit_demo_regs(2))
  have "exec_inst_rv64 ?cfg mmu_proxy_ops demo_hf (decode.truncate ?d) (of_nat (inst_length (jit_inst ?d))) jit_demo_proc = Ret 16 ?q"
    by (simp add: jit_demo_exec)
  from emitted_instruction_simulates [OF e' _ _ _ rel _ _ this] obtain c l t
    where "je_code e' = c" "run_x86 c jit_demo_x86 = Some (l, t)" "jit_rel (?q\<lparr>pc := 0x1010\<rparr>) t" "arrives (\<lambda>_. 0) e' l 0x1010"
    by (auto simp: jit_demo_regs supported_def regs_in_range_def jit_ok_def isa_all_def jit_emitter_init_def)
  moreover have "get_reg ?q 1 = 0x1004" using get_reg_set_rd [OF jit_demo_regs(1), of "decode.truncate ?d"] by simp
  ultimately show ?thesis using e' by (auto simp: jit_rel_def get_reg_def)
qed

section \<open>Fusion\<close>

text \<open>
  C18.  The fusion state machine carries out the rewriting of the instruction sequence: giving it the instructions of a
  trace one by one and emitting what is queued at the end leaves the emitter where the rewritten sequence leaves it,
  with no instruction lost, repeated or out of order.
\<close>

theorem fusion_refines_rewriting:
  "snd (emit_queue lookup regs (fuse_all lookup R ds (fusion_init, e))) = emit_all lookup R (fuse ds) e"
  by (rule fusion_carries_out) (simp add: idle_def fusion_init_def)

text \<open>
  C19.  A fused instruction does what its idiom does: when a sequence of instructions becomes the one instruction \<open>g\<close>
  (\<^verbatim>\<open>la\<close>, \<^verbatim>\<open>zext.w\<close> of a shift, \<^verbatim>\<open>addiwz\<close>), the code of \<open>g\<close> leaves the registers and memory that the interpreter has
  after the sequence and falls through to the address after it.  \<open>fusion_ok\<close> excludes the sequences for which it does
  not: the sum of the offsets of \<^verbatim>\<open>la\<close> has to fit 32 bits, and the registers of \<^verbatim>\<open>zext.w\<close> and \<^verbatim>\<open>addiwz\<close> must not need a
  \<^verbatim>\<open>movzx\<close> from 32 bits, which the host does not have.  \<^verbatim>\<open>call\<close> is not among them.
\<close>

theorem fused_idiom_simulates:
  fixes p :: "(64, host_memory, 'z) processor_scheme"
  assumes "fuse ds = [g]" "1 < length ds" "fusion_ok ds" and "rvi cfg"
    and "jit_emit lookup regs g e = (True, e')" and "jit_rel p s" and "interp_run cfg hf ds p = Some q"
  shows "\<exists>c t. je_code e' = je_code e @ c \<and> run_x86 c s = Some (None, t) \<and> jit_rel q t \<and> arrives lookup e' None (pc q)"
  by (rule fused_simulates [OF assms])

text \<open>Witness: \<^verbatim>\<open>auipc a0, 0x1000; addi a0, a0, -16\<close>.\<close>

theorem fused_idiom_simulates_witness:
  "\<exists>e' t. jit_emit (\<lambda>_. 0) [] (fold_la (jit_demo 0x1000 rv_op_auipc 10 0 0 0x1000) (jit_demo 0x1004 rv_op_addi 10 10 0 (- 16)) jit_op_la)
      jit_emitter_init = (True, e') \<and>
    run_x86 (je_code e') jit_demo_x86 = Some (None, t) \<and> reg_val t 10 = 0x1ff0 \<and> je_term_pc e' = 0x1008"
proof -
  let ?d = "jit_demo 0x1000 rv_op_auipc 10 0 0 0x1000" and ?d' = "jit_demo 0x1004 rv_op_addi 10 10 0 (- 16)"
  let ?g = "fold_la ?d ?d' jit_op_la" and ?cfg = "isa_all False True False"
  let ?q = "set_rd (decode.truncate ?d') (0x1ff0 :: u64) (set_rd (decode.truncate ?d) 0x2000 jit_demo_proc)\<lparr>pc := 0x1008\<rparr>"
  have g: "fuse [?d, ?d'] = [?g]" "fusion_ok [?d, ?d']"
    by (simp_all add: fuse_auipc_def completes_la_def fusion_ok_def regs_in_range_def)
  obtain e' where e': "jit_emit (\<lambda>_. 0) [] ?g jit_emitter_init = (True, e')" by (simp add: fold_la_def jit_demo_emit)
  have rel: "jit_rel jit_demo_proc jit_demo_x86"
    using jit_demo_regs(1,4) by (auto simp: jit_rel_def jit_demo_x86_def reg_val_def jit_demo_regs(2))
  have run: "interp_run ?cfg demo_hf [?d, ?d'] jit_demo_proc = Some ?q" by (simp add: jit_demo_exec)
  have "1 < length [?d, ?d']" "rvi ?cfg" by (simp_all add: isa_all_def)
  from fused_idiom_simulates [OF g(1) this(1) g(2) this(2) e' rel run] obtain t
    where "run_x86 (je_code e') jit_demo_x86 = Some (None, t)" "jit_rel ?q t" "je_term_pc e' = 0x1008"
    by (auto simp: jit_emitter_init_def arrives_def)
  moreover have "get_reg ?q 10 = 0x1ff0" by (simp add: jit_demo_exec)
  ultimately show ?thesis using e' by (auto simp: jit_rel_def)
qed

text \<open>
  C20.  An idiom that is not one.  \<^verbatim>\<open>addiw rd, rs1, 32\<close>, here with \<^verbatim>\<open>rd\<close> in a host register and \<^verbatim>\<open>rs1\<close> in memory, is taken for the shift that opens
  \<^verbatim>\<open>zext.w\<close> (its case falls through to that of \<^verbatim>\<open>slli\<close>): followed by \<^verbatim>\<open>srli rd, rd, 32\<close> it is compiled to the zero
  extension of \<^verbatim>\<open>rs1\<close>, where the interpreter has the upper half of the sum, which is 0 or all ones.
\<close>

theorem fused_addiw_loses_addition:
  fixes p :: "(64, host_memory, 'z) processor_scheme"
  assumes "dec_op d = rv_op_addiw" "dec_imm d = 32" "0 < x86_reg (dec_rd d)" "\<not> 0 < x86_reg (dec_rs1 d)" and "same_shift rv_op_srli d d'"
    and "regs_in_range d" "rvi cfg" "jit_rel p s" and "interp_run cfg hf [d, d'] p = Some q"
  shows "fuse [d, d'] = [fold_zextw d d'] \<and>
    (\<exists>t. run_x86 (jit_zextw (fold_zextw d d')) s = Some (None, t) \<and> reg_val t (dec_rd d) = take_bit 32 (get_reg p (dec_rs1 d))) \<and>
    get_reg q (dec_rd d) = drop_bit 32 (scast (low32 (get_reg p (dec_rs1 d)) + 32))"
proof (intro conjI)
  show "fuse [d, d'] = [fold_zextw d d']" using assms(1-5) by (auto simp: fuse_zextw_def opens_zextw_def)
  have rd: "dec_rd d \<noteq> 0" using assms(3) by (auto simp: x86_reg_def)
  have "slots s 0 = 0" "reg_val s (dec_rs1 d) = get_reg p (dec_rs1 d)" using assms(6,8) by (simp_all add: jit_rel_def regs_in_range_def)
  then show "\<exists>t. run_x86 (jit_zextw (fold_zextw d d')) s = Some (None, t) \<and> reg_val t (dec_rd d) = take_bit 32 (get_reg p (dec_rs1 d))"
    using jit_zextw_computes [of s "fold_zextw d d'"] assms(3,4) rd by (auto simp: computes_def zextw_encodes_def)
  have r: "regs_ok p" "dec_rd d < 32" using assms(6,8) by (simp_all add: jit_rel_def regs_in_range_def)
  have "q = set_rd (decode.truncate d) (drop_bit 32 (scast (low32 (get_reg p (dec_rs1 d)) + 32))) p
      \<lparr>pc := pc p + of_nat (inst_length (jit_inst d)) + of_nat (inst_length (jit_inst d'))\<rparr>"
  proof (rule chained_results [OF r, where f = "drop_bit 32"])
    let ?p = "set_rd (decode.truncate d) (scast (low32 (get_reg p (dec_rs1 d)) + 32)) p\<lparr>pc := pc p + of_nat (inst_length (jit_inst d))\<rparr>"
    have "interp_run cfg hf [d'] ?p = Some q"
      by (rule interp_alu [OF assms(9,7)]) (simp add: alu_results_def assms(1,2))
    from interp_shift [OF this assms(7), of "drop_bit 32 (get_reg ?p (dec_rd d))"]
    show "q = set_rd (decode.truncate d') (drop_bit 32 (get_reg ?p (dec_rd d))) ?p
        \<lparr>pc := pc p + of_nat (inst_length (jit_inst d)) + of_nat (inst_length (jit_inst d'))\<rparr>"
      using assms(5) by (auto simp: shift_results_def same_shift_def)
  qed (use assms(5) in \<open>simp add: same_shift_def\<close>)
  then show "get_reg q (dec_rd d) = drop_bit 32 (scast (low32 (get_reg p (dec_rs1 d)) + 32))"
    using get_reg_set_rd [OF r(1), of "decode.truncate d"] r(2) rd by (simp add: get_reg_def)
qed

text \<open>Witness: \<^verbatim>\<open>addiw t0, s0, 32; srli t0, t0, 32\<close> with 5 in \<^verbatim>\<open>s0\<close>, which is kept in memory.\<close>

theorem fused_addiw_loses_addition_witness:
  "\<exists>q t. interp_run (isa_all False True False) demo_hf
      [jit_demo 0x1000 rv_op_addiw 5 8 0 32, jit_demo 0x1004 rv_op_srli 5 5 0 32]
      (jit_demo_proc\<lparr>ireg := (replicate 32 0)[8 := 5]\<rparr>) = Some q \<and> get_reg q 5 = 0 \<and>
    run_x86 (jit_zextw (fold_zextw (jit_demo 0x1000 rv_op_addiw 5 8 0 32) (jit_demo 0x1004 rv_op_srli 5 5 0 32)))
      (jit_demo_x86\<lparr>slots := (\<lambda>_. 0)(8 := 5)\<rparr>) = Some (None, t) \<and> reg_val t 5 = 5"
proof -
  let ?d = "jit_demo 0x1000 rv_op_addiw 5 8 0 32" and ?d' = "jit_demo 0x1004 rv_op_srli 5 5 0 32"
  let ?p = "jit_demo_proc\<lparr>ireg := (replicate 32 0)[8 := 5]\<rparr>" and ?s = "jit_demo_x86\<lparr>slots := (\<lambda>_. 0)(8 := 5)\<rparr>"
  have "get_reg ?p r = (if r = 8 then 5 else 0)" if "r < 32" for r
    using that by (simp add: get_reg_def nth_list_update word_less_nat_alt word_unat_eq_iff)
  moreover have "reg_val ?s r = (if r = 8 then 5 else 0)" for r
    by (simp add: reg_val_def jit_demo_x86_def x86_reg_def word_unat_eq_iff)
  ultimately have rel: "jit_rel ?p ?s"
    by (simp add: jit_rel_def jit_demo_x86_def regs_ok_def jit_demo_proc_def proc_init_def)
  obtain q where q: "interp_run (isa_all False True False) demo_hf [?d, ?d'] ?p = Some q" by (simp add: jit_demo_exec)
  have "same_shift rv_op_srli ?d ?d'" "regs_in_range ?d" "rvi (isa_all False True False)"
    by (simp_all add: same_shift_def regs_in_range_def isa_all_def)
  from fused_addiw_loses_addition [OF _ _ _ _ this rel q] q show ?thesis
    by (auto simp: get_reg_def low32_def jit_demo_x86_def x86_reg_def)
qed

text \<open>
  Remainder by \<^verbatim>\<open>x0\<close>: the compiled code of \<^verbatim>\<open>rem\<close> gives -1, the result of a division by zero, where the interpreter
  gives the dividend.
\<close>

lemma jit_rem_by_x0:
  fixes p :: "(64, host_memory, 'z) processor_scheme"
  assumes "dec_op d = rv_op_rem" "dec_rs2 d = 0" "dec_rd d \<noteq> 0" "regs_in_range d" "rvm cfg" "jit_rel p s"
  shows "\<exists>code t. jit_straight d = Some code \<and> run_x86 code s = Some (None, t) \<and> reg_val t (dec_rd d) = - 1 \<and>
    exec_inst_rv64 cfg ops hf (decode.truncate d) off p = Ret off (set_rd (decode.truncate d) (get_reg p (dec_rs1 d)) p)"
proof -
  have s: "slots s 0 = 0" using assms(6) by (simp add: jit_rel_def)
  have "computes (jit_rem d) (dec_rd d) (- 1) s"
    unfolding computes_def jit_defs Let_def using s assms(2) by (auto simp: jit_simps)
  moreover have "get_reg p 0 = 0" using assms(6) by (simp add: jit_rel_def get_reg_zero)
  then have "exec_inst_rv64 cfg ops hf (decode.truncate d) off p = Ret off (set_rd (decode.truncate d) (get_reg p (dec_rs1 d)) p)"
    using exec_muldiv [of "decode.truncate d" "get_reg p (dec_rs1 d)" p cfg ops hf off] assms(1,2,5)
    by (simp add: mul_results_def rem_s_def)
  ultimately show ?thesis using assms(1,3) by (auto simp: computes_def jit_emitted)
qed

text \<open>
  C21.  Division by \<^verbatim>\<open>ra\<close>, which the compiler keeps in \<^verbatim>\<open>rdx\<close>: the code of \<^verbatim>\<open>divu\<close> clears \<^verbatim>\<open>rdx\<close> for the dividend before
  it divides by it, so that every division by \<^verbatim>\<open>ra\<close> not zero, of a register and into a register other than \<^verbatim>\<open>x0\<close>, raises a divide error on the host.
\<close>

theorem jit_divu_by_ra:
  fixes p :: "(64, host_memory, 'z) processor_scheme"
  assumes "dec_op d = rv_op_divu" "dec_rs2 d = 1" "dec_rs1 d \<noteq> 0" "dec_rd d \<noteq> 0" "regs_in_range d" "rvm cfg" "jit_rel p s"
    and "get_reg p 1 \<noteq> 0"
  shows "\<exists>code. jit_straight d = Some code \<and> run_x86 code s = None \<and>
    exec_inst_rv64 cfg ops hf (decode.truncate d) off p =
      Ret off (set_rd (decode.truncate d) (get_reg p (dec_rs1 d) div get_reg p 1) p)"
proof -
  have "run_x86 (jit_divu d) s = None"
    using assms(2-4,7,8) unfolding jit_defs Let_def src_folds
    by - (rule operand_cases [of d]; auto simp: jit_rel_def jit_div_simps div_words_def test_flags_def)
  moreover have "exec_inst_rv64 cfg ops hf (decode.truncate d) off p =
      Ret off (set_rd (decode.truncate d) (get_reg p (dec_rs1 d) div get_reg p 1) p)"
    using exec_muldiv [of "decode.truncate d" "get_reg p (dec_rs1 d) div get_reg p 1" p cfg ops hf off] assms(1,2,6,8)
    by (simp add: mul_results_def divu_def)
  ultimately show ?thesis using assms(1) by (simp add: jit_emitted)
qed

text \<open>Witness: \<^verbatim>\<open>divu a0, t1, ra\<close> with 2 in \<^verbatim>\<open>ra\<close>.\<close>

theorem jit_divu_by_ra_witness:
  "\<exists>code. jit_straight (jit_demo 0x1000 rv_op_divu 10 6 1 0) = Some code \<and>
    run_x86 code (jit_demo_x86\<lparr>gpr := (\<lambda>_. 0)(2 := 2)\<rparr>) = None"
proof -
  let ?d = "jit_demo 0x1000 rv_op_divu 10 6 1 0"
  let ?p = "jit_demo_proc\<lparr>ireg := (replicate 32 0)[1 := 2]\<rparr>" and ?s = "jit_demo_x86\<lparr>gpr := (\<lambda>_. 0)(2 := 2)\<rparr>"
  have regs: "get_reg ?p r = (if r = 1 then 2 else 0)" if "r < 32" for r
    using that by (simp add: get_reg_def nth_list_update word_less_nat_alt word_unat_eq_iff)
  moreover have "reg_val ?s r = (if r = 1 then 2 else 0)" for r
    by (simp add: reg_val_def jit_demo_x86_def x86_reg_def)
  ultimately have "jit_rel ?p ?s"
    by (simp add: jit_rel_def jit_demo_x86_def regs_ok_def jit_demo_proc_def proc_init_def)
  from jit_divu_by_ra [OF _ _ _ _ _ _ this, of ?d "isa_all False True False" mmu_proxy_ops demo_hf 4] regs [of 1] show ?thesis
    by (auto simp: regs_in_range_def isa_all_def)
qed

end
