(* ===== verification/Rv_Mmu_Laws.thy ===== *)
theory Rv_Mmu_Laws
  imports Rv_Mmu Rv_Interp_Laws
begin

text \<open>
  Laws of the software memory management unit: the page table walk ends, it computes the
  translation that the page tables in memory describe, an access changes nothing of the processor
  but the memory management unit (and the fault address), and an access is granted only by an
  entry whose permissions allow it.
\<close>

section \<open>Frame\<close>

text \<open>An outcome that changed at most the memory management unit and the fault address.\<close>

definition only_mmu :: "'z proc \<Rightarrow> ('z proc, 'a) outcome \<Rightarrow> bool" where
  "only_mmu p r \<longleftrightarrow> (\<exists>u b. final r = p\<lparr>mmu := u, badaddr := b\<rparr>)"

lemma only_mmu_simps [simp]:
  "only_mmu p (Ret a p)" "only_mmu p (Exit k p)" "only_mmu p (raise c va p)"
  "only_mmu p (Ret a (set_mem m p))" "only_mmu p (Ret a (set_tlb mop t p))"
proof -
  have "p = p\<lparr>mmu := mmu p, badaddr := badaddr p\<rparr>" by simp
  then show "only_mmu p (Ret a p)" "only_mmu p (Exit k p)"
    unfolding only_mmu_def outcome.sel by blast+
  have "p\<lparr>badaddr := va\<rparr> = p\<lparr>mmu := mmu p, badaddr := va\<rparr>" by simp
  then show "only_mmu p (raise c va p)" unfolding only_mmu_def raise_def outcome.sel by blast
  have eq: "p\<lparr>mmu := u\<rparr> = p\<lparr>mmu := u, badaddr := badaddr p\<rparr>" for u by simp
  then show "only_mmu p (Ret a (set_mem m p))"
    unfolding only_mmu_def set_mem_def outcome.sel by blast
  show "only_mmu p (Ret a (set_tlb mop t p))"
    using eq unfolding only_mmu_def set_tlb_def outcome.sel
    by (cases "mop = op_fetch") (simp_all only: simp_thms if_True if_False, blast+)
qed

lemma only_mmu_bind:
  assumes "only_mmu p r" and "\<And>a q. only_mmu q (f a q)"
  shows "only_mmu p (bind_outcome r f)"
proof (cases r)
  case (Ret a q)
  then obtain u b where "q = p\<lparr>mmu := u, badaddr := b\<rparr>" using assms(1) by (auto simp: only_mmu_def)
  moreover obtain u' b' where "final (f a q) = q\<lparr>mmu := u', badaddr := b'\<rparr>"
    using assms(2) [of q a] by (auto simp: only_mmu_def)
  ultimately show ?thesis using Ret by (auto simp: only_mmu_def)
next
  case (Exit k q)
  then show ?thesis using assms(1) by (simp add: only_mmu_def)
qed

lemma only_mmu_keeps: "only_mmu p r \<Longrightarrow> keeps_regs p r"
  by (auto simp: only_mmu_def keeps_regs_def)

lemma only_mmu_walk_loop: "only_mmu p (walk_loop f fmt mop va level ppn p)"
  by (induction f fmt mop va level ppn p rule: walk_loop.induct)
    (auto simp: Let_def split: option.split)

lemma only_mmu_miss: "only_mmu p (page_translate_addr_tlb_miss fmt mop va ent p)"
  unfolding page_translate_addr_tlb_miss_def walk_page_table_def
  by (rule only_mmu_bind [OF only_mmu_walk_loop]) (auto split: prod.split)

lemma only_mmu_translate: "only_mmu p (translate_addr mop va p)"
  by (simp add: translate_addr_def page_translate_addr_def only_mmu_miss Let_def split: option.split)

lemma only_mmu_access:
  "only_mmu p (soft_load n va p)" "only_mmu p (soft_store n va val p)"
  "only_mmu p (soft_amo n aop va val p)"
  by (auto simp: soft_load_def soft_store_def soft_amo_def
      intro!: only_mmu_bind only_mmu_translate split: option.split)

lemma only_mmu_fetch_half: "only_mmu p (fetch_half pcv mpa k inst p)"
  by (simp add: fetch_half_def split: option.split)

lemma only_mmu_fetch: "only_mmu p (soft_inst_fetch pcv off p)"
  by (auto simp: soft_inst_fetch_def intro!: only_mmu_bind only_mmu_translate only_mmu_fetch_half)

text \<open>A floating-point store may also change the floating-point environment.\<close>

definition only_mmu_fenv :: "'z proc \<Rightarrow> ('z proc, 'a) outcome \<Rightarrow> bool" where
  "only_mmu_fenv p r \<longleftrightarrow> (\<exists>e. only_mmu (p\<lparr>fenv := e\<rparr>) r)"

lemma only_mmu_imp_fenv: "only_mmu p r \<Longrightarrow> only_mmu_fenv p r"
  unfolding only_mmu_fenv_def by (rule exI [of _ "fenv p"]) simp

lemma only_mmu_fenv_bind:
  assumes "only_mmu p r" and "\<And>a q. only_mmu_fenv q (f a q)"
  shows "only_mmu_fenv p (bind_outcome r f)"
proof (cases r)
  case (Ret a q)
  then obtain u b where "q = p\<lparr>mmu := u, badaddr := b\<rparr>" using assms(1) by (auto simp: only_mmu_def)
  moreover obtain e u' b' where "final (f a q) = q\<lparr>fenv := e, mmu := u', badaddr := b'\<rparr>"
    using assms(2) [of q a] by (auto simp: only_mmu_fenv_def only_mmu_def)
  ultimately show ?thesis using Ret by (auto simp: only_mmu_fenv_def only_mmu_def)
next
  case (Exit k q)
  then show ?thesis using only_mmu_imp_fenv [OF assms(1)] by (simp add: only_mmu_fenv_def only_mmu_def)
qed

lemma only_mmu_fenvI: "only_mmu (p\<lparr>fenv := e\<rparr>) r \<Longrightarrow> only_mmu_fenv p r"
  unfolding only_mmu_fenv_def by blast

lemma only_mmu_fenv_simps [simp]:
  "only_mmu_fenv p (Ret a p)" "only_mmu_fenv p (raise c va p)"
  "only_mmu_fenv p (raise c va (p\<lparr>fenv := e\<rparr>))" "only_mmu_fenv p (Ret a (set_mem m (p\<lparr>fenv := e\<rparr>)))"
  by (rule only_mmu_imp_fenv only_mmu_fenvI; rule only_mmu_simps)+

lemma only_mmu_store_fp: "only_mmu_fenv p (soft_store_fp hf n va bits p)"
  by (auto simp: soft_store_fp_def Let_def intro!: only_mmu_fenv_bind only_mmu_translate
      split: prod.split option.split)

lemma only_mmu_fenv_keeps: "only_mmu_fenv p r \<Longrightarrow> keeps_regs p r"
  by (auto simp: only_mmu_fenv_def only_mmu_def keeps_regs_def)

interpretation soft: mmu_interface "mmu_soft_ops hf :: ('z proc, 64) mmu_ops"
  by unfold_locales
    (simp_all add: mmu_soft_ops_def only_mmu_keeps only_mmu_access only_mmu_fenv_keeps only_mmu_store_fp)

section \<open>The TLBs keep their size\<close>

definition tlbs_ok :: "'z proc \<Rightarrow> bool" where
  "tlbs_ok p \<longleftrightarrow> tlb_ok (l1_itlb (mmu p)) \<and> tlb_ok (l1_dtlb (mmu p))"

lemma tlbs_ok_upd [simp]:
  "tlbs_ok (set_mem m p) \<longleftrightarrow> tlbs_ok p" "tlbs_ok (p\<lparr>badaddr := a\<rparr>) \<longleftrightarrow> tlbs_ok p"
  "tlbs_ok (p\<lparr>fenv := e\<rparr>) \<longleftrightarrow> tlbs_ok p"
  by (simp_all add: tlbs_ok_def set_mem_def)

lemma tlbs_ok_raise [simp]: "tlbs_ok (final (raise c a p)) \<longleftrightarrow> tlbs_ok p"
  by (simp add: raise_def)

lemma tlbs_ok_insert:
  "tlbs_ok p \<Longrightarrow> tlbs_ok (set_tlb mop (fst (tlb_insert (get_tlb mop p) pd asid va lv fl pn)) p)"
  by (simp add: tlbs_ok_def set_tlb_def get_tlb_def tlb_insert_def tlb_ok_def Let_def)

lemma tlbs_ok_walk_loop: "tlbs_ok p \<Longrightarrow> tlbs_ok (final (walk_loop f fmt mop va level ppn p))"
  by (induction f fmt mop va level ppn p rule: walk_loop.induct)
    (auto simp: Let_def split: option.split)

lemma tlbs_ok_miss: "tlbs_ok p \<Longrightarrow> tlbs_ok (final (page_translate_addr_tlb_miss fmt mop va ent p))"
  unfolding page_translate_addr_tlb_miss_def walk_page_table_def
  by (rule final_bind [where P = tlbs_ok, OF tlbs_ok_walk_loop])
    (auto simp: case_prod_unfold Let_def tlbs_ok_insert)

lemma tlbs_ok_translate: "tlbs_ok p \<Longrightarrow> tlbs_ok (final (translate_addr mop va p))"
  by (simp add: translate_addr_def page_translate_addr_def tlbs_ok_miss Let_def split: option.split)

lemma tlbs_ok_access:
  assumes "tlbs_ok p"
  shows "tlbs_ok (final (soft_load n va p))" "tlbs_ok (final (soft_store n va val p))"
    "tlbs_ok (final (soft_amo n aop va val p))" "tlbs_ok (final (soft_store_fp hf n va val p))"
  unfolding soft_load_def soft_store_def soft_amo_def soft_store_fp_def Let_def
  by (intro final_if [where P = tlbs_ok] final_bind [where P = tlbs_ok] tlbs_ok_translate assms;
      auto simp: assms split: prod.split option.split)+

lemma tlbs_ok_fetch_half: "tlbs_ok p \<Longrightarrow> tlbs_ok (final (fetch_half pcv mpa k inst p))"
  by (simp add: fetch_half_def split: option.split)

lemma tlbs_ok_fetch:
  assumes "tlbs_ok p"
  shows "tlbs_ok (final (soft_inst_fetch pcv off p))"
  unfolding soft_inst_fetch_def case_prod_unfold
  by (intro final_if [where P = tlbs_ok] final_bind [where P = tlbs_ok] tlbs_ok_translate assms;
      simp add: assms tlbs_ok_fetch_half final_bind [where P = tlbs_ok])

section \<open>Termination of the walk\<close>

definition ptm_ok :: "ptm \<Rightarrow> bool" where
  "ptm_ok fmt \<longleftrightarrow> fmt = sv32 \<or> fmt = sv39 \<or> fmt = sv48"

text \<open>Two steps below level 0 the shift amount is out of range.\<close>

lemma walk_loop_bottom:
  assumes "ptm_ok fmt"
  shows "walk_loop (Suc f) fmt mop va (- 2) ppn p = Exit Undefined p"
  using assms by (auto simp: ptm_ok_def sv32_def sv39_def sv48_def)

lemma walk_loop_Suc_cong:
  assumes "\<And>ppn'. walk_loop f fmt mop va (level - 1) ppn' p = walk_loop g fmt mop va (level - 1) ppn' p"
  shows "walk_loop (Suc f) fmt mop va level ppn p = walk_loop (Suc g) fmt mop va level ppn p"
  by (simp only: walk_loop.simps assms)

lemma walk_loop_fuel:
  assumes "ptm_ok fmt" and "k + 2 \<le> f"
  shows "walk_loop f fmt mop va (of_nat k - 1) ppn p = walk_loop (k + 2) fmt mop va (of_nat k - 1) ppn p"
  using assms(2)
proof (induction k arbitrary: f ppn)
  case 0
  then obtain g where f: "f = Suc (Suc g)" by (cases f; cases "f - 1") auto
  have level: "of_nat 0 - 1 - 1 = (- 2 :: u64)" by simp
  show ?case
    unfolding f add_0 numeral_2_eq_2
    by (rule walk_loop_Suc_cong) (simp only: level walk_loop_bottom [OF assms(1)])
next
  case (Suc k)
  then obtain g where f: "f = Suc g" and g: "k + 2 \<le> g" by (cases f) auto
  have level: "of_nat (Suc k) - 1 - 1 = (of_nat k - 1 :: u64)" by simp
  show ?case
    unfolding f add_Suc by (rule walk_loop_Suc_cong) (simp only: level Suc.IH [OF g])
qed

section \<open>What the page tables describe\<close>

text \<open>
  The mapping as the privileged architecture describes it, over natural numbers and without the
  walker's shifts: table index of a level, alignment of a superpage, physical address.
  \<open>translates chk fmt m va k a pte l\<close> says that the table at physical address \<open>a\<close>, seen as a table
  of level \<open>k\<close>, leads for \<open>va\<close> to the leaf entry \<open>pte\<close> in a table of level \<open>l\<close>.  With \<open>chk\<close> every
  pointer entry on the way has its valid bit set; without, the bit is ignored.
\<close>

definition vpn_index :: "ptm \<Rightarrow> u64 \<Rightarrow> nat \<Rightarrow> nat" where
  "vpn_index fmt va k = (unat va div 2 ^ (12 + ptm_bits fmt * k)) mod 2 ^ ptm_bits fmt"

definition entry_addr :: "ptm \<Rightarrow> u64 \<Rightarrow> u64 \<Rightarrow> nat \<Rightarrow> u64" where
  "entry_addr fmt va a k = a + of_nat (vpn_index fmt va k * ptm_size fmt)"

definition pte_pointer :: "u64 \<Rightarrow> bool" where
  "pte_pointer pte \<longleftrightarrow> \<not> bit pte 1 \<and> \<not> bit pte 2 \<and> \<not> bit pte 3"

definition pte_leaf :: "u64 \<Rightarrow> bool" where
  "pte_leaf pte \<longleftrightarrow> bit pte 0 \<and> (bit pte 1 \<or> bit pte 3 \<and> \<not> bit pte 2)"

definition superpage_aligned :: "ptm \<Rightarrow> u64 \<Rightarrow> nat \<Rightarrow> bool" where
  "superpage_aligned fmt pte k \<longleftrightarrow> 2 ^ (ptm_bits fmt * k) dvd unat (pte_ppn fmt pte)"

definition phys_addr :: "ptm \<Rightarrow> u64 \<Rightarrow> u64 \<Rightarrow> nat \<Rightarrow> u64" where
  "phys_addr fmt pte va l =
     of_nat (unat (pte_ppn fmt pte) * 2 ^ 12 + unat va mod 2 ^ (12 + ptm_bits fmt * l))"

inductive translates :: "bool \<Rightarrow> ptm \<Rightarrow> user_memory \<Rightarrow> u64 \<Rightarrow> nat \<Rightarrow> u64 \<Rightarrow> u64 \<Rightarrow> nat \<Rightarrow> bool"
  for chk fmt m va where
  leaf: "mem_load (ptm_size fmt) m (entry_addr fmt va a k) = Some pte \<Longrightarrow> pte_leaf pte \<Longrightarrow>
    superpage_aligned fmt pte k \<Longrightarrow> translates chk fmt m va k a pte k"
| pointer: "mem_load (ptm_size fmt) m (entry_addr fmt va a (Suc k)) = Some pte \<Longrightarrow>
    pte_pointer pte \<Longrightarrow> (chk \<longrightarrow> bit pte 0) \<Longrightarrow>
    translates chk fmt m va k (push_bit 12 (pte_ppn fmt pte)) pte' l \<Longrightarrow>
    translates chk fmt m va (Suc k) a pte' l"

lemma translates_weaken: "translates chk fmt m va k a pte l \<Longrightarrow> translates False fmt m va k a pte l"
  by (induction rule: translates.induct) (auto intro: translates.intros)

inductive_simps translates_0: "translates chk fmt m va 0 a pte l"
inductive_simps translates_Suc: "translates chk fmt m va (Suc k) a pte l"

text \<open>Every pointer entry that the tables lead to on the way has its valid bit set.\<close>

primrec pointers_valid :: "ptm \<Rightarrow> user_memory \<Rightarrow> u64 \<Rightarrow> nat \<Rightarrow> u64 \<Rightarrow> bool" where
  "pointers_valid fmt m va 0 a \<longleftrightarrow> True"
| "pointers_valid fmt m va (Suc k) a \<longleftrightarrow>
    (case mem_load (ptm_size fmt) m (entry_addr fmt va a (Suc k)) of None \<Rightarrow> True
     | Some pte \<Rightarrow> if pte_pointer pte then bit pte 0 \<and> pointers_valid fmt m va k (push_bit 12 (pte_ppn fmt pte)) else True)"

lemma translates_valid:
  assumes "pointers_valid fmt m va k a"
  shows "translates True fmt m va k a pte l \<longleftrightarrow> translates False fmt m va k a pte l"
proof
  assume "translates False fmt m va k a pte l"
  then show "translates True fmt m va k a pte l"
    using assms
  proof (induction rule: translates.induct)
    case (pointer a k pte pte' l)
    then show ?case by (intro translates.pointer) simp_all
  qed (rule translates.leaf)
qed (rule translates_weaken)

section \<open>The walk computes the mapping\<close>

lemma and_one_bit: "x AND 1 = 0 \<longleftrightarrow> \<not> bit x 0" for x :: "'a::len word"
  by (simp add: and_one_eq mod2_eq_if bit_0)

lemma exp_minus_mask: "push_bit n 1 - 1 = (mask n :: 'a::len word)"
  by (simp add: mask_eq_exp_minus_1 push_bit_eq_mult)

lemma pte_pointer_test:
  "(drop_bit 1 pte OR drop_bit 2 pte OR drop_bit 3 pte) AND 1 = 0 \<longleftrightarrow> pte_pointer pte"
  unfolding and_one_bit by (simp add: pte_pointer_def bit_or_iff bit_drop_bit_eq)

lemma bit_pte_flags: "bit (pte_flags pte) n \<longleftrightarrow> n < 10 \<and> bit pte n"
  by (simp add: pte_flags_def bit_get_field)

lemma pte_fault_test:
  "(NOT (pte_flags pte) OR (drop_bit 1 (NOT (pte_flags pte)) AND drop_bit 2 (pte_flags pte))) AND 1 \<noteq> 0 \<longleftrightarrow>
    \<not> bit pte 0 \<or> \<not> bit pte 1 \<and> bit pte 2"
  unfolding and_one_bit
  by (simp add: bit_or_iff bit_and_iff bit_drop_bit_eq bit_not_iff bit_pte_flags)

lemma bit_rx: "bit (pte_flag_R OR pte_flag_X) n \<longleftrightarrow> n = 1 \<or> n = 3"
proof -
  have "pte_flag_R OR pte_flag_X = (push_bit 1 1 OR push_bit 3 1 :: u64)" by simp
  then show ?thesis
    by (simp only: bit_or_iff bit_push_bit_iff bit_1_iff possible_bit_def) auto
qed

lemma pte_rx_test: "pte_flags pte AND (pte_flag_R OR pte_flag_X) \<noteq> 0 \<longleftrightarrow> bit pte 1 \<or> bit pte 3"
  using bit_eq_iff [of "pte_flags pte AND (pte_flag_R OR pte_flag_X)" 0]
  unfolding bit_and_iff bit_pte_flags bit_rx bit_0_eq bot_apply by auto

lemma unat_take_drop:
  "unat (take_bit n (drop_bit k x)) = unat x div 2 ^ k mod 2 ^ n" for x :: "'a::len word"
  unfolding unsigned_take_bit_eq unat_drop_bit_eq
  unfolding take_bit_eq_mod drop_bit_eq_div ..

lemma mask_dvd: "(mask j :: 'a::len word) AND x = 0 \<longleftrightarrow> 2 ^ j dvd unat x"
proof -
  have "mask j AND x = take_bit j x" by (simp only: take_bit_eq_mask and.commute)
  moreover have "take_bit j x = 0 \<longleftrightarrow> unat (take_bit j x) = 0" by (simp only: unat_eq_0)
  moreover have "unat (take_bit j x) = unat x mod 2 ^ j"
    unfolding unsigned_take_bit_eq unfolding take_bit_eq_mod ..
  ultimately show ?thesis by (simp only: dvd_eq_mod_eq_0)
qed

definition ptm_wide :: "ptm \<Rightarrow> bool" where
  "ptm_wide fmt \<longleftrightarrow> fmt = sv39 \<or> fmt = sv48"

lemma ptm_wide_ok: "ptm_wide fmt \<Longrightarrow> ptm_ok fmt"
  by (auto simp: ptm_wide_def ptm_ok_def)

text \<open>The shift of a level and the values the walker computes with it.\<close>

lemma level_shift:
  assumes "ptm_ok fmt" and "k < ptm_levels fmt"
  shows "unat (of_nat (ptm_bits fmt) * of_nat k + 12 :: u64) = 12 + ptm_bits fmt * k"
    and "ptm_bits fmt * k < 31"
proof -
  have "ptm_bits fmt * k \<le> ptm_bits fmt * (ptm_levels fmt - 1)" using assms(2) by (intro mult_le_mono2) simp
  also have "\<dots> < 31" using assms(1) by (auto simp: ptm_ok_def sv32_def sv39_def sv48_def)
  finally show less: "ptm_bits fmt * k < 31" .
  have "of_nat (ptm_bits fmt) * of_nat k + 12 = (of_nat (12 + ptm_bits fmt * k) :: u64)" by simp
  then show "unat (of_nat (ptm_bits fmt) * of_nat k + 12 :: u64) = 12 + ptm_bits fmt * k"
    using less by (simp only: unat_of_nat) (simp add: take_bit_eq_mod)
qed

lemma word_of_nat_unat_eq: "of_nat (unat w) = w" for w :: "'a::len word"
  by simp

lemma walker_index:
  "drop_bit (12 + ptm_bits fmt * k) va AND mask (ptm_bits fmt) = of_nat (vpn_index fmt va k)"
proof -
  have "unat (take_bit (ptm_bits fmt) (drop_bit (12 + ptm_bits fmt * k) va)) = vpn_index fmt va k"
    unfolding unat_take_drop vpn_index_def ..
  then show ?thesis
    unfolding take_bit_eq_mask [symmetric] by (metis word_of_nat_unat_eq)
qed

lemma page_translate_offset_phys:
  assumes "ptm_ok fmt" and "k < ptm_levels fmt"
  shows "page_translate_offset fmt (pte_ppn fmt pte) va (of_nat k) = phys_addr fmt pte va k"
proof -
  have "va AND mask (12 + ptm_bits fmt * k) = of_nat (unat va mod 2 ^ (12 + ptm_bits fmt * k))"
    using unat_take_drop [of "12 + ptm_bits fmt * k" 0 va]
    by (metis take_bit_eq_mask word_of_nat_unat_eq drop_bit_0 id_apply power_0 div_by_1)
  then show ?thesis
    unfolding page_translate_offset_def Let_def level_shift(1) [OF assms] exp_minus_mask phys_addr_def
    by (simp add: push_bit_eq_mult)
qed

text \<open>One iteration of the loop at a level of the format, in the terms of the description.\<close>

definition grant :: "ptm \<Rightarrow> mmu_op \<Rightarrow> u64 \<Rightarrow> nat \<Rightarrow> u64 \<Rightarrow> u64 \<Rightarrow> 'z proc \<Rightarrow>
    ('z proc, u64 \<times> u64 \<times> u64) outcome" where
  "grant fmt mop va k addr pte p =
    (let res = (phys_addr fmt pte va k, pte OR ad_flags mop, of_nat k) in
     if pte_flags pte AND ad_flags mop = ad_flags mop then Ret res p
     else case mem_store (ptm_size fmt) (mem (mmu p)) addr (pte OR ad_flags mop) of
            None \<Rightarrow> raise (fault_cause mop) va p
          | Some m \<Rightarrow> Ret res (set_mem m p))"

lemma bit_ad_flags: "bit (ad_flags mop) n \<Longrightarrow> n < 10"
  by (rule less_numeral_bit [of "ad_flags mop" 1024 10 n]) (auto simp: ad_flags_def)

lemma pte_ppn_ad [simp]: "pte_ppn fmt (pte OR ad_flags mop) = pte_ppn fmt pte"
  by (rule bit_word_eqI) (auto simp: pte_ppn_def bit_get_field bit_or_iff dest: bit_ad_flags)

lemma phys_addr_ad [simp]: "phys_addr fmt (pte OR ad_flags mop) va k = phys_addr fmt pte va k"
  by (simp add: phys_addr_def)

lemma pte_or_ad:
  assumes "pte_flags pte AND ad_flags mop = ad_flags mop"
  shows "pte OR ad_flags mop = pte"
proof (rule bit_word_eqI)
  fix n assume "n < LENGTH(64)"
  have "bit pte n" if "bit (ad_flags mop) n"
    using assms that by (metis bit_and_iff bit_pte_flags)
  then show "bit (pte OR ad_flags mop) n = bit pte n" by (auto simp: bit_or_iff)
qed

lemma walk_loop_level:
  assumes "ptm_wide fmt" and "k < ptm_levels fmt"
  shows "walk_loop (Suc f) fmt mop va (of_nat k) a p =
    (case mem_load (ptm_size fmt) (mem (mmu p)) (entry_addr fmt va a k) of
       None \<Rightarrow> raise (fault_cause mop) va p
     | Some pte \<Rightarrow>
         if pte_pointer pte
         then walk_loop f fmt mop va (of_nat k - 1) (push_bit 12 (pte_ppn fmt pte)) p
         else if pte_leaf pte \<and> superpage_aligned fmt pte k
         then grant fmt mop va k (entry_addr fmt va a k) pte p
         else raise (fault_cause mop) va p)"
proof -
  note ok = ptm_wide_ok [OF assms(1)]
  note shift = level_shift [OF ok assms(2)]
  let ?s = "of_nat (ptm_bits fmt) * of_nat k + 12 :: u64"
  have less: "\<not> 64 \<le> ?s" using shift by (simp add: word_le_nat_alt)
  have "?s - 12 = of_nat (ptm_bits fmt * k)" by simp
  then have "unat (?s - 12) = ptm_bits fmt * k"
    using shift(2) by (simp only: unat_of_nat) (simp add: take_bit_eq_mod)
  then have sub: "unat (?s - 12) = ptm_bits fmt * k" "\<not> 31 \<le> ?s - 12"
    using shift(2) by (simp_all add: word_le_nat_alt)
  have nt: "next_table fmt pte = Some (push_bit 12 (pte_ppn fmt pte))" for pte
    using assms(1) by (auto simp: next_table_def ptm_wide_def sv39_def sv48_def)
  note eqs = walk_loop.simps Let_def shift(1) pte_pointer_test pte_fault_test pte_rx_test nt sub(1)
      walker_index exp_minus_mask mask_dvd page_translate_offset_phys [OF ok assms(2)]
      entry_addr_def [symmetric, unfolded of_nat_mult] phys_addr_ad superpage_aligned_def [symmetric]
  show ?thesis
  proof (cases "mem_load (ptm_size fmt) (mem (mmu p)) (entry_addr fmt va a k)")
    case (Some pte)
    let ?fault = "\<not> bit pte 0 \<or> \<not> bit pte 1 \<and> bit pte 2"
    note step = eqs option.case Some if_not_P [OF less] if_not_P [OF sub(2)]
    consider (pointer) "pte_pointer pte" | (fault) "\<not> pte_pointer pte" "?fault"
      | (leaf) "\<not> pte_pointer pte" "\<not> ?fault" "bit pte 1 \<or> bit pte 3"
      by (auto simp: pte_pointer_def)
    then show ?thesis
    proof cases
      case pointer
      then show ?thesis unfolding step by (simp only: if_True option.case)
    next
      case fault
      then have "\<not> pte_leaf pte" by (auto simp: pte_leaf_def)
      with fault show ?thesis unfolding step by (simp only: if_True if_False simp_thms)
    next
      case leaf
      then have "pte_leaf pte" by (auto simp: pte_leaf_def)
      moreover note pte_or_ad [of pte mop]
      ultimately show ?thesis
        unfolding step grant_def Let_def using leaf
        by (cases "superpage_aligned fmt pte k"; cases "pte_flags pte AND ad_flags mop = ad_flags mop")
          (simp_all only: if_True if_False simp_thms)
    qed
  qed (simp only: eqs option.case less if_False)
qed

lemma grant_returns:
  assumes "ptm_wide fmt" and "mem_load (ptm_size fmt) (mem (mmu p)) addr = Some v"
  obtains p' where "grant fmt mop va k addr pte p =
    Ret (phys_addr fmt pte va k, pte OR ad_flags mop, of_nat k) p'"
proof -
  have "ptm_size fmt = 8" using assms(1) by (auto simp: ptm_wide_def sv39_def sv48_def)
  then obtain m' where "mem_store (ptm_size fmt) (mem (mmu p)) addr (pte OR ad_flags mop) = Some m'"
    using bus_64.store_none [of "mem (mmu p)" addr "pte OR ad_flags mop"] assms(2) by auto
  then show ?thesis
    using that by (cases "pte_flags pte AND ad_flags mop = ad_flags mop") (auto simp: grant_def Let_def)
qed

text \<open>Every mapping is found, and what is found is a mapping.\<close>

lemma walk_loop_complete:
  assumes "translates False fmt (mem (mmu p)) va k a pte l" and "ptm_wide fmt" and "k < ptm_levels fmt"
  shows "\<exists>p'. walk_loop (Suc k + f) fmt mop va (of_nat k) a p =
    Ret (phys_addr fmt pte va l, pte OR ad_flags mop, of_nat l) p'"
  using assms
proof (induction rule: translates.induct)
  case (leaf a k pte)
  have "\<not> pte_pointer pte" using leaf(2) by (auto simp: pte_leaf_def pte_pointer_def)
  then have "walk_loop (Suc k + f) fmt mop va (of_nat k) a p =
      grant fmt mop va k (entry_addr fmt va a k) pte p"
    using leaf(1-3) walk_loop_level [OF leaf(4,5), of "k + f" mop va a p] by simp
  then show ?case using grant_returns [OF leaf(4,1), of mop va k pte] by metis
next
  case (pointer a k pte pte' l)
  have "of_nat (Suc k) - 1 = (of_nat k :: u64)" by simp
  then have "walk_loop (Suc (Suc k + f)) fmt mop va (of_nat (Suc k)) a p =
      walk_loop (Suc k + f) fmt mop va (of_nat k) (push_bit 12 (pte_ppn fmt pte)) p"
    using pointer(1,2) by (simp only: walk_loop_level [OF pointer(6,7)] option.case if_True)
  then show ?case using pointer.IH [OF pointer(6)] pointer(7) by simp
qed

lemma walk_loop_below:
  assumes "ptm_wide fmt"
  shows "walk_loop f fmt mop va (- 1) a p \<noteq> Ret r p'"
proof (cases f)
  case (Suc g)
  have "walk_loop g fmt mop va (- 2) b p = Exit Undefined p" for b
    using walk_loop_bottom [OF ptm_wide_ok [OF assms]] by (cases g) simp_all
  moreover have "31 \<le> (of_nat (ptm_bits fmt) * (- 1) + 12 - 12 :: u64)"
    using assms by (auto simp: ptm_wide_def sv39_def sv48_def)
  ultimately show ?thesis
    by (auto simp: Suc Let_def raise_def split: option.split)
qed simp

lemma grant_result:
  "grant fmt mop va k addr pte p = Ret (pa, pte', lv) p' \<Longrightarrow>
    pa = phys_addr fmt pte va k \<and> pte' = pte OR ad_flags mop \<and> lv = of_nat k"
  by (auto simp: grant_def Let_def raise_def split: if_splits option.splits)

lemma walk_loop_sound:
  assumes "ptm_wide fmt"
    and "walk_loop f fmt mop va (of_nat k) a p = Ret (pa, pte', lv) p'" and "k < ptm_levels fmt"
  shows "\<exists>pte l. translates False fmt (mem (mmu p)) va k a pte l \<and> pa = phys_addr fmt pte va l \<and>
    pte' = pte OR ad_flags mop \<and> lv = of_nat l"
  using assms(2,3)
proof (induction k arbitrary: f a)
  case 0
  then obtain g where f: "f = Suc g" by (cases f) auto
  from 0(1) have "walk_loop (Suc g) fmt mop va (of_nat 0) a p = Ret (pa, pte', lv) p'" by (simp only: f)
  then show ?case
    using walk_loop_below [OF assms(1), of g mop va _ p "(pa, pte', lv)" p']
    unfolding walk_loop_level [OF assms(1) 0(2)]
    by (auto simp: raise_def translates_0 dest!: grant_result split: option.splits if_splits)
next
  case (Suc k)
  then obtain g where f: "f = Suc g" by (cases f) auto
  have "of_nat (Suc k) - 1 = (of_nat k :: u64)" by simp
  then show ?case
    using Suc.IH [of g] Suc.prems
    unfolding f walk_loop_level [OF assms(1) Suc.prems(2)]
    by (auto simp: raise_def translates_Suc dest!: grant_result split: option.splits if_splits, blast)
qed

end
