(* ===== verification/Rv_Csr.thy ===== *)
theory Rv_Csr
  imports Rv_Mmu
begin

text \<open>
  The control and status registers of the RV64 system emulator: the register access functions
  \<^verbatim>\<open>set_csr\<close>, \<^verbatim>\<open>get_csr\<close>, \<^verbatim>\<open>set_csr_hi\<close> and \<^verbatim>\<open>get_csr_hi\<close> of
  \<^verbatim>\<open>src/src/emu/processor-impl.h\<close> and the dispatch \<^verbatim>\<open>inst_csr\<close> of
  \<^verbatim>\<open>src/src/emu/processor-priv-1.9.h\<close>.  The state is the privileged state; \<open>now\<close> is what \<^verbatim>\<open>get_time()\<close> reads from the host clock.  The switch is
  split by privilege level; a group returns \<open>None\<close> for a register it does not have.
\<close>

section \<open>State\<close>

type_synonym 'z sys = "(64, mmu_soft, 'z) processor_priv_scheme"

text \<open>
  A state after the constructors of \<^verbatim>\<open>processor_base\<close> and \<^verbatim>\<open>processor_priv\<close>: machine mode, reset vector
  0x1000.  The constructor leaves the control registers indeterminate; here they are zero.
\<close>

definition sys_start :: "host_fenv \<Rightarrow> mmu_soft \<Rightarrow> (64, mmu_soft) processor_priv" where
  "sys_start env u = \<lparr>pc = 0, ireg = replicate 32 0, freg = replicate 32 0, lr = 0, cause = 0,
     badaddr = 0, running = True, time_ctr = 0, instret = 0, fcsr = 0, fenv = env, mmu = u, pdid = 0, mode = rv_mode_M, resetvec = 0x1000,
     misa = 0, mvendorid = 0, marchid = 0, mimpid = 0, mhartid = 0, mstatus = 0, mtvec = 0,
     medeleg = 0, mideleg = 0, mip = 0, mie = 0, mhcounteren = 0, mscounteren = 0, mucounteren = 0,
     mscratch = 0, mepc = 0, mcause = 0, mbadaddr = 0, mbase = 0, mbound = 0, mibase = 0, mibound = 0,
     mdbase = 0, mdbound = 0, stvec = 0, sedeleg = 0, sideleg = 0, sscratch = 0, sepc = 0, scause = 0,
     sbadaddr = 0, sptbr = 0\<rparr>"

datatype csr_op = csr_rw | csr_rs | csr_rc

definition cur_mode :: "'z sys \<Rightarrow> int" where
  "cur_mode p = sint (ucast (mode p) :: s32)"

section \<open>Register numbers\<close>

abbreviation (input) rv_csr_fflags :: int where "rv_csr_fflags \<equiv> 0x001"
abbreviation (input) rv_csr_frm :: int where "rv_csr_frm \<equiv> 0x002"
abbreviation (input) rv_csr_fcsr :: int where "rv_csr_fcsr \<equiv> 0x003"
abbreviation (input) rv_csr_cycle :: int where "rv_csr_cycle \<equiv> 0xc00"
abbreviation (input) rv_csr_time :: int where "rv_csr_time \<equiv> 0xc01"
abbreviation (input) rv_csr_instret :: int where "rv_csr_instret \<equiv> 0xc02"
abbreviation (input) rv_csr_cycleh :: int where "rv_csr_cycleh \<equiv> 0xc80"
abbreviation (input) rv_csr_timeh :: int where "rv_csr_timeh \<equiv> 0xc81"
abbreviation (input) rv_csr_instreth :: int where "rv_csr_instreth \<equiv> 0xc82"
abbreviation (input) rv_csr_misa :: int where "rv_csr_misa \<equiv> 0x301"
abbreviation (input) rv_csr_mvendorid :: int where "rv_csr_mvendorid \<equiv> 0xf11"
abbreviation (input) rv_csr_marchid :: int where "rv_csr_marchid \<equiv> 0xf12"
abbreviation (input) rv_csr_mimpid :: int where "rv_csr_mimpid \<equiv> 0xf13"
abbreviation (input) rv_csr_mhartid :: int where "rv_csr_mhartid \<equiv> 0xf14"
abbreviation (input) rv_csr_mstatus :: int where "rv_csr_mstatus \<equiv> 0x300"
abbreviation (input) rv_csr_mtvec :: int where "rv_csr_mtvec \<equiv> 0x305"
abbreviation (input) rv_csr_medeleg :: int where "rv_csr_medeleg \<equiv> 0x302"
abbreviation (input) rv_csr_mideleg :: int where "rv_csr_mideleg \<equiv> 0x303"
abbreviation (input) rv_csr_mip :: int where "rv_csr_mip \<equiv> 0x344"
abbreviation (input) rv_csr_mie :: int where "rv_csr_mie \<equiv> 0x304"
abbreviation (input) rv_csr_mhcounteren :: int where "rv_csr_mhcounteren \<equiv> 0x322"
abbreviation (input) rv_csr_mscounteren :: int where "rv_csr_mscounteren \<equiv> 0x321"
abbreviation (input) rv_csr_mucounteren :: int where "rv_csr_mucounteren \<equiv> 0x320"
abbreviation (input) rv_csr_mscratch :: int where "rv_csr_mscratch \<equiv> 0x340"
abbreviation (input) rv_csr_mepc :: int where "rv_csr_mepc \<equiv> 0x341"
abbreviation (input) rv_csr_mcause :: int where "rv_csr_mcause \<equiv> 0x342"
abbreviation (input) rv_csr_mbadaddr :: int where "rv_csr_mbadaddr \<equiv> 0x343"
abbreviation (input) rv_csr_mbase :: int where "rv_csr_mbase \<equiv> 0x380"
abbreviation (input) rv_csr_mbound :: int where "rv_csr_mbound \<equiv> 0x381"
abbreviation (input) rv_csr_mibase :: int where "rv_csr_mibase \<equiv> 0x382"
abbreviation (input) rv_csr_mibound :: int where "rv_csr_mibound \<equiv> 0x383"
abbreviation (input) rv_csr_mdbase :: int where "rv_csr_mdbase \<equiv> 0x384"
abbreviation (input) rv_csr_mdbound :: int where "rv_csr_mdbound \<equiv> 0x385"
abbreviation (input) rv_csr_mcycle :: int where "rv_csr_mcycle \<equiv> 0xb00"
abbreviation (input) rv_csr_minstret :: int where "rv_csr_minstret \<equiv> 0xb02"
abbreviation (input) rv_csr_mcycleh :: int where "rv_csr_mcycleh \<equiv> 0xb80"
abbreviation (input) rv_csr_minstreth :: int where "rv_csr_minstreth \<equiv> 0xb82"
abbreviation (input) rv_csr_sstatus :: int where "rv_csr_sstatus \<equiv> 0x100"
abbreviation (input) rv_csr_stvec :: int where "rv_csr_stvec \<equiv> 0x105"
abbreviation (input) rv_csr_sedeleg :: int where "rv_csr_sedeleg \<equiv> 0x102"
abbreviation (input) rv_csr_sideleg :: int where "rv_csr_sideleg \<equiv> 0x103"
abbreviation (input) rv_csr_sip :: int where "rv_csr_sip \<equiv> 0x144"
abbreviation (input) rv_csr_sie :: int where "rv_csr_sie \<equiv> 0x104"
abbreviation (input) rv_csr_sscratch :: int where "rv_csr_sscratch \<equiv> 0x140"
abbreviation (input) rv_csr_sepc :: int where "rv_csr_sepc \<equiv> 0x141"
abbreviation (input) rv_csr_scause :: int where "rv_csr_scause \<equiv> 0x142"
abbreviation (input) rv_csr_sbadaddr :: int where "rv_csr_sbadaddr \<equiv> 0x143"
abbreviation (input) rv_csr_sptbr :: int where "rv_csr_sptbr \<equiv> 0x180"

section \<open>Access functions\<close>

definition csr_mode :: "int \<Rightarrow> int" where
  "csr_mode csr = drop_bit 8 csr AND 3"

definition csr_readonly :: "int \<Rightarrow> bool" where
  "csr_readonly csr \<longleftrightarrow> drop_bit 12 csr AND 1 \<noteq> 0"

text \<open>\<^verbatim>\<open>if (dec.rd != rv_ireg_x0) P::ireg[dec.rd] = (mode >= csr_mode) ? v : 0\<close>\<close>

definition csr_result :: "decode \<Rightarrow> int \<Rightarrow> int \<Rightarrow> u64 \<Rightarrow> 'z sys \<Rightarrow> 'z sys" where
  "csr_result dec md csr v p =
    (if dec_rd dec \<noteq> 0
     then p\<lparr>ireg := (ireg p)[unat (dec_rd dec) := (if md \<ge> csr_mode csr then v else 0)]\<rparr>
     else p)"

definition set_csr :: "decode \<Rightarrow> int \<Rightarrow> csr_op \<Rightarrow> int \<Rightarrow> 'r::len word \<Rightarrow> u64 \<Rightarrow> 'r word \<Rightarrow> 'r word \<Rightarrow>
    nat \<Rightarrow> 'z sys \<Rightarrow> 'r word \<times> 'z sys" where
  "set_csr dec md op csr reg value write_mask read_mask shift p =
    (let p' = csr_result dec md csr (ucast (drop_bit shift reg AND read_mask)) p;
         w = push_bit shift (ucast value AND write_mask)
     in (if csr_readonly csr then reg
         else case op of
                csr_rw \<Rightarrow> (reg AND NOT (push_bit shift write_mask)) OR w
              | csr_rs \<Rightarrow> if value \<noteq> 0 then reg OR w else reg
              | csr_rc \<Rightarrow> if value \<noteq> 0 then reg AND NOT w else reg, p'))"

definition get_csr :: "decode \<Rightarrow> int \<Rightarrow> int \<Rightarrow> u64 \<Rightarrow> 'z sys \<Rightarrow> 'z sys" where
  "get_csr dec md csr reg p = csr_result dec md csr reg p"

definition set_csr_hi :: "decode \<Rightarrow> int \<Rightarrow> csr_op \<Rightarrow> int \<Rightarrow> u64 \<Rightarrow> u64 \<Rightarrow> 'z sys \<Rightarrow> u64 \<times> 'z sys" where
  "set_csr_hi dec md op csr reg value p =
    (let p' = csr_result dec md csr (scast (ucast (drop_bit 32 reg) :: s32)) p
     in (if csr_readonly csr then reg
         else case op of
                csr_rw \<Rightarrow> push_bit 32 value OR (reg AND 0xffffffff)
              | csr_rs \<Rightarrow> if value \<noteq> 0 then reg OR push_bit 32 value else reg
              | csr_rc \<Rightarrow> if value \<noteq> 0 then reg AND (NOT (push_bit 32 value) OR 0xffffffff) else reg, p'))"

definition get_csr_hi :: "decode \<Rightarrow> int \<Rightarrow> int \<Rightarrow> u64 \<Rightarrow> 'z sys \<Rightarrow> 'z sys" where
  "get_csr_hi dec md csr reg p = csr_result dec md csr (scast (ucast (drop_bit 32 reg) :: s32)) p"

section \<open>Masks\<close>

definition fflags_mask :: u32 where "fflags_mask = 0x1f"
definition frm_mask :: u32 where "frm_mask = 0x3"
definition fcsr_mask :: u32 where "fcsr_mask = 0xff"
definition misa_rmask :: u64 where "misa_rmask = - 1"
definition misa_wmask :: u64 where "misa_wmask = push_bit 62 1 - 1"
definition mstatus_rmask :: u64 where "mstatus_rmask = - 1"
definition mstatus_wmask :: u64 where "mstatus_wmask = push_bit 63 1 - 1"
definition sstatus_rmask :: u64 where "sstatus_rmask = 0b1011110000100110011 OR push_bit 63 1"
definition sstatus_wmask :: u64 where "sstatus_wmask = 0b1011110000100110011"
definition mi_mask :: u64 where "mi_mask = - 1"
definition si_mask :: u64 where "si_mask = 0b001100110011"
definition tvec_rmask :: u64 where "tvec_rmask = - 1"
definition tvec_wmask :: u64 where "tvec_wmask = push_bit 2 (- 1)"

lemmas csr_mask_defs = fflags_mask_def frm_mask_def fcsr_mask_def misa_rmask_def misa_wmask_def
  mstatus_rmask_def mstatus_wmask_def sstatus_rmask_def sstatus_wmask_def mi_mask_def si_mask_def
  tvec_rmask_def tvec_wmask_def

section \<open>Dispatch\<close>

text \<open>A 64-bit register of the state, by its selector and update function.\<close>

definition csr_reg :: "decode \<Rightarrow> int \<Rightarrow> csr_op \<Rightarrow> int \<Rightarrow> u64 \<Rightarrow> ('z sys \<Rightarrow> u64) \<Rightarrow>
    ((u64 \<Rightarrow> u64) \<Rightarrow> 'z sys \<Rightarrow> 'z sys) \<Rightarrow> u64 \<Rightarrow> u64 \<Rightarrow> 'z sys \<Rightarrow> 'z sys" where
  "csr_reg dec md op csr value get upd wmask rmask p =
    (case set_csr dec md op csr (get p) value wmask rmask 0 p of (r, q) \<Rightarrow> upd (\<lambda>_. r) q)"

definition csr_reg_hi :: "decode \<Rightarrow> int \<Rightarrow> csr_op \<Rightarrow> int \<Rightarrow> u64 \<Rightarrow> ('z sys \<Rightarrow> u64) \<Rightarrow>
    ((u64 \<Rightarrow> u64) \<Rightarrow> 'z sys \<Rightarrow> 'z sys) \<Rightarrow> 'z sys \<Rightarrow> 'z sys" where
  "csr_reg_hi dec md op csr value get upd p =
    (case set_csr_hi dec md op csr (get p) value p of (r, q) \<Rightarrow> upd (\<lambda>_. r) q)"

text \<open>\<^verbatim>\<open>fflags\<close> and \<^verbatim>\<open>fcsr\<close> first collect the host's flags, then clear those the write cleared.\<close>

definition csr_float :: "decode \<Rightarrow> csr_op \<Rightarrow> int \<Rightarrow> u64 \<Rightarrow> 'z sys \<Rightarrow> 'z sys option" where
  "csr_float dec op csr value p =
    (if csr = rv_csr_fflags then
       (let p = p\<lparr>fcsr := fenv_getflags (fenv p) (fcsr p)\<rparr> in
        case set_csr dec 0 op csr (fcsr p) value fflags_mask fflags_mask 0 p of (r, p) \<Rightarrow>
          Some (p\<lparr>fcsr := r, fenv := fenv_clearflags r (fenv p)\<rparr>))
     else if csr = rv_csr_frm then
       (case set_csr dec 0 op csr (fcsr p) value frm_mask frm_mask 5 p of (r, p) \<Rightarrow>
          Some (p\<lparr>fcsr := r, fenv := fenv_setrm (drop_bit 5 r AND 7) (fenv p)\<rparr>))
     else if csr = rv_csr_fcsr then
       (let p = p\<lparr>fcsr := fenv_getflags (fenv p) (fcsr p)\<rparr> in
        case set_csr dec 0 op csr (fcsr p) value fcsr_mask fcsr_mask 0 p of (r, p) \<Rightarrow>
          Some (p\<lparr>fcsr := r, fenv := fenv_setrm (drop_bit 5 r AND 7) (fenv_clearflags r (fenv p))\<rparr>))
     else None)"

definition csr_counter :: "u64 \<Rightarrow> decode \<Rightarrow> int \<Rightarrow> 'z sys \<Rightarrow> 'z sys option" where
  "csr_counter now dec csr p =
    (if csr = rv_csr_cycle then Some (get_csr dec 0 csr (instret p) p)
     else if csr = rv_csr_time then Some (let p = p\<lparr>time_ctr := now\<rparr> in get_csr dec 0 csr (time_ctr p) p)
     else if csr = rv_csr_instret then Some (get_csr dec (cur_mode p) csr (instret p) p)
     else if csr = rv_csr_cycleh then Some (get_csr_hi dec (cur_mode p) csr (instret p) p)
     else if csr = rv_csr_timeh then Some (get_csr_hi dec (cur_mode p) csr (time_ctr p) p)
     else if csr = rv_csr_instreth then Some (get_csr_hi dec (cur_mode p) csr (instret p) p)
     else None)"

definition csr_machine :: "decode \<Rightarrow> csr_op \<Rightarrow> int \<Rightarrow> u64 \<Rightarrow> 'z sys \<Rightarrow> 'z sys option" where
  "csr_machine dec op csr value p =
    (if csr = rv_csr_misa then Some (csr_reg dec (cur_mode p) op csr value misa misa_update misa_wmask misa_rmask p)
     else if csr = rv_csr_mvendorid then Some (get_csr dec (cur_mode p) csr (mvendorid p) p)
     else if csr = rv_csr_marchid then Some (get_csr dec (cur_mode p) csr (marchid p) p)
     else if csr = rv_csr_mimpid then Some (get_csr dec (cur_mode p) csr (mimpid p) p)
     else if csr = rv_csr_mhartid then Some (get_csr dec (cur_mode p) csr (mhartid p) p)
     else if csr = rv_csr_mstatus then Some (csr_reg dec (cur_mode p) op csr value mstatus mstatus_update mstatus_wmask mstatus_rmask p)
     else if csr = rv_csr_mtvec then Some (csr_reg dec (cur_mode p) op csr value mtvec mtvec_update tvec_rmask tvec_wmask p)
     else if csr = rv_csr_medeleg then Some (csr_reg dec (cur_mode p) op csr value medeleg medeleg_update (- 1) (- 1) p)
     else if csr = rv_csr_mideleg then Some (csr_reg dec (cur_mode p) op csr value mideleg mideleg_update (- 1) (- 1) p)
     else if csr = rv_csr_mip then Some (csr_reg dec (cur_mode p) op csr value mip mip_update mi_mask mi_mask p)
     else if csr = rv_csr_mie then Some (csr_reg dec (cur_mode p) op csr value mie mie_update mi_mask mi_mask p)
     else if csr = rv_csr_mhcounteren then Some (csr_reg dec (cur_mode p) op csr value mhcounteren mhcounteren_update (- 1) (- 1) p)
     else if csr = rv_csr_mscounteren then Some (csr_reg dec (cur_mode p) op csr value mscounteren mscounteren_update (- 1) (- 1) p)
     else if csr = rv_csr_mucounteren then Some (csr_reg dec (cur_mode p) op csr value mucounteren mucounteren_update (- 1) (- 1) p)
     else if csr = rv_csr_mscratch then Some (csr_reg dec (cur_mode p) op csr value mscratch mscratch_update (- 1) (- 1) p)
     else if csr = rv_csr_mepc then Some (csr_reg dec (cur_mode p) op csr value mepc mepc_update (- 1) (- 1) p)
     else if csr = rv_csr_mcause then Some (csr_reg dec (cur_mode p) op csr value mcause mcause_update (- 1) (- 1) p)
     else if csr = rv_csr_mbadaddr then Some (csr_reg dec (cur_mode p) op csr value mbadaddr mbadaddr_update (- 1) (- 1) p)
     else if csr = rv_csr_mbase then Some (csr_reg dec (cur_mode p) op csr value mbase mbase_update (- 1) (- 1) p)
     else if csr = rv_csr_mbound then Some (csr_reg dec (cur_mode p) op csr value mbound mbound_update (- 1) (- 1) p)
     else if csr = rv_csr_mibase then Some (csr_reg dec (cur_mode p) op csr value mibase mibase_update (- 1) (- 1) p)
     else if csr = rv_csr_mibound then Some (csr_reg dec (cur_mode p) op csr value mibound mibound_update (- 1) (- 1) p)
     else if csr = rv_csr_mdbase then Some (csr_reg dec (cur_mode p) op csr value mdbase mdbase_update (- 1) (- 1) p)
     else if csr = rv_csr_mdbound then Some (csr_reg dec (cur_mode p) op csr value mdbound mdbound_update (- 1) (- 1) p)
     else if csr = rv_csr_mcycle then Some (csr_reg dec 0 op csr value instret instret_update (- 1) (- 1) p)
     else if csr = rv_csr_minstret then Some (csr_reg dec (cur_mode p) op csr value instret instret_update (- 1) (- 1) p)
     else if csr = rv_csr_mcycleh then Some (csr_reg_hi dec (cur_mode p) op csr value instret instret_update p)
     else if csr = rv_csr_minstreth then Some (csr_reg_hi dec (cur_mode p) op csr value instret instret_update p)
     else None)"

definition csr_super :: "decode \<Rightarrow> csr_op \<Rightarrow> int \<Rightarrow> u64 \<Rightarrow> 'z sys \<Rightarrow> 'z sys option" where
  "csr_super dec op csr value p =
    (if csr = rv_csr_sstatus then Some (csr_reg dec (cur_mode p) op csr value mstatus mstatus_update sstatus_wmask sstatus_rmask p)
     else if csr = rv_csr_stvec then Some (csr_reg dec (cur_mode p) op csr value stvec stvec_update tvec_rmask tvec_wmask p)
     else if csr = rv_csr_sedeleg then Some (csr_reg dec (cur_mode p) op csr value sedeleg sedeleg_update (- 1) (- 1) p)
     else if csr = rv_csr_sideleg then Some (csr_reg dec (cur_mode p) op csr value sideleg sideleg_update (- 1) (- 1) p)
     else if csr = rv_csr_sip then Some (csr_reg dec (cur_mode p) op csr value mip mip_update si_mask si_mask p)
     else if csr = rv_csr_sie then Some (csr_reg dec (cur_mode p) op csr value mie mie_update si_mask si_mask p)
     else if csr = rv_csr_sscratch then Some (csr_reg dec (cur_mode p) op csr value sscratch sscratch_update (- 1) (- 1) p)
     else if csr = rv_csr_sepc then Some (csr_reg dec (cur_mode p) op csr value sepc sepc_update (- 1) (- 1) p)
     else if csr = rv_csr_scause then Some (csr_reg dec (cur_mode p) op csr value scause scause_update (- 1) (- 1) p)
     else if csr = rv_csr_sbadaddr then Some (csr_reg dec (cur_mode p) op csr value sbadaddr sbadaddr_update (- 1) (- 1) p)
     else if csr = rv_csr_sptbr then Some (csr_reg dec (cur_mode p) op csr value sptbr sptbr_update (- 1) (- 1) p)
     else None)"

definition inst_csr :: "u64 \<Rightarrow> decode \<Rightarrow> csr_op \<Rightarrow> int \<Rightarrow> u64 \<Rightarrow> u64 \<Rightarrow> 'z sys \<Rightarrow> u64 \<times> 'z sys" where
  "inst_csr now dec op csr value pc_offset p =
    (case csr_float dec op csr value p of Some q \<Rightarrow> (pc_offset, q) | None \<Rightarrow>
     case csr_counter now dec csr p of Some q \<Rightarrow> (pc_offset, q) | None \<Rightarrow>
     case csr_machine dec op csr value p of Some q \<Rightarrow> (pc_offset, q) | None \<Rightarrow>
     case csr_super dec op csr value p of Some q \<Rightarrow> (pc_offset, q) | None \<Rightarrow> (- 1, p))"

end
