(* ===== verification/Rv_Mmu_Props.thy ===== *)
theory Rv_Mmu_Props
  imports Rv_Mmu_Laws Rv_Csr Rv_Codec
begin

text \<open>
  Properties of the memory system: the bus, the translation look-aside buffer, the page table
  walker and the accesses of the software memory management unit.
\<close>

section \<open>A concrete machine\<close>

text \<open>
  The state the witnesses use: one segment of 64 KiB at physical address 0, user mode, Sv39
  translation, root table at 0x1000, empty TLBs.
\<close>

definition demo :: "host_memory \<Rightarrow> (64, mmu_soft) processor_priv" where
  "demo hm = (sys_start \<lparr>fe_divbyzero = False, fe_inexact = False, fe_invalid = False, fe_overflow = False,
       fe_underflow = False, fe_round = FE_TONEAREST\<rparr>
     \<lparr>l1_itlb = tlb_init, l1_dtlb = tlb_init, mem = \<lparr>segments = [\<lparr>seg_mpa = 0, seg_uva = 0,
        seg_size = 0x10000, seg_flags = 0\<rparr>], hmem = hm\<rparr>\<rparr>)
     \<lparr>mode := rv_mode_U, mstatus := push_bit 24 9, sptbr := 1\<rparr>"

text \<open>The root entry 0 is a leaf: a user page of 1 GiB, readable and writable, mapped to itself.\<close>

definition demo_leaf :: host_memory where
  "demo_leaf = (\<lambda>_. 0)(0x1000 := 0x17)"

text \<open>The root entry 0 is zero, hence invalid; the word at physical address 0 is a leaf.\<close>

definition demo_invalid :: host_memory where
  "demo_invalid = (\<lambda>_. 0)(0 := 0x17)"

lemma demo_fields [simp]:
  "mode (demo hm) = rv_mode_U" "mstatus (demo hm) = push_bit 24 9" "sptbr (demo hm) = 1" "pdid (demo hm) = 0"
  "l1_itlb (mmu (demo hm)) = tlb_init" "l1_dtlb (mmu (demo hm)) = tlb_init"
  "mem (mmu (demo hm)) = \<lparr>segments = [\<lparr>seg_mpa = 0, seg_uva = 0, seg_size = 0x10000, seg_flags = 0\<rparr>], hmem = hm\<rparr>"
  by (simp_all add: demo_def sys_start_def)

lemma demo_load:
  "bus_size n \<Longrightarrow> mem_load n \<lparr>segments = [\<lparr>seg_mpa = 0, seg_uva = 0, seg_size = 0x10000, seg_flags = 0\<rparr>],
    hmem = hm\<rparr> a = (if a < 0x10000 then Some (read_bytes hm a n) else None)"
  by (simp add: mem_load_def mpa_to_uva_def in_segment_def)

lemma read_bytes_2: "read_bytes hm a 2 = ucast (hm a) OR push_bit 8 (ucast (hm (a + 1)))"
  by (simp add: numeral_2_eq_2)

lemma read_bytes_8:
  "read_bytes hm a 8 = ucast (hm a) OR push_bit 8 (ucast (hm (a + 1))) OR push_bit 16 (ucast (hm (a + 2))) OR
    push_bit 24 (ucast (hm (a + 3))) OR push_bit 32 (ucast (hm (a + 4))) OR push_bit 40 (ucast (hm (a + 5))) OR
    push_bit 48 (ucast (hm (a + 6))) OR push_bit 56 (ucast (hm (a + 7)))"
proof -
  have "read_bytes hm a 8 = read_bytes hm a (Suc (Suc (Suc (Suc (Suc (Suc (Suc (Suc 0))))))))"
    by (rule arg_cong [where f = "read_bytes hm a"]) simp
  then show ?thesis by (simp add: add.assoc)
qed

section \<open>The bus\<close>

text \<open>
  After a store, a load of the same size and address returns the stored bytes, and every
  load whose bytes lie elsewhere in host memory returns what it did before.
\<close>

lemma bus_store_load:
  assumes "mem_store n m a v = Some m'"
  shows "mem_load n m' a = Some (take_bit (8 * n) v) \<and>
    (\<forall>k b ua ub. mpa_to_uva m a = Some ua \<longrightarrow> mpa_to_uva m b = Some ub \<longrightarrow>
      (\<forall>j<k. n \<le> unat (ub + of_nat j - ua)) \<longrightarrow> mem_load k m' b = mem_load k m b)"
proof -
  have n: "bus_size n" using assms by (auto simp: mem_store_def split: if_splits)
  then have "n \<le> 8" by (auto simp: bus_size_def)
  obtain ua where ua: "mpa_to_uva m a = Some ua" and m': "m' = m\<lparr>hmem := write_bytes (hmem m) ua n v\<rparr>"
    using assms n by (auto simp: mem_store_def split: option.splits)
  have "mem_load k m' b = mem_load k m b"
    if "mpa_to_uva m b = Some ub" "\<forall>j<k. n \<le> unat (ub + of_nat j - ua)" for k b ub
    using that read_write_other [OF \<open>n \<le> 8\<close>, of k ub ua "hmem m" v]
    by (auto simp: mem_load_def m' bus_size_def)
  then show ?thesis using memory_bus.load_store [OF memory_bus_user [OF n] assms] ua by auto
qed

text \<open>Witness: a word stored at address 8, next to the word at address 16.\<close>

lemma bus_store_load_example:
  "\<exists>m'. mem_store 8 (mem (mmu (demo demo_leaf))) 8 0x1234 = Some m' \<and> mem_load 8 m' 8 = Some 0x1234 \<and>
    mem_load 8 m' 16 = mem_load 8 (mem (mmu (demo demo_leaf))) 16"
proof -
  let ?m = "mem (mmu (demo demo_leaf))"
  have uva: "mpa_to_uva ?m 8 = Some 8" "mpa_to_uva ?m 16 = Some 16"
    by (simp_all add: mpa_to_uva_def in_segment_def)
  obtain m' where m': "mem_store 8 ?m 8 0x1234 = Some m'"
    using uva by (simp add: mem_store_def bus_size_def)
  have "8 \<le> unat (16 + of_nat j - 8 :: u64)" if "j < 8" for j
  proof -
    have "unat (of_nat (8 + j) :: u64) = 8 + j" unfolding unat_of_nat using that by simp
    moreover have "16 + of_nat j - 8 = (of_nat (8 + j) :: u64)" by simp
    ultimately show ?thesis by (simp only:)
  qed
  with bus_store_load [OF m'] uva m' show ?thesis by (auto simp: take_bit_eq_mod)
qed

section \<open>The translation look-aside buffer\<close>

text \<open>
  A translation just inserted is found, with the fields it was inserted with, for every key
  that fits the tag fields; a look-up for any other page that hits found the same entry before the
  insertion.
\<close>

lemma tlb_insert_lookup:
  assumes "tlb_ok t" and "pd < 0x100000000" and "asid < 0x4000000"
    and "tlb_insert t pd asid va ptel pteb ppn = (t', i)"
  shows "tlb_lookup t' pd asid va = Some i \<and>
    t' ! i = tlb_entry_make pd asid (drop_bit 12 va) ptel pteb ppn \<and>
    (\<forall>pd' asid' va' j. (pd', asid', drop_bit 12 va') \<noteq> (pd, asid, drop_bit 12 va) \<longrightarrow>
      tlb_lookup t' pd' asid' va' = Some j \<longrightarrow> tlb_lookup t pd' asid' va' = Some j \<and> t' ! j = t ! j)"
proof -
  let ?k = "(pd, asid, drop_bit 12 va)" and ?e = "tlb_entry_make pd asid (drop_bit 12 va) ptel pteb ppn"
  have t': "t' = tlb_put t ?k ?e" and i: "i = tlb_index (drop_bit 12 va)"
    using assms(4) by (simp_all add: tlb_insert_put)
  have "unat (drop_bit 12 va) < 2 ^ 52"
    using unsigned_less [of va, where 'a = nat] by (simp add: drop_bit_eq_div unat_div less_mult_imp_div_less)
  then have "key_ok ?k" using assms(2,3) by (simp add: key_ok_def word_less_nat_alt)
  note tags = tags_make [OF this, of ptel pteb ppn]
  have entry: "t' ! i = ?e"
    using assms(1) tlb_index_less by (simp add: t' i tlb_put_def tlb_ok_def)
  have "tlb_lookup t' pd asid va = Some i"
    using tlb_cache.insert_found [OF assms(1) tags] entry by (simp add: tlb_lookup_abs t' i)
  moreover have "tlb_lookup t pd' asid' va' = Some j \<and> t' ! j = t ! j"
    if "(pd', asid', drop_bit 12 va') \<noteq> ?k" "tlb_lookup t' pd' asid' va' = Some j" for pd' asid' va' j
  proof -
    have "tlb_abs t' (pd', asid', drop_bit 12 va') = Some (t' ! j)" and j: "j = tlb_index (drop_bit 12 va')"
      using that(2) by (simp_all add: tlb_lookup_abs)
    then have abs: "tlb_abs t (pd', asid', drop_bit 12 va') = Some (t' ! j)"
      using tlb_cache.insert_other [OF assms(1) tags that(1)] by (simp add: t')
    then have "t' ! j = t ! j" by (auto simp: tlb_abs_def j split: if_splits)
    with abs show ?thesis by (simp add: tlb_lookup_abs j)
  qed
  ultimately show ?thesis using entry by blast
qed

text \<open>Witness: page 5 of address space 1 in an empty table.\<close>

lemma tlb_insert_lookup_example:
  "tlb_lookup (fst (tlb_insert tlb_init 0 1 0x5123 0 0xdf 0x80005)) 0 1 0x5fff = Some 5"
proof -
  have "tlb_ok tlb_init" "(0 :: u64) < 0x100000000" "(1 :: u64) < 0x4000000"
    by (simp_all add: tlb_ok_def tlb_init_def)
  from tlb_insert_lookup [OF this, where va = "0x5123" and ptel = 0 and pteb = "0xdf" and ppn = "0x80005"]
  have "tlb_lookup (fst (tlb_insert tlb_init 0 1 0x5123 0 0xdf 0x80005)) 0 1 0x5123 = Some 5"
    by (simp add: tlb_insert_def tlb_index_def Let_def)
  moreover have "drop_bit 12 0x5123 = (drop_bit 12 0x5fff :: u64)" by simp
  ultimately show ?thesis unfolding tlb_lookup_def by (simp only:)
qed

section \<open>The page table walker\<close>

text \<open>The physical address of the root table.\<close>

definition root_table :: "'z proc \<Rightarrow> u64" where
  "root_table p = push_bit 12 (sptbr p AND (push_bit 38 1 - 1))"

lemma levels_minus_one:
  assumes "ptm_wide fmt"
  shows "(of_nat (ptm_levels fmt) - 1 :: u64) = of_nat (ptm_levels fmt - 1)"
    and "ptm_levels fmt - 1 < ptm_levels fmt" and "ptm_levels fmt + 2 = Suc (ptm_levels fmt - 1) + 2"
  using assms by (auto simp: ptm_wide_def sv39_def sv48_def)

lemma walk_iff:
  assumes "ptm_wide fmt"
  shows "(\<exists>q. walk_page_table fmt mop va p = Ret (pa, pte', lv) q) \<longleftrightarrow>
    (\<exists>pte l. translates False fmt (mem (mmu p)) va (ptm_levels fmt - 1) (root_table p) pte l \<and>
      pa = phys_addr fmt pte va l \<and> pte' = pte OR ad_flags mop \<and> lv = of_nat l)" (is "?l \<longleftrightarrow> ?r")
proof
  note lev = levels_minus_one [OF assms]
  have walk: "walk_page_table fmt mop va p =
      walk_loop (Suc (ptm_levels fmt - 1) + 2) fmt mop va (of_nat (ptm_levels fmt - 1)) (root_table p) p"
    by (simp only: walk_page_table_def root_table_def lev(1,3))
  show "?l \<Longrightarrow> ?r" using walk_loop_sound [OF assms _ lev(2)] unfolding walk by blast
  show "?r \<Longrightarrow> ?l" using walk_loop_complete [OF _ assms lev(2), of p va "root_table p" _ _ 2 mop]
    unfolding walk by blast
qed

text \<open>
  C22.  The walker implements the page tables, for Sv39 and Sv48.  If the pointer entries on the way are valid, it returns
  a physical address, entry and level exactly if the tables in memory map the virtual address to them, where the mapping
  is the inductive description \<open>translates\<close> over naturals and bits.  The entry it returns has the accessed flag, and for a
  store the dirty flag, set.  It does not look at the flag V of a pointer entry (see \<open>walk_follows_invalid\<close> below): in
  general it returns what the mapping is that ignores this flag.
\<close>

theorem walk_page_table_iff:
  assumes "ptm_wide fmt"
  shows "(pointers_valid fmt (mem (mmu p)) va (ptm_levels fmt - 1) (root_table p) \<longrightarrow>
      (\<exists>q. walk_page_table fmt mop va p = Ret (pa, pte', lv) q) =
      (\<exists>pte l. translates True fmt (mem (mmu p)) va (ptm_levels fmt - 1) (root_table p) pte l \<and>
        pa = phys_addr fmt pte va l \<and> pte' = pte OR ad_flags mop \<and> lv = of_nat l)) \<and>
    (\<exists>q. walk_page_table fmt mop va p = Ret (pa, pte', lv) q) =
    (\<exists>pte l. translates False fmt (mem (mmu p)) va (ptm_levels fmt - 1) (root_table p) pte l \<and>
      pa = phys_addr fmt pte va l \<and> pte' = pte OR ad_flags mop \<and> lv = of_nat l)"
  unfolding walk_iff [OF assms] by (simp add: translates_valid)

text \<open>Witness: the user page of 1 GiB, at address 0x2008.\<close>

theorem walk_page_table_iff_witness:
  "\<exists>q. walk_page_table sv39 op_load 0x2008 (demo demo_leaf) = Ret (0x2008, 0x57, 2) q"
proof -
  let ?m = "mem (mmu (demo demo_leaf))" and ?a = "root_table (demo demo_leaf)"
  have root: "mem_load (ptm_size sv39) ?m (entry_addr sv39 0x2008 ?a 2) = Some 0x17"
    by (simp add: demo_load bus_size_def sv39_def entry_addr_def vpn_index_def root_table_def demo_leaf_def read_bytes_8)
  then have "translates True sv39 ?m 0x2008 2 ?a 0x17 2"
    by (rule translates.leaf) (simp_all add: pte_leaf_def superpage_aligned_def pte_ppn_def get_field_def sv39_def)
  moreover have "pointers_valid sv39 ?m 0x2008 2 ?a"
    using root by (simp add: numeral_2_eq_2 pte_pointer_def)
  moreover have "phys_addr sv39 0x17 0x2008 2 = 0x2008" "0x57 = 0x17 OR ad_flags op_load" "ptm_wide sv39" "ptm_levels sv39 - 1 = 2"
    by (simp_all add: phys_addr_def sv39_def pte_ppn_def get_field_def ad_flags_def ptm_wide_def)
  ultimately show ?thesis
    using walk_page_table_iff [of sv39 "demo demo_leaf" "0x2008" op_load "0x2008" "0x57" 2]
    by (metis of_nat_numeral)
qed



text \<open>
  The walker follows pointer entries that are not valid: it does not test the flag V of an
  entry before it goes to the next level.  Here the root entry is zero, so the virtual address is
  not mapped, and the walk succeeds through the word at physical address 0.
\<close>

lemma walk_follows_invalid:
  "mem_load 8 (mem (mmu (demo demo_invalid))) 0x1000 = Some 0 \<and>
    (\<nexists>pte l. translates True sv39 (mem (mmu (demo demo_invalid))) 0x2008 2
      (root_table (demo demo_invalid)) pte l) \<and>
    (\<exists>q. walk_page_table sv39 op_load 0x2008 (demo demo_invalid) = Ret (0x2008, 0x57, 1) q)"
proof -
  let ?m = "mem (mmu (demo demo_invalid))" and ?a = "root_table (demo demo_invalid)"
  have root: "mem_load (ptm_size sv39) ?m (entry_addr sv39 0x2008 ?a 2) = Some 0" "?a = 0x1000"
    and first: "mem_load (ptm_size sv39) ?m (entry_addr sv39 0x2008 0 1) = Some 0x17"
    by (simp_all add: demo_load bus_size_def sv39_def entry_addr_def vpn_index_def root_table_def
        demo_invalid_def read_bytes_8)
  have "\<not> translates True sv39 ?m 0x2008 2 ?a pte l" for pte l
    using root by (simp add: numeral_2_eq_2 translates_Suc pte_leaf_def)
  moreover have "translates False sv39 ?m 0x2008 1 0 0x17 1"
    using first by (intro translates.leaf)
      (simp_all add: pte_leaf_def superpage_aligned_def pte_ppn_def get_field_def sv39_def)
  then have "translates False sv39 ?m 0x2008 2 ?a 0x17 1"
    using root(1) by (simp add: numeral_2_eq_2 translates_Suc pte_pointer_def pte_ppn_def get_field_def)
  moreover have "phys_addr sv39 0x17 0x2008 1 = 0x2008" "0x57 = 0x17 OR ad_flags op_load"
    by (simp_all add: phys_addr_def sv39_def pte_ppn_def get_field_def ad_flags_def)
  ultimately have "\<exists>q. walk_page_table sv39 op_load 0x2008 (demo demo_invalid) = Ret (0x2008, 0x57, 1) q"
    by (intro iffD2 [OF walk_iff] exI [of _ "0x17"] exI [of _ 1]) (simp_all add: sv39_def ptm_wide_def)
  then show ?thesis
    using \<open>\<And>pte l. \<not> translates True sv39 ?m 0x2008 2 ?a pte l\<close> root
    by (simp add: entry_addr_def vpn_index_def sv39_def)
qed

section \<open>Accesses\<close>

lemma ent_flag_make:
  assumes "i < 10"
  shows "ent_flag (tlb_entry_make pd asid vpn ptel (pte_flags pte) ppn) (push_bit i 1) \<longleftrightarrow> bit pte i"
proof -
  have "i < LENGTH(64)" using assms by simp
  note and_push_bit_one [OF this, of "ucast (ucast (pte_flags pte) :: 10 word)"]
  then show ?thesis
    using assms by (simp add: ent_flag_def tlb_entry_make_def bit_simps bit_pte_flags)
qed

lemma ent_flags_make:
  "ent_flag (tlb_entry_make pd asid vpn ptel (pte_flags pte) ppn) pte_flag_R \<longleftrightarrow> bit pte 1"
  "ent_flag (tlb_entry_make pd asid vpn ptel (pte_flags pte) ppn) pte_flag_W \<longleftrightarrow> bit pte 2"
  "ent_flag (tlb_entry_make pd asid vpn ptel (pte_flags pte) ppn) pte_flag_X \<longleftrightarrow> bit pte 3"
  "ent_flag (tlb_entry_make pd asid vpn ptel (pte_flags pte) ppn) pte_flag_U \<longleftrightarrow> bit pte 4"
  using ent_flag_make [of 1 pd asid vpn ptel pte ppn] ent_flag_make [of 2 pd asid vpn ptel pte ppn]
    ent_flag_make [of 3 pd asid vpn ptel pte ppn] ent_flag_make [of 4 pd asid vpn ptel pte ppn]
  by simp_all

text \<open>What a translation in user mode through the page tables returns, if the TLB has no entry.\<close>

lemma bit_or_ad: "i < 6 \<Longrightarrow> bit (pte OR ad_flags mop) i \<longleftrightarrow> bit pte i"
proof -
  have "\<not> bit (0x40 :: u64) i" "\<not> bit (0x80 :: u64) i" if "i < 6"
    using that bit_push_bit_iff [of 6 "1 :: u64" i] bit_push_bit_iff [of 7 "1 :: u64" i] by simp_all
  then show "i < 6 \<Longrightarrow> bit (pte OR ad_flags mop) i \<longleftrightarrow> bit pte i"
    by (auto simp: ad_flags_def bit_simps)
qed

definition active_format :: "ptm \<Rightarrow> 'z proc \<Rightarrow> bool" where
  "active_format fmt p \<longleftrightarrow>
    (if status_vm (mstatus p) = 9 then fmt = sv39 else if status_vm (mstatus p) = 10 then fmt = sv48 else False)"

text \<open>
  The translation walks the tables: the TLB has no entry for the page, or one that has the flags the access would set.
  (An entry without them is used as it is.)
\<close>

definition walks :: "mmu_op \<Rightarrow> u64 \<Rightarrow> 'z proc \<Rightarrow> bool" where
  "walks mop va p \<longleftrightarrow>
    (case tlb_lookup (get_tlb mop p) (pdid p) (drop_bit 38 (sptbr p)) va of None \<Rightarrow> True
     | Some i \<Rightarrow> ucast (ent_pteb (get_tlb mop p ! i)) AND ad_flags mop = ad_flags mop)"

lemma user_translation:
  fixes p :: "'z proc"
  assumes "mode p = rv_mode_U" and "active_format fmt p" and "tlbs_ok p" and "walks mop va p"
    and "translate_addr mop va p = Ret (pa, ent) q"
  shows "\<exists>pte l. translates False fmt (mem (mmu p)) va (ptm_levels fmt - 1) (root_table p) pte l \<and>
    pa = phys_addr fmt pte va l \<and> mode q = mode p \<and> mstatus q = mstatus p \<and>
    (pa \<noteq> 0 \<longrightarrow> (\<exists>e. ent = Some e \<and> (ent_flag e pte_flag_R \<longleftrightarrow> bit pte 1) \<and> (ent_flag e pte_flag_W \<longleftrightarrow> bit pte 2) \<and>
      (ent_flag e pte_flag_X \<longleftrightarrow> bit pte 3) \<and> (ent_flag e pte_flag_U \<longleftrightarrow> bit pte 4)))"
proof -
  have wide: "ptm_wide fmt" using assms(2) by (auto simp: active_format_def ptm_wide_def split: if_splits)
  have "effective_mode p mop = 0" using assms(1) by (simp add: effective_mode_def)
  then have "page_translate_addr fmt mop va p = Ret (pa, ent) q"
    using assms(2,5) by (auto simp: translate_addr_def active_format_def split: if_splits)
  then obtain ent0 where miss: "page_translate_addr_tlb_miss fmt mop va ent0 p = Ret (pa, ent) q"
    using assms(4) by (auto simp: page_translate_addr_def walks_def Let_def split: option.splits)
  then obtain pa' pte' lv p' where walk: "walk_page_table fmt mop va p = Ret (pa', pte', lv) p'"
    by (cases "walk_page_table fmt mop va p") (auto simp: page_translate_addr_tlb_miss_def)
  obtain pte l where tr: "translates False fmt (mem (mmu p)) va (ptm_levels fmt - 1) (root_table p) pte l"
    and pa': "pa' = phys_addr fmt pte va l" and pte': "pte' = pte OR ad_flags mop"
    using iffD1 [OF walk_iff [OF wide, of mop va p pa' pte' lv]] walk by blast
  obtain u b where p': "p' = p\<lparr>mmu := u, badaddr := b\<rparr>"
    using only_mmu_walk_loop [of p "ptm_levels fmt + 2" fmt mop va] walk
    unfolding walk_page_table_def only_mmu_def by (metis outcome.sel(2))
  have "tlb_index vpn < length (get_tlb mop p')" for vpn
    using tlbs_ok_walk_loop [OF assms(3), of "ptm_levels fmt + 2" fmt mop va] walk tlb_index_less
    unfolding walk_page_table_def by (metis get_tlb_def outcome.sel(2) tlb_ok_def tlbs_ok_def)
  then show ?thesis
    using miss tr unfolding page_translate_addr_tlb_miss_def walk
    by (intro exI [of _ pte] exI [of _ l])
      (auto simp: pa' pte' p' tlb_insert_def Let_def ent_flags_make bit_or_ad set_tlb_def split: if_splits)
qed

text \<open>
  C24.  A load in user mode under Sv39 or Sv48 whose translation walks the tables returns a value only from a page that
  the page tables map with the flag U and the flag R (or X, if \<open>mstatus.mxr\<close> is set), and the value
  is the contents of memory at the mapped address.  If the pointer entries on the way are valid this is the mapping of the
  architecture; the flag V of pointer entries is not looked at, so in general it is the mapping that ignores it.
\<close>

theorem user_load_permitted:
  fixes p :: "'z proc"
  assumes "mode p = rv_mode_U" and "active_format fmt p" and "tlbs_ok p" and "walks op_load va p"
    and "soft_load n va p = Ret v q"
  shows "\<exists>pte l. translates False fmt (mem (mmu p)) va (ptm_levels fmt - 1) (root_table p) pte l \<and>
    (pointers_valid fmt (mem (mmu p)) va (ptm_levels fmt - 1) (root_table p) \<longrightarrow>
      translates True fmt (mem (mmu p)) va (ptm_levels fmt - 1) (root_table p) pte l) \<and>
    bit pte 4 \<and> (bit pte 1 \<or> bit pte 3 \<and> status_mxr (mstatus p) \<noteq> 0) \<and>
    mem_load n (mem (mmu q)) (phys_addr fmt pte va l) = Some v"
proof -
  obtain pa ent p' where tr: "translate_addr op_load va p = Ret (pa, ent) p'"
    using assms(5) by (cases "translate_addr op_load va p") (auto simp: soft_load_def raise_def split: if_splits)
  obtain pte l where pte: "translates False fmt (mem (mmu p)) va (ptm_levels fmt - 1) (root_table p) pte l"
    "pa = phys_addr fmt pte va l" "mode p' = mode p" "mstatus p' = mstatus p"
    "pa \<noteq> 0 \<longrightarrow> (\<exists>e. ent = Some e \<and> (ent_flag e pte_flag_R \<longleftrightarrow> bit pte 1) \<and> (ent_flag e pte_flag_X \<longleftrightarrow> bit pte 3) \<and>
      (ent_flag e pte_flag_U \<longleftrightarrow> bit pte 4))"
    using user_translation [OF assms(1-4) tr] by blast
  show ?thesis
    using pte assms(1,5) tr
    by (intro exI [of _ pte] exI [of _ l])
      (auto simp: translates_valid soft_load_def raise_def load_access_fault_def split: if_splits option.splits)
qed

text \<open>
  The concrete machine with a leaf in the root table: a load of address 0x2008 sets the accessed
  flag of the entry in memory and fills entry 2 of the data TLB.
\<close>

abbreviation (input) demo_mem :: "host_memory \<Rightarrow> user_memory" where
  "demo_mem hm \<equiv> \<lparr>segments = [\<lparr>seg_mpa = 0, seg_uva = 0, seg_size = 0x10000, seg_flags = 0\<rparr>], hmem = hm\<rparr>"

lemma demo_store:
  "bus_size n \<Longrightarrow> mem_store n (demo_mem hm) a v = (if a < 0x10000 then Some (demo_mem (write_bytes hm a n v)) else None)"
  by (simp add: mem_store_def mpa_to_uva_def in_segment_def)

lemma demo_walk:
  "walk_page_table sv39 mop 0x2008 (demo demo_leaf) =
    Ret (0x2008, 0x17 OR ad_flags mop, 2) (set_mem (demo_mem (write_bytes demo_leaf 0x1000 8 (0x17 OR ad_flags mop))) (demo demo_leaf))"
proof -
  have wide: "ptm_wide sv39" "2 < ptm_levels sv39" by (simp_all add: ptm_wide_def sv39_def)
  have "walk_page_table sv39 mop 0x2008 (demo demo_leaf) =
      walk_loop (Suc 4) sv39 mop 0x2008 (of_nat 2) 0x1000 (demo demo_leaf)"
    by (simp add: walk_page_table_def sv39_def)
  also have "\<dots> = grant sv39 mop 0x2008 2 0x1000 0x17 (demo demo_leaf)"
    unfolding walk_loop_level [OF wide]
    by (simp add: demo_load bus_size_def sv39_def entry_addr_def vpn_index_def read_bytes_8 demo_leaf_def
        pte_pointer_def pte_leaf_def superpage_aligned_def pte_ppn_def get_field_def)
  also have "\<dots> = Ret (0x2008, 0x17 OR ad_flags mop, 2)
      (set_mem (demo_mem (write_bytes demo_leaf 0x1000 8 (0x17 OR ad_flags mop))) (demo demo_leaf))"
    by (simp add: grant_def sv39_def phys_addr_def pte_ppn_def get_field_def pte_flags_def ad_flags_def demo_store
        bus_size_def Let_def)
  finally show ?thesis .
qed

definition demo_entry :: tlb_entry where
  "demo_entry = tlb_entry_make 0 0 2 2 0x57 0"

lemma demo_status:
  "status_vm (mstatus (demo hm)) = 9" "effective_mode (demo hm) mop = 0" "tlbs_ok (demo hm)"
  "tlb_lookup (get_tlb mop (demo hm)) (pdid (demo hm)) (drop_bit 38 (sptbr (demo hm))) 0x2008 = None"
  by (simp_all add: effective_mode_def get_field_def tlbs_ok_def tlb_ok_def tlb_init_def tlb_lookup_def
      tlb_index_def tlb_size_def tlb_match_def tlb_entry_default_def get_tlb_def
      unsigned_minus_1_eq_mask mask_eq_exp_minus_1)

lemma demo_active: "active_format sv39 (demo hm)"
  using demo_status(1) by (simp add: active_format_def)

lemma demo_walks: "walks mop 0x2008 (demo hm)"
  unfolding walks_def demo_status(4) by simp

lemma length_init: "length tlb_init = 128"
  by (simp add: tlb_init_def tlb_size_def)

lemma demo_miss: "tlb_lookup tlb_init 0 0 0x2008 = None"
  using demo_status(4) [of op_load] by (simp add: get_tlb_def)

lemma demo_load_run:
  "soft_load 8 0x2008 (demo demo_leaf) = Ret 0 (set_tlb op_load (tlb_init[2 := demo_entry])
    (set_mem (demo_mem (write_bytes demo_leaf 0x1000 8 0x57)) (demo demo_leaf)))"
proof -
  let ?m = "demo_mem (write_bytes demo_leaf 0x1000 8 0x57)"
  have "tlb_index 2 = 2" "(0x17 :: u64) OR ad_flags op_load = 0x57" "pte_ppn sv39 0x57 = 0" "pte_flags 0x57 = 0x57"
    by (simp_all add: tlb_index_def ad_flags_def pte_ppn_def pte_flags_def get_field_def sv39_def)
  then have "translate_addr op_load 0x2008 (demo demo_leaf) =
      Ret (0x2008, Some demo_entry) (set_tlb op_load (tlb_init[2 := demo_entry]) (set_mem ?m (demo demo_leaf)))"
    by (simp add: translate_addr_def page_translate_addr_def page_translate_addr_tlb_miss_def get_tlb_def
        demo_walk tlb_insert_def demo_entry_def set_mem_def demo_miss demo_status(2) get_field_def length_init)
  moreover have "ent_flag demo_entry pte_flag_U" "ent_flag demo_entry pte_flag_R"
    by (simp_all add: ent_flag_def demo_entry_def tlb_entry_make_def)
  moreover have "read_bytes (write_bytes demo_leaf 0x1000 8 0x57) 0x2008 8 = 0"
    by (simp add: read_bytes_8 write_bytes_at demo_leaf_def)
  ultimately show ?thesis
    by (simp add: soft_load_def misaligned_def load_access_fault_def set_tlb_def set_mem_def demo_load bus_size_def)
qed

text \<open>Witness: the load of the concrete machine.\<close>

theorem user_load_permitted_witness:
  "\<exists>v q pte l. soft_load 8 0x2008 (demo demo_leaf) = Ret v q \<and>
    translates False sv39 (mem (mmu (demo demo_leaf))) 0x2008 2 (root_table (demo demo_leaf)) pte l \<and>
    bit pte 4 \<and> mem_load 8 (mem (mmu q)) (phys_addr sv39 pte 0x2008 l) = Some v"
proof -
  have "mode (demo demo_leaf) = rv_mode_U" "ptm_levels sv39 - 1 = 2" by (simp_all add: sv39_def)
  from user_load_permitted [OF this(1) demo_active demo_status(3) demo_walks demo_load_run, unfolded this(2)] demo_load_run
  show ?thesis by blast
qed

text \<open>
  C25.  A store in user mode under Sv39 or Sv48 whose translation walks the tables returns only if the page tables map
  the address with the flags U and W, and then a load of the mapped address returns the stored
  bytes; the one exception is the physical address 0, where the store returns and nothing is stored.  As for loads, the
  mapping is that of the architecture if the pointer entries on the way are valid.
\<close>

theorem user_store_permitted:
  fixes p :: "'z proc"
  assumes "mode p = rv_mode_U" and "active_format fmt p" and "tlbs_ok p" and "walks op_store va p"
    and "soft_store n va v p = Ret () q"
  shows "\<exists>pte l. translates False fmt (mem (mmu p)) va (ptm_levels fmt - 1) (root_table p) pte l \<and>
    (pointers_valid fmt (mem (mmu p)) va (ptm_levels fmt - 1) (root_table p) \<longrightarrow>
      translates True fmt (mem (mmu p)) va (ptm_levels fmt - 1) (root_table p) pte l) \<and>
    (if phys_addr fmt pte va l = 0 then \<exists>ent. translate_addr op_store va p = Ret (0, ent) q
     else bit pte 4 \<and> bit pte 2 \<and> mem_load n (mem (mmu q)) (phys_addr fmt pte va l) = Some (take_bit (8 * n) v))"
proof -
  obtain pa ent p' where tr: "translate_addr op_store va p = Ret (pa, ent) p'"
    using assms(5) by (cases "translate_addr op_store va p") (auto simp: soft_store_def raise_def split: if_splits)
  have "bus_size n" if "mem_store n m a v = Some m'" for m a m'
    using that by (auto simp: mem_store_def split: if_splits)
  then have "mem_load n m' a = Some (take_bit (8 * n) v)" if "mem_store n m a v = Some m'" for m a m'
    using that memory_bus.load_store [OF memory_bus_user that] by blast
  note stored = this
  obtain pte l where pte: "translates False fmt (mem (mmu p)) va (ptm_levels fmt - 1) (root_table p) pte l"
    "pa = phys_addr fmt pte va l" "mode p' = mode p"
    "pa \<noteq> 0 \<longrightarrow> (\<exists>e. ent = Some e \<and> (ent_flag e pte_flag_W \<longleftrightarrow> bit pte 2) \<and> (ent_flag e pte_flag_U \<longleftrightarrow> bit pte 4))"
    using user_translation [OF assms(1-4) tr] by blast
  show ?thesis
    using pte assms(1,5) tr
    by (intro exI [of _ pte] exI [of _ l])
      (auto simp: translates_valid soft_store_def raise_def store_access_fault_def set_mem_def stored split: if_splits option.splits)
qed

lemma demo_store_run:
  "soft_store 8 0x2008 0x1234 (demo demo_leaf) = Ret () (set_tlb op_store
    (tlb_init[2 := tlb_entry_make 0 0 2 2 0xd7 0])
    (set_mem (demo_mem (write_bytes (write_bytes demo_leaf 0x1000 8 0xd7) 0x2008 8 0x1234)) (demo demo_leaf)))"
proof -
  let ?m = "demo_mem (write_bytes demo_leaf 0x1000 8 0xd7)" and ?e = "tlb_entry_make 0 0 2 2 0xd7 0"
  have "tlb_index 2 = 2" "(0x17 :: u64) OR ad_flags op_store = 0xd7" "pte_ppn sv39 0xd7 = 0" "pte_flags 0xd7 = 0xd7"
    by (simp_all add: tlb_index_def ad_flags_def pte_ppn_def pte_flags_def get_field_def sv39_def)
  then have "translate_addr op_store 0x2008 (demo demo_leaf) =
      Ret (0x2008, Some ?e) (set_tlb op_store (tlb_init[2 := ?e]) (set_mem ?m (demo demo_leaf)))"
    by (simp add: translate_addr_def page_translate_addr_def page_translate_addr_tlb_miss_def get_tlb_def
        demo_walk tlb_insert_def set_mem_def demo_miss demo_status(2) get_field_def length_init)
  moreover have "ent_flag ?e pte_flag_U" "ent_flag ?e pte_flag_W"
    by (simp_all add: ent_flag_def tlb_entry_make_def)
  ultimately show ?thesis
    by (simp add: soft_store_def misaligned_def store_access_fault_def set_tlb_def set_mem_def demo_store bus_size_def)
qed

text \<open>Witness: a store to the concrete machine.\<close>

theorem user_store_permitted_witness:
  "\<exists>q pte l. soft_store 8 0x2008 0x1234 (demo demo_leaf) = Ret () q \<and>
    translates False sv39 (mem (mmu (demo demo_leaf))) 0x2008 2 (root_table (demo demo_leaf)) pte l \<and>
    (phys_addr sv39 pte 0x2008 l = 0 \<or> bit pte 2 \<and>
      mem_load 8 (mem (mmu q)) (phys_addr sv39 pte 0x2008 l) = Some (take_bit 64 0x1234))"
proof -
  have "mode (demo demo_leaf) = rv_mode_U" "ptm_levels sv39 - 1 = 2" "8 * 8 = (64 :: nat)" by (simp_all add: sv39_def)
  from user_store_permitted [OF this(1) demo_active demo_status(3) demo_walks demo_store_run, unfolded this(2,3)] demo_store_run
  show ?thesis by metis
qed

text \<open>
  A store can leave the dirty flag of its page clear.  The test that decides whether a
  TLB entry may be used is inverted: an entry is used exactly if it lacks a flag the access should
  have set.  Here a load fills the TLB with a clean entry, and the store that follows uses it: the
  store succeeds, and the entry in memory has the accessed flag but not the dirty flag.
\<close>

lemma store_leaves_page_clean:
  "\<exists>v q r. soft_load 8 0x2008 (demo demo_leaf) = Ret v q \<and> soft_store 8 0x2008 0x1234 q = Ret () r \<and>
    mem_load 8 (mem (mmu r)) 0x2008 = Some 0x1234 \<and> mem_load 8 (mem (mmu r)) 0x1000 = Some 0x57 \<and>
    0x57 AND pte_flag_D = 0"
proof -
  let ?hm = "write_bytes demo_leaf 0x1000 8 0x57"
  let ?q = "set_tlb op_load (tlb_init[2 := demo_entry]) (set_mem (demo_mem ?hm) (demo demo_leaf))"
  let ?r = "set_mem (demo_mem (write_bytes ?hm 0x2008 8 0x1234)) ?q"
  have "translate_addr op_store 0x2008 ?q = Ret (0x2008, Some demo_entry) ?q"
  proof -
    have "tlb_lookup (tlb_init[2 := demo_entry]) 0 0 0x2008 = Some 2"
      by (simp add: tlb_lookup_def tlb_index_def tlb_match_def length_init demo_entry_def tlb_entry_make_def)
    moreover have "ucast (ent_pteb demo_entry) AND ad_flags op_store \<noteq> ad_flags op_store"
      by (simp add: demo_entry_def tlb_entry_make_def ad_flags_def)
    moreover have "page_translate_offset sv39 (ucast (ent_ppn demo_entry)) 0x2008 (ucast (ent_ptel demo_entry)) = 0x2008"
      by (simp add: page_translate_offset_def sv39_def demo_entry_def tlb_entry_make_def)
    moreover have "effective_mode ?q op_store = 0"
      by (simp add: effective_mode_def set_tlb_def set_mem_def)
    ultimately show ?thesis
      by (simp add: translate_addr_def page_translate_addr_def get_tlb_def set_tlb_def set_mem_def
          get_field_def length_init Let_def)
  qed
  moreover have "ent_flag demo_entry pte_flag_U" "ent_flag demo_entry pte_flag_W"
    by (simp_all add: ent_flag_def demo_entry_def tlb_entry_make_def)
  ultimately have "soft_store 8 0x2008 0x1234 ?q = Ret () ?r"
    by (simp add: soft_store_def misaligned_def store_access_fault_def set_tlb_def set_mem_def demo_store bus_size_def)
  moreover have "mem_load 8 (mem (mmu ?r)) 0x2008 = Some 0x1234" "mem_load 8 (mem (mmu ?r)) 0x1000 = Some 0x57"
    by (simp_all add: set_mem_def demo_load bus_size_def read_bytes_8 write_bytes_at)
  ultimately show ?thesis using demo_load_run by auto
qed

section \<open>Instruction fetch\<close>

lemma and_or_high:
  fixes a b c :: "'a::len word"
  assumes "take_bit m c = c"
  shows "(a OR push_bit m b) AND c = a AND c"
proof (rule bit_word_eqI)
  fix i assume "i < LENGTH('a)"
  have "bit c i \<Longrightarrow> i < m" using assms by (metis bit_take_bit_iff)
  then show "bit ((a OR push_bit m b) AND c) i = bit (a AND c) i" by (auto simp: bit_simps)
qed

lemma inst_length_or_high:
  assumes "0 < k"
  shows "inst_length (inst OR push_bit (16 * k) h) = inst_length inst"
proof -
  have "(inst OR push_bit (16 * k) h) AND c = inst AND c" if "take_bit 16 c = c" for c
  proof (rule and_or_high)
    show "take_bit (16 * k) c = c"
    proof (rule bit_word_eqI)
      fix i
      have "bit c i \<Longrightarrow> i < 16" using that by (metis bit_take_bit_iff)
      then show "bit (take_bit (16 * k) c) i = bit c i" using assms by (auto simp: bit_take_bit_iff)
    qed
  qed
  from this [of "0b11"] this [of "0b11100"] this [of "0b111111"] this [of "0b1111111"]
  show ?thesis by (simp add: inst_length_def)
qed

lemma fetch_half_bits:
  assumes "fetch_half pcv mpa k inst p = Ret inst' q"
  obtains h where "inst' = inst OR push_bit (16 * k) h" and "\<And>i. bit h i \<Longrightarrow> i < 16" and "q = p"
proof -
  obtain h where h: "mem_load 2 (mem (mmu p)) (mpa + of_nat (2 * k)) = Some h"
    and res: "inst' = inst OR push_bit (16 * k) h" "q = p"
    using assms by (auto simp: fetch_half_def raise_def split: option.splits)
  have "take_bit 16 h = h" using bus_16.load_bound [OF h] by simp
  then have "i < 16" if "bit h i" for i using that by (metis bit_take_bit_iff)
  then show ?thesis using that res by blast
qed

lemma fetch_half_step:
  assumes "fetch_half pcv mpa k inst p = Ret inst' q"
  shows "0 < k \<Longrightarrow> inst_length inst' = inst_length inst"
    and "(\<And>i. bit inst i \<Longrightarrow> i < 16 * k) \<Longrightarrow> bit inst' i \<Longrightarrow> i < 16 * Suc k"
proof -
  obtain h where h: "inst' = inst OR push_bit (16 * k) h" "\<And>i. bit h i \<Longrightarrow> i < 16"
    using fetch_half_bits [OF assms] by blast
  show "0 < k \<Longrightarrow> inst_length inst' = inst_length inst" by (simp add: h(1) inst_length_or_high)
  show "(\<And>i. bit inst i \<Longrightarrow> i < 16 * k) \<Longrightarrow> bit inst' i \<Longrightarrow> i < 16 * Suc k"
    using h(2) [of "i - 16 * k"] by (fastforce simp: h(1) bit_simps)
qed

lemma bind_Ret_iff: "bind_outcome r f = Ret a s \<longleftrightarrow> (\<exists>b t. r = Ret b t \<and> f b t = Ret a s)"
  by (cases r) simp_all

text \<open>
  The offset that an instruction fetch returns is the length the instruction's low bits
  encode, 2, 4, 6 or 8 bytes, and the instruction has no bits beyond it: the memory management unit
  and the codec agree on instruction lengths.  The exception is physical address 0, which yields
  the illegal instruction 0.
\<close>

lemma soft_inst_fetch_length:
  assumes "soft_inst_fetch pcv off p = Ret (inst, n) q"
  shows "inst = 0 \<and> n = off \<or>
    inst_length inst \<in> {2, 4, 6, 8} \<and> n = of_nat (inst_length inst) \<and> (\<forall>i. bit inst i \<longrightarrow> i < 8 * inst_length inst)"
proof -
  obtain pa ent p1 where tr: "translate_addr op_fetch pcv p = Ret (pa, ent) p1"
    using assms by (cases "translate_addr op_fetch pcv p") (auto simp: soft_inst_fetch_def raise_def split: if_splits)
  show ?thesis
  proof (cases "pa = 0")
    case True
    then show ?thesis using assms tr by (auto simp: soft_inst_fetch_def raise_def split: if_splits)
  next
    case False
    then obtain i0 p2 where f0: "fetch_half pcv pa 0 0 p1 = Ret i0 p2"
      using assms tr
      by (cases "fetch_half pcv pa 0 0 p1") (auto simp: soft_inst_fetch_def raise_def split: if_splits)
    then have b0: "\<And>i. bit i0 i \<Longrightarrow> i < 16" by (auto elim!: fetch_half_bits simp: bit_simps)
    consider (two) "inst_length i0 = 2" "inst = i0" "n = 2"
      | (four) "inst_length i0 = 4" "fetch_half pcv pa 1 i0 p2 = Ret inst q" "n = 4"
      | (six) i1 p3 where "inst_length i0 = 6" "fetch_half pcv pa 1 i0 p2 = Ret i1 p3"
          "fetch_half pcv pa 2 i1 p3 = Ret inst q" "n = 6"
      | (eight) i1 p3 i2 p4 where "inst_length i0 = 8" "fetch_half pcv pa 1 i0 p2 = Ret i1 p3"
          "fetch_half pcv pa 2 i1 p3 = Ret i2 p4" "fetch_half pcv pa 3 i2 p4 = Ret inst q" "n = 8"
      using assms tr f0 False
      by (auto simp: soft_inst_fetch_def inst_length_def raise_def bind_Ret_iff split: if_splits)
    then show ?thesis
    proof cases
      case two
      then show ?thesis using b0 by simp
    next
      case four
      then show ?thesis using fetch_half_step [OF four(2)] b0 by simp
    next
      case six
      note s1 = fetch_half_step [OF six(2)] and s2 = fetch_half_step [OF six(3)]
      show ?thesis using s1 s2 b0 six(1,4) by simp
    next
      case eight
      note s1 = fetch_half_step [OF eight(2)] and s2 = fetch_half_step [OF eight(3)]
        and s3 = fetch_half_step [OF eight(4)]
      show ?thesis using s1 s2 s3 b0 eight(1,5) by simp
    qed
  qed
qed

text \<open>Witness: \<open>addi a0, zero, 1\<close> at address 0x200 of the concrete machine in machine mode.\<close>

lemma soft_inst_fetch_length_example:
  "\<exists>q. soft_inst_fetch 0x200 0 (demo ((\<lambda>_. 0)(0x200 := 0x13, 0x201 := 5, 0x202 := 0x10))\<lparr>mode := rv_mode_M\<rparr>) =
    Ret (0x100513, 4) q \<and> inst_length 0x100513 = 4"
proof -
  let ?p = "demo ((\<lambda>_. 0)(0x200 := 0x13, 0x201 := 5, 0x202 := 0x10))\<lparr>mode := rv_mode_M\<rparr>"
  have "soft_inst_fetch 0x200 0 ?p = Ret (0x100513, 4) ?p"
    by (simp add: soft_inst_fetch_def misaligned_def translate_addr_def effective_mode_def fetch_access_fault_def
        fetch_half_def demo_load bus_size_def get_field_def read_bytes_2)
  with soft_inst_fetch_length [OF this] show ?thesis by (auto simp: inst_length_def)
qed

text \<open>
  In machine mode without \<open>mstatus.mprv\<close> the software memory management unit is memory: an
  aligned store that returns, at an address other than 0, is read back by a load of the same size,
  and neither changes anything but memory.
\<close>

lemma machine_store_load:
  fixes p :: "'z proc"
  assumes "mode p = rv_mode_M" and "status_mprv (mstatus p) = 0" and "va \<noteq> 0"
    and "soft_store n va v p = Ret () q"
  shows "soft_load n va q = Ret (take_bit (8 * n) v) q \<and> (\<exists>m. q = set_mem m p)"
proof -
  have eff: "translate_addr mop va r = Ret (va, None) r"
    if "mode r = rv_mode_M" "status_mprv (mstatus r) = 0" for mop and r :: "'z proc"
    using that by (simp add: translate_addr_def effective_mode_def)
  obtain m where m: "mem_store n (mem (mmu p)) va v = Some m" and q: "q = set_mem m p" and al: "\<not> misaligned n va"
    using assms by (auto simp: soft_store_def eff raise_def store_access_fault_def split: if_splits option.splits)
  have "bus_size n" using m by (auto simp: mem_store_def split: if_splits)
  from memory_bus.load_store [OF memory_bus_user [OF this] m]
  show ?thesis using q al assms(1-3) by (auto simp: soft_load_def eff set_mem_def load_access_fault_def)
qed

text \<open>Witness: a halfword at address 0x200 of the concrete machine.\<close>

lemma machine_store_load_example:
  "\<exists>q. soft_store 2 0x200 0x12345 (demo demo_leaf\<lparr>mode := rv_mode_M\<rparr>) = Ret () q \<and>
    soft_load 2 0x200 q = Ret 0x2345 q"
proof -
  let ?p = "demo demo_leaf\<lparr>mode := rv_mode_M\<rparr>"
  let ?q = "set_mem (demo_mem (write_bytes demo_leaf 0x200 2 0x12345)) ?p"
  have m: "mode ?p = rv_mode_M" "status_mprv (mstatus ?p) = 0" "(0x200 :: u64) \<noteq> 0"
    by (simp_all add: get_field_def)
  have "soft_store 2 0x200 0x12345 ?p = Ret () ?q"
    by (simp add: soft_store_def misaligned_def translate_addr_def effective_mode_def store_access_fault_def
        demo_store bus_size_def get_field_def)
  with machine_store_load [OF m this] show ?thesis by (auto simp: take_bit_eq_mod)
qed

end
