(* ===== verification/Rv_Csr_Laws.thy ===== *)
theory Rv_Csr_Laws
  imports Rv_Csr
begin

text \<open>
  Laws of the control and status registers.  A register is an interface: a selector and an update
  function that are independent of the integer registers.  What the instructions
  \<^verbatim>\<open>csrrw\<close>, \<^verbatim>\<open>csrrs\<close> and \<^verbatim>\<open>csrrc\<close> do with a register is proved once for the interface.
\<close>

section \<open>Frame\<close>

text \<open>What no access to a control register changes.\<close>

definition csr_frame :: "'z sys \<Rightarrow> 'z sys \<Rightarrow> bool" where
  "csr_frame p q \<longleftrightarrow> mode q = mode p \<and> pc q = pc p \<and> mmu q = mmu p \<and> pdid q = pdid p \<and>
     running q = running p \<and> (regs_ok p \<longrightarrow> regs_ok q)"

lemma regs_ok_ireg_upd:
  "regs_ok p \<Longrightarrow> i \<noteq> 0 \<Longrightarrow> regs_ok (p\<lparr>ireg := (ireg p)[i := v]\<rparr>)"
  by (simp add: regs_ok_def nth_list_update)

lemma csr_result_frame: "csr_frame p (csr_result dec md csr v p)"
  by (auto simp: csr_frame_def csr_result_def regs_ok_ireg_upd unat_eq_0)

lemma set_csr_state:
  "snd (set_csr dec md op csr reg value wm rm sh p) =
    csr_result dec md csr (ucast (drop_bit sh reg AND rm)) p"
  "snd (set_csr_hi dec md op csr r64 value p) =
    csr_result dec md csr (scast (ucast (drop_bit 32 r64) :: s32)) p"
  by (simp_all add: set_csr_def set_csr_hi_def Let_def)

lemma csr_frame_trans: "csr_frame p q \<Longrightarrow> csr_frame q r \<Longrightarrow> csr_frame p r"
  by (auto simp: csr_frame_def)

lemma csr_frame_reg:
  assumes "\<And>f q. csr_frame q (upd f q)"
  shows "csr_frame p (csr_reg dec md op csr value get upd wm rm p)"
    and "csr_frame p (csr_reg_hi dec md op csr value get upd p)"
  using csr_frame_trans [OF csr_result_frame assms]
  by (simp_all add: csr_reg_def csr_reg_hi_def case_prod_unfold set_csr_state)

lemma csr_frame_upd:
  "csr_frame p (misa_update f p)" "csr_frame p (mstatus_update f p)" "csr_frame p (mtvec_update f p)"
  "csr_frame p (medeleg_update f p)" "csr_frame p (mideleg_update f p)" "csr_frame p (mip_update f p)"
  "csr_frame p (mie_update f p)" "csr_frame p (mhcounteren_update f p)"
  "csr_frame p (mscounteren_update f p)" "csr_frame p (mucounteren_update f p)"
  "csr_frame p (mscratch_update f p)" "csr_frame p (mepc_update f p)" "csr_frame p (mcause_update f p)"
  "csr_frame p (mbadaddr_update f p)" "csr_frame p (mbase_update f p)" "csr_frame p (mbound_update f p)"
  "csr_frame p (mibase_update f p)" "csr_frame p (mibound_update f p)" "csr_frame p (mdbase_update f p)"
  "csr_frame p (mdbound_update f p)" "csr_frame p (instret_update g p)" "csr_frame p (stvec_update f p)"
  "csr_frame p (sedeleg_update f p)" "csr_frame p (sideleg_update f p)" "csr_frame p (sscratch_update f p)"
  "csr_frame p (sepc_update f p)" "csr_frame p (scause_update f p)" "csr_frame p (sbadaddr_update f p)"
  "csr_frame p (sptbr_update f p)" "csr_frame p (time_ctr_update g p)" "csr_frame p (fcsr_update h p)"
  "csr_frame p (fenv_update e p)"
  by (simp_all add: csr_frame_def regs_ok_def)

lemma csr_float_frame: "csr_float dec op csr value p = Some q \<Longrightarrow> csr_frame p q"
  unfolding csr_float_def Let_def case_prod_unfold set_csr_state
  by (auto split: if_splits intro!: csr_frame_upd csr_result_frame
      csr_frame_trans [OF _ csr_frame_upd(32)] csr_frame_trans [OF _ csr_frame_upd(31)]
      csr_frame_trans [OF csr_frame_upd(31) csr_result_frame])

lemma csr_counter_frame: "csr_counter now dec csr p = Some q \<Longrightarrow> csr_frame p q"
  unfolding csr_counter_def Let_def get_csr_def get_csr_hi_def
  by (auto split: if_splits intro: csr_result_frame csr_frame_trans [OF csr_frame_upd(30) csr_result_frame])

lemma csr_machine_frame: "csr_machine dec op csr value p = Some q \<Longrightarrow> csr_frame p q"
  unfolding csr_machine_def get_csr_def
  by (auto split: if_splits intro: csr_result_frame csr_frame_reg csr_frame_upd)

lemma csr_super_frame: "csr_super dec op csr value p = Some q \<Longrightarrow> csr_frame p q"
  unfolding csr_super_def by (auto split: if_splits intro: csr_frame_reg csr_frame_upd)

lemma inst_csr_frame: "csr_frame p (snd (inst_csr now dec op csr value off p))"
  by (auto simp: inst_csr_def csr_frame_def [of p p] split: option.split
      dest: csr_float_frame csr_counter_frame csr_machine_frame csr_super_frame)

section \<open>Registers as an interface\<close>

locale csr_register =
  fixes get :: "'z sys \<Rightarrow> u64" and upd :: "(u64 \<Rightarrow> u64) \<Rightarrow> 'z sys \<Rightarrow> 'z sys"
  assumes get_upd: "get (upd f p) = f (get p)"
    and get_ireg: "get (ireg_update g p) = get p"
    and ireg_upd: "ireg (upd f p) = ireg p"
    and mode_upd: "mode (upd f p) = mode p"
begin

lemma get_result [simp]: "get (csr_result dec md csr v p) = get p"
  by (simp add: csr_result_def get_ireg)

text \<open>The value each operation leaves in the register.\<close>

lemma csr_reg_value:
  assumes "\<not> csr_readonly csr"
  shows "get (csr_reg dec md csr_rw csr v get upd wm rm p) = (get p AND NOT wm) OR (v AND wm)"
    and "get (csr_reg dec md csr_rs csr v get upd wm rm p) = get p OR (v AND wm)"
    and "get (csr_reg dec md csr_rc csr v get upd wm rm p) = get p AND NOT (v AND wm)"
  using assms by (simp_all add: csr_reg_def set_csr_def get_upd Let_def)

lemma csr_reg_value_ones:
  assumes "\<not> csr_readonly csr"
  shows "get (csr_reg dec md csr_rw csr v get upd (- 1) rm p) = v"
  by (simp add: csr_reg_value [OF assms])

text \<open>The value each operation returns, and that it touches no other integer register.\<close>

lemma csr_reg_result:
  assumes "length (ireg p) = 32" and "dec_rd dec < 32" and "dec_rd dec \<noteq> 0"
  shows "get_reg (csr_reg dec md opn csr v get upd wm rm p) (dec_rd dec) =
    (if csr_mode csr \<le> md then get p AND rm else 0)"
proof -
  have "unat (dec_rd dec) < length (ireg p)" using assms(1,2) by (simp add: word_less_nat_alt)
  then show ?thesis
    using assms(3)
    by (simp add: csr_reg_def set_csr_def Let_def get_reg_def ireg_upd csr_result_def)
qed

lemma csr_reg_other:
  assumes "r \<noteq> dec_rd dec"
  shows "get_reg (csr_reg dec md opn csr v get upd wm rm p) r = get_reg p r"
proof -
  have "unat (dec_rd dec) \<noteq> unat r" using assms by (simp add: word_unat_eq_iff)
  then show ?thesis
    by (simp add: csr_reg_def set_csr_def Let_def get_reg_def ireg_upd csr_result_def)
qed

lemma csr_reg_mode: "mode (csr_reg dec md opn csr v get upd wm rm p) = mode p"
  by (simp add: csr_reg_def set_csr_def Let_def mode_upd csr_result_def)

text \<open>Setting the bits of 0 reads the register and changes nothing.\<close>

lemma csr_reg_read:
  assumes "\<not> csr_readonly csr"
  shows "get (csr_reg dec md csr_rs csr 0 get upd wm rm p) = get p"
  by (simp add: csr_reg_value [OF assms])

end

interpretation misa_csr: csr_register misa misa_update
  by unfold_locales simp_all

interpretation mstatus_csr: csr_register mstatus mstatus_update
  by unfold_locales simp_all

interpretation mtvec_csr: csr_register mtvec mtvec_update
  by unfold_locales simp_all

interpretation medeleg_csr: csr_register medeleg medeleg_update
  by unfold_locales simp_all

interpretation mideleg_csr: csr_register mideleg mideleg_update
  by unfold_locales simp_all

interpretation mip_csr: csr_register mip mip_update
  by unfold_locales simp_all

interpretation mie_csr: csr_register mie mie_update
  by unfold_locales simp_all

interpretation mhcounteren_csr: csr_register mhcounteren mhcounteren_update
  by unfold_locales simp_all

interpretation mscounteren_csr: csr_register mscounteren mscounteren_update
  by unfold_locales simp_all

interpretation mucounteren_csr: csr_register mucounteren mucounteren_update
  by unfold_locales simp_all

interpretation mscratch_csr: csr_register mscratch mscratch_update
  by unfold_locales simp_all

interpretation mepc_csr: csr_register mepc mepc_update
  by unfold_locales simp_all

interpretation mcause_csr: csr_register mcause mcause_update
  by unfold_locales simp_all

interpretation mbadaddr_csr: csr_register mbadaddr mbadaddr_update
  by unfold_locales simp_all

interpretation mbase_csr: csr_register mbase mbase_update
  by unfold_locales simp_all

interpretation mbound_csr: csr_register mbound mbound_update
  by unfold_locales simp_all

interpretation mibase_csr: csr_register mibase mibase_update
  by unfold_locales simp_all

interpretation mibound_csr: csr_register mibound mibound_update
  by unfold_locales simp_all

interpretation mdbase_csr: csr_register mdbase mdbase_update
  by unfold_locales simp_all

interpretation mdbound_csr: csr_register mdbound mdbound_update
  by unfold_locales simp_all

interpretation stvec_csr: csr_register stvec stvec_update
  by unfold_locales simp_all

interpretation sedeleg_csr: csr_register sedeleg sedeleg_update
  by unfold_locales simp_all

interpretation sideleg_csr: csr_register sideleg sideleg_update
  by unfold_locales simp_all

interpretation sscratch_csr: csr_register sscratch sscratch_update
  by unfold_locales simp_all

interpretation sepc_csr: csr_register sepc sepc_update
  by unfold_locales simp_all

interpretation scause_csr: csr_register scause scause_update
  by unfold_locales simp_all

interpretation sbadaddr_csr: csr_register sbadaddr sbadaddr_update
  by unfold_locales simp_all

interpretation sptbr_csr: csr_register sptbr sptbr_update
  by unfold_locales simp_all

interpretation instret_csr: csr_register instret instret_update
  by unfold_locales simp_all

end
