(* ===== verification/Rv_Priv.thy ===== *)
theory Rv_Priv
  imports Rv_Csr_Laws Rv_Codec
begin

text \<open>
  Privileged instructions, traps and interrupts of the RV64 system emulator
  (\<^verbatim>\<open>src/src/emu/processor-priv-1.9.h\<close>): \<^verbatim>\<open>inst_priv\<close>, \<^verbatim>\<open>strap\<close>, \<^verbatim>\<open>mtrap\<close>, \<^verbatim>\<open>isr\<close>,
  \<^verbatim>\<open>trap\<close> and \<^verbatim>\<open>reset\<close>.  The log flags are zero and the debugger is not attached, so the branches
  that print or enter the command line are left out; \<^verbatim>\<open>wait_for_interrupt\<close> only suspends the host
  thread.  The interrupt lines that \<^verbatim>\<open>isr\<close> reads from the devices are arguments.
\<close>

section \<open>Privileged instructions\<close>

definition sret :: "'z sys \<Rightarrow> u64 \<times> 'z sys" where
  "sret p =
    (if mode p \<ge> rv_mode_S
     then let p = p\<lparr>mode := status_spp (mstatus p)\<rparr>;
              p = p\<lparr>mstatus := set_field 8 1 rv_mode_U (mstatus p)\<rparr>;
              p = p\<lparr>mstatus := set_field 1 1 (status_spie (mstatus p)) (mstatus p)\<rparr>;
              p = p\<lparr>mstatus := set_field 5 1 0 (mstatus p)\<rparr>
          in (sepc p - pc p, p)
     else (- 1, p))"

definition mret :: "'z sys \<Rightarrow> u64 \<times> 'z sys" where
  "mret p =
    (if mode p \<ge> rv_mode_M
     then let p = p\<lparr>mode := status_mpp (mstatus p)\<rparr>;
              p = p\<lparr>mstatus := set_field 11 2 rv_mode_U (mstatus p)\<rparr>;
              p = p\<lparr>mstatus := set_field 3 1 (status_mpie (mstatus p)) (mstatus p)\<rparr>;
              p = p\<lparr>mstatus := set_field 7 1 0 (mstatus p)\<rparr>
          in (mepc p - pc p, p)
     else (- 1, p))"

definition sfence_vm :: "u64 \<Rightarrow> 'z sys \<Rightarrow> u64 \<times> 'z sys" where
  "sfence_vm pc_offset p =
    (if mode p \<ge> rv_mode_S
     then (pc_offset, p\<lparr>mmu := (mmu p)
        \<lparr>l1_itlb := tlb_flush_asid (l1_itlb (mmu p)) (pdid p) (drop_bit 38 (sptbr p)),
         l1_dtlb := tlb_flush_asid (l1_dtlb (mmu p)) (pdid p) (drop_bit 38 (sptbr p))\<rparr>\<rparr>)
     else (- 1, p))"

definition inst_priv :: "u64 \<Rightarrow> decode \<Rightarrow> u64 \<Rightarrow> 'z sys \<Rightarrow> u64 \<times> 'z sys" where
  "inst_priv now dec pc_offset p =
    (let csr = sint (dec_imm dec); x = get_reg p (dec_rs1 dec); z = ucast (dec_rs1 dec); opc = dec_op dec in
     if opc = rv_op_csrrw then inst_csr now dec csr_rw csr x pc_offset p
     else if opc = rv_op_csrrs then inst_csr now dec csr_rs csr x pc_offset p
     else if opc = rv_op_csrrc then inst_csr now dec csr_rc csr x pc_offset p
     else if opc = rv_op_csrrwi then inst_csr now dec csr_rw csr z pc_offset p
     else if opc = rv_op_csrrsi then inst_csr now dec csr_rs csr z pc_offset p
     else if opc = rv_op_csrrci then inst_csr now dec csr_rc csr z pc_offset p
     else if opc = rv_op_sret then sret p
     else if opc = rv_op_mret then mret p
     else if opc = rv_op_sfence_vm then sfence_vm pc_offset p
     else if opc = rv_op_wfi then (if mode p \<ge> rv_mode_S then (pc_offset, p) else (- 1, p))
     else if opc = rv_op_fence then (pc_offset, p)
     else if opc = rv_op_fence_i then (pc_offset, p)
     else (- 1, p))"

section \<open>Trap entry\<close>

definition intr_bit :: "bool \<Rightarrow> u64" where
  "intr_bit interrupt = (if interrupt then push_bit 63 1 else 0)"

definition strap :: "u64 \<Rightarrow> bool \<Rightarrow> 'z sys \<Rightarrow> 'z sys" where
  "strap ecause interrupt p =
    (let p = p\<lparr>sepc := pc p\<rparr>;
         p = p\<lparr>scause := ecause OR intr_bit interrupt\<rparr>;
         p = p\<lparr>mstatus := set_field 8 1 (mode p) (mstatus p)\<rparr>;
         p = p\<lparr>mstatus := set_field 5 1 (status_sie (mstatus p)) (mstatus p)\<rparr>;
         p = p\<lparr>mstatus := set_field 1 1 0 (mstatus p)\<rparr>;
         p = p\<lparr>mode := rv_mode_S\<rparr>
     in p\<lparr>pc := stvec p\<rparr>)"

definition mtrap :: "u64 \<Rightarrow> bool \<Rightarrow> 'z sys \<Rightarrow> 'z sys" where
  "mtrap ecause interrupt p =
    (let p = p\<lparr>mepc := pc p\<rparr>;
         p = p\<lparr>mcause := ecause OR intr_bit interrupt\<rparr>;
         p = p\<lparr>mstatus := set_field 11 2 (mode p) (mstatus p)\<rparr>;
         p = p\<lparr>mstatus := set_field 7 1 (status_mie (mstatus p)) (mstatus p)\<rparr>;
         p = p\<lparr>mstatus := set_field 3 1 0 (mstatus p)\<rparr>;
         p = p\<lparr>mode := rv_mode_M\<rparr>
     in p\<lparr>pc := mtvec p\<rparr>)"

section \<open>Interrupts\<close>

text \<open>
  The three interrupt sources are handled by the same code with different bits: external (11
  and 9), timer (7 and 5) and software (3 and 1).  The bit number is also the cause.  The result
  says whether a trap was entered, which ends \<^verbatim>\<open>isr\<close>.
\<close>

definition isr_source :: "nat \<Rightarrow> nat \<Rightarrow> bool \<Rightarrow> 'z sys \<Rightarrow> bool \<times> 'z sys" where
  "isr_source m s pending p =
    (if pending
     then let p = p\<lparr>mip := set_field s 1 1 (set_field m 1 1 (mip p))\<rparr> in
          if status_mie (mstatus p) \<noteq> 0 \<and> get_field m 1 (mie p) \<noteq> 0 then (True, mtrap (of_nat m) True p)
          else if status_sie (mstatus p) \<noteq> 0 \<and> get_field s 1 (mie p) \<noteq> 0 then (True, strap (of_nat s) True p)
          else (False, p)
     else (False, p\<lparr>mip := set_field s 1 0 (set_field m 1 0 (mip p))\<rparr>))"

definition isr :: "bool \<Rightarrow> bool \<Rightarrow> bool \<Rightarrow> 'z sys \<Rightarrow> 'z sys" where
  "isr eip tip sip p =
    (case isr_source 11 9 eip p of (taken, p) \<Rightarrow> if taken then p else
     case isr_source 7 5 tip p of (taken, p) \<Rightarrow> if taken then p else
     case isr_source 3 1 sip p of (taken, p) \<Rightarrow> p)"

section \<open>Exceptions\<close>

abbreviation (input) internal_cause_reset :: int where "internal_cause_reset \<equiv> 0x1000"

text \<open>\<^verbatim>\<open>ecall\<close> and \<^verbatim>\<open>ebreak\<close> are executed as illegal instructions; the cause is translated here.\<close>

definition trap_cause :: "decode \<Rightarrow> 'z sys \<Rightarrow> int \<Rightarrow> int" where
  "trap_cause dec p ecause =
    (if ecause = rv_cause_illegal_instruction
     then if dec_op dec = rv_op_ebreak then rv_cause_breakpoint
          else if dec_op dec = rv_op_ecall then
            (if mode p = rv_mode_U then rv_cause_user_ecall
             else if mode p = rv_mode_S then rv_cause_supervisor_ecall
             else if mode p = rv_mode_H then rv_cause_hypervisor_ecall
             else if mode p = rv_mode_M then rv_cause_machine_ecall
             else ecause)
          else ecause
     else ecause)"

definition has_badaddr :: "int \<Rightarrow> bool" where
  "has_badaddr ecause \<longleftrightarrow>
     ecause = rv_cause_misaligned_fetch \<or> ecause = rv_cause_misaligned_load \<or>
     ecause = rv_cause_misaligned_store \<or> ecause = rv_cause_fault_fetch \<or>
     ecause = rv_cause_fault_load \<or> ecause = rv_cause_fault_store"

text \<open>
  \<^verbatim>\<open>ebreak\<close> ends the process: \<^verbatim>\<open>exit(0)\<close> of the processor is \<^verbatim>\<open>::exit(0)\<close>, since the log flags are zero.  The shift \<^verbatim>\<open>1 << cause\<close> is one of an \<^verbatim>\<open>int\<close>.
\<close>

definition trap :: "decode \<Rightarrow> int \<Rightarrow> 'z sys \<Rightarrow> ('z sys, unit) outcome" where
  "trap dec cause0 p =
    (if cause0 = internal_cause_reset then Ret () p
     else
       let ecause = trap_cause dec p cause0 in
       if dec_op dec = rv_op_ebreak then Exit Ended p
       else if ecause < 0 \<or> 31 \<le> ecause then Exit Undefined p
       else if medeleg p AND push_bit (nat ecause) 1 \<noteq> 0
       then
         let p = (if has_badaddr ecause then p\<lparr>sbadaddr := badaddr p\<rparr> else p);
             p = p\<lparr>mip := set_field 1 1 0 (set_field 9 1 0 (set_field 5 1 0 (mip p)))\<rparr>
         in Ret () (strap (of_int ecause) False p)
       else
         let p = (if has_badaddr ecause then p\<lparr>mbadaddr := badaddr p\<rparr> else p);
             p = p\<lparr>mip := set_field 3 1 0 (set_field 11 1 0 (set_field 7 1 0 (mip p)))\<rparr>
         in Ret () (mtrap (of_int ecause) False p))"

definition reset :: "'z sys \<Rightarrow> 'z sys" where
  "reset p = p\<lparr>mode := rv_mode_M,
     mstatus := set_field 3 1 0 (set_field 17 1 0 (set_field 24 4 0 (mstatus p))),
     mcause := 0, pc := resetvec p\<rparr>"

end
