(* ===== verification/Rv_Runloop.thy ===== *)
theory Rv_Runloop
  imports Rv_Priv Rv_Interp
begin

text \<open>
  The run loop \<^verbatim>\<open>processor_runloop::step\<close> of \<^verbatim>\<open>src/src/emu/processor-runloop.h\<close> for the RV64
  system emulator (\<^verbatim>\<open>processor_rv64imafdc_model\<close> with the software MMU): fetch, decode through the
  instruction cache, execute, retire, and the trap path reached by \<^verbatim>\<open>longjmp\<close>.

  The debugger is not attached (no breakpoint) and the log flags are zero.  \<open>hf\<close> is the
  floating-point arithmetic of the host, \<open>clk\<close> stands for the readings of the host clock, one per
  instruction.  The loop need not end, because a trap retires no instruction: \<open>step_loop\<close> takes
  fuel, and \<open>None\<close> is the result of a loop that is still running.
\<close>

section \<open>Decoding through the cache\<close>

definition rv64imafdc :: isa where
  "rv64imafdc = (isa_all False True False)\<lparr>rvq := False\<rparr>"

definition inst_decode :: "isa \<Rightarrow> decode \<Rightarrow> inst_t \<Rightarrow> decode" where
  "inst_decode cfg dec inst = decompress_inst_rv64 (decode_inst cfg dec inst)"

record rv_inst_cache_ent =
  ce_inst :: inst_t
  ce_dec :: decode

type_synonym inst_cache = "rv_inst_cache_ent list"

definition inst_cache_size :: nat where "inst_cache_size = 8191"

definition inst_cache_init :: inst_cache where
  "inst_cache_init = replicate inst_cache_size \<lparr>ce_inst = 0, ce_dec = decode_init\<rparr>"

definition inst_cache_key :: "inst_t \<Rightarrow> nat" where
  "inst_cache_key inst = unat inst mod inst_cache_size"

definition cached_decode :: "isa \<Rightarrow> decode \<Rightarrow> inst_cache \<Rightarrow> inst_t \<Rightarrow> decode \<times> inst_cache" where
  "cached_decode cfg dec cache inst =
    (let ent = cache ! inst_cache_key inst in
     if ce_inst ent = inst then (ce_dec ent, cache)
     else let dec' = inst_decode cfg dec inst
          in (dec', cache[inst_cache_key inst := \<lparr>ce_inst = inst, ce_dec = dec'\<rparr>]))"

section \<open>One instruction\<close>

text \<open>
  \<^verbatim>\<open>inst_exec\<close>, or else \<^verbatim>\<open>inst_priv\<close>, or else an illegal instruction exception; a new offset moves
  the program counter and the instruction retires.
\<close>

definition retire :: "u64 \<Rightarrow> 'z sys \<Rightarrow> 'z sys" where
  "retire new_offset p = p\<lparr>pc := pc p + new_offset, instret := instret p + 1\<rparr>"

definition exec_retire :: "isa \<Rightarrow> host_fp \<Rightarrow> u64 \<Rightarrow>
    decode \<Rightarrow> u64 \<Rightarrow> 'z sys \<Rightarrow> ('z sys, unit) outcome" where
  "exec_retire cfg hf now dec pc_offset p =
     bind_outcome (exec_inst_rv64 cfg (mmu_soft_ops hf) hf dec pc_offset p) (\<lambda>new_offset p.
       if new_offset \<noteq> - 1 then Ret () (retire new_offset p)
       else case inst_priv now dec pc_offset p of (new_offset, p) \<Rightarrow>
         if new_offset \<noteq> - 1 then Ret () (retire new_offset p)
         else raise rv_cause_illegal_instruction (pc p) p)"

text \<open>
  The offset that \<^verbatim>\<open>inst_fetch\<close> is handed is uninitialised in the first iteration; it is returned
  only together with the illegal instruction 0, so it does not matter.
\<close>

definition run_inst :: "isa \<Rightarrow> host_fp \<Rightarrow> u64 \<Rightarrow>
    decode \<Rightarrow> inst_cache \<Rightarrow> 'z sys \<Rightarrow> decode \<times> inst_cache \<times> ('z sys, unit) outcome" where
  "run_inst cfg hf now dec cache p =
    (case soft_inst_fetch (pc p) 0 p of
       Exit k q \<Rightarrow> (dec, cache, Exit k q)
     | Ret f q \<Rightarrow>
         (case f of (inst, pc_offset) \<Rightarrow>
          case cached_decode cfg dec cache inst of (dec', cache') \<Rightarrow>
            (dec', cache', exec_retire cfg hf now dec' pc_offset q)))"

section \<open>The loop\<close>

datatype exit_cause = exit_cause_continue | exit_cause_cli | exit_cause_poweroff

fun step_loop :: "nat \<Rightarrow> isa \<Rightarrow> host_fp \<Rightarrow> (nat \<Rightarrow> u64) \<Rightarrow>
    u64 \<Rightarrow> decode \<Rightarrow> inst_cache \<Rightarrow> 'z sys \<Rightarrow>
    ((exit_kind + exit_cause) \<times> inst_cache \<times> 'z sys) option" where
  "step_loop 0 cfg hf clk inststop dec cache p = None"
| "step_loop (Suc fuel) cfg hf clk inststop dec cache p =
    (if instret p = inststop then Some (Inr exit_cause_continue, cache, p)
     else case run_inst cfg hf (clk 0) dec cache p of (dec, cache, r) \<Rightarrow>
       (case r of
          Ret _ q \<Rightarrow> step_loop fuel cfg hf (\<lambda>i. clk (Suc i)) inststop dec cache q
        | Exit k q \<Rightarrow>
            (case k of
               Trap c \<Rightarrow>
                 (case trap dec c q of
                    Ret _ q \<Rightarrow>
                      if running q then step_loop fuel cfg hf (\<lambda>i. clk (Suc i)) inststop dec cache q
                      else Some (Inr exit_cause_poweroff, cache, q)
                  | Exit k q \<Rightarrow> Some (Inl k, cache, q))
             | _ \<Rightarrow> Some (Inl k, cache, q))))"

definition step :: "nat \<Rightarrow> isa \<Rightarrow> host_fp \<Rightarrow> (nat \<Rightarrow> u64) \<Rightarrow>
    u64 \<Rightarrow> bool \<times> bool \<times> bool \<Rightarrow> u64 \<Rightarrow> inst_cache \<Rightarrow> 'z sys \<Rightarrow>
    ((exit_kind + exit_cause) \<times> inst_cache \<times> 'z sys) option" where
  "step fuel cfg hf clk cycles irqs count cache p =
    (let inststop = instret p + count;
         p = p\<lparr>time_ctr := cycles\<rparr>;
         p = (case irqs of (eip, tip, sip) \<Rightarrow> isr eip tip sip p)
     in step_loop fuel cfg hf clk inststop decode_init cache p)"

end
