(* ===== verification/Rv_Priv_Laws.thy ===== *)
theory Rv_Priv_Laws
  imports Rv_Priv Rv_Mmu_Laws
begin

text \<open>
  Laws of traps and privileged instructions: the invariant of the system state, what trap entry
  and trap return do to the privilege mode and the interrupt enables, and when an interrupt is
  taken.
\<close>

section \<open>The invariant\<close>

definition sys_ok :: "'z sys \<Rightarrow> bool" where
  "sys_ok p \<longleftrightarrow> regs_ok p \<and> mode p \<le> rv_mode_M \<and> tlb_ok (l1_itlb (mmu p)) \<and> tlb_ok (l1_dtlb (mmu p))"

lemma get_field_le: "get_field k w x \<le> mask w" for x :: "'x::len word"
  by (simp add: get_field_def take_bit_eq_mask word_and_le1)

lemma get_field_mode: "get_field k (Suc 0) x \<le> rv_mode_M" "get_field k 2 x \<le> rv_mode_M" for x :: u64
proof -
  have "mask (Suc 0) \<le> (3 :: u64)" "mask 2 \<le> (3 :: u64)" by (simp_all add: mask_eq_exp_minus_1)
  then show "get_field k (Suc 0) x \<le> rv_mode_M" "get_field k 2 x \<le> rv_mode_M"
    using get_field_le order_trans by blast+
qed

lemma sys_ok_frame: "csr_frame p q \<Longrightarrow> sys_ok p \<Longrightarrow> sys_ok q"
  by (auto simp: csr_frame_def sys_ok_def)

lemma regs_ok_cong: "ireg q = ireg p \<Longrightarrow> freg q = freg p \<Longrightarrow> regs_ok q \<longleftrightarrow> regs_ok p"
  by (simp add: regs_ok_def)

lemma sys_ok_traps:
  assumes "sys_ok p"
  shows "sys_ok (strap c i p)" "sys_ok (mtrap c i p)" "sys_ok (snd (sret p))" "sys_ok (snd (mret p))"
    "sys_ok (snd (sfence_vm off p))" "sys_ok (reset p)"
  using assms
  by (simp_all add: sys_ok_def strap_def mtrap_def sret_def mret_def sfence_vm_def reset_def Let_def
      regs_ok_def get_field_mode tlb_ok_def tlb_flush_asid_def)

lemma sys_ok_mip: "sys_ok (p\<lparr>mip := v\<rparr>) \<longleftrightarrow> sys_ok p"
  by (simp add: sys_ok_def regs_ok_def)

lemma sys_ok_badaddr: "sys_ok (p\<lparr>sbadaddr := v\<rparr>) \<longleftrightarrow> sys_ok p" "sys_ok (p\<lparr>mbadaddr := v\<rparr>) \<longleftrightarrow> sys_ok p"
  "sys_ok (p\<lparr>running := b\<rparr>) \<longleftrightarrow> sys_ok p"
  by (simp_all add: sys_ok_def regs_ok_def)

lemma sys_ok_inst_priv: "sys_ok p \<Longrightarrow> sys_ok (snd (inst_priv now dec off p))"
  by (simp add: inst_priv_def Let_def sys_ok_traps sys_ok_frame [OF inst_csr_frame])

lemma sys_ok_isr_source: "sys_ok p \<Longrightarrow> sys_ok (snd (isr_source m s b p))"
  by (simp add: isr_source_def Let_def sys_ok_traps sys_ok_mip)

lemma sys_ok_isr: "sys_ok p \<Longrightarrow> sys_ok (isr eip tip sip p)"
  by (simp add: isr_def case_prod_unfold sys_ok_isr_source)

lemma sys_ok_trap: "sys_ok p \<Longrightarrow> sys_ok (final (trap dec c p))"
  by (simp add: trap_def Let_def sys_ok_traps sys_ok_mip sys_ok_badaddr)

section \<open>Trap entry and return\<close>

lemma take_bit_mode:
  fixes m :: u64
  shows "m \<le> 3 \<Longrightarrow> take_bit 2 m = m" and "m \<le> 1 \<Longrightarrow> m mod 2 = m"
proof -
  have "bit m i \<Longrightarrow> i < 2" if "m \<le> 3" for i
    using less_numeral_bit [of m 4 2 i] that by (simp add: word_le_nat_alt word_less_nat_alt)
  then show "m \<le> 3 \<Longrightarrow> take_bit 2 m = m" by (auto intro!: bit_word_eqI simp: bit_simps)
  have "m = 0 \<or> m = 1" if "m \<le> 1"
  proof -
    have "unat m = unat (0 :: u64) \<or> unat m = unat (1 :: u64)" using that by (auto simp: word_le_nat_alt)
    then show ?thesis by (simp add: word_unat_eq_iff)
  qed
  then show "m \<le> 1 \<Longrightarrow> m mod 2 = m" by fastforce
qed

lemma get_field_take: "take_bit w (get_field k w x) = get_field k w x" for x :: "'x::len word"
  by (simp add: get_field_def)

lemmas field_laws = get_set_field_same get_set_field_other get_field_take take_bit_mode

lemma mret_mtrap:
  assumes "mode p \<le> rv_mode_M"
  shows "pc (snd (mret (mtrap c i p))) + fst (mret (mtrap c i p)) = pc p" and "mode (snd (mret (mtrap c i p))) = mode p"
    and "status_mie (mstatus (snd (mret (mtrap c i p)))) = status_mie (mstatus p)"
  unfolding mret_def mtrap_def Let_def using assms by (simp_all add: field_laws)

text \<open>The previous mode has one bit in the supervisor's half of the status register.\<close>

lemma sret_strap:
  "pc (snd (sret (strap c i p))) + fst (sret (strap c i p)) = pc p" "mode (snd (sret (strap c i p))) = mode p mod 2"
  "status_sie (mstatus (snd (sret (strap c i p)))) = status_sie (mstatus p)"
  unfolding sret_def strap_def Let_def by (simp_all add: field_laws)

section \<open>Interrupts\<close>

lemma isr_source_masked:
  assumes "status_mie (mstatus p) = 0" and "status_sie (mstatus p) = 0"
  shows "\<exists>v. isr_source m s b p = (False, p\<lparr>mip := v\<rparr>)"
  using assms by (auto simp: isr_source_def Let_def)

lemma isr_masked:
  assumes "status_mie (mstatus p) = 0" and "status_sie (mstatus p) = 0"
  shows "\<exists>v. isr eip tip sip p = p\<lparr>mip := v\<rparr>"
proof -
  obtain v where v: "isr_source 11 9 eip p = (False, p\<lparr>mip := v\<rparr>)"
    using isr_source_masked [OF assms] by blast
  obtain w where w: "isr_source 7 5 tip (p\<lparr>mip := v\<rparr>) = (False, p\<lparr>mip := w\<rparr>)"
    using isr_source_masked [of "p\<lparr>mip := v\<rparr>" 7 5 tip] assms by auto
  obtain x where "isr_source 3 1 sip (p\<lparr>mip := w\<rparr>) = (False, p\<lparr>mip := x\<rparr>)"
    using isr_source_masked [of "p\<lparr>mip := w\<rparr>" 3 1 sip] assms by auto
  with v w show ?thesis by (auto simp: isr_def)
qed

lemma isr_instret [simp]: "instret (isr eip tip sip p) = instret p"
  by (simp add: isr_def isr_source_def mtrap_def strap_def Let_def)

section \<open>Exceptions\<close>

text \<open>The state in which the handler starts, by the level the cause is delegated to.\<close>

lemma trap_ebreak:
  assumes "dec_op dec = rv_op_ebreak" and "0 \<le> trap_cause dec p c" and "trap_cause dec p c < 31"
  shows "trap dec c p = Exit Ended p"
  using assms by (auto simp: trap_def trap_cause_def Let_def split: if_splits)

lemma trap_enters:
  assumes "dec_op dec \<noteq> rv_op_ebreak" and "0 \<le> trap_cause dec p c" and "trap_cause dec p c < 31"
  shows "\<exists>q. trap dec c p = Ret () q \<and>
    (if bit (medeleg p) (nat (trap_cause dec p c))
     then pc q = stvec p \<and> mode q = rv_mode_S \<and> sepc q = pc p \<and> scause q = of_int (trap_cause dec p c) \<and>
       (has_badaddr (trap_cause dec p c) \<longrightarrow> sbadaddr q = badaddr p)
     else pc q = mtvec p \<and> mode q = rv_mode_M \<and> mepc q = pc p \<and> mcause q = of_int (trap_cause dec p c) \<and>
       (has_badaddr (trap_cause dec p c) \<longrightarrow> mbadaddr q = badaddr p))"
proof -
  let ?c = "trap_cause dec p c"
  have "c \<noteq> 0x1000"
    using assms(2,3) by (auto simp: trap_cause_def split: if_splits)
  moreover have "medeleg p AND push_bit (nat ?c) 1 \<noteq> 0 \<longleftrightarrow> bit (medeleg p) (nat ?c)"
    using assms(2,3) by (intro and_push_bit_one) simp
  ultimately show ?thesis
    using assms
    by (auto simp: trap_def Let_def strap_def mtrap_def intr_bit_def)
qed

end
