(* ===== verification/Rv_Runloop_Laws.thy ===== *)
theory Rv_Runloop_Laws
  imports Rv_Runloop Rv_Priv_Laws Rv_Switch_Laws
begin

text \<open>
  Laws of the run loop: the invariant of the system state holds after every instruction and trap,
  and the instruction cache is transparent, although a cached decoding may carry stale values in
  the fields its format does not set.
\<close>

section \<open>The invariant of the system state\<close>

lemma sys_ok_only_mmu:
  assumes "only_mmu p r" and "tlbs_ok p \<Longrightarrow> tlbs_ok (final r)" and "sys_ok p"
  shows "sys_ok (final r)"
  using assms by (auto simp: only_mmu_def sys_ok_def tlbs_ok_def regs_ok_def)

lemma sys_ok_only_mmu_fenv:
  assumes "only_mmu_fenv p r" and "tlbs_ok p \<Longrightarrow> tlbs_ok (final r)" and "sys_ok p"
  shows "sys_ok (final r)"
  using assms by (auto simp: only_mmu_fenv_def only_mmu_def sys_ok_def tlbs_ok_def regs_ok_def)

lemma sys_ok_access:
  assumes "sys_ok p"
  shows "sys_ok (final (soft_load n va p))" "sys_ok (final (soft_store n va w p))"
    "sys_ok (final (soft_amo n aop va w p))" "sys_ok (final (soft_store_fp hf n va w p))"
  using sys_ok_only_mmu [OF only_mmu_access(1) tlbs_ok_access(1) assms]
    sys_ok_only_mmu [OF only_mmu_access(2) tlbs_ok_access(2) assms]
    sys_ok_only_mmu [OF only_mmu_access(3) tlbs_ok_access(3) assms]
    sys_ok_only_mmu_fenv [OF only_mmu_store_fp tlbs_ok_access(4) assms]
  by auto

interpretation sys_exec: exec_invariant "mmu_soft_ops hf :: ('z sys, 64) mmu_ops" "sys_ok"
proof
  fix p :: "'z sys" and dec v a n va w aop i f e c
  assume ok: "sys_ok p"
  then have "regs_ok (set_rd dec v p)" by (simp add: sys_ok_def)
  then show "sys_ok (set_rd dec v p)" using ok by (simp add: sys_ok_def set_rd_def)
  show "sys_ok (p\<lparr>lr := a\<rparr>)" "sys_ok (p\<lparr>freg := (freg p)[i := f]\<rparr>)" "sys_ok (p\<lparr>fenv := e\<rparr>)"
    "sys_ok (p\<lparr>fcsr := c\<rparr>)"
    using ok by (simp_all add: sys_ok_def regs_ok_def)
  show "sys_ok (final (mmu_load (mmu_soft_ops hf) n va p))"
    "sys_ok (final (mmu_store (mmu_soft_ops hf) n va w p))"
    "sys_ok (final (mmu_store_fp (mmu_soft_ops hf) n va w p))"
    "sys_ok (final (mmu_amo (mmu_soft_ops hf) n aop va w p))"
    unfolding mmu_soft_ops_def mmu_ops.simps by (simp_all only: sys_ok_access [OF ok])
qed

lemma sys_ok_fetch: "sys_ok p \<Longrightarrow> sys_ok (final (soft_inst_fetch pcv off p))"
  by (rule sys_ok_only_mmu [OF only_mmu_fetch tlbs_ok_fetch])

lemma sys_ok_retire: "sys_ok p \<Longrightarrow> sys_ok (retire n p)"
  by (simp add: sys_ok_def retire_def regs_ok_def)

lemma sys_ok_raise: "sys_ok p \<Longrightarrow> sys_ok (final (raise c a p))"
  by (simp add: sys_ok_def raise_def regs_ok_def)

lemma sys_ok_exec_retire:
  assumes "sys_ok p"
  shows "sys_ok (final (exec_retire cfg hf now dec off p))"
proof -
  have "sys_ok (final (if n \<noteq> - 1 then Ret () (retire n q)
      else if fst (inst_priv now dec off q) \<noteq> - 1
      then Ret () (retire (fst (inst_priv now dec off q)) (snd (inst_priv now dec off q)))
      else raise rv_cause_illegal_instruction (pc (snd (inst_priv now dec off q))) (snd (inst_priv now dec off q))))"
    if "sys_ok q" for q :: "'a sys" and n :: u64
    using sys_ok_inst_priv [OF that, of now dec off] that
    by (intro final_if [where P = sys_ok]) (simp_all add: sys_ok_retire sys_ok_raise)
  then show ?thesis
    unfolding exec_retire_def case_prod_unfold
    by (intro final_bind [where P = sys_ok, OF exec_keeps_rv64 [where P = sys_ok, OF sys_exec.exec_invariant_axioms assms]])
qed

lemma sys_ok_run_inst:
  assumes "sys_ok p"
  shows "sys_ok (final (snd (snd (run_inst cfg hf now dec cache p))))"
proof (cases "soft_inst_fetch (pc p) 0 p")
  case (Ret f q)
  then have "sys_ok q" using sys_ok_fetch [OF assms, of "pc p" 0] by simp
  then show ?thesis
    using Ret by (simp add: run_inst_def case_prod_unfold sys_ok_exec_retire )
next
  case (Exit k q)
  then show ?thesis using sys_ok_fetch [OF assms, of "pc p" 0] by (simp add: run_inst_def)
qed

section \<open>What an instruction depends on\<close>

text \<open>
  Two decodings with the same opcode and operands.  The operands of an illegal instruction do not
  matter, and its format sets none; the third source matters for the multiply-add instructions only.
\<close>

definition fused_ops :: "opcode set" where
  "fused_ops = {rv_op_fmadd_s, rv_op_fmsub_s, rv_op_fnmsub_s, rv_op_fnmadd_s,
     rv_op_fmadd_d, rv_op_fmsub_d, rv_op_fnmsub_d, rv_op_fnmadd_d}"

definition same_fields :: "decode \<Rightarrow> decode \<Rightarrow> bool" where
  "same_fields d d' \<longleftrightarrow> dec_op d = dec_op d' \<and>
     (dec_op d \<noteq> rv_op_illegal \<longrightarrow>
       dec_rd d = dec_rd d' \<and> dec_rs1 d = dec_rs1 d' \<and> dec_rs2 d = dec_rs2 d' \<and> dec_imm d = dec_imm d') \<and>
     (dec_op d \<in> fused_ops \<longrightarrow> dec_rs3 d = dec_rs3 d')"

lemma format_sets_operands:
  assumes "c \<noteq> rv_codec_illegal"
  shows "dec_rd (decode_inst_codec c d inst) = dec_rd (decode_inst_codec c d' inst)"
    and "dec_rs1 (decode_inst_codec c d inst) = dec_rs1 (decode_inst_codec c d' inst)"
    and "dec_rs2 (decode_inst_codec c d inst) = dec_rs2 (decode_inst_codec c d' inst)"
    and "dec_imm (decode_inst_codec c d inst) = dec_imm (decode_inst_codec c d' inst)"
  using assms by (cases c; simp add: decode_inst_codec_def decode_format_defs)+

lemma format_keeps_op: "dec_op (decode_inst_codec c d inst) = dec_op d"
  by (cases c) (simp_all add: decode_inst_codec_def decode_format_defs)

lemma legal_codec:
  assumes "opc < 318" and "opc \<noteq> rv_op_illegal"
  shows "rv_inst_codec ! opc \<noteq> rv_codec_illegal"
proof -
  have "rv_codec_illegal \<notin> set (tl rv_inst_codec)" by (simp add: rv_inst_codec_def)
  moreover have "rv_inst_codec ! opc = tl rv_inst_codec ! (opc - 1)"
    using assms by (simp add: nth_tl)
  moreover have "opc - 1 < length (tl rv_inst_codec)" using assms by simp
  ultimately show ?thesis by (metis nth_mem)
qed

lemma decode_inst_op_less: "decode_inst_op cfg inst < 318"
  using decode_inst_op_ok [of cfg inst] op_enabled_less [of cfg "decode_inst_op cfg inst"]
  by (auto simp: decoded_ok_def)

lemma fused_sets_rs3:
  assumes "opc \<in> fused_ops"
  shows "dec_rs3 (decode_inst_codec (rv_inst_codec ! opc) d inst) =
    dec_rs3 (decode_inst_codec (rv_inst_codec ! opc) d' inst)"
proof -
  have "rv_inst_codec ! opc = rv_codec_r4_m" using assms by (auto simp: fused_ops_def rv_inst_codec_def)
  then show ?thesis by (simp add: decode_inst_codec_def decode_format_defs)
qed

lemma decode_inst_same: "same_fields (decode_inst cfg d inst) (decode_inst cfg d' inst)"
proof -
  let ?op = "decode_inst_op cfg inst"
  let ?e = "\<lambda>d. d\<lparr>dec_op := ?op, dec_codec := rv_inst_codec ! ?op\<rparr>"
  have "?op \<noteq> rv_op_illegal \<Longrightarrow> rv_inst_codec ! ?op \<noteq> rv_codec_illegal"
    by (rule legal_codec [OF decode_inst_op_less])
  then show ?thesis
    using format_sets_operands [of "rv_inst_codec ! ?op" "?e d" inst "?e d'"]
      fused_sets_rs3 [of ?op "?e d" inst "?e d'"]
    by (simp add: same_fields_def decode_inst_def decode_inst_type_def Let_def format_keeps_op)
qed

lemma decomp_fused: "rv_inst_decomp_rv64 ! opc \<notin> fused_ops" if "opc < 318"
proof -
  have "list_all (\<lambda>opc. opc \<notin> fused_ops) rv_inst_decomp_rv64"
    unfolding rv_inst_decomp_rv64_def fused_ops_def by simp
  moreover have "length rv_inst_decomp_rv64 = 318" by (simp add: rv_inst_decomp_rv64_def)
  ultimately show ?thesis using that by (simp add: list_all_length)
qed

lemma decompress_fields:
  assumes "same_fields d d'" and "dec_op d < 318"
  shows "same_fields (decompress_inst_rv64 d) (decompress_inst_rv64 d')"
proof -
  have "rv_inst_decomp_rv64 ! 0 = 0" by (simp add: rv_inst_decomp_rv64_def)
  then show ?thesis
    using assms decomp_fused [OF assms(2)]
    by (auto simp: same_fields_def decompress_inst_rv64_def set_op_def Let_def)
qed

lemma decode_inst_less: "dec_op (decode_inst cfg d inst) < 318"
  using decode_inst_op_less [of cfg inst]
  by (simp add: decode_inst_def decode_inst_type_def Let_def format_keeps_op)

lemma inst_decode_fields: "same_fields (inst_decode cfg d inst) (inst_decode cfg d' inst)"
  unfolding inst_decode_def by (rule decompress_fields [OF decode_inst_same decode_inst_less])

lemma exec_illegal:
  assumes "dec_op d = rv_op_illegal"
  shows "exec_inst_rv64 cfg ops hf d off p = Ret (- 1) p" and "inst_priv now d off q = (- 1, q)"
  unfolding exec_inst_rv64_def exec_ctrl_def exec_mem_def exec_op_imm_def exec_op_def exec_mem_64_def
    exec_shift_imm_def exec_op_imm_w_def exec_op_w_def exec_mul_def exec_mul_w_def exec_amo_w_def
    exec_amo_d_def exec_f_def exec_f_64_def exec_d_def exec_d_64_def inst_priv_def Let_def
  using assms by simp_all

lemma csr_result_cong: "dec_rd d = dec_rd d' \<Longrightarrow> csr_result d = csr_result d'"
  by (intro ext) (simp add: csr_result_def)

lemma inst_csr_cong:
  assumes "dec_rd d = dec_rd d'"
  shows "inst_csr now d opn csr v off p = inst_csr now d' opn csr v off p"
  unfolding inst_csr_def csr_float_def csr_counter_def csr_machine_def csr_super_def csr_reg_def
    csr_reg_hi_def get_csr_def get_csr_hi_def set_csr_def set_csr_hi_def csr_result_cong [OF assms] ..

lemma set_rd_cong: "dec_rd d = dec_rd d' \<Longrightarrow> set_rd d = set_rd d'"
  by (intro ext) (simp add: set_rd_def)

lemma fp_cong:
  assumes "dec_rd d = dec_rd d'"
  shows "fp_result d = fp_result d'" and "fp_int d = fp_int d'"
  by (intro ext; simp add: fp_result_def fp_int_def assms set_rd_cong [OF assms])+

lemma exec_fp_rs3:
  assumes "dec_op d \<notin> fused_ops"
  shows "exec_f cfg ops hf (d\<lparr>dec_rs3 := r\<rparr>) off p = exec_f cfg ops hf d off p"
    and "exec_d cfg ops hf (d\<lparr>dec_rs3 := r\<rparr>) off p = exec_d cfg ops hf d off p"
proof -
  have "dec_op d \<noteq> opc" if "opc \<in> fused_ops" for opc using assms that by blast
  note no = this [unfolded fused_ops_def, simplified]
  note cong = fp_cong [of "d\<lparr>dec_rs3 := r\<rparr>" d] set_rd_cong [of "d\<lparr>dec_rs3 := r\<rparr>" d]
  show "exec_f cfg ops hf (d\<lparr>dec_rs3 := r\<rparr>) off p = exec_f cfg ops hf d off p"
    "exec_d cfg ops hf (d\<lparr>dec_rs3 := r\<rparr>) off p = exec_d cfg ops hf d off p"
    using no unfolding exec_f_def exec_d_def Let_def by (simp_all add: cong)
qed

lemma exec_inst_cong:
  fixes p :: "(64, 'm, 'z) processor_scheme"
  assumes "dec_op d = dec_op d'" "dec_rd d = dec_rd d'" "dec_rs1 d = dec_rs1 d'"
    "dec_rs2 d = dec_rs2 d'" "dec_imm d = dec_imm d'"
    and rs3: "dec_op d \<in> fused_ops \<longrightarrow> dec_rs3 d = dec_rs3 d'"
  shows "exec_inst_rv64 cfg ops hf d off p = exec_inst_rv64 cfg ops hf d' off p"
proof -
  note cong = assms(1-5) set_rd_cong [OF assms(2)] fp_cong [OF assms(2)]
  define e where "e = d'\<lparr>dec_rs3 := dec_rs3 d\<rparr>"
  have e: "dec_op e = dec_op d'" "dec_rd e = dec_rd d'" "dec_rs1 e = dec_rs1 d'"
    "dec_rs2 e = dec_rs2 d'" "dec_imm e = dec_imm d'" "dec_rs3 d = dec_rs3 e"
    by (simp_all add: e_def)
  note cong_e = e fp_cong [OF e(2)] set_rd_cong [OF e(2)]
  have fp: "exec_f cfg ops hf e off p = exec_f cfg ops hf d' off p"
    "exec_d cfg ops hf e off p = exec_d cfg ops hf d' off p"
    using rs3 assms(1) exec_fp_rs3 [of d' cfg ops hf "dec_rs3 d" off p]
    by (cases "dec_op d \<in> fused_ops"; simp add: e_def)+
  have "exec_f cfg ops hf d off p = exec_f cfg ops hf e off p"
    "exec_d cfg ops hf d off p = exec_d cfg ops hf e off p"
    unfolding exec_f_def exec_d_def by (simp_all only: cong cong_e)
  then have f: "exec_f cfg ops hf d off p = exec_f cfg ops hf d' off p"
    "exec_d cfg ops hf d off p = exec_d cfg ops hf d' off p"
    by (simp_all only: fp)
  show ?thesis
    unfolding exec_inst_rv64_def f
    unfolding exec_ctrl_def exec_mem_def exec_op_imm_def exec_op_def exec_mem_64_def
      exec_shift_imm_def exec_op_imm_w_def exec_op_w_def exec_mul_def exec_mul_w_def exec_amo_w_def
      exec_amo_d_def exec_amo_op_def exec_f_64_def exec_d_64_def
    by (simp only: cong)
qed

lemma exec_retire_cong:
  fixes p :: "'z sys"
  assumes "same_fields d d'"
  shows "exec_retire cfg hf now d off p = exec_retire cfg hf now d' off p"
proof (cases "dec_op d = rv_op_illegal")
  case True
  then show ?thesis
    using assms by (simp add: same_fields_def exec_retire_def exec_illegal)
next
  case False
  then have eq: "dec_op d = dec_op d'" "dec_rd d = dec_rd d'" "dec_rs1 d = dec_rs1 d'"
    "dec_rs2 d = dec_rs2 d'" "dec_imm d = dec_imm d'" "dec_op d \<in> fused_ops \<longrightarrow> dec_rs3 d = dec_rs3 d'"
    using assms by (auto simp: same_fields_def)
  have "inst_priv now d off q = inst_priv now d' off q" for q :: "'z sys"
    unfolding inst_priv_def by (simp only: eq(1-5) inst_csr_cong [OF eq(2)])
  then show ?thesis by (simp only: exec_retire_def exec_inst_cong [OF eq])
qed

section \<open>The instruction cache is transparent\<close>

text \<open>
  Every entry holds a decoding of its instruction word, from some earlier state of the decoder.
  The word 0 is an exception: the entries of a new cache say that it is illegal, whereas the
  decoder, which does not exclude a zero immediate, takes it for \<open>c.addi4spn\<close>.
\<close>

definition inst_cache_ok :: "isa \<Rightarrow> inst_cache \<Rightarrow> bool" where
  "inst_cache_ok cfg cache \<longleftrightarrow> length cache = inst_cache_size \<and>
     (\<forall>ent\<in>set cache. ce_inst ent \<noteq> 0 \<longrightarrow> (\<exists>d. ce_dec ent = inst_decode cfg d (ce_inst ent)))"

lemma inst_cache_ok_init: "inst_cache_ok cfg inst_cache_init"
  by (simp add: inst_cache_ok_def inst_cache_init_def)

lemma inst_cache_key_less: "inst_cache_key inst < inst_cache_size"
  by (simp add: inst_cache_key_def inst_cache_size_def)

lemma cached_decode_ok:
  assumes "inst_cache_ok cfg cache"
  shows "inst \<noteq> 0 \<Longrightarrow> \<exists>d. fst (cached_decode cfg dec cache inst) = inst_decode cfg d inst"
    and "inst_cache_ok cfg (snd (cached_decode cfg dec cache inst))"
proof -
  have "cache ! inst_cache_key inst \<in> set cache"
    using assms inst_cache_key_less [of inst] by (simp add: inst_cache_ok_def)
  then have "\<exists>d. ce_dec (cache ! inst_cache_key inst) =
      inst_decode cfg d (ce_inst (cache ! inst_cache_key inst))"
    if "ce_inst (cache ! inst_cache_key inst) \<noteq> 0"
    using assms that unfolding inst_cache_ok_def by blast
  then show "\<exists>d. fst (cached_decode cfg dec cache inst) = inst_decode cfg d inst" if "inst \<noteq> 0"
    using that by (auto simp: cached_decode_def Let_def)
  show "inst_cache_ok cfg (snd (cached_decode cfg dec cache inst))"
    using assms set_update_subset_insert [of cache]
    by (fastforce simp: cached_decode_def Let_def inst_cache_ok_def)
qed

text \<open>
  The reference: a loop without cache that decodes every fetched word afresh, from the initial
  decoder state.
\<close>

definition ref_inst :: "isa \<Rightarrow> host_fp \<Rightarrow> u64 \<Rightarrow>
    decode \<Rightarrow> 'z sys \<Rightarrow> decode \<times> ('z sys, unit) outcome" where
  "ref_inst cfg hf now dec p =
    (case soft_inst_fetch (pc p) 0 p of
       Exit k q \<Rightarrow> (dec, Exit k q)
     | Ret f q \<Rightarrow>
         (let dec = inst_decode cfg decode_init (fst f)
          in (dec, exec_retire cfg hf now dec (snd f) q)))"

fun ref_loop :: "nat \<Rightarrow> isa \<Rightarrow> host_fp \<Rightarrow> (nat \<Rightarrow> u64) \<Rightarrow>
    u64 \<Rightarrow> decode \<Rightarrow> 'z sys \<Rightarrow> ((exit_kind + exit_cause) \<times> 'z sys) option" where
  "ref_loop 0 cfg hf clk inststop dec p = None"
| "ref_loop (Suc fuel) cfg hf clk inststop dec p =
    (if instret p = inststop then Some (Inr exit_cause_continue, p)
     else case ref_inst cfg hf (clk 0) dec p of (dec, r) \<Rightarrow>
       (case r of
          Ret _ q \<Rightarrow> ref_loop fuel cfg hf (\<lambda>i. clk (Suc i)) inststop dec q
        | Exit k q \<Rightarrow>
            (case k of
               Trap c \<Rightarrow>
                 (case trap dec c q of
                    Ret _ q \<Rightarrow>
                      if running q then ref_loop fuel cfg hf (\<lambda>i. clk (Suc i)) inststop dec q
                      else Some (Inr exit_cause_poweroff, q)
                  | Exit k q \<Rightarrow> Some (Inl k, q))
             | _ \<Rightarrow> Some (Inl k, q))))"

text \<open>The reference run does not fetch the word 0.\<close>

definition fetches_zero :: "'z sys \<Rightarrow> bool" where
  "fetches_zero p = (case soft_inst_fetch (pc p) 0 p of Ret f q \<Rightarrow> fst f = 0 | Exit k q \<Rightarrow> False)"

fun zero_free :: "nat \<Rightarrow> isa \<Rightarrow> host_fp \<Rightarrow> (nat \<Rightarrow> u64) \<Rightarrow>
    u64 \<Rightarrow> decode \<Rightarrow> 'z sys \<Rightarrow> bool" where
  "zero_free 0 cfg hf clk inststop dec p = True"
| "zero_free (Suc fuel) cfg hf clk inststop dec p =
    (instret p = inststop \<or> \<not> fetches_zero p \<and>
     (case ref_inst cfg hf (clk 0) dec p of (dec, r) \<Rightarrow>
       (case r of
          Ret _ q \<Rightarrow> zero_free fuel cfg hf (\<lambda>i. clk (Suc i)) inststop dec q
        | Exit k q \<Rightarrow>
            (case k of
               Trap c \<Rightarrow>
                 (case trap dec c q of
                    Ret _ q \<Rightarrow> running q \<longrightarrow> zero_free fuel cfg hf (\<lambda>i. clk (Suc i)) inststop dec q
                  | Exit k q \<Rightarrow> True)
             | _ \<Rightarrow> True))))"

lemma run_inst_ref:
  fixes p :: "'z sys"
  assumes "inst_cache_ok cfg cache" and "dec_op dec = dec_op dec'"
    and "\<not> fetches_zero p"
  shows "snd (snd (run_inst cfg hf now dec cache p)) = snd (ref_inst cfg hf now dec' p) \<and>
    dec_op (fst (run_inst cfg hf now dec cache p)) = dec_op (fst (ref_inst cfg hf now dec' p))"
proof (cases "soft_inst_fetch (pc p) 0 p")
  case (Ret f q)
  obtain inst off where f: "f = (inst, off)" by (cases f)
  obtain d where d: "fst (cached_decode cfg dec cache inst) = inst_decode cfg d inst"
    using cached_decode_ok(1) [OF assms(1), of inst] assms(3) Ret f by (auto simp: fetches_zero_def)
  have same: "same_fields (inst_decode cfg d inst) (inst_decode cfg decode_init inst)"
    by (rule inst_decode_fields)
  have "exec_retire cfg hf now (inst_decode cfg d inst) off q =
      exec_retire cfg hf now (inst_decode cfg decode_init inst) off q"
    by (rule exec_retire_cong [OF same])
  then show ?thesis
    using Ret f d same by (simp add: run_inst_def ref_inst_def case_prod_unfold Let_def same_fields_def)
qed (simp add: run_inst_def ref_inst_def assms(2))

lemma run_inst_cache:
  assumes "inst_cache_ok cfg cache"
  shows "inst_cache_ok cfg (fst (snd (run_inst cfg hf now dec cache p)))"
  using assms cached_decode_ok(2)
  by (simp add: run_inst_def case_prod_unfold split: outcome.split)

lemma trap_cong: "dec_op d = dec_op d' \<Longrightarrow> trap d c p = trap d' c p"
  by (simp add: trap_def trap_cause_def)

lemma step_loop_ref:
  assumes "inst_cache_ok cfg cache" and "dec_op dec = dec_op dec'"
    and "zero_free fuel cfg hf clk stop dec' p"
  shows "map_option (\<lambda>(e, cache, q). (e, q)) (step_loop fuel cfg hf clk stop dec cache p) =
    ref_loop fuel cfg hf clk stop dec' p"
  using assms
proof (induction fuel arbitrary: clk dec dec' cache p)
  case (Suc fuel)
  obtain d c r where run: "run_inst cfg hf (clk 0) dec cache p = (d, c, r)" by (metis prod_cases3)
  obtain d' r' where ref: "ref_inst cfg hf (clk 0) dec' p = (d', r')" by (metis prod.exhaust)
  have "inst_cache_ok cfg c" using run_inst_cache [OF Suc.prems(1), of hf "clk 0" dec p] by (simp add: run)
  note IH = Suc.IH [OF this]
  show ?case
  proof (cases "instret p = stop")
    case False
    then have "\<not> fetches_zero p" using Suc.prems(3) by simp
    then have same: "r' = r" "dec_op d = dec_op d'"
      using run_inst_ref [OF Suc.prems(1,2), of p hf "clk 0"] by (simp_all add: run ref)
    show ?thesis
      using False Suc.prems(3)
      by (auto simp: run ref same(1) IH [OF same(2)] trap_cong [OF same(2)] split: outcome.splits exit_kind.splits)
  qed simp
qed simp

section \<open>Reachable states\<close>

text \<open>One iteration of the loop as a step relation: an instruction retires, or a trap is entered.\<close>

type_synonym 'z loop_state = "decode \<times> inst_cache \<times> 'z sys"

inductive loop_step :: "isa \<Rightarrow> host_fp \<Rightarrow>
    'z loop_state \<Rightarrow> 'z loop_state \<Rightarrow> bool" for cfg hf where
  retires: "run_inst cfg hf now d c p = (d', c', Ret u q) \<Longrightarrow> loop_step cfg hf (d, c, p) (d', c', q)"
| traps: "run_inst cfg hf now d c p = (d', c', Exit (Trap k) q) \<Longrightarrow> trap d' k q = Ret u q' \<Longrightarrow>
    loop_step cfg hf (d, c, p) (d', c', q')"

inductive loop_reach :: "isa \<Rightarrow> host_fp \<Rightarrow>
    'z loop_state \<Rightarrow> 'z loop_state \<Rightarrow> bool" for cfg hf where
  start: "loop_reach cfg hf s s"
| more: "loop_step cfg hf s t \<Longrightarrow> loop_reach cfg hf t u \<Longrightarrow> loop_reach cfg hf s u"

definition loop_inv :: "isa \<Rightarrow> 'z loop_state \<Rightarrow> bool" where
  "loop_inv cfg s = (case s of (d, c, p) \<Rightarrow> sys_ok p \<and> inst_cache_ok cfg c)"

lemma loop_step_inv:
  assumes "loop_step cfg hf s t" and "loop_inv cfg s"
  shows "loop_inv cfg t"
  using assms
proof (induction rule: loop_step.induct)
  case (retires now d c p d' c' u q)
  then show ?case
    using sys_ok_run_inst [where p = p and cfg = cfg and hf = hf and now = now and dec = d and cache = c] run_inst_cache [of cfg c hf now d p]
    by (simp add: loop_inv_def)
next
  case (traps now d c p d' c' k q u q')
  then have "sys_ok q" "inst_cache_ok cfg c'"
    using sys_ok_run_inst [where p = p and cfg = cfg and hf = hf and now = now and dec = d and cache = c] run_inst_cache [of cfg c hf now d p]
    by (simp_all add: loop_inv_def)
  then show ?case using sys_ok_trap [of q d' k] traps(2) by (simp add: loop_inv_def)
qed

lemma loop_reach_inv:
  assumes "loop_reach cfg hf s t" and "loop_inv cfg s"
  shows "loop_inv cfg t"
  using assms
proof (induction rule: loop_reach.induct)
  case (more s t u)
  then show ?case using loop_step_inv [OF more(1)] by blast
qed

lemma step_loop_reach:
  assumes "step_loop fuel cfg hf clk stop d c p = Some (Inr e, c', q)"
  shows "\<exists>d'. loop_reach cfg hf (d, c, p) (d', c', q)"
  using assms
proof (induction fuel arbitrary: clk d c p)
  case (Suc fuel)
  obtain d1 c1 r where run: "run_inst cfg hf (clk 0) d c p = (d1, c1, r)" by (metis prod_cases3)
  show ?case
  proof (cases "instret p = stop")
    case True
    then show ?thesis using Suc.prems by (auto intro: loop_reach.start)
  next
    case False
    then consider (ret) u q1 where "r = Ret u q1" "step_loop fuel cfg hf (\<lambda>i. clk (Suc i)) stop d1 c1 q1 = Some (Inr e, c', q)"
      | (trap) k q1 u q2 where "r = Exit (Trap k) q1" "trap d1 k q1 = Ret u q2"
          "if running q2 then step_loop fuel cfg hf (\<lambda>i. clk (Suc i)) stop d1 c1 q2 = Some (Inr e, c', q)
           else c' = c1 \<and> q = q2"
      using Suc.prems by (auto simp: run split: outcome.splits exit_kind.splits if_splits)
    then show ?thesis
    proof cases
      case ret
      then have "loop_step cfg hf (d, c, p) (d1, c1, q1)" using run by (intro loop_step.retires) simp
      then show ?thesis using Suc.IH [OF ret(2)] by (blast intro: loop_reach.more)
    next
      case trap
      then have step: "loop_step cfg hf (d, c, p) (d1, c1, q2)" using run by (intro loop_step.traps) simp_all
      show ?thesis
      proof (cases "running q2")
        case True
        then obtain d' where "loop_reach cfg hf (d1, c1, q2) (d', c', q)"
          using trap(3) Suc.IH [of "\<lambda>i. clk (Suc i)" d1 c1 q2] by auto
        then show ?thesis using step by (blast intro: loop_reach.more)
      next
        case False
        then have "c' = c1" "q = q2" using trap(3) by auto
        then show ?thesis using step loop_reach.more [OF step loop_reach.start] by blast
      qed
    qed
  qed
qed simp

text \<open>A loop that has not returned has made one step for each unit of fuel.\<close>

lemma step_loop_unfinished:
  assumes "step_loop fuel cfg hf clk stop d c p = None"
  shows "\<exists>s. (loop_step cfg hf ^^ fuel) (d, c, p) s"
  using assms
proof (induction fuel arbitrary: clk d c p)
  case (Suc fuel)
  obtain d1 c1 r where run: "run_inst cfg hf (clk 0) d c p = (d1, c1, r)" by (metis prod_cases3)
  from Suc.prems have "\<exists>q. loop_step cfg hf (d, c, p) (d1, c1, q) \<and> step_loop fuel cfg hf (\<lambda>i. clk (Suc i)) stop d1 c1 q = None"
    using loop_step.retires [of cfg hf "clk 0" d c p d1 c1] loop_step.traps [of cfg hf "clk 0" d c p d1 c1]
    by (auto simp: run split: outcome.splits exit_kind.splits if_splits)
  then show ?case using Suc.IH by (blast intro: relpowp_Suc_I2)
qed auto

lemma loop_power_inv: "(loop_step cfg hf ^^ n) s t \<Longrightarrow> loop_inv cfg s \<Longrightarrow> loop_inv cfg t"
proof (induction n arbitrary: s)
  case (Suc n)
  then show ?case using loop_step_inv by (blast elim: relpowp_Suc_E2)
qed simp

text \<open>The state in which the loop returns, for whatever reason.\<close>

lemma step_loop_inv:
  assumes "step_loop fuel cfg hf clk stop d c p = Some (r, c', q)" and "loop_inv cfg (d, c, p)"
  shows "sys_ok q \<and> inst_cache_ok cfg c'"
  using assms
proof (induction fuel arbitrary: clk d c p)
  case (Suc fuel)
  obtain d1 c1 o1 where run: "run_inst cfg hf (clk 0) d c p = (d1, c1, o1)" by (metis prod_cases3)
  have ok: "sys_ok (final o1)" "inst_cache_ok cfg c1" "sys_ok p" "inst_cache_ok cfg c"
    using sys_ok_run_inst [of p cfg hf "clk 0" d c] run_inst_cache [of cfg c hf "clk 0" d p] Suc.prems(2)
    by (simp_all add: run loop_inv_def)
  show ?case
  proof (cases "instret p = stop")
    case True
    then show ?thesis using Suc.prems(1) ok by simp
  next
    case False
    note IH = Suc.IH [of "\<lambda>i. clk (Suc i)" d1 c1, unfolded loop_inv_def prod.case]
    show ?thesis
    proof (cases o1)
      case (Ret u q1)
      then show ?thesis using False Suc.prems(1) ok(1,2) IH [of q1] by (simp add: run)
    next
      case (Exit k q1)
      show ?thesis
      proof (cases k)
        case (Trap x)
        have "sys_ok (final (trap d1 x q1))" using sys_ok_trap [of q1 d1 x] ok(1) Exit by simp
        then show ?thesis
          using False Suc.prems(1) ok(2) Exit Trap IH [of "final (trap d1 x q1)"]
          by (cases "trap d1 x q1") (auto simp: run split: if_splits)
      qed (use False Suc.prems(1) ok(1,2) Exit in \<open>simp_all add: run\<close>)
    qed
  qed
qed simp

section \<open>Progress\<close>

text \<open>
  \<open>n\<close> instructions that all retire, none of which writes the counter of retired instructions.
\<close>

fun run_n :: "nat \<Rightarrow> isa \<Rightarrow> host_fp \<Rightarrow> (nat \<Rightarrow> u64) \<Rightarrow>
    'z loop_state \<Rightarrow> 'z loop_state option" where
  "run_n 0 cfg hf clk s = Some s"
| "run_n (Suc n) cfg hf clk (d, c, p) =
    (case run_inst cfg hf (clk 0) d c p of (d, c, r) \<Rightarrow>
      (case r of
         Ret _ q \<Rightarrow> if instret q = instret p + 1 then run_n n cfg hf (\<lambda>i. clk (Suc i)) (d, c, q) else None
       | Exit _ _ \<Rightarrow> None))"

lemma step_loop_progress:
  assumes "run_n n cfg hf clk (d, c, p) = Some (d', c', q)" and "n < 2 ^ 64"
  shows "step_loop (Suc n + k) cfg hf clk (instret p + of_nat n) d c p =
      Some (Inr exit_cause_continue, c', q) \<and> instret q = instret p + of_nat n"
  using assms
proof (induction n arbitrary: clk d c p)
  case (Suc n)
  obtain d1 c1 r where run: "run_inst cfg hf (clk 0) d c p = (d1, c1, r)" by (metis prod_cases3)
  then obtain u q1 where r: "r = Ret u q1" and inst: "instret q1 = instret p + 1"
    and rest: "run_n n cfg hf (\<lambda>i. clk (Suc i)) (d1, c1, q1) = Some (d', c', q)"
    using Suc.prems(1) by (auto split: outcome.splits if_splits)
  have "of_nat (Suc n) \<noteq> (0 :: u64)"
  proof
    assume "of_nat (Suc n) = (0 :: u64)"
    then have "unat (of_nat (Suc n) :: u64) = 0" by (simp only: unsigned_0)
    then show False using Suc.prems(2) by (simp only: unat_of_nat) simp
  qed
  then have "instret p \<noteq> instret p + of_nat (Suc n)" by simp
  then show ?case
    using Suc.IH [OF rest] Suc.prems(2) inst by (simp add: run r add.assoc [symmetric])
qed simp

end
