(* ===== verification/Rv_Fp_Props.thy ===== *)
theory Rv_Fp_Props
  imports Rv_Exec_Props Rv_Mmu_Props Rv_Runloop_Laws
begin

text \<open>
  Properties of the floating-point instructions that hold whatever the arithmetic of the host is:
  moves, sign injection, loads and stores, and the rounding mode.
\<close>

section \<open>Dispatch\<close>

lemma exec_fp_rv64:
  fixes p :: "(64, 'm, 'z) processor_scheme"
  assumes "rv_op_flw \<le> dec_op dec"
  shows "exec_inst_rv64 cfg ops hf dec off p = first_case
    [exec_f cfg ops hf dec off p, exec_f_64 cfg hf dec off p,
     exec_d cfg ops hf dec off p, exec_d_64 cfg hf dec off p] p"
proof -
  have "exec_ctrl cfg dec off p = None" "exec_mem cfg ops dec off p = None"
    "exec_op_imm cfg dec off p = None" "exec_op cfg dec off p = None"
    "exec_mem_64 cfg ops dec off p = None" "exec_shift_imm cfg dec off p = None"
    "exec_op_imm_w cfg dec off p = None" "exec_op_w cfg dec off p = None"
    "exec_mul cfg dec off p = None" "exec_mul_w cfg dec off p = None"
    "exec_amo_w cfg ops dec off p = None" "exec_amo_d cfg ops dec off p = None"
    using assms by (simp_all add: exec_ctrl_def exec_mem_def exec_op_imm_def exec_op_def exec_mem_64_def
        exec_shift_imm_def exec_op_imm_w_def exec_op_w_def exec_mul_def exec_mul_w_def exec_amo_w_def
        exec_amo_d_def Let_def)
  then show ?thesis by (simp add: exec_inst_rv64_def)
qed

lemma get_reg_set_rd_same:
  "regs_ok p \<Longrightarrow> dec_rd dec < 32 \<Longrightarrow> dec_rd dec \<noteq> 0 \<Longrightarrow> get_reg (set_rd dec v p) (dec_rd dec) = v"
  by (simp add: get_reg_set_rd)

section \<open>Moves between the register files\<close>

text \<open>What \<open>fmv.x.s\<close> and \<open>fmv.x.d\<close> make of the bits: every NaN becomes the default NaN.\<close>

definition canonical_32 :: "u32 \<Rightarrow> u32" where
  "canonical_32 v = (if float_isnan f32_type (ucast v) then 0x7fc00000 else v)"

definition canonical_64 :: "u64 \<Rightarrow> u64" where
  "canonical_64 v = (if float_isnan f64_type v then 0x7ff8000000000000 else v)"

definition move_forms :: "(opcode \<times> opcode \<times> (u64 \<Rightarrow> u64)) list" where
  "move_forms =
    [(rv_op_fmv_s_x, rv_op_fmv_x_s, \<lambda>v. scast (canonical_32 (ucast v))),
     (rv_op_fmv_d_x, rv_op_fmv_x_d, canonical_64)]"

lemma exec_moves:
  fixes p :: "(64, 'm, 'z) processor_scheme"
  assumes "rvf cfg" and "rvd cfg"
  shows "dec_op dec = rv_op_fmv_s_x \<Longrightarrow> exec_inst_rv64 cfg ops hf dec off p =
      Ret off (set_freg (dec_rd dec) (ucast (get_reg p (dec_rs1 dec)) :: u32) p)"
    and "dec_op dec = rv_op_fmv_d_x \<Longrightarrow> exec_inst_rv64 cfg ops hf dec off p =
      Ret off (set_freg (dec_rd dec) (ucast (get_reg p (dec_rs1 dec)) :: u64) p)"
    and "dec_op dec = rv_op_fmv_x_s \<Longrightarrow> exec_inst_rv64 cfg ops hf dec off p =
      Ret off (set_rd dec (scast (canonical_32 (get_freg p (dec_rs1 dec)))) p)"
    and "dec_op dec = rv_op_fmv_x_d \<Longrightarrow> exec_inst_rv64 cfg ops hf dec off p =
      Ret off (set_rd dec (canonical_64 (get_freg p (dec_rs1 dec))) p)"
  using assms
  by (simp_all add: exec_fp_rv64 exec_f_def exec_f_64_def exec_d_def exec_d_64_def when_ext_def Let_def
      canonical_32_def canonical_64_def)

text \<open>
  C28.  A value moved from an integer register to a floating-point register and back is the value,
  truncated and sign-extended in single precision, unless its bits are those of a NaN: then it
  comes back as the default NaN.  (The instruction set says that the moves do not change the bits.)
\<close>

theorem fmv_roundtrip:
  fixes p :: "(64, 'm, 'z) processor_scheme"
  assumes "(dec_op mv, dec_op back, canon) \<in> set move_forms" and "rvf cfg" and "rvd cfg"
    and "dec_rs1 back = dec_rd mv" and "dec_rd mv < 32"
    and "dec_rd back < 32" and "dec_rd back \<noteq> 0" and "regs_ok p"
  shows "\<exists>q r. exec_inst_rv64 cfg ops hf mv off p = Ret off q \<and>
    exec_inst_rv64 cfg ops hf back off' q = Ret off' r \<and>
    get_reg r (dec_rd back) = canon (get_reg p (dec_rs1 mv))"
proof -
  note mvs = exec_moves [OF assms(2,3)]
  note get = get_reg_set_rd_same [OF set_freg_regs_ok [OF assms(8)] assms(6,7)]
  note again = get_set_freg [OF assms(8,5)]
  from assms(1) consider
      (s) "dec_op mv = rv_op_fmv_s_x" "dec_op back = rv_op_fmv_x_s" "canon = (\<lambda>v. scast (canonical_32 (ucast v)))"
    | (d) "dec_op mv = rv_op_fmv_d_x" "dec_op back = rv_op_fmv_x_d" "canon = canonical_64"
    by (auto simp: move_forms_def)
  then show ?thesis
  proof cases
    case s
    show ?thesis
      unfolding mvs(1) [OF s(1)] mvs(3) [OF s(2)] s(3) assms(4) by (simp add: get again)
  next
    case d
    show ?thesis
      unfolding mvs(2) [OF d(1)] mvs(4) [OF d(2)] d(3) assms(4) by (simp add: get again)
  qed
qed

text \<open>Witness: the signalling NaN 0x7f800001 comes back as the default NaN, 1.0 as it is.\<close>

theorem fmv_roundtrip_witness:
  "\<exists>q r.
    exec_inst_rv64 rv64imafdc mmu_proxy_ops demo_hf
      (decode_init\<lparr>dec_op := rv_op_fmv_s_x, dec_rd := 1, dec_rs1 := 10\<rparr>) 4
      ((proc_init demo_fenv (\<lambda>_. 0))\<lparr>ireg := (replicate 32 0)[10 := 0x7f800001]\<rparr>) = Ret 4 q \<and>
    exec_inst_rv64 rv64imafdc mmu_proxy_ops demo_hf
      (decode_init\<lparr>dec_op := rv_op_fmv_x_s, dec_rd := 11, dec_rs1 := 1\<rparr>) 4 q = Ret 4 r \<and>
    get_reg r 11 = 0x7fc00000"
proof -
  let ?m = "decode_init\<lparr>dec_op := rv_op_fmv_s_x, dec_rd := 1, dec_rs1 := 10\<rparr>"
  let ?b = "decode_init\<lparr>dec_op := rv_op_fmv_x_s, dec_rd := 11, dec_rs1 := 1\<rparr>"
  let ?p = "(proc_init demo_fenv (\<lambda>_. 0) :: (64, host_memory) processor)\<lparr>ireg := (replicate 32 0)[10 := 0x7f800001]\<rparr>"
  have "(dec_op ?m, dec_op ?b, \<lambda>v. scast (canonical_32 (ucast v))) \<in> set move_forms"
    "rvf rv64imafdc" "rvd rv64imafdc" "dec_rs1 ?b = dec_rd ?m" "dec_rd ?m < 32" "dec_rd ?b < 32"
    "dec_rd ?b \<noteq> 0" "regs_ok ?p"
    by (simp_all add: move_forms_def rv64imafdc_def isa_all_def regs_ok_def)
  from fmv_roundtrip [OF this, of mmu_proxy_ops demo_hf 4 4] show "\<exists>q r. exec_inst_rv64 rv64imafdc mmu_proxy_ops demo_hf ?m 4 ?p = Ret 4 q \<and>
      exec_inst_rv64 rv64imafdc mmu_proxy_ops demo_hf ?b 4 q = Ret 4 r \<and>
      get_reg r 11 = 0x7fc00000"
    by (auto simp: get_reg_def canonical_32_def float_isnan_def float_exp_def float_man_def f32_type_def)
qed

section \<open>Sign injection\<close>

definition sign_forms :: "(opcode \<times> opcode \<times> (bool \<Rightarrow> bool \<Rightarrow> bool)) list" where
  "sign_forms =
    [(rv_op_fsgnj_s, rv_op_fsgnj_d, \<lambda>s t. t), (rv_op_fsgnjn_s, rv_op_fsgnjn_d, \<lambda>s t. \<not> t),
     (rv_op_fsgnjx_s, rv_op_fsgnjx_d, \<lambda>s t. s \<noteq> t)]"

lemma sign_mask: "bit (0x80000000 :: u32) n \<longleftrightarrow> n = 31" "bit (0x8000000000000000 :: u64) n \<longleftrightarrow> n = 63"
  using bit_exp_iff [where 'a = u32, of 31 n] bit_exp_iff [where 'a = u64, of 63 n] by auto

text \<open>The three ways to combine signs, with \<open>s\<close> the mask of the sign bit \<open>k\<close>.\<close>

lemma sign_words:
  fixes a b s :: "'b::len word"
  assumes s: "\<And>n. bit s n \<longleftrightarrow> n = k" and k: "k < LENGTH('b)"
  shows "take_bit k ((a AND NOT s) OR (b AND s)) = take_bit k a"
    "bit ((a AND NOT s) OR (b AND s)) k = bit b k"
    "bit (NOT b) k = (\<not> bit b k)"
    "take_bit k (a XOR (b AND s)) = take_bit k a"
    "bit (a XOR (b AND s)) k = (bit a k \<noteq> bit b k)"
  using k by (auto intro!: bit_word_eqI simp: s bit_simps)

lemma sign_position: "31 < LENGTH(32)" "63 < LENGTH(64)"
  by simp_all

lemmas sign_words_32 = sign_words [OF sign_mask(1) sign_position(1)]
lemmas sign_words_64 = sign_words [OF sign_mask(2) sign_position(2)]

text \<open>
  The sign injections of both precisions give a number with the magnitude of the first
  operand and the sign of the second, its negation, or the exclusive or of both signs, NaNs
  included; in single precision the upper half of the register stays.  They neither round nor
  touch the floating-point environment.
\<close>

lemma sign_injection:
  fixes p :: "(64, 'm, 'z) processor_scheme"
  assumes "(os, od, g) \<in> set sign_forms" and "rvf cfg" and "rvd cfg" and "dec_op dec = os \<or> dec_op dec = od"
  shows "if dec_op dec = os
    then \<exists>v :: u32. exec_inst_rv64 cfg ops hf dec off p = Ret off (set_freg (dec_rd dec) v p) \<and>
      take_bit 31 v = take_bit 31 (get_freg p (dec_rs1 dec)) \<and>
      bit v 31 = g (bit (get_freg p (dec_rs1 dec) :: u32) 31) (bit (get_freg p (dec_rs2 dec) :: u32) 31)
    else \<exists>v :: u64. exec_inst_rv64 cfg ops hf dec off p = Ret off (set_freg (dec_rd dec) v p) \<and>
      take_bit 63 v = take_bit 63 (get_freg p (dec_rs1 dec)) \<and>
      bit v 63 = g (bit (get_freg p (dec_rs1 dec) :: u64) 63) (bit (get_freg p (dec_rs2 dec) :: u64) 63)"
proof -
  let ?a = "get_freg p (dec_rs1 dec) :: u32" and ?b = "get_freg p (dec_rs2 dec) :: u32"
  let ?x = "get_freg p (dec_rs1 dec) :: u64" and ?y = "get_freg p (dec_rs2 dec) :: u64"
  let ?s = "0x80000000 :: u32" and ?t = "0x8000000000000000 :: u64"
  define v where "v opc = (if opc = rv_op_fsgnj_s then (?a AND NOT ?s) OR (?b AND ?s)
    else if opc = rv_op_fsgnjn_s then (?a AND NOT ?s) OR (NOT ?b AND ?s) else ?a XOR (?b AND ?s))" for opc
  define w where "w opc = (if opc = rv_op_fsgnj_d then (?x AND NOT ?t) OR (?y AND ?t)
    else if opc = rv_op_fsgnjn_d then (?x AND NOT ?t) OR (NOT ?y AND ?t) else ?x XOR (?y AND ?t))" for opc
  from assms(1) consider (j) "os = rv_op_fsgnj_s" "od = rv_op_fsgnj_d" "g = (\<lambda>s t. t)"
    | (n) "os = rv_op_fsgnjn_s" "od = rv_op_fsgnjn_d" "g = (\<lambda>s t. \<not> t)"
    | (x) "os = rv_op_fsgnjx_s" "od = rv_op_fsgnjx_d" "g = (\<lambda>s t. s \<noteq> t)"
    by (auto simp: sign_forms_def)
  note ops = this
  have "exec_inst_rv64 cfg ops hf dec off p = Ret off (set_freg (dec_rd dec) (v os) p)" if "dec_op dec = os"
    using ops that assms(2)
    by cases (simp_all add: exec_fp_rv64 exec_f_def when_ext_def Let_def v_def)
  moreover have "exec_inst_rv64 cfg ops hf dec off p = Ret off (set_freg (dec_rd dec) (w od) p)" if "dec_op dec = od"
    using ops that assms(3)
    by cases (simp_all add: exec_fp_rv64 exec_f_def exec_f_64_def exec_d_def when_ext_def Let_def w_def)
  moreover have "take_bit 31 (v os) = take_bit 31 ?a \<and> bit (v os) 31 = g (bit ?a 31) (bit ?b 31)"
    using ops by cases (simp_all only: v_def if_True if_False refl numeral_eq_iff num.simps simp_thms sign_words_32)
  moreover have "take_bit 63 (w od) = take_bit 63 ?x \<and> bit (w od) 63 = g (bit ?x 63) (bit ?y 63)"
    using ops by cases (simp_all only: w_def if_True if_False refl numeral_eq_iff num.simps simp_thms sign_words_64)
  ultimately show ?thesis using assms(4) by (auto split: if_split)
qed

text \<open>Witness: \<open>fsgnjn.s\<close> of 1.0 with itself is -1.0.\<close>

lemma sign_injection_example:
  "\<exists>v :: u32. exec_inst_rv64 rv64imafdc mmu_proxy_ops demo_hf
      (decode_init\<lparr>dec_op := rv_op_fsgnjn_s, dec_rd := 1\<rparr>) 4
      ((proc_init demo_fenv (\<lambda>_. 0) :: (64, host_memory) processor)\<lparr>freg := (replicate 32 0)[0 := 0x3f800000]\<rparr>) =
      Ret 4 (set_freg 1 v ((proc_init demo_fenv (\<lambda>_. 0))\<lparr>freg := (replicate 32 0)[0 := 0x3f800000]\<rparr>)) \<and>
    take_bit 31 v = 0x3f800000 \<and> bit v 31"
proof -
  let ?d = "decode_init\<lparr>dec_op := rv_op_fsgnjn_s, dec_rd := 1\<rparr>"
  have "(rv_op_fsgnjn_s, rv_op_fsgnjn_d, \<lambda>s t. \<not> t) \<in> set sign_forms" "rvf rv64imafdc" "rvd rv64imafdc"
    by (simp_all add: sign_forms_def rv64imafdc_def isa_all_def)
  from sign_injection [OF this, of ?d mmu_proxy_ops demo_hf 4
      "(proc_init demo_fenv (\<lambda>_. 0) :: (64, host_memory) processor)\<lparr>freg := (replicate 32 0)[0 := 0x3f800000]\<rparr>"]
  show ?thesis by (simp add: get_freg_def decode_init_def)
qed

section \<open>Loads and stores\<close>

definition fp_mem_forms :: "(opcode \<times> opcode \<times> nat) list" where
  "fp_mem_forms = [(rv_op_fsw, rv_op_flw, 4), (rv_op_fsd, rv_op_fld, 8)]"

lemma ucast_ucast_32: "ucast (ucast v :: u32) = take_bit 32 v" for v :: u64
  by (auto intro!: bit_word_eqI simp: bit_simps)

lemma exec_fp_mem:
  fixes p :: "(64, 'm, 'z) processor_scheme"
  assumes "(so, lo, n) \<in> set fp_mem_forms" and "rvf cfg" and "rvd cfg"
  shows "dec_op dec = so \<Longrightarrow> exec_inst_rv64 cfg ops hf dec off p =
    bind_outcome (mmu_store_fp ops n (get_reg p (dec_rs1 dec) + scast (dec_imm dec))
      (take_bit (8 * n) (freg p ! unat (dec_rs2 dec))) p) (\<lambda>_ q. Ret off q)"
    and "dec_op dec = lo \<Longrightarrow> exec_inst_rv64 cfg ops hf dec off p =
    bind_outcome (mmu_load ops n (get_reg p (dec_rs1 dec) + scast (dec_imm dec)) p) (\<lambda>t q. Ret off
      (q\<lparr>freg := (freg q)[unat (dec_rd dec) :=
         (freg q ! unat (dec_rd dec) AND NOT (mask (8 * n))) OR take_bit (8 * n) t]\<rparr>))"
  using assms
  by (auto simp: fp_mem_forms_def exec_fp_rv64 exec_f_def exec_f_64_def exec_d_def when_ext_def Let_def
      get_freg_def set_freg_def take_bit_word_eq_self ucast_ucast_32)

text \<open>
  C27.  In the proxy emulator on RV64 a floating-point store followed by a load of the same size and
  address moves the bits of the number, NaNs included, and a single precision load leaves the upper
  half of the register as it was.
\<close>

theorem proxy_fp_store_load:
  fixes p :: "(64, host_memory, 'z) processor_scheme"
  assumes "(dec_op st, dec_op ld, n) \<in> set fp_mem_forms" and "rvf cfg" and "rvd cfg"
    and "dec_rs1 ld = dec_rs1 st" and "dec_imm ld = dec_imm st" and "regs_ok p" and "dec_rd ld < 32"
  shows "\<exists>q r. exec_inst_rv64 cfg mmu_proxy_ops hf st off p = Ret off q \<and>
    exec_inst_rv64 cfg mmu_proxy_ops hf ld off' q = Ret off' r \<and>
    freg r ! unat (dec_rd ld) = (freg p ! unat (dec_rd ld) AND NOT (mask (8 * n))) OR
      take_bit (8 * n) (freg p ! unat (dec_rs2 st))"
proof -
  let ?va = "get_reg p (dec_rs1 st) + scast (dec_imm st) :: u64"
  let ?v = "take_bit (8 * n) (freg p ! unat (dec_rs2 st))"
  let ?q = "p\<lparr>mmu := write_bytes (mmu p) ?va n ?v\<rparr>"
  have n: "n \<le> 8" using assms(1) by (auto simp: fp_mem_forms_def)
  have st: "exec_inst_rv64 cfg mmu_proxy_ops hf st off p = Ret off ?q"
    by (simp add: exec_fp_mem(1) [OF assms(1-3) refl] mmu_proxy_ops_def proxy_store_def)
  have "mmu_load mmu_proxy_ops n ?va ?q = Ret ?v ?q"
    using proxy_load_store [of n ?va ?v p] n by (simp add: mmu_proxy_ops_def proxy_store_def)
  moreover have "get_reg ?q r = get_reg p r" for r by (simp add: get_reg_def)
  ultimately have ld: "exec_inst_rv64 cfg mmu_proxy_ops hf ld off' ?q = Ret off' (?q\<lparr>freg := (freg p)[unat (dec_rd ld) :=
      (freg p ! unat (dec_rd ld) AND NOT (mask (8 * n))) OR ?v]\<rparr>)"
    by (simp add: exec_fp_mem(2) [OF assms(1-3) refl] assms(4,5))
  have "unat (dec_rd ld) < length (freg p)" using assms(6,7) by (simp add: regs_ok_def word_less_nat_alt)
  with st ld show ?thesis by simp
qed

text \<open>Witness: the signalling NaN 0x7f800001 through address 0x100.\<close>

theorem proxy_fp_store_load_witness:
  "\<exists>q r. exec_inst_rv64 rv64imafdc mmu_proxy_ops demo_hf
      (decode_init\<lparr>dec_op := rv_op_fsw, dec_rs2 := 5, dec_imm := 0x100\<rparr>) 4
      ((proc_init demo_fenv (\<lambda>_. 0))\<lparr>freg := (replicate 32 (- 1))[5 := 0x7f800001]\<rparr>) = Ret 4 q \<and>
    exec_inst_rv64 rv64imafdc mmu_proxy_ops demo_hf
      (decode_init\<lparr>dec_op := rv_op_flw, dec_rd := 6, dec_imm := 0x100\<rparr>) 4 q = Ret 4 r \<and>
    freg r ! 6 = 0xffffffff7f800001"
proof -
  let ?s = "decode_init\<lparr>dec_op := rv_op_fsw, dec_rs2 := 5, dec_imm := 0x100\<rparr>"
  let ?l = "decode_init\<lparr>dec_op := rv_op_flw, dec_rd := 6, dec_imm := 0x100\<rparr>"
  let ?p = "(proc_init demo_fenv (\<lambda>_. 0) :: (64, host_memory) processor)
    \<lparr>freg := (replicate 32 (- 1))[5 := 0x7f800001]\<rparr>"
  have "ireg ?p = replicate 32 0" by (simp add: proc_init_def)
  then have "(dec_op ?s, dec_op ?l, 4) \<in> set fp_mem_forms" "rvf rv64imafdc" "rvd rv64imafdc"
    "dec_rs1 ?l = dec_rs1 ?s" "dec_imm ?l = dec_imm ?s" "regs_ok ?p" "dec_rd ?l < 32"
    by (simp_all add: fp_mem_forms_def rv64imafdc_def isa_all_def regs_ok_def decode_init_def)
  from proxy_fp_store_load [OF this, of demo_hf 4 4] show ?thesis
    by (auto simp: mask_eq_exp_minus_1)
qed

lemma bus_fp_value_trunc:
  assumes n: "n = 4 \<or> n = 8" and "converts_unsigned hf" and "F = (if n = 4 then f32_type else f64_type)"
    and bits: "take_bit (8 * n) bits = bits" and "\<not> float_sign F bits" and "float_trunc F bits < 2 ^ (8 * n)"
  shows "take_bit (8 * n) (fst (bus_fp_value hf n bits e)) = of_nat (float_trunc F bits)"
  using n
proof
  assume [simp]: "n = 4"
  let ?t = "float_trunc f32_type bits"
  have "ucast (ucast bits :: u32) = bits" using bits by (simp add: ucast_ucast_32)
  then have "fst (fp_to_u32 (hf32 hf) (ucast bits) e) = of_nat ?t"
    using assms(2,3,5,6) by (simp add: converts_unsigned_def)
  moreover have "ucast (of_nat ?t :: u32) = (of_nat ?t :: u64)" "take_bit 32 (of_nat ?t :: u64) = of_nat ?t"
    using assms(3,6)
    by (simp_all add: word_unat_eq_iff unat_of_nat unsigned_ucast_eq unsigned_take_bit_eq take_bit_nat_eq_self)
  ultimately show ?thesis using assms(3) by (simp add: bus_fp_value_def case_prod_unfold)
next
  assume [simp]: "n = 8"
  show ?thesis using assms(2,3,5,6) by (simp add: bus_fp_value_def converts_unsigned_def take_bit_word_eq_self)
qed

text \<open>
  On RV32 the value of a load passes through the 32-bit register type: a double precision load
  loses its upper half.
\<close>

lemma proxy_fld_rv32:
  fixes va :: "32 word"
  shows "proxy_load 8 va p = Ret (take_bit 32 (read_bytes (mmu p) (ucast va) 8)) p"
  by (simp add: proxy_load_def ucast_ucast_32)

text \<open>
  C26.  In the system emulator a floating-point store writes the number converted to an unsigned
  integer, not its bits: after \<open>fsw\<close> or \<open>fsd\<close> of a number that is not negative and whose integer
  part fits, memory holds that integer part.  Stated for machine mode without \<open>mstatus.mprv\<close>; the
  host is assumed to convert as the language defines.
\<close>

theorem soft_fp_store_converts:
  fixes p :: "'z proc"
  assumes "(dec_op dec, ld, n) \<in> set fp_mem_forms" and "rvf cfg" and "rvd cfg" and "converts_unsigned hf"
    and "F = (if n = 4 then f32_type else f64_type)" and "bits = take_bit (8 * n) (freg p ! unat (dec_rs2 dec))"
    and "\<not> float_sign F bits" and "float_trunc F bits < 2 ^ (8 * n)"
    and "va = get_reg p (dec_rs1 dec) + scast (dec_imm dec)" and "va \<noteq> 0"
    and "mode p = rv_mode_M" and "status_mprv (mstatus p) = 0"
    and "exec_inst_rv64 cfg (mmu_soft_ops hf) hf dec off p = Ret off q"
  shows "soft_load n va q = Ret (of_nat (float_trunc F bits)) q"
proof -
  have eff: "translate_addr mop va r = Ret (va, None) r"
    if "mode r = rv_mode_M" "status_mprv (mstatus r) = 0" for mop and r :: "'z proc"
    using that by (simp add: translate_addr_def effective_mode_def)
  obtain val e where val: "bus_fp_value hf n bits (fenv p) = (val, e)" by (meson surj_pair)
  have "soft_store_fp hf n va bits p = Ret () q"
    using assms(13) unfolding exec_fp_mem(1) [OF assms(1-3) refl] assms(6,9)
    by (cases "mmu_store_fp (mmu_soft_ops hf) n (get_reg p (dec_rs1 dec) + scast (dec_imm dec))
      (take_bit (8 * n) (freg p ! unat (dec_rs2 dec))) p") (auto simp: mmu_soft_ops_def)
  then obtain m where m: "mem_store n (mem (mmu p)) va val = Some m" and q: "q = set_mem m (p\<lparr>fenv := e\<rparr>)"
    and al: "\<not> misaligned n va"
    using assms(10-12) val
    by (auto simp: soft_store_fp_def eff raise_def store_access_fault_def Let_def split: if_splits option.splits)
  have "n = 4 \<or> n = 8" using assms(1) by (auto simp: fp_mem_forms_def)
  then have "take_bit (8 * n) val = of_nat (float_trunc F bits)"
    using bus_fp_value_trunc [OF _ assms(4,5) _ assms(7,8), of "fenv p"] val assms(6) by simp
  moreover have "bus_size n" using m by (auto simp: mem_store_def split: if_splits)
  note memory_bus.load_store [OF memory_bus_user [OF this] m]
  ultimately show ?thesis
    using q al assms(10-12) by (auto simp: soft_load_def eff set_mem_def load_access_fault_def)
qed

text \<open>Witness: after \<open>fsw\<close> of 3.5 to address 0x200 of the concrete machine, the word there is 3.\<close>

theorem soft_fp_store_converts_witness:
  "\<exists>q. exec_inst_rv64 rv64imafdc (mmu_soft_ops demo_hf) demo_hf
      (decode_init\<lparr>dec_op := rv_op_fsw, dec_rs2 := 5, dec_imm := 0x200\<rparr>) 4
      (demo demo_leaf\<lparr>mode := rv_mode_M, freg := (replicate 32 0)[5 := 0x40600000]\<rparr>) = Ret 4 q \<and>
    soft_load 4 0x200 q = Ret 3 q"
proof -
  let ?d = "decode_init\<lparr>dec_op := rv_op_fsw, dec_rs2 := 5, dec_imm := 0x200\<rparr>"
  let ?p = "demo demo_leaf\<lparr>mode := rv_mode_M, freg := (replicate 32 0)[5 := 0x40600000]\<rparr>"
  have trunc: "float_trunc f32_type 0x40600000 = 3"
    by (simp add: float_trunc_def float_exp_def float_man_def f32_type_def)
  have reg: "get_reg ?p (dec_rs1 decode_init) = 0"
    by (simp add: get_reg_def demo_def sys_start_def decode_init_def)
  have forms: "(dec_op ?d, rv_op_flw, 4) \<in> set fp_mem_forms" "rvf rv64imafdc" "rvd rv64imafdc"
    by (simp_all add: fp_mem_forms_def rv64imafdc_def isa_all_def)
  have "\<exists>q. exec_inst_rv64 rv64imafdc (mmu_soft_ops demo_hf) demo_hf ?d 4 ?p = Ret 4 q"
    unfolding exec_fp_mem(1) [OF forms refl]
    by (simp add: mmu_soft_ops_def soft_store_fp_def misaligned_def translate_addr_def effective_mode_def
        store_access_fault_def reg demo_store bus_size_def get_field_def bus_fp_value_def demo_hf_def demo_fp_def trunc)
  then obtain q where "exec_inst_rv64 rv64imafdc (mmu_soft_ops demo_hf) demo_hf ?d 4 ?p = Ret 4 q" ..
  moreover from soft_fp_store_converts [OF forms demo_converts refl refl _ _ refl _ _ _ this]
  have "soft_load 4 0x200 q = Ret 3 q"
    by (simp add: reg trunc float_sign_def f32_type_def [symmetric] get_field_def)
      (simp add: f32_type_def)
  ultimately show ?thesis by blast
qed

section \<open>The rounding mode\<close>

text \<open>
  The rounding mode field of an instruction has no effect: every instruction does the same
  for each of its values.  What rounds is the mode in \<open>fcsr\<close>, as shown for the addition.
\<close>

lemma static_rounding_ignored:
  fixes p :: "(64, 'm, 'z) processor_scheme"
  shows "exec_inst_rv64 cfg ops hf (dec\<lparr>dec_rm := rm\<rparr>) off p = exec_inst_rv64 cfg ops hf dec off p \<and>
    (dec_op dec = rv_op_fadd_d \<and> rvd cfg \<longrightarrow>
      exec_inst_rv64 cfg ops hf dec off p =
        (case fp_add (hf64 hf) (get_freg p (dec_rs1 dec)) (get_freg p (dec_rs2 dec))
           (fenv_setrm (get_field 5 3 (fcsr p)) (fenv p))
         of (v, e) \<Rightarrow> Ret off (set_freg (dec_rd dec) v (p\<lparr>fenv := e\<rparr>))))"
proof
  show "exec_inst_rv64 cfg ops hf (dec\<lparr>dec_rm := rm\<rparr>) off p = exec_inst_rv64 cfg ops hf dec off p"
    by (rule exec_inst_cong) simp_all
  have "drop_bit 5 x AND 7 = get_field 5 3 x" for x :: u32
    by (simp add: get_field_def take_bit_eq_mask mask_eq_exp_minus_1)
  then show "dec_op dec = rv_op_fadd_d \<and> rvd cfg \<longrightarrow> exec_inst_rv64 cfg ops hf dec off p =
        (case fp_add (hf64 hf) (get_freg p (dec_rs1 dec)) (get_freg p (dec_rs2 dec))
           (fenv_setrm (get_field 5 3 (fcsr p)) (fenv p))
         of (v, e) \<Rightarrow> Ret off (set_freg (dec_rd dec) v (p\<lparr>fenv := e\<rparr>)))"
    by (simp add: exec_fp_rv64 exec_f_def exec_f_64_def exec_d_def when_ext_def Let_def fp_result_def set_rm_def
        split: prod.split)
qed

text \<open>Witness: \<open>fadd.d\<close> with the rounding mode field 1, in the initial state.\<close>

lemma static_rounding_ignored_example:
  "exec_inst_rv64 rv64imafdc mmu_proxy_ops demo_hf (decode_init\<lparr>dec_op := rv_op_fadd_d, dec_rd := 1, dec_rm := 1\<rparr>) 4
      (proc_init demo_fenv (\<lambda>_. 0)) = Ret 4 (set_freg 1 (0 :: u64) (proc_init demo_fenv (\<lambda>_. 0)))"
proof -
  let ?d = "decode_init\<lparr>dec_op := rv_op_fadd_d, dec_rd := 1\<rparr>"
  have "dec_op ?d = rv_op_fadd_d \<and> rvd rv64imafdc" by (simp add: rv64imafdc_def isa_all_def)
  then show ?thesis
    using static_rounding_ignored [where cfg = rv64imafdc and ops = mmu_proxy_ops and hf = demo_hf and dec = ?d
        and rm = 1 and off = 4 and p = "proc_init demo_fenv (\<lambda>_. 0)"]
    by (simp add: demo_hf_def demo_fp_def)
      (simp add: proc_init_def demo_fenv_def fenv_setrm_def get_field_def)
qed

end
