(* ===== verification/Rv_Cache.thy ===== *)
theory Rv_Cache
  imports Rv_Memory Rv_Proc
begin

text \<open>
  The data cache simulation of \<^verbatim>\<open>src/src/emu/cache.h\<close> for 64-bit addresses: a set-associative cache
  in front of the memory bus, with a write-through or write-back policy and access statistics kept in
  memory.  The template parameters are the record \<open>cache_dim\<close>, by the logarithms the code computes.
  Arrays are functions of the index; an index out of range is undefined behaviour and written out
  where it can occur.  A \<^verbatim>\<open>buserror_t\<close> other than zero is \<open>None\<close> (or \<open>False\<close>), with the state as it is
  at that point.  The fields \<^verbatim>\<open>asid\<close>, \<^verbatim>\<open>pdid\<close> and \<^verbatim>\<open>data\<close> of an entry are never read.
\<close>

section \<open>State\<close>

datatype cache_state = cache_state_modified | cache_state_owned | cache_state_exclusive
  | cache_state_shared | cache_state_invalid

datatype cache_line_status = cache_line_empty | cache_line_hit | cache_line_must_evict | cache_line_filled

datatype cache_write_policy = cache_write_through | cache_write_back

record cache_dim =
  cache_line_shift :: nat
  num_entries_shift :: nat
  num_ways_shift :: nat

abbreviation num_ways :: "cache_dim \<Rightarrow> nat" where "num_ways d \<equiv> 2 ^ num_ways_shift d"
abbreviation line_size :: "cache_dim \<Rightarrow> nat" where "line_size d \<equiv> 2 ^ cache_line_shift d"

definition num_keys :: "cache_dim \<Rightarrow> nat" where
  "num_keys d = 2 ^ num_entries_shift d * num_ways d"

text \<open>The bit-field \<^verbatim>\<open>ppn\<close> has 38 bits on RV64.\<close>

abbreviation (input) ppn_bits :: nat where "ppn_bits \<equiv> 38"

record tagged_cache_entry =
  ce_pcln :: u64
  ce_state :: cache_state
  ce_ppn :: u64
  ce_status :: cache_line_status
  ce_LRU_count :: u64

record tagged_cache =
  cache_key :: "nat \<Rightarrow> tagged_cache_entry"
  cache_data :: "nat \<Rightarrow> u8"
  write_policy :: cache_write_policy
  last_access :: cache_line_status
  cache_mem :: user_memory

text \<open>
  The range that is cached, as the members of these names are initialised; only a test program assigns other values.  The
  reads of \<^verbatim>\<open>load_val\<close> and \<^verbatim>\<open>store_val\<close> beyond a value narrower than 64 bits do not reach the results and are left out.
\<close>

definition default_ram_base :: u64 where "default_ram_base = 0x80000000"
definition default_ram_size :: u64 where "default_ram_size = 0x40000028"

text \<open>The constructor; \<^verbatim>\<open>cache_data\<close> and \<^verbatim>\<open>last_access\<close> are indeterminate, here arguments.\<close>

definition tagged_cache_init :: "cache_dim \<Rightarrow> cache_write_policy \<Rightarrow> user_memory \<Rightarrow> (nat \<Rightarrow> u8) \<Rightarrow>
    cache_line_status \<Rightarrow> tagged_cache" where
  "tagged_cache_init d policy m dat la =
    \<lparr>cache_key = (\<lambda>i. \<lparr>ce_pcln = mask (64 - cache_line_shift d), ce_state = cache_state_shared,
       ce_ppn = mask ppn_bits, ce_status = cache_line_empty, ce_LRU_count = 0\<rparr>),
     cache_data = dat, write_policy = policy, last_access = la, cache_mem = m\<rparr>"

definition upd_entry :: "nat \<Rightarrow> (tagged_cache_entry \<Rightarrow> tagged_cache_entry) \<Rightarrow> tagged_cache \<Rightarrow> tagged_cache" where
  "upd_entry i f c = c\<lparr>cache_key := (cache_key c)(i := f (cache_key c i))\<rparr>"

section \<open>Statistics, replacement counters, block transfer\<close>

definition update_stats :: "u64 \<Rightarrow> tagged_cache \<Rightarrow> tagged_cache" where
  "update_stats mpa c =
    (case mem_load 8 (cache_mem c) mpa of
       None \<Rightarrow> c   \<comment> \<open>the store fails as well\<close>
     | Some v \<Rightarrow>
         (case mem_store 8 (cache_mem c) mpa (v + 1) of None \<Rightarrow> c | Some m \<Rightarrow> c\<lparr>cache_mem := m\<rparr>))"

definition update_LRU_counters :: "cache_dim \<Rightarrow> nat \<Rightarrow> nat \<Rightarrow> tagged_cache \<Rightarrow> tagged_cache" where
  "update_LRU_counters d index_for_set entry_to_skip c =
    (let first = index_for_set * num_ways d in
     c\<lparr>cache_key := (\<lambda>i. if first \<le> i \<and> i < first + num_ways d \<and> i \<noteq> entry_to_skip
        then (cache_key c i)\<lparr>ce_LRU_count := ce_LRU_count (cache_key c i) + 1\<rparr> else cache_key c i)\<rparr>)"

text \<open>The loop of \<^verbatim>\<open>allocate\<close> over the bytes of a line, for operation \<^verbatim>\<open>'S'\<close> and for \<^verbatim>\<open>'L'\<close>.\<close>

primrec allocate_store :: "nat \<Rightarrow> u64 \<Rightarrow> nat \<Rightarrow> tagged_cache \<Rightarrow> bool \<times> tagged_cache" where
  "allocate_store 0 mpa ix c = (True, c)"
| "allocate_store (Suc k) mpa ix c =
    (case mem_store 1 (cache_mem c) mpa (ucast (cache_data c ix)) of
       None \<Rightarrow> (False, c)
     | Some m \<Rightarrow> allocate_store k (mpa + 1) (Suc ix) (c\<lparr>cache_mem := m\<rparr>))"

primrec allocate_load :: "nat \<Rightarrow> u64 \<Rightarrow> nat \<Rightarrow> tagged_cache \<Rightarrow> bool \<times> tagged_cache" where
  "allocate_load 0 mpa ix c = (True, c)"
| "allocate_load (Suc k) mpa ix c =
    (case mem_load 1 (cache_mem c) mpa of
       None \<Rightarrow> (False, c)
     | Some v \<Rightarrow> allocate_load k (mpa + 1) (Suc ix) (c\<lparr>cache_data := (cache_data c)(ix := ucast v)\<rparr>))"

datatype cache_op = op_S | op_L

definition allocate :: "cache_dim \<Rightarrow> u64 \<Rightarrow> cache_op \<Rightarrow> nat \<Rightarrow> tagged_cache \<Rightarrow> bool \<times> tagged_cache" where
  "allocate d mpa op index_for_entry c =
    (let mpa_masked = mpa AND NOT (mask (cache_line_shift d));
         index_for_data = index_for_entry * line_size d in
     case op of
       op_S \<Rightarrow> allocate_store (line_size d) mpa_masked index_for_data c
     | op_L \<Rightarrow> allocate_load (line_size d) mpa_masked index_for_data c)"

section \<open>Lookup\<close>

text \<open>
  The search in the ways of a set: a hit, or the first empty line, or the last line with the greatest
  replacement counter; \<^verbatim>\<open>maxLRU\<close> has 8 bits.
\<close>

datatype found = Hit nat | Empty nat | Evict nat | NoLine

fun search_ways :: "tagged_cache \<Rightarrow> u64 \<Rightarrow> nat list \<Rightarrow> nat option \<Rightarrow> u8 \<Rightarrow> nat option \<Rightarrow> found" where
  "search_ways c ppn [] em maxLRU evict =
    (case em of Some i \<Rightarrow> Empty i | None \<Rightarrow> (case evict of Some i \<Rightarrow> Evict i | None \<Rightarrow> NoLine))"
| "search_ways c ppn (i # rest) em maxLRU evict =
    (let ent = cache_key c i in
     if ce_ppn ent = ppn then Hit i
     else if em = None \<and> ce_status ent = cache_line_empty then search_ways c ppn rest (Some i) maxLRU evict
     else if ce_LRU_count ent \<ge> ucast maxLRU then search_ways c ppn rest em (ucast (ce_LRU_count ent)) (Some i)
     else search_ways c ppn rest em maxLRU evict)"

definition cache_set :: "cache_dim \<Rightarrow> u64 \<Rightarrow> nat" where
  "cache_set d pcln = unat (pcln AND mask (num_entries_shift d))"

definition ways_of :: "cache_dim \<Rightarrow> nat \<Rightarrow> nat list" where
  "ways_of d s = [s * num_ways d ..< s * num_ways d + num_ways d]"

text \<open>\<open>None\<close> is the null pointer of \<^verbatim>\<open>line_to_evict\<close>.\<close>

definition lookup_cache_line :: "cache_dim \<Rightarrow> u64 \<Rightarrow> tagged_cache \<Rightarrow> (nat \<times> tagged_cache) option" where
  "lookup_cache_line d mpa c =
    (let pcln = drop_bit (cache_line_shift d) mpa;
         entry = cache_set d pcln;
         ppn = drop_bit (num_entries_shift d) pcln in
     case search_ways c ppn (ways_of d entry) None 0 None of
       Hit i \<Rightarrow> Some (i, upd_entry i (\<lambda>e. e\<lparr>ce_status := cache_line_hit\<rparr>) c)
     | Empty i \<Rightarrow> Some (i, c)
     | Evict i \<Rightarrow> Some (i, upd_entry i (\<lambda>e. e\<lparr>ce_status := cache_line_must_evict\<rparr>) c)
     | NoLine \<Rightarrow> None)"

section \<open>Values in the data array\<close>

primrec data_value :: "(nat \<Rightarrow> u8) \<Rightarrow> nat \<Rightarrow> nat \<Rightarrow> nat \<Rightarrow> u64" where
  "data_value dat ix shift_amt 0 = 0"
| "data_value dat ix shift_amt (Suc n) =
     push_bit shift_amt (ucast (dat ix)) + data_value dat (Suc ix) (shift_amt + 8) n"

text \<open>
  \<^verbatim>\<open>load_val\<close>: a value that crosses the end of its line first brings the next line into the next
  entry of the array.
\<close>

definition fill_next :: "cache_dim \<Rightarrow> u64 \<Rightarrow> nat \<Rightarrow> tagged_cache \<Rightarrow> (tagged_cache, bool) outcome" where
  "fill_next d mpa index_for_entry c =
    (if index_for_entry < num_keys d then
       (let off = mpa AND mask (cache_line_shift d);
            mpa_next = mpa + (mask (cache_line_shift d) - off + 1);
            ent = cache_key c index_for_entry;
            (ok, c) =
              (if ce_status ent \<noteq> cache_line_empty then
                 (let (ok, c) =
                    (if write_policy c = cache_write_back \<and> ce_state ent = cache_state_modified then
                       (let (ok, c) = allocate d (push_bit (cache_line_shift d) (ce_pcln ent)) op_S index_for_entry c
                        in (ok, if ok then upd_entry index_for_entry (\<lambda>e. e\<lparr>ce_state := cache_state_shared\<rparr>) c else c))
                     else (True, c))
                  in if ok
                     then (True, update_LRU_counters d (cache_set d (ce_pcln ent)) index_for_entry
                            (upd_entry index_for_entry (\<lambda>e. e\<lparr>ce_LRU_count := 0\<rparr>) c))
                     else (False, c))
               else (True, c))
        in if \<not> ok then Ret False c
           else case allocate d mpa_next op_L index_for_entry c of (ok, c) \<Rightarrow>
             if \<not> ok then Ret False c
             else let pcln = drop_bit (cache_line_shift d) mpa_next in
               Ret True (update_stats 0xC0000020 ((upd_entry index_for_entry
                 (\<lambda>e. e\<lparr>ce_pcln := pcln, ce_ppn := take_bit ppn_bits (drop_bit (num_entries_shift d) pcln),
                    ce_status := cache_line_filled\<rparr>) c)\<lparr>last_access := cache_line_must_evict\<rparr>)))
     else Exit Undefined c)"

definition load_val :: "cache_dim \<Rightarrow> nat \<Rightarrow> u64 \<Rightarrow> nat \<Rightarrow> tagged_cache \<Rightarrow> (tagged_cache, u64 option) outcome" where
  "load_val d n mpa index_for_data c =
    (if (index_for_data + (n - 1)) div line_size d \<noteq> index_for_data div line_size d then
       bind_outcome (fill_next d mpa (index_for_data div line_size d + 1) c) (\<lambda>ok c.
         Ret (if ok then Some (data_value (cache_data c) index_for_data 0 n) else None) c)
     else Ret (Some (data_value (cache_data c) index_for_data 0 n)) c)"

text \<open>\<^verbatim>\<open>store_val\<close>: byte by byte, each also to memory if the policy is write-through.\<close>

primrec store_val :: "nat \<Rightarrow> u64 \<Rightarrow> nat \<Rightarrow> u64 \<Rightarrow> tagged_cache \<Rightarrow> bool \<times> tagged_cache" where
  "store_val 0 mpa ix val c = (True, c)"
| "store_val (Suc n) mpa ix val c =
    (let c = c\<lparr>cache_data := (cache_data c)(ix := ucast val)\<rparr> in
     if write_policy c = cache_write_through then
       (case mem_store 1 (cache_mem c) mpa (ucast (ucast val :: u8)) of
          None \<Rightarrow> (False, c)
        | Some m \<Rightarrow> store_val n (mpa + 1) (Suc ix) (drop_bit 8 val) (c\<lparr>cache_mem := m\<rparr>))
     else store_val n mpa (Suc ix) (drop_bit 8 val) c)"

section \<open>Access\<close>

text \<open>The line of an address is brought into the entry that the lookup chose.\<close>

definition fill_entry :: "cache_dim \<Rightarrow> u64 \<Rightarrow> nat \<Rightarrow> cache_line_status \<Rightarrow> tagged_cache \<Rightarrow> tagged_cache" where
  "fill_entry d mpa i la c =
    (let pcln = drop_bit (cache_line_shift d) mpa in
     (upd_entry i (\<lambda>e. e\<lparr>ce_pcln := pcln, ce_ppn := take_bit ppn_bits (drop_bit (num_entries_shift d) pcln),
        ce_status := cache_line_filled\<rparr>) c)\<lparr>last_access := la\<rparr>)"

definition bring_in :: "cache_dim \<Rightarrow> u64 \<Rightarrow> nat \<Rightarrow> tagged_cache \<Rightarrow> bool \<times> tagged_cache" where
  "bring_in d mpa i c =
    (let ent = cache_key c i in
     case ce_status ent of
       cache_line_hit \<Rightarrow>
         (True, update_stats 0xC0000010
            ((upd_entry i (\<lambda>e. e\<lparr>ce_status := cache_line_filled\<rparr>) c)\<lparr>last_access := cache_line_hit\<rparr>))
     | cache_line_must_evict \<Rightarrow>
         (let (ok, c) =
            (if write_policy c = cache_write_back \<and> ce_state ent = cache_state_modified
             then allocate d (push_bit (cache_line_shift d) (ce_pcln ent)) op_S i
                    (upd_entry i (\<lambda>e. e\<lparr>ce_state := cache_state_shared\<rparr>) c)
             else (True, c))
          in if \<not> ok then (False, c)
             else allocate d mpa op_L i
               (update_stats 0xC0000020 (update_stats 0xC0000018
                 (fill_entry d mpa i cache_line_must_evict
                   (update_LRU_counters d (cache_set d (ce_pcln ent)) i
                     (upd_entry i (\<lambda>e. e\<lparr>ce_LRU_count := 0\<rparr>) c))))))
     | cache_line_empty \<Rightarrow>
         allocate d mpa op_L i (update_stats 0xC0000018 (fill_entry d mpa i cache_line_empty c))
     | cache_line_filled \<Rightarrow> (True, c))"

definition access_cache :: "cache_dim \<Rightarrow> nat \<Rightarrow> u64 \<Rightarrow> cache_op \<Rightarrow> u64 \<Rightarrow> tagged_cache \<Rightarrow>
    (tagged_cache, u64 option) outcome" where
  "access_cache d n mpa op val c =
    (case lookup_cache_line d mpa c of
       None \<Rightarrow> Exit Undefined c
     | Some (i, c) \<Rightarrow>
         (let index_for_data = i * line_size d + unat (mpa AND mask (cache_line_shift d)) in
          case bring_in d mpa i c of (ok, c) \<Rightarrow>
            if \<not> ok then Ret None c
            else case op of
              op_S \<Rightarrow>
                (let c = (if write_policy c = cache_write_back
                          then upd_entry i (\<lambda>e. e\<lparr>ce_state := cache_state_modified\<rparr>) c else c) in
                 if index_for_data + n > num_keys d * line_size d then Exit Undefined c
                 else case store_val n mpa index_for_data val c of (ok, c) \<Rightarrow>
                   Ret (if ok then Some val else None) c)
            | op_L \<Rightarrow> load_val d n mpa index_for_data c))"

definition in_ram :: "u64 \<Rightarrow> bool" where
  "in_ram mpa \<longleftrightarrow> \<not> (mpa < default_ram_base \<or> mpa > default_ram_base + default_ram_size)"

definition cache_load :: "cache_dim \<Rightarrow> nat \<Rightarrow> u64 \<Rightarrow> tagged_cache \<Rightarrow> (tagged_cache, u64 option) outcome" where
  "cache_load d n mpa c =
    (if \<not> in_ram mpa then Ret (mem_load n (cache_mem c) mpa) c
     else access_cache d n mpa op_L 0 (update_stats 0xC0000000 c))"

definition cache_store :: "cache_dim \<Rightarrow> nat \<Rightarrow> u64 \<Rightarrow> u64 \<Rightarrow> tagged_cache \<Rightarrow> (tagged_cache, u64 option) outcome" where
  "cache_store d n mpa val c =
    (if \<not> in_ram mpa then
       (case mem_store n (cache_mem c) mpa val of
          None \<Rightarrow> Ret None c | Some m \<Rightarrow> Ret (Some val) (c\<lparr>cache_mem := m\<rparr>))
     else access_cache d n mpa op_S val (update_stats 0xC0000008 c))"

end
