(* ===== verification/Rv_Cache_Laws.thy ===== *)
theory Rv_Cache_Laws
  imports Rv_Cache
begin

text \<open>
  The data cache is transparent: a simulation between the cache with the memory behind it and a plain
  memory.  The relation \<open>represents\<close> says which plain memory a cache stands for; the operations keep
  it.  It covers the cached gigabyte below the statistics.
\<close>

section \<open>Addresses and lines\<close>

text \<open>The cached range from 0x80000000 to 0xC0000000.\<close>

definition ram :: "u64 \<Rightarrow> bool" where
  "ram a \<longleftrightarrow> drop_bit 30 a = 2"

lemma unat_drop_bit: "unat (drop_bit n a) = unat a div 2 ^ n" for a :: u64
proof -
  have "unat a < 2 ^ 64" using unsigned_less [of a, where 'a = nat] by simp
  then show ?thesis by (simp only: unsigned_drop_bit_eq) (simp add: drop_bit_eq_div take_bit_nat_eq_self)
qed

lemma ucast_byte [simp]: "ucast (ucast b :: u64) = b" for b :: u8
  by (auto intro!: bit_word_eqI simp: bit_simps)

lemma ram_range: "ram a \<longleftrightarrow> 0x80000000 \<le> a \<and> a < 0xC0000000"
proof -
  have "ram a \<longleftrightarrow> unat a div 2 ^ 30 = 2"
    unfolding ram_def word_unat_eq_iff unat_drop_bit by simp
  also have "\<dots> \<longleftrightarrow> 0x80000000 \<le> unat a \<and> unat a < 0xC0000000" by auto
  finally show ?thesis by (simp add: word_le_nat_alt word_less_nat_alt)
qed

text \<open>The static assertion on the template parameters, and lines of at least 8 bytes.\<close>

definition dim_ok :: "cache_dim \<Rightarrow> bool" where
  "dim_ok d \<longleftrightarrow> cache_line_shift d + num_entries_shift d = 12 \<and> 3 \<le> cache_line_shift d"

abbreviation line_of :: "cache_dim \<Rightarrow> u64 \<Rightarrow> u64" where
  "line_of d a \<equiv> drop_bit (cache_line_shift d) a"

abbreviation line_off :: "cache_dim \<Rightarrow> u64 \<Rightarrow> nat" where
  "line_off d a \<equiv> unat (take_bit (cache_line_shift d) a)"

abbreviation line_base :: "cache_dim \<Rightarrow> u64 \<Rightarrow> u64" where
  "line_base d a \<equiv> a AND NOT (mask (cache_line_shift d))"

lemma take_bit_le_mask: "take_bit k (a :: u64) = a AND mask k"
  by (rule take_bit_eq_mask)

lemma line_off_less: "k \<le> 63 \<Longrightarrow> unat (take_bit k (a :: u64)) < 2 ^ k"
  by (simp add: unsigned_take_bit_eq)

lemma base_off: "(a AND NOT (mask k)) + take_bit k a = (a :: u64)"
proof -
  have "(a AND NOT (mask k)) AND take_bit k a = 0" by (auto intro!: bit_word_eqI simp: bit_simps)
  moreover have "(a AND NOT (mask k)) OR take_bit k a = a" by (auto intro!: bit_word_eqI simp: bit_simps)
  ultimately show ?thesis by (simp add: disjunctive_add_eq_or)
qed

lemma same_line_iff:
  fixes x a :: u64
  assumes "k \<le> 63"
  shows "unat (x - (a AND NOT (mask k))) < 2 ^ k \<longleftrightarrow> drop_bit k x = drop_bit k a"
proof
  let ?b = "a AND NOT (mask k)" and ?y = "x - (a AND NOT (mask k))"
  assume "unat ?y < 2 ^ k"
  then have y: "take_bit k ?y = ?y"
    by (metis take_bit_nat_eq_self unsigned_take_bit_eq word_unat_eq_iff)
  have "?b AND take_bit k ?y = 0" by (auto intro!: bit_word_eqI simp: bit_simps)
  then have "?b + take_bit k ?y = ?b OR take_bit k ?y" by (simp add: disjunctive_add_eq_or)
  then have "x = ?b OR take_bit k ?y" using y by simp
  then have "drop_bit k x = drop_bit k (?b OR take_bit k ?y)" by simp
  also have "\<dots> = drop_bit k a" by (auto intro!: bit_word_eqI simp: bit_simps)
  finally show "drop_bit k x = drop_bit k a" .
next
  assume eq: "drop_bit k x = drop_bit k a"
  have "a AND NOT (mask k) = push_bit k (drop_bit k a)" for a :: u64
    by (auto intro!: bit_word_eqI simp: bit_simps)
  then have "a AND NOT (mask k) = x AND NOT (mask k)" using eq by metis
  then have "x - (a AND NOT (mask k)) = take_bit k x" using base_off [of x k] by (metis add_diff_cancel_left')
  then show "unat (x - (a AND NOT (mask k))) < 2 ^ k" using line_off_less [OF assms] by simp
qed

lemma same_line_off:
  fixes x a :: u64
  assumes "drop_bit k x = drop_bit k a"
  shows "x - (a AND NOT (mask k)) = take_bit k x"
proof -
  have "a AND NOT (mask k) = push_bit k (drop_bit k a)" for a :: u64
    by (auto intro!: bit_word_eqI simp: bit_simps)
  then have "a AND NOT (mask k) = x AND NOT (mask k)" using assms by metis
  then show ?thesis using base_off [of x k] by (metis add_diff_cancel_left')
qed

lemma ram_line: "cache_line_shift d \<le> 12 \<Longrightarrow> line_of d x = line_of d a \<Longrightarrow> ram x \<longleftrightarrow> ram a"
proof -
  assume "cache_line_shift d \<le> 12" "line_of d x = line_of d a"
  moreover have "drop_bit 30 a = drop_bit (30 - cache_line_shift d) (line_of d a)"
    if "cache_line_shift d \<le> 12" for a :: u64
    using that by simp
  ultimately show ?thesis unfolding ram_def by metis
qed

section \<open>Memory behind the cache\<close>

text \<open>One segment covers the cached range and the statistics after it.\<close>

definition ram_at :: "u64 \<Rightarrow> user_memory \<Rightarrow> bool" where
  "ram_at off m \<longleftrightarrow> (\<forall>a. 0x80000000 \<le> a \<and> a < 0xC0000028 \<longrightarrow> mpa_to_uva m a = Some (a + off))"

lemma ram_at_hmem [simp]: "ram_at off (m\<lparr>hmem := h\<rparr>) \<longleftrightarrow> ram_at off m"
  by (simp add: ram_at_def)

lemma ram_uva: "ram_at off m \<Longrightarrow> ram a \<Longrightarrow> mpa_to_uva m a = Some (a + off)"
  by (simp add: ram_at_def ram_range word_less_nat_alt)

lemma mem_byte:
  assumes "ram_at off m" and "ram a"
  shows "mem_load (Suc 0) m a = Some (ucast (hmem m (a + off)))"
    and "mem_store (Suc 0) m a v = Some (m\<lparr>hmem := (hmem m)(a + off := ucast v)\<rparr>)"
  using ram_uva [OF assms] by (simp_all add: mem_load_def mem_store_def bus_size_def)

lemma update_stats_eq:
  assumes "ram_at off (cache_mem c)" and "0xC0000000 \<le> s" and "s \<le> 0xC0000020"
  shows "\<exists>h. update_stats s c = c\<lparr>cache_mem := (cache_mem c)\<lparr>hmem := h\<rparr>\<rparr> \<and>
    (\<forall>a. ram a \<longrightarrow> h (a + off) = hmem (cache_mem c) (a + off))"
proof -
  have uva: "mpa_to_uva (cache_mem c) s = Some (s + off)"
    using assms by (simp add: ram_at_def word_less_nat_alt word_le_nat_alt)
  let ?h = "write_bytes (hmem (cache_mem c)) (s + off) 8 (read_bytes (hmem (cache_mem c)) (s + off) 8 + 1)"
  have far: "\<not> unat (a - s) < 8" if "ram a" for a
  proof -
    have "unat a < 0xC0000000" "0xC0000000 \<le> unat s" "unat s \<le> 0xC0000020"
      using that assms(2,3) by (simp_all add: ram_range word_less_nat_alt word_le_nat_alt)
    then have "unat (a - s) = unat a + 2 ^ 64 - unat s" by (simp add: unat_sub_if')
    then show ?thesis using \<open>unat a < 0xC0000000\<close> \<open>unat s \<le> 0xC0000020\<close> by simp
  qed
  have "update_stats s c = c\<lparr>cache_mem := (cache_mem c)\<lparr>hmem := ?h\<rparr>\<rparr>"
    by (simp add: update_stats_def mem_load_def mem_store_def bus_size_def uva)
  moreover have "?h (a + off) = hmem (cache_mem c) (a + off)" if "ram a" for a
    using far [OF that] write_bytes_at [of 8] by simp
  ultimately show ?thesis by blast
qed

text \<open>The block transfers.\<close>

definition blk_write :: "host_memory \<Rightarrow> u64 \<Rightarrow> nat \<Rightarrow> (nat \<Rightarrow> u8) \<Rightarrow> host_memory" where
  "blk_write h a k f = (\<lambda>x. if unat (x - a) < k then f (unat (x - a)) else h x)"

lemma blk_write_Suc:
  assumes "k < 2 ^ 63"
  shows "blk_write (h(a := f 0)) (a + 1) k (\<lambda>j. f (Suc j)) = blk_write h a (Suc k) f"
proof
  fix x
  have sub: "x - (a + 1) = (x - a) - 1" by simp
  show "blk_write (h(a := f 0)) (a + 1) k (\<lambda>j. f (Suc j)) x = blk_write h a (Suc k) f x"
  proof (cases "x = a")
    case True
    have "unat (- 1 :: u64) = 2 ^ 64 - 1" by (simp add: unsigned_minus_1_eq_mask mask_eq_exp_minus_1)
    then show ?thesis using True assms by (simp add: blk_write_def)
  next
    case False
    then have "x - a \<noteq> 0" by simp
    then have "unat (x - a) = Suc (unat (x - (a + 1)))"
      unfolding sub by (metis Suc_pred' unat_gt_0 unat_minus_one)
    then show ?thesis using False by (simp add: blk_write_def)
  qed
qed

lemma allocate_store_eq:
  assumes "ram_at off (cache_mem c)" and "k \<le> 4096" and "\<And>j. j < k \<Longrightarrow> ram (a + of_nat j)"
  shows "allocate_store k a ix c = (True, c\<lparr>cache_mem := (cache_mem c)
    \<lparr>hmem := blk_write (hmem (cache_mem c)) (a + off) k (\<lambda>j. cache_data c (ix + j))\<rparr>\<rparr>)"
  using assms
proof (induction k arbitrary: a ix c)
  case 0
  then show ?case by (simp add: blk_write_def)
next
  case (Suc k)
  have "ram a" using Suc.prems(3) [of 0] by simp
  note st = mem_byte(2) [OF Suc.prems(1) this]
  have "ram (a + 1 + of_nat j)" if "j < k" for j
    using Suc.prems(3) [of "Suc j"] that by (simp add: ac_simps)
  note IH = Suc.IH [OF _ _ this]
  have upd: "blk_write ((hmem (cache_mem c))(a + off := cache_data c ix)) (a + off + 1) k (\<lambda>j. cache_data c (Suc ix + j)) =
    blk_write (hmem (cache_mem c)) (a + off) (Suc k) (\<lambda>j. cache_data c (ix + j))"
    using blk_write_Suc [of k "hmem (cache_mem c)" "a + off" "\<lambda>j. cache_data c (ix + j)"] Suc.prems(2) by simp
  show ?case
    unfolding upd [symmetric] using Suc.prems(1,2) by (simp add: st IH) (simp add: ac_simps fun_upd_def)
qed

definition blk_read :: "(nat \<Rightarrow> u8) \<Rightarrow> nat \<Rightarrow> nat \<Rightarrow> (nat \<Rightarrow> u8) \<Rightarrow> nat \<Rightarrow> u8" where
  "blk_read dat ix k f = (\<lambda>i. if ix \<le> i \<and> i < ix + k then f (i - ix) else dat i)"

lemma blk_read_Suc: "blk_read (dat(ix := f 0)) (Suc ix) k (\<lambda>j. f (Suc j)) = blk_read dat ix (Suc k) f"
proof
  fix i
  have "i - ix = Suc (i - Suc ix)" if "Suc ix \<le> i" using that by simp
  then show "blk_read (dat(ix := f 0)) (Suc ix) k (\<lambda>j. f (Suc j)) i = blk_read dat ix (Suc k) f i"
    by (auto simp: blk_read_def le_less Suc_le_eq)
qed

lemma allocate_load_eq:
  assumes "ram_at off (cache_mem c)" and "\<And>j. j < k \<Longrightarrow> ram (a + of_nat j)"
  shows "allocate_load k a ix c = (True, c\<lparr>cache_data :=
    blk_read (cache_data c) ix k (\<lambda>j. hmem (cache_mem c) (a + off + of_nat j))\<rparr>)"
  using assms
proof (induction k arbitrary: a ix c)
  case 0
  have "blk_read dat ix 0 f = dat" for dat f by (rule ext) (auto simp: blk_read_def)
  then show ?case by simp
next
  case (Suc k)
  have "ram a" using Suc.prems(2) [of 0] by simp
  note ld = mem_byte(1) [OF Suc.prems(1) this]
  have "ram (a + 1 + of_nat j)" if "j < k" for j
    using Suc.prems(2) [of "Suc j"] that by (simp add: ac_simps)
  note IH = Suc.IH [OF _ this]
  show ?case
    using blk_read_Suc [of "cache_data c" ix "\<lambda>j. hmem (cache_mem c) (a + off + of_nat j)" k] Suc.prems(1)
    by (simp add: ld IH) (simp add: ac_simps fun_upd_def)
qed

section \<open>The memory a cache stands for\<close>

text \<open>
  \<open>represents d off X c m\<close>: the cache \<open>c\<close> over the memory behind it, found at host offset \<open>off\<close>, stands
  for the plain memory \<open>m\<close>.  The entries in \<open>X\<close> are being replaced and count for nothing.
\<close>

definition live :: "cache_dim \<Rightarrow> nat set \<Rightarrow> tagged_cache \<Rightarrow> nat \<Rightarrow> bool" where
  "live d X c i \<longleftrightarrow> i < num_keys d \<and> i \<notin> X \<and> ce_status (cache_key c i) \<noteq> cache_line_empty"

definition entry_ok :: "cache_dim \<Rightarrow> nat \<Rightarrow> tagged_cache_entry \<Rightarrow> bool" where
  "entry_ok d i e \<longleftrightarrow> ce_status e = cache_line_filled \<and> cache_set d (ce_pcln e) = i div num_ways d \<and>
     ce_ppn e = drop_bit (num_entries_shift d) (ce_pcln e) \<and> (\<exists>a. ram a \<and> ce_pcln e = line_of d a)"

definition represents :: "cache_dim \<Rightarrow> u64 \<Rightarrow> nat set \<Rightarrow> tagged_cache \<Rightarrow> host_memory \<Rightarrow> bool" where
  "represents d off X c m \<longleftrightarrow> ram_at off (cache_mem c) \<and>
     (\<forall>i. live d X c i \<longrightarrow> entry_ok d i (cache_key c i)) \<and>
     (\<forall>i. i < num_keys d \<and> i \<notin> X \<and> ce_status (cache_key c i) = cache_line_empty \<longrightarrow>
        ce_ppn (cache_key c i) = mask ppn_bits \<and> ce_state (cache_key c i) \<noteq> cache_state_modified) \<and>
     (\<forall>i j. live d X c i \<and> live d X c j \<and> ce_pcln (cache_key c i) = ce_pcln (cache_key c j) \<longrightarrow> i = j) \<and>
     (\<forall>i a. live d X c i \<and> line_of d a = ce_pcln (cache_key c i) \<longrightarrow>
        cache_data c (i * line_size d + line_off d a) = m a) \<and>
     (\<forall>a. ram a \<and> (\<forall>i. live d X c i \<and> ce_pcln (cache_key c i) = line_of d a \<longrightarrow>
            ce_state (cache_key c i) \<noteq> cache_state_modified) \<longrightarrow> hmem (cache_mem c) (a + off) = m a) \<and>
     (write_policy c = cache_write_through \<longrightarrow>
        (\<forall>i < num_keys d. i \<notin> X \<longrightarrow> ce_state (cache_key c i) \<noteq> cache_state_modified))"

lemma representsD:
  assumes "represents d off X c m"
  shows "ram_at off (cache_mem c)"
    and "live d X c i \<Longrightarrow> entry_ok d i (cache_key c i)"
    and "i < num_keys d \<Longrightarrow> i \<notin> X \<Longrightarrow> ce_status (cache_key c i) = cache_line_empty \<Longrightarrow>
      ce_ppn (cache_key c i) = mask ppn_bits \<and> ce_state (cache_key c i) \<noteq> cache_state_modified"
    and "live d X c i \<Longrightarrow> live d X c j \<Longrightarrow> ce_pcln (cache_key c i) = ce_pcln (cache_key c j) \<Longrightarrow> i = j"
    and "live d X c i \<Longrightarrow> line_of d a = ce_pcln (cache_key c i) \<Longrightarrow>
      cache_data c (i * line_size d + line_off d a) = m a"
    and "ram a \<Longrightarrow> (\<And>i. live d X c i \<Longrightarrow> ce_pcln (cache_key c i) = line_of d a \<Longrightarrow>
      ce_state (cache_key c i) \<noteq> cache_state_modified) \<Longrightarrow> hmem (cache_mem c) (a + off) = m a"
    and "write_policy c = cache_write_through \<Longrightarrow> i < num_keys d \<Longrightarrow> i \<notin> X \<Longrightarrow>
      ce_state (cache_key c i) \<noteq> cache_state_modified"
  using assms unfolding represents_def by blast+

text \<open>Changes that the relation does not see.\<close>

lemma represents_mem:
  assumes "represents d off X c m" and "\<And>a. ram a \<Longrightarrow> h (a + off) = hmem (cache_mem c) (a + off)"
  shows "represents d off X (c\<lparr>cache_mem := (cache_mem c)\<lparr>hmem := h\<rparr>\<rparr>) m"
  using assms unfolding represents_def live_def by simp

lemma represents_stats:
  assumes "represents d off X c m" and "0xC0000000 \<le> s" and "s \<le> 0xC0000020"
  shows "represents d off X (update_stats s c) m"
  using update_stats_eq [OF representsD(1) [OF assms(1)] assms(2,3)] represents_mem [OF assms(1)] by fastforce

lemma update_stats_key [simp]:
  "cache_key (update_stats s c) = cache_key c" "write_policy (update_stats s c) = write_policy c"
  "cache_data (update_stats s c) = cache_data c"
  by (simp_all add: update_stats_def split: option.split)

lemma represents_last_access [simp]: "represents d off X (c\<lparr>last_access := l\<rparr>) m \<longleftrightarrow> represents d off X c m"
  by (simp add: represents_def live_def)

lemma represents_cong:
  assumes "\<And>i. i \<notin> X \<Longrightarrow> ce_pcln (k i) = ce_pcln (cache_key c i) \<and> ce_state (k i) = ce_state (cache_key c i) \<and>
    ce_ppn (k i) = ce_ppn (cache_key c i) \<and> ce_status (k i) = ce_status (cache_key c i)"
  shows "represents d off X (c\<lparr>cache_key := k\<rparr>) m \<longleftrightarrow> represents d off X c m"
proof -
  have "live d X (c\<lparr>cache_key := k\<rparr>) = live d X c"
    using assms by (intro ext) (auto simp: live_def)
  moreover have "live d X c i \<Longrightarrow> i \<notin> X" for i by (simp add: live_def)
  ultimately show ?thesis unfolding represents_def entry_ok_def by (simp add: assms cong: conj_cong imp_cong)
qed

lemma represents_LRU: "represents d off X (update_LRU_counters d s i c) m \<longleftrightarrow> represents d off X c m"
  unfolding update_LRU_counters_def Let_def by (rule represents_cong) simp

lemma represents_upd_exempt: "i \<in> X \<Longrightarrow> represents d off X (upd_entry i f c) m \<longleftrightarrow> represents d off X c m"
  unfolding upd_entry_def by (rule represents_cong) auto

section \<open>Lookup\<close>

lemma search_ways_step:
  "search_ways c ppn (w # ws) em mx ev = r \<Longrightarrow>
    (ce_ppn (cache_key c w) = ppn \<Longrightarrow> r = Hit w \<Longrightarrow> P) \<Longrightarrow>
    (ce_ppn (cache_key c w) \<noteq> ppn \<Longrightarrow> em = None \<Longrightarrow> ce_status (cache_key c w) = cache_line_empty \<Longrightarrow>
       search_ways c ppn ws (Some w) mx ev = r \<Longrightarrow> P) \<Longrightarrow>
    (ce_ppn (cache_key c w) \<noteq> ppn \<Longrightarrow> \<not> (em = None \<and> ce_status (cache_key c w) = cache_line_empty) \<Longrightarrow>
       search_ways c ppn ws em (ucast (ce_LRU_count (cache_key c w))) (Some w) = r \<Longrightarrow> P) \<Longrightarrow>
    (ce_ppn (cache_key c w) \<noteq> ppn \<Longrightarrow> \<not> (em = None \<and> ce_status (cache_key c w) = cache_line_empty) \<Longrightarrow>
       mx \<noteq> 0 \<Longrightarrow> search_ways c ppn ws em mx ev = r \<Longrightarrow> P) \<Longrightarrow> P"
  by (cases "mx = 0") (simp_all add: Let_def split: if_splits)

lemma search_ways_Hit:
  "search_ways c ppn ws em mx ev = Hit i \<Longrightarrow> i \<in> set ws \<and> ce_ppn (cache_key c i) = ppn"
proof (induction ws arbitrary: em mx ev)
  case (Cons w ws)
  from Cons.prems show ?case by (rule search_ways_step) (use Cons.IH in force)+
qed (simp split: option.splits)

lemma search_ways_Empty:
  "search_ways c ppn ws em mx ev = Empty i \<Longrightarrow>
    (em = Some i \<or> i \<in> set ws \<and> ce_status (cache_key c i) = cache_line_empty) \<and>
    (\<forall>j \<in> set ws. ce_ppn (cache_key c j) \<noteq> ppn)"
proof (induction ws arbitrary: em mx ev)
  case (Cons w ws)
  from Cons.prems show ?case by (rule search_ways_step) (use Cons.IH in force)+
qed (simp split: option.splits)

lemma search_ways_Evict:
  "search_ways c ppn ws em mx ev = Evict i \<Longrightarrow> em = None \<and> (ev = Some i \<or> i \<in> set ws) \<and>
    (\<forall>j \<in> set ws. ce_ppn (cache_key c j) \<noteq> ppn \<and> ce_status (cache_key c j) \<noteq> cache_line_empty)"
proof (induction ws arbitrary: em mx ev)
  case (Cons w ws)
  from Cons.prems show ?case by (rule search_ways_step) (use Cons.IH in force)+
qed (simp split: option.splits)

lemma search_ways_NoLine:
  "search_ways c ppn ws em mx ev = NoLine \<Longrightarrow> em = None \<and> ev = None \<and> (ws = [] \<or> mx \<noteq> 0)"
proof (induction ws arbitrary: em mx ev)
  case (Cons w ws)
  from Cons.prems show ?case by (rule search_ways_step) (use Cons.IH in force)+
qed (simp split: option.splits)

lemma cache_set_less: "num_entries_shift d \<le> 12 \<Longrightarrow> cache_set d t < 2 ^ num_entries_shift d"
  using line_off_less [of "num_entries_shift d" t] by (simp add: cache_set_def take_bit_eq_mask)

lemma ways_of_iff: "i \<in> set (ways_of d s) \<longleftrightarrow> i div num_ways d = s"
proof -
  have "i div num_ways d = s \<longleftrightarrow> s * num_ways d \<le> i \<and> i < Suc s * num_ways d"
    using split_div' [of "\<lambda>q. q = s" i "num_ways d"] by (auto simp: ac_simps)
  then show ?thesis by (auto simp: ways_of_def)
qed

lemma way_less_keys:
  assumes "num_entries_shift d \<le> 12" and "i div num_ways d = cache_set d t"
  shows "i < num_keys d"
proof -
  have "i div num_ways d < 2 ^ num_entries_shift d" using assms cache_set_less by simp
  then show ?thesis unfolding num_keys_def by (simp add: div_less_iff_less_mult)
qed

lemma line_from_parts:
  fixes p q :: u64
  assumes "cache_set d p = cache_set d q" and "drop_bit (num_entries_shift d) p = drop_bit (num_entries_shift d) q"
  shows "p = q"
proof -
  have "p = q" if "p AND mask k = q AND mask k" "drop_bit k p = drop_bit k q" for k
    using that bits_ident [of k p] bits_ident [of k q] by (simp add: take_bit_eq_mask)
  then show ?thesis using assms by (auto simp: cache_set_def word_unat_eq_iff)
qed

section \<open>Replacement\<close>

lemma block_index:
  "o' < 2 ^ k \<Longrightarrow> i * 2 ^ k \<le> j * 2 ^ k + o' \<and> j * 2 ^ k + o' < i * 2 ^ k + 2 ^ k \<longleftrightarrow> i = j" for i j k o' :: nat
proof -
  assume "o' < 2 ^ k"
  then have "(j * 2 ^ k + o') div 2 ^ k = j" by simp
  moreover have "(j * 2 ^ k + o') div 2 ^ k = i \<longleftrightarrow> i * 2 ^ k \<le> j * 2 ^ k + o' \<and> j * 2 ^ k + o' < Suc i * 2 ^ k"
    using split_div' [of "\<lambda>q. q = i" "j * 2 ^ k + o'" "2 ^ k"] by (auto simp: ac_simps)
  ultimately show ?thesis by (auto simp: ac_simps)
qed

lemma line_addr:
  assumes "cache_line_shift d \<le> 12" and "j < line_size d"
  shows "line_of d (line_base d a + of_nat j) = line_of d a"
proof -
  have "(2 :: nat) ^ cache_line_shift d \<le> 2 ^ 12" using assms(1) by (intro power_increasing) simp_all
  then have "unat (of_nat j :: u64) = j" using assms(2) by (simp add: unat_of_nat)
  then show ?thesis
    using same_line_iff [of "cache_line_shift d" "line_base d a + of_nat j" a] assms by simp
qed

lemma line_size_le: "cache_line_shift d \<le> 12 \<Longrightarrow> line_size d \<le> 4096"
  using power_increasing [of "cache_line_shift d" 12 "2 :: nat"] by simp

lemma fill_represents:
  assumes R: "represents d off {i} c m" and dim: "dim_ok d" and i: "i < num_keys d"
    and set: "cache_set d (line_of d mpa) = i div num_ways d" and mpa: "ram mpa"
    and none: "\<And>j. live d {i} c j \<Longrightarrow> ce_pcln (cache_key c j) \<noteq> line_of d mpa"
    and ent: "ce_pcln (cache_key c i) = line_of d mpa" "ce_status (cache_key c i) = cache_line_filled"
      "ce_ppn (cache_key c i) = drop_bit (num_entries_shift d) (line_of d mpa)"
      "ce_state (cache_key c i) \<noteq> cache_state_modified"
  shows "\<exists>c'. allocate d mpa op_L i c = (True, c') \<and> represents d off {} c' m \<and>
    cache_key c' = cache_key c \<and> write_policy c' = write_policy c"
proof -
  let ?L = "cache_line_shift d"
  have L: "?L \<le> 12" using dim by (simp add: dim_ok_def)
  let ?f = "\<lambda>j. hmem (cache_mem c) (line_base d mpa + off + of_nat j)"
  define c' where "c' = c\<lparr>cache_data := blk_read (cache_data c) (i * line_size d) (line_size d) ?f\<rparr>"
  have "ram (line_base d mpa + of_nat j)" if "j < line_size d" for j
    using ram_line [OF L line_addr [OF L that]] mpa by blast
  then have alloc: "allocate d mpa op_L i c = (True, c')"
    using allocate_load_eq [OF representsD(1) [OF R], of "line_size d" "line_base d mpa" "i * line_size d"]
    by (simp add: allocate_def Let_def c'_def)
  have key: "cache_key c' = cache_key c" "write_policy c' = write_policy c" "cache_mem c' = cache_mem c"
    by (simp_all add: c'_def)
  have live: "live d {} c' j \<longleftrightarrow> live d {i} c j \<or> j = i" for j
    using i ent(2) by (auto simp: live_def key)
  have other: "cache_data c' (j * line_size d + line_off d a) = cache_data c (j * line_size d + line_off d a)"
    if "j \<noteq> i" for j a
    using that block_index [where o' = "line_off d a" and k = ?L and i = i and j = j] line_off_less [of ?L a] L
    by (auto simp: c'_def blk_read_def)
  have filled: "cache_data c' (i * line_size d + line_off d a) = m a" if a: "line_of d a = line_of d mpa" for a
  proof -
    have "line_base d mpa + of_nat (line_off d a) = a"
      using same_line_off [OF a] by (simp add: algebra_simps)
    then have "?f (line_off d a) = hmem (cache_mem c) (a + off)" by (simp add: ac_simps)
    moreover have "line_off d a < line_size d" using L by (intro line_off_less) simp
    moreover have "hmem (cache_mem c) (a + off) = m a"
      using none ram_line [OF L a] mpa by (intro representsD(6) [OF R]) (auto simp: a)
    ultimately show ?thesis by (simp add: c'_def blk_read_def)
  qed
  have "represents d off {} c' m"
    unfolding represents_def
  proof (intro conjI allI impI)
    show "ram_at off (cache_mem c')" using representsD(1) [OF R] by (simp add: key)
    show "entry_ok d j (cache_key c' j)" if "live d {} c' j" for j
    proof (cases "j = i")
      case True
      then show ?thesis using ent set mpa by (auto simp: entry_ok_def key)
    next
      case False
      then show ?thesis using that representsD(2) [OF R, of j] by (simp add: live key)
    qed
    show "ce_ppn (cache_key c' j) = mask ppn_bits" "ce_state (cache_key c' j) \<noteq> cache_state_modified"
      if "j < num_keys d \<and> j \<notin> {} \<and> ce_status (cache_key c' j) = cache_line_empty" for j
    proof -
      have "j \<noteq> i" using that ent(2) by (auto simp: key)
      then show "ce_ppn (cache_key c' j) = mask ppn_bits" "ce_state (cache_key c' j) \<noteq> cache_state_modified"
        using that representsD(3) [OF R, of j] by (simp_all add: key)
    qed
    show "j = k" if "live d {} c' j \<and> live d {} c' k \<and> ce_pcln (cache_key c' j) = ce_pcln (cache_key c' k)" for j k
      using that none [of j] none [of k] representsD(4) [OF R, of j k] ent(1) by (auto simp: live key)
    show "cache_data c' (j * line_size d + line_off d a) = m a"
      if "live d {} c' j \<and> line_of d a = ce_pcln (cache_key c' j)" for j a
      using that representsD(5) [OF R, of j a] other [of j a] filled [of a] ent(1) by (cases "j = i") (auto simp: live key)
    show "hmem (cache_mem c') (a + off) = m a"
      if "ram a \<and> (\<forall>j. live d {} c' j \<and> ce_pcln (cache_key c' j) = line_of d a \<longrightarrow>
        ce_state (cache_key c' j) \<noteq> cache_state_modified)" for a
      using that representsD(6) [OF R, of a] by (simp add: live key)
    show "ce_state (cache_key c' j) \<noteq> cache_state_modified"
      if "write_policy c' = cache_write_through" "j < num_keys d" "j \<notin> {}" for j
      using that representsD(7) [OF R, of j] ent(4) by (cases "j = i") (simp_all add: key)
  qed
  with alloc key show ?thesis by blast
qed

text \<open>An entry whose line memory holds can be given up.\<close>

lemma represents_drop:
  assumes R: "represents d off {} c m" and i: "live d {} c i"
    and mem: "\<And>a. ram a \<Longrightarrow> (\<And>j. live d {} c j \<Longrightarrow> j \<noteq> i \<Longrightarrow> ce_pcln (cache_key c j) = line_of d a \<Longrightarrow>
      ce_state (cache_key c j) \<noteq> cache_state_modified) \<Longrightarrow> h (a + off) = m a"
  shows "represents d off {i} (c\<lparr>cache_mem := (cache_mem c)\<lparr>hmem := h\<rparr>\<rparr>) m"
proof -
  let ?c = "c\<lparr>cache_mem := (cache_mem c)\<lparr>hmem := h\<rparr>\<rparr>"
  have live: "live d {i} ?c j \<longleftrightarrow> live d {} c j \<and> j \<noteq> i" for j by (auto simp: live_def)
  show ?thesis
    unfolding represents_def live
    using representsD(1-5,7) [OF R] mem by (auto intro: mem)
qed

lemma represents_drop_clean:
  assumes R: "represents d off {} c m" and i: "live d {} c i" and "ce_state (cache_key c i) \<noteq> cache_state_modified"
  shows "represents d off {i} c m"
proof -
  have "hmem (cache_mem c) (a + off) = m a"
    if "ram a" "\<And>j. live d {} c j \<Longrightarrow> j \<noteq> i \<Longrightarrow> ce_pcln (cache_key c j) = line_of d a \<Longrightarrow>
      ce_state (cache_key c j) \<noteq> cache_state_modified" for a
    using that assms(3) by (intro representsD(6) [OF R]) metis+
  from represents_drop [OF R i this] show ?thesis by simp
qed

lemma write_back_represents:
  assumes R: "represents d off {} c m" and dim: "dim_ok d" and i: "live d {} c i"
    and c': "c' = upd_entry i f c"
  shows "\<exists>c''. allocate d (push_bit (cache_line_shift d) (ce_pcln (cache_key c i))) op_S i c' = (True, c'') \<and>
    represents d off {i} c'' m \<and> cache_key c'' = cache_key c' \<and> write_policy c'' = write_policy c"
proof -
  let ?L = "cache_line_shift d"
  have L: "?L \<le> 12" using dim by (simp add: dim_ok_def)
  obtain b where b: "ram b" "ce_pcln (cache_key c i) = line_of d b"
    using representsD(2) [OF R i] by (auto simp: entry_ok_def)
  have base: "push_bit ?L (ce_pcln (cache_key c i)) AND NOT (mask ?L) = line_base d b"
    unfolding b(2) by (auto intro!: bit_word_eqI simp: bit_simps)
  let ?g = "\<lambda>j. cache_data c (i * line_size d + j)"
  let ?h = "blk_write (hmem (cache_mem c)) (line_base d b + off) (line_size d) ?g"
  have same: "cache_mem c' = cache_mem c" "cache_data c' = cache_data c" "write_policy c' = write_policy c"
    by (simp_all add: c' upd_entry_def)
  have "ram (line_base d b + of_nat j)" if "j < line_size d" for j
    using ram_line [OF L line_addr [OF L that]] b(1) by blast
  then have alloc: "allocate d (push_bit ?L (ce_pcln (cache_key c i))) op_S i c' =
      (True, c'\<lparr>cache_mem := (cache_mem c)\<lparr>hmem := ?h\<rparr>\<rparr>)"
    using allocate_store_eq [of off c' "line_size d" "line_base d b" "i * line_size d"] representsD(1) [OF R]
      line_size_le [OF L]
    by (simp add: allocate_def Let_def base same)
  have "?h (a + off) = m a"
    if a: "ram a" "\<And>j. live d {} c j \<Longrightarrow> j \<noteq> i \<Longrightarrow> ce_pcln (cache_key c j) = line_of d a \<Longrightarrow>
      ce_state (cache_key c j) \<noteq> cache_state_modified" for a
  proof (cases "line_of d a = line_of d b")
    case True
    then have "?h (a + off) = ?g (line_off d a)"
      using same_line_off [OF True] line_off_less [of ?L a] L by (simp add: blk_write_def)
    then show ?thesis using representsD(5) [OF R i, of a] True b(2) by simp
  next
    case False
    then have "\<not> unat (a - line_base d b) < line_size d" using same_line_iff [of ?L a b] L by simp
    then have "?h (a + off) = hmem (cache_mem c) (a + off)" by (simp add: blk_write_def)
    moreover have "ce_pcln (cache_key c j) = line_of d a \<Longrightarrow> j \<noteq> i" for j using False b(2) by auto
    ultimately show ?thesis using a representsD(6) [OF R a(1)] by metis
  qed
  from represents_drop [OF R i this]
  have "represents d off {i} (c\<lparr>cache_mem := (cache_mem c)\<lparr>hmem := ?h\<rparr>\<rparr>) m" .
  then have "represents d off {i} (upd_entry i f (c\<lparr>cache_mem := (cache_mem c)\<lparr>hmem := ?h\<rparr>\<rparr>)) m"
    by (simp add: represents_upd_exempt)
  moreover have "upd_entry i f (c\<lparr>cache_mem := (cache_mem c)\<lparr>hmem := ?h\<rparr>\<rparr>) = c'\<lparr>cache_mem := (cache_mem c)\<lparr>hmem := ?h\<rparr>\<rparr>"
    by (simp add: c' upd_entry_def)
  ultimately show ?thesis using alloc same(3) by simp
qed

lemma ppn_small:
  assumes "dim_ok d" and "ram mpa"
  shows "take_bit ppn_bits (drop_bit (num_entries_shift d) (line_of d mpa)) =
      drop_bit (num_entries_shift d) (line_of d mpa)"
    and "drop_bit (num_entries_shift d) (line_of d mpa) \<noteq> mask ppn_bits"
proof -
  have eq: "drop_bit (num_entries_shift d) (line_of d mpa) = drop_bit 12 mpa"
    using assms(1) by (simp add: dim_ok_def add.commute)
  have "unat mpa < 0xC0000000" using assms(2) by (simp add: ram_range word_less_nat_alt)
  then have less: "unat (drop_bit 12 mpa) < 0xC0000" unfolding unat_drop_bit by simp
  then have "unat (take_bit 38 (drop_bit 12 mpa)) = unat (drop_bit 12 mpa)"
    by (simp only: unsigned_take_bit_eq) (simp add: take_bit_nat_eq_self)
  then show "take_bit ppn_bits (drop_bit (num_entries_shift d) (line_of d mpa)) =
      drop_bit (num_entries_shift d) (line_of d mpa)"
    unfolding eq by (simp only: word_unat_eq_iff)
  have "unat (mask 38 :: u64) = 2 ^ 38 - 1" by (simp add: mask_eq_exp_minus_1)
  then show "drop_bit (num_entries_shift d) (line_of d mpa) \<noteq> mask ppn_bits"
    unfolding eq word_unat_eq_iff using less by simp
qed

lemma not_resident:
  assumes "represents d off {} c m"
    and "\<forall>j \<in> set (ways_of d (cache_set d t)). ce_ppn (cache_key c j) \<noteq> drop_bit (num_entries_shift d) t"
    and "live d {} c j"
  shows "ce_pcln (cache_key c j) \<noteq> t"
  using representsD(2) [OF assms(1,3)] assms(2) by (auto simp: entry_ok_def ways_of_iff)

lemma fill_entry_key [simp]:
  "cache_key (fill_entry d mpa i la c) i = (cache_key c i)\<lparr>ce_pcln := line_of d mpa,
     ce_ppn := take_bit ppn_bits (drop_bit (num_entries_shift d) (line_of d mpa)), ce_status := cache_line_filled\<rparr>"
  "j \<noteq> i \<Longrightarrow> cache_key (fill_entry d mpa i la c) j = cache_key c j"
  "write_policy (fill_entry d mpa i la c) = write_policy c"
  by (simp_all add: fill_entry_def upd_entry_def Let_def)

lemma represents_fill_entry: "represents d off {i} (fill_entry d mpa i la c) m \<longleftrightarrow> represents d off {i} c m"
  by (simp add: fill_entry_def Let_def represents_upd_exempt)

lemma live_upd_exempt: "i \<in> X \<Longrightarrow> live d X (upd_entry i f c) j \<longleftrightarrow> live d X c j"
  by (auto simp: live_def upd_entry_def)

text \<open>The common end of both misses.\<close>

lemma miss_represents:
  assumes R: "represents d off {i} c m" and dim: "dim_ok d" and mpa: "ram mpa"
    and i: "i div num_ways d = cache_set d (line_of d mpa)"
    and none: "\<And>j. live d {i} c j \<Longrightarrow> ce_pcln (cache_key c j) \<noteq> line_of d mpa"
    and state: "ce_state (cache_key c i) \<noteq> cache_state_modified"
    and c': "cache_key c' = cache_key (fill_entry d mpa i la c)" "write_policy c' = write_policy c"
    and R': "represents d off {i} c' m"
  shows "\<exists>c''. allocate d mpa op_L i c' = (True, c'') \<and> represents d off {} c'' m \<and> live d {} c'' i \<and>
    ce_pcln (cache_key c'' i) = line_of d mpa \<and> write_policy c'' = write_policy c"
proof -
  have keys: "i < num_keys d" using way_less_keys [OF _ i] dim by (simp add: dim_ok_def)
  have none': "ce_pcln (cache_key c' j) \<noteq> line_of d mpa" if "live d {i} c' j" for j
  proof -
    have j: "j \<noteq> i" using that by (simp add: live_def)
    then have "live d {i} c j" using that by (simp add: live_def c')
    then show ?thesis using none [of j] j by (simp add: c')
  qed
  have "\<exists>c''. allocate d mpa op_L i c' = (True, c'') \<and> represents d off {} c'' m \<and>
    cache_key c'' = cache_key c' \<and> write_policy c'' = write_policy c'"
    using none' ppn_small(1) [OF dim mpa] state
    by (intro fill_represents [OF R' dim keys i [symmetric] mpa]) (simp_all add: c')
  then obtain c'' where "allocate d mpa op_L i c' = (True, c'')" "represents d off {} c'' m"
    "cache_key c'' = cache_key c'" "write_policy c'' = write_policy c'" by blast
  then show ?thesis using keys by (auto simp: c' live_def)
qed

text \<open>What \<open>bring_in\<close> does first with a line it replaces.\<close>

definition evict_line :: "cache_dim \<Rightarrow> nat \<Rightarrow> tagged_cache \<Rightarrow> bool \<times> tagged_cache" where
  "evict_line d i c =
    (if write_policy c = cache_write_back \<and> ce_state (cache_key c i) = cache_state_modified
     then allocate d (push_bit (cache_line_shift d) (ce_pcln (cache_key c i))) op_S i
            (upd_entry i (\<lambda>e. e\<lparr>ce_state := cache_state_shared\<rparr>) c)
     else (True, c))"

lemma bring_in_evict:
  assumes "evict_line d i (upd_entry i (\<lambda>e. e\<lparr>ce_status := cache_line_must_evict\<rparr>) c) = (True, c2)"
  shows "bring_in d mpa i (upd_entry i (\<lambda>e. e\<lparr>ce_status := cache_line_must_evict\<rparr>) c) =
    allocate d mpa op_L i (update_stats 0xC0000020 (update_stats 0xC0000018
      (fill_entry d mpa i cache_line_must_evict
        (update_LRU_counters d (cache_set d (ce_pcln (cache_key c i))) i
          (upd_entry i (\<lambda>e. e\<lparr>ce_LRU_count := 0\<rparr>) c2)))))"
proof -
  let ?c = "upd_entry i (\<lambda>e. e\<lparr>ce_status := cache_line_must_evict\<rparr>) c"
  have "ce_status (cache_key ?c i) = cache_line_must_evict" "ce_pcln (cache_key ?c i) = ce_pcln (cache_key c i)"
    by (simp_all add: upd_entry_def)
  then show ?thesis using assms unfolding bring_in_def evict_line_def by (simp add: Let_def split: prod.splits if_splits)
qed

lemma evict_represents:
  assumes R: "represents d off {} c m" and dim: "dim_ok d" and i: "live d {} c i"
  shows "\<exists>c2. evict_line d i (upd_entry i (\<lambda>e. e\<lparr>ce_status := cache_line_must_evict\<rparr>) c) = (True, c2) \<and>
    represents d off {i} c2 m \<and> ce_state (cache_key c2 i) \<noteq> cache_state_modified \<and>
    (\<forall>j. j \<noteq> i \<longrightarrow> cache_key c2 j = cache_key c j) \<and> write_policy c2 = write_policy c"
proof -
  let ?c1 = "upd_entry i (\<lambda>e. e\<lparr>ce_status := cache_line_must_evict\<rparr>) c"
  let ?f = "\<lambda>e. e\<lparr>ce_status := cache_line_must_evict, ce_state := cache_state_shared\<rparr>"
  have comp: "upd_entry i (\<lambda>e. e\<lparr>ce_state := cache_state_shared\<rparr>) ?c1 = upd_entry i ?f c"
    by (simp add: upd_entry_def)
  have ent: "write_policy ?c1 = write_policy c" "ce_state (cache_key ?c1 i) = ce_state (cache_key c i)"
    "ce_pcln (cache_key ?c1 i) = ce_pcln (cache_key c i)" by (simp_all add: upd_entry_def)
  show ?thesis
  proof (cases "write_policy c = cache_write_back \<and> ce_state (cache_key c i) = cache_state_modified")
    case True
    then show ?thesis
      using write_back_represents [OF R dim i refl, of ?f]
      by (auto simp: evict_line_def ent comp) (auto simp: upd_entry_def)
  next
    case False
    have "i < num_keys d" using i by (simp add: live_def)
    then have clean: "ce_state (cache_key c i) \<noteq> cache_state_modified"
      using False representsD(7) [OF R, of i] by (cases "write_policy c") auto
    have "represents d off {i} ?c1 m" using represents_drop_clean [OF R i clean] by (simp add: represents_upd_exempt)
    moreover have "cache_key ?c1 j = cache_key c j" if "j \<noteq> i" for j using that by (simp add: upd_entry_def)
    ultimately show ?thesis using clean False by (simp add: evict_line_def ent)
  qed
qed

lemma lookup_bring_in:
  assumes R: "represents d off {} c m" and dim: "dim_ok d" and mpa: "ram mpa"
  shows "\<exists>i c1 c2. lookup_cache_line d mpa c = Some (i, c1) \<and> bring_in d mpa i c1 = (True, c2) \<and>
    represents d off {} c2 m \<and> live d {} c2 i \<and> ce_pcln (cache_key c2 i) = line_of d mpa \<and>
    write_policy c2 = write_policy c"
proof -
  let ?t = "line_of d mpa" and ?E = "num_entries_shift d"
  let ?r = "search_ways c (drop_bit ?E ?t) (ways_of d (cache_set d ?t)) None 0 None"
  have E: "?E \<le> 12" using dim by (simp add: dim_ok_def)
  show ?thesis
  proof (cases ?r)
    case (Hit i)
    then have i: "i div num_ways d = cache_set d ?t" "ce_ppn (cache_key c i) = drop_bit ?E ?t"
      using search_ways_Hit [OF Hit] by (simp_all add: ways_of_iff)
    have keys: "i < num_keys d" using way_less_keys [OF E i(1)] .
    then have live: "live d {} c i"
      using representsD(3) [OF R keys] i(2) ppn_small(2) [OF dim mpa] by (auto simp: live_def)
    from representsD(2) [OF R this] have pcln: "ce_pcln (cache_key c i) = ?t" and st: "ce_status (cache_key c i) = cache_line_filled"
      using i line_from_parts [of d "ce_pcln (cache_key c i)" ?t] by (auto simp: entry_ok_def)
    let ?c1 = "upd_entry i (\<lambda>e. e\<lparr>ce_status := cache_line_hit\<rparr>) c"
    have "(upd_entry i (\<lambda>e. e\<lparr>ce_status := cache_line_filled\<rparr>) ?c1) = c"
      using st by (simp add: upd_entry_def fun_upd_idem)
    then have "bring_in d mpa i ?c1 = (True, update_stats 0xC0000010 (c\<lparr>last_access := cache_line_hit\<rparr>))"
      by (simp add: bring_in_def upd_entry_def)
    moreover have "represents d off {} (update_stats 0xC0000010 (c\<lparr>last_access := cache_line_hit\<rparr>)) m"
      using R by (intro represents_stats) (simp_all add: word_le_nat_alt)
    ultimately show ?thesis
      using Hit live pcln by (auto simp: lookup_cache_line_def Let_def live_def)
  next
    case (Empty i)
    have i: "i div num_ways d = cache_set d ?t" "ce_status (cache_key c i) = cache_line_empty"
      and miss: "\<forall>j \<in> set (ways_of d (cache_set d ?t)). ce_ppn (cache_key c j) \<noteq> drop_bit ?E ?t"
      using search_ways_Empty [OF Empty] by (simp_all add: ways_of_iff)
    have state: "ce_state (cache_key c i) \<noteq> cache_state_modified"
      using representsD(3) [OF R way_less_keys [OF E i(1)]] i(2) by simp
    have same: "live d {i} c j \<longleftrightarrow> live d {} c j" for j using i(2) by (auto simp: live_def)
    then have R1: "represents d off {i} c m" using R unfolding represents_def same by auto
    let ?c' = "update_stats 0xC0000018 (fill_entry d mpa i cache_line_empty c)"
    have "represents d off {i} ?c' m"
      using R1 by (intro represents_stats) (simp_all add: represents_fill_entry word_le_nat_alt)
    from miss_represents [OF R1 dim mpa i(1) _ state _ _ this, of cache_line_empty]
    obtain c2 where "allocate d mpa op_L i ?c' = (True, c2)" "represents d off {} c2 m" "live d {} c2 i"
      "ce_pcln (cache_key c2 i) = ?t" "write_policy c2 = write_policy c"
      using not_resident [OF R miss] by (auto simp: same)
    then show ?thesis using Empty i(2) by (auto simp: lookup_cache_line_def Let_def bring_in_def)
  next
    case (Evict i)
    have i: "i div num_ways d = cache_set d ?t" "ce_status (cache_key c i) \<noteq> cache_line_empty"
      and miss: "\<forall>j \<in> set (ways_of d (cache_set d ?t)). ce_ppn (cache_key c j) \<noteq> drop_bit ?E ?t"
      using search_ways_Evict [OF Evict] by (auto simp: ways_of_iff)
    have live: "live d {} c i" using way_less_keys [OF E i(1)] i(2) by (simp add: live_def)
    let ?c1 = "upd_entry i (\<lambda>e. e\<lparr>ce_status := cache_line_must_evict\<rparr>) c"
    obtain c2 where vict: "evict_line d i ?c1 = (True, c2)" and R2: "represents d off {i} c2 m"
      and st2: "ce_state (cache_key c2 i) \<noteq> cache_state_modified"
      and key2: "\<And>j. j \<noteq> i \<Longrightarrow> cache_key c2 j = cache_key c j" and pol2: "write_policy c2 = write_policy c"
      using evict_represents [OF R dim live] by blast
    let ?c3 = "update_LRU_counters d (cache_set d (ce_pcln (cache_key c i))) i
      (upd_entry i (\<lambda>e. e\<lparr>ce_LRU_count := 0\<rparr>) c2)"
    let ?c' = "update_stats 0xC0000020 (update_stats 0xC0000018 (fill_entry d mpa i cache_line_must_evict ?c3))"
    have R3: "represents d off {i} ?c3 m" using R2 by (simp add: represents_LRU represents_upd_exempt)
    have "represents d off {i} ?c' m"
      using R3 by (intro represents_stats) (simp_all add: represents_fill_entry word_le_nat_alt)
    moreover have "ce_pcln (cache_key ?c3 j) \<noteq> ?t" if "live d {i} ?c3 j" for j
    proof -
      have j: "j \<noteq> i" using that by (simp add: live_def)
      then have "ce_status (cache_key ?c3 j) = ce_status (cache_key c j)" "ce_pcln (cache_key ?c3 j) = ce_pcln (cache_key c j)"
        by (simp_all add: update_LRU_counters_def upd_entry_def Let_def key2)
      then show ?thesis using not_resident [OF R miss, of j] that by (simp add: live_def)
    qed
    moreover have "ce_state (cache_key ?c3 i) \<noteq> cache_state_modified" "write_policy ?c3 = write_policy c"
      using st2 pol2 by (simp_all add: update_LRU_counters_def upd_entry_def Let_def)
    ultimately obtain c4 where "allocate d mpa op_L i ?c' = (True, c4)" "represents d off {} c4 m" "live d {} c4 i"
      "ce_pcln (cache_key c4 i) = ?t" "write_policy c4 = write_policy c"
      using miss_represents [OF R3 dim mpa i(1), of ?c' cache_line_must_evict] by auto
    then show ?thesis
      using Evict vict by (auto simp: lookup_cache_line_def Let_def bring_in_evict)
  next
    case NoLine
    then show ?thesis using search_ways_NoLine [OF NoLine] by (simp add: ways_of_def)
  qed
qed

section \<open>Values within a line\<close>

text \<open>An access the memory management unit makes: a size of the bus, aligned, in the cached range.\<close>

definition access_ok :: "nat \<Rightarrow> u64 \<Rightarrow> bool" where
  "access_ok n a \<longleftrightarrow> bus_size n \<and> unat a mod n = 0 \<and> ram a"

lemma aligned_in_line:
  assumes "dim_ok d" and "access_ok n a" and "j < n"
  shows "line_of d (a + of_nat j) = line_of d a" and "line_off d (a + of_nat j) = line_off d a + j"
    and "line_off d a + n \<le> line_size d"
proof -
  let ?L = "cache_line_shift d"
  have L: "3 \<le> ?L" "?L \<le> 12" using assms(1) by (simp_all add: dim_ok_def)
  have n: "n dvd 8" "n \<le> 8" "0 < n" using assms(2) by (auto simp: access_ok_def bus_size_def)
  have "(2 :: nat) ^ 3 dvd 2 ^ ?L" using L(1) by (rule le_imp_power_dvd)
  then have dvd: "n dvd line_size d" using dvd_trans [OF n(1)] by simp
  have off: "line_off d a = unat a mod line_size d"
    using unsigned_take_bit_eq [of ?L a, where 'a = nat] by (simp only: take_bit_eq_mod [of _ "unat a"])
  then have "n dvd line_off d a"
    using assms(2) dvd by (simp add: access_ok_def dvd_eq_mod_eq_0 mod_mod_cancel)
  moreover have less: "line_off d a < line_size d" using L(2) by (intro line_off_less) simp
  ultimately obtain k q where "line_off d a = n * k" "line_size d = n * q" "k < q"
    using dvd n(3) by (auto elim!: dvdE)
  then show fits: "line_off d a + n \<le> line_size d" using mult_le_mono2 [of "Suc k" q n] by simp
  have j: "unat (of_nat j :: u64) = j" using assms(3) n(2) by (simp add: unat_of_nat)
  have shift: "a + of_nat j - line_base d a = take_bit ?L a + of_nat j"
    using base_off [of a ?L] by (simp add: algebra_simps)
  have sum: "unat (take_bit ?L a + of_nat j) = line_off d a + j"
    using fits assms(3) line_size_le [OF L(2)] j by (subst unat_add_lem [THEN iffD1]) simp_all
  have "unat (a + of_nat j - line_base d a) < line_size d"
    unfolding shift sum using fits assms(3) by simp
  then show line: "line_of d (a + of_nat j) = line_of d a"
    using same_line_iff [of ?L "a + of_nat j" a] L(2) by simp
  show "line_off d (a + of_nat j) = line_off d a + j"
    unfolding same_line_off [OF line, symmetric] shift by (rule sum)
qed

lemma access_bytes:
  assumes "access_ok n a" and "j < n"
  shows "ram (a + of_nat j)"
proof -
  let ?d = "\<lparr>cache_line_shift = 12, num_entries_shift = 0, num_ways_shift = 0\<rparr>"
  have "dim_ok ?d" by (simp add: dim_ok_def)
  from aligned_in_line(1) [OF this assms] show ?thesis
    using ram_line [of ?d "a + of_nat j" a] assms(1) by (simp add: access_ok_def)
qed

text \<open>Assembling the bytes of a value is reading them.\<close>

lemma data_value_read:
  assumes "\<And>j. j < n \<Longrightarrow> dat (ix + j) = m (a + of_nat j)"
  shows "data_value dat ix s n = push_bit s (read_bytes m a n)"
  using assms
proof (induction n arbitrary: ix a s)
  case (Suc n)
  have IH: "data_value dat (Suc ix) (s + 8) n = push_bit (s + 8) (read_bytes m (a + 1) n)"
    using Suc.prems [of "Suc j" for j] by (intro Suc.IH) (simp add: ac_simps)
  have "push_bit s (ucast (m a) :: u64) AND push_bit (s + 8) (read_bytes m (a + 1) n) = 0"
    by (rule bit_word_eqI) (auto simp: bit_simps dest: bit_imp_le_length)
  then have "push_bit s (ucast (m a)) + push_bit (s + 8) (read_bytes m (a + 1) n) =
      push_bit s (ucast (m a)) OR push_bit (s + 8) (read_bytes m (a + 1) n)"
    by (rule disjunctive_add_eq_or)
  moreover have "dat ix = m a" using Suc.prems [of 0] by simp
  ultimately show ?case using IH by (simp add: push_bit_or ac_simps)
qed simp

section \<open>Loads and stores\<close>

lemma load_val_represents:
  assumes R: "represents d off {} c m" and dim: "dim_ok d" and ok: "access_ok n a"
    and i: "live d {} c i" "ce_pcln (cache_key c i) = line_of d a"
  shows "load_val d n a (i * line_size d + line_off d a) c = Ret (Some (read_bytes m a n)) c"
proof -
  have n: "0 < n" using ok by (auto simp: access_ok_def bus_size_def)
  have "cache_data c (i * line_size d + line_off d a + j) = m (a + of_nat j)" if "j < n" for j
    using representsD(5) [OF R i(1), of "a + of_nat j"] aligned_in_line(1,2) [OF dim ok that] i(2)
    by (simp add: add.assoc)
  then have val: "data_value (cache_data c) (i * line_size d + line_off d a) 0 n = read_bytes m a n"
    using data_value_read [where dat = "cache_data c" and ix = "i * line_size d + line_off d a" and m = m and a = a
        and s = 0 and n = n] by simp
  have fits: "line_off d a + (n - 1) < line_size d" using aligned_in_line(3) [OF dim ok n] n by simp
  have "(i * line_size d + line_off d a + (n - 1)) div line_size d = i"
    "(i * line_size d + line_off d a) div line_size d = i"
    using fits by (simp_all add: add.assoc)
  then show ?thesis by (simp add: load_val_def val)
qed

lemma represents_byte:
  assumes R: "represents d off {} c m" and dim: "dim_ok d" and i: "live d {} c i" "ce_pcln (cache_key c i) = line_of d a"
    and h: "if write_policy c = cache_write_through then h = (hmem (cache_mem c))(a + off := b)
      else h = hmem (cache_mem c) \<and> ce_state (cache_key c i) = cache_state_modified"
  shows "represents d off {} (c\<lparr>cache_data := (cache_data c)(i * line_size d + line_off d a := b),
    cache_mem := (cache_mem c)\<lparr>hmem := h\<rparr>\<rparr>) (m(a := b))"
proof -
  let ?L = "cache_line_shift d"
  let ?c = "c\<lparr>cache_data := (cache_data c)(i * line_size d + line_off d a := b),
    cache_mem := (cache_mem c)\<lparr>hmem := h\<rparr>\<rparr>"
  have L: "?L \<le> 12" using dim by (simp add: dim_ok_def)
  have live: "live d {} ?c j \<longleftrightarrow> live d {} c j" for j by (simp add: live_def)
  have slot: "j * line_size d + line_off d x = i * line_size d + line_off d a \<longleftrightarrow> j = i \<and> x = a"
    if "live d {} c j" "line_of d x = ce_pcln (cache_key c j)" for j x
  proof
    assume eq: "j * line_size d + line_off d x = i * line_size d + line_off d a"
    have "line_off d x < line_size d" "line_off d a < line_size d" using L by (auto intro!: line_off_less)
    then have "(j * line_size d + line_off d x) div line_size d = j" "(i * line_size d + line_off d a) div line_size d = i"
      by simp_all
    then have "j = i" using eq by simp
    then have "take_bit ?L x = take_bit ?L a" "line_of d x = line_of d a"
      using eq that(2) i(2) by (simp_all add: word_unat_eq_iff)
    then show "j = i \<and> x = a" using \<open>j = i\<close> by (metis bits_ident)
  qed simp
  have data: "cache_data ?c (j * line_size d + line_off d x) = (m(a := b)) x"
    if "live d {} c j" "line_of d x = ce_pcln (cache_key c j)" for j x
  proof (cases "j = i \<and> x = a")
    case False
    moreover have "j = i" if "x = a"
      using representsD(4) [OF R i(1) \<open>live d {} c j\<close>] that \<open>line_of d x = _\<close> i(2) by simp
    ultimately have "x \<noteq> a" by blast
    moreover have "j * line_size d + line_off d x \<noteq> i * line_size d + line_off d a" using slot [OF that] False by simp
    ultimately show ?thesis using representsD(5) [OF R that] by simp
  qed simp
  have mem: "h (x + off) = (m(a := b)) x"
    if "ram x" "\<And>j. live d {} c j \<Longrightarrow> ce_pcln (cache_key c j) = line_of d x \<Longrightarrow>
      ce_state (cache_key c j) \<noteq> cache_state_modified" for x
  proof (cases "write_policy c = cache_write_through")
    case True
    then show ?thesis using h representsD(6) [OF R that] by simp
  next
    case False
    then have "x \<noteq> a" using h i that(2) [of i] by auto
    then show ?thesis using False h representsD(6) [OF R that] by simp
  qed
  show ?thesis
    unfolding represents_def live
  proof (intro conjI allI impI)
    show "hmem (cache_mem ?c) (x + off) = (m(a := b)) x"
      if "ram x \<and> (\<forall>j. live d {} c j \<and> ce_pcln (cache_key ?c j) = line_of d x \<longrightarrow>
        ce_state (cache_key ?c j) \<noteq> cache_state_modified)" for x
      using that mem [of x] by simp
    show "cache_data ?c (j * line_size d + line_off d x) = (m(a := b)) x"
      if "live d {} c j \<and> line_of d x = ce_pcln (cache_key ?c j)" for j x
      using that data [of j x] by simp
  qed (use representsD(1-4,7) [OF R] in auto)
qed

lemma store_val_represents:
  assumes "represents d off {} c m" and dim: "dim_ok d" and "live d {} c i"
    and "\<And>j. j < n \<Longrightarrow> line_of d (a + of_nat j) = ce_pcln (cache_key c i) \<and> line_off d (a + of_nat j) = p + j"
    and "write_policy c \<noteq> cache_write_through \<Longrightarrow> ce_state (cache_key c i) = cache_state_modified"
    and "write_policy c = cache_write_through \<Longrightarrow> mpa = a"
  shows "\<exists>c'. store_val n mpa (i * line_size d + p) v c = (True, c') \<and> represents d off {} c' (write_bytes m a n v)"
  using assms(1,3-)
proof (induction n arbitrary: a mpa p v c m)
  case (Suc n)
  have L: "cache_line_shift d \<le> 12" using dim by (simp add: dim_ok_def)
  have a: "line_of d a = ce_pcln (cache_key c i)" "line_off d a = p" using Suc.prems(3) [of 0] by simp_all
  let ?wt = "write_policy c = cache_write_through"
  define h where "h = (if ?wt then (hmem (cache_mem c))(a + off := ucast v) else hmem (cache_mem c))"
  define c1 where "c1 = c\<lparr>cache_data := (cache_data c)(i * line_size d + p := ucast v),
    cache_mem := (cache_mem c)\<lparr>hmem := h\<rparr>\<rparr>"
  have R1: "represents d off {} c1 (m(a := ucast v))"
    unfolding c1_def a(2) [symmetric]
    by (rule represents_byte [OF Suc.prems(1) dim Suc.prems(2) a(1) [symmetric]])
      (use Suc.prems(4) in \<open>simp add: h_def\<close>)
  have key: "cache_key c1 = cache_key c" "write_policy c1 = write_policy c" by (simp_all add: c1_def)
  have live: "live d {} c1 i" using Suc.prems(2) by (simp add: live_def key)
  obtain b where "ram b" "ce_pcln (cache_key c i) = line_of d b"
    using representsD(2) [OF Suc.prems(1,2)] by (auto simp: entry_ok_def)
  then have "ram a" using ram_line [OF L, of a b] a(1) by simp
  have step: "store_val (Suc n) mpa (i * line_size d + p) v c =
      store_val n (if ?wt then mpa + 1 else mpa) (i * line_size d + Suc p) (drop_bit 8 v) c1"
    using mem_byte(2) [OF _ \<open>ram a\<close>, of off "cache_mem c"] representsD(1) [OF Suc.prems(1)] Suc.prems(5)
    by (simp add: Let_def c1_def h_def)
  have "line_of d (a + 1 + of_nat j) = ce_pcln (cache_key c1 i) \<and> line_off d (a + 1 + of_nat j) = Suc p + j"
    if "j < n" for j
    using Suc.prems(3) [of "Suc j"] that by (simp add: key ac_simps)
  from Suc.IH [OF R1 live this, where mpa = "if ?wt then mpa + 1 else mpa" and v = "drop_bit 8 v"] show ?case
    unfolding step using Suc.prems(4,5) by (simp add: key fun_upd_def split del: if_split)
qed simp

lemma represents_modified:
  assumes R: "represents d off {} c m" and i: "live d {} c i" and wb: "write_policy c \<noteq> cache_write_through"
  shows "represents d off {} (upd_entry i (\<lambda>e. e\<lparr>ce_state := cache_state_modified\<rparr>) c) m"
proof -
  let ?c = "upd_entry i (\<lambda>e. e\<lparr>ce_state := cache_state_modified\<rparr>) c"
  have key: "ce_pcln (cache_key ?c j) = ce_pcln (cache_key c j)" "ce_status (cache_key ?c j) = ce_status (cache_key c j)"
    "ce_ppn (cache_key ?c j) = ce_ppn (cache_key c j)"
    "ce_state (cache_key ?c j) = (if j = i then cache_state_modified else ce_state (cache_key c j))"
    "cache_mem ?c = cache_mem c" "cache_data ?c = cache_data c" "write_policy ?c = write_policy c" for j
    by (simp_all add: upd_entry_def)
  have live: "live d {} ?c j \<longleftrightarrow> live d {} c j" for j by (simp add: live_def key)
  have mem: "hmem (cache_mem c) (a + off) = m a"
    if "ram a" "\<forall>j. live d {} c j \<and> ce_pcln (cache_key c j) = line_of d a \<longrightarrow>
      (if j = i then cache_state_modified else ce_state (cache_key c j)) \<noteq> cache_state_modified" for a
    using that by (intro representsD(6) [OF R]) (metis, metis)
  show ?thesis
    unfolding represents_def live key entry_ok_def
  proof (intro conjI allI impI)
    show "(if j = i then cache_state_modified else ce_state (cache_key c j)) \<noteq> cache_state_modified"
      if "j < num_keys d \<and> j \<notin> {} \<and> ce_status (cache_key c j) = cache_line_empty" for j
      using that representsD(3) [OF R, of j] i by (auto simp: live_def)
  qed (use representsD(1-5) [OF R] mem wb in \<open>auto simp: entry_ok_def\<close>)
qed

lemma store_val_policy: "store_val n mpa ix v c = (ok, c') \<Longrightarrow> write_policy c' = write_policy c"
  by (induction n arbitrary: mpa ix v c) (auto simp: Let_def split: if_splits option.splits)

text \<open>The operations of the cache simulate those of the plain memory.\<close>

lemma access_index:
  assumes "dim_ok d" and "access_ok n a" and "live d {} c i"
  shows "i * line_size d + line_off d a + n \<le> num_keys d * line_size d"
proof -
  have "0 < n" using assms(2) by (auto simp: access_ok_def bus_size_def)
  then have "line_off d a + n \<le> line_size d" using aligned_in_line(3) [OF assms(1,2)] by blast
  then have "i * line_size d + line_off d a + n \<le> Suc i * line_size d" by simp
  also have "\<dots> \<le> num_keys d * line_size d" using assms(3) by (intro mult_le_mono1) (simp add: live_def)
  finally show ?thesis .
qed

lemma access_load_represents:
  assumes R: "represents d off {} c m" and dim: "dim_ok d" and ok: "access_ok n a"
  shows "\<exists>c'. access_cache d n a op_L v c = Ret (Some (read_bytes m a n)) c' \<and> represents d off {} c' m \<and>
    write_policy c' = write_policy c"
proof -
  obtain i c1 c2 where *: "lookup_cache_line d a c = Some (i, c1)" "bring_in d a i c1 = (True, c2)"
    "represents d off {} c2 m" "live d {} c2 i" "ce_pcln (cache_key c2 i) = line_of d a" "write_policy c2 = write_policy c"
    using lookup_bring_in [OF R dim, of a] ok unfolding access_ok_def by blast
  then show ?thesis
    using load_val_represents [OF *(3) dim ok *(4,5)] by (simp add: access_cache_def take_bit_eq_mask)
qed

lemma access_store_represents:
  assumes R: "represents d off {} c m" and dim: "dim_ok d" and ok: "access_ok n a"
  shows "\<exists>c'. access_cache d n a op_S v c = Ret (Some v) c' \<and> represents d off {} c' (write_bytes m a n v) \<and>
    write_policy c' = write_policy c"
proof -
  obtain i c1 c2 where *: "lookup_cache_line d a c = Some (i, c1)" "bring_in d a i c1 = (True, c2)"
    and R2: "represents d off {} c2 m" and i: "live d {} c2 i" "ce_pcln (cache_key c2 i) = line_of d a"
    and pol: "write_policy c2 = write_policy c"
    using lookup_bring_in [OF R dim, of a] ok unfolding access_ok_def by blast
  define c3 where "c3 = (if write_policy c2 = cache_write_back
    then upd_entry i (\<lambda>e. e\<lparr>ce_state := cache_state_modified\<rparr>) c2 else c2)"
  have R3: "represents d off {} c3 m" using represents_modified [OF R2 i(1)] R2 by (simp add: c3_def)
  have key: "write_policy c3 = write_policy c2" "ce_pcln (cache_key c3 i) = line_of d a" "live d {} c3 i"
    using i by (simp_all add: c3_def upd_entry_def live_def)
  have st: "ce_state (cache_key c3 i) = cache_state_modified" if "write_policy c3 \<noteq> cache_write_through"
    using that by (cases "write_policy c2") (simp_all add: c3_def upd_entry_def)
  have lines: "line_of d (a + of_nat j) = ce_pcln (cache_key c3 i) \<and> line_off d (a + of_nat j) = line_off d a + j"
    if "j < n" for j
    using aligned_in_line(1,2) [OF dim ok that] by (simp add: key)
  obtain c4 where c4: "store_val n a (i * line_size d + line_off d a) v c3 = (True, c4)"
    "represents d off {} c4 (write_bytes m a n v)"
    using store_val_represents [OF R3 dim key(3) lines st] by blast
  have "access_cache d n a op_S v c = Ret (Some v) c4"
    using * c4(1) access_index [OF dim ok i(1)]
    by (simp add: access_cache_def take_bit_eq_mask c3_def [symmetric])
  moreover have "write_policy c4 = write_policy c" using store_val_policy [of n a _ v c3] c4(1) key(1) pol by simp
  ultimately show ?thesis using c4(2) by blast
qed

lemma ram_in_ram: "ram a \<Longrightarrow> in_ram a"
  by (simp add: ram_range in_ram_def default_ram_base_def default_ram_size_def word_less_nat_alt word_le_nat_alt)

lemma cache_load_represents:
  assumes "represents d off {} c m" and "dim_ok d" and "access_ok n a"
  shows "\<exists>c'. cache_load d n a c = Ret (Some (read_bytes m a n)) c' \<and> represents d off {} c' m \<and>
    write_policy c' = write_policy c"
  using access_load_represents [OF represents_stats [OF assms(1), where s = "0xC0000000"] assms(2,3), where v = 0] assms(3)
  by (simp add: cache_load_def access_ok_def ram_in_ram word_le_nat_alt)

lemma cache_store_represents:
  assumes "represents d off {} c m" and "dim_ok d" and "access_ok n a"
  shows "\<exists>c'. cache_store d n a v c = Ret (Some v) c' \<and> represents d off {} c' (write_bytes m a n v) \<and>
    write_policy c' = write_policy c"
  using access_store_represents [OF represents_stats [OF assms(1), where s = "0xC0000008"] assms(2,3), where v = v] assms(3)
  by (simp add: cache_store_def access_ok_def ram_in_ram word_le_nat_alt)

lemma init_represents:
  assumes "ram_at off mem"
  shows "represents d off {} (tagged_cache_init d pol mem dat la) (\<lambda>a. hmem mem (a + off))"
  using assms by (simp add: represents_def live_def tagged_cache_init_def)

end
