(* ===== verification/Rv_Cache_Props.thy ===== *)
theory Rv_Cache_Props
  imports Rv_Cache_Laws
begin

text \<open>
  What the data cache promises.  A sequence of accesses gives the same results through the cache as
  on the memory behind it; the contract is the locale \<open>memory_sim\<close>, which the cache and the plain
  memory bus both meet.
\<close>

section \<open>Sequences of accesses\<close>

datatype access = Load nat u64 | Store nat u64 u64

primrec access_at :: "access \<Rightarrow> bool" where
  "access_at (Load n a) = access_ok n a"
| "access_at (Store n a v) = access_ok n a"

primrec run_accesses :: "(nat \<Rightarrow> u64 \<Rightarrow> 's \<Rightarrow> ('s, u64 option) outcome) \<Rightarrow>
    (nat \<Rightarrow> u64 \<Rightarrow> u64 \<Rightarrow> 's \<Rightarrow> ('s, u64 option) outcome) \<Rightarrow> access list \<Rightarrow> 's \<Rightarrow> ('s, u64 option list) outcome" where
  "run_accesses ld st [] s = Ret [] s"
| "run_accesses ld st (x # xs) s =
    bind_outcome (case x of Load n a \<Rightarrow> ld n a s | Store n a v \<Rightarrow> st n a v s) (\<lambda>r s.
      bind_outcome (run_accesses ld st xs s) (\<lambda>rs s. Ret (r # rs) s))"

text \<open>The specification: bytes at addresses.\<close>

primrec ref_accesses :: "access list \<Rightarrow> host_memory \<Rightarrow> u64 option list \<times> host_memory" where
  "ref_accesses [] m = ([], m)"
| "ref_accesses (x # xs) m =
    (case x of
       Load n a \<Rightarrow> (case ref_accesses xs m of (rs, m') \<Rightarrow> (Some (read_bytes m a n) # rs, m'))
     | Store n a v \<Rightarrow> (case ref_accesses xs (write_bytes m a n v) of (rs, m') \<Rightarrow> (Some v # rs, m')))"

locale memory_sim =
  fixes rep :: "'s \<Rightarrow> host_memory \<Rightarrow> bool"
    and ld :: "nat \<Rightarrow> u64 \<Rightarrow> 's \<Rightarrow> ('s, u64 option) outcome"
    and st :: "nat \<Rightarrow> u64 \<Rightarrow> u64 \<Rightarrow> 's \<Rightarrow> ('s, u64 option) outcome"
  assumes load_sim: "rep s m \<Longrightarrow> access_ok n a \<Longrightarrow> \<exists>s'. ld n a s = Ret (Some (read_bytes m a n)) s' \<and> rep s' m"
    and store_sim: "rep s m \<Longrightarrow> access_ok n a \<Longrightarrow> \<exists>s'. st n a v s = Ret (Some v) s' \<and> rep s' (write_bytes m a n v)"
begin

lemma run_sim:
  assumes "rep s m" and "list_all access_at xs"
  shows "\<exists>s'. run_accesses ld st xs s = Ret (fst (ref_accesses xs m)) s' \<and> rep s' (snd (ref_accesses xs m))"
  using assms
proof (induction xs arbitrary: s m)
  case (Cons x xs)
  show ?case
  proof (cases x)
    case (Load n a)
    then obtain s1 where "ld n a s = Ret (Some (read_bytes m a n)) s1" "rep s1 m"
      using load_sim [OF Cons.prems(1), of n a] Cons.prems(2) by auto
    then show ?thesis using Cons.IH [of s1 m] Cons.prems(2) Load by (auto split: prod.splits)
  next
    case (Store n a v)
    then obtain s1 where "st n a v s = Ret (Some v) s1" "rep s1 (write_bytes m a n v)"
      using store_sim [OF Cons.prems(1), of n a v] Cons.prems(2) by auto
    then show ?thesis using Cons.IH [of s1 "write_bytes m a n v"] Cons.prems(2) Store by (auto split: prod.splits)
  qed
qed simp

end

section \<open>The two providers\<close>

definition bus_load :: "nat \<Rightarrow> u64 \<Rightarrow> user_memory \<Rightarrow> (user_memory, u64 option) outcome" where
  "bus_load n a mem = Ret (mem_load n mem a) mem"

definition bus_store :: "nat \<Rightarrow> u64 \<Rightarrow> u64 \<Rightarrow> user_memory \<Rightarrow> (user_memory, u64 option) outcome" where
  "bus_store n a v mem = (case mem_store n mem a v of None \<Rightarrow> Ret None mem | Some m \<Rightarrow> Ret (Some v) m)"

lemma read_bytes_shift: "read_bytes h (a + off) n = read_bytes (\<lambda>x. h (x + off)) a n"
proof (induction n arbitrary: a)
  case (Suc n)
  then show ?case using Suc.IH [of "a + 1"] by (simp add: ac_simps)
qed simp

lemma write_bytes_shift: "(\<lambda>x. write_bytes h (a + off) n v (x + off)) = write_bytes (\<lambda>x. h (x + off)) a n v"
proof (induction n arbitrary: h a v)
  case (Suc n)
  have "(\<lambda>x. (h(a + off := ucast v)) (x + off)) = (\<lambda>x. h (x + off))(a := ucast v)" by auto
  then show ?case using Suc.IH [of "h(a + off := ucast v)" "a + 1" "drop_bit 8 v"] by (simp add: ac_simps fun_upd_def)
qed simp

interpretation bus: memory_sim "\<lambda>mem m. ram_at off mem \<and> m = (\<lambda>x. hmem mem (x + off))" bus_load bus_store
  for off
proof unfold_locales
  fix mem :: user_memory and m n a v
  assume R: "ram_at off mem \<and> m = (\<lambda>x. hmem mem (x + off))" and ok: "access_ok n a"
  have uva: "mpa_to_uva mem a = Some (a + off)" and size: "bus_size n"
    using ram_uva R ok by (auto simp: access_ok_def)
  show "\<exists>mem'. bus_load n a mem = Ret (Some (read_bytes m a n)) mem' \<and>
      ram_at off mem' \<and> m = (\<lambda>x. hmem mem' (x + off))"
    using R by (simp add: bus_load_def mem_load_def uva size read_bytes_shift)
  show "\<exists>mem'. bus_store n a v mem = Ret (Some v) mem' \<and>
      ram_at off mem' \<and> write_bytes m a n v = (\<lambda>x. hmem mem' (x + off))"
    using R by (simp add: bus_store_def mem_store_def uva size write_bytes_shift)
qed

interpretation cached: memory_sim "\<lambda>c m. dim_ok d \<and> represents d off {} c m \<and> write_policy c = pol"
    "cache_load d" "cache_store d"
  for d off pol
proof unfold_locales
  fix c m n a v
  assume "dim_ok d \<and> represents d off {} c m \<and> write_policy c = pol" and ok: "access_ok n a"
  then have R: "represents d off {} c m" and dim: "dim_ok d" and pol: "write_policy c = pol" by auto
  show "\<exists>c'. cache_load d n a c = Ret (Some (read_bytes m a n)) c' \<and>
      dim_ok d \<and> represents d off {} c' m \<and> write_policy c' = pol"
    using cache_load_represents [OF R dim ok] dim pol by blast
  show "\<exists>c'. cache_store d n a v c = Ret (Some v) c' \<and>
      dim_ok d \<and> represents d off {} c' (write_bytes m a n v) \<and> write_policy c' = pol"
    using cache_store_represents [OF R dim ok, of v] dim pol by blast
qed

text \<open>Both, from the same memory: the cache ends up standing for the memory the bus ends up with.\<close>

lemma cached_run:
  assumes "dim_ok d" and "ram_at off mem" and "list_all access_at xs"
  shows "\<exists>rs c mem'. run_accesses (cache_load d) (cache_store d) xs (tagged_cache_init d pol mem dat la) = Ret rs c \<and>
    run_accesses bus_load bus_store xs mem = Ret rs mem' \<and>
    represents d off {} c (\<lambda>x. hmem mem' (x + off)) \<and> write_policy c = pol"
proof -
  let ?m = "\<lambda>x. hmem mem (x + off)"
  have "write_policy (tagged_cache_init d pol mem dat la) = pol" by (simp add: tagged_cache_init_def)
  then have "\<exists>c. run_accesses (cache_load d) (cache_store d) xs (tagged_cache_init d pol mem dat la) =
      Ret (fst (ref_accesses xs ?m)) c \<and>
    dim_ok d \<and> represents d off {} c (snd (ref_accesses xs ?m)) \<and> write_policy c = pol"
    using assms(1) init_represents [OF assms(2)] by (intro cached.run_sim assms(3)) blast
  moreover have "\<exists>mem'. run_accesses bus_load bus_store xs mem = Ret (fst (ref_accesses xs ?m)) mem' \<and>
    ram_at off mem' \<and> snd (ref_accesses xs ?m) = (\<lambda>x. hmem mem' (x + off))"
    using assms(2) by (intro bus.run_sim assms(3)) simp
  ultimately show ?thesis by metis
qed

section \<open>A concrete cache\<close>

text \<open>Lines of 8 bytes, two ways; each byte of the memory is the sum of the bytes of its address.\<close>

definition demo_dim :: cache_dim where
  "demo_dim = \<lparr>cache_line_shift = 3, num_entries_shift = 9, num_ways_shift = 1\<rparr>"

definition demo_ram :: user_memory where
  "demo_ram = \<lparr>segments = [\<lparr>seg_mpa = 0x80000000, seg_uva = 0x10000, seg_size = 0x40000028, seg_flags = 0\<rparr>],
     hmem = (\<lambda>a. ucast a + ucast (drop_bit 8 a))\<rparr>"

abbreviation demo_off :: u64 where
  "demo_off \<equiv> 0x10000 - 0x80000000"

abbreviation demo_cache :: "cache_write_policy \<Rightarrow> tagged_cache" where
  "demo_cache pol \<equiv> tagged_cache_init demo_dim pol demo_ram (\<lambda>_. 0) cache_line_empty"

definition small_ram :: user_memory where
  "small_ram = \<lparr>segments = [\<lparr>seg_mpa = 0x80000000, seg_uva = 0x10000, seg_size = 0x40000000, seg_flags = 0\<rparr>],
     hmem = (\<lambda>a. ucast a + ucast (drop_bit 8 a))\<rparr>"

lemma demo_dim_ok: "dim_ok demo_dim"
  by (simp add: demo_dim_def dim_ok_def)

lemma demo_ram_at: "ram_at demo_off demo_ram"
  by (auto simp: ram_at_def demo_ram_def mpa_to_uva_def in_segment_def)

lemma demo_accesses: "list_all access_at [Store 8 0x80000010 5, Load 4 0x80000010]"
  by (simp add: access_ok_def bus_size_def ram_range)

section \<open>Properties\<close>

text \<open>
  C29.  The data cache is transparent.  Over a memory with the cached gigabyte in one segment, any
  sequence of aligned loads and stores of that range by a fresh cache of any shape and policy
  completes without a bus error or an index out of range, and returns what the same sequence returns
  on the memory bus without a cache.
\<close>

theorem cache_transparent:
  assumes "dim_ok d" and "ram_at off mem" and "list_all access_at xs"
  shows "\<exists>rs c mem'. run_accesses (cache_load d) (cache_store d) xs (tagged_cache_init d pol mem dat la) = Ret rs c \<and>
    run_accesses bus_load bus_store xs mem = Ret rs mem'"
  using cached_run [OF assms] by blast

theorem cache_transparent_witness:
  "list_all access_at [Store 8 0x80000010 5, Load 4 0x80000010] \<and>
   (\<exists>rs c mem'. run_accesses (cache_load demo_dim) (cache_store demo_dim) [Store 8 0x80000010 5, Load 4 0x80000010]
       (demo_cache cache_write_back) = Ret rs c \<and>
     run_accesses bus_load bus_store [Store 8 0x80000010 5, Load 4 0x80000010] demo_ram = Ret rs mem')"
  using cache_transparent [OF demo_dim_ok demo_ram_at demo_accesses] demo_accesses by blast

text \<open>
  C30.  Where written data is, after any such sequence: with the write-through policy the memory behind
  the cache holds at every address of the cached RAM what plain memory holds, and with write-back wherever no
  modified line covers the address.  The five statistics words behind the RAM, which the cache itself updates in memory,
  are not part of it.
\<close>

theorem cache_memory_coherent:
  assumes "dim_ok d" and "ram_at off mem" and "list_all access_at xs"
    and "run_accesses (cache_load d) (cache_store d) xs (tagged_cache_init d pol mem dat la) = Ret rs c"
    and "run_accesses bus_load bus_store xs mem = Ret rs' mem'"
    and "ram a"
    and "pol = cache_write_through \<or> (\<forall>i < num_keys d. ce_status (cache_key c i) \<noteq> cache_line_empty \<longrightarrow>
      ce_pcln (cache_key c i) = drop_bit (cache_line_shift d) a \<longrightarrow> ce_state (cache_key c i) \<noteq> cache_state_modified)"
  shows "hmem (cache_mem c) (a + off) = hmem mem' (a + off)"
proof -
  have R: "represents d off {} c (\<lambda>x. hmem mem' (x + off))" and pol: "write_policy c = pol"
    using cached_run [OF assms(1-3), of pol dat la] assms(4,5) by auto
  have "ce_state (cache_key c i) \<noteq> cache_state_modified"
    if "live d {} c i" "ce_pcln (cache_key c i) = line_of d a" for i
    using that representsD(7) [OF R, of i] pol assms(7) by (auto simp: live_def)
  then show ?thesis by (rule representsD(6) [OF R assms(6)])
qed

theorem cache_memory_coherent_witness:
  "\<exists>rs c mem'. run_accesses (cache_load demo_dim) (cache_store demo_dim) [Store 8 0x80000010 5, Load 4 0x80000010]
       (demo_cache cache_write_through) = Ret rs c \<and>
     run_accesses bus_load bus_store [Store 8 0x80000010 5, Load 4 0x80000010] demo_ram = Ret rs mem' \<and>
     hmem (cache_mem c) (0x80000010 + demo_off) = hmem mem' (0x80000010 + demo_off)"
proof -
  have "ram 0x80000010" by (simp add: ram_range)
  then show ?thesis
    using cached_run [OF demo_dim_ok demo_ram_at demo_accesses, of cache_write_through "\<lambda>_. 0" cache_line_empty]
      cache_memory_coherent [OF demo_dim_ok demo_ram_at demo_accesses] by blast
qed

text \<open>
  C31.  The lines of the cache after any such sequence: every line in use is marked filled, sits in the
  set its address selects with the tag of its page, and no line is held twice.
\<close>

theorem cache_lines_consistent:
  assumes "dim_ok d" and "ram_at off mem" and "list_all access_at xs"
    and "run_accesses (cache_load d) (cache_store d) xs (tagged_cache_init d pol mem dat la) = Ret rs c"
    and "i < num_keys d" and "ce_status (cache_key c i) \<noteq> cache_line_empty"
  shows "ce_status (cache_key c i) = cache_line_filled \<and>
    cache_set d (ce_pcln (cache_key c i)) = i div num_ways d \<and>
    ce_ppn (cache_key c i) = drop_bit (num_entries_shift d) (ce_pcln (cache_key c i)) \<and>
    (\<forall>j < num_keys d. ce_status (cache_key c j) \<noteq> cache_line_empty \<longrightarrow>
      ce_pcln (cache_key c j) = ce_pcln (cache_key c i) \<longrightarrow> j = i)"
proof -
  obtain m where R: "represents d off {} c m"
    using cached_run [OF assms(1-3), of pol dat la] assms(4) by auto
  have i: "live d {} c i" using assms(5,6) by (simp add: live_def)
  have "j = i" if "j < num_keys d" "ce_status (cache_key c j) \<noteq> cache_line_empty"
    "ce_pcln (cache_key c j) = ce_pcln (cache_key c i)" for j
    using representsD(4) [OF R _ i, of j] that by (simp add: live_def)
  then show ?thesis using representsD(2) [OF R i] by (simp add: entry_ok_def)
qed

theorem cache_lines_consistent_witness:
  "\<exists>rs c. run_accesses (cache_load demo_dim) (cache_store demo_dim) [Store 8 0x80000010 5, Load 4 0x80000010]
       (demo_cache cache_write_back) = Ret rs c \<and>
     ce_status (cache_key c 4) = cache_line_filled \<and> cache_set demo_dim (ce_pcln (cache_key c 4)) = 2"
proof -
  let ?r = "run_accesses (cache_load demo_dim) (cache_store demo_dim) [Store 8 0x80000010 5, Load 4 0x80000010]
    (demo_cache cache_write_back)"
  obtain rs c where r: "?r = Ret rs c" using cached_run [OF demo_dim_ok demo_ram_at demo_accesses] by blast
  have "ce_status (cache_key (final ?r) 4) = cache_line_filled" by code_simp
  then have "ce_status (cache_key c 4) \<noteq> cache_line_empty" unfolding r by simp
  moreover have "4 < num_keys demo_dim" "(4 :: nat) div num_ways demo_dim = 2" by (simp_all add: num_keys_def demo_dim_def)
  ultimately show ?thesis
    using cache_lines_consistent [OF demo_dim_ok demo_ram_at demo_accesses r, of 4] r by auto
qed

text \<open>
  Where transparency ends: a load that crosses the end of its line puts the next line into the next
  entry of the array, which with two ways is the other way of the same set.  After line 0 and a line of
  the next page are loaded, a 32-bit load at offset 6 of line 0 replaces the other way, and once line 0
  has been replaced, a load of its first byte finds the misplaced line under the same tag and returns
  a byte of line 1.  The memory here has no statistics words, which the cache tolerates.
\<close>

lemma cache_crossing_wrong_line:
  "result (run_accesses (cache_load demo_dim) (cache_store demo_dim)
     [Load 1 0x80000000, Load 1 0x80001000, Load 4 0x80000006, Load 1 0x80002000, Load 1 0x80000000]
     (tagged_cache_init demo_dim cache_write_back small_ram (\<lambda>_. 0) cache_line_empty)) =
     [Some 0, Some 0x10, Some 0x09080706, Some 0x20, Some 8] \<and>
   result (run_accesses bus_load bus_store
     [Load 1 0x80000000, Load 1 0x80001000, Load 4 0x80000006, Load 1 0x80002000, Load 1 0x80000000] small_ram) =
     [Some 0, Some 0x10, Some 0x09080706, Some 0x20, Some 0]"
proof
  show "result (run_accesses (cache_load demo_dim) (cache_store demo_dim)
     [Load 1 0x80000000, Load 1 0x80001000, Load 4 0x80000006, Load 1 0x80002000, Load 1 0x80000000]
     (tagged_cache_init demo_dim cache_write_back small_ram (\<lambda>_. 0) cache_line_empty)) =
     [Some 0, Some 0x10, Some 0x09080706, Some 0x20, Some 8]" by code_simp
  show "result (run_accesses bus_load bus_store
     [Load 1 0x80000000, Load 1 0x80001000, Load 4 0x80000006, Load 1 0x80002000, Load 1 0x80000000] small_ram) =
     [Some 0, Some 0x10, Some 0x09080706, Some 0x20, Some 0]" by code_simp
qed

end
