(* ===== verification/Rv_Csr_Props.thy ===== *)
theory Rv_Csr_Props
  imports Rv_Csr_Laws Rv_Mmu_Props Rv_Runloop
begin

text \<open>
  Properties of the control and status registers: what is written is read back, which bits the
  supervisor's view of the status register can change, and where the access checks fall short.
\<close>

section \<open>Plain registers\<close>

text \<open>The registers that hold all 64 bits written to them, with their selectors and updates.\<close>

definition plain_csrs :: "int list" where
  "plain_csrs = [rv_csr_medeleg, rv_csr_mideleg, rv_csr_mip, rv_csr_mie, rv_csr_mhcounteren,
     rv_csr_mscounteren, rv_csr_mucounteren, rv_csr_mscratch, rv_csr_mepc, rv_csr_mcause,
     rv_csr_mbadaddr, rv_csr_mbase, rv_csr_mbound, rv_csr_mibase, rv_csr_mibound, rv_csr_mdbase,
     rv_csr_mdbound, rv_csr_minstret, rv_csr_sedeleg, rv_csr_sideleg, rv_csr_sscratch, rv_csr_sepc,
     rv_csr_scause, rv_csr_sbadaddr, rv_csr_sptbr]"

definition plain_reg :: "int \<Rightarrow> ('z sys \<Rightarrow> u64) \<Rightarrow> ((u64 \<Rightarrow> u64) \<Rightarrow> 'z sys \<Rightarrow> 'z sys) \<Rightarrow> bool" where
  "plain_reg csr get upd \<longleftrightarrow> csr_register get upd \<and> \<not> csr_readonly csr \<and> csr_mode csr \<le> 3 \<and>
     (\<forall>n p. get (retire n p) = get p + (if csr = rv_csr_minstret then 1 else 0)) \<and>
     (\<forall>now dec opn v off p. inst_csr now dec opn csr v off p =
        (off, csr_reg dec (cur_mode p) opn csr v get upd (- 1) (- 1) p))"

lemma plain_regs:
  "plain_reg rv_csr_medeleg medeleg medeleg_update" "plain_reg rv_csr_mideleg mideleg mideleg_update"
  "plain_reg rv_csr_mip mip mip_update" "plain_reg rv_csr_mie mie mie_update"
  "plain_reg rv_csr_mhcounteren mhcounteren mhcounteren_update"
  "plain_reg rv_csr_mscounteren mscounteren mscounteren_update"
  "plain_reg rv_csr_mucounteren mucounteren mucounteren_update"
  "plain_reg rv_csr_mscratch mscratch mscratch_update" "plain_reg rv_csr_mepc mepc mepc_update"
  "plain_reg rv_csr_mcause mcause mcause_update" "plain_reg rv_csr_mbadaddr mbadaddr mbadaddr_update"
  "plain_reg rv_csr_mbase mbase mbase_update" "plain_reg rv_csr_mbound mbound mbound_update"
  "plain_reg rv_csr_mibase mibase mibase_update" "plain_reg rv_csr_mibound mibound mibound_update"
  "plain_reg rv_csr_mdbase mdbase mdbase_update" "plain_reg rv_csr_mdbound mdbound mdbound_update"
  "plain_reg rv_csr_minstret instret instret_update" "plain_reg rv_csr_sedeleg sedeleg sedeleg_update"
  "plain_reg rv_csr_sideleg sideleg sideleg_update" "plain_reg rv_csr_sscratch sscratch sscratch_update"
  "plain_reg rv_csr_sepc sepc sepc_update" "plain_reg rv_csr_scause scause scause_update"
  "plain_reg rv_csr_sbadaddr sbadaddr sbadaddr_update" "plain_reg rv_csr_sptbr sptbr sptbr_update"
  unfolding plain_reg_def
  by (simp_all add: csr_register_def csr_readonly_def csr_mode_def inst_csr_def csr_float_def csr_counter_def
      csr_machine_def csr_super_def mi_mask_def retire_def)

lemma plain_write_read:
  fixes p :: "'z sys" and get :: "'z sys \<Rightarrow> u64"
  assumes "plain_reg csr get upd" and "regs_ok p" and "mode p = rv_mode_M"
    and "dec_rd d2 < 32" and "dec_rd d2 \<noteq> 0"
  shows "get_reg (snd (inst_csr now2 d2 csr_rs csr 0 off2 (retire off1 (snd (inst_csr now1 d1 csr_rw csr v off1 p)))))
    (dec_rd d2) = v + (if csr = rv_csr_minstret then 1 else 0)"
proof -
  have reg: "csr_register get upd" and wr: "\<not> csr_readonly csr" and lev: "csr_mode csr \<le> 3"
    and ret: "\<And>n p. get (retire n p) = get p + (if csr = rv_csr_minstret then 1 else 0)"
    and run: "\<And>now dec opn v off p. inst_csr now dec opn csr v off p =
        (off, csr_reg dec (cur_mode p) opn csr v get upd (- 1) (- 1) p)"
    using assms(1) by (auto simp: plain_reg_def)
  let ?p = "snd (inst_csr now1 d1 csr_rw csr v off1 p)"
  let ?q = "retire off1 ?p"
  have "regs_ok ?p" "mode ?p = rv_mode_M"
    using inst_csr_frame [of p now1 d1 csr_rw csr v off1] assms(2,3) by (simp_all add: csr_frame_def)
  then have "length (ireg ?q) = 32" "cur_mode ?q = 3" by (simp_all add: regs_ok_def cur_mode_def retire_def)
  moreover have "get ?p = v" unfolding run snd_conv by (rule csr_register.csr_reg_value_ones [OF reg wr])
  then have "get ?q = v + (if csr = rv_csr_minstret then 1 else 0)" by (simp add: ret)
  ultimately show ?thesis
    using csr_register.csr_reg_result [OF reg _ assms(4,5), of ?q 3 csr_rs csr 0 "- 1" "- 1"] lev
    by (simp add: run [of now2])
qed

lemmas exec_groups_csr = exec_inst_rv64_def exec_ctrl_def exec_mem_def exec_op_imm_def exec_op_def exec_mem_64_def
  exec_shift_imm_def exec_op_imm_w_def exec_op_w_def exec_mul_def exec_mul_w_def exec_amo_w_def
  exec_amo_d_def exec_f_def exec_f_64_def exec_d_def exec_d_64_def

lemma exec_csr_op:
  "dec_op d = rv_op_csrrw \<Longrightarrow> exec_inst_rv64 cfg ops hf d off p = Ret (- 1) p"
  "dec_op d = rv_op_csrrs \<Longrightarrow> exec_inst_rv64 cfg ops hf d off p = Ret (- 1) p"
  unfolding exec_groups_csr Let_def by simp_all

lemma exec_csr_retires:
  fixes p :: "'z sys" and get :: "'z sys \<Rightarrow> u64"
  assumes "plain_reg (sint (dec_imm d)) get upd" and "off \<noteq> - 1"
  shows "dec_op d = rv_op_csrrw \<Longrightarrow> exec_retire cfg hf now d off p =
      Ret () (retire off (snd (inst_csr now d csr_rw (sint (dec_imm d)) (get_reg p (dec_rs1 d)) off p)))"
    and "dec_op d = rv_op_csrrs \<Longrightarrow> exec_retire cfg hf now d off p =
      Ret () (retire off (snd (inst_csr now d csr_rs (sint (dec_imm d)) (get_reg p (dec_rs1 d)) off p)))"
  using assms by (simp_all add: exec_retire_def exec_csr_op inst_priv_def Let_def plain_reg_def)

text \<open>
  C32.  In machine mode, what \<open>csrrw\<close> writes to one of the 25 registers without special bits is what a following
  \<open>csrrs rd, csr, x0\<close> returns in \<open>rd\<close>, both executed and retired by the run loop; the counter of retired instructions
  has then counted the write, and is one more.
\<close>

theorem csr_write_read:
  fixes p :: "'z sys"
  assumes "csr \<in> set plain_csrs" and "regs_ok p" and "mode p = rv_mode_M"
    and "dec_op d1 = rv_op_csrrw" and "sint (dec_imm d1) = csr"
    and "dec_op d2 = rv_op_csrrs" and "sint (dec_imm d2) = csr" and "dec_rs1 d2 = 0"
    and "dec_rd d2 < 32" and "dec_rd d2 \<noteq> 0" and "off \<noteq> - 1"
  shows "\<exists>q1 q2. exec_retire cfg hf now1 d1 off p = Ret () q1 \<and> exec_retire cfg hf now2 d2 off q1 = Ret () q2 \<and>
    get_reg q2 (dec_rd d2) = get_reg p (dec_rs1 d1) + (if csr = rv_csr_minstret then 1 else 0)"
proof -
  obtain get :: "'z sys \<Rightarrow> u64" and upd where reg: "plain_reg csr get upd"
    using assms(1) plain_regs unfolding plain_csrs_def list.set by blast
  let ?q = "retire off (snd (inst_csr now1 d1 csr_rw csr (get_reg p (dec_rs1 d1)) off p))"
  have "regs_ok ?q" using inst_csr_frame [of p now1 d1 csr_rw csr "get_reg p (dec_rs1 d1)" off] assms(2)
    by (simp add: csr_frame_def regs_ok_def retire_def)
  then have "get_reg ?q (dec_rs1 d2) = 0" by (simp add: assms(8) get_reg_zero)
  moreover have "exec_retire cfg hf now1 d1 off p = Ret () ?q"
    using exec_csr_retires(1) [of d1 get upd off] reg assms(4,5,11) by simp
  moreover have "exec_retire cfg hf now2 d2 off ?q = Ret () (retire off (snd (inst_csr now2 d2 csr_rs csr (get_reg ?q (dec_rs1 d2)) off ?q)))"
    using exec_csr_retires(2) [of d2 get upd off] reg assms(6,7,11) by simp
  ultimately show ?thesis
    using plain_write_read [OF reg assms(2,3,9,10)] by (simp add: get_reg_def retire_def)
qed

text \<open>Witness: \<open>mscratch\<close>.\<close>

theorem csr_write_read_witness:
  "\<exists>q1 q2. exec_retire rv64imafdc demo_hf 0 (decode_init\<lparr>dec_op := rv_op_csrrw, dec_rs1 := 6, dec_imm := 0x340\<rparr>) 4
      (demo demo_leaf\<lparr>mode := rv_mode_M, ireg := (replicate 32 0)[6 := 0xdeadbeef]\<rparr>) = Ret () q1 \<and>
    exec_retire rv64imafdc demo_hf 0 (decode_init\<lparr>dec_op := rv_op_csrrs, dec_rd := 5, dec_imm := 0x340\<rparr>) 4 q1 = Ret () q2 \<and>
    get_reg q2 5 = 0xdeadbeef"
proof -
  let ?p = "demo demo_leaf\<lparr>mode := rv_mode_M, ireg := (replicate 32 0)[6 := 0xdeadbeef]\<rparr>"
  let ?d1 = "decode_init\<lparr>dec_op := rv_op_csrrw, dec_rs1 := 6, dec_imm := 0x340\<rparr>"
    and ?d2 = "decode_init\<lparr>dec_op := rv_op_csrrs, dec_rd := 5, dec_imm := 0x340\<rparr>"
  have "rv_csr_mscratch \<in> set plain_csrs" "regs_ok ?p" "mode ?p = rv_mode_M"
    "dec_op ?d1 = rv_op_csrrw" "sint (dec_imm ?d1) = rv_csr_mscratch" "dec_op ?d2 = rv_op_csrrs" "sint (dec_imm ?d2) = rv_csr_mscratch"
    "dec_rs1 ?d2 = 0" "dec_rd ?d2 < 32" "dec_rd ?d2 \<noteq> 0" "(4 :: u64) \<noteq> - 1"
    by (simp_all add: plain_csrs_def regs_ok_def decode_init_def demo_def sys_start_def)
  from csr_write_read [OF this, where cfg = rv64imafdc and hf = demo_hf and ?now1.0 = 0 and ?now2.0 = 0] show ?thesis by (simp add: get_reg_def)
qed

section \<open>The supervisor's view of the status register\<close>

lemma field_outside_mask:
  fixes x v m :: "'x::len word"
  assumes "\<And>i. k \<le> i \<Longrightarrow> i < k + w \<Longrightarrow> \<not> bit m i"
  shows "get_field k w ((x AND NOT m) OR (v AND m)) = get_field k w x"
    and "get_field k w (x OR (v AND m)) = get_field k w x"
    and "get_field k w (x AND NOT (v AND m)) = get_field k w x"
  using assms by (auto intro!: bit_word_eqI simp: bit_get_field bit_simps
      dest: bit_imp_le_length)

lemma bits_of_mask: "\<not> bit sstatus_wmask i" if "i \<in> {3, 7, 11, 12, 17, 24, 25, 26, 27}"
  using that by (auto simp: sstatus_wmask_def bit_numeral_rec) 

text \<open>
  Writing \<open>sstatus\<close>, with any of the three operations, any value and in any mode, does not
  change the fields of \<open>mstatus\<close> that belong to machine mode: its interrupt enables, its previous
  mode, the memory privilege modifier and the translation mode.
\<close>

lemma sstatus_protects_machine:
  fixes p :: "'z sys"
  shows "let q = snd (inst_csr now dec opn rv_csr_sstatus v off p) in
    status_mie (mstatus q) = status_mie (mstatus p) \<and> status_mpie (mstatus q) = status_mpie (mstatus p) \<and>
    status_mpp (mstatus q) = status_mpp (mstatus p) \<and> status_mprv (mstatus q) = status_mprv (mstatus p) \<and>
    status_vm (mstatus q) = status_vm (mstatus p)"
proof -
  have "snd (inst_csr now dec opn rv_csr_sstatus v off p) =
      csr_reg dec (cur_mode p) opn rv_csr_sstatus v mstatus mstatus_update sstatus_wmask sstatus_rmask p"
    by (simp add: inst_csr_def csr_float_def csr_counter_def csr_machine_def csr_super_def)
  moreover have "\<not> csr_readonly rv_csr_sstatus" by (simp add: csr_readonly_def)
  note vals = mstatus_csr.csr_reg_value [OF this]
  have fields: "get_field k w (mstatus (csr_reg dec (cur_mode p) opn rv_csr_sstatus v mstatus mstatus_update
      sstatus_wmask sstatus_rmask p)) = get_field k w (mstatus p)"
    if "\<And>i. k \<le> i \<Longrightarrow> i < k + w \<Longrightarrow> \<not> bit sstatus_wmask i" for k w
    by (cases opn; simp only: vals; rule field_outside_mask [OF that])
  ultimately show ?thesis by (simp only: Let_def) (intro conjI fields bits_of_mask; simp; presburger)
qed

section \<open>Floating-point flags and rounding mode\<close>

lemma reg_after_float:
  fixes p :: "'z sys"
  assumes "regs_ok p" and "dec_rd dec < 32" and "dec_rd dec \<noteq> 0" and "csr_mode csr \<le> md"
  shows "get_reg (csr_result dec md csr v p) (dec_rd dec) = v"
  using assms by (simp add: csr_result_def get_reg_def regs_ok_def word_less_nat_alt)

lemma reg_float_upd: "get_reg (p\<lparr>fcsr := a, fenv := e\<rparr>) r = get_reg p r" "get_reg (p\<lparr>fcsr := a\<rparr>) r = get_reg p r"
  for p :: "'z sys"
  by (simp_all add: get_reg_def)

lemma csr_result_fcsr [simp]:
  "fcsr (csr_result dec md csr v p) = fcsr p" "fenv (csr_result dec md csr v p) = fenv p"
  by (simp_all add: csr_result_def)

lemma masks: "fflags_mask = mask 5" "(0x1f :: u64) = mask 5" "frm_mask = mask 2" "(3 :: u64) = mask 2"
  by (simp_all add: fflags_mask_def frm_mask_def mask_eq_exp_minus_1)

lemma ucast_mask: "ucast ((ucast v :: u32) AND mask 5) = v AND mask 5" "ucast ((ucast v :: u32) AND mask 2) = v AND mask 2"
  for v :: u64
  by (auto intro!: bit_word_eqI simp: bit_simps)

text \<open>
  What is written to \<open>fflags\<close> is read back, in any mode and whatever flags were raised before:
  the write clears in the host's environment the flags it clears in the register, so the flags
  collected by the next read add nothing.
\<close>

lemma fflags_write_read:
  fixes p :: "'z sys"
  assumes "regs_ok p" and "dec_rd d2 < 32" and "dec_rd d2 \<noteq> 0"
  shows "get_reg (snd (inst_csr now2 d2 csr_rs rv_csr_fflags 0 off2
      (snd (inst_csr now1 d1 csr_rw rv_csr_fflags v off1 p)))) (dec_rd d2) = v AND 0x1f"
proof -
  have ro: "\<not> csr_readonly rv_csr_fflags" "csr_mode rv_csr_fflags \<le> 0" by (simp_all add: csr_readonly_def csr_mode_def)
  let ?x = "fenv_getflags (fenv p) (fcsr p)"
  let ?r = "(?x AND NOT fflags_mask) OR (ucast v AND fflags_mask)"
  let ?q = "snd (inst_csr now1 d1 csr_rw rv_csr_fflags v off1 p)"
  have q: "fcsr ?q = ?r" "fenv ?q = fenv_clearflags ?r (fenv p)"
    using ro(1) by (simp_all add: inst_csr_def csr_float_def set_csr_def Let_def)
  have "regs_ok ?q" using inst_csr_frame [of p now1 d1 csr_rw rv_csr_fflags v off1] assms(1) by (simp add: csr_frame_def)
  then have ok: "regs_ok (?q\<lparr>fcsr := x\<rparr>)" for x by (simp add: regs_ok_def)
  have "fenv_getflags (fenv ?q) (fcsr ?q) = ?r" unfolding q by (rule getflags_within [OF clearflags_within])
  then have "get_reg (snd (inst_csr now2 d2 csr_rs rv_csr_fflags 0 off2 ?q)) (dec_rd d2) = ucast (?r AND fflags_mask)"
    using ro(1) reg_after_float [OF ok assms(2,3) ro(2)]
    by (simp add: inst_csr_def [of now2] csr_float_def set_csr_def Let_def reg_float_upd)
  also have "?r AND fflags_mask = ucast v AND fflags_mask" by (auto intro!: bit_word_eqI simp: bit_simps)
  also have "ucast (ucast v AND fflags_mask) = v AND 0x1f" by (simp only: masks ucast_mask)
  finally show ?thesis .
qed

text \<open>Witness: the concrete machine.\<close>

lemma fflags_write_read_example:
  "get_reg (snd (inst_csr 0 (decode_init\<lparr>dec_rd := 5\<rparr>) csr_rs rv_csr_fflags 0 4
     (snd (inst_csr 0 decode_init csr_rw rv_csr_fflags 0x35 4 (demo demo_leaf))))) 5 = 0x15"
proof -
  have "regs_ok (demo demo_leaf)" "dec_rd (decode_init\<lparr>dec_rd := 5\<rparr>) < 32" "dec_rd (decode_init\<lparr>dec_rd := 5\<rparr>) \<noteq> 0"
    by (simp_all add: regs_ok_def demo_def sys_start_def)
  from fflags_write_read [OF this] show ?thesis by simp
qed

text \<open>
  The rounding mode register \<open>frm\<close> holds two bits only: the field of \<open>fcsr\<close> has three, and
  mode 4 (to nearest, ties to maximum magnitude) is read back as 0.
\<close>

lemma frm_write_read:
  fixes p :: "'z sys"
  assumes "regs_ok p" and "dec_rd d2 < 32" and "dec_rd d2 \<noteq> 0"
  shows "get_reg (snd (inst_csr now2 d2 csr_rs rv_csr_frm 0 off2
      (snd (inst_csr now1 d1 csr_rw rv_csr_frm v off1 p)))) (dec_rd d2) = v AND 3"
proof -
  have ro: "\<not> csr_readonly rv_csr_frm" "csr_mode rv_csr_frm \<le> 0" by (simp_all add: csr_readonly_def csr_mode_def)
  let ?r = "(fcsr p AND NOT (push_bit 5 frm_mask)) OR push_bit 5 (ucast v AND frm_mask)"
  let ?q = "snd (inst_csr now1 d1 csr_rw rv_csr_frm v off1 p)"
  have q: "fcsr ?q = ?r"
    using ro(1) by (simp add: inst_csr_def csr_float_def set_csr_def Let_def)
  have "regs_ok ?q" using inst_csr_frame [of p now1 d1 csr_rw rv_csr_frm v off1] assms(1) by (simp add: csr_frame_def)
  then have "get_reg (snd (inst_csr now2 d2 csr_rs rv_csr_frm 0 off2 ?q)) (dec_rd d2) = ucast (drop_bit 5 ?r AND frm_mask)"
    using ro(1) reg_after_float [OF _ assms(2,3) ro(2)]
    by (simp add: inst_csr_def [of now2] csr_float_def set_csr_def Let_def reg_float_upd q)
  also have "drop_bit 5 ?r AND frm_mask = ucast v AND frm_mask"
    unfolding masks by (auto intro!: bit_word_eqI simp: bit_simps)
  also have "ucast (ucast v AND frm_mask) = v AND 3" by (simp only: masks ucast_mask)
  finally show ?thesis .
qed

text \<open>Witness: the concrete machine.\<close>

lemma frm_write_read_example:
  "get_reg (snd (inst_csr 0 (decode_init\<lparr>dec_rd := 5\<rparr>) csr_rs rv_csr_frm 0 4
     (snd (inst_csr 0 decode_init csr_rw rv_csr_frm 4 4 (demo demo_leaf))))) 5 = 0"
proof -
  have "regs_ok (demo demo_leaf)" "dec_rd (decode_init\<lparr>dec_rd := 5\<rparr>) < 32" "dec_rd (decode_init\<lparr>dec_rd := 5\<rparr>) \<noteq> 0"
    by (simp_all add: regs_ok_def demo_def sys_start_def)
  from frm_write_read [OF this] show ?thesis by simp
qed

section \<open>Access checks\<close>

text \<open>
  C33.  A write to a machine register from user mode is not stopped: the mode decides only what
  the instruction returns.  User code can set the machine trap vector.
\<close>

theorem user_writes_mtvec:
  fixes p :: "'z sys"
  assumes "mode p = rv_mode_U"
  shows "fst (inst_csr now dec csr_rw rv_csr_mtvec v off p) = off \<and>
    mtvec (snd (inst_csr now dec csr_rw rv_csr_mtvec v off p)) = v \<and>
    mode (snd (inst_csr now dec csr_rw rv_csr_mtvec v off p)) = rv_mode_U"
proof -
  have run: "inst_csr now dec csr_rw rv_csr_mtvec v off p = (off, csr_reg dec (cur_mode p) csr_rw rv_csr_mtvec v
      mtvec mtvec_update tvec_rmask tvec_wmask p)"
    by (simp add: inst_csr_def csr_float_def csr_counter_def csr_machine_def)
  have "\<not> csr_readonly rv_csr_mtvec" by (simp add: csr_readonly_def)
  from mtvec_csr.csr_reg_value_ones [OF this] show ?thesis
    by (simp add: run tvec_rmask_def assms mtvec_csr.csr_reg_mode)
qed

text \<open>Witness: the concrete machine, which is in user mode.\<close>

theorem user_writes_mtvec_witness:
  "mtvec (snd (inst_csr 0 decode_init csr_rw rv_csr_mtvec 0x1234 4 (demo demo_leaf))) = 0x1234"
  using user_writes_mtvec [of "demo demo_leaf"] by simp

text \<open>
  \<open>mcycle\<close> reads as 0 in every mode, machine mode included: its access is checked as if it came
  from user mode, and a read without sufficient privilege returns 0.
\<close>

lemma mcycle_reads_zero:
  fixes p :: "'z sys"
  assumes "regs_ok p" and "dec_rd dec < 32"
  shows "get_reg (snd (inst_csr now dec csr_rs rv_csr_mcycle 0 off p)) (dec_rd dec) = 0"
proof (cases "dec_rd dec = 0")
  case True
  have "regs_ok (snd (inst_csr now dec csr_rs rv_csr_mcycle 0 off p))"
    using inst_csr_frame [of p now dec csr_rs rv_csr_mcycle 0 off] assms(1) by (simp add: csr_frame_def)
  with True show ?thesis by (simp add: get_reg_zero)
next
  case False
  have "snd (inst_csr now dec csr_rs rv_csr_mcycle 0 off p) = csr_reg dec 0 csr_rs rv_csr_mcycle 0
      instret instret_update (- 1) (- 1) p"
    by (simp add: inst_csr_def csr_float_def csr_counter_def csr_machine_def)
  with assms(1) show ?thesis
    by (simp add: instret_csr.csr_reg_result [OF _ assms(2) False] csr_mode_def regs_ok_def)
qed

end
