(* ===== verification/Rv_Priv_Props.thy ===== *)
theory Rv_Priv_Props
  imports Rv_Runloop_Laws Rv_Csr_Props
begin

text \<open>
  Properties of traps, interrupts and the run loop of the system emulator, and of the
  floating-point classification.
\<close>

section \<open>Traps\<close>

text \<open>
  C34.  Trap entry and return are inverse: after a trap to machine mode from any mode, \<open>mret\<close> restores
  the program counter, the mode and the machine interrupt enable; after a trap to supervisor mode, \<open>sret\<close> restores the
  program counter and the supervisor interrupt enable, and of the mode the lowest bit, which is all the status register
  keeps of it: the mode for a trap from user or supervisor mode, supervisor mode for a trap from machine mode.
\<close>

theorem trap_return:
  fixes p :: "'z sys"
  assumes "mode p \<le> rv_mode_M"
  shows "(case mret (mtrap c i p) of (off, q) \<Rightarrow>
      pc q + off = pc p \<and> mode q = mode p \<and> status_mie (mstatus q) = status_mie (mstatus p)) \<and>
    (case sret (strap c i p) of (off, q) \<Rightarrow>
      pc q + off = pc p \<and> mode q = (if mode p \<le> rv_mode_S then mode p else mode p mod 2) \<and>
      status_sie (mstatus q) = status_sie (mstatus p))"
  using mret_mtrap [OF assms, of c i] sret_strap [of c i p] take_bit_mode(2) [of "mode p"] by (simp add: case_prod_unfold)

text \<open>Witness: an exception of cause 5 in user mode.\<close>

theorem trap_return_witness:
  "pc (snd (mret (mtrap 5 False (demo demo_leaf\<lparr>pc := 0x400\<rparr>)))) +
      fst (mret (mtrap 5 False (demo demo_leaf\<lparr>pc := 0x400\<rparr>))) = 0x400 \<and>
    mode (snd (sret (strap 5 False (demo demo_leaf\<lparr>pc := 0x400\<rparr>)))) = rv_mode_U"
proof -
  have "mode (demo demo_leaf\<lparr>pc := 0x400\<rparr>) \<le> rv_mode_M" by simp
  from trap_return [OF this, of 5 False] show ?thesis by (simp add: case_prod_unfold)
qed

text \<open>
  C35.  An exception with a cause below 31 enters the handler of the mode its cause is delegated to: supervisor mode if
  the bit of the cause is set in \<open>medeleg\<close>, machine mode otherwise.  The handler finds the program
  counter, the cause, and for address exceptions the faulting address, in the registers of that
  mode.  \<open>ecall\<close> has a cause of its own for each mode.  \<open>ebreak\<close> enters no handler but ends the program.
\<close>

theorem trap_enters_handler:
  fixes p :: "'z sys"
  assumes "0 \<le> trap_cause dec p c" and "trap_cause dec p c < 31"
  shows "if dec_op dec = rv_op_ebreak then trap dec c p = Exit Ended p
    else \<exists>q. trap dec c p = Ret () q \<and>
      (if bit (medeleg p) (nat (trap_cause dec p c))
       then pc q = stvec p \<and> mode q = rv_mode_S \<and> sepc q = pc p \<and> scause q = of_int (trap_cause dec p c) \<and>
         (has_badaddr (trap_cause dec p c) \<longrightarrow> sbadaddr q = badaddr p)
       else pc q = mtvec p \<and> mode q = rv_mode_M \<and> mepc q = pc p \<and> mcause q = of_int (trap_cause dec p c) \<and>
         (has_badaddr (trap_cause dec p c) \<longrightarrow> mbadaddr q = badaddr p))"
  using trap_ebreak [OF _ assms] trap_enters [OF _ assms] by simp

text \<open>Witness: \<open>ecall\<close> in user mode, delegated to the supervisor.\<close>

theorem trap_enters_handler_witness:
  "\<exists>q. trap (decode_init\<lparr>dec_op := rv_op_ecall\<rparr>) rv_cause_illegal_instruction
      (demo demo_leaf\<lparr>medeleg := 0x100, stvec := 0x800\<rparr>) = Ret () q \<and>
    pc q = 0x800 \<and> mode q = rv_mode_S \<and> scause q = 8"
proof -
  let ?d = "decode_init\<lparr>dec_op := rv_op_ecall\<rparr>" and ?p = "demo demo_leaf\<lparr>medeleg := 0x100, stvec := 0x800\<rparr>"
  have c: "trap_cause ?d ?p rv_cause_illegal_instruction = 8" by (simp add: trap_cause_def)
  then have "0 \<le> trap_cause ?d ?p rv_cause_illegal_instruction"
    "trap_cause ?d ?p rv_cause_illegal_instruction < 31" by simp_all
  from trap_enters_handler [OF this] c show ?thesis by auto
qed

section \<open>Interrupts\<close>

definition isr_enabled :: "'z sys \<Rightarrow> nat \<Rightarrow> nat \<Rightarrow> bool" where
  "isr_enabled p m s \<longleftrightarrow> status_mie (mstatus p) \<noteq> 0 \<and> get_field m 1 (mie p) \<noteq> 0 \<or>
     status_sie (mstatus p) \<noteq> 0 \<and> get_field s 1 (mie p) \<noteq> 0"

definition isr_take :: "'z sys \<Rightarrow> nat \<Rightarrow> nat \<Rightarrow> 'z sys" where
  "isr_take p m s =
    (if status_mie (mstatus p) \<noteq> 0 \<and> get_field m 1 (mie p) \<noteq> 0 then mtrap (of_nat m) True p
     else strap (of_nat s) True p)"

lemma isr_enabled_mip [simp]: "isr_enabled (p\<lparr>mip := v\<rparr>) m s \<longleftrightarrow> isr_enabled p m s"
  by (simp add: isr_enabled_def)

lemma isr_source_cases:
  "\<exists>v. isr_source m s b p =
    (if b \<and> isr_enabled p m s then (True, isr_take (p\<lparr>mip := v\<rparr>) m s) else (False, p\<lparr>mip := v\<rparr>))"
  by (auto simp: isr_source_def isr_enabled_def isr_take_def Let_def)

lemma isr_source_next:
  obtains v where "isr_source m s b (p\<lparr>mip := u\<rparr>) =
    (if b \<and> isr_enabled p m s then (True, isr_take (p\<lparr>mip := v\<rparr>) m s) else (False, p\<lparr>mip := v\<rparr>))"
proof -
  have "p\<lparr>mip := u, mip := v\<rparr> = p\<lparr>mip := v\<rparr>" for v by simp
  with isr_source_cases [of m s b "p\<lparr>mip := u\<rparr>"] show ?thesis
    unfolding isr_enabled_mip using that by (cases "b \<and> isr_enabled p m s") auto
qed

text \<open>
  C36.  The interrupt service routine takes the first of the external, timer and software
  interrupts that is pending and enabled, at machine level if the machine level is enabled for it
  and at supervisor level otherwise; if there is none, it changes only the pending bits.
\<close>

theorem isr_takes_first:
  fixes p :: "'z sys"
  shows "\<exists>v. isr eip tip sip p =
    (case find (\<lambda>(m, s, pending). pending \<and> isr_enabled p m s) [(11, 9, eip), (7, 5, tip), (3, 1, sip)] of
       None \<Rightarrow> p\<lparr>mip := v\<rparr>
     | Some (m, s, pending) \<Rightarrow> isr_take (p\<lparr>mip := v\<rparr>) m s)"
proof -
  obtain v1 where "isr_source 11 9 eip p =
      (if eip \<and> isr_enabled p 11 9 then (True, isr_take (p\<lparr>mip := v1\<rparr>) 11 9) else (False, p\<lparr>mip := v1\<rparr>))"
    using isr_source_cases by blast
  obtain v2 where "isr_source 7 5 tip (p\<lparr>mip := v1\<rparr>) =
      (if tip \<and> isr_enabled p 7 5 then (True, isr_take (p\<lparr>mip := v2\<rparr>) 7 5) else (False, p\<lparr>mip := v2\<rparr>))"
    by (rule isr_source_next)
  obtain v3 where "isr_source 3 1 sip (p\<lparr>mip := v2\<rparr>) =
      (if sip \<and> isr_enabled p 3 1 then (True, isr_take (p\<lparr>mip := v3\<rparr>) 3 1) else (False, p\<lparr>mip := v3\<rparr>))"
    by (rule isr_source_next)
  note sources = this \<open>isr_source 11 9 eip p = _\<close> \<open>isr_source 7 5 tip (p\<lparr>mip := v1\<rparr>) = _\<close>
  consider (ext) "eip \<and> isr_enabled p 11 9" | (tim) "\<not> (eip \<and> isr_enabled p 11 9)" "tip \<and> isr_enabled p 7 5"
    | (soft) "\<not> (eip \<and> isr_enabled p 11 9)" "\<not> (tip \<and> isr_enabled p 7 5)" by blast
  then show ?thesis
  proof cases
    case ext
    show ?thesis
      unfolding isr_def sources(2) find.simps prod.case simp_thms if_P [OF ext] by auto
  next
    case tim
    show ?thesis
      unfolding isr_def sources(2,3) find.simps prod.case simp_thms if_not_P [OF tim(1)] if_P [OF tim(2)]
      by (auto simp: sources(3) if_P [OF tim(2)])
  next
    case soft
    show ?thesis
      unfolding isr_def sources(2) find.simps prod.case simp_thms if_not_P [OF soft(1)] if_not_P [OF soft(2)]
      unfolding sources(3) if_not_P [OF soft(2)] prod.case if_False sources(1)
      by (intro exI [of _ v3]) (simp split: if_split)
  qed
qed

section \<open>Fence\<close>

text \<open>
  C37.  After \<open>sfence.vm\<close> neither TLB translates a page for the current protection domain or the
  current address space, except by the tag of an empty entry; in user mode the instruction is
  illegal and changes nothing.
\<close>

theorem sfence_vm_flushes:
  fixes p :: "'z sys"
  assumes "sys_ok p"
  shows "if mode p = rv_mode_U then sfence_vm off p = (- 1, p)
    else \<forall>pd asid vpn e. pd = pdid p \<or> asid = drop_bit 38 (sptbr p) \<longrightarrow>
      (tlb_abs (l1_itlb (mmu (snd (sfence_vm off p)))) (pd, asid, vpn) = Some e \<or>
       tlb_abs (l1_dtlb (mmu (snd (sfence_vm off p)))) (pd, asid, vpn) = Some e) \<longrightarrow> e = tlb_entry_default"
proof -
  have tlbs: "tlb_ok (l1_itlb (mmu p))" "tlb_ok (l1_dtlb (mmu p))" using assms by (simp_all add: sys_ok_def)
  have "mode p \<ge> rv_mode_S" if "mode p \<noteq> rv_mode_U"
    using that by (simp add: word_le_nat_alt unat_gt_0 Suc_le_eq)
  moreover have "\<not> (mode p \<ge> rv_mode_S)" if "mode p = rv_mode_U" using that by simp
  ultimately show ?thesis
    using tlb_flush_asid_abs [OF tlbs(1), of "pdid p" "drop_bit 38 (sptbr p)"]
      tlb_flush_asid_abs [OF tlbs(2), of "pdid p" "drop_bit 38 (sptbr p)"]
    by (fastforce simp: sfence_vm_def)
qed

text \<open>Witness: the concrete machine in machine mode.\<close>

theorem sfence_vm_flushes_witness:
  "tlb_abs (l1_dtlb (mmu (snd (sfence_vm 4 (demo demo_leaf\<lparr>mode := rv_mode_M\<rparr>))))) (0, 0, 2) \<noteq> Some demo_entry"
proof -
  let ?p = "demo demo_leaf\<lparr>mode := rv_mode_M\<rparr>"
  have "sys_ok ?p"
    by (simp add: sys_ok_def regs_ok_def tlb_ok_def length_init tlb_size_def) (simp add: demo_def sys_start_def)
  moreover have "demo_entry \<noteq> tlb_entry_default"
    by (simp add: demo_entry_def tlb_entry_default_def tlb_entry_make_def)
  ultimately show ?thesis using sfence_vm_flushes [of ?p 4] by auto
qed

section \<open>The run loop\<close>

text \<open>
  The concrete machine in machine mode, about to execute \<open>addi a0, zero, 1\<close> at address 0x200, and
  the state after it.
\<close>

definition demo_addi :: "(64, mmu_soft) processor_priv" where
  "demo_addi = demo ((\<lambda>_. 0)(0x200 := 0x13, 0x201 := 5, 0x202 := 0x10))\<lparr>mode := rv_mode_M, pc := 0x200\<rparr>"

definition dec_addi :: decode where
  "dec_addi = decode_init\<lparr>dec_op := rv_op_addi, dec_codec := rv_codec_i, dec_rd := 10, dec_imm := 1\<rparr>"

lemma decode_addi: "inst_decode rv64imafdc decode_init 0x100513 = dec_addi"
proof -
  have "decode_inst_op rv64imafdc 0x100513 = rv_op_addi"
    by (simp add: rv64imafdc_def isa_all_def rv_switch_defs)
  then have "decode_inst rv64imafdc decode_init 0x100513 = dec_addi"
    by (simp add: decode_inst_def decode_inst_type_def rv_inst_codec_def decode_inst_codec_def decode_i_def
        operand_defs decode_init_def dec_addi_def simm_operand_decode_def uimm_operand_decode_def sign_extend_def
        S_shift_def B_width_def B_mask_def)
  then show ?thesis
    by (simp add: inst_decode_def decompress_inst_rv64_def rv_inst_decomp_rv64_def dec_addi_def)
qed

lemma fetch_addi: "soft_inst_fetch 0x200 0 demo_addi = Ret (0x100513, 4) demo_addi"
  by (simp add: soft_inst_fetch_def misaligned_def translate_addr_def effective_mode_def fetch_access_fault_def
      fetch_half_def demo_load bus_size_def get_field_def read_bytes_2 demo_addi_def)

lemma pc_addi: "pc demo_addi = 0x200"
  by (simp add: demo_addi_def)

lemma exec_addi:
  "exec_retire rv64imafdc demo_hf now dec_addi 4 demo_addi = Ret () (retire 4 (set_rd dec_addi 1 demo_addi))"
proof -
  have "get_reg demo_addi 0 = 0" by (simp add: get_reg_def demo_addi_def demo_def sys_start_def)
  then have "exec_inst_rv64 rv64imafdc (mmu_soft_ops demo_hf) demo_hf dec_addi 4 demo_addi =
      Ret 4 (set_rd dec_addi 1 demo_addi)"
    by (simp add: exec_inst_rv64_def exec_ctrl_def exec_mem_def exec_op_imm_def when_ext_def rv64imafdc_def
        isa_all_def dec_addi_def decode_init_def)
  then show ?thesis by (simp add: exec_retire_def)
qed

lemma run_addi:
  "run_inst rv64imafdc demo_hf now decode_init inst_cache_init demo_addi =
    (dec_addi, inst_cache_init[inst_cache_key 0x100513 := \<lparr>ce_inst = 0x100513, ce_dec = dec_addi\<rparr>],
     Ret () (retire 4 (set_rd dec_addi 1 demo_addi)))"
proof -
  have "inst_cache_init ! inst_cache_key 0x100513 = \<lparr>ce_inst = 0, ce_dec = decode_init\<rparr>"
    using inst_cache_key_less by (simp add: inst_cache_init_def)
  then show ?thesis
    by (simp add: run_inst_def pc_addi fetch_addi cached_decode_def decode_addi exec_addi Let_def)
qed

lemma demo_addi_ok: "sys_ok demo_addi" "instret demo_addi = 0"
  by (simp_all add: sys_ok_def regs_ok_def tlb_ok_def length_init tlb_size_def demo_addi_def)
    (simp_all add: demo_def sys_start_def)

text \<open>
  C38.  The run loop keeps the machine well formed: 32 registers with \<open>x0\<close> zero, a mode that exists, TLBs of the right
  size, and an instruction cache whose entries are decodings of their instructions.  This holds of every state that the
  step relation of the loop reaches from the start of a step, after any number of instructions and traps; of the state in
  which a step returns or the program ends, for whatever reason; and a step that has not returned has made as many steps
  of the relation as it had iterations.
\<close>

theorem step_keeps_invariant:
  fixes p :: "'z sys"
  assumes "sys_ok p" and "inst_cache_ok cfg cache"
    and "start = (case irqs of (eip, tip, sip) \<Rightarrow> isr eip tip sip (p\<lparr>time_ctr := cycles\<rparr>))"
  shows "(loop_reach cfg hf (decode_init, cache, start) (d, c, q) \<longrightarrow> sys_ok q \<and> inst_cache_ok cfg c) \<and>
    (step fuel cfg hf clk cycles irqs count cache p = Some (r, c, q) \<longrightarrow> sys_ok q \<and> inst_cache_ok cfg c) \<and>
    (step fuel cfg hf clk cycles irqs count cache p = None \<longrightarrow>
      (\<exists>d c q. (loop_step cfg hf ^^ fuel) (decode_init, cache, start) (d, c, q) \<and> sys_ok q \<and> inst_cache_ok cfg c))"
proof -
  have "sys_ok (p\<lparr>time_ctr := cycles\<rparr>)" using assms(1) by (simp add: sys_ok_def regs_ok_def)
  then have inv: "loop_inv cfg (decode_init, cache, start)"
    using assms(2) by (simp add: assms(3) loop_inv_def case_prod_unfold sys_ok_isr)
  have step: "step fuel cfg hf clk cycles irqs count cache p = step_loop fuel cfg hf clk (instret p + count) decode_init cache start"
    by (simp add: step_def Let_def assms(3))
  have "\<exists>d c q. (loop_step cfg hf ^^ fuel) (decode_init, cache, start) (d, c, q) \<and> sys_ok q \<and> inst_cache_ok cfg c"
    if none: "step_loop fuel cfg hf clk (instret p + count) decode_init cache start = None"
    using step_loop_unfinished [OF none] loop_power_inv [OF _ inv] by (fastforce simp: loop_inv_def)
  then show ?thesis
    using loop_reach_inv [OF _ inv] step_loop_inv [OF _ inv] unfolding step by (fastforce simp: loop_inv_def)
qed

lemma isr_addi: "isr False False False (demo_addi\<lparr>time_ctr := 0\<rparr>) = demo_addi"
  by (simp add: isr_def isr_source_def demo_addi_def demo_def sys_start_def set_field_def)

lemma step_addi:
  "step 2 rv64imafdc demo_hf clk 0 (False, False, False) 1 inst_cache_init demo_addi =
    Some (Inr exit_cause_continue, inst_cache_init[inst_cache_key 0x100513 := \<lparr>ce_inst = 0x100513, ce_dec = dec_addi\<rparr>],
      retire 4 (set_rd dec_addi 1 demo_addi))"
proof -
  have "instret (retire 4 (set_rd dec_addi 1 demo_addi)) = 1"
    by (simp add: retire_def set_rd_def demo_addi_ok)
  then show ?thesis by (simp add: step_def numeral_2_eq_2 demo_addi_ok(2) run_addi isr_addi)
qed

text \<open>Witness: one instruction of the concrete machine, without interrupts.\<close>

theorem step_keeps_invariant_witness:
  "\<exists>cache q. step 2 rv64imafdc demo_hf (\<lambda>_. 0) 0 (False, False, False) 1 inst_cache_init demo_addi =
      Some (Inr exit_cause_continue, cache, q) \<and> sys_ok q \<and> inst_cache_ok rv64imafdc cache"
  using step_keeps_invariant [OF demo_addi_ok(1) inst_cache_ok_init refl] step_addi [of "\<lambda>_. 0"] by blast

text \<open>
  C39.  The instruction cache is transparent: a run with the cache, from a new or any well-formed
  cache, ends in the same state and for the same reason as a run that decodes every fetched word
  afresh, for every number of iterations, provided the run does not fetch the word 0.
\<close>

theorem cached_loop_is_reference:
  fixes p :: "'z sys"
  assumes "inst_cache_ok cfg cache" and "zero_free fuel cfg hf clk stop dec p"
  shows "map_option (\<lambda>(e, cache, q). (e, q)) (step_loop fuel cfg hf clk stop dec cache p) =
    ref_loop fuel cfg hf clk stop dec p"
  using step_loop_ref [OF assms(1) refl assms(2)] .

text \<open>Witness: the concrete run.\<close>

theorem cached_loop_is_reference_witness:
  "map_option (\<lambda>(e, cache, q). (e, q))
      (step_loop 2 rv64imafdc demo_hf (\<lambda>_. 0) 1 decode_init inst_cache_init demo_addi) =
    ref_loop 2 rv64imafdc demo_hf (\<lambda>_. 0) 1 decode_init demo_addi"
proof -
  have "ref_inst rv64imafdc demo_hf 0 decode_init demo_addi = (dec_addi, Ret () (retire 4 (set_rd dec_addi 1 demo_addi)))"
    by (simp add: ref_inst_def pc_addi fetch_addi decode_addi exec_addi)
  moreover have "\<not> fetches_zero demo_addi" by (simp add: fetches_zero_def pc_addi fetch_addi)
  moreover have "instret (retire 4 (set_rd dec_addi 1 demo_addi)) = 1"
    by (simp add: retire_def set_rd_def demo_addi_ok)
  ultimately have "zero_free 2 rv64imafdc demo_hf (\<lambda>_. 0) 1 decode_init demo_addi"
    by (simp add: numeral_2_eq_2)
  then show ?thesis by (rule cached_loop_is_reference [OF inst_cache_ok_init])
qed

text \<open>
  In a new cache the word 0 is illegal, but the decoder takes it for the compressed \<open>addi\<close> of
  the stack pointer: what the instruction set defines to be illegal is executed once the
  entry has been replaced.
\<close>

lemma word_zero_depends_on_cache:
  "dec_op (fst (cached_decode rv64imafdc dec inst_cache_init 0)) = rv_op_illegal \<and>
   dec_op (inst_decode rv64imafdc dec 0) = rv_op_addi"
proof
  have "inst_cache_init ! inst_cache_key 0 = \<lparr>ce_inst = 0, ce_dec = decode_init\<rparr>"
    using inst_cache_key_less by (simp add: inst_cache_init_def)
  then show "dec_op (fst (cached_decode rv64imafdc dec inst_cache_init 0)) = rv_op_illegal"
    by (simp add: cached_decode_def decode_init_def)
  have "decode_inst_op rv64imafdc 0 = rv_op_c_addi4spn"
    by (simp add: rv64imafdc_def isa_all_def rv_switch_defs)
  then have "dec_op (decode_inst rv64imafdc dec 0) = rv_op_c_addi4spn"
    by (simp add: decode_inst_def decode_inst_type_def format_keeps_op)
  then show "dec_op (inst_decode rv64imafdc dec 0) = rv_op_addi"
    by (simp add: inst_decode_def decompress_inst_rv64_def rv_inst_decomp_rv64_def set_op_def)
qed

text \<open>
  C40.  A step makes progress: if after the interrupts of its start \<open>n\<close> instructions in a row retire, none of them writing
  the counter of retired instructions, a step that asks for \<open>n\<close> instructions returns after exactly them, in every amount
  of fuel above \<open>n\<close>.
\<close>

theorem step_makes_progress:
  fixes p :: "'z sys"
  assumes "run_n n cfg hf clk (decode_init, cache, case irqs of (eip, tip, sip) \<Rightarrow> isr eip tip sip (p\<lparr>time_ctr := cycles\<rparr>)) = Some (d, c, q)"
    and "n < 2 ^ 64"
  shows "step (Suc n + k) cfg hf clk cycles irqs (of_nat n) cache p = Some (Inr exit_cause_continue, c, q) \<and>
    instret q = instret p + of_nat n"
  using step_loop_progress [OF assms, of k] by (simp add: step_def Let_def case_prod_unfold isr_instret)

text \<open>Witness: the concrete run.\<close>

theorem step_makes_progress_witness:
  "\<exists>c q. step 7 rv64imafdc demo_hf (\<lambda>_. 0) 0 (False, False, False) 1 inst_cache_init demo_addi =
    Some (Inr exit_cause_continue, c, q) \<and> get_reg q 10 = 1"
proof -
  let ?c = "inst_cache_init[inst_cache_key 0x100513 := \<lparr>ce_inst = 0x100513, ce_dec = dec_addi\<rparr>]"
  let ?q = "retire 4 (set_rd dec_addi 1 demo_addi)"
  have "run_n 1 rv64imafdc demo_hf (\<lambda>_. 0) (decode_init, inst_cache_init, demo_addi) = Some (dec_addi, ?c, ?q)"
    by (simp add: run_addi) (simp add: retire_def set_rd_def)
  then have "run_n 1 rv64imafdc demo_hf (\<lambda>_. 0) (decode_init, inst_cache_init,
      case (False, False, False) of (eip, tip, sip) \<Rightarrow> isr eip tip sip (demo_addi\<lparr>time_ctr := 0\<rparr>)) = Some (dec_addi, ?c, ?q)"
    unfolding prod.case isr_addi .
  from step_makes_progress [OF this, of 5]
  have "step 7 rv64imafdc demo_hf (\<lambda>_. 0) 0 (False, False, False) 1 inst_cache_init demo_addi = Some (Inr exit_cause_continue, ?c, ?q)"
    by simp
  moreover have "get_reg ?q 10 = 1"
    by (simp add: get_reg_def retire_def set_rd_def dec_addi_def decode_init_def demo_addi_def demo_def sys_start_def)
  ultimately show ?thesis by blast
qed

section \<open>Classification of floating-point numbers\<close>

text \<open>
  The classification of single and double precision numbers agrees with the instruction set
  on everything but NaNs.  For NaNs it tests the lowest bit of the mantissa instead of the topmost:
  the default NaN, which is quiet, is classified as quiet, but the signalling NaN whose mantissa is
  2 as well.
\<close>

lemma float_classify_agrees:
  assumes "F = f32_type \<or> F = f64_type"
  shows "(\<not> (unat (float_exp F v) = 2 ^ exp_size F - 1 \<and> float_man F v \<noteq> 0) \<longrightarrow>
      float_classify F v = spec_classify F v) \<and>
    f32_classify 0x7fc00000 = spec_classify f32_type 0x7fc00000 \<and>
    f32_classify 0x7f800002 = 512 \<and> spec_classify f32_type 0x7f800002 = 256"
proof -
  have "f32_classify 0x7fc00000 = 512" "spec_classify f32_type 0x7fc00000 = 512"
    "f32_classify 0x7f800002 = 512" "spec_classify f32_type 0x7f800002 = 256"
    by (simp_all add: f32_classify_def float_classify_def spec_classify_def float_sign_def float_exp_def float_man_def
        f32_type_def)
  then show ?thesis using float_classify_spec [OF assms, of v] by simp
qed

text \<open>Witness: infinity in double precision.\<close>

lemma float_classify_agrees_example: "f64_classify 0x7ff0000000000000 = spec_classify f64_type 0x7ff0000000000000"
proof -
  have "f64_type = f32_type \<or> f64_type = f64_type" by simp
  from float_classify_agrees [OF this, of "0x7ff0000000000000"] show ?thesis
    by (simp add: f64_classify_def float_man_def f64_type_def)
qed

end
