(* ===== verification/Spec2Isabelle.thy ===== *)
theory Spec2Isabelle
  imports Rv_Codec_Props Rv_Asm_Props Rv_Exec_Props Rv_Jit_Props Rv_Mmu_Props Rv_Fp_Props Rv_Cache_Props Rv_Csr_Props Rv_Priv_Props
begin

text \<open>
  A verification development of rv8, a RISC-V simulator in C++ (\<^verbatim>\<open>src/src\<close>).

  \<^bold>\<open>The program.\<close>  rv8 decodes, encodes, compresses and executes RISC-V instructions.  The library
  under \<^verbatim>\<open>asm\<close> is the codec: tables of opcodes, formats and constraints (\<^verbatim>\<open>meta.h\<close>, \<^verbatim>\<open>meta.cc\<close>), a
  generated decision tree from instruction words to opcodes (\<^verbatim>\<open>switch.h\<close>), formats that move bits
  between words and operands (\<^verbatim>\<open>types.h\<close>, \<^verbatim>\<open>operands.h\<close>, \<^verbatim>\<open>decode.h\<close>, \<^verbatim>\<open>encode.h\<close>) and the
  functions over them (\<^verbatim>\<open>codec.h\<close>, \<^verbatim>\<open>constraints.h\<close>).  On the codec rests an assembler: functions that
  emit or assemble one instruction each (\<^verbatim>\<open>jit.cc\<close>), and sections, labels, constants and relocations
  (\<^verbatim>\<open>assembler.cc\<close>).  The emulator under \<^verbatim>\<open>emu\<close> has a processor
  state (\<^verbatim>\<open>processor-base.h\<close>, \<^verbatim>\<open>processor-priv-1.9.h\<close>), an interpreter (\<^verbatim>\<open>interp.h\<close>), two memory
  management units (\<^verbatim>\<open>mmu-proxy.h\<close> for user programs, \<^verbatim>\<open>mmu-soft.h\<close> with TLBs and page tables for
  systems), control registers, traps and interrupts, and a run loop with an instruction cache
  (\<^verbatim>\<open>processor-runloop.h\<close>).  The just-in-time compiler under \<^verbatim>\<open>jit\<close> replaces the interpreter on hot code: it fuses
  idioms (\<^verbatim>\<open>jit-fusion.h\<close>) and emits x86-64 code for a trace of instructions (\<^verbatim>\<open>jit-emitter-rv64.h\<close>) through a
  third-party assembler.  Templates are modelled at the instances the emulators use.

  \<^bold>\<open>The theories.\<close>

  \<^item> \<open>Rv_Prelude\<close>: word sizes, the collections of rewrite rules, lemmas on words and lists.
  \<^item> \<open>Rv_Imm\<close>, \<open>Rv_Operands\<close>: the operand templates of \<^verbatim>\<open>types.h\<close> and the operands of
    \<^verbatim>\<open>operands.h\<close>; the interface of an operand (decoding and encoding are inverse on a field) is the
    locale \<open>operand_layout\<close>, interpreted on the operands.
  \<^item> \<open>Rv_Meta\<close>, \<open>Rv_Constraints\<close>: opcodes, formats and the tables of \<^verbatim>\<open>meta.cc\<close>; \<open>constraint_check\<close> and
    \<open>constraint_set\<close> of \<^verbatim>\<open>constraints.h\<close>.
  \<^item> \<open>Rv_Formats\<close>, \<open>Rv_Format_Laws\<close>: the decoders and encoders of every format, and that they are
    inverse to each other.
  \<^item> \<open>Rv_Switch\<close>, \<open>Rv_Switch_Laws\<close>: the decision tree, and that it agrees with the match and mask
    tables.
  \<^item> \<open>Rv_Codec\<close>, \<open>Rv_Codec_Laws\<close>, \<open>Rv_Comp_Laws\<close>, \<open>Rv_Codec_Props\<close>: the codec, round trips of instruction words, compression
    through to the word; the properties C1 to C6.
  \<^item> \<open>Rv_Emit\<close>, \<open>Rv_Emit_Laws\<close>: the 225 emitters of \<^verbatim>\<open>jit.cc\<close>, a table of 222 of them with their operands,
    and that what they emit decodes to their operands, proved once for each shape of operands.
  \<^item> \<open>Rv_Assembler\<close>, \<open>Rv_Asm\<close>: the assembler of \<^verbatim>\<open>assembler.cc\<close>, and the 225 functions of \<^verbatim>\<open>jit.cc\<close> that assemble
    an instruction into it.
  \<^item> \<open>Rv_Li_Laws\<close>, \<open>Rv_Label_Laws\<close>, \<open>Rv_Asm_Laws\<close>, \<open>Rv_Asm_Props\<close>: the code for constants and what running it does,
    the invariant of the label tables, relocated instructions; the properties C7 to C12.
  \<^item> \<open>Rv_Alu\<close>, \<open>Rv_Proc\<close>, \<open>Rv_Interp\<close>, \<open>Rv_Interp_Laws\<close>: multiplication, division and atomic
    operations (\<^verbatim>\<open>alu.h\<close>, \<^verbatim>\<open>amo.h\<close>), the processor state with the outcomes of an operation, and the
    interpreter.  The memory management unit is an argument; its contract is the locale
    \<open>mmu_interface\<close>, and what every instruction keeps is proved in the locale \<open>exec_invariant\<close>.
  \<^item> \<open>Rv_Memory\<close>, \<open>Rv_Tlb\<close>: the memory bus (locale \<open>memory_bus\<close>) and the TLB (locale
    \<open>translation_cache\<close>).
  \<^item> \<open>Rv_Proxy\<close>, \<open>Rv_Exec_Props\<close>: the proxy memory management unit; the properties C13 to C15.
  \<^item> \<open>Rv_X86\<close>: the host of the compiler, the x86-64 instructions it emits and what they do; \<open>run_x86\<close> runs a list of
    them, jumps forward to their labels or out of the code.
  \<^item> \<open>Rv_Jit\<close>: the emitter, for every instruction the list of host instructions, with branches, jumps, trampolines,
    prolog and epilog.  \<open>Rv_Fusion\<close>: the state machine that fuses idioms, and the rewriting of instruction sequences it
    implements.
  \<^item> \<open>Rv_Jit_Laws\<close>, \<open>Rv_Jit_Div_Laws\<close>, \<open>Rv_Jit_Mem_Laws\<close>: what the code of each instruction computes, proved over
    the places its operands are in; \<open>Rv_Jit_Sim\<close>, \<open>Rv_Jit_Trace\<close>: the simulation of one instruction, straight-line and
    branching, by its code; \<open>Rv_Fusion_Laws\<close>: the state machine refines the rewriting, and fused instructions;
    \<open>Rv_Jit_Compile\<close>, \<open>Rv_Jit_Props\<close>: whole traces; the properties C16 to C21.
  \<^item> \<open>Rv_Priv_State\<close>, \<open>Rv_Mmu\<close>, \<open>Rv_Mmu_Laws\<close>, \<open>Rv_Mmu_Props\<close>: the privileged state, the software memory
    management unit with the page table walker, the inductive description of page tables it
    refines, with and without the valid flag of pointer entries, which the walker ignores; the properties C22 to C25.
  \<^item> \<open>Rv_Fpu\<close>, \<open>Rv_Fp_Props\<close>: the exchange of flags with the host's floating-point environment, the
    classification of numbers and the conversions (\<^verbatim>\<open>fpu.h\<close>); the floating-point instructions of the
    interpreter; the properties C26 to C28.
  \<^item> \<open>Rv_Cache\<close>, \<open>Rv_Cache_Laws\<close>, \<open>Rv_Cache_Props\<close>: the data cache (\<^verbatim>\<open>cache.h\<close>) and a simulation of it
    by plain memory; the contract of a memory that a client cannot tell from plain bytes is the
    locale \<open>memory_sim\<close>, interpreted on the cache and on the memory bus; the properties C29 to C31.
  \<^item> \<open>Rv_Csr\<close>, \<open>Rv_Csr_Laws\<close>, \<open>Rv_Csr_Props\<close>: the control and status registers; a register is the
    locale \<open>csr_register\<close>, interpreted on all 29 of them; the properties C32 and C33.
  \<^item> \<open>Rv_Priv\<close>, \<open>Rv_Priv_Laws\<close>, \<open>Rv_Runloop\<close>, \<open>Rv_Runloop_Laws\<close>, \<open>Rv_Priv_Props\<close>: traps, interrupts,
    privileged instructions and the run loop as a function with fuel and as a step relation; the
    properties C34 to C40.

  \<^bold>\<open>Conventions.\<close>  Unsigned and signed machine integers are words; the build uses \<^verbatim>\<open>-fwrapv\<close>, so signed
  arithmetic wraps.  A bit-field is a word of its width or a field of the word it lies in.  Objects
  that C++ updates in place are returned.  \<^verbatim>\<open>raise\<close> leaves by \<^verbatim>\<open>longjmp\<close>: an outcome is a value or an
  exit, each with the state at that point; its branch for \<^verbatim>\<open>exceptions\<close> cleared, which nothing in the program does, is
  left out.  The end of the process (\<^verbatim>\<open>panic\<close>, and \<^verbatim>\<open>::exit\<close> on \<^verbatim>\<open>ebreak\<close>) is an exit.  Undefined behaviour of C++ (a shift by the width or more,
  reading an uninitialised variable) is an exit of its own.  A failed assertion of an encoder is
  \<open>None\<close>.

  \<^bold>\<open>Fuel.\<close>  The page table walk takes \<open>levels + 2\<close> iterations of fuel, which is never exhausted (C23).  The
  search for the name of a numbered label has one round more than there are labels, which is enough
  (C12).  The run loop need not end, since a trap retires no instruction; its fuel is an argument, C40 says when it
  is enough.

  \<^bold>\<open>Parameters.\<close>  \<open>hf\<close> is the arithmetic of the host's floating-point unit: a record of its operations on
  bit patterns, each with the flags it raises under a rounding mode; what a property needs of it is a
  hypothesis of that property.  \<open>clk\<close> and \<open>now\<close> are readings of the host's clock.  The interrupt lines of
  the devices are arguments of \<open>isr\<close> and \<open>step\<close>.  \<open>lookup\<close> is the compiler's table of earlier traces.

  \<^bold>\<open>Conditions of the compiler.\<close>  \<open>jit_ok\<close> and \<open>fusion_ok\<close> list the operands for which the emitted code is right; the
  others are wrong in the code (C20, C21 and the lemma \<open>jit_rem_by_x0\<close> show three cases), or need a \<^verbatim>\<open>movzx\<close> from 32 bits,
  which the host does not have.  \<open>pc_fits\<close> excludes the
  addresses that \<^verbatim>\<open>emit_pc\<close> stores wrongly.  \<open>supported\<close> leaves out the indirect jump: \<^verbatim>\<open>emit_jalr\<close> and \<^verbatim>\<open>emit_call\<close> are
  modelled, no property is about them.

  \<^bold>\<open>Not modelled.\<close>  The memory-mapped devices (planned), the memory management unit over the data cache
  (\<^verbatim>\<open>mmu-soft-cache.h\<close>, a copy of \<^verbatim>\<open>mmu-soft.h\<close> with the cache in place of memory), the user-mode system
  calls, logging, the debugger, the just-in-time compiler for RV32 (\<^verbatim>\<open>jit-emitter-rv32.h\<close>, a copy of the one for RV64), the
  recording of traces, the trace cache and the patching of jumps between traces (\<^verbatim>\<open>jit-runloop.h\<close>), disassembly to text, ELF files, the build-time
  generators (what they generate is modelled instead), general utilities, vendored containers and
  the command-line programs.
\<close>

end
